(* ===== verification/Prelude.thy ===== *)
theory Prelude
  imports Main "HOL-Library.Word"
begin

text \<open>
  Shared vocabulary of the development: the machine integers of the Rust code as words,
  Rust's saturating and checked arithmetic, results (\<open>Result<T, E>\<close> as a sum with the error
  on the left), the bounded \<open>VecDeque\<close> idiom, big- and little-endian byte encodings, the
  clock, and the interface every state machine of the daemon implements.
\<close>

unbundle bit_operations_syntax

named_theorems codec_simps \<open>lengths and round trips of the byte encodings\<close>
named_theorems res_simps \<open>evaluation of the result monad\<close>

section \<open>Machine integers\<close>

type_synonym u8 = "8 word"
type_synonym u16 = "16 word"
type_synonym u32 = "32 word"
type_synonym u64 = "64 word"
type_synonym bytes = "u8 list"

text \<open>\<open>saturating_add\<close>, \<open>saturating_sub\<close> and \<open>checked_sub\<close> of Rust's unsigned integers.\<close>

definition sat_add :: "'a::len word \<Rightarrow> 'a word \<Rightarrow> 'a word" where
  "sat_add a b = (if unat a + unat b < 2 ^ LENGTH('a) then a + b else - 1)"

definition sat_sub :: "'a::len word \<Rightarrow> 'a word \<Rightarrow> 'a word" where
  "sat_sub a b = (if a < b then 0 else a - b)"

definition checked_sub :: "'a::len word \<Rightarrow> 'a word \<Rightarrow> 'a word option" where
  "checked_sub a b = (if a < b then None else Some (a - b))"

lemma unat_sat_add: "unat (sat_add a (b :: 'a::len word)) = min (unat a + unat b) (2 ^ LENGTH('a) - 1)"
proof (cases "unat a + unat b < 2 ^ LENGTH('a)")
  case True
  then show ?thesis by (simp add: sat_add_def unat_word_ariths)
next
  case False
  have "unat (- 1 :: 'a word) = 2 ^ LENGTH('a) - 1"
    by transfer (simp add: take_bit_minus_one_eq_mask mask_eq_exp_minus_1 nat_diff_distrib nat_power_eq)
  with False show ?thesis by (simp add: sat_add_def)
qed

lemma sat_add_mono: "a \<le> sat_add a (b :: 'a::len word)"
proof -
  have "unat a < 2 ^ LENGTH('a)" by (rule unsigned_less)
  then have "unat a \<le> 2 ^ LENGTH('a) - 1" by linarith
  then show ?thesis by (simp add: word_le_nat_alt unat_sat_add)
qed

lemma unat_sat_sub: "unat (sat_sub a (b :: 'a::len word)) = unat a - unat b"
  by (auto simp: sat_sub_def word_less_nat_alt unat_sub_if')

lemma checked_sub_Some: "checked_sub a b = Some c \<longleftrightarrow> b \<le> a \<and> c = a - b"
  by (auto simp: checked_sub_def)

section \<open>Results and the question-mark operator\<close>

text \<open>
  \<open>Err(e)\<close> is \<open>Inl e\<close> and \<open>Ok(v)\<close> is \<open>Inr v\<close>. The operator \<open>?\<close> is \<^term>\<open>bind_res\<close>; \<open>ok_or\<close> turns
  an option into a result.
\<close>

definition bind_res :: "'e + 'a \<Rightarrow> ('a \<Rightarrow> 'e + 'b) \<Rightarrow> 'e + 'b" where
  "bind_res r f = (case r of Inl e \<Rightarrow> Inl e | Inr v \<Rightarrow> f v)"

definition ok_or :: "'a option \<Rightarrow> 'e \<Rightarrow> 'e + 'a" where
  "ok_or x e = (case x of None \<Rightarrow> Inl e | Some v \<Rightarrow> Inr v)"

lemma bind_res_Inl [simp, res_simps]: "bind_res (Inl e) f = Inl e"
  by (simp add: bind_res_def)

lemma bind_res_Inr [simp, res_simps]: "bind_res (Inr v) f = f v"
  by (simp add: bind_res_def)

lemma ok_or_simps [simp, res_simps]: "ok_or None e = Inl e" "ok_or (Some v) e = Inr v"
  by (simp_all add: ok_or_def)

lemma bind_res_eq_Inr: "bind_res r f = Inr y \<longleftrightarrow> (\<exists>v. r = Inr v \<and> f v = Inr y)"
  by (cases r) auto

lemma bind_res_eq_Inl: "bind_res r f = Inl e \<longleftrightarrow> r = Inl e \<or> (\<exists>v. r = Inr v \<and> f v = Inl e)"
  by (cases r) auto

lemma ok_or_eq_Inr: "ok_or x e = Inr v \<longleftrightarrow> x = Some v"
  by (cases x) auto

section \<open>Bounded queues\<close>

text \<open>
  \<open>while q.len() > n { q.pop_front(); }\<close>: drop from the front until at most \<open>n\<close> are left.
\<close>

fun trim_front :: "nat \<Rightarrow> 'a list \<Rightarrow> 'a list" where
  "trim_front n [] = []"
| "trim_front n (x # xs) = (if n < length (x # xs) then trim_front n xs else x # xs)"

lemma trim_front_drop: "trim_front n xs = drop (length xs - n) xs"
  by (induction xs) (auto simp: Suc_diff_le drop_Cons')

lemma length_trim_front [simp]: "length (trim_front n xs) = min n (length xs)"
  by (simp add: trim_front_drop)

lemma set_trim_front: "set (trim_front n xs) \<subseteq> set xs"
  by (simp add: trim_front_drop set_drop_subset)

lemma distinct_trim_front: "distinct xs \<Longrightarrow> distinct (trim_front n xs)"
  by (simp add: trim_front_drop)

section \<open>Byte encodings\<close>

text \<open>
  \<open>to_be_bytes\<close> and \<open>from_be_bytes\<close> go through the natural number they denote: the last
  byte is the least significant one. The little-endian forms reverse the bytes.
\<close>

primrec be_of_nat :: "nat \<Rightarrow> nat \<Rightarrow> bytes" where
  "be_of_nat 0 k = []"
| "be_of_nat (Suc n) k = be_of_nat n (k div 256) @ [of_nat (k mod 256)]"

definition nat_of_be :: "bytes \<Rightarrow> nat" where
  "nat_of_be bs = foldl (\<lambda>acc b. acc * 256 + unat b) 0 bs"

lemma length_be_of_nat [simp, codec_simps]: "length (be_of_nat n k) = n"
  by (induction n arbitrary: k) auto

lemma nat_of_be_Nil [simp]: "nat_of_be [] = 0"
  by (simp add: nat_of_be_def)

lemma nat_of_be_snoc [simp]: "nat_of_be (bs @ [b]) = nat_of_be bs * 256 + unat b"
  by (simp add: nat_of_be_def)

lemma unat_of_nat_u8: "unat (of_nat k :: u8) = k mod 256"
  by (simp add: unat_of_nat)

lemma unat_u8_less [simp]: "unat (b :: u8) < 256"
  using unsigned_less [of b, where ?'a = nat] by simp

lemma nat_of_be_of_nat: "nat_of_be (be_of_nat n k) = k mod 256 ^ n"
proof (induction n arbitrary: k)
  case 0
  then show ?case by simp
next
  case (Suc n)
  have "nat_of_be (be_of_nat (Suc n) k) = (k div 256 mod 256 ^ n) * 256 + k mod 256"
    by (simp add: Suc.IH unat_of_nat_u8)
  also have "\<dots> = k mod 256 ^ Suc n"
    by (simp add: mod_mult2_eq)
  finally show ?case .
qed

lemma nat_of_be_less: "nat_of_be bs < 256 ^ length bs"
proof (induction bs rule: rev_induct)
  case Nil
  then show ?case by simp
next
  case (snoc b bs)
  have "nat_of_be (bs @ [b]) < (nat_of_be bs + 1) * 256"
    using unat_u8_less [of b] by simp
  also have "\<dots> \<le> 256 ^ length bs * 256"
    by (rule mult_le_mono1) (use snoc in simp)
  finally show ?case by (simp add: mult.commute)
qed

lemma be_of_nat_of_be: "length bs = n \<Longrightarrow> be_of_nat n (nat_of_be bs) = bs"
proof (induction bs arbitrary: n rule: rev_induct)
  case Nil
  then show ?case by simp
next
  case (snoc b bs)
  have "unat b < 256" by simp
  with snoc show ?case by auto
qed

definition to_be :: "nat \<Rightarrow> 'a::len word \<Rightarrow> bytes" where
  "to_be n w = be_of_nat n (unat w)"

definition from_be :: "bytes \<Rightarrow> 'a::len word" where
  "from_be bs = of_nat (nat_of_be bs)"

definition to_le :: "nat \<Rightarrow> 'a::len word \<Rightarrow> bytes" where
  "to_le n w = rev (to_be n w)"

definition from_le :: "bytes \<Rightarrow> 'a::len word" where
  "from_le bs = from_be (rev bs)"

lemma length_to_be [simp, codec_simps]: "length (to_be n w) = n"
  by (simp add: to_be_def)

lemma length_to_le [simp, codec_simps]: "length (to_le n w) = n"
  by (simp add: to_le_def)

lemma from_be_to_be: "LENGTH('a) = 8 * n \<Longrightarrow> from_be (to_be n (w :: 'a::len word)) = w"
proof -
  assume n: "LENGTH('a) = 8 * n"
  have "unat w < 2 ^ LENGTH('a)" by simp
  then have "unat w < 256 ^ n" by (simp add: n power_mult)
  then show ?thesis by (simp add: to_be_def from_be_def nat_of_be_of_nat)
qed

lemma to_be_from_be:
  assumes "LENGTH('a) = 8 * n" and "length bs = n"
  shows "to_be n (from_be bs :: 'a::len word) = bs"
proof -
  have "nat_of_be bs < 2 ^ LENGTH('a)"
    using nat_of_be_less [of bs] assms by (simp add: power_mult)
  then have "unat (from_be bs :: 'a word) = nat_of_be bs"
    by (simp add: from_be_def unat_of_nat take_bit_nat_eq_self_iff [symmetric] take_bit_nat_eq_self)
  then show ?thesis using assms(2) by (simp add: to_be_def be_of_nat_of_be)
qed

section \<open>Fixed-width codecs\<close>

text \<open>
  A field codec of the wire formats: \<open>enc\<close> writes exactly \<open>width\<close> bytes, \<open>dec\<close> reads them
  back, and every \<open>width\<close> bytes are the encoding of what they decode to. The parsers slice a
  buffer at fixed offsets, so the lemmas say what the slice of a frame is.
\<close>

locale fixed_codec =
  fixes width :: nat
    and enc :: "'a \<Rightarrow> bytes"
    and dec :: "bytes \<Rightarrow> 'a"
  assumes length_enc: "length (enc x) = width"
    and dec_enc: "dec (enc x) = x"
    and enc_dec: "length bs = width \<Longrightarrow> enc (dec bs) = bs"
begin

lemma dec_take: "dec (take width (enc x @ rest)) = x"
  by (simp add: length_enc dec_enc)

lemma dec_slice: "dec (take width (drop (length pre) (pre @ enc x @ rest))) = x"
  by (simp add: length_enc dec_enc)

lemma enc_inj: "enc x = enc y \<Longrightarrow> x = y"
  by (metis dec_enc)

lemma dec_inj: "length bs = width \<Longrightarrow> length cs = width \<Longrightarrow> dec bs = dec cs \<Longrightarrow> bs = cs"
  by (metis enc_dec)

lemma enc_slice:
  "k + width \<le> length bs \<Longrightarrow> enc (dec (take width (drop k bs))) = take width (drop k bs)"
  by (simp add: enc_dec)

end

interpretation be16: fixed_codec 2 "to_be 2 :: u16 \<Rightarrow> bytes" from_be
  by unfold_locales (simp_all add: from_be_to_be to_be_from_be)

interpretation be32: fixed_codec 4 "to_be 4 :: u32 \<Rightarrow> bytes" from_be
  by unfold_locales (simp_all add: from_be_to_be to_be_from_be)

interpretation be64: fixed_codec 8 "to_be 8 :: u64 \<Rightarrow> bytes" from_be
  by unfold_locales (simp_all add: from_be_to_be to_be_from_be)

interpretation be128: fixed_codec 16 "to_be 16 :: 128 word \<Rightarrow> bytes" from_be
  by unfold_locales (simp_all add: from_be_to_be to_be_from_be)

interpretation le32: fixed_codec 4 "to_le 4 :: u32 \<Rightarrow> bytes" from_le
  by unfold_locales (simp_all add: to_le_def from_le_def from_be_to_be to_be_from_be)

interpretation le64: fixed_codec 8 "to_le 8 :: u64 \<Rightarrow> bytes" from_le
  by unfold_locales (simp_all add: to_le_def from_le_def from_be_to_be to_be_from_be)

text \<open>\<open>data[k..k + n]\<close>, where the caller has checked that the range lies in the buffer.\<close>

definition chunk :: "nat \<Rightarrow> nat \<Rightarrow> 'a list \<Rightarrow> 'a list" where
  "chunk k n xs = take n (drop k xs)"

lemma length_chunk: "k + n \<le> length xs \<Longrightarrow> length (chunk k n xs) = n"
  by (simp add: chunk_def)

lemma chunk_append_skip: "length pre \<le> k \<Longrightarrow> chunk k n (pre @ xs) = chunk (k - length pre) n xs"
  by (simp add: chunk_def)

lemma chunk_0_append: "length x = n \<Longrightarrow> chunk 0 n (x @ ys) = x"
  by (simp add: chunk_def)

lemma chunk_Cons: "chunk (Suc k) n (x # xs) = chunk k n xs"
  by (simp add: chunk_def)

lemma chunk_past: "0 < k \<Longrightarrow> chunk k n (x # xs) = chunk (k - 1) n xs"
  by (cases k) (simp_all add: chunk_Cons)

lemma chunk_two: "k + 2 \<le> length xs \<Longrightarrow> chunk k 2 xs = [xs ! k, xs ! (k + 1)]"
  by (simp add: chunk_def numeral_2_eq_2 take_Suc_conv_app_nth)

lemma chunk_four:
  "k + 4 \<le> length xs \<Longrightarrow> chunk k 4 xs = [xs ! k, xs ! (k + 1), xs ! (k + 2), xs ! (k + 3)]"
  by (simp add: chunk_def eval_nat_numeral take_Suc_conv_app_nth)

lemma chunk_split: "k + n \<le> length xs \<Longrightarrow> chunk k n xs @ drop (k + n) xs = drop k xs"
  by (metis chunk_def append_take_drop_id drop_drop add.commute)

lemma chunk_all: "length xs = k + n \<Longrightarrow> chunk k n xs = drop k xs"
  by (simp add: chunk_def)

text \<open>\<open>packet[k..k + n].copy_from_slice(bs)\<close>.\<close>

definition copy_at :: "nat \<Rightarrow> bytes \<Rightarrow> bytes \<Rightarrow> bytes" where
  "copy_at k bs p = take k p @ bs @ drop (k + length bs) p"

lemma length_copy_at [simp]: "k + length bs \<le> length p \<Longrightarrow> length (copy_at k bs p) = length p"
  by (simp add: copy_at_def)

text \<open>A byte string literal, and \<open>strip_prefix\<close> of a slice.\<close>

definition bytes_of_string :: "string \<Rightarrow> bytes" where
  "bytes_of_string s = map of_char s"

definition strip_prefix :: "bytes \<Rightarrow> bytes \<Rightarrow> bytes option" where
  "strip_prefix p xs = (if take (length p) xs = p then Some (drop (length p) xs) else None)"

lemma strip_prefix_append [simp]: "strip_prefix p (p @ xs) = Some xs"
  by (simp add: strip_prefix_def)

section \<open>The clock\<close>

text \<open>
  \<open>Instant\<close> and \<open>Duration\<close> are nanosecond counts; \<open>a.saturating_duration_since(b)\<close> is truncated
  subtraction. The range of the platform clock is not modelled.
\<close>

type_synonym instant = nat
type_synonym duration = nat

definition from_secs :: "nat \<Rightarrow> duration" where
  "from_secs s = s * 1000000000"

definition saturating_duration_since :: "instant \<Rightarrow> instant \<Rightarrow> duration" where
  "saturating_duration_since later earlier = later - earlier"

section \<open>Event-driven machines\<close>

text \<open>
  Every state machine of the daemon is driven by a sequence of events. A machine promises an
  invariant that each of its steps keeps; the client gets it for every run, and for every
  prefix of a run.
\<close>

locale event_machine =
  fixes step :: "'m \<Rightarrow> 'e \<Rightarrow> 'm"
    and inv :: "'m \<Rightarrow> bool"
  assumes step_inv: "inv m \<Longrightarrow> inv (step m e)"
begin

lemma run_inv: "inv m \<Longrightarrow> inv (foldl step m es)"
  by (induction es arbitrary: m) (simp_all add: step_inv)

lemma prefix_inv: "inv m \<Longrightarrow> inv (foldl step m (take n es))"
  by (rule run_inv)

end

text \<open>
  A machine with a rank that no step on an event of \<open>keeps\<close> lowers: over a run of such events
  the rank only grows.
\<close>

locale monotone_machine = event_machine step inv
  for step :: "'m \<Rightarrow> 'e \<Rightarrow> 'm" and inv :: "'m \<Rightarrow> bool" +
  fixes rank :: "'m \<Rightarrow> 'r::preorder"
    and keeps :: "'e \<Rightarrow> bool"
  assumes step_rank: "inv m \<Longrightarrow> keeps e \<Longrightarrow> rank m \<le> rank (step m e)"
begin

lemma run_rank: "inv m \<Longrightarrow> \<forall>e \<in> set es. keeps e \<Longrightarrow> rank m \<le> rank (foldl step m es)"
proof (induction es arbitrary: m)
  case Nil
  then show ?case by simp
next
  case (Cons e es)
  have "rank m \<le> rank (step m e)" using Cons.prems by (auto intro: step_rank)
  also have "\<dots> \<le> rank (foldl step (step m e) es)"
    using Cons.prems by (intro Cons.IH) (auto intro: step_inv)
  finally show ?case by simp
qed

end

section \<open>Steps that consume tokens\<close>

text \<open>
  A machine whose successful steps each consume a token (a nonce, a message counter). The
  provider relates its state to the set of tokens consumed so far and promises that a step
  consumes a new one; the client gets that no token is consumed twice in any run.
\<close>

fun consumed :: "('s \<Rightarrow> 'e \<Rightarrow> ('c \<times> 's) option) \<Rightarrow> 's \<Rightarrow> 'e list \<Rightarrow> 'c list" where
  "consumed step s [] = []"
| "consumed step s (e # es) =
     (case step s e of
        None \<Rightarrow> consumed step s es
      | Some (c, s') \<Rightarrow> c # consumed step s' es)"

locale once_only =
  fixes step :: "'s \<Rightarrow> 'e \<Rightarrow> ('c \<times> 's) option"
    and spent :: "'s \<Rightarrow> 'c set \<Rightarrow> bool"
  assumes step_new: "spent s S \<Longrightarrow> step s e = Some (c, s') \<Longrightarrow> c \<notin> S \<and> spent s' (insert c S)"
begin

lemma consumed_new: "spent s S \<Longrightarrow> distinct (consumed step s es) \<and> set (consumed step s es) \<inter> S = {}"
proof (induction es arbitrary: s S)
  case Nil
  then show ?case by simp
next
  case (Cons e es)
  show ?case
  proof (cases "step s e")
    case None
    with Cons show ?thesis by simp
  next
    case (Some r)
    then obtain c s' where r: "step s e = Some (c, s')" by (cases r) auto
    from step_new [OF Cons.prems r] Cons.IH [of s' "insert c S"] r show ?thesis by auto
  qed
qed

lemma consumed_distinct: "spent s S \<Longrightarrow> distinct (consumed step s es)"
  by (rule conjunct1 [OF consumed_new])

end

text \<open>
  A weaker contract: a consumed token stays spent only until a step that resets it. The client
  gets that between two uses of a token there was a reset.
\<close>

locale once_until =
  fixes step :: "'s \<Rightarrow> 'e \<Rightarrow> ('c \<times> 's) option"
    and same :: "'c \<Rightarrow> 'c \<Rightarrow> bool"
    and resets :: "'c \<Rightarrow> 'c \<Rightarrow> bool"
    and spent :: "'s \<Rightarrow> 'c \<Rightarrow> bool"
  assumes step_spends: "step s e = Some (c, s') \<Longrightarrow> spent s' c"
    and step_refuses: "step s e = Some (c, s') \<Longrightarrow> spent s d \<Longrightarrow> \<not> same c d"
    and step_keeps: "step s e = Some (c, s') \<Longrightarrow> spent s d \<Longrightarrow> \<not> resets c d \<Longrightarrow> spent s' d"
begin

lemma spent_until_reset:
  "spent s d \<Longrightarrow> j < length (consumed step s es) \<Longrightarrow> same (consumed step s es ! j) d
   \<Longrightarrow> \<exists>l < j. resets (consumed step s es ! l) d"
proof (induction es arbitrary: s j)
  case Nil
  then show ?case by simp
next
  case (Cons e es)
  show ?case
  proof (cases "step s e")
    case None
    with Cons show ?thesis by simp
  next
    case (Some r)
    then obtain c s' where r: "step s e = Some (c, s')" by (cases r) auto
    from step_refuses [OF r Cons.prems(1)] Cons.prems(3) r obtain j' where j: "j = Suc j'"
      by (cases j) auto
    show ?thesis
    proof (cases "resets c d")
      case True
      then show ?thesis using r j by (intro exI [of _ 0]) simp
    next
      case False
      from Cons.IH [OF step_keeps [OF r Cons.prems(1) False], of j'] Cons.prems(2,3) r j
      obtain l where "l < j'" "resets (consumed step s' es ! l) d" by auto
      then show ?thesis using r j by (intro exI [of _ "Suc l"]) simp
    qed
  qed
qed

lemma reset_between:
  "i < j \<Longrightarrow> j < length (consumed step s es) \<Longrightarrow> same (consumed step s es ! j) (consumed step s es ! i)
   \<Longrightarrow> \<exists>l. i < l \<and> l < j \<and> resets (consumed step s es ! l) (consumed step s es ! i)"
proof (induction es arbitrary: s i j)
  case Nil
  then show ?case by simp
next
  case (Cons e es)
  show ?case
  proof (cases "step s e")
    case None
    with Cons show ?thesis by simp
  next
    case (Some r)
    then obtain c s' where r: "step s e = Some (c, s')" by (cases r) auto
    obtain j' where j: "j = Suc j'" using Cons.prems(1) by (cases j) auto
    show ?thesis
    proof (cases i)
      case 0
      from spent_until_reset [OF step_spends [OF r], of j' es] Cons.prems(2,3) r j 0
      obtain l where "l < j'" "resets (consumed step s' es ! l) c" by auto
      then show ?thesis using r j 0 by (intro exI [of _ "Suc l"]) simp
    next
      case (Suc i')
      from Cons.IH [of i' j' s'] Cons.prems r j Suc
      obtain l where "i' < l" "l < j'" "resets (consumed step s' es ! l) (consumed step s' es ! i')" by auto
      then show ?thesis using r j Suc by (intro exI [of _ "Suc l"]) simp
    qed
  qed
qed

end

end
