(* ===== verification/Net.thy ===== *)
theory Net
  imports Prelude
begin

text \<open>
  The address types of \<open>std::net\<close> the daemon compares and routes on. A V6 socket address also
  carries a flow label and a scope id, and both take part in equality.
\<close>

datatype ip_addr = IpV4 u32 | IpV6 "128 word"

datatype socket_addr =
    SocketV4 u32 u16
  | SocketV6 "128 word" u16 u32 u32

fun socket_ip :: "socket_addr \<Rightarrow> ip_addr" where
  "socket_ip (SocketV4 ip _) = IpV4 ip"
| "socket_ip (SocketV6 ip _ _ _) = IpV6 ip"

fun socket_port :: "socket_addr \<Rightarrow> u16" where
  "socket_port (SocketV4 _ p) = p"
| "socket_port (SocketV6 _ p _ _) = p"

fun is_ipv4 :: "socket_addr \<Rightarrow> bool" where
  "is_ipv4 (SocketV4 _ _) = True"
| "is_ipv4 (SocketV6 _ _ _ _) = False"

end
