(* ===== verification/Path_Types.thy ===== *)
theory Path_Types
  imports Net
begin

text \<open>
  The vocabulary of the path-state reducer (\<open>client/daemon/src/peer/path_state_machine.rs\<close>):
  the three generations that fence every event, the identities of a Direct validation and of a
  Relay transport, the typed events, the typed state and the receipts that make redelivered
  events harmless. Constructors carry a prefix where several Rust enums share a name.
\<close>

section \<open>Epochs\<close>

datatype network_path = NP_Direct | NP_Relay

datatype connection_state =
    CS_Idle | CS_Connecting | CS_HolePunching | CS_Direct | CS_FallbackToRelay
  | CS_Relay | CS_Failed | CS_Closed

record path_epoch =
  network_generation :: u64
  peer_session_generation :: u64
  remote_candidate_epoch :: u64

definition DIRECT_FIRST_WINDOW :: duration where
  "DIRECT_FIRST_WINDOW = from_secs 5"

record direct_first_window =
  dfw_deadline :: instant
  dfw_released :: bool

definition MAX_ACCEPTED_HEALTH_OBSERVATIONS :: nat where
  "MAX_ACCEPTED_HEALTH_OBSERVATIONS = 64"

section \<open>Direct validation identities\<close>

datatype direct_endpoint_evidence =
    RequestPending
  | AuthenticatedAck socket_addr
  | CompatibilityEndpoint "socket_addr option"

record direct_validation_identity =
  dv_epoch :: path_epoch
  dv_owner_token :: "u64 option"
  dv_request_id :: "u16 option"
  dv_request_endpoint :: "socket_addr option"
  dv_endpoint_evidence :: direct_endpoint_evidence

definition dv_owned ::
  "path_epoch \<Rightarrow> u64 \<Rightarrow> u16 option \<Rightarrow> socket_addr option \<Rightarrow> direct_validation_identity" where
  "dv_owned epoch owner_token request_id endpoint =
     \<lparr>dv_epoch = epoch, dv_owner_token = Some owner_token, dv_request_id = request_id,
      dv_request_endpoint = endpoint, dv_endpoint_evidence = RequestPending\<rparr>"

definition dv_authenticated_ack ::
  "path_epoch \<Rightarrow> u64 \<Rightarrow> u16 \<Rightarrow> socket_addr option \<Rightarrow> socket_addr \<Rightarrow> direct_validation_identity" where
  "dv_authenticated_ack epoch owner_token request_id request_endpoint observed_endpoint =
     \<lparr>dv_epoch = epoch, dv_owner_token = Some owner_token, dv_request_id = Some request_id,
      dv_request_endpoint = request_endpoint,
      dv_endpoint_evidence = AuthenticatedAck observed_endpoint\<rparr>"

definition dv_compatibility :: "path_epoch \<Rightarrow> socket_addr option \<Rightarrow> direct_validation_identity" where
  "dv_compatibility epoch endpoint =
     \<lparr>dv_epoch = epoch, dv_owner_token = None, dv_request_id = None,
      dv_request_endpoint = endpoint, dv_endpoint_evidence = CompatibilityEndpoint endpoint\<rparr>"

definition commit_endpoint :: "direct_validation_identity \<Rightarrow> socket_addr option" where
  "commit_endpoint v = (case dv_endpoint_evidence v of
       RequestPending \<Rightarrow> None
     | AuthenticatedAck observed \<Rightarrow> Some observed
     | CompatibilityEndpoint selected \<Rightarrow> selected)"

definition can_start_validation :: "direct_validation_identity \<Rightarrow> bool" where
  "can_start_validation v = (case dv_endpoint_evidence v of RequestPending \<Rightarrow> True | _ \<Rightarrow> False)"

definition can_commit :: "direct_validation_identity \<Rightarrow> bool" where
  "can_commit v = (case (dv_owner_token v, dv_endpoint_evidence v) of
       (Some _, AuthenticatedAck _) \<Rightarrow> True
     | (None, CompatibilityEndpoint _) \<Rightarrow> True
     | _ \<Rightarrow> False)"

definition dv_with_epoch ::
  "direct_validation_identity \<Rightarrow> path_epoch \<Rightarrow> direct_validation_identity" where
  "dv_with_epoch v epoch = v\<lparr>dv_epoch := epoch\<rparr>"

definition same_owner ::
  "direct_validation_identity \<Rightarrow> direct_validation_identity \<Rightarrow> bool" where
  "same_owner v other = (case (dv_owner_token v, dv_owner_token other) of
       (Some current, Some incoming) \<Rightarrow> current = incoming
     | (None, None) \<Rightarrow> True
     | _ \<Rightarrow> False)"

definition same_validation_request ::
  "direct_validation_identity \<Rightarrow> direct_validation_identity \<Rightarrow> bool" where
  "same_validation_request v other \<longleftrightarrow>
     dv_epoch v = dv_epoch other
     \<and> dv_owner_token v = dv_owner_token other
     \<and> dv_request_id v = dv_request_id other
     \<and> dv_request_endpoint v = dv_request_endpoint other"

section \<open>Relay connection identities\<close>

datatype relay_connection_incarnation = Known u64 | CompatibilityUnknown

definition incarnation_from :: "u64 option \<Rightarrow> relay_connection_incarnation" where
  "incarnation_from value = (case value of None \<Rightarrow> CompatibilityUnknown | Some i \<Rightarrow> Known i)"

record relay_connection_identity =
  rc_epoch :: path_epoch
  rc_endpoint :: string
  rc_incarnation :: relay_connection_incarnation

definition rc_new :: "path_epoch \<Rightarrow> string \<Rightarrow> u64 option \<Rightarrow> relay_connection_identity" where
  "rc_new epoch endpoint connection_id =
     \<lparr>rc_epoch = epoch, rc_endpoint = endpoint, rc_incarnation = incarnation_from connection_id\<rparr>"

definition rc_with_epoch ::
  "relay_connection_identity \<Rightarrow> path_epoch \<Rightarrow> relay_connection_identity" where
  "rc_with_epoch r epoch = r\<lparr>rc_epoch := epoch\<rparr>"

definition same_transport ::
  "relay_connection_identity \<Rightarrow> relay_connection_identity \<Rightarrow> bool" where
  "same_transport r other \<longleftrightarrow>
     rc_endpoint r = rc_endpoint other \<and> rc_incarnation r = rc_incarnation other"

definition rejects_ready_replacement ::
  "relay_connection_identity \<Rightarrow> relay_connection_identity \<Rightarrow> bool" where
  "rejects_ready_replacement r incoming =
     (case (rc_incarnation r, rc_incarnation incoming) of
        (Known current, Known replacement) \<Rightarrow>
          replacement < current
          \<or> (replacement = current \<and> rc_endpoint r \<noteq> rc_endpoint incoming)
      | (Known _, CompatibilityUnknown) \<Rightarrow> True
      | (CompatibilityUnknown, _) \<Rightarrow> False)"

section \<open>Events\<close>

datatype relay_business_observation = Sent | Received

record relay_health_observation_identity =
  rh_owner_token :: u64
  rh_request_id :: u16

datatype path_retention = Retain_None | Retain_Direct | Retain_Relay | Retain_DirectAndRelay

definition keeps_direct :: "path_retention \<Rightarrow> bool" where
  "keeps_direct r \<longleftrightarrow> r = Retain_Direct \<or> r = Retain_DirectAndRelay"

definition keeps_relay :: "path_retention \<Rightarrow> bool" where
  "keeps_relay r \<longleftrightarrow> r = Retain_Relay \<or> r = Retain_DirectAndRelay"

datatype direct_candidate_continuity = RetainCommitted | Invalidate

type_synonym direct_attempt_number = u64

datatype path_event =
    DirectFirstStarted path_epoch instant
  | DirectFirstDeadline path_epoch instant
  | DirectFirstSatisfied direct_validation_identity
  | PeerOnline path_epoch
  | PeerLeft path_epoch
  | IdentityReset
  | NetworkGenerationAdvanced path_epoch path_retention
  | RemoteCandidateEpochAdvanced path_epoch direct_candidate_continuity
  | RelayTransportReady relay_connection_identity
  | RelayPeerConfirmed relay_connection_identity
  | RelayBusinessUsable relay_connection_identity relay_business_observation
  | RelayHealthObserved relay_connection_identity relay_health_observation_identity
  | RelayTransportLost relay_connection_identity
  | RelayPathFailed relay_connection_identity
  | DirectProbeStarted path_epoch direct_attempt_number
  | DirectValidationStarted direct_validation_identity
  | DirectCommitted direct_validation_identity
  | DirectProbeFailed path_epoch
  | DirectPathFailed path_epoch
  | DirectAttemptCancelled path_epoch "u64 option"
  | DirectRetryScheduled path_epoch direct_attempt_number
  | CompatibilityStateRequested path_epoch connection_state "socket_addr option"
      "string option" "u64 option"

fun event_epoch :: "path_event \<Rightarrow> path_epoch option" where
  "event_epoch (DirectFirstStarted epoch _) = Some epoch"
| "event_epoch (DirectFirstDeadline epoch _) = Some epoch"
| "event_epoch (PeerOnline epoch) = Some epoch"
| "event_epoch (PeerLeft epoch) = Some epoch"
| "event_epoch (NetworkGenerationAdvanced epoch _) = Some epoch"
| "event_epoch (RemoteCandidateEpochAdvanced epoch _) = Some epoch"
| "event_epoch (DirectProbeStarted epoch _) = Some epoch"
| "event_epoch (DirectProbeFailed epoch) = Some epoch"
| "event_epoch (DirectPathFailed epoch) = Some epoch"
| "event_epoch (DirectAttemptCancelled epoch _) = Some epoch"
| "event_epoch (DirectRetryScheduled epoch _) = Some epoch"
| "event_epoch (CompatibilityStateRequested epoch _ _ _ _) = Some epoch"
| "event_epoch (RelayTransportReady relay) = Some (rc_epoch relay)"
| "event_epoch (RelayPeerConfirmed relay) = Some (rc_epoch relay)"
| "event_epoch (RelayBusinessUsable relay _) = Some (rc_epoch relay)"
| "event_epoch (RelayHealthObserved relay _) = Some (rc_epoch relay)"
| "event_epoch (RelayTransportLost relay) = Some (rc_epoch relay)"
| "event_epoch (RelayPathFailed relay) = Some (rc_epoch relay)"
| "event_epoch (DirectFirstSatisfied validation) = Some (dv_epoch validation)"
| "event_epoch (DirectValidationStarted validation) = Some (dv_epoch validation)"
| "event_epoch (DirectCommitted validation) = Some (dv_epoch validation)"
| "event_epoch IdentityReset = None"

section \<open>Typed state\<close>

datatype active_business_path =
    ABP_Unavailable
  | ABP_Relay relay_connection_identity
  | ABP_Direct direct_validation_identity

fun active_network_path :: "active_business_path \<Rightarrow> network_path option" where
  "active_network_path ABP_Unavailable = None"
| "active_network_path (ABP_Relay _) = Some NP_Relay"
| "active_network_path (ABP_Direct _) = Some NP_Direct"

datatype relay_path_state =
    RPS_Unavailable
  | RPS_Ready relay_connection_identity
  | RPS_Confirmed relay_connection_identity
  | RPS_Usable relay_connection_identity

fun relay_identity :: "relay_path_state \<Rightarrow> relay_connection_identity option" where
  "relay_identity RPS_Unavailable = None"
| "relay_identity (RPS_Ready r) = Some r"
| "relay_identity (RPS_Confirmed r) = Some r"
| "relay_identity (RPS_Usable r) = Some r"

fun confirmed_identity :: "relay_path_state \<Rightarrow> relay_connection_identity option" where
  "confirmed_identity (RPS_Confirmed r) = Some r"
| "confirmed_identity (RPS_Usable r) = Some r"
| "confirmed_identity RPS_Unavailable = None"
| "confirmed_identity (RPS_Ready _) = None"

fun relay_with_epoch :: "relay_path_state \<Rightarrow> path_epoch \<Rightarrow> relay_path_state" where
  "relay_with_epoch RPS_Unavailable epoch = RPS_Unavailable"
| "relay_with_epoch (RPS_Ready r) epoch = RPS_Ready (rc_with_epoch r epoch)"
| "relay_with_epoch (RPS_Confirmed r) epoch = RPS_Confirmed (rc_with_epoch r epoch)"
| "relay_with_epoch (RPS_Usable r) epoch = RPS_Usable (rc_with_epoch r epoch)"

datatype direct_path_state =
    DPS_Idle
  | DPS_Probing path_epoch direct_attempt_number
  | DPS_Validating direct_validation_identity
  | DPS_Committed direct_validation_identity

fun with_epoch_if_committed :: "direct_path_state \<Rightarrow> path_epoch \<Rightarrow> direct_path_state" where
  "with_epoch_if_committed (DPS_Committed v) epoch = DPS_Committed (dv_with_epoch v epoch)"
| "with_epoch_if_committed DPS_Idle epoch = DPS_Idle"
| "with_epoch_if_committed (DPS_Probing _ _) epoch = DPS_Idle"
| "with_epoch_if_committed (DPS_Validating _) epoch = DPS_Idle"

datatype path_recovery_state =
    Stable
  | Degraded path_epoch network_path "network_path option"
  | Recovering path_epoch network_path direct_attempt_number

datatype peer_path_lifecycle = Unbound | Online | Offline

record path_state =
  ps_direct_first :: "direct_first_window option"
  ps_lifecycle :: peer_path_lifecycle
  ps_epoch :: "path_epoch option"
  ps_active :: active_business_path
  ps_relay :: relay_path_state
  ps_direct :: direct_path_state
  ps_recovery :: path_recovery_state
  ps_compatibility_state :: connection_state

datatype path_transition_decision =
    Applied | AcceptedObservation | Duplicate | RejectedNetworkGeneration
  | RejectedPeerSessionGeneration | RejectedRemoteCandidateEpoch | RejectedPeerOffline
  | RejectedDirectValidationIdentity | RejectedRelayConnectionIdentity | RejectedRevision
  | RejectedIllegalTransition

definition accepted :: "path_transition_decision \<Rightarrow> bool" where
  "accepted d \<longleftrightarrow> d = Applied \<or> d = AcceptedObservation \<or> d = Duplicate"

definition applies_side_effects :: "path_transition_decision \<Rightarrow> bool" where
  "applies_side_effects d \<longleftrightarrow> d = Applied \<or> d = AcceptedObservation"

datatype path_action =
    ActivePath "network_path option" "network_path option"
  | CompatibilityState connection_state connection_state
  | RelayState
  | DirectState
  | RecoveryState

section \<open>Receipts\<close>

datatype path_event_receipt =
    Rcpt_PeerOnline path_epoch
  | Rcpt_NetworkGenerationAdvanced path_epoch path_retention
  | Rcpt_RelayPeerConfirmed relay_connection_identity
  | Rcpt_RelayBusiness relay_connection_identity relay_business_observation
  | Rcpt_DirectCommitted direct_validation_identity

fun receipt_epoch :: "path_event_receipt \<Rightarrow> path_epoch" where
  "receipt_epoch (Rcpt_PeerOnline epoch) = epoch"
| "receipt_epoch (Rcpt_NetworkGenerationAdvanced epoch _) = epoch"
| "receipt_epoch (Rcpt_RelayPeerConfirmed relay) = rc_epoch relay"
| "receipt_epoch (Rcpt_RelayBusiness relay _) = rc_epoch relay"
| "receipt_epoch (Rcpt_DirectCommitted validation) = dv_epoch validation"

fun receipt_is_relay :: "path_event_receipt \<Rightarrow> bool" where
  "receipt_is_relay (Rcpt_RelayPeerConfirmed _) = True"
| "receipt_is_relay (Rcpt_RelayBusiness _ _) = True"
| "receipt_is_relay _ = False"

definition remains_current :: "path_event_receipt \<Rightarrow> path_state \<Rightarrow> bool" where
  "remains_current receipt state =
     (if ps_epoch state \<noteq> Some (receipt_epoch receipt) then False
      else case receipt of
          Rcpt_PeerOnline _ \<Rightarrow> True
        | Rcpt_NetworkGenerationAdvanced _ _ \<Rightarrow> True
        | Rcpt_RelayPeerConfirmed r \<Rightarrow>
            (case confirmed_identity (ps_relay state) of
               None \<Rightarrow> False | Some current \<Rightarrow> same_transport current r)
        | Rcpt_RelayBusiness relay _ \<Rightarrow>
            (case ps_relay state of RPS_Usable current \<Rightarrow> same_transport current relay | _ \<Rightarrow> False)
        | Rcpt_DirectCommitted r \<Rightarrow>
            (case ps_direct state of DPS_Committed current \<Rightarrow> current = r | _ \<Rightarrow> False))"

datatype path_observation_identity =
  Obs_RelayHealth relay_connection_identity relay_health_observation_identity

fun idempotency_receipt :: "path_event \<Rightarrow> path_event_receipt option" where
  "idempotency_receipt (PeerOnline epoch) = Some (Rcpt_PeerOnline epoch)"
| "idempotency_receipt (NetworkGenerationAdvanced epoch retained) =
     Some (Rcpt_NetworkGenerationAdvanced epoch retained)"
| "idempotency_receipt (RelayPeerConfirmed relay) = Some (Rcpt_RelayPeerConfirmed relay)"
| "idempotency_receipt (RelayBusinessUsable relay observation) =
     Some (Rcpt_RelayBusiness relay observation)"
| "idempotency_receipt (DirectCommitted validation) = Some (Rcpt_DirectCommitted validation)"
| "idempotency_receipt _ = None"

fun observation_identity :: "path_event \<Rightarrow> path_observation_identity option" where
  "observation_identity (RelayHealthObserved relay observation) =
     Some (Obs_RelayHealth relay observation)"
| "observation_identity _ = None"

section \<open>Lemmas on identities\<close>

lemma same_transport_refl [simp]: "same_transport r r"
  by (simp add: same_transport_def)

lemma same_transport_sym: "same_transport r s \<Longrightarrow> same_transport s r"
  by (simp add: same_transport_def)

lemma same_transport_trans: "same_transport r s \<Longrightarrow> same_transport s t \<Longrightarrow> same_transport r t"
  by (simp add: same_transport_def)

lemma same_transport_eq:
  "same_transport r s \<Longrightarrow> rc_epoch r = rc_epoch s \<Longrightarrow> r = s"
  by (simp add: same_transport_def)

lemma same_validation_request_refl [simp]: "same_validation_request v v"
  by (simp add: same_validation_request_def)

lemma rc_with_epoch_simps [simp]:
  "rc_epoch (rc_with_epoch r e) = e" "same_transport (rc_with_epoch r e) s = same_transport r s"
  by (simp_all add: rc_with_epoch_def same_transport_def)

lemma dv_with_epoch_simps [simp]: "dv_epoch (dv_with_epoch v e) = e"
  by (simp add: dv_with_epoch_def)

lemma relay_identity_with_epoch [simp]:
  "relay_identity (relay_with_epoch r e) = map_option (\<lambda>i. rc_with_epoch i e) (relay_identity r)"
  by (cases r) auto

lemma confirmed_identity_with_epoch [simp]:
  "confirmed_identity (relay_with_epoch r e) =
     map_option (\<lambda>i. rc_with_epoch i e) (confirmed_identity r)"
  by (cases r) auto

lemma confirmed_is_identity: "confirmed_identity r = Some i \<Longrightarrow> relay_identity r = Some i"
  by (cases r) auto

lemma with_epoch_if_committed_Committed:
  "with_epoch_if_committed d e = DPS_Committed v \<longleftrightarrow>
     (\<exists>w. d = DPS_Committed w \<and> v = dv_with_epoch w e)"
  by (cases d) auto

lemma with_epoch_if_committed_neq [simp]:
  "with_epoch_if_committed d e \<noteq> DPS_Probing e' a" "with_epoch_if_committed d e \<noteq> DPS_Validating v"
  by (cases d; simp)+

lemma active_network_path_eq:
  "active_network_path a = None \<longleftrightarrow> a = ABP_Unavailable"
  "active_network_path a = Some NP_Relay \<longleftrightarrow> (\<exists>r. a = ABP_Relay r)"
  "active_network_path a = Some NP_Direct \<longleftrightarrow> (\<exists>v. a = ABP_Direct v)"
  by (cases a; simp)+

end
