(* ===== verification/Path_Machine.thy ===== *)
theory Path_Machine
  imports Path_Types
begin

text \<open>
  The reducer of \<open>client/daemon/src/peer/path_state_machine.rs\<close>. Each handler takes \<open>self\<close> (the
  state \<open>s\<close> the machine is in) and \<open>next\<close> (the mutable copy \<open>n\<close> the Rust code edits) and returns
  the edited copy or the decision that rejects the event. \<open>reduce\<close> is pure and yields a
  transition; \<open>commit\<close> installs it if the machine has not moved since.
\<close>

type_synonym path_result = "path_transition_decision + path_state"

section \<open>The machine\<close>

record path_machine =
  pm_state :: path_state
  pm_revision :: u64
  pm_rejected_transitions :: u64
  pm_accepted_event_receipts :: "path_event_receipt list"
  pm_accepted_observations :: "path_observation_identity list"

record path_transition =
  pt_base_revision :: u64
  pt_decision :: path_transition_decision
  pt_next :: path_state
  pt_actions :: "path_action list"
  pt_receipt :: "path_event_receipt option"
  pt_observation :: "path_observation_identity option"
  pt_clear_relay_receipts :: bool

record path_snapshot =
  sn_state :: path_state
  sn_revision :: u64
  sn_rejected_transitions :: u64

record path_outcome =
  po_decision :: path_transition_decision
  po_previous :: path_state
  po_snapshot :: path_snapshot
  po_actions :: "path_action list"

definition path_machine_new :: "connection_state \<Rightarrow> path_machine" where
  "path_machine_new initial_state =
     \<lparr>pm_state =
        \<lparr>ps_direct_first = None, ps_lifecycle = Unbound, ps_epoch = None,
         ps_active = ABP_Unavailable, ps_relay = RPS_Unavailable, ps_direct = DPS_Idle,
         ps_recovery = Stable, ps_compatibility_state = initial_state\<rparr>,
      pm_revision = 0, pm_rejected_transitions = 0,
      pm_accepted_event_receipts = [], pm_accepted_observations = []\<rparr>"

definition path_machine_snapshot :: "path_machine \<Rightarrow> path_snapshot" where
  "path_machine_snapshot m =
     \<lparr>sn_state = pm_state m, sn_revision = pm_revision m,
      sn_rejected_transitions = pm_rejected_transitions m\<rparr>"

definition unbound_state :: path_state where
  "unbound_state =
     \<lparr>ps_direct_first = None, ps_lifecycle = Unbound, ps_epoch = None,
      ps_active = ABP_Unavailable, ps_relay = RPS_Unavailable, ps_direct = DPS_Idle,
      ps_recovery = Stable, ps_compatibility_state = CS_Idle\<rparr>"

section \<open>The direct-first window\<close>

definition direct_first_pending :: "path_state \<Rightarrow> bool" where
  "direct_first_pending s =
     (case ps_direct_first s of None \<Rightarrow> False | Some window \<Rightarrow> \<not> dfw_released window)"

definition direct_first_deadline_due :: "path_state \<Rightarrow> instant \<Rightarrow> bool" where
  "direct_first_deadline_due s now =
     (case ps_direct_first s of
        None \<Rightarrow> False
      | Some window \<Rightarrow> \<not> dfw_released window \<and> dfw_deadline window \<le> now)"

definition direct_first_deadline :: "path_state \<Rightarrow> instant option" where
  "direct_first_deadline s =
     (case ps_direct_first s of
        None \<Rightarrow> None
      | Some window \<Rightarrow> if \<not> dfw_released window then Some (dfw_deadline window) else None)"

definition release_window :: "path_state \<Rightarrow> path_state" where
  "release_window n =
     n\<lparr>ps_direct_first := map_option (\<lambda>window. window\<lparr>dfw_released := True\<rparr>) (ps_direct_first n)\<rparr>"

definition is_relay_active :: "path_state \<Rightarrow> bool" where
  "is_relay_active n = (case ps_active n of ABP_Relay _ \<Rightarrow> True | _ \<Rightarrow> False)"

definition is_direct_active :: "path_state \<Rightarrow> bool" where
  "is_direct_active n = (case ps_active n of ABP_Direct _ \<Rightarrow> True | _ \<Rightarrow> False)"

section \<open>Epoch validation\<close>

definition online_epoch :: "path_state \<Rightarrow> path_transition_decision + path_epoch" where
  "online_epoch s =
     (if ps_lifecycle s \<noteq> Online then Inl RejectedPeerOffline
      else ok_or (ps_epoch s) RejectedIllegalTransition)"

definition validate_epoch_values ::
  "path_epoch \<Rightarrow> path_epoch \<Rightarrow> path_transition_decision + unit" where
  "validate_epoch_values current incoming =
     (if peer_session_generation incoming \<noteq> peer_session_generation current
      then Inl RejectedPeerSessionGeneration
      else if network_generation incoming \<noteq> network_generation current
      then Inl RejectedNetworkGeneration
      else if remote_candidate_epoch incoming \<noteq> remote_candidate_epoch current
      then Inl RejectedRemoteCandidateEpoch
      else Inr ())"

definition validate_exact_epoch ::
  "path_state \<Rightarrow> path_epoch \<Rightarrow> path_transition_decision + unit" where
  "validate_exact_epoch s incoming =
     bind_res (online_epoch s) (\<lambda>current. validate_epoch_values current incoming)"

definition validate_bound_epoch ::
  "path_state \<Rightarrow> path_epoch \<Rightarrow> path_transition_decision + unit" where
  "validate_bound_epoch s incoming =
     bind_res (ok_or (ps_epoch s) RejectedIllegalTransition)
       (\<lambda>current. validate_epoch_values current incoming)"

section \<open>Lifecycle and epoch handlers\<close>

definition online_state :: "path_epoch \<Rightarrow> path_state" where
  "online_state epoch =
     \<lparr>ps_direct_first = None, ps_lifecycle = Online, ps_epoch = Some epoch,
      ps_active = ABP_Unavailable, ps_relay = RPS_Unavailable, ps_direct = DPS_Idle,
      ps_recovery = Stable, ps_compatibility_state = CS_Idle\<rparr>"

definition reduce_peer_online :: "path_state \<Rightarrow> path_state \<Rightarrow> path_epoch \<Rightarrow> path_result" where
  "reduce_peer_online s n epoch =
     (case ps_epoch s of
        Some current \<Rightarrow>
          if peer_session_generation epoch < peer_session_generation current
          then Inl RejectedPeerSessionGeneration
          else if peer_session_generation epoch = peer_session_generation current
          then if ps_lifecycle s = Offline then Inl RejectedPeerOffline
               else if network_generation epoch \<noteq> network_generation current
               then Inl RejectedNetworkGeneration
               else if remote_candidate_epoch epoch \<noteq> remote_candidate_epoch current
               then Inl RejectedRemoteCandidateEpoch
               else Inr n
          else Inr (online_state epoch)
      | None \<Rightarrow> Inr (online_state epoch))"

definition go_offline :: "path_state \<Rightarrow> path_state" where
  "go_offline n =
     n\<lparr>ps_lifecycle := Offline, ps_active := ABP_Unavailable, ps_relay := RPS_Unavailable,
       ps_direct := DPS_Idle, ps_recovery := Stable, ps_compatibility_state := CS_Closed\<rparr>"

definition reduce_peer_left :: "path_state \<Rightarrow> path_state \<Rightarrow> path_epoch \<Rightarrow> path_result" where
  "reduce_peer_left s n epoch =
     (if ps_lifecycle s = Unbound then Inr (go_offline (n\<lparr>ps_epoch := Some epoch\<rparr>))
      else if ps_lifecycle s = Offline
      then if ps_epoch s \<noteq> Some epoch then Inl RejectedPeerSessionGeneration
           else Inr (go_offline n)
      else bind_res (online_epoch s) (\<lambda>current.
        if peer_session_generation epoch < peer_session_generation current
        then Inl RejectedPeerSessionGeneration
        else if peer_session_generation epoch = peer_session_generation current
        then bind_res (validate_epoch_values current epoch) (\<lambda>_. Inr (go_offline n))
        else Inr (go_offline (n\<lparr>ps_epoch := Some epoch\<rparr>))))"

definition set_projection_after_epoch_change ::
  "path_state \<Rightarrow> network_path option \<Rightarrow> path_epoch \<Rightarrow> path_state" where
  "set_projection_after_epoch_change n previous_active epoch =
     (case active_network_path (ps_active n) of
        Some NP_Direct \<Rightarrow> n\<lparr>ps_recovery := Stable, ps_compatibility_state := CS_Direct\<rparr>
      | Some NP_Relay \<Rightarrow> n\<lparr>ps_recovery := Stable, ps_compatibility_state := CS_Relay\<rparr>
      | None \<Rightarrow>
          (case previous_active of
             Some from \<Rightarrow>
               n\<lparr>ps_recovery := Degraded epoch from None,
                 ps_compatibility_state := CS_FallbackToRelay\<rparr>
           | None \<Rightarrow> n\<lparr>ps_recovery := Stable\<rparr>))"

definition relay_or_unavailable :: "relay_path_state \<Rightarrow> active_business_path" where
  "relay_or_unavailable relay =
     (case confirmed_identity relay of None \<Rightarrow> ABP_Unavailable | Some r \<Rightarrow> ABP_Relay r)"

definition suppress_pending_relay :: "path_state \<Rightarrow> path_state \<Rightarrow> path_state" where
  "suppress_pending_relay s n =
     (if direct_first_pending s \<and> is_relay_active n then n\<lparr>ps_active := ABP_Unavailable\<rparr> else n)"

definition active_after_network_advance ::
  "active_business_path \<Rightarrow> direct_path_state \<Rightarrow> relay_path_state \<Rightarrow> active_business_path" where
  "active_after_network_advance previous direct relay =
     (case (previous, direct) of
        (ABP_Direct _, DPS_Committed identity) \<Rightarrow> ABP_Direct identity
      | (ABP_Direct _, _) \<Rightarrow> relay_or_unavailable relay
      | (ABP_Relay _, _) \<Rightarrow> relay_or_unavailable relay
      | _ \<Rightarrow> ABP_Unavailable)"

definition reduce_network_advance ::
  "path_state \<Rightarrow> path_state \<Rightarrow> path_epoch \<Rightarrow> path_retention \<Rightarrow> path_result" where
  "reduce_network_advance s n epoch retained =
     bind_res (online_epoch s) (\<lambda>current.
       if peer_session_generation epoch \<noteq> peer_session_generation current
       then Inl RejectedPeerSessionGeneration
       else if network_generation epoch < network_generation current
       then Inl RejectedNetworkGeneration
       else if remote_candidate_epoch epoch \<noteq> remote_candidate_epoch current
       then Inl RejectedRemoteCandidateEpoch
       else if network_generation epoch = network_generation current then Inr n
       else
         let previous_active = active_network_path (ps_active s);
             relay = (if keeps_relay retained then relay_with_epoch (ps_relay s) epoch
                      else RPS_Unavailable);
             direct = (if keeps_direct retained then with_epoch_if_committed (ps_direct s) epoch
                       else DPS_Idle);
             n1 = n\<lparr>ps_epoch := Some epoch, ps_relay := relay, ps_direct := direct,
                    ps_active := active_after_network_advance (ps_active s) direct relay\<rparr>;
             n2 = set_projection_after_epoch_change (suppress_pending_relay s n1)
                    previous_active epoch
         in if previous_active = Some NP_Direct
               \<and> active_network_path (ps_active n2) = Some NP_Relay
            then Inr (n2\<lparr>ps_recovery := Degraded epoch NP_Direct (Some NP_Relay)\<rparr>)
            else Inr n2)"

definition reduce_remote_candidate_advance ::
  "path_state \<Rightarrow> path_state \<Rightarrow> path_epoch \<Rightarrow> direct_candidate_continuity \<Rightarrow> path_result" where
  "reduce_remote_candidate_advance s n epoch continuity =
     bind_res (online_epoch s) (\<lambda>current.
       if peer_session_generation epoch \<noteq> peer_session_generation current
       then Inl RejectedPeerSessionGeneration
       else if network_generation epoch \<noteq> network_generation current
       then Inl RejectedNetworkGeneration
       else if remote_candidate_epoch epoch < remote_candidate_epoch current
       then Inl RejectedRemoteCandidateEpoch
       else if remote_candidate_epoch epoch = remote_candidate_epoch current then Inr n
       else
         let previous_active = active_network_path (ps_active s);
             relay = relay_with_epoch (ps_relay s) epoch;
             direct = (case continuity of
                         RetainCommitted \<Rightarrow> with_epoch_if_committed (ps_direct s) epoch
                       | Invalidate \<Rightarrow> DPS_Idle);
             n1 = n\<lparr>ps_epoch := Some epoch, ps_relay := relay, ps_direct := direct,
                    ps_active := active_after_network_advance (ps_active s) direct relay\<rparr>
         in Inr (set_projection_after_epoch_change (suppress_pending_relay s n1)
                   previous_active epoch))"

section \<open>Relay handlers\<close>

definition reduce_relay_ready ::
  "path_state \<Rightarrow> path_state \<Rightarrow> relay_connection_identity \<Rightarrow> path_result" where
  "reduce_relay_ready s n relay =
     (let rejected = (case relay_identity (ps_relay s) of
            None \<Rightarrow> False | Some current \<Rightarrow> rejects_ready_replacement current relay);
          already = (case confirmed_identity (ps_relay s) of
            None \<Rightarrow> False | Some current \<Rightarrow> same_transport current relay);
          replaced_active_relay = (case ps_active s of
            ABP_Relay active \<Rightarrow> \<not> same_transport active relay | _ \<Rightarrow> False);
          n1 = n\<lparr>ps_relay := RPS_Ready relay\<rparr>
      in if rejected then Inl RejectedRelayConnectionIdentity
         else if already then Inr n
         else if replaced_active_relay
         then (case ps_epoch n1 of
                 None \<Rightarrow> Inl RejectedIllegalTransition
               | Some epoch \<Rightarrow>
                   Inr (n1\<lparr>ps_active := ABP_Unavailable,
                           ps_recovery := Degraded epoch NP_Relay None,
                           ps_compatibility_state := CS_FallbackToRelay\<rparr>))
         else Inr n1)"

definition direct_in_flight :: "direct_path_state \<Rightarrow> bool" where
  "direct_in_flight d = (case d of DPS_Probing _ _ \<Rightarrow> True | DPS_Validating _ \<Rightarrow> True | _ \<Rightarrow> False)"

definition reduce_relay_confirmed ::
  "path_state \<Rightarrow> path_state \<Rightarrow> relay_connection_identity \<Rightarrow> path_result" where
  "reduce_relay_confirmed s n relay =
     (if (case relay_identity (ps_relay s) of
            None \<Rightarrow> False | Some current \<Rightarrow> \<not> same_transport current relay)
      then Inl RejectedRelayConnectionIdentity
      else
        let n1 = n\<lparr>ps_relay := (case ps_relay s of
                     RPS_Usable current \<Rightarrow>
                       if same_transport current relay then RPS_Usable relay
                       else RPS_Confirmed relay
                   | _ \<Rightarrow> RPS_Confirmed relay)\<rparr>
        in if \<not> is_direct_active n1 \<and> \<not> direct_first_pending s
           then let n2 = n1\<lparr>ps_active := ABP_Relay relay, ps_compatibility_state := CS_Relay\<rparr>
                in Inr (if direct_in_flight (ps_direct n2) then n2
                        else n2\<lparr>ps_recovery := Stable\<rparr>)
           else Inr n1)"

definition reduce_relay_usable ::
  "path_state \<Rightarrow> path_state \<Rightarrow> relay_connection_identity \<Rightarrow> path_result" where
  "reduce_relay_usable s n relay =
     (case confirmed_identity (ps_relay s) of
        None \<Rightarrow> Inl RejectedIllegalTransition
      | Some current \<Rightarrow>
          if \<not> same_transport current relay then Inl RejectedRelayConnectionIdentity
          else
            let n1 = n\<lparr>ps_relay := RPS_Usable relay\<rparr>
            in if \<not> is_direct_active n1 \<and> \<not> direct_first_pending s
               then Inr (n1\<lparr>ps_active := ABP_Relay relay, ps_compatibility_state := CS_Relay\<rparr>)
               else Inr n1)"

definition reduce_relay_health_observed ::
  "path_state \<Rightarrow> path_state \<Rightarrow> relay_connection_identity \<Rightarrow> path_result" where
  "reduce_relay_health_observed s n relay =
     (case confirmed_identity (ps_relay s) of
        None \<Rightarrow> Inl RejectedIllegalTransition
      | Some current \<Rightarrow>
          if \<not> same_transport current relay then Inl RejectedRelayConnectionIdentity else Inr n)"

definition drop_active_relay ::
  "path_state \<Rightarrow> path_state \<Rightarrow> relay_connection_identity \<Rightarrow> path_state" where
  "drop_active_relay s n relay =
     (case ps_active s of
        ABP_Relay active \<Rightarrow>
          if same_transport active relay
          then n\<lparr>ps_active := ABP_Unavailable,
                 ps_recovery := Degraded (rc_epoch relay) NP_Relay None,
                 ps_compatibility_state := CS_FallbackToRelay\<rparr>
          else n
      | _ \<Rightarrow> n)"

definition reduce_relay_lost ::
  "path_state \<Rightarrow> path_state \<Rightarrow> relay_connection_identity \<Rightarrow> path_result" where
  "reduce_relay_lost s n relay =
     (case relay_identity (ps_relay s) of
        None \<Rightarrow> Inr n
      | Some current \<Rightarrow>
          if \<not> same_transport current relay then Inl RejectedRelayConnectionIdentity
          else Inr (drop_active_relay s (n\<lparr>ps_relay := RPS_Unavailable\<rparr>) relay))"

definition reduce_relay_path_failed ::
  "path_state \<Rightarrow> path_state \<Rightarrow> relay_connection_identity \<Rightarrow> path_result" where
  "reduce_relay_path_failed s n relay =
     (case confirmed_identity (ps_relay s) of
        None \<Rightarrow> Inr n
      | Some current \<Rightarrow>
          if \<not> same_transport current relay then Inl RejectedRelayConnectionIdentity
          else Inr (drop_active_relay s n relay))"

section \<open>Direct handlers\<close>

definition hole_punching_if_unavailable :: "path_state \<Rightarrow> path_state" where
  "hole_punching_if_unavailable n =
     (if ps_active n = ABP_Unavailable then n\<lparr>ps_compatibility_state := CS_HolePunching\<rparr> else n)"

definition reduce_direct_probe_started ::
  "path_state \<Rightarrow> path_state \<Rightarrow> path_epoch \<Rightarrow> direct_attempt_number \<Rightarrow> path_state" where
  "reduce_direct_probe_started s n epoch attempt =
     (case ps_direct s of
        DPS_Validating _ \<Rightarrow> n
      | DPS_Committed _ \<Rightarrow> n
      | _ \<Rightarrow> hole_punching_if_unavailable
               (n\<lparr>ps_direct := DPS_Probing epoch attempt,
                  ps_recovery := Recovering epoch NP_Direct attempt\<rparr>))"

definition reduce_direct_validation_started ::
  "path_state \<Rightarrow> path_state \<Rightarrow> direct_validation_identity \<Rightarrow> path_result" where
  "reduce_direct_validation_started s n validation =
     (if \<not> can_start_validation validation then Inl RejectedDirectValidationIdentity
      else
        let started = Inr (hole_punching_if_unavailable
              (n\<lparr>ps_direct := DPS_Validating validation,
                 ps_recovery := Recovering (dv_epoch validation) NP_Direct
                   (case dv_owner_token validation of None \<Rightarrow> 0 | Some t \<Rightarrow> t)\<rparr>))
        in case ps_direct s of
             DPS_Committed current \<Rightarrow>
               if same_validation_request current validation then Inr n
               else Inl RejectedDirectValidationIdentity
           | DPS_Validating current \<Rightarrow>
               if \<not> same_owner current validation then Inl RejectedDirectValidationIdentity
               else started
           | _ \<Rightarrow> started)"

definition reduce_direct_committed ::
  "path_state \<Rightarrow> path_state \<Rightarrow> direct_validation_identity \<Rightarrow> path_result" where
  "reduce_direct_committed s n validation =
     (if \<not> can_commit validation then Inl RejectedDirectValidationIdentity
      else
        let committed = Inr (n\<lparr>ps_direct := DPS_Committed validation,
              ps_active := ABP_Direct validation, ps_recovery := Stable,
              ps_compatibility_state := CS_Direct\<rparr>)
        in case ps_direct s of
             DPS_Validating current \<Rightarrow>
               if \<not> same_validation_request current validation
               then Inl RejectedDirectValidationIdentity else committed
           | DPS_Committed current \<Rightarrow>
               let compatibility_replacement =
                     dv_owner_token current = None \<and> dv_owner_token validation = None
               in if current \<noteq> validation
                     \<and> \<not> same_validation_request current validation
                     \<and> \<not> compatibility_replacement
                  then Inl RejectedDirectValidationIdentity
                  else if current = validation \<or> same_validation_request current validation
                  then Inr n
                  else committed
           | _ \<Rightarrow>
               if dv_owner_token validation \<noteq> None then Inl RejectedDirectValidationIdentity
               else committed)"

definition reduce_direct_probe_failed ::
  "path_state \<Rightarrow> path_state \<Rightarrow> path_epoch \<Rightarrow> path_state" where
  "reduce_direct_probe_failed s n epoch =
     (case ps_direct s of
        DPS_Committed _ \<Rightarrow> n
      | _ \<Rightarrow>
          let n1 = n\<lparr>ps_direct := DPS_Idle\<rparr>
          in if is_relay_active n1
             then n1\<lparr>ps_recovery := Recovering epoch NP_Direct 0,
                     ps_compatibility_state := CS_Relay\<rparr>
             else n1\<lparr>ps_recovery := Degraded epoch NP_Direct None,
                     ps_compatibility_state := CS_FallbackToRelay\<rparr>)"

definition reduce_direct_path_failed ::
  "path_state \<Rightarrow> path_state \<Rightarrow> path_epoch \<Rightarrow> path_state" where
  "reduce_direct_path_failed s n epoch =
     (let n1 = n\<lparr>ps_direct := DPS_Idle\<rparr>
      in if is_direct_active s
         then let relay = (if direct_first_pending s then None
                           else confirmed_identity (ps_relay n1))
              in n1\<lparr>ps_active := (case relay of None \<Rightarrow> ABP_Unavailable | Some r \<Rightarrow> ABP_Relay r),
                    ps_recovery := Degraded epoch NP_Direct
                      (map_option (\<lambda>_. NP_Relay) relay),
                    ps_compatibility_state :=
                      (if relay \<noteq> None then CS_Relay else CS_FallbackToRelay)\<rparr>
         else if is_relay_active n1
         then n1\<lparr>ps_recovery := Recovering epoch NP_Direct 0,
                 ps_compatibility_state := CS_Relay\<rparr>
         else n1\<lparr>ps_recovery := Degraded epoch NP_Direct None,
                 ps_compatibility_state := CS_FallbackToRelay\<rparr>)"

definition reduce_direct_cancelled ::
  "path_state \<Rightarrow> path_state \<Rightarrow> path_epoch \<Rightarrow> u64 option \<Rightarrow> path_result" where
  "reduce_direct_cancelled s n epoch owner_token =
     (let cancelled =
            (let n1 = n\<lparr>ps_direct := DPS_Idle, ps_recovery := Stable\<rparr>
             in Inr (if ps_active n1 = ABP_Unavailable
                     then n1\<lparr>ps_compatibility_state := CS_Idle\<rparr> else n1))
      in case ps_direct s of
           DPS_Validating current \<Rightarrow>
             if dv_owner_token current \<noteq> owner_token
             then Inl RejectedDirectValidationIdentity else cancelled
         | DPS_Committed _ \<Rightarrow> Inr n
         | DPS_Idle \<Rightarrow> Inr n
         | DPS_Probing _ _ \<Rightarrow> cancelled)"

section \<open>The compatibility seam\<close>

definition compatibility_edit ::
  "path_state \<Rightarrow> path_epoch \<Rightarrow> connection_state \<Rightarrow> socket_addr option \<Rightarrow> string option
   \<Rightarrow> u64 option \<Rightarrow> path_state" where
  "compatibility_edit n epoch state direct_endpoint relay_endpoint relay_connection_id =
     (case state of
        CS_Direct \<Rightarrow>
          let validation = dv_compatibility epoch direct_endpoint
          in n\<lparr>ps_direct := DPS_Committed validation, ps_active := ABP_Direct validation,
               ps_recovery := Stable\<rparr>
      | CS_Relay \<Rightarrow>
          let relay = rc_new epoch
                (case relay_endpoint of None \<Rightarrow> ''compatibility-relay'' | Some e \<Rightarrow> e)
                relay_connection_id
          in n\<lparr>ps_relay := RPS_Confirmed relay, ps_direct := DPS_Idle,
               ps_active := ABP_Relay relay, ps_recovery := Stable\<rparr>
      | CS_HolePunching \<Rightarrow>
          n\<lparr>ps_active := ABP_Unavailable, ps_direct := DPS_Probing epoch 0,
            ps_recovery := Recovering epoch NP_Direct 0\<rparr>
      | CS_FallbackToRelay \<Rightarrow>
          let from = (case active_network_path (ps_active n) of
                        None \<Rightarrow> NP_Direct | Some p \<Rightarrow> p)
          in n\<lparr>ps_active := ABP_Unavailable, ps_direct := DPS_Idle,
               ps_recovery := Degraded epoch from None\<rparr>
      | CS_Closed \<Rightarrow>
          n\<lparr>ps_lifecycle := Offline, ps_active := ABP_Unavailable,
            ps_relay := RPS_Unavailable, ps_direct := DPS_Idle, ps_recovery := Stable\<rparr>
      | _ \<Rightarrow>
          n\<lparr>ps_active := ABP_Unavailable, ps_direct := DPS_Idle, ps_recovery := Stable\<rparr>)"

definition reduce_compatibility_state ::
  "path_state \<Rightarrow> path_state \<Rightarrow> path_epoch \<Rightarrow> connection_state \<Rightarrow> socket_addr option
   \<Rightarrow> string option \<Rightarrow> u64 option \<Rightarrow> path_result" where
  "reduce_compatibility_state s n epoch state direct_endpoint relay_endpoint relay_connection_id =
     bind_res
       (if ps_lifecycle s = Unbound
        then Inr (n\<lparr>ps_lifecycle := Online, ps_epoch := Some epoch\<rparr>)
        else bind_res (validate_exact_epoch s epoch) (\<lambda>_. Inr n))
       (\<lambda>n1.
         let n2 = compatibility_edit n1 epoch state direct_endpoint relay_endpoint
                    relay_connection_id
         in Inr (if state = CS_Relay \<and> direct_first_pending s
                 then n2\<lparr>ps_active := ABP_Unavailable, ps_compatibility_state := CS_Connecting\<rparr>
                 else n2\<lparr>ps_compatibility_state := state\<rparr>))"

section \<open>Dispatch\<close>

definition reduce_direct_first_started ::
  "path_state \<Rightarrow> path_state \<Rightarrow> path_epoch \<Rightarrow> instant \<Rightarrow> path_result" where
  "reduce_direct_first_started s n epoch now =
     bind_res (validate_exact_epoch s epoch) (\<lambda>_.
       Inr (if ps_direct_first n = None
            then n\<lparr>ps_direct_first := Some
                     \<lparr>dfw_deadline = now + DIRECT_FIRST_WINDOW,
                      dfw_released = (ps_active n \<noteq> ABP_Unavailable)\<rparr>\<rparr>
            else n))"

definition reduce_direct_first_deadline ::
  "path_state \<Rightarrow> path_state \<Rightarrow> path_epoch \<Rightarrow> instant \<Rightarrow> path_result" where
  "reduce_direct_first_deadline s n epoch now =
     bind_res (validate_exact_epoch s epoch) (\<lambda>_.
       Inr (if direct_first_deadline_due s now
            then let n1 = release_window n
                 in if \<not> is_direct_active n1
                    then (case confirmed_identity (ps_relay n1) of
                            None \<Rightarrow> n1
                          | Some relay \<Rightarrow>
                              n1\<lparr>ps_active := ABP_Relay relay,
                                 ps_compatibility_state := CS_Relay\<rparr>)
                    else n1
            else n))"

definition reduce_direct_first_satisfied ::
  "path_state \<Rightarrow> path_state \<Rightarrow> direct_validation_identity \<Rightarrow> path_result" where
  "reduce_direct_first_satisfied s n validation =
     bind_res (validate_exact_epoch s (dv_epoch validation)) (\<lambda>_.
       if ps_active s \<noteq> ABP_Direct validation \<or> ps_direct s \<noteq> DPS_Committed validation
       then Inl RejectedDirectValidationIdentity
       else Inr (release_window n))"

fun reduce_event :: "path_state \<Rightarrow> path_state \<Rightarrow> path_event \<Rightarrow> path_result" where
  "reduce_event s n (DirectFirstStarted epoch now) = reduce_direct_first_started s n epoch now"
| "reduce_event s n (DirectFirstDeadline epoch now) = reduce_direct_first_deadline s n epoch now"
| "reduce_event s n (DirectFirstSatisfied validation) =
     reduce_direct_first_satisfied s n validation"
| "reduce_event s n IdentityReset = Inr unbound_state"
| "reduce_event s n (PeerOnline epoch) = reduce_peer_online s n epoch"
| "reduce_event s n (PeerLeft epoch) = reduce_peer_left s n epoch"
| "reduce_event s n (NetworkGenerationAdvanced epoch retained) =
     reduce_network_advance s n epoch retained"
| "reduce_event s n (RemoteCandidateEpochAdvanced epoch direct) =
     reduce_remote_candidate_advance s n epoch direct"
| "reduce_event s n (RelayTransportReady relay) =
     bind_res (validate_exact_epoch s (rc_epoch relay)) (\<lambda>_. reduce_relay_ready s n relay)"
| "reduce_event s n (RelayPeerConfirmed relay) =
     bind_res (validate_exact_epoch s (rc_epoch relay)) (\<lambda>_. reduce_relay_confirmed s n relay)"
| "reduce_event s n (RelayBusinessUsable relay _) =
     bind_res (validate_exact_epoch s (rc_epoch relay)) (\<lambda>_. reduce_relay_usable s n relay)"
| "reduce_event s n (RelayHealthObserved relay _) =
     bind_res (validate_exact_epoch s (rc_epoch relay))
       (\<lambda>_. reduce_relay_health_observed s n relay)"
| "reduce_event s n (RelayTransportLost relay) =
     bind_res (validate_bound_epoch s (rc_epoch relay)) (\<lambda>_. reduce_relay_lost s n relay)"
| "reduce_event s n (RelayPathFailed relay) =
     bind_res (validate_exact_epoch s (rc_epoch relay)) (\<lambda>_. reduce_relay_path_failed s n relay)"
| "reduce_event s n (DirectProbeStarted epoch attempt) =
     bind_res (validate_exact_epoch s epoch)
       (\<lambda>_. Inr (reduce_direct_probe_started s n epoch attempt))"
| "reduce_event s n (DirectRetryScheduled epoch attempt) =
     bind_res (validate_exact_epoch s epoch)
       (\<lambda>_. Inr (reduce_direct_probe_started s n epoch attempt))"
| "reduce_event s n (DirectValidationStarted validation) =
     bind_res (validate_exact_epoch s (dv_epoch validation))
       (\<lambda>_. reduce_direct_validation_started s n validation)"
| "reduce_event s n (DirectCommitted validation) =
     bind_res (validate_exact_epoch s (dv_epoch validation))
       (\<lambda>_. reduce_direct_committed s n validation)"
| "reduce_event s n (DirectProbeFailed epoch) =
     bind_res (validate_exact_epoch s epoch) (\<lambda>_. Inr (reduce_direct_probe_failed s n epoch))"
| "reduce_event s n (DirectPathFailed epoch) =
     bind_res (validate_exact_epoch s epoch) (\<lambda>_. Inr (reduce_direct_path_failed s n epoch))"
| "reduce_event s n (DirectAttemptCancelled epoch owner_token) =
     bind_res (validate_exact_epoch s epoch)
       (\<lambda>_. reduce_direct_cancelled s n epoch owner_token)"
| "reduce_event s n
     (CompatibilityStateRequested epoch state direct_endpoint relay_endpoint connection_id) =
     reduce_compatibility_state s n epoch state direct_endpoint relay_endpoint connection_id"

section \<open>Validity and actions\<close>

definition epoch_matches :: "path_epoch \<Rightarrow> path_epoch option \<Rightarrow> bool" where
  "epoch_matches epoch e = (case e of None \<Rightarrow> True | Some e' \<Rightarrow> e' = epoch)"

definition direct_epoch :: "direct_path_state \<Rightarrow> path_epoch option" where
  "direct_epoch d = (case d of
       DPS_Idle \<Rightarrow> None
     | DPS_Probing epoch _ \<Rightarrow> Some epoch
     | DPS_Validating identity \<Rightarrow> Some (dv_epoch identity)
     | DPS_Committed identity \<Rightarrow> Some (dv_epoch identity))"

definition recovery_epoch :: "path_recovery_state \<Rightarrow> path_epoch option" where
  "recovery_epoch r = (case r of
       Stable \<Rightarrow> None | Degraded epoch _ _ \<Rightarrow> Some epoch | Recovering epoch _ _ \<Rightarrow> Some epoch)"

definition active_is_valid :: "path_state \<Rightarrow> bool" where
  "active_is_valid state = (case ps_active state of
       ABP_Unavailable \<Rightarrow>
         ps_compatibility_state state \<noteq> CS_Direct \<and> ps_compatibility_state state \<noteq> CS_Relay
     | ABP_Direct active \<Rightarrow>
         ps_compatibility_state state = CS_Direct \<and> ps_direct state = DPS_Committed active
     | ABP_Relay active \<Rightarrow>
         ps_compatibility_state state = CS_Relay
         \<and> confirmed_identity (ps_relay state) = Some active)"

definition state_is_valid :: "path_state \<Rightarrow> bool" where
  "state_is_valid state =
     (if direct_first_pending state \<and> is_relay_active state then False
      else if ps_lifecycle state = Unbound
      then ps_epoch state = None \<and> ps_active state = ABP_Unavailable
           \<and> ps_relay state = RPS_Unavailable \<and> ps_direct state = DPS_Idle
      else if ps_lifecycle state = Offline
      then ps_active state = ABP_Unavailable \<and> ps_relay state = RPS_Unavailable
           \<and> ps_direct state = DPS_Idle \<and> ps_recovery state = Stable
           \<and> ps_compatibility_state state = CS_Closed
      else case ps_epoch state of
             None \<Rightarrow> False
           | Some epoch \<Rightarrow>
               epoch_matches epoch (map_option rc_epoch (relay_identity (ps_relay state)))
               \<and> epoch_matches epoch (direct_epoch (ps_direct state))
               \<and> epoch_matches epoch (recovery_epoch (ps_recovery state))
               \<and> active_is_valid state)"

definition path_actions :: "path_state \<Rightarrow> path_state \<Rightarrow> path_action list" where
  "path_actions previous n =
     (let previous_active = active_network_path (ps_active previous);
          next_active = active_network_path (ps_active n)
      in (if previous_active \<noteq> next_active then [ActivePath previous_active next_active] else [])
         @ (if ps_compatibility_state previous \<noteq> ps_compatibility_state n
            then [CompatibilityState (ps_compatibility_state previous) (ps_compatibility_state n)]
            else [])
         @ (if ps_relay previous \<noteq> ps_relay n then [RelayState] else [])
         @ (if ps_direct previous \<noteq> ps_direct n then [DirectState] else [])
         @ (if ps_recovery previous \<noteq> ps_recovery n then [RecoveryState] else []))"

section \<open>Reduce and commit\<close>

definition inert_transition :: "path_machine \<Rightarrow> path_transition_decision \<Rightarrow> path_transition" where
  "inert_transition m decision =
     \<lparr>pt_base_revision = pm_revision m, pt_decision = decision, pt_next = pm_state m,
      pt_actions = [], pt_receipt = None, pt_observation = None,
      pt_clear_relay_receipts = False\<rparr>"

definition is_relay_path_failed :: "path_event \<Rightarrow> bool" where
  "is_relay_path_failed e = (case e of RelayPathFailed _ \<Rightarrow> True | _ \<Rightarrow> False)"

definition already_accepted :: "path_machine \<Rightarrow> path_event \<Rightarrow> bool" where
  "already_accepted m e \<longleftrightarrow>
     (case idempotency_receipt e of
        None \<Rightarrow> False | Some r \<Rightarrow> r \<in> set (pm_accepted_event_receipts m))
     \<or> (case observation_identity e of
          None \<Rightarrow> False | Some i \<Rightarrow> i \<in> set (pm_accepted_observations m))"

definition path_reduce :: "path_machine \<Rightarrow> path_event \<Rightarrow> path_transition" where
  "path_reduce m event =
     (case reduce_event (pm_state m) (pm_state m) event of
        Inl decision \<Rightarrow> inert_transition m decision
      | Inr n \<Rightarrow>
          if \<not> state_is_valid n then inert_transition m RejectedIllegalTransition
          else if already_accepted m event then inert_transition m Duplicate
          else \<lparr>pt_base_revision = pm_revision m,
                pt_decision = (if n = pm_state m then AcceptedObservation else Applied),
                pt_next = n,
                pt_actions = path_actions (pm_state m) n,
                pt_receipt = idempotency_receipt event,
                pt_observation = observation_identity event,
                pt_clear_relay_receipts = is_relay_path_failed event\<rparr>)"

definition commit_decision :: "path_machine \<Rightarrow> path_transition \<Rightarrow> path_transition_decision" where
  "commit_decision m t =
     (if accepted (pt_decision t) \<and> pt_base_revision t \<noteq> pm_revision m
      then RejectedRevision else pt_decision t)"

definition commit_receipts ::
  "path_machine \<Rightarrow> path_transition \<Rightarrow> path_transition_decision \<Rightarrow> path_event_receipt list" where
  "commit_receipts m t decision =
     (let r0 = pm_accepted_event_receipts m;
          r1 = (if pt_clear_relay_receipts t then filter (\<lambda>r. \<not> receipt_is_relay r) r0 else r0);
          r2 = (if decision = Applied then filter (\<lambda>r. remains_current r (pt_next t)) r1 else r1)
      in case pt_receipt t of None \<Rightarrow> r2 | Some receipt \<Rightarrow> r2 @ [receipt])"

definition commit_observations ::
  "path_machine \<Rightarrow> path_transition \<Rightarrow> path_observation_identity list" where
  "commit_observations m t =
     (case pt_observation t of
        None \<Rightarrow> pm_accepted_observations m
      | Some observation \<Rightarrow>
          trim_front MAX_ACCEPTED_HEALTH_OBSERVATIONS (pm_accepted_observations m @ [observation]))"

definition path_commit :: "path_machine \<Rightarrow> path_transition \<Rightarrow> path_machine \<times> path_outcome" where
  "path_commit m t =
     (let decision = commit_decision m t;
          m' = (if applies_side_effects decision
                then m\<lparr>pm_state := (if decision = Applied then pt_next t else pm_state m),
                       pm_accepted_event_receipts := commit_receipts m t decision,
                       pm_accepted_observations := commit_observations m t,
                       pm_revision := pm_revision m + 1\<rparr>
                else if \<not> accepted decision
                then m\<lparr>pm_rejected_transitions := pm_rejected_transitions m + 1\<rparr>
                else m)
      in (m', \<lparr>po_decision = decision, po_previous = pm_state m,
               po_snapshot = path_machine_snapshot m',
               po_actions = (if accepted decision then pt_actions t else [])\<rparr>))"

text \<open>\<open>apply\<close> is the caller's \<open>commit(reduce(event))\<close> with nothing in between.\<close>

definition path_apply :: "path_machine \<Rightarrow> path_event \<Rightarrow> path_machine" where
  "path_apply m event = fst (path_commit m (path_reduce m event))"

definition path_decision :: "path_machine \<Rightarrow> path_event \<Rightarrow> path_transition_decision" where
  "path_decision m event = po_decision (snd (path_commit m (path_reduce m event)))"

end
