(* ===== verification/Path_Props.thy ===== *)
theory Path_Props
  imports Path_Safety
begin

text \<open>The properties of the path-state machine and the facts their proofs share.\<close>

section \<open>Validity\<close>

lemma valid_Direct:
  "state_is_valid s \<Longrightarrow> ps_active s = ABP_Direct v \<Longrightarrow>
     ps_lifecycle s = Online \<and> ps_direct s = DPS_Committed v \<and> ps_epoch s = Some (dv_epoch v)
     \<and> ps_compatibility_state s = CS_Direct"
  by (cases "ps_lifecycle s")
    (auto simp: state_is_valid_def active_is_valid_def epoch_matches_def direct_epoch_def
      split: if_splits option.splits)

lemma valid_Relay:
  "state_is_valid s \<Longrightarrow> ps_active s = ABP_Relay r \<Longrightarrow>
     ps_lifecycle s = Online \<and> \<not> direct_first_pending s
     \<and> confirmed_identity (ps_relay s) = Some r \<and> ps_epoch s = Some (rc_epoch r)
     \<and> ps_compatibility_state s = CS_Relay"
  by (cases "ps_lifecycle s")
    (auto simp: state_is_valid_def active_is_valid_def epoch_matches_def is_relay_active_def
      dest: confirmed_is_identity split: if_splits option.splits)

text \<open>
  C1: Whatever transitions are computed, delayed, committed in any order or dropped, the path
  state is always valid: an active Direct path is the committed one of the current epoch, an
  active Relay path is the confirmed transport of the current epoch and never bypasses an open
  direct-first window.
\<close>
theorem path_reachable_valid:
  assumes "path_system m ts"
  shows "state_is_valid (pm_state m)
    \<and> (\<forall>v. ps_active (pm_state m) = ABP_Direct v \<longrightarrow>
         ps_lifecycle (pm_state m) = Online \<and> ps_direct (pm_state m) = DPS_Committed v
         \<and> ps_epoch (pm_state m) = Some (dv_epoch v))
    \<and> (\<forall>r. ps_active (pm_state m) = ABP_Relay r \<longrightarrow>
         ps_lifecycle (pm_state m) = Online \<and> \<not> direct_first_pending (pm_state m)
         \<and> confirmed_identity (ps_relay (pm_state m)) = Some r
         \<and> ps_epoch (pm_state m) = Some (rc_epoch r))"
proof -
  have "state_is_valid (pm_state m)"
    using path_system_inv [OF assms] by (simp add: path_inv_def)
  then show ?thesis by (auto dest: valid_Direct valid_Relay)
qed

section \<open>Optimistic commits\<close>

definition commit_all :: "path_machine \<Rightarrow> path_transition list \<Rightarrow> path_machine" where
  "commit_all m ts = foldl (\<lambda>m t. fst (path_commit m t)) m ts"

definition same_core :: "path_machine \<Rightarrow> path_machine \<Rightarrow> bool" where
  "same_core m m' \<longleftrightarrow>
     pm_state m' = pm_state m \<and> pm_accepted_event_receipts m' = pm_accepted_event_receipts m
     \<and> pm_accepted_observations m' = pm_accepted_observations m
     \<and> pm_revision m' = pm_revision m"

lemma commit_effect:
  "(pm_revision (fst (path_commit m t)) = pm_revision m + 1)
   \<or> same_core m (fst (path_commit m t))"
  by (auto simp: path_commit_def Let_def same_core_def)

lemma commit_all_revision:
  "\<exists>k \<le> length ts. pm_revision (commit_all m ts) = pm_revision m + of_nat k
     \<and> (k = 0 \<longrightarrow> same_core m (commit_all m ts))"
proof (induction ts arbitrary: m)
  case Nil
  then show ?case by (simp add: commit_all_def same_core_def)
next
  case (Cons t ts)
  let ?m1 = "fst (path_commit m t)"
  obtain k where k: "k \<le> length ts" "pm_revision (commit_all ?m1 ts) = pm_revision ?m1 + of_nat k"
      "k = 0 \<longrightarrow> same_core ?m1 (commit_all ?m1 ts)"
    using Cons.IH [of ?m1] by blast
  have all: "commit_all m (t # ts) = commit_all ?m1 ts" by (simp add: commit_all_def)
  from commit_effect [of m t] show ?case
  proof
    assume "pm_revision ?m1 = pm_revision m + 1"
    with k show ?thesis unfolding all by (intro exI [of _ "Suc k"]) (simp add: algebra_simps)
  next
    assume "same_core m ?m1"
    with k show ?thesis unfolding all by (intro exI [of _ k]) (auto simp: same_core_def)
  qed
qed

lemma commit_all_same_revision:
  assumes "length ts < 2 ^ 64" and "pm_revision (commit_all m ts) = pm_revision m"
  shows "same_core m (commit_all m ts)"
proof -
  obtain k where k: "k \<le> length ts" "pm_revision (commit_all m ts) = pm_revision m + of_nat k"
      "k = 0 \<longrightarrow> same_core m (commit_all m ts)"
    using commit_all_revision [of ts m] by blast
  from k(2) assms(2) have "(of_nat k :: u64) = 0" by simp
  then have "2 ^ 64 dvd k" by (simp add: word_of_nat_eq_0_iff)
  moreover have "k < 2 ^ 64" using k(1) assms(1) by linarith
  ultimately have "k = 0" by (metis gr0I nat_dvd_not_less)
  with k(3) show ?thesis by simp
qed

lemma path_reduce_core: "same_core m m' \<Longrightarrow> path_reduce m' e = path_reduce m e"
  by (auto simp: same_core_def path_reduce_def inert_transition_def already_accepted_def
      split: sum.splits option.splits)

lemma path_reduce_base [simp]: "pt_base_revision (path_reduce m e) = pm_revision m"
  by (auto simp: path_reduce_def inert_transition_def split: sum.splits)

text \<open>
  C2: A transition computed before other transitions were committed (fewer than 2^64 of them,
  the revision counter wraps) is accepted only if committing it is the same as recomputing it
  now: the optimistic reduce and commit pair is atomic.
\<close>
theorem path_commit_atomic:
  assumes "length ts < 2 ^ 64"
    and "accepted (po_decision (snd (path_commit (commit_all m ts) (path_reduce m e))))"
  shows "path_commit (commit_all m ts) (path_reduce m e) =
         path_commit (commit_all m ts) (path_reduce (commit_all m ts) e)"
proof -
  have "pm_revision (commit_all m ts) = pm_revision m"
    using assms(2) by (auto simp: path_commit_def commit_decision_def Let_def split: if_splits)
  with assms(1) have "same_core m (commit_all m ts)" by (rule commit_all_same_revision)
  then show ?thesis by (simp add: path_reduce_core)
qed

section \<open>Generation fencing\<close>

text \<open>The events that must name the current epoch exactly.\<close>

fun epoch_fenced :: "path_event \<Rightarrow> bool" where
  "epoch_fenced (PeerOnline _) = False"
| "epoch_fenced (PeerLeft _) = False"
| "epoch_fenced IdentityReset = False"
| "epoch_fenced (NetworkGenerationAdvanced _ _) = False"
| "epoch_fenced (RemoteCandidateEpochAdvanced _ _) = False"
| "epoch_fenced _ = True"

lemma validate_epoch_values_Inl:
  "incoming \<noteq> (current :: path_epoch) \<Longrightarrow>
     \<exists>d \<in> {RejectedPeerSessionGeneration, RejectedNetworkGeneration,
            RejectedRemoteCandidateEpoch}. validate_epoch_values current incoming = Inl d"
  by (auto simp: validate_epoch_values_def)

abbreviation generation_decisions :: "path_transition_decision set" where
  "generation_decisions \<equiv>
     {RejectedPeerSessionGeneration, RejectedNetworkGeneration, RejectedRemoteCandidateEpoch}"

lemma reduce_event_fenced:
  assumes "epoch_fenced e" and "event_epoch e = Some ep" and "ps_epoch s = Some current"
    and "ep \<noteq> current" and "ps_lifecycle s \<noteq> Unbound"
  shows "\<exists>d \<in> insert RejectedPeerOffline generation_decisions.
    reduce_event s s e = Inl d \<and> (ps_lifecycle s = Online \<longrightarrow> d \<noteq> RejectedPeerOffline)"
proof -
  obtain d where d: "d \<in> generation_decisions" "validate_epoch_values current ep = Inl d"
    using validate_epoch_values_Inl [OF assms(4)] by blast
  let ?d = "if ps_lifecycle s = Online then d else RejectedPeerOffline"
  have "validate_bound_epoch s ep = Inl d" using assms(3) d(2) by (simp add: validate_bound_epoch_def)
  moreover have "validate_exact_epoch s ep = Inl ?d"
    using assms(3) d(2) by (simp add: validate_exact_epoch_def online_epoch_def)
  ultimately have "reduce_event s s e \<in> {Inl d, Inl ?d}"
    using assms(1,2,5)
    by (cases e) (auto simp: reduce_direct_first_started_def reduce_direct_first_deadline_def
        reduce_direct_first_satisfied_def reduce_compatibility_state_def)
  with d(1) show ?thesis by auto
qed

text \<open>
  C3: While a peer is bound to an epoch, an event that must name that epoch and names another
  one is rejected and changes nothing but the rejection counter: with a generation decision
  while the peer is online, and with one or as offline while it is offline.
\<close>
theorem path_stale_event_rejected:
  assumes "epoch_fenced e" and "event_epoch e = Some ep"
    and "ps_lifecycle (pm_state m) \<noteq> Unbound" and "ps_epoch (pm_state m) = Some current"
    and "ep \<noteq> current"
  shows "path_decision m e \<in> {RejectedPeerOffline, RejectedPeerSessionGeneration,
            RejectedNetworkGeneration, RejectedRemoteCandidateEpoch}
    \<and> (ps_lifecycle (pm_state m) = Online \<longrightarrow> path_decision m e \<noteq> RejectedPeerOffline)
    \<and> path_apply m e = m\<lparr>pm_rejected_transitions := pm_rejected_transitions m + 1\<rparr>"
proof -
  obtain d where "d \<in> insert RejectedPeerOffline generation_decisions"
    "reduce_event (pm_state m) (pm_state m) e = Inl d"
    "ps_lifecycle (pm_state m) = Online \<longrightarrow> d \<noteq> RejectedPeerOffline"
    using reduce_event_fenced [OF assms(1,2,4,5,3)] by blast
  then show ?thesis
    by (auto simp: path_decision_def path_apply_def path_reduce_def inert_transition_def
        path_commit_def commit_decision_def Let_def accepted_def applies_side_effects_def)
qed

section \<open>The direct-first window\<close>

text \<open>
  The events that leave an open window open: everything but a new peer lifecycle, an identity
  reset, the deadline itself and the proof that Direct carries business.
\<close>

fun holds_window :: "direct_first_window \<Rightarrow> path_event \<Rightarrow> bool" where
  "holds_window w (PeerOnline _) = False"
| "holds_window w IdentityReset = False"
| "holds_window w (DirectFirstSatisfied _) = False"
| "holds_window w (DirectFirstDeadline _ now) = (now < dfw_deadline w)"
| "holds_window w _ = True"

lemma edit_direct_first [simp]:
  "ps_direct_first (go_offline n) = ps_direct_first n"
  "ps_direct_first (set_projection_after_epoch_change n p ep) = ps_direct_first n"
  "ps_direct_first (suppress_pending_relay s n) = ps_direct_first n"
  "ps_direct_first (drop_active_relay s n r) = ps_direct_first n"
  "ps_direct_first (hole_punching_if_unavailable n) = ps_direct_first n"
  "ps_direct_first (compatibility_edit n ep st d re ri) = ps_direct_first n"
  by (auto simp: path_edit_defs Let_def
      split: option.split network_path.split active_business_path.split connection_state.split)

lemma reduce_holds_window:
  assumes "reduce_event s s e = Inr n" and "ps_direct_first s = Some w" and "\<not> dfw_released w"
    and "holds_window w e"
  shows "ps_direct_first n = Some w"
  using assms
  by (cases e) (auto simp: path_defs bind_res_eq_Inr Let_def direct_first_deadline_due_def
      split: if_splits option.splits direct_path_state.splits)

lemma path_apply_holds_window:
  assumes "ps_direct_first (pm_state m) = Some w" and "\<not> dfw_released w" and "holds_window w e"
  shows "ps_direct_first (pm_state (path_apply m e)) = Some w"
  using reduce_holds_window [OF _ assms] assms(1)
  by (auto simp: path_apply_state split: sum.split)

lemma run_holds_window:
  assumes "ps_direct_first (pm_state m) = Some w" and "\<not> dfw_released w"
    and "\<forall>e \<in> set es. holds_window w e"
  shows "ps_direct_first (pm_state (foldl path_apply m es)) = Some w"
  using assms by (induction es arbitrary: m) (auto intro: path_apply_holds_window)

lemma valid_window_no_relay:
  "state_is_valid s \<Longrightarrow> ps_direct_first s = Some w \<Longrightarrow> \<not> dfw_released w \<Longrightarrow> \<not> is_relay_active s"
  by (auto simp: state_is_valid_def direct_first_pending_def split: if_splits)

text \<open>
  C4: While the direct-first window is open it stays open, and no Relay path becomes active,
  over any sequence of events in which the peer does not come online anew, its identity is not
  reset, no event reports the window satisfied (DirectFirstSatisfied) and no deadline event
  carries a time at or past the deadline; the state the window is open in satisfies the
  invariant of C1.
\<close>
theorem path_direct_first_window:
  assumes "path_inv m" and "ps_direct_first (pm_state m) = Some w" and "\<not> dfw_released w"
    and "\<forall>e \<in> set es. holds_window w e"
  shows "ps_direct_first (pm_state (foldl path_apply m es)) = Some w
    \<and> \<not> is_relay_active (pm_state (foldl path_apply m es))"
proof -
  have w: "ps_direct_first (pm_state (foldl path_apply m es)) = Some w"
    using assms(2-4) by (rule run_holds_window)
  moreover have "state_is_valid (pm_state (foldl path_apply m es))"
    using path.run_inv [OF assms(1)] by (simp add: path_inv_def)
  ultimately show ?thesis using assms(3) by (blast dest: valid_window_no_relay)
qed

section \<open>Where an active Direct path comes from\<close>

lemma edit_active_Direct:
  "ps_active (go_offline n) \<noteq> ABP_Direct v"
  "ps_active (set_projection_after_epoch_change n p ep) = ps_active n"
  "ps_active (suppress_pending_relay s n) = ABP_Direct v \<longleftrightarrow> ps_active n = ABP_Direct v"
  "ps_active (drop_active_relay s n r) = ABP_Direct v \<Longrightarrow> ps_active n = ABP_Direct v"
  "ps_active (hole_punching_if_unavailable n) = ps_active n"
  by (auto simp: path_edit_defs is_relay_active_def
      split: option.splits network_path.split active_business_path.splits if_splits)

lemma active_after_advance_Direct:
  "active_after_network_advance a d r = ABP_Direct v \<Longrightarrow>
     (\<exists>w. a = ABP_Direct w) \<and> d = DPS_Committed v"
  by (auto simp: active_after_network_advance_def relay_or_unavailable_def
      split: active_business_path.splits direct_path_state.splits option.splits)

definition carried_over :: "path_event \<Rightarrow> path_state \<Rightarrow> direct_validation_identity \<Rightarrow> bool" where
  "carried_over e s v \<longleftrightarrow>
     (\<exists>w ep. ps_active s = ABP_Direct w \<and> v = dv_with_epoch w ep
        \<and> ((\<exists>r. e = NetworkGenerationAdvanced ep r \<and> keeps_direct r)
           \<or> e = RemoteCandidateEpochAdvanced ep RetainCommitted))"

definition freshly_acknowledged ::
  "path_event \<Rightarrow> path_state \<Rightarrow> direct_validation_identity \<Rightarrow> bool" where
  "freshly_acknowledged e s v \<longleftrightarrow>
     e = DirectCommitted v
     \<and> (\<exists>w. ps_direct s = DPS_Validating w \<and> same_validation_request w v)
     \<and> (\<exists>observed. dv_endpoint_evidence v = AuthenticatedAck observed)"

lemma edit_other_fields [simp]:
  "ps_direct (set_projection_after_epoch_change n p ep) = ps_direct n"
  "ps_direct (suppress_pending_relay s n) = ps_direct n"
  "ps_relay (set_projection_after_epoch_change n p ep) = ps_relay n"
  "ps_relay (suppress_pending_relay s n) = ps_relay n"
  "ps_epoch (set_projection_after_epoch_change n p ep) = ps_epoch n"
  "ps_epoch (suppress_pending_relay s n) = ps_epoch n"
  "ps_lifecycle (set_projection_after_epoch_change n p ep) = ps_lifecycle n"
  "ps_lifecycle (suppress_pending_relay s n) = ps_lifecycle n"
  by (auto simp: path_edit_defs split: option.split network_path.split)

text \<open>What an epoch advance that moves the machine makes of the state.\<close>

definition advanced ::
  "path_state \<Rightarrow> path_state \<Rightarrow> path_epoch \<Rightarrow> relay_path_state \<Rightarrow> direct_path_state \<Rightarrow> bool" where
  "advanced s n ep relay direct \<longleftrightarrow>
     ps_lifecycle s = Online \<and> ps_lifecycle n = Online
     \<and> ps_epoch n = Some ep \<and> ps_relay n = relay \<and> ps_direct n = direct
     \<and> (ps_active n = active_after_network_advance (ps_active s) direct relay
        \<or> ps_active n = ABP_Unavailable)"

lemma suppress_pending_relay_active:
  "ps_active (suppress_pending_relay s n) =
     (if direct_first_pending s \<and> is_relay_active n then ABP_Unavailable else ps_active n)"
  by (simp add: suppress_pending_relay_def)

lemma network_advance_advanced:
  assumes "reduce_network_advance s s ep r = Inr n" and "n \<noteq> s"
  shows "advanced s n ep
    (if keeps_relay r then relay_with_epoch (ps_relay s) ep else RPS_Unavailable)
    (if keeps_direct r then with_epoch_if_committed (ps_direct s) ep else DPS_Idle)"
  using assms
  by (auto simp: suppress_pending_relay_active reduce_network_advance_def bind_res_eq_Inr Let_def advanced_def
      edit_active_Direct(2) online_epoch_Inr split: if_splits)

lemma candidate_advance_advanced:
  assumes "reduce_remote_candidate_advance s s ep c = Inr n" and "n \<noteq> s"
  shows "advanced s n ep (relay_with_epoch (ps_relay s) ep)
    (case c of RetainCommitted \<Rightarrow> with_epoch_if_committed (ps_direct s) ep | Invalidate \<Rightarrow> DPS_Idle)"
  using assms
  by (auto simp: suppress_pending_relay_active reduce_remote_candidate_advance_def bind_res_eq_Inr Let_def advanced_def
      edit_active_Direct(2) online_epoch_Inr split: if_splits)

lemma advanced_Direct:
  assumes "advanced s n ep relay direct" and "ps_active n = ABP_Direct v"
    and "direct = with_epoch_if_committed (ps_direct s) ep \<or> direct = DPS_Idle"
    and "state_is_valid s"
  shows "\<exists>w. ps_active s = ABP_Direct w \<and> v = dv_with_epoch w ep
    \<and> direct = with_epoch_if_committed (ps_direct s) ep \<and> direct \<noteq> DPS_Idle"
proof -
  from assms(1,2) have "active_after_network_advance (ps_active s) direct relay = ABP_Direct v"
    by (auto simp: advanced_def)
  then obtain w where w: "ps_active s = ABP_Direct w" "direct = DPS_Committed v"
    using active_after_advance_Direct by blast
  with valid_Direct [OF assms(4) w(1)] assms(3) show ?thesis by auto
qed

lemma network_advance_Direct:
  assumes "reduce_network_advance s s ep r = Inr n" and "ps_active n = ABP_Direct v"
    and "ps_active s \<noteq> ABP_Direct v" and "state_is_valid s"
  shows "carried_over (NetworkGenerationAdvanced ep r) s v"
proof -
  have "n \<noteq> s" using assms by auto
  note adv = network_advance_advanced [OF assms(1) this]
  have "\<exists>w. ps_active s = ABP_Direct w \<and> v = dv_with_epoch w ep \<and> keeps_direct r"
    using advanced_Direct [OF adv assms(2) _ assms(4)] by (cases "keeps_direct r") auto
  then show ?thesis by (auto simp: carried_over_def)
qed

lemma candidate_advance_Direct:
  assumes "reduce_remote_candidate_advance s s ep c = Inr n" and "ps_active n = ABP_Direct v"
    and "ps_active s \<noteq> ABP_Direct v" and "state_is_valid s"
  shows "carried_over (RemoteCandidateEpochAdvanced ep c) s v"
proof -
  have "n \<noteq> s" using assms by auto
  note adv = candidate_advance_advanced [OF assms(1) this]
  have "\<exists>w. ps_active s = ABP_Direct w \<and> v = dv_with_epoch w ep \<and> c = RetainCommitted"
    using advanced_Direct [OF adv assms(2) _ assms(4)] by (cases c) auto
  then show ?thesis by (auto simp: carried_over_def)
qed

lemma committed_Direct:
  assumes "reduce_direct_committed s s w = Inr n" and "ps_active n = ABP_Direct v"
    and "ps_active s \<noteq> ABP_Direct v" and "dv_owner_token v \<noteq> None"
  shows "freshly_acknowledged (DirectCommitted w) s v"
  using assms
  by (auto simp: reduce_direct_committed_def freshly_acknowledged_def can_commit_def Let_def
      same_validation_request_def split: if_splits direct_path_state.splits option.splits
      direct_endpoint_evidence.splits)

lemma compatibility_Direct:
  assumes "reduce_compatibility_state s s ep st d re ri = Inr n" and "ps_active n = ABP_Direct v"
  shows "dv_owner_token v = None"
  using assms
  by (auto simp: reduce_compatibility_state_def compatibility_edit_def bind_res_eq_Inr Let_def
      dv_compatibility_def split: if_splits connection_state.splits)

lemma relay_handlers_no_new_Direct:
  "reduce_relay_ready s s r = Inr n \<Longrightarrow> ps_active n = ABP_Direct v \<Longrightarrow> ps_active s = ABP_Direct v"
  "reduce_relay_confirmed s s r = Inr n \<Longrightarrow> ps_active n = ABP_Direct v \<Longrightarrow> ps_active s = ABP_Direct v"
  "reduce_relay_usable s s r = Inr n \<Longrightarrow> ps_active n = ABP_Direct v \<Longrightarrow> ps_active s = ABP_Direct v"
  "reduce_relay_health_observed s s r = Inr n \<Longrightarrow> n = s"
  "reduce_relay_lost s s r = Inr n \<Longrightarrow> ps_active n = ABP_Direct v \<Longrightarrow> ps_active s = ABP_Direct v"
  "reduce_relay_path_failed s s r = Inr n \<Longrightarrow> ps_active n = ABP_Direct v \<Longrightarrow> ps_active s = ABP_Direct v"
  by (auto simp: reduce_relay_ready_def reduce_relay_confirmed_def reduce_relay_usable_def
      reduce_relay_health_observed_def reduce_relay_lost_def reduce_relay_path_failed_def
      is_direct_active_def Let_def dest: edit_active_Direct(4) split: if_splits option.splits)

lemma direct_probe_keeps_active [simp]:
  "ps_active (reduce_direct_probe_started s s ep a) = ps_active s"
  "ps_active (reduce_direct_probe_failed s s ep) = ps_active s"
  by (auto simp: reduce_direct_probe_started_def reduce_direct_probe_failed_def
      edit_active_Direct(5) Let_def split: direct_path_state.splits)

lemma direct_handlers_no_new_Direct:
  "reduce_direct_validation_started s s w = Inr n \<Longrightarrow> ps_active n = ps_active s"
  "ps_active (reduce_direct_path_failed s s ep) = ABP_Direct v \<Longrightarrow> ps_active s = ABP_Direct v"
  "reduce_direct_cancelled s s ep t = Inr n \<Longrightarrow> ps_active n = ps_active s"
  by (auto simp: reduce_direct_validation_started_def reduce_direct_path_failed_def
      reduce_direct_cancelled_def edit_active_Direct(5) Let_def split: if_splits option.splits direct_path_state.splits)

lemma lifecycle_handlers_no_new_Direct:
  "reduce_peer_online s s ep = Inr n \<Longrightarrow> ps_active n = ABP_Direct v \<Longrightarrow> ps_active s = ABP_Direct v"
  "reduce_peer_left s s ep = Inr n \<Longrightarrow> ps_active n \<noteq> ABP_Direct v"
  "reduce_direct_first_started s s ep now = Inr n \<Longrightarrow> ps_active n = ps_active s"
  "reduce_direct_first_deadline s s ep now = Inr n \<Longrightarrow> ps_active n = ABP_Direct v \<Longrightarrow>
     ps_active s = ABP_Direct v"
  "reduce_direct_first_satisfied s s w = Inr n \<Longrightarrow> ps_active n = ps_active s"
  by (auto simp: reduce_peer_online_def reduce_peer_left_def reduce_direct_first_started_def
      reduce_direct_first_deadline_def reduce_direct_first_satisfied_def bind_res_eq_Inr Let_def
      edit_active_Direct(1) online_state_def release_window_def
      split: if_splits option.splits)

lemmas no_new_Direct =
  relay_handlers_no_new_Direct direct_handlers_no_new_Direct lifecycle_handlers_no_new_Direct

lemma reduce_direct_provenance:
  assumes "reduce_event s s e = Inr n" and "ps_active n = ABP_Direct v"
    and "ps_active s \<noteq> ABP_Direct v" and "dv_owner_token v \<noteq> None" and "state_is_valid s"
  shows "freshly_acknowledged e s v \<or> carried_over e s v"
proof (cases e)
  case (NetworkGenerationAdvanced ep r)
  with assms show ?thesis by (auto dest: network_advance_Direct)
next
  case (RemoteCandidateEpochAdvanced ep c)
  with assms show ?thesis by (auto dest: candidate_advance_Direct)
next
  case (DirectCommitted w)
  with assms show ?thesis by (auto simp: bind_res_eq_Inr dest: committed_Direct)
next
  case (CompatibilityStateRequested ep st d re ri)
  with assms show ?thesis by (auto dest: compatibility_Direct)
qed (use assms(1-3) in \<open>auto simp: bind_res_eq_Inr unbound_state_def dest: no_new_Direct\<close>)

text \<open>
  C5: In a valid state (C1), an owned Direct path becomes active only by an authenticated
  acknowledgement of the very validation request in flight, or by carrying an active Direct path
  over an epoch advance that retains it.
\<close>
theorem path_direct_provenance:
  assumes "path_inv m" and "ps_active (pm_state (path_apply m e)) = ABP_Direct v"
    and "ps_active (pm_state m) \<noteq> ABP_Direct v" and "dv_owner_token v = Some owner"
  shows "(e = DirectCommitted v
       \<and> (\<exists>w. ps_direct (pm_state m) = DPS_Validating w \<and> same_validation_request w v)
       \<and> (\<exists>observed. dv_endpoint_evidence v = AuthenticatedAck observed))
    \<or> (\<exists>w ep. ps_active (pm_state m) = ABP_Direct w \<and> v = dv_with_epoch w ep
         \<and> ((\<exists>r. e = NetworkGenerationAdvanced ep r \<and> keeps_direct r)
            \<or> e = RemoteCandidateEpochAdvanced ep RetainCommitted))"
proof -
  have "pm_state (path_apply m e) \<noteq> pm_state m" using assms(2,3) by auto
  then obtain n where "reduce_event (pm_state m) (pm_state m) e = Inr n"
      and "pm_state (path_apply m e) = n"
    by (rule path_apply_stepE)
  with assms have "freshly_acknowledged e (pm_state m) v \<or> carried_over e (pm_state m) v"
    by (intro reduce_direct_provenance) (auto simp: path_inv_def)
  then show ?thesis by (simp add: freshly_acknowledged_def carried_over_def)
qed

end
