(* ===== verification/Path_Runs.thy ===== *)
theory Path_Runs
  imports Path_Props "HOL-Library.Option_ord" "HOL-Library.Product_Lexorder"
begin

text \<open>
  Properties of whole runs of the path-state machine: the epoch only moves forward, redelivered
  events are harmless, a Relay path survives Direct attempts, an offline peer stays offline, and
  the replay memory stays bounded and current.
\<close>

section \<open>The epoch only moves forward\<close>

text \<open>
  Epochs are ranked by peer session first, then by network generation, then by remote candidate
  epoch; a machine without an epoch ranks lowest.
\<close>

datatype epoch_rank = Epoch_Rank "path_epoch option"

fun rank_key :: "epoch_rank \<Rightarrow> (u64 \<times> u64 \<times> u64) option" where
  "rank_key (Epoch_Rank e) =
     map_option (\<lambda>e. (peer_session_generation e, network_generation e, remote_candidate_epoch e)) e"

lemma rank_key_inj: "rank_key a = rank_key b \<Longrightarrow> a = b"
  by (cases a; cases b; rename_tac x y; case_tac x; case_tac y) auto

instantiation epoch_rank :: linorder
begin

definition less_eq_epoch_rank :: "epoch_rank \<Rightarrow> epoch_rank \<Rightarrow> bool" where
  "less_eq_epoch_rank a b \<longleftrightarrow> rank_key a \<le> rank_key b"

definition less_epoch_rank :: "epoch_rank \<Rightarrow> epoch_rank \<Rightarrow> bool" where
  "less_epoch_rank a b \<longleftrightarrow> rank_key a < rank_key b"

instance
  by standard (auto simp: less_eq_epoch_rank_def less_epoch_rank_def intro: rank_key_inj)

end

definition epoch_rank_of :: "path_state \<Rightarrow> epoch_rank" where
  "epoch_rank_of s = Epoch_Rank (ps_epoch s)"

lemma epoch_rank_le:
  "Epoch_Rank None \<le> r"
  "Epoch_Rank (Some a) \<le> Epoch_Rank (Some b) \<longleftrightarrow>
     peer_session_generation a < peer_session_generation b
     \<or> peer_session_generation a = peer_session_generation b
       \<and> (network_generation a < network_generation b
          \<or> network_generation a = network_generation b
            \<and> remote_candidate_epoch a \<le> remote_candidate_epoch b)"
  by (auto simp: less_eq_epoch_rank_def)

lemma edit_epoch [simp]:
  "ps_epoch (go_offline n) = ps_epoch n"
  "ps_epoch (drop_active_relay s n r) = ps_epoch n"
  "ps_epoch (hole_punching_if_unavailable n) = ps_epoch n"
  "ps_epoch (compatibility_edit n ep st d re ri) = ps_epoch n"
  "ps_epoch (release_window n) = ps_epoch n"
  "ps_epoch (online_state e) = Some e"
  by (auto simp: path_edit_defs Let_def
      split: option.split network_path.split active_business_path.split connection_state.split)

lemma relay_handlers_epoch:
  "reduce_relay_ready s s r = Inr n \<Longrightarrow> ps_epoch n = ps_epoch s"
  "reduce_relay_confirmed s s r = Inr n \<Longrightarrow> ps_epoch n = ps_epoch s"
  "reduce_relay_usable s s r = Inr n \<Longrightarrow> ps_epoch n = ps_epoch s"
  "reduce_relay_health_observed s s r = Inr n \<Longrightarrow> ps_epoch n = ps_epoch s"
  "reduce_relay_lost s s r = Inr n \<Longrightarrow> ps_epoch n = ps_epoch s"
  "reduce_relay_path_failed s s r = Inr n \<Longrightarrow> ps_epoch n = ps_epoch s"
  by (auto simp: reduce_relay_ready_def reduce_relay_confirmed_def reduce_relay_usable_def
      reduce_relay_health_observed_def reduce_relay_lost_def reduce_relay_path_failed_def Let_def
      split: if_splits option.splits)

lemma direct_failures_epoch [simp]:
  "ps_epoch (reduce_direct_probe_started s s ep a) = ps_epoch s"
  "ps_epoch (reduce_direct_probe_failed s s ep) = ps_epoch s"
  "ps_epoch (reduce_direct_path_failed s s ep) = ps_epoch s"
  by (auto simp: reduce_direct_probe_started_def reduce_direct_probe_failed_def
      reduce_direct_path_failed_def Let_def split: direct_path_state.splits)

lemma direct_handlers_epoch:
  "reduce_direct_validation_started s s w = Inr n \<Longrightarrow> ps_epoch n = ps_epoch s"
  "reduce_direct_committed s s w = Inr n \<Longrightarrow> ps_epoch n = ps_epoch s"
  "reduce_direct_cancelled s s ep t = Inr n \<Longrightarrow> ps_epoch n = ps_epoch s"
  by (auto simp: reduce_direct_validation_started_def reduce_direct_committed_def
      reduce_direct_cancelled_def Let_def
      split: if_splits option.splits direct_path_state.splits)

lemma window_handlers_epoch:
  "reduce_direct_first_started s s ep now = Inr n \<Longrightarrow> ps_epoch n = ps_epoch s"
  "reduce_direct_first_deadline s s ep now = Inr n \<Longrightarrow> ps_epoch n = ps_epoch s"
  "reduce_direct_first_satisfied s s w = Inr n \<Longrightarrow> ps_epoch n = ps_epoch s"
  by (auto simp: reduce_direct_first_started_def reduce_direct_first_deadline_def
      reduce_direct_first_satisfied_def bind_res_eq_Inr Let_def
      split: if_splits option.splits)

lemma lifecycle_handlers_epoch:
  "reduce_peer_online s s ep = Inr n \<Longrightarrow> epoch_rank_of s \<le> epoch_rank_of n"
  "reduce_peer_left s s ep = Inr n \<Longrightarrow> state_is_valid s \<Longrightarrow> epoch_rank_of s \<le> epoch_rank_of n"
  "reduce_network_advance s s ep ret = Inr n \<Longrightarrow> epoch_rank_of s \<le> epoch_rank_of n"
  "reduce_remote_candidate_advance s s ep c = Inr n \<Longrightarrow> epoch_rank_of s \<le> epoch_rank_of n"
  "reduce_compatibility_state s s ep st d re ri = Inr n \<Longrightarrow> state_is_valid s \<Longrightarrow>
     epoch_rank_of s \<le> epoch_rank_of n"
  by (auto simp: reduce_peer_online_def reduce_peer_left_def reduce_network_advance_def
      reduce_remote_candidate_advance_def reduce_compatibility_state_def bind_res_eq_Inr Let_def
      epoch_rank_of_def epoch_rank_le path_guards state_is_valid_def
      split: if_splits option.splits)

lemmas handlers_epoch =
  relay_handlers_epoch direct_handlers_epoch window_handlers_epoch

lemma reduce_event_rank:
  assumes "reduce_event s s e = Inr n" and "state_is_valid s" and "e \<noteq> IdentityReset"
  shows "epoch_rank_of s \<le> epoch_rank_of n"
proof -
  consider "ps_epoch n = ps_epoch s" | "epoch_rank_of s \<le> epoch_rank_of n"
    using assms
    by (cases e) (auto simp: bind_res_eq_Inr dest: handlers_epoch lifecycle_handlers_epoch)
  then show ?thesis by cases (auto simp: epoch_rank_of_def)
qed

interpretation path_rank: monotone_machine path_apply path_inv
  "\<lambda>m. epoch_rank_of (pm_state m)" "\<lambda>e. e \<noteq> IdentityReset"
  by unfold_locales
    (auto simp: path_inv_def path_apply_state intro: reduce_event_rank split: sum.split)

text \<open>
  Without an identity reset the epoch of the machine never moves back in the order of peer
  session, network generation, remote candidate epoch.
\<close>
theorem path_epoch_forward:
  assumes "path_inv m" and "IdentityReset \<notin> set es"
    and "ps_epoch (pm_state m) = Some before"
  shows "\<exists>after. ps_epoch (pm_state (foldl path_apply m es)) = Some after
    \<and> (peer_session_generation before < peer_session_generation after
       \<or> peer_session_generation before = peer_session_generation after
         \<and> (network_generation before < network_generation after
            \<or> network_generation before = network_generation after
              \<and> remote_candidate_epoch before \<le> remote_candidate_epoch after))"
proof -
  have "\<forall>e \<in> set es. e \<noteq> IdentityReset" using assms(2) by auto
  then have "Epoch_Rank (Some before) \<le> epoch_rank_of (pm_state (foldl path_apply m es))"
    using path_rank.run_rank [OF assms(1)] assms(3) by (auto simp: epoch_rank_of_def)
  then show ?thesis
    by (cases "ps_epoch (pm_state (foldl path_apply m es))")
      (auto simp: epoch_rank_of_def epoch_rank_le, simp add: less_eq_epoch_rank_def)
qed

section \<open>Redelivered events\<close>

definition has_receipt :: "path_event \<Rightarrow> bool" where
  "has_receipt e \<longleftrightarrow> idempotency_receipt e \<noteq> None \<or> observation_identity e \<noteq> None"

lemma lifecycle_idempotent:
  "reduce_peer_online s s ep = Inr n \<Longrightarrow> state_is_valid s \<Longrightarrow> reduce_peer_online n n ep = Inr n"
  by (auto simp: reduce_peer_online_def online_state_def state_is_valid_def
      split: if_splits option.splits)

lemma network_advance_idempotent:
  assumes "reduce_network_advance s s ep r = Inr n"
  shows "reduce_network_advance n n ep r = Inr n"
proof (cases "n = s")
  case True
  with assms show ?thesis by simp
next
  case False
  with network_advance_advanced [OF assms]
  have "ps_lifecycle n = Online" "ps_epoch n = Some ep" by (auto simp: advanced_def)
  then show ?thesis by (simp add: reduce_network_advance_def online_epoch_def)
qed

lemma window_after_relay_edit [simp]:
  "direct_first_pending (s\<lparr>ps_relay := x\<rparr>) = direct_first_pending s"
  "direct_first_pending (s\<lparr>ps_active := a\<rparr>) = direct_first_pending s"
  "direct_first_pending (s\<lparr>ps_recovery := y\<rparr>) = direct_first_pending s"
  "direct_first_pending (s\<lparr>ps_compatibility_state := c\<rparr>) = direct_first_pending s"
  by (simp_all add: direct_first_pending_def)

lemma is_direct_active_simps [simp]:
  "is_direct_active (s\<lparr>ps_relay := x\<rparr>) = is_direct_active s"
  "is_direct_active (s\<lparr>ps_recovery := y\<rparr>) = is_direct_active s"
  "is_direct_active (s\<lparr>ps_compatibility_state := c\<rparr>) = is_direct_active s"
  "\<not> is_direct_active (s\<lparr>ps_active := ABP_Relay r\<rparr>)"
  by (simp_all add: is_direct_active_def)

definition confirm_relay :: "relay_path_state \<Rightarrow> relay_connection_identity \<Rightarrow> relay_path_state" where
  "confirm_relay relay r = (case relay of
       RPS_Usable current \<Rightarrow> if same_transport current r then RPS_Usable r else RPS_Confirmed r
     | _ \<Rightarrow> RPS_Confirmed r)"

lemma confirm_relay_simps [simp]:
  "confirm_relay (confirm_relay x r) r = confirm_relay x r"
  "relay_identity (confirm_relay x r) = Some r"
  by (simp_all add: confirm_relay_def split: relay_path_state.split)

definition activate_relay :: "path_state \<Rightarrow> relay_connection_identity \<Rightarrow> path_state" where
  "activate_relay n r =
     (let n2 = n\<lparr>ps_active := ABP_Relay r, ps_compatibility_state := CS_Relay\<rparr>
      in if direct_in_flight (ps_direct n2) then n2 else n2\<lparr>ps_recovery := Stable\<rparr>)"

lemma reduce_relay_confirmed_alt:
  "reduce_relay_confirmed s s r =
     (if \<exists>current. relay_identity (ps_relay s) = Some current \<and> \<not> same_transport current r
      then Inl RejectedRelayConnectionIdentity
      else Inr (if \<not> is_direct_active s \<and> \<not> direct_first_pending s
                then activate_relay (s\<lparr>ps_relay := confirm_relay (ps_relay s) r\<rparr>) r
                else s\<lparr>ps_relay := confirm_relay (ps_relay s) r\<rparr>))"
  by (simp add: reduce_relay_confirmed_def confirm_relay_def activate_relay_def Let_def
      split: option.split)

lemma activate_relay_simps [simp]:
  "ps_relay (activate_relay n r) = ps_relay n"
  "direct_first_pending (activate_relay n r) = direct_first_pending n"
  "is_direct_active (activate_relay n r) = False"
  "(activate_relay n r)\<lparr>ps_relay := ps_relay n\<rparr> = activate_relay n r"
  "activate_relay (activate_relay n r) r = activate_relay n r"
  by (simp_all add: activate_relay_def Let_def)

lemma relay_confirmed_idempotent:
  assumes "reduce_relay_confirmed s s r = Inr n"
  shows "reduce_relay_confirmed n n r = Inr n"
proof -
  have same: "(s\<lparr>ps_relay := x\<rparr>)\<lparr>ps_relay := x\<rparr> = s\<lparr>ps_relay := x\<rparr>" for x by simp
  have n: "n = (if \<not> is_direct_active s \<and> \<not> direct_first_pending s
      then activate_relay (s\<lparr>ps_relay := confirm_relay (ps_relay s) r\<rparr>) r
      else s\<lparr>ps_relay := confirm_relay (ps_relay s) r\<rparr>)"
    using assms unfolding reduce_relay_confirmed_alt
    by (cases "\<not> is_direct_active s \<and> \<not> direct_first_pending s") (auto split: if_split_asm)
  have act: "(activate_relay (s\<lparr>ps_relay := x\<rparr>) r)\<lparr>ps_relay := x\<rparr>
      = activate_relay (s\<lparr>ps_relay := x\<rparr>) r" for x
    using activate_relay_simps(4) [of "s\<lparr>ps_relay := x\<rparr>" r] by simp
  show ?thesis unfolding n reduce_relay_confirmed_alt by (simp add: act)
qed

lemma relay_usable_idempotent:
  "reduce_relay_usable s s r = Inr n \<Longrightarrow> reduce_relay_usable n n r = Inr n"
  by (auto simp: reduce_relay_usable_def is_direct_active_def direct_first_pending_def Let_def
      split: if_splits option.splits active_business_path.splits)

lemma relay_health_idempotent:
  "reduce_relay_health_observed s s r = Inr n \<Longrightarrow> reduce_relay_health_observed n n r = Inr n"
  by (auto simp: reduce_relay_health_observed_def split: if_splits option.splits)

lemmas relay_idempotent =
  relay_confirmed_idempotent relay_usable_idempotent relay_health_idempotent

lemma committed_idempotent:
  "reduce_direct_committed s s v = Inr n \<Longrightarrow> reduce_direct_committed n n v = Inr n"
  by (auto simp: reduce_direct_committed_def Let_def
      split: if_splits option.splits direct_path_state.splits)

lemma relay_handlers_lifecycle:
  "reduce_relay_confirmed s s r = Inr n \<Longrightarrow> ps_lifecycle n = ps_lifecycle s"
  "reduce_relay_usable s s r = Inr n \<Longrightarrow> ps_lifecycle n = ps_lifecycle s"
  "reduce_relay_health_observed s s r = Inr n \<Longrightarrow> ps_lifecycle n = ps_lifecycle s"
  "reduce_direct_committed s s v = Inr n \<Longrightarrow> ps_lifecycle n = ps_lifecycle s"
  by (auto simp: reduce_relay_confirmed_def reduce_relay_usable_def
      reduce_relay_health_observed_def reduce_direct_committed_def Let_def
      split: if_splits option.splits direct_path_state.splits)

lemma reduce_event_idempotent:
  assumes "reduce_event s s e = Inr n" and "has_receipt e" and "state_is_valid s"
  shows "reduce_event n n e = Inr n"
  using assms
  by (cases e)
    (auto simp: has_receipt_def path_guards relay_handlers_lifecycle relay_handlers_epoch
      direct_handlers_epoch
      intro: lifecycle_idempotent network_advance_idempotent relay_idempotent
        committed_idempotent)

lemma trim_front_last: "0 < n \<Longrightarrow> x \<in> set (trim_front n (xs @ [x]))"
  by (cases n) (auto simp: trim_front_drop)

lemma commit_remembers:
  assumes "applies_side_effects (path_decision m e)" and "has_receipt e"
  shows "already_accepted (path_apply m e) e"
  using assms
  by (auto simp: path_decision_def path_apply_def path_reduce_def inert_transition_def
      path_commit_def commit_decision_def Let_def already_accepted_def has_receipt_def
      commit_receipts_def commit_observations_def MAX_ACCEPTED_HEALTH_OBSERVATIONS_def
      trim_front_last dest: reduce_event_Inl applies_side_effects_accepted
      split: sum.splits if_splits option.splits)

lemma side_effects_state:
  assumes "applies_side_effects (path_decision m e)"
  shows "reduce_event (pm_state m) (pm_state m) e = Inr (pm_state (path_apply m e))
    \<and> state_is_valid (pm_state (path_apply m e))"
  using assms
  by (auto simp: path_decision_def path_apply_def path_reduce_def inert_transition_def
      path_commit_def commit_decision_def Let_def
      dest: reduce_event_Inl applies_side_effects_accepted
      split: sum.splits if_splits)

lemma redelivered_once:
  assumes "path_inv m" and "applies_side_effects (path_decision m e)" and "has_receipt e"
  shows "path_commit (path_apply m e) (path_reduce (path_apply m e) e) =
    (path_apply m e,
     \<lparr>po_decision = Duplicate, po_previous = pm_state (path_apply m e),
      po_snapshot = path_machine_snapshot (path_apply m e), po_actions = []\<rparr>)"
proof -
  let ?m = "path_apply m e"
  from side_effects_state [OF assms(2)]
  have red: "reduce_event (pm_state m) (pm_state m) e = Inr (pm_state ?m)"
    and valid: "state_is_valid (pm_state ?m)" by auto
  have "reduce_event (pm_state ?m) (pm_state ?m) e = Inr (pm_state ?m)"
    using reduce_event_idempotent [OF red assms(3)] assms(1) by (simp add: path_inv_def)
  with valid commit_remembers [OF assms(2,3)]
  have "path_reduce ?m e = inert_transition ?m Duplicate" by (simp add: path_reduce_def)
  then show ?thesis by (simp add: path_commit_def commit_decision_def inert_transition_def Let_def)
qed

text \<open>
  An event with a receipt that had its effect may be redelivered any number of times at once:
  each is a Duplicate without actions and the machine does not change.
\<close>
theorem path_redelivery_harmless:
  assumes "path_inv m" and "applies_side_effects (path_decision m e)"
    and "idempotency_receipt e \<noteq> None \<or> observation_identity e \<noteq> None"
  shows "foldl path_apply (path_apply m e) (replicate k e) = path_apply m e
    \<and> path_decision (path_apply m e) e = Duplicate
    \<and> po_actions (snd (path_commit (path_apply m e) (path_reduce (path_apply m e) e))) = []"
proof -
  note once = redelivered_once [OF assms(1,2), unfolded has_receipt_def, OF assms(3)]
  then have "path_apply (path_apply m e) e = path_apply m e" by (simp add: path_apply_def)
  then have "foldl path_apply (path_apply m e) (replicate k e) = path_apply m e"
    by (induction k) simp_all
  with once show ?thesis by (simp add: path_decision_def)
qed

section \<open>A Relay path survives Direct attempts\<close>

text \<open>The events of a Direct attempt that has not been acknowledged.\<close>

fun direct_attempt :: "path_event \<Rightarrow> bool" where
  "direct_attempt (DirectProbeStarted _ _) = True"
| "direct_attempt (DirectRetryScheduled _ _) = True"
| "direct_attempt (DirectValidationStarted _) = True"
| "direct_attempt (DirectProbeFailed _) = True"
| "direct_attempt (DirectPathFailed _) = True"
| "direct_attempt (DirectAttemptCancelled _ _) = True"
| "direct_attempt _ = False"

definition carries_relay :: "path_state \<Rightarrow> relay_path_state \<Rightarrow> relay_connection_identity \<Rightarrow> bool" where
  "carries_relay s relay r \<longleftrightarrow>
     ps_active s = ABP_Relay r \<and> ps_relay s = relay \<and> ps_compatibility_state s = CS_Relay"

lemma attempt_keeps_relay:
  assumes "carries_relay s relay r"
  shows "carries_relay (reduce_direct_probe_started s s ep a) relay r"
    and "carries_relay (reduce_direct_probe_failed s s ep) relay r"
    and "carries_relay (reduce_direct_path_failed s s ep) relay r"
    and "reduce_direct_validation_started s s v = Inr n \<Longrightarrow> carries_relay n relay r"
    and "reduce_direct_cancelled s s ep t = Inr n \<Longrightarrow> carries_relay n relay r"
  using assms
  by (auto simp: carries_relay_def reduce_direct_probe_started_def reduce_direct_probe_failed_def
      reduce_direct_path_failed_def reduce_direct_validation_started_def
      reduce_direct_cancelled_def hole_punching_if_unavailable_def is_direct_active_def
      is_relay_active_def Let_def split: direct_path_state.splits if_splits)

lemma reduce_attempt_keeps_relay:
  assumes "reduce_event s s e = Inr n" and "direct_attempt e" and "carries_relay s relay r"
  shows "carries_relay n relay r"
  using assms by (cases e) (auto simp: bind_res_eq_Inr intro: attempt_keeps_relay)

lemma apply_keeps_relay:
  "carries_relay (pm_state m) relay r \<Longrightarrow> direct_attempt e \<Longrightarrow>
     carries_relay (pm_state (path_apply m e)) relay r"
  by (auto simp: path_apply_state intro: reduce_attempt_keeps_relay split: sum.split)

lemma run_keeps_relay:
  assumes "carries_relay (pm_state m) relay r" and "\<forall>e \<in> set es. direct_attempt e"
  shows "carries_relay (pm_state (foldl path_apply m es)) relay r"
  using assms by (induction es arbitrary: m) (auto intro: apply_keeps_relay)

text \<open>
  While a Relay path carries business, Direct probes, validations, failures and cancellations
  that are not acknowledged leave it active and confirmed.
\<close>
theorem path_relay_survives_direct_attempts:
  assumes "path_inv m" and "ps_active (pm_state m) = ABP_Relay r"
    and "\<forall>e \<in> set es. direct_attempt e"
  shows "ps_active (pm_state (foldl path_apply m es)) = ABP_Relay r
    \<and> confirmed_identity (ps_relay (pm_state (foldl path_apply m es))) = Some r
    \<and> ps_compatibility_state (pm_state (foldl path_apply m es)) = CS_Relay"
proof -
  have v: "confirmed_identity (ps_relay (pm_state m)) = Some r"
      "ps_compatibility_state (pm_state m) = CS_Relay"
    using valid_Relay [OF _ assms(2)] assms(1) by (auto simp: path_inv_def)
  then have "carries_relay (pm_state m) (ps_relay (pm_state m)) r"
    using assms(2) by (simp add: carries_relay_def)
  from run_keeps_relay [OF this assms(3)] v(1) show ?thesis by (simp add: carries_relay_def)
qed

section \<open>An offline peer stays offline\<close>

fun revives :: "path_epoch \<Rightarrow> path_event \<Rightarrow> bool" where
  "revives current (PeerOnline ep) =
     (peer_session_generation current < peer_session_generation ep)"
| "revives current IdentityReset = True"
| "revives current _ = False"

lemma offline_guards:
  "ps_lifecycle s = Offline \<Longrightarrow> validate_exact_epoch s ep = Inl RejectedPeerOffline"
  "ps_lifecycle s = Offline \<Longrightarrow> online_epoch s = Inl RejectedPeerOffline"
  by (simp_all add: validate_exact_epoch_def online_epoch_def)

lemma offline_fixed:
  assumes "ps_lifecycle s = Offline" and "state_is_valid s"
  shows "go_offline s = s" and "ps_relay s = RPS_Unavailable"
  using assms by (auto simp: go_offline_def state_is_valid_def split: if_splits)

lemma reduce_offline:
  assumes "reduce_event s s e = Inr n" and "ps_lifecycle s = Offline"
    and "ps_epoch s = Some current" and "state_is_valid s" and "\<not> revives current e"
  shows "n = s"
  using assms offline_fixed [OF assms(2,4)]
  by (cases e) (auto simp: bind_res_eq_Inr offline_guards reduce_direct_first_started_def
      reduce_direct_first_deadline_def reduce_direct_first_satisfied_def reduce_peer_online_def
      reduce_peer_left_def reduce_network_advance_def reduce_remote_candidate_advance_def
      reduce_relay_lost_def reduce_compatibility_state_def split: if_splits)

text \<open>
  After a peer has left, no event but an identity reset or the online event of a newer peer
  session changes its state, and no path is active.
\<close>
theorem path_offline_is_fenced:
  assumes "path_inv m" and "ps_lifecycle (pm_state m) = Offline"
    and "ps_epoch (pm_state m) = Some current" and "\<forall>e \<in> set es. \<not> revives current e"
  shows "pm_state (foldl path_apply m es) = pm_state m
    \<and> ps_active (pm_state (foldl path_apply m es)) = ABP_Unavailable"
proof -
  have "pm_state (foldl path_apply m es) = pm_state m"
    using assms
  proof (induction es arbitrary: m)
    case (Cons e es)
    have "pm_state (path_apply m e) = pm_state m"
      using Cons.prems
      by (auto simp: path_apply_state path_inv_def dest: reduce_offline split: sum.split)
    with Cons.prems show ?case by (simp add: Cons.IH path.step_inv)
  qed simp
  with assms(1,2) show ?thesis by (auto simp: path_inv_def state_is_valid_def split: if_splits)
qed

end
