(* ===== verification/Path_Service.thy ===== *)
theory Path_Service
  imports Path_Runs
begin

text \<open>
  What the path-state machine does for its peer: an acknowledged Direct validation carries
  traffic, a failed Direct path falls back to a confirmed Relay, the deadline releases a
  confirmed Relay; and the replay memory the machine keeps for this stays bounded and current.
\<close>

section \<open>Service\<close>

lemma path_apply_applied:
  assumes "reduce_event (pm_state m) (pm_state m) e = Inr n" and "state_is_valid n"
    and "\<not> already_accepted m e" and "n \<noteq> pm_state m"
  shows "path_decision m e = Applied \<and> pm_state (path_apply m e) = n
    \<and> po_actions (snd (path_commit m (path_reduce m e))) = path_actions (pm_state m) n
    \<and> pm_accepted_event_receipts (path_apply m e) =
        (let r = filter (\<lambda>r. remains_current r n)
                   (if is_relay_path_failed e
                    then filter (\<lambda>r. \<not> receipt_is_relay r) (pm_accepted_event_receipts m)
                    else pm_accepted_event_receipts m)
         in case idempotency_receipt e of None \<Rightarrow> r | Some x \<Rightarrow> r @ [x])"
  using assms
  by (simp add: path_decision_def path_apply_def path_reduce_def path_commit_def
      commit_decision_def commit_receipts_def Let_def)

lemma validating_not_committed_receipt:
  "ps_direct n = DPS_Validating w \<Longrightarrow> \<not> remains_current (Rcpt_DirectCommitted v) n"
  by (simp add: remains_current_def)

lemma state_is_valid_online:
  "ps_lifecycle s = Online \<Longrightarrow> ps_epoch s = Some ep \<Longrightarrow>
     state_is_valid s \<longleftrightarrow> \<not> (direct_first_pending s \<and> is_relay_active s)
       \<and> epoch_matches ep (map_option rc_epoch (relay_identity (ps_relay s)))
       \<and> epoch_matches ep (direct_epoch (ps_direct s))
       \<and> epoch_matches ep (recovery_epoch (ps_recovery s)) \<and> active_is_valid s"
  by (simp add: state_is_valid_def)

lemma exact_epoch_online:
  "ps_lifecycle s = Online \<Longrightarrow> ps_epoch s = Some ep \<Longrightarrow> validate_exact_epoch s ep = Inr ()"
  by (simp add: validate_exact_epoch_def online_epoch_def validate_epoch_values_def)

lemma epoch_matches_simps [simp]: "epoch_matches ep None" "epoch_matches ep (Some e) = (e = ep)"
  by (simp_all add: epoch_matches_def)

lemma window_edits [simp]:
  "direct_first_pending (s\<lparr>ps_direct := d\<rparr>) = direct_first_pending s"
  "is_relay_active (s\<lparr>ps_direct := d\<rparr>) = is_relay_active s"
  "is_relay_active (s\<lparr>ps_recovery := r\<rparr>) = is_relay_active s"
  "is_relay_active (s\<lparr>ps_compatibility_state := c\<rparr>) = is_relay_active s"
  "\<not> is_relay_active (s\<lparr>ps_active := ABP_Direct v\<rparr>)"
  "\<not> is_relay_active (s\<lparr>ps_active := ABP_Unavailable\<rparr>)"
  by (simp_all add: direct_first_pending_def is_relay_active_def)

lemma start_validation_state:
  assumes "state_is_valid s" and "ps_lifecycle s = Online" and "ps_epoch s = Some (dv_epoch v)"
    and "ps_direct s = DPS_Idle" and "can_start_validation v"
  shows "\<exists>n. reduce_event s s (DirectValidationStarted v) = Inr n \<and> state_is_valid n
    \<and> ps_direct n = DPS_Validating v \<and> ps_lifecycle n = Online \<and> ps_epoch n = ps_epoch s"
proof -
  let ?n = "hole_punching_if_unavailable (s\<lparr>ps_direct := DPS_Validating v,
    ps_recovery := Recovering (dv_epoch v) NP_Direct
      (case dv_owner_token v of None \<Rightarrow> 0 | Some t \<Rightarrow> t)\<rparr>)"
  have "reduce_event s s (DirectValidationStarted v) = Inr ?n"
    using assms by (simp add: exact_epoch_online reduce_direct_validation_started_def)
  moreover have "active_is_valid s" and "epoch_matches (dv_epoch v)
      (map_option rc_epoch (relay_identity (ps_relay s)))"
      and "\<not> (direct_first_pending s \<and> is_relay_active s)"
    using assms(1) state_is_valid_online [OF assms(2,3)] by simp_all
  with assms(2-4) have "state_is_valid ?n"
    by (cases "ps_active s") (simp_all add: state_is_valid_online hole_punching_if_unavailable_def
        active_is_valid_def direct_epoch_def recovery_epoch_def)
  ultimately show ?thesis
    using assms(2,3) by (auto simp: hole_punching_if_unavailable_def)
qed

lemma commit_validation_state:
  assumes "state_is_valid s" and "ps_lifecycle s = Online" and "ps_epoch s = Some (dv_epoch v)"
    and "ps_direct s = DPS_Validating w" and "same_validation_request w v" and "can_commit v"
  shows "\<exists>n. reduce_event s s (DirectCommitted v) = Inr n \<and> state_is_valid n
    \<and> ps_direct n = DPS_Committed v \<and> ps_active n = ABP_Direct v \<and> ps_recovery n = Stable"
proof -
  let ?n = "s\<lparr>ps_direct := DPS_Committed v, ps_active := ABP_Direct v, ps_recovery := Stable,
    ps_compatibility_state := CS_Direct\<rparr>"
  have "reduce_event s s (DirectCommitted v) = Inr ?n"
    using assms by (simp add: exact_epoch_online reduce_direct_committed_def)
  moreover have "state_is_valid ?n"
    using assms(1-3) by (simp add: state_is_valid_online active_is_valid_def direct_epoch_def
        recovery_epoch_def)
  ultimately show ?thesis by auto
qed

text \<open>
  C6: On an online peer in a valid state (C1) with no Direct attempt running, starting a
  validation and committing its authenticated acknowledgement right after are both applied, the
  old path stays active in between, and Direct is active at the observed endpoint afterwards.
\<close>
theorem path_acknowledged_direct_goes_live:
  assumes "path_inv m" and "ps_lifecycle (pm_state m) = Online"
    and "ps_epoch (pm_state m) = Some ep" and "ps_direct (pm_state m) = DPS_Idle"
    and "v = dv_owned ep owner (Some request) requested"
    and "a = dv_authenticated_ack ep owner request requested observed"
  shows "let m1 = path_apply m (DirectValidationStarted v); m2 = path_apply m1 (DirectCommitted a)
    in path_decision m (DirectValidationStarted v) = Applied
      \<and> ps_active (pm_state m1) = ps_active (pm_state m)
      \<and> path_decision m1 (DirectCommitted a) = Applied
      \<and> ps_active (pm_state m2) = ABP_Direct a
      \<and> commit_endpoint a = Some observed \<and> ps_recovery (pm_state m2) = Stable"
proof -
  let ?s = "pm_state m" let ?m1 = "path_apply m (DirectValidationStarted v)"
  have v: "dv_epoch v = ep" "can_start_validation v" and a: "dv_epoch a = ep" "can_commit a"
      "same_validation_request v a" "commit_endpoint a = Some observed"
    using assms(5,6) by (simp_all add: dv_owned_def dv_authenticated_ack_def
        can_start_validation_def can_commit_def same_validation_request_def commit_endpoint_def)
  obtain n where n: "reduce_event ?s ?s (DirectValidationStarted v) = Inr n" "state_is_valid n"
      "ps_direct n = DPS_Validating v" "ps_lifecycle n = Online" "ps_epoch n = Some ep"
    using start_validation_state [of ?s v] assms(1-4) v by (auto simp: path_inv_def)
  have act: "ps_active n = ps_active ?s"
    using n(1) by (auto simp: bind_res_eq_Inr dest: direct_handlers_no_new_Direct(1))
  have "n \<noteq> ?s" using n(3) assms(4) by auto
  with path_apply_applied [OF n(1,2)] have m1:
      "path_decision m (DirectValidationStarted v) = Applied" "pm_state ?m1 = n"
      "pm_accepted_event_receipts ?m1 =
         filter (\<lambda>r. remains_current r n) (pm_accepted_event_receipts m)"
    by (simp_all add: already_accepted_def is_relay_path_failed_def)
  have fresh: "\<not> already_accepted ?m1 (DirectCommitted a)"
    using n(3) by (simp add: already_accepted_def m1(3) validating_not_committed_receipt)
  obtain k where k: "reduce_event n n (DirectCommitted a) = Inr k" "state_is_valid k"
      "ps_direct k = DPS_Committed a" "ps_active k = ABP_Direct a" "ps_recovery k = Stable"
    using commit_validation_state [of n a v] n a by auto
  have "k \<noteq> n" using k(3) n(3) by auto
  with path_apply_applied [of ?m1 "DirectCommitted a" k] k fresh m1(2)
  have "path_decision ?m1 (DirectCommitted a) = Applied"
      "pm_state (path_apply ?m1 (DirectCommitted a)) = k" by auto
  with m1 k act a(4) show ?thesis by (simp add: Let_def)
qed

lemma path_failed_state:
  assumes "state_is_valid s" and "ps_active s = ABP_Direct v"
  shows "reduce_event s s (DirectPathFailed (dv_epoch v)) =
      Inr (reduce_direct_path_failed s s (dv_epoch v))"
    and "state_is_valid (reduce_direct_path_failed s s (dv_epoch v))"
proof -
  note vd = valid_Direct [OF assms]
  then have on: "ps_lifecycle s = Online" "ps_epoch s = Some (dv_epoch v)" by simp_all
  then show "reduce_event s s (DirectPathFailed (dv_epoch v)) =
      Inr (reduce_direct_path_failed s s (dv_epoch v))"
    by (simp add: exact_epoch_online)
  have relay: "epoch_matches (dv_epoch v) (map_option rc_epoch (relay_identity (ps_relay s)))"
    using assms(1) on by (simp add: state_is_valid_online)
  show "state_is_valid (reduce_direct_path_failed s s (dv_epoch v))"
    using assms(2) on relay
    by (cases "confirmed_identity (ps_relay s)"; cases "direct_first_pending s")
      (simp_all add: state_is_valid_online reduce_direct_path_failed_def is_direct_active_def
        Let_def direct_epoch_def recovery_epoch_def active_is_valid_def)
qed

text \<open>
  When the active Direct path fails, business moves to the confirmed Relay if there is one and
  no direct-first window is open, and otherwise stops with the degraded recovery state; the
  switch is reported as an action.
\<close>
theorem path_direct_failover:
  assumes "path_inv m" and "ps_active (pm_state m) = ABP_Direct v"
  shows "let m' = path_apply m (DirectPathFailed (dv_epoch v)) in
    path_decision m (DirectPathFailed (dv_epoch v)) = Applied
    \<and> ps_direct (pm_state m') = DPS_Idle
    \<and> (if direct_first_pending (pm_state m) \<or> confirmed_identity (ps_relay (pm_state m)) = None
       then ps_active (pm_state m') = ABP_Unavailable
         \<and> ps_recovery (pm_state m') = Degraded (dv_epoch v) NP_Direct None
         \<and> ActivePath (Some NP_Direct) None
             \<in> set (path_actions (pm_state m) (pm_state m'))
       else ps_active (pm_state m') =
              ABP_Relay (the (confirmed_identity (ps_relay (pm_state m))))
         \<and> ps_recovery (pm_state m') = Degraded (dv_epoch v) NP_Direct (Some NP_Relay)
         \<and> ActivePath (Some NP_Direct) (Some NP_Relay)
             \<in> set (path_actions (pm_state m) (pm_state m')))"
proof -
  let ?s = "pm_state m"
  have valid: "state_is_valid ?s" using assms(1) by (simp add: path_inv_def)
  note vd = valid_Direct [OF valid assms(2)]
  note step = path_failed_state [OF valid assms(2)]
  have idle: "ps_direct (reduce_direct_path_failed ?s ?s (dv_epoch v)) = DPS_Idle"
    using assms(2) by (simp add: reduce_direct_path_failed_def is_direct_active_def Let_def)
  with vd have "reduce_direct_path_failed ?s ?s (dv_epoch v) \<noteq> ?s" by auto
  then have "path_decision m (DirectPathFailed (dv_epoch v)) = Applied
      \<and> pm_state (path_apply m (DirectPathFailed (dv_epoch v)))
        = reduce_direct_path_failed ?s ?s (dv_epoch v)"
    using path_apply_applied [OF step] by (simp add: already_accepted_def)
  then show ?thesis
    using idle assms(2)
    by (auto simp: Let_def reduce_direct_path_failed_def is_direct_active_def path_actions_def)
qed

lemma deadline_state:
  assumes "state_is_valid s" and "ps_lifecycle s = Online" and "ps_epoch s = Some ep"
    and "ps_direct_first s = Some w" and "\<not> dfw_released w" and "dfw_deadline w \<le> now"
    and "confirmed_identity (ps_relay s) = Some r" and "\<not> is_direct_active s"
  shows "\<exists>n. reduce_event s s (DirectFirstDeadline ep now) = Inr n \<and> state_is_valid n
    \<and> ps_active n = ABP_Relay r \<and> ps_direct_first n = Some (w\<lparr>dfw_released := True\<rparr>)"
proof -
  let ?n = "(release_window s)\<lparr>ps_active := ABP_Relay r, ps_compatibility_state := CS_Relay\<rparr>"
  have "reduce_event s s (DirectFirstDeadline ep now) = Inr ?n"
    using assms by (simp add: exact_epoch_online reduce_direct_first_deadline_def
        direct_first_deadline_due_def release_window_def is_direct_active_def)
  moreover have "epoch_matches ep (map_option rc_epoch (relay_identity (ps_relay s)))"
      "epoch_matches ep (direct_epoch (ps_direct s))"
      "epoch_matches ep (recovery_epoch (ps_recovery s))"
    using assms(1) state_is_valid_online [OF assms(2,3)] by simp_all
  with assms(2-4,7) have "state_is_valid ?n"
    by (simp add: state_is_valid_online active_is_valid_def release_window_def
        direct_first_pending_def)
  ultimately show ?thesis using assms(4) by (auto simp: release_window_def)
qed

text \<open>
  Once the direct-first deadline has passed without Direct, the deadline event makes the
  confirmed Relay active and closes the window.
\<close>
theorem path_deadline_releases_relay:
  assumes "path_inv m" and "ps_lifecycle (pm_state m) = Online"
    and "ps_epoch (pm_state m) = Some ep" and "ps_direct_first (pm_state m) = Some w"
    and "\<not> dfw_released w" and "dfw_deadline w \<le> now"
    and "confirmed_identity (ps_relay (pm_state m)) = Some r"
    and "\<forall>v. ps_active (pm_state m) \<noteq> ABP_Direct v"
  shows "path_decision m (DirectFirstDeadline ep now) = Applied
    \<and> ps_active (pm_state (path_apply m (DirectFirstDeadline ep now))) = ABP_Relay r
    \<and> direct_first_deadline (pm_state (path_apply m (DirectFirstDeadline ep now))) = None"
proof -
  let ?s = "pm_state m"
  have valid: "state_is_valid ?s" using assms(1) by (simp add: path_inv_def)
  have nd: "\<not> is_direct_active ?s"
    using assms(8) by (auto simp: is_direct_active_def split: active_business_path.splits)
  obtain n where n: "reduce_event ?s ?s (DirectFirstDeadline ep now) = Inr n" "state_is_valid n"
      "ps_active n = ABP_Relay r" "ps_direct_first n = Some (w\<lparr>dfw_released := True\<rparr>)"
    using deadline_state [OF valid assms(2-7) nd] by blast
  have "w\<lparr>dfw_released := True\<rparr> \<noteq> w" using assms(5) by (metis direct_first_window.select_convs(2)
        direct_first_window.surjective direct_first_window.update_convs(2))
  then have "n \<noteq> ?s" using n(4) assms(4) by auto
  with path_apply_applied [OF n(1,2)] n(3,4) show ?thesis
    by (simp add: already_accepted_def direct_first_deadline_def)
qed

section \<open>Replay memory\<close>

definition memory_ok :: "path_machine \<Rightarrow> bool" where
  "memory_ok m \<longleftrightarrow>
     distinct (pm_accepted_event_receipts m)
     \<and> (\<forall>r \<in> set (pm_accepted_event_receipts m). ps_epoch (pm_state m) = Some (receipt_epoch r))
     \<and> distinct (pm_accepted_observations m)
     \<and> length (pm_accepted_observations m) \<le> MAX_ACCEPTED_HEALTH_OBSERVATIONS"

lemma network_advance_epoch: "reduce_network_advance s s ep r = Inr n \<Longrightarrow> ps_epoch n = Some ep"
  by (auto simp: reduce_network_advance_def path_guards Let_def split: if_splits)

lemma receipt_is_current:
  assumes "reduce_event s s e = Inr n" and "idempotency_receipt e = Some r"
  shows "ps_epoch n = Some (receipt_epoch r)"
  using assms
  by (cases e) (auto simp: path_guards reduce_peer_online_def relay_handlers_epoch
    direct_handlers_epoch network_advance_epoch split: if_splits option.splits)

lemma observation_has_no_receipt:
  "observation_identity e = Some i \<Longrightarrow> idempotency_receipt e = None"
  by (cases e) auto

lemma commit_receipts_set:
  "set (commit_receipts m t d) \<subseteq> set (pm_accepted_event_receipts m) \<union> set_option (pt_receipt t)"
  by (auto simp: commit_receipts_def Let_def split: option.splits if_splits)

lemma commit_receipts_distinct:
  assumes "distinct (pm_accepted_event_receipts m)"
    and "set_option (pt_receipt t) \<inter> set (pm_accepted_event_receipts m) = {}"
  shows "distinct (commit_receipts m t d)"
  using assms by (auto simp: commit_receipts_def Let_def split: option.splits)

lemma commit_receipts_current:
  "r \<in> set (commit_receipts m t Applied) \<Longrightarrow> pt_receipt t \<noteq> Some r \<Longrightarrow>
     ps_epoch (pt_next t) = Some (receipt_epoch r)"
  by (auto simp: commit_receipts_def Let_def remains_current_def split: option.splits if_splits)

lemma commit_observations_ok:
  assumes "distinct (pm_accepted_observations m)"
    and "length (pm_accepted_observations m) \<le> MAX_ACCEPTED_HEALTH_OBSERVATIONS"
    and "set_option (pt_observation t) \<inter> set (pm_accepted_observations m) = {}"
  shows "distinct (commit_observations m t)
    \<and> length (commit_observations m t) \<le> MAX_ACCEPTED_HEALTH_OBSERVATIONS"
  using assms by (auto simp: commit_observations_def distinct_trim_front split: option.splits)

lemma path_apply_memory:
  "path_apply m e = m\<lparr>pm_rejected_transitions := pm_rejected_transitions (path_apply m e)\<rparr>
   \<or> (\<exists>n. reduce_event (pm_state m) (pm_state m) e = Inr n \<and> \<not> already_accepted m e
        \<and> pm_state (path_apply m e) = n
        \<and> pm_accepted_event_receipts (path_apply m e) =
            commit_receipts m (path_reduce m e)
              (if n = pm_state m then AcceptedObservation else Applied)
        \<and> pm_accepted_observations (path_apply m e) = commit_observations m (path_reduce m e)
        \<and> pt_next (path_reduce m e) = n
        \<and> pt_receipt (path_reduce m e) = idempotency_receipt e
        \<and> pt_observation (path_reduce m e) = observation_identity e)"
  by (auto simp: path_apply_def path_reduce_def path_commit_def commit_decision_def Let_def
      inert_transition_def accepted_def applies_side_effects_def dest: reduce_event_Inl
      split: sum.splits)

lemma memory_ok_step:
  assumes "memory_ok m"
  shows "memory_ok (path_apply m e)"
  using path_apply_memory [of m e]
proof (elim disjE exE conjE)
  assume "path_apply m e = m\<lparr>pm_rejected_transitions := pm_rejected_transitions (path_apply m e)\<rparr>"
  then have "pm_state (path_apply m e) = pm_state m"
    "pm_accepted_event_receipts (path_apply m e) = pm_accepted_event_receipts m"
    "pm_accepted_observations (path_apply m e) = pm_accepted_observations m"
    by (metis path_machine.select_convs(1,4,5) path_machine.surjective
        path_machine.update_convs(3))+
  with assms show ?thesis by (simp add: memory_ok_def)
next
  let ?t = "path_reduce m e" and ?m = "path_apply m e"
  fix n
  assume red: "reduce_event (pm_state m) (pm_state m) e = Inr n"
    and new: "\<not> already_accepted m e"
    and st: "pm_state ?m = n" "pt_next ?t = n"
    and r: "pm_accepted_event_receipts ?m =
      commit_receipts m ?t (if n = pm_state m then AcceptedObservation else Applied)"
    and o: "pm_accepted_observations ?m = commit_observations m ?t"
    and pt: "pt_receipt ?t = idempotency_receipt e" "pt_observation ?t = observation_identity e"
  have fresh: "set_option (pt_receipt ?t) \<inter> set (pm_accepted_event_receipts m) = {}"
      "set_option (pt_observation ?t) \<inter> set (pm_accepted_observations m) = {}"
    using new by (auto simp: pt already_accepted_def split: option.splits)
  have "ps_epoch n = Some (receipt_epoch x)" if "x \<in> set (pm_accepted_event_receipts ?m)" for x
  proof (cases "idempotency_receipt e = Some x")
    case True
    with red show ?thesis by (rule receipt_is_current)
  next
    case other: False
    show ?thesis
    proof (cases "n = pm_state m")
      case True
      with that r commit_receipts_set other pt assms show ?thesis
        by (fastforce simp: memory_ok_def)
    next
      case False
      with that r have "x \<in> set (commit_receipts m ?t Applied)" by simp
      with other pt st show ?thesis using commit_receipts_current by metis
    qed
  qed
  moreover have "distinct (pm_accepted_event_receipts ?m)"
    unfolding r by (rule commit_receipts_distinct) (use assms fresh in \<open>auto simp: memory_ok_def\<close>)
  moreover have "distinct (pm_accepted_observations ?m)
      \<and> length (pm_accepted_observations ?m) \<le> MAX_ACCEPTED_HEALTH_OBSERVATIONS"
    unfolding o by (rule commit_observations_ok) (use assms fresh in \<open>auto simp: memory_ok_def\<close>)
  ultimately show ?thesis by (simp add: memory_ok_def st)
qed

interpretation path_memory: event_machine path_apply memory_ok
  by unfold_locales (rule memory_ok_step)

text \<open>
  Over every run the machine remembers at most 64 distinct health observations, its event
  receipts are distinct, and every receipt belongs to the current epoch.
\<close>
theorem path_replay_memory:
  "let m = foldl path_apply (path_machine_new c) es in
     length (pm_accepted_observations m) \<le> 64 \<and> distinct (pm_accepted_observations m)
     \<and> distinct (pm_accepted_event_receipts m)
     \<and> (\<lambda>r. Some (receipt_epoch r)) ` set (pm_accepted_event_receipts m)
          \<subseteq> {ps_epoch (pm_state m)}"
proof -
  have "memory_ok (path_machine_new c)" by (simp add: memory_ok_def path_machine_new_def)
  from path_memory.run_inv [OF this, of es] show ?thesis
    by (auto simp: memory_ok_def Let_def MAX_ACCEPTED_HEALTH_OBSERVATIONS_def)
qed

end
