(* ===== verification/Path_Witnesses.thy ===== *)
theory Path_Witnesses
  imports Path_Service
begin

text \<open>
  A concrete peer, driven through the events of a session, at which the properties of the
  path-state machine apply: every hypothesis is discharged by evaluation.
\<close>

definition w_epoch :: path_epoch where
  "w_epoch = \<lparr>network_generation = 3, peer_session_generation = 7, remote_candidate_epoch = 2\<rparr>"

definition w_next_network :: path_epoch where
  "w_next_network = w_epoch\<lparr>network_generation := 4\<rparr>"

definition w_relay :: relay_connection_identity where
  "w_relay = rc_new w_epoch ''relay-1'' (Some 11)"

definition w_remote :: socket_addr where
  "w_remote = SocketV4 3325256705 41641"

definition w_request :: direct_validation_identity where
  "w_request = dv_owned w_epoch 5 (Some 77) (Some w_remote)"

definition w_ack :: direct_validation_identity where
  "w_ack = dv_authenticated_ack w_epoch 5 77 (Some w_remote) w_remote"

definition w_new :: path_machine where
  "w_new = path_machine_new CS_Idle"

definition w_online :: path_machine where
  "w_online = foldl path_apply w_new [PeerOnline w_epoch]"

definition w_on_relay :: path_machine where
  "w_on_relay = foldl path_apply w_online [RelayTransportReady w_relay, RelayPeerConfirmed w_relay]"

definition w_on_direct :: path_machine where
  "w_on_direct =
     foldl path_apply w_on_relay [DirectValidationStarted w_request, DirectCommitted w_ack]"

definition w_window :: path_machine where
  "w_window = foldl path_apply w_online
     [DirectFirstStarted w_epoch 0, RelayTransportReady w_relay, RelayPeerConfirmed w_relay]"

definition w_offline :: path_machine where
  "w_offline = foldl path_apply w_on_relay [PeerLeft w_epoch]"

lemmas w_defs = w_new_def w_online_def w_on_relay_def w_on_direct_def w_window_def w_offline_def

lemma w_path_inv:
  "path_inv w_new" "path_inv w_online" "path_inv w_on_relay" "path_inv w_on_direct"
  "path_inv w_window" "path_inv w_offline"
  by (simp_all add: w_defs path_inv_new path.run_inv path.step_inv)

lemma w_online_state:
  "ps_lifecycle (pm_state w_online) = Online" "ps_epoch (pm_state w_online) = Some w_epoch"
  "ps_direct (pm_state w_online) = DPS_Idle" "ps_active (pm_state w_online) = ABP_Unavailable"
  by code_simp+

lemma w_on_relay_state:
  "ps_active (pm_state w_on_relay) = ABP_Relay w_relay"
  "ps_lifecycle (pm_state w_on_relay) = Online" "ps_epoch (pm_state w_on_relay) = Some w_epoch"
  by code_simp+

lemma w_on_direct_state:
  "ps_active (pm_state w_on_direct) = ABP_Direct w_ack"
  "confirmed_identity (ps_relay (pm_state w_on_direct)) = Some w_relay"
  "ps_epoch (pm_state w_on_direct) = Some w_epoch"
  by code_simp+

lemma w_window_state:
  "ps_direct_first (pm_state w_window)
     = Some \<lparr>dfw_deadline = 5000000000, dfw_released = False\<rparr>
   \<and> confirmed_identity (ps_relay (pm_state w_window)) = Some w_relay
   \<and> ps_active (pm_state w_window) = ABP_Unavailable
   \<and> ps_lifecycle (pm_state w_window) = Online \<and> ps_epoch (pm_state w_window) = Some w_epoch"
  by (simp add: w_defs path_machine_new_def path_apply_def path_reduce_def path_commit_def
      commit_decision_def commit_receipts_def commit_observations_def is_relay_path_failed_def
      remains_current_def already_accepted_def reduce_peer_online_def reduce_direct_first_started_def reduce_relay_ready_def
      reduce_relay_confirmed_def exact_epoch_online online_state_def w_relay_def rc_new_def
      incarnation_from_def DIRECT_FIRST_WINDOW_def from_secs_def Let_def state_is_valid_def
      direct_first_pending_def is_relay_active_def is_direct_active_def active_is_valid_def
      direct_epoch_def recovery_epoch_def)

lemma w_offline_state:
  "ps_lifecycle (pm_state w_offline) = Offline" "ps_epoch (pm_state w_offline) = Some w_epoch"
  by code_simp+

section \<open>The witnesses\<close>

lemma path_system_apply: "path_system m [] \<Longrightarrow> path_system (path_apply m e) []"
proof -
  assume "path_system m []"
  then have "path_system m [path_reduce m e]" by (rule path_system.reduce)
  from path_system.commit [OF this, of "path_reduce m e"] show ?thesis
    by (simp add: path_apply_def)
qed

lemma path_system_run: "path_system m [] \<Longrightarrow> path_system (foldl path_apply m es) []"
  by (induction es arbitrary: m) (simp_all add: path_system_apply)

lemma w_on_direct_system: "path_system w_on_direct []"
  by (simp only: w_defs) (intro path_system_run path_system.start)

theorem path_reachable_valid_witness:
  "state_is_valid (pm_state w_on_direct) \<and> ps_direct (pm_state w_on_direct) = DPS_Committed w_ack"
  using path_reachable_valid [OF w_on_direct_system] w_on_direct_state(1) by simp

definition w_transition :: path_transition where
  "w_transition = path_reduce w_on_relay (DirectValidationStarted w_request)"

definition w_between :: path_transition where
  "w_between = path_reduce w_on_relay (DirectFirstSatisfied w_ack)"

lemma w_commit:
  "accepted (po_decision (snd (path_commit (commit_all w_on_relay [w_between]) w_transition)))"
  by code_simp

theorem path_commit_atomic_witness:
  "path_commit (commit_all w_on_relay [w_between]) w_transition =
   path_commit (commit_all w_on_relay [w_between])
     (path_reduce (commit_all w_on_relay [w_between]) (DirectValidationStarted w_request))"
  unfolding w_transition_def
  by (rule path_commit_atomic) (use w_commit in \<open>simp_all add: w_transition_def\<close>)

theorem path_stale_event_rejected_witness:
  "path_apply w_on_relay (RelayTransportLost (rc_with_epoch w_relay w_next_network))
     = w_on_relay\<lparr>pm_rejected_transitions := pm_rejected_transitions w_on_relay + 1\<rparr>"
proof -
  have "w_next_network \<noteq> w_epoch" by (simp add: w_next_network_def w_epoch_def)
  with path_stale_event_rejected [of "RelayTransportLost (rc_with_epoch w_relay w_next_network)"
      w_next_network w_on_relay w_epoch] w_on_relay_state show ?thesis by simp
qed

theorem path_direct_first_window_witness:
  "\<not> is_relay_active (pm_state (foldl path_apply w_window
     [RelayPeerConfirmed w_relay, DirectFirstDeadline w_epoch 4999999999]))"
  using path_direct_first_window [of w_window "\<lparr>dfw_deadline = 5000000000, dfw_released = False\<rparr>"
      "[RelayPeerConfirmed w_relay, DirectFirstDeadline w_epoch 4999999999]"]
    w_path_inv(5) w_window_state by simp

lemma w_direct_step:
  "ps_active (pm_state (path_apply (foldl path_apply w_on_relay [DirectValidationStarted w_request])
     (DirectCommitted w_ack))) = ABP_Direct w_ack"
  "ps_active (pm_state (foldl path_apply w_on_relay [DirectValidationStarted w_request]))
     = ABP_Relay w_relay"
  by code_simp+

theorem path_direct_provenance_witness:
  "\<exists>w. ps_direct (pm_state (foldl path_apply w_on_relay [DirectValidationStarted w_request]))
     = DPS_Validating w \<and> same_validation_request w w_ack"
  using path_direct_provenance [OF path.run_inv [OF w_path_inv(3)] w_direct_step(1), of 5]
    w_direct_step(2) by (auto simp: w_ack_def dv_authenticated_ack_def)

theorem path_epoch_forward_witness:
  "\<exists>after. ps_epoch (pm_state (foldl path_apply w_on_relay
       [NetworkGenerationAdvanced w_next_network Retain_Relay, PeerLeft w_next_network])) = Some after
     \<and> (peer_session_generation w_epoch < peer_session_generation after
        \<or> peer_session_generation w_epoch = peer_session_generation after
          \<and> (network_generation w_epoch < network_generation after
             \<or> network_generation w_epoch = network_generation after
               \<and> remote_candidate_epoch w_epoch \<le> remote_candidate_epoch after))"
  by (rule path_epoch_forward) (use w_path_inv(3) w_on_relay_state in simp_all)

lemma w_confirm_applied: "applies_side_effects (path_decision
    (foldl path_apply w_online [RelayTransportReady w_relay]) (RelayPeerConfirmed w_relay))"
  by code_simp

theorem path_redelivery_harmless_witness:
  "foldl path_apply (path_apply (foldl path_apply w_online [RelayTransportReady w_relay])
       (RelayPeerConfirmed w_relay)) (replicate 3 (RelayPeerConfirmed w_relay))
   = path_apply (foldl path_apply w_online [RelayTransportReady w_relay])
       (RelayPeerConfirmed w_relay)"
  using path_redelivery_harmless [OF path.run_inv [OF w_path_inv(2)] w_confirm_applied, of 3] by simp

theorem path_relay_survives_direct_attempts_witness:
  "ps_active (pm_state (foldl path_apply w_on_relay
     [DirectProbeStarted w_epoch 1, DirectValidationStarted w_request, DirectPathFailed w_epoch]))
   = ABP_Relay w_relay"
  using path_relay_survives_direct_attempts [OF w_path_inv(3) w_on_relay_state(1), of
      "[DirectProbeStarted w_epoch 1, DirectValidationStarted w_request, DirectPathFailed w_epoch]"]
  by simp

theorem path_offline_is_fenced_witness:
  "pm_state (foldl path_apply w_offline
     [PeerOnline w_epoch, RelayTransportReady w_relay, DirectCommitted w_ack]) = pm_state w_offline"
  using path_offline_is_fenced [OF w_path_inv(6) w_offline_state, of
      "[PeerOnline w_epoch, RelayTransportReady w_relay, DirectCommitted w_ack]"]
  by simp

theorem path_acknowledged_direct_goes_live_witness:
  "ps_active (pm_state (path_apply (path_apply w_online (DirectValidationStarted w_request))
     (DirectCommitted w_ack))) = ABP_Direct w_ack"
  using path_acknowledged_direct_goes_live [OF w_path_inv(2) w_online_state(1-3)
      w_request_def w_ack_def] by (simp add: Let_def)

theorem path_direct_failover_witness:
  "path_decision w_on_direct (DirectPathFailed (dv_epoch w_ack)) = Applied
   \<and> ps_direct (pm_state (path_apply w_on_direct (DirectPathFailed (dv_epoch w_ack)))) = DPS_Idle"
  using path_direct_failover [OF w_path_inv(4) w_on_direct_state(1)] by (simp add: Let_def)

theorem path_deadline_releases_relay_witness:
  "ps_active (pm_state (path_apply w_window (DirectFirstDeadline w_epoch 5000000000)))
     = ABP_Relay w_relay"
  using path_deadline_releases_relay [OF w_path_inv(5), of w_epoch
      "\<lparr>dfw_deadline = 5000000000, dfw_released = False\<rparr>" 5000000000 w_relay] w_window_state
  by simp

end
