(* ===== verification/Pmtu_Types.thy ===== *)
theory Pmtu_Types
  imports Path_Types
begin

text \<open>
  Datagram path-MTU discovery, data: \<open>client/daemon/src/dplpmtud/sizes.rs\<close> (datagram sizes and
  the overhead arithmetic), \<open>identity.rs\<close> (the exact Direct path a machine is for) and the
  types at the head of \<open>state_machine.rs\<close>. The size newtypes are all \<^typ>\<open>u32\<close>; \<open>usize\<close>
  indices are naturals.
\<close>

section \<open>Sizes\<close>

type_synonym udp_datagram_size = u32
type_synonym outer_ip_packet_size = u32
type_synonym overlay_payload_budget = u32

definition WIREGUARD_UDP_DATAGRAM_OVERHEAD :: u32 where
  "WIREGUARD_UDP_DATAGRAM_OVERHEAD = 32"

definition IPV4_OUTER_IP_UDP_OVERHEAD :: u32 where
  "IPV4_OUTER_IP_UDP_OVERHEAD = 20 + 8"

definition IPV6_OUTER_IP_UDP_OVERHEAD :: u32 where
  "IPV6_OUTER_IP_UDP_OVERHEAD = 40 + 8"

definition DPLPMTUD_BASE_UDP_DATAGRAM_SIZE :: u32 where
  "DPLPMTUD_BASE_UDP_DATAGRAM_SIZE = 1200"

definition DPLPMTUD_IPV4_UDP_DATAGRAM_CEILING :: u32 where
  "DPLPMTUD_IPV4_UDP_DATAGRAM_CEILING = 1472"

definition DPLPMTUD_IPV6_UDP_DATAGRAM_CEILING :: u32 where
  "DPLPMTUD_IPV6_UDP_DATAGRAM_CEILING = 1452"

datatype outer_ip_family = Outer_Ipv4 | Outer_Ipv6

definition family_from_ip :: "ip_addr \<Rightarrow> outer_ip_family" where
  "family_from_ip ip = (case ip of IpV4 _ \<Rightarrow> Outer_Ipv4 | IpV6 _ \<Rightarrow> Outer_Ipv6)"

definition outer_ip_udp_overhead :: "outer_ip_family \<Rightarrow> u32" where
  "outer_ip_udp_overhead f = (case f of
       Outer_Ipv4 \<Rightarrow> IPV4_OUTER_IP_UDP_OVERHEAD | Outer_Ipv6 \<Rightarrow> IPV6_OUTER_IP_UDP_OVERHEAD)"

definition ceiling_udp_datagram_size :: "outer_ip_family \<Rightarrow> udp_datagram_size" where
  "ceiling_udp_datagram_size f = (case f of
       Outer_Ipv4 \<Rightarrow> DPLPMTUD_IPV4_UDP_DATAGRAM_CEILING
     | Outer_Ipv6 \<Rightarrow> DPLPMTUD_IPV6_UDP_DATAGRAM_CEILING)"

definition outer_ip_packet_size :: "udp_datagram_size \<Rightarrow> outer_ip_family \<Rightarrow> outer_ip_packet_size" where
  "outer_ip_packet_size sz family = sz + outer_ip_udp_overhead family"

definition overlay_payload_budget :: "udp_datagram_size \<Rightarrow> overlay_payload_budget option" where
  "overlay_payload_budget sz = checked_sub sz WIREGUARD_UDP_DATAGRAM_OVERHEAD"

section \<open>Path identity\<close>

record socket_identity =
  transport_instance_id :: u64
  socket_index :: nat

record pmtu_path_identity =
  pi_peer_id :: string
  pi_epoch :: path_epoch
  pi_owner_token :: u64
  pi_request_id :: u16
  pi_remote_endpoint :: socket_addr
  pi_local_endpoint :: socket_addr
  pi_socket :: socket_identity
  pi_outer_ip_family :: outer_ip_family

definition from_committed_validation ::
  "string \<Rightarrow> direct_validation_identity \<Rightarrow> socket_addr \<Rightarrow> socket_addr \<Rightarrow> u64 \<Rightarrow> nat
   \<Rightarrow> pmtu_path_identity option" where
  "from_committed_validation peer_id validation remote local instance_id index =
     (if is_ipv4 local \<noteq> is_ipv4 remote then None
      else case (dv_owner_token validation, dv_request_id validation) of
          (Some owner, Some request) \<Rightarrow>
            Some \<lparr>pi_peer_id = peer_id, pi_epoch = dv_epoch validation, pi_owner_token = owner,
                  pi_request_id = request, pi_remote_endpoint = remote,
                  pi_local_endpoint = local,
                  pi_socket = \<lparr>transport_instance_id = instance_id, socket_index = index\<rparr>,
                  pi_outer_ip_family = family_from_ip (socket_ip remote)\<rparr>
        | _ \<Rightarrow> None)"

definition matches_committed_path ::
  "pmtu_path_identity \<Rightarrow> peer_path_lifecycle \<Rightarrow> path_epoch option \<Rightarrow> active_business_path \<Rightarrow> bool" where
  "matches_committed_path i lifecycle epoch active \<longleftrightarrow>
     lifecycle = Online \<and> epoch = Some (pi_epoch i)
     \<and> (case active of
          ABP_Direct validation \<Rightarrow>
            dv_epoch validation = pi_epoch i
            \<and> dv_owner_token validation = Some (pi_owner_token i)
            \<and> dv_request_id validation = Some (pi_request_id i)
            \<and> commit_endpoint validation = Some (pi_remote_endpoint i)
        | _ \<Rightarrow> False)"

record pmtu_identity_snapshot =
  is_peer_id :: string
  is_network_generation :: u64
  is_peer_session_generation :: u64
  is_remote_candidate_epoch :: u64
  is_owner_token :: u64
  is_request_id :: u16
  is_remote_endpoint :: string
  is_local_endpoint :: string
  is_transport_instance_id :: u64
  is_socket_index :: nat
  is_outer_ip_family :: outer_ip_family

text \<open>\<open>show_addr\<close> stands for the standard library's \<open>Display\<close> of socket addresses.\<close>

definition pmtu_identity_summary ::
  "(socket_addr \<Rightarrow> string) \<Rightarrow> pmtu_path_identity \<Rightarrow> pmtu_identity_snapshot" where
  "pmtu_identity_summary show_addr i =
     \<lparr>is_peer_id = pi_peer_id i,
      is_network_generation = network_generation (pi_epoch i),
      is_peer_session_generation = peer_session_generation (pi_epoch i),
      is_remote_candidate_epoch = remote_candidate_epoch (pi_epoch i),
      is_owner_token = pi_owner_token i, is_request_id = pi_request_id i,
      is_remote_endpoint = show_addr (pi_remote_endpoint i),
      is_local_endpoint = show_addr (pi_local_endpoint i),
      is_transport_instance_id = transport_instance_id (pi_socket i),
      is_socket_index = socket_index (pi_socket i),
      is_outer_ip_family = pi_outer_ip_family i\<rparr>"

section \<open>State-machine vocabulary\<close>

definition DPLPMTUD_SEARCH_GRANULARITY :: u32 where
  "DPLPMTUD_SEARCH_GRANULARITY = 8"

definition DPLPMTUD_MAX_RETRIES :: u8 where
  "DPLPMTUD_MAX_RETRIES = 2"

definition DPLPMTUD_RAISE_INTERVAL :: duration where
  "DPLPMTUD_RAISE_INTERVAL = from_secs (10 * 60)"

definition DPLPMTUD_CURRENT_PLPMTU_CONFIRMATION_INTERVAL :: duration where
  "DPLPMTUD_CURRENT_PLPMTU_CONFIRMATION_INTERVAL = from_secs 30"

definition DPLPMTUD_ERROR_RETRY_INTERVAL :: duration where
  "DPLPMTUD_ERROR_RETRY_INTERVAL = from_secs 5"

definition MAX_CONSUMED_PROBE_RECEIPTS :: nat where
  "MAX_CONSUMED_PROBE_RECEIPTS = 32"

datatype pmtu_state = PS_Disabled | PS_Unsupported | PS_Base | PS_Searching | PS_SearchComplete | PS_Error

record probe_identity =
  pr_sequence :: u64
  pr_nonce :: bytes
  pr_path_cookie :: bytes
  pr_candidate :: udp_datagram_size

record outstanding_probe =
  op_identity :: probe_identity
  op_scheduled_at :: instant
  op_sent_at :: "instant option"
  op_deadline :: instant
  op_retry :: u8

record budget_revision_state =
  br_path_identity :: "pmtu_path_identity option"
  br_confirmed :: "udp_datagram_size option"

datatype probe_send_failure =
  TransientSend | EmitLockUnavailable | SessionUnavailable | LocalPacketTooLarge

datatype pmtu_event =
    StartSearch instant
  | ProbeScheduled probe_identity u8 instant instant
  | ProbeSent probe_identity instant
  | ProbeAcked probe_identity instant
  | ProbeTimedOut probe_identity instant
  | ProbeSendFailed probe_identity probe_send_failure instant
  | BusinessPacketTooLarge instant
  | CurrentPlpmtuConfirmationTimerExpired instant
  | RaiseTimerExpired instant
  | StaleAck instant
  | Cancelled string instant

datatype pmtu_decision = PD_Applied | PD_Duplicate | PD_Stale | PD_Noop | PD_Rejected | PD_Busy

section \<open>Lemmas on sizes\<close>

named_theorems pmtu_consts \<open>the constants of path-MTU discovery\<close>

lemmas [pmtu_consts] =
  WIREGUARD_UDP_DATAGRAM_OVERHEAD_def IPV4_OUTER_IP_UDP_OVERHEAD_def
  IPV6_OUTER_IP_UDP_OVERHEAD_def DPLPMTUD_BASE_UDP_DATAGRAM_SIZE_def
  DPLPMTUD_IPV4_UDP_DATAGRAM_CEILING_def DPLPMTUD_IPV6_UDP_DATAGRAM_CEILING_def
  DPLPMTUD_SEARCH_GRANULARITY_def DPLPMTUD_MAX_RETRIES_def MAX_CONSUMED_PROBE_RECEIPTS_def

lemma ceiling_cases:
  "ceiling_udp_datagram_size f = 1472 \<or> ceiling_udp_datagram_size f = 1452"
  by (cases f) (simp_all add: ceiling_udp_datagram_size_def pmtu_consts)

lemma unat_ceiling:
  "unat (ceiling_udp_datagram_size f) \<le> 1472" "1200 \<le> unat (ceiling_udp_datagram_size f)"
  using ceiling_cases [of f] by auto

lemma base_le_ceiling: "DPLPMTUD_BASE_UDP_DATAGRAM_SIZE \<le> ceiling_udp_datagram_size f"
  using ceiling_cases [of f] by (auto simp: pmtu_consts)

lemma from_committed_validation_matches:
  assumes "from_committed_validation p v remote local i n = Some d"
    and "commit_endpoint v = Some remote"
  shows "matches_committed_path d Online (Some (dv_epoch v)) (ABP_Direct v)"
  using assms by (auto simp: from_committed_validation_def matches_committed_path_def
      split: if_splits option.splits)

end
