(* ===== verification/Pmtu_Machine.thy ===== *)
theory Pmtu_Machine
  imports Pmtu_Types
begin

text \<open>
  The reducer of \<open>client/daemon/src/dplpmtud/state_machine.rs\<close>: one bounded machine per exact
  Direct path, driven by probe, timer and business events. \<open>reduce\<close> edits a copy \<open>n\<close> of the
  machine \<open>m\<close>; a Rust panic (the one \<open>expect\<close>) is \<^const>\<open>None\<close>. Instants do not overflow.
\<close>

section \<open>The machine\<close>

record pmtu_machine =
  mt_identity :: "pmtu_path_identity option"
  mt_state :: pmtu_state
  mt_supported :: bool
  mt_base :: udp_datagram_size
  mt_base_confirmed :: bool
  mt_confirmed :: "udp_datagram_size option"
  mt_search_upper :: udp_datagram_size
  mt_pending_candidate :: "udp_datagram_size option"
  mt_confirmation_pending :: bool
  mt_confirmation_at :: "instant option"
  mt_outstanding :: "outstanding_probe option"
  mt_retry_count :: u8
  mt_next_sequence :: u64
  mt_revision :: u64
  mt_probe_count :: u64
  mt_success_count :: u64
  mt_timeout_count :: u64
  mt_send_failure_count :: u64
  mt_transient_send_failure_count :: u64
  mt_emit_lock_unavailable_count :: u64
  mt_session_unavailable_count :: u64
  mt_local_packet_too_large_count :: u64
  mt_business_packet_too_large_count :: u64
  mt_last_send_failure_kind :: "probe_send_failure option"
  mt_stale_ack_count :: u64
  mt_duplicate_ack_count :: u64
  mt_last_success_at :: "instant option"
  mt_last_timeout_at :: "instant option"
  mt_last_failure_at :: "instant option"
  mt_raise_at :: "instant option"
  mt_last_reset_reason :: "string option"
  mt_reset_count :: u64
  mt_consumed_receipts :: "probe_identity list"

definition pmtu_for_path_with_reason ::
  "pmtu_path_identity \<Rightarrow> bool \<Rightarrow> string \<Rightarrow> pmtu_machine" where
  "pmtu_for_path_with_reason identity supported reset_reason =
     \<lparr>mt_identity = Some identity,
      mt_state = (if supported then PS_Base else PS_Unsupported),
      mt_supported = supported,
      mt_base = DPLPMTUD_BASE_UDP_DATAGRAM_SIZE,
      mt_base_confirmed = False,
      mt_confirmed = None,
      mt_search_upper = ceiling_udp_datagram_size (pi_outer_ip_family identity),
      mt_pending_candidate =
        (if supported then Some DPLPMTUD_BASE_UDP_DATAGRAM_SIZE else None),
      mt_confirmation_pending = False,
      mt_confirmation_at = None,
      mt_outstanding = None,
      mt_retry_count = 0,
      mt_next_sequence = 1,
      mt_revision = 1,
      mt_probe_count = 0,
      mt_success_count = 0,
      mt_timeout_count = 0,
      mt_send_failure_count = 0,
      mt_transient_send_failure_count = 0,
      mt_emit_lock_unavailable_count = 0,
      mt_session_unavailable_count = 0,
      mt_local_packet_too_large_count = 0,
      mt_business_packet_too_large_count = 0,
      mt_last_send_failure_kind = None,
      mt_stale_ack_count = 0,
      mt_duplicate_ack_count = 0,
      mt_last_success_at = None,
      mt_last_timeout_at = None,
      mt_last_failure_at = None,
      mt_raise_at = None,
      mt_last_reset_reason = Some reset_reason,
      mt_reset_count = 1,
      mt_consumed_receipts = []\<rparr>"

definition pmtu_for_path :: "pmtu_path_identity \<Rightarrow> bool \<Rightarrow> pmtu_machine" where
  "pmtu_for_path identity supported =
     pmtu_for_path_with_reason identity supported
       (if supported then ''direct_committed'' else ''dplpmtud_capability_not_negotiated'')"

section \<open>Queries\<close>

definition business_confirmed :: "pmtu_machine \<Rightarrow> udp_datagram_size option" where
  "business_confirmed m =
     (if \<not> mt_supported m \<or> mt_state m \<in> {PS_Disabled, PS_Unsupported}
         \<or> \<not> mt_base_confirmed m
      then None else mt_confirmed m)"

definition budget_revision_state :: "pmtu_machine \<Rightarrow> budget_revision_state" where
  "budget_revision_state m =
     \<lparr>br_path_identity = mt_identity m, br_confirmed = business_confirmed m\<rparr>"

definition outstanding_identity :: "pmtu_machine \<Rightarrow> probe_identity option" where
  "outstanding_identity m = map_option op_identity (mt_outstanding m)"

fun min_option :: "instant option list \<Rightarrow> instant option" where
  "min_option [] = None"
| "min_option (None # xs) = min_option xs"
| "min_option (Some x # xs) =
     (case min_option xs of None \<Rightarrow> Some x | Some y \<Rightarrow> Some (min x y))"

definition next_wakeup :: "pmtu_machine \<Rightarrow> instant option" where
  "next_wakeup m =
     min_option [map_option op_deadline (mt_outstanding m), mt_confirmation_at m, mt_raise_at m]"

definition next_probe_components :: "pmtu_machine \<Rightarrow> (u64 \<times> udp_datagram_size \<times> u8) option" where
  "next_probe_components m =
     (if \<not> mt_supported m \<or> mt_state m \<notin> {PS_Base, PS_Searching} \<or> mt_outstanding m \<noteq> None
      then None
      else map_option (\<lambda>candidate. (mt_next_sequence m, candidate, mt_retry_count m))
             (mt_pending_candidate m))"

section \<open>Search arithmetic\<close>

definition next_search_candidate ::
  "udp_datagram_size \<Rightarrow> udp_datagram_size \<Rightarrow> udp_datagram_size option" where
  "next_search_candidate confirmed upper =
     (if upper \<le> confirmed then None
      else
        let distance = upper - confirmed;
            midpoint = confirmed + distance div 2;
            aligned = confirmed
              + ((midpoint - confirmed) div DPLPMTUD_SEARCH_GRANULARITY)
                * DPLPMTUD_SEARCH_GRANULARITY;
            candidate = min (max aligned (sat_add confirmed DPLPMTUD_SEARCH_GRANULARITY)) upper
        in if candidate > confirmed then Some candidate else None)"

definition push_consumed_receipt ::
  "probe_identity list \<Rightarrow> probe_identity \<Rightarrow> probe_identity list" where
  "push_consumed_receipt receipts receipt =
     (if receipt \<in> set receipts then receipts
      else trim_front (MAX_CONSUMED_PROBE_RECEIPTS - 1) receipts @ [receipt])"

definition enter_base_error :: "pmtu_machine \<Rightarrow> instant \<Rightarrow> pmtu_machine" where
  "enter_base_error n now =
     n\<lparr>mt_base_confirmed := False, mt_confirmed := None, mt_pending_candidate := None,
       mt_confirmation_pending := False, mt_confirmation_at := None, mt_state := PS_Error,
       mt_raise_at := Some (now + DPLPMTUD_ERROR_RETRY_INTERVAL)\<rparr>"

definition lower_after_failed_search_candidate ::
  "pmtu_machine \<Rightarrow> udp_datagram_size \<Rightarrow> udp_datagram_size \<Rightarrow> instant \<Rightarrow> pmtu_machine" where
  "lower_after_failed_search_candidate n confirmed failed_candidate now =
     (let failed_upper = max (sat_sub failed_candidate DPLPMTUD_SEARCH_GRANULARITY) confirmed;
          upper = min (mt_search_upper n) failed_upper;
          n1 = n\<lparr>mt_search_upper := upper,
                 mt_pending_candidate := next_search_candidate confirmed upper,
                 mt_confirmation_pending := False, mt_confirmation_at := None\<rparr>
      in if mt_pending_candidate n1 = None
         then n1\<lparr>mt_state := PS_SearchComplete,
                 mt_confirmation_at :=
                   Some (now + DPLPMTUD_CURRENT_PLPMTU_CONFIRMATION_INTERVAL),
                 mt_raise_at := Some (now + DPLPMTUD_RAISE_INTERVAL)\<rparr>
         else n1\<lparr>mt_state := PS_Searching, mt_raise_at := None\<rparr>)"

definition lower_after_current_confirmation_failure ::
  "pmtu_machine \<Rightarrow> probe_identity \<Rightarrow> pmtu_machine" where
  "lower_after_current_confirmation_failure n probe =
     (let safe_base = mt_base n
      in n\<lparr>mt_confirmation_pending := False, mt_confirmation_at := None,
           mt_search_upper :=
             max (min (mt_search_upper n)
                    (sat_sub (pr_candidate probe) DPLPMTUD_SEARCH_GRANULARITY)) safe_base,
           mt_base_confirmed := False, mt_confirmed := None, mt_outstanding := None,
           mt_pending_candidate := Some safe_base, mt_retry_count := 0, mt_raise_at := None,
           mt_state := PS_Base\<rparr>)"


section \<open>Handlers\<close>

type_synonym pmtu_step = "pmtu_decision \<times> pmtu_machine"

definition bump_stale :: "pmtu_machine \<Rightarrow> pmtu_machine" where
  "bump_stale n = n\<lparr>mt_stale_ack_count := sat_add (mt_stale_ack_count n) 1\<rparr>"

definition pmtu_start_search :: "pmtu_machine \<Rightarrow> instant \<Rightarrow> pmtu_step" where
  "pmtu_start_search m now =
     (if mt_state m \<noteq> PS_Base then (PD_Noop, m)
      else if mt_pending_candidate m = None
      then (PD_Applied, m\<lparr>mt_state := PS_SearchComplete,
                          mt_raise_at := Some (now + DPLPMTUD_RAISE_INTERVAL)\<rparr>)
      else (PD_Applied, m\<lparr>mt_state := PS_Searching\<rparr>))"

definition pmtu_probe_scheduled ::
  "pmtu_machine \<Rightarrow> probe_identity \<Rightarrow> u8 \<Rightarrow> instant \<Rightarrow> instant \<Rightarrow> pmtu_step" where
  "pmtu_probe_scheduled m probe retry now deadline =
     (if mt_state m \<notin> {PS_Base, PS_Searching} \<or> mt_outstanding m \<noteq> None
         \<or> mt_pending_candidate m \<noteq> Some (pr_candidate probe)
         \<or> retry \<noteq> mt_retry_count m \<or> pr_sequence probe \<noteq> mt_next_sequence m
         \<or> deadline \<le> now
      then (PD_Rejected, m)
      else (PD_Applied,
            m\<lparr>mt_state := PS_Searching,
              mt_outstanding := Some \<lparr>op_identity = probe, op_scheduled_at = now,
                op_sent_at = None, op_deadline = deadline, op_retry = retry\<rparr>,
              mt_next_sequence := max (mt_next_sequence m + 1) 1\<rparr>))"

definition pmtu_probe_sent :: "pmtu_machine \<Rightarrow> probe_identity \<Rightarrow> instant \<Rightarrow> pmtu_step" where
  "pmtu_probe_sent m probe now =
     (case mt_outstanding m of
        None \<Rightarrow> (PD_Noop, m)
      | Some o' \<Rightarrow>
          if op_identity o' = probe \<and> op_sent_at o' = None
          then (PD_Applied, m\<lparr>mt_outstanding := Some (o'\<lparr>op_sent_at := Some now\<rparr>),
                              mt_probe_count := sat_add (mt_probe_count m) 1\<rparr>)
          else (PD_Noop, m))"

text \<open>
  The tail of an accepted acknowledgement, once the confirmed size in \<open>n\<close> is the new one.
\<close>

definition pmtu_ack_accepted ::
  "pmtu_machine \<Rightarrow> bool \<Rightarrow> probe_identity \<Rightarrow> instant \<Rightarrow> pmtu_machine option" where
  "pmtu_ack_accepted n is_current_confirmation probe now =
     (let n1 = n\<lparr>mt_success_count := sat_add (mt_success_count n) 1,
                 mt_last_success_at := Some now,
                 mt_consumed_receipts := push_consumed_receipt (mt_consumed_receipts n) probe\<rparr>
      in if is_current_confirmation
         then Some (n1\<lparr>mt_confirmation_pending := False,
                       mt_confirmation_at :=
                         Some (now + DPLPMTUD_CURRENT_PLPMTU_CONFIRMATION_INTERVAL),
                       mt_pending_candidate := None, mt_state := PS_SearchComplete\<rparr>)
         else case mt_confirmed n1 of
                None \<Rightarrow> None
              | Some confirmed \<Rightarrow>
                  let n2 = n1\<lparr>mt_pending_candidate :=
                             next_search_candidate confirmed (mt_search_upper n1)\<rparr>
                  in Some (if mt_pending_candidate n2 = None
                           then n2\<lparr>mt_state := PS_SearchComplete,
                                   mt_confirmation_at :=
                                     Some (now + DPLPMTUD_CURRENT_PLPMTU_CONFIRMATION_INTERVAL),
                                   mt_raise_at := Some (now + DPLPMTUD_RAISE_INTERVAL)\<rparr>
                           else n2\<lparr>mt_state := PS_Searching, mt_raise_at := None\<rparr>))"

definition pmtu_probe_acked ::
  "pmtu_machine \<Rightarrow> probe_identity \<Rightarrow> instant \<Rightarrow> pmtu_step option" where
  "pmtu_probe_acked m probe now =
     (if probe \<in> set (mt_consumed_receipts m) then Some (PD_Duplicate, m)
      else case mt_outstanding m of
          None \<Rightarrow> Some (PD_Stale, bump_stale m)
        | Some o' \<Rightarrow>
            if op_identity o' \<noteq> probe \<or> op_sent_at o' = None \<or> now > op_deadline o'
            then Some (PD_Stale, bump_stale m)
            else
              let n = m\<lparr>mt_outstanding := None, mt_retry_count := 0\<rparr>;
                  applied = map_option (Pair PD_Applied);
                  candidate = pr_candidate probe
              in if mt_confirmation_pending m
                 then if mt_confirmed m \<noteq> Some candidate then Some (PD_Stale, bump_stale n)
                      else applied (pmtu_ack_accepted n True probe now)
                 else if candidate = mt_base m
                 then applied (pmtu_ack_accepted
                        (n\<lparr>mt_base_confirmed := True, mt_confirmed := Some (mt_base m)\<rparr>)
                        False probe now)
                 else if (case mt_confirmed m of None \<Rightarrow> False | Some c \<Rightarrow> candidate \<ge> c)
                 then applied (pmtu_ack_accepted (n\<lparr>mt_confirmed := Some candidate\<rparr>)
                        False probe now)
                 else Some (PD_Stale, bump_stale n))"

definition pmtu_probe_timed_out ::
  "pmtu_machine \<Rightarrow> probe_identity \<Rightarrow> instant \<Rightarrow> pmtu_step" where
  "pmtu_probe_timed_out m probe now =
     (case mt_outstanding m of
        None \<Rightarrow> (PD_Noop, m)
      | Some o' \<Rightarrow>
          if op_identity o' \<noteq> probe \<or> op_sent_at o' = None \<or> now < op_deadline o'
          then (PD_Rejected, m)
          else
            let n = m\<lparr>mt_outstanding := None,
                      mt_timeout_count := sat_add (mt_timeout_count m) 1,
                      mt_last_timeout_at := Some now\<rparr>;
                candidate = pr_candidate probe
            in (PD_Applied,
                if op_retry o' < DPLPMTUD_MAX_RETRIES
                then n\<lparr>mt_retry_count := sat_add (op_retry o') 1,
                       mt_pending_candidate := Some candidate, mt_state := PS_Searching\<rparr>
                else
                  let n1 = n\<lparr>mt_retry_count := 0\<rparr>
                  in if mt_confirmation_pending m
                     then lower_after_current_confirmation_failure n1 probe
                     else if candidate = mt_base m \<and> \<not> mt_base_confirmed m
                     then enter_base_error n1 now
                     else case mt_confirmed m of
                            None \<Rightarrow> enter_base_error n1 now
                          | Some confirmed \<Rightarrow>
                              lower_after_failed_search_candidate n1 confirmed candidate now))"

definition pmtu_count_soft_failure :: "pmtu_machine \<Rightarrow> probe_send_failure \<Rightarrow> pmtu_machine" where
  "pmtu_count_soft_failure n failure = (case failure of
       TransientSend \<Rightarrow>
         n\<lparr>mt_transient_send_failure_count := sat_add (mt_transient_send_failure_count n) 1\<rparr>
     | EmitLockUnavailable \<Rightarrow>
         n\<lparr>mt_emit_lock_unavailable_count := sat_add (mt_emit_lock_unavailable_count n) 1\<rparr>
     | SessionUnavailable \<Rightarrow>
         n\<lparr>mt_session_unavailable_count := sat_add (mt_session_unavailable_count n) 1\<rparr>
     | LocalPacketTooLarge \<Rightarrow> n)"

definition pmtu_probe_send_failed ::
  "pmtu_machine \<Rightarrow> probe_identity \<Rightarrow> probe_send_failure \<Rightarrow> instant \<Rightarrow> pmtu_step" where
  "pmtu_probe_send_failed m probe failure now =
     (if outstanding_identity m \<noteq> Some probe then (PD_Noop, m)
      else
        let n = m\<lparr>mt_outstanding := None,
                  mt_send_failure_count := sat_add (mt_send_failure_count m) 1,
                  mt_last_failure_at := Some now,
                  mt_last_send_failure_kind := Some failure\<rparr>;
            candidate = pr_candidate probe
        in (PD_Applied,
            if failure = LocalPacketTooLarge
            then
              let n1 = n\<lparr>mt_local_packet_too_large_count :=
                           sat_add (mt_local_packet_too_large_count n) 1\<rparr>
              in if mt_confirmation_pending m
                 then lower_after_current_confirmation_failure n1 probe
                 else if candidate = mt_base m \<and> \<not> mt_base_confirmed m
                 then enter_base_error n1 now
                 else case mt_confirmed m of
                        Some confirmed \<Rightarrow>
                          lower_after_failed_search_candidate n1 confirmed candidate now
                      | None \<Rightarrow> enter_base_error n1 now
            else
              let n1 = pmtu_count_soft_failure n failure
              in if mt_confirmation_pending m \<and> mt_retry_count m \<ge> DPLPMTUD_MAX_RETRIES
                 then lower_after_current_confirmation_failure n1 probe
                 else if mt_retry_count m < DPLPMTUD_MAX_RETRIES
                 then n1\<lparr>mt_retry_count := sat_add (mt_retry_count m) 1,
                         mt_pending_candidate := Some candidate, mt_state := PS_Searching\<rparr>
                 else if candidate = mt_base m \<and> \<not> mt_base_confirmed m
                 then enter_base_error n1 now
                 else n1\<lparr>mt_state := PS_Error, mt_pending_candidate := None,
                         mt_raise_at := Some (now + DPLPMTUD_ERROR_RETRY_INTERVAL)\<rparr>))"

definition pmtu_business_packet_too_large :: "pmtu_machine \<Rightarrow> instant \<Rightarrow> pmtu_step" where
  "pmtu_business_packet_too_large m now =
     (if business_confirmed m = None then (PD_Noop, m)
      else (PD_Applied,
            m\<lparr>mt_business_packet_too_large_count :=
                sat_add (mt_business_packet_too_large_count m) 1,
              mt_local_packet_too_large_count := sat_add (mt_local_packet_too_large_count m) 1,
              mt_last_send_failure_kind := Some LocalPacketTooLarge,
              mt_last_failure_at := Some now, mt_base_confirmed := False,
              mt_confirmed := None, mt_outstanding := None,
              mt_pending_candidate := Some (mt_base m), mt_confirmation_pending := False,
              mt_confirmation_at := None, mt_retry_count := 0, mt_raise_at := None,
              mt_state := PS_Base\<rparr>))"

definition pmtu_confirmation_timer_expired :: "pmtu_machine \<Rightarrow> instant \<Rightarrow> pmtu_step" where
  "pmtu_confirmation_timer_expired m now =
     (if mt_state m \<noteq> PS_SearchComplete
         \<or> (case mt_confirmation_at m of None \<Rightarrow> True | Some deadline \<Rightarrow> now < deadline)
         \<or> mt_confirmed m = None \<or> mt_confirmation_pending m
      then (PD_Noop, m)
      else (PD_Applied,
            m\<lparr>mt_pending_candidate := mt_confirmed m, mt_confirmation_at := None,
              mt_confirmation_pending := True, mt_retry_count := 0,
              mt_state := PS_Searching\<rparr>))"

definition pmtu_raise_timer_expired :: "pmtu_machine \<Rightarrow> instant \<Rightarrow> pmtu_step" where
  "pmtu_raise_timer_expired m now =
     (if mt_state m \<notin> {PS_SearchComplete, PS_Error}
         \<or> (case mt_raise_at m of None \<Rightarrow> True | Some deadline \<Rightarrow> now < deadline)
      then (PD_Noop, m)
      else
        let upper = (case mt_identity m of
                       None \<Rightarrow> mt_search_upper m
                     | Some i \<Rightarrow> ceiling_udp_datagram_size (pi_outer_ip_family i));
            n = m\<lparr>mt_search_upper := upper, mt_confirmation_pending := False,
                  mt_confirmation_at := None,
                  mt_pending_candidate := (case mt_confirmed m of
                      None \<Rightarrow> Some (mt_base m)
                    | Some confirmed \<Rightarrow> next_search_candidate confirmed upper),
                  mt_retry_count := 0, mt_raise_at := None\<rparr>
        in (PD_Applied,
            if mt_confirmed n = None then n\<lparr>mt_state := PS_Base\<rparr>
            else if mt_pending_candidate n \<noteq> None then n\<lparr>mt_state := PS_Searching\<rparr>
            else n\<lparr>mt_confirmation_at :=
                     Some (now + DPLPMTUD_CURRENT_PLPMTU_CONFIRMATION_INTERVAL),
                   mt_raise_at := Some (now + DPLPMTUD_RAISE_INTERVAL),
                   mt_state := PS_SearchComplete\<rparr>))"

definition pmtu_cancelled :: "pmtu_machine \<Rightarrow> string \<Rightarrow> pmtu_step" where
  "pmtu_cancelled m reason =
     (if mt_state m = PS_Disabled \<and> mt_last_reset_reason m = Some reason
         \<and> \<not> mt_base_confirmed m \<and> mt_confirmed m = None \<and> mt_outstanding m = None
         \<and> mt_pending_candidate m = None \<and> \<not> mt_confirmation_pending m
         \<and> mt_confirmation_at m = None \<and> mt_raise_at m = None
      then (PD_Noop, m)
      else (PD_Applied,
            m\<lparr>mt_state := PS_Disabled, mt_supported := False, mt_base_confirmed := False,
              mt_confirmed := None, mt_outstanding := None, mt_pending_candidate := None,
              mt_confirmation_pending := False, mt_confirmation_at := None,
              mt_raise_at := None, mt_last_reset_reason := Some reason,
              mt_reset_count := sat_add (mt_reset_count m) 1\<rparr>))"

section \<open>Reduce and commit\<close>

fun pmtu_reduce :: "pmtu_machine \<Rightarrow> pmtu_event \<Rightarrow> pmtu_step option" where
  "pmtu_reduce m (StartSearch now) = Some (pmtu_start_search m now)"
| "pmtu_reduce m (ProbeScheduled probe retry now deadline) =
     Some (pmtu_probe_scheduled m probe retry now deadline)"
| "pmtu_reduce m (ProbeSent probe now) = Some (pmtu_probe_sent m probe now)"
| "pmtu_reduce m (ProbeAcked probe now) = pmtu_probe_acked m probe now"
| "pmtu_reduce m (ProbeTimedOut probe now) = Some (pmtu_probe_timed_out m probe now)"
| "pmtu_reduce m (ProbeSendFailed probe failure now) =
     Some (pmtu_probe_send_failed m probe failure now)"
| "pmtu_reduce m (BusinessPacketTooLarge now) = Some (pmtu_business_packet_too_large m now)"
| "pmtu_reduce m (CurrentPlpmtuConfirmationTimerExpired now) =
     Some (pmtu_confirmation_timer_expired m now)"
| "pmtu_reduce m (RaiseTimerExpired now) = Some (pmtu_raise_timer_expired m now)"
| "pmtu_reduce m (StaleAck _) = Some (PD_Stale, bump_stale m)"
| "pmtu_reduce m (Cancelled reason _) = Some (pmtu_cancelled m reason)"

definition pmtu_commit :: "pmtu_machine \<Rightarrow> pmtu_step \<Rightarrow> pmtu_machine" where
  "pmtu_commit m t = (case fst t of
       PD_Applied \<Rightarrow> (snd t)\<lparr>mt_revision := sat_add (mt_revision (snd t)) 1\<rparr>
     | PD_Stale \<Rightarrow> (snd t)\<lparr>mt_revision := sat_add (mt_revision (snd t)) 1\<rparr>
     | PD_Duplicate \<Rightarrow> m\<lparr>mt_duplicate_ack_count := sat_add (mt_duplicate_ack_count m) 1\<rparr>
     | _ \<Rightarrow> m)"

text \<open>\<open>apply\<close>: the machine and the decision, or \<^const>\<open>None\<close> for a panic.\<close>

definition pmtu_apply :: "pmtu_machine \<Rightarrow> pmtu_event \<Rightarrow> (pmtu_machine \<times> pmtu_decision) option" where
  "pmtu_apply m e = map_option (\<lambda>t. (pmtu_commit m t, fst t)) (pmtu_reduce m e)"

text \<open>One step of the machine; a panicking machine stops where it was.\<close>

definition pmtu_step :: "pmtu_machine \<Rightarrow> pmtu_event \<Rightarrow> pmtu_machine" where
  "pmtu_step m e = (case pmtu_apply m e of None \<Rightarrow> m | Some (m', _) \<Rightarrow> m')"

end
