(* ===== verification/Pmtu_Safety.thy ===== *)
theory Pmtu_Safety
  imports Pmtu_Machine
begin

text \<open>
  The invariant of the path-MTU machine and the facts its properties share: the search interval
  always encloses the confirmed size and the candidate, a candidate in flight is the pending
  one, and every state that is not terminal has a probe or a timer to continue with.
\<close>

section \<open>Search arithmetic\<close>

definition search_offset :: "nat \<Rightarrow> nat" where
  "search_offset gap = min (max (gap div 2 div 8 * 8) 8) gap"

lemma search_offset_bounds: "0 < gap \<Longrightarrow> 0 < search_offset gap \<and> search_offset gap \<le> gap"
  by (auto simp: search_offset_def)

lemma clamped_offset:
  "(k :: nat) \<le> d \<Longrightarrow> c + d < n \<Longrightarrow>
     min (max (c + k) (min (c + 8) (n - 1))) (c + d) = c + min (max k 8) d"
  unfolding min_def max_def by (simp split: if_split) linarith

lemma unat_sat_add8:
  "unat (sat_add (c :: u32) 8) = min (unat c + 8) 4294967295"
  by (simp add: unat_sat_add)

lemma next_search_candidate_None: "next_search_candidate c u = None \<longleftrightarrow> u \<le> c"
proof (cases "u \<le> c")
  case True
  then show ?thesis by (simp add: next_search_candidate_def)
next
  case False
  then have "c < u" by simp
  moreover have "c < sat_add c 8" if "c < u"
    using that unsigned_less [of u, where ?'a = nat]
    by (simp add: word_less_nat_alt unat_sat_add8)
  ultimately show ?thesis
    by (simp add: next_search_candidate_def Let_def DPLPMTUD_SEARCH_GRANULARITY_def less_max_iff_disj)
qed

text \<open>Between a confirmed size and an upper bound the candidate depends on the gap alone.\<close>

lemma next_search_candidate_unat:
  assumes "c < u"
  shows "\<exists>p. next_search_candidate c u = Some p
    \<and> unat p = unat c + search_offset (unat u - unat c)"
proof -
  let ?d = "unat u - unat c" and ?off = "(u - c) div 2 div 8 * 8"
  have cu: "unat c < unat u" using assms by (simp add: word_less_nat_alt)
  have u: "unat u < 4294967296" using unsigned_less [of u, where ?'a = nat] by simp
  have d: "unat (u - c) = ?d" using cu by (simp add: unat_sub_if')
  have half: "unat ((u - c) div 2) = ?d div 2" by (simp add: unat_div d)
  have mid: "c + (u - c) div 2 - c = (u - c) div 2" by simp
  have "unat ((u - c) div 2 div 8) = ?d div 2 div 8" by (simp add: unat_div d)
  moreover have "?d div 2 div 8 * 8 < 4294967296" using u by simp
  ultimately have off: "unat ?off = ?d div 2 div 8 * 8"
    by (simp add: unat_word_ariths)
  have "unat c + ?d div 2 div 8 * 8 < 4294967296" using u cu by linarith
  then have al: "unat (c + ?off) = unat c + ?d div 2 div 8 * 8"
    using off by (simp add: unat_word_ariths)
  let ?p = "min (max (c + ?off) (sat_add c 8)) u"
  have "unat ?p = min (max (unat (c + ?off)) (unat (sat_add c 8))) (unat u)"
    by (simp add: min_def max_def word_le_nat_alt)
  also have "\<dots> = min (max (unat c + ?d div 2 div 8 * 8) (min (unat c + 8) (4294967296 - 1)))
      (unat c + ?d)"
    using cu by (simp add: al unat_sat_add8)
  also have "\<dots> = unat c + search_offset ?d"
    unfolding search_offset_def by (rule clamped_offset) (use u cu in linarith)+
  finally have p: "unat ?p = unat c + search_offset ?d" .
  have "c < ?p" using cu p search_offset_bounds [of ?d] by (simp add: word_less_nat_alt)
  then have "next_search_candidate c u = Some ?p"
    using assms mid by (simp add: next_search_candidate_def Let_def DPLPMTUD_SEARCH_GRANULARITY_def)
  with p show ?thesis by blast
qed

lemma next_search_candidate_bounds:
  assumes "next_search_candidate c u = Some p"
  shows "c < p \<and> p \<le> u \<and> c < u"
proof -
  have "c < u" using assms next_search_candidate_None [of c u] by auto
  with next_search_candidate_unat [OF this] assms search_offset_bounds [of "unat u - unat c"]
  show ?thesis by (auto simp: word_less_nat_alt word_le_nat_alt)
qed


section \<open>The invariant\<close>

definition sizes_ok :: "pmtu_machine \<Rightarrow> bool" where
  "sizes_ok m \<longleftrightarrow>
     mt_base m = DPLPMTUD_BASE_UDP_DATAGRAM_SIZE
     \<and> (\<exists>i. mt_identity m = Some i
            \<and> mt_search_upper m \<le> ceiling_udp_datagram_size (pi_outer_ip_family i))
     \<and> mt_base m \<le> mt_search_upper m
     \<and> (mt_base_confirmed m \<longleftrightarrow> mt_confirmed m \<noteq> None)
     \<and> (\<forall>c. mt_confirmed m = Some c \<longrightarrow> mt_base m \<le> c \<and> c \<le> mt_search_upper m)"

definition candidate_ok :: "pmtu_machine \<Rightarrow> bool" where
  "candidate_ok m \<longleftrightarrow>
     (mt_confirmation_pending m \<longrightarrow>
        mt_state m = PS_Searching \<and> mt_pending_candidate m = mt_confirmed m
        \<and> mt_raise_at m \<noteq> None)
     \<and> (\<forall>p. mt_pending_candidate m = Some p \<longrightarrow> \<not> mt_confirmation_pending m \<longrightarrow>
          mt_confirmed m = None \<and> p = mt_base m
          \<or> (\<exists>c. mt_confirmed m = Some c \<and> c < p \<and> p \<le> mt_search_upper m))"

definition outstanding_ok :: "pmtu_machine \<Rightarrow> bool" where
  "outstanding_ok m \<longleftrightarrow> (\<forall>o'. mt_outstanding m = Some o' \<longrightarrow>
     mt_state m = PS_Searching \<and> op_retry o' = mt_retry_count m
     \<and> mt_pending_candidate m = Some (pr_candidate (op_identity o')))"

definition state_ok :: "pmtu_machine \<Rightarrow> bool" where
  "state_ok m \<longleftrightarrow>
     (mt_supported m \<longleftrightarrow> mt_state m \<noteq> PS_Disabled \<and> mt_state m \<noteq> PS_Unsupported)
     \<and> (mt_pending_candidate m = None \<longleftrightarrow>
          mt_state m \<noteq> PS_Base \<and> mt_state m \<noteq> PS_Searching)
     \<and> (mt_state m = PS_Base \<or> \<not> mt_supported m \<longrightarrow> mt_confirmed m = None)
     \<and> (mt_state m = PS_SearchComplete \<longrightarrow>
          mt_confirmed m \<noteq> None \<and> mt_confirmation_at m \<noteq> None)
     \<and> (mt_state m = PS_SearchComplete \<or> mt_state m = PS_Error \<longrightarrow> mt_raise_at m \<noteq> None)"

definition books_ok :: "pmtu_machine \<Rightarrow> bool" where
  "books_ok m \<longleftrightarrow>
     mt_retry_count m \<le> DPLPMTUD_MAX_RETRIES
     \<and> distinct (mt_consumed_receipts m)
     \<and> length (mt_consumed_receipts m) \<le> MAX_CONSUMED_PROBE_RECEIPTS"

definition pmtu_inv :: "pmtu_machine \<Rightarrow> bool" where
  "pmtu_inv m \<longleftrightarrow> sizes_ok m \<and> candidate_ok m \<and> outstanding_ok m \<and> state_ok m \<and> books_ok m"

named_theorems pmtu_inv_defs \<open>the parts of the machine's invariant\<close>

lemmas [pmtu_inv_defs] =
  pmtu_inv_def sizes_ok_def candidate_ok_def outstanding_ok_def state_ok_def books_ok_def

lemma push_consumed_receipt_ok:
  "distinct rs \<Longrightarrow> distinct (push_consumed_receipt rs r)"
  "length rs \<le> MAX_CONSUMED_PROBE_RECEIPTS \<Longrightarrow>
     length (push_consumed_receipt rs r) \<le> MAX_CONSUMED_PROBE_RECEIPTS"
  "r \<in> set (push_consumed_receipt rs r)"
  using set_trim_front [of "MAX_CONSUMED_PROBE_RECEIPTS - 1" rs]
  by (auto simp: push_consumed_receipt_def distinct_trim_front MAX_CONSUMED_PROBE_RECEIPTS_def)

lemma pmtu_inv_for_path: "pmtu_inv (pmtu_for_path i supported)"
  by (simp add: pmtu_inv_defs pmtu_for_path_def pmtu_for_path_with_reason_def
      base_le_ceiling DPLPMTUD_MAX_RETRIES_def)

section \<open>The handlers keep the invariant\<close>

lemma retry_sat_add: "r < DPLPMTUD_MAX_RETRIES \<Longrightarrow> sat_add r 1 \<le> DPLPMTUD_MAX_RETRIES"
  by (simp add: word_le_nat_alt word_less_nat_alt unat_sat_add DPLPMTUD_MAX_RETRIES_def)

lemma bump_stale_inv [simp]: "pmtu_inv (bump_stale m) = pmtu_inv m"
  by (simp add: pmtu_inv_defs bump_stale_def)

lemma start_search_inv: "pmtu_inv m \<Longrightarrow> pmtu_inv (snd (pmtu_start_search m now))"
  by (cases "mt_state m") (auto simp: pmtu_inv_defs pmtu_start_search_def)

lemma probe_scheduled_inv:
  "pmtu_inv m \<Longrightarrow> pmtu_inv (snd (pmtu_probe_scheduled m probe retry now deadline))"
  by (cases "mt_state m") (auto simp: pmtu_inv_defs pmtu_probe_scheduled_def)

lemma probe_sent_inv: "pmtu_inv m \<Longrightarrow> pmtu_inv (snd (pmtu_probe_sent m probe now))"
  by (cases "mt_state m"; cases "mt_outstanding m") (auto simp: pmtu_inv_defs pmtu_probe_sent_def)

lemma business_packet_too_large_inv:
  "pmtu_inv m \<Longrightarrow> pmtu_inv (snd (pmtu_business_packet_too_large m now))"
  by (cases "mt_state m")
    (auto simp: pmtu_inv_defs pmtu_business_packet_too_large_def business_confirmed_def)

lemma cancelled_inv: "pmtu_inv m \<Longrightarrow> pmtu_inv (snd (pmtu_cancelled m reason))"
  by (cases "mt_state m") (auto simp: pmtu_inv_defs pmtu_cancelled_def)

lemma confirmation_timer_inv:
  "pmtu_inv m \<Longrightarrow> pmtu_inv (snd (pmtu_confirmation_timer_expired m now))"
  by (cases "mt_state m"; cases "mt_confirmed m")
    (auto simp: pmtu_inv_defs pmtu_confirmation_timer_expired_def)

lemma raise_timer_inv: "pmtu_inv m \<Longrightarrow> pmtu_inv (snd (pmtu_raise_timer_expired m now))"
  by (cases "mt_state m"; cases "mt_confirmed m")
    (auto simp: pmtu_inv_defs pmtu_raise_timer_expired_def Let_def base_le_ceiling
      dest: next_search_candidate_bounds)

text \<open>A machine between two probes: what the handlers have when a probe is settled.\<close>

definition settled :: "pmtu_machine \<Rightarrow> bool" where
  "settled n \<longleftrightarrow> sizes_ok n \<and> books_ok n \<and> mt_outstanding n = None \<and> mt_supported n"

lemma settled_updates [simp]:
  "settled (n\<lparr>mt_success_count := a\<rparr>) = settled n"
  "settled (n\<lparr>mt_timeout_count := a\<rparr>) = settled n"
  "settled (n\<lparr>mt_last_success_at := x\<rparr>) = settled n"
  "settled (n\<lparr>mt_last_timeout_at := x\<rparr>) = settled n"
  "settled (n\<lparr>mt_last_failure_at := x\<rparr>) = settled n"
  "settled (n\<lparr>mt_send_failure_count := a\<rparr>) = settled n"
  "settled (n\<lparr>mt_local_packet_too_large_count := a\<rparr>) = settled n"
  "settled (n\<lparr>mt_last_send_failure_kind := k\<rparr>) = settled n"
  "settled (pmtu_count_soft_failure n f) = settled n"
  by (simp_all add: settled_def sizes_ok_def books_ok_def pmtu_count_soft_failure_def
      split: probe_send_failure.split)

lemma settled_retry: "settled n \<Longrightarrow> settled (n\<lparr>mt_retry_count := 0\<rparr>)"
  by (auto simp: settled_def sizes_ok_def books_ok_def DPLPMTUD_MAX_RETRIES_def)

lemma enter_base_error_inv: "settled n \<Longrightarrow> pmtu_inv (enter_base_error n now)"
  by (auto simp: settled_def pmtu_inv_defs enter_base_error_def)

lemma lower_after_current_inv:
  "settled n \<Longrightarrow> pmtu_inv (lower_after_current_confirmation_failure n probe)"
  by (auto simp: settled_def pmtu_inv_defs lower_after_current_confirmation_failure_def Let_def
      max_def min_def base_le_ceiling DPLPMTUD_MAX_RETRIES_def)

lemma lower_after_failed_upper:
  assumes "(c :: u32) \<le> u"
  shows "c \<le> min u (max x c)" and "min u (max x c) \<le> u"
  using assms by simp_all

lemma lower_after_failed_inv:
  assumes "settled n" and "mt_confirmed n = Some c"
  shows "pmtu_inv (lower_after_failed_search_candidate n c f now)"
proof -
  let ?u = "min (mt_search_upper n) (max (sat_sub f DPLPMTUD_SEARCH_GRANULARITY) c)"
  have cu: "c \<le> ?u" "?u \<le> mt_search_upper n"
    using assms by (simp_all add: settled_def sizes_ok_def)
  obtain i where i: "mt_identity n = Some i"
      "mt_search_upper n \<le> ceiling_udp_datagram_size (pi_outer_ip_family i)"
      and b: "mt_base n = DPLPMTUD_BASE_UDP_DATAGRAM_SIZE" "mt_base n \<le> c" "mt_base_confirmed n"
    using assms by (auto simp: settled_def sizes_ok_def)
  have "?u \<le> ceiling_udp_datagram_size (pi_outer_ip_family i)" "mt_base n \<le> ?u"
    using order_trans [OF cu(2) i(2)] order_trans [OF b(2) cu(1)] by simp_all
  moreover obtain u where u: "?u = u" by blast
  moreover have "next_search_candidate c u = Some p \<Longrightarrow> c < p \<and> p \<le> u" for p
    using next_search_candidate_bounds by blast
  ultimately show ?thesis
    using assms i b cu
    by (cases "next_search_candidate c u")
      (simp_all add: settled_def pmtu_inv_defs lower_after_failed_search_candidate_def Let_def u)
qed

text \<open>What the invariant says of a probe in flight.\<close>

lemma in_flight_state:
  assumes "pmtu_inv m" and "mt_outstanding m = Some o'"
  shows "mt_state m = PS_Searching" and "op_retry o' = mt_retry_count m"
    and "mt_pending_candidate m = Some (pr_candidate (op_identity o'))"
  using assms by (simp_all add: pmtu_inv_defs)

lemma in_flight_settled:
  assumes "pmtu_inv m" and "mt_outstanding m = Some o'"
  shows "settled (m\<lparr>mt_outstanding := None\<rparr>)"
  using assms(1) in_flight_state [OF assms]
  by (auto simp: settled_def pmtu_inv_def sizes_ok_def books_ok_def state_ok_def)

text \<open>A candidate the machine may (re)try once nothing is in flight.\<close>

definition candidate_fits :: "pmtu_machine \<Rightarrow> udp_datagram_size \<Rightarrow> bool" where
  "candidate_fits n p \<longleftrightarrow>
     (if mt_confirmation_pending n then mt_confirmed n = Some p \<and> mt_raise_at n \<noteq> None
      else mt_confirmed n = None \<and> p = mt_base n
        \<or> (\<exists>c. mt_confirmed n = Some c \<and> c < p \<and> p \<le> mt_search_upper n))"

lemma candidate_fits_updates [simp]:
  "candidate_fits (n\<lparr>mt_outstanding := x\<rparr>) = candidate_fits n"
  "candidate_fits (n\<lparr>mt_timeout_count := a\<rparr>) = candidate_fits n"
  "candidate_fits (n\<lparr>mt_last_timeout_at := y\<rparr>) = candidate_fits n"
  "candidate_fits (n\<lparr>mt_last_failure_at := y\<rparr>) = candidate_fits n"
  "candidate_fits (n\<lparr>mt_send_failure_count := a\<rparr>) = candidate_fits n"
  "candidate_fits (n\<lparr>mt_last_send_failure_kind := k\<rparr>) = candidate_fits n"
  "candidate_fits (pmtu_count_soft_failure n f) = candidate_fits n"
  by (simp_all add: candidate_fits_def fun_eq_iff pmtu_count_soft_failure_def
      split: probe_send_failure.split)

lemma in_flight_candidate:
  assumes "pmtu_inv m" and "mt_outstanding m = Some o'"
  shows "candidate_fits m (pr_candidate (op_identity o'))"
  using assms(1) in_flight_state(3) [OF assms]
  by (simp add: pmtu_inv_def candidate_ok_def candidate_fits_def)

lemma resume_inv:
  assumes "settled n" and "candidate_fits n p" and "r \<le> DPLPMTUD_MAX_RETRIES"
  shows "pmtu_inv (n\<lparr>mt_retry_count := r, mt_pending_candidate := Some p,
    mt_state := PS_Searching\<rparr>)"
  using assms by (auto simp: settled_def candidate_fits_def pmtu_inv_defs split: if_splits)

lemma error_inv:
  assumes "settled n" and "\<not> mt_confirmation_pending n"
  shows "pmtu_inv (n\<lparr>mt_state := PS_Error, mt_pending_candidate := None,
    mt_raise_at := Some t\<rparr>)"
  using assms by (auto simp: settled_def pmtu_inv_defs)

lemma count_soft_failure_simps [simp]:
  "mt_confirmation_pending (pmtu_count_soft_failure n f) = mt_confirmation_pending n"
  by (simp add: pmtu_count_soft_failure_def split: probe_send_failure.split)

section \<open>The handlers that settle a probe\<close>

lemma timed_out_inv:
  assumes "pmtu_inv m"
  shows "pmtu_inv (snd (pmtu_probe_timed_out m probe now))"
proof (cases "mt_outstanding m")
  case None
  with assms show ?thesis by (simp add: pmtu_probe_timed_out_def)
next
  case (Some o')
  let ?n = "m\<lparr>mt_outstanding := None, mt_timeout_count := sat_add (mt_timeout_count m) 1,
    mt_last_timeout_at := Some now\<rparr>"
  have n: "settled ?n" "candidate_fits ?n (pr_candidate (op_identity o'))"
    using in_flight_settled [OF assms Some] in_flight_candidate [OF assms Some] by simp_all
  show ?thesis
  proof (cases "probe = op_identity o'")
    case True
    note resume = resume_inv [OF n(1) n(2) retry_sat_add, of "op_retry o'"]
    show ?thesis
      using assms settled_retry [OF n(1)] Some resume unfolding True
      by (simp add: pmtu_probe_timed_out_def Let_def enter_base_error_inv
          lower_after_current_inv lower_after_failed_inv split: option.split)
  qed (use assms Some in \<open>simp add: pmtu_probe_timed_out_def\<close>)
qed

lemma send_failed_inv:
  assumes "pmtu_inv m"
  shows "pmtu_inv (snd (pmtu_probe_send_failed m probe failure now))"
proof (cases "mt_outstanding m")
  case None
  with assms show ?thesis by (simp add: pmtu_probe_send_failed_def outstanding_identity_def)
next
  case (Some o')
  let ?n = "m\<lparr>mt_outstanding := None, mt_send_failure_count := sat_add (mt_send_failure_count m) 1,
    mt_last_failure_at := Some now, mt_last_send_failure_kind := Some failure\<rparr>"
  have n: "settled ?n" "candidate_fits ?n (pr_candidate (op_identity o'))"
    using in_flight_settled [OF assms Some] in_flight_candidate [OF assms Some] by simp_all
  show ?thesis
  proof (cases "probe = op_identity o'")
    case True
    have soft: "settled (pmtu_count_soft_failure ?n failure)"
        "candidate_fits (pmtu_count_soft_failure ?n failure) (pr_candidate (op_identity o'))"
      using n by simp_all
    note resume = resume_inv [OF soft retry_sat_add, of "mt_retry_count m"]
    show ?thesis
      using assms n(1) soft(1) Some resume unfolding True
      by (simp add: pmtu_probe_send_failed_def outstanding_identity_def Let_def error_inv
          enter_base_error_inv lower_after_current_inv lower_after_failed_inv
          split: option.split)
  qed (use assms Some in \<open>simp add: pmtu_probe_send_failed_def outstanding_identity_def\<close>)
qed

lemma ack_accepted_inv:
  assumes "settled n" and "mt_retry_count n = 0"
    and "current \<Longrightarrow> mt_confirmed n \<noteq> None \<and> mt_raise_at n \<noteq> None"
    and "\<not> current \<Longrightarrow> \<not> mt_confirmation_pending n"
    and "pmtu_ack_accepted n current probe now = Some n'"
  shows "pmtu_inv n'"
proof -
  have push: "distinct (push_consumed_receipt (mt_consumed_receipts n) probe)"
    "length (push_consumed_receipt (mt_consumed_receipts n) probe) \<le> MAX_CONSUMED_PROBE_RECEIPTS"
    using assms(1) by (simp_all add: settled_def books_ok_def push_consumed_receipt_ok)
  show ?thesis
  proof (cases current)
    case True
    with assms push show ?thesis
      by (auto simp: pmtu_ack_accepted_def Let_def settled_def pmtu_inv_defs)
  next
    case False
    with assms(5) obtain c where c: "mt_confirmed n = Some c"
      by (auto simp: pmtu_ack_accepted_def Let_def split: option.splits)
    have "next_search_candidate c (mt_search_upper n) = Some p \<Longrightarrow>
        c < p \<and> p \<le> mt_search_upper n" for p
      using next_search_candidate_bounds by blast
    with False assms c push show ?thesis
      by (cases "next_search_candidate c (mt_search_upper n)")
        (auto simp: pmtu_ack_accepted_def Let_def settled_def pmtu_inv_defs)
  qed
qed

lemma ack_start:
  assumes "pmtu_inv m" and "mt_outstanding m = Some o'"
  defines "n \<equiv> m\<lparr>mt_outstanding := None, mt_retry_count := 0\<rparr>"
  shows "settled n"
    and "mt_base m = pr_candidate (op_identity o') \<Longrightarrow>
      settled (n\<lparr>mt_base_confirmed := True, mt_confirmed := Some (mt_base m)\<rparr>)"
    and "mt_confirmed m = Some c \<Longrightarrow> c \<le> pr_candidate (op_identity o') \<Longrightarrow>
      settled (n\<lparr>mt_confirmed := Some (pr_candidate (op_identity o'))\<rparr>)"
proof -
  note set = in_flight_settled [OF assms(1,2)] and fit = in_flight_candidate [OF assms(1,2)]
  show n: "settled n" unfolding n_def using set by (simp add: settled_retry)
  show "settled (n\<lparr>mt_base_confirmed := True, mt_confirmed := Some (mt_base m)\<rparr>)"
    if "mt_base m = pr_candidate (op_identity o')"
    using n by (auto simp: settled_def sizes_ok_def books_ok_def n_def)
  show "settled (n\<lparr>mt_confirmed := Some (pr_candidate (op_identity o'))\<rparr>)"
    if "mt_confirmed m = Some c" "c \<le> pr_candidate (op_identity o')"
    using n that fit
    by (auto simp: settled_def sizes_ok_def books_ok_def n_def candidate_fits_def
        split: if_splits)
qed

text \<open>
  An in-time acknowledgement of the probe in flight is always accepted, and the machine never
  reaches the \<open>expect\<close>.
\<close>

lemma ack_accepted:
  assumes "pmtu_inv m" and "mt_outstanding m = Some o'" and "op_sent_at o' \<noteq> None"
    and "now \<le> op_deadline o'" and "op_identity o' \<notin> set (mt_consumed_receipts m)"
  shows "\<exists>n. pmtu_probe_acked m (op_identity o') now = Some (PD_Applied, n) \<and> pmtu_inv n
    \<and> mt_confirmed n = Some (pr_candidate (op_identity o'))
    \<and> op_identity o' \<in> set (mt_consumed_receipts n)"
proof -
  let ?p = "pr_candidate (op_identity o')"
  let ?n = "m\<lparr>mt_outstanding := None, mt_retry_count := 0\<rparr>"
  note fit = in_flight_candidate [OF assms(1,2)] and start = ack_start [OF assms(1,2)]
  have acc: "\<exists>n. pmtu_ack_accepted k current (op_identity o') now = Some n \<and> pmtu_inv n
      \<and> mt_confirmed n = Some ?p \<and> op_identity o' \<in> set (mt_consumed_receipts n)"
    if hyps: "settled k" "mt_retry_count k = 0" "mt_confirmed k = Some ?p"
      "current \<Longrightarrow> mt_raise_at k \<noteq> None" "\<not> current \<Longrightarrow> \<not> mt_confirmation_pending k"
    for k current
  proof -
    obtain n where n: "pmtu_ack_accepted k current (op_identity o') now = Some n"
      using hyps(3) by (cases current) (auto simp: pmtu_ack_accepted_def Let_def)
    then have "mt_confirmed n = Some ?p" "op_identity o' \<in> set (mt_consumed_receipts n)"
      using hyps(3)
      by (auto simp: pmtu_ack_accepted_def Let_def push_consumed_receipt_ok split: if_splits)
    moreover have "pmtu_inv n"
      using ack_accepted_inv [OF hyps(1,2) _ hyps(5) n] hyps(3,4) by auto
    ultimately show ?thesis using n by blast
  qed
  show ?thesis
  proof (cases "mt_confirmation_pending m")
    case True
    then have "mt_confirmed m = Some ?p" "mt_raise_at m \<noteq> None"
      using fit by (simp_all add: candidate_fits_def)
    with acc [of ?n True] start(1) True assms(2-5) show ?thesis
      by (auto simp: pmtu_probe_acked_def Let_def)
  next
    case False
    show ?thesis
    proof (cases "?p = mt_base m")
      case base: True
      with acc [of "?n\<lparr>mt_base_confirmed := True, mt_confirmed := Some (mt_base m)\<rparr>" False]
        start(2) False assms(2-5) show ?thesis
        by (auto simp: pmtu_probe_acked_def Let_def)
    next
      case other: False
      with fit False obtain c where c: "mt_confirmed m = Some c" "c < ?p"
        by (auto simp: candidate_fits_def)
      with acc [of "?n\<lparr>mt_confirmed := Some ?p\<rparr>" False] start(3) False other assms(2-5)
      show ?thesis by (auto simp: pmtu_probe_acked_def Let_def)
    qed
  qed
qed

lemma acked_inv:
  assumes "pmtu_inv m"
  shows "\<exists>d n. pmtu_probe_acked m probe now = Some (d, n) \<and> pmtu_inv n"
proof (cases "probe \<in> set (mt_consumed_receipts m)")
  case True
  with assms show ?thesis by (simp add: pmtu_probe_acked_def)
next
  case fresh: False
  show ?thesis
  proof (cases "mt_outstanding m")
    case None
    with assms fresh show ?thesis by (simp add: pmtu_probe_acked_def)
  next
    case (Some o')
    show ?thesis
    proof (cases "op_identity o' = probe \<and> op_sent_at o' \<noteq> None \<and> now \<le> op_deadline o'")
      case True
      with ack_accepted [OF assms Some] fresh show ?thesis by blast
    next
      case False
      then have "pmtu_probe_acked m probe now = Some (PD_Stale, bump_stale m)"
        using fresh Some by (auto simp: pmtu_probe_acked_def)
      with assms show ?thesis by simp
    qed
  qed
qed

section \<open>Every run\<close>

lemma pmtu_inv_updates [simp]:
  "pmtu_inv (m\<lparr>mt_revision := a\<rparr>) = pmtu_inv m"
  "pmtu_inv (m\<lparr>mt_duplicate_ack_count := a\<rparr>) = pmtu_inv m"
  by (simp_all add: pmtu_inv_defs)

lemma pmtu_reduce_inv:
  assumes "pmtu_inv m"
  shows "\<exists>d n. pmtu_reduce m e = Some (d, n) \<and> pmtu_inv n"
proof (cases e)
  case (ProbeAcked probe now)
  with acked_inv [OF assms] show ?thesis by simp
qed (use assms in \<open>simp_all add: prod_eq_iff start_search_inv probe_scheduled_inv
    probe_sent_inv timed_out_inv send_failed_inv business_packet_too_large_inv
    confirmation_timer_inv raise_timer_inv cancelled_inv\<close>)

lemma pmtu_step_inv: "pmtu_inv m \<Longrightarrow> pmtu_inv (pmtu_step m e)"
  using pmtu_reduce_inv [of m e]
  by (auto simp: pmtu_step_def pmtu_apply_def pmtu_commit_def split: pmtu_decision.split)

lemma pmtu_no_panic: "pmtu_inv m \<Longrightarrow> \<exists>d. pmtu_apply m e = Some (pmtu_step m e, d)"
  using pmtu_reduce_inv [of m e] by (auto simp: pmtu_step_def pmtu_apply_def)

interpretation pmtu: event_machine pmtu_step pmtu_inv
  by unfold_locales (rule pmtu_step_inv)

end
