(* ===== verification/Pmtu_Search.thy ===== *)
theory Pmtu_Search
  imports Pmtu_Safety
begin

text \<open>
  The search as a whole: a driver that runs one probe after another against a path that carries
  datagrams up to some size, and the proof that the machine ends its search on that size, to
  within the granularity, after a bounded number of probes.
\<close>

section \<open>The interval shrinks\<close>

function search_rounds :: "nat \<Rightarrow> nat" where
  "search_rounds gap =
     (if gap = 0 then 0
      else Suc (max (search_rounds (gap - search_offset gap))
                    (search_rounds (search_offset gap - 8))))"
  by pat_completeness auto

termination
  by (relation "measure id") (auto simp: search_offset_def)

declare search_rounds.simps [simp del]

lemma search_rounds_0 [simp]: "search_rounds 0 = 0"
  by (simp add: search_rounds.simps)

lemma search_rounds_step:
  "0 < gap \<Longrightarrow> search_rounds (gap - search_offset gap) < search_rounds gap"
  "0 < gap \<Longrightarrow> search_rounds (search_offset gap - 8) < search_rounds gap"
  by (simp_all add: search_rounds.simps [of gap] less_Suc_eq_le)

lemma search_rounds_values: "search_rounds 272 = 7" "search_rounds 252 = 7"
  by code_simp+

text \<open>Steps per probe: each round may take the first try and both retries.\<close>

definition search_gap :: "pmtu_machine \<Rightarrow> nat" where
  "search_gap m = (case mt_confirmed m of None \<Rightarrow> 0 | Some c \<Rightarrow> unat (mt_search_upper m) - unat c)"

section \<open>One probe against a path\<close>

text \<open>
  \<open>limit\<close> is the largest datagram the path carries. A probe that fits is acknowledged; one that
  does not is either lost, and times out, or rejected locally. The record carries the nonce and
  the cookie of the probe, the instant it is sent and which of the two failures happens.
\<close>

record probe_run =
  run_nonce :: bytes
  run_cookie :: bytes
  run_now :: instant
  run_silent :: bool

definition DPLPMTUD_PROBE_TIMEOUT :: duration where
  "DPLPMTUD_PROBE_TIMEOUT = from_secs 1"

definition probe_exchange :: "udp_datagram_size \<Rightarrow> pmtu_machine \<Rightarrow> probe_run \<Rightarrow> pmtu_machine" where
  "probe_exchange limit m r =
     (case next_probe_components m of
        None \<Rightarrow> m
      | Some (sq, candidate, retry) \<Rightarrow>
          let probe = \<lparr>pr_sequence = sq, pr_nonce = run_nonce r, pr_path_cookie = run_cookie r,
                       pr_candidate = candidate\<rparr>;
              deadline = run_now r + DPLPMTUD_PROBE_TIMEOUT;
              m1 = pmtu_step m (ProbeScheduled probe retry (run_now r) deadline);
              m2 = pmtu_step m1 (ProbeSent probe (run_now r))
          in if candidate \<le> limit then pmtu_step m2 (ProbeAcked probe (run_now r))
             else if run_silent r then pmtu_step m2 (ProbeTimedOut probe deadline)
             else pmtu_step m2 (ProbeSendFailed probe LocalPacketTooLarge (run_now r)))"

lemmas pmtu_step_defs = pmtu_step_def pmtu_apply_def pmtu_commit_def

definition launched :: "pmtu_machine \<Rightarrow> probe_identity \<Rightarrow> instant \<Rightarrow> pmtu_machine" where
  "launched m probe now =
     m\<lparr>mt_state := PS_Searching,
       mt_outstanding := Some \<lparr>op_identity = probe, op_scheduled_at = now, op_sent_at = Some now,
         op_deadline = now + DPLPMTUD_PROBE_TIMEOUT, op_retry = mt_retry_count m\<rparr>,
       mt_next_sequence := max (mt_next_sequence m + 1) 1,
       mt_revision := sat_add (sat_add (mt_revision m) 1) 1,
       mt_probe_count := sat_add (mt_probe_count m) 1\<rparr>"

lemma launch:
  assumes "mt_state m = PS_Base \<or> mt_state m = PS_Searching" and "mt_outstanding m = None"
    and "mt_pending_candidate m = Some (pr_candidate probe)"
    and "pr_sequence probe = mt_next_sequence m"
  shows "pmtu_step (pmtu_step m (ProbeScheduled probe (mt_retry_count m) now
      (now + DPLPMTUD_PROBE_TIMEOUT))) (ProbeSent probe now) = launched m probe now"
proof -
  have "pmtu_step m (ProbeScheduled probe (mt_retry_count m) now (now + DPLPMTUD_PROBE_TIMEOUT))
    = m\<lparr>mt_state := PS_Searching,
        mt_outstanding := Some \<lparr>op_identity = probe, op_scheduled_at = now, op_sent_at = None,
          op_deadline = now + DPLPMTUD_PROBE_TIMEOUT, op_retry = mt_retry_count m\<rparr>,
        mt_next_sequence := max (mt_next_sequence m + 1) 1,
        mt_revision := sat_add (mt_revision m) 1\<rparr>"
    using assms
    by (auto simp: pmtu_step_defs pmtu_probe_scheduled_def DPLPMTUD_PROBE_TIMEOUT_def from_secs_def)
  then show ?thesis by (simp add: pmtu_step_defs pmtu_probe_sent_def launched_def)
qed

text \<open>The part of the machine the search is about.\<close>

definition search_view ::
  "pmtu_machine \<Rightarrow> pmtu_state \<times> udp_datagram_size option \<times> udp_datagram_size
    \<times> udp_datagram_size option \<times> bool \<times> outstanding_probe option \<times> u8 \<times> u64
    \<times> probe_identity list" where
  "search_view m = (mt_state m, mt_confirmed m, mt_search_upper m, mt_pending_candidate m,
     mt_confirmation_pending m, mt_outstanding m, mt_retry_count m, mt_next_sequence m,
     mt_consumed_receipts m)"

definition end_or_go_on :: "udp_datagram_size option \<Rightarrow> pmtu_state" where
  "end_or_go_on p = (if p = None then PS_SearchComplete else PS_Searching)"

lemma settle_ack:
  assumes "\<not> mt_confirmation_pending m" and "probe \<notin> set (mt_consumed_receipts m)"
    and "pr_candidate probe = mt_base m
      \<or> (\<exists>c. mt_confirmed m = Some c \<and> c \<le> pr_candidate probe)"
  shows "search_view (pmtu_step (launched m probe now) (ProbeAcked probe now)) =
    (let p = next_search_candidate (pr_candidate probe) (mt_search_upper m)
     in (end_or_go_on p, Some (pr_candidate probe), mt_search_upper m, p, False, None, 0,
         max (mt_next_sequence m + 1) 1, push_consumed_receipt (mt_consumed_receipts m) probe))"
  using assms
  by (auto simp: pmtu_step_defs pmtu_probe_acked_def launched_def pmtu_ack_accepted_def
      search_view_def end_or_go_on_def Let_def)

lemma settle_timeout:
  assumes "\<not> mt_confirmation_pending m" and "mt_confirmed m = Some c" and "mt_base_confirmed m"
    and "deadline = now + DPLPMTUD_PROBE_TIMEOUT" and "mt_retry_count m < DPLPMTUD_MAX_RETRIES"
  shows "search_view (pmtu_step (launched m probe now) (ProbeTimedOut probe deadline)) =
    (PS_Searching, Some c, mt_search_upper m, Some (pr_candidate probe), False, None,
     sat_add (mt_retry_count m) 1, max (mt_next_sequence m + 1) 1, mt_consumed_receipts m)"
  using assms
  by (simp add: pmtu_step_defs pmtu_probe_timed_out_def launched_def search_view_def Let_def)

definition lowered :: "udp_datagram_size \<Rightarrow> udp_datagram_size \<Rightarrow> udp_datagram_size \<Rightarrow> u32" where
  "lowered upper c failed = min upper (max (sat_sub failed DPLPMTUD_SEARCH_GRANULARITY) c)"

lemma settle_failed:
  assumes "\<not> mt_confirmation_pending m" and "mt_confirmed m = Some c" and "mt_base_confirmed m"
    and "e = ProbeTimedOut probe (now + DPLPMTUD_PROBE_TIMEOUT)
           \<and> \<not> mt_retry_count m < DPLPMTUD_MAX_RETRIES
         \<or> e = ProbeSendFailed probe LocalPacketTooLarge now"
  shows "\<exists>r. r \<le> mt_retry_count m \<and>
    search_view (pmtu_step (launched m probe now) e) =
    (let u = lowered (mt_search_upper m) c (pr_candidate probe); p = next_search_candidate c u
     in (end_or_go_on p, Some c, u, p, False, None, r, max (mt_next_sequence m + 1) 1,
         mt_consumed_receipts m))"
  using assms
  by (auto simp: pmtu_step_defs pmtu_probe_timed_out_def pmtu_probe_send_failed_def
      outstanding_identity_def launched_def lower_after_failed_search_candidate_def lowered_def
      search_view_def end_or_go_on_def Let_def)

section \<open>The search converges\<close>

lemma unat_lowered:
  assumes "c < p" and "p \<le> u"
  shows "unat (lowered u c p) = max (unat p - 8) (unat c)"
  using assms by (auto simp: lowered_def min_def max_def word_le_nat_alt word_less_nat_alt
      unat_sat_sub DPLPMTUD_SEARCH_GRANULARITY_def)

text \<open>
  The facts about a search towards \<open>limit\<close>: the confirmed size fits, nothing above the upper
  bound by more than the granularity does, the next candidate is the one the interval
  determines, and the sequence numbers of the consumed receipts lie in the past.
\<close>

definition tracks :: "udp_datagram_size \<Rightarrow> pmtu_machine \<Rightarrow> udp_datagram_size \<Rightarrow> bool" where
  "tracks limit m c \<longleftrightarrow>
     pmtu_inv m \<and> \<not> mt_confirmation_pending m \<and> mt_outstanding m = None
     \<and> mt_confirmed m = Some c \<and> c \<le> limit \<and> unat limit < unat (mt_search_upper m) + 8
     \<and> mt_pending_candidate m = next_search_candidate c (mt_search_upper m)
     \<and> mt_state m = end_or_go_on (mt_pending_candidate m)
     \<and> (\<forall>r \<in> set (mt_consumed_receipts m). pr_sequence r < mt_next_sequence m)"

definition probes_left :: "pmtu_machine \<Rightarrow> nat" where
  "probes_left m = 3 * search_rounds (search_gap m) - unat (mt_retry_count m)"

lemma tracks_inv:
  assumes "tracks limit m c"
  shows "mt_base_confirmed m" and "c \<le> mt_search_upper m" and "unat (mt_retry_count m) \<le> 2"
    and "mt_supported m" and "search_gap m = unat (mt_search_upper m) - unat c"
  using assms by (auto simp: tracks_def pmtu_inv_defs search_gap_def word_le_nat_alt
      DPLPMTUD_MAX_RETRIES_def end_or_go_on_def split: if_splits)

lemma sequence_advances:
  assumes "unat (n :: u64) + 1 < 2 ^ 64"
  shows "max (n + 1) 1 = n + 1" and "unat (n + 1) = unat n + 1" and "n < n + 1"
proof -
  show u: "unat (n + 1) = unat n + 1" using assms by (simp add: unat_word_ariths)
  then show "n < n + 1" by (simp add: word_less_nat_alt)
  from u have "1 \<le> n + 1" by (simp add: word_le_nat_alt)
  then show "max (n + 1) 1 = n + 1" by (rule max_absorb1)
qed

lemma probe_exchange_inv: "pmtu_inv m \<Longrightarrow> pmtu_inv (probe_exchange limit m r)"
  by (auto simp: probe_exchange_def Let_def pmtu_step_inv split: option.split)

lemma push_receipts_fresh:
  assumes "\<forall>r \<in> set rs. pr_sequence r < n" and "pr_sequence p = n" and "(n :: u64) < n'"
  shows "\<forall>r \<in> set (push_consumed_receipt rs p). pr_sequence r < n'"
  using assms set_trim_front [of "MAX_CONSUMED_PROBE_RECEIPTS - 1" rs]
  by (auto simp: push_consumed_receipt_def intro: less_trans split: if_splits)

lemma exchange_unfold:
  assumes "mt_supported m" and "mt_state m = PS_Base \<or> mt_state m = PS_Searching"
    and "mt_outstanding m = None" and "mt_pending_candidate m = Some p"
  shows "probe_exchange limit m r =
    (let probe = \<lparr>pr_sequence = mt_next_sequence m, pr_nonce = run_nonce r,
           pr_path_cookie = run_cookie r, pr_candidate = p\<rparr>;
         m2 = launched m probe (run_now r)
     in if p \<le> limit then pmtu_step m2 (ProbeAcked probe (run_now r))
        else if run_silent r
        then pmtu_step m2 (ProbeTimedOut probe (run_now r + DPLPMTUD_PROBE_TIMEOUT))
        else pmtu_step m2 (ProbeSendFailed probe LocalPacketTooLarge (run_now r)))"
  using assms
  by (auto simp: probe_exchange_def next_probe_components_def Let_def launch)

lemma rounds_drop:
  assumes "(c :: u32) < u" and "next_search_candidate c u = Some p"
  shows "search_rounds (unat u - unat p) < search_rounds (unat u - unat c)"
    and "search_rounds (unat (lowered u c p) - unat c) < search_rounds (unat u - unat c)"
proof -
  have g: "0 < unat u - unat c" using assms(1) by (simp add: word_less_nat_alt)
  have p: "unat p = unat c + search_offset (unat u - unat c)"
    using next_search_candidate_unat [OF assms(1)] assms(2) by auto
  then have "unat u - unat p = (unat u - unat c) - search_offset (unat u - unat c)" by simp
  with search_rounds_step(1) [OF g]
  show "search_rounds (unat u - unat p) < search_rounds (unat u - unat c)" by simp
  have "unat (lowered u c p) - unat c = search_offset (unat u - unat c) - 8"
    using unat_lowered [of c p u] next_search_candidate_bounds [OF assms(2)] p
    by (simp add: max_def)
  with search_rounds_step(2) [OF g]
  show "search_rounds (unat (lowered u c p) - unat c) < search_rounds (unat u - unat c)" by simp
qed

lemma probes_left_drop:
  assumes "search_rounds (search_gap m') < search_rounds (search_gap m)"
    and "unat (mt_retry_count m) \<le> 2"
  shows "probes_left m' < probes_left m"
  using assms by (simp add: probes_left_def)

lemma tracks_view:
  assumes "search_view m' = (end_or_go_on p, Some c, u, p, False, None, k, n, rs)"
    and "p = next_search_candidate c u" and "pmtu_inv m'" and "c \<le> limit"
    and "unat limit < unat u + 8" and "\<forall>r \<in> set rs. pr_sequence r < n"
  shows "tracks limit m' c \<and> search_gap m' = unat u - unat c \<and> mt_next_sequence m' = n
    \<and> mt_retry_count m' = k"
  using assms by (simp add: search_view_def tracks_def search_gap_def)

text \<open>A probe in the search: its candidate lies inside the interval and its identity is new.\<close>

definition search_probe ::
  "udp_datagram_size \<Rightarrow> pmtu_machine \<Rightarrow> udp_datagram_size \<Rightarrow> probe_identity \<Rightarrow> bool" where
  "search_probe limit m c probe \<longleftrightarrow>
     tracks limit m c \<and> mt_state m = PS_Searching \<and> unat (mt_next_sequence m) + 1 < 2 ^ 64
     \<and> pr_sequence probe = mt_next_sequence m
     \<and> next_search_candidate c (mt_search_upper m) = Some (pr_candidate probe)"

lemma search_probe_facts:
  assumes "search_probe limit m c probe"
  shows "tracks limit m c" "c < pr_candidate probe" "pr_candidate probe \<le> mt_search_upper m"
    and "probe \<notin> set (mt_consumed_receipts m)"
    and "\<forall>x \<in> set (mt_consumed_receipts m). pr_sequence x < mt_next_sequence m + 1"
    and "search_rounds (unat (mt_search_upper m) - unat (pr_candidate probe)) < search_rounds (search_gap m)"
    and "search_rounds (unat (lowered (mt_search_upper m) c (pr_candidate probe)) - unat c)
      < search_rounds (search_gap m)"
    and "\<not> mt_confirmation_pending m" "mt_confirmed m = Some c" "mt_base_confirmed m" "c \<le> limit"
      "unat limit < unat (mt_search_upper m) + 8"
    and "\<forall>x \<in> set (mt_consumed_receipts m). pr_sequence x < pr_sequence probe"
    and "max (mt_next_sequence m + 1) 1 = mt_next_sequence m + 1" "pr_sequence probe < mt_next_sequence m + 1"
    and "next_search_candidate c (mt_search_upper m) = Some (pr_candidate probe)"
proof -
  note s = assms [unfolded search_probe_def]
  then have cand: "next_search_candidate c (mt_search_upper m) = Some (pr_candidate probe)" by simp
  note b = next_search_candidate_bounds [OF cand]
  show t: "tracks limit m c" using s by simp
  show "c < pr_candidate probe" "pr_candidate probe \<le> mt_search_upper m" using b by simp_all
  show "probe \<notin> set (mt_consumed_receipts m)" using s by (auto simp: tracks_def)
  show "\<forall>x \<in> set (mt_consumed_receipts m). pr_sequence x < mt_next_sequence m + 1"
    using s sequence_advances(3) [of "mt_next_sequence m"] by (auto simp: tracks_def intro: less_trans)
  note drop = rounds_drop [OF conjunct2 [OF conjunct2 [OF b]] cand]
  show "search_rounds (unat (mt_search_upper m) - unat (pr_candidate probe)) < search_rounds (search_gap m)"
    and "search_rounds (unat (lowered (mt_search_upper m) c (pr_candidate probe)) - unat c)
      < search_rounds (search_gap m)"
    using drop tracks_inv(5) [OF t] by simp_all
  show "\<not> mt_confirmation_pending m" "mt_confirmed m = Some c" "c \<le> limit"
      "unat limit < unat (mt_search_upper m) + 8"
    using t unfolding tracks_def by blast+
  have "pr_sequence probe = mt_next_sequence m" using s by blast
  then show "\<forall>x \<in> set (mt_consumed_receipts m). pr_sequence x < pr_sequence probe"
    using t unfolding tracks_def by (simp only:) blast
  show "mt_base_confirmed m" by (rule tracks_inv(1) [OF t])
  show "max (mt_next_sequence m + 1) 1 = mt_next_sequence m + 1" "pr_sequence probe < mt_next_sequence m + 1"
  proof -
    have fresh: "unat (mt_next_sequence m) + 1 < 2 ^ 64" and pr: "pr_sequence probe = mt_next_sequence m"
      using s by blast+
    show "max (mt_next_sequence m + 1) 1 = mt_next_sequence m + 1" by (rule sequence_advances(1) [OF fresh])
    show "pr_sequence probe < mt_next_sequence m + 1" unfolding pr by (rule sequence_advances(3) [OF fresh])
  qed
  show "next_search_candidate c (mt_search_upper m) = Some (pr_candidate probe)" by (rule cand)
qed

lemma search_probe_acked:
  assumes probe: "search_probe limit m c probe" and fits: "pr_candidate probe \<le> limit"
    and m': "m' = pmtu_step (launched m probe now) (ProbeAcked probe now)" and inv': "pmtu_inv m'"
  shows "tracks limit m' (pr_candidate probe)" "probes_left m' < probes_left m"
    "mt_next_sequence m' = mt_next_sequence m + 1"
proof -
  let ?u = "mt_search_upper m" and ?p = "pr_candidate probe"
  note f = search_probe_facts [OF probe]
  have "\<exists>c. mt_confirmed m = Some c \<and> c \<le> ?p" using f(2,9) by auto
  then have "search_view m' =
      (end_or_go_on (next_search_candidate ?p ?u), Some ?p, ?u, next_search_candidate ?p ?u, False,
       None, 0, mt_next_sequence m + 1, push_consumed_receipt (mt_consumed_receipts m) probe)"
    using settle_ack [of m probe now] f(4,8) by (simp add: m' Let_def f(14))
  from tracks_view [where limit = limit, OF this refl inv' fits f(12) push_receipts_fresh [OF f(13) refl f(15)]]
  have v: "tracks limit m' ?p" "search_gap m' = unat ?u - unat ?p" "mt_next_sequence m' = mt_next_sequence m + 1"
    by simp_all
  then show "tracks limit m' ?p" "mt_next_sequence m' = mt_next_sequence m + 1" by simp_all
  show "probes_left m' < probes_left m"
    using v(2) f(6) tracks_inv(3) [OF f(1)] by (intro probes_left_drop) simp_all
qed

lemma search_probe_retried:
  assumes probe: "search_probe limit m c probe" and retry: "mt_retry_count m < DPLPMTUD_MAX_RETRIES"
    and m': "m' = pmtu_step (launched m probe sent) (ProbeTimedOut probe (sent + DPLPMTUD_PROBE_TIMEOUT))"
    and inv': "pmtu_inv m'"
  shows "tracks limit m' c" "probes_left m' < probes_left m"
    "mt_next_sequence m' = mt_next_sequence m + 1"
proof -
  let ?u = "mt_search_upper m" and ?p = "pr_candidate probe"
  note f = search_probe_facts [OF probe]
  have "search_view m' = (end_or_go_on (Some ?p), Some c, ?u, Some ?p, False, None,
      sat_add (mt_retry_count m) 1, mt_next_sequence m + 1, mt_consumed_receipts m)"
    using settle_timeout [OF f(8-10) refl retry, of probe sent] by (simp add: m' f(14) end_or_go_on_def)
  from tracks_view [where limit = limit, OF this f(16) [symmetric] inv' f(11,12,5)]
  have v: "tracks limit m' c" "search_gap m' = unat ?u - unat c" "mt_next_sequence m' = mt_next_sequence m + 1"
    "mt_retry_count m' = sat_add (mt_retry_count m) 1" by simp_all
  then show "tracks limit m' c" "mt_next_sequence m' = mt_next_sequence m + 1" by simp_all
  have "unat (mt_retry_count m') = unat (mt_retry_count m) + 1" "unat (mt_retry_count m) < 2"
    using v(4) retry by (auto simp: unat_sat_add word_less_nat_alt DPLPMTUD_MAX_RETRIES_def)
  moreover have "0 < search_rounds (search_gap m)" using f(6) by simp
  ultimately show "probes_left m' < probes_left m"
    using v(2) tracks_inv(5) [OF f(1)] unfolding probes_left_def by simp
qed

lemma search_probe_failed:
  assumes probe: "search_probe limit m c probe" and big: "\<not> pr_candidate probe \<le> limit"
    and event: "event = ProbeTimedOut probe (sent + DPLPMTUD_PROBE_TIMEOUT) \<and> \<not> mt_retry_count m < DPLPMTUD_MAX_RETRIES
      \<or> event = ProbeSendFailed probe LocalPacketTooLarge sent"
    and m': "m' = pmtu_step (launched m probe sent) event" and inv': "pmtu_inv m'"
  shows "tracks limit m' c" "probes_left m' < probes_left m"
    "mt_next_sequence m' = mt_next_sequence m + 1"
proof -
  let ?u = "mt_search_upper m" and ?p = "pr_candidate probe"
  let ?l = "lowered ?u c ?p"
  note f = search_probe_facts [OF probe]
  have "\<exists>k. k \<le> mt_retry_count m \<and> search_view m' =
      (let u = lowered ?u c ?p; p = next_search_candidate c u
       in (end_or_go_on p, Some c, u, p, False, None, k, max (mt_next_sequence m + 1) 1,
           mt_consumed_receipts m))"
    unfolding m' by (rule settle_failed [OF f(8-10) event])
  then obtain k where view: "search_view m' = (end_or_go_on (next_search_candidate c ?l), Some c, ?l,
      next_search_candidate c ?l, False, None, k, mt_next_sequence m + 1, mt_consumed_receipts m)"
    by (auto simp: Let_def f(14))
  have "unat limit < unat ?p" using big by (simp only: word_le_nat_alt not_le)
  then have lim: "unat limit < unat ?l + 8" using f(2,3) by (simp add: unat_lowered)
  from tracks_view [where limit = limit, OF view refl inv' f(11) lim f(5)]
  have v: "tracks limit m' c" "search_gap m' = unat ?l - unat c" "mt_next_sequence m' = mt_next_sequence m + 1"
    by simp_all
  then show "tracks limit m' c" "mt_next_sequence m' = mt_next_sequence m + 1" by simp_all
  show "probes_left m' < probes_left m"
    using v(2) f(7) tracks_inv(3) [OF f(1)] by (intro probes_left_drop) simp_all
qed

lemma exchange_tracks:
  fixes r
  assumes "tracks limit m c" and "mt_state m = PS_Searching"
    and "unat (mt_next_sequence m) + 1 < 2 ^ 64"
  defines "m' \<equiv> probe_exchange limit m r"
  shows "\<exists>c'. tracks limit m' c' \<and> probes_left m' < probes_left m
    \<and> unat (mt_next_sequence m') = unat (mt_next_sequence m) + 1"
proof -
  note t = assms(1) [unfolded tracks_def]
  obtain p where p: "next_search_candidate c (mt_search_upper m) = Some p" "mt_pending_candidate m = Some p"
    using t assms(2) by (auto simp: end_or_go_on_def split: if_splits)
  let ?probe = "\<lparr>pr_sequence = mt_next_sequence m, pr_nonce = run_nonce r,
           pr_path_cookie = run_cookie r, pr_candidate = p\<rparr>"
  have probe: "search_probe limit m c ?probe" using assms p(1) by (simp add: search_probe_def)
  have inv': "pmtu_inv m'" unfolding m'_def using t by (simp add: probe_exchange_inv)
  have unf: "m' = (let m2 = launched m ?probe (run_now r)
     in if p \<le> limit then pmtu_step m2 (ProbeAcked ?probe (run_now r))
        else if run_silent r
        then pmtu_step m2 (ProbeTimedOut ?probe (run_now r + DPLPMTUD_PROBE_TIMEOUT))
        else pmtu_step m2 (ProbeSendFailed ?probe LocalPacketTooLarge (run_now r)))"
    unfolding m'_def using exchange_unfold [of m p limit r] tracks_inv(4) [OF assms(1)] assms(2) t p(2)
    by (simp add: Let_def)
  have "\<exists>c'. tracks limit m' c' \<and> probes_left m' < probes_left m
      \<and> mt_next_sequence m' = mt_next_sequence m + 1"
  proof (cases "p \<le> limit")
    case True
    then show ?thesis using search_probe_acked [OF probe _ _ inv'] unf by (auto simp: Let_def)
  next
    case big: False
    show ?thesis
    proof (cases "run_silent r \<and> mt_retry_count m < DPLPMTUD_MAX_RETRIES")
      case True
      then show ?thesis using search_probe_retried [OF probe _ _ inv'] big unf by (auto simp: Let_def)
    next
      case False
      then show ?thesis using search_probe_failed [OF probe _ _ _ inv'] big unf
        by (cases "run_silent r") (auto simp: Let_def)
    qed
  qed
  with sequence_advances(2) [OF assms(3)] show ?thesis by auto
qed

lemma exchange_done:
  "mt_state m = PS_SearchComplete \<Longrightarrow> probe_exchange limit m r = m"
  by (simp add: probe_exchange_def next_probe_components_def)

lemma exchanges_converge:
  assumes "tracks limit m c" and "probes_left m \<le> length rs"
    and "unat (mt_next_sequence m) + probes_left m < 2 ^ 64"
  shows "\<exists>c'. tracks limit (foldl (probe_exchange limit) m rs) c'
    \<and> mt_state (foldl (probe_exchange limit) m rs) = PS_SearchComplete"
  using assms
proof (induction rs arbitrary: m c)
  case Nil
  have "\<not> search_rounds (search_gap m) > 0"
    using Nil.prems(2) tracks_inv(3) [OF Nil.prems(1)] by (simp add: probes_left_def)
  then have "search_gap m = 0" by (simp add: search_rounds.simps [of "search_gap m"] split: if_splits)
  then have "mt_search_upper m \<le> c"
    using tracks_inv(5) [OF Nil.prems(1)] by (simp add: word_le_nat_alt)
  then have "next_search_candidate c (mt_search_upper m) = None"
    by (simp add: next_search_candidate_None)
  with Nil.prems(1) show ?case by (auto simp: tracks_def end_or_go_on_def)
next
  case (Cons r rs)
  show ?case
  proof (cases "mt_state m = PS_Searching")
    case True
    then have "next_search_candidate c (mt_search_upper m) \<noteq> None"
      using Cons.prems(1) by (auto simp: tracks_def end_or_go_on_def split: if_splits)
    then have "unat c < unat (mt_search_upper m)"
      by (simp only: next_search_candidate_None word_le_nat_alt not_le)
    then have "search_gap m \<noteq> 0" using tracks_inv(5) [OF Cons.prems(1)] by linarith
    then have "0 < search_rounds (search_gap m)" by (simp add: search_rounds.simps [of "search_gap m"])
    then have "0 < probes_left m"
      using tracks_inv(3) [OF Cons.prems(1)] by (simp add: probes_left_def)
    with Cons.prems(3) have "unat (mt_next_sequence m) + 1 < 2 ^ 64" by linarith
    from exchange_tracks [OF Cons.prems(1) True this, of r] obtain c'
      where "tracks limit (probe_exchange limit m r) c'"
        "probes_left (probe_exchange limit m r) < probes_left m"
        "unat (mt_next_sequence (probe_exchange limit m r)) = unat (mt_next_sequence m) + 1"
      by blast
    with Cons.prems(2,3) Cons.IH show ?thesis by simp
  next
    case False
    then have "mt_state m = PS_SearchComplete"
      using Cons.prems(1) by (auto simp: tracks_def end_or_go_on_def split: if_splits)
    moreover from this have "foldl (probe_exchange limit) m rs = m" for rs
      by (induction rs) (simp_all add: exchange_done)
    ultimately show ?thesis using Cons.prems(1) by (auto simp: exchange_done)
  qed
qed

lemma first_exchange:
  fixes r
  assumes "1200 \<le> limit" and "limit \<le> ceiling_udp_datagram_size (pi_outer_ip_family i)"
  defines "m \<equiv> probe_exchange limit (pmtu_for_path i True) r"
  shows "tracks limit m 1200 \<and> probes_left m = 21 \<and> unat (mt_next_sequence m) = 2"
proof -
  let ?m = "pmtu_for_path i True" and ?u = "ceiling_udp_datagram_size (pi_outer_ip_family i)"
  let ?p = "\<lparr>pr_sequence = 1, pr_nonce = run_nonce r, pr_path_cookie = run_cookie r,
    pr_candidate = 1200\<rparr> :: probe_identity"
  have m0: "mt_state ?m = PS_Base" "mt_supported ?m" "mt_outstanding ?m = None"
    "mt_pending_candidate ?m = Some 1200" "mt_next_sequence ?m = 1" "mt_base ?m = 1200"
    "\<not> mt_confirmation_pending ?m" "mt_consumed_receipts ?m = []" "mt_search_upper ?m = ?u"
    by (simp_all add: pmtu_for_path_def pmtu_for_path_with_reason_def
        DPLPMTUD_BASE_UDP_DATAGRAM_SIZE_def)
  have m: "m = pmtu_step (launched ?m ?p (run_now r)) (ProbeAcked ?p (run_now r))"
    unfolding m_def using exchange_unfold [of ?m 1200 limit r] m0 assms(1) by (simp add: Let_def)
  have "search_view m = (end_or_go_on (next_search_candidate 1200 ?u), Some 1200, ?u,
      next_search_candidate 1200 ?u, False, None, 0, 2, push_consumed_receipt [] ?p)"
    using settle_ack [of ?m ?p "run_now r"] m0 unfolding m by (simp add: Let_def)
  moreover have "unat limit < unat ?u + 8" using assms(2) by (simp add: word_le_nat_alt)
  moreover have "pmtu_inv m" unfolding m_def by (simp add: probe_exchange_inv pmtu_inv_for_path)
  moreover have "\<forall>x \<in> set (push_consumed_receipt [] ?p). pr_sequence x < 2"
    by (simp add: push_consumed_receipt_def)
  ultimately have v: "tracks limit m 1200" "search_gap m = unat ?u - 1200"
      "mt_next_sequence m = 2" "mt_retry_count m = 0"
    using tracks_view [of m "next_search_candidate 1200 ?u" 1200 ?u 0 2 _ limit] assms(1) by auto
  moreover have "search_rounds (unat ?u - 1200) = 7"
    using ceiling_cases [of "pi_outer_ip_family i"] search_rounds_values by auto
  ultimately show ?thesis by (simp add: probes_left_def)
qed

text \<open>
  C39: On a path with probing supported that carries datagrams up to a limit between the base
  size and the ceiling of its address family, and loses or rejects larger ones, the search ends
  after at most 22 probes with a confirmed size that fits and is less than the granularity of 8
  below the limit.
\<close>
theorem pmtu_search_finds_path_size:
  assumes "1200 \<le> limit" and "limit \<le> ceiling_udp_datagram_size (pi_outer_ip_family i)"
    and "22 \<le> length rs"
  shows "\<exists>c. mt_state (foldl (probe_exchange limit) (pmtu_for_path i True) rs) = PS_SearchComplete
    \<and> business_confirmed (foldl (probe_exchange limit) (pmtu_for_path i True) rs) = Some c
    \<and> unat c \<le> unat limit \<and> unat limit < unat c + 8"
proof -
  obtain r rs' where rs: "rs = r # rs'" and len: "21 \<le> length rs'"
    using assms(3) by (cases rs) auto
  let ?m = "probe_exchange limit (pmtu_for_path i True) r"
  let ?m' = "foldl (probe_exchange limit) ?m rs'"
  note first = first_exchange [OF assms(1,2), of r]
  then obtain c where c: "tracks limit ?m' c" "mt_state ?m' = PS_SearchComplete"
    using exchanges_converge [of limit ?m 1200 rs'] len by auto
  then have "next_search_candidate c (mt_search_upper ?m') = None"
    by (auto simp: tracks_def end_or_go_on_def split: if_splits)
  then have "unat (mt_search_upper ?m') \<le> unat c"
    by (simp only: next_search_candidate_None word_le_nat_alt)
  then have "unat c \<le> unat limit" "unat limit < unat c + 8"
    using c(1) by (auto simp: tracks_def word_le_nat_alt)
  moreover have "business_confirmed ?m' = Some c"
    using c tracks_inv(1,4) [OF c(1)] by (simp add: business_confirmed_def tracks_def)
  ultimately show ?thesis using c(2) by (auto simp: rs)
qed

end
