(* ===== verification/Pmtu_Props.thy ===== *)
theory Pmtu_Props
  imports Pmtu_Search
begin

text \<open>
  Properties of the path-MTU machine outside the search itself: bounds of every run, where a
  usable budget comes from, that the machine always has something to wait for, black-hole
  detection, redelivered acknowledgements and the local send failures.
\<close>

section \<open>Bounds of every run\<close>

lemma pmtu_run_inv: "pmtu_inv (foldl pmtu_step (pmtu_for_path i s) es)"
  by (rule pmtu.run_inv [OF pmtu_inv_for_path])

lemma inv_identity:
  assumes "pmtu_inv m"
  obtains i where "mt_identity m = Some i"
    and "mt_search_upper m \<le> ceiling_udp_datagram_size (pi_outer_ip_family i)"
  using assms by (auto simp: pmtu_inv_def sizes_ok_def)

lemma inv_probe_bounds:
  assumes "pmtu_inv m" and "next_probe_components m = Some (sq, p, r)"
  shows "1200 \<le> p \<and> p \<le> mt_search_upper m \<and> r \<le> 2"
proof -
  have p: "mt_pending_candidate m = Some p" and r: "r = mt_retry_count m"
    using assms(2) by (auto simp: next_probe_components_def split: if_splits)
  have b: "mt_base m = 1200" "1200 \<le> mt_search_upper m" "mt_retry_count m \<le> 2"
    and c: "\<And>c. mt_confirmed m = Some c \<Longrightarrow> 1200 \<le> c \<and> c \<le> mt_search_upper m"
    using assms(1) by (auto simp: pmtu_inv_def sizes_ok_def books_ok_def pmtu_consts)
  show ?thesis
  proof (cases "mt_confirmation_pending m")
    case True
    with p assms(1) have "mt_confirmed m = Some p" by (auto simp: pmtu_inv_def candidate_ok_def)
    with c b r show ?thesis by auto
  next
    case False
    with p assms(1) have "mt_confirmed m = None \<and> p = mt_base m
        \<or> (\<exists>c. mt_confirmed m = Some c \<and> c < p \<and> p \<le> mt_search_upper m)"
      by (auto simp: pmtu_inv_def candidate_ok_def)
    with b c r show ?thesis by (auto intro: order_trans less_imp_le)
  qed
qed

definition within :: "udp_datagram_size \<Rightarrow> udp_datagram_size option \<Rightarrow> udp_datagram_size \<Rightarrow> bool" where
  "within lo x hi = (case x of None \<Rightarrow> True | Some c \<Rightarrow> lo \<le> c \<and> c \<le> hi)"

lemma identity_constant: "pmtu_inv m \<Longrightarrow> mt_identity (pmtu_step m e) = mt_identity m"
  by (cases e)
    (auto simp: pmtu_step_defs pmtu_start_search_def pmtu_probe_scheduled_def
      pmtu_probe_sent_def pmtu_probe_acked_def pmtu_ack_accepted_def pmtu_probe_timed_out_def
      pmtu_probe_send_failed_def pmtu_business_packet_too_large_def
      pmtu_confirmation_timer_expired_def pmtu_raise_timer_expired_def pmtu_cancelled_def
      bump_stale_def enter_base_error_def lower_after_failed_search_candidate_def
      lower_after_current_confirmation_failure_def pmtu_count_soft_failure_def Let_def
      split: option.split pmtu_decision.split prod.split probe_send_failure.split)

interpretation pmtu_id: event_machine pmtu_step "\<lambda>m. pmtu_inv m \<and> mt_identity m = Some i" for i
  by unfold_locales (simp add: pmtu_step_inv identity_constant)

lemma identity_for_path [simp]: "mt_identity (pmtu_for_path i s) = Some i"
  by (simp add: pmtu_for_path_def pmtu_for_path_with_reason_def)

lemma run_identity:
  "pmtu_inv (foldl pmtu_step (pmtu_for_path i s) es)
   \<and> mt_identity (foldl pmtu_step (pmtu_for_path i s) es) = Some i"
  by (rule pmtu_id.run_inv) (simp add: pmtu_inv_for_path)

text \<open>
  C40: In every run the reducer never panics, the search bound, the usable budget and the next
  probe stay between the base size and the ceiling of the address family, and at most 32
  distinct receipts are kept.
\<close>
theorem pmtu_every_run_in_bounds:
  "let m = foldl pmtu_step (pmtu_for_path i supported) es;
       hi = ceiling_udp_datagram_size (pi_outer_ip_family i)
   in (\<forall>e. \<exists>d. pmtu_apply m e = Some (pmtu_step m e, d))
     \<and> 1200 \<le> mt_search_upper m \<and> mt_search_upper m \<le> hi
     \<and> within 1200 (business_confirmed m) (mt_search_upper m)
     \<and> within 1200 (map_option (fst \<circ> snd) (next_probe_components m)) hi
     \<and> length (mt_consumed_receipts m) \<le> 32 \<and> distinct (mt_consumed_receipts m)"
proof -
  let ?m = "foldl pmtu_step (pmtu_for_path i supported) es"
  note inv = conjunct1 [OF run_identity] and ident = conjunct2 [OF run_identity]
  have s: "sizes_ok ?m" and b: "books_ok ?m" using inv by (auto simp: pmtu_inv_def)
  have hi: "mt_search_upper ?m \<le> ceiling_udp_datagram_size (pi_outer_ip_family i)"
    using s ident [of i supported es] by (auto simp: sizes_ok_def)
  have "within 1200 (business_confirmed ?m) (mt_search_upper ?m)"
    using s by (auto simp: within_def business_confirmed_def sizes_ok_def pmtu_consts
        split: option.split)
  moreover have "within 1200 (map_option (fst \<circ> snd) (next_probe_components ?m))
      (ceiling_udp_datagram_size (pi_outer_ip_family i))"
  proof (cases "next_probe_components ?m")
    case (Some x)
    then obtain sq p r where "next_probe_components ?m = Some (sq, p, r)" by (cases x) auto
    with inv_probe_bounds [OF inv this] hi show ?thesis by (auto simp: within_def)
  qed (simp add: within_def)
  moreover have "\<exists>d. pmtu_apply ?m e = Some (pmtu_step ?m e, d)" for e
    using inv by (rule pmtu_no_panic)
  ultimately show ?thesis
    using s b hi by (auto simp: Let_def sizes_ok_def books_ok_def pmtu_consts)
qed

section \<open>Where a budget comes from\<close>

lemma raise_timer_confirmed [simp]:
  "mt_confirmed (snd (pmtu_raise_timer_expired m now)) = mt_confirmed m"
  by (simp add: pmtu_raise_timer_expired_def Let_def)

lemma failure_confirmed:
  "mt_confirmed (snd (pmtu_probe_timed_out m p now)) \<in> {None, mt_confirmed m}"
  "mt_confirmed (snd (pmtu_probe_send_failed m p f now)) \<in> {None, mt_confirmed m}"
  by (auto simp: pmtu_probe_timed_out_def pmtu_probe_send_failed_def enter_base_error_def
      lower_after_failed_search_candidate_def lower_after_current_confirmation_failure_def
      pmtu_count_soft_failure_def Let_def split: option.split probe_send_failure.split)

lemma other_confirmed:
  "mt_confirmed (snd (pmtu_start_search m now)) = mt_confirmed m"
  "mt_confirmed (snd (pmtu_probe_scheduled m p r now d)) = mt_confirmed m"
  "mt_confirmed (snd (pmtu_probe_sent m p now)) = mt_confirmed m"
  "mt_confirmed (snd (pmtu_business_packet_too_large m now)) \<in> {None, mt_confirmed m}"
  "mt_confirmed (snd (pmtu_confirmation_timer_expired m now)) = mt_confirmed m"
  "mt_confirmed (snd (pmtu_cancelled m reason)) \<in> {None, mt_confirmed m}"
  by (auto simp: pmtu_start_search_def pmtu_probe_scheduled_def pmtu_probe_sent_def
      pmtu_business_packet_too_large_def pmtu_confirmation_timer_expired_def pmtu_cancelled_def
      split: option.split)

lemma commit_confirmed:
  "mt_confirmed (snd t) \<in> {None, mt_confirmed m} \<Longrightarrow>
     mt_confirmed (pmtu_commit m t) \<in> {None, mt_confirmed m}"
  by (auto simp: pmtu_commit_def split: pmtu_decision.split)

lemma reduce_confirmed:
  assumes "pmtu_reduce m e = Some t" and "\<And>p now. e \<noteq> ProbeAcked p now"
  shows "mt_confirmed (snd t) \<in> {None, mt_confirmed m}"
proof (cases e)
  case (ProbeTimedOut p now)
  with assms(1) failure_confirmed(1) [of m p now] show ?thesis by auto
next
  case (ProbeSendFailed p f now)
  with assms(1) failure_confirmed(2) [of m p f now] show ?thesis by auto
next
  case (BusinessPacketTooLarge now)
  with assms(1) other_confirmed(4) [of m now] show ?thesis by auto
next
  case (Cancelled reason now)
  with assms(1) other_confirmed(6) [of m reason] show ?thesis by auto
qed (use assms in \<open>auto simp: other_confirmed bump_stale_def\<close>)

lemma step_confirmed:
  assumes "mt_confirmed (pmtu_step m e) \<notin> {None, mt_confirmed m}"
  obtains p now where "e = ProbeAcked p now"
proof -
  have "\<exists>p now. e = ProbeAcked p now"
  proof (rule ccontr)
    assume no: "\<nexists>p now. e = ProbeAcked p now"
    show False
    proof (cases "pmtu_reduce m e")
      case (Some t)
      from commit_confirmed [OF reduce_confirmed [OF this]] no
      have "mt_confirmed (pmtu_commit m t) \<in> {None, mt_confirmed m}" by blast
      with Some assms show False by (simp add: pmtu_step_def pmtu_apply_def)
    qed (use assms in \<open>simp add: pmtu_step_def pmtu_apply_def\<close>)
  qed
  with that show ?thesis by blast
qed

lemma step_acked:
  assumes "pmtu_inv m" and "mt_confirmed (pmtu_step m (ProbeAcked p now)) \<noteq> mt_confirmed m"
  obtains o' sent where "mt_outstanding m = Some o'" and "op_identity o' = p"
    and "op_sent_at o' = Some sent" and "now \<le> op_deadline o'"
    and "p \<notin> set (mt_consumed_receipts m)"
  using assms(2)
  by (auto simp: pmtu_step_defs pmtu_probe_acked_def bump_stale_def Let_def
      split: option.splits if_splits)

lemma business_confirmed_inv: "pmtu_inv m \<Longrightarrow> business_confirmed m = mt_confirmed m"
  by (cases "mt_confirmed m") (auto simp: business_confirmed_def pmtu_inv_defs)

text \<open>
  A usable budget changes to a size only by an in-time acknowledgement of the outstanding probe
  of that size, which was sent and not consumed before.
\<close>
theorem pmtu_budget_provenance:
  assumes "pmtu_inv m" and "business_confirmed (pmtu_step m e) = Some c"
    and "business_confirmed m \<noteq> Some c"
  shows "\<exists>o' sent now. e = ProbeAcked (op_identity o') now \<and> mt_outstanding m = Some o'
    \<and> op_sent_at o' = Some sent \<and> now \<le> op_deadline o'
    \<and> op_identity o' \<notin> set (mt_consumed_receipts m) \<and> pr_candidate (op_identity o') = c"
proof -
  have c: "mt_confirmed (pmtu_step m e) = Some c" "mt_confirmed m \<noteq> Some c"
    using assms business_confirmed_inv pmtu_step_inv by metis+
  then obtain p now where e: "e = ProbeAcked p now" using step_confirmed [of m e] by auto
  with c obtain o' sent where o': "mt_outstanding m = Some o'" "op_identity o' = p"
      "op_sent_at o' = Some sent" "now \<le> op_deadline o'" "p \<notin> set (mt_consumed_receipts m)"
    using step_acked [OF assms(1), of p now] by auto
  with ack_accepted [OF assms(1), of o' now] obtain n
    where "pmtu_probe_acked m p now = Some (PD_Applied, n)" "mt_confirmed n = Some (pr_candidate p)"
    by auto
  with c(1) e have "pr_candidate p = c" by (simp add: pmtu_step_defs)
  with o' e show ?thesis by auto
qed

text \<open>
  An in-time acknowledgement of the probe in flight is always applied and confirms its size, and
  redelivering it changes only the duplicate counter.
\<close>
theorem pmtu_in_time_ack_confirms:
  assumes "pmtu_inv m" and "mt_outstanding m = Some o'" and "op_sent_at o' = Some sent"
    and "now \<le> op_deadline o'" and "op_identity o' \<notin> set (mt_consumed_receipts m)"
  shows "pmtu_apply m (ProbeAcked (op_identity o') now)
      = Some (pmtu_step m (ProbeAcked (op_identity o') now), PD_Applied)
    \<and> business_confirmed (pmtu_step m (ProbeAcked (op_identity o') now))
      = Some (pr_candidate (op_identity o'))
    \<and> foldl pmtu_step (pmtu_step m (ProbeAcked (op_identity o') now))
        (replicate k (ProbeAcked (op_identity o') later))
      = (pmtu_step m (ProbeAcked (op_identity o') now))
          \<lparr>mt_duplicate_ack_count := ((\<lambda>n. sat_add n 1) ^^ k)
             (mt_duplicate_ack_count (pmtu_step m (ProbeAcked (op_identity o') now)))\<rparr>"
proof -
  let ?p = "op_identity o'" and ?m = "pmtu_step m (ProbeAcked (op_identity o') now)"
  obtain n where n: "pmtu_probe_acked m ?p now = Some (PD_Applied, n)"
      "mt_confirmed n = Some (pr_candidate ?p)" "?p \<in> set (mt_consumed_receipts n)"
    using ack_accepted [OF assms(1,2) _ assms(4,5)] assms(3) by auto
  then have m: "?m = n\<lparr>mt_revision := sat_add (mt_revision n) 1\<rparr>" by (simp add: pmtu_step_defs)
  have dup: "pmtu_step x (ProbeAcked ?p later)
      = x\<lparr>mt_duplicate_ack_count := sat_add (mt_duplicate_ack_count x) 1\<rparr>"
    if "?p \<in> set (mt_consumed_receipts x)" for x
    using that by (simp add: pmtu_step_defs pmtu_probe_acked_def)
  have many: "foldl pmtu_step x (replicate k (ProbeAcked ?p later))
      = x\<lparr>mt_duplicate_ack_count := ((\<lambda>n. sat_add n 1) ^^ k) (mt_duplicate_ack_count x)\<rparr>"
    if "?p \<in> set (mt_consumed_receipts x)" for x
    using that by (induction k arbitrary: x) (simp_all add: dup funpow_simps_right del: funpow.simps(2))
  have "business_confirmed ?m = mt_confirmed ?m"
    by (rule business_confirmed_inv [OF pmtu_step_inv [OF assms(1)]])
  also have "\<dots> = Some (pr_candidate ?p)" using n(2) m by simp
  finally have "business_confirmed ?m = Some (pr_candidate ?p)" .
  moreover have "?p \<in> set (mt_consumed_receipts ?m)" using n(3) m by simp
  moreover have "pmtu_apply m (ProbeAcked ?p now) = Some (?m, PD_Applied)"
    using n(1) by (simp add: pmtu_step_defs)
  ultimately show ?thesis using many by blast
qed

section \<open>The machine always has something to wait for\<close>

lemma min_option_Some: "Some t \<in> set xs \<Longrightarrow> \<exists>u. min_option xs = Some u \<and> u \<le> t"
proof (induction xs)
  case (Cons x xs)
  then show ?case by (cases x; cases "min_option xs") (auto simp: min_def)
qed simp

text \<open>
  A supported machine always has a probe to send or a timer to wait for.
\<close>
theorem pmtu_never_wedged:
  assumes "pmtu_inv m" and "mt_supported m"
  shows "(\<exists>p. next_probe_components m = Some p) \<or> (\<exists>t. next_wakeup m = Some t)"
proof -
  from assms have s: "mt_state m \<in> {PS_Base, PS_Searching} \<and> mt_pending_candidate m \<noteq> None
      \<or> mt_raise_at m \<noteq> None"
    by (cases "mt_state m") (auto simp: pmtu_inv_def state_ok_def)
  show ?thesis
  proof (cases "mt_raise_at m = None \<and> mt_outstanding m = None")
    case True
    with s assms(2) show ?thesis by (auto simp: next_probe_components_def)
  next
    case False
    then have "\<exists>t. Some t \<in> set [map_option op_deadline (mt_outstanding m),
        mt_confirmation_at m, mt_raise_at m]" by force
    then show ?thesis using min_option_Some unfolding next_wakeup_def by blast
  qed
qed

section \<open>Black holes\<close>

text \<open>
  The confirmation timer of a finished search probes the confirmed size again; \<open>silence\<close> is one
  such probe that is never answered.
\<close>

definition silence :: "pmtu_machine \<Rightarrow> probe_run \<Rightarrow> pmtu_machine" where
  "silence m r =
     (case next_probe_components m of
        None \<Rightarrow> m
      | Some (sq, candidate, retry) \<Rightarrow>
          let probe = \<lparr>pr_sequence = sq, pr_nonce = run_nonce r, pr_path_cookie = run_cookie r,
                       pr_candidate = candidate\<rparr>;
              deadline = run_now r + DPLPMTUD_PROBE_TIMEOUT
          in foldl pmtu_step m [ProbeScheduled probe retry (run_now r) deadline,
               ProbeSent probe (run_now r), ProbeTimedOut probe deadline])"

definition confirming :: "pmtu_machine \<Rightarrow> udp_datagram_size \<Rightarrow> u8 \<Rightarrow> bool" where
  "confirming m c k \<longleftrightarrow>
     pmtu_inv m \<and> mt_state m = PS_Searching \<and> mt_confirmation_pending m
     \<and> mt_outstanding m = None \<and> mt_confirmed m = Some c \<and> mt_retry_count m = k"

lemma silence_inv: "pmtu_inv m \<Longrightarrow> pmtu_inv (silence m r)"
  by (auto simp: silence_def Let_def pmtu_step_inv split: option.split)

lemma confirming_pending:
  "confirming m c k \<Longrightarrow> mt_pending_candidate m = Some c \<and> mt_supported m"
  by (auto simp: confirming_def pmtu_inv_def candidate_ok_def state_ok_def)

lemma silence_unfold:
  assumes "confirming m c k"
  shows "silence m r =
    (let probe = \<lparr>pr_sequence = mt_next_sequence m, pr_nonce = run_nonce r,
           pr_path_cookie = run_cookie r, pr_candidate = c\<rparr>
     in pmtu_step (launched m probe (run_now r))
          (ProbeTimedOut probe (run_now r + DPLPMTUD_PROBE_TIMEOUT)))"
  using assms confirming_pending [OF assms]
  by (auto simp: confirming_def silence_def next_probe_components_def Let_def launch)

lemma silence_retries:
  assumes "confirming m c k" and "k < DPLPMTUD_MAX_RETRIES"
  shows "confirming (silence m r) c (k + 1)"
proof -
  have "sat_add k 1 = k + 1"
    using assms(2) by (simp add: sat_add_def word_less_nat_alt DPLPMTUD_MAX_RETRIES_def)
  moreover have "pmtu_inv (silence m r)" using assms(1) by (simp add: confirming_def silence_inv)
  ultimately show ?thesis
    using assms unfolding confirming_def silence_unfold [OF assms(1)]
    by (simp add: Let_def pmtu_step_defs pmtu_probe_timed_out_def launched_def)
qed

lemma silence_gives_up:
  assumes "confirming m c k" and "\<not> k < DPLPMTUD_MAX_RETRIES"
  shows "mt_confirmed (silence m r) = None \<and> mt_state (silence m r) = PS_Base
    \<and> mt_pending_candidate (silence m r) = Some (mt_base m) \<and> mt_retry_count (silence m r) = 0
    \<and> mt_search_upper (silence m r) = max (min (mt_search_upper m) (sat_sub c 8)) (mt_base m)"
  using assms unfolding confirming_def silence_unfold [OF assms(1)]
  by (simp add: Let_def pmtu_step_defs pmtu_probe_timed_out_def launched_def
      lower_after_current_confirmation_failure_def DPLPMTUD_SEARCH_GRANULARITY_def)

lemma timer_starts_confirming:
  assumes "pmtu_inv m" and "mt_state m = PS_SearchComplete" and "mt_confirmed m = Some c"
    and "mt_confirmation_at m = Some due" and "due \<le> now"
  shows "confirming (pmtu_step m (CurrentPlpmtuConfirmationTimerExpired now)) c 0"
    and "mt_base (pmtu_step m (CurrentPlpmtuConfirmationTimerExpired now)) = 1200"
proof -
  have np: "\<not> mt_confirmation_pending m" "mt_outstanding m = None" "mt_base m = 1200"
    using assms(1,2) by (auto simp: pmtu_inv_defs DPLPMTUD_BASE_UDP_DATAGRAM_SIZE_def)
  have "pmtu_inv (pmtu_step m (CurrentPlpmtuConfirmationTimerExpired now))"
    using assms(1) by (rule pmtu_step_inv)
  with np assms show "confirming (pmtu_step m (CurrentPlpmtuConfirmationTimerExpired now)) c 0"
    by (simp add: confirming_def pmtu_step_defs pmtu_confirmation_timer_expired_def)
  from np assms show "mt_base (pmtu_step m (CurrentPlpmtuConfirmationTimerExpired now)) = 1200"
    by (simp add: pmtu_step_defs pmtu_confirmation_timer_expired_def)
qed

text \<open>
  When the periodic confirmation of the current size goes unanswered three times, the budget
  stays usable until then and is withdrawn at the third timeout, and the machine starts over at
  the base size.
\<close>
theorem pmtu_black_hole_withdraws_budget:
  assumes "pmtu_inv m" and "mt_state m = PS_SearchComplete" and "mt_confirmed m = Some c"
    and "mt_confirmation_at m = Some due" and "due \<le> now"
  shows "let m0 = pmtu_step m (CurrentPlpmtuConfirmationTimerExpired now);
             m1 = silence m0 r1; m2 = silence m1 r2; m3 = silence m2 r3
    in business_confirmed m0 = Some c \<and> business_confirmed m2 = Some c
      \<and> business_confirmed m3 = None \<and> mt_state m3 = PS_Base
      \<and> (\<exists>sq. next_probe_components m3 = Some (sq, 1200, 0))"
proof -
  let ?m0 = "pmtu_step m (CurrentPlpmtuConfirmationTimerExpired now)"
  let ?m1 = "silence ?m0 r1" and ?m2 = "silence (silence ?m0 r1) r2"
  let ?m3 = "silence (silence (silence ?m0 r1) r2) r3"
  note c0 = timer_starts_confirming(1) [OF assms]
  have c1: "confirming ?m1 c 1" using silence_retries [OF c0] by (simp add: DPLPMTUD_MAX_RETRIES_def)
  have c2: "confirming ?m2 c 2" using silence_retries [OF c1] by (simp add: DPLPMTUD_MAX_RETRIES_def)
  have base: "mt_base ?m2 = 1200"
    using c2 by (auto simp: confirming_def pmtu_inv_def sizes_ok_def DPLPMTUD_BASE_UDP_DATAGRAM_SIZE_def)
  have inv3: "pmtu_inv ?m3" using c2 by (simp add: confirming_def silence_inv)
  have g: "mt_confirmed ?m3 = None" "mt_state ?m3 = PS_Base" "mt_pending_candidate ?m3 = Some 1200"
      "mt_retry_count ?m3 = 0"
    using silence_gives_up [OF c2] base by (simp_all add: DPLPMTUD_MAX_RETRIES_def)
  from inv3 g(2) have "mt_supported ?m3" "mt_outstanding ?m3 = None"
    by (auto simp: pmtu_inv_def state_ok_def outstanding_ok_def)
  with g have "next_probe_components ?m3 = Some (mt_next_sequence ?m3, 1200, 0)"
    by (simp add: next_probe_components_def)
  moreover have "business_confirmed x = Some c" if "confirming x c k" for x k
    using that business_confirmed_inv by (simp add: confirming_def)
  ultimately show ?thesis
    using c0 c2 g business_confirmed_inv [OF inv3] by (auto simp: Let_def)
qed

section \<open>Local send failures\<close>

text \<open>
  A send failure that is no local size error, on the last try of a confirmation, withdraws the
  budget and lowers the search bound although no local size error was counted.
\<close>
theorem pmtu_soft_failure_shrinks_search:
  assumes "confirming m c 2" and "f \<noteq> LocalPacketTooLarge" and "8 \<le> c"
    and "p = \<lparr>pr_sequence = mt_next_sequence m, pr_nonce = nonce, pr_path_cookie = cookie,
               pr_candidate = c\<rparr>"
    and "now < deadline"
  shows "let m' = foldl pmtu_step m [ProbeScheduled p 2 now deadline, ProbeSendFailed p f now]
    in business_confirmed m = Some c \<and> business_confirmed m' = None
      \<and> mt_search_upper m' = max (min (mt_search_upper m) (c - 8)) (mt_base m)
      \<and> mt_local_packet_too_large_count m' = mt_local_packet_too_large_count m"
proof -
  have c: "mt_pending_candidate m = Some c" "mt_supported m" using confirming_pending [OF assms(1)] by auto
  have s: "sat_sub c 8 = c - 8" using assms(3) by (auto simp: sat_sub_def)
  have "business_confirmed m = Some c"
    using assms(1) business_confirmed_inv by (simp add: confirming_def)
  with assms c s show ?thesis
    by (cases f) (simp_all add: Let_def confirming_def pmtu_step_defs pmtu_probe_scheduled_def
        pmtu_probe_send_failed_def outstanding_identity_def pmtu_count_soft_failure_def
        lower_after_current_confirmation_failure_def business_confirmed_def
        DPLPMTUD_MAX_RETRIES_def DPLPMTUD_SEARCH_GRANULARITY_def)
qed

end
