(* ===== verification/Pmtu_Witnesses.thy ===== *)
theory Pmtu_Witnesses
  imports Pmtu_Props Path_Witnesses
begin

text \<open>
  A concrete IPv4 path at which the properties of the path-MTU machine apply: the first probe in
  flight, a finished search whose confirmation is due, and a confirmation on its last try.
\<close>

definition w_identity :: pmtu_path_identity where
  "w_identity =
     \<lparr>pi_peer_id = ''peer-b'', pi_epoch = w_epoch, pi_owner_token = 5, pi_request_id = 77,
      pi_remote_endpoint = w_remote, pi_local_endpoint = SocketV4 3232235777 41641,
      pi_socket = \<lparr>transport_instance_id = 1, socket_index = 0\<rparr>,
      pi_outer_ip_family = Outer_Ipv4\<rparr>"

definition w_probe :: probe_identity where
  "w_probe = \<lparr>pr_sequence = 1, pr_nonce = replicate 16 7, pr_path_cookie = replicate 16 9,
              pr_candidate = 1200\<rparr>"

definition w_in_flight :: pmtu_machine where
  "w_in_flight = foldl pmtu_step (pmtu_for_path w_identity True)
     [ProbeScheduled w_probe 0 10 20, ProbeSent w_probe 11]"

definition w_complete :: pmtu_machine where
  "w_complete = (pmtu_for_path w_identity True)
     \<lparr>mt_state := PS_SearchComplete, mt_base_confirmed := True, mt_confirmed := Some 1472,
      mt_pending_candidate := None, mt_confirmation_at := Some 30, mt_raise_at := Some 600\<rparr>"

definition w_last_try :: pmtu_machine where
  "w_last_try = (pmtu_for_path w_identity True)
     \<lparr>mt_state := PS_Searching, mt_base_confirmed := True, mt_confirmed := Some 1472,
      mt_pending_candidate := Some 1472, mt_confirmation_pending := True,
      mt_retry_count := 2, mt_raise_at := Some 600\<rparr>"

definition w_run :: probe_run where
  "w_run = \<lparr>run_nonce = replicate 16 1, run_cookie = replicate 16 2, run_now = 40,
            run_silent = True\<rparr>"

lemmas w_pmtu_start = pmtu_for_path_def pmtu_for_path_with_reason_def

lemma w_in_flight_inv: "pmtu_inv w_in_flight"
  unfolding w_in_flight_def by (rule pmtu_run_inv)

lemma w_in_flight_probe:
  "mt_outstanding w_in_flight = Some \<lparr>op_identity = w_probe, op_scheduled_at = 10,
     op_sent_at = Some 11, op_deadline = 20, op_retry = 0\<rparr>"
  "mt_consumed_receipts w_in_flight = []" "business_confirmed w_in_flight = None"
  by (simp_all add: w_in_flight_def w_probe_def w_pmtu_start pmtu_step_defs
      pmtu_probe_scheduled_def pmtu_probe_sent_def business_confirmed_def pmtu_consts)

lemma w_complete_facts:
  "pmtu_inv w_complete" "mt_state w_complete = PS_SearchComplete"
  "mt_confirmed w_complete = Some 1472" "mt_confirmation_at w_complete = Some 30"
  by (simp_all add: w_complete_def w_pmtu_start pmtu_inv_defs pmtu_consts w_identity_def
      ceiling_udp_datagram_size_def)

lemma w_last_try_confirming: "confirming w_last_try 1472 2"
  by (simp add: confirming_def w_last_try_def w_pmtu_start pmtu_inv_defs pmtu_consts
      w_identity_def ceiling_udp_datagram_size_def)

theorem pmtu_search_finds_path_size_witness:
  "\<exists>c. business_confirmed (foldl (probe_exchange 1387) (pmtu_for_path w_identity True)
       (replicate 22 w_run)) = Some c \<and> unat c \<le> 1387 \<and> 1387 < unat c + 8"
  using pmtu_search_finds_path_size [of 1387 w_identity "replicate 22 w_run"]
  by (auto simp: w_identity_def ceiling_udp_datagram_size_def pmtu_consts)

lemma w_acked: "business_confirmed (pmtu_step w_in_flight (ProbeAcked w_probe 12)) = Some 1200"
  by (simp add: business_confirmed_inv [OF pmtu_step_inv [OF w_in_flight_inv]])
    (simp add: w_in_flight_def w_probe_def w_pmtu_start pmtu_step_defs pmtu_probe_scheduled_def
      pmtu_probe_sent_def pmtu_probe_acked_def pmtu_ack_accepted_def pmtu_consts Let_def)

theorem pmtu_budget_provenance_witness:
  "\<exists>o' sent now. ProbeAcked w_probe 12 = ProbeAcked (op_identity o') now
     \<and> mt_outstanding w_in_flight = Some o' \<and> op_sent_at o' = Some sent \<and> now \<le> op_deadline o'"
proof -
  have "business_confirmed w_in_flight \<noteq> Some 1200" by (simp add: w_in_flight_probe(3))
  from pmtu_budget_provenance [OF w_in_flight_inv w_acked this] show ?thesis by blast
qed

theorem pmtu_in_time_ack_confirms_witness:
  "business_confirmed (pmtu_step w_in_flight (ProbeAcked w_probe 12)) = Some (pr_candidate w_probe)"
  using pmtu_in_time_ack_confirms [OF w_in_flight_inv w_in_flight_probe(1), of 11 12]
    w_in_flight_probe(2) by simp

theorem pmtu_never_wedged_witness:
  "(\<exists>p. next_probe_components w_in_flight = Some p) \<or> (\<exists>t. next_wakeup w_in_flight = Some t)"
  by (rule pmtu_never_wedged [OF w_in_flight_inv])
    (simp add: w_in_flight_def w_pmtu_start pmtu_step_defs pmtu_probe_scheduled_def
      pmtu_probe_sent_def w_probe_def pmtu_consts)

theorem pmtu_black_hole_withdraws_budget_witness:
  "business_confirmed (silence (silence (silence
     (pmtu_step w_complete (CurrentPlpmtuConfirmationTimerExpired 31)) w_run) w_run) w_run) = None"
  using pmtu_black_hole_withdraws_budget [OF w_complete_facts, of 31 w_run w_run w_run]
  by (simp add: Let_def)

theorem pmtu_soft_failure_shrinks_search_witness:
  "mt_search_upper (foldl pmtu_step w_last_try
     [ProbeScheduled (w_probe\<lparr>pr_candidate := 1472\<rparr>) 2 40 41,
      ProbeSendFailed (w_probe\<lparr>pr_candidate := 1472\<rparr>) SessionUnavailable 40]) = 1464"
proof -
  have "w_probe\<lparr>pr_candidate := 1472\<rparr> = \<lparr>pr_sequence = mt_next_sequence w_last_try,
      pr_nonce = replicate 16 7, pr_path_cookie = replicate 16 9, pr_candidate = 1472\<rparr>"
    by (simp add: w_probe_def w_last_try_def w_pmtu_start)
  from pmtu_soft_failure_shrinks_search [OF w_last_try_confirming _ _ this, of SessionUnavailable 40 41]
  show ?thesis
    by (simp add: Let_def w_last_try_def w_pmtu_start w_identity_def
        ceiling_udp_datagram_size_def pmtu_consts)
qed

end
