(* ===== verification/Wg_Types.thy ===== *)
theory Wg_Types
  imports Prelude
begin

text \<open>
  The WireGuard messages and their wire format: \<open>client/wireguard/src/types.rs\<close> and
  \<open>error.rs\<close>. Fixed-size byte arrays are lists whose length the well-formedness predicates
  state. An error message that is formatted from numbers keeps its fixed text only.
\<close>

datatype wg_error =
    HandshakeFailed string
  | InvalidMessageType u8
  | InvalidPacket string
  | InvalidMac string
  | NoSession
  | DecryptionFailed
  | NonceOverflow
  | ReplayDetected u64
  | RekeyRequired
  | HandshakeTimeout
  | PeerNotFound
  | Crypto string

section \<open>Constants\<close>

definition TYPE_INITIALIZATION :: u8 where "TYPE_INITIALIZATION = 1"

definition TYPE_RESPONSE :: u8 where "TYPE_RESPONSE = 2"

definition TYPE_TRANSPORT :: u8 where "TYPE_TRANSPORT = 4"

definition INDEX_SIZE :: nat where "INDEX_SIZE = 4"

definition PUBLIC_KEY_SIZE :: nat where "PUBLIC_KEY_SIZE = 32"

definition AEAD_TAG_SIZE :: nat where "AEAD_TAG_SIZE = 16"

definition MAC_SIZE :: nat where "MAC_SIZE = 16"

definition TIMESTAMP_SIZE :: nat where "TIMESTAMP_SIZE = 12"

definition INITIALIZATION_MSG_SIZE :: nat where
  "INITIALIZATION_MSG_SIZE =
     4 + INDEX_SIZE + PUBLIC_KEY_SIZE + (PUBLIC_KEY_SIZE + AEAD_TAG_SIZE)
     + (TIMESTAMP_SIZE + AEAD_TAG_SIZE) + MAC_SIZE + MAC_SIZE"

definition RESPONSE_MSG_SIZE :: nat where
  "RESPONSE_MSG_SIZE =
     4 + INDEX_SIZE + INDEX_SIZE + PUBLIC_KEY_SIZE + AEAD_TAG_SIZE + MAC_SIZE + MAC_SIZE"

definition TRANSPORT_MSG_MIN_SIZE :: nat where
  "TRANSPORT_MSG_MIN_SIZE = 4 + INDEX_SIZE + 8 + AEAD_TAG_SIZE"

named_theorems wg_consts \<open>sizes of the WireGuard messages\<close>

lemmas [wg_consts] =
  TYPE_INITIALIZATION_def TYPE_RESPONSE_def TYPE_TRANSPORT_def INDEX_SIZE_def
  PUBLIC_KEY_SIZE_def AEAD_TAG_SIZE_def MAC_SIZE_def TIMESTAMP_SIZE_def
  INITIALIZATION_MSG_SIZE_def RESPONSE_MSG_SIZE_def TRANSPORT_MSG_MIN_SIZE_def

section \<open>Handshake initiation\<close>

record message_initiation =
  mi_sender_index :: u32
  mi_ephemeral :: bytes
  mi_encrypted_static :: bytes
  mi_encrypted_timestamp :: bytes
  mi_mac1 :: bytes
  mi_mac2 :: bytes

definition initiation_bytes_for_mac1 :: "message_initiation \<Rightarrow> bytes" where
  "initiation_bytes_for_mac1 msg =
     [TYPE_INITIALIZATION, 0, 0, 0] @ to_le 4 (mi_sender_index msg) @ mi_ephemeral msg
     @ mi_encrypted_static msg @ mi_encrypted_timestamp msg"

definition initiation_to_bytes :: "message_initiation \<Rightarrow> bytes" where
  "initiation_to_bytes msg =
     [TYPE_INITIALIZATION, 0, 0, 0] @ to_le 4 (mi_sender_index msg) @ mi_ephemeral msg
     @ mi_encrypted_static msg @ mi_encrypted_timestamp msg @ mi_mac1 msg @ mi_mac2 msg"

definition initiation_from_bytes :: "bytes \<Rightarrow> wg_error + message_initiation" where
  "initiation_from_bytes data =
     (if length data \<noteq> INITIALIZATION_MSG_SIZE
      then Inl (InvalidPacket ''initiation message invalid length'')
      else if data ! 0 \<noteq> TYPE_INITIALIZATION then Inl (InvalidMessageType (data ! 0))
      else if chunk 1 3 data \<noteq> [0, 0, 0]
      then Inl (InvalidPacket ''initiation message reserved bytes must be zero'')
      else if chunk 4 4 data = [0, 0, 0, 0]
      then Inl (InvalidPacket ''initiation sender_index must not be zero'')
      else Inr \<lparr>mi_sender_index = from_le (chunk 4 4 data),
                mi_ephemeral = chunk 8 32 data,
                mi_encrypted_static = chunk 40 48 data,
                mi_encrypted_timestamp = chunk 88 28 data,
                mi_mac1 = chunk 116 16 data,
                mi_mac2 = chunk 132 16 data\<rparr>)"

definition wf_initiation :: "message_initiation \<Rightarrow> bool" where
  "wf_initiation msg \<longleftrightarrow>
     mi_sender_index msg \<noteq> 0 \<and> length (mi_ephemeral msg) = 32
     \<and> length (mi_encrypted_static msg) = 48 \<and> length (mi_encrypted_timestamp msg) = 28
     \<and> length (mi_mac1 msg) = 16 \<and> length (mi_mac2 msg) = 16"

section \<open>Handshake response\<close>

record message_response =
  mr_sender_index :: u32
  mr_receiver_index :: u32
  mr_ephemeral :: bytes
  mr_encrypted_empty :: bytes
  mr_mac1 :: bytes
  mr_mac2 :: bytes

definition response_bytes_for_mac1 :: "message_response \<Rightarrow> bytes" where
  "response_bytes_for_mac1 msg =
     [TYPE_RESPONSE, 0, 0, 0] @ to_le 4 (mr_sender_index msg) @ to_le 4 (mr_receiver_index msg)
     @ mr_ephemeral msg @ mr_encrypted_empty msg"

definition response_to_bytes :: "message_response \<Rightarrow> bytes" where
  "response_to_bytes msg =
     [TYPE_RESPONSE, 0, 0, 0] @ to_le 4 (mr_sender_index msg) @ to_le 4 (mr_receiver_index msg)
     @ mr_ephemeral msg @ mr_encrypted_empty msg @ mr_mac1 msg @ mr_mac2 msg"

definition response_from_bytes :: "bytes \<Rightarrow> wg_error + message_response" where
  "response_from_bytes data =
     (if length data \<noteq> RESPONSE_MSG_SIZE
      then Inl (InvalidPacket ''response message invalid length'')
      else if data ! 0 \<noteq> TYPE_RESPONSE then Inl (InvalidMessageType (data ! 0))
      else if chunk 1 3 data \<noteq> [0, 0, 0]
      then Inl (InvalidPacket ''response message reserved bytes must be zero'')
      else if chunk 4 4 data = [0, 0, 0, 0] \<or> chunk 8 4 data = [0, 0, 0, 0]
      then Inl (InvalidPacket ''response indices must not be zero'')
      else Inr \<lparr>mr_sender_index = from_le (chunk 4 4 data),
                mr_receiver_index = from_le (chunk 8 4 data),
                mr_ephemeral = chunk 12 32 data,
                mr_encrypted_empty = chunk 44 16 data,
                mr_mac1 = chunk 60 16 data,
                mr_mac2 = chunk 76 16 data\<rparr>)"

definition wf_response :: "message_response \<Rightarrow> bool" where
  "wf_response msg \<longleftrightarrow>
     mr_sender_index msg \<noteq> 0 \<and> mr_receiver_index msg \<noteq> 0
     \<and> length (mr_ephemeral msg) = 32 \<and> length (mr_encrypted_empty msg) = 16
     \<and> length (mr_mac1 msg) = 16 \<and> length (mr_mac2 msg) = 16"

section \<open>Transport data\<close>

record message_transport =
  mt_receiver_index :: u32
  mt_counter :: u64
  mt_encrypted_payload :: bytes

definition transport_to_bytes :: "message_transport \<Rightarrow> bytes" where
  "transport_to_bytes msg =
     [TYPE_TRANSPORT, 0, 0, 0] @ to_le 4 (mt_receiver_index msg) @ to_le 8 (mt_counter msg)
     @ mt_encrypted_payload msg"

definition transport_from_bytes :: "bytes \<Rightarrow> wg_error + message_transport" where
  "transport_from_bytes data =
     (if length data < TRANSPORT_MSG_MIN_SIZE
      then Inl (InvalidPacket ''transport message too short'')
      else if data ! 0 \<noteq> TYPE_TRANSPORT then Inl (InvalidMessageType (data ! 0))
      else if chunk 1 3 data \<noteq> [0, 0, 0]
      then Inl (InvalidPacket ''transport message reserved bytes must be zero'')
      else Inr \<lparr>mt_receiver_index = from_le (chunk 4 4 data),
                mt_counter = from_le (chunk 8 8 data),
                mt_encrypted_payload = drop 16 data\<rparr>)"

definition wf_transport :: "message_transport \<Rightarrow> bool" where
  "wf_transport msg \<longleftrightarrow> 16 \<le> length (mt_encrypted_payload msg)"

definition message_type :: "bytes \<Rightarrow> u8 option" where
  "message_type data = (if data = [] then None else Some (data ! 0))"

section \<open>Session keys\<close>

record session_keys =
  sk_send_key :: bytes
  sk_recv_key :: bytes
  sk_send_counter :: u64
  sk_recv_counter :: u64

definition session_keys_new :: "bytes \<Rightarrow> bytes \<Rightarrow> session_keys" where
  "session_keys_new send_key recv_key =
     \<lparr>sk_send_key = send_key, sk_recv_key = recv_key, sk_send_counter = 0,
      sk_recv_counter = - 1\<rparr>"

definition next_nonce :: "session_keys \<Rightarrow> wg_error + (u64 \<times> session_keys)" where
  "next_nonce k =
     (let nonce = sk_send_counter k
      in if nonce = - 1 then Inl NonceOverflow
         else Inr (nonce, k\<lparr>sk_send_counter := sk_send_counter k + 1\<rparr>))"

section \<open>The wire format is exact\<close>

lemma from_le_zero: "from_le [0, 0, 0, 0] = (0 :: u32)"
  by (simp add: from_le_def from_be_def nat_of_be_def)

lemma to_le_zero: "to_le 4 (0 :: u32) = [0, 0, 0, 0]"
  by code_simp

lemma to_le_eq_zero: "to_le 4 (w :: u32) = [0, 0, 0, 0] \<longleftrightarrow> w = 0"
  by (metis from_le_zero le32.dec_enc to_le_zero)

lemma le32_chunk: "k + 4 \<le> length data \<Longrightarrow> to_le 4 (from_le (chunk k 4 data) :: u32) = chunk k 4 data"
  by (simp add: le32.enc_dec length_chunk)

lemma le64_chunk: "k + 8 \<le> length data \<Longrightarrow> to_le 8 (from_le (chunk k 8 data) :: u64) = chunk k 8 data"
  by (simp add: le64.enc_dec length_chunk)

lemma from_le_chunk_zero:
  "k + 4 \<le> length data \<Longrightarrow> (from_le (chunk k 4 data) :: u32) = 0 \<longleftrightarrow> chunk k 4 data = [0, 0, 0, 0]"
  by (metis le32_chunk from_le_zero to_le_zero)

lemma header_split:
  assumes "4 \<le> length data"
  shows "data = [data ! 0] @ chunk 1 3 data @ drop 4 data"
  using assms by (cases data) (auto simp: chunk_def eval_nat_numeral)

lemmas chunk_simps = chunk_append_skip chunk_0_append chunk_Cons

lemma initiation_round_trip:
  "wf_initiation msg \<Longrightarrow> initiation_from_bytes (initiation_to_bytes msg) = Inr msg"
  by (simp add: wf_initiation_def initiation_from_bytes_def initiation_to_bytes_def wg_consts
      chunk_simps chunk_def to_le_eq_zero le32.dec_enc)

lemma initiation_exact:
  assumes "initiation_from_bytes data = Inr msg"
  shows "wf_initiation msg \<and> initiation_to_bytes msg = data"
proof -
  from assms have len: "length data = 148" and ty: "data ! 0 = 1" and rsv: "chunk 1 3 data = [0, 0, 0]"
    and idx: "chunk 4 4 data \<noteq> [0, 0, 0, 0]"
    and msg: "msg = \<lparr>mi_sender_index = from_le (chunk 4 4 data), mi_ephemeral = chunk 8 32 data,
      mi_encrypted_static = chunk 40 48 data, mi_encrypted_timestamp = chunk 88 28 data,
      mi_mac1 = chunk 116 16 data, mi_mac2 = chunk 132 16 data\<rparr>"
    by (auto simp: initiation_from_bytes_def wg_consts split: if_splits)
  have "drop 4 data = chunk 4 4 data @ chunk 8 32 data @ chunk 40 48 data @ chunk 88 28 data
      @ chunk 116 16 data @ chunk 132 16 data"
    using len chunk_split [of 4 4 data] chunk_split [of 8 32 data] chunk_split [of 40 48 data]
      chunk_split [of 88 28 data] chunk_split [of 116 16 data] chunk_split [of 132 16 data] by simp
  with header_split [of data] len ty rsv have "initiation_to_bytes msg = data"
    by (simp add: initiation_to_bytes_def msg le32_chunk wg_consts)
  moreover have "wf_initiation msg"
    using len idx by (simp add: wf_initiation_def msg length_chunk from_le_chunk_zero)
  ultimately show ?thesis by simp
qed

lemma response_round_trip:
  "wf_response msg \<Longrightarrow> response_from_bytes (response_to_bytes msg) = Inr msg"
  by (simp add: wf_response_def response_from_bytes_def response_to_bytes_def wg_consts
      chunk_simps chunk_def to_le_eq_zero le32.dec_enc)

lemma response_exact:
  assumes "response_from_bytes data = Inr msg"
  shows "wf_response msg \<and> response_to_bytes msg = data"
proof -
  from assms have len: "length data = 92" and ty: "data ! 0 = 2" and rsv: "chunk 1 3 data = [0, 0, 0]"
    and idx: "chunk 4 4 data \<noteq> [0, 0, 0, 0]" "chunk 8 4 data \<noteq> [0, 0, 0, 0]"
    and msg: "msg = \<lparr>mr_sender_index = from_le (chunk 4 4 data),
      mr_receiver_index = from_le (chunk 8 4 data), mr_ephemeral = chunk 12 32 data,
      mr_encrypted_empty = chunk 44 16 data, mr_mac1 = chunk 60 16 data,
      mr_mac2 = chunk 76 16 data\<rparr>"
    by (auto simp: response_from_bytes_def wg_consts split: if_splits)
  have "drop 4 data = chunk 4 4 data @ chunk 8 4 data @ chunk 12 32 data @ chunk 44 16 data
      @ chunk 60 16 data @ chunk 76 16 data"
    using len chunk_split [of 4 4 data] chunk_split [of 8 4 data] chunk_split [of 12 32 data]
      chunk_split [of 44 16 data] chunk_split [of 60 16 data] chunk_split [of 76 16 data] by simp
  with header_split [of data] len ty rsv have "response_to_bytes msg = data"
    by (simp add: response_to_bytes_def msg le32_chunk wg_consts)
  moreover have "wf_response msg"
    using len idx by (simp add: wf_response_def msg length_chunk from_le_chunk_zero)
  ultimately show ?thesis by simp
qed

lemma transport_round_trip:
  "wf_transport msg \<Longrightarrow> transport_from_bytes (transport_to_bytes msg) = Inr msg"
  by (simp add: wf_transport_def transport_from_bytes_def transport_to_bytes_def wg_consts
      chunk_simps chunk_def le32.dec_enc le64.dec_enc)

lemma transport_exact:
  assumes "transport_from_bytes data = Inr msg"
  shows "wf_transport msg \<and> transport_to_bytes msg = data"
proof -
  from assms have len: "32 \<le> length data" and ty: "data ! 0 = 4" and rsv: "chunk 1 3 data = [0, 0, 0]"
    and msg: "msg = \<lparr>mt_receiver_index = from_le (chunk 4 4 data),
      mt_counter = from_le (chunk 8 8 data), mt_encrypted_payload = drop 16 data\<rparr>"
    by (auto simp: transport_from_bytes_def wg_consts split: if_splits)
  have "drop 4 data = chunk 4 4 data @ chunk 8 8 data @ drop 16 data"
    using len chunk_split [of 4 4 data] chunk_split [of 8 8 data] by simp
  with header_split [of data] len ty rsv have "transport_to_bytes msg = data"
    by (simp add: transport_to_bytes_def msg le32_chunk le64_chunk wg_consts)
  moreover have "wf_transport msg" using len by (simp add: wf_transport_def msg)
  ultimately show ?thesis by simp
qed

text \<open>
  Each parser accepts exactly the byte strings the serialiser writes for well-formed messages,
  and returns that message.
\<close>
theorem wg_wire_format_exact:
  "(initiation_from_bytes data = Inr mi \<longleftrightarrow> wf_initiation mi \<and> data = initiation_to_bytes mi)
   \<and> (response_from_bytes data = Inr mr \<longleftrightarrow> wf_response mr \<and> data = response_to_bytes mr)
   \<and> (transport_from_bytes data = Inr mt \<longleftrightarrow> wf_transport mt \<and> data = transport_to_bytes mt)"
  using initiation_round_trip initiation_exact response_round_trip response_exact
    transport_round_trip transport_exact by metis

end
