(* ===== verification/Wg_Session.thy ===== *)
theory Wg_Session
  imports Wg_Types
begin

text \<open>
  The transport session of \<open>client/wireguard/src/session.rs\<close> over the counter nonces of
  \<open>client/crypto/src/aead.rs\<close>. The ChaCha20-Poly1305 crate is a parameter: \<open>seal\<close> and \<open>unseal\<close> take
  key, nonce, associated data and message, and a failure carries the crate's text. The clock
  reading is an argument of every operation that looks at it. Arithmetic on the 64-bit
  counters wraps, as it does in a release build.
\<close>

type_synonym aead = "bytes \<Rightarrow> bytes \<Rightarrow> bytes \<Rightarrow> bytes \<Rightarrow> string + bytes"

section \<open>Counter nonces\<close>

definition nonce_from_counter :: "u64 \<Rightarrow> bytes" where
  "nonce_from_counter counter = replicate 4 0 @ to_le 8 counter"

definition ZERO_NONCE :: bytes where "ZERO_NONCE = replicate 12 0"

text \<open>\<open>map_err\<close> of the crate's error, and the conversion of a \<open>CryptoError\<close> by \<open>?\<close>.\<close>

definition encrypt_with_counter :: "aead \<Rightarrow> bytes \<Rightarrow> u64 \<Rightarrow> bytes \<Rightarrow> bytes \<Rightarrow> wg_error + bytes" where
  "encrypt_with_counter seal key counter aad plaintext =
     (case seal key (nonce_from_counter counter) aad plaintext of
        Inl e \<Rightarrow> Inl (Crypto (''cipher error: AEAD encrypt failed: '' @ e))
      | Inr c \<Rightarrow> Inr c)"

definition decrypt_with_counter :: "aead \<Rightarrow> bytes \<Rightarrow> u64 \<Rightarrow> bytes \<Rightarrow> bytes \<Rightarrow> wg_error + bytes" where
  "decrypt_with_counter unseal key counter aad ciphertext =
     (case unseal key (nonce_from_counter counter) aad ciphertext of
        Inl e \<Rightarrow> Inl (Crypto (''cipher error: AEAD decrypt failed: '' @ e))
      | Inr p \<Rightarrow> Inr p)"

section \<open>The session\<close>

definition REPLAY_WINDOW_SIZE :: u64 where "REPLAY_WINDOW_SIZE = 64"

definition REKEY_AFTER_MESSAGES :: u64 where "REKEY_AFTER_MESSAGES = 2 ^ 60"

definition REKEY_AFTER_TIME :: nat where "REKEY_AFTER_TIME = 120"

definition REJECT_AFTER_MESSAGES :: u64 where "REJECT_AFTER_MESSAGES = - 1"

definition REJECT_AFTER_TIME :: nat where "REJECT_AFTER_TIME = 180"

record transport_key_pair =
  tk_send_key :: bytes
  tk_recv_key :: bytes
  tk_our_index :: u32
  tk_peer_index :: u32

record transport_session =
  ts_send_key :: bytes
  ts_recv_key :: bytes
  ts_our_index :: u32
  ts_peer_index :: u32
  ts_send_counter :: u64
  ts_recv_highest :: u64
  ts_replay_bitmap :: u64
  ts_replay_initialized :: bool
  ts_created_at :: instant
  ts_rekey_after_messages :: u64
  ts_rekey_after_time :: duration
  ts_reject_after_messages :: u64
  ts_reject_after_time :: duration

definition session_new :: "transport_key_pair \<Rightarrow> instant \<Rightarrow> transport_session" where
  "session_new keys now =
     \<lparr>ts_send_key = tk_send_key keys, ts_recv_key = tk_recv_key keys,
      ts_our_index = tk_our_index keys, ts_peer_index = tk_peer_index keys,
      ts_send_counter = 0, ts_recv_highest = 0, ts_replay_bitmap = 0,
      ts_replay_initialized = False, ts_created_at = now,
      ts_rekey_after_messages = REKEY_AFTER_MESSAGES,
      ts_rekey_after_time = from_secs REKEY_AFTER_TIME,
      ts_reject_after_messages = REJECT_AFTER_MESSAGES,
      ts_reject_after_time = from_secs REJECT_AFTER_TIME\<rparr>"

definition with_thresholds ::
  "transport_session \<Rightarrow> u64 \<Rightarrow> duration \<Rightarrow> u64 \<Rightarrow> duration \<Rightarrow> transport_session" where
  "with_thresholds s rekey_messages rekey_time reject_messages reject_time =
     s\<lparr>ts_rekey_after_messages := rekey_messages, ts_rekey_after_time := rekey_time,
       ts_reject_after_messages := reject_messages, ts_reject_after_time := reject_time\<rparr>"

definition session_age :: "transport_session \<Rightarrow> instant \<Rightarrow> duration" where
  "session_age s now = saturating_duration_since now (ts_created_at s)"

definition needs_rekey :: "transport_session \<Rightarrow> instant \<Rightarrow> bool" where
  "needs_rekey s now \<longleftrightarrow>
     ts_send_counter s \<ge> ts_rekey_after_messages s \<or> session_age s now \<ge> ts_rekey_after_time s"

definition is_expired :: "transport_session \<Rightarrow> instant \<Rightarrow> bool" where
  "is_expired s now \<longleftrightarrow>
     ts_send_counter s \<ge> ts_reject_after_messages s
     \<or> session_age s now \<ge> ts_reject_after_time s"

definition expires_in :: "transport_session \<Rightarrow> instant \<Rightarrow> duration" where
  "expires_in s now =
     (if ts_send_counter s \<ge> ts_reject_after_messages s then 0
      else ts_reject_after_time s - session_age s now)"

section \<open>The replay window\<close>

definition check_replay :: "transport_session \<Rightarrow> u64 \<Rightarrow> bool" where
  "check_replay s counter =
     (if \<not> ts_replay_initialized s then True
      else if counter > ts_recv_highest s then True
      else if counter + REPLAY_WINDOW_SIZE \<le> ts_recv_highest s then False
      else
        let offset = ts_recv_highest s - counter
        in if offset \<ge> 64 then False
           else ts_replay_bitmap s AND push_bit (unat offset) 1 = 0)"

definition update_replay :: "transport_session \<Rightarrow> u64 \<Rightarrow> transport_session" where
  "update_replay s counter =
     (if \<not> ts_replay_initialized s
      then s\<lparr>ts_replay_initialized := True, ts_recv_highest := counter, ts_replay_bitmap := 1\<rparr>
      else if counter > ts_recv_highest s
      then
        let shift = counter - ts_recv_highest s
        in s\<lparr>ts_replay_bitmap :=
               (if shift \<ge> 64 then 1 else push_bit (unat shift) (ts_replay_bitmap s) OR 1),
             ts_recv_highest := counter\<rparr>
      else if counter < ts_recv_highest s
      then
        let offset = ts_recv_highest s - counter
        in if offset < 64
           then s\<lparr>ts_replay_bitmap := ts_replay_bitmap s OR push_bit (unat offset) 1\<rparr>
           else s
      else s\<lparr>ts_replay_bitmap := ts_replay_bitmap s OR 1\<rparr>)"

section \<open>Encryption and decryption\<close>

definition session_encrypt ::
  "aead \<Rightarrow> transport_session \<Rightarrow> instant \<Rightarrow> bytes \<Rightarrow> wg_error + (message_transport \<times> transport_session)" where
  "session_encrypt seal s now packet =
     (if is_expired s now then Inl (InvalidPacket ''session expired; rekey required'')
      else if ts_send_counter s = - 1 then Inl NonceOverflow
      else
        let counter = ts_send_counter s
        in bind_res (encrypt_with_counter seal (ts_send_key s) counter [] packet) (\<lambda>encrypted.
             Inr (\<lparr>mt_receiver_index = ts_peer_index s, mt_counter = counter,
                   mt_encrypted_payload = encrypted\<rparr>,
                  s\<lparr>ts_send_counter := ts_send_counter s + 1\<rparr>)))"

definition encrypt_to_bytes ::
  "aead \<Rightarrow> transport_session \<Rightarrow> instant \<Rightarrow> bytes \<Rightarrow> wg_error + (bytes \<times> transport_session)" where
  "encrypt_to_bytes seal s now packet =
     bind_res (session_encrypt seal s now packet) (\<lambda>(msg, s'). Inr (transport_to_bytes msg, s'))"

definition session_decrypt ::
  "aead \<Rightarrow> transport_session \<Rightarrow> instant \<Rightarrow> message_transport \<Rightarrow> wg_error + (bytes \<times> transport_session)" where
  "session_decrypt unseal s now msg =
     (if is_expired s now then Inl (InvalidPacket ''session expired; rekey required'')
      else if mt_receiver_index msg \<noteq> ts_our_index s
      then Inl (InvalidPacket ''receiver_index mismatch'')
      else if \<not> check_replay s (mt_counter msg) then Inl (ReplayDetected (mt_counter msg))
      else
        case decrypt_with_counter unseal (ts_recv_key s) (mt_counter msg) []
               (mt_encrypted_payload msg) of
          Inl _ \<Rightarrow> Inl DecryptionFailed
        | Inr plaintext \<Rightarrow> Inr (plaintext, update_replay s (mt_counter msg)))"

definition decrypt_from_bytes ::
  "aead \<Rightarrow> transport_session \<Rightarrow> instant \<Rightarrow> bytes \<Rightarrow> wg_error + (bytes \<times> transport_session)" where
  "decrypt_from_bytes unseal s now data =
     bind_res (transport_from_bytes data) (session_decrypt unseal s now)"

section \<open>The window implements a set of counters\<close>

text \<open>
  The abstraction: \<open>S\<close> is the set of all counters accepted so far. The bitmap knows the last 64
  of them relative to the highest.
\<close>

definition window_ok :: "transport_session \<Rightarrow> u64 set \<Rightarrow> bool" where
  "window_ok s S \<longleftrightarrow>
     (if ts_replay_initialized s
      then ts_recv_highest s \<in> S \<and> (\<forall>c \<in> S. c \<le> ts_recv_highest s)
        \<and> (\<forall>c. c \<le> ts_recv_highest s \<longrightarrow> unat (ts_recv_highest s - c) < 64 \<longrightarrow>
             bit (ts_replay_bitmap s) (unat (ts_recv_highest s - c)) = (c \<in> S))
      else S = {})"

lemma unat_less_64: "(x :: u64) < 64 \<longleftrightarrow> unat x < 64"
  by (simp add: word_less_nat_alt)

lemma not_seen: "(x :: u64) AND 2 ^ k = 0 \<longleftrightarrow> \<not> bit x k"
  by (simp add: bit_iff_and_push_bit_not_eq_0)

lemma unat_diff_inj: "unat (h - x) = unat (h - c) \<longleftrightarrow> x = (c :: u64)"
proof -
  have "unat (h - x) = unat (h - c) \<longleftrightarrow> h - x = h - c" by (metis word_unat_eq_iff)
  then show ?thesis by simp
qed

lemma check_replay_new:
  assumes "window_ok s S" and "check_replay s c"
  shows "c \<notin> S"
proof (cases "ts_replay_initialized s \<and> c \<le> ts_recv_highest s")
  case True
  with assms(2) have "\<not> 64 \<le> ts_recv_highest s - c"
    and "\<not> bit (ts_replay_bitmap s) (unat (ts_recv_highest s - c))"
    by (auto simp: check_replay_def Let_def not_seen not_less split: if_splits)
  with assms(1) True show ?thesis by (auto simp: window_ok_def unat_less_64 not_le)
next
  case False
  with assms(1) show ?thesis by (auto simp: window_ok_def split: if_splits)
qed

lemma window_ok_advance:
  assumes "window_ok s S" and "ts_replay_initialized s" and "ts_recv_highest s < c"
  shows "window_ok (update_replay s c) (insert c S)"
proof -
  let ?h = "ts_recv_highest s" and ?b = "ts_replay_bitmap s" and ?shift = "c - ts_recv_highest s"
  let ?b' = "if ?shift \<ge> 64 then 1 else push_bit (unat ?shift) ?b OR 1"
  have hc: "unat ?h < unat c" using assms(3) by (simp add: word_less_nat_alt)
  have sh: "unat ?shift = unat c - unat ?h" using hc by (simp add: unat_sub_if')
  have old: "\<And>x. x \<in> S \<Longrightarrow> x \<le> ?h"
      "\<And>x. x \<le> ?h \<Longrightarrow> unat (?h - x) < 64 \<Longrightarrow> bit ?b (unat (?h - x)) = (x \<in> S)"
    using assms(1,2) by (auto simp: window_ok_def)
  have "bit ?b' (unat (c - x)) = (x \<in> insert c S)" if x: "x \<le> c" "unat (c - x) < 64" for x
  proof -
    have xc: "unat x \<le> unat c" using x(1) by (simp add: word_le_nat_alt)
    have k: "unat (c - x) = unat c - unat x" using xc by (simp add: unat_sub_if')
    consider "x = c" | "?h < x" "x < c" | "x \<le> ?h" using x(1) by force
    then show ?thesis
    proof cases
      case 1
      then show ?thesis by (simp add: bit_or_iff bit_1_iff)
    next
      case 2
      then have "unat ?h < unat x" "unat x < unat c" by (simp_all add: word_less_nat_alt)
      then have "0 < unat (c - x)" "unat (c - x) < unat ?shift" using k sh by linarith+
      then have "\<not> bit ?b' (unat (c - x))" by (simp add: bit_or_iff bit_1_iff bit_push_bit_iff)
      moreover have "x \<notin> S" using old(1) 2(1) by force
      ultimately show ?thesis using 2(2) by auto
    next
      case 3
      then have xh: "unat x \<le> unat ?h" by (simp add: word_le_nat_alt)
      have kh: "unat (?h - x) = unat ?h - unat x" using xh by (simp add: unat_sub_if')
      have kk: "unat (c - x) = unat (?h - x) + unat ?shift" using k kh sh xh hc by linarith
      then have s64: "unat ?shift < 64" "unat (?h - x) < 64" using x(2) by linarith+
      then have "\<not> 64 \<le> ?shift" by (simp add: word_le_nat_alt)
      moreover have "unat (c - x) \<noteq> 0" using kk sh hc by linarith
      ultimately have "bit ?b' (unat (c - x)) = bit ?b (unat (?h - x))"
        using x(2) kk by (auto simp: bit_or_iff bit_1_iff bit_push_bit_iff)
      with old(2) [OF 3] s64(2) assms(3) 3 show ?thesis by auto
    qed
  qed
  moreover have "\<forall>x \<in> insert c S. x \<le> c" using old(1) assms(3) by force
  ultimately show ?thesis
    using assms(2,3) by (simp add: window_ok_def update_replay_def Let_def)
qed

lemma window_ok_within:
  assumes "window_ok s S" and "ts_replay_initialized s" and "c \<le> ts_recv_highest s"
  shows "window_ok (update_replay s c) (insert c S)"
proof -
  let ?h = "ts_recv_highest s" and ?b = "ts_replay_bitmap s"
  have old: "\<And>x. x \<in> S \<Longrightarrow> x \<le> ?h" "?h \<in> S"
      "\<And>x. x \<le> ?h \<Longrightarrow> unat (?h - x) < 64 \<Longrightarrow> bit ?b (unat (?h - x)) = (x \<in> S)"
    using assms(1,2) by (auto simp: window_ok_def)
  have inj: "unat (?h - x) = unat (?h - c) \<longleftrightarrow> x = c" for x by (rule unat_diff_inj)
  have upd: "update_replay s c = (if unat (?h - c) < 64
      then s\<lparr>ts_replay_bitmap := ?b OR push_bit (unat (?h - c)) 1\<rparr> else s)"
    using assms(2,3) by (auto simp: update_replay_def Let_def unat_less_64)
  have bit': "bit (?b OR push_bit (unat (?h - c)) 1) (unat (?h - x)) = (x \<in> insert c S)"
    if "x \<le> ?h" "unat (?h - x) < 64" for x
    using old(3) [OF that] that inj [of x] by (auto simp: bit_or_iff bit_exp_iff)
  show ?thesis
  proof (cases "unat (?h - c) < 64")
    case True
    with old bit' assms(2,3) show ?thesis unfolding upd by (auto simp: window_ok_def)
  next
    case False
    then have "x \<noteq> c" if "unat (?h - x) < 64" for x using that by auto
    with False old assms(2,3) show ?thesis unfolding upd by (auto simp: window_ok_def)
  qed
qed

lemma window_ok_update: "window_ok s S \<Longrightarrow> window_ok (update_replay s c) (insert c S)"
proof (cases "ts_replay_initialized s")
  case True
  assume "window_ok s S"
  with True show ?thesis
    using window_ok_advance [of s S c] window_ok_within [of s S c] by fastforce
next
  case False
  assume "window_ok s S"
  with False show ?thesis
    by (auto simp: window_ok_def update_replay_def bit_1_iff unat_eq_0)
qed

section \<open>No counter twice\<close>

text \<open>The steps of a session as token-consuming steps: the token is the message counter.\<close>

definition decrypt_step ::
  "aead \<Rightarrow> transport_session \<Rightarrow> instant \<times> message_transport \<Rightarrow> (u64 \<times> transport_session) option" where
  "decrypt_step unseal s e =
     (case session_decrypt unseal s (fst e) (snd e) of
        Inl _ \<Rightarrow> None | Inr (_, s') \<Rightarrow> Some (mt_counter (snd e), s'))"

definition encrypt_step ::
  "aead \<Rightarrow> transport_session \<Rightarrow> instant \<times> bytes \<Rightarrow> (u64 \<times> transport_session) option" where
  "encrypt_step seal s e =
     (case session_encrypt seal s (fst e) (snd e) of
        Inl _ \<Rightarrow> None | Inr (msg, s') \<Rightarrow> Some (mt_counter msg, s'))"

definition below_send_counter :: "transport_session \<Rightarrow> u64 set \<Rightarrow> bool" where
  "below_send_counter s S \<longleftrightarrow> (\<forall>c \<in> S. c < ts_send_counter s)"

lemma session_decrypt_Inr:
  "session_decrypt unseal s now msg = Inr (p, s') \<Longrightarrow>
     check_replay s (mt_counter msg) \<and> s' = update_replay s (mt_counter msg)
     \<and> \<not> is_expired s now \<and> mt_receiver_index msg = ts_our_index s
     \<and> decrypt_with_counter unseal (ts_recv_key s) (mt_counter msg) [] (mt_encrypted_payload msg) = Inr p"
  by (auto simp: session_decrypt_def split: if_splits sum.splits)

lemma session_encrypt_Inr:
  "session_encrypt seal s now p = Inr (msg, s') \<Longrightarrow>
     mt_counter msg = ts_send_counter s \<and> mt_receiver_index msg = ts_peer_index s
     \<and> s' = s\<lparr>ts_send_counter := ts_send_counter s + 1\<rparr> \<and> ts_send_counter s \<noteq> - 1
     \<and> \<not> is_expired s now
     \<and> encrypt_with_counter seal (ts_send_key s) (ts_send_counter s) [] p
         = Inr (mt_encrypted_payload msg)"
  by (auto simp: session_encrypt_def bind_res_eq_Inr Let_def split: if_splits)

lemma counter_increases:
  assumes "(c :: u64) \<noteq> - 1"
  shows "c < c + 1" and "x < c \<Longrightarrow> x < c + 1"
proof -
  have "1 + c \<noteq> 0" using assms by (metis add.commute add_eq_0_iff2)
  then have "unat (c + 1) = unat c + 1" using unatSuc [of c] by (simp add: add.commute)
  then show c: "c < c + 1" by (simp add: word_less_nat_alt)
  then show "x < c + 1" if "x < c" using that by (rule less_trans [rotated])
qed

interpretation recv: once_only "decrypt_step unseal" window_ok for unseal
  by unfold_locales
    (auto simp: decrypt_step_def dest!: session_decrypt_Inr intro: window_ok_update
      dest: check_replay_new split: sum.splits)

interpretation send: once_only "encrypt_step seal" below_send_counter for seal
  by unfold_locales
    (auto simp: encrypt_step_def below_send_counter_def dest!: session_encrypt_Inr
      dest: counter_increases split: sum.splits)

section \<open>Properties\<close>

text \<open>
  C14: Over any sequence of received transport messages a session never accepts the same counter
  twice.
\<close>
theorem wg_no_replay: "distinct (consumed (decrypt_step unseal) (session_new keys now) es)"
  by (rule recv.consumed_distinct [of _ "{}"]) (simp add: window_ok_def session_new_def)

lemma nonce_from_counter_inj: "nonce_from_counter c = nonce_from_counter d \<longleftrightarrow> c = d"
  by (auto simp: nonce_from_counter_def dest: le64.enc_inj)

text \<open>
  C15: Over any sequence of packets a session never encrypts two of them under the same nonce.
\<close>
theorem wg_nonces_unique:
  "distinct (map nonce_from_counter (consumed (encrypt_step seal) (session_new keys now) es))"
proof -
  have "distinct (consumed (encrypt_step seal) (session_new keys now) es)"
    by (rule send.consumed_distinct [of _ "{}"]) (simp add: below_send_counter_def)
  then show ?thesis by (simp add: distinct_map inj_on_def nonce_from_counter_inj)
qed

lemma no_wrap: "unat (c :: u64) + 64 < 2 ^ 64 \<Longrightarrow> unat (c + 64) = unat c + 64"
  by (simp add: unat_word_ariths)

lemma check_replay_unseen:
  assumes "window_ok s S" and "unat c + 64 < 2 ^ 64" and "c \<notin> S"
    and "ts_replay_initialized s" and "unat (ts_recv_highest s) < unat c + 64"
  shows "check_replay s c"
proof (cases "c \<le> ts_recv_highest s")
  case True
  then have d: "unat (ts_recv_highest s - c) = unat (ts_recv_highest s) - unat c"
    by (simp add: unat_sub_if' word_le_nat_alt)
  with assms(5) True have lt: "unat (ts_recv_highest s - c) < 64" by (simp add: word_le_nat_alt)
  with assms(1,3,4) True have "\<not> bit (ts_replay_bitmap s) (unat (ts_recv_highest s - c))"
    by (simp add: window_ok_def)
  moreover have "\<not> c + 64 \<le> ts_recv_highest s" "\<not> 64 \<le> ts_recv_highest s - c"
    using assms(5) no_wrap [OF assms(2)] lt by (simp_all add: word_le_nat_alt)
  ultimately show ?thesis
    by (simp add: check_replay_def REPLAY_WINDOW_SIZE_def Let_def not_seen)
qed (auto simp: check_replay_def not_le)

lemma wg_window_set:
  assumes "window_ok s S" and "unat c + 64 < 2 ^ 64"
  shows "(check_replay s c \<longleftrightarrow> c \<notin> S \<and> (\<forall>h \<in> S. unat h < unat c + 64))
    \<and> window_ok (update_replay s c) (insert c S)"
proof -
  have "\<forall>h \<in> S. unat h < unat c + 64" if "check_replay s c"
  proof (cases "ts_replay_initialized s \<and> c \<le> ts_recv_highest s")
    case True
    with that have "\<not> c + 64 \<le> ts_recv_highest s"
      by (auto simp: check_replay_def REPLAY_WINDOW_SIZE_def split: if_splits)
    then have "unat (ts_recv_highest s) < unat c + 64"
      using no_wrap [OF assms(2)] by (simp add: word_le_nat_alt)
    with assms(1) True show ?thesis by (fastforce simp: window_ok_def word_le_nat_alt)
  next
    case False
    with assms(1) show ?thesis
      by (fastforce simp: window_ok_def word_le_nat_alt split: if_splits)
  qed
  moreover have "check_replay s c" if "c \<notin> S" "\<forall>h \<in> S. unat h < unat c + 64"
  proof (cases "ts_replay_initialized s")
    case True
    with assms(1) that(2) have "unat (ts_recv_highest s) < unat c + 64"
      by (simp add: window_ok_def)
    with assms that(1) True show ?thesis by (rule check_replay_unseen)
  qed (simp add: check_replay_def)
  ultimately show ?thesis
    using check_replay_new [OF assms(1)] window_ok_update [OF assms(1)] by blast
qed

text \<open>
  C17: For counters c with c + 64 < 2^64 the 64-bit replay bitmap implements the set of all
  accepted counters: c is accepted exactly when it is not in the set and no accepted counter is
  64 or more above it, and recording c adds it to the set. (For counters closer to 2^64 the
  addition wraps and the equivalence fails; see the finding on session.rs.)
\<close>
theorem wg_window_refines_set:
  assumes "window_ok s S" and "unat c + 64 < 2 ^ 64"
  shows "(check_replay s c \<longleftrightarrow> c \<notin> S \<and> (\<forall>h \<in> S. unat h < unat c + 64))
    \<and> window_ok (update_replay s c) (insert c S)"
  using assms by (rule wg_window_set)

lemma session_delivers:
  assumes "\<And>key nonce aad m. \<exists>c. seal key nonce aad m = Inr c \<and> length c = length m + 16
      \<and> unseal key nonce aad c = Inr m"
    and "\<not> is_expired a now" and "ts_send_counter a \<noteq> - 1" and "\<not> is_expired b later"
    and "ts_send_key a = ts_recv_key b" and "ts_peer_index a = ts_our_index b"
    and "window_ok b S" and "ts_send_counter a \<notin> S"
    and "unat (ts_send_counter a) + 64 < 2 ^ 64"
    and "\<forall>h \<in> S. unat h < unat (ts_send_counter a) + 64"
  shows "\<exists>data a'. encrypt_to_bytes seal a now packet = Inr (data, a')
    \<and> ts_send_counter a' = ts_send_counter a + 1
    \<and> decrypt_from_bytes unseal b later data
        = Inr (packet, update_replay b (ts_send_counter a))"
proof -
  let ?n = "ts_send_counter a"
  obtain c where c: "seal (ts_send_key a) (nonce_from_counter ?n) [] packet = Inr c"
      "length c = length packet + 16"
      "unseal (ts_send_key a) (nonce_from_counter ?n) [] c = Inr packet"
    using assms(1) by blast
  let ?msg = "\<lparr>mt_receiver_index = ts_peer_index a, mt_counter = ?n, mt_encrypted_payload = c\<rparr>"
  have "encrypt_to_bytes seal a now packet
      = Inr (transport_to_bytes ?msg, a\<lparr>ts_send_counter := ?n + 1\<rparr>)"
    using assms(2,3) c(1)
    by (simp add: encrypt_to_bytes_def session_encrypt_def encrypt_with_counter_def Let_def)
  moreover have "check_replay b ?n"
    using wg_window_set [OF assms(7,9)] assms(8,10) by blast
  then have "session_decrypt unseal b later ?msg = Inr (packet, update_replay b ?n)"
    using assms(4-6) c(3) by (simp add: session_decrypt_def decrypt_with_counter_def)
  then have "decrypt_from_bytes unseal b later (transport_to_bytes ?msg)
      = Inr (packet, update_replay b ?n)"
    using c(2) by (simp add: decrypt_from_bytes_def transport_round_trip wf_transport_def)
  ultimately show ?thesis by auto
qed

text \<open>
  A packet encrypted by one end is decrypted to the same packet by the other end, also out of
  order within the replay window.
\<close>
theorem wg_session_delivers:
  assumes "\<And>key nonce aad m. \<exists>c. seal key nonce aad m = Inr c \<and> length c = length m + 16
      \<and> unseal key nonce aad c = Inr m"
    and "\<not> is_expired a now" and "ts_send_counter a \<noteq> - 1" and "\<not> is_expired b later"
    and "ts_send_key a = ts_recv_key b" and "ts_peer_index a = ts_our_index b"
    and "window_ok b S" and "ts_send_counter a \<notin> S"
    and "unat (ts_send_counter a) + 64 < 2 ^ 64"
    and "\<forall>h \<in> S. unat h < unat (ts_send_counter a) + 64"
  shows "\<exists>data a'. encrypt_to_bytes seal a now packet = Inr (data, a')
    \<and> ts_send_counter a' = ts_send_counter a + 1
    \<and> decrypt_from_bytes unseal b later data
        = Inr (packet, update_replay b (ts_send_counter a))"
  using assms by (rule session_delivers)

text \<open>
  For the last 64 counters the sum in the replay check wraps, and every such counter that is not
  above the highest is refused, whether it was received or not.
\<close>
theorem wg_replay_window_wraps:
  assumes "ts_replay_initialized s" and "c \<le> ts_recv_highest s" and "2 ^ 64 \<le> unat c + 64"
  shows "\<not> check_replay s c"
proof -
  have "unat (c + 64) = unat c + 64 - 2 ^ 64"
    using assms(3) unsigned_less [of c, where ?'a = nat] by (simp add: unat_word_ariths mod_if)
  then have "unat (c + 64) \<le> unat (ts_recv_highest s)"
    using assms(2) unsigned_less [of c, where ?'a = nat] by (simp add: word_le_nat_alt)
  then have "c + 64 \<le> ts_recv_highest s" by (simp add: word_le_nat_alt)
  with assms(1,2) show ?thesis by (auto simp: check_replay_def REPLAY_WINDOW_SIZE_def)
qed

end
