(* ===== verification/Wg_Noise.thy ===== *)
theory Wg_Noise
  imports Wg_Session
begin

text \<open>
  The crypto crate under the handshake: \<open>client/crypto/src/{hash,hkdf,dh,noise,aead}.rs\<close>. The
  primitives of third-party crates (BLAKE2s, X25519, ChaCha20-Poly1305) are fields of a record
  that every definition takes; HMAC, HKDF and the Noise symmetric state are in the repository
  and are modelled. A panic (\<open>expect\<close>, \<open>assert!\<close>, a \<open>copy_from_slice\<close> of the wrong length) is the
  error \<open>Panic\<close>.
\<close>

record crypto =
  blake2s :: "bytes \<Rightarrow> bytes"
  x25519 :: "bytes \<Rightarrow> bytes \<Rightarrow> bytes"
  x25519_public :: "bytes \<Rightarrow> bytes"
  aead_seal :: aead
  aead_unseal :: aead

datatype hs_error = Panic | Failed wg_error

section \<open>Hash and key derivation\<close>

definition BLOCK_SIZE :: nat where "BLOCK_SIZE = 64"

definition hash2 :: "crypto \<Rightarrow> bytes \<Rightarrow> bytes \<Rightarrow> bytes" where
  "hash2 cr a b = blake2s cr (a @ b)"

definition block_key :: "crypto \<Rightarrow> bytes \<Rightarrow> bytes" where
  "block_key cr key =
     (let k = (if length key > BLOCK_SIZE then blake2s cr key else key)
      in k @ replicate (BLOCK_SIZE - length k) 0)"

definition hmac :: "crypto \<Rightarrow> bytes \<Rightarrow> bytes \<Rightarrow> bytes" where
  "hmac cr key message =
     (let inner_pad = map (\<lambda>b. b XOR 0x36) (block_key cr key);
          inner = blake2s cr (inner_pad @ message);
          outer_pad = map (\<lambda>b. b XOR 0x5c) (block_key cr key)
      in blake2s cr (outer_pad @ inner))"

definition keyed_hash :: "crypto \<Rightarrow> bytes \<Rightarrow> bytes \<Rightarrow> bytes" where
  "keyed_hash cr key data = hmac cr key data"

definition hkdf_extract :: "crypto \<Rightarrow> bytes \<Rightarrow> bytes \<Rightarrow> bytes" where
  "hkdf_extract cr salt ikm = hmac cr salt ikm"

text \<open>The loop of \<open>expand\<close>: block \<open>i\<close> from the previous block, for \<open>count\<close> more blocks.\<close>

fun expand_from :: "crypto \<Rightarrow> bytes \<Rightarrow> bytes \<Rightarrow> bytes \<Rightarrow> u8 \<Rightarrow> nat \<Rightarrow> bytes list" where
  "expand_from cr prk info t_prev i 0 = []"
| "expand_from cr prk info t_prev i (Suc count) =
     (let t_i = hmac cr prk (t_prev @ info @ [i])
      in t_i # expand_from cr prk info t_i (i + 1) count)"

definition hkdf_expand :: "crypto \<Rightarrow> bytes \<Rightarrow> bytes \<Rightarrow> u8 \<Rightarrow> bytes list option" where
  "hkdf_expand cr prk info n =
     (if n > 0 then Some (expand_from cr prk info [] 1 (unat n)) else None)"

definition hkdf2 :: "crypto \<Rightarrow> bytes \<Rightarrow> bytes \<Rightarrow> bytes \<times> bytes" where
  "hkdf2 cr chaining_key input_key_material =
     (let prk = hkdf_extract cr chaining_key input_key_material;
          outputs = the (hkdf_expand cr prk [] 2)
      in (outputs ! 0, outputs ! 1))"

section \<open>Diffie-Hellman\<close>

record dh_key_pair =
  dh_secret :: bytes
  dh_public :: bytes

definition from_private_key :: "crypto \<Rightarrow> bytes \<Rightarrow> dh_key_pair" where
  "from_private_key cr private_key =
     \<lparr>dh_secret = private_key, dh_public = x25519_public cr private_key\<rparr>"

definition diffie_hellman :: "crypto \<Rightarrow> dh_key_pair \<Rightarrow> bytes \<Rightarrow> hs_error + bytes" where
  "diffie_hellman cr pair peer_public =
     (if peer_public = replicate 32 0
      then Inl (Failed (Crypto ''invalid input: peer public key is all zeros''))
      else Inr (x25519 cr (dh_secret pair) peer_public))"

section \<open>The Noise symmetric state\<close>

definition CONSTRUCTION :: bytes where
  "CONSTRUCTION = bytes_of_string ''Noise_IKpsk2_25519_ChaChaPoly_BLAKE2s''"

definition IDENTIFIER :: bytes where
  "IDENTIFIER = bytes_of_string ''WireGuard v1 zx2c4 Jason@zx2c4.com''"

record symmetric_state =
  ss_ck :: bytes
  ss_h :: bytes
  ss_temp_k :: bytes

definition symmetric_new :: "crypto \<Rightarrow> symmetric_state" where
  "symmetric_new cr =
     (let ck = blake2s cr CONSTRUCTION
      in \<lparr>ss_ck = ck, ss_h = hash2 cr ck IDENTIFIER, ss_temp_k = replicate 32 0\<rparr>)"

definition mix_hash :: "crypto \<Rightarrow> symmetric_state \<Rightarrow> bytes \<Rightarrow> symmetric_state" where
  "mix_hash cr s data = s\<lparr>ss_h := hash2 cr (ss_h s) data\<rparr>"

definition mix_key :: "crypto \<Rightarrow> symmetric_state \<Rightarrow> bytes \<Rightarrow> symmetric_state" where
  "mix_key cr s dh_output =
     (let (new_ck, new_temp_k) = hkdf2 cr (ss_ck s) dh_output
      in s\<lparr>ss_ck := new_ck, ss_temp_k := new_temp_k\<rparr>)"

definition mix_psk :: "crypto \<Rightarrow> symmetric_state \<Rightarrow> bytes \<Rightarrow> symmetric_state" where
  "mix_psk cr s psk =
     (let (new_ck, new_temp_k) = hkdf2 cr (ss_ck s) psk
      in s\<lparr>ss_ck := new_ck, ss_temp_k := new_temp_k\<rparr>)"

definition encrypt_and_hash ::
  "crypto \<Rightarrow> symmetric_state \<Rightarrow> bytes \<Rightarrow> hs_error + (bytes \<times> symmetric_state)" where
  "encrypt_and_hash cr s plaintext =
     (case aead_seal cr (ss_temp_k s) ZERO_NONCE (ss_h s) plaintext of
        Inl _ \<Rightarrow> Inl Panic
      | Inr ciphertext \<Rightarrow> Inr (ciphertext, mix_hash cr s ciphertext))"

definition decrypt_and_hash ::
  "crypto \<Rightarrow> symmetric_state \<Rightarrow> bytes \<Rightarrow> string + (bytes \<times> symmetric_state)" where
  "decrypt_and_hash cr s ciphertext =
     (case aead_unseal cr (ss_temp_k s) ZERO_NONCE (ss_h s) ciphertext of
        Inl e \<Rightarrow>
          Inl (''Noise AEAD decrypt failed: cipher error: AEAD decrypt failed: '' @ e)
      | Inr plaintext \<Rightarrow> Inr (plaintext, mix_hash cr s ciphertext))"

definition derive_transport_keys :: "crypto \<Rightarrow> symmetric_state \<Rightarrow> bytes \<times> bytes" where
  "derive_transport_keys cr s = hkdf2 cr (ss_ck s) []"

definition mix_responder_static :: "crypto \<Rightarrow> symmetric_state \<Rightarrow> bytes \<Rightarrow> symmetric_state" where
  "mix_responder_static cr s responder_pub = mix_hash cr s responder_pub"

section \<open>What the primitives promise\<close>

text \<open>
  The documented behaviour the handshake relies on: hashes have 32 bytes, Diffie-Hellman is
  commutative, keys have 32 bytes, and what was sealed opens to the plaintext and is 16 bytes
  longer.
\<close>

definition crypto_ok :: "crypto \<Rightarrow> bool" where
  "crypto_ok cr \<longleftrightarrow>
     (\<forall>x. length (blake2s cr x) = 32)
     \<and> (\<forall>a b. x25519 cr a (x25519_public cr b) = x25519 cr b (x25519_public cr a))
     \<and> (\<forall>a. length a = 32 \<longrightarrow> length (x25519_public cr a) = 32)
     \<and> (\<forall>k n ad m. \<exists>c. aead_seal cr k n ad m = Inr c \<and> length c = length m + 16
          \<and> aead_unseal cr k n ad c = Inr m)"

definition key_pair_ok :: "crypto \<Rightarrow> dh_key_pair \<Rightarrow> bool" where
  "key_pair_ok cr pair \<longleftrightarrow>
     dh_public pair = x25519_public cr (dh_secret pair) \<and> length (dh_secret pair) = 32
     \<and> dh_public pair \<noteq> replicate 32 0"

lemma dh_agree:
  assumes "crypto_ok cr" and "key_pair_ok cr a" and "key_pair_ok cr b"
  shows "diffie_hellman cr a (dh_public b) = Inr (x25519 cr (dh_secret a) (dh_public b))"
    and "diffie_hellman cr b (dh_public a) = Inr (x25519 cr (dh_secret a) (dh_public b))"
  using assms by (auto simp: crypto_ok_def key_pair_ok_def diffie_hellman_def)

lemma public_length: "crypto_ok cr \<Longrightarrow> key_pair_ok cr a \<Longrightarrow> length (dh_public a) = 32"
  by (auto simp: crypto_ok_def key_pair_ok_def)

lemma length_hmac: "crypto_ok cr \<Longrightarrow> length (hmac cr k m) = 32"
  by (simp add: crypto_ok_def hmac_def Let_def)

text \<open>
  Both ends of a sealed field go through the same state: sealing and then opening from the same
  symmetric state gives the plaintext back and the same next state.
\<close>

lemma seal_then_open:
  assumes "crypto_ok cr"
  obtains c s' where "encrypt_and_hash cr s m = Inr (c, s')" and "length c = length m + 16"
    and "decrypt_and_hash cr s c = Inr (m, s')"
proof -
  obtain c where "aead_seal cr (ss_temp_k s) ZERO_NONCE (ss_h s) m = Inr c"
      "length c = length m + 16" "aead_unseal cr (ss_temp_k s) ZERO_NONCE (ss_h s) c = Inr m"
    using assms unfolding crypto_ok_def by blast
  then show ?thesis
    by (intro that) (auto simp: encrypt_and_hash_def decrypt_and_hash_def)
qed

end
