(* ===== verification/Wg_Handshake.thy ===== *)
theory Wg_Handshake
  imports Wg_Noise
begin

text \<open>
  The Noise IK handshake of \<open>client/wireguard/src/handshake.rs\<close>. Randomness and the clock are
  arguments: the secret of a fresh ephemeral key, the random session index, and the Unix time as
  seconds and nanoseconds. \<open>?\<close> is \<^const>\<open>bind_res\<close>.
\<close>

section \<open>MAC1, indices and timestamps\<close>

definition compute_mac1 :: "crypto \<Rightarrow> bytes \<Rightarrow> bytes \<Rightarrow> bytes" where
  "compute_mac1 cr responder_public msg_for_mac1 =
     (let mac_key = hash2 cr (bytes_of_string ''mac1----'') responder_public;
          mac = keyed_hash cr mac_key msg_for_mac1
      in take MAC_SIZE mac)"

definition mac1_matches :: "crypto \<Rightarrow> bytes \<Rightarrow> bytes \<Rightarrow> bytes \<Rightarrow> bool" where
  "mac1_matches cr recipient_public msg_for_mac1 received \<longleftrightarrow>
     compute_mac1 cr recipient_public msg_for_mac1 = received"

text \<open>\<open>random_index\<close>: four random bytes with the lowest bit set.\<close>

definition random_index :: "bytes \<Rightarrow> u32" where
  "random_index buf = from_le buf OR 1"

definition TAI64N_BASE :: u64 where "TAI64N_BASE = 0x400000000000000a"

definition build_timestamp :: "u64 \<Rightarrow> u32 \<Rightarrow> bytes" where
  "build_timestamp secs nanos = to_be 8 (sat_add TAI64N_BASE secs) @ to_be 4 nanos"

definition normalize_timestamp :: "bytes \<Rightarrow> wg_error + bytes" where
  "normalize_timestamp timestamp =
     (if length timestamp \<noteq> TIMESTAMP_SIZE
      then Inl (HandshakeFailed ''invalid timestamp length'')
      else if timestamp ! 0 = 0x40
      then
        let seconds = from_be (chunk 0 8 timestamp) :: u64;
            nanos = from_be (chunk 8 4 timestamp) :: u32
        in if seconds < TAI64N_BASE \<or> nanos \<ge> 1000000000
           then Inl (HandshakeFailed ''invalid TAI64N timestamp'')
           else Inr timestamp
      else
        let legacy_seconds = ucast (from_be (chunk 0 4 timestamp) :: u32) :: u64;
            legacy_nanos = from_be (chunk 4 8 timestamp) :: u64
        in if legacy_seconds < 10 \<or> legacy_nanos \<ge> 1000000000
           then Inl (HandshakeFailed ''invalid legacy handshake timestamp'')
           else Inr (to_be 8 (sat_add TAI64N_BASE (legacy_seconds - 10))
                     @ to_be 4 (ucast legacy_nanos :: u32)))"

text \<open>The order of byte arrays: lexicographic.\<close>

fun bytes_le :: "bytes \<Rightarrow> bytes \<Rightarrow> bool" where
  "bytes_le [] ys = True"
| "bytes_le (x # xs) [] = False"
| "bytes_le (x # xs) (y # ys) = (x < y \<or> x = y \<and> bytes_le xs ys)"

text \<open>\<open>copy_from_slice\<close> into an array of \<open>n\<close> bytes.\<close>

definition copy_exact :: "nat \<Rightarrow> bytes \<Rightarrow> hs_error + bytes" where
  "copy_exact n bs = (if length bs = n then Inr bs else Inl Panic)"

definition handshake_failed :: "string \<Rightarrow> string + 'a \<Rightarrow> hs_error + 'a" where
  "handshake_failed prefix r =
     (case r of Inl e \<Rightarrow> Inl (Failed (HandshakeFailed (prefix @ e))) | Inr v \<Rightarrow> Inr v)"

section \<open>The initiator\<close>

record handshake_initiator =
  hi_identity :: dh_key_pair
  hi_responder_public :: bytes
  hi_preshared_key :: "bytes option"
  hi_ephemeral :: "dh_key_pair option"
  hi_noise :: symmetric_state
  hi_sender_index :: u32

definition initiator_new ::
  "crypto \<Rightarrow> dh_key_pair \<Rightarrow> bytes \<Rightarrow> bytes option \<Rightarrow> bytes \<Rightarrow> handshake_initiator" where
  "initiator_new cr identity responder_public preshared_key index_bytes =
     \<lparr>hi_identity = identity, hi_responder_public = responder_public,
      hi_preshared_key = preshared_key, hi_ephemeral = None,
      hi_noise = mix_responder_static cr (symmetric_new cr) responder_public,
      hi_sender_index = random_index index_bytes\<rparr>"

definition create_initiation ::
  "crypto \<Rightarrow> handshake_initiator \<Rightarrow> bytes \<Rightarrow> u64 \<Rightarrow> u32
   \<Rightarrow> hs_error + (message_initiation \<times> handshake_initiator)" where
  "create_initiation cr i secret secs nanos =
     (if hi_ephemeral i \<noteq> None
      then Inl (Failed (HandshakeFailed ''handshake initiation already created''))
      else
        let ephemeral = from_private_key cr secret;
            e_pub = dh_public ephemeral
        in bind_res (diffie_hellman cr ephemeral (hi_responder_public i)) (\<lambda>dh1.
           bind_res (diffie_hellman cr (hi_identity i) (hi_responder_public i)) (\<lambda>dh2.
           let n1 = mix_key cr (mix_hash cr (hi_noise i) e_pub) dh1
           in bind_res (encrypt_and_hash cr n1 (dh_public (hi_identity i))) (\<lambda>(enc_static, n2).
              let n3 = mix_key cr n2 dh2
              in bind_res (encrypt_and_hash cr n3 (build_timestamp secs nanos))
                   (\<lambda>(enc_timestamp, n4).
                 bind_res (copy_exact 48 enc_static) (\<lambda>es.
                 bind_res (copy_exact 28 enc_timestamp) (\<lambda>et.
                 let msg = \<lparr>mi_sender_index = hi_sender_index i, mi_ephemeral = e_pub,
                            mi_encrypted_static = es, mi_encrypted_timestamp = et,
                            mi_mac1 = replicate MAC_SIZE 0, mi_mac2 = replicate MAC_SIZE 0\<rparr>;
                     mac1 = compute_mac1 cr (hi_responder_public i)
                              (initiation_bytes_for_mac1 msg)
                 in Inr (msg\<lparr>mi_mac1 := mac1\<rparr>,
                         i\<lparr>hi_ephemeral := Some ephemeral, hi_noise := n4\<rparr>))))))))"

definition consume_response_inner ::
  "crypto \<Rightarrow> handshake_initiator \<Rightarrow> message_response
   \<Rightarrow> hs_error + (transport_key_pair \<times> handshake_initiator)" where
  "consume_response_inner cr i msg =
     bind_res (ok_or (hi_ephemeral i) (Failed (HandshakeFailed
         ''cannot consume a response before creating an initiation''))) (\<lambda>ephemeral.
     if mr_sender_index msg = 0
     then Inl (Failed (HandshakeFailed ''response sender_index must not be zero''))
     else if mr_mac2 msg \<noteq> replicate MAC_SIZE 0
     then Inl (Failed (InvalidMac ''unsupported non-zero response MAC2''))
     else if \<not> mac1_matches cr (dh_public (hi_identity i)) (response_bytes_for_mac1 msg)
                  (mr_mac1 msg)
          \<and> \<not> mac1_matches cr (hi_responder_public i) (response_bytes_for_mac1 msg)
                  (mr_mac1 msg)
     then Inl (Failed (InvalidMac ''response MAC1 verification failed''))
     else if mr_receiver_index msg \<noteq> hi_sender_index i
     then Inl (Failed (HandshakeFailed ''receiver_index mismatch''))
     else
       let n1 = mix_hash cr (hi_noise i) (mr_ephemeral msg)
       in bind_res (diffie_hellman cr ephemeral (mr_ephemeral msg)) (\<lambda>dh3.
          let n2 = mix_key cr n1 dh3
          in bind_res (diffie_hellman cr (hi_identity i) (mr_ephemeral msg)) (\<lambda>dh4.
             let n3 = mix_key cr n2 dh4;
                 psk = (case hi_preshared_key i of None \<Rightarrow> replicate 32 0 | Some k \<Rightarrow> k);
                 n4 = mix_psk cr n3 psk
             in bind_res (handshake_failed ''decrypt empty failed: ''
                     (decrypt_and_hash cr n4 (mr_encrypted_empty msg))) (\<lambda>(_, n5).
                let (k1, k2) = derive_transport_keys cr n5
                in Inr (\<lparr>tk_send_key = k1, tk_recv_key = k2, tk_our_index = hi_sender_index i,
                         tk_peer_index = mr_sender_index msg\<rparr>,
                        i\<lparr>hi_noise := n5\<rparr>)))))"

text \<open>The staged call: the initiator changes only when the response is accepted.\<close>

definition consume_response ::
  "crypto \<Rightarrow> handshake_initiator \<Rightarrow> message_response
   \<Rightarrow> (hs_error + transport_key_pair) \<times> handshake_initiator" where
  "consume_response cr i msg =
     (case consume_response_inner cr i msg of
        Inl e \<Rightarrow> (Inl e, i)
      | Inr (keys, staged) \<Rightarrow> (Inr keys, staged))"

section \<open>The responder\<close>

record handshake_responder =
  hr_identity :: dh_key_pair
  hr_preshared_key :: "bytes option"
  hr_ephemeral :: "dh_key_pair option"
  hr_initiator_public :: "bytes option"
  hr_initiator_ephemeral :: "bytes option"
  hr_noise :: symmetric_state
  hr_sender_index :: u32
  hr_initiator_index :: u32
  hr_latest_timestamp :: "bytes option"

definition responder_new_with_timestamp_floor ::
  "crypto \<Rightarrow> dh_key_pair \<Rightarrow> bytes option \<Rightarrow> bytes option \<Rightarrow> bytes \<Rightarrow> handshake_responder" where
  "responder_new_with_timestamp_floor cr identity preshared_key timestamp_floor index_bytes =
     \<lparr>hr_identity = identity, hr_preshared_key = preshared_key, hr_ephemeral = None,
      hr_initiator_public = None, hr_initiator_ephemeral = None,
      hr_noise = mix_responder_static cr (symmetric_new cr) (dh_public identity),
      hr_sender_index = random_index index_bytes, hr_initiator_index = 0,
      hr_latest_timestamp = timestamp_floor\<rparr>"

definition responder_new ::
  "crypto \<Rightarrow> dh_key_pair \<Rightarrow> bytes option \<Rightarrow> bytes \<Rightarrow> handshake_responder" where
  "responder_new cr identity preshared_key index_bytes =
     responder_new_with_timestamp_floor cr identity preshared_key None index_bytes"

definition timestamp_replayed :: "bytes option \<Rightarrow> bytes \<Rightarrow> bool" where
  "timestamp_replayed latest timestamp =
     (case latest of None \<Rightarrow> False | Some l \<Rightarrow> bytes_le timestamp l)"

text \<open>
  The two halves of \<open>consume_initiation_and_respond_inner\<close>: the authentication of message 1 up to
  the timestamp floor, and the response.
\<close>

definition authenticate_initiation ::
  "crypto \<Rightarrow> handshake_responder \<Rightarrow> message_initiation
   \<Rightarrow> hs_error + (bytes \<times> handshake_responder)" where
  "authenticate_initiation cr r msg =
     (if mi_sender_index msg = 0
      then Inl (Failed (HandshakeFailed ''initiation sender_index must not be zero''))
      else if mi_mac2 msg \<noteq> replicate MAC_SIZE 0
      then Inl (Failed (InvalidMac ''unsupported non-zero initiation MAC2''))
      else if \<not> mac1_matches cr (dh_public (hr_identity r)) (initiation_bytes_for_mac1 msg)
                   (mi_mac1 msg)
      then Inl (Failed (InvalidMac ''initiation MAC1 verification failed''))
      else
        let n1 = mix_hash cr (hr_noise r) (mi_ephemeral msg)
        in bind_res (diffie_hellman cr (hr_identity r) (mi_ephemeral msg)) (\<lambda>dh1.
           bind_res (handshake_failed ''decrypt static failed: ''
               (decrypt_and_hash cr (mix_key cr n1 dh1) (mi_encrypted_static msg)))
             (\<lambda>(initiator_static, n2).
           bind_res (copy_exact 32 initiator_static) (\<lambda>init_pub.
           bind_res (diffie_hellman cr (hr_identity r) init_pub) (\<lambda>dh2.
           bind_res (handshake_failed ''decrypt timestamp failed: ''
               (decrypt_and_hash cr (mix_key cr n2 dh2) (mi_encrypted_timestamp msg)))
             (\<lambda>(raw_timestamp, n3).
           case normalize_timestamp raw_timestamp of
             Inl e \<Rightarrow> Inl (Failed e)
           | Inr timestamp \<Rightarrow>
               if timestamp_replayed (hr_latest_timestamp r) timestamp
               then Inl (Failed (HandshakeFailed
                           ''replayed or out-of-order initiation timestamp''))
               else Inr (init_pub,
                         r\<lparr>hr_initiator_public := Some init_pub,
                           hr_initiator_ephemeral := Some (mi_ephemeral msg),
                           hr_noise := n3, hr_initiator_index := mi_sender_index msg,
                           hr_latest_timestamp := Some timestamp\<rparr>)))))))"

definition create_response ::
  "crypto \<Rightarrow> handshake_responder \<Rightarrow> bytes \<Rightarrow> bytes \<Rightarrow> bytes
   \<Rightarrow> hs_error + ((message_response \<times> transport_key_pair) \<times> handshake_responder)" where
  "create_response cr r initiator_ephemeral init_pub secret =
     (let ephemeral = from_private_key cr secret;
          e_pub = dh_public ephemeral;
          n1 = mix_hash cr (hr_noise r) e_pub
      in bind_res (diffie_hellman cr ephemeral initiator_ephemeral) (\<lambda>dh3.
         bind_res (diffie_hellman cr ephemeral init_pub) (\<lambda>dh4.
         let n2 = mix_key cr (mix_key cr n1 dh3) dh4;
             psk = (case hr_preshared_key r of None \<Rightarrow> replicate 32 0 | Some k \<Rightarrow> k);
             n3 = mix_psk cr n2 psk
         in bind_res (encrypt_and_hash cr n3 []) (\<lambda>(enc_empty, n4).
            bind_res (copy_exact 16 enc_empty) (\<lambda>ee.
            let response = \<lparr>mr_sender_index = hr_sender_index r,
                   mr_receiver_index = hr_initiator_index r, mr_ephemeral = e_pub,
                   mr_encrypted_empty = ee, mr_mac1 = replicate MAC_SIZE 0,
                   mr_mac2 = replicate MAC_SIZE 0\<rparr>;
                mac1 = compute_mac1 cr init_pub (response_bytes_for_mac1 response);
                (k1, k2) = derive_transport_keys cr n4
            in Inr ((response\<lparr>mr_mac1 := mac1\<rparr>,
                     \<lparr>tk_send_key = k2, tk_recv_key = k1, tk_our_index = hr_sender_index r,
                      tk_peer_index = hr_initiator_index r\<rparr>),
                    r\<lparr>hr_ephemeral := Some ephemeral, hr_noise := n4\<rparr>))))))"

definition consume_initiation_and_respond ::
  "crypto \<Rightarrow> handshake_responder \<Rightarrow> message_initiation \<Rightarrow> bytes
   \<Rightarrow> (hs_error + (message_response \<times> transport_key_pair)) \<times> handshake_responder" where
  "consume_initiation_and_respond cr r msg secret =
     (case bind_res (authenticate_initiation cr r msg)
             (\<lambda>(init_pub, r1). create_response cr r1 (mi_ephemeral msg) init_pub secret) of
        Inl e \<Rightarrow> (Inl e, r)
      | Inr (result, staged) \<Rightarrow> (Inr result, staged))"

definition keys_match :: "transport_key_pair \<Rightarrow> transport_key_pair \<Rightarrow> bool" where
  "keys_match a b \<longleftrightarrow> tk_send_key a = tk_recv_key b \<and> tk_recv_key a = tk_send_key b"

end
