(* ===== verification/Wg_Clock.thy ===== *)
theory Wg_Clock
  imports Wg_Handshake
begin

text \<open>
  The timestamps of \<open>client/wireguard/src/handshake.rs\<close>: the byte order the replay check
  compares with is the order of the numbers the bytes denote, canonical timestamps compare as
  the clock does, and the legacy layout is normalised to the canonical one.
\<close>

section \<open>The byte order\<close>

lemma nat_of_be_append: "nat_of_be (xs @ ys) = nat_of_be xs * 256 ^ length ys + nat_of_be ys"
proof (induction ys rule: rev_induct)
  case (snoc y ys)
  then show ?case
    using nat_of_be_snoc [of "xs @ ys" y] by (simp add: algebra_simps)
qed simp

lemma nat_of_be_Cons: "nat_of_be (y # ys) = unat y * 256 ^ length ys + nat_of_be ys"
  using nat_of_be_append [of "[y]" ys] nat_of_be_snoc [of "[]" y] by simp

lemma digit_order:
  assumes "x < P" and "y < (P :: nat)"
  shows "a * P + x \<le> b * P + y \<longleftrightarrow> a < b \<or> a = b \<and> x \<le> y"
proof -
  consider "a < b" | "a = b" | "b < a" by linarith
  then show ?thesis
  proof cases
    case 1
    then have "(a + 1) * P \<le> b * P" by (intro mult_le_mono1) simp
    with assms 1 show ?thesis by simp
  next
    case 2
    then show ?thesis by simp
  next
    case 3
    then have "(b + 1) * P \<le> a * P" by (intro mult_le_mono1) simp
    with assms 3 show ?thesis by simp
  qed
qed

lemma bytes_le_nat: "length xs = length ys \<Longrightarrow> bytes_le xs ys \<longleftrightarrow> nat_of_be xs \<le> nat_of_be ys"
proof (induction xs ys rule: bytes_le.induct)
  case (3 x xs y ys)
  then have "nat_of_be xs < 256 ^ length ys" "nat_of_be ys < 256 ^ length ys"
    using nat_of_be_less [of xs] nat_of_be_less [of ys] by simp_all
  from digit_order [OF this] 3 show ?case
    by (auto simp: nat_of_be_Cons word_less_nat_alt word_unat_eq_iff)
qed auto

lemma bytes_le_refl [simp]: "bytes_le xs xs"
  by (induction xs) simp_all

lemma bytes_le_trans: "bytes_le xs ys \<Longrightarrow> bytes_le ys zs \<Longrightarrow> bytes_le xs zs"
proof (induction xs ys arbitrary: zs rule: bytes_le.induct)
  case (3 x xs y ys)
  then show ?case by (cases zs) auto
qed auto

lemma bytes_le_total: "bytes_le xs ys \<or> bytes_le ys xs"
  by (induction xs ys rule: bytes_le.induct) auto

section \<open>Canonical timestamps\<close>

text \<open>A Unix time whose TAI seconds stay in the \<open>0x40\<close> block of the encoding.\<close>

definition clock_in_range :: "u64 \<Rightarrow> u32 \<Rightarrow> bool" where
  "clock_in_range secs nanos \<longleftrightarrow> unat secs < 2 ^ 56 - 10 \<and> nanos < 1000000000"

lemma TAI64N_nat: "unat TAI64N_BASE = 2 ^ 62 + 10"
  by (simp add: TAI64N_BASE_def)

lemma tai_seconds: "clock_in_range secs nanos \<Longrightarrow> unat (sat_add TAI64N_BASE secs) = 2 ^ 62 + 10 + unat secs"
  by (simp add: unat_sat_add TAI64N_nat clock_in_range_def)

lemma length_timestamp [simp]: "length (build_timestamp secs nanos) = 12"
  by (simp add: build_timestamp_def)

lemma nat_of_be_to_be: "LENGTH('a) = 8 * n \<Longrightarrow> nat_of_be (to_be n (w :: 'a::len word)) = unat w"
proof -
  assume n: "LENGTH('a) = 8 * n"
  have "unat w < 2 ^ LENGTH('a)" by simp
  then have "unat w < 256 ^ n" by (simp add: n power_mult)
  then show ?thesis by (simp add: to_be_def nat_of_be_of_nat)
qed

lemma timestamp_nat:
  "nat_of_be (build_timestamp secs nanos) = unat (sat_add TAI64N_BASE secs) * 2 ^ 32 + unat nanos"
  by (simp add: build_timestamp_def nat_of_be_append nat_of_be_to_be)

lemma timestamp_order:
  assumes "clock_in_range s n" and "clock_in_range s' n'"
  shows "bytes_le (build_timestamp s n) (build_timestamp s' n') \<longleftrightarrow> s < s' \<or> s = s' \<and> n \<le> n'"
proof -
  have "unat n < 2 ^ 32" "unat n' < 2 ^ 32"
    using unsigned_less [of n, where ?'a = nat] unsigned_less [of n', where ?'a = nat] by simp_all
  from digit_order [OF this] tai_seconds [OF assms(1)] tai_seconds [OF assms(2)] show ?thesis
    by (simp add: bytes_le_nat timestamp_nat word_less_nat_alt word_le_nat_alt word_unat_eq_iff)
qed

lemma first_byte:
  assumes "length bs = Suc n"
  shows "unat (bs ! 0) = nat_of_be bs div 256 ^ n"
proof -
  obtain b cs where bs: "bs = b # cs" "length cs = n" using assms by (cases bs) auto
  then show ?thesis using nat_of_be_less [of cs] by (simp add: nat_of_be_Cons)
qed

lemma timestamp_first:
  assumes "clock_in_range secs nanos"
  shows "build_timestamp secs nanos ! 0 = 0x40"
proof -
  let ?bs = "to_be 8 (sat_add TAI64N_BASE secs)"
  have "unat (?bs ! 0) = unat (sat_add TAI64N_BASE secs) div 256 ^ 7"
    using first_byte [of ?bs 7] by (simp add: nat_of_be_to_be)
  also have "\<dots> = 64"
    using assms tai_seconds [OF assms] by (auto simp: clock_in_range_def)
  finally have "?bs ! 0 = 0x40" by (simp add: word_unat_eq_iff)
  then show ?thesis by (simp add: build_timestamp_def nth_append)
qed

lemma normalize_canonical:
  assumes "clock_in_range secs nanos"
  shows "normalize_timestamp (build_timestamp secs nanos) = Inr (build_timestamp secs nanos)"
proof -
  let ?ts = "build_timestamp secs nanos"
  have "chunk 0 8 ?ts = to_be 8 (sat_add TAI64N_BASE secs)" "chunk 8 4 ?ts = to_be 4 nanos"
    by (simp_all add: build_timestamp_def chunk_def)
  moreover have "\<not> sat_add TAI64N_BASE secs < TAI64N_BASE"
    using sat_add_mono [of TAI64N_BASE secs] by simp
  ultimately show ?thesis
    using assms timestamp_first [OF assms]
    by (simp add: normalize_timestamp_def TIMESTAMP_SIZE_def be64.dec_enc be32.dec_enc
        clock_in_range_def not_le)
qed

section \<open>The legacy layout\<close>

lemma unat_up [simp]: "unat (ucast (x :: u32) :: u64) = unat x"
  using unsigned_less [of x, where ?'a = nat]
  by (simp add: unsigned_ucast_eq take_bit_nat_eq_self)

lemma unat_down [simp]: "unat (ucast (x :: u64) :: u32) = unat x mod 2 ^ 32"
  by (simp add: unsigned_ucast_eq take_bit_eq_mod)

text \<open>What a sender of the previous release wrote: 4-byte seconds and 8-byte nanoseconds.\<close>

definition legacy_timestamp :: "u32 \<Rightarrow> u64 \<Rightarrow> bytes" where
  "legacy_timestamp tai_secs nanos = to_be 4 tai_secs @ to_be 8 nanos"

lemma legacy_normalizes:
  assumes "legacy_timestamp tai_secs nanos ! 0 \<noteq> 0x40" and "10 \<le> tai_secs"
    and "nanos < 1000000000"
  shows "normalize_timestamp (legacy_timestamp tai_secs nanos)
    = Inr (build_timestamp (ucast tai_secs - 10) (ucast nanos))"
proof -
  have "chunk 0 4 (legacy_timestamp tai_secs nanos) = to_be 4 tai_secs"
    "chunk 4 8 (legacy_timestamp tai_secs nanos) = to_be 8 nanos"
    by (simp_all add: legacy_timestamp_def chunk_def)
  moreover have "\<not> (ucast tai_secs :: u64) < 10"
    using assms(2) by (simp add: word_less_nat_alt word_le_nat_alt)
  ultimately show ?thesis
    using assms by (simp add: normalize_timestamp_def TIMESTAMP_SIZE_def be64.dec_enc be32.dec_enc
        legacy_timestamp_def build_timestamp_def not_le)
qed

text \<open>
  A canonical timestamp passes normalisation unchanged, and the replay check rejects a timestamp
  exactly when the clock it was taken from is not later.
\<close>
theorem wg_timestamps_chronological:
  assumes "clock_in_range s n" and "clock_in_range s' n'"
  shows "normalize_timestamp (build_timestamp s n) = Inr (build_timestamp s n)
    \<and> (timestamp_replayed (Some (build_timestamp s n)) (build_timestamp s' n')
         \<longleftrightarrow> s' < s \<or> s' = s \<and> n' \<le> n)"
  using normalize_canonical [OF assms(1)] timestamp_order [OF assms(2,1)]
  by (simp add: timestamp_replayed_def)

text \<open>
  A timestamp in the layout of the previous release is normalised to the canonical timestamp of
  the same time.
\<close>
theorem wg_legacy_timestamp_interoperates:
  assumes "legacy_timestamp (ucast secs + 10) (ucast nanos) ! 0 \<noteq> 0x40"
    and "unat secs + 10 < 2 ^ 32" and "nanos < 1000000000"
  shows "normalize_timestamp (legacy_timestamp (ucast secs + 10) (ucast nanos))
    = Inr (build_timestamp secs nanos)"
proof -
  let ?t = "ucast (secs :: u64) + 10 :: u32"
  have t: "unat ?t = unat secs + 10"
    using assms(2) by (simp add: unat_word_ariths mod_simps)
  then have "10 \<le> ?t" by (simp add: word_le_nat_alt)
  moreover have "(ucast nanos :: u64) < 1000000000"
    using assms(3) by (simp add: word_less_nat_alt)
  moreover have "(ucast ?t :: u64) - 10 = secs"
    using t by (simp add: word_unat_eq_iff unat_sub_if')
  moreover have "(ucast (ucast nanos :: u64) :: u32) = nanos"
    using unsigned_less [of nanos, where ?'a = nat] by (simp add: word_unat_eq_iff)
  ultimately show ?thesis using legacy_normalizes [OF assms(1)] by simp
qed

end
