(* ===== verification/Wg_Floor.thy ===== *)
theory Wg_Floor
  imports Wg_Clock
begin

text \<open>
  The replay floors the daemon keeps per peer, \<open>client/daemon/src/lib/pending_handshake.rs\<close>, and
  the part of \<open>client/daemon/src/lib/daemon/handshake/offer.rs\<close> that answers an initiation under
  them. The floor is read before the cryptography runs and committed afterwards, and other
  offers may commit in between: \<open>accept_offer\<close> takes the floor that was read as an argument.
\<close>

type_synonym floors = "string \<rightharpoonup> (bytes \<times> bytes)"

definition responder_timestamp_floor :: "floors \<Rightarrow> string \<Rightarrow> bytes \<Rightarrow> bytes option" where
  "responder_timestamp_floor floors peer_id key =
     (case floors peer_id of
        None \<Rightarrow> None
      | Some (public_key, timestamp) \<Rightarrow> if public_key = key then Some timestamp else None)"

definition commit_responder_timestamp ::
  "floors \<Rightarrow> string \<Rightarrow> bytes \<Rightarrow> bytes \<Rightarrow> bool \<times> floors" where
  "commit_responder_timestamp floors peer_id key timestamp =
     (case responder_timestamp_floor floors peer_id key of
        Some floor \<Rightarrow>
          if bytes_le timestamp floor then (False, floors)
          else (True, floors(peer_id \<mapsto> (key, timestamp)))
      | None \<Rightarrow> (True, floors(peer_id \<mapsto> (key, timestamp))))"

datatype offer_error = ResponderPanic | Refused string

definition accept_offer ::
  "crypto \<Rightarrow> dh_key_pair \<Rightarrow> floors \<Rightarrow> string \<Rightarrow> bytes \<Rightarrow> bytes option \<Rightarrow> message_initiation
   \<Rightarrow> bytes \<Rightarrow> bytes \<Rightarrow> offer_error + ((message_response \<times> transport_key_pair) \<times> floors)" where
  "accept_offer cr identity floors peer_id expected_public floor msg index_bytes secret =
     (case consume_initiation_and_respond cr
             (responder_new_with_timestamp_floor cr identity None floor index_bytes) msg secret of
        (Inl Panic, _) \<Rightarrow> Inl ResponderPanic
      | (Inl (Failed _), _) \<Rightarrow> Inl (Refused ''WireGuard response failed'')
      | (Inr result, responder) \<Rightarrow>
          if hr_initiator_public responder \<noteq> Some expected_public
          then Inl (Refused ''WireGuard initiation public key mismatch'')
          else
            case hr_latest_timestamp responder of
              None \<Rightarrow> Inl (Refused ''WireGuard initiation did not authenticate a timestamp'')
            | Some timestamp \<Rightarrow>
                (case commit_responder_timestamp floors peer_id expected_public timestamp of
                   (False, _) \<Rightarrow> Inl (Refused ''refusing replayed WireGuard initiation'')
                 | (True, floors') \<Rightarrow> Inr (result, floors')))"

section \<open>What an accepted offer did\<close>

text \<open>The outcome of authenticating message 1 depends on identity and Noise state only.\<close>

lemma case_sum_eq_Inr:
  "(case x of Inl e \<Rightarrow> Inl (f e) | Inr v \<Rightarrow> g v) = Inr y \<longleftrightarrow> (\<exists>v. x = Inr v \<and> g v = Inr y)"
  by (cases x) auto

lemma authenticate_initiation_Inr:
  assumes "authenticate_initiation cr r msg = Inr (pub, r1)"
  shows "\<exists>ts. hr_latest_timestamp r1 = Some ts \<and> hr_initiator_public r1 = Some pub
    \<and> \<not> timestamp_replayed (hr_latest_timestamp r) ts"
  using assms
  by (auto simp: authenticate_initiation_def bind_res_eq_Inr case_sum_eq_Inr Let_def
      split: if_splits)

lemma authenticate_initiation_same:
  assumes "authenticate_initiation cr r msg = Inr (pub, r1)"
    and "authenticate_initiation cr r' msg = Inr (pub', r2)"
    and "hr_identity r' = hr_identity r" and "hr_noise r' = hr_noise r"
  shows "pub' = pub" and "hr_latest_timestamp r2 = hr_latest_timestamp r1"
  using assms
  by (auto simp: authenticate_initiation_def bind_res_eq_Inr case_sum_eq_Inr Let_def
      split: if_splits)

lemma create_response_keeps:
  "create_response cr r eph pub secret = Inr (result, r1) \<Longrightarrow>
     hr_latest_timestamp r1 = hr_latest_timestamp r \<and> hr_initiator_public r1 = hr_initiator_public r"
  by (auto simp: create_response_def bind_res_eq_Inr Let_def case_prod_beta)

lemma respond_Inr:
  "consume_initiation_and_respond cr r msg secret = (Inr result, r2) \<longleftrightarrow>
     (\<exists>pub r1. authenticate_initiation cr r msg = Inr (pub, r1)
        \<and> create_response cr r1 (mi_ephemeral msg) pub secret = Inr (result, r2))"
  by (auto simp: consume_initiation_and_respond_def bind_res_eq_Inr split: sum.splits)

lemma commit_timestamp_True:
  "commit_responder_timestamp floors p k ts = (True, floors') \<Longrightarrow>
     floors' = floors(p \<mapsto> (k, ts)) \<and> \<not> timestamp_replayed (responder_timestamp_floor floors p k) ts"
  by (auto simp: commit_responder_timestamp_def timestamp_replayed_def split: option.splits if_splits)

lemma accept_offer_Inr:
  assumes "accept_offer cr identity floors p k floor msg ib secret = Inr (result, floors')"
  shows "\<exists>r1 ts. authenticate_initiation cr
      (responder_new_with_timestamp_floor cr identity None floor ib) msg = Inr (k, r1)
    \<and> hr_latest_timestamp r1 = Some ts \<and> floors' = floors(p \<mapsto> (k, ts))
    \<and> \<not> timestamp_replayed (responder_timestamp_floor floors p k) ts"
proof -
  let ?r = "responder_new_with_timestamp_floor cr identity None floor ib"
  obtain r2 ts where r: "consume_initiation_and_respond cr ?r msg secret = (Inr result, r2)"
      "hr_initiator_public r2 = Some k" "hr_latest_timestamp r2 = Some ts"
      "commit_responder_timestamp floors p k ts = (True, floors')"
    using assms by (auto simp: accept_offer_def split: prod.splits sum.splits hs_error.splits
        if_splits option.splits bool.splits)
  then obtain pub r1 where a: "authenticate_initiation cr ?r msg = Inr (pub, r1)"
      and c: "create_response cr r1 (mi_ephemeral msg) pub secret = Inr (result, r2)"
    by (auto simp: respond_Inr)
  from create_response_keeps [OF c] authenticate_initiation_Inr [OF a] r(2) have "pub = k" by auto
  moreover have "hr_latest_timestamp r1 = Some ts" using create_response_keeps [OF c] r(3) by simp
  ultimately show ?thesis using a commit_timestamp_True [OF r(4)] by blast
qed

section \<open>No initiation twice under a key\<close>

text \<open>
  Offers arrive in any order, each with the public key its worker expects of the peer and with
  whatever floor that worker had read. An offer here is one that finds no cached response: a
  repeated offer of a session that is still cached is answered from the cache before it gets
  this far. A step that succeeds consumes the initiation of its peer.
\<close>

record offer =
  of_peer :: string
  of_expected_public :: bytes
  of_floor_read :: "bytes option"
  of_initiation :: message_initiation
  of_index_bytes :: bytes
  of_secret :: bytes

type_synonym accepted_offer = "string \<times> bytes \<times> message_initiation"

definition offer_step ::
  "crypto \<Rightarrow> dh_key_pair \<Rightarrow> floors \<Rightarrow> offer \<Rightarrow> (accepted_offer \<times> floors) option" where
  "offer_step cr identity floors e =
     (case accept_offer cr identity floors (of_peer e) (of_expected_public e) (of_floor_read e)
             (of_initiation e) (of_index_bytes e) (of_secret e) of
        Inl _ \<Rightarrow> None
      | Inr (_, floors') \<Rightarrow> Some ((of_peer e, of_expected_public e, of_initiation e), floors'))"

fun same_initiation :: "accepted_offer \<Rightarrow> accepted_offer \<Rightarrow> bool" where
  "same_initiation (p, _, msg) (p', _, msg') \<longleftrightarrow> p = p' \<and> msg = msg'"

text \<open>A peer has one floor: an offer accepted under another key replaces it.\<close>

fun replaces_floor :: "accepted_offer \<Rightarrow> accepted_offer \<Rightarrow> bool" where
  "replaces_floor (p, k, _) (p', k', _) \<longleftrightarrow> p = p' \<and> k \<noteq> k'"

text \<open>The floor of the peer refuses whatever timestamp the initiation may authenticate.\<close>

fun below_floor :: "crypto \<Rightarrow> dh_key_pair \<Rightarrow> floors \<Rightarrow> accepted_offer \<Rightarrow> bool" where
  "below_floor cr identity floors (p, k, msg) \<longleftrightarrow>
     (\<exists>f. floors p = Some (k, f)
        \<and> (\<forall>floor ib pub r1. authenticate_initiation cr
             (responder_new_with_timestamp_floor cr identity None floor ib) msg = Inr (pub, r1) \<longrightarrow>
             pub = k \<and> timestamp_replayed (Some f) (the (hr_latest_timestamp r1))))"

lemma timestamp_replayed_trans:
  "\<not> timestamp_replayed (Some f) ts \<Longrightarrow> timestamp_replayed (Some f) x \<Longrightarrow> timestamp_replayed (Some ts) x"
  using bytes_le_total [of f ts] by (auto simp: timestamp_replayed_def intro: bytes_le_trans)

lemma offer_step_SomeE:
  assumes "offer_step cr identity floors e = Some (c, floors')"
  obtains r1 ts where "c = (of_peer e, of_expected_public e, of_initiation e)"
    and "authenticate_initiation cr (responder_new_with_timestamp_floor cr identity None
           (of_floor_read e) (of_index_bytes e)) (of_initiation e) = Inr (of_expected_public e, r1)"
    and "hr_latest_timestamp r1 = Some ts"
    and "floors' = floors(of_peer e \<mapsto> (of_expected_public e, ts))"
    and "\<not> timestamp_replayed (responder_timestamp_floor floors (of_peer e) (of_expected_public e)) ts"
  using assms by (auto simp: offer_step_def split: sum.splits dest!: accept_offer_Inr)

lemma offer_step_spends:
  assumes "offer_step cr identity floors e = Some (c, floors')"
  shows "below_floor cr identity floors' c"
  using assms
proof (cases rule: offer_step_SomeE)
  case (1 r1 ts)
  have "pub = of_expected_public e \<and> hr_latest_timestamp r2 = Some ts"
    if "authenticate_initiation cr (responder_new_with_timestamp_floor cr identity None floor ib)
      (of_initiation e) = Inr (pub, r2)" for floor ib pub r2
    using authenticate_initiation_same [OF 1(2) that] 1(3)
    by (simp add: responder_new_with_timestamp_floor_def)
  then show ?thesis using 1(1,4) by (fastforce simp: timestamp_replayed_def)
qed

lemma offer_step_refuses:
  assumes "offer_step cr identity floors e = Some (c, floors')" and "below_floor cr identity floors d"
  shows "\<not> same_initiation c d"
  using assms(1)
proof (cases rule: offer_step_SomeE)
  case (1 r1 ts)
  obtain p k msg where d: "d = (p, k, msg)" by (cases d)
  with assms(2) 1 show ?thesis by (fastforce simp: responder_timestamp_floor_def)
qed

lemma offer_step_keeps:
  assumes "offer_step cr identity floors e = Some (c, floors')" and "below_floor cr identity floors d"
    and "\<not> replaces_floor c d"
  shows "below_floor cr identity floors' d"
  using assms(1)
proof (cases rule: offer_step_SomeE)
  case (1 r1 ts)
  obtain p k msg where d: "d = (p, k, msg)" by (cases d)
  show ?thesis
  proof (cases "p = of_peer e")
    case True
    with assms(3) 1(1) d have k: "k = of_expected_public e" by auto
    from assms(2) d obtain f where f: "floors p = Some (k, f)"
      "\<And>floor ib pub r1. authenticate_initiation cr
         (responder_new_with_timestamp_floor cr identity None floor ib) msg = Inr (pub, r1) \<Longrightarrow>
         pub = k \<and> timestamp_replayed (Some f) (the (hr_latest_timestamp r1))" by auto
    from 1(5) f(1) True k have new: "\<not> timestamp_replayed (Some f) ts"
      by (simp add: responder_timestamp_floor_def)
    have "floors' p = Some (k, ts)" using 1(4) True k by simp
    moreover have "pub = k \<and> timestamp_replayed (Some ts) (the (hr_latest_timestamp r1))"
      if "authenticate_initiation cr
        (responder_new_with_timestamp_floor cr identity None floor ib) msg = Inr (pub, r1)" for floor ib pub r1
      using f(2) [OF that] timestamp_replayed_trans [OF new] by blast
    ultimately show ?thesis unfolding d below_floor.simps by blast
  next
    case False
    with assms(2) 1(4) d show ?thesis by auto
  qed
qed

interpretation offers: once_until "offer_step cr identity" same_initiation replaces_floor
  "below_floor cr identity" for cr identity
  by unfold_locales (rule offer_step_spends offer_step_refuses offer_step_keeps; assumption)+

text \<open>
  C16: Among offers that no cached response answers, the same initiation of a peer is accepted
  twice only if an initiation of that peer under another public key was accepted in between (a
  key rotation replaces the floor of the peer), whatever floor each worker had read when it
  started and whatever key it expects.
\<close>
theorem wg_initiation_once:
  assumes "i < j" and "j < length (consumed (offer_step cr identity) floors es)"
    and "consumed (offer_step cr identity) floors es ! i = (p, k, msg)"
    and "consumed (offer_step cr identity) floors es ! j = (p, k', msg)"
  shows "\<exists>l k'' msg'. i < l \<and> l < j
    \<and> consumed (offer_step cr identity) floors es ! l = (p, k'', msg') \<and> k'' \<noteq> k"
proof -
  obtain l where "i < l" "l < j" "replaces_floor (consumed (offer_step cr identity) floors es ! l) (p, k, msg)"
    using offers.reset_between [OF assms(1,2)] assms(3,4) by fastforce
  then show ?thesis by (cases "consumed (offer_step cr identity) floors es ! l") auto
qed

end
