(* ===== verification/Wg_Agree.thy ===== *)
theory Wg_Agree
  imports Wg_Floor
begin

text \<open>
  The Noise IK handshake of \<open>client/wireguard/src/handshake.rs\<close> works: a responder that receives
  the initiator's message authenticates the initiator and answers, the initiator accepts the
  answer, and the two transport sessions carry packets both ways. The primitives are only
  assumed to behave as documented (\<open>crypto_ok\<close>).
\<close>

section \<open>Message 1\<close>

text \<open>
  \<open>initiation_opens\<close>: opening the two sealed fields of the message from Noise state \<open>n0\<close> gives the
  static key and the timestamp, and ends in Noise state \<open>n\<close>.
\<close>

definition initiation_opens ::
  "crypto \<Rightarrow> symmetric_state \<Rightarrow> bytes \<Rightarrow> bytes \<Rightarrow> message_initiation \<Rightarrow> bytes \<Rightarrow> bytes
   \<Rightarrow> symmetric_state \<Rightarrow> bool" where
  "initiation_opens cr n0 dh1 dh2 msg static ts n \<longleftrightarrow>
     (\<exists>n2. decrypt_and_hash cr (mix_key cr (mix_hash cr n0 (mi_ephemeral msg)) dh1)
             (mi_encrypted_static msg) = Inr (static, n2)
        \<and> decrypt_and_hash cr (mix_key cr n2 dh2) (mi_encrypted_timestamp msg) = Inr (ts, n))"

definition addressed_initiation :: "crypto \<Rightarrow> bytes \<Rightarrow> message_initiation \<Rightarrow> bool" where
  "addressed_initiation cr responder_public msg \<longleftrightarrow>
     wf_initiation msg \<and> mi_mac2 msg = replicate MAC_SIZE 0
     \<and> mi_mac1 msg = compute_mac1 cr responder_public (initiation_bytes_for_mac1 msg)"

lemma length_mac1: "crypto_ok cr \<Longrightarrow> length (compute_mac1 cr k m) = 16"
  by (simp add: compute_mac1_def Let_def keyed_hash_def length_hmac MAC_SIZE_def)

lemma random_index_nonzero: "random_index buf \<noteq> 0"
proof
  assume "random_index buf = 0"
  then have "bit (from_le buf OR 1 :: u32) 0 = bit (0 :: u32) 0" by (simp add: random_index_def)
  then show False by (simp add: bit_or_iff)
qed

lemma mac1_bytes_ignore_mac:
  "initiation_bytes_for_mac1 (msg\<lparr>mi_mac1 := x\<rparr>) = initiation_bytes_for_mac1 msg"
  by (simp add: initiation_bytes_for_mac1_def)

lemma create_initiation_ok:
  fixes cr i secret secs nanos
  defines "e \<equiv> from_private_key cr secret"
  assumes ok: "crypto_ok cr" and fresh: "hi_ephemeral i = None" and idx: "hi_sender_index i \<noteq> 0"
    and own: "key_pair_ok cr (hi_identity i)" and eph: "key_pair_ok cr e"
    and peer: "hi_responder_public i \<noteq> replicate 32 0"
  obtains msg n where "create_initiation cr i secret secs nanos
        = Inr (msg, i\<lparr>hi_ephemeral := Some e, hi_noise := n\<rparr>)"
    and "addressed_initiation cr (hi_responder_public i) msg"
    and "mi_sender_index msg = hi_sender_index i" and "mi_ephemeral msg = dh_public e"
    and "initiation_opens cr (hi_noise i) (x25519 cr (dh_secret e) (hi_responder_public i))
      (x25519 cr (dh_secret (hi_identity i)) (hi_responder_public i)) msg
      (dh_public (hi_identity i)) (build_timestamp secs nanos) n"
proof -
  let ?dh1 = "x25519 cr (dh_secret e) (hi_responder_public i)"
  let ?dh2 = "x25519 cr (dh_secret (hi_identity i)) (hi_responder_public i)"
  let ?n1 = "mix_key cr (mix_hash cr (hi_noise i) (dh_public e)) ?dh1"
  obtain es n2 where es: "encrypt_and_hash cr ?n1 (dh_public (hi_identity i)) = Inr (es, n2)"
      "length es = length (dh_public (hi_identity i)) + 16"
      "decrypt_and_hash cr ?n1 es = Inr (dh_public (hi_identity i), n2)"
    using seal_then_open [OF ok] by blast
  obtain et n4 where et: "encrypt_and_hash cr (mix_key cr n2 ?dh2) (build_timestamp secs nanos)
        = Inr (et, n4)" "length et = length (build_timestamp secs nanos) + 16"
      "decrypt_and_hash cr (mix_key cr n2 ?dh2) et = Inr (build_timestamp secs nanos, n4)"
    using seal_then_open [OF ok] by blast
  let ?m0 = "\<lparr>mi_sender_index = hi_sender_index i, mi_ephemeral = dh_public e,
      mi_encrypted_static = es, mi_encrypted_timestamp = et,
      mi_mac1 = replicate MAC_SIZE 0, mi_mac2 = replicate MAC_SIZE 0\<rparr>"
  let ?msg = "?m0\<lparr>mi_mac1 := compute_mac1 cr (hi_responder_public i) (initiation_bytes_for_mac1 ?m0)\<rparr>"
  have len: "length es = 48" "length et = 28" using es(2) et(2) public_length [OF ok own] by simp_all
  have "create_initiation cr i secret secs nanos
      = Inr (?msg, i\<lparr>hi_ephemeral := Some e, hi_noise := n4\<rparr>)"
    using fresh peer es(1) et(1) len
    by (simp add: create_initiation_def diffie_hellman_def copy_exact_def Let_def e_def [symmetric])
  moreover have "addressed_initiation cr (hi_responder_public i) ?msg"
    using idx len length_mac1 [OF ok] public_length [OF ok eph]
    by (simp add: addressed_initiation_def wf_initiation_def initiation_bytes_for_mac1_def MAC_SIZE_def)
  moreover have "initiation_opens cr (hi_noise i) ?dh1 ?dh2 ?msg
      (dh_public (hi_identity i)) (build_timestamp secs nanos) n4"
    using es(3) et(3) by (auto simp: initiation_opens_def)
  ultimately show thesis by (intro that) auto
qed

lemma authenticate_initiation_ok:
  assumes "addressed_initiation cr (dh_public (hr_identity r)) msg"
    and "diffie_hellman cr (hr_identity r) (mi_ephemeral msg) = Inr dh1"
    and "diffie_hellman cr (hr_identity r) pub = Inr dh2" and "length pub = 32"
    and "initiation_opens cr (hr_noise r) dh1 dh2 msg pub raw n"
    and "normalize_timestamp raw = Inr ts" and "\<not> timestamp_replayed (hr_latest_timestamp r) ts"
  shows "authenticate_initiation cr r msg = Inr (pub,
    r\<lparr>hr_initiator_public := Some pub, hr_initiator_ephemeral := Some (mi_ephemeral msg),
      hr_noise := n, hr_initiator_index := mi_sender_index msg, hr_latest_timestamp := Some ts\<rparr>)"
  using assms
  by (auto simp: authenticate_initiation_def addressed_initiation_def wf_initiation_def
      mac1_matches_def initiation_opens_def handshake_failed_def copy_exact_def Let_def)

section \<open>Message 2\<close>

text \<open>The Noise state both ends reach before the empty field of the response.\<close>

definition response_state ::
  "crypto \<Rightarrow> symmetric_state \<Rightarrow> bytes \<Rightarrow> bytes \<Rightarrow> bytes \<Rightarrow> bytes option \<Rightarrow> symmetric_state" where
  "response_state cr n0 e_pub dh3 dh4 preshared_key =
     mix_psk cr (mix_key cr (mix_key cr (mix_hash cr n0 e_pub) dh3) dh4)
       (case preshared_key of None \<Rightarrow> replicate 32 0 | Some k \<Rightarrow> k)"

definition addressed_response :: "crypto \<Rightarrow> bytes \<Rightarrow> message_response \<Rightarrow> bool" where
  "addressed_response cr initiator_public msg \<longleftrightarrow>
     wf_response msg \<and> mr_mac2 msg = replicate MAC_SIZE 0
     \<and> mr_mac1 msg = compute_mac1 cr initiator_public (response_bytes_for_mac1 msg)"

lemma create_response_ok:
  fixes cr r secret
  defines "e \<equiv> from_private_key cr secret"
  assumes ok: "crypto_ok cr" and eph: "key_pair_ok cr e"
    and idx: "hr_sender_index r \<noteq> 0" "hr_initiator_index r \<noteq> 0"
    and dh: "diffie_hellman cr e ie = Inr dh3" "diffie_hellman cr e pub = Inr dh4"
  obtains msg n where "create_response cr r ie pub secret
      = Inr ((msg, \<lparr>tk_send_key = snd (derive_transport_keys cr n),
                    tk_recv_key = fst (derive_transport_keys cr n),
                    tk_our_index = hr_sender_index r, tk_peer_index = hr_initiator_index r\<rparr>),
             r\<lparr>hr_ephemeral := Some e, hr_noise := n\<rparr>)"
    and "addressed_response cr pub msg"
    and "mr_sender_index msg = hr_sender_index r" and "mr_receiver_index msg = hr_initiator_index r"
    and "mr_ephemeral msg = dh_public e"
    and "decrypt_and_hash cr (response_state cr (hr_noise r) (dh_public e) dh3 dh4
      (hr_preshared_key r)) (mr_encrypted_empty msg) = Inr ([], n)"
proof -
  let ?n3 = "response_state cr (hr_noise r) (dh_public e) dh3 dh4 (hr_preshared_key r)"
  obtain ee n where ee: "encrypt_and_hash cr ?n3 [] = Inr (ee, n)" "length ee = length ([] :: bytes) + 16"
      "decrypt_and_hash cr ?n3 ee = Inr ([], n)"
    by (rule seal_then_open [OF ok, where s = ?n3 and m = "[]"])
  let ?m0 = "\<lparr>mr_sender_index = hr_sender_index r, mr_receiver_index = hr_initiator_index r,
      mr_ephemeral = dh_public e, mr_encrypted_empty = ee, mr_mac1 = replicate MAC_SIZE 0,
      mr_mac2 = replicate MAC_SIZE 0\<rparr>"
  let ?msg = "?m0\<lparr>mr_mac1 := compute_mac1 cr pub (response_bytes_for_mac1 ?m0)\<rparr>"
  have "create_response cr r ie pub secret
      = Inr ((?msg, \<lparr>tk_send_key = snd (derive_transport_keys cr n),
                    tk_recv_key = fst (derive_transport_keys cr n),
                    tk_our_index = hr_sender_index r, tk_peer_index = hr_initiator_index r\<rparr>),
             r\<lparr>hr_ephemeral := Some e, hr_noise := n\<rparr>)"
    using dh ee(1,2)
    unfolding create_response_def Let_def e_def [symmetric] response_state_def
    by (simp add: copy_exact_def case_prod_beta)
  moreover have "addressed_response cr pub ?msg"
    using idx ee(2) length_mac1 [OF ok] public_length [OF ok eph]
    by (simp add: addressed_response_def wf_response_def response_bytes_for_mac1_def MAC_SIZE_def)
  ultimately show thesis using ee(3) by (intro that) auto
qed

lemma consume_response_ok:
  assumes "hi_ephemeral i = Some e" and "addressed_response cr (dh_public (hi_identity i)) msg"
    and "mr_receiver_index msg = hi_sender_index i"
    and "diffie_hellman cr e (mr_ephemeral msg) = Inr dh3"
    and "diffie_hellman cr (hi_identity i) (mr_ephemeral msg) = Inr dh4"
    and "decrypt_and_hash cr (response_state cr (hi_noise i) (mr_ephemeral msg) dh3 dh4
      (hi_preshared_key i)) (mr_encrypted_empty msg) = Inr (m, n)"
  shows "consume_response cr i msg = (Inr \<lparr>tk_send_key = fst (derive_transport_keys cr n),
      tk_recv_key = snd (derive_transport_keys cr n), tk_our_index = hi_sender_index i,
      tk_peer_index = mr_sender_index msg\<rparr>, i\<lparr>hi_noise := n\<rparr>)"
  using assms
  by (simp add: consume_response_def consume_response_inner_def addressed_response_def
      wf_response_def mac1_matches_def response_state_def handshake_failed_def Let_def case_prod_beta)

section \<open>The whole handshake\<close>

lemma handshake_completes:
  assumes ok: "crypto_ok cr" and I: "key_pair_ok cr I" and R: "key_pair_ok cr R"
    and ei: "key_pair_ok cr (from_private_key cr si)" and er: "key_pair_ok cr (from_private_key cr sr)"
    and clock: "clock_in_range secs nanos"
    and new: "\<not> timestamp_replayed floor (build_timestamp secs nanos)"
  shows "\<exists>m1 i1 m2 kr r1 ki i2.
    create_initiation cr (initiator_new cr I (dh_public R) psk ib) si secs nanos = Inr (m1, i1)
    \<and> initiation_from_bytes (initiation_to_bytes m1) = Inr m1
    \<and> consume_initiation_and_respond cr (responder_new_with_timestamp_floor cr R psk floor rb) m1 sr
        = (Inr (m2, kr), r1)
    \<and> response_from_bytes (response_to_bytes m2) = Inr m2
    \<and> consume_response cr i1 m2 = (Inr ki, i2)
    \<and> keys_match ki kr \<and> tk_our_index ki = tk_peer_index kr \<and> tk_peer_index ki = tk_our_index kr
    \<and> hr_initiator_public r1 = Some (dh_public I)
    \<and> hr_latest_timestamp r1 = Some (build_timestamp secs nanos)"
proof -
  let ?i = "initiator_new cr I (dh_public R) psk ib"
  let ?r = "responder_new_with_timestamp_floor cr R psk floor rb"
  let ?ei = "from_private_key cr si" and ?er = "from_private_key cr sr"
  let ?ts = "build_timestamp secs nanos"
  have i: "hi_ephemeral ?i = None" "hi_identity ?i = I" "hi_responder_public ?i = dh_public R"
      "hi_sender_index ?i \<noteq> 0" "hi_preshared_key ?i = psk"
    by (simp_all add: initiator_new_def random_index_nonzero)
  have r: "hr_identity ?r = R" "hr_noise ?r = hi_noise ?i" "hr_latest_timestamp ?r = floor"
      "hr_sender_index ?r \<noteq> 0" "hr_preshared_key ?r = psk"
    by (simp_all add: responder_new_with_timestamp_floor_def initiator_new_def random_index_nonzero)
  have R0: "dh_public R \<noteq> replicate 32 0" using R by (auto simp: key_pair_ok_def)
  obtain m1 n1 where m1: "create_initiation cr ?i si secs nanos
        = Inr (m1, ?i\<lparr>hi_ephemeral := Some ?ei, hi_noise := n1\<rparr>)"
      "addressed_initiation cr (dh_public R) m1" "mi_sender_index m1 = hi_sender_index ?i"
      "mi_ephemeral m1 = dh_public ?ei"
      "initiation_opens cr (hi_noise ?i) (x25519 cr (dh_secret ?ei) (dh_public R))
        (x25519 cr (dh_secret I) (dh_public R)) m1 (dh_public I) ?ts n1"
    using create_initiation_ok [of cr ?i si secs nanos] ok i I ei R0 by metis
  define r1 where "r1 = ?r\<lparr>hr_initiator_public := Some (dh_public I),
      hr_initiator_ephemeral := Some (mi_ephemeral m1), hr_noise := n1,
      hr_initiator_index := mi_sender_index m1, hr_latest_timestamp := Some ?ts\<rparr>"
  have auth: "authenticate_initiation cr ?r m1 = Inr (dh_public I, r1)"
    unfolding r1_def
    by (rule authenticate_initiation_ok [OF _ _ _ public_length [OF ok I] _ normalize_canonical [OF clock]])
      (use m1 r new dh_agree(2) [OF ok ei R] dh_agree(2) [OF ok I R] in simp_all)
  have r1: "hr_sender_index r1 \<noteq> 0" "hr_initiator_index r1 = hi_sender_index ?i"
      "hr_noise r1 = n1" "hr_preshared_key r1 = psk" "hr_initiator_public r1 = Some (dh_public I)"
      "hr_latest_timestamp r1 = Some ?ts"
    using r m1(3) by (simp_all add: r1_def)
  let ?dh3 = "x25519 cr (dh_secret ?ei) (dh_public ?er)"
  let ?dh4 = "x25519 cr (dh_secret I) (dh_public ?er)"
  obtain m2 n2 where m2: "create_response cr r1 (mi_ephemeral m1) (dh_public I) sr
        = Inr ((m2, \<lparr>tk_send_key = snd (derive_transport_keys cr n2),
            tk_recv_key = fst (derive_transport_keys cr n2), tk_our_index = hr_sender_index r1,
            tk_peer_index = hr_initiator_index r1\<rparr>), r1\<lparr>hr_ephemeral := Some ?er, hr_noise := n2\<rparr>)"
      "addressed_response cr (dh_public I) m2" "mr_sender_index m2 = hr_sender_index r1"
      "mr_receiver_index m2 = hr_initiator_index r1" "mr_ephemeral m2 = dh_public ?er"
      "decrypt_and_hash cr (response_state cr n1 (dh_public ?er) ?dh3 ?dh4 psk)
        (mr_encrypted_empty m2) = Inr ([], n2)"
    using create_response_ok [OF ok er, of r1 "mi_ephemeral m1" ?dh3 "dh_public I" ?dh4]
      r1 i(4) m1(4) dh_agree(2) [OF ok ei er] dh_agree(2) [OF ok I er] by metis
  have "consume_response cr (?i\<lparr>hi_ephemeral := Some ?ei, hi_noise := n1\<rparr>) m2
      = (Inr \<lparr>tk_send_key = fst (derive_transport_keys cr n2),
          tk_recv_key = snd (derive_transport_keys cr n2), tk_our_index = hi_sender_index ?i,
          tk_peer_index = mr_sender_index m2\<rparr>, ?i\<lparr>hi_ephemeral := Some ?ei, hi_noise := n2\<rparr>)"
    using consume_response_ok [of "?i\<lparr>hi_ephemeral := Some ?ei, hi_noise := n1\<rparr>" ?ei cr m2 ?dh3 ?dh4 "[]" n2]
      m2 i r1 dh_agree(1) [OF ok ei er] dh_agree(1) [OF ok I er] by simp
  moreover have "consume_initiation_and_respond cr ?r m1 sr
      = (Inr (m2, \<lparr>tk_send_key = snd (derive_transport_keys cr n2),
          tk_recv_key = fst (derive_transport_keys cr n2), tk_our_index = hr_sender_index r1,
          tk_peer_index = hr_initiator_index r1\<rparr>), r1\<lparr>hr_ephemeral := Some ?er, hr_noise := n2\<rparr>)"
    using auth m2(1) by (auto simp: respond_Inr)
  ultimately show ?thesis
    using m1(1,2) m2(2,3) r1
    by (simp add: keys_match_def addressed_initiation_def initiation_round_trip
        addressed_response_def response_round_trip)
qed

text \<open>
  C12: For any crypto primitives that behave as documented (crypto_ok), usable key pairs, a
  clock below 2^56 - 10 seconds and a timestamp above the responder's floor, an initiator and a
  responder that know each other's keys complete the handshake over the wire: the responder
  authenticates the initiator and its timestamp, and both derive the same keys and each other's
  index.
\<close>
theorem wg_handshake_agrees:
  assumes "crypto_ok cr" and "key_pair_ok cr I" and "key_pair_ok cr R"
    and "key_pair_ok cr (from_private_key cr si)" and "key_pair_ok cr (from_private_key cr sr)"
    and "clock_in_range secs nanos"
    and "\<not> timestamp_replayed floor (build_timestamp secs nanos)"
  shows "\<exists>m1 i1 m2 kr r1 ki i2.
    create_initiation cr (initiator_new cr I (dh_public R) psk ib) si secs nanos = Inr (m1, i1)
    \<and> initiation_from_bytes (initiation_to_bytes m1) = Inr m1
    \<and> consume_initiation_and_respond cr (responder_new_with_timestamp_floor cr R psk floor rb) m1 sr
        = (Inr (m2, kr), r1)
    \<and> response_from_bytes (response_to_bytes m2) = Inr m2
    \<and> consume_response cr i1 m2 = (Inr ki, i2)
    \<and> keys_match ki kr \<and> tk_our_index ki = tk_peer_index kr \<and> tk_peer_index ki = tk_our_index kr
    \<and> hr_initiator_public r1 = Some (dh_public I)
    \<and> hr_latest_timestamp r1 = Some (build_timestamp secs nanos)"
  using assms by (rule handshake_completes)

section \<open>The tunnel after the handshake\<close>

text \<open>
  Traffic between two sessions: each entry says whether the first end sends, when it is sent,
  when the datagram arrives at the other end, and the packet.
\<close>

fun traffic :: "crypto \<Rightarrow> transport_session \<Rightarrow> transport_session
   \<Rightarrow> (bool \<times> instant \<times> instant \<times> bytes) list \<Rightarrow> wg_error + bytes list" where
  "traffic cr a b [] = Inr []"
| "traffic cr a b ((forth, sent, arrived, packet) # rest) =
     (if forth
      then bind_res (encrypt_to_bytes (aead_seal cr) a sent packet) (\<lambda>(data, a').
           bind_res (decrypt_from_bytes (aead_unseal cr) b arrived data) (\<lambda>(p, b').
           bind_res (traffic cr a' b' rest) (\<lambda>ps. Inr (p # ps))))
      else bind_res (encrypt_to_bytes (aead_seal cr) b sent packet) (\<lambda>(data, b').
           bind_res (decrypt_from_bytes (aead_unseal cr) a arrived data) (\<lambda>(p, a').
           bind_res (traffic cr a' b' rest) (\<lambda>ps. Inr (p # ps)))))"

text \<open>\<open>a\<close> can send to \<open>b\<close>: \<open>b\<close> has accepted exactly what \<open>a\<close> has sent.\<close>

definition feeds :: "transport_session \<Rightarrow> transport_session \<Rightarrow> bool" where
  "feeds a b \<longleftrightarrow>
     ts_send_key a = ts_recv_key b \<and> ts_peer_index a = ts_our_index b
     \<and> window_ok b {c. c < ts_send_counter a}
     \<and> ts_reject_after_messages a = - 1 \<and> ts_reject_after_messages b = - 1"

definition young :: "transport_session \<Rightarrow> instant \<Rightarrow> bool" where
  "young s now \<longleftrightarrow> session_age s now < ts_reject_after_time s"

lemma not_expired:
  assumes "ts_reject_after_messages s = - 1" and "unat (ts_send_counter s) < 2 ^ 64 - 1"
    and "young s now"
  shows "\<not> is_expired s now"
proof -
  have "unat (- 1 :: u64) = 2 ^ 64 - 1" by (simp add: unsigned_minus_1_eq_mask mask_eq_exp_minus_1)
  then show ?thesis using assms by (simp add: is_expired_def young_def word_le_nat_alt)
qed

lemma update_replay_keeps [simp]:
  "ts_send_key (update_replay s c) = ts_send_key s" "ts_recv_key (update_replay s c) = ts_recv_key s"
  "ts_our_index (update_replay s c) = ts_our_index s"
  "ts_peer_index (update_replay s c) = ts_peer_index s"
  "ts_send_counter (update_replay s c) = ts_send_counter s"
  "ts_created_at (update_replay s c) = ts_created_at s"
  "ts_reject_after_messages (update_replay s c) = ts_reject_after_messages s"
  "ts_reject_after_time (update_replay s c) = ts_reject_after_time s"
  by (simp_all add: update_replay_def Let_def)

lemma window_ok_send_counter [simp]:
  "window_ok (s\<lparr>ts_send_counter := n\<rparr>) S \<longleftrightarrow> window_ok s S"
  by (simp add: window_ok_def)

lemma below_next: "(n :: u64) \<noteq> - 1 \<Longrightarrow> {c. c < n + 1} = insert n {c. c < n}"
proof -
  assume "n \<noteq> - 1"
  then have "1 + n \<noteq> 0" by (metis add.commute add_eq_0_iff2)
  then have "unat (n + 1) = unat n + 1" using unatSuc [of n] by (simp add: add.commute)
  then show ?thesis by (auto simp: word_less_nat_alt word_unat_eq_iff)
qed

text \<open>One packet from \<open>a\<close> to \<open>b\<close> keeps both directions working.\<close>

lemma feeds_step:
  assumes ok: "crypto_ok cr" and ab: "feeds a b" and ba: "feeds b a"
    and lo: "unat (ts_send_counter a) + 65 < 2 ^ 64" "unat (ts_send_counter b) + 65 < 2 ^ 64"
    and young: "young a sent" "young b arrived"
  shows "\<exists>data. encrypt_to_bytes (aead_seal cr) a sent packet
        = Inr (data, a\<lparr>ts_send_counter := ts_send_counter a + 1\<rparr>)
    \<and> decrypt_from_bytes (aead_unseal cr) b arrived data
        = Inr (packet, update_replay b (ts_send_counter a))
    \<and> feeds (a\<lparr>ts_send_counter := ts_send_counter a + 1\<rparr>) (update_replay b (ts_send_counter a))
    \<and> feeds (update_replay b (ts_send_counter a)) (a\<lparr>ts_send_counter := ts_send_counter a + 1\<rparr>)"
proof -
  let ?n = "ts_send_counter a"
  have "unat (- 1 :: u64) = 2 ^ 64 - 1" by (simp add: unsigned_minus_1_eq_mask mask_eq_exp_minus_1)
  then have max: "?n \<noteq> - 1" using lo(1) by auto
  have "\<not> is_expired a sent" "\<not> is_expired b arrived"
    using not_expired [OF _ _ young(1)] not_expired [OF _ _ young(2)] ab lo
    by (simp_all add: feeds_def)
  moreover have "\<And>key nonce aad m. \<exists>c. aead_seal cr key nonce aad m = Inr c
      \<and> length c = length m + 16 \<and> aead_unseal cr key nonce aad c = Inr m"
    using ok by (simp add: crypto_ok_def)
  moreover have "\<forall>h \<in> {c. c < ?n}. unat h < unat ?n + 64" by (auto simp: word_less_nat_alt)
  moreover have "window_ok b {c. c < ?n}" using ab by (simp add: feeds_def)
  ultimately obtain data a' where d: "encrypt_to_bytes (aead_seal cr) a sent packet = Inr (data, a')"
      "decrypt_from_bytes (aead_unseal cr) b arrived data = Inr (packet, update_replay b ?n)"
    using session_delivers [of "aead_seal cr" "aead_unseal cr" a sent b arrived "{c. c < ?n}" packet]
      ab lo(1) max by (auto simp: feeds_def)
  moreover from d(1) have "a' = a\<lparr>ts_send_counter := ?n + 1\<rparr>"
    by (auto simp: encrypt_to_bytes_def bind_res_eq_Inr dest: session_encrypt_Inr)
  moreover have "window_ok (update_replay b ?n) {c. c < ?n + 1}"
    using window_ok_update [of b "{c. c < ?n}" ?n] ab max by (simp add: below_next feeds_def)
  ultimately show ?thesis using ab ba by (auto simp: feeds_def)
qed

definition in_life :: "transport_session \<Rightarrow> transport_session \<Rightarrow> bool \<times> instant \<times> instant \<times> bytes \<Rightarrow> bool" where
  "in_life a b e =
     (case e of (forth, sent, arrived, packet) \<Rightarrow>
        if forth then young a sent \<and> young b arrived else young b sent \<and> young a arrived)"

lemma traffic_delivered:
  assumes "crypto_ok cr" and "feeds a b" and "feeds b a"
    and "unat (ts_send_counter a) + length es + 65 < 2 ^ 64"
    and "unat (ts_send_counter b) + length es + 65 < 2 ^ 64"
    and "\<forall>e \<in> set es. in_life a b e"
  shows "traffic cr a b es = Inr (map (\<lambda>(_, _, _, packet). packet) es)"
  using assms
proof (induction es arbitrary: a b)
  case Nil
  then show ?case by simp
next
  case (Cons e es)
  obtain forth sent arrived packet where e: "e = (forth, sent, arrived, packet)" by (cases e) auto
  have up: "unat (n + 1) \<le> unat n + 1" for n :: u64 by (simp add: unat_word_ariths)
  have live: "young (a\<lparr>ts_send_counter := n\<rparr>) t = young a t"
      "young (update_replay a c) t = young a t" for a n c t
    by (simp_all add: young_def session_age_def)
  show ?case
  proof (cases forth)
    case True
    with Cons.prems e obtain data where d:
      "encrypt_to_bytes (aead_seal cr) a sent packet
         = Inr (data, a\<lparr>ts_send_counter := ts_send_counter a + 1\<rparr>)"
      "decrypt_from_bytes (aead_unseal cr) b arrived data
         = Inr (packet, update_replay b (ts_send_counter a))"
      "feeds (a\<lparr>ts_send_counter := ts_send_counter a + 1\<rparr>) (update_replay b (ts_send_counter a))"
      "feeds (update_replay b (ts_send_counter a)) (a\<lparr>ts_send_counter := ts_send_counter a + 1\<rparr>)"
      using feeds_step [of cr a b sent arrived packet] by (auto simp: in_life_def)
    have "traffic cr (a\<lparr>ts_send_counter := ts_send_counter a + 1\<rparr>) (update_replay b (ts_send_counter a)) es
        = Inr (map (\<lambda>(_, _, _, packet). packet) es)"
      using Cons.prems up [of "ts_send_counter a"]
      by (intro Cons.IH d(3,4)) (auto simp: in_life_def live)
    with d e True show ?thesis by simp
  next
    case False
    with Cons.prems e obtain data where d:
      "encrypt_to_bytes (aead_seal cr) b sent packet
         = Inr (data, b\<lparr>ts_send_counter := ts_send_counter b + 1\<rparr>)"
      "decrypt_from_bytes (aead_unseal cr) a arrived data
         = Inr (packet, update_replay a (ts_send_counter b))"
      "feeds (b\<lparr>ts_send_counter := ts_send_counter b + 1\<rparr>) (update_replay a (ts_send_counter b))"
      "feeds (update_replay a (ts_send_counter b)) (b\<lparr>ts_send_counter := ts_send_counter b + 1\<rparr>)"
      using feeds_step [of cr b a sent arrived packet] by (auto simp: in_life_def)
    have "traffic cr (update_replay a (ts_send_counter b)) (b\<lparr>ts_send_counter := ts_send_counter b + 1\<rparr>) es
        = Inr (map (\<lambda>(_, _, _, packet). packet) es)"
      using Cons.prems up [of "ts_send_counter b"]
      by (intro Cons.IH d(3,4)) (auto simp: in_life_def live)
    with d e False show ?thesis by simp
  qed
qed

lemma feeds_new:
  assumes "tk_send_key k = tk_recv_key k'" and "tk_peer_index k = tk_our_index k'"
  shows "feeds (session_new k t) (session_new k' t')"
  using assms by (simp add: feeds_def session_new_def window_ok_def REJECT_AFTER_MESSAGES_def)

text \<open>
  C13: After a handshake completed under the conditions of C12, the two sessions deliver every
  packet unchanged and in order, in both directions and however the directions interleave, as
  long as both sessions are younger than the reject time whenever a packet is sent or arrives
  and fewer than 2^63 packets are sent.
\<close>
theorem wg_tunnel_delivers:
  assumes "crypto_ok cr" and "key_pair_ok cr I" and "key_pair_ok cr R"
    and "key_pair_ok cr (from_private_key cr si)" and "key_pair_ok cr (from_private_key cr sr)"
    and "clock_in_range secs nanos"
    and "\<not> timestamp_replayed floor (build_timestamp secs nanos)"
    and "create_initiation cr (initiator_new cr I (dh_public R) psk ib) si secs nanos = Inr (m1, i1)"
    and "consume_initiation_and_respond cr (responder_new_with_timestamp_floor cr R psk floor rb)
      m1 sr = (Inr (m2, kr), r1)"
    and "consume_response cr i1 m2 = (Inr ki, i2)"
    and "length es < 2 ^ 63"
    and "\<forall>e \<in> set es. in_life (session_new ki t) (session_new kr t') e"
  shows "traffic cr (session_new ki t) (session_new kr t') es
    = Inr (map (\<lambda>(_, _, _, packet). packet) es)"
proof -
  have "keys_match ki kr \<and> tk_our_index ki = tk_peer_index kr \<and> tk_peer_index ki = tk_our_index kr"
    using handshake_completes [OF assms(1-7), of psk ib rb] assms(8-10) by auto
  then have "feeds (session_new ki t) (session_new kr t')" "feeds (session_new kr t') (session_new ki t)"
    by (auto intro!: feeds_new simp: keys_match_def)
  then show ?thesis
    using assms(11,12) by (intro traffic_delivered [OF assms(1)]) (auto simp: session_new_def)
qed

end
