(* ===== verification/Wg_Witnesses.thy ===== *)
theory Wg_Witnesses
  imports Wg_Agree
begin

text \<open>
  The WireGuard properties at concrete inputs. \<open>toy\<close> is a crypto that behaves as documented: a
  hash that truncates, a key exchange by exclusive or, and a seal that appends a tag of zeros.
\<close>

definition toy :: crypto where
  "toy = \<lparr>blake2s = (\<lambda>xs. take 32 (xs @ replicate 32 0)),
          x25519 = map2 (\<lambda>a b. a XOR b), x25519_public = (\<lambda>a. a),
          aead_seal = (\<lambda>k n ad m. Inr (m @ replicate 16 0)),
          aead_unseal = (\<lambda>k n ad c. Inr (take (length c - 16) c))\<rparr>"

definition toy_pair :: "u8 \<Rightarrow> dh_key_pair" where
  "toy_pair b = from_private_key toy (replicate 32 b)"

lemma toy_ok: "crypto_ok toy"
proof -
  have "map2 (\<lambda>a b. a XOR b) xs ys = map2 (\<lambda>a b. a XOR b) ys (xs :: bytes)" for xs ys
    by (rule nth_equalityI) (simp_all add: ac_simps)
  then show ?thesis by (auto simp: crypto_ok_def toy_def)
qed

lemma toy_pair_ok: "b \<noteq> 0 \<Longrightarrow> key_pair_ok toy (toy_pair b)"
  by (simp add: key_pair_ok_def toy_pair_def from_private_key_def toy_def)

lemma toy_ephemeral_ok: "b \<noteq> 0 \<Longrightarrow> key_pair_ok toy (from_private_key toy (replicate 32 b))"
  using toy_pair_ok [of b] by (simp add: toy_pair_def)

lemma toy_clock: "clock_in_range 1000 5"
  by (simp add: clock_in_range_def)

theorem wg_timestamps_chronological_witness:
  "normalize_timestamp (build_timestamp 1000 5) = Inr (build_timestamp 1000 5)
   \<and> (timestamp_replayed (Some (build_timestamp 1000 5)) (build_timestamp 1000 6)
        \<longleftrightarrow> (1000 :: u64) < 1000 \<or> (1000 :: u64) = 1000 \<and> (6 :: u32) \<le> 5)"
  by (rule wg_timestamps_chronological [OF toy_clock, of 1000 6]) (simp add: clock_in_range_def)

theorem wg_legacy_timestamp_interoperates_witness:
  "normalize_timestamp (legacy_timestamp (ucast (1000 :: u64) + 10) (ucast (5 :: u32)))
    = Inr (build_timestamp 1000 5)"
proof (rule wg_legacy_timestamp_interoperates)
  have "unat (to_be 4 (1010 :: u32) ! 0) = 0"
    using first_byte [of "to_be 4 (1010 :: u32)" 3] by (simp add: nat_of_be_to_be)
  then have "to_be 4 (1010 :: u32) ! 0 \<noteq> 0x40" by auto
  then show "legacy_timestamp (ucast (1000 :: u64) + 10) (ucast (5 :: u32)) ! 0 \<noteq> 0x40"
    by (simp add: legacy_timestamp_def nth_append)
qed simp_all

theorem wg_handshake_agrees_witness:
  "\<exists>m1 i1 m2 kr r1 ki i2.
    create_initiation toy (initiator_new toy (toy_pair 1) (dh_public (toy_pair 2)) None [7, 7, 7, 7])
      (replicate 32 3) 1000 5 = Inr (m1, i1)
    \<and> initiation_from_bytes (initiation_to_bytes m1) = Inr m1
    \<and> consume_initiation_and_respond toy (responder_new_with_timestamp_floor toy (toy_pair 2) None
        None [8, 8, 8, 8]) m1 (replicate 32 4) = (Inr (m2, kr), r1)
    \<and> response_from_bytes (response_to_bytes m2) = Inr m2
    \<and> consume_response toy i1 m2 = (Inr ki, i2)
    \<and> keys_match ki kr \<and> tk_our_index ki = tk_peer_index kr \<and> tk_peer_index ki = tk_our_index kr
    \<and> hr_initiator_public r1 = Some (dh_public (toy_pair 1))
    \<and> hr_latest_timestamp r1 = Some (build_timestamp 1000 5)"
  by (rule wg_handshake_agrees)
    (simp_all add: toy_ok toy_pair_ok toy_ephemeral_ok toy_clock timestamp_replayed_def)

theorem wg_tunnel_delivers_witness:
  "\<exists>m1 i1 m2 kr r1 ki i2.
    create_initiation toy (initiator_new toy (toy_pair 1) (dh_public (toy_pair 2)) None [7, 7, 7, 7])
      (replicate 32 3) 1000 5 = Inr (m1, i1)
    \<and> consume_initiation_and_respond toy (responder_new_with_timestamp_floor toy (toy_pair 2) None
        None [8, 8, 8, 8]) m1 (replicate 32 4) = (Inr (m2, kr), r1)
    \<and> consume_response toy i1 m2 = (Inr ki, i2)
    \<and> traffic toy (session_new ki 0) (session_new kr 0) [(True, 0, 1, [1, 2]), (False, 2, 3, [3])]
        = Inr [[1, 2], [3]]"
proof -
  have keys: "key_pair_ok toy (toy_pair 1)" "key_pair_ok toy (toy_pair 2)"
      "key_pair_ok toy (from_private_key toy (replicate 32 3))"
      "key_pair_ok toy (from_private_key toy (replicate 32 4))"
    by (simp_all add: toy_pair_ok toy_ephemeral_ok)
  have floor: "\<not> timestamp_replayed None (build_timestamp 1000 5)"
    by (simp add: timestamp_replayed_def)
  obtain m1 i1 m2 kr r1 ki i2 where
    c: "create_initiation toy (initiator_new toy (toy_pair 1) (dh_public (toy_pair 2)) None [7, 7, 7, 7])
        (replicate 32 3) 1000 5 = Inr (m1, i1)"
    and r: "consume_initiation_and_respond toy (responder_new_with_timestamp_floor toy (toy_pair 2)
        None None [8, 8, 8, 8]) m1 (replicate 32 4) = (Inr (m2, kr), r1)"
    and k: "consume_response toy i1 m2 = (Inr ki, i2)"
    using handshake_completes [OF toy_ok keys toy_clock floor] by blast
  have "traffic toy (session_new ki 0) (session_new kr 0) [(True, 0, 1, [1, 2]), (False, 2, 3, [3])]
      = Inr (map (\<lambda>(_, _, _, packet). packet) [(True, 0 :: instant, 1 :: instant, [1, 2]), (False, 2, 3, [3])])"
    by (rule wg_tunnel_delivers [OF toy_ok keys toy_clock floor c r k])
      (simp_all add: in_life_def young_def session_age_def session_new_def
        saturating_duration_since_def from_secs_def REJECT_AFTER_TIME_def)
  with c r k show ?thesis by auto
qed

text \<open>
  A peer that rotates its key and goes back: its first initiation is accepted again, after the
  one under the other key.
\<close>

definition toy_offered :: "u8 \<Rightarrow> message_initiation \<Rightarrow> offer" where
  "toy_offered b m =
     \<lparr>of_peer = ''b'', of_expected_public = dh_public (toy_pair b), of_floor_read = None,
      of_initiation = m, of_index_bytes = [8, 8, 8, 8], of_secret = replicate 32 4\<rparr>"

lemma toy_offer:
  assumes "b \<noteq> 0"
  obtains m where "\<And>floors. responder_timestamp_floor floors ''b'' (dh_public (toy_pair b)) = None \<Longrightarrow>
    offer_step toy (toy_pair 2) floors (toy_offered b m) = Some ((''b'', dh_public (toy_pair b), m),
      floors(''b'' \<mapsto> (dh_public (toy_pair b), build_timestamp 1000 5)))"
proof -
  have keys: "key_pair_ok toy (toy_pair b)" "key_pair_ok toy (toy_pair 2)"
      "key_pair_ok toy (from_private_key toy (replicate 32 3))"
      "key_pair_ok toy (from_private_key toy (replicate 32 4))"
    using assms by (simp_all add: toy_pair_ok toy_ephemeral_ok)
  have floor: "\<not> timestamp_replayed None (build_timestamp 1000 5)"
    by (simp add: timestamp_replayed_def)
  obtain m m2 kr r1 where
    "consume_initiation_and_respond toy (responder_new_with_timestamp_floor toy (toy_pair 2) None
        None [8, 8, 8, 8]) m (replicate 32 4) = (Inr (m2, kr), r1)"
    "hr_initiator_public r1 = Some (dh_public (toy_pair b))"
    "hr_latest_timestamp r1 = Some (build_timestamp 1000 5)"
    using handshake_completes [OF toy_ok keys toy_clock floor, of None "[7, 7, 7, 7]" "[8, 8, 8, 8]"]
    by blast
  then show ?thesis
    by (intro that [of m])
      (simp add: offer_step_def toy_offered_def accept_offer_def commit_responder_timestamp_def)
qed

theorem wg_initiation_once_witness:
  "\<exists>k1 k2 m1 m2. k1 \<noteq> k2
    \<and> consumed (offer_step toy (toy_pair 2)) Map.empty [toy_offered 1 m1, toy_offered 3 m2, toy_offered 1 m1]
        = [(''b'', k1, m1), (''b'', k2, m2), (''b'', k1, m1)]
    \<and> (\<exists>l k'' msg'. 0 < l \<and> l < 2
        \<and> [(''b'', k1, m1), (''b'', k2, m2), (''b'', k1, m1)] ! l = (''b'', k'', msg') \<and> k'' \<noteq> k1)"
proof -
  let ?k1 = "dh_public (toy_pair 1)" and ?k2 = "dh_public (toy_pair 3)"
  obtain m1 where 1: "\<And>floors. responder_timestamp_floor floors ''b'' ?k1 = None \<Longrightarrow>
    offer_step toy (toy_pair 2) floors (toy_offered 1 m1)
      = Some ((''b'', ?k1, m1), floors(''b'' \<mapsto> (?k1, build_timestamp 1000 5)))"
    by (rule toy_offer [of 1]) (simp, blast)
  obtain m2 where 2: "\<And>floors. responder_timestamp_floor floors ''b'' ?k2 = None \<Longrightarrow>
    offer_step toy (toy_pair 2) floors (toy_offered 3 m2)
      = Some ((''b'', ?k2, m2), floors(''b'' \<mapsto> (?k2, build_timestamp 1000 5)))"
    by (rule toy_offer [of 3]) (simp, blast)
  let ?es = "[toy_offered 1 m1, toy_offered 3 m2, toy_offered 1 m1]"
  let ?cs = "[(''b'', ?k1, m1), (''b'', ?k2, m2), (''b'', ?k1, m1)]"
  have k: "?k1 \<noteq> ?k2" by (simp add: toy_pair_def from_private_key_def toy_def)
  then have run: "consumed (offer_step toy (toy_pair 2)) Map.empty ?es = ?cs"
    by (simp add: 1 2 responder_timestamp_floor_def)
  have "\<exists>l k'' msg'. 0 < l \<and> l < 2 \<and> ?cs ! l = (''b'', k'', msg') \<and> k'' \<noteq> ?k1"
    using wg_initiation_once [of 0 2 toy "toy_pair 2" Map.empty ?es "''b''" ?k1 m1 ?k1]
    unfolding run by simp
  with run k show ?thesis by blast
qed

definition w_keys :: transport_key_pair where
  "w_keys = \<lparr>tk_send_key = [1], tk_recv_key = [1], tk_our_index = 9, tk_peer_index = 9\<rparr>"

lemma window_ok_start: "window_ok (session_new k t) {}"
  by (simp add: window_ok_def session_new_def)

theorem wg_window_refines_set_witness:
  "(check_replay (session_new w_keys 0) 3
      \<longleftrightarrow> (3 :: u64) \<notin> {} \<and> (\<forall>h \<in> {} :: u64 set. unat h < unat (3 :: u64) + 64))
   \<and> window_ok (update_replay (session_new w_keys 0) 3) {3}"
  by (rule wg_window_refines_set [OF window_ok_start]) simp

theorem wg_session_delivers_witness:
  "\<exists>data a'. encrypt_to_bytes (aead_seal toy) (session_new w_keys 0) 5 [1, 2] = Inr (data, a')
    \<and> ts_send_counter a' = ts_send_counter (session_new w_keys 0) + 1
    \<and> decrypt_from_bytes (aead_unseal toy) (session_new w_keys 0) 6 data
        = Inr ([1, 2], update_replay (session_new w_keys 0) (ts_send_counter (session_new w_keys 0)))"
  by (rule wg_session_delivers [where S = "{}"])
    (simp_all add: window_ok_start, simp_all add: toy_def session_new_def is_expired_def
      session_age_def saturating_duration_since_def from_secs_def REJECT_AFTER_TIME_def
      REJECT_AFTER_MESSAGES_def w_keys_def)

definition w_full :: transport_session where
  "w_full = update_replay (session_new w_keys 0) (- 1)"

theorem wg_replay_window_wraps_witness: "\<not> check_replay w_full (- 2)"
  by (rule wg_replay_window_wraps)
    (simp_all add: w_full_def update_replay_def session_new_def)

end
