(* ===== verification/Ip_Packet.thy ===== *)
theory Ip_Packet
  imports Net
begin

text \<open>
  The IP packets on the TUN device: \<open>client/tun/src/packet/{protocol,ip,ipv4,ipv6,checksum}.rs\<close>. A
  parsed packet borrows the buffer it was parsed from, so it is that buffer; an accessor reads
  it at fixed offsets, which the length check of the parser covers.
\<close>

datatype tun_error =
    PacketTooShort nat nat
  | InvalidIpVersion u8
  | InvalidHeaderLength nat

section \<open>Protocols\<close>

datatype ip_protocol = Icmp | Igmp | Tcp | Udp | Icmpv6 | UnknownProtocol

definition protocol_from :: "u8 \<Rightarrow> ip_protocol" where
  "protocol_from v =
     (if v = 1 then Icmp else if v = 2 then Igmp else if v = 6 then Tcp
      else if v = 17 then Udp else if v = 58 then Icmpv6 else UnknownProtocol)"

section \<open>The Internet checksum\<close>

text \<open>
  The loop over 16-bit words, with the trailing odd byte as a high byte, on the 32-bit sum; the
  loop that folds the carries ends because every round makes the sum smaller.
\<close>

definition add_word :: "u32 \<Rightarrow> u8 \<Rightarrow> u8 \<Rightarrow> u32" where
  "add_word s a b = s + ucast (from_be [a, b] :: u16)"

fun sum_words :: "u32 \<Rightarrow> bytes \<Rightarrow> u32" where
  "sum_words s (a # b # rest) = sum_words (add_word s a b) rest"
| "sum_words s [a] = s + push_bit 8 (ucast a)"
| "sum_words s [] = s"

lemma fold_round:
  "unat ((s AND 0xFFFF) + drop_bit 16 s) = unat s mod 65536 + unat s div 65536"
  for s :: u32
proof -
  have m: "unat (s AND 0xFFFF) = unat s mod 65536"
  proof -
    have "(0xFFFF :: u32) = mask 16" by (simp add: mask_eq_exp_minus_1)
    then have "s AND 0xFFFF = take_bit 16 s" by (simp add: take_bit_eq_mask)
    then have "unat (s AND 0xFFFF) = unat (take_bit 16 s)" by simp
    also have "\<dots> = take_bit 16 (unat s)" by (rule unsigned_take_bit_eq)
    finally show ?thesis by (simp add: take_bit_eq_mod)
  qed
  have d: "unat (drop_bit 16 s) = unat s div 65536"
    by (simp add: drop_bit_eq_div unat_div_distrib)
  have "unat s < 65536 * 65536" using unsigned_less [of s, where ?'a = nat] by simp
  then have "unat s div 65536 < 65536" by (simp add: less_mult_imp_div_less)
  moreover have "unat s mod 65536 < 65536" by simp
  ultimately have "unat s mod 65536 + unat s div 65536 < 2 ^ 32" by simp
  then show ?thesis by (simp add: unat_word_ariths m d)
qed

lemma high_half_zero: "drop_bit 16 s = 0 \<longleftrightarrow> unat s < 65536" for s :: u32
proof -
  have "drop_bit 16 s = 0 \<longleftrightarrow> unat (drop_bit 16 s) = 0" by (simp add: word_unat_eq_iff)
  also have "\<dots> \<longleftrightarrow> unat s < 65536"
    by (simp add: drop_bit_eq_div unat_div_distrib div_eq_0_iff)
  finally show ?thesis .
qed

function fold_carries :: "u32 \<Rightarrow> u32" where
  "fold_carries s =
     (if drop_bit 16 s \<noteq> 0 then fold_carries ((s AND 0xFFFF) + drop_bit 16 s) else s)"
  by pat_completeness auto

termination fold_carries
proof (relation "measure unat")
  fix s :: u32
  assume "drop_bit 16 s \<noteq> 0"
  then have "65536 \<le> unat s" by (simp add: high_half_zero)
  then have "0 < unat s div 65536" "unat s = unat s div 65536 * 65536 + unat s mod 65536"
    by (simp_all add: div_greater_zero_iff)
  then have "unat s mod 65536 + unat s div 65536 < unat s" by linarith
  then show "((s AND 0xFFFF) + drop_bit 16 s, s) \<in> measure unat" by (simp add: fold_round)
qed simp

declare fold_carries.simps [simp del]

definition compute_checksum :: "bytes \<Rightarrow> u16" where
  "compute_checksum data = ucast (NOT (fold_carries (sum_words 0 data)))"

section \<open>IPv4\<close>

type_synonym ipv4_packet = bytes

definition version_nibble :: "bytes \<Rightarrow> u8" where
  "version_nibble buf = drop_bit 4 (buf ! 0) AND 0x0F"

definition ipv4_header_len :: "ipv4_packet \<Rightarrow> nat" where
  "ipv4_header_len buf = unat (buf ! 0 AND 0x0F) * 4"

definition ipv4_new :: "bytes \<Rightarrow> tun_error + ipv4_packet" where
  "ipv4_new buf =
     (if length buf < 20 then Inl (PacketTooShort (length buf) 20)
      else if version_nibble buf \<noteq> 4 then Inl (InvalidIpVersion (version_nibble buf))
      else
        let ihl = ipv4_header_len buf
        in if ihl < 20 then Inl (InvalidHeaderLength ihl)
           else if length buf < ihl then Inl (PacketTooShort (length buf) ihl)
           else Inr buf)"

definition be16_at :: "bytes \<Rightarrow> nat \<Rightarrow> u16" where
  "be16_at buf k = from_be [buf ! k, buf ! (k + 1)]"

definition ipv4_tos :: "ipv4_packet \<Rightarrow> u8" where
  "ipv4_tos buf = buf ! 1"

definition ipv4_total_len :: "ipv4_packet \<Rightarrow> u16" where
  "ipv4_total_len buf = be16_at buf 2"

definition ipv4_identification :: "ipv4_packet \<Rightarrow> u16" where
  "ipv4_identification buf = be16_at buf 4"

definition ipv4_flags_fragment :: "ipv4_packet \<Rightarrow> u16" where
  "ipv4_flags_fragment buf = be16_at buf 6"

definition dont_fragment :: "ipv4_packet \<Rightarrow> bool" where
  "dont_fragment buf \<longleftrightarrow> buf ! 6 AND 0x40 \<noteq> 0"

definition is_fragment :: "ipv4_packet \<Rightarrow> bool" where
  "is_fragment buf \<longleftrightarrow>
     ipv4_flags_fragment buf AND 0x1FFF \<noteq> 0 \<or> ipv4_flags_fragment buf AND 0x2000 \<noteq> 0"

definition ipv4_ttl :: "ipv4_packet \<Rightarrow> u8" where
  "ipv4_ttl buf = buf ! 8"

definition ipv4_protocol :: "ipv4_packet \<Rightarrow> ip_protocol" where
  "ipv4_protocol buf = protocol_from (buf ! 9)"

definition ipv4_header_checksum :: "ipv4_packet \<Rightarrow> u16" where
  "ipv4_header_checksum buf = be16_at buf 10"

definition ipv4_src_addr :: "ipv4_packet \<Rightarrow> u32" where
  "ipv4_src_addr buf = from_be [buf ! 12, buf ! 13, buf ! 14, buf ! 15]"

definition ipv4_dst_addr :: "ipv4_packet \<Rightarrow> u32" where
  "ipv4_dst_addr buf = from_be [buf ! 16, buf ! 17, buf ! 18, buf ! 19]"

definition ipv4_payload :: "ipv4_packet \<Rightarrow> bytes" where
  "ipv4_payload buf =
     (let hdr_len = ipv4_header_len buf;
          end = min (unat (ipv4_total_len buf)) (length buf)
      in if hdr_len < end then take (end - hdr_len) (drop hdr_len buf) else [])"

text \<open>The sum of \<open>verify_checksum\<close> runs over the bytes of the header, two at a time.\<close>

definition verify_checksum :: "ipv4_packet \<Rightarrow> bool" where
  "verify_checksum buf \<longleftrightarrow>
     (let hdr_len = ipv4_header_len buf
      in if hdr_len < 20 \<or> length buf < hdr_len then False
         else fold_carries (sum_words 0 (take hdr_len buf)) = 0xFFFF)"

text \<open>\<open>packet[k] = (checksum >> 8) as u8; packet[k + 1] = (checksum & 0xFF) as u8\<close>.\<close>

definition put_checksum :: "bytes \<Rightarrow> nat \<Rightarrow> u16 \<Rightarrow> bytes" where
  "put_checksum packet k checksum =
     packet[k := ucast (drop_bit 8 checksum), k + 1 := ucast (checksum AND 0xFF)]"

definition build_icmp_echo_request :: "u32 \<Rightarrow> u32 \<Rightarrow> u16 \<Rightarrow> u16 \<Rightarrow> bytes \<Rightarrow> bytes" where
  "build_icmp_echo_request src dst ident seqno payload =
     (let total_len = 20 + 8 + length payload;
          p0 = [0x45, 0x00] @ to_be 2 (of_nat total_len :: u16) @ to_be 2 ident
               @ to_be 2 (0x4000 :: u16) @ [64, 1] @ to_be 2 (0 :: u16)
               @ to_be 4 src @ to_be 4 dst
               @ [8, 0] @ to_be 2 (0 :: u16) @ to_be 2 ident @ to_be 2 seqno @ payload;
          p1 = put_checksum p0 10 (compute_checksum (take 20 p0))
      in put_checksum p1 22 (compute_checksum (drop 20 p1)))"

section \<open>IPv6\<close>

type_synonym ipv6_packet = bytes

definition ipv6_new :: "bytes \<Rightarrow> tun_error + ipv6_packet" where
  "ipv6_new buf =
     (if length buf < 40 then Inl (PacketTooShort (length buf) 40)
      else if version_nibble buf \<noteq> 6 then Inl (InvalidIpVersion (version_nibble buf))
      else Inr buf)"

definition traffic_class :: "ipv6_packet \<Rightarrow> u8" where
  "traffic_class buf = push_bit 4 (buf ! 0 AND 0x0F) OR drop_bit 4 (buf ! 1)"

definition flow_label :: "ipv6_packet \<Rightarrow> u32" where
  "flow_label buf =
     push_bit 16 (ucast (buf ! 1) AND 0x0F) OR push_bit 8 (ucast (buf ! 2)) OR ucast (buf ! 3)"

definition ipv6_payload_len :: "ipv6_packet \<Rightarrow> u16" where
  "ipv6_payload_len buf = be16_at buf 4"

definition ipv6_total_len :: "ipv6_packet \<Rightarrow> nat" where
  "ipv6_total_len buf = 40 + unat (ipv6_payload_len buf)"

definition ipv6_next_header :: "ipv6_packet \<Rightarrow> u8" where
  "ipv6_next_header buf = buf ! 6"

definition ipv6_protocol :: "ipv6_packet \<Rightarrow> ip_protocol" where
  "ipv6_protocol buf = protocol_from (buf ! 6)"

definition hop_limit :: "ipv6_packet \<Rightarrow> u8" where
  "hop_limit buf = buf ! 7"

definition ipv6_src_addr :: "ipv6_packet \<Rightarrow> 128 word" where
  "ipv6_src_addr buf = from_be (take 16 (drop 8 buf))"

definition ipv6_dst_addr :: "ipv6_packet \<Rightarrow> 128 word" where
  "ipv6_dst_addr buf = from_be (take 16 (drop 24 buf))"

definition ipv6_payload :: "ipv6_packet \<Rightarrow> bytes" where
  "ipv6_payload buf =
     (let total = min (ipv6_total_len buf) (length buf)
      in if 40 < total then take (total - 40) (drop 40 buf) else [])"

section \<open>Either version\<close>

datatype ip_packet = V4 ipv4_packet | V6 ipv6_packet

definition ip_new :: "bytes \<Rightarrow> tun_error + ip_packet" where
  "ip_new buf =
     (if buf = [] then Inl (PacketTooShort 0 1)
      else
        let version = version_nibble buf
        in if version = 4 then bind_res (ipv4_new buf) (\<lambda>p. Inr (V4 p))
           else if version = 6 then bind_res (ipv6_new buf) (\<lambda>p. Inr (V6 p))
           else Inl (InvalidIpVersion version))"

fun ip_version :: "ip_packet \<Rightarrow> u8" where
  "ip_version (V4 _) = 4"
| "ip_version (V6 _) = 6"

fun ip_protocol_of :: "ip_packet \<Rightarrow> ip_protocol" where
  "ip_protocol_of (V4 p) = ipv4_protocol p"
| "ip_protocol_of (V6 p) = ipv6_protocol p"

fun ip_total_len :: "ip_packet \<Rightarrow> nat" where
  "ip_total_len (V4 p) = unat (ipv4_total_len p)"
| "ip_total_len (V6 p) = ipv6_total_len p"

fun ip_payload :: "ip_packet \<Rightarrow> bytes" where
  "ip_payload (V4 p) = ipv4_payload p"
| "ip_payload (V6 p) = ipv6_payload p"

end
