(* ===== verification/Ip_Text.thy ===== *)
theory Ip_Text
  imports Ip_Packet
begin

text \<open>
  The textual addresses of \<open>std::net\<close> the daemon compares: \<open>Display\<close> and \<open>FromStr\<close> of an IPv4
  address. The parser is the strict one of the standard library: decimal octets of at most
  three digits without a leading zero, three dots, nothing else. The display of an IPv6 address
  is a parameter of the definitions that print one.
\<close>

section \<open>Octets\<close>

definition digit_char :: "nat \<Rightarrow> char" where
  "digit_char n = char_of (48 + n)"

definition char_digit :: "char \<Rightarrow> nat option" where
  "char_digit c =
     (let k = of_char c :: nat in if 48 \<le> k \<and> k \<le> 57 then Some (k - 48) else None)"

definition is_digit :: "char \<Rightarrow> bool" where
  "is_digit c \<longleftrightarrow> char_digit c \<noteq> None"

definition digits_value :: "string \<Rightarrow> nat" where
  "digits_value ds = foldl (\<lambda>acc c. acc * 10 + the (char_digit c)) 0 ds"

definition show_octet :: "nat \<Rightarrow> string" where
  "show_octet n =
     (if n < 10 then [digit_char n]
      else if n < 100 then [digit_char (n div 10), digit_char (n mod 10)]
      else [digit_char (n div 100), digit_char (n div 10 mod 10), digit_char (n mod 10)])"

definition read_octet :: "string \<Rightarrow> (nat \<times> string) option" where
  "read_octet s =
     (let ds = takeWhile is_digit s; v = digits_value ds
      in if ds = [] \<or> length ds > 3 \<or> hd ds = CHR ''0'' \<and> length ds > 1 \<or> v > 255 then None
         else Some (v, dropWhile is_digit s))"

definition read_dot :: "string \<Rightarrow> string option" where
  "read_dot s = (case s of [] \<Rightarrow> None | c # rest \<Rightarrow> if c = CHR ''.'' then Some rest else None)"

text \<open>
  \<open>u16::from_str\<close> and \<open>u32::from_str\<close>: an optional plus sign, at least one digit, every
  character a digit, and no value above the type's maximum on the way.
\<close>

fun parse_digits :: "nat \<Rightarrow> nat \<Rightarrow> string \<Rightarrow> nat option" where
  "parse_digits m acc [] = Some acc"
| "parse_digits m acc (c # cs) =
     (case char_digit c of
        None \<Rightarrow> None
      | Some d \<Rightarrow> if acc * 10 + d > m then None else parse_digits m (acc * 10 + d) cs)"

definition parse_unsigned :: "nat \<Rightarrow> string \<Rightarrow> nat option" where
  "parse_unsigned m s =
     (let ds = (if s \<noteq> [] \<and> hd s = CHR ''+'' then tl s else s)
      in if ds = [] then None else parse_digits m 0 ds)"

definition parse_u16 :: "string \<Rightarrow> u16 option" where
  "parse_u16 s = map_option of_nat (parse_unsigned 65535 s)"

definition parse_u32 :: "string \<Rightarrow> u32 option" where
  "parse_u32 s = map_option of_nat (parse_unsigned 4294967295 s)"

section \<open>Addresses\<close>

definition octets :: "u32 \<Rightarrow> nat list" where
  "octets ip = map unat (to_be 4 ip)"

definition show_v4 :: "u32 \<Rightarrow> string" where
  "show_v4 ip =
     show_octet (octets ip ! 0) @ ''.'' @ show_octet (octets ip ! 1) @ ''.''
     @ show_octet (octets ip ! 2) @ ''.'' @ show_octet (octets ip ! 3)"

definition parse_v4 :: "string \<Rightarrow> u32 option" where
  "parse_v4 s =
     (if length s > 15 then None
      else
        Option.bind (read_octet s) (\<lambda>(a, s1).
        Option.bind (read_dot s1) (\<lambda>s2.
        Option.bind (read_octet s2) (\<lambda>(b, s3).
        Option.bind (read_dot s3) (\<lambda>s4.
        Option.bind (read_octet s4) (\<lambda>(c, s5).
        Option.bind (read_dot s5) (\<lambda>s6.
        Option.bind (read_octet s6) (\<lambda>(d, s7).
          if s7 = [] then Some (from_be [of_nat a, of_nat b, of_nat c, of_nat d])
          else None))))))))"

definition src_addr_string :: "(128 word \<Rightarrow> string) \<Rightarrow> ip_packet \<Rightarrow> string" where
  "src_addr_string show_v6 p =
     (case p of V4 b \<Rightarrow> show_v4 (ipv4_src_addr b) | V6 b \<Rightarrow> show_v6 (ipv6_src_addr b))"

definition dst_addr_string :: "(128 word \<Rightarrow> string) \<Rightarrow> ip_packet \<Rightarrow> string" where
  "dst_addr_string show_v6 p =
     (case p of V4 b \<Rightarrow> show_v4 (ipv4_dst_addr b) | V6 b \<Rightarrow> show_v6 (ipv6_dst_addr b))"

section \<open>The parser accepts exactly what is displayed\<close>

lemma of_digit_char: "n < 10 \<Longrightarrow> of_char (digit_char n) = 48 + n"
  by (simp add: digit_char_def)

lemma char_digit_char [simp]: "n < 10 \<Longrightarrow> char_digit (digit_char n) = Some n"
  by (simp add: char_digit_def of_digit_char Let_def)

lemma char_digit_Some: "char_digit c = Some n \<longleftrightarrow> n < 10 \<and> c = digit_char n"
proof
  assume "char_digit c = Some n"
  then have k: "48 \<le> (of_char c :: nat)" "(of_char c :: nat) \<le> 57" "n = of_char c - 48"
    by (auto simp: char_digit_def Let_def split: if_splits)
  then have "48 + n = of_char c" by simp
  then have "digit_char n = c" unfolding digit_char_def by (metis char_of_char)
  with k show "n < 10 \<and> c = digit_char n" by auto
qed simp

lemma is_digit_iff: "is_digit c \<longleftrightarrow> (\<exists>n < 10. c = digit_char n)"
proof -
  have "is_digit c \<longleftrightarrow> (\<exists>n. char_digit c = Some n)" by (auto simp: is_digit_def)
  then show ?thesis by (simp add: char_digit_Some)
qed

lemma digit_char_inj: "m < 10 \<Longrightarrow> n < 10 \<Longrightarrow> digit_char m = digit_char n \<longleftrightarrow> m = n"
  by (metis char_digit_char option.inject)

lemma digit_zero: "CHR ''0'' = digit_char 0"
proof -
  have "(of_char CHR ''0'' :: nat) = 48 + 0" by simp
  then show ?thesis unfolding digit_char_def by (metis char_of_char)
qed

lemma is_digit_char [simp]: "n < 10 \<Longrightarrow> is_digit (digit_char n)"
  by (simp add: is_digit_def)

lemma is_digit_dot: "\<not> is_digit CHR ''.''"
  by (simp add: is_digit_def char_digit_def)

lemma digits_value_one [simp]: "a < 10 \<Longrightarrow> digits_value [digit_char a] = a"
  and digits_value_two [simp]:
    "a < 10 \<Longrightarrow> b < 10 \<Longrightarrow> digits_value [digit_char a, digit_char b] = a * 10 + b"
  and digits_value_three [simp]:
    "a < 10 \<Longrightarrow> b < 10 \<Longrightarrow> c < 10 \<Longrightarrow>
      digits_value [digit_char a, digit_char b, digit_char c] = (a * 10 + b) * 10 + c"
  by (simp_all add: digits_value_def)

lemma show_octet_digits: "n < 256 \<Longrightarrow> list_all is_digit (show_octet n)"
  by (auto simp: show_octet_def)

lemma show_octet_value: "n < 256 \<Longrightarrow> digits_value (show_octet n) = n"
proof -
  assume n: "n < 256"
  have "n div 100 = n div 10 div 10" by (simp flip: div_mult2_eq)
  then have "(n div 100 * 10 + n div 10 mod 10) * 10 + n mod 10 = n" by (simp only: div_mult_mod_eq)
  with n show ?thesis by (simp add: show_octet_def)
qed

lemma show_octet_shape:
  "n < 256 \<Longrightarrow> show_octet n \<noteq> [] \<and> length (show_octet n) \<le> 3
     \<and> \<not> (hd (show_octet n) = CHR ''0'' \<and> length (show_octet n) > 1)"
  by (auto simp: show_octet_def digit_zero digit_char_inj)

text \<open>A digit string without a leading zero is the display of its value.\<close>

lemma show_digits_value:
  assumes "ds \<noteq> []" and "length ds \<le> 3" and "\<not> (hd ds = CHR ''0'' \<and> length ds > 1)"
    and "list_all is_digit ds"
  shows "show_octet (digits_value ds) = ds"
proof -
  consider a where "ds = [a]" | a b where "ds = [a, b]" | a b c where "ds = [a, b, c]"
  proof (cases ds)
    case (Cons a t)
    then show ?thesis
    proof (cases t)
      case (Cons b u)
      then show ?thesis using \<open>ds = a # t\<close> assms(2) that by (cases u) auto
    qed (use that in auto)
  qed (use assms(1) in simp)
  then show ?thesis
  proof cases
    case 1
    then show ?thesis using assms(4) by (auto simp: is_digit_iff show_octet_def)
  next
    case 2
    then obtain x y where d: "x < 10" "y < 10" "ds = [digit_char x, digit_char y]"
      using assms(4) by (auto simp: is_digit_iff)
    then have "x \<noteq> 0" using assms(3) by (intro notI) (simp add: digit_zero)
    then have "10 \<le> x * 10 + y" "x * 10 + y < 100" "(x * 10 + y) div 10 = x" "(x * 10 + y) mod 10 = y"
      using d(1,2) by auto
    then show ?thesis using d by (simp add: show_octet_def)
  next
    case 3
    then obtain x y z where d: "x < 10" "y < 10" "z < 10"
        "ds = [digit_char x, digit_char y, digit_char z]"
      using assms(4) by (auto simp: is_digit_iff)
    let ?v = "(x * 10 + y) * 10 + z"
    have "x \<noteq> 0" using d assms(3) by (intro notI) (simp add: digit_zero)
    then have "100 \<le> ?v" by simp
    moreover have q: "?v div 10 = x * 10 + y" "?v mod 10 = z"
      using d(3) div_mult_self3 [of 10 "x * 10 + y" z] mod_mult_self3 [of "x * 10 + y" 10 z] by simp_all
    moreover have "(x * 10 + y) mod 10 = y" "(x * 10 + y) div 10 = x"
      using d(2) div_mult_self3 [of 10 x y] mod_mult_self3 [of x 10 y] by simp_all
    moreover have "?v div 100 = ?v div 10 div 10" by (simp flip: div_mult2_eq)
    ultimately show ?thesis using d by (simp add: show_octet_def)
  qed
qed

lemma read_octet_Some:
  "read_octet s = Some (n, rest) \<longleftrightarrow>
     n < 256 \<and> s = show_octet n @ rest \<and> (rest = [] \<or> \<not> is_digit (hd rest))"
proof
  assume r: "read_octet s = Some (n, rest)"
  let ?ds = "takeWhile is_digit s"
  from r have "?ds \<noteq> []" "length ?ds \<le> 3" "\<not> (hd ?ds = CHR ''0'' \<and> length ?ds > 1)"
    and n: "n = digits_value ?ds" "n \<le> 255" "rest = dropWhile is_digit s"
    by (auto simp: read_octet_def Let_def split: if_splits)
  then have "show_octet n = ?ds"
    using show_digits_value [of ?ds] set_takeWhileD [of _ is_digit s] by (simp add: list_all_iff)
  then show "n < 256 \<and> s = show_octet n @ rest \<and> (rest = [] \<or> \<not> is_digit (hd rest))"
    using n hd_dropWhile [of is_digit s] by auto
next
  assume a: "n < 256 \<and> s = show_octet n @ rest \<and> (rest = [] \<or> \<not> is_digit (hd rest))"
  then have d: "\<forall>c \<in> set (show_octet n). is_digit c"
    using show_octet_digits [of n] by (simp add: list_all_iff)
  have "takeWhile is_digit rest = []" "dropWhile is_digit rest = rest"
    using a by (cases rest; auto)+
  then have "takeWhile is_digit s = show_octet n" "dropWhile is_digit s = rest"
    using a d by (simp_all add: takeWhile_append2 dropWhile_append2)
  then show "read_octet s = Some (n, rest)"
    using a show_octet_shape [of n] show_octet_value [of n] by (simp add: read_octet_def Let_def)
qed

lemma read_dot_Some: "read_dot s = Some rest \<longleftrightarrow> s = CHR ''.'' # rest"
  by (auto simp: read_dot_def split: list.splits)

lemma octets_from_be:
  "octets ip = [a, b, c, d] \<longleftrightarrow>
     a < 256 \<and> b < 256 \<and> c < 256 \<and> d < 256 \<and> ip = from_be [of_nat a, of_nat b, of_nat c, of_nat d]"
proof
  assume o: "octets ip = [a, b, c, d]"
  then obtain w x y z where t: "to_be 4 ip = [w, x, y, z]" "a = unat w" "b = unat x" "c = unat y" "d = unat z"
    by (auto simp: octets_def)
  then have "ip = from_be [w, x, y, z]" by (metis be32.dec_enc)
  with t show "a < 256 \<and> b < 256 \<and> c < 256 \<and> d < 256 \<and> ip = from_be [of_nat a, of_nat b, of_nat c, of_nat d]"
    by simp
next
  assume r: "a < 256 \<and> b < 256 \<and> c < 256 \<and> d < 256 \<and> ip = from_be [of_nat a, of_nat b, of_nat c, of_nat d]"
  then have "to_be 4 ip = [of_nat a, of_nat b, of_nat c, of_nat d]" by (simp add: be32.enc_dec)
  with r show "octets ip = [a, b, c, d]" by (simp add: octets_def unat_of_nat_u8)
qed

lemma octets_cases: obtains a b c d where "octets ip = [a, b, c, d]"
  using length_to_be [of 4 ip] unfolding octets_def
  by (auto simp del: length_to_be simp: length_Suc_conv eval_nat_numeral)

lemma parse_v4_Some: "parse_v4 s = Some ip \<longleftrightarrow> s = show_v4 ip"
proof -
  obtain a b c d where o: "octets ip = [a, b, c, d]" by (rule octets_cases)
  have shown: "show_v4 ip = show_octet a @ ''.'' @ show_octet b @ ''.'' @ show_octet c @ ''.'' @ show_octet d"
    by (simp add: show_v4_def o)
  have ip: "a < 256" "b < 256" "c < 256" "d < 256" "ip = from_be [of_nat a, of_nat b, of_nat c, of_nat d]"
    using o by (simp_all add: octets_from_be)
  have len: "length (show_v4 ip) \<le> 15"
    using show_octet_shape [of a] show_octet_shape [of b] show_octet_shape [of c] show_octet_shape [of d] ip(1-4)
    unfolding shown by simp
  show ?thesis
  proof
    assume "parse_v4 s = Some ip"
    then obtain a' b' c' d' s1 s2 s3 s4 s5 s6 where
      r: "read_octet s = Some (a', s1)" "read_dot s1 = Some s2" "read_octet s2 = Some (b', s3)"
        "read_dot s3 = Some s4" "read_octet s4 = Some (c', s5)" "read_dot s5 = Some s6"
        "read_octet s6 = Some (d', [])" "ip = from_be [of_nat a', of_nat b', of_nat c', of_nat d']"
      by (auto simp: parse_v4_def split: if_splits bind_splits)
    then have "octets ip = [a', b', c', d']" by (simp add: octets_from_be read_octet_Some)
    with o have eq: "a = a'" "b = b'" "c = c'" "d = d'" by simp_all
    show "s = show_v4 ip" using r(1-7) unfolding shown eq by (simp add: read_octet_Some read_dot_Some)
  next
    assume s: "s = show_v4 ip"
    have "read_octet s = Some (a, CHR ''.'' # show_octet b @ ''.'' @ show_octet c @ ''.'' @ show_octet d)"
      "read_octet (show_octet b @ ''.'' @ show_octet c @ ''.'' @ show_octet d)
        = Some (b, CHR ''.'' # show_octet c @ ''.'' @ show_octet d)"
      "read_octet (show_octet c @ ''.'' @ show_octet d) = Some (c, CHR ''.'' # show_octet d)"
      "read_octet (show_octet d) = Some (d, [])"
      using ip(1-4) unfolding s shown by (simp_all add: read_octet_Some is_digit_dot)
    with len ip(5) show "parse_v4 s = Some ip" by (simp add: parse_v4_def s read_dot_def)
  qed
qed

end
