(* ===== verification/Ip_Props.thy ===== *)
theory Ip_Props
  imports Ip_Packet
begin

text \<open>
  The Internet checksum of \<open>client/tun/src/packet/checksum.rs\<close> is the one's-complement sum of RFC
  1071, and the packets the daemon builds pass the check of \<open>ipv4.rs\<close> and parse to what they were
  built from.
\<close>

section \<open>The reference checksum\<close>

text \<open>The sum of the 16-bit words over the naturals, and its one's-complement representative.\<close>

fun word_sum :: "bytes \<Rightarrow> nat" where
  "word_sum (a # b # rest) = unat a * 256 + unat b + word_sum rest"
| "word_sum [a] = unat a * 256"
| "word_sum [] = 0"

definition ones_complement :: "nat \<Rightarrow> nat" where
  "ones_complement n = (if n = 0 then 0 else (n - 1) mod 65535 + 1)"

lemma word_sum_bound: "word_sum xs \<le> 65535 * ((length xs + 1) div 2)"
proof (induction xs rule: word_sum.induct)
  case (1 a b rest)
  have "unat a * 256 + unat b \<le> 65535" using unat_u8_less [of a] unat_u8_less [of b] by linarith
  with 1 show ?case by simp
next
  case (2 a)
  then show ?case using unat_u8_less [of a] by (simp del: unat_u8_less)
qed simp

lemma unat_u8_u32 [simp]: "unat (ucast (a :: u8) :: u32) = unat a"
  using unat_u8_less [of a] by (simp add: unsigned_ucast_eq take_bit_nat_eq_self del: unat_u8_less)

lemma unat_pair: "unat (ucast (from_be [a, b] :: u16) :: u32) = unat a * 256 + unat b"
proof -
  have "unat a * 256 + unat b < 2 ^ 16"
    using unat_u8_less [of a] unat_u8_less [of b] by (simp del: unat_u8_less)
  moreover have "nat_of_be [a, b] = unat a * 256 + unat b" by (simp add: nat_of_be_def)
  ultimately have "unat (from_be [a, b] :: u16) = unat a * 256 + unat b"
    by (simp only: from_be_def unat_of_nat) simp
  then show ?thesis
    using unsigned_less [of "from_be [a, b] :: u16", where ?'a = nat]
    by (simp add: unsigned_ucast_eq take_bit_nat_eq_self)
qed

lemma unat_high: "unat (push_bit 8 (ucast (a :: u8) :: u32)) = unat a * 256"
  using unat_u8_less [of a]
  by (simp add: push_bit_eq_mult unat_word_ariths del: unat_u8_less)

lemma sum_words_nat:
  "unat s + word_sum xs < 2 ^ 32 \<Longrightarrow> unat (sum_words s xs) = unat s + word_sum xs"
proof (induction s xs rule: sum_words.induct)
  case (1 s a b rest)
  then have "unat (add_word s a b) = unat s + (unat a * 256 + unat b)"
    by (simp add: add_word_def unat_word_ariths unat_pair)
  with 1 show ?case by simp
next
  case (2 s a)
  then show ?case by (simp add: unat_word_ariths unat_high)
qed simp

text \<open>Folding keeps the sum modulo 65535 and ends below 65536; it is 0 only for 0.\<close>

lemma fold_carries_ones: "unat (fold_carries s) = ones_complement (unat s)"
proof (induction s rule: fold_carries.induct)
  case (1 s)
  show ?case
  proof (cases "drop_bit 16 s = 0")
    case True
    then have "unat s < 65536" by (simp add: high_half_zero)
    then have "ones_complement (unat s) = unat s"
      by (cases "unat s = 65535") (auto simp: ones_complement_def)
    with True show ?thesis by (subst fold_carries.simps) simp
  next
    case False
    let ?t = "(s AND 0xFFFF) + drop_bit 16 s"
    have big: "65536 \<le> unat s" using False by (simp add: high_half_zero)
    have t: "unat ?t = unat s mod 65536 + unat s div 65536" by (rule fold_round)
    have q: "0 < unat s div 65536" using big by (simp add: div_greater_zero_iff)
    have s: "unat s = unat s div 65536 * 65536 + unat s mod 65536" by simp
    have "unat s - 1 = unat ?t - 1 + 65535 * (unat s div 65536)" using t q s by linarith
    then have "(unat s - 1) mod 65535 = (unat ?t - 1) mod 65535" by simp
    moreover have "unat ?t \<noteq> 0" "unat s \<noteq> 0" using t q big by auto
    ultimately have "ones_complement (unat ?t) = ones_complement (unat s)"
      by (simp add: ones_complement_def)
    with 1 False show ?thesis by (subst fold_carries.simps) simp
  qed
qed

lemma ones_complement_le: "ones_complement n \<le> 65535"
  using mod_less_divisor [of 65535 "n - 1"] by (auto simp: ones_complement_def)

lemma unat_low_not: "unat s \<le> 65535 \<Longrightarrow> unat (ucast (NOT s) :: u16) = 65535 - unat s" for s :: u32
proof -
  assume s: "unat s \<le> 65535"
  have "NOT s = - 1 - s" by (simp add: not_eq_complement)
  moreover have "unat (- 1 - s) = unat (- 1 :: u32) - unat s"
    using word_n1_ge [of s] by (simp only: unat_sub)
  moreover have "unat (- 1 :: u32) = 4294967295"
    by (simp add: unsigned_minus_1_eq_mask mask_eq_exp_minus_1)
  ultimately have "unat (NOT s) = 65535 * 65536 + (65535 - unat s)" using s by simp
  then have "unat (NOT s) mod 65536 = (65535 - unat s) mod 65536" by (simp only: mod_mult_self3)
  then have "unat (NOT s) mod 65536 = 65535 - unat s" by simp
  then show ?thesis by (simp add: unsigned_ucast_eq take_bit_eq_mod)
qed

section \<open>A built packet is valid\<close>

lemma word_sum_append: "even (length xs) \<Longrightarrow> word_sum (xs @ ys) = word_sum xs + word_sum ys"
  by (induction xs rule: word_sum.induct) auto

text \<open>Storing the checksum over a zero field makes the sum a multiple of 65535.\<close>

lemma checksum_bytes: "unat (ucast (drop_bit 8 c) :: u8) * 256 + unat (ucast (c AND 0xFF) :: u8) = unat c"
  for c :: u16
proof -
  have "unat (drop_bit 8 c) = unat c div 256" by (simp add: drop_bit_eq_div unat_div_distrib)
  moreover have "unat c < 256 * 256" using unsigned_less [of c, where ?'a = nat] by simp
  then have "unat c div 256 < 256" by (simp add: less_mult_imp_div_less)
  ultimately have hi: "unat (ucast (drop_bit 8 c) :: u8) = unat c div 256"
    by (simp add: unsigned_ucast_eq take_bit_eq_mod)
  have "c AND 0xFF = take_bit 8 c" by (simp add: take_bit_eq_mask mask_eq_exp_minus_1)
  then have "unat (c AND 0xFF) = unat c mod 256"
    using unsigned_take_bit_eq [of 8 c, where ?'a = nat] by (simp add: take_bit_eq_mod)
  then have lo: "unat (ucast (c AND 0xFF) :: u8) = unat c mod 256"
    by (simp add: unsigned_ucast_eq take_bit_eq_mod)
  show ?thesis unfolding hi lo by simp
qed

lemma put_checksum_append:
  assumes "length pre = k"
  shows "put_checksum (pre @ x # y # post) k c
    = pre @ ucast (drop_bit 8 c) # ucast (c AND 0xFF) # post"
  using assms by (simp add: put_checksum_def list_update_append)

lemma sum_fits: "length xs < 131072 \<Longrightarrow> unat (sum_words 0 xs) = word_sum xs"
proof -
  assume "length xs < 131072"
  then have "(length xs + 1) div 2 \<le> 65536" by linarith
  then have "65535 * ((length xs + 1) div 2) \<le> 65535 * 65536" by (rule mult_le_mono2)
  with word_sum_bound [of xs] have "word_sum xs \<le> 65535 * 65536" by (rule le_trans)
  then show ?thesis by (simp add: sum_words_nat)
qed

lemma checksum_nat:
  "length xs < 131072 \<Longrightarrow> unat (compute_checksum xs) = 65535 - ones_complement (word_sum xs)"
  using ones_complement_le by (simp add: compute_checksum_def unat_low_not fold_carries_ones sum_fits)

text \<open>
  The checksum is the complement of the one's-complement sum of the 16-bit words.
\<close>
theorem ip_checksum_is_ones_complement:
  assumes "length data < 131072"
  shows "unat (compute_checksum data) = 65535 - ones_complement (word_sum data)"
  using assms by (rule checksum_nat)

lemma ones_complement_full:
  assumes "0 < n"
  shows "ones_complement (n + (65535 - ones_complement n)) = 65535"
proof -
  define q r where "q = (n - 1) div 65535" and "r = (n - 1) mod 65535"
  have n: "n = q * 65535 + r + 1" using assms unfolding q_def r_def by simp
  have r: "r \<le> 65534" "ones_complement n = r + 1"
    using mod_less_divisor [of 65535 "n - 1"] assms by (auto simp: ones_complement_def r_def)
  then have "n + (65535 - ones_complement n) = q * 65535 + 65534 + 1" using n by linarith
  moreover have "(q * 65535 + 65534) mod 65535 = (65534 :: nat)" by (simp add: mod_mult_self3)
  ultimately show ?thesis by (simp add: ones_complement_def)
qed

lemma stored_checksum_folds:
  assumes "length (pre @ 0 # 0 # post) < 131072" and "even (length pre)"
    and "0 < word_sum (pre @ 0 # 0 # post)"
  shows "fold_carries (sum_words 0 (put_checksum (pre @ 0 # 0 # post) (length pre)
      (compute_checksum (pre @ 0 # 0 # post)))) = 0xFFFF"
proof -
  let ?xs = "pre @ 0 # 0 # post"
  let ?c = "compute_checksum ?xs"
  let ?ys = "put_checksum ?xs (length pre) ?c"
  have len: "length ?ys = length ?xs" by (simp add: put_checksum_def)
  have "word_sum ?ys = word_sum ?xs + unat ?c"
    using assms(2) checksum_bytes [of ?c]
    by (simp add: put_checksum_append word_sum_append)
  then have "ones_complement (word_sum ?ys) = 65535"
    using ones_complement_full [OF assms(3)] checksum_nat [OF assms(1)] by simp
  then have "unat (fold_carries (sum_words 0 ?ys)) = 65535"
    using assms(1) len by (simp add: fold_carries_ones sum_fits)
  then show ?thesis by (simp add: word_unat_eq_iff)
qed

text \<open>The two halves of a built packet before their checksums are stored.\<close>

definition echo_start :: "u16 \<Rightarrow> u16 \<Rightarrow> bytes" where
  "echo_start tlen ident =
     [0x45, 0x00] @ to_be 2 tlen @ to_be 2 ident @ to_be 2 (0x4000 :: u16) @ [64, 1]"

definition echo_header :: "u32 \<Rightarrow> u32 \<Rightarrow> u16 \<Rightarrow> u16 \<Rightarrow> bytes" where
  "echo_header src dst tlen ident = echo_start tlen ident @ 0 # 0 # to_be 4 src @ to_be 4 dst"

definition echo_body :: "u16 \<Rightarrow> u16 \<Rightarrow> bytes \<Rightarrow> bytes" where
  "echo_body ident seqno payload = [8, 0] @ 0 # 0 # to_be 2 ident @ to_be 2 seqno @ payload"

lemma length_put_checksum [simp]: "length (put_checksum p k c) = length p"
  by (simp add: put_checksum_def)

lemma length_echo [simp]:
  "length (echo_start tlen ident) = 10" "length (echo_header src dst tlen ident) = 20"
  "length (echo_body ident seqno payload) = 8 + length payload"
  by (simp_all add: echo_start_def echo_header_def echo_body_def)

lemma put_checksum_left: "k + 1 < length xs \<Longrightarrow> put_checksum (xs @ ys) k c = put_checksum xs k c @ ys"
  by (simp add: put_checksum_def list_update_append)

lemma put_checksum_right:
  "length xs = n \<Longrightarrow> put_checksum (xs @ ys) (n + k) c = xs @ put_checksum ys k c"
  by (simp add: put_checksum_def list_update_append)

lemma to_be_zero: "to_be 2 (0 :: u16) = [0, 0]"
  by code_simp

lemma echo_split:
  fixes src dst ident seqno payload
  defines "h \<equiv> echo_header src dst (of_nat (28 + length payload)) ident"
    and "b \<equiv> echo_body ident seqno payload"
  shows "build_icmp_echo_request src dst ident seqno payload
    = put_checksum h 10 (compute_checksum h) @ put_checksum b 2 (compute_checksum b)"
proof -
  let ?p0 = "[0x45, 0x00] @ to_be 2 (of_nat (28 + length payload) :: u16) @ to_be 2 ident
      @ to_be 2 (0x4000 :: u16) @ [64, 1] @ to_be 2 (0 :: u16) @ to_be 4 src @ to_be 4 dst
      @ [8, 0] @ to_be 2 (0 :: u16) @ to_be 2 ident @ to_be 2 seqno @ payload"
  have p0: "?p0 = h @ b"
    by (simp add: h_def b_def echo_header_def echo_start_def echo_body_def to_be_zero)
  have len: "length h = 20" by (simp add: h_def)
  have p1: "put_checksum (h @ b) 10 c = put_checksum h 10 c @ b" for c
    using len by (simp add: put_checksum_left)
  have p2: "put_checksum (put_checksum h 10 c @ b) 22 d = put_checksum h 10 c @ put_checksum b 2 d"
    for c d using put_checksum_right [of "put_checksum h 10 c" 20 b 2 d] len by simp
  have sz: "20 + 8 + length payload = 28 + length payload" by simp
  show ?thesis
    unfolding build_icmp_echo_request_def Let_def sz p0 p1
    using len by (simp add: p2)
qed

lemma be16_at_chunk: "k + 2 \<le> length xs \<Longrightarrow> be16_at xs k = from_be (chunk k 2 xs)"
  by (simp add: be16_at_def chunk_two)

lemma addr_chunk:
  assumes "20 \<le> length xs"
  shows "ipv4_src_addr xs = from_be (chunk 12 4 xs)" and "ipv4_dst_addr xs = from_be (chunk 16 4 xs)"
  using chunk_four [of 12 xs] chunk_four [of 16 xs] assms
  by (simp_all add: ipv4_src_addr_def ipv4_dst_addr_def)

text \<open>The fields of the header, whatever checksum bytes it holds.\<close>

lemma echo_fields:
  fixes src dst tlen ident x y rest
  defines "p \<equiv> (echo_start tlen ident @ x # y # to_be 4 src @ to_be 4 dst) @ rest"
  shows "ipv4_new p = Inr p" and "ipv4_header_len p = 20" and "ipv4_total_len p = tlen"
    and "ipv4_protocol p = Icmp" and "ipv4_src_addr p = src" and "ipv4_dst_addr p = dst"
    and "ipv4_identification p = ident" and "dont_fragment p" and "\<not> is_fragment p"
proof -
  have len: "20 \<le> length p" by (simp add: p_def)
  have nth: "p ! 0 = 0x45" "p ! 9 = 1" by (simp_all add: p_def echo_start_def nth_append)
  then show hl: "ipv4_header_len p = 20" by (simp add: ipv4_header_len_def)
  have "version_nibble p = 4" using nth by (simp add: version_nibble_def)
  then show "ipv4_new p = Inr p" using len hl by (simp add: ipv4_new_def)
  show "ipv4_protocol p = Icmp" using nth by (simp add: ipv4_protocol_def protocol_from_def)
  show "ipv4_total_len p = tlen" "ipv4_identification p = ident"
    using len by (simp_all add: ipv4_total_len_def ipv4_identification_def be16_at_chunk p_def
        echo_start_def chunk_past chunk_append_skip chunk_0_append be16.dec_enc)
  show "ipv4_src_addr p = src" "ipv4_dst_addr p = dst"
    using len by (simp_all add: addr_chunk, simp_all add: p_def echo_start_def
        chunk_past chunk_append_skip chunk_0_append be32.dec_enc)
  have "chunk 6 2 p = to_be 2 (0x4000 :: u16)"
    by (simp add: p_def echo_start_def chunk_past chunk_append_skip chunk_0_append)
  moreover have "to_be 2 (0x4000 :: u16) = [0x40, 0]"
  proof -
    have "to_be 2 (0x4000 :: u16) = be_of_nat (Suc (Suc 0)) 16384"
      by (simp add: to_be_def numeral_2_eq_2 [symmetric])
    then show ?thesis by simp
  qed
  ultimately have f: "[p ! 6, p ! 7] = [0x40, 0]" using chunk_two [of 6 p] len by simp
  then show "dont_fragment p" by (simp add: dont_fragment_def)
  have "ipv4_flags_fragment p = 0x4000"
    using f by (simp add: ipv4_flags_fragment_def be16_at_def from_be_def nat_of_be_def)
  then show "\<not> is_fragment p" by (simp add: is_fragment_def)
qed

lemma echo_request_valid:
  assumes "length payload \<le> 65507"
  shows "let p = build_icmp_echo_request src dst ident seqno payload; body = ipv4_payload p
    in ip_new p = Inr (V4 p) \<and> verify_checksum p \<and> unat (ipv4_total_len p) = length p
      \<and> ipv4_protocol p = Icmp \<and> ipv4_src_addr p = src \<and> ipv4_dst_addr p = dst
      \<and> ipv4_identification p = ident \<and> dont_fragment p \<and> \<not> is_fragment p
      \<and> take 2 body = [8, 0] \<and> drop 4 body = to_be 2 ident @ to_be 2 seqno @ payload
      \<and> compute_checksum body = 0"
proof -
  let ?tlen = "of_nat (28 + length payload) :: u16"
  let ?h = "echo_header src dst ?tlen ident" and ?b = "echo_body ident seqno payload"
  let ?h' = "put_checksum ?h 10 (compute_checksum ?h)"
  let ?b' = "put_checksum ?b 2 (compute_checksum ?b)"
  let ?p = "build_icmp_echo_request src dst ident seqno payload"
  have p: "?p = ?h' @ ?b'" by (rule echo_split)
  have h': "?h' = echo_start ?tlen ident @ ucast (drop_bit 8 (compute_checksum ?h))
      # ucast (compute_checksum ?h AND 0xFF) # to_be 4 src @ to_be 4 dst"
    by (simp add: echo_header_def put_checksum_append)
  note fields = echo_fields [of ?tlen ident "ucast (drop_bit 8 (compute_checksum ?h))"
      "ucast (compute_checksum ?h AND 0xFF)" src dst ?b', folded h' p]
  have tlen: "unat ?tlen = 28 + length payload"
    using assms by (simp only: unat_of_nat) simp
  have fold: "fold_carries (sum_words 0 ?h') = 0xFFFF"
    using stored_checksum_folds [of "echo_start ?tlen ident" "to_be 4 src @ to_be 4 dst"]
    by (simp add: echo_header_def [symmetric]) (simp add: echo_header_def echo_start_def)
  have body: "ipv4_payload ?p = ?b'" "take 20 ?p = ?h'" "length ?p = 28 + length payload"
    using fields(2,3) tlen p by (simp_all add: ipv4_payload_def)
  have b: "?b = [8, 0] @ 0 # 0 # to_be 2 ident @ to_be 2 seqno @ payload"
    by (simp add: echo_body_def)
  have "fold_carries (sum_words 0 (put_checksum ?b (length [8, 0 :: u8]) (compute_checksum ?b)))
      = 0xFFFF"
    unfolding b by (rule stored_checksum_folds) (use assms in simp_all)
  then have "fold_carries (sum_words 0 ?b') = 0xFFFF" by (simp add: numeral_2_eq_2)
  then have "compute_checksum ?b' = 0" by (simp add: compute_checksum_def)
  moreover have "take 2 ?b' = [8, 0]" "drop 4 ?b' = to_be 2 ident @ to_be 2 seqno @ payload"
    using put_checksum_append [of "[8, 0]" 2 0 0] by (simp_all add: echo_body_def)
  moreover have "version_nibble ?p = 4" "?p \<noteq> []"
    using fields(1) by (auto simp: ipv4_new_def split: if_splits)
  then have "ip_new ?p = Inr (V4 ?p)" using fields(1) by (simp add: ip_new_def)
  moreover have "verify_checksum ?p"
    using fields(2) fold body(2,3) by (simp add: verify_checksum_def)
  ultimately show ?thesis using fields tlen body by (simp add: Let_def)
qed

text \<open>
  A built echo request parses, both of its checksums verify, and its fields are those it was
  built from.
\<close>
theorem ip_echo_request_valid:
  assumes "length payload \<le> 65507"
  shows "let p = build_icmp_echo_request src dst ident seqno payload; body = ipv4_payload p
    in ip_new p = Inr (V4 p) \<and> verify_checksum p \<and> unat (ipv4_total_len p) = length p
      \<and> ipv4_protocol p = Icmp \<and> ipv4_src_addr p = src \<and> ipv4_dst_addr p = dst
      \<and> ipv4_identification p = ident \<and> dont_fragment p \<and> \<not> is_fragment p
      \<and> take 2 body = [8, 0] \<and> drop 4 body = to_be 2 ident @ to_be 2 seqno @ payload
      \<and> compute_checksum body = 0"
  using assms by (rule echo_request_valid)

end
