(* ===== verification/Dp_Source.thy ===== *)
theory Dp_Source
  imports Ip_Text Ip_Props
begin

text \<open>
  Source normalisation of the data plane, \<open>client/daemon/src/dataplane/normalization.rs\<close>: an
  outbound IPv4 packet from a local address outside the overlay gets the node's virtual address
  as its source, its header checksum recomputed and its TCP or UDP checksum updated in place.
\<close>

section \<open>Overlay networks\<close>

record ipv4_cidr =
  network :: u32
  cidr_mask :: u32

text \<open>\<open>str::split_once\<close>.\<close>

definition split_once :: "char \<Rightarrow> string \<Rightarrow> (string \<times> string) option" where
  "split_once d s =
     (if d \<in> set s then Some (takeWhile (\<lambda>c. c \<noteq> d) s, tl (dropWhile (\<lambda>c. c \<noteq> d) s)) else None)"

definition cidr_parse :: "string \<Rightarrow> ipv4_cidr option" where
  "cidr_parse cidr =
     (case split_once (CHR ''/'') cidr of
        None \<Rightarrow> None
      | Some (ip, prefix) \<Rightarrow>
          (case parse_v4 ip of
             None \<Rightarrow> None
           | Some ip \<Rightarrow>
               (case parse_u32 prefix of
                  None \<Rightarrow> None
                | Some prefix \<Rightarrow>
                    if prefix > 32 then None
                    else
                      let m = (if prefix = 0 then 0 else push_bit (unat (32 - prefix)) (- 1))
                      in Some \<lparr>network = ip AND m, cidr_mask = m\<rparr>)))"

definition cidr_contains :: "ipv4_cidr \<Rightarrow> u32 \<Rightarrow> bool" where
  "cidr_contains c ip \<longleftrightarrow> ip AND cidr_mask c = network c"

section \<open>Checksums\<close>

function fold_checksum_sum :: "u32 \<Rightarrow> u32" where
  "fold_checksum_sum s =
     (if s > 0xFFFF then fold_checksum_sum ((s AND 0xFFFF) + drop_bit 16 s) else s)"
  by pat_completeness auto

lemma above_16: "s > 0xFFFF \<longleftrightarrow> drop_bit 16 s \<noteq> 0" for s :: u32
  by (auto simp: high_half_zero word_less_nat_alt)

termination fold_checksum_sum
proof (relation "measure unat")
  fix s :: u32
  assume "s > 0xFFFF"
  then have "65536 \<le> unat s" by (simp add: above_16 high_half_zero)
  then have "0 < unat s div 65536" "unat s = unat s div 65536 * 65536 + unat s mod 65536"
    by (simp_all add: div_greater_zero_iff)
  then have "unat s mod 65536 + unat s div 65536 < unat s" by linarith
  then show "((s AND 0xFFFF) + drop_bit 16 s, s) \<in> measure unat" by (simp add: fold_round)
qed simp

declare fold_checksum_sum.simps [simp del]

text \<open>The sum of \<open>internet_checksum\<close> is folded after every word.\<close>

fun sum_folded :: "u32 \<Rightarrow> bytes \<Rightarrow> u32" where
  "sum_folded s (a # b # rest) = sum_folded (fold_checksum_sum (s + ucast (from_be [a, b] :: u16))) rest"
| "sum_folded s [a] = s + push_bit 8 (ucast a)"
| "sum_folded s [] = s"

definition internet_checksum :: "bytes \<Rightarrow> u16" where
  "internet_checksum data = ucast (NOT (fold_checksum_sum (sum_folded 0 data)))"

definition checksum_replace_word :: "u32 \<Rightarrow> u16 \<Rightarrow> u16 \<Rightarrow> u32" where
  "checksum_replace_word s old new = fold_checksum_sum (s + ucast (NOT old) + ucast new)"

definition checksum_replace_ipv4_addr :: "u16 \<Rightarrow> u32 \<Rightarrow> u32 \<Rightarrow> u16" where
  "checksum_replace_ipv4_addr checksum old_src new_src =
     (let old = to_be 4 old_src; new = to_be 4 new_src;
          s0 = ucast (NOT checksum);
          s1 = checksum_replace_word s0 (from_be [old ! 0, old ! 1]) (from_be [new ! 0, new ! 1]);
          s2 = checksum_replace_word s1 (from_be [old ! 2, old ! 3]) (from_be [new ! 2, new ! 3])
      in ucast (NOT (fold_checksum_sum s2)))"

section \<open>Rewriting a packet\<close>

definition ipv4_is_fragment :: "bytes \<Rightarrow> bool" where
  "ipv4_is_fragment packet \<longleftrightarrow> be16_at packet 6 AND 0x3FFF \<noteq> 0"

definition rewrite_ipv4_header_checksum :: "bytes \<Rightarrow> nat \<Rightarrow> bytes" where
  "rewrite_ipv4_header_checksum packet ihl =
     (let p0 = packet[10 := 0, 11 := 0]
      in copy_at 10 (to_be 2 (internet_checksum (take ihl p0))) p0)"

definition transport_checksum_offset :: "bytes \<Rightarrow> nat \<Rightarrow> nat option" where
  "transport_checksum_offset packet ihl =
     (if length packet < ihl then None
      else
        let transport_len = length packet - ihl
        in if packet ! 9 = 6 \<and> transport_len \<ge> 20 then Some (ihl + 16)
           else if packet ! 9 = 17 \<and> transport_len \<ge> 8 then Some (ihl + 6)
           else None)"

definition rewrite_transport_checksum_for_ipv4_source ::
  "bytes \<Rightarrow> nat \<Rightarrow> u32 \<Rightarrow> u32 \<Rightarrow> bytes" where
  "rewrite_transport_checksum_for_ipv4_source packet ihl old_src new_src =
     (case transport_checksum_offset packet ihl of
        None \<Rightarrow> packet
      | Some k \<Rightarrow>
          let current = be16_at packet k
          in if packet ! 9 = 17 \<and> current = 0 then packet
             else
               let updated = checksum_replace_ipv4_addr current old_src new_src;
                   updated = (if packet ! 9 = 17 \<and> updated = 0 then 0xFFFF else updated)
               in copy_at k (to_be 2 updated) packet)"

definition normalize_ipv4_source :: "bytes \<Rightarrow> u32 \<Rightarrow> u32 \<Rightarrow> bytes option" where
  "normalize_ipv4_source packet old_src new_src =
     (if length packet < 20 \<or> drop_bit 4 (packet ! 0) \<noteq> 4 then None
      else
        let ihl = unat (packet ! 0 AND 0x0F) * 4
        in if ihl < 20 \<or> length packet < ihl then None
           else
             let total_len = unat (be16_at packet 2)
             in if total_len < ihl \<or> length packet < total_len then None
                else if ipv4_is_fragment packet then None
                else if from_be [packet ! 12, packet ! 13, packet ! 14, packet ! 15] \<noteq> old_src
                then None
                else
                  let n0 = take total_len packet;
                      n1 = copy_at 12 (to_be 4 new_src) n0;
                      n2 = rewrite_ipv4_header_checksum n1 ihl
                  in Some (rewrite_transport_checksum_for_ipv4_source n2 ihl old_src new_src))"

datatype source_normalization = Normalized bytes | BlockedOverlaySpoof | Unsupported

definition normalize_overlay_source ::
  "bytes \<Rightarrow> string \<Rightarrow> string \<Rightarrow> ipv4_cidr option \<Rightarrow> source_normalization" where
  "normalize_overlay_source packet old_src new_src overlay_v4 =
     (case overlay_v4 of
        None \<Rightarrow> Unsupported
      | Some overlay_v4 \<Rightarrow>
          (case parse_v4 old_src of
             None \<Rightarrow> Unsupported
           | Some old_src \<Rightarrow>
               (case parse_v4 new_src of
                  None \<Rightarrow> Unsupported
                | Some new_src \<Rightarrow>
                    if cidr_contains overlay_v4 old_src then BlockedOverlaySpoof
                    else
                      (case normalize_ipv4_source packet old_src new_src of
                         Some q \<Rightarrow> Normalized q
                       | None \<Rightarrow> Unsupported))))"

section \<open>The two checksum routines agree\<close>

lemma fold_checksum_sum_eq: "fold_checksum_sum s = fold_carries s"
proof (induction s rule: fold_carries.induct)
  case (1 s)
  show ?case
  proof (cases "drop_bit 16 s = 0")
    case True
    then have "\<not> s > 0xFFFF" by (simp only: above_16 simp_thms)
    with True show ?thesis by (subst fold_carries.simps, subst fold_checksum_sum.simps) simp
  next
    case False
    then have "s > 0xFFFF" by (simp only: above_16 simp_thms)
    then have "fold_checksum_sum s = fold_checksum_sum ((s AND 0xFFFF) + drop_bit 16 s)"
      by (subst fold_checksum_sum.simps) simp
    also have "\<dots> = fold_carries ((s AND 0xFFFF) + drop_bit 16 s)" by (rule 1 [OF False])
    also have "\<dots> = fold_carries s" using False by (subst (2) fold_carries.simps) simp
    finally show ?thesis .
  qed
qed

lemma ones_complement_mod: "ones_complement n mod 65535 = n mod 65535"
proof (cases n)
  case (Suc m)
  have "(m mod 65535 + 1) mod 65535 = (m + 1) mod 65535" by (rule mod_add_left_eq)
  then show ?thesis using Suc by (simp only: ones_complement_def) simp
qed (simp add: ones_complement_def)

lemma ones_complement_add: "ones_complement (ones_complement a + b) = ones_complement (a + b)"
proof (cases a)
  case (Suc m)
  have "(m mod 65535 + b) mod 65535 = (m + b) mod 65535" by (rule mod_add_left_eq)
  then show ?thesis using Suc by (simp add: ones_complement_def)
qed (simp add: ones_complement_def)

lemma ones_complement_0: "ones_complement n = 0 \<longleftrightarrow> n = 0"
  by (simp add: ones_complement_def)

lemma ones_complement_small: "n \<le> 65535 \<Longrightarrow> ones_complement n = n"
  by (cases "n = 65535") (auto simp: ones_complement_def)

lemma sum_folded_nat:
  "unat s \<le> 65535 \<Longrightarrow> unat (fold_checksum_sum (sum_folded s xs)) = ones_complement (unat s + word_sum xs)"
proof (induction s xs rule: sum_folded.induct)
  case (1 s a b rest)
  let ?w = "unat a * 256 + unat b"
  have w: "?w \<le> 65535" using unat_u8_less [of a] unat_u8_less [of b] by linarith
  then have "unat (s + ucast (from_be [a, b] :: u16)) = unat s + ?w"
    using 1(2) by (simp add: unat_word_ariths unat_pair)
  then have f: "unat (fold_checksum_sum (s + ucast (from_be [a, b] :: u16))) = ones_complement (unat s + ?w)"
    by (simp add: fold_checksum_sum_eq fold_carries_ones)
  then show ?case
    using 1(1) ones_complement_le [of "unat s + ?w"]
    by (simp add: ones_complement_add add.assoc)
next
  case (2 s a)
  then show ?case using unat_u8_less [of a]
    by (simp add: fold_checksum_sum_eq fold_carries_ones unat_word_ariths unat_high del: unat_u8_less)
qed (simp add: fold_checksum_sum_eq fold_carries_ones)

lemma internet_checksum_nat: "unat (internet_checksum xs) = 65535 - ones_complement (word_sum xs)"
  using sum_folded_nat [of 0 xs] ones_complement_le [of "word_sum xs"]
  by (simp add: internet_checksum_def unat_low_not)

text \<open>
  C37: The checksum of the data plane, which folds after every word, and the one of the packet
  library, which folds once at the end, agree on all data below 128 KiB.
\<close>
theorem checksum_routines_agree:
  assumes "length data < 131072"
  shows "internet_checksum data = compute_checksum data"
  using internet_checksum_nat [of data] checksum_nat [OF assms] by (simp add: word_unat_eq_iff)

section \<open>Replacing bytes of a packet\<close>

lemma nth_copy_at:
  "k + length bs \<le> length p \<Longrightarrow> i < length p \<Longrightarrow> i < k \<or> k + length bs \<le> i
    \<Longrightarrow> copy_at k bs p ! i = p ! i"
  by (auto simp: copy_at_def nth_append min_def)

lemma take_copy_at:
  assumes "k + length bs \<le> n" and "n \<le> length p"
  shows "take n (copy_at k bs p) = copy_at k bs (take n p)"
proof -
  have "k \<le> n" "k \<le> length p" "length bs \<le> n - k" using assms by simp_all
  then show ?thesis by (simp add: copy_at_def min_absorb1 min_absorb2 drop_take)
qed

lemma take_copy_at_past: "n \<le> k \<Longrightarrow> k \<le> length p \<Longrightarrow> take n (copy_at k bs p) = take n p"
  by (simp add: copy_at_def min_def)

lemma drop_copy_at:
  "n \<le> k \<Longrightarrow> k + length bs \<le> length p \<Longrightarrow> drop n (copy_at k bs p) = copy_at (k - n) bs (drop n p)"
  by (simp add: copy_at_def drop_take)

lemma drop_copy_at_before:
  assumes "k + length bs \<le> n" and "n \<le> length p"
  shows "drop n (copy_at k bs p) = drop n p"
proof -
  have "copy_at k bs p = (take k p @ bs) @ drop (k + length bs) p" by (simp add: copy_at_def)
  moreover have l: "length (take k p @ bs) = k + length bs" using assms by simp
  then have "drop n (take k p @ bs) = []" using assms by simp
  ultimately show ?thesis using assms l by (simp only: drop_append) simp
qed

lemma chunk_copy_at: "k \<le> length p \<Longrightarrow> chunk k (length bs) (copy_at k bs p) = bs"
  by (simp add: copy_at_def chunk_def)

lemma chunk_copy_at_apart:
  "m + n \<le> k \<or> k + length bs \<le> m \<Longrightarrow> k + length bs \<le> length p
    \<Longrightarrow> chunk m n (copy_at k bs p) = chunk m n p"
proof (cases "k + length bs \<le> m \<and> m \<le> length p")
  case True
  then show ?thesis by (simp add: chunk_def drop_copy_at_before)
next
  case False
  assume a: "m + n \<le> k \<or> k + length bs \<le> m" "k + length bs \<le> length p"
  show ?thesis
  proof (cases "k + length bs \<le> m")
    case True
    with False a show ?thesis by (simp add: chunk_def)
  next
    case False
    with a have "m + n \<le> k" by simp
    then show ?thesis
      using a take_copy_at_past [of "m + n" k p bs] by (simp add: chunk_def take_drop add.commute)
  qed
qed

text \<open>An aligned write moves the word sum by the difference of the two words.\<close>

lemma word_sum_split3:
  assumes "even k" and "even n" and "k + n \<le> length p"
  shows "word_sum p = word_sum (take k p) + word_sum (chunk k n p) + word_sum (drop (k + n) p)"
proof -
  have "word_sum p = word_sum (take k p @ chunk k n p @ drop (k + n) p)"
    using chunk_split [OF assms(3)] by simp
  then show ?thesis
    using assms by (simp add: word_sum_append length_chunk)
qed

lemma word_sum_copy_at:
  assumes "even k" and "even (length bs)" and "k + length bs \<le> length p"
  shows "word_sum (copy_at k bs p) + word_sum (chunk k (length bs) p) = word_sum p + word_sum bs"
  using word_sum_split3 [OF assms] assms
  by (simp add: copy_at_def word_sum_append)

lemma word_sum_be: "word_sum (to_be 2 (w :: u16)) = unat w"
proof -
  have "chunk 0 2 (to_be 2 w) = to_be 2 w" by (simp add: chunk_def)
  then have "to_be 2 w = [to_be 2 w ! 0, to_be 2 w ! (0 + 1)]" by (metis chunk_two le_refl length_to_be add_0)
  then obtain a b where ab: "to_be 2 w = [a, b]" by blast
  then have "w = from_be [a, b]" using be16.dec_enc [of w] by simp
  moreover have "unat a * 256 + unat b < 65536"
    using unat_u8_less [of a] unat_u8_less [of b] by linarith
  moreover have "nat_of_be [a, b] = unat a * 256 + unat b" by (simp add: nat_of_be_def)
  ultimately have "unat w = unat a * 256 + unat b" by (simp only: from_be_def unat_of_nat) simp
  with ab show ?thesis by simp
qed

lemma word_sum_pair: "word_sum [a, b] = unat (from_be [a, b] :: u16)"
  using word_sum_be [of "from_be [a, b]"] be16.enc_dec [of "[a, b]"] by simp

section \<open>The incremental checksum\<close>

lemma ones_complement_valid: "ones_complement n = 65535 \<longleftrightarrow> 0 < n \<and> 65535 dvd n"
proof (cases n)
  case (Suc m)
  have "m mod 65535 = 65534 \<longleftrightarrow> (m + 1) mod 65535 = 0"
    by (simp add: mod_Suc)
  then show ?thesis using Suc by (simp add: ones_complement_def dvd_eq_mod_eq_0)
qed (simp add: ones_complement_def)

lemma unat_not_u16: "unat (NOT c) = 65535 - unat c" for c :: u16
proof -
  have "NOT c = - 1 - c" by (simp add: not_eq_complement)
  moreover have "unat (- 1 - c) = unat (- 1 :: u16) - unat c"
    using word_n1_ge [of c] by (simp only: unat_sub)
  ultimately show ?thesis by (simp add: unsigned_minus_1_eq_mask mask_eq_exp_minus_1)
qed

lemma unat_u16_le: "unat (c :: u16) \<le> 65535"
  using unsigned_less [of c, where ?'a = nat] by simp

lemma unat_u16_u32: "unat (ucast (c :: u16) :: u32) = unat c"
  using unat_u16_le [of c] by (simp add: unsigned_ucast_eq take_bit_nat_eq_self)

lemma replace_word_nat:
  assumes "unat s \<le> 65535"
  shows "unat (checksum_replace_word s old new) = ones_complement (unat s + (65535 - unat old) + unat new)"
proof -
  have "unat (s + ucast (NOT old) + ucast new) = unat s + (65535 - unat old) + unat new"
    using assms unat_u16_le [of new] by (simp add: unat_word_ariths unat_u16_u32 unat_not_u16)
  then show ?thesis by (simp add: checksum_replace_word_def fold_checksum_sum_eq fold_carries_ones)
qed

lemma to_be_4_words:
  fixes ip :: u32
  defines "b \<equiv> to_be 4 ip"
  shows "word_sum b = unat (from_be [b ! 0, b ! 1] :: u16) + unat (from_be [b ! 2, b ! 3] :: u16)"
proof -
  have c: "chunk 0 4 b = b" by (simp add: b_def chunk_def)
  have "chunk 0 4 b = [b ! 0, b ! 1] @ [b ! 2, b ! 3]"
    using chunk_four [of 0 b] by (simp add: b_def numeral_2_eq_2)
  then have "b = [b ! 0, b ! 1] @ [b ! 2, b ! 3]" unfolding c .
  then have "word_sum b = word_sum ([b ! 0, b ! 1] @ [b ! 2, b ! 3])" by (rule arg_cong)
  also have "\<dots> = word_sum [b ! 0, b ! 1] + word_sum [b ! 2, b ! 3]"
    by (rule word_sum_append) simp
  finally show ?thesis unfolding word_sum_pair .
qed

text \<open>
  Equation 3 of RFC 1624: replacing the address in a sum that verified leaves a sum that
  verifies.
\<close>

lemma replace_addr_valid:
  assumes "0 < r" and "65535 dvd r + word_sum (to_be 4 old) + unat c"
  shows "65535 dvd r + word_sum (to_be 4 new) + unat (checksum_replace_ipv4_addr c old new)"
proof -
  let ?o = "to_be 4 old" and ?n = "to_be 4 new"
  let ?o1 = "from_be [?o ! 0, ?o ! 1] :: u16" and ?o2 = "from_be [?o ! 2, ?o ! 3] :: u16"
  let ?n1 = "from_be [?n ! 0, ?n ! 1] :: u16" and ?n2 = "from_be [?n ! 2, ?n ! 3] :: u16"
  let ?s1 = "checksum_replace_word (ucast (NOT c)) ?o1 ?n1"
  let ?s2 = "checksum_replace_word ?s1 ?o2 ?n2"
  let ?c = "checksum_replace_ipv4_addr c old new"
  define S where "S = (65535 - unat c) + (65535 - unat ?o1) + unat ?n1 + (65535 - unat ?o2) + unat ?n2"
  have s1: "unat ?s1 = ones_complement ((65535 - unat c) + (65535 - unat ?o1) + unat ?n1)"
    using replace_word_nat [of "ucast (NOT c)"] by (simp add: unat_u16_u32 unat_not_u16)
  have "unat ?s2 = ones_complement (unat ?s1 + (65535 - unat ?o2) + unat ?n2)"
    using s1 ones_complement_le by (intro replace_word_nat) simp
  then have s2: "unat ?s2 = ones_complement S"
    unfolding s1 S_def add.assoc ones_complement_add by (simp only: add.assoc)
  have c: "unat ?c = 65535 - ones_complement S"
    using s2 ones_complement_le [of S]
    by (simp add: checksum_replace_ipv4_addr_def Let_def fold_checksum_sum_eq unat_low_not
        fold_carries_ones ones_complement_small)
  have "ones_complement S + unat ?c = 65535" using c ones_complement_le [of S] by simp
  then have "65535 dvd ones_complement S + unat ?c" by simp
  moreover have "(ones_complement S + unat ?c) mod 65535 = (S + unat ?c) mod 65535"
    by (rule mod_add_cong [OF ones_complement_mod refl])
  ultimately have y: "65535 dvd S + unat ?c" unfolding dvd_eq_mod_eq_0 by (rule subst [rotated])
  have "S + unat c + unat ?o1 + unat ?o2 = 65535 * 3 + (unat ?n1 + unat ?n2)"
    using unat_u16_le [of c] unat_u16_le [of ?o1] unat_u16_le [of ?o2] unfolding S_def by linarith
  then have "(r + word_sum ?o + unat c) + (S + unat ?c)
      = 65535 * 3 + (r + word_sum ?n + unat ?c)"
    unfolding to_be_4_words by linarith
  with dvd_add [OF assms(2) y] have "65535 dvd 65535 * 3 + (r + word_sum ?n + unat ?c)"
    by (simp only:)
  then show ?thesis by (simp only: dvd_add_right_iff dvd_triv_left)
qed

section \<open>A normalised packet\<close>

text \<open>
  The transport checksum of a packet sent from \<open>src\<close>: the pseudo-header and the segment sum to
  minus zero, or the UDP checksum field is absent.
\<close>

definition transport_rest :: "bytes \<Rightarrow> nat \<Rightarrow> nat" where
  "transport_rest p ihl =
     word_sum (chunk 16 4 p) + unat (p ! 9) + (length p - ihl) + word_sum (drop ihl p)"

definition transport_valid :: "u32 \<Rightarrow> bytes \<Rightarrow> nat \<Rightarrow> bool" where
  "transport_valid src p ihl \<longleftrightarrow>
     (case transport_checksum_offset p ihl of
        None \<Rightarrow> True
      | Some k \<Rightarrow> p ! 9 = 17 \<and> be16_at p k = 0
          \<or> ones_complement (word_sum (to_be 4 src) + transport_rest p ihl) = 65535)"

lemma transport_offset_bounds:
  "transport_checksum_offset p ihl = Some k \<Longrightarrow>
     ihl + 6 \<le> k \<and> k + 2 \<le> length p \<and> even (k - ihl) \<and> p ! 9 \<in> {6, 17}"
  by (auto simp: transport_checksum_offset_def Let_def split: if_splits)

lemma transport_offset_cong:
  "length q = length p \<Longrightarrow> q ! 9 = p ! 9
    \<Longrightarrow> transport_checksum_offset q ihl = transport_checksum_offset p ihl"
  by (simp add: transport_checksum_offset_def Let_def)

lemma word_sum_field: "k + 2 \<le> length p \<Longrightarrow> word_sum (chunk k 2 p) = unat (be16_at p k)"
  by (simp only: chunk_two be16_at_def word_sum_pair)

lemma rewrite_transport_frame:
  fixes old new :: u32
  assumes "20 \<le> ihl" and "ihl \<le> length p"
  defines "q \<equiv> rewrite_transport_checksum_for_ipv4_source p ihl old new"
  shows "length q = length p" and "take ihl q = take ihl p"
    and "\<lbrakk>i < length p; \<forall>k. transport_checksum_offset p ihl = Some k \<longrightarrow> i < k \<or> k + 2 \<le> i\<rbrakk>
      \<Longrightarrow> q ! i = p ! i"
  using transport_offset_bounds [of p ihl]
  by (auto simp: q_def rewrite_transport_checksum_for_ipv4_source_def Let_def take_copy_at_past
      nth_copy_at split: option.split)

lemma rewrite_transport_valid:
  assumes "20 \<le> ihl" and "ihl \<le> length p" and "even ihl" and v: "transport_valid old p ihl"
  shows "transport_valid new (rewrite_transport_checksum_for_ipv4_source p ihl old new) ihl"
proof (cases "transport_checksum_offset p ihl")
  case None
  then show ?thesis
    by (simp add: transport_valid_def rewrite_transport_checksum_for_ipv4_source_def)
next
  case (Some k)
  note b = transport_offset_bounds [OF Some]
  let ?cur = "be16_at p k"
  show ?thesis
  proof (cases "p ! 9 = 17 \<and> ?cur = 0")
    case True
    with Some show ?thesis
      by (simp add: transport_valid_def rewrite_transport_checksum_for_ipv4_source_def)
  next
    case False
    let ?c = "checksum_replace_ipv4_addr ?cur old new"
    define u where "u = (if p ! 9 = 17 \<and> ?c = 0 then 0xFFFF else ?c)"
    let ?q = "copy_at k (to_be 2 u) p"
    have q: "rewrite_transport_checksum_for_ipv4_source p ihl old new = ?q"
      using Some False
      by (auto simp: rewrite_transport_checksum_for_ipv4_source_def u_def Let_def)
    have nine: "?q ! 9 = p ! 9" and len: "length ?q = length p"
      using b assms(1) by (simp_all add: nth_copy_at)
    have fields: "chunk 16 4 ?q = chunk 16 4 p"
      using b assms(1) by (intro chunk_copy_at_apart) auto
    have "drop ihl ?q = copy_at (k - ihl) (to_be 2 u) (drop ihl p)"
      using b by (intro drop_copy_at) auto
    moreover have "chunk (k - ihl) 2 (drop ihl p) = chunk k 2 p"
      using b by (simp add: chunk_def)
    moreover have bounds: "Suc (Suc (k - ihl)) \<le> length p - ihl" "even (k - ihl)" using b by auto
    ultimately have seg: "word_sum (drop ihl ?q) + unat ?cur = word_sum (drop ihl p) + unat u"
      using word_sum_copy_at [of "k - ihl" "to_be 2 u" "drop ihl p"] word_sum_field [of k p] b
        bounds by (simp add: word_sum_be)
    have "word_sum (drop ihl p) = word_sum (take (k - ihl) (drop ihl p)) + unat ?cur
        + word_sum (drop (k - ihl + 2) (drop ihl p))"
      using word_sum_split3 [of "k - ihl" 2 "drop ihl p"] word_sum_field [of k p] b bounds
        \<open>chunk (k - ihl) 2 (drop ihl p) = chunk k 2 p\<close> by simp
    then obtain t where t: "word_sum (drop ihl p) = t + unat ?cur" by (metis add.assoc add.commute)
    define r where "r = word_sum (chunk 16 4 p) + unat (p ! 9) + (length p - ihl) + t"
    have "unat (p ! 9) \<noteq> 0" using b by auto
    then have r: "0 < r" by (simp add: r_def)
    have "65535 dvd word_sum (to_be 4 old) + transport_rest p ihl"
      using v Some False by (auto simp: transport_valid_def ones_complement_valid)
    moreover have "word_sum (to_be 4 old) + transport_rest p ihl
        = r + word_sum (to_be 4 old) + unat ?cur"
      by (simp add: transport_rest_def t r_def)
    ultimately have "65535 dvd r + word_sum (to_be 4 new) + unat ?c"
      using replace_addr_valid [OF r] by simp
    then have d: "65535 dvd r + word_sum (to_be 4 new) + unat u"
      using dvd_add [of 65535 "r + word_sum (to_be 4 new)" 65535] by (auto simp: u_def)
    have "word_sum (to_be 4 new) + transport_rest ?q ihl = r + word_sum (to_be 4 new) + unat u"
      using seg by (simp add: transport_rest_def fields nine len t r_def)
    then have "ones_complement (word_sum (to_be 4 new) + transport_rest ?q ihl) = 65535"
      using d r by (simp only: ones_complement_valid) simp
    then show ?thesis
      unfolding q transport_valid_def transport_offset_cong [OF len nine] by (simp add: Some)
  qed
qed

text \<open>The header: the bytes outside the checksum stay, and the header verifies.\<close>

lemma zeroed_checksum: "12 \<le> length p \<Longrightarrow> p[10 := 0, 11 := 0] = copy_at 10 [0, 0] p"
  by (rule nth_equalityI) (auto simp: copy_at_def nth_append nth_list_update nth_Cons split: nat.split
      intro!: arg_cong [of _ _ "(!) p"])

lemma rewrite_header_frame:
  assumes "20 \<le> ihl" and "ihl \<le> length p"
  defines "q \<equiv> rewrite_ipv4_header_checksum p ihl"
  shows "length q = length p" and "drop 12 q = drop 12 p" and "take 10 q = take 10 p"
proof -
  have z: "length (p[10 := 0, 11 := 0]) = length p" by simp
  have "drop 12 (p[10 := 0, 11 := 0]) = drop 12 p"
    using assms by (simp only: zeroed_checksum) (rule drop_copy_at_before, auto)
  moreover have "take 10 (p[10 := 0, 11 := 0]) = take 10 p" by simp
  ultimately show "length q = length p" "drop 12 q = drop 12 p" "take 10 q = take 10 p"
    unfolding q_def rewrite_ipv4_header_checksum_def Let_def
    using assms z by (simp_all add: drop_copy_at_before take_copy_at_past)
qed

lemma nth_frame:
  assumes "take a q = take a p" and "drop b q = drop b p" and "length q = length p"
    and "i < a \<or> b \<le> i" and "i < length p"
  shows "q ! i = p ! i"
proof (cases "i < a")
  case True
  then show ?thesis using assms(1) by (metis nth_take)
next
  case False
  then have "drop b q ! (i - b) = drop b p ! (i - b)" "b \<le> i" using assms(2,4) by auto
  then show ?thesis using assms(3,5) by simp
qed

lemma word_sum_pos: "xs \<noteq> [] \<Longrightarrow> 0 < unat (xs ! 0) \<Longrightarrow> 0 < word_sum xs"
  by (cases xs rule: word_sum.cases) auto

lemma rewrite_header_verifies:
  assumes "20 \<le> ihl" and "ihl \<le> 60" and "ihl \<le> length p" and "0 < unat (p ! 0)"
  shows "fold_carries (sum_words 0 (take ihl (rewrite_ipv4_header_checksum p ihl))) = 0xFFFF"
proof -
  let ?p0 = "p[10 := 0, 11 := 0]"
  let ?h = "take ihl ?p0"
  let ?c = "internet_checksum ?h"
  have h: "take ihl (rewrite_ipv4_header_checksum p ihl) = copy_at 10 (to_be 2 ?c) ?h"
    unfolding rewrite_ipv4_header_checksum_def Let_def
    using assms by (intro take_copy_at) auto
  have len: "length ?h = ihl" using assms by simp
  have "chunk 10 2 ?h = [0, 0]"
    using assms by (simp add: chunk_two nth_list_update)
  then have field: "word_sum (chunk 10 (length (to_be 2 ?c)) ?h) = 0" by simp
  have "?h \<noteq> []" "0 < unat (?h ! 0)" using assms by auto
  then have pos: "0 < word_sum ?h" by (rule word_sum_pos)
  have "word_sum (copy_at 10 (to_be 2 ?c) ?h) = word_sum ?h + unat ?c"
    using word_sum_copy_at [of 10 "to_be 2 ?c" ?h] field len assms(1) by (simp add: word_sum_be)
  also have "ones_complement \<dots> = 65535"
    using ones_complement_full [OF pos] by (simp add: internet_checksum_nat)
  finally have "ones_complement (word_sum (copy_at 10 (to_be 2 ?c) ?h)) = 65535" .
  moreover have "length (copy_at 10 (to_be 2 ?c) ?h) = ihl" using len assms(1) by simp
  ultimately have "unat (fold_carries (sum_words 0 (copy_at 10 (to_be 2 ?c) ?h))) = 65535"
    using assms(2) by (simp add: fold_carries_ones sum_fits)
  then show ?thesis unfolding h by (simp add: word_unat_eq_iff)
qed

text \<open>The packet with the new source and the header checksum that goes with it.\<close>

definition with_source :: "u32 \<Rightarrow> nat \<Rightarrow> u8 list \<Rightarrow> u8 list" where
  "with_source new ihl p = rewrite_ipv4_header_checksum (copy_at 12 (to_be 4 new) p) ihl"

lemma with_source_frame:
  assumes "20 \<le> ihl" "ihl \<le> length p"
  shows with_source_length: "length (with_source new ihl p) = length p"
    and with_source_nth: "\<lbrakk>i \<notin> {10..<16}; i < length p\<rbrakk> \<Longrightarrow> with_source new ihl p ! i = p ! i"
    and with_source_rest: "drop 16 (with_source new ihl p) = drop 16 p"
    and with_source_addr: "chunk 12 4 (with_source new ihl p) = to_be 4 new"
proof -
  let ?n1 = "copy_at 12 (to_be 4 new) p"
  have n1: "length ?n1 = length p" using assms by simp
  note n2 = rewrite_header_frame [OF assms(1), of ?n1, unfolded n1, OF assms(2), folded with_source_def]
  show "length (with_source new ihl p) = length p" by (rule n2(1))
  have n1_nth: "?n1 ! i = p ! i" if "i \<notin> {12..<16}" "i < length p" for i
    using that assms by (intro nth_copy_at) auto
  show "with_source new ihl p ! i = p ! i" if i: "i \<notin> {10..<16}" "i < length p"
  proof -
    from i(1) have "i < 10 \<or> 12 \<le> i" by auto
    then show ?thesis using nth_frame [OF n2(3,2)] n2(1) n1 n1_nth [of i] i by simp
  qed
  have "drop 16 (with_source new ihl p) = drop 4 (drop 12 ?n1)" by (simp flip: n2(2))
  also have "\<dots> = drop 16 ?n1" by simp
  also have "\<dots> = drop 16 p" using assms by (intro drop_copy_at_before) auto
  finally show "drop 16 (with_source new ihl p) = drop 16 p" .
  have "take 4 (drop 12 (with_source new ihl p)) = to_be 4 new"
    using chunk_copy_at [of 12 p "to_be 4 new"] assms n2(2) by (simp add: chunk_def)
  then show "chunk 12 4 (with_source new ihl p) = to_be 4 new" by (simp add: chunk_def)
qed

lemma with_source_verifies:
  assumes "20 \<le> ihl" "ihl \<le> 60" "ihl \<le> length p" "0 < unat (p ! 0)"
  shows "fold_carries (sum_words 0 (take ihl (with_source new ihl p))) = 0xFFFF"
proof -
  have "copy_at 12 (to_be 4 new) p ! 0 = p ! 0" using assms by (intro nth_copy_at) auto
  then show ?thesis
    unfolding with_source_def using assms by (intro rewrite_header_verifies) simp_all
qed

lemma with_source_transport:
  fixes new :: u32
  assumes "20 \<le> ihl" "ihl \<le> length p"
  defines "n \<equiv> with_source new ihl p"
  shows "transport_checksum_offset n ihl = transport_checksum_offset p ihl"
    and "transport_valid ip n ihl = transport_valid ip p ihl"
proof -
  note frame = with_source_frame [OF assms(1,2), where new = new, folded n_def]
  have nine: "n ! 9 = p ! 9" using assms(1,2) by (intro frame(2)) auto
  show off: "transport_checksum_offset n ihl = transport_checksum_offset p ihl"
    using frame(1) nine by (rule transport_offset_cong)
  have "drop (ihl - 16) (drop 16 n) = drop (ihl - 16) (drop 16 p)" unfolding frame(3) ..
  then have "drop ihl n = drop ihl p" using assms(1) by simp
  moreover have "chunk 16 4 n = chunk 16 4 p" unfolding chunk_def frame(3) ..
  ultimately have rest: "transport_rest n ihl = transport_rest p ihl"
    by (simp add: transport_rest_def nine frame(1))
  have field: "be16_at n k = be16_at p k" if "transport_checksum_offset p ihl = Some k" for k
    using transport_offset_bounds [OF that] assms(1) frame(2) [of k] frame(2) [of "k + 1"]
    by (simp add: be16_at_def)
  show "transport_valid ip n ihl = transport_valid ip p ihl"
    unfolding transport_valid_def off by (auto simp: nine rest field split: option.split)
qed

text \<open>The early returns of \<open>normalize_ipv4_source\<close>, and its result.\<close>

lemma normalize_ipv4_sourceD:
  assumes "normalize_ipv4_source packet old new = Some q"
  defines "p \<equiv> take (unat (ipv4_total_len packet)) packet" and "ihl \<equiv> ipv4_header_len packet"
  shows "20 \<le> ihl" "ihl \<le> 60" "ihl \<le> length p" "even ihl" "p ! 0 = packet ! 0" "drop_bit 4 (packet ! 0) = 4"
    and "length p = unat (ipv4_total_len packet)" and "ipv4_src_addr p = old"
    and "q = rewrite_transport_checksum_for_ipv4_source (with_source new ihl p) ihl old new"
proof -
  have c: "20 \<le> length packet" "drop_bit 4 (packet ! 0) = 4" "20 \<le> ihl" "ihl \<le> length packet"
      "ihl \<le> unat (ipv4_total_len packet)" "unat (ipv4_total_len packet) \<le> length packet"
    and src: "from_be [packet ! 12, packet ! 13, packet ! 14, packet ! 15] = old"
    and q: "q = rewrite_transport_checksum_for_ipv4_source (with_source new ihl p) ihl old new"
    using assms(1)
    by (simp_all add: normalize_ipv4_source_def Let_def p_def ihl_def ipv4_header_len_def
        ipv4_total_len_def not_less with_source_def split: if_splits)
  show lp: "length p = unat (ipv4_total_len packet)" using c(6) by (simp add: p_def)
  show "20 \<le> ihl" "ihl \<le> length p" "even ihl" using c(3,5) lp by (simp_all add: ihl_def ipv4_header_len_def)
  have "packet ! 0 AND 0x0F \<le> 0x0F" by (rule word_and_le1)
  then have "unat (packet ! 0 AND 0x0F) \<le> 15" by (simp add: word_le_nat_alt)
  then show "ihl \<le> 60" by (simp add: ihl_def ipv4_header_len_def)
  have "0 < unat (ipv4_total_len packet)" using c(3,5) by simp
  then show "p ! 0 = packet ! 0" by (simp add: p_def)
  show "drop_bit 4 (packet ! 0) = 4" by (rule c(2))
  show "ipv4_src_addr p = old" using src c(3,5) lp by (simp add: ipv4_src_addr_def p_def)
  show "q = rewrite_transport_checksum_for_ipv4_source (with_source new ihl p) ihl old new" by (rule q)
qed

lemma normalize_ipv4_source_rewrites:
  assumes "normalize_ipv4_source packet old new = Some q"
  defines "p \<equiv> take (unat (ipv4_total_len packet)) packet" and "ihl \<equiv> ipv4_header_len packet"
  shows "ipv4_src_addr p = old" and "length p = unat (ipv4_total_len packet)"
    and "length q = length p" and "ipv4_new q = Inr q"
    and "ipv4_header_len q = ihl" and "ipv4_src_addr q = new" and "verify_checksum q"
    and "\<lbrakk>i < length p; i \<notin> {10..<16};
          \<forall>k. transport_checksum_offset p ihl = Some k \<longrightarrow> i < k \<or> k + 2 \<le> i\<rbrakk> \<Longrightarrow> q ! i = p ! i"
    and "transport_valid old p ihl \<longrightarrow> transport_valid new q ihl"
proof -
  note d = normalize_ipv4_sourceD [OF assms(1), folded p_def ihl_def]
  let ?n = "with_source new ihl p"
  note frame = with_source_frame [OF d(1,3), where new = new]
  note transport = with_source_transport [OF d(1,3), where new = new]
  note tr = rewrite_transport_frame [where ihl = ihl and p = ?n and old = old and new = new,
      unfolded frame(1), OF d(1,3), folded d(9)]
  show "ipv4_src_addr p = old" "length p = unat (ipv4_total_len packet)" by (rule d(8), rule d(7))
  show "length q = length p" by (rule tr(1))
  show "transport_valid old p ihl \<longrightarrow> transport_valid new q ihl"
    using rewrite_transport_valid [of ihl ?n] d(1,3,4) frame(1)
    by (simp add: d(9) transport(2) [symmetric, of old])
  show "q ! i = p ! i" if "i < length p" "i \<notin> {10..<16}"
      "\<forall>k. transport_checksum_offset p ihl = Some k \<longrightarrow> i < k \<or> k + 2 \<le> i"
    using tr(3) [of i] that frame(2) [of i] by (simp add: transport(1))
  have head: "q ! i = ?n ! i" if "i < ihl" for i using tr(2) that by (metis nth_take)
  have "p \<noteq> []" using d(1,3) by auto
  then have zero: "q ! 0 = packet ! 0" using head [of 0] frame(2) [of 0] d(1,5) by simp
  then show hl: "ipv4_header_len q = ihl" by (simp add: ipv4_header_len_def ihl_def)
  have "version_nibble q = 4" using d(6) zero by (simp add: version_nibble_def)
  then show "ipv4_new q = Inr q" using hl tr(1) d(1,3) by (simp add: ipv4_new_def Let_def)
  have "ipv4_src_addr ?n = new" using addr_chunk(1) [of ?n] frame(1,4) d(1,3) by (simp add: be32.dec_enc)
  moreover have "ipv4_src_addr q = ipv4_src_addr ?n" using head d(1) by (simp add: ipv4_src_addr_def)
  ultimately show "ipv4_src_addr q = new" by simp
  have "p ! 0 \<noteq> 0" using d(5,6) by auto
  then have "fold_carries (sum_words 0 (take ihl ?n)) = 0xFFFF"
    using with_source_verifies [of ihl p] d(1-3) by (simp add: unsigned_eq_0_iff flip: neq0_conv)
  then show "verify_checksum q" using hl tr d(1,3) by (simp add: verify_checksum_def Let_def)
qed

text \<open>
  A normalised packet is the packet up to its total length with the new source: the old source
  was outside the overlay, the header checksum verifies, a transport checksum that was right for
  the old source is right for the new one, and no other byte has changed.
\<close>
theorem normalize_overlay_source_rewrites:
  assumes "normalize_overlay_source packet (show_v4 old) (show_v4 new) (Some overlay) = Normalized q"
  shows "\<not> cidr_contains overlay old
    \<and> (let p = take (unat (ipv4_total_len packet)) packet; ihl = ipv4_header_len packet
       in ipv4_src_addr p = old \<and> length p = unat (ipv4_total_len packet)
          \<and> length q = length p \<and> ipv4_new q = Inr q \<and> ipv4_header_len q = ihl
          \<and> ipv4_src_addr q = new \<and> verify_checksum q
          \<and> (\<forall>i < length p. i \<notin> {10..<16}
               \<and> (\<forall>k. transport_checksum_offset p ihl = Some k \<longrightarrow> i < k \<or> k + 2 \<le> i)
               \<longrightarrow> q ! i = p ! i)
          \<and> (transport_valid old p ihl \<longrightarrow> transport_valid new q ihl))"
proof -
  have "parse_v4 (show_v4 ip) = Some ip" for ip using parse_v4_Some by blast
  then have "\<not> cidr_contains overlay old" "normalize_ipv4_source packet old new = Some q"
    using assms by (auto simp: normalize_overlay_source_def split: if_splits option.splits)
  then show ?thesis using normalize_ipv4_source_rewrites [of packet old new q] by (simp add: Let_def)
qed

end
