(* ===== verification/Acl.thy ===== *)
theory Acl
  imports Ip_Text
begin

text \<open>
  The access-control engine, \<open>client/daemon/src/acl.rs\<close>, over the rules of
  \<open>client/daemon/src/config/types.rs\<close>. Unicode lower-casing (\<open>str::to_lowercase\<close>) is the
  parameter \<open>lower\<close>. Log output is left out.
\<close>

section \<open>Configuration\<close>

record acl_rule_config =
  ac_action :: string
  ac_src :: string
  ac_dst :: string
  ac_proto :: string
  ac_port :: string

record acl_config =
  ac_enabled :: bool
  ac_rules :: "acl_rule_config list"

definition acl_config_default :: acl_config where
  "acl_config_default =
     \<lparr>ac_enabled = False,
      ac_rules = [\<lparr>ac_action = ''allow'', ac_src = ''*'', ac_dst = ''*'', ac_proto = ''*'',
                   ac_port = ''*''\<rparr>]\<rparr>"

section \<open>Matchers\<close>

datatype acl_action = Allow | Deny

datatype node_matcher = Any_Node | Node string

datatype protocol_matcher = Any_Protocol | Protocol string

datatype port_matcher = Any_Port | Port u16 | Range u16 u16

definition matcher_parse :: "string \<Rightarrow> node_matcher" where
  "matcher_parse s = (if s = ''*'' then Any_Node else Node s)"

fun matcher_matches :: "node_matcher \<Rightarrow> string \<Rightarrow> bool" where
  "matcher_matches Any_Node node_id = True"
| "matcher_matches (Node i) node_id = (i = node_id)"

definition protocol_parse :: "(string \<Rightarrow> string) \<Rightarrow> string \<Rightarrow> protocol_matcher" where
  "protocol_parse lower s = (if s = ''*'' then Any_Protocol else Protocol (lower s))"

fun protocol_matches :: "(string \<Rightarrow> string) \<Rightarrow> protocol_matcher \<Rightarrow> string \<Rightarrow> bool" where
  "protocol_matches lower Any_Protocol proto = True"
| "protocol_matches lower (Protocol p) proto = (p = lower proto)"

text \<open>\<open>s.find('-')\<close> splits at the first dash.\<close>

definition unwrap_or :: "'a option \<Rightarrow> 'a \<Rightarrow> 'a" where
  "unwrap_or x d = (case x of None \<Rightarrow> d | Some v \<Rightarrow> v)"

definition port_parse :: "string \<Rightarrow> port_matcher" where
  "port_parse s =
     (if s = ''*'' then Any_Port
      else if CHR ''-'' \<in> set s
      then Range (unwrap_or (parse_u16 (takeWhile (\<lambda>c. c \<noteq> CHR ''-'') s)) 0)
                 (unwrap_or (parse_u16 (tl (dropWhile (\<lambda>c. c \<noteq> CHR ''-'') s))) 65535)
      else case parse_u16 s of Some port \<Rightarrow> Port port | None \<Rightarrow> Any_Port)"

fun port_matches :: "port_matcher \<Rightarrow> u16 \<Rightarrow> bool" where
  "port_matches Any_Port port = True"
| "port_matches (Port p) port = (p = port)"
| "port_matches (Range start end) port = (port \<ge> start \<and> port \<le> end)"

section \<open>The engine\<close>

record acl_rule =
  ar_action :: acl_action
  ar_src :: node_matcher
  ar_dst :: node_matcher
  ar_proto :: protocol_matcher
  ar_port :: port_matcher

record acl_engine =
  ae_enabled :: bool
  ae_rules :: "acl_rule list"

definition action_parse :: "string \<Rightarrow> acl_action" where
  "action_parse s = (if s = ''allow'' then Allow else if s = ''deny'' then Deny else Allow)"

definition rule_from_config :: "(string \<Rightarrow> string) \<Rightarrow> acl_rule_config \<Rightarrow> acl_rule" where
  "rule_from_config lower r =
     \<lparr>ar_action = action_parse (ac_action r), ar_src = matcher_parse (ac_src r),
      ar_dst = matcher_parse (ac_dst r), ar_proto = protocol_parse lower (ac_proto r),
      ar_port = port_parse (ac_port r)\<rparr>"

definition acl_from_config :: "(string \<Rightarrow> string) \<Rightarrow> acl_config \<Rightarrow> acl_engine" where
  "acl_from_config lower c =
     \<lparr>ae_enabled = ac_enabled c, ae_rules = map (rule_from_config lower) (ac_rules c)\<rparr>"

definition allow_all :: acl_engine where
  "allow_all =
     \<lparr>ae_enabled = False,
      ae_rules = [\<lparr>ar_action = Allow, ar_src = Any_Node, ar_dst = Any_Node,
                   ar_proto = Any_Protocol, ar_port = Any_Port\<rparr>]\<rparr>"

definition rule_matches ::
  "(string \<Rightarrow> string) \<Rightarrow> acl_rule \<Rightarrow> string \<Rightarrow> string \<Rightarrow> string \<Rightarrow> u16 \<Rightarrow> bool" where
  "rule_matches lower r src_node dst_node proto port \<longleftrightarrow>
     matcher_matches (ar_src r) src_node \<and> matcher_matches (ar_dst r) dst_node
     \<and> protocol_matches lower (ar_proto r) proto \<and> port_matches (ar_port r) port"

fun check_rules ::
  "(string \<Rightarrow> string) \<Rightarrow> acl_rule list \<Rightarrow> string \<Rightarrow> string \<Rightarrow> string \<Rightarrow> u16 \<Rightarrow> bool" where
  "check_rules lower [] src_node dst_node proto port = False"
| "check_rules lower (r # rs) src_node dst_node proto port =
     (if rule_matches lower r src_node dst_node proto port then ar_action r = Allow
      else check_rules lower rs src_node dst_node proto port)"

definition acl_check ::
  "(string \<Rightarrow> string) \<Rightarrow> acl_engine \<Rightarrow> string \<Rightarrow> string \<Rightarrow> string \<Rightarrow> u16 \<Rightarrow> bool" where
  "acl_check lower e src_node dst_node proto port =
     (if \<not> ae_enabled e then True
      else check_rules lower (ae_rules e) src_node dst_node proto port)"

definition add_rule :: "acl_engine \<Rightarrow> acl_rule \<Rightarrow> acl_engine" where
  "add_rule e r = e\<lparr>ae_rules := ae_rules e @ [r]\<rparr>"

section \<open>First match wins\<close>

lemma check_rules_first_match:
  "check_rules lower rs src dst proto port \<longleftrightarrow>
     (\<exists>i < length rs. rule_matches lower (rs ! i) src dst proto port
        \<and> ar_action (rs ! i) = Allow
        \<and> (\<forall>j < i. \<not> rule_matches lower (rs ! j) src dst proto port))"
  by (induction rs) (auto simp: Ex_less_Suc2 All_less_Suc2)

lemma check_rules_append:
  "check_rules lower (rs @ qs) src dst proto port \<longleftrightarrow>
     (if \<exists>r \<in> set rs. rule_matches lower r src dst proto port
      then check_rules lower rs src dst proto port else check_rules lower qs src dst proto port)"
  by (induction rs) auto

section \<open>Claims\<close>

text \<open>
  An enabled policy allows a connection exactly when its first matching rule says so; a disabled
  one allows everything.
\<close>
theorem acl_check_first_match:
  "acl_check lower (acl_from_config lower c) src dst proto port \<longleftrightarrow>
     \<not> ac_enabled c
     \<or> (\<exists>i < length (ac_rules c).
          rule_matches lower (rule_from_config lower (ac_rules c ! i)) src dst proto port
          \<and> action_parse (ac_action (ac_rules c ! i)) = Allow
          \<and> (\<forall>j < i. \<not> rule_matches lower (rule_from_config lower (ac_rules c ! j))
                          src dst proto port))"
  by (auto simp: acl_check_def acl_from_config_def check_rules_first_match rule_from_config_def)

text \<open>
  C38: In an enabled policy, a first rule whose source, destination and protocol match and whose
  action is unknown and whose port is unreadable (no number, and no dash in it) allows every
  port: the policy fails open.
\<close>
theorem acl_malformed_rule_allows:
  assumes "ac_enabled c"
    and "ac_rules c = r # rs"
    and "ac_action r \<noteq> ''deny''"
    and "ac_src r \<in> {''*'', src}"
    and "ac_dst r \<in> {''*'', dst}"
    and "ac_proto r = ''*'' \<or> lower (ac_proto r) = lower proto"
    and "CHR ''-'' \<notin> set (ac_port r)"
    and "parse_u16 (ac_port r) = None"
  shows "acl_check lower (acl_from_config lower c) src dst proto port"
  using assms
  by (auto simp: acl_check_def acl_from_config_def rule_from_config_def rule_matches_def
        action_parse_def matcher_parse_def protocol_parse_def port_parse_def)

end
