(* ===== verification/Rooms.thy ===== *)
theory Rooms
  imports Ip_Text
begin

text \<open>
  Room authorization, \<open>client/daemon/src/rooms.rs\<close> and \<open>client/daemon/src/rooms/diagnostics.rs\<close>:
  the roster lease a room's control plane grants, and the permits queued packets carry. The
  flags \<open>Arc<AtomicBool>\<close> that snapshots share with permits live in an explicit store, the list
  \<open>ra_flags\<close>, and an \<open>Arc\<close> is an index into it. \<open>Instant::now()\<close> is an argument wherever the
  code reads the clock. A hash map is the list of its entries, in the order of insertion; only
  its lookups and its equality as a set of entries are used. Poisoned locks are not modelled.
\<close>

section \<open>State\<close>

datatype room_drop_reason =
    AuthorizationMissing | AuthorizationExpired | AuthorizationChanged | LocalIpMismatch
  | PeerMissing | PeerIpMismatch | UnknownVirtualIp | SourceNotLocal | OverlaySourceRejected
  | SourceNormalizationFailed | AclDenied | UnexpectedDestination

fun drop_label :: "room_drop_reason \<Rightarrow> string" where
  "drop_label AuthorizationMissing = ''authorization_missing''"
| "drop_label AuthorizationExpired = ''authorization_expired''"
| "drop_label AuthorizationChanged = ''authorization_changed''"
| "drop_label LocalIpMismatch = ''local_ip_mismatch''"
| "drop_label PeerMissing = ''peer_missing''"
| "drop_label PeerIpMismatch = ''peer_ip_mismatch''"
| "drop_label UnknownVirtualIp = ''unknown_virtual_ip''"
| "drop_label SourceNotLocal = ''source_not_local''"
| "drop_label OverlaySourceRejected = ''overlay_source_rejected''"
| "drop_label SourceNormalizationFailed = ''source_normalization_failed''"
| "drop_label AclDenied = ''acl_denied''"
| "drop_label UnexpectedDestination = ''unexpected_destination''"

record room_packet_drop =
  pd_reason :: string
  pd_direction :: string
  pd_peer_id :: string
  pd_source_ip :: string
  pd_destination_ip :: string
  pd_age_ms :: u64

record room_peer_traffic =
  tx_queued_packets :: u64
  rx_delivered_packets :: u64
  last_tx :: "instant option"
  last_rx :: "instant option"

record room_traffic_ledger =
  tl_drops :: "room_drop_reason \<Rightarrow> u64 option"
  tl_last_drop :: "(instant \<times> room_packet_drop) option"
  tl_peers :: "string \<Rightarrow> room_peer_traffic option"

type_synonym room_roster = "(string \<times> string) list"

record room_snapshot =
  rs_local_ip :: string
  rs_peers :: room_roster
  rs_expires_at :: instant
  rs_live :: nat

record room_send_permit =
  rp_live :: nat
  rp_expires_at :: instant

record room_authorization =
  ra_enabled :: bool
  ra_snapshot :: "room_snapshot option"
  ra_traffic :: room_traffic_ledger
  ra_flags :: "bool list"

definition room_traffic_default :: room_traffic_ledger where
  "room_traffic_default = \<lparr>tl_drops = Map.empty, tl_last_drop = None, tl_peers = Map.empty\<rparr>"

definition peer_traffic_default :: room_peer_traffic where
  "peer_traffic_default =
     \<lparr>tx_queued_packets = 0, rx_delivered_packets = 0, last_tx = None, last_rx = None\<rparr>"

section \<open>Operations\<close>

definition room_address :: "string \<Rightarrow> u32 option" where
  "room_address s =
     (case parse_v4 s of
        None \<Rightarrow> None
      | Some a \<Rightarrow>
          if octets a ! 0 = 10 \<and> octets a ! 1 = 21 \<and> 1 \<le> octets a ! 3 \<and> octets a ! 3 \<le> 254
          then Some a else None)"

definition room_new :: "string \<Rightarrow> room_authorization" where
  "room_new network_id =
     \<lparr>ra_enabled = (take 5 network_id = ''room-''), ra_snapshot = None,
      ra_traffic = room_traffic_default, ra_flags = []\<rparr>"

definition room_invalidate :: "room_authorization \<Rightarrow> room_authorization" where
  "room_invalidate s =
     (case ra_snapshot s of
        None \<Rightarrow> s
      | Some old \<Rightarrow> s\<lparr>ra_snapshot := None, ra_flags := (ra_flags s)[rs_live old := False]\<rparr>)"

text \<open>The loop over the offered roster; \<open>None\<close> where the code invalidates and refuses.\<close>

fun collect_roster ::
  "u32 \<Rightarrow> u32 set \<Rightarrow> room_roster \<Rightarrow> (string \<times> string) list \<Rightarrow> room_roster option" where
  "collect_roster local addresses allowed [] = Some allowed"
| "collect_roster local addresses allowed ((i, ip) # peers) =
     (case room_address ip of
        None \<Rightarrow> None
      | Some address \<Rightarrow>
          if i = [] \<or> take 3 (octets address) \<noteq> take 3 (octets local)
             \<or> address \<in> addresses \<or> map_of allowed i \<noteq> None
          then None
          else collect_roster local (insert address addresses) (allowed @ [(i, ip)]) peers)"

definition same_roster :: "room_roster \<Rightarrow> room_roster \<Rightarrow> bool" where
  "same_roster a b \<longleftrightarrow> set a = set b"

text \<open>
  \<open>now\<close> is the clock at the check of the lease, \<open>now'\<close> at the comparison with the old snapshot.
\<close>

definition room_install ::
  "room_authorization \<Rightarrow> string \<Rightarrow> room_roster \<Rightarrow> instant \<Rightarrow> instant \<Rightarrow> room_authorization" where
  "room_install s local_ip allowed expires_at now' =
     (case ra_snapshot s of
        Some old \<Rightarrow>
          if rs_local_ip old = local_ip \<and> same_roster (rs_peers old) allowed
             \<and> rs_expires_at old > now'
          then s\<lparr>ra_snapshot := Some \<lparr>rs_local_ip = local_ip, rs_peers = allowed,
                    rs_expires_at = expires_at, rs_live = rs_live old\<rparr>\<rparr>
          else s\<lparr>ra_snapshot := Some \<lparr>rs_local_ip = local_ip, rs_peers = allowed,
                    rs_expires_at = expires_at, rs_live = length (ra_flags s)\<rparr>,
                 ra_flags := (ra_flags s)[rs_live old := False] @ [True],
                 ra_traffic := (ra_traffic s)\<lparr>tl_peers := Map.empty\<rparr>\<rparr>
      | None \<Rightarrow>
          s\<lparr>ra_snapshot := Some \<lparr>rs_local_ip = local_ip, rs_peers = allowed,
               rs_expires_at = expires_at, rs_live = length (ra_flags s)\<rparr>,
            ra_flags := ra_flags s @ [True],
            ra_traffic := (ra_traffic s)\<lparr>tl_peers := Map.empty\<rparr>\<rparr>)"

definition room_replace ::
  "room_authorization \<Rightarrow> string \<Rightarrow> (string \<times> string) list \<Rightarrow> instant \<Rightarrow> u64 \<Rightarrow> instant \<Rightarrow> instant
     \<Rightarrow> bool \<times> room_authorization" where
  "room_replace s local_ip peers request_started lease_seconds now now' =
     (if \<not> ra_enabled s then (True, s)
      else
        case room_address local_ip of
          None \<Rightarrow> (False, room_invalidate s)
        | Some local \<Rightarrow>
            if \<not> (1 \<le> lease_seconds \<and> lease_seconds \<le> 30) then (False, room_invalidate s)
            else
              let expires_at = request_started + from_secs (unat lease_seconds)
              in if expires_at \<le> now then (False, room_invalidate s)
                 else
                   case collect_roster local {local} [] peers of
                     None \<Rightarrow> (False, room_invalidate s)
                   | Some allowed \<Rightarrow> (True, room_install s local_ip allowed expires_at now'))"

definition send_permit ::
  "room_authorization \<Rightarrow> instant \<Rightarrow> string \<Rightarrow> string \<Rightarrow> string \<Rightarrow> room_send_permit option" where
  "send_permit s now peer_id peer_ip local_ip =
     (case ra_snapshot s of
        None \<Rightarrow> None
      | Some snap \<Rightarrow>
          if rs_expires_at snap \<le> now \<or> rs_local_ip snap \<noteq> local_ip
             \<or> (case map_of (rs_peers snap) peer_id of None \<Rightarrow> True | Some ip \<Rightarrow> ip \<noteq> peer_ip)
          then None
          else Some \<lparr>rp_live = rs_live snap, rp_expires_at = rs_expires_at snap\<rparr>)"

definition permit_is_valid :: "room_authorization \<Rightarrow> instant \<Rightarrow> room_send_permit \<Rightarrow> bool" where
  "permit_is_valid s now p \<longleftrightarrow> ra_flags s ! rp_live p \<and> now < rp_expires_at p"

definition allows_at :: "room_authorization \<Rightarrow> string \<Rightarrow> string \<Rightarrow> string \<Rightarrow> instant \<Rightarrow> bool" where
  "allows_at s peer_id peer_ip local_ip now \<longleftrightarrow>
     (if \<not> ra_enabled s then True
      else case ra_snapshot s of
             None \<Rightarrow> False
           | Some snap \<Rightarrow>
               rs_expires_at snap > now \<and> rs_local_ip snap = local_ip
               \<and> (case map_of (rs_peers snap) peer_id of None \<Rightarrow> False | Some ip \<Rightarrow> ip = peer_ip))"

definition denial_reason ::
  "room_authorization \<Rightarrow> instant \<Rightarrow> string \<Rightarrow> string \<Rightarrow> string \<Rightarrow> room_drop_reason option" where
  "denial_reason s now peer_id peer_ip local_ip =
     (if \<not> ra_enabled s then None
      else
        case ra_snapshot s of
          None \<Rightarrow> Some AuthorizationMissing
        | Some snap \<Rightarrow>
            if rs_expires_at snap \<le> now \<or> \<not> ra_flags s ! rs_live snap then Some AuthorizationExpired
            else if rs_local_ip snap \<noteq> local_ip then Some LocalIpMismatch
            else case map_of (rs_peers snap) peer_id of
                   None \<Rightarrow> Some PeerMissing
                 | Some ip \<Rightarrow> if ip \<noteq> peer_ip then Some PeerIpMismatch else None)"

definition record_drop ::
  "room_authorization \<Rightarrow> instant \<Rightarrow> room_drop_reason \<Rightarrow> string \<Rightarrow> string \<Rightarrow> string \<Rightarrow> string
     \<Rightarrow> room_authorization" where
  "record_drop s now reason direction peer_id source_ip destination_ip =
     (if \<not> ra_enabled s then s
      else
        let ledger = ra_traffic s;
            count = (case tl_drops ledger reason of None \<Rightarrow> 0 | Some c \<Rightarrow> c);
            event = \<lparr>pd_reason = drop_label reason, pd_direction = take 8 direction,
                     pd_peer_id = take 128 peer_id, pd_source_ip = take 64 source_ip,
                     pd_destination_ip = take 64 destination_ip, pd_age_ms = 0\<rparr>
        in s\<lparr>ra_traffic := ledger\<lparr>tl_drops := (tl_drops ledger)(reason \<mapsto> sat_add count 1),
                                  tl_last_drop := Some (now, event)\<rparr>\<rparr>)"

definition record_packet ::
  "room_authorization \<Rightarrow> instant \<Rightarrow> instant \<Rightarrow> string \<Rightarrow> bool \<Rightarrow> room_authorization" where
  "record_packet s now now' peer_id inbound =
     (if \<not> ra_enabled s then s
      else
        case ra_snapshot s of
          None \<Rightarrow> s
        | Some snap \<Rightarrow>
            if rs_expires_at snap > now \<and> ra_flags s ! rs_live snap
               \<and> map_of (rs_peers snap) peer_id \<noteq> None
            then
              let ledger = ra_traffic s;
                  peer = (case tl_peers ledger peer_id of
                            None \<Rightarrow> peer_traffic_default | Some p \<Rightarrow> p);
                  peer = (if inbound
                          then peer\<lparr>rx_delivered_packets := sat_add (rx_delivered_packets peer) 1,
                                    last_rx := Some now'\<rparr>
                          else peer\<lparr>tx_queued_packets := sat_add (tx_queued_packets peer) 1,
                                    last_tx := Some now'\<rparr>)
              in s\<lparr>ra_traffic := ledger\<lparr>tl_peers := (tl_peers ledger)(peer_id \<mapsto> peer)\<rparr>\<rparr>
            else s)"

section \<open>Runs\<close>

text \<open>The operations that change the state, each under its lock.\<close>

datatype room_event =
    Invalidate
  | Replace string "(string \<times> string) list" instant u64 instant instant
  | Record_Drop instant room_drop_reason string string string string
  | Record_Packet instant instant string bool

fun room_step :: "room_authorization \<Rightarrow> room_event \<Rightarrow> room_authorization" where
  "room_step s Invalidate = room_invalidate s"
| "room_step s (Replace local_ip peers started lease now now') =
     snd (room_replace s local_ip peers started lease now now')"
| "room_step s (Record_Drop now reason direction peer src dst) =
     record_drop s now reason direction peer src dst"
| "room_step s (Record_Packet now now' peer inbound) = record_packet s now now' peer inbound"

section \<open>Rosters are well formed\<close>

definition roster_wf :: "u32 \<Rightarrow> room_roster \<Rightarrow> bool" where
  "roster_wf local roster \<longleftrightarrow>
     distinct (map fst roster)
     \<and> distinct (map (\<lambda>e. room_address (snd e)) roster)
     \<and> (\<forall>(i, ip) \<in> set roster. i \<noteq> []
          \<and> (\<exists>a. room_address ip = Some a \<and> a \<noteq> local
               \<and> take 3 (octets a) = take 3 (octets local)))"

lemma collect_roster_wf:
  "\<lbrakk>collect_roster local addresses allowed peers = Some roster; roster_wf local allowed;
    local \<in> addresses; \<forall>e \<in> set allowed. \<exists>a \<in> addresses. room_address (snd e) = Some a\<rbrakk>
    \<Longrightarrow> roster_wf local roster"
proof (induction local addresses allowed peers rule: collect_roster.induct)
  case (2 local addresses allowed i ip peers)
  then obtain a where a: "room_address ip = Some a" "i \<noteq> []" "map_of allowed i = None"
      "take 3 (octets a) = take 3 (octets local)" "a \<notin> addresses"
    and r: "collect_roster local (insert a addresses) (allowed @ [(i, ip)]) peers = Some roster"
    by (auto split: option.splits if_splits)
  have "roster_wf local (allowed @ [(i, ip)])"
    using 2(3,4,5) a by (force simp: roster_wf_def map_of_eq_None_iff)
  then show ?case using 2(4,5) a r by (intro 2(1) [of a]) auto
qed simp

definition snapshot_wf :: "room_snapshot \<Rightarrow> bool" where
  "snapshot_wf snap \<longleftrightarrow>
     (case room_address (rs_local_ip snap) of
        None \<Rightarrow> False
      | Some local \<Rightarrow> roster_wf local (rs_peers snap))"

text \<open>Of all flags ever allocated, only that of the current snapshot is up.\<close>

definition room_inv :: "room_authorization \<Rightarrow> bool" where
  "room_inv s \<longleftrightarrow>
     (case ra_snapshot s of
        None \<Rightarrow> \<forall>f < length (ra_flags s). \<not> ra_flags s ! f
      | Some snap \<Rightarrow> ra_enabled s \<and> snapshot_wf snap \<and> rs_live snap < length (ra_flags s)
          \<and> (\<forall>f < length (ra_flags s). ra_flags s ! f \<longleftrightarrow> f = rs_live snap))"

lemma room_new_inv: "room_inv (room_new network_id)"
  by (simp add: room_inv_def room_new_def)

lemma room_invalidate_inv: "room_inv s \<Longrightarrow> room_inv (room_invalidate s)"
  by (auto simp: room_inv_def room_invalidate_def nth_list_update split: option.splits)

lemma room_install_inv:
  assumes "room_inv s" and "ra_enabled s"
    and "snapshot_wf \<lparr>rs_local_ip = local_ip, rs_peers = allowed, rs_expires_at = t, rs_live = l\<rparr>"
  shows "room_inv (room_install s local_ip allowed t now')"
  using assms
  by (auto simp: room_inv_def room_install_def snapshot_wf_def nth_list_update nth_append less_Suc_eq
      split: option.splits)

lemma room_replace_cases:
  obtains "room_replace s local_ip peers started lease now now' = (True, s)" "\<not> ra_enabled s"
  | "room_replace s local_ip peers started lease now now' = (False, room_invalidate s)" "ra_enabled s"
  | local allowed where "ra_enabled s" "room_address local_ip = Some local"
      "1 \<le> lease" "lease \<le> 30" "now < started + from_secs (unat lease)"
      "collect_roster local {local} [] peers = Some allowed"
      "room_replace s local_ip peers started lease now now'
        = (True, room_install s local_ip allowed (started + from_secs (unat lease)) now')"
proof (cases "ra_enabled s")
  case False
  then show ?thesis using that(1) by (simp add: room_replace_def)
next
  case True
  let ?lease = "1 \<le> lease \<and> lease \<le> 30" and ?t = "started + from_secs (unat lease)"
  show ?thesis
  proof (cases "room_address local_ip")
    case None
    then show ?thesis using True that(2) by (simp add: room_replace_def)
  next
    case (Some a)
    show ?thesis
    proof (cases "?lease \<and> now < ?t")
      case False
      then have "room_replace s local_ip peers started lease now now' = (False, room_invalidate s)"
        using True Some by (auto simp add: room_replace_def Let_def not_less)
      then show ?thesis using True by (rule that(2))
    next
      case ok: True
      then have r: "room_replace s local_ip peers started lease now now'
          = (case collect_roster a {a} [] peers of
               None \<Rightarrow> (False, room_invalidate s)
             | Some allowed \<Rightarrow> (True, room_install s local_ip allowed ?t now'))"
        using True Some by (simp add: room_replace_def Let_def)
      show ?thesis
      proof (cases "collect_roster a {a} [] peers")
        case None
        then show ?thesis using True r that(2) by simp
      next
        case (Some allowed)
        then show ?thesis using True r ok \<open>room_address local_ip = Some a\<close> that(3) by simp
      qed
    qed
  qed
qed

lemma record_frame [simp]:
  "ra_enabled (record_drop s now reason direction peer src dst) = ra_enabled s"
  "ra_snapshot (record_drop s now reason direction peer src dst) = ra_snapshot s"
  "ra_flags (record_drop s now reason direction peer src dst) = ra_flags s"
  "ra_enabled (record_packet s now now' peer inbound) = ra_enabled s"
  "ra_snapshot (record_packet s now now' peer inbound) = ra_snapshot s"
  "ra_flags (record_packet s now now' peer inbound) = ra_flags s"
  by (simp_all add: record_drop_def record_packet_def Let_def split: option.split)

lemma room_step_enabled [simp]: "ra_enabled (room_step s e) = ra_enabled s"
  by (cases e) (simp_all add: room_invalidate_def room_replace_def room_install_def Let_def
      split: option.split)

lemma room_step_inv: "room_inv s \<Longrightarrow> room_inv (room_step s e)"
proof (cases e)
  case (Replace local_ip peers started lease now now')
  assume inv: "room_inv s"
  show ?thesis
  proof (cases rule: room_replace_cases [of s local_ip peers started lease now now'])
    case (3 local allowed)
    have "roster_wf local allowed"
      using 3(6) by (rule collect_roster_wf) (simp_all add: roster_wf_def)
    with 3 inv Replace show ?thesis
      by (simp add: room_install_inv snapshot_wf_def)
  qed (simp_all add: Replace inv room_invalidate_inv)
qed (simp_all add: room_invalidate_inv, simp_all add: room_inv_def split: option.splits)

interpretation room: event_machine room_step room_inv
  by unfold_locales (rule room_step_inv)

lemma room_reachable: "room_inv (foldl room_step (room_new network_id) es)"
  by (rule room.run_inv) (rule room_new_inv)

section \<open>What a permit promises\<close>

text \<open>
  The current snapshot, if the flag of a permit is up, is one that authorises the permit's
  peer at its addresses.
\<close>

definition permit_bound :: "nat \<Rightarrow> string \<Rightarrow> string \<Rightarrow> string \<Rightarrow> room_authorization \<Rightarrow> bool" where
  "permit_bound f peer_id peer_ip local_ip s \<longleftrightarrow>
     f < length (ra_flags s)
     \<and> (ra_flags s ! f \<longrightarrow>
          (\<exists>snap. ra_snapshot s = Some snap \<and> rs_live snap = f \<and> rs_local_ip snap = local_ip
             \<and> map_of (rs_peers snap) peer_id = Some peer_ip))"

lemma snapshot_distinct: "snapshot_wf snap \<Longrightarrow> distinct (map fst (rs_peers snap))"
  by (auto simp: snapshot_wf_def roster_wf_def split: option.splits)

lemma permit_install:
  assumes "room_inv s" and "permit_bound f peer_id peer_ip local_ip s"
    and "room_address local = Some a" and "roster_wf a allowed"
  shows "permit_bound f peer_id peer_ip local_ip (room_install s local allowed t now')"
proof (cases "ra_snapshot s")
  case None
  with assms(1,2) show ?thesis
    by (auto simp: permit_bound_def room_install_def room_inv_def nth_append)
next
  case (Some old)
  have old: "rs_live old < length (ra_flags s)" "distinct (map fst (rs_peers old))"
      "\<forall>f < length (ra_flags s). ra_flags s ! f \<longleftrightarrow> f = rs_live old"
    using assms(1) Some by (auto simp: room_inv_def snapshot_distinct)
  have new: "distinct (map fst allowed)" using assms(4) by (simp add: roster_wf_def)
  show ?thesis
  proof (cases "rs_local_ip old = local \<and> same_roster (rs_peers old) allowed \<and> rs_expires_at old > now'")
    case True
    then have "map_of (rs_peers old) = map_of allowed"
      using map_of_inject_set [OF old(2) new] by (simp add: same_roster_def)
    with True Some assms(2) show ?thesis by (auto simp: permit_bound_def room_install_def)
  next
    case False
    have f: "f < length (ra_flags s)" using assms(2) by (simp add: permit_bound_def)
    then have "\<not> ((ra_flags s)[rs_live old := False] @ [True]) ! f"
      using old(1,3) by (simp add: nth_append nth_list_update)
    with False Some f show ?thesis by (simp add: permit_bound_def room_install_def) blast
  qed
qed

lemma permit_step:
  assumes "room_inv s" and "permit_bound f peer_id peer_ip local_ip s"
  shows "permit_bound f peer_id peer_ip local_ip (room_step s e)"
proof (cases e)
  case Invalidate
  with assms show ?thesis
    by (auto simp: permit_bound_def room_invalidate_def room_inv_def nth_list_update split: option.split)
next
  case (Replace local peers started lease now now')
  have inval: "permit_bound f peer_id peer_ip local_ip (room_invalidate s)"
    using assms by (auto simp: permit_bound_def room_invalidate_def room_inv_def nth_list_update
        split: option.split)
  show ?thesis
  proof (cases rule: room_replace_cases [of s local peers started lease now now'])
    case (3 a allowed)
    have "roster_wf a allowed" using 3(6) by (rule collect_roster_wf) (simp_all add: roster_wf_def)
    with 3 assms Replace show ?thesis by (simp add: permit_install)
  qed (simp_all add: Replace assms inval)
qed (use assms in \<open>simp_all add: permit_bound_def\<close>)

interpretation permit: event_machine room_step
    "\<lambda>s. room_inv s \<and> permit_bound f peer_id peer_ip local_ip s"
  for f peer_id peer_ip local_ip
  by unfold_locales (simp add: room_step_inv permit_step)

text \<open>A flag that is down stays down.\<close>

lemma lowered: "f < length xs \<Longrightarrow> \<not> xs ! f \<Longrightarrow> \<not> xs[k := False] ! f"
  by (cases "k = f") simp_all

lemma flag_install:
  assumes "f < length (ra_flags s)" and "\<not> ra_flags s ! f"
  shows "f < length (ra_flags (room_install s local allowed t now'))"
    and "\<not> ra_flags (room_install s local allowed t now') ! f"
proof -
  have "\<not> (ra_flags s @ [True]) ! f" using assms by (simp add: nth_append)
  moreover have "\<not> ((ra_flags s)[k := False] @ [True]) ! f" for k
    using assms by (simp add: nth_append lowered)
  ultimately show "f < length (ra_flags (room_install s local allowed t now'))"
      "\<not> ra_flags (room_install s local allowed t now') ! f"
    using assms by (simp_all add: room_install_def split: option.split)
qed

lemma flag_invalidate:
  assumes "f < length (ra_flags s)" and "\<not> ra_flags s ! f"
  shows "f < length (ra_flags (room_invalidate s))" and "\<not> ra_flags (room_invalidate s) ! f"
  using assms by (simp_all add: room_invalidate_def lowered split: option.split)

lemma flag_step:
  assumes "f < length (ra_flags s) \<and> \<not> ra_flags s ! f"
  shows "f < length (ra_flags (room_step s e)) \<and> \<not> ra_flags (room_step s e) ! f"
proof (cases e)
  case (Replace local peers started lease now now')
  show ?thesis
    by (cases rule: room_replace_cases [of s local peers started lease now now'])
      (use assms Replace in \<open>simp_all add: flag_install flag_invalidate\<close>)
qed (use assms in \<open>simp_all add: flag_invalidate\<close>)

interpretation revoked: event_machine room_step "\<lambda>s. f < length (ra_flags s) \<and> \<not> ra_flags s ! f" for f
  by unfold_locales (rule flag_step)

lemma send_permit_bound:
  assumes "room_inv s" and "send_permit s now peer_id peer_ip local_ip = Some p"
  shows "permit_bound (rp_live p) peer_id peer_ip local_ip s"
  using assms
  by (auto simp: send_permit_def permit_bound_def room_inv_def split: option.splits if_splits)

section \<open>Claims\<close>

text \<open>
  C36: Every roster a room ever holds has a local room address, distinct non-empty peer names
  and distinct room addresses of the same /24 network other than the local one; outside a room
  there is none.
\<close>
theorem room_rosters_well_formed:
  assumes "ra_snapshot (foldl room_step (room_new network_id) es) = Some snap"
  shows "take 5 network_id = ''room-''
    \<and> (\<exists>local. room_address (rs_local_ip snap) = Some local
        \<and> distinct (map fst (rs_peers snap))
        \<and> distinct (map (\<lambda>e. room_address (snd e)) (rs_peers snap))
        \<and> (\<forall>(i, ip) \<in> set (rs_peers snap). i \<noteq> []
             \<and> (\<exists>a. room_address ip = Some a \<and> a \<noteq> local
                  \<and> take 3 (octets a) = take 3 (octets local))))"
proof -
  have enabled: "ra_enabled (foldl room_step s es) = ra_enabled s" for s
    by (induction es arbitrary: s) simp_all
  have inv: "room_inv (foldl room_step (room_new network_id) es)" by (rule room_reachable)
  then have "ra_enabled (room_new network_id)" "snapshot_wf snap"
    using assms by (simp_all add: room_inv_def enabled)
  then show ?thesis
    by (auto simp: room_new_def snapshot_wf_def roster_wf_def split: option.splits)
qed

text \<open>
  C35: A permit that is valid has been covered by the roster at every moment since it was
  issued: at each the snapshot had the permit's flag, the same local address and the peer at the
  same address. A permit never survives a revocation, and a later roster never revives it.
\<close>
theorem room_permits_current:
  assumes "s = foldl room_step (room_new network_id) es"
    and "send_permit s now peer_id peer_ip local_ip = Some p"
    and "permit_is_valid (foldl room_step s es') now' p"
  shows "now' < rp_expires_at p
    \<and> (\<forall>n. \<exists>snap. ra_snapshot (foldl room_step s (take n es')) = Some snap
          \<and> rs_live snap = rp_live p \<and> rs_local_ip snap = local_ip
          \<and> map_of (rs_peers snap) peer_id = Some peer_ip)"
proof -
  have "room_inv s" using assms(1) by (simp add: room_reachable)
  then have b: "room_inv s \<and> permit_bound (rp_live p) peer_id peer_ip local_ip s"
    using send_permit_bound assms(2) by blast
  have up: "ra_flags (foldl room_step s es') ! rp_live p" "now' < rp_expires_at p"
    using assms(3) by (simp_all add: permit_is_valid_def)
  have "\<exists>snap. ra_snapshot (foldl room_step s (take n es')) = Some snap
          \<and> rs_live snap = rp_live p \<and> rs_local_ip snap = local_ip
          \<and> map_of (rs_peers snap) peer_id = Some peer_ip" for n
  proof -
    let ?s = "foldl room_step s (take n es')"
    have pb: "permit_bound (rp_live p) peer_id peer_ip local_ip ?s"
      using permit.prefix_inv [OF b] by blast
    have "foldl room_step ?s (drop n es') = foldl room_step s es'"
      by (metis append_take_drop_id foldl_append)
    then have "ra_flags ?s ! rp_live p"
      using revoked.run_inv [of "rp_live p" ?s "drop n es'"] up(1) pb by (auto simp: permit_bound_def)
    with pb show ?thesis by (auto simp: permit_bound_def)
  qed
  with up(2) show ?thesis by blast
qed

text \<open>
  In every reachable state the three decisions of a room agree: traffic is allowed exactly when
  a permit is issued and exactly when there is no denial reason.
\<close>
theorem room_decisions_agree:
  assumes "s = foldl room_step (room_new network_id) es" and "ra_enabled s"
  shows "(allows_at s peer_id peer_ip local_ip now
        \<longleftrightarrow> send_permit s now peer_id peer_ip local_ip \<noteq> None)
    \<and> (allows_at s peer_id peer_ip local_ip now
        \<longleftrightarrow> denial_reason s now peer_id peer_ip local_ip = None)"
  using room_reachable [of network_id es] assms
  by (auto simp: allows_at_def send_permit_def denial_reason_def room_inv_def not_le
      split: option.splits)

end
