(* ===== verification/Dataplane.thy ===== *)
theory Dataplane
  imports Dp_Source Acl Rooms
begin

text \<open>
  The data plane, \<open>client/daemon/src/dataplane/core.rs\<close>: packets read from the TUN device are
  routed to a peer and queued for it, packets decrypted from a peer are checked and written to
  the TUN device. One definition per handler follows the code from the parsed packet to its
  last effect. The display of an IPv6 address (\<open>show_v6\<close>) and Unicode lower-casing (\<open>lower\<close>) are
  parameters. Where a handler awaits, other tasks may operate on the room authorization: those
  operations, the clock readings and the results of the channel and of the device are in the
  environment record of the handler. Latency traces and log output are left out.
\<close>

section \<open>State\<close>

record outbound_packet =
  op_room_authorization :: "room_send_permit option"
  op_peer_id :: string
  op_dst_ip :: string
  op_packet :: bytes

record inbound_packet =
  in_peer_id :: string
  in_packet :: bytes

datatype peer_call = RecordSent string u64 | RecordReceived string u64

datatype network_error =
    OutboundChannelClosed
  | TunWriteFailed
  | ShortTunWrite nat nat
  | InvalidFeedback tun_error
  | FeedbackWriteFailed
  | ShortFeedbackWrite nat nat

text \<open>
  The peer manager's tables the handlers read (\<open>resolve_virtual_ip\<close>, the virtual address of
  \<open>get_connection\<close>) and the calls they make on it; the packets in the outbound queue and those
  handed to the TUN device.
\<close>

record data_plane =
  dp_tun_address :: string
  dp_resolve :: "string \<Rightarrow> string option"
  dp_virtual_ip :: "string \<Rightarrow> string option"
  dp_acl :: "acl_engine option"
  dp_local_node_id :: "string option"
  dp_overlay_v4 :: "ipv4_cidr option"
  dp_room :: "room_authorization option"
  dp_local_source_addresses :: "u32 set"
  dp_outbound :: "outbound_packet list"
  dp_tun_written :: "bytes list"
  dp_peer_calls :: "peer_call list"

section \<open>Access control of a packet\<close>

fun protocol_display :: "ip_protocol \<Rightarrow> string" where
  "protocol_display Icmp = ''ICMP''"
| "protocol_display Igmp = ''IGMP''"
| "protocol_display Tcp = ''TCP''"
| "protocol_display Udp = ''UDP''"
| "protocol_display Icmpv6 = ''ICMPv6''"
| "protocol_display UnknownProtocol = ''Unknown(255)''"

definition ascii_lower :: "char \<Rightarrow> char" where
  "ascii_lower c =
     (let k = of_char c :: nat in if 65 \<le> k \<and> k \<le> 90 then char_of (k + 32) else c)"

definition acl_protocol :: "ip_packet \<Rightarrow> string" where
  "acl_protocol p = map ascii_lower (protocol_display (ip_protocol_of p))"

definition acl_port :: "ip_packet \<Rightarrow> u16" where
  "acl_port p =
     (if (acl_protocol p = ''tcp'' \<or> acl_protocol p = ''udp'') \<and> length (ip_payload p) \<ge> 4
      then from_be [ip_payload p ! 2, ip_payload p ! 3] else 0)"

definition acl_allows ::
  "(string \<Rightarrow> string) \<Rightarrow> data_plane \<Rightarrow> string \<Rightarrow> string \<Rightarrow> ip_packet \<Rightarrow> bool" where
  "acl_allows lower d src_node dst_node p =
     (case dp_acl d of
        None \<Rightarrow> True
      | Some acl \<Rightarrow> acl_check lower acl src_node dst_node (acl_protocol p) (acl_port p))"

definition local_node :: "data_plane \<Rightarrow> string" where
  "local_node d = (case dp_local_node_id d of None \<Rightarrow> ''local'' | Some n \<Rightarrow> n)"

section \<open>Room authorization of a packet\<close>

definition record_room_drop ::
  "data_plane \<Rightarrow> instant \<Rightarrow> room_drop_reason \<Rightarrow> string \<Rightarrow> string \<Rightarrow> string \<Rightarrow> string \<Rightarrow> data_plane" where
  "record_room_drop d now reason direction peer_id src dst =
     (case dp_room d of
        None \<Rightarrow> d
      | Some auth \<Rightarrow> d\<lparr>dp_room := Some (record_drop auth now reason direction peer_id src dst)\<rparr>)"

definition room_allows ::
  "data_plane \<Rightarrow> instant \<Rightarrow> instant \<Rightarrow> string \<Rightarrow> string \<Rightarrow> string \<Rightarrow> bool \<times> data_plane" where
  "room_allows d now now' peer_id peer_ip local_ip =
     (case dp_room d of
        None \<Rightarrow> (True, d)
      | Some auth \<Rightarrow>
          (case denial_reason auth now peer_id peer_ip local_ip of
             None \<Rightarrow> (True, d)
           | Some reason \<Rightarrow>
               (False, d\<lparr>dp_room := Some (record_drop auth now' reason ''rx'' peer_id peer_ip local_ip)\<rparr>)))"

text \<open>What other tasks did to the authorization during an await.\<close>

definition room_events :: "data_plane \<Rightarrow> room_event list \<Rightarrow> data_plane" where
  "room_events d es = d\<lparr>dp_room := map_option (\<lambda>auth. foldl room_step auth es) (dp_room d)\<rparr>"

definition room_record_packet ::
  "data_plane \<Rightarrow> instant \<Rightarrow> instant \<Rightarrow> string \<Rightarrow> bool \<Rightarrow> data_plane" where
  "room_record_packet d now now' peer_id inbound =
     d\<lparr>dp_room := map_option (\<lambda>auth. record_packet auth now now' peer_id inbound) (dp_room d)\<rparr>"

definition permit_revoked :: "data_plane \<Rightarrow> instant \<Rightarrow> room_send_permit option \<Rightarrow> bool" where
  "permit_revoked d now permit \<longleftrightarrow>
     (case (permit, dp_room d) of
        (Some p, Some auth) \<Rightarrow> \<not> permit_is_valid auth now p
      | _ \<Rightarrow> False)"

section \<open>Source addresses\<close>

definition normalize_outbound_source ::
  "data_plane \<Rightarrow> instant \<Rightarrow> bytes \<Rightarrow> string \<Rightarrow> string \<Rightarrow> bytes option \<times> data_plane" where
  "normalize_outbound_source d now packet src_ip dst_ip =
     (let local_ip = dp_tun_address d;
          address = parse_v4 src_ip;
          overlay_source =
            (case address of
               None \<Rightarrow> False
             | Some ip \<Rightarrow>
                 octets ip ! 0 = 10 \<and> (octets ip ! 1 = 20 \<or> octets ip ! 1 = 21)
                 \<or> (case dp_overlay_v4 d of None \<Rightarrow> False | Some cidr \<Rightarrow> cidr_contains cidr ip));
          reason =
            (if overlay_source then Some OverlaySourceRejected
             else if (case address of None \<Rightarrow> True | Some ip \<Rightarrow> ip \<notin> dp_local_source_addresses d)
             then Some SourceNotLocal
             else None)
      in case (if (case dp_room d of None \<Rightarrow> False | Some auth \<Rightarrow> ra_enabled auth) then reason else None) of
           Some reason \<Rightarrow> (None, record_room_drop d now reason ''tx'' [] src_ip dst_ip)
         | None \<Rightarrow>
             (case normalize_overlay_source packet src_ip local_ip (dp_overlay_v4 d) of
                Normalized q \<Rightarrow> (Some q, d)
              | BlockedOverlaySpoof \<Rightarrow> (None, d)
              | Unsupported \<Rightarrow>
                  (None, record_room_drop d now SourceNormalizationFailed ''tx'' [] src_ip dst_ip)))"

definition normalize_inbound_source :: "data_plane \<Rightarrow> bytes \<Rightarrow> string \<Rightarrow> string \<Rightarrow> bytes option" where
  "normalize_inbound_source d packet src_ip peer_virtual_ip =
     (case normalize_overlay_source packet src_ip peer_virtual_ip (dp_overlay_v4 d) of
        Normalized q \<Rightarrow> Some q
      | BlockedOverlaySpoof \<Rightarrow> None
      | Unsupported \<Rightarrow> None)"

section \<open>Outbound packets\<close>

text \<open>
  The environment of one outbound packet: the clock at the drop of an unresolved or rejected
  packet, at \<open>send_permit\<close>, \<open>denial_reason\<close> and its drop, at the check before queueing, at the
  check after a queue slot is reserved, and at the record of the packet; the room operations
  while the ACL lock and while the slot are awaited; whether the queue is open.
\<close>

record outbound_env =
  oe_drop :: instant
  oe_permit :: instant
  oe_denial :: instant
  oe_denied :: instant
  oe_acl_drop :: instant
  oe_ready :: instant
  oe_reserved :: instant
  oe_packet :: instant
  oe_acl_events :: "room_event list"
  oe_slot_events :: "room_event list"
  oe_open :: bool

definition outbound_enqueue ::
  "data_plane \<Rightarrow> outbound_env \<Rightarrow> string \<Rightarrow> string \<Rightarrow> string \<Rightarrow> nat \<Rightarrow> bytes \<Rightarrow> room_send_permit option
     \<Rightarrow> (network_error + unit) \<times> data_plane" where
  "outbound_enqueue d env peer_id src_ip dst_ip total_len routed permit =
     (if permit_revoked d (oe_ready env) permit
      then (Inr (), record_room_drop d (oe_ready env) AuthorizationChanged ''tx'' peer_id src_ip dst_ip)
      else
        let d1 = room_events d (oe_slot_events env)
        in if \<not> oe_open env then (Inl OutboundChannelClosed, d1)
           else if permit_revoked d1 (oe_reserved env) permit
           then (Inr (), record_room_drop d1 (oe_reserved env) AuthorizationChanged ''tx'' peer_id
                           src_ip dst_ip)
           else
             let d2 = d1\<lparr>dp_outbound := dp_outbound d1 @
                           [\<lparr>op_room_authorization = permit, op_peer_id = peer_id, op_dst_ip = dst_ip,
                             op_packet = routed\<rparr>]\<rparr>;
                 d3 = room_record_packet d2 (oe_packet env) (oe_packet env) peer_id False
             in (Inr (), d3\<lparr>dp_peer_calls := dp_peer_calls d3 @ [RecordSent peer_id (of_nat total_len)]\<rparr>))"

definition outbound_route ::
  "(128 word \<Rightarrow> string) \<Rightarrow> (string \<Rightarrow> string) \<Rightarrow> data_plane \<Rightarrow> outbound_env \<Rightarrow> string \<Rightarrow> string \<Rightarrow> nat
     \<Rightarrow> bytes \<Rightarrow> (network_error + unit) \<times> data_plane" where
  "outbound_route show_v6 lower d env peer_id dst_ip total_len routed =
     (case ip_new routed of
        Inl err \<Rightarrow> (Inr (), d)
      | Inr parsed \<Rightarrow>
          let src_ip = src_addr_string show_v6 parsed;
              permit =
                (case dp_room d of
                   None \<Rightarrow> Inr None
                 | Some auth \<Rightarrow>
                     if \<not> ra_enabled auth then Inr None
                     else case send_permit auth (oe_permit env) peer_id dst_ip src_ip of
                            Some p \<Rightarrow> Inr (Some p)
                          | None \<Rightarrow>
                              Inl (record_drop auth (oe_denied env)
                                     (case denial_reason auth (oe_denial env) peer_id dst_ip src_ip of
                                        None \<Rightarrow> AuthorizationChanged | Some reason \<Rightarrow> reason)
                                     ''tx'' peer_id src_ip dst_ip))
          in case permit of
               Inl auth \<Rightarrow> (Inr (), d\<lparr>dp_room := Some auth\<rparr>)
             | Inr permit \<Rightarrow>
                 let d1 = room_events d (oe_acl_events env)
                 in if \<not> acl_allows lower d1 (local_node d1) peer_id parsed
                    then (Inr (), record_room_drop d1 (oe_acl_drop env) AclDenied ''tx'' peer_id src_ip dst_ip)
                    else outbound_enqueue d1 env peer_id src_ip dst_ip total_len routed permit)"

definition route_outbound_packet ::
  "(128 word \<Rightarrow> string) \<Rightarrow> (string \<Rightarrow> string) \<Rightarrow> data_plane \<Rightarrow> outbound_env \<Rightarrow> bytes
     \<Rightarrow> (network_error + unit) \<times> data_plane" where
  "route_outbound_packet show_v6 lower d env packet =
     (case ip_new packet of
        Inl err \<Rightarrow> (Inr (), d)
      | Inr parsed \<Rightarrow>
          let total_len = min (ip_total_len parsed) (length packet);
              dst_ip = dst_addr_string show_v6 parsed;
              src_ip = src_addr_string show_v6 parsed
          in case dp_resolve d dst_ip of
               None \<Rightarrow> (Inr (), record_room_drop d (oe_drop env) UnknownVirtualIp ''tx'' [] src_ip dst_ip)
             | Some peer_id \<Rightarrow>
                 let (routed, d1) =
                   (if src_ip = dp_tun_address d then (Some (take total_len packet), d)
                    else normalize_outbound_source d (oe_drop env) (take total_len packet) src_ip dst_ip)
                 in case routed of
                      None \<Rightarrow> (Inr (), d1)
                    | Some routed \<Rightarrow> outbound_route show_v6 lower d1 env peer_id dst_ip total_len routed)"

section \<open>Inbound packets\<close>

text \<open>
  The environment of one inbound packet: the clock at the first room check and its drop, at the
  other drops, at the second room check and its drop and at the record of the packet; the room
  operations while the ACL lock is awaited and while the packet is written; the result of the
  write, \<open>None\<close> for an error.
\<close>

record inbound_env =
  ie_first :: instant
  ie_first_drop :: instant
  ie_drop :: instant
  ie_second :: instant
  ie_second_drop :: instant
  ie_packet :: instant
  ie_acl_events :: "room_event list"
  ie_write_events :: "room_event list"
  ie_written :: "nat option"

definition inbound_deliver ::
  "data_plane \<Rightarrow> inbound_env \<Rightarrow> string \<Rightarrow> bytes \<Rightarrow> (network_error + unit) \<times> data_plane" where
  "inbound_deliver d env peer_id packet =
     (let d1 = room_events (d\<lparr>dp_tun_written := dp_tun_written d @ [packet]\<rparr>) (ie_write_events env)
      in case ie_written env of
           None \<Rightarrow> (Inl TunWriteFailed, d1)
         | Some written \<Rightarrow>
             if written \<noteq> length packet then (Inl (ShortTunWrite written (length packet)), d1)
             else
               let d2 = room_record_packet d1 (ie_packet env) (ie_packet env) peer_id True
               in (Inr (), d2\<lparr>dp_peer_calls := dp_peer_calls d2
                                @ [RecordReceived peer_id (of_nat (length packet))]\<rparr>))"

definition inbound_checked ::
  "(string \<Rightarrow> string) \<Rightarrow> data_plane \<Rightarrow> inbound_env \<Rightarrow> string \<Rightarrow> string \<Rightarrow> string \<Rightarrow> bytes
     \<Rightarrow> (network_error + unit) \<times> data_plane" where
  "inbound_checked lower d env peer_id src_ip dst_ip packet =
     (case ip_new packet of
        Inl err \<Rightarrow> (Inr (), d)
      | Inr parsed \<Rightarrow>
          let d1 = room_events d (ie_acl_events env)
          in if \<not> acl_allows lower d1 peer_id (local_node d1) parsed
             then (Inr (), record_room_drop d1 (ie_drop env) AclDenied ''rx'' peer_id src_ip dst_ip)
             else
               let (allowed, d2) =
                 room_allows d1 (ie_second env) (ie_second_drop env) peer_id src_ip dst_ip
               in if \<not> allowed then (Inr (), d2) else inbound_deliver d2 env peer_id packet)"

definition write_inbound ::
  "(128 word \<Rightarrow> string) \<Rightarrow> (string \<Rightarrow> string) \<Rightarrow> data_plane \<Rightarrow> inbound_env \<Rightarrow> inbound_packet
     \<Rightarrow> (network_error + unit) \<times> data_plane" where
  "write_inbound show_v6 lower d env packet =
     (case ip_new (in_packet packet) of
        Inl err \<Rightarrow> (Inr (), d)
      | Inr parsed \<Rightarrow>
          let total_len = min (ip_total_len parsed) (length (in_packet packet));
              inbound = take total_len (in_packet packet);
              src_ip = src_addr_string show_v6 parsed;
              dst_ip = dst_addr_string show_v6 parsed
          in case dp_virtual_ip d (in_peer_id packet) of
               None \<Rightarrow> (Inr (), d)
             | Some virtual_ip \<Rightarrow>
                 let (allowed, d1) =
                   room_allows d (ie_first env) (ie_first_drop env) (in_peer_id packet) src_ip dst_ip
                 in if \<not> allowed then (Inr (), d1)
                    else if dst_ip \<noteq> dp_tun_address d1
                    then (Inr (), record_room_drop d1 (ie_drop env) UnexpectedDestination ''rx''
                                    (in_peer_id packet) src_ip dst_ip)
                    else
                      case (if src_ip \<noteq> virtual_ip
                            then normalize_inbound_source d1 inbound src_ip virtual_ip
                            else Some inbound) of
                        None \<Rightarrow> (Inr (), d1)
                      | Some q \<Rightarrow> inbound_checked lower d1 env (in_peer_id packet) src_ip dst_ip q)"

section \<open>Locally generated feedback\<close>

definition write_local_feedback ::
  "data_plane \<Rightarrow> nat option \<Rightarrow> bytes \<Rightarrow> (network_error + unit) \<times> data_plane" where
  "write_local_feedback d written packet =
     (case ip_new packet of
        Inl err \<Rightarrow> (Inl (InvalidFeedback err), d)
      | Inr _ \<Rightarrow>
          let d1 = d\<lparr>dp_tun_written := dp_tun_written d @ [packet]\<rparr>
          in case written of
               None \<Rightarrow> (Inl FeedbackWriteFailed, d1)
             | Some w \<Rightarrow>
                 if w \<noteq> length packet then (Inl (ShortFeedbackWrite w (length packet)), d1)
                 else (Inr (), d1))"

section \<open>Construction\<close>

definition data_plane_new ::
  "string \<Rightarrow> (string \<Rightarrow> string option) \<Rightarrow> (string \<Rightarrow> string option) \<Rightarrow> data_plane" where
  "data_plane_new address resolve virtual_ip =
     \<lparr>dp_tun_address = address, dp_resolve = resolve, dp_virtual_ip = virtual_ip, dp_acl = None,
      dp_local_node_id = None, dp_overlay_v4 = None, dp_room = None,
      dp_local_source_addresses = {}, dp_outbound = [], dp_tun_written = [], dp_peer_calls = []\<rparr>"

definition with_room_authorization :: "data_plane \<Rightarrow> room_authorization \<Rightarrow> data_plane" where
  "with_room_authorization d auth = d\<lparr>dp_room := Some auth\<rparr>"

definition with_local_source_addresses :: "data_plane \<Rightarrow> u32 list \<Rightarrow> data_plane" where
  "with_local_source_addresses d addresses = d\<lparr>dp_local_source_addresses := set addresses\<rparr>"

definition with_acl :: "data_plane \<Rightarrow> acl_engine \<Rightarrow> string \<Rightarrow> data_plane" where
  "with_acl d acl local_node_id = d\<lparr>dp_acl := Some acl, dp_local_node_id := Some local_node_id\<rparr>"

definition with_overlay_cidr :: "data_plane \<Rightarrow> string \<Rightarrow> data_plane" where
  "with_overlay_cidr d cidr = d\<lparr>dp_overlay_v4 := cidr_parse cidr\<rparr>"

section \<open>The packet pump\<close>

text \<open>
  What the \<open>select!\<close> loops of \<open>run\<close> take up next: a packet read from the device, an inbound packet,
  a feedback packet, or the end of one of the sources. The pump is bidirectional until the
  inbound channel or the feedback channel is closed; then only the device and the feedback are
  served. An error ends it.
\<close>

datatype pump_event =
    Tun_Packet outbound_env bytes
  | Tun_Read_Failed
  | Inbound inbound_env inbound_packet
  | Inbound_Closed
  | Feedback "nat option" bytes
  | Feedback_Lagged u64
  | Feedback_Closed

datatype pump_error = TunReadFailed | Handler network_error

definition pump_handled ::
  "bool \<Rightarrow> (network_error + unit) \<times> data_plane \<Rightarrow> (pump_error + bool) \<times> data_plane" where
  "pump_handled both r =
     (case fst r of Inl err \<Rightarrow> (Inl (Handler err), snd r) | Inr _ \<Rightarrow> (Inr both, snd r))"

fun pump_step ::
  "(128 word \<Rightarrow> string) \<Rightarrow> (string \<Rightarrow> string) \<Rightarrow> bool \<Rightarrow> data_plane \<Rightarrow> pump_event
     \<Rightarrow> (pump_error + bool) \<times> data_plane" where
  "pump_step show_v6 lower both d (Tun_Packet env packet) =
     (if packet = [] then (Inr both, d)
      else pump_handled both (route_outbound_packet show_v6 lower d env packet))"
| "pump_step show_v6 lower both d Tun_Read_Failed = (Inl TunReadFailed, d)"
| "pump_step show_v6 lower both d (Inbound env packet) =
     (if both then pump_handled both (write_inbound show_v6 lower d env packet) else (Inr both, d))"
| "pump_step show_v6 lower both d Inbound_Closed = (Inr False, d)"
| "pump_step show_v6 lower both d (Feedback written packet) =
     pump_handled both (write_local_feedback d written packet)"
| "pump_step show_v6 lower both d (Feedback_Lagged skipped) = (Inr both, d)"
| "pump_step show_v6 lower both d Feedback_Closed = (Inr False, d)"

fun pump_run ::
  "(128 word \<Rightarrow> string) \<Rightarrow> (string \<Rightarrow> string) \<Rightarrow> bool \<Rightarrow> data_plane \<Rightarrow> pump_event list
     \<Rightarrow> (pump_error + bool) \<times> data_plane" where
  "pump_run show_v6 lower both d [] = (Inr both, d)"
| "pump_run show_v6 lower both d (e # es) =
     (case pump_step show_v6 lower both d e of
        (Inl err, d') \<Rightarrow> (Inl err, d')
      | (Inr both', d') \<Rightarrow> pump_run show_v6 lower both' d' es)"

end
