(* ===== verification/Dataplane_Props.thy ===== *)
theory Dataplane_Props
  imports Dataplane
begin

text \<open>
  What the data plane lets through: every packet queued for a peer comes from the local virtual
  address and is addressed to that peer, every packet written to the TUN device comes from its
  peer's virtual address and is addressed to the local one, each allowed by the ACL and the room.
\<close>

section \<open>Parsing a part of a packet\<close>

lemma ip_new_Inr:
  "ip_new b = Inr p \<longleftrightarrow>
     b \<noteq> [] \<and> (version_nibble b = 4 \<and> ipv4_new b = Inr b \<and> p = V4 b
              \<or> version_nibble b = 6 \<and> ipv6_new b = Inr b \<and> p = V6 b)"
proof -
  have "ipv4_new b = Inr q \<Longrightarrow> q = b" "ipv6_new b = Inr q \<Longrightarrow> q = b" for q
    by (auto simp: ipv4_new_def ipv6_new_def Let_def split: if_splits)
  then show ?thesis by (auto simp: ip_new_def Let_def bind_res_eq_Inr)
qed

lemma ipv4_new_length: "ipv4_new b = Inr q \<Longrightarrow> 20 \<le> length b"
  and ipv6_new_length: "ipv6_new b = Inr q \<Longrightarrow> 40 \<le> length b"
  by (auto simp: ipv4_new_def ipv6_new_def Let_def split: if_splits)

lemma addresses_of_prefix:
  assumes "ip_new b = Inr p" and "ip_new (take n b) = Inr p'"
  shows "src_addr_string show_v6 p' = src_addr_string show_v6 p"
    and "dst_addr_string show_v6 p' = dst_addr_string show_v6 p"
    and "version_nibble (take n b) = version_nibble b"
proof -
  have "take n b \<noteq> []" using assms(2) by (simp add: ip_new_Inr)
  then show v: "version_nibble (take n b) = version_nibble b" by (cases n) (auto simp: version_nibble_def)
  have nth: "take n b ! i = b ! i" if "i < length (take n b)" for i using that by simp
  have chunk: "chunk k m (take n b) = chunk k m b" if "k + m \<le> length (take n b)" for k m
    using that by (simp add: chunk_def drop_take min_def split: if_splits)
  show "src_addr_string show_v6 p' = src_addr_string show_v6 p"
      "dst_addr_string show_v6 p' = dst_addr_string show_v6 p"
    using assms v ipv4_new_length [of "take n b"] ipv6_new_length [of "take n b"]
    by (auto simp: ip_new_Inr src_addr_string_def dst_addr_string_def ipv4_src_addr_def
        ipv4_dst_addr_def ipv6_src_addr_def ipv6_dst_addr_def nth chunk [unfolded chunk_def]
        simp del: nth_take length_take)
qed

lemma normalized_addresses:
  assumes "ip_new b = Inr p" and "normalize_overlay_source (take n b) src new_src overlay = Normalized q"
    and "ip_new q = Inr p'"
  shows "src_addr_string show_v6 p' = new_src"
    and "dst_addr_string show_v6 p' = dst_addr_string show_v6 p"
    and "length q \<le> ip_total_len p'"
proof -
  let ?b = "take n b"
  obtain old new where new: "new_src = show_v4 new" and q: "normalize_ipv4_source ?b old new = Some q"
    using assms(2) by (auto simp: normalize_overlay_source_def parse_v4_Some
        split: option.splits if_splits)
  note r = normalize_ipv4_source_rewrites [OF q]
  have len: "20 \<le> length ?b" and nib: "drop_bit 4 (?b ! 0) = 4"
    using q by (auto simp: normalize_ipv4_source_def Let_def split: if_splits)
  have hdr: "20 \<le> length q"
    using r(4) by (rule ipv4_new_length)
  then have t: "20 \<le> unat (ipv4_total_len ?b)" using r(2,3) by simp
  let ?p = "take (unat (ipv4_total_len ?b)) ?b"
  have off: "i < k \<or> k + 2 \<le> i"
    if "transport_checksum_offset ?p (ipv4_header_len ?b) = Some k" "i < 20" for i k
  proof -
    have "20 \<le> ipv4_header_len ?b"
      using q by (simp add: normalize_ipv4_source_def Let_def ipv4_header_len_def split: if_splits)
    then show ?thesis using transport_offset_bounds [OF that(1)] that(2) by auto
  qed
  have same: "q ! i = b ! i" if "i < 20" "i \<notin> {10..<16}" for i
  proof -
    have l: "i < length ?p" using that(1) t r(2) by linarith
    then have "q ! i = ?p ! i" using off [of _ i] that by (intro r(8)) auto
    also have "\<dots> = b ! i" using l by simp
    finally show ?thesis .
  qed
  have "version_nibble b = 4"
    using nib len by (auto simp: version_nibble_def)
  then have b: "p = V4 b" using assms(1) by (auto simp: ip_new_Inr)
  have "version_nibble q = 4" using same [of 0] \<open>version_nibble b = 4\<close> by (simp add: version_nibble_def)
  then have q4: "p' = V4 q" using assms(3) by (auto simp: ip_new_Inr)
  show "src_addr_string show_v6 p' = new_src" using q4 r(6) new by (simp add: src_addr_string_def)
  show "dst_addr_string show_v6 p' = dst_addr_string show_v6 p"
    using same by (simp add: b q4 dst_addr_string_def ipv4_dst_addr_def)
  have "ipv4_total_len q = ipv4_total_len ?b"
    using same [of 2] same [of 3] len by (simp add: ipv4_total_len_def be16_at_def)
  then show "length q \<le> ip_total_len p'" using r(2,3) q4 by simp
qed

lemma total_len_of_prefix:
  assumes "ip_new b = Inr p" and "ip_new (take n b) = Inr p'"
  shows "ip_total_len p' = ip_total_len p"
proof -
  have v: "version_nibble (take n b) = version_nibble b"
    using assms by (rule addresses_of_prefix(3))
  have nth: "take n b ! i = b ! i" if "i < length (take n b)" for i using that by simp
  show ?thesis
    using assms v ipv4_new_length [of "take n b"] ipv6_new_length [of "take n b"]
    by (auto simp: ip_new_Inr ipv4_total_len_def ipv6_total_len_def ipv6_payload_len_def be16_at_def
        nth simp del: nth_take length_take)
qed

section \<open>Frames\<close>

lemma room_frame [simp]:
  "dp_outbound (record_room_drop d now reason direction peer src dst) = dp_outbound d"
  "dp_tun_written (record_room_drop d now reason direction peer src dst) = dp_tun_written d"
  "dp_outbound (room_events d es) = dp_outbound d"
  "dp_tun_written (room_events d es) = dp_tun_written d"
  "dp_acl (room_events d es) = dp_acl d"
  "dp_local_node_id (room_events d es) = dp_local_node_id d"
  "dp_room (room_events d es) = map_option (\<lambda>auth. foldl room_step auth es) (dp_room d)"
  "dp_outbound (room_record_packet d now now' peer inbound) = dp_outbound d"
  "dp_tun_written (room_record_packet d now now' peer inbound) = dp_tun_written d"
  "dp_room (room_record_packet d now now' peer inbound)
     = map_option (\<lambda>auth. record_packet auth now now' peer inbound) (dp_room d)"
  by (simp_all add: record_room_drop_def room_events_def room_record_packet_def split: option.split)

lemma access_frame [simp]:
  "acl_allows lower (room_events d es) = acl_allows lower d"
  "local_node (room_events d es) = local_node d"
  by (simp_all add: acl_allows_def local_node_def fun_eq_iff)

lemma room_allows_frame:
  "room_allows d now now' peer ip local = (ok, d1) \<Longrightarrow>
     dp_tun_written d1 = dp_tun_written d \<and> dp_tun_address d1 = dp_tun_address d
     \<and> dp_overlay_v4 d1 = dp_overlay_v4 d \<and> acl_allows lower d1 = acl_allows lower d
     \<and> local_node d1 = local_node d
     \<and> (ok \<longrightarrow> d1 = d \<and> (\<forall>auth. dp_room d = Some auth \<longrightarrow> denial_reason auth now peer ip local = None))"
  by (auto simp: room_allows_def acl_allows_def local_node_def fun_eq_iff split: option.splits)

lemma normalize_outbound_source_frame:
  "normalize_outbound_source d now packet src dst = (None, d1) \<Longrightarrow> dp_outbound d1 = dp_outbound d"
  "normalize_outbound_source d now packet src dst = (Some q, d1) \<Longrightarrow>
     d1 = d \<and> normalize_overlay_source packet src (dp_tun_address d) (dp_overlay_v4 d) = Normalized q"
  by (auto simp: normalize_outbound_source_def Let_def split: option.splits source_normalization.splits)

section \<open>Outbound\<close>

definition queued :: "data_plane \<Rightarrow> outbound_env \<Rightarrow> string \<Rightarrow> string \<Rightarrow> string \<Rightarrow> bytes
    \<Rightarrow> room_send_permit option \<Rightarrow> data_plane \<Rightarrow> bool" where
  "queued d env peer src dst routed permit d' \<longleftrightarrow>
     dp_outbound d' = dp_outbound d @
       [\<lparr>op_room_authorization = permit, op_peer_id = peer, op_dst_ip = dst, op_packet = routed\<rparr>]
     \<and> dp_room d' = map_option (\<lambda>auth. foldl room_step auth
           (oe_slot_events env @ [Record_Packet (oe_packet env) (oe_packet env) peer False])) (dp_room d)
     \<and> \<not> permit_revoked d' (oe_reserved env) permit"

lemma outbound_enqueue_cases:
  assumes "outbound_enqueue d env peer src dst len routed permit = (r, d')"
  shows "dp_outbound d' = dp_outbound d \<or> r = Inr () \<and> queued d env peer src dst routed permit d'"
  using assms
  by (auto simp: outbound_enqueue_def queued_def Let_def permit_revoked_def permit_is_valid_def
      option.map_comp comp_def split: if_splits option.splits)

lemma outbound_route_cases:
  assumes "outbound_route show_v6 lower d env peer dst len routed = (r, d')"
  shows "dp_outbound d' = dp_outbound d
    \<or> (\<exists>p permit. r = Inr () \<and> ip_new routed = Inr p
        \<and> acl_allows lower d (local_node d) peer p
        \<and> (permit = None \<and> (\<forall>auth. dp_room d = Some auth \<longrightarrow> \<not> ra_enabled auth)
           \<or> (\<exists>auth. dp_room d = Some auth \<and> permit \<noteq> None
                \<and> send_permit auth (oe_permit env) peer dst (src_addr_string show_v6 p) = permit))
        \<and> queued (room_events d (oe_acl_events env)) env peer (src_addr_string show_v6 p) dst
            routed permit d')"
proof (cases "ip_new routed")
  case (Inr p)
  let ?src = "src_addr_string show_v6 p" and ?d1 = "room_events d (oe_acl_events env)"
  show ?thesis
  proof (cases "\<exists>auth. dp_room d = Some auth \<and> ra_enabled auth \<and>
      send_permit auth (oe_permit env) peer dst ?src = None")
    case True
    with assms Inr show ?thesis by (auto simp: outbound_route_def Let_def)
  next
    case False
    define permit where "permit = (case dp_room d of None \<Rightarrow> None | Some auth \<Rightarrow>
        if ra_enabled auth then send_permit auth (oe_permit env) peer dst ?src else None)"
    have p: "permit = None \<and> (\<forall>auth. dp_room d = Some auth \<longrightarrow> \<not> ra_enabled auth)
        \<or> (\<exists>auth. dp_room d = Some auth \<and> permit \<noteq> None
            \<and> send_permit auth (oe_permit env) peer dst ?src = permit)"
      using False by (cases "dp_room d") (auto simp: permit_def)
    have "(r, d') = (if \<not> acl_allows lower d (local_node d) peer p
        then (Inr (), record_room_drop ?d1 (oe_acl_drop env) AclDenied ''tx'' peer ?src dst)
        else outbound_enqueue ?d1 env peer ?src dst len routed permit)"
      using assms Inr False
      by (cases "dp_room d") (auto simp: outbound_route_def Let_def permit_def split: if_splits)
    with outbound_enqueue_cases [of ?d1 env peer ?src dst len routed permit r d'] p Inr
    show ?thesis by (auto split: if_splits)
  qed
qed (use assms in \<open>simp add: outbound_route_def\<close>)

text \<open>A packet queued in a room: the roster authorises it when it enters the queue.\<close>

lemma queued_room:
  assumes q: "queued (room_events d es) env peer src dst routed (Some p) d'"
    and "dp_room d = Some auth" and "room_inv auth"
    and "send_permit auth now peer dst src = Some p"
  shows "\<exists>auth' snap. dp_room d' = Some auth' \<and> permit_is_valid auth' (oe_reserved env) p
    \<and> ra_snapshot auth' = Some snap \<and> rs_local_ip snap = src
    \<and> map_of (rs_peers snap) peer = Some dst"
proof -
  let ?all = "es @ oe_slot_events env @ [Record_Packet (oe_packet env) (oe_packet env) peer False]"
  let ?auth = "foldl room_step auth ?all"
  have room: "dp_room d' = Some ?auth" using q assms(2) by (simp add: queued_def)
  have "permit_bound (rp_live p) peer dst src auth"
    using assms(3,4) by (rule send_permit_bound)
  then have b: "permit_bound (rp_live p) peer dst src ?auth"
    using permit.run_inv [of auth "rp_live p" peer dst src ?all] assms(3) by blast
  have v: "permit_is_valid ?auth (oe_reserved env) p"
    using q room by (simp add: queued_def permit_revoked_def)
  then have "ra_flags ?auth ! rp_live p" unfolding permit_is_valid_def by blast
  with b obtain snap where "ra_snapshot ?auth = Some snap" "rs_local_ip snap = src"
      "map_of (rs_peers snap) peer = Some dst"
    unfolding permit_bound_def by blast
  with room v show ?thesis by blast
qed

text \<open>A routed packet is a prefix of the packet, or the packet with the node's source address.\<close>

lemma routed_addresses:
  assumes "ip_new packet = Inr p0"
    and "routed = take n packet \<and> src_addr_string show_v6 p0 = tun
      \<or> normalize_overlay_source (take n packet) (src_addr_string show_v6 p0) tun overlay = Normalized routed"
    and "ip_new routed = Inr p" and n: "n = min (ip_total_len p0) (length packet)"
  shows "src_addr_string show_v6 p = tun \<and> dst_addr_string show_v6 p = dst_addr_string show_v6 p0
    \<and> length routed \<le> ip_total_len p"
  using assms(2)
proof (elim disjE conjE)
  assume t: "routed = take n packet" "src_addr_string show_v6 p0 = tun"
  then show ?thesis
    using addresses_of_prefix(1,2) [OF assms(1), of n p] assms(3)
      total_len_of_prefix [OF assms(1), of n p] by (simp add: n)
next
  assume "normalize_overlay_source (take n packet) (src_addr_string show_v6 p0) tun overlay = Normalized routed"
  from normalized_addresses [OF assms(1) this assms(3)] show ?thesis by simp
qed

lemma route_outbound_cases:
  assumes "route_outbound_packet show_v6 lower d env packet = (r, d')"
  shows "dp_outbound d' = dp_outbound d
    \<or> (\<exists>p0 p peer routed permit. r = Inr () \<and> ip_new packet = Inr p0 \<and> ip_new routed = Inr p
        \<and> dp_resolve d (dst_addr_string show_v6 p0) = Some peer
        \<and> src_addr_string show_v6 p = dp_tun_address d
        \<and> dst_addr_string show_v6 p = dst_addr_string show_v6 p0
        \<and> length routed \<le> ip_total_len p
        \<and> acl_allows lower d (local_node d) peer p
        \<and> (permit = None \<and> (\<forall>auth. dp_room d = Some auth \<longrightarrow> \<not> ra_enabled auth)
           \<or> (\<exists>auth. dp_room d = Some auth \<and> permit \<noteq> None
                \<and> send_permit auth (oe_permit env) peer (dst_addr_string show_v6 p0)
                    (dp_tun_address d) = permit))
        \<and> queued (room_events d (oe_acl_events env)) env peer (dp_tun_address d)
            (dst_addr_string show_v6 p0) routed permit d')"
proof (cases "ip_new packet")
  case (Inr p0)
  let ?dst = "dst_addr_string show_v6 p0" and ?src = "src_addr_string show_v6 p0"
  let ?n = "min (ip_total_len p0) (length packet)"
  show ?thesis
  proof (cases "dp_resolve d ?dst")
    case None
    with Inr assms show ?thesis by (auto simp: route_outbound_packet_def Let_def)
  next
    case peer: (Some peer)
    obtain ro d1 where ro: "(ro, d1) =
        (if ?src = dp_tun_address d then (Some (take ?n packet), d)
         else normalize_outbound_source d (oe_drop env) (take ?n packet) ?src ?dst)"
      by (metis surj_pair)
    have out: "(r, d') = (case ro of None \<Rightarrow> (Inr (), d1)
        | Some routed \<Rightarrow> outbound_route show_v6 lower d1 env peer ?dst ?n routed)"
      using assms Inr peer ro by (simp add: route_outbound_packet_def Let_def split: prod.splits)
    show ?thesis
    proof (cases ro)
      case None
      then have "dp_outbound d1 = dp_outbound d"
        using ro normalize_outbound_source_frame(1) [of d "oe_drop env" "take ?n packet" ?src ?dst d1]
        by (auto split: if_splits)
      with None out show ?thesis by simp
    next
      case (Some routed)
      then have d1: "d1 = d" and route: "routed = take ?n packet \<and> ?src = dp_tun_address d
          \<or> normalize_overlay_source (take ?n packet) ?src (dp_tun_address d) (dp_overlay_v4 d)
              = Normalized routed"
        using ro normalize_outbound_source_frame(2)
          [of d "oe_drop env" "take ?n packet" ?src ?dst routed d1] by (auto split: if_splits)
      note addr = routed_addresses [OF Inr route _ refl]
      from out Some d1
      have "outbound_route show_v6 lower d env peer ?dst ?n routed = (r, d')" by simp
      from outbound_route_cases [OF this] show ?thesis
      proof
        assume "\<exists>p permit. r = Inr () \<and> ip_new routed = Inr p
            \<and> acl_allows lower d (local_node d) peer p
            \<and> (permit = None \<and> (\<forall>auth. dp_room d = Some auth \<longrightarrow> \<not> ra_enabled auth)
               \<or> (\<exists>auth. dp_room d = Some auth \<and> permit \<noteq> None
                    \<and> send_permit auth (oe_permit env) peer ?dst (src_addr_string show_v6 p) = permit))
            \<and> queued (room_events d (oe_acl_events env)) env peer (src_addr_string show_v6 p) ?dst
                routed permit d'"
        then obtain p permit where p: "r = Inr ()" "ip_new routed = Inr p"
            "acl_allows lower d (local_node d) peer p"
            "permit = None \<and> (\<forall>auth. dp_room d = Some auth \<longrightarrow> \<not> ra_enabled auth)
               \<or> (\<exists>auth. dp_room d = Some auth \<and> permit \<noteq> None
                    \<and> send_permit auth (oe_permit env) peer ?dst (src_addr_string show_v6 p) = permit)"
            "queued (room_events d (oe_acl_events env)) env peer (src_addr_string show_v6 p) ?dst
                routed permit d'"
          by blast
        with addr [OF p(2)] Inr peer show ?thesis by (intro disjI2 exI [of _ p0] exI [of _ p]) auto
      qed simp
    qed
  qed
qed (use assms in \<open>simp add: route_outbound_packet_def\<close>)

section \<open>Inbound\<close>

lemma record_room_drop_written:
  "(r, d') = (Inr (), record_room_drop d now reason direction peer src dst)
    \<Longrightarrow> dp_tun_written d' = dp_tun_written d"
  by simp

lemma inbound_deliver_written:
  "inbound_deliver d env peer packet = (r, d') \<Longrightarrow> dp_tun_written d' = dp_tun_written d @ [packet]"
  by (auto simp: inbound_deliver_def Let_def split: option.splits if_splits)

lemma inbound_checked_cases:
  assumes "inbound_checked lower d env peer src dst packet = (r, d')"
  shows "dp_tun_written d' = dp_tun_written d
    \<or> (\<exists>p. ip_new packet = Inr p \<and> acl_allows lower d peer (local_node d) p
        \<and> dp_tun_written d' = dp_tun_written d @ [packet]
        \<and> (\<forall>auth. dp_room d = Some auth \<longrightarrow>
             denial_reason (foldl room_step auth (ie_acl_events env)) (ie_second env) peer src dst = None))"
proof (cases "ip_new packet")
  case (Inr p)
  let ?d1 = "room_events d (ie_acl_events env)"
  obtain ok d2 where ra: "room_allows ?d1 (ie_second env) (ie_second_drop env) peer src dst = (ok, d2)"
    by fastforce
  note f = room_allows_frame [OF ra]
  show ?thesis
  proof (cases "acl_allows lower d peer (local_node d) p \<and> ok")
    case True
    then have "inbound_deliver d2 env peer packet = (r, d')"
      using assms Inr ra by (simp add: inbound_checked_def Let_def)
    then have "dp_tun_written d' = dp_tun_written d @ [packet]"
      using inbound_deliver_written f by fastforce
    with True Inr f show ?thesis by auto
  next
    case False
    then have "(r, d') = (Inr (), d2)
        \<or> (r, d') = (Inr (), record_room_drop ?d1 (ie_drop env) AclDenied ''rx'' peer src dst)"
      using assms Inr ra by (auto simp: inbound_checked_def Let_def split: if_splits)
    then show ?thesis using f by auto
  qed
qed (use assms in \<open>simp add: inbound_checked_def\<close>)

lemma write_inbound_cases:
  assumes "write_inbound show_v6 lower d env packet = (r, d')"
  shows "dp_tun_written d' = dp_tun_written d
    \<or> (\<exists>p0 p q virtual_ip. ip_new (in_packet packet) = Inr p0 \<and> ip_new q = Inr p
        \<and> dp_virtual_ip d (in_peer_id packet) = Some virtual_ip
        \<and> dp_tun_written d' = dp_tun_written d @ [q]
        \<and> src_addr_string show_v6 p = virtual_ip
        \<and> dst_addr_string show_v6 p = dp_tun_address d
        \<and> dst_addr_string show_v6 p0 = dp_tun_address d
        \<and> acl_allows lower d (in_peer_id packet) (local_node d) p
        \<and> (\<forall>auth. dp_room d = Some auth \<longrightarrow>
             denial_reason auth (ie_first env) (in_peer_id packet) (src_addr_string show_v6 p0)
               (dp_tun_address d) = None
             \<and> denial_reason (foldl room_step auth (ie_acl_events env)) (ie_second env)
                 (in_peer_id packet) (src_addr_string show_v6 p0) (dp_tun_address d) = None))"
proof (cases "ip_new (in_packet packet)")
  case (Inr p0)
  let ?peer = "in_peer_id packet"
  let ?dst = "dst_addr_string show_v6 p0" and ?src = "src_addr_string show_v6 p0"
  let ?b = "take (min (ip_total_len p0) (length (in_packet packet))) (in_packet packet)"
  show ?thesis
  proof (cases "dp_virtual_ip d ?peer")
    case None
    with Inr assms show ?thesis by (simp add: write_inbound_def Let_def)
  next
    case v: (Some virtual_ip)
    obtain ok d1 where ra: "room_allows d (ie_first env) (ie_first_drop env) ?peer ?src ?dst = (ok, d1)"
      by fastforce
    note f = room_allows_frame [OF ra]
    define ro where "ro = (if ?src \<noteq> virtual_ip then normalize_inbound_source d1 ?b ?src virtual_ip
        else Some ?b)"
    show ?thesis
    proof (cases "ok \<and> ?dst = dp_tun_address d \<and> ro \<noteq> None")
      case False
      then have "(r, d') = (Inr (), d1) \<or> (r, d') = (Inr (), record_room_drop d1 (ie_drop env)
          UnexpectedDestination ''rx'' ?peer ?src ?dst)"
        using assms Inr v ra f by (auto simp: write_inbound_def Let_def ro_def split: if_splits option.splits)
      then show ?thesis using f by auto
    next
      case True
      then obtain q where q: "ro = Some q" by blast
      have d1: "d1 = d" "\<forall>auth. dp_room d = Some auth \<longrightarrow> denial_reason auth (ie_first env) ?peer ?src ?dst = None"
        using f True by auto
      then have chk: "inbound_checked lower d env ?peer ?src ?dst q = (r, d')"
        using assms Inr v ra True q [unfolded ro_def d1(1)]
        by (simp add: write_inbound_def Let_def)
      have addr: "src_addr_string show_v6 p = virtual_ip \<and> dst_addr_string show_v6 p = ?dst"
        if "ip_new q = Inr p" for p
      proof (cases "?src = virtual_ip")
        case True
        then have "q = ?b" using q by (simp add: ro_def)
        with True addresses_of_prefix(1,2) [OF Inr] that show ?thesis by simp
      next
        case False
        then have "normalize_overlay_source ?b ?src virtual_ip (dp_overlay_v4 d1) = Normalized q"
          using q by (auto simp: ro_def normalize_inbound_source_def split: source_normalization.splits)
        from normalized_addresses [OF Inr this that] show ?thesis by simp
      qed
      from inbound_checked_cases [OF chk] addr True Inr v d1 show ?thesis by auto
    qed
  qed
qed (use assms in \<open>simp add: write_inbound_def\<close>)

section \<open>The pump\<close>

text \<open>The parts of the state no handler changes.\<close>

definition same_config :: "data_plane \<Rightarrow> data_plane \<Rightarrow> bool" where
  "same_config d d' \<longleftrightarrow>
     dp_tun_address d' = dp_tun_address d \<and> dp_resolve d' = dp_resolve d
     \<and> dp_virtual_ip d' = dp_virtual_ip d \<and> dp_acl d' = dp_acl d
     \<and> dp_local_node_id d' = dp_local_node_id d"

lemma same_config_access:
  "same_config d d' \<Longrightarrow> acl_allows lower d' = acl_allows lower d \<and> local_node d' = local_node d"
  by (simp add: same_config_def acl_allows_def local_node_def fun_eq_iff)

lemma same_config_refl [simp]: "same_config d d"
  and same_config_trans: "same_config a b \<Longrightarrow> same_config b c \<Longrightarrow> same_config a c"
  by (auto simp: same_config_def)

lemma same_config_room [simp]:
  "same_config d (record_room_drop d now reason direction peer src dst)"
  "same_config d (room_events d es)"
  "same_config d (room_record_packet d now now' peer inbound)"
  "same_config d (d\<lparr>dp_room := room\<rparr>)"
  by (simp_all add: same_config_def record_room_drop_def room_events_def room_record_packet_def
      split: option.split)

lemma same_config_simps [simp]:
  "same_config d (d'\<lparr>dp_outbound := x\<rparr>) = same_config d d'"
  "same_config d (d'\<lparr>dp_tun_written := y\<rparr>) = same_config d d'"
  "same_config d (d'\<lparr>dp_peer_calls := z\<rparr>) = same_config d d'"
  "same_config d (d'\<lparr>dp_room := room\<rparr>) = same_config d d'"
  "same_config d (record_room_drop d' now reason direction peer src dst) = same_config d d'"
  "same_config d (room_events d' es) = same_config d d'"
  "same_config d (room_record_packet d' now now' peer inbound) = same_config d d'"
  by (simp_all add: same_config_def record_room_drop_def room_events_def room_record_packet_def
      split: option.split)

lemma same_config_handlers:
  "same_config d (snd (outbound_enqueue d0 env peer src dst len routed permit)) = same_config d d0"
  "same_config d (snd (inbound_deliver d0 ienv peer routed)) = same_config d d0"
  "same_config d (snd (room_allows d0 now now' peer src dst)) = same_config d d0"
  "same_config d (snd (normalize_outbound_source d0 now packet src dst)) = same_config d d0"
  by (auto simp: outbound_enqueue_def inbound_deliver_def room_allows_def normalize_outbound_source_def
      Let_def split: option.splits source_normalization.splits)

lemma same_config_route:
  "same_config d (snd (outbound_route show_v6 lower d0 env peer dst len routed)) = same_config d d0"
  by (auto simp: outbound_route_def same_config_handlers Let_def split: sum.split option.split)

lemma same_config_outbound:
  "same_config d (snd (route_outbound_packet show_v6 lower d env packet))"
  by (auto simp: route_outbound_packet_def Let_def same_config_route case_prod_beta
      same_config_handlers split: sum.split option.split)

lemma same_config_inbound:
  "same_config d (snd (write_inbound show_v6 lower d env packet))"
proof -
  have "same_config d (snd (inbound_checked lower d0 env peer src dst q)) = same_config d d0"
    for d0 peer src dst q
    by (auto simp: inbound_checked_def Let_def same_config_handlers case_prod_beta split: sum.split)
  then show ?thesis
    by (auto simp: write_inbound_def Let_def same_config_handlers case_prod_beta
        split: sum.split option.split)
qed

lemma same_config_feedback: "same_config d (snd (write_local_feedback d written packet))"
  by (auto simp: write_local_feedback_def Let_def split: sum.split option.split)

text \<open>What every packet queued for a peer, and every packet from a peer written to the device, is.\<close>

definition out_ok ::
  "(128 word \<Rightarrow> string) \<Rightarrow> (string \<Rightarrow> string) \<Rightarrow> data_plane \<Rightarrow> outbound_packet \<Rightarrow> bool" where
  "out_ok show_v6 lower d out \<longleftrightarrow>
     (\<exists>p. ip_new (op_packet out) = Inr p \<and> src_addr_string show_v6 p = dp_tun_address d
        \<and> dst_addr_string show_v6 p = op_dst_ip out
        \<and> dp_resolve d (op_dst_ip out) = Some (op_peer_id out)
        \<and> acl_allows lower d (local_node d) (op_peer_id out) p)"

definition in_ok :: "(128 word \<Rightarrow> string) \<Rightarrow> (string \<Rightarrow> string) \<Rightarrow> data_plane \<Rightarrow> bytes \<Rightarrow> bool" where
  "in_ok show_v6 lower d q \<longleftrightarrow>
     (\<exists>p peer. ip_new q = Inr p \<and> dp_virtual_ip d peer = Some (src_addr_string show_v6 p)
        \<and> dst_addr_string show_v6 p = dp_tun_address d
        \<and> acl_allows lower d peer (local_node d) p)"

lemma ok_config:
  "same_config d d' \<Longrightarrow> out_ok show_v6 lower d' = out_ok show_v6 lower d"
  "same_config d d' \<Longrightarrow> in_ok show_v6 lower d' = in_ok show_v6 lower d"
  using same_config_access [of d d' lower]
  by (simp_all add: out_ok_def in_ok_def same_config_def fun_eq_iff)

definition fed_back :: "pump_event list \<Rightarrow> bytes set" where
  "fed_back es = {packet. \<exists>written. Feedback written packet \<in> set es}"

text \<open>Which of the two lists a handler leaves alone.\<close>

lemma outbound_writes_nothing:
  "dp_tun_written (snd (route_outbound_packet show_v6 lower d env packet)) = dp_tun_written d"
proof -
  have enq: "dp_tun_written (snd (outbound_enqueue d0 env peer src dst len routed permit))
      = dp_tun_written d0" for d0 peer src dst len routed permit
    by (simp add: outbound_enqueue_def Let_def)
  have route: "dp_tun_written (snd (outbound_route show_v6 lower d0 env peer dst len routed))
      = dp_tun_written d0" for d0 peer dst len routed
    by (auto simp: outbound_route_def Let_def enq split: sum.split option.split)
  have norm: "dp_tun_written (snd (normalize_outbound_source d0 now q src dst)) = dp_tun_written d0"
    for d0 now q src dst
    by (auto simp: normalize_outbound_source_def Let_def split: option.splits source_normalization.splits)
  show ?thesis
    by (auto simp: route_outbound_packet_def Let_def route norm case_prod_beta
        split: sum.split option.split)
qed

lemma inbound_queues_nothing:
  "dp_outbound (snd (write_inbound show_v6 lower d env packet)) = dp_outbound d"
proof -
  have del: "dp_outbound (snd (inbound_deliver d0 env peer q)) = dp_outbound d0" for d0 peer q
    by (auto simp: inbound_deliver_def Let_def split: option.split)
  have all: "dp_outbound (snd (room_allows d0 now now' peer src dst)) = dp_outbound d0"
    for d0 now now' peer src dst
    by (auto simp: room_allows_def split: option.split)
  have chk: "dp_outbound (snd (inbound_checked lower d0 env peer src dst q)) = dp_outbound d0"
    for d0 peer src dst q
    by (auto simp: inbound_checked_def Let_def del all case_prod_beta split: sum.split)
  show ?thesis
    by (auto simp: write_inbound_def Let_def chk all case_prod_beta split: sum.split option.split)
qed

lemma tun_packet_safe:
  assumes "d' = snd (route_outbound_packet show_v6 lower d env packet)"
  shows "\<exists>outs. dp_outbound d' = dp_outbound d @ outs \<and> (\<forall>out \<in> set outs. out_ok show_v6 lower d out)"
proof -
  obtain r where "route_outbound_packet show_v6 lower d env packet = (r, d')"
    using assms by (metis prod.collapse)
  from route_outbound_cases [OF this] consider (same) "dp_outbound d' = dp_outbound d"
    | (routed) p0 p peer routed permit where "ip_new routed = Inr p"
        "dp_resolve d (dst_addr_string show_v6 p0) = Some peer"
        "src_addr_string show_v6 p = dp_tun_address d"
        "dst_addr_string show_v6 p = dst_addr_string show_v6 p0"
        "acl_allows lower d (local_node d) peer p"
        "queued (room_events d (oe_acl_events env)) env peer (dp_tun_address d)
           (dst_addr_string show_v6 p0) routed permit d'"
    by blast
  then show ?thesis
  proof cases
    case routed
    then show ?thesis by (intro exI [of _ "[_]"]) (auto simp: queued_def out_ok_def)
  qed simp
qed

lemma inbound_packet_safe:
  assumes "d' = snd (write_inbound show_v6 lower d env packet)"
  shows "\<exists>qs. dp_tun_written d' = dp_tun_written d @ qs \<and> (\<forall>q \<in> set qs. in_ok show_v6 lower d q)"
proof -
  obtain r where "write_inbound show_v6 lower d env packet = (r, d')"
    using assms by (metis prod.collapse)
  from write_inbound_cases [OF this] show ?thesis
  proof
    assume "dp_tun_written d' = dp_tun_written d"
    then show ?thesis by simp
  qed (fastforce simp: in_ok_def)
qed

lemma pump_step_safe:
  assumes "pump_step show_v6 lower both d e = (r, d')"
  shows "same_config d d'
    \<and> (\<exists>outs. dp_outbound d' = dp_outbound d @ outs \<and> (\<forall>out \<in> set outs. out_ok show_v6 lower d out))
    \<and> (\<exists>qs. dp_tun_written d' = dp_tun_written d @ qs
         \<and> (\<forall>q \<in> set qs. in_ok show_v6 lower d q \<or> q \<in> fed_back [e]))"
proof (cases e)
  case (Tun_Packet env packet)
  show ?thesis
  proof (cases "packet = []")
    case True
    with assms Tun_Packet show ?thesis by simp
  next
    case False
    then have d': "d' = snd (route_outbound_packet show_v6 lower d env packet)"
      using assms Tun_Packet by (simp add: pump_handled_def split: sum.splits)
    from tun_packet_safe [OF this] d' show ?thesis
      by (simp add: same_config_outbound outbound_writes_nothing)
  qed
next
  case (Inbound env packet)
  show ?thesis
  proof (cases both)
    case False
    with assms Inbound show ?thesis by simp
  next
    case True
    then have d': "d' = snd (write_inbound show_v6 lower d env packet)"
      using assms Inbound by (simp add: pump_handled_def split: sum.splits)
    from inbound_packet_safe [OF this] d' show ?thesis
      by (auto simp: same_config_inbound inbound_queues_nothing)
  qed
next
  case (Feedback written packet)
  then have d': "d' = snd (write_local_feedback d written packet)"
    using assms by (simp add: pump_handled_def split: sum.splits)
  have "dp_outbound d' = dp_outbound d"
    "dp_tun_written d' = dp_tun_written d \<or> dp_tun_written d' = dp_tun_written d @ [packet]"
    by (auto simp: d' write_local_feedback_def Let_def split: sum.split option.split)
  with Feedback d' show ?thesis by (auto simp: same_config_feedback fed_back_def)
qed (use assms in simp_all)

lemma pump_run_safe:
  "pump_run show_v6 lower both d es = (r, d') \<Longrightarrow>
     same_config d d'
     \<and> (\<exists>outs. dp_outbound d' = dp_outbound d @ outs \<and> (\<forall>out \<in> set outs. out_ok show_v6 lower d out))
     \<and> (\<exists>qs. dp_tun_written d' = dp_tun_written d @ qs
          \<and> (\<forall>q \<in> set qs. in_ok show_v6 lower d q \<or> q \<in> fed_back es))"
proof (induction es arbitrary: both d)
  case Nil
  then show ?case by simp
next
  case (Cons e es)
  obtain r1 d1 where s: "pump_step show_v6 lower both d e = (r1, d1)" by fastforce
  note step = pump_step_safe [OF s]
  have fed: "fed_back (e # es) = fed_back [e] \<union> fed_back es"
    by (auto simp: fed_back_def)
  show ?case
  proof (cases r1)
    case (Inl err)
    with Cons.prems s step fed show ?thesis by auto
  next
    case (Inr both')
    with Cons.prems s have "pump_run show_v6 lower both' d1 es = (r, d')" by simp
    from Cons.IH [OF this] step fed show ?thesis
      by (auto simp: ok_config [of d d1] intro: same_config_trans)
  qed
qed

section \<open>Claims\<close>

text \<open>
  C19: A packet read from the TUN device is queued at most once, for the peer its destination
  resolves to, with the local address as its source (rewritten where needed) and the same
  destination, after the ACL allowed it; in a room it carries a permit that is valid when it
  enters the queue, and the roster of that moment has the peer at that destination, whatever
  happened to the room while the ACL and the queue were awaited.
\<close>
theorem outbound_packets_authorised:
  assumes "route_outbound_packet show_v6 lower d env packet = (r, d')"
    and "dp_outbound d' \<noteq> dp_outbound d"
  shows "\<exists>p0 p out. dp_outbound d' = dp_outbound d @ [out] \<and> r = Inr ()
    \<and> ip_new packet = Inr p0 \<and> ip_new (op_packet out) = Inr p
    \<and> src_addr_string show_v6 p = dp_tun_address d
    \<and> dst_addr_string show_v6 p = dst_addr_string show_v6 p0
    \<and> op_dst_ip out = dst_addr_string show_v6 p
    \<and> dp_resolve d (op_dst_ip out) = Some (op_peer_id out)
    \<and> acl_allows lower d (local_node d) (op_peer_id out) p
    \<and> (\<forall>network_id es auth. auth = foldl room_step (room_new network_id) es
         \<and> dp_room d = Some auth \<and> ra_enabled auth \<longrightarrow>
         (\<exists>auth' permit snap. dp_room d' = Some auth' \<and> op_room_authorization out = Some permit
            \<and> permit_is_valid auth' (oe_reserved env) permit
            \<and> ra_snapshot auth' = Some snap \<and> rs_local_ip snap = dp_tun_address d
            \<and> map_of (rs_peers snap) (op_peer_id out) = Some (op_dst_ip out)))"
proof -
  obtain p0 p peer routed permit where c: "r = Inr ()" "ip_new packet = Inr p0" "ip_new routed = Inr p"
      "dp_resolve d (dst_addr_string show_v6 p0) = Some peer"
      "src_addr_string show_v6 p = dp_tun_address d"
      "dst_addr_string show_v6 p = dst_addr_string show_v6 p0"
      "acl_allows lower d (local_node d) peer p"
    and pm: "permit = None \<and> (\<forall>auth. dp_room d = Some auth \<longrightarrow> \<not> ra_enabled auth)
        \<or> (\<exists>auth. dp_room d = Some auth \<and> permit \<noteq> None
             \<and> send_permit auth (oe_permit env) peer (dst_addr_string show_v6 p0)
                 (dp_tun_address d) = permit)"
    and q: "queued (room_events d (oe_acl_events env)) env peer (dp_tun_address d)
        (dst_addr_string show_v6 p0) routed permit d'"
    using route_outbound_cases [OF assms(1)] assms(2) by blast
  have room: "\<exists>auth' pm snap. dp_room d' = Some auth' \<and> permit = Some pm
      \<and> permit_is_valid auth' (oe_reserved env) pm
      \<and> ra_snapshot auth' = Some snap \<and> rs_local_ip snap = dp_tun_address d
      \<and> map_of (rs_peers snap) peer = Some (dst_addr_string show_v6 p0)"
    if "auth = foldl room_step (room_new network_id) es" "dp_room d = Some auth" "ra_enabled auth"
    for auth network_id es
  proof -
    from pm that obtain t where t: "permit = Some t"
      "send_permit auth (oe_permit env) peer (dst_addr_string show_v6 p0) (dp_tun_address d) = Some t"
      by auto
    have "room_inv auth" using that(1) room_reachable by blast
    from queued_room [OF q [unfolded t(1)] that(2) this t(2)] t(1) show ?thesis by blast
  qed
  show ?thesis
    using c q room by (intro exI [of _ p0] exI [of _ p] exI [of _ "\<lparr>op_room_authorization = permit,
        op_peer_id = peer, op_dst_ip = dst_addr_string show_v6 p0, op_packet = routed\<rparr>"])
      (simp add: queued_def)
qed

text \<open>
  C20: A packet decrypted from a peer is written to the TUN device at most once, with the peer's
  virtual address as its source (rewritten where needed), addressed to the local address, after
  the ACL allowed it and the room authorised peer and addresses both before and after the ACL
  was awaited.
\<close>
theorem inbound_packets_authorised:
  assumes "write_inbound show_v6 lower d env packet = (r, d')"
    and "dp_tun_written d' \<noteq> dp_tun_written d"
  shows "\<exists>p0 p q. dp_tun_written d' = dp_tun_written d @ [q]
    \<and> ip_new (in_packet packet) = Inr p0 \<and> ip_new q = Inr p
    \<and> dp_virtual_ip d (in_peer_id packet) = Some (src_addr_string show_v6 p)
    \<and> dst_addr_string show_v6 p = dp_tun_address d
    \<and> acl_allows lower d (in_peer_id packet) (local_node d) p
    \<and> (\<forall>auth. dp_room d = Some auth \<longrightarrow>
         denial_reason auth (ie_first env) (in_peer_id packet) (src_addr_string show_v6 p0)
           (dp_tun_address d) = None
         \<and> denial_reason (foldl room_step auth (ie_acl_events env)) (ie_second env)
             (in_peer_id packet) (src_addr_string show_v6 p0) (dp_tun_address d) = None)"
  using write_inbound_cases [OF assms(1)] assms(2) by blast

text \<open>
  A packet one node queues is delivered unchanged by the peer's data plane, counted by its
  length, when the peer knows the node at its address, has the destination as its own, allows
  the packet and writes it completely.
\<close>
theorem queued_packets_delivered:
  assumes "route_outbound_packet show_v6 lower a env packet = (r, a')"
    and "dp_outbound a' = dp_outbound a @ [out]"
    and "dp_virtual_ip b node_a = Some (dp_tun_address a)"
    and "dp_tun_address b = op_dst_ip out"
    and "dp_room b = None"
    and "\<forall>p. ip_new (op_packet out) = Inr p \<longrightarrow> acl_allows lower b node_a (local_node b) p"
    and "ie_written env' = Some (length (op_packet out))"
  shows "\<exists>b'. write_inbound show_v6 lower b env' \<lparr>in_peer_id = node_a, in_packet = op_packet out\<rparr>
      = (Inr (), b') \<and> dp_tun_written b' = dp_tun_written b @ [op_packet out]
      \<and> dp_peer_calls b' = dp_peer_calls b @ [RecordReceived node_a (of_nat (length (op_packet out)))]"
proof -
  let ?q = "op_packet out"
  obtain p where p: "ip_new ?q = Inr p" "src_addr_string show_v6 p = dp_tun_address a"
      "dst_addr_string show_v6 p = op_dst_ip out" "length ?q \<le> ip_total_len p"
    using route_outbound_cases [OF assms(1)] assms(2) by (auto simp: queued_def)
  have "write_inbound show_v6 lower b env' \<lparr>in_peer_id = node_a, in_packet = ?q\<rparr>
      = inbound_checked lower b env' node_a (dp_tun_address a) (dp_tun_address b) ?q"
    using p assms(3,4,5) by (simp add: write_inbound_def Let_def room_allows_def min_absorb2)
  also have "\<dots> = inbound_deliver (room_events b (ie_acl_events env')) env' node_a ?q"
    using p(1) assms(5,6) by (simp add: inbound_checked_def Let_def room_allows_def)
  finally show ?thesis
    using assms(7) by (simp add: inbound_deliver_def Let_def room_record_packet_def room_events_def)
qed

text \<open>
  C18: Whatever packets the data plane reads, receives or is fed back, and in whatever order:
  every packet it has queued for a peer parses, comes from the local virtual address, is
  addressed to that peer and is allowed by the ACL, and every packet it has written to the TUN
  device comes from the virtual address of a peer, is addressed to the local one and is allowed
  by the ACL, or is locally generated feedback.
\<close>
theorem pump_lets_only_authorised_packets_through:
  assumes "pump_run show_v6 lower both d es = (r, d')"
    and "dp_outbound d = []" and "dp_tun_written d = []"
  shows "(\<forall>out \<in> set (dp_outbound d').
      \<exists>p. ip_new (op_packet out) = Inr p \<and> src_addr_string show_v6 p = dp_tun_address d
        \<and> dst_addr_string show_v6 p = op_dst_ip out
        \<and> dp_resolve d (op_dst_ip out) = Some (op_peer_id out)
        \<and> acl_allows lower d (local_node d) (op_peer_id out) p)
    \<and> (\<forall>q \<in> set (dp_tun_written d').
        (\<exists>p peer. ip_new q = Inr p \<and> dp_virtual_ip d peer = Some (src_addr_string show_v6 p)
           \<and> dst_addr_string show_v6 p = dp_tun_address d
           \<and> acl_allows lower d peer (local_node d) p)
        \<or> (\<exists>written. Feedback written q \<in> set es))"
  using pump_run_safe [OF assms(1)] assms(2,3) by (fastforce simp: out_ok_def in_ok_def fed_back_def)

end
