(* ===== verification/Pmtu_Wire.thy ===== *)
theory Pmtu_Wire
  imports Pmtu_Types Ip_Props
begin

text \<open>
  The in-band messages of path-MTU discovery, \<open>client/daemon/src/dplpmtud/wire.rs\<close>: probes and
  acknowledgements travel as ICMP echo requests inside the tunnel and carry a fixed token.
  The capability bytes of a Direct validation packet are read here too.
\<close>

section \<open>Constants\<close>

definition DIRECT_VALIDATION_TOKEN_BYTES :: nat where
  "DIRECT_VALIDATION_TOKEN_BYTES = 8 + 2 + 1 + 8"

definition DIRECT_VALIDATION_CAPABILITY_EXTENSION :: bytes where
  "DIRECT_VALIDATION_CAPABILITY_EXTENSION = bytes_of_string ''DPM1'' @ [1, 1]"

definition DPLPMTUD_PROBE_PREFIX :: bytes where
  "DPLPMTUD_PROBE_PREFIX = bytes_of_string ''p2wlan-dplpmtud-probe-v1''"

definition DPLPMTUD_ACK_PREFIX :: bytes where
  "DPLPMTUD_ACK_PREFIX = bytes_of_string ''p2wlan-dplpmtud-ack-v1''"

definition DPLPMTUD_TOKEN_BYTES :: nat where
  "DPLPMTUD_TOKEN_BYTES = 8 + 16 + 16 + 8 + 8 + 8 + 8 + 2 + 4 + 1"

definition INNER_IPV4_ICMP_OVERHEAD :: nat where "INNER_IPV4_ICMP_OVERHEAD = 20 + 8"

definition DIRECT_VALIDATION_REQUEST_PAYLOAD :: bytes where
  "DIRECT_VALIDATION_REQUEST_PAYLOAD = bytes_of_string ''p2wlan-direct-validation-req''"

definition DIRECT_VALIDATION_ACK_PAYLOAD :: bytes where
  "DIRECT_VALIDATION_ACK_PAYLOAD = bytes_of_string ''p2wlan-direct-validation-ack''"

section \<open>The capability extension\<close>

definition starts_with :: "bytes \<Rightarrow> bytes \<Rightarrow> bool" where
  "starts_with p xs \<longleftrightarrow> take (length p) xs = p"

definition direct_validation_supports_dplpmtud :: "bytes \<Rightarrow> bool" where
  "direct_validation_supports_dplpmtud packet =
     (case ipv4_new packet of
        Inl _ \<Rightarrow> False
      | Inr ip \<Rightarrow>
          if ipv4_protocol ip \<noteq> Icmp then False
          else if length (ipv4_payload ip) < 8 then False
          else
            let payload = drop 8 (ipv4_payload ip)
            in case (if starts_with DIRECT_VALIDATION_REQUEST_PAYLOAD payload
                     then Some (length DIRECT_VALIDATION_REQUEST_PAYLOAD)
                     else if starts_with DIRECT_VALIDATION_ACK_PAYLOAD payload
                     then Some (length DIRECT_VALIDATION_ACK_PAYLOAD) else None) of
                 None \<Rightarrow> False
               | Some prefix_len \<Rightarrow>
                   if length payload < DIRECT_VALIDATION_TOKEN_BYTES then False
                   else
                     let token_start = length payload - DIRECT_VALIDATION_TOKEN_BYTES
                     in token_start \<ge> prefix_len
                        \<and> chunk prefix_len (token_start - prefix_len) payload
                            = DIRECT_VALIDATION_CAPABILITY_EXTENSION)"

section \<open>Tokens\<close>

record wire_token =
  wt_sequence :: u64
  wt_nonce :: bytes
  wt_path_cookie :: bytes
  wt_network_generation :: u64
  wt_peer_session_generation :: u64
  wt_remote_candidate_epoch :: u64
  wt_owner_token :: u64
  wt_request_id :: u16
  wt_candidate_size :: udp_datagram_size
  wt_outer_ip_family :: outer_ip_family

definition wire_probe_identity :: "wire_token \<Rightarrow> probe_identity" where
  "wire_probe_identity t =
     \<lparr>pr_sequence = wt_sequence t, pr_nonce = wt_nonce t, pr_path_cookie = wt_path_cookie t,
      pr_candidate = wt_candidate_size t\<rparr>"

datatype control_kind = Control_Probe | Control_Ack

record control_packet =
  cp_kind :: control_kind
  cp_token :: wire_token

definition encode_wire_token :: "wire_token \<Rightarrow> bytes" where
  "encode_wire_token t =
     to_be 8 (wt_sequence t) @ wt_nonce t @ wt_path_cookie t
     @ to_be 8 (wt_network_generation t) @ to_be 8 (wt_peer_session_generation t)
     @ to_be 8 (wt_remote_candidate_epoch t) @ to_be 8 (wt_owner_token t)
     @ to_be 2 (wt_request_id t) @ to_be 4 (wt_candidate_size t)
     @ [case wt_outer_ip_family t of Outer_Ipv4 \<Rightarrow> 4 | Outer_Ipv6 \<Rightarrow> 6]"

definition take_array :: "nat \<Rightarrow> bytes \<Rightarrow> nat \<Rightarrow> (bytes \<times> nat) option" where
  "take_array n bs cursor =
     (if cursor + n \<le> length bs then Some (chunk cursor n bs, cursor + n) else None)"

definition take_u64 :: "bytes \<Rightarrow> nat \<Rightarrow> (u64 \<times> nat) option" where
  "take_u64 bs cursor = map_option (\<lambda>(v, c). (from_be v, c)) (take_array 8 bs cursor)"

definition take_u32 :: "bytes \<Rightarrow> nat \<Rightarrow> (u32 \<times> nat) option" where
  "take_u32 bs cursor = map_option (\<lambda>(v, c). (from_be v, c)) (take_array 4 bs cursor)"

definition take_u16 :: "bytes \<Rightarrow> nat \<Rightarrow> (u16 \<times> nat) option" where
  "take_u16 bs cursor = map_option (\<lambda>(v, c). (from_be v, c)) (take_array 2 bs cursor)"

definition family_of_byte :: "bytes \<Rightarrow> nat \<Rightarrow> outer_ip_family option" where
  "family_of_byte bs cursor =
     (if cursor < length bs
      then if bs ! cursor = 4 then Some Outer_Ipv4
           else if bs ! cursor = 6 then Some Outer_Ipv6 else None
      else None)"

definition decode_wire_token :: "bytes \<Rightarrow> wire_token option" where
  "decode_wire_token bs =
     (if length bs < DPLPMTUD_TOKEN_BYTES then None
      else
        Option.bind (take_u64 bs 0) (\<lambda>(sequence, c1).
        Option.bind (take_array 16 bs c1) (\<lambda>(nonce, c2).
        Option.bind (take_array 16 bs c2) (\<lambda>(path_cookie, c3).
        Option.bind (take_u64 bs c3) (\<lambda>(network_generation, c4).
        Option.bind (take_u64 bs c4) (\<lambda>(peer_session_generation, c5).
        Option.bind (take_u64 bs c5) (\<lambda>(remote_candidate_epoch, c6).
        Option.bind (take_u64 bs c6) (\<lambda>(owner_token, c7).
        Option.bind (take_u16 bs c7) (\<lambda>(request_id, c8).
        Option.bind (take_u32 bs c8) (\<lambda>(candidate_size, c9).
        Option.bind (family_of_byte bs c9) (\<lambda>family.
          Some \<lparr>wt_sequence = sequence, wt_nonce = nonce, wt_path_cookie = path_cookie,
                wt_network_generation = network_generation,
                wt_peer_session_generation = peer_session_generation,
                wt_remote_candidate_epoch = remote_candidate_epoch,
                wt_owner_token = owner_token, wt_request_id = request_id,
                wt_candidate_size = candidate_size, wt_outer_ip_family = family\<rparr>)))))))))))"

section \<open>Packets\<close>

definition control_ids :: "wire_token \<Rightarrow> u16 \<times> u16" where
  "control_ids t = (max (ucast (wt_sequence t)) 1, ucast (wt_sequence t) + 1)"

definition build_probe_inner_packet :: "u32 \<Rightarrow> u32 \<Rightarrow> wire_token \<Rightarrow> string + bytes" where
  "build_probe_inner_packet local_ip peer_ip t =
     (let target = unat (wt_candidate_size t); overhead = unat WIREGUARD_UDP_DATAGRAM_OVERHEAD
      in if target < overhead
         then Inl ''candidate UDP datagram is smaller than WireGuard overhead''
         else
           let target_plaintext = target - overhead
           in if target_plaintext < INNER_IPV4_ICMP_OVERHEAD
              then Inl ''candidate UDP datagram cannot carry IPv4/ICMP framing''
              else
                let target_payload = target_plaintext - INNER_IPV4_ICMP_OVERHEAD;
                    fixed_payload = length DPLPMTUD_PROBE_PREFIX + DPLPMTUD_TOKEN_BYTES
                in if target_payload < fixed_payload
                   then Inl ''candidate UDP datagram is smaller than DPLPMTUD fixed framing''
                   else
                     let framed = DPLPMTUD_PROBE_PREFIX @ encode_wire_token t;
                         payload = take target_payload framed
                           @ replicate (target_payload - length framed) 0;
                         packet = build_icmp_echo_request local_ip peer_ip
                           (fst (control_ids t)) (snd (control_ids t)) payload
                     in if length packet \<noteq> target_plaintext
                        then Inl ''DPLPMTUD plaintext size mismatch'' else Inr packet)"

definition build_ack_inner_packet :: "u32 \<Rightarrow> u32 \<Rightarrow> wire_token \<Rightarrow> bytes" where
  "build_ack_inner_packet local_ip peer_ip t =
     build_icmp_echo_request local_ip peer_ip (fst (control_ids t)) (snd (control_ids t))
       (DPLPMTUD_ACK_PREFIX @ encode_wire_token t)"

definition parse_control_packet :: "bytes \<Rightarrow> control_packet option" where
  "parse_control_packet packet =
     (case ipv4_new packet of
        Inl _ \<Rightarrow> None
      | Inr ip \<Rightarrow>
          if ipv4_protocol ip \<noteq> Icmp then None
          else
            let icmp = ipv4_payload ip
            in if length icmp < 8 \<or> icmp ! 0 \<noteq> 8 \<or> icmp ! 1 \<noteq> 0 then None
               else
                 let payload = drop 8 icmp
                 in Option.bind
                      (case strip_prefix DPLPMTUD_PROBE_PREFIX payload of
                         Some bs \<Rightarrow> Some (Control_Probe, bs)
                       | None \<Rightarrow> map_option (Pair Control_Ack)
                                  (strip_prefix DPLPMTUD_ACK_PREFIX payload))
                      (\<lambda>(kind, token_bytes).
                    Option.bind (decode_wire_token token_bytes) (\<lambda>token.
                      if wt_candidate_size token < DPLPMTUD_BASE_UDP_DATAGRAM_SIZE
                         \<or> wt_candidate_size token
                             > ceiling_udp_datagram_size (wt_outer_ip_family token)
                      then None else Some \<lparr>cp_kind = kind, cp_token = token\<rparr>)))"

section \<open>What is sent is what is received\<close>

definition wf_wire_token :: "wire_token \<Rightarrow> bool" where
  "wf_wire_token t \<longleftrightarrow> length (wt_nonce t) = 16 \<and> length (wt_path_cookie t) = 16"

lemma length_encode_wire_token: "wf_wire_token t \<Longrightarrow> length (encode_wire_token t) = DPLPMTUD_TOKEN_BYTES"
  by (simp add: wf_wire_token_def encode_wire_token_def DPLPMTUD_TOKEN_BYTES_def)

lemma take_array_at:
  "length pre = k \<Longrightarrow> length x = n \<Longrightarrow> take_array n (pre @ x @ post) k = Some (x, k + n)"
  by (simp add: take_array_def chunk_append_skip chunk_0_append)

lemma decode_encode_wire_token:
  assumes "wf_wire_token t"
  shows "decode_wire_token (encode_wire_token t @ rest) = Some t"
proof -
  have len: "length (wt_nonce t) = 16" "length (wt_path_cookie t) = 16"
    using assms by (simp_all add: wf_wire_token_def)
  have long: "\<not> length (encode_wire_token t @ rest) < DPLPMTUD_TOKEN_BYTES"
    using length_encode_wire_token [OF assms] by simp
  show ?thesis
    unfolding decode_wire_token_def using long
    by (cases t, cases "wt_outer_ip_family t")
      (use len in \<open>simp_all add: encode_wire_token_def take_u64_def take_u32_def take_u16_def
        take_array_def chunk_append_skip chunk_0_append be64.dec_enc be32.dec_enc be16.dec_enc
        family_of_byte_def nth_append\<close>)
qed

lemma strip_prefix_other:
  "strip_prefix DPLPMTUD_PROBE_PREFIX (DPLPMTUD_ACK_PREFIX @ xs) = None"
  by (simp add: strip_prefix_def DPLPMTUD_PROBE_PREFIX_def DPLPMTUD_ACK_PREFIX_def bytes_of_string_def)

lemma length_prefixes:
  "length DPLPMTUD_PROBE_PREFIX = 24" "length DPLPMTUD_ACK_PREFIX = 22"
  by (simp_all add: DPLPMTUD_PROBE_PREFIX_def DPLPMTUD_ACK_PREFIX_def bytes_of_string_def)

lemma length_echo_request: "length (build_icmp_echo_request l r i s payload) = 28 + length payload"
  by (simp add: echo_split)

text \<open>What the parsers of the in-band messages read of a built echo request.\<close>

lemma echo_request_parts:
  fixes payload :: bytes and l r :: u32 and i s :: u16
  defines "p \<equiv> build_icmp_echo_request l r i s payload"
  assumes "length payload \<le> 65507"
  shows "ipv4_new p = Inr p" "ipv4_protocol p = Icmp" "8 \<le> length (ipv4_payload p)"
    "ipv4_payload p ! 0 = 8" "ipv4_payload p ! Suc 0 = 0" "drop 8 (ipv4_payload p) = payload"
proof -
  let ?body = "ipv4_payload p"
  note valid = echo_request_valid [OF assms(2), of l r i s, unfolded Let_def, folded p_def]
  show "ipv4_new p = Inr p" "ipv4_protocol p = Icmp"
    using valid by (auto simp: ip_new_def bind_res_eq_Inr Let_def split: if_splits)
  have body: "take 2 ?body = [8, 0]" "drop 4 ?body = to_be 2 i @ to_be 2 s @ payload"
    using valid by simp_all
  have "drop 4 (drop 4 ?body) = payload" using body(2) by simp
  then show "drop 8 ?body = payload" by simp
  have "length (drop 4 ?body) = 4 + length payload" using body(2) by simp
  then show "8 \<le> length ?body" by simp
  have "?body ! 0 = take 2 ?body ! 0" "?body ! 1 = take 2 ?body ! 1" by simp_all
  then show "?body ! 0 = 8" "?body ! Suc 0 = 0" using body(1) by simp_all
qed

text \<open>A packet built around a prefixed token parses to the token.\<close>

lemma parse_framed:
  assumes "length payload \<le> 65507" and "wf_wire_token t"
    and "DPLPMTUD_BASE_UDP_DATAGRAM_SIZE \<le> wt_candidate_size t"
    and "wt_candidate_size t \<le> ceiling_udp_datagram_size (wt_outer_ip_family t)"
    and "kind = Control_Probe \<and> payload = DPLPMTUD_PROBE_PREFIX @ encode_wire_token t @ rest
      \<or> kind = Control_Ack \<and> payload = DPLPMTUD_ACK_PREFIX @ encode_wire_token t @ rest"
  shows "parse_control_packet (build_icmp_echo_request l r i s payload)
    = Some \<lparr>cp_kind = kind, cp_token = t\<rparr>"
proof -
  note parts = echo_request_parts [OF assms(1), of l r i s]
  show ?thesis
    using parts assms(3,4) assms(5) decode_encode_wire_token [OF assms(2), of rest]
    by (auto simp: parse_control_packet_def strip_prefix_other not_less)
qed

lemma control_packets:
  assumes "wf_wire_token t" and "DPLPMTUD_BASE_UDP_DATAGRAM_SIZE \<le> wt_candidate_size t"
    and "wt_candidate_size t \<le> ceiling_udp_datagram_size (wt_outer_ip_family t)"
  shows "\<exists>p. build_probe_inner_packet l r t = Inr p
      \<and> length p + unat WIREGUARD_UDP_DATAGRAM_OVERHEAD = unat (wt_candidate_size t)
      \<and> verify_checksum p
      \<and> parse_control_packet p = Some \<lparr>cp_kind = Control_Probe, cp_token = t\<rparr>"
    and "parse_control_packet (build_ack_inner_packet l r t)
      = Some \<lparr>cp_kind = Control_Ack, cp_token = t\<rparr>"
proof -
  let ?size = "unat (wt_candidate_size t)"
  let ?framed = "DPLPMTUD_PROBE_PREFIX @ encode_wire_token t"
  let ?rest = "replicate (?size - 60 - length ?framed) 0"
  have size: "1200 \<le> ?size" "?size \<le> 1472"
    using assms(2,3) by (auto simp: DPLPMTUD_BASE_UDP_DATAGRAM_SIZE_def ceiling_udp_datagram_size_def
        DPLPMTUD_IPV4_UDP_DATAGRAM_CEILING_def DPLPMTUD_IPV6_UDP_DATAGRAM_CEILING_def
        word_le_nat_alt split: outer_ip_family.splits)
  have framed: "length ?framed = 103"
    using length_encode_wire_token [OF assms(1)] by (simp add: length_prefixes DPLPMTUD_TOKEN_BYTES_def)
  have enough: "\<not> ?size < 32" "\<not> ?size - 32 < 28" "\<not> ?size - 60 < 103" using size by linarith+
  have payload: "take (?size - 60) ?framed @ ?rest = DPLPMTUD_PROBE_PREFIX @ encode_wire_token t @ ?rest"
    using framed size by simp
  have len: "length (DPLPMTUD_PROBE_PREFIX @ encode_wire_token t @ ?rest) = ?size - 60"
    using framed size by simp
  let ?p = "build_icmp_echo_request l r (fst (control_ids t)) (snd (control_ids t))
      (DPLPMTUD_PROBE_PREFIX @ encode_wire_token t @ ?rest)"
  have "build_probe_inner_packet l r t = Inr ?p"
    using enough framed payload len
    by (simp add: build_probe_inner_packet_def INNER_IPV4_ICMP_OVERHEAD_def length_echo_request
        WIREGUARD_UDP_DATAGRAM_OVERHEAD_def length_prefixes DPLPMTUD_TOKEN_BYTES_def Let_def)
  moreover have "length ?p + 32 = ?size" unfolding length_echo_request len using size by simp
  moreover have "verify_checksum ?p"
    using echo_request_valid [of "DPLPMTUD_PROBE_PREFIX @ encode_wire_token t @ ?rest"] len size
    by (simp add: Let_def)
  moreover have "parse_control_packet ?p = Some \<lparr>cp_kind = Control_Probe, cp_token = t\<rparr>"
    by (rule parse_framed [where rest = ?rest]) (use len size assms in simp_all)
  ultimately show "\<exists>p. build_probe_inner_packet l r t = Inr p
      \<and> length p + unat WIREGUARD_UDP_DATAGRAM_OVERHEAD = unat (wt_candidate_size t)
      \<and> verify_checksum p \<and> parse_control_packet p = Some \<lparr>cp_kind = Control_Probe, cp_token = t\<rparr>"
    by (auto simp: WIREGUARD_UDP_DATAGRAM_OVERHEAD_def)
  show "parse_control_packet (build_ack_inner_packet l r t)
      = Some \<lparr>cp_kind = Control_Ack, cp_token = t\<rparr>"
    unfolding build_ack_inner_packet_def
    by (rule parse_framed [where rest = "[]"])
      (use length_encode_wire_token [OF assms(1)] assms in
        \<open>simp_all add: length_prefixes DPLPMTUD_TOKEN_BYTES_def\<close>)
qed

end
