(* ===== verification/Pmtu_Tunnel.thy ===== *)
theory Pmtu_Tunnel
  imports Pmtu_Wire Wg_Agree
begin

text \<open>
  Path-MTU probes through the tunnel: the packet of \<open>dplpmtud/wire.rs\<close>, sealed by the session of
  \<open>client/wireguard/src/session.rs\<close>, is a UDP payload of exactly the size the probe asks about, and the
  other end reads the same token out of it.
\<close>

lemma length_sealed:
  assumes "crypto_ok cr" and "encrypt_to_bytes (aead_seal cr) a now packet = Inr (data, a')"
  shows "length data = length packet + unat WIREGUARD_UDP_DATAGRAM_OVERHEAD"
proof -
  obtain msg where s: "session_encrypt (aead_seal cr) a now packet = Inr (msg, a')"
      and d: "data = transport_to_bytes msg"
    using assms(2) by (auto simp: encrypt_to_bytes_def bind_res_eq_Inr)
  obtain c where c: "aead_seal cr (ts_send_key a) (nonce_from_counter (ts_send_counter a)) [] packet
      = Inr c" "length c = length packet + 16"
    using assms(1) unfolding crypto_ok_def by blast
  have "encrypt_with_counter (aead_seal cr) (ts_send_key a) (ts_send_counter a) [] packet
      = Inr (mt_encrypted_payload msg)"
    using session_encrypt_Inr [OF s] by simp
  then have "mt_encrypted_payload msg = c" using c(1) by (simp add: encrypt_with_counter_def)
  then show ?thesis using c(2) by (simp add: d transport_to_bytes_def WIREGUARD_UDP_DATAGRAM_OVERHEAD_def)
qed

text \<open>
  A path probe built for a size and sealed by a session is a datagram of exactly that size, and
  the peer decrypts it and parses the same token from it and from the acknowledgement.
\<close>
theorem pmtu_probe_crosses_tunnel:
  assumes "crypto_ok cr" and "feeds a b" and "feeds b a"
    and "unat (ts_send_counter a) + 65 < 2 ^ 64" and "unat (ts_send_counter b) + 65 < 2 ^ 64"
    and "young a sent" and "young b arrived"
    and "wf_wire_token t" and "DPLPMTUD_BASE_UDP_DATAGRAM_SIZE \<le> wt_candidate_size t"
    and "wt_candidate_size t \<le> ceiling_udp_datagram_size (wt_outer_ip_family t)"
  shows "\<exists>p data a' b'. build_probe_inner_packet local_ip peer_ip t = Inr p
    \<and> encrypt_to_bytes (aead_seal cr) a sent p = Inr (data, a')
    \<and> length data = unat (wt_candidate_size t)
    \<and> decrypt_from_bytes (aead_unseal cr) b arrived data = Inr (p, b')
    \<and> parse_control_packet p = Some \<lparr>cp_kind = Control_Probe, cp_token = t\<rparr>
    \<and> parse_control_packet (build_ack_inner_packet peer_ip local_ip t)
        = Some \<lparr>cp_kind = Control_Ack, cp_token = t\<rparr>"
proof -
  obtain p where p: "build_probe_inner_packet local_ip peer_ip t = Inr p"
      "length p + unat WIREGUARD_UDP_DATAGRAM_OVERHEAD = unat (wt_candidate_size t)"
      "parse_control_packet p = Some \<lparr>cp_kind = Control_Probe, cp_token = t\<rparr>"
    using control_packets(1) [OF assms(8-10)] by blast
  obtain data where d: "encrypt_to_bytes (aead_seal cr) a sent p
        = Inr (data, a\<lparr>ts_send_counter := ts_send_counter a + 1\<rparr>)"
      "decrypt_from_bytes (aead_unseal cr) b arrived data
        = Inr (p, update_replay b (ts_send_counter a))"
    using feeds_step [OF assms(1-7)] by blast
  from p d length_sealed [OF assms(1) d(1)] control_packets(2) [OF assms(8-10)] show ?thesis
    by auto
qed

end
