(* ===== verification/Data_Witnesses.thy ===== *)
theory Data_Witnesses
  imports Dataplane_Props Wg_Witnesses Pmtu_Tunnel
begin

text \<open>
  The properties of the packets, the ACL, the rooms and the data plane at concrete inputs: a
  room of two peers, \<open>10.21.1.2\<close> and \<open>10.21.1.3\<close>, and one UDP packet between them.
\<close>

section \<open>Addresses\<close>

definition w_addr :: "u8 \<Rightarrow> u32" where
  "w_addr d = from_be [10, 21, 1, d]"

lemma octets_addr: "octets (w_addr d) = [10, 21, 1, unat d]"
  by (simp add: octets_def w_addr_def be32.enc_dec)

lemma parse_show [simp]: "parse_v4 (show_v4 ip) = Some ip"
  using parse_v4_Some by blast

lemma show_v4_inj [simp]: "show_v4 a = show_v4 b \<longleftrightarrow> a = b"
  by (metis parse_show option.inject)

lemma w_addr_inj [simp]: "w_addr a = w_addr b \<longleftrightarrow> a = b"
  using be32.dec_inj [of "[10, 21, 1, a]" "[10, 21, 1, b]"] by (auto simp: w_addr_def)

lemma room_addr: "1 \<le> unat d \<Longrightarrow> unat d \<le> 254 \<Longrightarrow> room_address (show_v4 (w_addr d)) = Some (w_addr d)"
  by (simp add: room_address_def octets_addr)

section \<open>Rooms\<close>

definition w_grant :: room_event where
  "w_grant = Replace (show_v4 (w_addr 2)) [(''b'', show_v4 (w_addr 3))] 0 30 1 2"

definition w_room :: room_authorization where
  "w_room = foldl room_step (room_new ''room-a'') [w_grant]"

definition w_snapshot :: room_snapshot where
  "w_snapshot = \<lparr>rs_local_ip = show_v4 (w_addr 2), rs_peers = [(''b'', show_v4 (w_addr 3))],
     rs_expires_at = 30000000000, rs_live = 0\<rparr>"

definition w_permit :: room_send_permit where
  "w_permit = \<lparr>rp_live = 0, rp_expires_at = 30000000000\<rparr>"

lemma w_room_fields: "ra_enabled w_room" "ra_snapshot w_room = Some w_snapshot" "ra_flags w_room = [True]"
  by (simp_all add: w_room_def w_grant_def room_new_def room_replace_def room_install_def Let_def
      room_addr octets_addr from_secs_def w_snapshot_def)

lemma w_permit_sent: "send_permit w_room 5 ''b'' (show_v4 (w_addr 3)) (show_v4 (w_addr 2)) = Some w_permit"
  by (simp add: send_permit_def w_room_fields w_snapshot_def w_permit_def)

text \<open>The lease is renewed after six seconds, and a packet of the peer is recorded.\<close>

definition w_later :: "room_event list" where
  "w_later = [Replace (show_v4 (w_addr 2)) [(''b'', show_v4 (w_addr 3))] (from_secs 6) 30 (from_secs 6) (from_secs 6),
     Record_Packet (from_secs 7) (from_secs 7) ''b'' True]"

lemma w_permit_valid: "permit_is_valid (foldl room_step w_room w_later) (from_secs 20) w_permit"
proof -
  have "ra_flags (foldl room_step w_room w_later) = [True]"
    by (simp add: w_later_def room_replace_def room_install_def w_room_fields w_snapshot_def Let_def
        room_addr octets_addr from_secs_def record_packet_def same_roster_def split: option.splits)
  then show ?thesis by (simp add: permit_is_valid_def w_permit_def from_secs_def)
qed

theorem room_rosters_well_formed_witness:
  "take 5 ''room-a'' = ''room-''
    \<and> (\<exists>local. room_address (rs_local_ip w_snapshot) = Some local
        \<and> distinct (map fst (rs_peers w_snapshot))
        \<and> distinct (map (\<lambda>e. room_address (snd e)) (rs_peers w_snapshot))
        \<and> (\<forall>(i, ip) \<in> set (rs_peers w_snapshot). i \<noteq> []
             \<and> (\<exists>a. room_address ip = Some a \<and> a \<noteq> local
                  \<and> take 3 (octets a) = take 3 (octets local))))"
  by (rule room_rosters_well_formed [OF w_room_fields(2) [unfolded w_room_def]])

theorem room_permits_current_witness:
  "from_secs 20 < rp_expires_at w_permit
    \<and> (\<forall>n. \<exists>snap. ra_snapshot (foldl room_step w_room (take n w_later)) = Some snap
          \<and> rs_live snap = rp_live w_permit \<and> rs_local_ip snap = show_v4 (w_addr 2)
          \<and> map_of (rs_peers snap) ''b'' = Some (show_v4 (w_addr 3)))"
  by (rule room_permits_current [OF w_room_def w_permit_sent w_permit_valid])

theorem room_decisions_agree_witness:
  "(allows_at w_room ''b'' (show_v4 (w_addr 3)) (show_v4 (w_addr 2)) 5
        \<longleftrightarrow> send_permit w_room 5 ''b'' (show_v4 (w_addr 3)) (show_v4 (w_addr 2)) \<noteq> None)
    \<and> (allows_at w_room ''b'' (show_v4 (w_addr 3)) (show_v4 (w_addr 2)) 5
        \<longleftrightarrow> denial_reason w_room 5 ''b'' (show_v4 (w_addr 3)) (show_v4 (w_addr 2)) = None)"
  by (rule room_decisions_agree [OF w_room_def w_room_fields(1)])

section \<open>Packets\<close>

definition w_packet :: "u8 \<Rightarrow> u8 \<Rightarrow> u8 \<Rightarrow> bytes" where
  "w_packet a s d =
     [0x45, 0, 0, 28, 0, 0, 0, 0, 64, 17, 0, 0] @ [10, a, 1, s] @ [10, 21, 1, d]
     @ [0, 53, 0, 53, 0, 8, 0, 0]"

lemma w_packet_parses:
  "ip_new (w_packet a s d) = Inr (V4 (w_packet a s d))" "length (w_packet a s d) = 28"
  "ipv4_total_len (w_packet a s d) = 28"
  "src_addr_string show_v6 (V4 (w_packet 21 s d)) = show_v4 (w_addr s)"
  "dst_addr_string show_v6 (V4 (w_packet a s d)) = show_v4 (w_addr d)"
  by (simp_all add: w_packet_def ip_new_def ipv4_new_def version_nibble_def ipv4_header_len_def
      Let_def ipv4_total_len_def be16_at_def from_be_def nat_of_be_def src_addr_string_def
      dst_addr_string_def ipv4_src_addr_def ipv4_dst_addr_def w_addr_def)

section \<open>The data plane\<close>

definition w_acl :: acl_engine where
  "w_acl = acl_from_config id
     \<lparr>ac_enabled = True,
      ac_rules = [\<lparr>ac_action = ''deny'', ac_src = ''*'', ac_dst = ''*'', ac_proto = ''tcp'', ac_port = ''*''\<rparr>,
                  \<lparr>ac_action = ''allow'', ac_src = ''*'', ac_dst = ''*'', ac_proto = ''*'', ac_port = ''*''\<rparr>]\<rparr>"

definition w_plane :: "string \<Rightarrow> u8 \<Rightarrow> string \<Rightarrow> u8 \<Rightarrow> room_authorization option \<Rightarrow> data_plane" where
  "w_plane me a peer b room =
     (data_plane_new (show_v4 (w_addr a)) [show_v4 (w_addr b) \<mapsto> peer] [peer \<mapsto> show_v4 (w_addr b)])
       \<lparr>dp_acl := Some w_acl, dp_local_node_id := Some me, dp_room := room\<rparr>"

definition w_out :: outbound_env where
  "w_out = \<lparr>oe_drop = 3, oe_permit = 5, oe_denial = 5, oe_denied = 5, oe_acl_drop = 6, oe_ready = 7,
     oe_reserved = 8, oe_packet = 9, oe_acl_events = [], oe_slot_events = [], oe_open = True\<rparr>"

definition w_in :: inbound_env where
  "w_in = \<lparr>ie_first = 10, ie_first_drop = 10, ie_drop = 10, ie_second = 11, ie_second_drop = 11,
     ie_packet = 12, ie_acl_events = [], ie_write_events = [], ie_written = Some 28\<rparr>"

lemma w_udp: "acl_protocol (V4 (w_packet a s d)) = ''udp''"
  by (simp add: acl_protocol_def w_packet_def ipv4_protocol_def protocol_from_def ascii_lower_def
      Let_def char_of_eq_iff)

lemma w_acl_allows:
  "acl_allows id (w_plane me a peer b room) src dst (V4 (w_packet 21 s d))"
  by (simp add: acl_allows_def w_plane_def w_udp w_acl_def acl_check_def acl_from_config_def
      rule_from_config_def rule_matches_def action_parse_def matcher_parse_def protocol_parse_def
      port_parse_def)

lemma w_plane_fields [simp]:
  "dp_tun_address (w_plane me a peer b room) = show_v4 (w_addr a)"
  "dp_resolve (w_plane me a peer b room) = [show_v4 (w_addr b) \<mapsto> peer]"
  "dp_virtual_ip (w_plane me a peer b room) = [peer \<mapsto> show_v4 (w_addr b)]"
  "dp_room (w_plane me a peer b room) = room"
  "dp_outbound (w_plane me a peer b room) = []"
  "dp_tun_written (w_plane me a peer b room) = []"
  by (simp_all add: w_plane_def data_plane_new_def)

definition w_queued :: "room_send_permit option \<Rightarrow> outbound_packet" where
  "w_queued permit = \<lparr>op_room_authorization = permit, op_peer_id = ''b'', op_dst_ip = show_v4 (w_addr 3),
     op_packet = w_packet 21 2 3\<rparr>"

text \<open>In the room the packet is queued with the permit, without a room it is queued as it is.\<close>

lemma room_events_none [simp]: "room_events d [] = d"
  by (simp add: room_events_def option.map_ident)

lemma w_routed:
  fixes show_v6 :: "128 word \<Rightarrow> string"
  assumes "room = None \<and> permit = None \<or> room = Some w_room \<and> permit = Some w_permit"
  shows "\<exists>d'. route_outbound_packet show_v6 id (w_plane ''a'' 2 ''b'' 3 room) w_out (w_packet 21 2 3)
      = (Inr (), d') \<and> dp_outbound d' = [w_queued permit]"
  using assms
  by (auto simp: route_outbound_packet_def w_packet_parses Let_def outbound_route_def w_acl_allows
      w_room_fields w_permit_sent outbound_enqueue_def w_out_def permit_revoked_def w_queued_def
      permit_is_valid_def w_permit_def split: option.split)

theorem outbound_packets_authorised_witness:
  "\<exists>(d' :: data_plane) p0 p out. dp_outbound d' = dp_outbound (w_plane ''a'' 2 ''b'' 3 (Some w_room)) @ [out]
    \<and> ip_new (w_packet 21 2 3) = Inr p0 \<and> ip_new (op_packet out) = Inr p
    \<and> src_addr_string (\<lambda>_. []) p = dp_tun_address (w_plane ''a'' 2 ''b'' 3 (Some w_room))
    \<and> op_dst_ip out = dst_addr_string (\<lambda>_. []) p"
proof -
  obtain d' where r: "route_outbound_packet (\<lambda>_. []) id (w_plane ''a'' 2 ''b'' 3 (Some w_room)) w_out
      (w_packet 21 2 3) = (Inr (), d')" "dp_outbound d' = [w_queued (Some w_permit)]"
    using w_routed [of "Some w_room" "Some w_permit"] by blast
  then have "dp_outbound d' \<noteq> dp_outbound (w_plane ''a'' 2 ''b'' 3 (Some w_room))" by simp
  from outbound_packets_authorised [OF r(1) this] obtain p0 p out where
      "dp_outbound d' = dp_outbound (w_plane ''a'' 2 ''b'' 3 (Some w_room)) @ [out]"
      "ip_new (w_packet 21 2 3) = Inr p0" "ip_new (op_packet out) = Inr p"
      "src_addr_string (\<lambda>_. []) p = dp_tun_address (w_plane ''a'' 2 ''b'' 3 (Some w_room))"
      "op_dst_ip out = dst_addr_string (\<lambda>_. []) p"
    by (elim exE conjE)
  then show ?thesis by blast
qed

lemma w_queued_packet [simp]: "op_packet (w_queued permit) = w_packet 21 2 3"
    "op_dst_ip (w_queued permit) = show_v4 (w_addr 3)"
  by (simp_all add: w_queued_def)

theorem queued_packets_delivered_witness:
  "\<exists>b'. write_inbound (\<lambda>_. []) id (w_plane ''b'' 3 ''a'' 2 None) w_in
      \<lparr>in_peer_id = ''a'', in_packet = op_packet (w_queued None)\<rparr> = (Inr (), b')
    \<and> dp_tun_written b' = dp_tun_written (w_plane ''b'' 3 ''a'' 2 None) @ [op_packet (w_queued None)]
    \<and> dp_peer_calls b' = dp_peer_calls (w_plane ''b'' 3 ''a'' 2 None)
        @ [RecordReceived ''a'' (of_nat (length (op_packet (w_queued None))))]"
proof -
  obtain d' where r: "route_outbound_packet (\<lambda>_. []) id (w_plane ''a'' 2 ''b'' 3 None) w_out
      (w_packet 21 2 3) = (Inr (), d')" "dp_outbound d' = [w_queued None]"
    using w_routed [of None None] by blast
  show ?thesis
    by (rule queued_packets_delivered [OF r(1)])
      (simp_all add: r(2) w_packet_parses w_acl_allows w_in_def)
qed

theorem inbound_packets_authorised_witness:
  "\<exists>(d' :: data_plane) p0 p q. dp_tun_written d' = dp_tun_written (w_plane ''b'' 3 ''a'' 2 None) @ [q]
    \<and> ip_new (w_packet 21 2 3) = Inr p0 \<and> ip_new q = Inr p
    \<and> dp_virtual_ip (w_plane ''b'' 3 ''a'' 2 None) ''a'' = Some (src_addr_string (\<lambda>_. []) p)
    \<and> dst_addr_string (\<lambda>_. []) p = dp_tun_address (w_plane ''b'' 3 ''a'' 2 None)"
proof -
  let ?in = "\<lparr>in_peer_id = ''a'', in_packet = w_packet 21 2 3\<rparr>"
  obtain r d' where w: "write_inbound (\<lambda>_. []) id (w_plane ''b'' 3 ''a'' 2 None) w_in ?in = (r, d')"
    by fastforce
  then have "dp_tun_written d' \<noteq> dp_tun_written (w_plane ''b'' 3 ''a'' 2 None)"
    by (auto simp: write_inbound_def w_packet_parses Let_def room_allows_def inbound_checked_def
        w_acl_allows dest!: inbound_deliver_written [OF sym] inbound_deliver_written)
  from inbound_packets_authorised [OF w this, unfolded inbound_packet.simps] obtain p0 p q where
      "dp_tun_written d' = dp_tun_written (w_plane ''b'' 3 ''a'' 2 None) @ [q]"
      "ip_new (w_packet 21 2 3) = Inr p0" "ip_new q = Inr p"
      "dp_virtual_ip (w_plane ''b'' 3 ''a'' 2 None) ''a'' = Some (src_addr_string (\<lambda>_. []) p)"
      "dst_addr_string (\<lambda>_. []) p = dp_tun_address (w_plane ''b'' 3 ''a'' 2 None)"
    by (elim exE conjE)
  then show ?thesis by blast
qed

theorem pump_lets_only_authorised_packets_through_witness:
  "\<exists>d' :: data_plane. dp_outbound d' = [w_queued (Some w_permit)]
    \<and> pump_run (\<lambda>_. []) id True (w_plane ''a'' 2 ''b'' 3 (Some w_room))
        [Tun_Packet w_out (w_packet 21 2 3)] = (Inr True, d')
    \<and> (\<forall>out \<in> set (dp_outbound d').
        \<exists>p. ip_new (op_packet out) = Inr p \<and> src_addr_string (\<lambda>_. []) p = show_v4 (w_addr 2)
          \<and> dst_addr_string (\<lambda>_. []) p = op_dst_ip out)"
proof -
  obtain d' where r: "route_outbound_packet (\<lambda>_. []) id (w_plane ''a'' 2 ''b'' 3 (Some w_room)) w_out
      (w_packet 21 2 3) = (Inr (), d')" "dp_outbound d' = [w_queued (Some w_permit)]"
    using w_routed [of "Some w_room" "Some w_permit"] by blast
  have "w_packet 21 2 3 \<noteq> []" by (simp add: w_packet_def)
  then have run: "pump_run (\<lambda>_. []) id True (w_plane ''a'' 2 ''b'' 3 (Some w_room))
      [Tun_Packet w_out (w_packet 21 2 3)] = (Inr True, d')"
    using r(1) by (simp add: pump_handled_def)
  have "\<forall>out \<in> set (dp_outbound d').
        \<exists>p. ip_new (op_packet out) = Inr p \<and> src_addr_string (\<lambda>_. []) p = show_v4 (w_addr 2)
          \<and> dst_addr_string (\<lambda>_. []) p = op_dst_ip out"
    using pump_lets_only_authorised_packets_through [OF run] by fastforce
  with r(2) run show ?thesis by blast
qed

section \<open>Checksums and normalisation\<close>

definition w_overlay :: ipv4_cidr where
  "w_overlay = \<lparr>network = w_addr 0, cidr_mask = - 1\<rparr>"

theorem checksum_routines_agree_witness:
  "internet_checksum [0x12, 0x34, 0x56] = compute_checksum [0x12, 0x34, 0x56]"
  by (rule checksum_routines_agree) simp

theorem acl_check_first_match_witness:
  "acl_check id w_acl ''a'' ''b'' ''udp'' 53"
proof -
  let ?r = "\<lambda>a p. \<lparr>ac_action = a, ac_src = ''*'', ac_dst = ''*'', ac_proto = p, ac_port = ''*''\<rparr>"
  let ?c = "\<lparr>ac_enabled = True, ac_rules = [?r ''deny'' ''tcp'', ?r ''allow'' ''*'']\<rparr>"
  have "\<exists>i < length (ac_rules ?c). rule_matches id (rule_from_config id (ac_rules ?c ! i)) ''a'' ''b'' ''udp'' 53
      \<and> action_parse (ac_action (ac_rules ?c ! i)) = Allow
      \<and> (\<forall>j < i. \<not> rule_matches id (rule_from_config id (ac_rules ?c ! j)) ''a'' ''b'' ''udp'' 53)"
    by (rule exI [of _ 1]) (simp add: rule_matches_def rule_from_config_def action_parse_def
        matcher_parse_def protocol_parse_def port_parse_def)
  then show ?thesis unfolding w_acl_def using acl_check_first_match [of id ?c] by blast
qed

theorem acl_malformed_rule_allows_witness:
  "acl_check id (acl_from_config id \<lparr>ac_enabled = True, ac_rules =
      [\<lparr>ac_action = ''Deny'', ac_src = ''*'', ac_dst = ''*'', ac_proto = ''*'', ac_port = ''70000''\<rparr>]\<rparr>)
    ''a'' ''b'' ''tcp'' 22"
proof (rule acl_malformed_rule_allows)
  show "parse_u16 (ac_port \<lparr>ac_action = ''Deny'', ac_src = ''*'', ac_dst = ''*'', ac_proto = ''*'',
      ac_port = ''70000''\<rparr>) = None"
    by (simp add: parse_u16_def parse_unsigned_def char_digit_def)
qed simp_all

text \<open>A packet with a foreign source, \<open>10.99.1.5\<close>, and an overlay of one address.\<close>

definition w_foreign :: u32 where
  "w_foreign = from_be [10, 99, 1, 5]"

lemma w_foreign_outside: "\<not> cidr_contains w_overlay w_foreign"
  using be32.dec_inj [of "[10, 99, 1, 5]" "[10, 21, 1, 0]"]
  by (auto simp: cidr_contains_def w_overlay_def w_foreign_def w_addr_def)

lemma w_normalized:
  "\<exists>q. normalize_overlay_source (w_packet 99 5 3) (show_v4 w_foreign) (show_v4 (w_addr 2))
      (Some w_overlay) = Normalized q"
proof -
  have "be16_at (w_packet 99 5 3) 2 = 28" "be16_at (w_packet 99 5 3) 6 = 0"
    by (simp_all add: w_packet_def be16_at_def from_be_def nat_of_be_def)
  then have "\<exists>q. normalize_ipv4_source (w_packet 99 5 3) w_foreign (w_addr 2) = Some q"
    by (simp add: normalize_ipv4_source_def Let_def ipv4_is_fragment_def w_packet_parses(2))
      (simp add: w_packet_def w_foreign_def)
  then show ?thesis using w_foreign_outside by (auto simp: normalize_overlay_source_def)
qed

theorem normalize_overlay_source_rewrites_witness:
  "\<exists>q. normalize_overlay_source (w_packet 99 5 3) (show_v4 w_foreign) (show_v4 (w_addr 2))
      (Some w_overlay) = Normalized q
    \<and> \<not> cidr_contains w_overlay w_foreign \<and> ipv4_src_addr q = w_addr 2 \<and> verify_checksum q"
proof -
  obtain q where q: "normalize_overlay_source (w_packet 99 5 3) (show_v4 w_foreign)
      (show_v4 (w_addr 2)) (Some w_overlay) = Normalized q"
    using w_normalized by blast
  with normalize_overlay_source_rewrites [OF q] show ?thesis by (simp add: Let_def)
qed

section \<open>A path probe through the tunnel\<close>

definition w_token :: wire_token where
  "w_token = \<lparr>wt_sequence = 1, wt_nonce = replicate 16 7, wt_path_cookie = replicate 16 9,
     wt_network_generation = 2, wt_peer_session_generation = 3, wt_remote_candidate_epoch = 4,
     wt_owner_token = 5, wt_request_id = 6, wt_candidate_size = 1300, wt_outer_ip_family = Outer_Ipv4\<rparr>"

lemma w_token_size: "wt_candidate_size w_token = 1300"
  by (simp add: w_token_def)

theorem pmtu_probe_crosses_tunnel_witness:
  "\<exists>p data a' b'. build_probe_inner_packet (w_addr 2) (w_addr 3) w_token = Inr p
    \<and> encrypt_to_bytes (aead_seal toy) (session_new w_keys 0) 5 p = Inr (data, a')
    \<and> length data = unat (wt_candidate_size w_token)
    \<and> decrypt_from_bytes (aead_unseal toy) (session_new w_keys 0) 6 data = Inr (p, b')
    \<and> parse_control_packet p = Some \<lparr>cp_kind = Control_Probe, cp_token = w_token\<rparr>
    \<and> parse_control_packet (build_ack_inner_packet (w_addr 3) (w_addr 2) w_token)
        = Some \<lparr>cp_kind = Control_Ack, cp_token = w_token\<rparr>"
proof (rule pmtu_probe_crosses_tunnel)
  show "crypto_ok toy" by (rule toy_ok)
  show "feeds (session_new w_keys 0) (session_new w_keys 0)"
    using window_ok_start [of w_keys 0]
    by (simp add: feeds_def session_new_def w_keys_def REJECT_AFTER_MESSAGES_def)
  then show "feeds (session_new w_keys 0) (session_new w_keys 0)" .
  show "wf_wire_token w_token" by (simp add: wf_wire_token_def w_token_def)
  show "DPLPMTUD_BASE_UDP_DATAGRAM_SIZE \<le> wt_candidate_size w_token"
    by (simp add: w_token_size DPLPMTUD_BASE_UDP_DATAGRAM_SIZE_def)
  show "wt_candidate_size w_token \<le> ceiling_udp_datagram_size (wt_outer_ip_family w_token)"
    using ceiling_cases [of "wt_outer_ip_family w_token"] by (auto simp: w_token_size)
qed (simp_all add: session_new_def young_def session_age_def saturating_duration_since_def
    from_secs_def REJECT_AFTER_TIME_def)

end
