(* ===== verification/Utf8.thy ===== *)
theory Utf8
  imports Prelude
begin

text \<open>
  UTF-8 as \<open>core::str\<close> reads it: a Rust string is a byte list that \<open>utf8_valid\<close> accepts, and
  \<open>String::from_utf8_lossy\<close> replaces every maximal invalid piece by U+FFFD. The table of leading
  bytes is the one of the Unicode standard.
\<close>

text \<open>The ranges of the continuation bytes a leading byte asks for; None for no leading byte.\<close>

definition cont_ranges :: "u8 \<Rightarrow> (u8 \<times> u8) list option" where
  "cont_ranges b =
     (if b < 0x80 then Some []
      else if b < 0xC2 then None
      else if b < 0xE0 then Some [(0x80, 0xBF)]
      else if b = 0xE0 then Some [(0xA0, 0xBF), (0x80, 0xBF)]
      else if b = 0xED then Some [(0x80, 0x9F), (0x80, 0xBF)]
      else if b < 0xF0 then Some [(0x80, 0xBF), (0x80, 0xBF)]
      else if b = 0xF0 then Some [(0x90, 0xBF), (0x80, 0xBF), (0x80, 0xBF)]
      else if b < 0xF4 then Some [(0x80, 0xBF), (0x80, 0xBF), (0x80, 0xBF)]
      else if b = 0xF4 then Some [(0x80, 0x8F), (0x80, 0xBF), (0x80, 0xBF)]
      else None)"

fun matched_conts :: "(u8 \<times> u8) list \<Rightarrow> bytes \<Rightarrow> nat" where
  "matched_conts ((lo, hi) # rs) (b # bs) =
     (if lo \<le> b \<and> b \<le> hi then Suc (matched_conts rs bs) else 0)"
| "matched_conts _ _ = 0"

fun utf8_valid :: "bytes \<Rightarrow> bool" where
  "utf8_valid [] = True"
| "utf8_valid (b # bs) =
     (case cont_ranges b of
        None \<Rightarrow> False
      | Some rs \<Rightarrow> if matched_conts rs bs = length rs then utf8_valid (drop (length rs) bs)
                   else False)"

fun from_utf8_lossy :: "bytes \<Rightarrow> bytes" where
  "from_utf8_lossy [] = []"
| "from_utf8_lossy (b # bs) =
     (case cont_ranges b of
        None \<Rightarrow> [0xEF, 0xBF, 0xBD] @ from_utf8_lossy bs
      | Some rs \<Rightarrow>
          let k = matched_conts rs bs
          in (if k = length rs then b # take k bs else [0xEF, 0xBF, 0xBD])
             @ from_utf8_lossy (drop k bs))"

lemma from_utf8_lossy_valid: "utf8_valid bs \<Longrightarrow> from_utf8_lossy bs = bs"
  by (induction bs rule: utf8_valid.induct) (auto simp: Let_def split: option.splits if_splits)

text \<open>An ASCII string is valid.\<close>

lemma utf8_valid_ascii: "\<forall>b \<in> set bs. b < 0x80 \<Longrightarrow> utf8_valid bs"
  by (induction bs) (auto simp: cont_ranges_def)

end
