(* ===== verification/Relay_Frame.thy ===== *)
theory Relay_Frame
  imports Utf8
begin

text \<open>
  The relay wire protocol, \<open>client/relay/src/protocol.rs\<close>, and the payload of the authenticated
  registration, \<open>client/relay/src/auth/frame.rs\<close>. A string is its UTF-8 bytes. The asynchronous
  reader is the list of the bytes it will deliver; \<open>read_exact\<close> at its end is the error \<open>RelayEof\<close>. A
  message formatted from numbers keeps its fixed text.
\<close>

datatype relay_error =
    RelayEof
  | RelayProtocol string
  | FrameTooLarge nat nat
  | AuthError u16 string

section \<open>Constants\<close>

definition MAGIC :: bytes where "MAGIC = bytes_of_string ''DERP''"
definition VERSION :: u8 where "VERSION = 1"
definition MAX_PAYLOAD :: nat where "MAX_PAYLOAD = 65535"
definition FRAME_HEADER_SIZE :: nat where "FRAME_HEADER_SIZE = 8"
definition MAX_NODE_ID_LEN :: nat where "MAX_NODE_ID_LEN = 255"
definition MSG_REGISTER :: u8 where "MSG_REGISTER = 0x01"
definition MSG_REGISTERED :: u8 where "MSG_REGISTERED = 0x02"
definition MSG_FORWARD :: u8 where "MSG_FORWARD = 0x03"
definition MSG_RECEIVED :: u8 where "MSG_RECEIVED = 0x04"
definition MSG_PING :: u8 where "MSG_PING = 0x05"
definition MSG_PONG :: u8 where "MSG_PONG = 0x06"
definition MSG_ERROR :: u8 where "MSG_ERROR = 0x07"
definition MSG_CLOSE :: u8 where "MSG_CLOSE = 0x08"
definition CLOSE_NORMAL :: u8 where "CLOSE_NORMAL = 0x00"
definition MAX_TICKET_LEN :: nat where "MAX_TICKET_LEN = 8192"

section \<open>Frames\<close>

record frame =
  fr_msg_type :: u8
  fr_payload :: bytes

definition frame_new :: "u8 \<Rightarrow> bytes \<Rightarrow> frame" where
  "frame_new msg_type payload = \<lparr>fr_msg_type = msg_type, fr_payload = payload\<rparr>"

definition frame_encode :: "frame \<Rightarrow> bytes" where
  "frame_encode f =
     MAGIC @ [VERSION, fr_msg_type f] @ to_be 2 (of_nat (length (fr_payload f)) :: u16)
     @ fr_payload f"

definition frame_decode :: "bytes \<Rightarrow> relay_error + (frame \<times> nat)" where
  "frame_decode data =
     (if length data < FRAME_HEADER_SIZE then Inl (RelayProtocol ''frame too short'')
      else if take 4 data \<noteq> MAGIC then Inl (RelayProtocol ''invalid magic'')
      else if data ! 4 \<noteq> VERSION then Inl (RelayProtocol ''unsupported version'')
      else
        let msg_type = data ! 5;
            payload_len = unat (from_be [data ! 6, data ! 7] :: u16)
        in if length data < FRAME_HEADER_SIZE + payload_len
           then Inl (RelayProtocol ''frame truncated'')
           else Inr (\<lparr>fr_msg_type = msg_type,
                      fr_payload = chunk FRAME_HEADER_SIZE payload_len data\<rparr>,
                     FRAME_HEADER_SIZE + payload_len))"

definition frame_register :: "bytes \<Rightarrow> frame" where
  "frame_register node_id = frame_new MSG_REGISTER node_id"

definition frame_registered :: "bytes \<Rightarrow> frame" where
  "frame_registered node_id = frame_new MSG_REGISTERED node_id"

definition frame_forward :: "bytes \<Rightarrow> bytes \<Rightarrow> relay_error + frame" where
  "frame_forward dst_id data =
     (if length dst_id > MAX_NODE_ID_LEN
      then Inl (RelayProtocol ''destination node ID too long'')
      else
        let payload_len = 1 + length dst_id + length data
        in if payload_len > MAX_PAYLOAD then Inl (FrameTooLarge payload_len MAX_PAYLOAD)
           else Inr (frame_new MSG_FORWARD ([of_nat (length dst_id)] @ dst_id @ data)))"

definition frame_received :: "bytes \<Rightarrow> bytes \<Rightarrow> relay_error + frame" where
  "frame_received src_id data =
     (if length src_id > MAX_NODE_ID_LEN then Inl (RelayProtocol ''source node ID too long'')
      else
        let payload_len = 1 + length src_id + length data
        in if payload_len > MAX_PAYLOAD then Inl (FrameTooLarge payload_len MAX_PAYLOAD)
           else Inr (frame_new MSG_RECEIVED ([of_nat (length src_id)] @ src_id @ data)))"

definition ping_with_timestamp :: "u64 \<Rightarrow> frame" where
  "ping_with_timestamp timestamp = frame_new MSG_PING (to_be 8 timestamp)"

definition frame_pong :: "u64 \<Rightarrow> frame" where
  "frame_pong ping_timestamp = frame_new MSG_PONG (to_be 8 ping_timestamp)"

definition frame_error :: "u16 \<Rightarrow> bytes \<Rightarrow> frame" where
  "frame_error code message = frame_new MSG_ERROR (to_be 2 code @ message)"

definition frame_close :: "u8 \<Rightarrow> frame" where
  "frame_close reason = frame_new MSG_CLOSE [reason]"

section \<open>Payloads\<close>

definition parse_forward_payload :: "frame \<Rightarrow> relay_error + (bytes \<times> bytes)" where
  "parse_forward_payload f =
     (if fr_payload f = [] then Inl (RelayProtocol ''forward payload empty'')
      else
        let id_len = unat (fr_payload f ! 0)
        in if length (fr_payload f) < 1 + id_len
           then Inl (RelayProtocol ''forward payload truncated'')
           else
             let id_bytes = chunk 1 id_len (fr_payload f)
             in if \<not> utf8_valid id_bytes
                then Inl (RelayProtocol ''invalid UTF-8 in node ID'')
                else Inr (id_bytes, drop (1 + id_len) (fr_payload f)))"

definition parse_timestamp :: "frame \<Rightarrow> relay_error + u64" where
  "parse_timestamp f =
     (if length (fr_payload f) < 8 then Inl (RelayProtocol ''timestamp payload too short'')
      else Inr (from_be (take 8 (fr_payload f))))"

definition parse_error :: "frame \<Rightarrow> relay_error + (u16 \<times> bytes)" where
  "parse_error f =
     (if length (fr_payload f) < 2 then Inl (RelayProtocol ''error payload too short'')
      else Inr (from_be (take 2 (fr_payload f)), from_utf8_lossy (drop 2 (fr_payload f))))"

definition parse_close_reason :: "frame \<Rightarrow> relay_error + u8" where
  "parse_close_reason f =
     (if fr_payload f = [] then Inr CLOSE_NORMAL else Inr (fr_payload f ! 0))"

definition parse_node_id :: "frame \<Rightarrow> relay_error + bytes" where
  "parse_node_id f =
     (if utf8_valid (fr_payload f) then Inr (fr_payload f)
      else Inl (RelayProtocol ''invalid UTF-8 in node ID''))"

section \<open>Reading from a stream\<close>

definition read_exact :: "nat \<Rightarrow> bytes \<Rightarrow> relay_error + (bytes \<times> bytes)" where
  "read_exact n stream =
     (if length stream < n then Inl RelayEof else Inr (take n stream, drop n stream))"

definition read_frame :: "bytes \<Rightarrow> relay_error + (frame \<times> bytes)" where
  "read_frame stream =
     bind_res (read_exact FRAME_HEADER_SIZE stream) (\<lambda>(header, rest).
       if take 4 header \<noteq> MAGIC then Inl (RelayProtocol ''invalid magic'')
       else if header ! 4 \<noteq> VERSION then Inl (RelayProtocol ''unsupported version'')
       else
         let msg_type = header ! 5;
             payload_len = unat (from_be [header ! 6, header ! 7] :: u16)
         in if payload_len > MAX_PAYLOAD then Inl (FrameTooLarge payload_len MAX_PAYLOAD)
            else if payload_len > 0
            then bind_res (read_exact payload_len rest) (\<lambda>(payload, rest').
                   Inr (\<lparr>fr_msg_type = msg_type, fr_payload = payload\<rparr>, rest'))
            else Inr (\<lparr>fr_msg_type = msg_type, fr_payload = []\<rparr>, rest))"

definition write_frame :: "bytes \<Rightarrow> frame \<Rightarrow> bytes" where
  "write_frame written f = written @ frame_encode f"

section \<open>Authenticated registration\<close>

definition encode_auth_register :: "bytes \<Rightarrow> bytes \<Rightarrow> string + bytes" where
  "encode_auth_register node_id ticket =
     (if node_id = [] \<or> length node_id > 255 then Inl ''node_id length not in 1..255''
      else if \<not> utf8_valid node_id then Inl ''node_id is not valid UTF-8''
      else if ticket = [] \<or> length ticket > MAX_TICKET_LEN then Inl ''ticket length not in range''
      else Inr ([of_nat (length node_id)] @ node_id
                @ to_be 2 (of_nat (length ticket) :: u16) @ ticket))"

definition decode_auth_register :: "bytes \<Rightarrow> string + (bytes \<times> bytes)" where
  "decode_auth_register payload =
     (if payload = [] then Inl ''auth register payload empty''
      else
        let node_id_len = unat (payload ! 0)
        in if node_id_len = 0 \<or> node_id_len > 255 then Inl ''invalid node_id_len''
           else if length payload < 1 + node_id_len + 2
           then Inl ''auth register payload truncated at node_id''
           else
             let node_id = chunk 1 node_id_len payload
             in if \<not> utf8_valid node_id then Inl ''node_id is not valid UTF-8''
                else if node_id = [] then Inl ''node_id is empty''
                else
                  let ticket_start = 1 + node_id_len;
                      ticket_len = unat (from_be [payload ! ticket_start,
                                                  payload ! (ticket_start + 1)] :: u16)
                  in if ticket_len = 0 then Inl ''ticket_len is 0''
                     else if ticket_len > MAX_TICKET_LEN then Inl ''ticket_len exceeds max''
                     else
                       let ticket_data_start = ticket_start + 2
                       in if length payload < ticket_data_start + ticket_len
                          then Inl ''auth register payload truncated at ticket''
                          else if length payload \<noteq> ticket_data_start + ticket_len
                          then Inl ''auth register payload has trailing bytes''
                          else
                            let ticket = chunk ticket_data_start ticket_len payload
                            in if \<not> utf8_valid ticket then Inl ''ticket is not valid UTF-8''
                               else Inr (node_id, ticket))"

end
