(* ===== verification/Relay_Props.thy ===== *)
theory Relay_Props
  imports Relay_Frame
begin

text \<open>
  The relay wire protocol is exact: a frame that fits the length field is read back as it was
  written, by the buffer decoder and by the stream reader, and nothing else is accepted. The
  same for the payloads of forwarded data and of the authenticated registration.
\<close>

section \<open>Frames\<close>

definition fits :: "frame \<Rightarrow> bool" where
  "fits f \<longleftrightarrow> length (fr_payload f) \<le> MAX_PAYLOAD"

lemma length_MAGIC [simp]: "length MAGIC = 4"
  by (simp add: MAGIC_def bytes_of_string_def)

lemma length_frame_encode [simp]: "length (frame_encode f) = 8 + length (fr_payload f)"
  by (simp add: frame_encode_def)

lemma be16_pair: "to_be 2 (from_be [a, b] :: u16) = [a, b]"
  using be16.enc_dec [of "[a, b]"] by simp

lemma to_be_pair: "[to_be 2 w ! 0, to_be 2 w ! 1] = to_be 2 (w :: u16)"
  by (cases "to_be 2 w"; cases "tl (to_be 2 w)")
    (use length_to_be [of 2 w] in \<open>auto simp del: length_to_be\<close>)

lemma unat_length: "n \<le> 65535 \<Longrightarrow> unat (of_nat n :: u16) = n"
  by (simp only: unat_of_nat) simp

lemma frame_header:
  assumes "fits f"
  shows "take 4 (frame_encode f @ rest) = MAGIC" and "(frame_encode f @ rest) ! 4 = VERSION"
    and "(frame_encode f @ rest) ! 5 = fr_msg_type f"
    and "unat (from_be [(frame_encode f @ rest) ! 6, (frame_encode f @ rest) ! 7] :: u16)
      = length (fr_payload f)"
proof -
  let ?l = "of_nat (length (fr_payload f)) :: u16"
  show "take 4 (frame_encode f @ rest) = MAGIC" by (simp add: frame_encode_def)
  show "(frame_encode f @ rest) ! 4 = VERSION" "(frame_encode f @ rest) ! 5 = fr_msg_type f"
    by (simp_all add: frame_encode_def nth_append)
  have "(frame_encode f @ rest) ! 6 = to_be 2 ?l ! 0" "(frame_encode f @ rest) ! 7 = to_be 2 ?l ! 1"
    by (simp_all add: frame_encode_def nth_append)
  then have "from_be [(frame_encode f @ rest) ! 6, (frame_encode f @ rest) ! 7] = ?l"
    by (simp only: to_be_pair be16.dec_enc)
  with assms show "unat (from_be [(frame_encode f @ rest) ! 6, (frame_encode f @ rest) ! 7] :: u16)
      = length (fr_payload f)"
    by (simp add: fits_def MAX_PAYLOAD_def unat_length)
qed

lemma payload_slice: "chunk 8 (length (fr_payload f)) (frame_encode f @ rest) = fr_payload f"
  by (simp add: chunk_def frame_encode_def)

lemma decode_encode:
  assumes "fits f"
  shows "frame_decode (frame_encode f @ rest) = Inr (f, length (frame_encode f))"
  using frame_header [OF assms, of rest] payload_slice [of f rest]
  by (simp add: frame_decode_def FRAME_HEADER_SIZE_def Let_def)

text \<open>A header with the right magic and version is the header of the encoded frame.\<close>

lemma header_bytes:
  assumes "8 \<le> length data" and "take 4 data = MAGIC" and "data ! 4 = VERSION"
    and "n = unat (from_be [data ! 6, data ! 7] :: u16)" and "length payload = n"
  shows "frame_encode \<lparr>fr_msg_type = data ! 5, fr_payload = payload\<rparr> = take 8 data @ payload"
    and "n \<le> 65535"
proof -
  have "from_be [data ! 6, data ! 7] = (of_nat n :: u16)" using assms(4) by simp
  then have len: "to_be 2 (of_nat n :: u16) = [data ! 6, data ! 7]" by (metis be16_pair)
  have "take 8 data = take 4 data @ [data ! 4, data ! 5, data ! 6, data ! 7]"
    using assms(1) by (simp add: take_Suc_conv_app_nth eval_nat_numeral)
  with len assms(2,3,5) show "frame_encode \<lparr>fr_msg_type = data ! 5, fr_payload = payload\<rparr>
      = take 8 data @ payload"
    by (simp add: frame_encode_def)
  show "n \<le> 65535"
    using assms(4) unsigned_less [of "from_be [data ! 6, data ! 7] :: u16", where ?'a = nat] by simp
qed

lemma decode_exact:
  assumes "frame_decode data = Inr (f, n)"
  shows "fits f \<and> n = length (frame_encode f) \<and> data = frame_encode f @ drop n data"
proof -
  let ?n = "unat (from_be [data ! 6, data ! 7] :: u16)"
  let ?payload = "chunk 8 ?n data"
  from assms have h: "8 \<le> length data" "take 4 data = MAGIC" "data ! 4 = VERSION"
    and len: "8 + ?n \<le> length data" and n: "n = 8 + ?n"
    and f: "f = \<lparr>fr_msg_type = data ! 5, fr_payload = ?payload\<rparr>"
    by (auto simp: frame_decode_def FRAME_HEADER_SIZE_def Let_def split: if_splits)
  have pl: "length ?payload = ?n" using len by (simp add: length_chunk)
  note hb = header_bytes [OF h refl pl]
  have "take 8 data @ ?payload @ drop n data = data"
    using len chunk_split [of 8 ?n data] by (simp add: n)
  with hb f pl n h(1) show ?thesis by (simp add: fits_def MAX_PAYLOAD_def)
qed

lemma read_encode:
  assumes "fits f"
  shows "read_frame (frame_encode f @ rest) = Inr (f, rest)"
proof -
  let ?s = "frame_encode f @ rest"
  have nth: "take 8 ?s ! 4 = ?s ! 4" "take 8 ?s ! 5 = ?s ! 5" "take 8 ?s ! 6 = ?s ! 6"
      "take 8 ?s ! 7 = ?s ! 7" by (simp_all add: nth_append)
  have tk: "take 4 (take 8 ?s) = take 4 ?s" by simp
  have dr: "drop 8 ?s = fr_payload f @ rest" by (simp add: frame_encode_def)
  show ?thesis
    using frame_header [OF assms, of rest] assms
    by (cases "fr_payload f") (simp_all add: read_frame_def read_exact_def FRAME_HEADER_SIZE_def
        nth tk dr fits_def Let_def del: take_append drop_append nth_append, simp_all)
qed

lemma read_exact_frame:
  assumes "read_frame stream = Inr (f, rest)"
  shows "fits f \<and> stream = frame_encode f @ rest"
proof -
  let ?h = "take 8 stream"
  let ?n = "unat (from_be [?h ! 6, ?h ! 7] :: u16)"
  from assms have len: "8 \<le> length stream" and m: "take 4 ?h = MAGIC" "?h ! 4 = VERSION"
    by (auto simp: read_frame_def read_exact_def FRAME_HEADER_SIZE_def bind_res_eq_Inr Let_def
        split: if_splits)
  from assms len m have body: "?n \<le> length stream - 8" "rest = drop ?n (drop 8 stream)"
      "f = \<lparr>fr_msg_type = ?h ! 5, fr_payload = take ?n (drop 8 stream)\<rparr>"
    by (auto simp: read_frame_def read_exact_def FRAME_HEADER_SIZE_def bind_res_eq_Inr Let_def
        split: if_splits)
  have pl: "length (take ?n (drop 8 stream)) = ?n" using body(1) by simp
  note hb = header_bytes [of ?h ?n, OF _ m refl pl]
  have "frame_encode f = take 8 ?h @ take ?n (drop 8 stream)" unfolding body(3) using len by (intro hb) simp
  moreover have "?n \<le> 65535" using len by (intro hb) simp
  moreover have "take 8 stream @ take ?n (drop 8 stream) @ drop ?n (drop 8 stream) = stream"
    by (metis append_take_drop_id)
  ultimately show ?thesis using body pl by (simp add: fits_def MAX_PAYLOAD_def)
qed

text \<open>
  The relay's frame decoder accepts exactly the encodings of frames that fit, consumes exactly
  them and returns the frame.
\<close>
theorem relay_frames_exact:
  "(frame_decode data = Inr (f, n)
      \<longleftrightarrow> fits f \<and> n = length (frame_encode f) \<and> data = frame_encode f @ drop n data)
   \<and> (read_frame data = Inr (f, rest) \<longleftrightarrow> fits f \<and> data = frame_encode f @ rest)"
  using decode_exact read_exact_frame decode_encode read_encode by metis

text \<open>
  The length field has 16 bits and \<open>encode\<close> does not check the payload against it: a longer
  payload is written whole under a truncated length, and the reader goes on inside it.
\<close>

lemma oversized_frame_truncated:
  assumes "65535 < length (fr_payload f)"
  shows "frame_decode (frame_encode f)
    = Inr (f\<lparr>fr_payload := take (length (fr_payload f) mod 65536) (fr_payload f)\<rparr>,
           8 + length (fr_payload f) mod 65536)"
    and "8 + length (fr_payload f) mod 65536 < length (frame_encode f)"
proof -
  let ?n = "length (fr_payload f) mod 65536"
  let ?g = "f\<lparr>fr_payload := take ?n (fr_payload f)\<rparr>"
  have n: "?n \<le> 65535" "?n < length (fr_payload f)"
    using assms mod_less_divisor [of 65536 "length (fr_payload f)"] by linarith+
  have "(of_nat (length (fr_payload f)) :: u16) = of_nat ?n"
    by (simp add: word_unat_eq_iff unat_of_nat)
  then have "frame_encode f = frame_encode ?g @ drop ?n (fr_payload f)"
    using n(2) by (simp add: frame_encode_def)
  then show "frame_decode (frame_encode f) = Inr (?g, 8 + ?n)"
    using decode_encode [of ?g "drop ?n (fr_payload f)"] n by (simp add: fits_def MAX_PAYLOAD_def)
  show "8 + ?n < length (frame_encode f)" using n(2) by simp
qed

section \<open>Streams of frames\<close>

fun read_frames :: "nat \<Rightarrow> bytes \<Rightarrow> relay_error + (frame list \<times> bytes)" where
  "read_frames 0 stream = Inr ([], stream)"
| "read_frames (Suc n) stream =
     bind_res (read_frame stream) (\<lambda>(f, rest).
       bind_res (read_frames n rest) (\<lambda>(fs, rest'). Inr (f # fs, rest')))"

lemma write_frames: "foldl write_frame written fs = written @ concat (map frame_encode fs)"
  by (induction fs arbitrary: written) (simp_all add: write_frame_def)

lemma read_frames_written:
  "\<forall>f \<in> set fs. fits f \<Longrightarrow> read_frames (length fs) (concat (map frame_encode fs) @ rest) = Inr (fs, rest)"
  by (induction fs) (simp_all add: read_encode)

text \<open>
  Frames written to a stream one after the other are read back as the same frames, and nothing
  is left.
\<close>
theorem relay_stream_delivers:
  assumes "\<forall>f \<in> set fs. fits f"
  shows "read_frames (length fs) (foldl write_frame [] fs) = Inr (fs, [])"
  using read_frames_written [OF assms, of "[]"] by (simp add: write_frames)

section \<open>Payloads\<close>

lemma unat_byte_length: "n \<le> 255 \<Longrightarrow> unat (of_nat n :: u8) = n"
  by (simp only: unat_of_nat) simp

lemma parse_forward_built:
  assumes "length ident \<le> 255" and "utf8_valid ident"
  shows "parse_forward_payload (frame_new ty ([of_nat (length ident)] @ ident @ data)) = Inr (ident, data)"
  using assms by (simp add: parse_forward_payload_def frame_new_def unat_byte_length chunk_def)

lemma auth_register_built:
  assumes "encode_auth_register node_id ticket = Inr payload" and "utf8_valid ticket"
  shows "decode_auth_register payload = Inr (node_id, ticket)"
proof -
  let ?tl = "of_nat (length ticket) :: u16"
  from assms(1) have n: "node_id \<noteq> []" "length node_id \<le> 255" "utf8_valid node_id"
    and t: "ticket \<noteq> []" "length ticket \<le> 8192"
    and p: "payload = of_nat (length node_id) # node_id @ to_be 2 ?tl @ ticket"
    by (auto simp: encode_auth_register_def MAX_TICKET_LEN_def split: if_splits)
  have head: "unat (payload ! 0) = length node_id" using n(2) by (simp add: p unat_byte_length)
  have tail: "payload ! (1 + length node_id) = to_be 2 ?tl ! 0"
      "payload ! (1 + length node_id + 1) = to_be 2 ?tl ! 1"
    by (simp_all add: p nth_append)
  have tl: "unat (from_be [payload ! (1 + length node_id), payload ! (1 + length node_id + 1)] :: u16)
      = length ticket"
    unfolding tail to_be_pair be16.dec_enc using t(2) by (simp add: unat_length)
  have slices: "chunk 1 (length node_id) payload = node_id"
      "chunk (1 + length node_id + 2) (length ticket) payload = ticket"
    by (simp_all add: p chunk_def)
  have len: "length payload = 1 + length node_id + 2 + length ticket" by (simp add: p)
  show ?thesis
    unfolding decode_auth_register_def Let_def head tl slices
    using n t len assms(2) by (auto simp: MAX_TICKET_LEN_def p)
qed

lemma auth_register_exact:
  assumes "decode_auth_register payload = Inr (node_id, ticket)"
  shows "utf8_valid ticket \<and> encode_auth_register node_id ticket = Inr payload"
proof -
  let ?n = "unat (payload ! 0)"
  let ?t = "unat (from_be [payload ! (1 + ?n), payload ! (1 + ?n + 1)] :: u16)"
  from assms have ne: "payload \<noteq> []" and n: "0 < ?n" "?n \<le> 255"
    and t: "0 < ?t" "?t \<le> 8192" and len: "length payload = 1 + ?n + 2 + ?t"
    and node: "node_id = chunk 1 ?n payload" "utf8_valid node_id"
    and tick: "ticket = chunk (1 + ?n + 2) ?t payload" "utf8_valid ticket"
    by (auto simp: decode_auth_register_def Let_def MAX_TICKET_LEN_def split: if_splits)
  have l: "length node_id = ?n" "length ticket = ?t" using len by (simp_all add: node(1) tick(1) length_chunk)
  have "to_be 2 (of_nat ?t :: u16) = [payload ! (1 + ?n), payload ! (1 + ?n + 1)]"
    by (simp only: of_nat_unat ucast_id be16_pair) 
  moreover have "chunk (1 + ?n) 2 payload = [payload ! (1 + ?n), payload ! (1 + ?n + 1)]"
    using len by (simp add: chunk_def numeral_2_eq_2 take_Suc_conv_app_nth)
  moreover have "payload = [payload ! 0] @ chunk 1 ?n payload @ chunk (1 + ?n) 2 payload @ ticket"
    using ne len chunk_split [of 1 ?n payload] chunk_split [of "1 + ?n" 2 payload]
      chunk_split [of "1 + ?n + 2" ?t payload] tick(1)
    by (cases payload) simp_all
  ultimately have "[of_nat (length node_id)] @ node_id @ to_be 2 (of_nat (length ticket) :: u16) @ ticket
      = payload"
    using node(1) l by simp
  then show ?thesis
    using node tick l n t by (auto simp: encode_auth_register_def MAX_TICKET_LEN_def)
qed

text \<open>
  The payloads of the forward, the error, the close and the authenticated register messages
  parse to what they were built from.
\<close>
theorem relay_payloads_roundtrip:
  "(decode_auth_register payload = Inr (node_id, ticket)
      \<longleftrightarrow> utf8_valid ticket \<and> encode_auth_register node_id ticket = Inr payload)
   \<and> (case frame_forward ident data of
        Inl e \<Rightarrow> e = RelayProtocol ''destination node ID too long'' \<and> 255 < length ident
          \<or> e = FrameTooLarge (1 + length ident + length data) 65535
            \<and> 65535 < 1 + length ident + length data
      | Inr f \<Rightarrow> fits f \<and> fr_msg_type f = MSG_FORWARD
          \<and> (utf8_valid ident = (parse_forward_payload f = Inr (ident, data))))
   \<and> parse_timestamp (ping_with_timestamp token) = Inr token
   \<and> parse_timestamp (frame_pong token) = Inr token
   \<and> (parse_error (frame_error code message) = Inr (code, from_utf8_lossy message))
   \<and> parse_close_reason (frame_close reason) = Inr reason"
proof -
  have "parse_forward_payload f = Inr (ident, data) \<Longrightarrow> utf8_valid ident" for f
    by (auto simp: parse_forward_payload_def Let_def split: if_splits)
  then have "case frame_forward ident data of
        Inl e \<Rightarrow> e = RelayProtocol ''destination node ID too long'' \<and> 255 < length ident
          \<or> e = FrameTooLarge (1 + length ident + length data) 65535
            \<and> 65535 < 1 + length ident + length data
      | Inr f \<Rightarrow> fits f \<and> fr_msg_type f = MSG_FORWARD
          \<and> (utf8_valid ident = (parse_forward_payload f = Inr (ident, data)))"
    using parse_forward_built [of ident MSG_FORWARD data]
    by (auto simp: frame_forward_def MAX_NODE_ID_LEN_def MAX_PAYLOAD_def fits_def frame_new_def Let_def)
  moreover have "parse_timestamp (ping_with_timestamp token) = Inr token"
      "parse_timestamp (frame_pong token) = Inr token"
    by (simp_all add: parse_timestamp_def ping_with_timestamp_def frame_pong_def frame_new_def be64.dec_enc)
  moreover have "parse_error (frame_error code message) = Inr (code, from_utf8_lossy message)"
    by (simp add: parse_error_def frame_error_def frame_new_def be16.dec_enc)
  moreover have "parse_close_reason (frame_close reason) = Inr reason"
    by (simp add: parse_close_reason_def frame_close_def frame_new_def)
  ultimately show ?thesis using auth_register_built auth_register_exact by blast
qed

end
