(* ===== verification/Relay_Ticket.thy ===== *)
theory Relay_Ticket
  imports Relay_Frame
begin

text \<open>
  Relay tickets, \<open>client/relay/src/auth/verifier.rs\<close> and \<open>claims.rs\<close>. The crates \<open>jsonwebtoken\<close>,
  \<open>hex\<close> and \<open>ed25519_dalek\<close> are the parameter \<open>ticket_crates\<close>; the checks around them are modelled.
  Seconds are \<open>i64\<close>: 64-bit words read as signed, with wrapping sums. The keys of the
  configuration come as a list, in the order the hash map iterates.
\<close>

type_synonym i64 = "64 word"

definition slt :: "i64 \<Rightarrow> i64 \<Rightarrow> bool" where
  "slt a b \<longleftrightarrow> sint a < sint b"

datatype jwt_alg = EdDSA | OtherAlg string

record jwt_header =
  jh_alg :: jwt_alg
  jh_typ :: "string option"
  jh_kid :: "string option"

datatype jwt_error_kind =
    ExpiredSignature | InvalidSignature | InvalidAlgorithm | InvalidAudience | OtherJwtError

datatype json_value = JString string | JArray nat | JOther

record ticket_claims =
  tc_device_id :: string
  tc_network_id :: string
  tc_node_id :: string
  tc_relay_region :: string
  tc_relay_protocol :: u64
  tc_iss :: string
  tc_sub :: string
  tc_aud :: json_value
  tc_iat :: "i64 option"
  tc_nbf :: "i64 option"
  tc_exp :: "i64 option"
  tc_jti :: "string option"

record ticket_crates =
  cr_hex_decode :: "string \<Rightarrow> bytes option"
  cr_verifying_key :: "bytes \<Rightarrow> bytes option"
  cr_decode_header :: "string \<Rightarrow> jwt_header option"
  cr_decode :: "bytes \<Rightarrow> string \<Rightarrow> string \<Rightarrow> u64 \<Rightarrow> string \<Rightarrow> jwt_error_kind + ticket_claims"

definition JWT_TYP :: string where "JWT_TYP = ''p2wlan-relay+jwt''"
definition JWT_ISSUER :: string where "JWT_ISSUER = ''p2wlan-control''"
definition RELAY_PROTOCOL_VERSION :: u64 where "RELAY_PROTOCOL_VERSION = 1"
definition INVALID_TICKET :: u16 where "INVALID_TICKET = 4012"
definition TICKET_EXPIRED :: u16 where "TICKET_EXPIRED = 4013"
definition AUDIENCE_MISMATCH :: u16 where "AUDIENCE_MISMATCH = 4014"
definition IDENTITY_MISMATCH :: u16 where "IDENTITY_MISMATCH = 4015"
definition TICKET_NOT_YET_VALID :: u16 where "TICKET_NOT_YET_VALID = 4017"
definition UNKNOWN_TICKET_KEY :: u16 where "UNKNOWN_TICKET_KEY = 4018"

record ticket_verifier =
  tv_keys :: "string \<rightharpoonup> bytes"
  tv_clock_skew :: u64
  tv_expected_audience :: string
  tv_expected_region :: string

fun parse_keys ::
  "ticket_crates \<Rightarrow> (string \<times> string) list \<Rightarrow> (string \<rightharpoonup> bytes) \<Rightarrow> string + (string \<rightharpoonup> bytes)" where
  "parse_keys crates [] parsed = Inr parsed"
| "parse_keys crates ((kid, hex_key) # keys) parsed =
     (case cr_hex_decode crates hex_key of
        None \<Rightarrow> Inl ''invalid hex public key''
      | Some bs \<Rightarrow>
          if length bs \<noteq> 32 then Inl ''public key has the wrong length (expected 32)''
          else case cr_verifying_key crates bs of
                 None \<Rightarrow> Inl ''invalid Ed25519 public key''
               | Some vk \<Rightarrow> parse_keys crates keys (parsed(kid \<mapsto> vk)))"

definition verifier_new ::
  "ticket_crates \<Rightarrow> (string \<times> string) list \<Rightarrow> u64 \<Rightarrow> string \<Rightarrow> string \<Rightarrow> string + ticket_verifier"
where
  "verifier_new crates keys clock_skew expected_audience expected_region =
     bind_res (parse_keys crates keys Map.empty) (\<lambda>parsed.
       if keys = [] then Inl ''no verification keys configured''
       else Inr \<lparr>tv_keys = parsed, tv_clock_skew = clock_skew,
                 tv_expected_audience = expected_audience,
                 tv_expected_region = expected_region\<rparr>)"

definition auth_error :: "u16 \<Rightarrow> string \<Rightarrow> relay_error + 'a" where
  "auth_error code text = Inl (AuthError code text)"

text \<open>Step 1: the header. It gives the key identifier and the key.\<close>

definition check_header ::
  "ticket_crates \<Rightarrow> ticket_verifier \<Rightarrow> string \<Rightarrow> relay_error + (string \<times> bytes)" where
  "check_header crates v ticket =
     (case cr_decode_header crates ticket of
        None \<Rightarrow> auth_error INVALID_TICKET ''invalid ticket header''
      | Some header \<Rightarrow>
          if jh_alg header \<noteq> EdDSA then auth_error INVALID_TICKET ''unsupported algorithm''
          else if (case jh_typ header of None \<Rightarrow> '''' | Some ty \<Rightarrow> ty) \<noteq> JWT_TYP
          then auth_error INVALID_TICKET ''invalid ticket type''
          else
            let kid = (case jh_kid header of None \<Rightarrow> '''' | Some k \<Rightarrow> k)
            in if kid = '''' then auth_error INVALID_TICKET ''missing kid''
               else case tv_keys v kid of
                      None \<Rightarrow> auth_error UNKNOWN_TICKET_KEY ''unknown kid''
                    | Some vk \<Rightarrow> Inr (kid, vk))"

text \<open>Step 2: the signature, by the crate.\<close>

definition jwt_error_code :: "jwt_error_kind \<Rightarrow> u16" where
  "jwt_error_code k = (case k of
       ExpiredSignature \<Rightarrow> TICKET_EXPIRED
     | InvalidAudience \<Rightarrow> AUDIENCE_MISMATCH
     | _ \<Rightarrow> INVALID_TICKET)"

definition check_signature ::
  "ticket_crates \<Rightarrow> ticket_verifier \<Rightarrow> bytes \<Rightarrow> string \<Rightarrow> relay_error + ticket_claims" where
  "check_signature crates v vk ticket =
     (case cr_decode crates vk JWT_ISSUER (tv_expected_audience v) (tv_clock_skew v) ticket of
        Inl k \<Rightarrow> auth_error (jwt_error_code k) ''ticket verification failed''
      | Inr claims \<Rightarrow> Inr claims)"

text \<open>Step 3: the time window.\<close>

definition check_times :: "ticket_verifier \<Rightarrow> i64 \<Rightarrow> ticket_claims \<Rightarrow> relay_error + unit" where
  "check_times v now claims =
     (if (case tc_exp claims of
            None \<Rightarrow> False | Some expiry \<Rightarrow> slt (expiry + tv_clock_skew v) now)
      then auth_error TICKET_EXPIRED ''ticket expired''
      else if (case tc_nbf claims of
            None \<Rightarrow> False | Some nbf \<Rightarrow> slt now (nbf - tv_clock_skew v))
      then auth_error TICKET_NOT_YET_VALID ''ticket not yet valid''
      else Inr ())"

text \<open>Step 4: the claims.\<close>

definition check_claims :: "ticket_verifier \<Rightarrow> ticket_claims \<Rightarrow> relay_error + unit" where
  "check_claims v claims =
     (if tc_device_id claims = '''' then auth_error INVALID_TICKET ''missing device_id''
      else if tc_network_id claims = '''' then auth_error INVALID_TICKET ''missing network_id''
      else if tc_node_id claims = '''' then auth_error INVALID_TICKET ''missing node_id''
      else if tc_sub claims \<noteq> tc_device_id claims
      then auth_error IDENTITY_MISMATCH ''sub does not match device_id''
      else case (case tc_aud claims of
                   JString s \<Rightarrow> if s \<noteq> '''' then Inr s
                     else auth_error AUDIENCE_MISMATCH ''audience is missing or empty''
                 | JArray _ \<Rightarrow> auth_error AUDIENCE_MISMATCH ''audience must be a single string''
                 | JOther \<Rightarrow> auth_error AUDIENCE_MISMATCH ''audience is missing or empty'') of
             Inl e \<Rightarrow> Inl e
           | Inr aud \<Rightarrow>
               if aud \<noteq> tv_expected_audience v
               then auth_error AUDIENCE_MISMATCH ''ticket audience does not match expected''
               else if tc_relay_region claims \<noteq> tv_expected_region v
               then auth_error AUDIENCE_MISMATCH ''ticket region does not match this relay''
               else if tc_relay_protocol claims \<noteq> RELAY_PROTOCOL_VERSION
               then auth_error INVALID_TICKET ''unsupported relay protocol version''
               else if tc_iss claims \<noteq> JWT_ISSUER
               then auth_error INVALID_TICKET ''invalid issuer''
               else Inr ())"

definition ticket_verify ::
  "ticket_crates \<Rightarrow> ticket_verifier \<Rightarrow> i64 \<Rightarrow> string \<Rightarrow> relay_error + (ticket_claims \<times> string)"
where
  "ticket_verify crates v now ticket =
     bind_res (check_header crates v ticket) (\<lambda>(kid, vk).
     bind_res (check_signature crates v vk ticket) (\<lambda>claims.
     bind_res (check_times v now claims) (\<lambda>_.
     bind_res (check_claims v claims) (\<lambda>_. Inr (claims, kid)))))"

section \<open>What an accepted ticket says\<close>

text \<open>The time window without wrapping: the sums fit the signed range.\<close>

definition in_window :: "ticket_verifier \<Rightarrow> i64 \<Rightarrow> ticket_claims \<Rightarrow> bool" where
  "in_window v now claims \<longleftrightarrow>
     (case tc_exp claims of None \<Rightarrow> True | Some t \<Rightarrow> sint now \<le> sint (t + tv_clock_skew v))
     \<and> (case tc_nbf claims of None \<Rightarrow> True | Some t \<Rightarrow> sint (t - tv_clock_skew v) \<le> sint now)"

definition bound_to_relay :: "ticket_verifier \<Rightarrow> ticket_claims \<Rightarrow> bool" where
  "bound_to_relay v claims \<longleftrightarrow>
     tc_device_id claims \<noteq> '''' \<and> tc_network_id claims \<noteq> '''' \<and> tc_node_id claims \<noteq> ''''
     \<and> tc_sub claims = tc_device_id claims
     \<and> tc_aud claims = JString (tv_expected_audience v) \<and> tv_expected_audience v \<noteq> ''''
     \<and> tc_relay_region claims = tv_expected_region v
     \<and> tc_relay_protocol claims = RELAY_PROTOCOL_VERSION \<and> tc_iss claims = JWT_ISSUER"

lemma check_header_Inr:
  "check_header crates v ticket = Inr (kid, vk) \<longleftrightarrow>
     kid \<noteq> '''' \<and> tv_keys v kid = Some vk
     \<and> (\<exists>h. cr_decode_header crates ticket = Some h \<and> jh_alg h = EdDSA \<and> jh_typ h = Some JWT_TYP
          \<and> jh_kid h = Some kid)"
  by (auto simp: check_header_def auth_error_def Let_def JWT_TYP_def split: option.splits if_splits)

lemma check_signature_Inr:
  "check_signature crates v vk ticket = Inr claims \<longleftrightarrow>
     cr_decode crates vk JWT_ISSUER (tv_expected_audience v) (tv_clock_skew v) ticket = Inr claims"
  by (auto simp: check_signature_def auth_error_def split: sum.splits)

lemma check_times_Inr: "check_times v now claims = Inr () \<longleftrightarrow> in_window v now claims"
  by (auto simp: check_times_def auth_error_def in_window_def slt_def split: option.splits)

lemma check_claims_Inr: "check_claims v claims = Inr () \<longleftrightarrow> bound_to_relay v claims"
  by (auto simp: check_claims_def auth_error_def bound_to_relay_def split: json_value.splits if_splits)

text \<open>
  A relay accepts a ticket exactly when its header names EdDSA, the ticket type and a known key,
  the signature checks, it is inside its time window with the allowed skew, and its claims bind
  it to one device, this audience, this region and this protocol version.
\<close>
theorem relay_ticket_accepts_exactly:
  "ticket_verify crates v now ticket = Inr (claims, kid)
   \<longleftrightarrow> kid \<noteq> ''''
     \<and> (\<exists>header vk. cr_decode_header crates ticket = Some header \<and> jh_alg header = EdDSA
          \<and> jh_typ header = Some JWT_TYP \<and> jh_kid header = Some kid \<and> tv_keys v kid = Some vk
          \<and> cr_decode crates vk JWT_ISSUER (tv_expected_audience v) (tv_clock_skew v) ticket
              = Inr claims)
     \<and> in_window v now claims \<and> bound_to_relay v claims"
proof -
  have "ticket_verify crates v now ticket = Inr (claims, kid) \<longleftrightarrow>
      (\<exists>vk. check_header crates v ticket = Inr (kid, vk)
        \<and> check_signature crates v vk ticket = Inr claims
        \<and> check_times v now claims = Inr () \<and> check_claims v claims = Inr ())"
    by (auto simp: ticket_verify_def bind_res_eq_Inr)
  then show ?thesis
    unfolding check_header_Inr check_signature_Inr check_times_Inr check_claims_Inr by blast
qed

end
