(* ===== verification/Punch_Packet.thy ===== *)
theory Punch_Packet
  imports Wg_Noise Utf8
begin

text \<open>
  The UDP probes of hole punching, \<open>client/nat/src/punch.rs\<close>, \<open>punch/packet.rs\<close> and
  \<open>punch/authenticated.rs\<close>: the unauthenticated version 1, and version 2 with a truncated HMAC over
  identities and generation. Version 2 frames come in two layouts, with and (from older nodes)
  without a byte of flags; the parser tries the first and falls back to the second. Node names are
  UTF-8 bytes; nonces are arguments.
\<close>

section \<open>Vocabulary\<close>

definition PUNCH_MAGIC :: bytes where "PUNCH_MAGIC = [0x50, 0x4E, 0x43, 0x48]"
definition PUNCH_VERSION :: u8 where "PUNCH_VERSION = 1"
definition AUTH_PUNCH_VERSION :: u8 where "AUTH_PUNCH_VERSION = 2"
definition TYPE_PUNCH :: u8 where "TYPE_PUNCH = 1"
definition TYPE_ACK :: u8 where "TYPE_ACK = 2"
definition PUNCH_PACKET_SIZE :: nat where "PUNCH_PACKET_SIZE = 14"
definition AUTH_PUNCH_MAC_SIZE :: nat where "AUTH_PUNCH_MAC_SIZE = 16"
definition AUTH_PUNCH_FLAG_USE_CANDIDATE :: u8 where "AUTH_PUNCH_FLAG_USE_CANDIDATE = 1"
definition AUTH_PUNCH_MAC_DOMAIN :: bytes where
  "AUTH_PUNCH_MAC_DOMAIN = bytes_of_string ''p2wlan-udp-probe-v2''"

datatype punch_kind = Punch | Ack

record decoded_punch =
  pu_kind :: punch_kind
  pu_nonce :: bytes
  pu_version :: u8
  pu_source :: "bytes option"
  pu_target :: "bytes option"
  pu_generation :: "u64 option"
  pu_use_candidate :: bool
  pu_authenticated :: bool

record punch_identity =
  pi_kind :: punch_kind
  pi_source :: bytes
  pi_target :: bytes
  pi_generation :: u64
  pi_use_candidate :: bool

section \<open>Version 1\<close>

record punch_packet =
  pp_type :: u8
  pp_nonce :: bytes

definition punch_encode :: "punch_packet \<Rightarrow> bytes" where
  "punch_encode p = PUNCH_MAGIC @ [PUNCH_VERSION] @ [pp_type p] @ pp_nonce p"

definition punch_decode :: "bytes \<Rightarrow> punch_packet option" where
  "punch_decode data =
     (if length data < PUNCH_PACKET_SIZE then None
      else if take 4 data \<noteq> PUNCH_MAGIC then None
      else if data ! 4 \<noteq> PUNCH_VERSION then None
      else if data ! 5 \<noteq> TYPE_PUNCH \<and> data ! 5 \<noteq> TYPE_ACK then None
      else Some \<lparr>pp_type = data ! 5, pp_nonce = chunk 6 8 data\<rparr>)"

definition decode_punch_packet :: "bytes \<Rightarrow> decoded_punch option" where
  "decode_punch_packet data =
     map_option (\<lambda>p.
       \<lparr>pu_kind = (if pp_type p = TYPE_PUNCH then Punch else Ack), pu_nonce = pp_nonce p,
        pu_version = PUNCH_VERSION, pu_source = None, pu_target = None, pu_generation = None,
        pu_use_candidate = False, pu_authenticated = False\<rparr>) (punch_decode data)"

definition build_punch_packet_with_nonce :: "bytes \<Rightarrow> bytes" where
  "build_punch_packet_with_nonce nonce = punch_encode \<lparr>pp_type = TYPE_PUNCH, pp_nonce = nonce\<rparr>"

definition build_punch_ack :: "bytes \<Rightarrow> bytes" where
  "build_punch_ack nonce = punch_encode \<lparr>pp_type = TYPE_ACK, pp_nonce = nonce\<rparr>"

section \<open>Version 2\<close>

definition punch_v2_mac :: "crypto \<Rightarrow> bytes \<Rightarrow> bytes \<Rightarrow> bytes" where
  "punch_v2_mac cr frame_without_mac key =
     take AUTH_PUNCH_MAC_SIZE (hmac cr key (AUTH_PUNCH_MAC_DOMAIN @ frame_without_mac))"

fun kind_byte :: "punch_kind \<Rightarrow> u8" where
  "kind_byte Punch = TYPE_PUNCH"
| "kind_byte Ack = TYPE_ACK"

text \<open>The assertion on the lengths of the names is the result \<open>None\<close>.\<close>

definition encode_authenticated_punch ::
  "crypto \<Rightarrow> punch_kind \<Rightarrow> bytes \<Rightarrow> bytes \<Rightarrow> bytes \<Rightarrow> u64 \<Rightarrow> bool \<Rightarrow> bytes \<Rightarrow> bytes option" where
  "encode_authenticated_punch cr kind nonce source target generation use_candidate key =
     (if \<not> (length source \<le> 255 \<and> length target \<le> 255) then None
      else
        let frame = PUNCH_MAGIC @ [AUTH_PUNCH_VERSION] @ [kind_byte kind] @ nonce
              @ to_be 8 generation
              @ [if use_candidate then AUTH_PUNCH_FLAG_USE_CANDIDATE else 0]
              @ [of_nat (length source)] @ [of_nat (length target)] @ source @ target
        in Some (frame @ punch_v2_mac cr frame key))"

definition build_authenticated_punch_packet ::
  "crypto \<Rightarrow> bytes \<Rightarrow> bytes \<Rightarrow> bytes \<Rightarrow> u64 \<Rightarrow> bool \<Rightarrow> bytes \<Rightarrow> bytes option" where
  "build_authenticated_punch_packet cr nonce source target generation use_candidate key =
     encode_authenticated_punch cr Punch nonce source target generation use_candidate key"

definition build_authenticated_punch_ack ::
  "crypto \<Rightarrow> bytes \<Rightarrow> bytes \<Rightarrow> bytes \<Rightarrow> u64 \<Rightarrow> bytes \<Rightarrow> bytes option" where
  "build_authenticated_punch_ack cr nonce source target generation key =
     encode_authenticated_punch cr Ack nonce source target generation False key"

record parsed_punch =
  pa_kind :: punch_kind
  pa_nonce :: bytes
  pa_generation :: u64
  pa_use_candidate :: bool
  pa_source :: bytes
  pa_target :: bytes

definition parse_authenticated_punch_inner :: "bytes \<Rightarrow> bool \<Rightarrow> parsed_punch option" where
  "parse_authenticated_punch_inner data has_flags =
     (let minimum = 4 + 1 + 1 + 8 + 8 + (if has_flags then 1 else 0) + 1 + 1 + AUTH_PUNCH_MAC_SIZE
      in if length data < minimum then None
         else if take 4 data \<noteq> PUNCH_MAGIC \<or> data ! 4 \<noteq> AUTH_PUNCH_VERSION then None
         else if data ! 5 \<noteq> TYPE_PUNCH \<and> data ! 5 \<noteq> TYPE_ACK then None
         else
           let kind = (if data ! 5 = TYPE_PUNCH then Punch else Ack);
               flags = (if has_flags then data ! 22 else 0);
               cursor = (if has_flags then 23 else 22)
           in if flags AND NOT AUTH_PUNCH_FLAG_USE_CANDIDATE \<noteq> 0 then None
              else
                let source_len = unat (data ! cursor);
                    target_len = unat (data ! (cursor + 1));
                    source_start = cursor + 2;
                    target_start = source_start + source_len;
                    mac_start = length data - AUTH_PUNCH_MAC_SIZE;
                    target_end = target_start + target_len
                in if target_end \<noteq> mac_start then None
                   else
                     let source = chunk source_start source_len data;
                         target = chunk target_start target_len data
                     in if \<not> utf8_valid source then None
                        else if \<not> utf8_valid target then None
                        else if source = [] \<or> target = [] then None
                        else Some \<lparr>pa_kind = kind, pa_nonce = chunk 6 8 data,
                                   pa_generation = from_be (chunk 14 8 data),
                                   pa_use_candidate = (flags AND AUTH_PUNCH_FLAG_USE_CANDIDATE \<noteq> 0),
                                   pa_source = source, pa_target = target\<rparr>)"

definition parse_authenticated_punch :: "bytes \<Rightarrow> parsed_punch option" where
  "parse_authenticated_punch data =
     (case parse_authenticated_punch_inner data True of
        Some p \<Rightarrow> Some p
      | None \<Rightarrow> parse_authenticated_punch_inner data False)"

definition peek_authenticated_punch_identity :: "bytes \<Rightarrow> punch_identity option" where
  "peek_authenticated_punch_identity data =
     map_option (\<lambda>p.
       \<lparr>pi_kind = pa_kind p, pi_source = pa_source p, pi_target = pa_target p,
        pi_generation = pa_generation p, pi_use_candidate = pa_use_candidate p\<rparr>)
       (parse_authenticated_punch data)"

definition constant_time_eq :: "bytes \<Rightarrow> bytes \<Rightarrow> bool" where
  "constant_time_eq expected actual =
     (if length actual \<noteq> AUTH_PUNCH_MAC_SIZE then False
      else foldl (\<lambda>acc (a, b). acc OR (a XOR b)) 0 (zip expected actual) = 0)"

definition decode_authenticated_punch_packet :: "crypto \<Rightarrow> bytes \<Rightarrow> bytes \<Rightarrow> decoded_punch option" where
  "decode_authenticated_punch_packet cr data key =
     (case parse_authenticated_punch data of
        None \<Rightarrow> None
      | Some p \<Rightarrow>
          if length data < AUTH_PUNCH_MAC_SIZE then None
          else
            let mac_start = length data - AUTH_PUNCH_MAC_SIZE;
                expected = punch_v2_mac cr (take mac_start data) key
            in if \<not> constant_time_eq expected (drop mac_start data) then None
               else Some \<lparr>pu_kind = pa_kind p, pu_nonce = pa_nonce p, pu_version = AUTH_PUNCH_VERSION,
                          pu_source = Some (pa_source p), pu_target = Some (pa_target p),
                          pu_generation = Some (pa_generation p),
                          pu_use_candidate = pa_use_candidate p, pu_authenticated = True\<rparr>)"

section \<open>The comparison of tags\<close>

lemma xor_zero: "a XOR b = 0 \<longleftrightarrow> a = b" for a b :: u8
proof
  assume z: "a XOR b = 0"
  have "a = (a XOR b) XOR b" unfolding xor.assoc xor_self_eq xor.right_neutral ..
  also have "\<dots> = b" unfolding z xor.left_neutral ..
  finally show "a = b" .
next
  assume "a = b"
  then show "a XOR b = 0" by (simp only: xor_self_eq)
qed

lemma foldl_or_zero:
  "foldl (\<lambda>acc (a, b). acc OR (a XOR b)) acc ps = 0 \<longleftrightarrow> acc = 0 \<and> (\<forall>(a, b) \<in> set ps. a = b)"
  for acc :: u8
proof (induction ps arbitrary: acc)
  case (Cons p ps)
  obtain a b where p: "p = (a, b)" by (cases p)
  have "foldl (\<lambda>acc (a, b). acc OR (a XOR b)) acc (p # ps) = 0
      \<longleftrightarrow> acc OR (a XOR b) = 0 \<and> (\<forall>(a, b) \<in> set ps. a = b)"
    unfolding p foldl_Cons prod.case by (rule Cons.IH)
  also have "acc OR (a XOR b) = 0 \<longleftrightarrow> acc = 0 \<and> a = b"
    unfolding or_eq_0_iff xor_zero ..
  finally show ?case by (simp add: p)
qed simp

lemma zip_all_eq: "length xs = length ys \<Longrightarrow> (\<forall>(a, b) \<in> set (zip xs ys). a = b) \<longleftrightarrow> ys = xs"
  by (induction xs ys rule: list_induct2) auto

lemma constant_time_eq_iff:
  "length expected = AUTH_PUNCH_MAC_SIZE \<Longrightarrow> constant_time_eq expected actual \<longleftrightarrow> actual = expected"
  using zip_all_eq [of expected actual] by (auto simp: constant_time_eq_def foldl_or_zero)

lemma length_mac: "crypto_ok cr \<Longrightarrow> length (punch_v2_mac cr frame key) = AUTH_PUNCH_MAC_SIZE"
  by (simp add: punch_v2_mac_def hmac_def Let_def crypto_ok_def AUTH_PUNCH_MAC_SIZE_def)

section \<open>The two layouts\<close>

text \<open>A frame before its tag, with the bytes of flags \<open>fl\<close>: one byte now, none in the old layout.\<close>

definition punch_frame :: "bytes \<Rightarrow> parsed_punch \<Rightarrow> bytes" where
  "punch_frame fl p =
     PUNCH_MAGIC @ [AUTH_PUNCH_VERSION] @ [kind_byte (pa_kind p)] @ pa_nonce p
     @ to_be 8 (pa_generation p) @ fl
     @ [of_nat (length (pa_source p))] @ [of_nat (length (pa_target p))] @ pa_source p @ pa_target p"

definition flag_bytes :: "bool \<Rightarrow> parsed_punch \<Rightarrow> bytes" where
  "flag_bytes has_flags p =
     (if has_flags then [if pa_use_candidate p then AUTH_PUNCH_FLAG_USE_CANDIDATE else 0] else [])"

definition wf_punch :: "bool \<Rightarrow> parsed_punch \<Rightarrow> bool" where
  "wf_punch has_flags p \<longleftrightarrow>
     length (pa_nonce p) = 8 \<and> (has_flags \<or> \<not> pa_use_candidate p)
     \<and> pa_source p \<noteq> [] \<and> length (pa_source p) \<le> 255 \<and> utf8_valid (pa_source p)
     \<and> pa_target p \<noteq> [] \<and> length (pa_target p) \<le> 255 \<and> utf8_valid (pa_target p)"

lemma unat_length_u8: "length xs \<le> 255 \<Longrightarrow> unat (of_nat (length xs) :: u8) = length xs"
  by (simp only: unat_of_nat) simp

lemma kind_byte_cases: "kind_byte k = TYPE_PUNCH \<and> k = Punch \<or> kind_byte k = TYPE_ACK \<and> k = Ack"
  by (cases k) simp_all

lemma parse_frame:
  assumes "wf_punch has_flags p" and "length tag = AUTH_PUNCH_MAC_SIZE"
  shows "parse_authenticated_punch_inner (punch_frame (flag_bytes has_flags p) p @ tag) has_flags = Some p"
proof -
  let ?d = "punch_frame (flag_bytes has_flags p) p @ tag"
  let ?pre = "PUNCH_MAGIC @ [AUTH_PUNCH_VERSION] @ [kind_byte (pa_kind p)] @ pa_nonce p
     @ to_be 8 (pa_generation p) @ flag_bytes has_flags p"
  let ?c = "if has_flags then 23 else 22 :: nat"
  let ?sl = "of_nat (length (pa_source p)) :: u8" and ?tl = "of_nat (length (pa_target p)) :: u8"
  note w = assms(1) [unfolded wf_punch_def]
  have d: "?d = ?pre @ ?sl # ?tl # pa_source p @ pa_target p @ tag" by (simp add: punch_frame_def)
  have pre: "length ?pre = ?c"
    using w by (simp add: PUNCH_MAGIC_def flag_bytes_def)
  have head: "take 4 ?d = PUNCH_MAGIC" "?d ! 4 = AUTH_PUNCH_VERSION" "?d ! 5 = kind_byte (pa_kind p)"
    by (simp_all add: punch_frame_def PUNCH_MAGIC_def nth_append)
  have fields: "chunk 6 8 ?d = pa_nonce p" "chunk 14 8 ?d = to_be 8 (pa_generation p)"
    using w by (simp_all add: punch_frame_def PUNCH_MAGIC_def chunk_past chunk_append_skip chunk_0_append)
  have flag: "has_flags \<Longrightarrow> ?d ! 22 = (if pa_use_candidate p then AUTH_PUNCH_FLAG_USE_CANDIDATE else 0)"
    using w by (simp add: punch_frame_def PUNCH_MAGIC_def nth_append flag_bytes_def)
  have lens: "?d ! ?c = ?sl" "?d ! (?c + 1) = ?tl"
    unfolding d using pre by (simp_all only: nth_append) simp_all
  have un: "unat ?sl = length (pa_source p)" "unat ?tl = length (pa_target p)"
    using w unat_length_u8 by blast+
  have names: "chunk (?c + 2) (length (pa_source p)) ?d = pa_source p"
      "chunk (?c + 2 + length (pa_source p)) (length (pa_target p)) ?d = pa_target p"
    unfolding d chunk_def using pre by (simp_all only: drop_append take_append) simp_all
  have len: "length ?d = ?c + 2 + length (pa_source p) + length (pa_target p) + AUTH_PUNCH_MAC_SIZE"
    unfolding d using pre assms(2) by (simp only: length_append) simp
  define d' where "d' = ?d"
  note facts = head fields lens names len flag
  have "parse_authenticated_punch_inner d' has_flags = Some p"
  proof (cases has_flags)
    case True
    with facts un w kind_byte_cases [of "pa_kind p"] show ?thesis
      unfolding parse_authenticated_punch_inner_def Let_def d'_def [symmetric]
      by (cases p) (auto simp: AUTH_PUNCH_MAC_SIZE_def AUTH_PUNCH_FLAG_USE_CANDIDATE_def
          TYPE_PUNCH_def TYPE_ACK_def be64.dec_enc)
  next
    case False
    with facts un w kind_byte_cases [of "pa_kind p"] show ?thesis
      unfolding parse_authenticated_punch_inner_def Let_def d'_def [symmetric]
      by (cases p) (auto simp: AUTH_PUNCH_MAC_SIZE_def TYPE_PUNCH_def TYPE_ACK_def be64.dec_enc)
  qed
  then show ?thesis by (simp only: d'_def)
qed

text \<open>Everything the parser reads is such a frame.\<close>

lemma one_flag:
  fixes f :: u8
  assumes "f AND NOT 1 = 0"
  shows "f = (if f AND 1 \<noteq> 0 then 1 else 0)"
proof -
  have b: "bit f n \<Longrightarrow> n = 0" for n
  proof (rule ccontr)
    assume n: "bit f n" "n \<noteq> 0"
    then have "n < 8" using bit_imp_le_length by fastforce
    with n have "bit (f AND NOT 1) n" by (simp add: bit_and_iff bit_not_iff bit_1_iff)
    with assms show False by simp
  qed
  have "f AND 1 = of_bool (bit f 0)" by (simp add: and_one_eq bit_0 mod_2_eq_odd)
  moreover have "f = of_bool (bit f 0)"
    using b by (intro bit_word_eqI) (auto simp: bit_simps)
  ultimately show ?thesis by (cases "bit f 0") auto
qed


lemma drop_byte: "k < length data \<Longrightarrow> drop k data = data ! k # drop (k + 1) data"
  by (simp add: Cons_nth_drop_Suc)

lemma parse_inner_Some:
  assumes "parse_authenticated_punch_inner data has_flags = Some p"
  shows "wf_punch has_flags p
    \<and> (\<exists>tag. length tag = AUTH_PUNCH_MAC_SIZE \<and> data = punch_frame (flag_bytes has_flags p) p @ tag)"
proof -
  let ?c = "if has_flags then 23 else 22 :: nat"
  let ?f = "if has_flags then data ! 22 else 0"
  let ?sl = "unat (data ! ?c)" and ?tl = "unat (data ! (?c + 1))"
  let ?src = "chunk (?c + 2) ?sl data" and ?tgt = "chunk (?c + 2 + ?sl) ?tl data"
  have c: "?c + 2 + AUTH_PUNCH_MAC_SIZE \<le> length data" "take 4 data = PUNCH_MAGIC"
      "data ! 4 = AUTH_PUNCH_VERSION" "data ! 5 = TYPE_PUNCH \<or> data ! 5 = TYPE_ACK"
      "?f AND NOT AUTH_PUNCH_FLAG_USE_CANDIDATE = 0"
      "?c + 2 + ?sl + ?tl = length data - AUTH_PUNCH_MAC_SIZE"
      "utf8_valid ?src" "utf8_valid ?tgt" "?src \<noteq> []" "?tgt \<noteq> []"
    and p: "p = \<lparr>pa_kind = if data ! 5 = TYPE_PUNCH then Punch else Ack, pa_nonce = chunk 6 8 data,
        pa_generation = from_be (chunk 14 8 data),
        pa_use_candidate = (?f AND AUTH_PUNCH_FLAG_USE_CANDIDATE \<noteq> 0),
        pa_source = ?src, pa_target = ?tgt\<rparr>"
    using assms by (auto simp: parse_authenticated_punch_inner_def Let_def split: if_splits)
  let ?tag = "drop (length data - AUTH_PUNCH_MAC_SIZE) data"
  let ?e = "?c + 2 + ?sl"
  have tag: "length ?tag = AUTH_PUNCH_MAC_SIZE" using c(1) by simp
  have len: "22 \<le> length data" "?c + 1 < length data" "?e + ?tl \<le> length data"
    using c(1,6) by (auto simp: AUTH_PUNCH_MAC_SIZE_def split: if_splits)
  have "drop ?c data = data ! ?c # data ! (?c + 1) # drop (?c + 2) data"
    using drop_byte [of ?c data] drop_byte [of "?c + 1" data] len(2) by simp
  moreover have "drop (?c + 2) data = ?src @ drop ?e data"
    using chunk_split [of "?c + 2" ?sl data] len(3) by simp
  moreover have "drop ?e data = ?tgt @ ?tag"
    using chunk_split [of ?e ?tl data] len(3) unfolding c(6) [symmetric] by simp
  ultimately have rest: "drop ?c data = data ! ?c # data ! (?c + 1) # ?src @ ?tgt @ ?tag" by simp
  have flag: "drop 22 data = flag_bytes has_flags p @ drop ?c data"
  proof (cases has_flags)
    case True
    have "data ! 22 = (if data ! 22 AND 1 \<noteq> 0 then 1 else 0)"
      using one_flag [of "data ! 22"] c(5) True by (simp add: AUTH_PUNCH_FLAG_USE_CANDIDATE_def)
    then have "[data ! 22] = [if data ! 22 AND 1 \<noteq> 0 then 1 else 0]" by (rule arg_cong)
    moreover have "flag_bytes has_flags p = [if data ! 22 AND 1 \<noteq> 0 then 1 else 0]"
      using True p by (simp add: flag_bytes_def AUTH_PUNCH_FLAG_USE_CANDIDATE_def)
    ultimately have "[data ! 22] = flag_bytes has_flags p" by (rule trans [OF _ sym])
    moreover have "drop 22 data = [data ! 22] @ drop 23 data"
      using drop_byte [of 22 data] len(2) True by simp
    ultimately show ?thesis using True by simp
  qed (simp add: flag_bytes_def)
  have "drop 4 data = data ! 4 # data ! 5 # drop 6 data"
    using drop_byte [of 4 data] drop_byte [of 5 data] len(1) by simp
  moreover have "drop 6 data = chunk 6 8 data @ chunk 14 8 data @ drop 22 data"
    using chunk_split [of 6 8 data] chunk_split [of 14 8 data] len(1) by simp
  ultimately have "data = take 4 data @ data ! 4 # data ! 5 # chunk 6 8 data @ chunk 14 8 data
      @ drop 22 data"
    by (metis append_take_drop_id)
  moreover have "kind_byte (pa_kind p) = data ! 5" using c(4) p by auto
  moreover have "to_be 8 (pa_generation p) = chunk 14 8 data"
    using be64.enc_dec [of "chunk 14 8 data"] len(1) p by (simp add: length_chunk)
  moreover have "length ?src = ?sl" "length ?tgt = ?tl"
    using len(3) by (simp_all add: length_chunk)
  then have "of_nat (length ?src) = data ! ?c" "of_nat (length ?tgt) = data ! (?c + 1)" by simp_all
  moreover have "pa_nonce p = chunk 6 8 data" "pa_source p = ?src" "pa_target p = ?tgt" by (simp_all add: p)
  ultimately have "data = punch_frame (flag_bytes has_flags p) p @ ?tag"
    unfolding punch_frame_def c(2) c(3) flag rest by simp
  moreover have "?sl \<le> 255" "?tl \<le> 255" using unat_u8_less [of "data ! ?c"] unat_u8_less [of "data ! (?c + 1)"]
    by linarith+
  then have "wf_punch has_flags p"
    using c(7-10) p len \<open>length ?src = ?sl\<close> \<open>length ?tgt = ?tl\<close>
    by (auto simp: wf_punch_def length_chunk)
  ultimately show ?thesis using tag by blast
qed

text \<open>No frame can be read in both layouts.\<close>

lemma layouts_disjoint:
  assumes "parse_authenticated_punch_inner data True = Some p"
    and "parse_authenticated_punch_inner data False = Some q"
  shows False
proof -
  have a: "data ! 22 AND NOT 1 = 0" "25 + unat (data ! 23) + unat (data ! 24) = length data - AUTH_PUNCH_MAC_SIZE"
      "chunk (25 + unat (data ! 23)) (unat (data ! 24)) data \<noteq> []"
    using assms(1) by (auto simp: parse_authenticated_punch_inner_def Let_def
        AUTH_PUNCH_FLAG_USE_CANDIDATE_def split: if_splits)
  have b: "24 + unat (data ! 22) + unat (data ! 23) = length data - AUTH_PUNCH_MAC_SIZE"
    using assms(2) by (auto simp: parse_authenticated_punch_inner_def Let_def split: if_splits)
  have "data ! 22 = 1 \<or> data ! 22 = 0" using one_flag [OF a(1)] by (metis (full_types))
  then have "unat (data ! 22) \<le> 1" by auto
  with a(2) b have "unat (data ! 24) = 0" by linarith
  with a(3) show False by (simp add: chunk_def)
qed

lemma parse_authenticated_punch_iff:
  "parse_authenticated_punch data = Some p \<longleftrightarrow>
     (\<exists>has_flags tag. wf_punch has_flags p \<and> length tag = AUTH_PUNCH_MAC_SIZE
        \<and> data = punch_frame (flag_bytes has_flags p) p @ tag)"
proof
  assume "parse_authenticated_punch data = Some p"
  then have "parse_authenticated_punch_inner data True = Some p
      \<or> parse_authenticated_punch_inner data False = Some p"
    by (auto simp: parse_authenticated_punch_def split: option.splits)
  then show "\<exists>has_flags tag. wf_punch has_flags p \<and> length tag = AUTH_PUNCH_MAC_SIZE
      \<and> data = punch_frame (flag_bytes has_flags p) p @ tag"
    using parse_inner_Some by blast
next
  assume "\<exists>has_flags tag. wf_punch has_flags p \<and> length tag = AUTH_PUNCH_MAC_SIZE
      \<and> data = punch_frame (flag_bytes has_flags p) p @ tag"
  then obtain hf tag where "wf_punch hf p" "length tag = AUTH_PUNCH_MAC_SIZE"
      "data = punch_frame (flag_bytes hf p) p @ tag" by blast
  then have "parse_authenticated_punch_inner data hf = Some p" using parse_frame by blast
  then show "parse_authenticated_punch data = Some p"
    using layouts_disjoint [of data]
    by (cases hf) (auto simp: parse_authenticated_punch_def split: option.split)
qed

text \<open>
  An authenticated punch packet is accepted exactly when it is a well-formed frame, in one of
  the two layouts, followed by the authentication code of that frame under the session key; the
  fields delivered are those of the frame.
\<close>
theorem punch_accepts_only_sealed_frames:
  assumes "crypto_ok cr"
  shows "decode_authenticated_punch_packet cr data key = Some d \<longleftrightarrow>
    (\<exists>p has_flags. wf_punch has_flags p
       \<and> data = punch_frame (flag_bytes has_flags p) p
           @ punch_v2_mac cr (punch_frame (flag_bytes has_flags p) p) key
       \<and> d = \<lparr>pu_kind = pa_kind p, pu_nonce = pa_nonce p, pu_version = AUTH_PUNCH_VERSION,
              pu_source = Some (pa_source p), pu_target = Some (pa_target p),
              pu_generation = Some (pa_generation p), pu_use_candidate = pa_use_candidate p,
              pu_authenticated = True\<rparr>)" (is "?l \<longleftrightarrow> ?r")
proof
  assume ?l
  then obtain p where p: "parse_authenticated_punch data = Some p"
    and eq: "constant_time_eq (punch_v2_mac cr (take (length data - AUTH_PUNCH_MAC_SIZE) data) key)
        (drop (length data - AUTH_PUNCH_MAC_SIZE) data)"
    and d: "d = \<lparr>pu_kind = pa_kind p, pu_nonce = pa_nonce p, pu_version = AUTH_PUNCH_VERSION,
              pu_source = Some (pa_source p), pu_target = Some (pa_target p),
              pu_generation = Some (pa_generation p), pu_use_candidate = pa_use_candidate p,
              pu_authenticated = True\<rparr>"
    by (auto simp: decode_authenticated_punch_packet_def Let_def split: option.splits if_splits)
  from p obtain hf tag where f: "wf_punch hf p" "length tag = AUTH_PUNCH_MAC_SIZE"
      "data = punch_frame (flag_bytes hf p) p @ tag"
    unfolding parse_authenticated_punch_iff by blast
  then have "tag = punch_v2_mac cr (punch_frame (flag_bytes hf p) p) key"
    using eq by (simp add: constant_time_eq_iff length_mac [OF assms])
  with f d show ?r by blast
next
  assume ?r
  then obtain p hf where f: "wf_punch hf p" "data = punch_frame (flag_bytes hf p) p
           @ punch_v2_mac cr (punch_frame (flag_bytes hf p) p) key"
    and d: "d = \<lparr>pu_kind = pa_kind p, pu_nonce = pa_nonce p, pu_version = AUTH_PUNCH_VERSION,
              pu_source = Some (pa_source p), pu_target = Some (pa_target p),
              pu_generation = Some (pa_generation p), pu_use_candidate = pa_use_candidate p,
              pu_authenticated = True\<rparr>" by blast
  let ?m = "punch_v2_mac cr (punch_frame (flag_bytes hf p) p) key"
  have m: "length ?m = AUTH_PUNCH_MAC_SIZE" by (rule length_mac [OF assms])
  have "parse_authenticated_punch data = Some p"
    unfolding parse_authenticated_punch_iff using f m by blast
  then show ?l
    using d m unfolding f(2)
    by (simp add: decode_authenticated_punch_packet_def Let_def constant_time_eq_iff)
qed

text \<open>What the node builds is such a frame.\<close>

lemma encode_authenticated_punch_frame:
  assumes "length source \<le> 255" and "length target \<le> 255"
  shows "encode_authenticated_punch cr kind nonce source target generation use key
    = (let p = \<lparr>pa_kind = kind, pa_nonce = nonce, pa_generation = generation,
            pa_use_candidate = use, pa_source = source, pa_target = target\<rparr>;
           frame = punch_frame (flag_bytes True p) p
       in Some (frame @ punch_v2_mac cr frame key))"
  using assms by (simp add: encode_authenticated_punch_def punch_frame_def flag_bytes_def Let_def)

end
