(* ===== verification/Stun.thy ===== *)
theory Stun
  imports Net Utf8
begin

text \<open>
  STUN messages (RFC 5389), \<open>client/nat/src/stun.rs\<close> with \<open>stun/address.rs\<close>, \<open>stun/attribute.rs\<close>
  and \<open>stun/message.rs\<close>. A transaction identifier is a list of 12 bytes, an argument where the code
  draws it at random; a string is its UTF-8 bytes.
\<close>

datatype nat_error = InvalidStunMessage string | InvalidAttribute string

definition MAGIC_COOKIE :: u32 where "MAGIC_COOKIE = 0x2112A442"
definition STUN_HEADER_SIZE :: nat where "STUN_HEADER_SIZE = 20"
definition MAGIC_COOKIE_BYTES :: bytes where "MAGIC_COOKIE_BYTES = [0x21, 0x12, 0xA4, 0x42]"
definition BINDING_REQUEST :: u16 where "BINDING_REQUEST = 0x0001"
definition BINDING_RESPONSE :: u16 where "BINDING_RESPONSE = 0x0101"
definition BINDING_ERROR_RESPONSE :: u16 where "BINDING_ERROR_RESPONSE = 0x0111"
definition ATTR_MAPPED_ADDRESS :: u16 where "ATTR_MAPPED_ADDRESS = 0x0001"
definition ATTR_CHANGE_REQUEST :: u16 where "ATTR_CHANGE_REQUEST = 0x0003"
definition ATTR_ERROR_CODE :: u16 where "ATTR_ERROR_CODE = 0x0009"
definition ATTR_XOR_MAPPED_ADDRESS :: u16 where "ATTR_XOR_MAPPED_ADDRESS = 0x0020"
definition ATTR_SOFTWARE :: u16 where "ATTR_SOFTWARE = 0x8022"
definition ATTR_FINGERPRINT :: u16 where "ATTR_FINGERPRINT = 0x8028"
definition FAMILY_IPV4 :: u8 where "FAMILY_IPV4 = 1"
definition FAMILY_IPV6 :: u8 where "FAMILY_IPV6 = 2"
definition FINGERPRINT_XOR :: u32 where "FINGERPRINT_XOR = 0x5354554E"

section \<open>Checksum\<close>

definition crc_bit :: "u32 \<Rightarrow> u32" where
  "crc_bit crc =
     (if crc AND 1 \<noteq> 0 then drop_bit 1 crc XOR 0xEDB88320 else drop_bit 1 crc)"

definition crc_byte :: "u32 \<Rightarrow> u8 \<Rightarrow> u32" where
  "crc_byte crc b = (crc_bit ^^ 8) (crc XOR ucast b)"

definition crc32 :: "bytes \<Rightarrow> u32" where
  "crc32 data = NOT (foldl crc_byte 0xFFFFFFFF data)"

definition compute_fingerprint :: "bytes \<Rightarrow> u32" where
  "compute_fingerprint data = crc32 data XOR FINGERPRINT_XOR"

section \<open>Addresses\<close>

definition xor_port :: "u16 \<Rightarrow> u16" where
  "xor_port port = port XOR ucast (drop_bit 16 MAGIC_COOKIE)"

definition xor_bytes :: "bytes \<Rightarrow> bytes \<Rightarrow> bytes" where
  "xor_bytes a b = map2 (\<lambda>x y. x XOR y) a b"

fun encode_xor_mapped_address :: "socket_addr \<Rightarrow> bytes \<Rightarrow> bytes" where
  "encode_xor_mapped_address (SocketV4 ip port) tid =
     [0] @ [FAMILY_IPV4] @ to_be 2 (xor_port port) @ xor_bytes (to_be 4 ip) (to_be 4 MAGIC_COOKIE)"
| "encode_xor_mapped_address (SocketV6 ip port _ _) tid =
     [0] @ [FAMILY_IPV6] @ to_be 2 (xor_port port)
     @ xor_bytes (to_be 16 ip) (MAGIC_COOKIE_BYTES @ tid)"

definition decode_xor_mapped_address :: "bytes \<Rightarrow> bytes \<Rightarrow> nat_error + socket_addr" where
  "decode_xor_mapped_address data tid =
     (if length data < 8 then Inl (InvalidAttribute ''XOR-MAPPED-ADDRESS too short'')
      else
        let family = data ! 1;
            port = xor_port (from_be [data ! 2, data ! 3])
        in if family = FAMILY_IPV4
           then Inr (SocketV4 (from_be (xor_bytes (chunk 4 4 data) (to_be 4 MAGIC_COOKIE))) port)
           else if family = FAMILY_IPV6 then
             if length data < 20 then Inl (InvalidAttribute ''XOR-MAPPED-ADDRESS IPv6 too short'')
             else Inr (SocketV6 (from_be (xor_bytes (chunk 4 16 data) (MAGIC_COOKIE_BYTES @ tid))) port 0 0)
           else Inl (InvalidAttribute ''unknown family''))"

fun encode_mapped_address :: "socket_addr \<Rightarrow> bytes" where
  "encode_mapped_address (SocketV4 ip port) = [0] @ [FAMILY_IPV4] @ to_be 2 port @ to_be 4 ip"
| "encode_mapped_address (SocketV6 ip port _ _) = [0] @ [FAMILY_IPV6] @ to_be 2 port @ to_be 16 ip"

definition decode_mapped_address :: "bytes \<Rightarrow> nat_error + socket_addr" where
  "decode_mapped_address data =
     (if length data < 8 then Inl (InvalidAttribute ''MAPPED-ADDRESS too short'')
      else
        let family = data ! 1;
            port = from_be [data ! 2, data ! 3]
        in if family = FAMILY_IPV4
           then Inr (SocketV4 (from_be [data ! 4, data ! 5, data ! 6, data ! 7]) port)
           else if family = FAMILY_IPV6 then
             if length data < 20 then Inl (InvalidAttribute ''MAPPED-ADDRESS IPv6 too short'')
             else Inr (SocketV6 (from_be (chunk 4 16 data)) port 0 0)
           else Inl (InvalidAttribute ''unknown family''))"

section \<open>Attributes\<close>

datatype stun_attribute =
    MappedAddress socket_addr
  | XorMappedAddress socket_addr
  | ChangeRequest bool bool
  | ErrorCode u16 bytes
  | Software bytes
  | Fingerprint u32
  | OtherAttribute u16 bytes

definition change_flags :: "bool \<Rightarrow> bool \<Rightarrow> u32" where
  "change_flags change_ip change_port =
     (let flags = 0;
          flags = (if change_ip then flags OR 0x04 else flags)
      in if change_port then flags OR 0x02 else flags)"

fun attribute_encode :: "stun_attribute \<Rightarrow> bytes \<Rightarrow> u16 \<times> bytes" where
  "attribute_encode (MappedAddress addr) tid = (ATTR_MAPPED_ADDRESS, encode_mapped_address addr)"
| "attribute_encode (XorMappedAddress addr) tid =
     (ATTR_XOR_MAPPED_ADDRESS, encode_xor_mapped_address addr tid)"
| "attribute_encode (ChangeRequest change_ip change_port) tid =
     (ATTR_CHANGE_REQUEST, to_be 4 (change_flags change_ip change_port))"
| "attribute_encode (ErrorCode code reason) tid =
     (ATTR_ERROR_CODE, [0, 0, 0, ucast (code div 100), ucast (code mod 100)] @ reason)"
| "attribute_encode (Software s) tid = (ATTR_SOFTWARE, s)"
| "attribute_encode (Fingerprint v) tid = (ATTR_FINGERPRINT, to_be 4 v)"
| "attribute_encode (OtherAttribute ty value) tid = (ty, value)"

definition attribute_decode :: "u16 \<Rightarrow> bytes \<Rightarrow> bytes \<Rightarrow> nat_error + stun_attribute" where
  "attribute_decode ty data tid =
     (if ty = ATTR_MAPPED_ADDRESS
      then bind_res (decode_mapped_address data) (\<lambda>a. Inr (MappedAddress a))
      else if ty = ATTR_XOR_MAPPED_ADDRESS
      then bind_res (decode_xor_mapped_address data tid) (\<lambda>a. Inr (XorMappedAddress a))
      else if ty = ATTR_CHANGE_REQUEST then
        if length data < 4 then Inl (InvalidAttribute ''CHANGE-REQUEST too short'')
        else let flags = from_be [data ! 0, data ! 1, data ! 2, data ! 3] :: u32
             in Inr (ChangeRequest (flags AND 0x04 \<noteq> 0) (flags AND 0x02 \<noteq> 0))
      else if ty = ATTR_ERROR_CODE then
        if length data < 5 then Inl (InvalidAttribute ''ERROR-CODE too short'')
        else let code = ucast (data ! 3) * 100 + ucast (data ! 4)
             in Inr (ErrorCode code (if length data > 5 then from_utf8_lossy (drop 5 data) else []))
      else if ty = ATTR_SOFTWARE then Inr (Software (from_utf8_lossy data))
      else if ty = ATTR_FINGERPRINT then
        if length data < 4 then Inl (InvalidAttribute ''FINGERPRINT too short'')
        else Inr (Fingerprint (from_be [data ! 0, data ! 1, data ! 2, data ! 3]))
      else Inr (OtherAttribute ty data))"

section \<open>Messages\<close>

record stun_message =
  sm_type :: u16
  sm_transaction_id :: bytes
  sm_attributes :: "stun_attribute list"
  sm_raw :: bytes

definition with_transaction_id :: "u16 \<Rightarrow> bytes \<Rightarrow> stun_message" where
  "with_transaction_id ty tid =
     \<lparr>sm_type = ty, sm_transaction_id = tid, sm_attributes = [], sm_raw = []\<rparr>"

definition add_attribute :: "stun_message \<Rightarrow> stun_attribute \<Rightarrow> stun_message" where
  "add_attribute m a = m\<lparr>sm_attributes := sm_attributes m @ [a]\<rparr>"

definition padding :: "nat \<Rightarrow> nat" where
  "padding n = (4 - n mod 4) mod 4"

definition encode_one :: "bytes \<Rightarrow> stun_attribute \<Rightarrow> bytes" where
  "encode_one tid a =
     (let (ty, value) = attribute_encode a tid
      in to_be 2 ty @ to_be 2 (of_nat (length value) :: u16) @ value
         @ replicate (padding (length value)) 0)"

definition stun_encode :: "stun_message \<Rightarrow> bytes \<times> stun_message" where
  "stun_encode m =
     (let attr_buf = concat (map (encode_one (sm_transaction_id m)) (sm_attributes m));
          buf = to_be 2 (sm_type m) @ to_be 2 (of_nat (length attr_buf) :: u16)
                @ MAGIC_COOKIE_BYTES @ sm_transaction_id m @ attr_buf
      in (buf, m\<lparr>sm_raw := buf\<rparr>))"

definition encode_with_fingerprint :: "stun_message \<Rightarrow> bytes \<times> stun_message" where
  "encode_with_fingerprint m =
     (let buf_no_fp = fst (stun_encode m);
          fp = compute_fingerprint buf_no_fp;
          buf = buf_no_fp @ to_be 2 ATTR_FINGERPRINT @ to_be 2 (4 :: u16) @ to_be 4 fp;
          new_len = to_be 2 (from_be [buf ! 2, buf ! 3] + 8 :: u16);
          buf = buf[2 := new_len ! 0, 3 := new_len ! 1]
      in (buf, m\<lparr>sm_raw := buf\<rparr>))"

text \<open>The loop over the attributes; it advances by at least the four bytes of a header.\<close>

function decode_attributes ::
  "bytes \<Rightarrow> bytes \<Rightarrow> nat \<Rightarrow> nat \<Rightarrow> stun_attribute list \<Rightarrow> nat_error + stun_attribute list" where
  "decode_attributes data tid offset limit attributes =
     (if offset + 4 \<le> limit then
        let ty = from_be [data ! offset, data ! (offset + 1)];
            attr_len = unat (from_be [data ! (offset + 2), data ! (offset + 3)] :: u16);
            start = offset + 4
        in if start + attr_len > limit
           then Inl (InvalidStunMessage ''attribute length exceeds message boundary'')
           else
             case attribute_decode ty (chunk start attr_len data) tid of
               Inl e \<Rightarrow> Inl e
             | Inr a \<Rightarrow>
                 decode_attributes data tid (start + attr_len + padding attr_len) limit (attributes @ [a])
      else Inr attributes)"
  by pat_completeness auto

termination decode_attributes
  by (relation "measure (\<lambda>(data, tid, offset, limit, attributes). limit - offset)") auto

declare decode_attributes.simps [simp del]

definition stun_decode :: "bytes \<Rightarrow> nat_error + stun_message" where
  "stun_decode data =
     (if length data < STUN_HEADER_SIZE then Inl (InvalidStunMessage ''message too short'')
      else if data ! 0 AND 0xC0 \<noteq> 0
      then Inl (InvalidStunMessage ''first two bits are not zero (not a STUN message)'')
      else
        let msg_type = from_be [data ! 0, data ! 1];
            msg_len = unat (from_be [data ! 2, data ! 3] :: u16);
            cookie = from_be [data ! 4, data ! 5, data ! 6, data ! 7] :: u32
        in if cookie \<noteq> MAGIC_COOKIE then Inl (InvalidStunMessage ''invalid magic cookie'')
           else
             let tid = chunk 8 12 data
             in if length data < STUN_HEADER_SIZE + msg_len
                then Inl (InvalidStunMessage ''message truncated'')
                else
                  bind_res (decode_attributes data tid STUN_HEADER_SIZE (STUN_HEADER_SIZE + msg_len) [])
                    (\<lambda>attributes. Inr \<lparr>sm_type = msg_type, sm_transaction_id = tid,
                                      sm_attributes = attributes, sm_raw = data\<rparr>))"

fun find_xor_mapped :: "stun_attribute list \<Rightarrow> socket_addr option" where
  "find_xor_mapped [] = None"
| "find_xor_mapped (XorMappedAddress a # as) = Some a"
| "find_xor_mapped (_ # as) = find_xor_mapped as"

fun find_mapped :: "stun_attribute list \<Rightarrow> socket_addr option" where
  "find_mapped [] = None"
| "find_mapped (MappedAddress a # as) = Some a"
| "find_mapped (_ # as) = find_mapped as"

fun find_error_code :: "stun_attribute list \<Rightarrow> (u16 \<times> bytes) option" where
  "find_error_code [] = None"
| "find_error_code (ErrorCode code reason # as) = Some (code, reason)"
| "find_error_code (_ # as) = find_error_code as"

definition get_reflexive_address :: "stun_message \<Rightarrow> socket_addr option" where
  "get_reflexive_address m =
     (case find_xor_mapped (sm_attributes m) of
        Some a \<Rightarrow> Some a
      | None \<Rightarrow> find_mapped (sm_attributes m))"

definition verify_fingerprint :: "stun_message \<Rightarrow> bool" where
  "verify_fingerprint m =
     (let raw = sm_raw m
      in if length raw < 8 then False
         else
           let fp_start = length raw - 8
           in if from_be [raw ! fp_start, raw ! (fp_start + 1)] \<noteq> ATTR_FINGERPRINT then False
              else
                let stored_fp = from_be [raw ! (fp_start + 4), raw ! (fp_start + 5),
                                         raw ! (fp_start + 6), raw ! (fp_start + 7)] :: u32;
                    buf = take fp_start raw;
                    msg_len = from_be [buf ! 2, buf ! 3] :: u16
                in if msg_len < 8 then False
                   else
                     let original_len = to_be 2 (msg_len - 8);
                         buf = buf[2 := original_len ! 0, 3 := original_len ! 1]
                     in stored_fp = compute_fingerprint buf)"

end
