(* ===== verification/Stun_Props.thy ===== *)
theory Stun_Props
  imports Stun
begin

text \<open>
  STUN messages survive the wire: a message the node builds decodes to itself, with the
  fingerprint of its bytes as the last attribute when one is appended, and that fingerprint
  verifies.
\<close>

section \<open>Addresses\<close>

lemma length_xor_bytes [simp]: "length (xor_bytes a b) = min (length a) (length b)"
  by (simp add: xor_bytes_def)

lemma xor_bytes_twice: "length a \<le> length b \<Longrightarrow> xor_bytes (xor_bytes a b) b = a"
  by (rule nth_equalityI) (simp_all add: xor_bytes_def xor.assoc)

lemma xor_port_twice [simp]: "xor_port (xor_port p) = p"
  by (simp add: xor_port_def xor.assoc)

definition plain_addr :: "socket_addr \<Rightarrow> bool" where
  "plain_addr a \<longleftrightarrow> (case a of SocketV4 _ _ \<Rightarrow> True | SocketV6 _ _ flow scope \<Rightarrow> flow = 0 \<and> scope = 0)"

text \<open>The fields of an address value: a zero, the family, the port, the address.\<close>

lemma addr_fields:
  assumes "d = [0] @ [f] @ to_be 2 (port :: u16) @ body"
  shows "d ! 1 = f" and "from_be [d ! 2, d ! 3] = port" and "chunk 4 n d = take n body"
    and "length d = 4 + length body"
proof -
  show "d ! 1 = f" "length d = 4 + length body" using assms by simp_all
  show "chunk 4 n d = take n body" using assms by (simp add: chunk_def)
  have "[d ! 2, d ! 3] = chunk 2 2 d" using chunk_two [of 2 d] assms by simp
  also have "\<dots> = to_be 2 port" using assms by (simp add: chunk_past chunk_0_append)
  finally show "from_be [d ! 2, d ! 3] = port" by (simp add: be16.dec_enc)
qed

lemma decode_encode_mapped:
  assumes "plain_addr a"
  shows "decode_mapped_address (encode_mapped_address a) = Inr a"
proof (cases a)
  case (SocketV4 ip port)
  let ?d = "encode_mapped_address a"
  have d: "?d = [0] @ [FAMILY_IPV4] @ to_be 2 port @ to_be 4 ip" by (simp add: SocketV4)
  note f = addr_fields [OF d]
  have "[?d ! 4, ?d ! 5, ?d ! 6, ?d ! 7] = to_be 4 ip"
    using chunk_four [of 4 ?d] f(3) [of 4] f(4) by simp
  then show ?thesis
    using f by (simp add: decode_mapped_address_def be32.dec_enc SocketV4 Let_def)
next
  case (SocketV6 ip port flow scope)
  let ?d = "encode_mapped_address a"
  have d: "?d = [0] @ [FAMILY_IPV6] @ to_be 2 port @ to_be 16 ip" by (simp add: SocketV6)
  note f = addr_fields [OF d]
  show ?thesis
    using f assms by (simp add: decode_mapped_address_def be128.dec_enc SocketV6 Let_def
        FAMILY_IPV4_def FAMILY_IPV6_def plain_addr_def)
qed

lemma decode_encode_xor_mapped:
  assumes "plain_addr a" and "length tid = 12"
  shows "decode_xor_mapped_address (encode_xor_mapped_address a tid) tid = Inr a"
proof (cases a)
  case (SocketV4 ip port)
  let ?d = "encode_xor_mapped_address a tid"
  have d: "?d = [0] @ [FAMILY_IPV4] @ to_be 2 (xor_port port)
      @ xor_bytes (to_be 4 ip) (to_be 4 MAGIC_COOKIE)" by (simp add: SocketV4)
  note f = addr_fields [OF d]
  show ?thesis
    using f by (simp add: decode_xor_mapped_address_def be32.dec_enc SocketV4 Let_def xor_bytes_twice)
next
  case (SocketV6 ip port flow scope)
  let ?d = "encode_xor_mapped_address a tid"
  have d: "?d = [0] @ [FAMILY_IPV6] @ to_be 2 (xor_port port)
      @ xor_bytes (to_be 16 ip) (MAGIC_COOKIE_BYTES @ tid)" by (simp add: SocketV6)
  note f = addr_fields [OF d]
  show ?thesis
    using f assms by (simp add: decode_xor_mapped_address_def be128.dec_enc SocketV6 Let_def
        FAMILY_IPV4_def FAMILY_IPV6_def plain_addr_def xor_bytes_twice MAGIC_COOKIE_BYTES_def)
qed

lemma stun_be16_pair: "k + 2 \<le> length d \<Longrightarrow> chunk k 2 d = to_be 2 (w :: u16) \<Longrightarrow> from_be [d ! k, d ! (k + 1)] = w"
  by (simp only: chunk_two be16.dec_enc)

section \<open>Attributes\<close>

definition wf_attribute :: "stun_attribute \<Rightarrow> bool" where
  "wf_attribute a \<longleftrightarrow>
     (case a of
        MappedAddress addr \<Rightarrow> plain_addr addr
      | XorMappedAddress addr \<Rightarrow> plain_addr addr
      | ChangeRequest _ _ \<Rightarrow> True
      | ErrorCode code reason \<Rightarrow> unat code < 25600 \<and> utf8_valid reason
      | Software s \<Rightarrow> utf8_valid s
      | Fingerprint _ \<Rightarrow> True
      | OtherAttribute ty _ \<Rightarrow> ty \<notin> {ATTR_MAPPED_ADDRESS, ATTR_XOR_MAPPED_ADDRESS, ATTR_CHANGE_REQUEST,
          ATTR_ERROR_CODE, ATTR_SOFTWARE, ATTR_FINGERPRINT})"

lemmas attr_types =
  ATTR_MAPPED_ADDRESS_def ATTR_XOR_MAPPED_ADDRESS_def ATTR_CHANGE_REQUEST_def ATTR_ERROR_CODE_def
  ATTR_SOFTWARE_def ATTR_FINGERPRINT_def

lemma four_bytes: "from_be [to_be 4 v ! 0, to_be 4 v ! 1, to_be 4 v ! 2, to_be 4 v ! 3] = (v :: u32)"
proof -
  have "chunk 0 4 (to_be 4 v) = to_be 4 v" by (simp add: chunk_def)
  then have "[to_be 4 v ! 0, to_be 4 v ! 1, to_be 4 v ! 2, to_be 4 v ! 3] = to_be 4 v"
    using chunk_four [of 0 "to_be 4 v"] by (simp add: numeral_2_eq_2)
  then show ?thesis by (simp only: be32.dec_enc)
qed

lemma code_bytes:
  fixes code :: u16
  assumes "unat code < 25600"
  shows "ucast (ucast (code div 100) :: u8) * 100 + ucast (ucast (code mod 100) :: u8) = code"
proof -
  have d: "unat (code div 100) = unat code div 100" "unat (code mod 100) = unat code mod 100"
    by (simp_all add: unat_div_distrib unat_mod_distrib)
  have "unat code div 100 < 256" using assms by (simp add: less_mult_imp_div_less)
  then have "unat (ucast (code div 100) :: u8) = unat code div 100"
    by (simp add: unsigned_ucast_eq take_bit_nat_eq_self d)
  moreover have "unat (ucast (code mod 100) :: u8) = unat code mod 100"
    using mod_less_divisor [of 100 "unat code"]
    by (simp add: unsigned_ucast_eq take_bit_nat_eq_self d)
  moreover have u: "unat (ucast b :: u16) = unat b" for b :: u8
    using unat_u8_less [of b] by (simp add: unsigned_ucast_eq take_bit_nat_eq_self del: unat_u8_less)
  ultimately have "unat (ucast (ucast (code div 100) :: u8) :: u16) = unat code div 100"
      "unat (ucast (ucast (code mod 100) :: u8) :: u16) = unat code mod 100" by simp_all
  moreover have "unat code div 100 * 100 + unat code mod 100 = unat code" by (rule div_mult_mod_eq)
  ultimately have "unat (ucast (ucast (code div 100) :: u8) * 100
      + ucast (ucast (code mod 100) :: u8) :: u16) = unat code"
    using assms by (simp add: unat_word_ariths)
  then show ?thesis by (simp add: word_unat_eq_iff)
qed

lemma attribute_roundtrip:
  assumes "wf_attribute a" and "length tid = 12"
  shows "attribute_decode (fst (attribute_encode a tid)) (snd (attribute_encode a tid)) tid = Inr a"
proof (cases a)
  case (ChangeRequest ip port)
  then show ?thesis
    using four_bytes [of "change_flags ip port"]
    by (simp add: attribute_decode_def attr_types Let_def)
      (simp add: change_flags_def)
next
  case (ErrorCode code reason)
  with assms show ?thesis
    by (simp add: attribute_decode_def attr_types Let_def wf_attribute_def code_bytes
        from_utf8_lossy_valid)
next
  case (Fingerprint v)
  then show ?thesis using four_bytes [of v] by (simp add: attribute_decode_def attr_types)
qed (use assms in \<open>simp_all add: attribute_decode_def attr_types wf_attribute_def
    decode_encode_mapped decode_encode_xor_mapped from_utf8_lossy_valid\<close>)

section \<open>The attribute list\<close>

lemma length_encode_one:
  "length (encode_one tid a) = 4 + length (snd (attribute_encode a tid))
     + padding (length (snd (attribute_encode a tid)))"
  by (simp add: encode_one_def case_prod_beta)

lemma decode_attributes_concat:
  assumes "\<forall>a \<in> set as. wf_attribute a" and "length tid = 12"
    and "length (concat (map (encode_one tid) as)) < 65536"
  shows "decode_attributes (pre @ concat (map (encode_one tid) as) @ post) tid (length pre)
      (length pre + length (concat (map (encode_one tid) as))) acc = Inr (acc @ as)"
  using assms
proof (induction as arbitrary: pre acc)
  case Nil
  then show ?case by (subst decode_attributes.simps) simp
next
  case (Cons a as)
  obtain ty v where e: "attribute_encode a tid = (ty, v)" by fastforce
  let ?rest = "concat (map (encode_one tid) as)"
  let ?d = "pre @ concat (map (encode_one tid) (a # as)) @ post"
  let ?n = "length pre"
  have one: "encode_one tid a = to_be 2 ty @ to_be 2 (of_nat (length v) :: u16) @ v
      @ replicate (padding (length v)) 0"
    by (simp add: encode_one_def e)
  have v: "length v < 65536" using Cons.prems(3) by (simp add: one)
  have d: "?d = pre @ to_be 2 ty @ to_be 2 (of_nat (length v) :: u16) @ v
      @ replicate (padding (length v)) 0 @ ?rest @ post"
    by (simp add: one)
  have c: "chunk ?n 2 ?d = to_be 2 ty" "chunk (?n + 2) 2 ?d = to_be 2 (of_nat (length v) :: u16)"
      "chunk (?n + 4) (length v) ?d = v"
    unfolding d by (simp_all add: chunk_append_skip chunk_0_append)
  have long: "?n + 4 \<le> length ?d" unfolding d by simp
  then have ty: "from_be [?d ! ?n, ?d ! (?n + 1)] = ty"
    using c(1) by (intro stun_be16_pair) auto
  have three: "?n + 3 = ?n + 2 + 1" by simp
  have "from_be [?d ! (?n + 2), ?d ! (?n + 3)] = (of_nat (length v) :: u16)"
    unfolding three using c(2) long by (intro stun_be16_pair) auto
  then have len: "unat (from_be [?d ! (?n + 2), ?d ! (?n + 3)] :: u16) = length v"
    using v by (simp only: unat_of_nat) simp
  have limit: "?n + length (concat (map (encode_one tid) (a # as)))
      = ?n + 4 + length v + padding (length v) + length ?rest"
    by (simp add: one)
  have attr: "attribute_decode ty v tid = Inr a"
    using attribute_roundtrip [of a tid] Cons.prems(1,2) e by simp
  have step: "decode_attributes ?d tid ?n (?n + length (concat (map (encode_one tid) (a # as)))) acc
      = decode_attributes ?d tid (?n + 4 + length v + padding (length v))
          (?n + 4 + length v + padding (length v) + length ?rest) (acc @ [a])"
    unfolding limit
    by (subst decode_attributes.simps) (simp only: Let_def ty len c(3) attr, simp)
  have eq: "?d = (pre @ encode_one tid a) @ ?rest @ post"
      "?n + 4 + length v + padding (length v) = length (pre @ encode_one tid a)"
    by (simp_all add: one)
  have "decode_attributes ((pre @ encode_one tid a) @ ?rest @ post) tid (length (pre @ encode_one tid a))
      (length (pre @ encode_one tid a) + length ?rest) (acc @ [a]) = Inr ((acc @ [a]) @ as)"
    using Cons.prems by (intro Cons.IH) simp_all
  then have "decode_attributes ?d tid (?n + 4 + length v + padding (length v))
      (?n + 4 + length v + padding (length v) + length ?rest) (acc @ [a]) = Inr ((acc @ [a]) @ as)"
    unfolding eq .
  then show ?case unfolding step by (simp only: append.simps append_assoc)
qed

section \<open>Messages\<close>

definition attr_bytes :: "stun_message \<Rightarrow> bytes" where
  "attr_bytes m = concat (map (encode_one (sm_transaction_id m)) (sm_attributes m))"

definition wf_message :: "stun_message \<Rightarrow> bool" where
  "wf_message m \<longleftrightarrow>
     length (sm_transaction_id m) = 12 \<and> unat (sm_type m) < 0x4000
     \<and> (\<forall>a \<in> set (sm_attributes m). wf_attribute a) \<and> length (attr_bytes m) < 65536"

lemma encode_bytes:
  "fst (stun_encode m) = to_be 2 (sm_type m) @ to_be 2 (of_nat (length (attr_bytes m)) :: u16)
     @ MAGIC_COOKIE_BYTES @ sm_transaction_id m @ attr_bytes m"
  by (simp add: stun_encode_def attr_bytes_def Let_def)

lemma cookie_bytes: "to_be 4 MAGIC_COOKIE = MAGIC_COOKIE_BYTES"
proof -
  have "from_be MAGIC_COOKIE_BYTES = MAGIC_COOKIE"
    by (simp add: MAGIC_COOKIE_BYTES_def MAGIC_COOKIE_def from_be_def nat_of_be_def)
  then show ?thesis using be32.enc_dec [of MAGIC_COOKIE_BYTES] by (simp add: MAGIC_COOKIE_BYTES_def)
qed

lemma type_byte:
  assumes "unat (ty :: u16) < 0x4000"
  shows "to_be 2 ty ! 0 AND 0xC0 = 0"
proof -
  let ?b = "to_be 2 ty ! 0"
  have "to_be 2 ty = be_of_nat (Suc (Suc 0)) (unat ty)" by (simp add: to_be_def numeral_2_eq_2)
  then have "unat ?b = unat ty div 256 mod 256" by (simp add: unat_of_nat_u8)
  moreover have "unat ty div 256 < 64" using assms by (simp add: less_mult_imp_div_less)
  ultimately have small: "unat ?b < 64" by simp
  have "unat (take_bit 6 ?b) = take_bit 6 (unat ?b)" by (rule unsigned_take_bit_eq)
  also have "\<dots> = unat ?b" using small by (simp add: take_bit_eq_mod)
  finally have "unat (take_bit 6 ?b) = unat ?b" .
  then have "?b = take_bit 6 ?b" by (simp add: word_unat_eq_iff)
  also have "\<dots> = ?b AND 0x3F" by (simp add: take_bit_eq_mask mask_eq_exp_minus_1)
  finally have "?b AND 0xC0 = (?b AND 0x3F) AND 0xC0" by (rule arg_cong)
  also have "\<dots> = 0" unfolding and.assoc by simp
  finally show ?thesis .
qed

lemma length_cookie [simp]: "length MAGIC_COOKIE_BYTES = 4"
  by (simp add: MAGIC_COOKIE_BYTES_def)

lemma length_two: "length xs = 2 \<Longrightarrow> \<exists>x y. xs = [x, y]"
  by (auto simp: length_Suc_conv numeral_2_eq_2)

lemma stun_decode_encode:
  assumes "wf_message m"
  shows "stun_decode (fst (stun_encode m)) = Inr (m\<lparr>sm_raw := fst (stun_encode m)\<rparr>)"
proof -
  let ?d = "fst (stun_encode m)" and ?n = "length (attr_bytes m)"
  have w: "length (sm_transaction_id m) = 12" "unat (sm_type m) < 0x4000"
      "\<forall>a \<in> set (sm_attributes m). wf_attribute a" "?n < 65536"
    using assms by (simp_all add: wf_message_def)
  have len: "length ?d = 20 + ?n" using w(1) by (simp add: encode_bytes MAGIC_COOKIE_BYTES_def)
  have c: "chunk 0 2 ?d = to_be 2 (sm_type m)" "chunk 2 2 ?d = to_be 2 (of_nat ?n :: u16)"
      "chunk 4 4 ?d = to_be 4 MAGIC_COOKIE" "chunk 8 12 ?d = sm_transaction_id m"
    using w(1) by (simp_all add: encode_bytes chunk_append_skip chunk_0_append cookie_bytes)
  have ty: "from_be [?d ! 0, ?d ! 1] = sm_type m"
    using stun_be16_pair [of 0 ?d] c(1) len by simp
  have "from_be [?d ! 2, ?d ! 3] = (of_nat ?n :: u16)"
    using stun_be16_pair [of 2 ?d] c(2) len by simp
  then have n: "unat (from_be [?d ! 2, ?d ! 3] :: u16) = ?n"
    using w(4) by (simp only: unat_of_nat) simp
  have cookie: "from_be [?d ! 4, ?d ! 5, ?d ! 6, ?d ! 7] = MAGIC_COOKIE"
  proof -
    have "[?d ! 4, ?d ! 5, ?d ! 6, ?d ! 7] = chunk 4 4 ?d" using chunk_four [of 4 ?d] len by simp
    then show ?thesis by (simp only: c(3) be32.dec_enc)
  qed
  have zero: "?d ! 0 AND 0xC0 = 0"
    using type_byte [OF w(2)] by (simp add: encode_bytes nth_append)
  let ?pre = "to_be 2 (sm_type m) @ to_be 2 (of_nat ?n :: u16) @ MAGIC_COOKIE_BYTES @ sm_transaction_id m"
  have pre: "length ?pre = 20" using w(1) by (simp add: MAGIC_COOKIE_BYTES_def)
  have "decode_attributes (?pre @ attr_bytes m @ []) (sm_transaction_id m) (length ?pre)
      (length ?pre + ?n) [] = Inr ([] @ sm_attributes m)"
    unfolding attr_bytes_def using w by (intro decode_attributes_concat) (simp_all add: attr_bytes_def)
  then have "decode_attributes ?d (sm_transaction_id m) 20 (20 + ?n) [] = Inr (sm_attributes m)"
    unfolding pre by (simp add: encode_bytes)
  then show ?thesis
    using len zero ty n cookie c(4)
    by (simp add: stun_decode_def STUN_HEADER_SIZE_def Let_def)
qed

text \<open>Appending the fingerprint is encoding the message with it as one more attribute.\<close>

lemma update_pair:
  "k + 2 \<le> length pre + 2 \<Longrightarrow> length pre = k \<Longrightarrow> length nw = 2
    \<Longrightarrow> (pre @ [a, b] @ post)[k := nw ! 0, k + 1 := nw ! 1] = pre @ nw @ post"
proof -
  assume "length pre = k" "length nw = 2"
  moreover from this obtain x y where "nw = [x, y]"
    using length_two by blast
  ultimately show ?thesis by (simp add: list_update_append)
qed

lemma fingerprint_encode:
  assumes "length (sm_transaction_id m) = 12" and "length (attr_bytes m) + 8 < 65536"
  defines "fp \<equiv> compute_fingerprint (fst (stun_encode m))"
  shows "fst (encode_with_fingerprint m) = fst (stun_encode (add_attribute m (Fingerprint fp)))"
proof -
  let ?n = "length (attr_bytes m)" and ?d = "fst (stun_encode m)"
  let ?m = "add_attribute m (Fingerprint fp)"
  have attr: "attr_bytes ?m = attr_bytes m @ to_be 2 ATTR_FINGERPRINT @ to_be 2 (4 :: u16) @ to_be 4 fp"
    by (simp add: attr_bytes_def add_attribute_def encode_one_def padding_def)
  let ?ext = "to_be 2 ATTR_FINGERPRINT @ to_be 2 (4 :: u16) @ to_be 4 fp"
  let ?b = "?d @ ?ext"
  have "chunk 2 2 ?b = to_be 2 (of_nat ?n :: u16)"
    by (simp add: encode_bytes chunk_append_skip chunk_0_append)
  moreover have "2 + 2 \<le> length ?b" using assms(1) by (simp add: encode_bytes)
  ultimately have "from_be [?b ! 2, ?b ! 3] = (of_nat ?n :: u16)"
    using stun_be16_pair [of 2 ?b] by simp
  then have new: "from_be [?b ! 2, ?b ! 3] + 8 = (of_nat (?n + 8) :: u16)" by simp
  have n: "length (attr_bytes ?m) = ?n + 8" by (simp add: attr)
  obtain x y where xy: "to_be 2 (of_nat ?n :: u16) = [x, y]"
    using length_two [OF length_to_be] by blast
  have "?b = to_be 2 (sm_type m) @ [x, y] @ (MAGIC_COOKIE_BYTES @ sm_transaction_id m @ attr_bytes m @ ?ext)"
    by (simp add: encode_bytes xy)
  then have "?b[2 := to_be 2 (of_nat (?n + 8) :: u16) ! 0, 3 := to_be 2 (of_nat (?n + 8) :: u16) ! 1]
      = to_be 2 (sm_type m) @ to_be 2 (of_nat (?n + 8) :: u16)
        @ MAGIC_COOKIE_BYTES @ sm_transaction_id m @ attr_bytes m @ ?ext"
    using update_pair [of 2 "to_be 2 (sm_type m)" "to_be 2 (of_nat (?n + 8) :: u16)" x y] by simp
  also have "\<dots> = fst (stun_encode ?m)"
    unfolding encode_bytes n attr by (simp add: add_attribute_def)
  finally show ?thesis
    unfolding encode_with_fingerprint_def Let_def fp_def [symmetric] new by simp
qed

lemma fingerprint_verifies:
  assumes "length (sm_transaction_id m) = 12" and "length (attr_bytes m) + 8 < 65536"
    and "sm_raw r = fst (encode_with_fingerprint m)"
  shows "verify_fingerprint r"
proof -
  let ?n = "length (attr_bytes m)" and ?d = "fst (stun_encode m)"
  define fp where "fp = compute_fingerprint ?d"
  let ?tail = "to_be 2 ATTR_FINGERPRINT @ to_be 2 (4 :: u16) @ to_be 4 fp"
  let ?head = "to_be 2 (sm_type m) @ to_be 2 (of_nat (?n + 8) :: u16)
      @ MAGIC_COOKIE_BYTES @ sm_transaction_id m @ attr_bytes m"
  have attr: "attr_bytes (add_attribute m (Fingerprint fp)) = attr_bytes m @ ?tail"
    by (simp add: attr_bytes_def add_attribute_def encode_one_def padding_def)
  have raw: "sm_raw r = ?head @ ?tail"
    using fingerprint_encode [OF assms(1,2)] assms(3)
    unfolding fp_def [symmetric] encode_bytes [of "add_attribute m (Fingerprint fp)"] attr
    by (simp add: add_attribute_def)
  have head: "length ?head = 20 + ?n" using assms(1) by simp
  let ?r = "?head @ ?tail" and ?s = "20 + ?n"
  have start: "length ?r - 8 = ?s" "\<not> length ?r < 8" using head by simp_all
  have "chunk ?s 2 ?r = to_be 2 ATTR_FINGERPRINT" "chunk (?s + 4) 4 ?r = to_be 4 fp"
    using head by (simp_all add: chunk_append_skip chunk_0_append chunk_all)
  moreover have "?s + 8 = length ?r" using head by simp
  ultimately have ty: "from_be [?r ! ?s, ?r ! (?s + 1)] = ATTR_FINGERPRINT"
    and stored: "from_be [?r ! (?s + 4), ?r ! (?s + 5), ?r ! (?s + 6), ?r ! (?s + 7)] = fp"
  proof -
    assume c: "chunk ?s 2 ?r = to_be 2 ATTR_FINGERPRINT" "chunk (?s + 4) 4 ?r = to_be 4 fp"
      and l: "?s + 8 = length ?r"
    show "from_be [?r ! ?s, ?r ! (?s + 1)] = ATTR_FINGERPRINT"
      using c(1) l by (intro stun_be16_pair) auto
    have "chunk (?s + 4) 4 ?r = [?r ! (?s + 4), ?r ! (?s + 4 + 1), ?r ! (?s + 4 + 2), ?r ! (?s + 4 + 3)]"
      using l by (intro chunk_four) auto
    also have "\<dots> = [?r ! (?s + 4), ?r ! (?s + 5), ?r ! (?s + 6), ?r ! (?s + 7)]"
      by (simp only: add.assoc) simp
    finally show "from_be [?r ! (?s + 4), ?r ! (?s + 5), ?r ! (?s + 6), ?r ! (?s + 7)] = fp"
      by (metis c(2) be32.dec_enc)
  qed
  have buf: "take ?s ?r = ?head" using head by simp
  have "chunk 2 2 ?head = to_be 2 (of_nat (?n + 8) :: u16)"
    by (simp add: chunk_append_skip chunk_0_append)
  then have len: "from_be [?head ! 2, ?head ! 3] = (of_nat (?n + 8) :: u16)"
    using stun_be16_pair [of 2 ?head] head by simp
  have "unat (of_nat (?n + 8) :: u16) = ?n + 8" using assms(2) by (simp only: unat_of_nat) simp
  then have big: "\<not> (of_nat (?n + 8) :: u16) < 8" by (simp add: word_less_nat_alt)
  have sub: "of_nat (?n + 8) - 8 = (of_nat ?n :: u16)" by simp
  obtain x y where xy: "to_be 2 (of_nat (?n + 8) :: u16) = [x, y]"
    using length_two [OF length_to_be] by blast
  have "?head[2 := to_be 2 (of_nat ?n :: u16) ! 0, 3 := to_be 2 (of_nat ?n :: u16) ! 1] = ?d"
    using update_pair [of 2 "to_be 2 (sm_type m)" "to_be 2 (of_nat ?n :: u16)" x y
        "MAGIC_COOKIE_BYTES @ sm_transaction_id m @ attr_bytes m"]
    unfolding xy [symmetric] by (simp add: encode_bytes xy)
  then show ?thesis
    unfolding verify_fingerprint_def Let_def raw start(1) buf len sub stored ty
    using start(2) big by (simp only: fp_def if_False) simp
qed

text \<open>
  A STUN message whose attributes are well formed and fit decodes from its encoding to itself,
  and with a fingerprint appended to itself with the fingerprint of its bytes as the last
  attribute, which verifies.
\<close>
theorem stun_messages_survive:
  assumes "wf_message m"
  shows "stun_decode (fst (stun_encode m)) = Inr (m\<lparr>sm_raw := fst (stun_encode m)\<rparr>)
    \<and> (length (attr_bytes m) + 8 < 65536 \<longrightarrow>
        (\<exists>r. stun_decode (fst (encode_with_fingerprint m)) = Inr r
           \<and> sm_type r = sm_type m \<and> sm_transaction_id r = sm_transaction_id m
           \<and> sm_attributes r = sm_attributes m @ [Fingerprint (compute_fingerprint (fst (stun_encode m)))]
           \<and> verify_fingerprint r))"
proof (intro conjI impI)
  show "stun_decode (fst (stun_encode m)) = Inr (m\<lparr>sm_raw := fst (stun_encode m)\<rparr>)"
    using assms by (rule stun_decode_encode)
  assume n: "length (attr_bytes m) + 8 < 65536"
  let ?m = "add_attribute m (Fingerprint (compute_fingerprint (fst (stun_encode m))))"
  have tid: "length (sm_transaction_id m) = 12" using assms by (simp add: wf_message_def)
  have enc: "fst (encode_with_fingerprint m) = fst (stun_encode ?m)"
    using tid n by (rule fingerprint_encode)
  have "wf_message ?m"
    using assms n by (simp add: wf_message_def add_attribute_def attr_bytes_def wf_attribute_def
        encode_one_def padding_def)
  then have "stun_decode (fst (encode_with_fingerprint m)) = Inr (?m\<lparr>sm_raw := fst (stun_encode ?m)\<rparr>)"
    unfolding enc by (rule stun_decode_encode)
  moreover have "verify_fingerprint (?m\<lparr>sm_raw := fst (stun_encode ?m)\<rparr>)"
    using tid n by (rule fingerprint_verifies) (simp add: enc)
  ultimately show "\<exists>r. stun_decode (fst (encode_with_fingerprint m)) = Inr r
      \<and> sm_type r = sm_type m \<and> sm_transaction_id r = sm_transaction_id m
      \<and> sm_attributes r = sm_attributes m @ [Fingerprint (compute_fingerprint (fst (stun_encode m)))]
      \<and> verify_fingerprint r"
    by (simp add: add_attribute_def)
qed

end
