(* ===== verification/Nat_Witnesses.thy ===== *)
theory Nat_Witnesses
  imports Punch_Packet Stun_Props Wg_Witnesses
begin

text \<open>The properties of hole-punch packets and STUN messages at concrete inputs.\<close>

definition w_punch :: parsed_punch where
  "w_punch = \<lparr>pa_kind = Ack, pa_nonce = replicate 8 7, pa_generation = 3, pa_use_candidate = True,
              pa_source = [97], pa_target = [98]\<rparr>"

theorem punch_accepts_only_sealed_frames_witness:
  "\<exists>data d. decode_authenticated_punch_packet toy data [1] = Some d \<and> pu_nonce d = replicate 8 7"
proof -
  let ?f = "punch_frame (flag_bytes True w_punch) w_punch"
  have "wf_punch True w_punch"
    by (simp add: wf_punch_def w_punch_def cont_ranges_def)
  then have "decode_authenticated_punch_packet toy (?f @ punch_v2_mac toy ?f [1]) [1]
      = Some \<lparr>pu_kind = Ack, pu_nonce = replicate 8 7, pu_version = AUTH_PUNCH_VERSION,
          pu_source = Some [97], pu_target = Some [98], pu_generation = Some 3,
          pu_use_candidate = True, pu_authenticated = True\<rparr>"
    unfolding punch_accepts_only_sealed_frames [OF toy_ok] by (force simp: w_punch_def)
  then show ?thesis by force
qed

definition w_stun :: stun_message where
  "w_stun = add_attribute (with_transaction_id BINDING_REQUEST (replicate 12 7))
              (XorMappedAddress (SocketV4 0xC0000201 4000))"

theorem stun_messages_survive_witness:
  "stun_decode (fst (stun_encode w_stun)) = Inr (w_stun\<lparr>sm_raw := fst (stun_encode w_stun)\<rparr>)
   \<and> (\<exists>r. stun_decode (fst (encode_with_fingerprint w_stun)) = Inr r
           \<and> sm_type r = sm_type w_stun \<and> sm_transaction_id r = sm_transaction_id w_stun
           \<and> sm_attributes r = sm_attributes w_stun
               @ [Fingerprint (compute_fingerprint (fst (stun_encode w_stun)))]
           \<and> verify_fingerprint r)"
proof -
  have wf: "wf_message w_stun" and len: "length (attr_bytes w_stun) + 8 < 65536"
    by (simp_all add: wf_message_def w_stun_def add_attribute_def with_transaction_id_def
        attr_bytes_def wf_attribute_def encode_one_def padding_def plain_addr_def BINDING_REQUEST_def)
  show ?thesis using stun_messages_survive [OF wf] len by blast
qed

end
