(* ===== verification/Punch_Dedup.thy ===== *)
theory Punch_Dedup
  imports Prelude
begin

text \<open>
  The scheduler of punch sessions (\<open>client/daemon/src/lib/punch_dedup.rs\<close>): one active record per
  peer, permits that own it, and cancellation objects shared between the record and its permits.
  A cancellation object is an index into a store, so that sharing is explicit; the mutex makes
  every operation one step. The wall clock is an argument.
\<close>

section \<open>Data\<close>

text \<open>\<open>FreshPredictionId\<close> of \<open>client/daemon/src/lib.rs\<close>, ordered by incarnation, then generation.\<close>

datatype fresh_prediction_id =
  FreshPredictionId (fp_boot_epoch: u64) (fp_generation: u64)

instantiation fresh_prediction_id :: linorder
begin

definition less_eq_fresh_prediction_id :: "fresh_prediction_id \<Rightarrow> fresh_prediction_id \<Rightarrow> bool" where
  "less_eq_fresh_prediction_id a b \<longleftrightarrow> fp_boot_epoch a < fp_boot_epoch b
     \<or> fp_boot_epoch a = fp_boot_epoch b \<and> fp_generation a \<le> fp_generation b"

definition less_fresh_prediction_id :: "fresh_prediction_id \<Rightarrow> fresh_prediction_id \<Rightarrow> bool" where
  "less_fresh_prediction_id a b \<longleftrightarrow> fp_boot_epoch a < fp_boot_epoch b
     \<or> fp_boot_epoch a = fp_boot_epoch b \<and> fp_generation a < fp_generation b"

instance
  by standard (auto simp: less_eq_fresh_prediction_id_def less_fresh_prediction_id_def
      fresh_prediction_id.expand)

end

datatype punch_cancellation_reason =
    PeerLifecycle
  | NetworkGenerationChanged
  | RecoveryEpochChanged
  | SynchronizedPreemptedBackground
  | FreshPredictionPreempted

record punch_cancellation =
  pc_cancelled :: bool
  pc_reason :: "punch_cancellation_reason option"

record punch_attempt =
  pr_session_id :: u64
  pr_peer_session :: u64
  pr_priority :: u8
  pr_epoch :: u64
  pr_fresh :: "fresh_prediction_id option"
  pr_network :: u64
  pr_punch_at_ms :: "u64 option"
  pr_first_send_ms :: "u64 option"
  pr_owner_count :: u64
  pr_cell :: nat

record punch_dedup =
  pd_next :: u64
  pd_active :: "string \<Rightarrow> punch_attempt option"
  pd_retired :: "string \<Rightarrow> u64 option"
  pd_cells :: "punch_cancellation list"

record punch_permit =
  pp_peer :: string
  pp_session :: u64
  pp_cell :: nat

datatype claim_deferred_reason =
    SameEpochActive
  | LowerPriorityActive
  | SameOrOlderFreshPrediction
  | RendezvousLeadProtected
  | FirstSendProtected

record deferred_claim =
  df_session_id :: u64
  df_epoch :: u64
  df_network :: u64
  df_punch_at_ms :: "u64 option"
  df_reason :: claim_deferred_reason

datatype punch_claim =
    Claimed punch_permit
  | Deferred deferred_claim
  | RejectedStalePeerSession

definition PUNCH_PRIORITY_BACKGROUND :: u8 where
  "PUNCH_PRIORITY_BACKGROUND = 0"

definition PUNCH_PRIORITY_SYNCHRONIZED :: u8 where
  "PUNCH_PRIORITY_SYNCHRONIZED = 1"

definition PUNCH_PRIORITY_FRESH_PREDICTION :: u8 where
  "PUNCH_PRIORITY_FRESH_PREDICTION = 2"

definition RELAY_ASSISTED_PUNCH_LEAD_MS :: u64 where
  "RELAY_ASSISTED_PUNCH_LEAD_MS = 250"

definition punch_dedup_new :: punch_dedup where
  "punch_dedup_new = \<lparr>pd_next = 0, pd_active = Map.empty, pd_retired = Map.empty, pd_cells = []\<rparr>"

section \<open>Cancellation objects\<close>

text \<open>The first reason is kept.\<close>

definition cancel_with_reason :: "punch_cancellation_reason \<Rightarrow> punch_cancellation \<Rightarrow> punch_cancellation" where
  "cancel_with_reason reason c =
     \<lparr>pc_cancelled = True,
      pc_reason = (case pc_reason c of None \<Rightarrow> Some reason | Some r \<Rightarrow> Some r)\<rparr>"

definition cancel_cell :: "nat \<Rightarrow> punch_cancellation_reason \<Rightarrow> punch_dedup \<Rightarrow> punch_dedup" where
  "cancel_cell i reason d =
     d\<lparr>pd_cells := (pd_cells d)[i := cancel_with_reason reason (pd_cells d ! i)]\<rparr>"

definition permit_is_cancelled :: "punch_dedup \<Rightarrow> punch_permit \<Rightarrow> bool" where
  "permit_is_cancelled d k = pc_cancelled (pd_cells d ! pp_cell k)"

definition cancellation_reason :: "punch_dedup \<Rightarrow> punch_permit \<Rightarrow> punch_cancellation_reason option" where
  "cancellation_reason d k = pc_reason (pd_cells d ! pp_cell k)"

definition cancel_for_hard_hard_cleanup :: "punch_permit \<Rightarrow> punch_dedup \<Rightarrow> punch_dedup" where
  "cancel_for_hard_hard_cleanup k d = cancel_cell (pp_cell k) PeerLifecycle d"

section \<open>Claiming a session\<close>

definition first_send_is_protected :: "punch_attempt \<Rightarrow> u64 \<Rightarrow> bool" where
  "first_send_is_protected r now =
     (let guard = RELAY_ASSISTED_PUNCH_LEAD_MS in
      case pr_first_send_ms r of
        Some started \<Rightarrow> sat_sub now started \<le> guard
      | None \<Rightarrow>
          (case pr_punch_at_ms r of
             None \<Rightarrow> False
           | Some at \<Rightarrow> sat_sub at guard \<le> now \<and> now \<le> sat_add at guard))"

definition deferred_claim_of :: "punch_attempt \<Rightarrow> claim_deferred_reason \<Rightarrow> punch_claim" where
  "deferred_claim_of r reason =
     Deferred \<lparr>df_session_id = pr_session_id r, df_epoch = pr_epoch r, df_network = pr_network r,
               df_punch_at_ms = pr_punch_at_ms r, df_reason = reason\<rparr>"

text \<open>The new record, its cancellation object and the permit that owns it.\<close>

definition install_session ::
  "punch_dedup \<Rightarrow> string \<Rightarrow> u64 \<Rightarrow> u64 \<Rightarrow> u64 \<Rightarrow> u8 \<Rightarrow> fresh_prediction_id option \<Rightarrow> u64 option
    \<Rightarrow> punch_claim \<times> punch_dedup" where
  "install_session d peer sess network epoch priority fresh punch_at =
     (let next = max (pd_next d + 1) 1;
          cell = length (pd_cells d);
          r = \<lparr>pr_session_id = next, pr_peer_session = sess, pr_priority = priority,
               pr_epoch = epoch, pr_fresh = fresh, pr_network = network,
               pr_punch_at_ms = punch_at, pr_first_send_ms = None, pr_owner_count = 1,
               pr_cell = cell\<rparr>
      in (Claimed \<lparr>pp_peer = peer, pp_session = next, pp_cell = cell\<rparr>,
          d\<lparr>pd_next := next, pd_active := (pd_active d)(peer \<mapsto> r),
            pd_cells := pd_cells d @ [\<lparr>pc_cancelled = False, pc_reason = None\<rparr>]\<rparr>))"

definition lifecycle_preempts :: "punch_attempt \<Rightarrow> u64 \<Rightarrow> bool" where
  "lifecycle_preempts r sess \<longleftrightarrow> pr_peer_session r < sess"

definition generation_preempts :: "punch_attempt \<Rightarrow> u64 \<Rightarrow> bool" where
  "generation_preempts r network \<longleftrightarrow> pr_network r \<noteq> 0 \<and> network \<noteq> 0 \<and> pr_network r \<noteq> network"

definition epoch_preempts :: "punch_attempt \<Rightarrow> u64 \<Rightarrow> bool" where
  "epoch_preempts r epoch \<longleftrightarrow> pr_epoch r \<noteq> 0 \<and> epoch \<noteq> 0 \<and> pr_epoch r \<noteq> epoch"

definition newer_fresh_preempts :: "punch_attempt \<Rightarrow> u8 \<Rightarrow> fresh_prediction_id option \<Rightarrow> bool" where
  "newer_fresh_preempts r priority fresh \<longleftrightarrow>
     pr_priority r = priority \<and> priority = PUNCH_PRIORITY_FRESH_PREDICTION
     \<and> (case (pr_fresh r, fresh) of (Some active, Some i) \<Rightarrow> active < i | _ \<Rightarrow> False)"

definition not_preempted_reason :: "punch_attempt \<Rightarrow> u8 \<Rightarrow> claim_deferred_reason" where
  "not_preempted_reason r priority =
     (if priority < pr_priority r then LowerPriorityActive
      else if priority = PUNCH_PRIORITY_FRESH_PREDICTION then SameOrOlderFreshPrediction
      else SameEpochActive)"

definition preemption_reason :: "punch_attempt \<Rightarrow> u64 \<Rightarrow> u64 \<Rightarrow> u64 \<Rightarrow> u8 \<Rightarrow> punch_cancellation_reason" where
  "preemption_reason r sess network epoch priority =
     (if lifecycle_preempts r sess then PeerLifecycle
      else if generation_preempts r network then NetworkGenerationChanged
      else if epoch_preempts r epoch then RecoveryEpochChanged
      else if priority = PUNCH_PRIORITY_FRESH_PREDICTION then FreshPredictionPreempted
      else SynchronizedPreemptedBackground)"

definition claim_with_rendezvous ::
  "punch_dedup \<Rightarrow> u64 \<Rightarrow> string \<Rightarrow> u64 \<Rightarrow> u64 \<Rightarrow> u64 \<Rightarrow> u8 \<Rightarrow> fresh_prediction_id option
    \<Rightarrow> u64 option \<Rightarrow> punch_claim \<times> punch_dedup" where
  "claim_with_rendezvous d now peer sess network epoch priority fresh punch_at =
     (if (case pd_retired d peer of Some retired \<Rightarrow> sess \<le> retired | None \<Rightarrow> False)
      then (RejectedStalePeerSession, d)
      else
        (case pd_active d peer of
           None \<Rightarrow> install_session d peer sess network epoch priority fresh punch_at
         | Some r \<Rightarrow>
             (if sess < pr_peer_session r then (RejectedStalePeerSession, d)
              else if \<not> (lifecycle_preempts r sess \<or> generation_preempts r network
                          \<or> epoch_preempts r epoch \<or> pr_priority r < priority
                          \<or> newer_fresh_preempts r priority fresh)
              then (deferred_claim_of r (not_preempted_reason r priority), d)
              else if \<not> lifecycle_preempts r sess \<and> \<not> generation_preempts r network
                      \<and> first_send_is_protected r now
              then (deferred_claim_of r
                      (if pr_first_send_ms r \<noteq> None then FirstSendProtected
                       else RendezvousLeadProtected), d)
              else install_session
                     (cancel_cell (pr_cell r) (preemption_reason r sess network epoch priority) d)
                     peer sess network epoch priority fresh punch_at)))"

definition claim_with_priority ::
  "punch_dedup \<Rightarrow> u64 \<Rightarrow> string \<Rightarrow> u64 \<Rightarrow> u64 \<Rightarrow> u8 \<Rightarrow> fresh_prediction_id option
    \<Rightarrow> punch_permit option \<times> punch_dedup" where
  "claim_with_priority d now peer sess epoch priority fresh =
     (case claim_with_rendezvous d now peer sess 0 epoch priority fresh None of
        (Claimed k, d') \<Rightarrow> (Some k, d')
      | (_, d') \<Rightarrow> (None, d'))"

section \<open>The owners of a session\<close>

definition mark_first_send_started :: "punch_dedup \<Rightarrow> u64 \<Rightarrow> string \<Rightarrow> u64 \<Rightarrow> u64 \<times> punch_dedup" where
  "mark_first_send_started d now peer session =
     (case pd_active d peer of
        None \<Rightarrow> (now, d)
      | Some r \<Rightarrow>
          if pr_session_id r = session
          then (case pr_first_send_ms r of
                  Some started \<Rightarrow> (started, d)
                | None \<Rightarrow>
                    (now, d\<lparr>pd_active := (pd_active d)(peer \<mapsto> r\<lparr>pr_first_send_ms := Some now\<rparr>)\<rparr>))
          else (now, d))"

definition release :: "punch_dedup \<Rightarrow> string \<Rightarrow> u64 \<Rightarrow> punch_dedup" where
  "release d peer session =
     (case pd_active d peer of
        None \<Rightarrow> d
      | Some r \<Rightarrow>
          if pr_session_id r = session
          then let owners = sat_sub (pr_owner_count r) 1 in
               (if owners = 0 then d\<lparr>pd_active := (pd_active d)(peer := None)\<rparr>
                else d\<lparr>pd_active := (pd_active d)(peer \<mapsto> r\<lparr>pr_owner_count := owners\<rparr>)\<rparr>)
          else d)"

definition retain :: "punch_dedup \<Rightarrow> string \<Rightarrow> u64 \<Rightarrow> punch_dedup" where
  "retain d peer session =
     (case pd_active d peer of
        None \<Rightarrow> d
      | Some r \<Rightarrow>
          if pr_session_id r = session
          then d\<lparr>pd_active := (pd_active d)(peer \<mapsto> r\<lparr>pr_owner_count := sat_add (pr_owner_count r) 1\<rparr>)\<rparr>
          else d)"

definition clone_for_cleanup :: "punch_dedup \<Rightarrow> punch_permit \<Rightarrow> punch_permit \<times> punch_dedup" where
  "clone_for_cleanup d k = (k, retain d (pp_peer k) (pp_session k))"

definition drop_permit :: "punch_dedup \<Rightarrow> punch_permit \<Rightarrow> punch_dedup" where
  "drop_permit d k = release d (pp_peer k) (pp_session k)"

text \<open>
  The guarded claims ask the peer manager whether the lifecycle is current, before and after;
  its answers are \<open>before\<close> and \<open>after\<close>. A permit that came too late is dropped.
\<close>

definition claim_for_epoch_for_peer_session ::
  "bool \<Rightarrow> bool \<Rightarrow> punch_dedup \<Rightarrow> u64 \<Rightarrow> string \<Rightarrow> u64 \<Rightarrow> u64 \<Rightarrow> u8 \<Rightarrow> fresh_prediction_id option
    \<Rightarrow> punch_permit option \<times> punch_dedup" where
  "claim_for_epoch_for_peer_session before after d now peer sess epoch priority fresh =
     (if \<not> before then (None, d)
      else (case claim_with_priority d now peer sess epoch priority fresh of
              (None, d') \<Rightarrow> (None, d')
            | (Some k, d') \<Rightarrow> if after then (Some k, d') else (None, drop_permit d' k)))"

definition claim_for_epoch_with_rendezvous_for_peer_session ::
  "bool \<Rightarrow> bool \<Rightarrow> punch_dedup \<Rightarrow> u64 \<Rightarrow> string \<Rightarrow> u64 \<Rightarrow> u64 \<Rightarrow> u64 \<Rightarrow> u8
    \<Rightarrow> fresh_prediction_id option \<Rightarrow> u64 option \<Rightarrow> punch_claim option \<times> punch_dedup" where
  "claim_for_epoch_with_rendezvous_for_peer_session before after d now peer sess network epoch
       priority fresh punch_at =
     (if \<not> before then (None, d)
      else
        let (claim, d') = claim_with_rendezvous d now peer sess network epoch priority fresh punch_at
        in if \<not> after then (None, case claim of Claimed k \<Rightarrow> drop_permit d' k | _ \<Rightarrow> d')
           else (case claim of RejectedStalePeerSession \<Rightarrow> (None, d') | c \<Rightarrow> (Some c, d')))"

section \<open>Cancelling and retiring\<close>

definition punch_cancel :: "punch_dedup \<Rightarrow> string \<Rightarrow> punch_dedup" where
  "punch_cancel d peer =
     (case pd_active d peer of
        None \<Rightarrow> d
      | Some r \<Rightarrow> cancel_cell (pr_cell r) PeerLifecycle
                    (d\<lparr>pd_active := (pd_active d)(peer := None)\<rparr>))"

definition retire_peer_session :: "punch_dedup \<Rightarrow> string \<Rightarrow> u64 \<Rightarrow> punch_dedup" where
  "retire_peer_session d peer sess =
     (let d1 = d\<lparr>pd_retired := (pd_retired d)(peer \<mapsto>
                 (case pd_retired d peer of Some g \<Rightarrow> max g sess | None \<Rightarrow> sess))\<rparr>
      in case pd_active d1 peer of
           None \<Rightarrow> d1
         | Some r \<Rightarrow>
             if pr_peer_session r \<le> sess
             then cancel_cell (pr_cell r) PeerLifecycle
                    (d1\<lparr>pd_active := (pd_active d1)(peer := None)\<rparr>)
             else d1)"

section \<open>Running owned work\<close>

text \<open>
  The biased select of \<open>run_owned_punch_session_with_deadline\<close>: the three arms at a wake-up, the
  cancellation first.
\<close>

datatype punch_outcome = Completed | Cancelled | DeadlineExceeded

definition owned_session_outcome :: "bool \<Rightarrow> bool \<Rightarrow> bool \<Rightarrow> punch_outcome option" where
  "owned_session_outcome cancelled deadline_passed work_done =
     (if cancelled then Some Cancelled
      else if deadline_passed then Some DeadlineExceeded
      else if work_done then Some Completed
      else None)"

definition should_cancel_maintenance_offer :: "bool \<Rightarrow> bool \<Rightarrow> bool \<Rightarrow> bool \<Rightarrow> bool \<Rightarrow> bool" where
  "should_cancel_maintenance_offer is_rekey has_session needs_rekey expired has_pending_responder =
     (if has_pending_responder then True
      else if is_rekey then has_session \<and> \<not> needs_rekey \<and> \<not> expired
      else has_session)"

end
