(* ===== verification/Punch_Dedup_Props.thy ===== *)
theory Punch_Dedup_Props
  imports Punch_Dedup
begin

text \<open>
  The scheduler with the permits the tasks of the daemon hold: every sequence of operations keeps
  at most one live session per peer, counts its owners, and never revives a retired lifecycle.
\<close>

section \<open>The system\<close>

record punch_world =
  pw_dedup :: punch_dedup
  pw_permits :: "punch_permit list"

text \<open>
  What a task can do: claim in one of the two guarded ways, mark its first send, clone its permit
  for cleanup, drop it, cancel or retire a peer, cancel through a kept handle.
\<close>

datatype punch_op =
    ClaimRendezvous bool bool u64 string u64 u64 u64 u8 "fresh_prediction_id option" "u64 option"
  | ClaimEpoch bool bool u64 string u64 u64 u8 "fresh_prediction_id option"
  | MarkFirstSend nat u64
  | CloneForCleanup nat
  | DropPermit nat
  | CancelPeer string
  | RetirePeer string u64
  | CancelHandle nat punch_cancellation_reason

definition remove_nth :: "nat \<Rightarrow> 'a list \<Rightarrow> 'a list" where
  "remove_nth i xs = take i xs @ drop (Suc i) xs"

fun punch_do :: "punch_op \<Rightarrow> punch_world \<Rightarrow> punch_world" where
  "punch_do (ClaimRendezvous before after now peer sess network epoch priority fresh punch_at) w =
     (case claim_for_epoch_with_rendezvous_for_peer_session before after (pw_dedup w) now peer sess
             network epoch priority fresh punch_at of
        (Some (Claimed k), d) \<Rightarrow> \<lparr>pw_dedup = d, pw_permits = pw_permits w @ [k]\<rparr>
      | (_, d) \<Rightarrow> w\<lparr>pw_dedup := d\<rparr>)"
| "punch_do (ClaimEpoch before after now peer sess epoch priority fresh) w =
     (case claim_for_epoch_for_peer_session before after (pw_dedup w) now peer sess epoch priority
             fresh of
        (Some k, d) \<Rightarrow> \<lparr>pw_dedup = d, pw_permits = pw_permits w @ [k]\<rparr>
      | (None, d) \<Rightarrow> w\<lparr>pw_dedup := d\<rparr>)"
| "punch_do (MarkFirstSend i now) w =
     (if i < length (pw_permits w)
      then let k = pw_permits w ! i
           in w\<lparr>pw_dedup := snd (mark_first_send_started (pw_dedup w) now (pp_peer k) (pp_session k))\<rparr>
      else w)"
| "punch_do (CloneForCleanup i) w =
     (if i < length (pw_permits w)
      then let (k, d) = clone_for_cleanup (pw_dedup w) (pw_permits w ! i)
           in \<lparr>pw_dedup = d, pw_permits = pw_permits w @ [k]\<rparr>
      else w)"
| "punch_do (DropPermit i) w =
     (if i < length (pw_permits w)
      then \<lparr>pw_dedup = drop_permit (pw_dedup w) (pw_permits w ! i),
            pw_permits = remove_nth i (pw_permits w)\<rparr>
      else w)"
| "punch_do (CancelPeer peer) w = w\<lparr>pw_dedup := punch_cancel (pw_dedup w) peer\<rparr>"
| "punch_do (RetirePeer peer sess) w = w\<lparr>pw_dedup := retire_peer_session (pw_dedup w) peer sess\<rparr>"
| "punch_do (CancelHandle i reason) w = w\<lparr>pw_dedup := cancel_cell i reason (pw_dedup w)\<rparr>"

definition punch_ops :: "punch_op list \<Rightarrow> punch_world \<Rightarrow> punch_world" where
  "punch_ops ops w = fold punch_do ops w"

definition punch_start :: punch_world where
  "punch_start = \<lparr>pw_dedup = punch_dedup_new, pw_permits = []\<rparr>"

section \<open>The invariant\<close>

definition owners :: "punch_permit list \<Rightarrow> string \<Rightarrow> u64 \<Rightarrow> nat" where
  "owners ks p s = length (filter (\<lambda>k. pp_peer k = p \<and> pp_session k = s) ks)"

lemma owners_snoc [simp]:
  "owners (ks @ [k]) p s = owners ks p s + (if pp_peer k = p \<and> pp_session k = s then 1 else 0)"
  by (simp add: owners_def)

lemma owners_pos: "0 < owners ks p s \<longleftrightarrow> (\<exists>k \<in> set ks. pp_peer k = p \<and> pp_session k = s)"
  by (auto simp: owners_def filter_empty_conv)

lemma owners_le: "owners ks p s \<le> length ks"
  by (simp add: owners_def)

lemma remove_nth_split:
  assumes "i < length xs"
  shows "xs = take i xs @ xs ! i # drop (Suc i) xs"
  using assms by (simp add: id_take_nth_drop)

lemma set_remove_nth: "set (remove_nth i xs) \<subseteq> set xs"
  by (auto simp: remove_nth_def dest: in_set_takeD in_set_dropD)

lemma length_remove_nth: "length (remove_nth i xs) \<le> length xs"
  by (simp add: remove_nth_def)

lemma owners_remove_nth:
  assumes "i < length ks"
  shows "owners ks p s = owners (remove_nth i ks) p s
    + (if pp_peer (ks ! i) = p \<and> pp_session (ks ! i) = s then 1 else 0)"
  unfolding owners_def by (subst (1) remove_nth_split [OF assms]) (simp add: remove_nth_def)

text \<open>\<open>n\<close> bounds the ids given out and the permits; it is below the width of the counters.\<close>

definition permits_ok :: "punch_permit list \<Rightarrow> punch_dedup \<Rightarrow> bool" where
  "permits_ok ks d \<longleftrightarrow>
     (\<forall>k \<in> set ks. pp_session k \<le> pd_next d \<and> pp_cell k < length (pd_cells d))
     \<and> (\<forall>k \<in> set ks. \<forall>k' \<in> set ks.
          pp_session k = pp_session k' \<or> pp_cell k = pp_cell k' \<longrightarrow> k = k')"

definition record_ok :: "punch_permit list \<Rightarrow> punch_dedup \<Rightarrow> string \<Rightarrow> punch_attempt \<Rightarrow> bool" where
  "record_ok ks d p r \<longleftrightarrow>
     unat (pr_owner_count r) = owners ks p (pr_session_id r) \<and> 0 < owners ks p (pr_session_id r)
     \<and> (\<forall>k \<in> set ks. pp_session k = pr_session_id r \<longrightarrow> pp_cell k = pr_cell r)
     \<and> (\<forall>g. pd_retired d p = Some g \<longrightarrow> g < pr_peer_session r)"

definition punch_inv :: "nat \<Rightarrow> punch_permit list \<Rightarrow> punch_dedup \<Rightarrow> bool" where
  "punch_inv n ks d \<longleftrightarrow>
     unat (pd_next d) \<le> n \<and> length ks \<le> n \<and> permits_ok ks d
     \<and> (\<forall>p r. pd_active d p = Some r \<longrightarrow> record_ok ks d p r)
     \<and> (\<forall>k \<in> set ks. \<not> permit_is_cancelled d k \<longrightarrow>
          (\<exists>r. pd_active d (pp_peer k) = Some r \<and> pr_session_id r = pp_session k))"

lemma punch_inv_start: "punch_inv 0 [] punch_dedup_new"
  by (simp add: punch_inv_def permits_ok_def punch_dedup_new_def)

lemma punch_inv_mono: "punch_inv n ks d \<Longrightarrow> n \<le> m \<Longrightarrow> punch_inv m ks d"
  by (auto simp: punch_inv_def)

text \<open>Cancelling objects never breaks it.\<close>

lemma cancel_cell_simps [simp]:
  "pd_next (cancel_cell i reason d) = pd_next d" "pd_active (cancel_cell i reason d) = pd_active d"
  "pd_retired (cancel_cell i reason d) = pd_retired d"
  "length (pd_cells (cancel_cell i reason d)) = length (pd_cells d)"
  by (simp_all add: cancel_cell_def)

lemma cancel_cell_cancels:
  "i < length (pd_cells d) \<Longrightarrow> pc_cancelled (pd_cells (cancel_cell i reason d) ! i)"
  by (simp add: cancel_cell_def cancel_with_reason_def)

lemma cancel_cell_keeps:
  "pc_cancelled (pd_cells d ! j) \<Longrightarrow> pc_cancelled (pd_cells (cancel_cell i reason d) ! j)"
  by (cases "i < length (pd_cells d)")
    (simp_all add: cancel_cell_def cancel_with_reason_def nth_list_update list_update_beyond)

lemma punch_inv_cancel_cell: "punch_inv n ks d \<Longrightarrow> punch_inv n ks (cancel_cell i reason d)"
  unfolding punch_inv_def permits_ok_def record_ok_def permit_is_cancelled_def
  using cancel_cell_keeps [of d _ i reason] by simp blast

lemma record_permit:
  assumes "punch_inv n ks d" and "pd_active d p = Some r"
  shows "\<exists>k \<in> set ks. pp_peer k = p \<and> pp_session k = pr_session_id r \<and> pp_cell k = pr_cell r"
  using assms unfolding punch_inv_def record_ok_def owners_pos by metis

lemma record_cell:
  assumes "punch_inv n ks d" and "pd_active d p = Some r"
  shows "pr_cell r < length (pd_cells d)"
  using record_permit [OF assms] assms(1) unfolding punch_inv_def permits_ok_def by metis

text \<open>A cancelled record may be taken out.\<close>

lemma punch_inv_deactivate:
  assumes inv: "punch_inv n ks d" and r: "pd_active d p = Some r" and c: "pc_cancelled (pd_cells d ! pr_cell r)"
  shows "punch_inv n ks (d\<lparr>pd_active := (pd_active d)(p := None)\<rparr>)"
proof -
  have "permit_is_cancelled d k" if "k \<in> set ks" "pp_peer k = p" for k
  proof (rule ccontr)
    assume "\<not> permit_is_cancelled d k"
    then have "pp_session k = pr_session_id r"
      using inv r that unfolding punch_inv_def by auto
    then have "pp_cell k = pr_cell r"
      using inv r that unfolding punch_inv_def record_ok_def by auto
    then show False using c \<open>\<not> permit_is_cancelled d k\<close> by (simp add: permit_is_cancelled_def)
  qed
  then show ?thesis
    using inv unfolding punch_inv_def permits_ok_def record_ok_def permit_is_cancelled_def by simp
qed

text \<open>A new session: the peer has no record, or a cancelled one.\<close>

lemma next_session:
  assumes "unat (x :: u64) \<le> n" and "Suc n < 2 ^ 64"
  shows "max (x + 1) 1 = x + 1" and "unat (x + 1) = unat x + 1" and "x < x + 1"
proof -
  show u: "unat (x + 1) = unat x + 1" using assms by (simp add: unat_word_ariths)
  then show "x < x + 1" by (simp add: word_less_nat_alt)
  show "max (x + 1) 1 = x + 1" using u by (auto simp: max_def word_le_nat_alt unsigned_eq_0_iff)
qed

lemma punch_inv_install:
  assumes inv: "punch_inv n ks d" and n: "Suc n < 2 ^ 64"
    and live: "\<And>g. pd_retired d p = Some g \<Longrightarrow> g < sess"
    and old: "\<And>r. pd_active d p = Some r \<Longrightarrow> pc_cancelled (pd_cells d ! pr_cell r)"
    and i: "install_session d p sess network epoch priority fresh punch_at = (Claimed k, d')"
  shows "punch_inv (Suc n) (ks @ [k]) d'"
proof -
  have next1: "unat (pd_next d) \<le> n" and len: "length ks \<le> n" and perms: "permits_ok ks d"
    using inv by (simp_all add: punch_inv_def)
  note ns = next_session [OF next1 n]
  let ?s = "pd_next d + 1"
  have k: "k = \<lparr>pp_peer = p, pp_session = ?s, pp_cell = length (pd_cells d)\<rparr>"
    and d': "pd_next d' = ?s" "pd_cells d' = pd_cells d @ [\<lparr>pc_cancelled = False, pc_reason = None\<rparr>]"
      "pd_retired d' = pd_retired d"
      "pd_active d' = (pd_active d)(p \<mapsto> \<lparr>pr_session_id = ?s, pr_peer_session = sess, pr_priority = priority,
               pr_epoch = epoch, pr_fresh = fresh, pr_network = network,
               pr_punch_at_ms = punch_at, pr_first_send_ms = None, pr_owner_count = 1,
               pr_cell = length (pd_cells d)\<rparr>)"
    using i by (auto simp: install_session_def Let_def ns(1))
  have fresh: "pp_session j \<noteq> ?s" if "j \<in> set ks" for j
    using perms that ns(3) unfolding permits_ok_def by (metis leD)
  have none: "owners ks q ?s = 0" for q
    using fresh owners_pos [of ks q ?s] by auto
  have "permits_ok (ks @ [k]) d'"
    using perms ns(3) fresh unfolding permits_ok_def k by (auto simp: d' less_Suc_eq intro: order.trans less_imp_le)
  moreover have "record_ok (ks @ [k]) d' q r" if "pd_active d' q = Some r" for q r
  proof (cases "q = p")
    case True
    then show ?thesis
      using that none fresh live by (auto simp: record_ok_def d' k)
  next
    case False
    then have r: "pd_active d q = Some r" using that by (simp add: d')
    then have ok: "record_ok ks d q r" using inv by (simp add: punch_inv_def)
    have "pr_session_id r \<noteq> ?s"
      using record_permit [OF inv r] fresh by metis
    then show ?thesis using ok False by (auto simp: record_ok_def d' k)
  qed
  moreover have "\<exists>r. pd_active d' (pp_peer j) = Some r \<and> pr_session_id r = pp_session j"
    if j: "j \<in> set (ks @ [k])" and live': "\<not> permit_is_cancelled d' j" for j
  proof (cases "j = k")
    case True
    then show ?thesis by (simp add: d' k)
  next
    case False
    then have jk: "j \<in> set ks" using j by simp
    then have cell: "pp_cell j < length (pd_cells d)" using perms by (simp add: permits_ok_def)
    then have "\<not> permit_is_cancelled d j" using live' by (simp add: permit_is_cancelled_def d' nth_append)
    then obtain r where r: "pd_active d (pp_peer j) = Some r" "pr_session_id r = pp_session j"
      using inv jk unfolding punch_inv_def by blast
    have "pp_cell j = pr_cell r"
      using inv r jk unfolding punch_inv_def record_ok_def by auto
    then have "pp_peer j \<noteq> p"
      using old r \<open>\<not> permit_is_cancelled d j\<close> by (auto simp: permit_is_cancelled_def)
    then show ?thesis using r by (simp add: d')
  qed
  ultimately show ?thesis
    using len next1 by (simp add: punch_inv_def d'(1) ns(2))
qed

lemma cancel_inactive_cell:
  assumes "punch_inv n ks d" and "pd_active d p = Some r"
  shows "pc_cancelled (pd_cells (cancel_cell (pr_cell r) reason d) ! pr_cell r)"
  using cancel_cell_cancels record_cell [OF assms] by blast

lemma punch_inv_claim:
  assumes inv: "punch_inv n ks d" and n: "Suc n < 2 ^ 64"
    and c: "claim_with_rendezvous d now p sess network epoch priority fresh punch_at = (c, d')"
  shows "case c of Claimed k \<Rightarrow> punch_inv (Suc n) (ks @ [k]) d' | _ \<Rightarrow> d' = d"
proof (cases "pd_active d p")
  case None
  show ?thesis
  proof (cases "\<exists>g. pd_retired d p = Some g \<and> sess \<le> g")
    case True
    then show ?thesis using c by (auto simp: claim_with_rendezvous_def)
  next
    case False
    then have i: "install_session d p sess network epoch priority fresh punch_at = (c, d')"
      using c None by (auto simp: claim_with_rendezvous_def split: option.splits)
    then obtain k where k: "c = Claimed k" by (auto simp: install_session_def Let_def)
    have "g < sess" if "pd_retired d p = Some g" for g using False that by auto
    then show ?thesis
      using punch_inv_install [OF inv n _ _ i [unfolded k]] None by (simp add: k)
  qed
next
  case (Some r)
  note cell = cancel_inactive_cell [OF inv Some]
  show ?thesis
  proof (cases c)
    case (Claimed k)
    have free: "g < sess" if "pd_retired d p = Some g" for g
      using c that by (simp add: claim_with_rendezvous_def Claimed not_le [symmetric] split: if_splits)
    have i: "install_session (cancel_cell (pr_cell r) (preemption_reason r sess network epoch priority) d)
        p sess network epoch priority fresh punch_at = (Claimed k, d')"
      using c Some by (auto simp: claim_with_rendezvous_def Claimed deferred_claim_of_def split: option.splits if_splits)
    show ?thesis
      using punch_inv_install [OF punch_inv_cancel_cell [OF inv] n _ _ i] cell free Some
      by (auto simp: Claimed)
  qed (use c Some in \<open>auto simp: claim_with_rendezvous_def deferred_claim_of_def install_session_def Let_def
      split: option.splits if_splits\<close>)
qed

lemma punch_inv_retain:
  assumes inv: "punch_inv n ks d" and n: "Suc n < 2 ^ 64" and k: "k \<in> set ks"
  shows "punch_inv (Suc n) (ks @ [k]) (retain d (pp_peer k) (pp_session k))"
proof -
  have bound: "owners ks p s \<le> n" for p s
    using owners_le [of ks p s] inv by (simp add: punch_inv_def)
  have count: "unat (sat_add (pr_owner_count r) 1) = Suc (unat (pr_owner_count r))"
    if "record_ok ks d p r" for p r
    using that bound [of p "pr_session_id r"] n by (simp add: unat_sat_add record_ok_def)
  let ?d = "retain d (pp_peer k) (pp_session k)"
  have fields: "pd_next ?d = pd_next d" "pd_cells ?d = pd_cells d" "pd_retired ?d = pd_retired d"
    by (auto simp: retain_def split: option.splits)
  have act: "pd_active ?d p = (case pd_active d p of None \<Rightarrow> None | Some r \<Rightarrow>
      Some (if p = pp_peer k \<and> pr_session_id r = pp_session k
            then r\<lparr>pr_owner_count := sat_add (pr_owner_count r) 1\<rparr> else r))" for p
    by (auto simp: retain_def split: option.splits)
  have rec: "record_ok (ks @ [k]) ?d p r'" if r': "pd_active ?d p = Some r'" for p r'
  proof -
    obtain r where r: "pd_active d p = Some r" using r' by (auto simp: act split: option.splits)
    then have ok: "record_ok ks d p r" using inv by (simp add: punch_inv_def)
    show ?thesis using r r' ok count [OF ok] k by (auto simp: record_ok_def fields act)
  qed
  have live: "\<exists>r. pd_active ?d (pp_peer j) = Some r \<and> pr_session_id r = pp_session j"
    if j: "j \<in> set (ks @ [k])" and l: "\<not> permit_is_cancelled ?d j" for j
  proof -
    have "j \<in> set ks" using j k by auto
    then obtain r where "pd_active d (pp_peer j) = Some r" "pr_session_id r = pp_session j"
      using inv l unfolding punch_inv_def by (auto simp: permit_is_cancelled_def fields)
    then show ?thesis by (auto simp: act)
  qed
  show ?thesis
    using inv rec live k unfolding punch_inv_def permits_ok_def by (auto simp: fields)
qed

lemma punch_inv_release:
  assumes inv: "punch_inv n ks d" and i: "i < length ks"
  shows "punch_inv n (remove_nth i ks) (release d (pp_peer (ks ! i)) (pp_session (ks ! i)))"
proof -
  let ?k = "ks ! i" and ?ks = "remove_nth i ks"
  let ?d = "release d (pp_peer ?k) (pp_session ?k)"
  note sub = set_remove_nth [of i ks]
  note cnt = owners_remove_nth [OF i]
  have fields: "pd_next ?d = pd_next d" "pd_cells ?d = pd_cells d" "pd_retired ?d = pd_retired d"
    by (auto simp: release_def Let_def split: option.splits)
  have act: "pd_active ?d p = (if p = pp_peer ?k then
      (case pd_active d p of None \<Rightarrow> None | Some r \<Rightarrow>
         if pr_session_id r = pp_session ?k
         then (if owners ?ks p (pr_session_id r) = 0 then None
               else Some (r\<lparr>pr_owner_count := sat_sub (pr_owner_count r) 1\<rparr>))
         else Some r) else pd_active d p)" for p
  proof (cases "pd_active d (pp_peer ?k)")
    case None
    then show ?thesis by (simp add: release_def)
  next
    case (Some r)
    have u: "unat (sat_sub (pr_owner_count r) 1) = owners ?ks (pp_peer ?k) (pr_session_id r)"
      if "pr_session_id r = pp_session ?k"
      using inv Some cnt [of "pp_peer ?k" "pp_session ?k"] that
      by (simp add: unat_sat_sub punch_inv_def record_ok_def)
    have z: "sat_sub (pr_owner_count r) 1 = 0 \<longleftrightarrow> owners ?ks (pp_peer ?k) (pr_session_id r) = 0"
      if "pr_session_id r = pp_session ?k"
      unfolding u [OF that, symmetric] by (simp add: unsigned_eq_0_iff)
    show ?thesis
      using Some z by (auto simp: release_def Let_def)
  qed
  have rec: "record_ok ?ks ?d p r'" if r': "pd_active ?d p = Some r'" for p r'
  proof -
    obtain r where r: "pd_active d p = Some r" and same: "pr_session_id r' = pr_session_id r"
        "pr_cell r' = pr_cell r" "pr_peer_session r' = pr_peer_session r"
      using r' by (auto simp: act split: option.splits if_splits)
    have ok: "record_ok ks d p r" using inv r by (simp add: punch_inv_def)
    have own: "unat (pr_owner_count r') = owners ?ks p (pr_session_id r) \<and> 0 < owners ?ks p (pr_session_id r)"
      using r' r ok cnt [of p "pr_session_id r"]
      by (auto simp: act unat_sat_sub record_ok_def split: if_splits)
    show ?thesis using ok own sub same by (auto simp: record_ok_def fields)
  qed
  have live: "\<exists>r. pd_active ?d (pp_peer k) = Some r \<and> pr_session_id r = pp_session k"
    if k: "k \<in> set ?ks" and l: "\<not> permit_is_cancelled ?d k" for k
  proof -
    obtain r where r: "pd_active d (pp_peer k) = Some r" "pr_session_id r = pp_session k"
      using inv k l sub unfolding punch_inv_def by (auto simp: permit_is_cancelled_def fields)
    have "0 < owners ?ks (pp_peer k) (pp_session k)" using k owners_pos by blast
    then show ?thesis using r by (auto simp: act)
  qed
  have "permits_ok ?ks ?d"
    using inv sub unfolding punch_inv_def permits_ok_def fields by (meson subsetD)
  then show ?thesis
    using inv rec live length_remove_nth [of i ks] unfolding punch_inv_def by (auto simp: fields)
qed

lemma punch_inv_mark:
  assumes inv: "punch_inv n ks d"
  shows "punch_inv n ks (snd (mark_first_send_started d now p s))"
proof -
  let ?d = "snd (mark_first_send_started d now p s)"
  have fields: "pd_next ?d = pd_next d" "pd_cells ?d = pd_cells d" "pd_retired ?d = pd_retired d"
    by (auto simp: mark_first_send_started_def split: option.splits)
  have act: "pd_active ?d q = (case pd_active d q of None \<Rightarrow> None | Some r \<Rightarrow>
      Some (if q = p \<and> pr_session_id r = s \<and> pr_first_send_ms r = None
            then r\<lparr>pr_first_send_ms := Some now\<rparr> else r))" for q
    by (auto simp: mark_first_send_started_def split: option.splits)
  have "record_ok ks ?d q r'" if "pd_active ?d q = Some r'" for q r'
    using that inv by (auto simp: act punch_inv_def record_ok_def fields split: option.splits if_splits)
  then show ?thesis
    using inv unfolding punch_inv_def permits_ok_def
    by (fastforce simp: fields act permit_is_cancelled_def)
qed

lemma punch_inv_cancel: "punch_inv n ks d \<Longrightarrow> punch_inv n ks (punch_cancel d p)"
proof (cases "pd_active d p")
  case (Some r)
  assume inv: "punch_inv n ks d"
  let ?d = "cancel_cell (pr_cell r) PeerLifecycle d"
  have "punch_inv n ks (?d\<lparr>pd_active := (pd_active ?d)(p := None)\<rparr>)"
    using punch_inv_deactivate [OF punch_inv_cancel_cell [OF inv]] cancel_inactive_cell [OF inv Some] Some
    by simp
  moreover have "punch_cancel d p = ?d\<lparr>pd_active := (pd_active ?d)(p := None)\<rparr>"
    by (simp add: punch_cancel_def Some cancel_cell_def)
  ultimately show ?thesis by simp
qed (simp add: punch_cancel_def)

lemma retired_update:
  assumes "punch_inv n ks d" and "\<And>r. pd_active d p = Some r \<Longrightarrow> g < pr_peer_session r"
  shows "punch_inv n ks (d\<lparr>pd_retired := (pd_retired d)(p \<mapsto> g)\<rparr>)"
  using assms unfolding punch_inv_def permits_ok_def record_ok_def permit_is_cancelled_def by simp

definition retired_after :: "punch_dedup \<Rightarrow> string \<Rightarrow> u64 \<Rightarrow> u64" where
  "retired_after d p g = (case pd_retired d p of Some old \<Rightarrow> max old g | None \<Rightarrow> g)"

lemma punch_inv_retire:
  assumes inv: "punch_inv n ks d"
  shows "punch_inv n ks (retire_peer_session d p g)"
proof -
  let ?m = "retired_after d p g"
  have newer: "?m < pr_peer_session r" if "pd_active d p = Some r" "g < pr_peer_session r" for r
    using inv that by (auto simp: punch_inv_def record_ok_def retired_after_def split: option.splits)
  show ?thesis
  proof (cases "\<exists>r. pd_active d p = Some r \<and> pr_peer_session r \<le> g")
    case True
    then obtain r where r: "pd_active d p = Some r" "pr_peer_session r \<le> g" by blast
    let ?d = "punch_cancel d p"
    have "punch_inv n ks (?d\<lparr>pd_retired := (pd_retired ?d)(p \<mapsto> ?m)\<rparr>)"
      by (rule retired_update [OF punch_inv_cancel [OF inv]]) (simp add: punch_cancel_def r)
    moreover have "retire_peer_session d p g = ?d\<lparr>pd_retired := (pd_retired ?d)(p \<mapsto> ?m)\<rparr>"
      using r by (simp add: retire_peer_session_def punch_cancel_def cancel_cell_def retired_after_def)
    ultimately show ?thesis by simp
  next
    case False
    then have "retire_peer_session d p g = d\<lparr>pd_retired := (pd_retired d)(p \<mapsto> ?m)\<rparr>"
      by (cases "pd_active d p") (auto simp: retire_peer_session_def retired_after_def Let_def)
    then show ?thesis
      using retired_update [OF inv, of p ?m] newer False by (auto simp: not_le)
  qed
qed

section \<open>Every run\<close>

lemma remove_nth_last: "remove_nth (length xs) (xs @ [x]) = xs"
  by (simp add: remove_nth_def)

lemma punch_inv_drop_new:
  assumes "punch_inv n (ks @ [k]) d"
  shows "punch_inv n ks (drop_permit d k)"
  using punch_inv_release [OF assms, of "length ks"] by (simp add: drop_permit_def remove_nth_last)

definition world_inv :: "nat \<Rightarrow> punch_world \<Rightarrow> bool" where
  "world_inv n w \<longleftrightarrow> punch_inv n (pw_permits w) (pw_dedup w)"

lemma claim_epoch_as_rendezvous:
  "claim_for_epoch_for_peer_session before after d now p sess epoch priority fresh
    = (case claim_for_epoch_with_rendezvous_for_peer_session before after d now p sess 0 epoch
              priority fresh None of (Some (Claimed k), d') \<Rightarrow> (Some k, d') | (_, d') \<Rightarrow> (None, d'))"
  by (simp add: claim_for_epoch_for_peer_session_def claim_with_priority_def Let_def
      claim_for_epoch_with_rendezvous_for_peer_session_def split: prod.splits punch_claim.splits)

lemma world_inv_rendezvous:
  assumes inv: "world_inv n w" and n: "Suc n < 2 ^ 64"
  shows "world_inv (Suc n) (punch_do (ClaimRendezvous before after now p sess network epoch priority fresh at) w)"
proof -
  obtain c d where c: "claim_with_rendezvous (pw_dedup w) now p sess network epoch priority fresh at = (c, d)"
    by (cases "claim_with_rendezvous (pw_dedup w) now p sess network epoch priority fresh at")
  note i = punch_inv_claim [OF inv [unfolded world_inv_def] n c]
  have keep: "punch_inv (Suc n) (pw_permits w) (pw_dedup w)"
    using inv punch_inv_mono unfolding world_inv_def by fastforce
  show ?thesis
    using i keep c punch_inv_drop_new
    by (cases c; cases before; cases after)
      (auto simp: world_inv_def claim_for_epoch_with_rendezvous_for_peer_session_def)
qed

lemma claim_epoch_step:
  "punch_do (ClaimEpoch before after now p sess epoch priority fresh) w
    = punch_do (ClaimRendezvous before after now p sess 0 epoch priority fresh None) w"
  by (simp add: claim_epoch_as_rendezvous split: prod.splits option.splits punch_claim.splits)

lemma world_inv_step:
  assumes inv: "world_inv n w" and n: "Suc n < 2 ^ 64"
  shows "world_inv (Suc n) (punch_do x w)"
proof (cases x)
  case (ClaimRendezvous before after now p sess network epoch priority fresh at)
  then show ?thesis using world_inv_rendezvous [OF inv n] by (simp only:)
next
  case (ClaimEpoch before after now p sess epoch priority fresh)
  then show ?thesis using world_inv_rendezvous [OF inv n] by (simp only: claim_epoch_step)
next
  case (CloneForCleanup i)
  then show ?thesis
    using punch_inv_retain [OF inv [unfolded world_inv_def] n] inv punch_inv_mono [of n]
    by (auto simp: world_inv_def clone_for_cleanup_def)
qed (use inv punch_inv_mono [of n _ _ "Suc n"] punch_inv_mark punch_inv_release punch_inv_cancel punch_inv_retire
      punch_inv_cancel_cell in \<open>auto simp: world_inv_def Let_def drop_permit_def\<close>)

lemma world_inv_run:
  assumes "world_inv n w" and "n + length ops < 2 ^ 64"
  shows "world_inv (n + length ops) (punch_ops ops w)"
  using assms
proof (induction ops arbitrary: n w)
  case (Cons x ops)
  then show ?case using Cons.IH [of "Suc n" "punch_do x w"] world_inv_step by (simp add: punch_ops_def)
qed (simp add: punch_ops_def)

lemma punch_reachable_inv:
  "length ops < 2 ^ 64 \<Longrightarrow> world_inv (length ops) (punch_ops ops punch_start)"
  using world_inv_run [of 0 punch_start ops] punch_inv_start by (simp add: world_inv_def punch_start_def)

text \<open>
  C21: Whatever tasks claim, clone, drop, cancel and retire, in fewer than 2 to the 64
  operations: the uncancelled permits of a peer belong to one session, which is the active one,
  an active record is held by at least one permit and counts exactly the permits that hold it.
\<close>
theorem punch_one_session_per_peer:
  assumes "length ops < 2 ^ 64" and "w = punch_ops ops punch_start"
  shows "(\<forall>k \<in> set (pw_permits w). \<forall>k' \<in> set (pw_permits w).
      pp_peer k = pp_peer k' \<longrightarrow> \<not> permit_is_cancelled (pw_dedup w) k
      \<longrightarrow> \<not> permit_is_cancelled (pw_dedup w) k' \<longrightarrow> k = k')
    \<and> (\<forall>k \<in> set (pw_permits w). \<not> permit_is_cancelled (pw_dedup w) k \<longrightarrow>
        (\<exists>r. pd_active (pw_dedup w) (pp_peer k) = Some r \<and> pr_session_id r = pp_session k))
    \<and> (\<forall>p r. pd_active (pw_dedup w) p = Some r \<longrightarrow>
        unat (pr_owner_count r) = owners (pw_permits w) p (pr_session_id r)
        \<and> 0 < owners (pw_permits w) p (pr_session_id r))"
proof (intro conjI ballI allI impI)
  have inv: "punch_inv (length ops) (pw_permits w) (pw_dedup w)"
    using punch_reachable_inv assms by (simp add: world_inv_def)
  then have live: "\<exists>r. pd_active (pw_dedup w) (pp_peer k) = Some r \<and> pr_session_id r = pp_session k"
    if "k \<in> set (pw_permits w)" "\<not> permit_is_cancelled (pw_dedup w) k" for k
    using that by (simp add: punch_inv_def)
  then show "\<exists>r. pd_active (pw_dedup w) (pp_peer k) = Some r \<and> pr_session_id r = pp_session k"
    if "k \<in> set (pw_permits w)" "\<not> permit_is_cancelled (pw_dedup w) k" for k using that .
  show "k = k'" if "k \<in> set (pw_permits w)" "k' \<in> set (pw_permits w)" "pp_peer k = pp_peer k'"
      "\<not> permit_is_cancelled (pw_dedup w) k" "\<not> permit_is_cancelled (pw_dedup w) k'" for k k'
    using live [of k] live [of k'] that inv unfolding punch_inv_def permits_ok_def by (metis option.inject)
  show "unat (pr_owner_count r) = owners (pw_permits w) p (pr_session_id r)"
      "0 < owners (pw_permits w) p (pr_session_id r)"
    if "pd_active (pw_dedup w) p = Some r" for p r
    using inv that by (simp_all add: punch_inv_def record_ok_def)
qed

text \<open>Tombstones only grow.\<close>

lemma retired_claim:
  "pd_retired (snd (claim_with_rendezvous d now p sess network epoch priority fresh at)) = pd_retired d"
  by (auto simp: claim_with_rendezvous_def install_session_def Let_def split: option.splits)

lemma retired_drop: "pd_retired (drop_permit d k) = pd_retired d"
  by (auto simp: drop_permit_def release_def Let_def split: option.splits)

lemma retired_rendezvous:
  "pd_retired (snd (claim_for_epoch_with_rendezvous_for_peer_session before after d now p sess network
      epoch priority fresh at)) = pd_retired d"
  using retired_claim [of d now p sess network epoch priority fresh at]
  by (auto simp: claim_for_epoch_with_rendezvous_for_peer_session_def Let_def retired_drop
      split: prod.splits punch_claim.splits)

lemma retired_grows:
  assumes "pd_retired (pw_dedup w) p = Some h" and "g \<le> h"
  shows "\<exists>h'. pd_retired (pw_dedup (punch_do x w)) p = Some h' \<and> g \<le> h'"
proof -
  have rendezvous: "pd_retired (pw_dedup (punch_do (ClaimRendezvous before after now q sess network epoch
      priority fresh at) w)) = pd_retired (pw_dedup w)" for before after now q sess network epoch priority fresh at
    using retired_rendezvous [of before after "pw_dedup w" now q sess network epoch priority fresh at]
    by (auto split: prod.splits option.splits punch_claim.splits)
  show ?thesis
  proof (cases x)
    case (ClaimEpoch before after now q sess epoch priority fresh)
    then show ?thesis using assms rendezvous by (simp only: claim_epoch_step) auto
  qed (use assms rendezvous in \<open>auto simp: Let_def retired_drop mark_first_send_started_def clone_for_cleanup_def
      retain_def punch_cancel_def retire_peer_session_def le_max_iff_disj
      simp del: punch_do.simps(1) split: option.splits\<close>)
qed

lemma retired_after_run:
  assumes "pd_retired (pw_dedup w) p = Some h" and "g \<le> h"
  shows "\<exists>h'. pd_retired (pw_dedup (punch_ops ops w)) p = Some h' \<and> g \<le> h'"
  using assms
proof (induction ops arbitrary: w h)
  case (Cons x ops)
  then show ?case using retired_grows [OF Cons.prems, of x] by (force simp: punch_ops_def)
qed (auto simp: punch_ops_def)

text \<open>
  After a peer lifecycle is retired, and whatever happens later, no session of that lifecycle or
  an older one is active, and a late claim for it is rejected without any effect.
\<close>
theorem punch_retired_lifecycle_never_claims:
  assumes "length ops + length later < 2 ^ 64 - 1"
    and "w = punch_ops (ops @ RetirePeer p g # later) punch_start" and "sess \<le> g"
  shows "(\<forall>r. pd_active (pw_dedup w) p = Some r \<longrightarrow> g < pr_peer_session r)
    \<and> claim_with_rendezvous (pw_dedup w) now p sess network epoch priority fresh at
        = (RejectedStalePeerSession, pw_dedup w)"
proof -
  let ?w0 = "punch_do (RetirePeer p g) (punch_ops ops punch_start)"
  have w: "w = punch_ops later ?w0" using assms(2) by (simp add: punch_ops_def)
  have "\<exists>h. pd_retired (pw_dedup ?w0) p = Some h \<and> g \<le> h"
    by (auto simp: retire_peer_session_def Let_def split: option.splits)
  then obtain h where h: "pd_retired (pw_dedup w) p = Some h" "g \<le> h"
    unfolding w using retired_after_run by blast
  have "world_inv (length (ops @ RetirePeer p g # later)) w"
    unfolding assms(2) by (rule punch_reachable_inv) (use assms(1) in simp)
  then have "h < pr_peer_session r" if "pd_active (pw_dedup w) p = Some r" for r
    using h(1) that by (simp add: world_inv_def punch_inv_def record_ok_def)
  then have "\<forall>r. pd_active (pw_dedup w) p = Some r \<longrightarrow> g < pr_peer_session r"
    using h(2) order.strict_trans1 by blast
  then show ?thesis using h assms(3) by (auto simp: claim_with_rendezvous_def)
qed

section \<open>Cancellation is final\<close>

text \<open>Every operation appends objects or cancels some; none is reset.\<close>

definition cells_grow :: "punch_cancellation list \<Rightarrow> punch_cancellation list \<Rightarrow> bool" where
  "cells_grow cs cs' \<longleftrightarrow> length cs \<le> length cs'
     \<and> (\<forall>i < length cs. (pc_cancelled (cs ! i) \<longrightarrow> pc_cancelled (cs' ! i))
          \<and> (\<forall>reason. pc_reason (cs ! i) = Some reason \<longrightarrow> pc_reason (cs' ! i) = Some reason))"

lemma cells_grow_refl [simp]: "cells_grow cs cs"
  by (simp add: cells_grow_def)

lemma cells_grow_trans: "cells_grow a b \<Longrightarrow> cells_grow b c \<Longrightarrow> cells_grow a c"
  by (simp add: cells_grow_def)

lemma cells_grow_append [simp]: "cells_grow cs (cs @ new)"
  by (simp add: cells_grow_def nth_append)

lemma cells_grow_cancel [simp]: "cells_grow (pd_cells d) (pd_cells (cancel_cell i reason d))"
  by (cases "i < length (pd_cells d)")
    (auto simp: cells_grow_def cancel_cell_def cancel_with_reason_def nth_list_update list_update_beyond)

lemma cells_claim:
  "cells_grow (pd_cells d) (pd_cells (snd (claim_with_rendezvous d now p sess network epoch priority fresh at)))"
  using cells_grow_trans [OF cells_grow_cancel cells_grow_append]
  by (auto simp: claim_with_rendezvous_def install_session_def Let_def split: option.splits)

lemma cells_drop [simp]: "pd_cells (drop_permit d k) = pd_cells d"
  by (auto simp: drop_permit_def release_def Let_def split: option.splits)

lemma cells_rendezvous:
  "cells_grow (pd_cells d) (pd_cells (snd (claim_for_epoch_with_rendezvous_for_peer_session before after d
      now p sess network epoch priority fresh at)))"
  using cells_claim [of d now p sess network epoch priority fresh at]
  by (auto simp: claim_for_epoch_with_rendezvous_for_peer_session_def Let_def
      split: prod.splits punch_claim.splits)

lemma cells_step: "cells_grow (pd_cells (pw_dedup w)) (pd_cells (pw_dedup (punch_do x w)))"
proof -
  have rendezvous: "cells_grow (pd_cells (pw_dedup w)) (pd_cells (pw_dedup (punch_do (ClaimRendezvous before after
      now q sess network epoch priority fresh at) w)))" for before after now q sess network epoch priority fresh at
    using cells_rendezvous [of "pw_dedup w" before after now q sess network epoch priority fresh at]
    by (auto split: prod.splits option.splits punch_claim.splits)
  have removed: "pd_cells (cancel_cell i reason (d\<lparr>pd_retired := t\<rparr>)) = pd_cells (cancel_cell i reason d)"
      "pd_cells (cancel_cell i reason (d\<lparr>pd_active := a, pd_retired := t\<rparr>)) = pd_cells (cancel_cell i reason d)"
      "pd_cells (cancel_cell i reason (d\<lparr>pd_active := a\<rparr>)) = pd_cells (cancel_cell i reason d)"
      "pd_cells (cancel_cell i reason (d\<lparr>pd_retired := t, pd_active := a\<rparr>)) = pd_cells (cancel_cell i reason d)"
    for i reason d a t by (simp_all add: cancel_cell_def)
  show ?thesis
  proof (cases x)
    case (ClaimEpoch before after now q sess epoch priority fresh)
    then show ?thesis using rendezvous by (simp only: claim_epoch_step)
  qed (use rendezvous in \<open>auto simp: Let_def mark_first_send_started_def clone_for_cleanup_def
      retain_def punch_cancel_def retire_peer_session_def removed
      simp del: punch_do.simps(1) split: option.splits\<close>)
qed

lemma cells_run: "cells_grow (pd_cells (pw_dedup w)) (pd_cells (pw_dedup (punch_ops ops w)))"
proof (induction ops arbitrary: w)
  case (Cons x ops)
  then show ?case using cells_grow_trans [OF cells_step Cons.IH, of w x] by (simp add: punch_ops_def)
qed (simp add: punch_ops_def)

lemma permit_stays_cancelled:
  assumes "pp_cell k < length (pd_cells (pw_dedup w))" and "permit_is_cancelled (pw_dedup w) k"
    and "cancellation_reason (pw_dedup w) k = Some reason"
  shows "permit_is_cancelled (pw_dedup (punch_ops ops w)) k
    \<and> cancellation_reason (pw_dedup (punch_ops ops w)) k = Some reason"
  using cells_run [of w ops] assms
  by (simp add: cells_grow_def permit_is_cancelled_def cancellation_reason_def)

section \<open>The first send is protected\<close>

text \<open>
  What the other tasks may do to a session without ending it: they claim its peer with the same
  or an older lifecycle and the same network within the guard, claim other peers, mark and clone.
\<close>

fun courteous :: "string \<Rightarrow> punch_attempt \<Rightarrow> u64 \<Rightarrow> punch_op \<Rightarrow> bool" where
  "courteous p r t0 (ClaimRendezvous before after now q sess network epoch priority fresh at) \<longleftrightarrow>
     q \<noteq> p \<or> sess \<le> pr_peer_session r \<and> \<not> generation_preempts r network
            \<and> unat now \<le> unat t0 + unat RELAY_ASSISTED_PUNCH_LEAD_MS"
| "courteous p r t0 (ClaimEpoch before after now q sess epoch priority fresh) \<longleftrightarrow>
     q \<noteq> p \<or> sess \<le> pr_peer_session r \<and> unat now \<le> unat t0 + unat RELAY_ASSISTED_PUNCH_LEAD_MS"
| "courteous p r t0 (MarkFirstSend i now) \<longleftrightarrow> True"
| "courteous p r t0 (CloneForCleanup i) \<longleftrightarrow> True"
| "courteous p r t0 x \<longleftrightarrow> False"

definition protected_session :: "string \<Rightarrow> punch_attempt \<Rightarrow> u64 \<Rightarrow> punch_dedup \<Rightarrow> bool" where
  "protected_session p r t0 d \<longleftrightarrow>
     (\<exists>r'. pd_active d p = Some r' \<and> pr_session_id r' = pr_session_id r
        \<and> pr_peer_session r' = pr_peer_session r \<and> pr_network r' = pr_network r
        \<and> pr_cell r' = pr_cell r \<and> pr_first_send_ms r' = Some t0)
     \<and> \<not> pc_cancelled (pd_cells d ! pr_cell r)"

lemma protected_claim_same:
  assumes "protected_session p r t0 d" and "sess \<le> pr_peer_session r" and "\<not> generation_preempts r network"
    and "unat now \<le> unat t0 + unat RELAY_ASSISTED_PUNCH_LEAD_MS"
    and "claim_with_rendezvous d now p sess network epoch priority fresh at = (c, d')"
  shows "d' = d \<and> (\<forall>k. c \<noteq> Claimed k)"
proof -
  obtain r' where r': "pd_active d p = Some r'" "pr_peer_session r' = pr_peer_session r"
      "pr_network r' = pr_network r" "pr_first_send_ms r' = Some t0"
    using assms(1) by (auto simp: protected_session_def)
  have "\<not> lifecycle_preempts r' sess" "\<not> generation_preempts r' network" "first_send_is_protected r' now"
    using assms(2-4) r' by (auto simp: lifecycle_preempts_def generation_preempts_def
        first_send_is_protected_def Let_def word_le_nat_alt word_less_nat_alt unat_sat_sub)
  then show ?thesis
    using assms(5) r' by (auto simp: claim_with_rendezvous_def deferred_claim_of_def split: if_splits option.splits)
qed

lemma other_cell:
  assumes inv: "punch_inv n ks d" and "pd_active d p = Some r" and "pd_active d q = Some r'" and "p \<noteq> q"
  shows "pr_cell r \<noteq> pr_cell r'"
  using record_permit [OF inv assms(2)] record_permit [OF inv assms(3)] inv assms(4)
  unfolding punch_inv_def permits_ok_def by metis

lemma protected_claim_other:
  assumes inv: "punch_inv n ks d" and prot: "protected_session p r t0 d" and "q \<noteq> p"
    and c: "claim_with_rendezvous d now q sess network epoch priority fresh at = (c, d')"
  shows "protected_session p r t0 d'"
proof -
  obtain r' where r': "pd_active d p = Some r'" "pr_cell r' = pr_cell r"
    using prot by (auto simp: protected_session_def)
  have cell: "pr_cell r < length (pd_cells d)" using record_cell [OF inv r'(1)] r'(2) by simp
  have "pr_cell r \<noteq> pr_cell o'" if "pd_active d q = Some o'" for o'
    using other_cell [OF inv r'(1) that] assms(3) r'(2) by auto
  then have keep: "pd_cells (cancel_cell (pr_cell o') reason d) ! pr_cell r = pd_cells d ! pr_cell r"
    if "pd_active d q = Some o'" for o' reason
    using that by (auto simp: cancel_cell_def)
  have "pd_active d' p = pd_active d p \<and> pd_cells d' ! pr_cell r = pd_cells d ! pr_cell r"
    using c cell keep assms(3)
    by (auto simp: claim_with_rendezvous_def deferred_claim_of_def install_session_def Let_def nth_append
        split: if_splits option.splits)
  then show ?thesis using prot by (simp add: protected_session_def)
qed

lemma protected_drop_other:
  "protected_session p r t0 d \<Longrightarrow> pp_peer k \<noteq> p \<Longrightarrow> protected_session p r t0 (drop_permit d k)"
  by (auto simp: protected_session_def drop_permit_def release_def Let_def split: option.splits)

lemma claimed_peer:
  "claim_with_rendezvous d now q sess network epoch priority fresh at = (Claimed k, d') \<Longrightarrow> pp_peer k = q"
  by (auto simp: claim_with_rendezvous_def deferred_claim_of_def install_session_def Let_def
      split: if_splits option.splits)

lemma protected_rendezvous:
  assumes inv: "world_inv n w" and prot: "protected_session p r t0 (pw_dedup w)"
    and ok: "courteous p r t0 (ClaimRendezvous before after now q sess network epoch priority fresh at)"
  shows "protected_session p r t0
    (pw_dedup (punch_do (ClaimRendezvous before after now q sess network epoch priority fresh at) w))"
proof -
  obtain c d where c: "claim_with_rendezvous (pw_dedup w) now q sess network epoch priority fresh at = (c, d)"
    by (cases "claim_with_rendezvous (pw_dedup w) now q sess network epoch priority fresh at")
  have same: "d = pw_dedup w \<and> (\<forall>k. c \<noteq> Claimed k)" if "q = p"
    using protected_claim_same [OF prot, of sess network now epoch priority fresh at c d] ok c that by simp
  have d: "protected_session p r t0 d"
    using same prot protected_claim_other [OF inv [unfolded world_inv_def] prot _ c]
    by (cases "q = p") simp_all
  have "q \<noteq> p" if "c = Claimed k" for k using same that by blast
  then have "protected_session p r t0 (drop_permit d k)" if "c = Claimed k" for k
    using protected_drop_other [OF d] claimed_peer c that by blast
  then show ?thesis
    using prot d c
    by (cases c; cases before; cases after)
      (auto simp: claim_for_epoch_with_rendezvous_for_peer_session_def)
qed

lemma protected_step:
  assumes "world_inv n w" and "protected_session p r t0 (pw_dedup w)" and "courteous p r t0 x"
  shows "protected_session p r t0 (pw_dedup (punch_do x w))"
proof (cases x)
  case (ClaimRendezvous before after now q sess network epoch priority fresh at)
  then show ?thesis using protected_rendezvous assms by blast
next
  case (ClaimEpoch before after now q sess epoch priority fresh)
  have "\<not> generation_preempts r 0" by (simp add: generation_preempts_def)
  then have "courteous p r t0 (ClaimRendezvous before after now q sess 0 epoch priority fresh None)"
    using assms(3) ClaimEpoch by simp
  then show ?thesis unfolding ClaimEpoch claim_epoch_step using protected_rendezvous assms by blast
qed (use assms in \<open>auto simp: protected_session_def Let_def mark_first_send_started_def clone_for_cleanup_def
      retain_def split: option.splits\<close>)

text \<open>
  C22: Once the first packet of a punch session is marked as sent, no run of claims, further
  marks and clones cancels or replaces the session, where the claims for its peer are of the
  same or an older lifecycle, do not preempt its network and come within 250 milliseconds of
  that send, whatever their epoch and priority, and the claims for other peers are arbitrary
  (fewer than 2^64 operations in all).
\<close>
theorem punch_first_send_protected:
  assumes "length ops + length later < 2 ^ 64" and "w = punch_ops ops punch_start"
    and "k \<in> set (pw_permits w)" and "\<not> permit_is_cancelled (pw_dedup w) k"
    and "pd_active (pw_dedup w) (pp_peer k) = Some r" and "pr_first_send_ms r = Some t0"
    and "\<forall>x \<in> set later. courteous (pp_peer k) r t0 x"
  shows "\<not> permit_is_cancelled (pw_dedup (punch_ops later w)) k
    \<and> (\<exists>r'. pd_active (pw_dedup (punch_ops later w)) (pp_peer k) = Some r'
          \<and> pr_session_id r' = pp_session k \<and> pr_first_send_ms r' = Some t0)"
proof -
  have inv: "world_inv (length ops) w"
    unfolding assms(2) by (rule punch_reachable_inv) (use assms(1) in simp)
  then have s: "pr_session_id r = pp_session k" "pp_cell k = pr_cell r"
    using assms(3-5) unfolding world_inv_def punch_inv_def record_ok_def by auto
  then have "protected_session (pp_peer k) r t0 (pw_dedup w)"
    using assms(4-6) by (auto simp: protected_session_def permit_is_cancelled_def)
  then have "protected_session (pp_peer k) r t0 (pw_dedup (punch_ops later w))"
    using inv assms(1,7)
  proof (induction later arbitrary: w "ops")
    case (Cons x later)
    have "world_inv (length (x # ops)) (punch_do x w)"
      using world_inv_step [OF Cons.prems(2)] Cons.prems(3) by simp
    moreover have "protected_session (pp_peer k) r t0 (pw_dedup (punch_do x w))"
      using protected_step Cons.prems by auto
    ultimately show ?case
      using Cons.IH [of "punch_do x w" "x # ops"] Cons.prems by (simp add: punch_ops_def)
  qed (simp add: punch_ops_def)
  then show ?thesis using s by (auto simp: protected_session_def permit_is_cancelled_def)
qed

end
