(* ===== verification/Hs_Start.thy ===== *)
theory Hs_Start
  imports Wg_Handshake
begin

text \<open>
  The initiator side of the pending-handshake state (\<open>client/daemon/src/lib/pending_handshake.rs\<close>):
  reservations of a preparation, prepared handshakes, bounded retries and pending transactions. A
  watch channel is an index into a store of flags, so that the sender kept in the state and the
  receiver a task holds are visibly the same channel. Lengths of keys and clocks are arguments;
  \<open>order\<close> is the order in which the hash map of retries happens to be traversed.
\<close>

section \<open>Data\<close>

datatype handshake_owner_kind =
    EventInitiatorReserve
  | EventInitiatorPrepare
  | EventInitiatorPublish
  | MaintenanceInitiator
  | Responder
  | InitiatorAnswer
  | Cleanup

datatype start_disposition = StartActive | RetryScheduled

datatype retry_phase = Preparation | Publish

record start_reservation =
  sr_owner :: u64
  sr_owner_kind :: handshake_owner_kind
  sr_network :: u64
  sr_peer_session :: u64
  sr_cancel_generation :: u64
  sr_cancellation :: nat
  sr_disposition :: start_disposition
  sr_retry_phase :: "retry_phase option"
  sr_retry_attempt :: u32
  sr_retry_expires_at :: "instant option"
  sr_stale_session_id :: "string option"

record retry_identity =
  ri_peer_id :: string
  ri_network :: u64
  ri_peer_session :: u64
  ri_owner :: u64
  ri_phase :: retry_phase
  ri_attempt :: u32
  ri_cancel_generation :: u64

record pending_retry =
  rt_identity :: retry_identity
  rt_not_before :: instant
  rt_expires_at :: instant

record prepared_initiator =
  pi_initiator :: handshake_initiator
  pi_initiation_bytes :: bytes
  pi_candidates :: "string list"
  pi_candidate_sources :: "string \<Rightarrow> string option"
  pi_session_id :: string
  pi_probe_ephemeral :: dh_key_pair
  pi_probe_public_key :: string

record hs_start =
  hs_pending :: "string \<Rightarrow> handshake_initiator option"
  hs_pending_session_ids :: "string \<Rightarrow> string option"
  hs_pending_networks :: "string \<Rightarrow> u64 option"
  hs_pending_peer_sessions :: "string \<Rightarrow> u64 option"
  hs_pending_probes :: "string \<Rightarrow> dh_key_pair option"
  hs_starting :: "string set"
  hs_starting_networks :: "string \<Rightarrow> u64 option"
  hs_starting_peer_sessions :: "string \<Rightarrow> u64 option"
  hs_starting_owner_kinds :: "string \<Rightarrow> handshake_owner_kind option"
  hs_starting_cancel_generations :: "string \<Rightarrow> u64 option"
  hs_starting_prepared :: "string \<Rightarrow> prepared_initiator option"
  hs_starting_ids :: "string \<Rightarrow> u64 option"
  hs_starting_cancellations :: "string \<Rightarrow> nat option"
  hs_retries :: "string \<Rightarrow> pending_retry option"
  hs_pending_cancellations :: "string \<Rightarrow> nat option"
  hs_next_start_id :: u64
  hs_next_cancel_generation :: u64
  hs_retry_revision :: u64
  hs_pending_ids :: "string \<Rightarrow> u64 option"
  hs_next_id :: u64
  hs_cells :: "bool list"

definition MAX_PENDING_INITIATOR_RETRIES :: nat where
  "MAX_PENDING_INITIATOR_RETRIES = 1024"

definition INITIATOR_RETRY_TTL :: duration where
  "INITIATOR_RETRY_TTL = from_secs 30"

definition INITIATOR_RETRY_BACKOFF :: "duration list" where
  "INITIATOR_RETRY_BACKOFF = map (\<lambda>ms. ms * 1000000) [0, 10, 25, 50, 100, 250, 500]"

text \<open>\<open>Sender::send_replace(true)\<close> on a channel, and a receiver that asks for its value.\<close>

definition send_cancel :: "nat \<Rightarrow> 'a hs_start_scheme \<Rightarrow> 'a hs_start_scheme" where
  "send_cancel i h = h\<lparr>hs_cells := (hs_cells h)[i := True]\<rparr>"

definition send_cancel_opt :: "nat option \<Rightarrow> 'a hs_start_scheme \<Rightarrow> 'a hs_start_scheme" where
  "send_cancel_opt c h = (case c of None \<Rightarrow> h | Some i \<Rightarrow> send_cancel i h)"

section \<open>Pending transactions\<close>

definition hs_remove :: "string \<Rightarrow> 'a hs_start_scheme \<Rightarrow> handshake_initiator option \<times> 'a hs_start_scheme" where
  "hs_remove peer h =
     (hs_pending h peer,
      (send_cancel_opt (hs_pending_cancellations h peer) h)
        \<lparr>hs_pending_cancellations := (hs_pending_cancellations h)(peer := None),
         hs_pending_ids := (hs_pending_ids h)(peer := None),
         hs_pending_session_ids := (hs_pending_session_ids h)(peer := None),
         hs_pending_networks := (hs_pending_networks h)(peer := None),
         hs_pending_peer_sessions := (hs_pending_peer_sessions h)(peer := None),
         hs_pending_probes := (hs_pending_probes h)(peer := None),
         hs_pending := (hs_pending h)(peer := None)\<rparr>)"

definition insert_with_generation ::
  "string \<Rightarrow> handshake_initiator \<Rightarrow> string option \<Rightarrow> dh_key_pair option \<Rightarrow> nat option \<Rightarrow> u64 \<Rightarrow> u64
    \<Rightarrow> 'a hs_start_scheme \<Rightarrow> u64 \<times> 'a hs_start_scheme" where
  "insert_with_generation peer initiator session_id probe cancellation network sess h =
     (let h1 = (send_cancel_opt (hs_pending_cancellations h peer) h)
                 \<lparr>hs_pending_cancellations := (hs_pending_cancellations h)(peer := None)\<rparr>;
          pending_id = sat_add (hs_next_id h1) 1
      in (pending_id,
          h1\<lparr>hs_next_id := pending_id,
             hs_pending := (hs_pending h1)(peer \<mapsto> initiator),
             hs_pending_session_ids := (hs_pending_session_ids h1)(peer := session_id),
             hs_pending_networks := (hs_pending_networks h1)(peer \<mapsto> network),
             hs_pending_peer_sessions := (hs_pending_peer_sessions h1)(peer \<mapsto> sess),
             hs_pending_probes := (hs_pending_probes h1)(peer := probe),
             hs_pending_ids := (hs_pending_ids h1)(peer \<mapsto> pending_id),
             hs_pending_cancellations :=
               (case cancellation of None \<Rightarrow> hs_pending_cancellations h1
                | Some c \<Rightarrow> (hs_pending_cancellations h1)(peer \<mapsto> c))\<rparr>))"

definition pending_is_current :: "string \<Rightarrow> u64 \<Rightarrow> 'a hs_start_scheme \<Rightarrow> bool" where
  "pending_is_current peer pending_id h \<longleftrightarrow> hs_pending_ids h peer = Some pending_id"

definition remove_if_current :: "string \<Rightarrow> u64 \<Rightarrow> 'a hs_start_scheme \<Rightarrow> bool \<times> 'a hs_start_scheme" where
  "remove_if_current peer pending_id h =
     (if \<not> pending_is_current peer pending_id h then (False, h)
      else (True, snd (hs_remove peer h)))"

definition remove_stale_pending_for_generation ::
  "string \<Rightarrow> u64 \<Rightarrow> u64 \<Rightarrow> 'a hs_start_scheme \<Rightarrow> string option \<times> 'a hs_start_scheme" where
  "remove_stale_pending_for_generation peer network sess h =
     (let is_stale = (case hs_pending_networks h peer of Some g \<Rightarrow> g \<noteq> network | None \<Rightarrow> False)
                   \<or> (case hs_pending_peer_sessions h peer of Some g \<Rightarrow> g \<noteq> sess | None \<Rightarrow> False)
      in if \<not> is_stale then (None, h)
         else (hs_pending_session_ids h peer, snd (hs_remove peer h)))"

section \<open>Reservations\<close>

definition cancel_reservation :: "string \<Rightarrow> 'a hs_start_scheme \<Rightarrow> 'a hs_start_scheme" where
  "cancel_reservation peer h =
     (send_cancel_opt (hs_starting_cancellations h peer) h)
       \<lparr>hs_starting := hs_starting h - {peer},
        hs_starting_networks := (hs_starting_networks h)(peer := None),
        hs_starting_peer_sessions := (hs_starting_peer_sessions h)(peer := None),
        hs_starting_owner_kinds := (hs_starting_owner_kinds h)(peer := None),
        hs_starting_cancel_generations := (hs_starting_cancel_generations h)(peer := None),
        hs_starting_prepared := (hs_starting_prepared h)(peer := None),
        hs_retries := (hs_retries h)(peer := None),
        hs_starting_ids := (hs_starting_ids h)(peer := None),
        hs_starting_cancellations := (hs_starting_cancellations h)(peer := None)\<rparr>"

definition cancel_reservation_if_current ::
  "string \<Rightarrow> u64 \<Rightarrow> 'a hs_start_scheme \<Rightarrow> bool \<times> 'a hs_start_scheme" where
  "cancel_reservation_if_current peer owner h =
     (if hs_starting_ids h peer \<noteq> Some owner then (False, h)
      else (True, cancel_reservation peer h))"

definition retry_still_exact :: "string \<Rightarrow> pending_retry \<Rightarrow> 'a hs_start_scheme \<Rightarrow> bool" where
  "retry_still_exact peer r h \<longleftrightarrow>
     hs_starting_ids h peer = Some (ri_owner (rt_identity r))
     \<and> hs_starting_cancel_generations h peer = Some (ri_cancel_generation (rt_identity r))"

text \<open>The expired retries are collected first, then each is ended.\<close>

definition expire_one :: "pending_retry \<Rightarrow> string \<Rightarrow> 'a hs_start_scheme \<Rightarrow> 'a hs_start_scheme" where
  "expire_one r peer h =
     (if retry_still_exact peer r h then cancel_reservation peer h
      else h\<lparr>hs_retries := (hs_retries h)(peer := None)\<rparr>)"

definition expired_retries :: "instant \<Rightarrow> string list \<Rightarrow> 'a hs_start_scheme \<Rightarrow> (string \<times> pending_retry) list" where
  "expired_retries now order h =
     List.map_filter (\<lambda>peer. case hs_retries h peer of None \<Rightarrow> None
        | Some r \<Rightarrow> if rt_expires_at r \<le> now then Some (peer, r) else None) order"

definition expire_initiator_retries :: "instant \<Rightarrow> string list \<Rightarrow> 'a hs_start_scheme \<Rightarrow> 'a hs_start_scheme" where
  "expire_initiator_retries now order h =
     fold (\<lambda>(peer, r). expire_one r peer) (expired_retries now order h) h"

text \<open>The reservation that stands in the way of a new one: cancelled, or the caller gives up.\<close>

definition clear_starting ::
  "string \<Rightarrow> u64 \<Rightarrow> u64 \<Rightarrow> handshake_owner_kind \<Rightarrow> 'a hs_start_scheme \<Rightarrow> 'a hs_start_scheme option" where
  "clear_starting peer network sess kind h =
     (if peer \<notin> hs_starting h then Some h
      else if hs_starting_networks h peer \<noteq> Some network \<or> hs_starting_peer_sessions h peer \<noteq> Some sess
      then Some (cancel_reservation peer h)
      else if kind = EventInitiatorReserve \<and> hs_starting_owner_kinds h peer = Some MaintenanceInitiator
      then Some (cancel_reservation peer h)
      else if kind = MaintenanceInitiator \<and> hs_retries h peer = None
              \<and> (case hs_starting_cancellations h peer of Some i \<Rightarrow> hs_cells h ! i | None \<Rightarrow> False)
      then Some (cancel_reservation peer h)
      else None)"

definition install_reservation ::
  "string \<Rightarrow> u64 \<Rightarrow> u64 \<Rightarrow> handshake_owner_kind \<Rightarrow> 'a hs_start_scheme
    \<Rightarrow> start_reservation \<times> 'a hs_start_scheme" where
  "install_reservation peer network sess kind h =
     (let owner = sat_add (hs_next_start_id h) 1;
          generation = sat_add (hs_next_cancel_generation h) 1;
          cell = length (hs_cells h)
      in (\<lparr>sr_owner = owner, sr_owner_kind = kind, sr_network = network, sr_peer_session = sess,
            sr_cancel_generation = generation, sr_cancellation = cell,
            sr_disposition = StartActive, sr_retry_phase = None, sr_retry_attempt = 0,
            sr_retry_expires_at = None, sr_stale_session_id = None\<rparr>,
          h\<lparr>hs_next_start_id := owner, hs_next_cancel_generation := generation,
            hs_cells := hs_cells h @ [False],
            hs_starting := insert peer (hs_starting h),
            hs_starting_networks := (hs_starting_networks h)(peer \<mapsto> network),
            hs_starting_peer_sessions := (hs_starting_peer_sessions h)(peer \<mapsto> sess),
            hs_starting_owner_kinds := (hs_starting_owner_kinds h)(peer \<mapsto> kind),
            hs_starting_cancel_generations := (hs_starting_cancel_generations h)(peer \<mapsto> generation),
            hs_starting_ids := (hs_starting_ids h)(peer \<mapsto> owner),
            hs_starting_cancellations := (hs_starting_cancellations h)(peer \<mapsto> cell)\<rparr>))"

definition reserve_start ::
  "instant \<Rightarrow> string list \<Rightarrow> string \<Rightarrow> u64 \<Rightarrow> u64 \<Rightarrow> handshake_owner_kind \<Rightarrow> 'a hs_start_scheme
    \<Rightarrow> start_reservation option \<times> 'a hs_start_scheme" where
  "reserve_start now order peer network sess kind h =
     (if hs_pending h peer \<noteq> None \<and> hs_pending_networks h peer = Some network
         \<and> hs_pending_peer_sessions h peer = Some sess
      then (None, h)
      else
        let h1 = (if hs_pending h peer \<noteq> None then snd (hs_remove peer h) else h);
            h2 = expire_initiator_retries now order h1
        in case clear_starting peer network sess kind h2 of
             None \<Rightarrow> (None, h2)
           | Some h3 \<Rightarrow>
               if hs_pending h3 peer \<noteq> None \<or> peer \<in> hs_starting h3 then (None, h3)
               else (let (r, h4) = install_reservation peer network sess kind h3 in (Some r, h4)))"

definition starting_reservation_is_current :: "string \<Rightarrow> start_reservation \<Rightarrow> 'a hs_start_scheme \<Rightarrow> bool" where
  "starting_reservation_is_current peer r h \<longleftrightarrow>
     hs_starting_ids h peer = Some (sr_owner r)
     \<and> hs_starting_networks h peer = Some (sr_network r)
     \<and> hs_starting_peer_sessions h peer = Some (sr_peer_session r)
     \<and> hs_starting_cancel_generations h peer = Some (sr_cancel_generation r)"

definition store_prepared_if_current ::
  "string \<Rightarrow> start_reservation \<Rightarrow> prepared_initiator \<Rightarrow> 'a hs_start_scheme \<Rightarrow> bool \<times> 'a hs_start_scheme" where
  "store_prepared_if_current peer r prepared h =
     (if \<not> starting_reservation_is_current peer r h then (False, h)
      else (True, h\<lparr>hs_starting_prepared := (hs_starting_prepared h)(peer \<mapsto> prepared)\<rparr>))"

definition take_prepared_if_current ::
  "string \<Rightarrow> start_reservation \<Rightarrow> 'a hs_start_scheme \<Rightarrow> prepared_initiator option \<times> 'a hs_start_scheme" where
  "take_prepared_if_current peer r h =
     (if hs_starting_ids h peer \<noteq> Some (sr_owner r)
         \<or> hs_starting_cancel_generations h peer \<noteq> Some (sr_cancel_generation r)
      then (None, h)
      else (hs_starting_prepared h peer,
            h\<lparr>hs_starting_prepared := (hs_starting_prepared h)(peer := None)\<rparr>))"

definition has_prepared_for_reservation :: "string \<Rightarrow> start_reservation \<Rightarrow> 'a hs_start_scheme \<Rightarrow> bool" where
  "has_prepared_for_reservation peer r h \<longleftrightarrow>
     hs_starting_ids h peer = Some (sr_owner r)
     \<and> hs_starting_cancel_generations h peer = Some (sr_cancel_generation r)
     \<and> hs_starting_prepared h peer \<noteq> None"

text \<open>A prepared reservation becomes a pending transaction and keeps its channel.\<close>

definition insert_reserved_if_current ::
  "string \<Rightarrow> u64 \<Rightarrow> handshake_initiator \<Rightarrow> string option \<Rightarrow> dh_key_pair option \<Rightarrow> u64 \<Rightarrow> u64
    \<Rightarrow> 'a hs_start_scheme \<Rightarrow> u64 option \<times> 'a hs_start_scheme" where
  "insert_reserved_if_current peer owner initiator session_id probe network sess h =
     (if hs_starting_ids h peer \<noteq> Some owner \<or> hs_starting_networks h peer \<noteq> Some network
         \<or> hs_starting_peer_sessions h peer \<noteq> Some sess
      then (None, h)
      else
        let h1 = h\<lparr>hs_starting := hs_starting h - {peer},
                   hs_starting_networks := (hs_starting_networks h)(peer := None),
                   hs_starting_peer_sessions := (hs_starting_peer_sessions h)(peer := None),
                   hs_starting_owner_kinds := (hs_starting_owner_kinds h)(peer := None),
                   hs_starting_cancel_generations := (hs_starting_cancel_generations h)(peer := None),
                   hs_starting_prepared := (hs_starting_prepared h)(peer := None),
                   hs_retries := (hs_retries h)(peer := None),
                   hs_starting_ids := (hs_starting_ids h)(peer := None),
                   hs_starting_cancellations := (hs_starting_cancellations h)(peer := None)\<rparr>;
            (pending_id, h2) = insert_with_generation peer initiator session_id probe
                                 (hs_starting_cancellations h peer) network sess h1
        in (Some pending_id, h2))"

section \<open>Network handover\<close>

text \<open>
  \<open>reserved\<close> and \<open>pending\<close> are the traversals of the two hash maps; the peers below the new
  generation are collected before any of them is removed.
\<close>

definition below_generation :: "u64 \<Rightarrow> (string \<Rightarrow> u64 option) \<Rightarrow> string list \<Rightarrow> string list" where
  "below_generation generation m order =
     filter (\<lambda>peer. case m peer of Some g \<Rightarrow> g < generation | None \<Rightarrow> False) order"

definition cancel_before_network_generation ::
  "u64 \<Rightarrow> string list \<Rightarrow> string list \<Rightarrow> 'a hs_start_scheme
    \<Rightarrow> (nat \<times> nat \<times> (string \<times> string) list) \<times> 'a hs_start_scheme" where
  "cancel_before_network_generation generation reserved pending h =
     (let stale = below_generation generation (hs_starting_networks h) reserved;
          h1 = fold cancel_reservation stale h;
          stale_pending = below_generation generation (hs_pending_networks h1) pending;
          bindings = List.map_filter (\<lambda>peer. case hs_pending_session_ids h1 peer of
                       None \<Rightarrow> None | Some token \<Rightarrow> Some (peer, token)) stale_pending;
          h2 = fold (\<lambda>peer. snd \<circ> hs_remove peer) stale_pending h1
      in ((length stale, length stale_pending, bindings), h2))"

section \<open>Retries\<close>

definition reservation_for_retry :: "retry_identity \<Rightarrow> 'a hs_start_scheme \<Rightarrow> start_reservation option" where
  "reservation_for_retry i h =
     (let peer = ri_peer_id i in
      if hs_starting_ids h peer \<noteq> Some (ri_owner i) \<or> hs_starting_networks h peer \<noteq> Some (ri_network i)
         \<or> hs_starting_peer_sessions h peer \<noteq> Some (ri_peer_session i)
         \<or> hs_starting_cancel_generations h peer \<noteq> Some (ri_cancel_generation i)
      then None
      else (case hs_starting_cancellations h peer of
              None \<Rightarrow> None
            | Some cell \<Rightarrow>
                (case hs_starting_owner_kinds h peer of
                   None \<Rightarrow> None
                 | Some kind \<Rightarrow>
                     Some \<lparr>sr_owner = ri_owner i, sr_owner_kind = kind, sr_network = ri_network i,
                           sr_peer_session = ri_peer_session i,
                           sr_cancel_generation = ri_cancel_generation i, sr_cancellation = cell,
                           sr_disposition = StartActive, sr_retry_phase = None,
                           sr_retry_attempt = 0, sr_retry_expires_at = None,
                           sr_stale_session_id = None\<rparr>)))"

definition retry_backoff :: "u32 \<Rightarrow> duration" where
  "retry_backoff attempt =
     (let i = unat attempt - 1
      in if i < length INITIATOR_RETRY_BACKOFF then INITIATOR_RETRY_BACKOFF ! i
         else last INITIATOR_RETRY_BACKOFF)"

definition matching_retry :: "start_reservation \<Rightarrow> retry_phase \<Rightarrow> pending_retry option \<Rightarrow> pending_retry option" where
  "matching_retry res phase retry =
     (case retry of None \<Rightarrow> None
      | Some r \<Rightarrow>
          if ri_owner (rt_identity r) = sr_owner res \<and> ri_phase (rt_identity r) = phase
             \<and> ri_cancel_generation (rt_identity r) = sr_cancel_generation res
          then Some r else None)"

definition retry_attempt_after :: "start_reservation \<Rightarrow> retry_phase \<Rightarrow> pending_retry option \<Rightarrow> u32" where
  "retry_attempt_after res phase matching =
     (let claimed = (if sr_retry_phase res = Some phase then sr_retry_attempt res else 0);
          previous = max (case matching of Some r \<Rightarrow> ri_attempt (rt_identity r) | None \<Rightarrow> 0) claimed
      in sat_add previous 1)"

definition retry_expiry :: "start_reservation \<Rightarrow> retry_phase \<Rightarrow> pending_retry option \<Rightarrow> instant \<Rightarrow> instant" where
  "retry_expiry res phase matching now =
     (case matching of
        Some r \<Rightarrow> rt_expires_at r
      | None \<Rightarrow>
          (case (if sr_retry_phase res = Some phase then sr_retry_expires_at res else None) of
             Some t \<Rightarrow> t
           | None \<Rightarrow> now + INITIATOR_RETRY_TTL))"

definition schedule_initiator_retry ::
  "string \<Rightarrow> start_reservation \<Rightarrow> retry_phase \<Rightarrow> instant \<Rightarrow> 'a hs_start_scheme
    \<Rightarrow> (retry_identity \<times> u64 \<times> duration) option \<times> 'a hs_start_scheme" where
  "schedule_initiator_retry peer res phase now h =
     (if \<not> starting_reservation_is_current peer res h
         \<or> phase = Publish \<and> hs_starting_prepared h peer = None
      then (None, h)
      else if hs_retries h peer = None \<and> MAX_PENDING_INITIATOR_RETRIES \<le> card (dom (hs_retries h))
      then (None, h)
      else
        let matching = matching_retry res phase (hs_retries h peer);
            attempt = retry_attempt_after res phase matching;
            expires_at = retry_expiry res phase matching now
        in if expires_at \<le> now
           then (None, snd (cancel_reservation_if_current peer (sr_owner res) h))
           else
             let backoff = retry_backoff attempt;
                 i = \<lparr>ri_peer_id = peer, ri_network = sr_network res,
                      ri_peer_session = sr_peer_session res, ri_owner = sr_owner res,
                      ri_phase = phase, ri_attempt = attempt,
                      ri_cancel_generation = sr_cancel_generation res\<rparr>;
                 revision = hs_retry_revision h + 1
             in (Some (i, revision, backoff),
                 h\<lparr>hs_retries := (hs_retries h)(peer \<mapsto>
                     \<lparr>rt_identity = i, rt_not_before = now + backoff, rt_expires_at = expires_at\<rparr>),
                   hs_retry_revision := revision\<rparr>))"

text \<open>\<open>min_by_key\<close> over the ready retries: the first one with the least key.\<close>

definition retry_ready :: "instant \<Rightarrow> 'a hs_start_scheme \<Rightarrow> string \<Rightarrow> bool" where
  "retry_ready now h peer \<longleftrightarrow>
     (case hs_retries h peer of None \<Rightarrow> False
      | Some r \<Rightarrow> rt_not_before r \<le> now \<and> now < rt_expires_at r)"

definition retry_before :: "'a hs_start_scheme \<Rightarrow> string \<Rightarrow> string \<Rightarrow> bool" where
  "retry_before h p q =
     (case (hs_retries h p, hs_retries h q) of
        (Some r, Some s) \<Rightarrow> rt_expires_at r < rt_expires_at s
           \<or> rt_expires_at r = rt_expires_at s \<and> rt_not_before r < rt_not_before s
      | _ \<Rightarrow> False)"

fun first_least :: "('b \<Rightarrow> 'b \<Rightarrow> bool) \<Rightarrow> 'b list \<Rightarrow> 'b option" where
  "first_least before [] = None"
| "first_least before (x # xs) =
     (case first_least before xs of None \<Rightarrow> Some x
      | Some y \<Rightarrow> if before y x then Some y else Some x)"

definition next_ready :: "instant \<Rightarrow> string list \<Rightarrow> 'a hs_start_scheme \<Rightarrow> string option" where
  "next_ready now order h = first_least (retry_before h) (filter (retry_ready now h) order)"

lemma first_least_in: "first_least before xs = Some x \<Longrightarrow> x \<in> set xs"
  by (induction xs) (auto split: option.splits if_splits)

lemma next_ready_in: "next_ready now order h = Some p \<Longrightarrow> p \<in> set order \<and> retry_ready now h p"
  using first_least_in unfolding next_ready_def by fastforce

function claim_loop ::
  "instant \<Rightarrow> string list \<Rightarrow> 'a hs_start_scheme
    \<Rightarrow> (retry_identity \<times> start_reservation) option \<times> 'a hs_start_scheme" where
  "claim_loop now order h =
     (case next_ready now order h of
        None \<Rightarrow> (None, h)
      | Some peer \<Rightarrow>
          (case hs_retries h peer of
             None \<Rightarrow> (None, h)
           | Some retry \<Rightarrow>
               let h1 = h\<lparr>hs_retries := (hs_retries h)(peer := None)\<rparr>
               in (case reservation_for_retry (rt_identity retry) h1 of
                     None \<Rightarrow> claim_loop now (removeAll peer order)
                              (snd (cancel_reservation_if_current peer (ri_owner (rt_identity retry)) h1))
                   | Some res \<Rightarrow>
                       (Some (rt_identity retry,
                              res\<lparr>sr_retry_phase := Some (ri_phase (rt_identity retry)),
                                  sr_retry_attempt := ri_attempt (rt_identity retry),
                                  sr_retry_expires_at := Some (rt_expires_at retry)\<rparr>),
                        h1))))"
  by pat_completeness auto
termination
  by (relation "measure (\<lambda>(now, order, h). length order)")
    (auto dest!: next_ready_in intro: length_removeAll_less)

definition claim_ready_initiator_retry ::
  "instant \<Rightarrow> string list \<Rightarrow> 'a hs_start_scheme
    \<Rightarrow> (retry_identity \<times> start_reservation) option \<times> 'a hs_start_scheme" where
  "claim_ready_initiator_retry now order h =
     claim_loop now order (expire_initiator_retries now order h)"

declare claim_loop.simps [simp del]

definition hs_start_new :: hs_start where
  "hs_start_new =
     \<lparr>hs_pending = Map.empty, hs_pending_session_ids = Map.empty, hs_pending_networks = Map.empty,
      hs_pending_peer_sessions = Map.empty, hs_pending_probes = Map.empty, hs_starting = {},
      hs_starting_networks = Map.empty, hs_starting_peer_sessions = Map.empty,
      hs_starting_owner_kinds = Map.empty, hs_starting_cancel_generations = Map.empty,
      hs_starting_prepared = Map.empty, hs_starting_ids = Map.empty,
      hs_starting_cancellations = Map.empty, hs_retries = Map.empty,
      hs_pending_cancellations = Map.empty, hs_next_start_id = 0, hs_next_cancel_generation = 0,
      hs_retry_revision = 0, hs_pending_ids = Map.empty, hs_next_id = 0, hs_cells = []\<rparr>"

end
