(* ===== verification/Hs_Start_Props.thy ===== *)
theory Hs_Start_Props
  imports Hs_Start
begin

text \<open>
  The bookkeeping of initiators stays consistent under every sequence of operations, whatever
  reservations the tasks present: the maps of a reservation and of a transaction have one domain
  each, a peer has at most one of the two, and a channel is uncancelled exactly when it is the
  one of a current reservation or transaction.
\<close>

section \<open>Channels\<close>

definition channels_ok :: "bool list \<Rightarrow> (string \<Rightarrow> nat option) \<Rightarrow> bool" where
  "channels_ok cells ch \<longleftrightarrow>
     (\<forall>i. (i < length cells \<and> \<not> cells ! i) \<longleftrightarrow> (\<exists>p. ch p = Some i))
     \<and> (\<forall>p q i. ch p = Some i \<longrightarrow> ch q = Some i \<longrightarrow> p = q)"

lemma channels_live: "channels_ok cells ch \<Longrightarrow> ch p = Some i \<Longrightarrow> i < length cells \<and> \<not> cells ! i"
  unfolding channels_ok_def by blast

lemma channels_drop:
  assumes ok: "channels_ok cells ch" and p: "ch p = Some i"
  shows "channels_ok (cells[i := True]) (ch(p := None))"
  unfolding channels_ok_def
proof (intro conjI allI impI)
  fix j
  have uniq: "q = p" if "ch q = Some i" for q using ok p that unfolding channels_ok_def by blast
  have "(j < length cells \<and> \<not> cells ! j) \<longleftrightarrow> (\<exists>q. ch q = Some j)"
    using ok unfolding channels_ok_def by blast
  moreover have "(\<exists>q. (ch(p := None)) q = Some j) \<longleftrightarrow> j \<noteq> i \<and> (\<exists>q. ch q = Some j)"
  proof
    assume "\<exists>q. (ch(p := None)) q = Some j"
    then obtain q where "q \<noteq> p" "ch q = Some j" by (auto split: if_splits)
    then show "j \<noteq> i \<and> (\<exists>q. ch q = Some j)" using uniq by auto
  next
    assume "j \<noteq> i \<and> (\<exists>q. ch q = Some j)"
    then obtain q where "j \<noteq> i" "ch q = Some j" by blast
    then have "(ch(p := None)) q = Some j" using p by (cases "q = p") auto
    then show "\<exists>q. (ch(p := None)) q = Some j" ..
  qed
  ultimately show "(j < length (cells[i := True]) \<and> \<not> cells[i := True] ! j) \<longleftrightarrow> (\<exists>q. (ch(p := None)) q = Some j)"
    using channels_live [OF ok p] by (cases "j = i") simp_all
next
  fix q r j assume "(ch(p := None)) q = Some j" "(ch(p := None)) r = Some j"
  then show "q = r" using ok unfolding channels_ok_def by (auto split: if_splits)
qed

lemma channels_add:
  assumes ok: "channels_ok cells ch" and p: "ch p = None"
  shows "channels_ok (cells @ [False]) (ch(p \<mapsto> length cells))"
  unfolding channels_ok_def
proof (intro conjI allI impI)
  fix j
  have fresh: "ch q \<noteq> Some (length cells)" for q using channels_live [OF ok, of q] by auto
  have "(j < length cells \<and> \<not> cells ! j) \<longleftrightarrow> (\<exists>q. ch q = Some j)"
    using ok unfolding channels_ok_def by blast
  moreover have "(\<exists>q. (ch(p \<mapsto> length cells)) q = Some j) \<longleftrightarrow> j = length cells \<or> (\<exists>q. ch q = Some j)"
    using p by (auto split: if_splits) (metis option.distinct(1))
  ultimately show "(j < length (cells @ [False]) \<and> \<not> (cells @ [False]) ! j)
      \<longleftrightarrow> (\<exists>q. (ch(p \<mapsto> length cells)) q = Some j)"
    using fresh by (cases "j < length cells") (auto simp: nth_append)
next
  fix q r j
  have fresh: "ch q \<noteq> Some (length cells)" for q using channels_live [OF ok, of q] by auto
  assume "(ch(p \<mapsto> length cells)) q = Some j" "(ch(p \<mapsto> length cells)) r = Some j"
  then show "q = r" using ok fresh unfolding channels_ok_def by (auto split: if_splits)
qed

primrec or_else :: "'a option \<Rightarrow> 'a option \<Rightarrow> 'a option" where
  "or_else None y = y"
| "or_else (Some x) y = Some x"

definition hs_channel :: "'a hs_start_scheme \<Rightarrow> string \<Rightarrow> nat option" where
  "hs_channel h p = or_else (hs_starting_cancellations h p) (hs_pending_cancellations h p)"

section \<open>The invariant\<close>

definition starting_aligned :: "'a hs_start_scheme \<Rightarrow> bool" where
  "starting_aligned h \<longleftrightarrow>
     dom (hs_starting_networks h) = hs_starting h \<and> dom (hs_starting_peer_sessions h) = hs_starting h
     \<and> dom (hs_starting_owner_kinds h) = hs_starting h
     \<and> dom (hs_starting_cancel_generations h) = hs_starting h
     \<and> dom (hs_starting_ids h) = hs_starting h \<and> dom (hs_starting_cancellations h) = hs_starting h
     \<and> dom (hs_starting_prepared h) \<subseteq> hs_starting h"

definition pending_aligned :: "'a hs_start_scheme \<Rightarrow> bool" where
  "pending_aligned h \<longleftrightarrow>
     dom (hs_pending_networks h) = dom (hs_pending h)
     \<and> dom (hs_pending_peer_sessions h) = dom (hs_pending h)
     \<and> dom (hs_pending_ids h) = dom (hs_pending h)
     \<and> dom (hs_pending_cancellations h) = dom (hs_pending h)
     \<and> dom (hs_pending_session_ids h) \<subseteq> dom (hs_pending h)
     \<and> dom (hs_pending_probes h) \<subseteq> dom (hs_pending h)"

definition retry_exact :: "'a hs_start_scheme \<Rightarrow> string \<Rightarrow> pending_retry \<Rightarrow> bool" where
  "retry_exact h p r \<longleftrightarrow>
     ri_peer_id (rt_identity r) = p
     \<and> hs_starting_ids h p = Some (ri_owner (rt_identity r))
     \<and> hs_starting_networks h p = Some (ri_network (rt_identity r))
     \<and> hs_starting_peer_sessions h p = Some (ri_peer_session (rt_identity r))
     \<and> hs_starting_cancel_generations h p = Some (ri_cancel_generation (rt_identity r))"

definition retries_ok :: "'a hs_start_scheme \<Rightarrow> bool" where
  "retries_ok h \<longleftrightarrow> finite (dom (hs_retries h)) \<and> card (dom (hs_retries h)) \<le> MAX_PENDING_INITIATOR_RETRIES
     \<and> (\<forall>p r. hs_retries h p = Some r \<longrightarrow> retry_exact h p r)"

definition hs_inv :: "'a hs_start_scheme \<Rightarrow> bool" where
  "hs_inv h \<longleftrightarrow> starting_aligned h \<and> pending_aligned h \<and> hs_starting h \<inter> dom (hs_pending h) = {}
     \<and> retries_ok h \<and> channels_ok (hs_cells h) (hs_channel h)"

lemma hs_inv_new: "hs_inv hs_start_new"
  by (simp add: hs_inv_def hs_start_new_def starting_aligned_def pending_aligned_def retries_ok_def
      channels_ok_def hs_channel_def)

lemma send_cancel_opt_simps [simp]:
  "send_cancel_opt None h = h"
  "send_cancel_opt (Some i) h = h\<lparr>hs_cells := (hs_cells h)[i := True]\<rparr>"
  by (simp_all add: send_cancel_opt_def send_cancel_def)

text \<open>A peer without a reservation has nothing to cancel, a peer without a transaction nothing to remove.\<close>

lemma dom_NoneI: "dom m = A \<Longrightarrow> x \<notin> A \<Longrightarrow> m x = None"
  by auto

lemma dom_subset_NoneI: "dom m \<subseteq> A \<Longrightarrow> x \<notin> A \<Longrightarrow> m x = None"
  by auto

lemma starting_absent:
  assumes "hs_inv h" and "p \<notin> hs_starting h"
  shows "hs_starting_networks h p = None" "hs_starting_peer_sessions h p = None"
    "hs_starting_owner_kinds h p = None" "hs_starting_cancel_generations h p = None"
    "hs_starting_ids h p = None" "hs_starting_cancellations h p = None"
    "hs_starting_prepared h p = None" "hs_retries h p = None"
proof -
  note a = assms(1) [unfolded hs_inv_def starting_aligned_def]
  show i: "hs_starting_ids h p = None" using a assms(2) by (auto intro!: dom_NoneI [of _ "hs_starting h"])
  show "hs_starting_networks h p = None" "hs_starting_peer_sessions h p = None"
    "hs_starting_owner_kinds h p = None" "hs_starting_cancel_generations h p = None"
    "hs_starting_cancellations h p = None"
    using a assms(2) by (auto intro!: dom_NoneI [of _ "hs_starting h"])
  show "hs_starting_prepared h p = None" using a assms(2) by (auto intro!: dom_subset_NoneI [of _ "hs_starting h"])
  show "hs_retries h p = None"
    using assms(1) i by (cases "hs_retries h p") (auto simp: hs_inv_def retries_ok_def retry_exact_def)
qed

lemma pending_absent:
  assumes "hs_inv h" and "hs_pending h p = None"
  shows "hs_pending_networks h p = None" "hs_pending_peer_sessions h p = None" "hs_pending_ids h p = None"
    "hs_pending_cancellations h p = None" "hs_pending_session_ids h p = None" "hs_pending_probes h p = None"
proof -
  have "p \<notin> dom (hs_pending h)" using assms(2) by auto
  then show "hs_pending_networks h p = None" "hs_pending_peer_sessions h p = None" "hs_pending_ids h p = None"
      "hs_pending_cancellations h p = None" "hs_pending_session_ids h p = None" "hs_pending_probes h p = None"
    using assms(1) unfolding hs_inv_def pending_aligned_def
    by (auto intro!: dom_NoneI [of _ "dom (hs_pending h)"] dom_subset_NoneI [of _ "dom (hs_pending h)"])
qed

lemma cancel_reservation_absent:
  "hs_inv h \<Longrightarrow> p \<notin> hs_starting h \<Longrightarrow> cancel_reservation p h = h"
  using starting_absent [of h p] by (simp add: cancel_reservation_def fun_upd_idem)

lemma hs_remove_absent: "hs_inv h \<Longrightarrow> hs_pending h p = None \<Longrightarrow> snd (hs_remove p h) = h"
  using pending_absent [of h p] by (simp add: hs_remove_def fun_upd_idem)

lemma retries_drop:
  assumes "retries_ok h"
  shows "finite (dom ((hs_retries h)(p := None)))
    \<and> card (dom ((hs_retries h)(p := None))) \<le> MAX_PENDING_INITIATOR_RETRIES"
proof -
  have "card (dom (hs_retries h) - {p}) \<le> card (dom (hs_retries h))"
    using assms by (intro card_mono) (auto simp: retries_ok_def)
  then show ?thesis using assms by (auto simp: retries_ok_def)
qed

lemma inv_cancel_reservation:
  assumes inv: "hs_inv h"
  shows "hs_inv (cancel_reservation p h)"
proof (cases "p \<in> hs_starting h")
  case False
  then show ?thesis using cancel_reservation_absent inv by metis
next
  case True
  let ?h = "cancel_reservation p h"
  have "p \<in> dom (hs_starting_cancellations h)"
    using True inv by (simp add: hs_inv_def starting_aligned_def)
  then obtain i where i: "hs_starting_cancellations h p = Some i" by auto
  have "hs_pending h p = None" using True inv by (auto simp: hs_inv_def)
  then have pend: "hs_pending_cancellations h p = None" by (rule pending_absent [OF inv])
  have "hs_channel ?h = (hs_channel h)(p := None)"
    by (rule ext) (simp add: hs_channel_def cancel_reservation_def pend i)
  moreover have "hs_cells ?h = (hs_cells h)[i := True]" by (simp add: cancel_reservation_def i)
  moreover have "hs_channel h p = Some i" by (simp add: hs_channel_def i)
  ultimately have ch: "channels_ok (hs_cells ?h) (hs_channel ?h)"
    using channels_drop inv by (simp add: hs_inv_def)
  have "retries_ok h" using inv by (simp add: hs_inv_def)
  from retries_drop [OF this, of p] this have "retries_ok ?h"
    by (auto simp: retries_ok_def cancel_reservation_def i retry_exact_def)
  then show ?thesis
    using inv ch
    by (auto simp: hs_inv_def starting_aligned_def pending_aligned_def cancel_reservation_def i)
qed

lemma inv_remove:
  assumes inv: "hs_inv h"
  shows "hs_inv (snd (hs_remove p h))"
proof (cases "hs_pending h p")
  case None
  then show ?thesis using hs_remove_absent inv by metis
next
  case (Some ini)
  let ?h = "snd (hs_remove p h)"
  have pd: "p \<in> dom (hs_pending h)" using Some by auto
  then have "p \<in> dom (hs_pending_cancellations h)"
    using inv by (simp add: hs_inv_def pending_aligned_def)
  then obtain i where i: "hs_pending_cancellations h p = Some i" by auto
  have "p \<notin> hs_starting h" using pd inv by (auto simp: hs_inv_def)
  then have start: "hs_starting_cancellations h p = None" by (rule starting_absent [OF inv])
  have "hs_channel ?h = (hs_channel h)(p := None)"
    by (rule ext) (simp add: hs_channel_def hs_remove_def start i)
  moreover have "hs_cells ?h = (hs_cells h)[i := True]" by (simp add: hs_remove_def i)
  moreover have "hs_channel h p = Some i" by (simp add: hs_channel_def i start)
  ultimately have ch: "channels_ok (hs_cells ?h) (hs_channel ?h)"
    using channels_drop inv by (simp add: hs_inv_def)
  show ?thesis
    using inv ch
    by (auto simp: hs_inv_def starting_aligned_def pending_aligned_def retries_ok_def retry_exact_def
        hs_remove_def i)
qed

lemma inv_drop_retry:
  assumes "hs_inv h"
  shows "hs_inv (h\<lparr>hs_retries := (hs_retries h)(p := None)\<rparr>)"
proof -
  have "retries_ok h" using assms by (simp add: hs_inv_def)
  from retries_drop [OF this, of p] this show ?thesis
    using assms by (auto simp: hs_inv_def starting_aligned_def pending_aligned_def retries_ok_def
        retry_exact_def hs_channel_def [abs_def])
qed

lemma inv_expire_one: "hs_inv h \<Longrightarrow> hs_inv (expire_one r p h)"
  using inv_cancel_reservation [of h p] inv_drop_retry [of h p] by (simp add: expire_one_def)

lemma fold_inv: "(\<And>x h. P h \<Longrightarrow> P (f x h)) \<Longrightarrow> P h \<Longrightarrow> P (fold f xs h)"
  by (induction xs arbitrary: h) auto

lemma inv_expire: "hs_inv h \<Longrightarrow> hs_inv (expire_initiator_retries now order h)"
  unfolding expire_initiator_retries_def by (rule fold_inv) (auto intro: inv_expire_one)

lemma inv_install:
  assumes inv: "hs_inv h" and p: "p \<notin> hs_starting h" "hs_pending h p = None"
  shows "hs_inv (snd (install_reservation p network sess kind h))"
proof -
  let ?h = "snd (install_reservation p network sess kind h)"
  have none: "hs_starting_cancellations h p = None" "hs_pending_cancellations h p = None"
    using starting_absent [OF inv p(1)] pending_absent [OF inv p(2)] by simp_all
  have "hs_channel ?h = (hs_channel h)(p \<mapsto> length (hs_cells h))"
    by (rule ext) (simp add: hs_channel_def install_reservation_def Let_def)
  moreover have "hs_cells ?h = hs_cells h @ [False]" by (simp add: install_reservation_def Let_def)
  moreover have "hs_channel h p = None" by (simp add: hs_channel_def none)
  ultimately have ch: "channels_ok (hs_cells ?h) (hs_channel ?h)"
    using channels_add inv by (simp add: hs_inv_def)
  have "hs_retries h p = None" by (rule starting_absent [OF inv p(1)])
  then have "retries_ok ?h"
    using inv by (auto simp: hs_inv_def retries_ok_def retry_exact_def install_reservation_def Let_def)
  then show ?thesis
    using inv ch p
    by (auto simp: hs_inv_def starting_aligned_def pending_aligned_def install_reservation_def Let_def)
qed

lemma inv_clear_starting: "hs_inv h \<Longrightarrow> clear_starting p network sess kind h = Some h' \<Longrightarrow> hs_inv h'"
  using inv_cancel_reservation [of h p] by (auto simp: clear_starting_def split: if_splits)

lemma inv_reserve:
  assumes "hs_inv h"
  shows "hs_inv (snd (reserve_start now order p network sess kind h))"
proof -
  let ?h2 = "expire_initiator_retries now order (if hs_pending h p \<noteq> None then snd (hs_remove p h) else h)"
  have inv2: "hs_inv ?h2" using assms inv_remove by (intro inv_expire) auto
  show ?thesis
  proof (cases "clear_starting p network sess kind ?h2")
    case None
    then show ?thesis using assms inv2 by (simp add: reserve_start_def Let_def)
  next
    case (Some h3)
    have "hs_inv h3" by (rule inv_clear_starting [OF inv2 Some])
    moreover from this have "hs_inv (snd (install_reservation p network sess kind h3))"
      if "p \<notin> hs_starting h3" "hs_pending h3 p = None" using inv_install that by blast
    ultimately show ?thesis
      using assms Some
      by (cases "install_reservation p network sess kind h3") (auto simp: reserve_start_def Let_def)
  qed
qed

lemma inv_prepared:
  assumes inv: "hs_inv h" and p: "p \<in> hs_starting h"
  shows "hs_inv (h\<lparr>hs_starting_prepared := (hs_starting_prepared h)(p := x)\<rparr>)" (is "hs_inv ?h")
proof -
  have "starting_aligned ?h"
    using inv p by (cases x) (auto simp: hs_inv_def starting_aligned_def)
  moreover have "pending_aligned ?h" "hs_starting ?h \<inter> dom (hs_pending ?h) = {}" "retries_ok ?h"
      "channels_ok (hs_cells ?h) (hs_channel ?h)"
    using inv by (simp_all add: hs_inv_def pending_aligned_def retries_ok_def retry_exact_def hs_channel_def [abs_def])
  ultimately show ?thesis by (simp add: hs_inv_def)
qed

lemma current_starting: "hs_inv h \<Longrightarrow> hs_starting_ids h p = Some x \<Longrightarrow> p \<in> hs_starting h"
  using starting_absent(5) [of h p] by fastforce

lemma inv_store: "hs_inv h \<Longrightarrow> hs_inv (snd (store_prepared_if_current p r prepared h))"
  using inv_prepared [of h p] current_starting
  by (auto simp: store_prepared_if_current_def starting_reservation_is_current_def)

lemma inv_take: "hs_inv h \<Longrightarrow> hs_inv (snd (take_prepared_if_current p r h))"
  using inv_prepared [of h p] current_starting by (auto simp: take_prepared_if_current_def)

lemma inv_insert_reserved:
  assumes inv: "hs_inv h"
  shows "hs_inv (snd (insert_reserved_if_current p owner ini session_id probe network sess h))"
proof (cases "hs_starting_ids h p = Some owner \<and> hs_starting_networks h p = Some network
    \<and> hs_starting_peer_sessions h p = Some sess")
  case False
  then have "insert_reserved_if_current p owner ini session_id probe network sess h = (None, h)"
    by (simp only: insert_reserved_if_current_def if_True HOL.de_Morgan_conj [symmetric] not_not) auto
  then show ?thesis using inv by simp
next
  case True
  let ?h = "snd (insert_reserved_if_current p owner ini session_id probe network sess h)"
  have p: "p \<in> hs_starting h" using True starting_absent [OF inv, of p] by force
  then have "p \<in> dom (hs_starting_cancellations h)"
    using inv by (simp add: hs_inv_def starting_aligned_def)
  then obtain i where i: "hs_starting_cancellations h p = Some i" by auto
  have "hs_pending h p = None" using p inv by (auto simp: hs_inv_def)
  note none = pending_absent [OF inv this]
  have "hs_channel ?h = hs_channel h" "hs_cells ?h = hs_cells h"
    by (simp_all add: fun_eq_iff hs_channel_def insert_reserved_if_current_def True i insert_with_generation_def
        Let_def none)
  moreover have "retries_ok ?h"
  proof -
    have "retries_ok h" using inv by (simp add: hs_inv_def)
    from retries_drop [OF this, of p] this show ?thesis
      by (auto simp: retries_ok_def insert_reserved_if_current_def True i retry_exact_def
          insert_with_generation_def Let_def none)
  qed
  moreover have "starting_aligned ?h"
    using inv by (auto simp: hs_inv_def starting_aligned_def insert_reserved_if_current_def True
        insert_with_generation_def Let_def none)
  moreover have "pending_aligned ?h"
  proof -
    have sub: "A - {p} \<subseteq> insert p B" "A \<subseteq> insert p B" if "A \<subseteq> B" for A B :: "string set"
      using that by auto
    show ?thesis
      using inv sub by (simp add: hs_inv_def pending_aligned_def insert_reserved_if_current_def True i
          insert_with_generation_def Let_def none)
  qed
  moreover have "hs_starting ?h \<inter> dom (hs_pending ?h) = {}"
    using inv by (auto simp: hs_inv_def insert_reserved_if_current_def True insert_with_generation_def Let_def none)
  ultimately show ?thesis using inv by (simp add: hs_inv_def)
qed

lemma inv_schedule:
  assumes inv: "hs_inv h"
  shows "hs_inv (snd (schedule_initiator_retry p res phase now h))"
proof -
  have update: "hs_inv (h\<lparr>hs_retries := (hs_retries h)(p \<mapsto> r), hs_retry_revision := v\<rparr>)"
    if exact: "retry_exact h p r" and room: "hs_retries h p \<noteq> None
        \<or> card (dom (hs_retries h)) < MAX_PENDING_INITIATOR_RETRIES" for r v
  proof -
    have fin: "finite (dom (hs_retries h))" "card (dom (hs_retries h)) \<le> MAX_PENDING_INITIATOR_RETRIES"
      using inv by (simp_all add: hs_inv_def retries_ok_def)
    have "card (insert p (dom (hs_retries h))) \<le> MAX_PENDING_INITIATOR_RETRIES"
      using fin room by (cases "p \<in> dom (hs_retries h)") (auto simp: insert_absorb)
    then have "retries_ok (h\<lparr>hs_retries := (hs_retries h)(p \<mapsto> r), hs_retry_revision := v\<rparr>)"
      using inv exact by (simp add: hs_inv_def retries_ok_def retry_exact_def)
    then show ?thesis
      using inv by (simp add: hs_inv_def starting_aligned_def pending_aligned_def hs_channel_def [abs_def])
  qed
  show ?thesis
    using inv inv_cancel_reservation [OF inv, of p] update
    by (simp add: schedule_initiator_retry_def cancel_reservation_if_current_def Let_def retry_exact_def
        starting_reservation_is_current_def not_le)
qed

lemma inv_cancel_if_current: "hs_inv h \<Longrightarrow> hs_inv (snd (cancel_reservation_if_current p owner h))"
  using inv_cancel_reservation by (auto simp: cancel_reservation_if_current_def)

lemma inv_claim_loop: "hs_inv h \<Longrightarrow> hs_inv (snd (claim_loop now order h))"
proof (induction now order h rule: claim_loop.induct)
  case (1 now order h)
  show ?case
  proof (cases "next_ready now order h")
    case None
    then show ?thesis using 1 by (simp add: claim_loop.simps)
  next
    case (Some p)
    then obtain r where r: "hs_retries h p = Some r"
      using next_ready_in [OF Some] by (auto simp: retry_ready_def split: option.splits)
    let ?h = "h\<lparr>hs_retries := (hs_retries h)(p := None)\<rparr>"
    have inv: "hs_inv ?h" by (rule inv_drop_retry [OF 1(2)])
    show ?thesis
    proof (cases "reservation_for_retry (rt_identity r) ?h")
      case None
      then show ?thesis
        using 1(1) [OF Some r refl None] inv_cancel_if_current [OF inv] Some r
        by (subst claim_loop.simps) simp
    next
      case (Some res)
      then show ?thesis using inv \<open>next_ready now order h = Some p\<close> r by (subst claim_loop.simps) simp
    qed
  qed
qed

lemma inv_claim: "hs_inv h \<Longrightarrow> hs_inv (snd (claim_ready_initiator_retry now order h))"
  unfolding claim_ready_initiator_retry_def by (rule inv_claim_loop [OF inv_expire])

lemma inv_handover:
  assumes "hs_inv h"
  shows "hs_inv (snd (cancel_before_network_generation generation reserved pend h))"
proof -
  have c: "hs_inv (fold cancel_reservation ps h)" for ps :: "string list"
    by (rule fold_inv [where P = hs_inv, OF inv_cancel_reservation assms])
  have "hs_inv (fold (\<lambda>p. snd \<circ> hs_remove p) ps (fold cancel_reservation qs h))" for ps qs :: "string list"
    by (rule fold_inv [where P = hs_inv]) (simp_all add: inv_remove c)
  then show ?thesis by (simp add: cancel_before_network_generation_def Let_def)
qed

section \<open>Every run\<close>

datatype hs_op =
    ReserveStart instant "string list" string u64 u64 handshake_owner_kind
  | StorePrepared string start_reservation prepared_initiator
  | TakePrepared string start_reservation
  | InsertReserved string u64 handshake_initiator "string option" "dh_key_pair option" u64 u64
  | CancelReservation string
  | CancelReservationIfCurrent string u64
  | RemovePending string
  | RemoveIfCurrent string u64
  | RemoveStale string u64 u64
  | ScheduleRetry string start_reservation retry_phase instant
  | ClaimRetry instant "string list"
  | NetworkHandover u64 "string list" "string list"

fun hs_do :: "hs_op \<Rightarrow> hs_start \<Rightarrow> hs_start" where
  "hs_do (ReserveStart now order p network sess kind) h = snd (reserve_start now order p network sess kind h)"
| "hs_do (StorePrepared p r prepared) h = snd (store_prepared_if_current p r prepared h)"
| "hs_do (TakePrepared p r) h = snd (take_prepared_if_current p r h)"
| "hs_do (InsertReserved p owner ini session_id probe network sess) h =
     snd (insert_reserved_if_current p owner ini session_id probe network sess h)"
| "hs_do (CancelReservation p) h = cancel_reservation p h"
| "hs_do (CancelReservationIfCurrent p owner) h = snd (cancel_reservation_if_current p owner h)"
| "hs_do (RemovePending p) h = snd (hs_remove p h)"
| "hs_do (RemoveIfCurrent p i) h = snd (remove_if_current p i h)"
| "hs_do (RemoveStale p network sess) h = snd (remove_stale_pending_for_generation p network sess h)"
| "hs_do (ScheduleRetry p r phase now) h = snd (schedule_initiator_retry p r phase now h)"
| "hs_do (ClaimRetry now order) h = snd (claim_ready_initiator_retry now order h)"
| "hs_do (NetworkHandover g reserved pend) h = snd (cancel_before_network_generation g reserved pend h)"

lemma hs_do_inv: "hs_inv h \<Longrightarrow> hs_inv (hs_do x h)"
  by (cases x) (simp_all add: inv_reserve inv_store inv_take inv_insert_reserved inv_cancel_reservation
      inv_cancel_if_current inv_remove inv_schedule inv_claim inv_handover remove_if_current_def
      remove_stale_pending_for_generation_def Let_def)

lemma hs_reachable: "hs_inv (fold hs_do ops hs_start_new)"
  by (rule fold_inv [where P = hs_inv, OF hs_do_inv hs_inv_new])

text \<open>
  C23: Whatever operations run and whatever reservations they present: a peer has at most one of
  a reservation and a transaction, an uncancelled channel is the channel of exactly one peer and
  every current reservation or transaction has one, every scheduled retry still has its
  reservation, and at most 1024 retries wait.
\<close>
theorem handshake_one_attempt_per_peer:
  assumes "h = fold hs_do ops hs_start_new"
  shows "hs_starting h \<inter> dom (hs_pending h) = {}
    \<and> (\<forall>i < length (hs_cells h). \<not> hs_cells h ! i \<longleftrightarrow> (\<exists>!p. hs_channel h p = Some i))
    \<and> (\<forall>p. hs_channel h p \<noteq> None \<longleftrightarrow> p \<in> hs_starting h \<or> p \<in> dom (hs_pending h))
    \<and> (\<forall>p r. hs_retries h p = Some r \<longrightarrow> reservation_for_retry (rt_identity r) h \<noteq> None)
    \<and> card (dom (hs_retries h)) \<le> MAX_PENDING_INITIATOR_RETRIES"
proof -
  have inv: "hs_inv h" unfolding assms by (rule hs_reachable)
  then have ch: "channels_ok (hs_cells h) (hs_channel h)" by (simp add: hs_inv_def)
  have "(\<not> hs_cells h ! i) \<longleftrightarrow> (\<exists>!p. hs_channel h p = Some i)" if "i < length (hs_cells h)" for i
    using ch that unfolding channels_ok_def by metis
  moreover have "hs_channel h p \<noteq> None \<longleftrightarrow> p \<in> hs_starting h \<or> p \<in> dom (hs_pending h)" for p
  proof -
    have "dom (hs_starting_cancellations h) = hs_starting h" "dom (hs_pending_cancellations h) = dom (hs_pending h)"
      using inv by (simp_all add: hs_inv_def starting_aligned_def pending_aligned_def)
    then show ?thesis by (cases "hs_starting_cancellations h p") (auto simp: hs_channel_def)
  qed
  moreover have "reservation_for_retry (rt_identity r) h \<noteq> None" if r: "hs_retries h p = Some r" for p r
  proof -
    have e: "retry_exact h p r" using inv r by (simp add: hs_inv_def retries_ok_def)
    then have "p \<in> hs_starting h" using current_starting [OF inv] by (auto simp: retry_exact_def)
    then have "p \<in> dom (hs_starting_cancellations h)" "p \<in> dom (hs_starting_owner_kinds h)"
      using inv by (simp_all add: hs_inv_def starting_aligned_def)
    then show ?thesis using e by (auto simp: retry_exact_def reservation_for_retry_def Let_def)
  qed
  ultimately show ?thesis using inv by (simp add: hs_inv_def retries_ok_def)
qed

section \<open>A network handover\<close>

lemma cancel_reservations_step:
  "hs_starting_networks (cancel_reservation x h) = (hs_starting_networks h)(x := None)"
  "hs_starting_ids (cancel_reservation x h) = (hs_starting_ids h)(x := None)"
  "hs_starting_cancellations (cancel_reservation x h) = (hs_starting_cancellations h)(x := None)"
  "hs_pending_networks (cancel_reservation x h) = hs_pending_networks h"
  "hs_pending_session_ids (cancel_reservation x h) = hs_pending_session_ids h"
  "hs_pending_ids (cancel_reservation x h) = hs_pending_ids h"
  "hs_pending_cancellations (cancel_reservation x h) = hs_pending_cancellations h"
  "length (hs_cells (cancel_reservation x h)) = length (hs_cells h)"
  by (cases "hs_starting_cancellations h x"; simp add: cancel_reservation_def)+

lemma cancel_reservations_fields:
  "hs_starting_networks (fold cancel_reservation ps h) p = (if p \<in> set ps then None else hs_starting_networks h p)"
  "hs_starting_ids (fold cancel_reservation ps h) p = (if p \<in> set ps then None else hs_starting_ids h p)"
  "hs_starting_cancellations (fold cancel_reservation ps h) p = (if p \<in> set ps then None else hs_starting_cancellations h p)"
  "hs_pending_networks (fold cancel_reservation ps h) = hs_pending_networks h"
  "hs_pending_session_ids (fold cancel_reservation ps h) = hs_pending_session_ids h"
  "hs_pending_ids (fold cancel_reservation ps h) = hs_pending_ids h"
  "hs_pending_cancellations (fold cancel_reservation ps h) = hs_pending_cancellations h"
  "length (hs_cells (fold cancel_reservation ps h)) = length (hs_cells h)"
  by (induction ps arbitrary: h) (simp_all add: cancel_reservations_step)

lemma removes_step:
  "hs_pending_networks (snd (hs_remove x h)) = (hs_pending_networks h)(x := None)"
  "hs_pending_ids (snd (hs_remove x h)) = (hs_pending_ids h)(x := None)"
  "hs_pending_cancellations (snd (hs_remove x h)) = (hs_pending_cancellations h)(x := None)"
  "hs_starting_networks (snd (hs_remove x h)) = hs_starting_networks h"
  "hs_starting_ids (snd (hs_remove x h)) = hs_starting_ids h"
  "hs_starting_cancellations (snd (hs_remove x h)) = hs_starting_cancellations h"
  "length (hs_cells (snd (hs_remove x h))) = length (hs_cells h)"
  by (cases "hs_pending_cancellations h x"; simp add: hs_remove_def)+

lemma removes_fields:
  "hs_pending_networks (fold (\<lambda>p. snd \<circ> hs_remove p) ps h) p = (if p \<in> set ps then None else hs_pending_networks h p)"
  "hs_pending_ids (fold (\<lambda>p. snd \<circ> hs_remove p) ps h) p = (if p \<in> set ps then None else hs_pending_ids h p)"
  "hs_pending_cancellations (fold (\<lambda>p. snd \<circ> hs_remove p) ps h) p = (if p \<in> set ps then None else hs_pending_cancellations h p)"
  "hs_starting_networks (fold (\<lambda>p. snd \<circ> hs_remove p) ps h) = hs_starting_networks h"
  "hs_starting_ids (fold (\<lambda>p. snd \<circ> hs_remove p) ps h) = hs_starting_ids h"
  "hs_starting_cancellations (fold (\<lambda>p. snd \<circ> hs_remove p) ps h) = hs_starting_cancellations h"
  "length (hs_cells (fold (\<lambda>p. snd \<circ> hs_remove p) ps h)) = length (hs_cells h)"
  by (induction ps arbitrary: h) (simp_all add: removes_step)

definition stamped_below :: "u64 \<Rightarrow> hs_start \<Rightarrow> string \<Rightarrow> bool" where
  "stamped_below g h p \<longleftrightarrow> (\<exists>x. (hs_starting_networks h p = Some x \<or> hs_pending_networks h p = Some x) \<and> x < g)"

lemma live_only_starting:
  assumes inv: "hs_inv h"
  shows "hs_starting_cancellations h q = None \<or> hs_pending_cancellations h q = None"
proof (cases "q \<in> hs_starting h")
  case True
  then have "hs_pending h q = None" using inv by (auto simp: hs_inv_def)
  then show ?thesis by (simp add: pending_absent [OF inv])
qed (simp add: starting_absent [OF inv])

lemma starting_network_channel:
  assumes inv: "hs_inv h" and "hs_starting_networks h p = Some x"
  shows "hs_starting_cancellations h p \<noteq> None"
proof -
  have "p \<in> hs_starting h" using assms starting_absent(1) [OF inv, of p] by fastforce
  then have "p \<in> dom (hs_starting_cancellations h)" using inv by (simp add: hs_inv_def starting_aligned_def)
  then show ?thesis by auto
qed

lemma pending_network_channel:
  assumes inv: "hs_inv h" and "hs_pending_networks h p = Some x"
  shows "hs_starting_cancellations h p = None"
proof -
  have "p \<in> dom (hs_pending_networks h)" using assms(2) by auto
  then have "p \<notin> hs_starting h" using inv by (auto simp: hs_inv_def pending_aligned_def)
  then show ?thesis by (rule starting_absent [OF inv])
qed

text \<open>Between two consistent states, a channel that has lost its owner has been cancelled.\<close>

lemma orphan_cancelled:
  assumes "hs_inv h" and "hs_inv h'" and "length (hs_cells h') = length (hs_cells h)"
    and "hs_channel h p = Some i" and "\<And>q. hs_channel h' q \<noteq> Some i"
  shows "hs_cells h' ! i"
proof -
  have "i < length (hs_cells h')"
    using channels_live [of "hs_cells h" "hs_channel h" p i] assms by (simp add: hs_inv_def)
  then show ?thesis using assms(2,5) unfolding hs_inv_def channels_ok_def by blast
qed

lemma handover_state:
  assumes orders: "dom (hs_starting_networks h) = set reserved" "dom (hs_pending_networks h) = set pend"
    and c: "cancel_before_network_generation g reserved pend h = ((n, k, bindings), h')"
  obtains S P where "\<And>p. p \<in> set S \<longleftrightarrow> (\<exists>x < g. hs_starting_networks h p = Some x)"
    and "\<And>p. p \<in> set P \<longleftrightarrow> (\<exists>x < g. hs_pending_networks h p = Some x)"
    and "h' = fold (\<lambda>p. snd \<circ> hs_remove p) P (fold cancel_reservation S h)"
    and "bindings = List.map_filter (\<lambda>p. case hs_pending_session_ids h p of
          None \<Rightarrow> None | Some token \<Rightarrow> Some (p, token)) P"
proof (rule that)
  show "p \<in> set (below_generation g (hs_starting_networks h) reserved)
      \<longleftrightarrow> (\<exists>x < g. hs_starting_networks h p = Some x)"
    and "p \<in> set (below_generation g (hs_pending_networks h) pend)
      \<longleftrightarrow> (\<exists>x < g. hs_pending_networks h p = Some x)" for p
    unfolding below_generation_def set_filter orders [symmetric] by (auto split: option.splits)
qed (use c in \<open>auto simp: cancel_before_network_generation_def Let_def cancel_reservations_fields\<close>)

text \<open>
  C24: A network handover leaves no reservation or transaction of an older generation, cancels
  the channel of each of them, leaves all others untouched and reports exactly the session
  tokens of the removed transactions.
\<close>
theorem handshake_handover_complete:
  assumes h: "h = fold hs_do ops hs_start_new"
    and orders: "dom (hs_starting_networks h) = set reserved" "dom (hs_pending_networks h) = set pend"
    and c: "cancel_before_network_generation g reserved pend h = ((n, k, bindings), h')"
  shows "(\<forall>p. \<not> stamped_below g h' p)
    \<and> (\<forall>p i. stamped_below g h p \<longrightarrow> hs_channel h p = Some i \<longrightarrow> hs_cells h' ! i)
    \<and> (\<forall>p. \<not> stamped_below g h p \<longrightarrow> hs_starting_ids h' p = hs_starting_ids h p
          \<and> hs_pending_ids h' p = hs_pending_ids h p \<and> hs_channel h' p = hs_channel h p)
    \<and> set bindings = {(p, token). (\<exists>x < g. hs_pending_networks h p = Some x)
          \<and> hs_pending_session_ids h p = Some token}"
proof (intro conjI allI impI)
  obtain S P where S: "\<And>p. p \<in> set S \<longleftrightarrow> (\<exists>x < g. hs_starting_networks h p = Some x)"
    and P: "\<And>p. p \<in> set P \<longleftrightarrow> (\<exists>x < g. hs_pending_networks h p = Some x)"
    and h': "h' = fold (\<lambda>p. snd \<circ> hs_remove p) P (fold cancel_reservation S h)"
    and b: "bindings = List.map_filter (\<lambda>p. case hs_pending_session_ids h p of
          None \<Rightarrow> None | Some token \<Rightarrow> Some (p, token)) P"
    by (rule handover_state [OF orders c]) (rule that)
  have inv: "hs_inv h" unfolding h by (rule hs_reachable)
  have inv': "hs_inv h'" using inv_handover [OF inv, of g reserved pend] c by simp
  note fields = cancel_reservations_fields removes_fields
  show "\<not> stamped_below g h' p" for p
    unfolding stamped_below_def h' using S P by (auto simp: fields split: if_splits)
  have below: "stamped_below g h p \<longleftrightarrow> p \<in> set S \<or> p \<in> set P" for p
    using S P by (auto simp: stamped_below_def)
  show "hs_starting_ids h' p = hs_starting_ids h p" "hs_pending_ids h' p = hs_pending_ids h p"
      "hs_channel h' p = hs_channel h p" if "\<not> stamped_below g h p" for p
    using that unfolding below h' by (simp_all add: fields hs_channel_def)
  have freed: "hs_channel h' p = None" if "stamped_below g h p" for p
    using that live_only_starting [OF inv, of p] S P starting_network_channel [OF inv, of p]
      pending_network_channel [OF inv, of p]
    unfolding below h' by (cases "p \<in> set S") (auto simp: fields hs_channel_def)
  have other: "hs_channel h' q = hs_channel h q \<or> hs_channel h' q = None" for q
    using freed [of q] \<open>\<And>p. \<not> stamped_below g h p \<Longrightarrow> hs_channel h' p = hs_channel h p\<close> [of q]
    by (cases "stamped_below g h q") simp_all
  show "hs_cells h' ! i" if p: "stamped_below g h p" and i: "hs_channel h p = Some i" for p i
  proof (rule orphan_cancelled [OF inv inv' _ i])
    show "length (hs_cells h') = length (hs_cells h)" unfolding h' by (simp add: fields)
    show "hs_channel h' q \<noteq> Some i" for q
      using other [of q] freed [OF p] i inv unfolding hs_inv_def channels_ok_def by (metis option.distinct(1))
  qed
  show "set bindings = {(p, token). (\<exists>x < g. hs_pending_networks h p = Some x)
          \<and> hs_pending_session_ids h p = Some token}"
    unfolding b using P by (force simp: List.map_filter_def split: option.splits)
qed

section \<open>Retries\<close>

lemma expire_one_retries: "hs_retries (expire_one r p h) = (hs_retries h)(p := None)"
  by (cases "hs_starting_cancellations h p") (simp_all add: expire_one_def cancel_reservation_def)

lemma expire_fold_retries:
  "hs_retries (fold (\<lambda>(p, r). expire_one r p) xs h) q = (if q \<in> fst ` set xs then None else hs_retries h q)"
  by (induction xs arbitrary: h) (auto simp: expire_one_retries)

lemma expired_set:
  "q \<in> fst ` set (expired_retries now order h)
    \<longleftrightarrow> q \<in> set order \<and> (\<exists>r. hs_retries h q = Some r \<and> rt_expires_at r \<le> now)"
  by (force simp: expired_retries_def List.map_filter_def split: option.splits)

lemma expire_retries:
  "hs_retries (expire_initiator_retries now order h) q
    = (if q \<in> set order \<and> (\<exists>r. hs_retries h q = Some r \<and> rt_expires_at r \<le> now) then None
       else hs_retries h q)"
  unfolding expire_initiator_retries_def expire_fold_retries expired_set by simp

lemma first_least_before:
  assumes "first_least (retry_before h) xs = Some p" and "q \<in> set xs" and "\<forall>x \<in> set xs. hs_retries h x \<noteq> None"
  shows "rt_expires_at (the (hs_retries h p)) \<le> rt_expires_at (the (hs_retries h q))"
  using assms
proof (induction xs arbitrary: p)
  case (Cons x xs)
  show ?case
  proof (cases "first_least (retry_before h) xs")
    case None
    then have "xs = []" by (cases xs) (auto split: option.splits if_splits)
    then show ?thesis using Cons.prems by simp
  next
    case (Some y)
    have y: "y \<in> set xs" by (rule first_least_in [OF Some])
    obtain rx ry where r: "hs_retries h x = Some rx" "hs_retries h y = Some ry"
      using Cons.prems(3) y by (metis list.set_intros not_Some_eq)
    have "rt_expires_at (the (hs_retries h y)) \<le> rt_expires_at (the (hs_retries h q))" if "q \<in> set xs"
      using Cons.IH [OF Some that] Cons.prems(3) by simp
    moreover have "retry_before h y x \<longleftrightarrow> rt_expires_at ry < rt_expires_at rx
        \<or> rt_expires_at ry = rt_expires_at rx \<and> rt_not_before ry < rt_not_before rx"
      by (simp add: retry_before_def r)
    ultimately show ?thesis
      using Cons.prems(1,2) Some r by (auto split: if_splits)
  qed
qed simp

text \<open>A claim succeeds at the first ready retry: its reservation is always current.\<close>

lemma claim_loop_ready:
  assumes inv: "hs_inv h" and p: "next_ready now order h = Some p" and r: "hs_retries h p = Some r"
  shows "\<exists>res. reservation_for_retry (rt_identity r) h = Some res
    \<and> claim_loop now order h = (Some (rt_identity r, res\<lparr>sr_retry_phase := Some (ri_phase (rt_identity r)),
          sr_retry_attempt := ri_attempt (rt_identity r), sr_retry_expires_at := Some (rt_expires_at r)\<rparr>),
        h\<lparr>hs_retries := (hs_retries h)(p := None)\<rparr>)"
proof -
  have e: "retry_exact h p r" using inv r by (simp add: hs_inv_def retries_ok_def)
  then have "p \<in> hs_starting h" using current_starting [OF inv] by (auto simp: retry_exact_def)
  then have "p \<in> dom (hs_starting_cancellations h)" "p \<in> dom (hs_starting_owner_kinds h)"
    using inv by (simp_all add: hs_inv_def starting_aligned_def)
  then obtain res where res: "reservation_for_retry (rt_identity r) h = Some res"
    using e by (auto simp: retry_exact_def reservation_for_retry_def Let_def)
  have "reservation_for_retry (rt_identity r) (h\<lparr>hs_retries := (hs_retries h)(p := None)\<rparr>) = Some res"
    using res by (auto simp: reservation_for_retry_def Let_def split: if_splits option.splits)
  then show ?thesis using p r res by (subst claim_loop.simps) simp
qed

lemma reservation_for_retry_fields:
  assumes "reservation_for_retry i h = Some res"
  shows "starting_reservation_is_current (ri_peer_id i) res h" and "sr_owner res = ri_owner i"
    and "sr_cancel_generation res = ri_cancel_generation i"
    and "hs_starting_cancellations h (ri_peer_id i) = Some (sr_cancellation res)"
  using assms by (auto simp: reservation_for_retry_def starting_reservation_is_current_def Let_def
      split: if_splits option.splits)

lemma schedule_again:
  assumes res: "starting_reservation_is_current p res h" and none: "hs_retries h p = None"
    and phase: "sr_retry_phase res = Some phase" and e: "sr_retry_expires_at res = Some expiry"
    and room: "card (dom (hs_retries h)) < MAX_PENDING_INITIATOR_RETRIES"
    and publish: "phase = Publish \<Longrightarrow> hs_starting_prepared h p \<noteq> None"
  shows "if expiry \<le> t
    then fst (schedule_initiator_retry p res phase t h) = None
       \<and> snd (schedule_initiator_retry p res phase t h) = cancel_reservation p h
    else \<exists>r. hs_retries (snd (schedule_initiator_retry p res phase t h)) p = Some r
       \<and> rt_expires_at r = expiry \<and> ri_attempt (rt_identity r) = sat_add (sr_retry_attempt res) 1
       \<and> rt_not_before r = t + retry_backoff (sat_add (sr_retry_attempt res) 1)"
  using assms
  by (auto simp: schedule_initiator_retry_def cancel_reservation_if_current_def Let_def none matching_retry_def
      retry_expiry_def retry_attempt_after_def starting_reservation_is_current_def)

text \<open>What is ready after the expiry, and what a successful claim leaves.\<close>

lemma ready_after_expiry:
  assumes "dom (hs_retries h) \<subseteq> set order"
  shows "hs_retries (expire_initiator_retries now order h) q = Some s
      \<longleftrightarrow> hs_retries h q = Some s \<and> now < rt_expires_at s"
    and "q \<in> set (filter (retry_ready now (expire_initiator_retries now order h)) order)
      \<longleftrightarrow> (\<exists>s. hs_retries h q = Some s \<and> rt_not_before s \<le> now \<and> now < rt_expires_at s)"
proof -
  show k: "hs_retries (expire_initiator_retries now order h) q = Some s
      \<longleftrightarrow> hs_retries h q = Some s \<and> now < rt_expires_at s" for s
    using assms by (auto simp: expire_retries not_le)
  have "retry_ready now (expire_initiator_retries now order h) q
      \<longleftrightarrow> (\<exists>s. hs_retries (expire_initiator_retries now order h) q = Some s
            \<and> rt_not_before s \<le> now \<and> now < rt_expires_at s)"
    by (auto simp: retry_ready_def split: option.splits)
  then show "q \<in> set (filter (retry_ready now (expire_initiator_retries now order h)) order)
      \<longleftrightarrow> (\<exists>s. hs_retries h q = Some s \<and> rt_not_before s \<le> now \<and> now < rt_expires_at s)"
    using assms unfolding k by auto
qed

lemma next_ready_None: "next_ready now order h = None \<longleftrightarrow> filter (retry_ready now h) order = []"
  unfolding next_ready_def by (cases "filter (retry_ready now h) order") (auto split: option.splits if_splits)

lemma next_ready_least:
  assumes "next_ready now order h = Some p" and "q \<in> set (filter (retry_ready now h) order)"
  shows "rt_expires_at (the (hs_retries h p)) \<le> rt_expires_at (the (hs_retries h q))"
proof -
  have "\<forall>x \<in> set (filter (retry_ready now h) order). hs_retries h x \<noteq> None"
    by (auto simp: retry_ready_def split: option.splits)
  then show ?thesis using first_least_before assms unfolding next_ready_def by blast
qed

lemma room_after_claim:
  assumes "hs_inv h" and "hs_retries h p = Some r"
  shows "card (dom ((hs_retries h)(p := None))) < MAX_PENDING_INITIATOR_RETRIES"
proof -
  have "card (dom (hs_retries h) - {p}) < card (dom (hs_retries h))"
    using assms by (intro psubset_card_mono) (auto simp: hs_inv_def retries_ok_def)
  then show ?thesis using assms(1) by (simp add: hs_inv_def retries_ok_def)
qed

text \<open>The lease of a claimed retry: its expiry stands, whenever it is scheduled again.\<close>

definition lease_kept :: "hs_start \<Rightarrow> string \<Rightarrow> start_reservation \<Rightarrow> pending_retry \<Rightarrow> bool" where
  "lease_kept h p res r \<longleftrightarrow>
     (\<forall>t. (ri_phase (rt_identity r) = Publish \<longrightarrow> hs_starting_prepared h p \<noteq> None) \<longrightarrow>
        (let h' = snd (schedule_initiator_retry p res (ri_phase (rt_identity r)) t h)
         in if rt_expires_at r \<le> t then h' = cancel_reservation p h
            else (\<exists>r'. hs_retries h' p = Some r' \<and> rt_expires_at r' = rt_expires_at r
                    \<and> ri_attempt (rt_identity r') = sat_add (ri_attempt (rt_identity r)) 1)))"

lemma claimed_lease:
  assumes inv: "hs_inv h" and r: "hs_retries h p = Some r"
    and res: "reservation_for_retry (rt_identity r) h = Some res"
    and h': "h' = h\<lparr>hs_retries := (hs_retries h)(p := None)\<rparr>"
    and res': "res' = res\<lparr>sr_retry_phase := Some (ri_phase (rt_identity r)),
          sr_retry_attempt := ri_attempt (rt_identity r), sr_retry_expires_at := Some (rt_expires_at r)\<rparr>"
  shows "starting_reservation_is_current p res' h' \<and> \<not> hs_cells h' ! sr_cancellation res' \<and> lease_kept h' p res' r"
proof (intro conjI)
  have peer: "ri_peer_id (rt_identity r) = p"
    using inv r by (simp add: hs_inv_def retries_ok_def retry_exact_def)
  note f = reservation_for_retry_fields [OF res, unfolded peer]
  show cur: "starting_reservation_is_current p res' h'"
    using f(1) by (simp add: h' res' starting_reservation_is_current_def)
  show "\<not> hs_cells h' ! sr_cancellation res'"
    using channels_live [of "hs_cells h" "hs_channel h" p] inv f(4) by (simp add: hs_inv_def hs_channel_def h' res')
  have none: "hs_retries h' p = None" by (simp add: h')
  have room: "card (dom (hs_retries h')) < MAX_PENDING_INITIATOR_RETRIES"
    using room_after_claim [OF inv r] by (simp add: h')
  show "lease_kept h' p res' r"
    unfolding lease_kept_def Let_def
  proof (intro allI impI)
    fix t assume ready: "ri_phase (rt_identity r) = Publish \<longrightarrow> hs_starting_prepared h' p \<noteq> None"
    have "sr_retry_phase res' = Some (ri_phase (rt_identity r))" "sr_retry_expires_at res' = Some (rt_expires_at r)"
        "sr_retry_attempt res' = ri_attempt (rt_identity r)" by (simp_all add: res')
    then show "if rt_expires_at r \<le> t
        then snd (schedule_initiator_retry p res' (ri_phase (rt_identity r)) t h') = cancel_reservation p h'
        else \<exists>r'. hs_retries (snd (schedule_initiator_retry p res' (ri_phase (rt_identity r)) t h')) p = Some r'
           \<and> rt_expires_at r' = rt_expires_at r \<and> ri_attempt (rt_identity r') = sat_add (ri_attempt (rt_identity r)) 1"
      using schedule_again [OF cur none _ _ room, of "ri_phase (rt_identity r)" "rt_expires_at r" t] ready
      by (auto split: if_splits)
  qed
qed

text \<open>
  Claiming a retry yields nothing exactly when none is ready and otherwise a ready one that
  expires first, with its current uncancelled reservation; scheduling it again keeps its expiry
  and raises its attempt, and after the expiry ends the reservation, so contention never extends
  the lease.
\<close>
theorem handshake_retry_lease:
  assumes h: "h = fold hs_do ops hs_start_new" and order: "dom (hs_retries h) \<subseteq> set order"
    and c: "claim_ready_initiator_retry now order h = (claim, h')"
  shows "(claim = None \<longleftrightarrow> (\<forall>q r. hs_retries h q = Some r \<longrightarrow> now < rt_expires_at r \<longrightarrow> now < rt_not_before r))
    \<and> (\<forall>i res. claim = Some (i, res) \<longrightarrow>
        (\<exists>r. hs_retries h (ri_peer_id i) = Some r \<and> rt_identity r = i
           \<and> rt_not_before r \<le> now \<and> now < rt_expires_at r
           \<and> (\<forall>q s. hs_retries h q = Some s \<longrightarrow> rt_not_before s \<le> now \<longrightarrow> now < rt_expires_at s
                \<longrightarrow> rt_expires_at r \<le> rt_expires_at s)
           \<and> starting_reservation_is_current (ri_peer_id i) res h' \<and> \<not> hs_cells h' ! sr_cancellation res
           \<and> lease_kept h' (ri_peer_id i) res r))"
proof -
  let ?h = "expire_initiator_retries now order h"
  have inv: "hs_inv ?h" unfolding h by (rule inv_expire [OF hs_reachable])
  have c': "claim_loop now order ?h = (claim, h')" using c by (simp add: claim_ready_initiator_retry_def)
  note keep = ready_after_expiry(1) [OF order] and ready = ready_after_expiry(2) [OF order]
  show ?thesis
  proof (cases "next_ready now order ?h")
    case None
    then have "\<not> (\<exists>s. hs_retries h q = Some s \<and> rt_not_before s \<le> now \<and> now < rt_expires_at s)" for q
      using ready [of q now] unfolding next_ready_None by simp
    moreover have "claim = None" using c' None by (subst (asm) claim_loop.simps) simp
    ultimately show ?thesis by (auto simp: not_le)
  next
    case (Some p)
    then have "p \<in> set (filter (retry_ready now ?h) order)" using next_ready_in by fastforce
    then obtain r where r: "hs_retries h p = Some r" "rt_not_before r \<le> now" "now < rt_expires_at r"
      using ready by blast
    then have r': "hs_retries ?h p = Some r" by (simp add: keep)
    obtain res where res: "reservation_for_retry (rt_identity r) ?h = Some res"
      and claim: "claim = Some (rt_identity r, res\<lparr>sr_retry_phase := Some (ri_phase (rt_identity r)),
          sr_retry_attempt := ri_attempt (rt_identity r), sr_retry_expires_at := Some (rt_expires_at r)\<rparr>)"
      and h': "h' = ?h\<lparr>hs_retries := (hs_retries ?h)(p := None)\<rparr>"
      using claim_loop_ready [OF inv Some r'] c' by auto
    have peer: "ri_peer_id (rt_identity r) = p"
      using inv r' by (simp add: hs_inv_def retries_ok_def retry_exact_def)
    have "rt_expires_at r \<le> rt_expires_at s"
      if "hs_retries h q = Some s" "rt_not_before s \<le> now" "now < rt_expires_at s" for q s
      using next_ready_least [OF Some, of q] ready [of q now] r' keep [of now q s] that by auto
    then show ?thesis
      using r claimed_lease [OF inv r' res h' refl] peer unfolding claim by (auto simp: not_less)
  qed
qed

end
