(* ===== verification/Task_Witnesses.thy ===== *)
theory Task_Witnesses
  imports Punch_Dedup_Props Hs_Start_Props
begin

text \<open>The properties of the punch scheduler and of the pending handshakes at concrete runs.\<close>

section \<open>Punch sessions\<close>

text \<open>
  A session for a peer is claimed, its first send is marked; then a newer recovery epoch with a
  fresh prediction comes 100 ms later and is folded into it.
\<close>

definition w_claimed :: "punch_op list" where
  "w_claimed = [ClaimRendezvous True True 1000 ''b'' 1 1 1 1 None None, MarkFirstSend 0 1000]"

definition w_refresh :: "punch_op list" where
  "w_refresh = [ClaimRendezvous True True 1100 ''b'' 1 1 2 2 (Some (FreshPredictionId 1 1)) None]"

definition w_permit :: punch_permit where
  "w_permit = \<lparr>pp_peer = ''b'', pp_session = 1, pp_cell = 0\<rparr>"

definition w_attempt :: punch_attempt where
  "w_attempt = \<lparr>pr_session_id = 1, pr_peer_session = 1, pr_priority = 1, pr_epoch = 1,
     pr_fresh = None, pr_network = 1, pr_punch_at_ms = None, pr_first_send_ms = Some 1000,
     pr_owner_count = 1, pr_cell = 0\<rparr>"

lemma w_claimed_state:
  "punch_ops w_claimed punch_start
    = \<lparr>pw_dedup = \<lparr>pd_next = 1, pd_active = [''b'' \<mapsto> w_attempt], pd_retired = Map.empty,
                   pd_cells = [\<lparr>pc_cancelled = False, pc_reason = None\<rparr>]\<rparr>,
       pw_permits = [w_permit]\<rparr>"
  by (simp add: punch_ops_def w_claimed_def punch_start_def punch_dedup_new_def w_attempt_def w_permit_def
      claim_for_epoch_with_rendezvous_for_peer_session_def claim_with_rendezvous_def
      install_session_def mark_first_send_started_def Let_def)

theorem punch_one_session_per_peer_witness:
  "w_permit \<in> set (pw_permits (punch_ops w_claimed punch_start))
   \<and> \<not> permit_is_cancelled (pw_dedup (punch_ops w_claimed punch_start)) w_permit
   \<and> (\<exists>r. pd_active (pw_dedup (punch_ops w_claimed punch_start)) ''b'' = Some r
        \<and> pr_session_id r = pp_session w_permit)"
proof -
  have "length w_claimed < 2 ^ 64" by (simp add: w_claimed_def)
  note p = punch_one_session_per_peer [OF this refl]
  have k: "w_permit \<in> set (pw_permits (punch_ops w_claimed punch_start))"
      "\<not> permit_is_cancelled (pw_dedup (punch_ops w_claimed punch_start)) w_permit"
      "pp_peer w_permit = ''b''"
    by (simp_all add: w_claimed_state permit_is_cancelled_def w_permit_def)
  show ?thesis using conjunct1 [OF conjunct2 [OF p]] k by (metis bspec)
qed

theorem punch_retired_lifecycle_never_claims_witness:
  "fst (claim_with_rendezvous (pw_dedup (punch_ops (w_claimed @ RetirePeer ''b'' 1 # w_refresh) punch_start))
      2000 ''b'' 1 1 3 2 None None) = RejectedStalePeerSession"
proof -
  have "length w_claimed + length w_refresh < 2 ^ 64 - 1" by (simp add: w_claimed_def w_refresh_def)
  note p = punch_retired_lifecycle_never_claims [OF this refl, where p = "''b''" and g = 1 and sess = 1]
  show ?thesis using p by simp
qed

theorem punch_first_send_protected_witness:
  "\<not> permit_is_cancelled (pw_dedup (punch_ops w_refresh (punch_ops w_claimed punch_start))) w_permit"
proof -
  have "length w_claimed + length w_refresh < 2 ^ 64" by (simp add: w_claimed_def w_refresh_def)
  moreover have "w_permit \<in> set (pw_permits (punch_ops w_claimed punch_start))"
      "\<not> permit_is_cancelled (pw_dedup (punch_ops w_claimed punch_start)) w_permit"
      "pd_active (pw_dedup (punch_ops w_claimed punch_start)) (pp_peer w_permit) = Some w_attempt"
      "pr_first_send_ms w_attempt = Some 1000"
    by (simp_all add: w_claimed_state permit_is_cancelled_def w_permit_def w_attempt_def)
  moreover have "\<forall>x \<in> set w_refresh. courteous (pp_peer w_permit) w_attempt 1000 x"
    by (simp add: w_refresh_def w_permit_def w_attempt_def generation_preempts_def
        RELAY_ASSISTED_PUNCH_LEAD_MS_def)
  ultimately show ?thesis using punch_first_send_protected [OF _ refl] by blast
qed

section \<open>Handshakes\<close>

definition w_reserve :: "hs_op list" where
  "w_reserve = [ReserveStart 0 [] ''b'' 1 1 EventInitiatorReserve]"

definition w_reservation :: start_reservation where
  "w_reservation = fst (install_reservation ''b'' 1 1 EventInitiatorReserve hs_start_new)"

definition w_retry :: "hs_op list" where
  "w_retry = w_reserve @ [ScheduleRetry ''b'' w_reservation Preparation 0]"

lemma w_reserve_state:
  "fold hs_do w_reserve hs_start_new = snd (install_reservation ''b'' 1 1 EventInitiatorReserve hs_start_new)"
  by (simp add: w_reserve_def reserve_start_def expire_initiator_retries_def expired_retries_def
      clear_starting_def hs_start_new_def List.map_filter_simps Let_def split: prod.split)

lemma w_reserve_fields:
  "hs_starting_networks (fold hs_do w_reserve hs_start_new) = [''b'' \<mapsto> 1]"
  "hs_starting_peer_sessions (fold hs_do w_reserve hs_start_new) = [''b'' \<mapsto> 1]"
  "hs_starting_cancel_generations (fold hs_do w_reserve hs_start_new) = [''b'' \<mapsto> 1]"
  "hs_starting_ids (fold hs_do w_reserve hs_start_new) = [''b'' \<mapsto> 1]"
  "hs_pending_networks (fold hs_do w_reserve hs_start_new) = Map.empty"
  "hs_retries (fold hs_do w_reserve hs_start_new) = Map.empty"
  unfolding w_reserve_state by (simp_all add: install_reservation_def Let_def hs_start_new_def sat_add_def)

lemma w_reservation_fields:
  "sr_owner w_reservation = 1" "sr_network w_reservation = 1" "sr_peer_session w_reservation = 1"
  "sr_cancel_generation w_reservation = 1" "sr_retry_phase w_reservation = None"
  by (simp_all add: w_reservation_def install_reservation_def Let_def hs_start_new_def sat_add_def)

theorem handshake_one_attempt_per_peer_witness:
  "''b'' \<in> hs_starting (fold hs_do w_reserve hs_start_new)
   \<and> hs_channel (fold hs_do w_reserve hs_start_new) ''b'' \<noteq> None"
proof -
  have "''b'' \<in> hs_starting (fold hs_do w_reserve hs_start_new)"
    by (simp add: w_reserve_state install_reservation_def Let_def)
  then show ?thesis using handshake_one_attempt_per_peer [OF refl, of w_reserve] by blast
qed

theorem handshake_handover_complete_witness:
  "\<exists>n k bindings h'. cancel_before_network_generation 2 [''b''] [] (fold hs_do w_reserve hs_start_new)
      = ((n, k, bindings), h') \<and> \<not> stamped_below 2 h' ''b'' \<and> bindings = []"
proof -
  let ?h = "fold hs_do w_reserve hs_start_new"
  obtain n k bindings h' where c: "cancel_before_network_generation 2 [''b''] [] ?h = ((n, k, bindings), h')"
    by (metis prod_cases3 surj_pair)
  have orders: "dom (hs_starting_networks ?h) = set [''b'']" "dom (hs_pending_networks ?h) = set []"
    by (simp_all add: w_reserve_fields)
  from handshake_handover_complete [OF refl orders c]
  have "\<not> stamped_below 2 h' ''b''" "set bindings = {(p, token). (\<exists>x < 2. hs_pending_networks ?h p = Some x)
          \<and> hs_pending_session_ids ?h p = Some token}" by blast+
  moreover have "hs_pending_networks ?h p = None" for p using orders(2) by auto
  ultimately show ?thesis using c by auto
qed

lemma w_retry_state:
  "hs_retries (fold hs_do w_retry hs_start_new) = [''b'' \<mapsto>
     \<lparr>rt_identity = \<lparr>ri_peer_id = ''b'', ri_network = 1, ri_peer_session = 1, ri_owner = 1,
        ri_phase = Preparation, ri_attempt = 1, ri_cancel_generation = 1\<rparr>,
      rt_not_before = 0, rt_expires_at = from_secs 30\<rparr>]"
  by (simp add: w_retry_def w_reserve_fields w_reservation_fields Let_def
      schedule_initiator_retry_def starting_reservation_is_current_def MAX_PENDING_INITIATOR_RETRIES_def
      retry_expiry_def matching_retry_def INITIATOR_RETRY_TTL_def retry_attempt_after_def retry_backoff_def
      INITIATOR_RETRY_BACKOFF_def sat_add_def from_secs_def)

theorem handshake_retry_lease_witness:
  "\<exists>i res. fst (claim_ready_initiator_retry 5 [''b''] (fold hs_do w_retry hs_start_new)) = Some (i, res)
     \<and> ri_peer_id i = ''b''"
proof -
  let ?h = "fold hs_do w_retry hs_start_new"
  obtain claim h' where c: "claim_ready_initiator_retry 5 [''b''] ?h = (claim, h')" by force
  have order: "dom (hs_retries ?h) \<subseteq> set [''b'']" by (simp add: w_retry_state)
  note lease = handshake_retry_lease [OF refl order c]
  have "claim \<noteq> None" using conjunct1 [OF lease] by (simp add: w_retry_state from_secs_def)
  then obtain i res where claim: "claim = Some (i, res)" by force
  obtain r where "hs_retries ?h (ri_peer_id i) = Some r"
    using conjunct2 [OF lease] claim by blast
  then have i: "ri_peer_id i = ''b''" by (auto simp: w_retry_state split: if_splits)
  then show ?thesis using c claim by auto
qed

end
