(* ===== verification/Recovery.thy ===== *)
theory Recovery
  imports Path_Types
begin

text \<open>
  The recovery scheduler (\<open>client/daemon/src/peer/manager/recovery_epoch.rs\<close>): one budget ledger per
  peer, each with an allocation id that is never used again. Every definition named after a method
  is one critical section of the ledger's lock, and \<open>recovery_step\<close> chooses among them, so a
  sequence of steps is any interleaving of the workers. Reservations of fresh mappings are values
  a worker owns; \<open>rm_tokens\<close> lists the ones alive. The verdict cache of
  \<open>outbound_liveness.rs\<close>, which admission consults, is part of the state.
\<close>

section \<open>Constants\<close>

definition RECOVERY_EPOCH_PROBE_CREDIT :: u32 where
  "RECOVERY_EPOCH_PROBE_CREDIT = 4000"

definition RECOVERY_EPOCH_PLAN_BUILDS :: u32 where
  "RECOVERY_EPOCH_PLAN_BUILDS = 16"

definition RECOVERY_EPOCH_SESSIONS :: u32 where
  "RECOVERY_EPOCH_SESSIONS = 16"

definition RECOVERY_EPOCH_CANDIDATE_ITERATIONS :: u64 where
  "RECOVERY_EPOCH_CANDIDATE_ITERATIONS = 30000"

definition RECOVERY_EPOCH_FRESH_GENERATIONS :: u32 where
  "RECOVERY_EPOCH_FRESH_GENERATIONS = 1"

definition RECOVERY_EPOCH_HARD_HARD_GENERATIONS :: u32 where
  "RECOVERY_EPOCH_HARD_HARD_GENERATIONS = 1"

definition RECOVERY_EPOCH_HTTP_PUBLISHES :: u32 where
  "RECOVERY_EPOCH_HTTP_PUBLISHES = 8"

definition RECOVERY_EPOCH_MAX_AGE :: duration where
  "RECOVERY_EPOCH_MAX_AGE = from_secs (30 * 60)"

definition RECOVERY_EPOCH_MAX_EVIDENCE_REOPENS :: u32 where
  "RECOVERY_EPOCH_MAX_EVIDENCE_REOPENS = 8"

definition RECOVERY_EVIDENCE_RETRY_CREDIT :: u32 where
  "RECOVERY_EVIDENCE_RETRY_CREDIT = 96"

definition RECOVERY_EVIDENCE_REGRANT_PLAN_BUILDS :: u32 where
  "RECOVERY_EVIDENCE_REGRANT_PLAN_BUILDS = 2"

definition RECOVERY_EVIDENCE_REGRANT_SESSIONS :: u32 where
  "RECOVERY_EVIDENCE_REGRANT_SESSIONS = 1"

definition RECOVERY_BUDGET_BACKOFF_BASE :: duration where
  "RECOVERY_BUDGET_BACKOFF_BASE = from_secs 60"

definition RECOVERY_BUDGET_BACKOFF_MAX :: duration where
  "RECOVERY_BUDGET_BACKOFF_MAX = from_secs (15 * 60)"

text \<open>From \<open>hard_hard_pair.rs\<close>.\<close>

definition HARD_HARD_PAIR_MAX_CANDIDATES :: nat where
  "HARD_HARD_PAIR_MAX_CANDIDATES = 32"

definition HARD_HARD_PAIR_CHECK_ATTEMPTS :: u8 where
  "HARD_HARD_PAIR_CHECK_ATTEMPTS = 3"

definition HARD_HARD_PAIR_CONFIRM_ATTEMPTS :: u8 where
  "HARD_HARD_PAIR_CONFIRM_ATTEMPTS = 8"

lemmas recovery_consts =
  RECOVERY_EPOCH_PROBE_CREDIT_def RECOVERY_EPOCH_PLAN_BUILDS_def RECOVERY_EPOCH_SESSIONS_def
  RECOVERY_EPOCH_CANDIDATE_ITERATIONS_def RECOVERY_EPOCH_FRESH_GENERATIONS_def
  RECOVERY_EPOCH_HARD_HARD_GENERATIONS_def RECOVERY_EPOCH_HTTP_PUBLISHES_def
  RECOVERY_EPOCH_MAX_AGE_def RECOVERY_EPOCH_MAX_EVIDENCE_REOPENS_def
  RECOVERY_EVIDENCE_RETRY_CREDIT_def RECOVERY_EVIDENCE_REGRANT_PLAN_BUILDS_def
  RECOVERY_EVIDENCE_REGRANT_SESSIONS_def RECOVERY_BUDGET_BACKOFF_BASE_def
  RECOVERY_BUDGET_BACKOFF_MAX_def HARD_HARD_PAIR_MAX_CANDIDATES_def
  HARD_HARD_PAIR_CHECK_ATTEMPTS_def HARD_HARD_PAIR_CONFIRM_ATTEMPTS_def

section \<open>Data\<close>

datatype recovery_probe_purpose =
    Ordinary
  | HardHardExploration
  | HardHardTriggered
  | HardHardSelectedCheck
  | HardHardNomination

text \<open>Credits kept back from the exploring purposes.\<close>

fun confirmation_credit_reserve :: "recovery_probe_purpose \<Rightarrow> u32" where
  "confirmation_credit_reserve HardHardExploration =
     of_nat HARD_HARD_PAIR_MAX_CANDIDATES * ucast HARD_HARD_PAIR_CHECK_ATTEMPTS
       + ucast HARD_HARD_PAIR_CONFIRM_ATTEMPTS"
| "confirmation_credit_reserve HardHardTriggered = ucast HARD_HARD_PAIR_CONFIRM_ATTEMPTS"
| "confirmation_credit_reserve Ordinary = 0"
| "confirmation_credit_reserve HardHardSelectedCheck = 0"
| "confirmation_credit_reserve HardHardNomination = 0"

definition confirmation_short_window_reserve :: "recovery_probe_purpose \<Rightarrow> nat" where
  "confirmation_short_window_reserve p =
     min (unat (confirmation_credit_reserve p)) HARD_HARD_PAIR_MAX_CANDIDATES"

datatype recovery_probe_credit_admission =
    CreditAccepted
  | CreditExhausted
  | CreditConfirmationReserved
  | CreditIdentityStale

datatype recovery_stage = Initial | Predicted | ScatterSmall | ScatterExtended | RelayBackoff

text \<open>The stage ceilings of probes.\<close>

fun stage_max_probes :: "recovery_stage \<Rightarrow> u32" where
  "stage_max_probes Initial = 96"
| "stage_max_probes Predicted = 192"
| "stage_max_probes ScatterSmall = 192"
| "stage_max_probes ScatterExtended = 192"
| "stage_max_probes RelayBackoff = 96"

datatype recovery_admission =
    RecoveryAccepted u64
  | RecoverySuperseded
  | RecoveryBudgetExhausted u64

record recovery_identity =
  ri_epoch :: u64
  ri_network :: u64
  ri_allocation :: u64
  ri_hard_hard :: bool

text \<open>\<open>FreshGenerationReservation\<close>: the shared ledger is the state itself.\<close>

record fresh_reservation =
  fr_peer :: string
  fr_identity :: recovery_identity

record pending_recovery_target =
  pt_peer :: string
  pt_candidates :: "socket_addr list"
  pt_preferred :: "socket_addr list"
  pt_frozen :: "socket_addr list option"
  pt_seen_at :: instant

record recovery_budget_event =
  be_candidates :: u64
  be_visited :: u64
  be_sent :: u64
  be_skipped :: u64
  be_reason :: string
  be_next_retry_ms :: u64
  be_streak :: u32

record recovery_epoch_state =
  re_epoch :: u64
  re_network :: u64
  re_allocation :: u64
  re_stage :: recovery_stage
  re_stage_started :: instant
  re_started :: instant
  re_probe_credit :: u32
  re_plan_builds :: u32
  re_sessions :: u32
  re_iterations :: u64
  re_fresh_quota :: u32
  re_hard_hard_quota :: u32
  re_http_quota :: u32
  re_scatter_windows :: u32
  re_ack_seen :: bool
  re_last_ack :: "socket_addr option"
  re_last_ack_at :: "instant option"
  re_pending :: "pending_recovery_target option"
  re_exhausted :: bool
  re_backoff_until :: "instant option"
  re_zero_send_streak :: u32
  re_last_exhausted_at :: "instant option"
  re_reopens :: u32
  re_last_quota_event :: "string option"
  re_last_budget_event :: "recovery_budget_event option"

text \<open>\<open>RecoveryEpochState::new\<close>.\<close>

definition recovery_epoch_new :: "u64 \<Rightarrow> u64 \<Rightarrow> u64 \<Rightarrow> instant \<Rightarrow> recovery_epoch_state" where
  "recovery_epoch_new epoch network allocation now =
     \<lparr>re_epoch = epoch, re_network = network, re_allocation = allocation,
      re_stage = Initial, re_stage_started = now, re_started = now,
      re_probe_credit = RECOVERY_EPOCH_PROBE_CREDIT,
      re_plan_builds = RECOVERY_EPOCH_PLAN_BUILDS,
      re_sessions = RECOVERY_EPOCH_SESSIONS,
      re_iterations = RECOVERY_EPOCH_CANDIDATE_ITERATIONS,
      re_fresh_quota = RECOVERY_EPOCH_FRESH_GENERATIONS,
      re_hard_hard_quota = RECOVERY_EPOCH_HARD_HARD_GENERATIONS,
      re_http_quota = RECOVERY_EPOCH_HTTP_PUBLISHES,
      re_scatter_windows = 0, re_ack_seen = False, re_last_ack = None, re_last_ack_at = None,
      re_pending = None, re_exhausted = False, re_backoff_until = None,
      re_zero_send_streak = 0, re_last_exhausted_at = None, re_reopens = 0,
      re_last_quota_event = None, re_last_budget_event = None\<rparr>"

datatype liveness_verdict = LiveOk | LiveBlocked | LiveUnknown

record liveness_entry =
  le_verdict :: liveness_verdict
  le_probed_at :: instant
  le_consumed :: bool

record recovery_state =
  rm_epochs :: "string \<Rightarrow> recovery_epoch_state option"
  rm_allocation :: u64
  rm_tokens :: "fresh_reservation list"
  rm_liveness :: "string \<times> u64 \<Rightarrow> liveness_entry option"

definition recovery_state_new :: recovery_state where
  "recovery_state_new = \<lparr>rm_epochs = Map.empty, rm_allocation = 0, rm_tokens = [],
     rm_liveness = Map.empty\<rparr>"

text \<open>\<open>get_mut(peer)\<close> followed by an update in place.\<close>

definition with_epoch :: "string \<Rightarrow> (recovery_epoch_state \<Rightarrow> recovery_epoch_state) \<Rightarrow> recovery_state \<Rightarrow> recovery_state" where
  "with_epoch p f m = (case rm_epochs m p of
     None \<Rightarrow> m
   | Some e \<Rightarrow> m\<lparr>rm_epochs := (rm_epochs m)(p \<mapsto> f e)\<rparr>)"

section \<open>Admission\<close>

text \<open>\<open>next_recovery_epoch_allocation_id\<close>: the counter stops at its maximum.\<close>

definition next_recovery_epoch_allocation_id :: "recovery_state \<Rightarrow> (u64 \<times> recovery_state) option" where
  "next_recovery_epoch_allocation_id m =
     (if rm_allocation m = - 1 then None
      else Some (rm_allocation m + 1, m\<lparr>rm_allocation := rm_allocation m + 1\<rparr>))"

definition recovery_epoch_end :: "string \<Rightarrow> recovery_state \<Rightarrow> recovery_state" where
  "recovery_epoch_end p m = m\<lparr>rm_epochs := (rm_epochs m)(p := None)\<rparr>"

definition enter_stage :: "recovery_stage \<Rightarrow> instant \<Rightarrow> recovery_epoch_state \<Rightarrow> recovery_epoch_state" where
  "enter_stage s now e = (if re_stage e = s then e else e\<lparr>re_stage := s, re_stage_started := now\<rparr>)"

definition mark_recovery_relay_backoff :: "string \<Rightarrow> instant \<Rightarrow> recovery_state \<Rightarrow> recovery_state" where
  "mark_recovery_relay_backoff p now m = with_epoch p (enter_stage RelayBackoff now) m"

text \<open>
  \<open>apply_cached_liveness_block\<close>: whether the verdict is to be applied, and the cache with the
  verdict consumed. The time to live comes from the configuration.
\<close>

definition consume_liveness_block ::
  "duration \<Rightarrow> string \<Rightarrow> u64 \<Rightarrow> instant \<Rightarrow> recovery_state \<Rightarrow> bool \<times> recovery_state" where
  "consume_liveness_block ttl p generation now m =
     (if rm_epochs m p = None then (False, m)
      else case rm_liveness m (p, generation) of
        None \<Rightarrow> (False, m)
      | Some v \<Rightarrow>
          if le_verdict v = LiveBlocked \<and> \<not> le_consumed v \<and> now - le_probed_at v < ttl
          then (True, m\<lparr>rm_liveness := (rm_liveness m)((p, generation) \<mapsto> v\<lparr>le_consumed := True\<rparr>)\<rparr>)
          else (False, m))"

text \<open>The write to the cache in \<open>commit_liveness\<close>.\<close>

definition commit_liveness :: "string \<Rightarrow> u64 \<Rightarrow> liveness_verdict \<Rightarrow> instant \<Rightarrow> recovery_state \<Rightarrow> recovery_state" where
  "commit_liveness p generation v now m = m\<lparr>rm_liveness := (rm_liveness m)((p, generation) \<mapsto>
     \<lparr>le_verdict = v, le_probed_at = now, le_consumed = False\<rparr>)\<rparr>"

text \<open>The locked part of \<open>recovery_epoch_admit\<close>: create, rotate, then the verdict on the budget.\<close>

definition admit_create ::
  "string \<Rightarrow> u64 \<Rightarrow> instant \<Rightarrow> recovery_state \<Rightarrow> u64 + recovery_epoch_state \<times> recovery_state" where
  "admit_create p generation now m =
     (case rm_epochs m p of
        Some e \<Rightarrow> Inr (e, m)
      | None \<Rightarrow> (case next_recovery_epoch_allocation_id m of
          None \<Rightarrow> Inl (- 1)
        | Some (a, m') \<Rightarrow>
            let e = recovery_epoch_new 1 generation a now
            in Inr (e, m'\<lparr>rm_epochs := (rm_epochs m')(p \<mapsto> e)\<rparr>)))"

definition rotation_due :: "u64 \<Rightarrow> instant \<Rightarrow> recovery_epoch_state \<Rightarrow> bool" where
  "rotation_due generation now e \<longleftrightarrow>
     re_network e \<noteq> generation \<or> RECOVERY_EPOCH_MAX_AGE \<le> now - re_started e"

definition admit_rotate ::
  "string \<Rightarrow> u64 \<Rightarrow> instant \<Rightarrow> recovery_epoch_state \<Rightarrow> recovery_state \<Rightarrow> u64 + recovery_epoch_state \<times> recovery_state" where
  "admit_rotate p generation now e m =
     (if \<not> rotation_due generation now e then Inr (e, m)
      else case next_recovery_epoch_allocation_id m of
        None \<Rightarrow> Inl (re_epoch e)
      | Some (a, m') \<Rightarrow>
          let e' = recovery_epoch_new (re_epoch e + 1) generation a now
          in Inr (e', m'\<lparr>rm_epochs := (rm_epochs m')(p \<mapsto> e')\<rparr>))"

definition admit_budget :: "instant \<Rightarrow> recovery_epoch_state \<Rightarrow> recovery_admission \<times> recovery_epoch_state" where
  "admit_budget now e =
     (if re_exhausted e \<and> (case re_backoff_until e of None \<Rightarrow> False | Some t \<Rightarrow> now < t)
      then (RecoveryBudgetExhausted (re_epoch e), e)
      else if re_exhausted e \<and> re_probe_credit e = 0 then (RecoveryBudgetExhausted (re_epoch e), e)
      else let e' = (if re_exhausted e then e\<lparr>re_exhausted := False, re_backoff_until := None\<rparr> else e)
        in (if re_probe_credit e' = 0 then RecoveryBudgetExhausted (re_epoch e')
            else RecoveryAccepted (re_epoch e'), e'))"

definition recovery_admit_locked ::
  "string \<Rightarrow> u64 \<Rightarrow> instant \<Rightarrow> recovery_state \<Rightarrow> recovery_admission \<times> recovery_state" where
  "recovery_admit_locked p generation now m =
     (case admit_create p generation now m of
        Inl n \<Rightarrow> (RecoveryBudgetExhausted n, m)
      | Inr (e, m1) \<Rightarrow> (case admit_rotate p generation now e m1 of
          Inl n \<Rightarrow> (RecoveryBudgetExhausted n, m1)
        | Inr (e2, m2) \<Rightarrow> (case admit_budget now e2 of
            (v, e3) \<Rightarrow> (v, m2\<lparr>rm_epochs := (rm_epochs m2)(p \<mapsto> e3)\<rparr>))))"

section \<open>The stage machine\<close>

fun next_stage :: "recovery_stage \<Rightarrow> recovery_stage" where
  "next_stage Initial = Predicted"
| "next_stage Predicted = ScatterSmall"
| "next_stage ScatterSmall = ScatterExtended"
| "next_stage ScatterExtended = ScatterExtended"
| "next_stage RelayBackoff = RelayBackoff"

text \<open>
  \<open>advance_recovery_stage_after_no_ack_for_peer_session\<close>. The connection map is read under its own
  lock: \<open>current\<close> is the network generation, \<open>session\<close> whether the session is current, \<open>conn\<close> the
  \<open>online\<close> flag and the state of the connection.
\<close>

definition advance_recovery_stage_after_no_ack ::
  "string \<Rightarrow> u64 \<Rightarrow> u64 \<Rightarrow> bool \<Rightarrow> (bool \<times> connection_state) option \<Rightarrow> instant
     \<Rightarrow> recovery_state \<Rightarrow> bool \<times> recovery_state" where
  "advance_recovery_stage_after_no_ack p network current session conn now m =
     (if current \<noteq> network \<or> \<not> session then (False, m)
      else case conn of
        None \<Rightarrow> (False, m)
      | Some (online, cs) \<Rightarrow>
          if \<not> online \<or> cs = CS_Closed \<or> cs = CS_Direct then (False, m)
          else (case rm_epochs m p of
            None \<Rightarrow> (False, m)
          | Some e \<Rightarrow>
              if re_network e \<noteq> network then (False, m)
              else (True, with_epoch p (\<lambda>e. enter_stage (next_stage (re_stage e)) now e) m)))"

definition mark_recovery_relay_backoff_for_peer_session ::
  "string \<Rightarrow> bool \<Rightarrow> instant \<Rightarrow> recovery_state \<Rightarrow> bool \<times> recovery_state" where
  "mark_recovery_relay_backoff_for_peer_session p session now m =
     (if \<not> session then (False, m)
      else if rm_epochs m p = None then (False, m)
      else (True, with_epoch p (enter_stage RelayBackoff now) m))"

text \<open>
  \<open>record_recovery_ack_feedback\<close> takes the lock twice: the second section is
  \<open>recovery_unfreeze_on_ack\<close>.
\<close>

definition record_ack_feedback_first :: "string \<Rightarrow> socket_addr \<Rightarrow> instant \<Rightarrow> recovery_state \<Rightarrow> recovery_state" where
  "record_ack_feedback_first p ep now m = with_epoch p
     (\<lambda>e. enter_stage Initial now
        (e\<lparr>re_ack_seen := True, re_last_ack := Some ep, re_last_ack_at := Some now\<rparr>)) m"

definition recovery_unfreeze_on_ack :: "string \<Rightarrow> recovery_state \<Rightarrow> recovery_state" where
  "recovery_unfreeze_on_ack p m = with_epoch p
     (\<lambda>e. if re_exhausted e then e\<lparr>re_exhausted := False, re_backoff_until := None\<rparr> else e) m"

definition record_recovery_scatter_window :: "string \<Rightarrow> recovery_state \<Rightarrow> recovery_state" where
  "record_recovery_scatter_window p m = with_epoch p
     (\<lambda>e. e\<lparr>re_scatter_windows := sat_add (re_scatter_windows e) 1\<rparr>) m"

section \<open>Budgets\<close>

text \<open>
  The consumers whose epoch is the peer's current one, whatever its identity: a peer without an
  epoch is not budgeted. \<open>spend\<close> is the shape they share.
\<close>

definition spend ::
  "string \<Rightarrow> (recovery_epoch_state \<Rightarrow> bool) \<Rightarrow> (recovery_epoch_state \<Rightarrow> recovery_epoch_state) \<Rightarrow> recovery_state \<Rightarrow> bool \<times> recovery_state" where
  "spend p ok f m = (case rm_epochs m p of
     None \<Rightarrow> (True, m)
   | Some e \<Rightarrow> if ok e then (True, m\<lparr>rm_epochs := (rm_epochs m)(p \<mapsto> f e)\<rparr>) else (False, m))"

definition try_consume_recovery_probe_credit :: "string \<Rightarrow> recovery_state \<Rightarrow> bool \<times> recovery_state" where
  "try_consume_recovery_probe_credit p m = spend p (\<lambda>e. re_probe_credit e \<noteq> 0)
     (\<lambda>e. e\<lparr>re_probe_credit := re_probe_credit e - 1\<rparr>) m"

definition try_consume_recovery_plan_build :: "string \<Rightarrow> recovery_state \<Rightarrow> bool \<times> recovery_state" where
  "try_consume_recovery_plan_build p m = spend p (\<lambda>e. re_plan_builds e \<noteq> 0)
     (\<lambda>e. e\<lparr>re_plan_builds := re_plan_builds e - 1\<rparr>) m"

definition try_consume_recovery_session :: "string \<Rightarrow> recovery_state \<Rightarrow> bool \<times> recovery_state" where
  "try_consume_recovery_session p m = spend p (\<lambda>e. re_sessions e \<noteq> 0)
     (\<lambda>e. e\<lparr>re_sessions := re_sessions e - 1\<rparr>) m"

definition try_consume_recovery_candidate_iterations ::
  "string \<Rightarrow> u64 \<Rightarrow> recovery_state \<Rightarrow> bool \<times> recovery_state" where
  "try_consume_recovery_candidate_iterations p count m = spend p (\<lambda>e. count \<le> re_iterations e)
     (\<lambda>e. e\<lparr>re_iterations := re_iterations e - count\<rparr>) m"

text \<open>The consumers bound to one allocation.\<close>

definition same_allocation :: "recovery_identity \<Rightarrow> recovery_epoch_state \<Rightarrow> bool" where
  "same_allocation i e \<longleftrightarrow> re_epoch e = ri_epoch i \<and> re_network e = ri_network i
     \<and> re_allocation e = ri_allocation i"

definition consume_recovery_probe_credit_for_purpose ::
  "string \<Rightarrow> recovery_identity \<Rightarrow> recovery_probe_purpose \<Rightarrow> u64 \<Rightarrow> recovery_state
     \<Rightarrow> recovery_probe_credit_admission \<times> recovery_state" where
  "consume_recovery_probe_credit_for_purpose p i purpose current m =
     (case rm_epochs m p of
        None \<Rightarrow> (CreditIdentityStale, m)
      | Some e \<Rightarrow>
          if \<not> ri_hard_hard i \<or> \<not> same_allocation i e \<or> current \<noteq> ri_network i
          then (CreditIdentityStale, m)
          else if re_probe_credit e = 0 then (CreditExhausted, m)
          else if re_probe_credit e \<le> confirmation_credit_reserve purpose
          then (CreditConfirmationReserved, m)
          else (CreditAccepted,
            m\<lparr>rm_epochs := (rm_epochs m)(p \<mapsto> e\<lparr>re_probe_credit := re_probe_credit e - 1\<rparr>)\<rparr>))"

definition try_consume_recovery_http_quota_for_identity ::
  "string \<Rightarrow> recovery_identity \<Rightarrow> recovery_state \<Rightarrow> bool \<times> recovery_state" where
  "try_consume_recovery_http_quota_for_identity p i m =
     (case rm_epochs m p of
        None \<Rightarrow> (False, m)
      | Some e \<Rightarrow>
          if \<not> same_allocation i e \<or> re_http_quota e = 0 then (False, m)
          else (True, m\<lparr>rm_epochs := (rm_epochs m)(p \<mapsto> e\<lparr>re_http_quota := re_http_quota e - 1\<rparr>)\<rparr>))"

section \<open>Reservations of fresh mappings\<close>

definition spend_lane :: "bool \<Rightarrow> recovery_epoch_state \<Rightarrow> recovery_epoch_state" where
  "spend_lane hh e = (if hh then e\<lparr>re_hard_hard_quota := re_hard_hard_quota e - 1\<rparr>
     else e\<lparr>re_fresh_quota := re_fresh_quota e - 1\<rparr>)"

definition lane_quota :: "bool \<Rightarrow> recovery_epoch_state \<Rightarrow> u32" where
  "lane_quota hh e = (if hh then re_hard_hard_quota e else re_fresh_quota e)"

definition identity_of :: "bool \<Rightarrow> recovery_epoch_state \<Rightarrow> recovery_identity" where
  "identity_of hh e = \<lparr>ri_epoch = re_epoch e, ri_network = re_network e,
     ri_allocation = re_allocation e, ri_hard_hard = hh\<rparr>"

text \<open>The token is handed to the caller; here it joins the tokens alive.\<close>

definition issue_token :: "bool \<Rightarrow> string \<Rightarrow> recovery_epoch_state \<Rightarrow> recovery_identity \<Rightarrow> recovery_state
    \<Rightarrow> fresh_reservation option \<times> recovery_state" where
  "issue_token hh p e i m = (let t = \<lparr>fr_peer = p, fr_identity = i\<rparr> in
     (Some t, m\<lparr>rm_epochs := (rm_epochs m)(p \<mapsto> spend_lane hh e), rm_tokens := rm_tokens m @ [t]\<rparr>))"

definition try_begin_fresh_generation_for_epoch ::
  "string \<Rightarrow> u64 \<Rightarrow> recovery_state \<Rightarrow> fresh_reservation option \<times> recovery_state" where
  "try_begin_fresh_generation_for_epoch p epoch m =
     (case rm_epochs m p of
        None \<Rightarrow> (None, m)
      | Some e \<Rightarrow>
          if re_epoch e \<noteq> epoch \<or> re_fresh_quota e = 0 then (None, m)
          else issue_token False p e (identity_of False e) m)"

definition try_begin_fresh_generation_for_identity ::
  "string \<Rightarrow> recovery_identity \<Rightarrow> recovery_state \<Rightarrow> fresh_reservation option \<times> recovery_state" where
  "try_begin_fresh_generation_for_identity p i m =
     (case rm_epochs m p of
        None \<Rightarrow> (None, m)
      | Some e \<Rightarrow>
          if \<not> same_allocation i e \<or> re_fresh_quota e = 0 then (None, m)
          else issue_token False p e i m)"

definition try_begin_hard_hard_generation_for_epoch ::
  "string \<Rightarrow> u64 \<Rightarrow> recovery_state \<Rightarrow> fresh_reservation option \<times> recovery_state" where
  "try_begin_hard_hard_generation_for_epoch p epoch m =
     (case rm_epochs m p of
        None \<Rightarrow> (None, m)
      | Some e \<Rightarrow>
          if re_epoch e \<noteq> epoch \<or> re_hard_hard_quota e = 0 then (None, m)
          else issue_token True p e (identity_of True e) m)"

definition try_begin_hard_hard_generation_for_identity ::
  "string \<Rightarrow> recovery_identity \<Rightarrow> recovery_state \<Rightarrow> fresh_reservation option \<times> recovery_state" where
  "try_begin_hard_hard_generation_for_identity p i m =
     (case rm_epochs m p of
        None \<Rightarrow> (None, m)
      | Some e \<Rightarrow>
          if \<not> ri_hard_hard i \<or> \<not> same_allocation i e \<or> re_hard_hard_quota e = 0 then (None, m)
          else issue_token True p e i m)"

text \<open>\<open>refund_if_current\<close>.\<close>

definition refund_if_current :: "string \<Rightarrow> recovery_identity \<Rightarrow> recovery_state \<Rightarrow> recovery_state" where
  "refund_if_current p i m = with_epoch p
     (\<lambda>e. if \<not> same_allocation i e then e
       else if ri_hard_hard i
       then e\<lparr>re_hard_hard_quota := min (sat_add (re_hard_hard_quota e) 1) RECOVERY_EPOCH_HARD_HARD_GENERATIONS\<rparr>
       else e\<lparr>re_fresh_quota := min (sat_add (re_fresh_quota e) 1) RECOVERY_EPOCH_FRESH_GENERATIONS\<rparr>) m"

text \<open>
  A token is consumed by \<open>commit\<close>, by \<open>refund\<close>, or by \<open>drop\<close>, which refunds at once or from a task
  of its own, or not at all without a runtime. A task yet to refund holds the identity, and so
  counts as a live token.
\<close>

definition reservation_commit :: "fresh_reservation \<Rightarrow> recovery_state \<Rightarrow> recovery_state" where
  "reservation_commit t m = m\<lparr>rm_tokens := remove1 t (rm_tokens m)\<rparr>"

definition reservation_refund :: "fresh_reservation \<Rightarrow> recovery_state \<Rightarrow> recovery_state" where
  "reservation_refund t m =
     (if t \<in> set (rm_tokens m)
      then refund_if_current (fr_peer t) (fr_identity t) (m\<lparr>rm_tokens := remove1 t (rm_tokens m)\<rparr>)
      else m)"

section \<open>Freezing and reopening\<close>

text \<open>\<open>Duration::checked_mul\<close> fails only past the range of \<open>Duration\<close>, far above \<open>60 s << 10\<close>.\<close>

definition budget_backoff :: "u32 \<Rightarrow> duration" where
  "budget_backoff streak =
     min (RECOVERY_BUDGET_BACKOFF_BASE * 2 ^ min (unat (sat_sub streak 1)) 10) RECOVERY_BUDGET_BACKOFF_MAX"

text \<open>
  \<open>mark_recovery_budget_exhausted\<close>; \<open>wall_ms\<close> is the system clock. The \<open>Instant\<close>s it reads are one
  argument each: when the freeze starts, the base of the backoff, and the stage entry.
\<close>

definition mark_recovery_budget_exhausted ::
  "string \<Rightarrow> u64 \<Rightarrow> u64 \<Rightarrow> u64 \<Rightarrow> u64 \<Rightarrow> string \<Rightarrow> instant \<Rightarrow> instant \<Rightarrow> u64 \<Rightarrow> instant
     \<Rightarrow> recovery_state \<Rightarrow> recovery_state" where
  "mark_recovery_budget_exhausted p candidates visited sent skipped reason now1 now2 wall_ms now3 m =
     with_epoch p (\<lambda>e.
       let streak = sat_add (re_zero_send_streak e) 1;
           backoff = budget_backoff streak
       in enter_stage RelayBackoff now3
         (e\<lparr>re_exhausted := True, re_last_exhausted_at := Some now1, re_zero_send_streak := streak,
           re_backoff_until := Some (now2 + backoff),
           re_last_budget_event := Some
             \<lparr>be_candidates = candidates, be_visited = visited, be_sent = sent, be_skipped = skipped,
              be_reason = reason,
              be_next_retry_ms = sat_add wall_ms (of_nat (backoff div 1000000)), be_streak = streak\<rparr>\<rparr>)) m"

definition recovery_reopen_on_evidence :: "string \<Rightarrow> instant \<Rightarrow> recovery_state \<Rightarrow> recovery_state" where
  "recovery_reopen_on_evidence p now m = with_epoch p (\<lambda>e.
     if \<not> re_exhausted e \<and> re_probe_credit e \<noteq> 0 \<and> re_plan_builds e \<noteq> 0 \<and> re_sessions e \<noteq> 0 then e
     else if RECOVERY_EPOCH_MAX_EVIDENCE_REOPENS \<le> re_reopens e then e
     else enter_stage Initial now
       (e\<lparr>re_reopens := sat_add (re_reopens e) 1, re_exhausted := False, re_backoff_until := None,
          re_zero_send_streak := 0,
          re_probe_credit := max (re_probe_credit e) RECOVERY_EVIDENCE_RETRY_CREDIT,
          re_plan_builds := max (re_plan_builds e) RECOVERY_EVIDENCE_REGRANT_PLAN_BUILDS,
          re_sessions := max (re_sessions e) RECOVERY_EVIDENCE_REGRANT_SESSIONS,
          re_last_quota_event := None\<rparr>)) m"

definition recovery_quota_event_report_due :: "string \<Rightarrow> string \<Rightarrow> recovery_state \<Rightarrow> bool \<times> recovery_state" where
  "recovery_quota_event_report_due p stage m =
     (case rm_epochs m p of
        None \<Rightarrow> (False, m)
      | Some e \<Rightarrow>
          if re_last_quota_event e = Some stage then (False, m)
          else (True, m\<lparr>rm_epochs := (rm_epochs m)(p \<mapsto> e\<lparr>re_last_quota_event := Some stage\<rparr>)\<rparr>))"

section \<open>The pending target\<close>

definition stash_recovery_target :: "pending_recovery_target \<Rightarrow> recovery_state \<Rightarrow> recovery_state" where
  "stash_recovery_target t m = with_epoch (pt_peer t)
     (\<lambda>e. if (case re_pending e of None \<Rightarrow> True | Some old \<Rightarrow> pt_seen_at old \<le> pt_seen_at t)
       then e\<lparr>re_pending := Some t\<rparr> else e) m"

text \<open>
  \<open>take_recovery_target\<close>. The connection is looked up after the ledger's lock is released:
  \<open>is_current\<close> is \<open>None\<close> when it is gone, else \<open>is_current_remote_endpoint\<close>.
\<close>

definition take_recovery_target ::
  "string \<Rightarrow> (socket_addr \<Rightarrow> bool) option \<Rightarrow> recovery_state
     \<Rightarrow> pending_recovery_target option \<times> recovery_state" where
  "take_recovery_target p is_current m =
     (case rm_epochs m p of
        None \<Rightarrow> (None, m)
      | Some e \<Rightarrow> (case re_pending e of
          None \<Rightarrow> (None, m)
        | Some t \<Rightarrow>
            let m' = m\<lparr>rm_epochs := (rm_epochs m)(p \<mapsto> e\<lparr>re_pending := None\<rparr>)\<rparr>
            in (case is_current of
                None \<Rightarrow> (None, m')
              | Some cur \<Rightarrow>
                  let t' = t\<lparr>pt_candidates := filter cur (pt_candidates t),
                             pt_preferred := filter cur (pt_preferred t),
                             pt_frozen := map_option (filter cur) (pt_frozen t)\<rparr>
                  in if pt_candidates t' = []
                        \<and> (case pt_frozen t' of None \<Rightarrow> True | Some ts \<Rightarrow> ts = [])
                     then (None, m') else (Some t', m'))))"

section \<open>Runs\<close>

datatype recovery_op =
    RoEnd string
  | RoLiveness duration string u64 instant
  | RoCommitLiveness string u64 liveness_verdict instant
  | RoAdmit string u64 instant
  | RoAdvance string u64 u64 bool "(bool \<times> connection_state) option" instant
  | RoRelayBackoff string instant
  | RoRelayBackoffFor string bool instant
  | RoAck string socket_addr instant
  | RoUnfreeze string
  | RoScatterWindow string
  | RoProbe string
  | RoProbeFor string recovery_identity recovery_probe_purpose u64
  | RoPlanBuild string
  | RoSession string
  | RoIterations string u64
  | RoHttp string recovery_identity
  | RoFresh string u64
  | RoFreshRetry string recovery_identity
  | RoHardHard string u64
  | RoHardHardRetry string recovery_identity
  | RoCommit fresh_reservation
  | RoRefund fresh_reservation
  | RoExhausted string u64 u64 u64 u64 string instant instant u64 instant
  | RoReopen string instant
  | RoQuotaEvent string string
  | RoStash pending_recovery_target
  | RoTake string "(socket_addr \<Rightarrow> bool) option"

fun recovery_step :: "recovery_state \<Rightarrow> recovery_op \<Rightarrow> recovery_state" where
  "recovery_step m (RoEnd p) = recovery_epoch_end p m"
| "recovery_step m (RoLiveness ttl p g now) = snd (consume_liveness_block ttl p g now m)"
| "recovery_step m (RoCommitLiveness p g v now) = commit_liveness p g v now m"
| "recovery_step m (RoAdmit p g now) = snd (recovery_admit_locked p g now m)"
| "recovery_step m (RoAdvance p n c s conn now) = snd (advance_recovery_stage_after_no_ack p n c s conn now m)"
| "recovery_step m (RoRelayBackoff p now) = mark_recovery_relay_backoff p now m"
| "recovery_step m (RoRelayBackoffFor p s now) = snd (mark_recovery_relay_backoff_for_peer_session p s now m)"
| "recovery_step m (RoAck p ep now) = record_ack_feedback_first p ep now m"
| "recovery_step m (RoUnfreeze p) = recovery_unfreeze_on_ack p m"
| "recovery_step m (RoScatterWindow p) = record_recovery_scatter_window p m"
| "recovery_step m (RoProbe p) = snd (try_consume_recovery_probe_credit p m)"
| "recovery_step m (RoProbeFor p i u c) = snd (consume_recovery_probe_credit_for_purpose p i u c m)"
| "recovery_step m (RoPlanBuild p) = snd (try_consume_recovery_plan_build p m)"
| "recovery_step m (RoSession p) = snd (try_consume_recovery_session p m)"
| "recovery_step m (RoIterations p n) = snd (try_consume_recovery_candidate_iterations p n m)"
| "recovery_step m (RoHttp p i) = snd (try_consume_recovery_http_quota_for_identity p i m)"
| "recovery_step m (RoFresh p n) = snd (try_begin_fresh_generation_for_epoch p n m)"
| "recovery_step m (RoFreshRetry p i) = snd (try_begin_fresh_generation_for_identity p i m)"
| "recovery_step m (RoHardHard p n) = snd (try_begin_hard_hard_generation_for_epoch p n m)"
| "recovery_step m (RoHardHardRetry p i) = snd (try_begin_hard_hard_generation_for_identity p i m)"
| "recovery_step m (RoCommit t) = reservation_commit t m"
| "recovery_step m (RoRefund t) = reservation_refund t m"
| "recovery_step m (RoExhausted p a b c d r n1 n2 w n3) = mark_recovery_budget_exhausted p a b c d r n1 n2 w n3 m"
| "recovery_step m (RoReopen p now) = recovery_reopen_on_evidence p now m"
| "recovery_step m (RoQuotaEvent p st) = snd (recovery_quota_event_report_due p st m)"
| "recovery_step m (RoStash t) = stash_recovery_target t m"
| "recovery_step m (RoTake p c) = snd (take_recovery_target p c m)"

definition recovery_run :: "recovery_state \<Rightarrow> recovery_op list \<Rightarrow> recovery_state" where
  "recovery_run m ops = foldl recovery_step m ops"

text \<open>
  \<open>recovery_epoch_admit\<close>: the generation is read first; \<open>gone\<close> is the test for a Direct or
  missing connection. \<open>mid1\<close> to \<open>mid3\<close> are what other workers do at its awaits. \<open>now\<close> is read
  once, before them; \<open>now'\<close> and \<open>now''\<close> are the clock of the liveness check and of the stage.
\<close>

definition recovery_epoch_admit ::
  "duration \<Rightarrow> string \<Rightarrow> u64 \<Rightarrow> bool \<Rightarrow> instant \<Rightarrow> instant \<Rightarrow> instant
     \<Rightarrow> recovery_op list \<Rightarrow> recovery_op list \<Rightarrow> recovery_op list \<Rightarrow> recovery_state
     \<Rightarrow> recovery_admission \<times> recovery_state" where
  "recovery_epoch_admit ttl p generation gone now now' now'' mid1 mid2 mid3 m =
     (let m = recovery_run m mid1 in
      if gone then (RecoverySuperseded, recovery_epoch_end p m)
      else (case consume_liveness_block ttl p generation now' m of
        (blocked, m) \<Rightarrow>
          let m = recovery_run m mid2;
              m = (if blocked then mark_recovery_relay_backoff p now'' m else m)
          in recovery_admit_locked p generation now (recovery_run m mid3)))"

end
