(* ===== verification/Recovery_Props.thy ===== *)
theory Recovery_Props
  imports Recovery
begin

text \<open>
  The recovery ledger over any interleaving of its operations: what one step does to the epoch of
  a peer, then the totals of an allocation, the freeze after an exhausted budget, the widening of
  the stages, and the lanes of fresh mappings.
\<close>

section \<open>One step\<close>

lemma with_epoch_None: "rm_epochs m p = None \<Longrightarrow> with_epoch p f m = m"
  by (simp add: with_epoch_def)

lemma with_epoch_Some:
  "rm_epochs m p = Some e \<Longrightarrow> with_epoch p f m = m\<lparr>rm_epochs := (rm_epochs m)(p \<mapsto> f e)\<rparr>"
  by (simp add: with_epoch_def)

lemma with_epoch_fields [simp]:
  "rm_allocation (with_epoch p f m) = rm_allocation m"
  "rm_tokens (with_epoch p f m) = rm_tokens m"
  by (simp_all add: with_epoch_def split: option.splits)

lemma enter_stage_fields [simp]:
  "re_epoch (enter_stage s t e) = re_epoch e" "re_network (enter_stage s t e) = re_network e"
  "re_allocation (enter_stage s t e) = re_allocation e" "re_started (enter_stage s t e) = re_started e"
  "re_probe_credit (enter_stage s t e) = re_probe_credit e" "re_reopens (enter_stage s t e) = re_reopens e"
  "re_fresh_quota (enter_stage s t e) = re_fresh_quota e"
  "re_hard_hard_quota (enter_stage s t e) = re_hard_hard_quota e"
  "re_exhausted (enter_stage s t e) = re_exhausted e"
  "re_backoff_until (enter_stage s t e) = re_backoff_until e"
  "re_zero_send_streak (enter_stage s t e) = re_zero_send_streak e"
  "re_stage (enter_stage s t e) = s"
  by (simp_all add: enter_stage_def)

lemma spend_lane_fields [simp]:
  "re_epoch (spend_lane hh e) = re_epoch e" "re_network (spend_lane hh e) = re_network e"
  "re_allocation (spend_lane hh e) = re_allocation e" "re_started (spend_lane hh e) = re_started e"
  "re_probe_credit (spend_lane hh e) = re_probe_credit e" "re_reopens (spend_lane hh e) = re_reopens e"
  "re_exhausted (spend_lane hh e) = re_exhausted e"
  "re_backoff_until (spend_lane hh e) = re_backoff_until e"
  "re_zero_send_streak (spend_lane hh e) = re_zero_send_streak e" "re_stage (spend_lane hh e) = re_stage e"
  by (simp_all add: spend_lane_def)

text \<open>The effect of an operation on an epoch it keeps, guards included.\<close>

definition refund_effect :: "recovery_identity \<Rightarrow> recovery_epoch_state \<Rightarrow> recovery_epoch_state" where
  "refund_effect i e = (if \<not> same_allocation i e then e
     else if ri_hard_hard i
     then e\<lparr>re_hard_hard_quota := min (sat_add (re_hard_hard_quota e) 1) RECOVERY_EPOCH_HARD_HARD_GENERATIONS\<rparr>
     else e\<lparr>re_fresh_quota := min (sat_add (re_fresh_quota e) 1) RECOVERY_EPOCH_FRESH_GENERATIONS\<rparr>)"

definition exhausted_effect ::
  "u64 \<Rightarrow> u64 \<Rightarrow> u64 \<Rightarrow> u64 \<Rightarrow> string \<Rightarrow> instant \<Rightarrow> instant \<Rightarrow> u64 \<Rightarrow> instant \<Rightarrow> recovery_epoch_state \<Rightarrow> recovery_epoch_state" where
  "exhausted_effect a b c d r n1 n2 w n3 e =
     (let streak = sat_add (re_zero_send_streak e) 1;
          backoff = budget_backoff streak
      in enter_stage RelayBackoff n3
        (e\<lparr>re_exhausted := True, re_last_exhausted_at := Some n1, re_zero_send_streak := streak,
          re_backoff_until := Some (n2 + backoff),
          re_last_budget_event := Some
            \<lparr>be_candidates = a, be_visited = b, be_sent = c, be_skipped = d, be_reason = r,
             be_next_retry_ms = sat_add w (of_nat (backoff div 1000000)), be_streak = streak\<rparr>\<rparr>))"

definition reopen_effect :: "instant \<Rightarrow> recovery_epoch_state \<Rightarrow> recovery_epoch_state" where
  "reopen_effect now e =
     (if \<not> re_exhausted e \<and> re_probe_credit e \<noteq> 0 \<and> re_plan_builds e \<noteq> 0 \<and> re_sessions e \<noteq> 0 then e
      else if RECOVERY_EPOCH_MAX_EVIDENCE_REOPENS \<le> re_reopens e then e
      else enter_stage Initial now
        (e\<lparr>re_reopens := sat_add (re_reopens e) 1, re_exhausted := False, re_backoff_until := None,
           re_zero_send_streak := 0,
           re_probe_credit := max (re_probe_credit e) RECOVERY_EVIDENCE_RETRY_CREDIT,
           re_plan_builds := max (re_plan_builds e) RECOVERY_EVIDENCE_REGRANT_PLAN_BUILDS,
           re_sessions := max (re_sessions e) RECOVERY_EVIDENCE_REGRANT_SESSIONS,
           re_last_quota_event := None\<rparr>))"

definition purpose_ok :: "recovery_identity \<Rightarrow> recovery_probe_purpose \<Rightarrow> u64 \<Rightarrow> recovery_epoch_state \<Rightarrow> bool" where
  "purpose_ok i u c e \<longleftrightarrow> ri_hard_hard i \<and> same_allocation i e \<and> c = ri_network i
     \<and> re_probe_credit e \<noteq> 0 \<and> confirmation_credit_reserve u < re_probe_credit e"

fun epoch_effect :: "recovery_op \<Rightarrow> recovery_epoch_state \<Rightarrow> recovery_epoch_state" where
  "epoch_effect (RoAdmit p g now) e = snd (admit_budget now e)"
| "epoch_effect (RoAdvance p n c s conn now) e =
     (if c = n \<and> s \<and> (\<exists>cs. conn = Some (True, cs) \<and> cs \<noteq> CS_Closed \<and> cs \<noteq> CS_Direct) \<and> re_network e = n
      then enter_stage (next_stage (re_stage e)) now e else e)"
| "epoch_effect (RoRelayBackoff p now) e = enter_stage RelayBackoff now e"
| "epoch_effect (RoRelayBackoffFor p s now) e = (if s then enter_stage RelayBackoff now e else e)"
| "epoch_effect (RoAck p ep now) e = enter_stage Initial now
     (e\<lparr>re_ack_seen := True, re_last_ack := Some ep, re_last_ack_at := Some now\<rparr>)"
| "epoch_effect (RoUnfreeze p) e = (if re_exhausted e then e\<lparr>re_exhausted := False, re_backoff_until := None\<rparr> else e)"
| "epoch_effect (RoScatterWindow p) e = e\<lparr>re_scatter_windows := sat_add (re_scatter_windows e) 1\<rparr>"
| "epoch_effect (RoProbe p) e = (if re_probe_credit e \<noteq> 0 then e\<lparr>re_probe_credit := re_probe_credit e - 1\<rparr> else e)"
| "epoch_effect (RoProbeFor p i u c) e =
     (if purpose_ok i u c e then e\<lparr>re_probe_credit := re_probe_credit e - 1\<rparr> else e)"
| "epoch_effect (RoPlanBuild p) e = (if re_plan_builds e \<noteq> 0 then e\<lparr>re_plan_builds := re_plan_builds e - 1\<rparr> else e)"
| "epoch_effect (RoSession p) e = (if re_sessions e \<noteq> 0 then e\<lparr>re_sessions := re_sessions e - 1\<rparr> else e)"
| "epoch_effect (RoIterations p n) e = (if n \<le> re_iterations e then e\<lparr>re_iterations := re_iterations e - n\<rparr> else e)"
| "epoch_effect (RoHttp p i) e =
     (if same_allocation i e \<and> re_http_quota e \<noteq> 0 then e\<lparr>re_http_quota := re_http_quota e - 1\<rparr> else e)"
| "epoch_effect (RoFresh p n) e = (if re_epoch e = n \<and> re_fresh_quota e \<noteq> 0 then spend_lane False e else e)"
| "epoch_effect (RoFreshRetry p i) e =
     (if same_allocation i e \<and> re_fresh_quota e \<noteq> 0 then spend_lane False e else e)"
| "epoch_effect (RoHardHard p n) e = (if re_epoch e = n \<and> re_hard_hard_quota e \<noteq> 0 then spend_lane True e else e)"
| "epoch_effect (RoHardHardRetry p i) e =
     (if ri_hard_hard i \<and> same_allocation i e \<and> re_hard_hard_quota e \<noteq> 0 then spend_lane True e else e)"
| "epoch_effect (RoRefund t) e = refund_effect (fr_identity t) e"
| "epoch_effect (RoExhausted p a b c d r n1 n2 w n3) e = exhausted_effect a b c d r n1 n2 w n3 e"
| "epoch_effect (RoReopen p now) e = reopen_effect now e"
| "epoch_effect (RoQuotaEvent p st) e =
     (if re_last_quota_event e = Some st then e else e\<lparr>re_last_quota_event := Some st\<rparr>)"
| "epoch_effect (RoStash t) e = (if (case re_pending e of None \<Rightarrow> True | Some old \<Rightarrow> pt_seen_at old \<le> pt_seen_at t)
       then e\<lparr>re_pending := Some t\<rparr> else e)"
| "epoch_effect (RoTake p c) e = (if re_pending e = None then e else e\<lparr>re_pending := None\<rparr>)"
| "epoch_effect _ e = e"

text \<open>The peer whose epoch an operation works on.\<close>

fun op_peer :: "recovery_op \<Rightarrow> string option" where
  "op_peer (RoAdmit p g now) = Some p"
| "op_peer (RoAdvance p n c s conn now) = Some p"
| "op_peer (RoRelayBackoff p now) = Some p"
| "op_peer (RoRelayBackoffFor p s now) = Some p"
| "op_peer (RoAck p ep now) = Some p"
| "op_peer (RoUnfreeze p) = Some p"
| "op_peer (RoScatterWindow p) = Some p"
| "op_peer (RoProbe p) = Some p"
| "op_peer (RoProbeFor p i u c) = Some p"
| "op_peer (RoPlanBuild p) = Some p"
| "op_peer (RoSession p) = Some p"
| "op_peer (RoIterations p n) = Some p"
| "op_peer (RoHttp p i) = Some p"
| "op_peer (RoFresh p n) = Some p"
| "op_peer (RoFreshRetry p i) = Some p"
| "op_peer (RoHardHard p n) = Some p"
| "op_peer (RoHardHardRetry p i) = Some p"
| "op_peer (RoRefund t) = Some (fr_peer t)"
| "op_peer (RoExhausted p a b c d r n1 n2 w n3) = Some p"
| "op_peer (RoReopen p now) = Some p"
| "op_peer (RoQuotaEvent p st) = Some p"
| "op_peer (RoStash t) = Some (pt_peer t)"
| "op_peer (RoTake p c) = Some p"
| "op_peer _ = None"

lemma rotation_not_due_new: "\<not> rotation_due g now (recovery_epoch_new n g a now)"
  by (simp add: rotation_due_def recovery_epoch_new_def recovery_consts from_secs_def)

lemma admit_budget_new: "admit_budget now (recovery_epoch_new n g a t) = (RecoveryAccepted n, recovery_epoch_new n g a t)"
  by (simp add: admit_budget_def recovery_epoch_new_def recovery_consts)

text \<open>Admission: refused for want of an allocation id, a new epoch, or the epoch kept.\<close>

lemma recovery_admit_cases:
  "recovery_admit_locked p g now m =
     (case rm_epochs m p of
        None \<Rightarrow>
          if rm_allocation m = - 1 then (RecoveryBudgetExhausted (- 1), m)
          else (RecoveryAccepted 1, m\<lparr>rm_allocation := rm_allocation m + 1, rm_epochs := (rm_epochs m)
            (p \<mapsto> recovery_epoch_new 1 g (rm_allocation m + 1) now)\<rparr>)
      | Some e \<Rightarrow>
          if \<not> rotation_due g now e
          then (fst (admit_budget now e), m\<lparr>rm_epochs := (rm_epochs m)(p \<mapsto> snd (admit_budget now e))\<rparr>)
          else if rm_allocation m = - 1 then (RecoveryBudgetExhausted (re_epoch e), m)
          else (RecoveryAccepted (re_epoch e + 1), m\<lparr>rm_allocation := rm_allocation m + 1,
            rm_epochs := (rm_epochs m)(p \<mapsto> recovery_epoch_new (re_epoch e + 1) g (rm_allocation m + 1) now)\<rparr>))"
  by (simp add: recovery_admit_locked_def admit_create_def admit_rotate_def
      next_recovery_epoch_allocation_id_def Let_def admit_budget_new rotation_not_due_new
      split: option.splits prod.splits)

lemmas recovery_op_defs =
  recovery_epoch_end_def consume_liveness_block_def commit_liveness_def
  recovery_admit_cases advance_recovery_stage_after_no_ack_def mark_recovery_relay_backoff_def
  mark_recovery_relay_backoff_for_peer_session_def record_ack_feedback_first_def
  recovery_unfreeze_on_ack_def record_recovery_scatter_window_def spend_def
  try_consume_recovery_probe_credit_def try_consume_recovery_plan_build_def
  try_consume_recovery_session_def try_consume_recovery_candidate_iterations_def
  consume_recovery_probe_credit_for_purpose_def try_consume_recovery_http_quota_for_identity_def
  issue_token_def try_begin_fresh_generation_for_epoch_def
  try_begin_fresh_generation_for_identity_def try_begin_hard_hard_generation_for_epoch_def
  try_begin_hard_hard_generation_for_identity_def refund_if_current_def reservation_commit_def
  reservation_refund_def mark_recovery_budget_exhausted_def recovery_reopen_on_evidence_def
  recovery_quota_event_report_due_def stash_recovery_target_def take_recovery_target_def

lemma recovery_step_other:
  "op_peer op \<noteq> Some q \<Longrightarrow> op \<noteq> RoEnd q \<Longrightarrow> rm_epochs (recovery_step m op) q = rm_epochs m q"
  by (cases op) (auto simp: recovery_op_defs
      with_epoch_def Let_def split: option.splits prod.splits)

text \<open>Whether an operation on a peer's epoch keeps it: no rotation, no dead token.\<close>

fun op_keeps :: "recovery_state \<Rightarrow> recovery_op \<Rightarrow> recovery_epoch_state \<Rightarrow> bool" where
  "op_keeps m (RoAdmit p g now) e \<longleftrightarrow> \<not> rotation_due g now e"
| "op_keeps m (RoRefund t) e \<longleftrightarrow> t \<in> set (rm_tokens m)"
| "op_keeps m _ e \<longleftrightarrow> True"

lemma recovery_step_kept:
  assumes "rm_epochs m p = Some e" and "op_peer op = Some p" and "op_keeps m op e"
  shows "rm_epochs (recovery_step m op) p = Some (epoch_effect op e)"
  using assms
  by (cases op) (auto simp: recovery_op_defs
      with_epoch_Some Let_def purpose_ok_def refund_effect_def exhausted_effect_def reopen_effect_def
      split: option.splits prod.splits)

lemma recovery_step_absent:
  assumes "rm_epochs m p = None" and "\<And>g now. op \<noteq> RoAdmit p g now"
  shows "rm_epochs (recovery_step m op) p = None"
  using assms
  by (cases op) (auto simp: recovery_op_defs with_epoch_def Let_def split: option.splits prod.splits)

text \<open>The allocation counter moves by one, exactly when an epoch is created.\<close>

lemma recovery_step_allocation:
  "rm_allocation (recovery_step m op) = rm_allocation m
   \<or> (\<exists>p g now n. op = RoAdmit p g now \<and> rm_allocation m \<noteq> - 1
        \<and> rm_allocation (recovery_step m op) = rm_allocation m + 1
        \<and> rm_epochs (recovery_step m op) p = Some (recovery_epoch_new n g (rm_allocation m + 1) now)
        \<and> (\<forall>e. rm_epochs m p = Some e \<longrightarrow> rotation_due g now e))"
  by (cases op) (auto simp: recovery_op_defs Let_def split: option.splits prod.splits if_splits)

text \<open>What the epoch of a peer after a step can be.\<close>

lemma recovery_step_at:
  assumes "rm_epochs (recovery_step m op) p = Some e'"
  obtains (same) "rm_epochs m p = Some e'"
      and "op_peer op = Some p \<Longrightarrow> \<not> op_keeps m op e'"
    | (kept) e where "rm_epochs m p = Some e" and "op_peer op = Some p" and "op_keeps m op e"
        and "e' = epoch_effect op e"
    | (new) g now n where "op = RoAdmit p g now" and "rm_allocation m \<noteq> - 1"
        and "rm_allocation (recovery_step m op) = rm_allocation m + 1"
        and "e' = recovery_epoch_new n g (rm_allocation m + 1) now"
proof (cases "op_peer op = Some p")
  case False
  then have "op \<noteq> RoEnd p" using assms by (auto simp: recovery_epoch_end_def)
  with False assms show ?thesis by (auto simp: recovery_step_other intro: same)
next
  case True
  show ?thesis
  proof (cases "rm_epochs m p")
    case None
    then obtain g now where op: "op = RoAdmit p g now"
      using recovery_step_absent [of m p op] assms by fastforce
    show ?thesis
      by (rule new [of g now 1]) (use assms None op in \<open>auto simp: recovery_admit_cases split: if_splits\<close>)
  next
    case (Some e)
    show ?thesis
    proof (cases "op_keeps m op e")
      case True
      with \<open>op_peer op = Some p\<close> Some assms recovery_step_kept [OF Some] show ?thesis
        by (auto intro: kept)
    next
      case False
      then consider (refund) t where "op = RoRefund t" "t \<notin> set (rm_tokens m)"
        | (rotate) g now where "op = RoAdmit p g now" "rotation_due g now e"
        using True by (cases op) auto
      then show ?thesis
      proof cases
        case refund
        then have "rm_epochs m p = Some e'" using assms by (simp add: reservation_refund_def)
        with False Some show ?thesis by (intro same) auto
      next
        case rotate
        show ?thesis
        proof (cases "rm_allocation m = - 1")
          case True
          with rotate Some assms False show ?thesis
            by (intro same) (auto simp: recovery_admit_cases)
        next
          case fresh: False
          show ?thesis
            by (rule new [of g now "re_epoch e + 1"])
              (use assms Some rotate fresh in \<open>auto simp: recovery_admit_cases\<close>)
        qed
      qed
    qed
  qed
qed

end
