(* ===== verification/Recovery_Ledger.thy ===== *)
theory Recovery_Ledger
  imports Recovery_Props
begin

text \<open>
  The ledger over a run: allocation ids are never shared or reused, and what an allocation is
  charged stays within what it was granted, \<open>RECOVERY_EPOCH_PROBE_CREDIT\<close> and a retry allowance
  for each evidence re-open.
\<close>

section \<open>The total of an allocation\<close>

text \<open>The allocation a step charges a probe to, and the probes a run charges to an allocation.\<close>

fun probe_charged :: "recovery_state \<Rightarrow> recovery_op \<Rightarrow> u64 option" where
  "probe_charged m (RoProbe p) =
     (case rm_epochs m p of
        None \<Rightarrow> None
      | Some e \<Rightarrow> if fst (try_consume_recovery_probe_credit p m) then Some (re_allocation e) else None)"
| "probe_charged m (RoProbeFor p i u c) =
     (if fst (consume_recovery_probe_credit_for_purpose p i u c m) = CreditAccepted
      then Some (ri_allocation i) else None)"
| "probe_charged m _ = None"

primrec probes_spent :: "recovery_state \<Rightarrow> recovery_op list \<Rightarrow> u64 \<Rightarrow> nat" where
  "probes_spent m [] a = 0"
| "probes_spent m (op # ops) a =
     (if probe_charged m op = Some a then 1 else 0) + probes_spent (recovery_step m op) ops a"

fun charges :: "recovery_op \<Rightarrow> recovery_epoch_state \<Rightarrow> bool" where
  "charges (RoProbe p) e \<longleftrightarrow> re_probe_credit e \<noteq> 0"
| "charges (RoProbeFor p i u c) e \<longleftrightarrow> purpose_ok i u c e"
| "charges _ e \<longleftrightarrow> False"

lemma probe_charged_iff:
  "probe_charged m op = Some a \<longleftrightarrow>
     (\<exists>p e. op_peer op = Some p \<and> rm_epochs m p = Some e \<and> charges op e \<and> a = re_allocation e)"
  by (cases op) (auto simp: try_consume_recovery_probe_credit_def spend_def purpose_ok_def
      consume_recovery_probe_credit_for_purpose_def same_allocation_def split: option.splits if_splits)

definition allocation_inv :: "recovery_state \<Rightarrow> bool" where
  "allocation_inv m \<longleftrightarrow>
     (\<forall>p e. rm_epochs m p = Some e \<longrightarrow> re_allocation e \<le> rm_allocation m)
     \<and> (\<forall>p q e f. rm_epochs m p = Some e \<longrightarrow> rm_epochs m q = Some f \<longrightarrow>
          re_allocation e = re_allocation f \<longrightarrow> p = q)"

lemma allocation_le: "allocation_inv m \<Longrightarrow> rm_epochs m p = Some e \<Longrightarrow> re_allocation e \<le> rm_allocation m"
  by (simp add: allocation_inv_def)

lemma allocation_inj:
  "allocation_inv m \<Longrightarrow> rm_epochs m p = Some e \<Longrightarrow> rm_epochs m q = Some f
     \<Longrightarrow> re_allocation e = re_allocation f \<Longrightarrow> p = q"
  by (simp add: allocation_inv_def)

lemma admit_budget_fields [simp]:
  "re_epoch (snd (admit_budget now e)) = re_epoch e" "re_network (snd (admit_budget now e)) = re_network e"
  "re_allocation (snd (admit_budget now e)) = re_allocation e"
  "re_started (snd (admit_budget now e)) = re_started e"
  "re_probe_credit (snd (admit_budget now e)) = re_probe_credit e"
  "re_reopens (snd (admit_budget now e)) = re_reopens e"
  "re_fresh_quota (snd (admit_budget now e)) = re_fresh_quota e"
  "re_hard_hard_quota (snd (admit_budget now e)) = re_hard_hard_quota e"
  "re_zero_send_streak (snd (admit_budget now e)) = re_zero_send_streak e"
  "re_stage (snd (admit_budget now e)) = re_stage e"
  by (simp_all add: admit_budget_def Let_def)

lemma epoch_effect_identity [simp]:
  "re_allocation (epoch_effect op e) = re_allocation e"
  "re_epoch (epoch_effect op e) = re_epoch e"
  "re_network (epoch_effect op e) = re_network e"
  "re_started (epoch_effect op e) = re_started e"
  by (cases op; simp add: refund_effect_def exhausted_effect_def reopen_effect_def Let_def)+

lemma unat_succ: "a \<noteq> - 1 \<Longrightarrow> unat (a + 1 :: 'a::len word) = Suc (unat a)"
proof -
  assume "a \<noteq> - 1"
  then have "1 + a \<noteq> 0" by (metis add.commute eq_neg_iff_add_eq_0)
  then show ?thesis by (simp add: unatSuc add.commute)
qed

lemma word_less_succ: "a \<noteq> - 1 \<Longrightarrow> (a :: 'a::len word) < a + 1"
  by (simp add: word_less_nat_alt unat_succ)

lemma recovery_step_origin:
  assumes "rm_epochs (recovery_step m op) p = Some e'"
  shows "(\<exists>d. rm_epochs m p = Some d \<and> re_allocation d = re_allocation e')
    \<or> (\<exists>g now. op = RoAdmit p g now \<and> rm_allocation m \<noteq> - 1 \<and> re_allocation e' = rm_allocation m + 1)"
  using assms by (rule recovery_step_at) (auto simp: recovery_epoch_new_def)

lemma allocation_inv_step:
  assumes "allocation_inv m"
  shows "allocation_inv (recovery_step m op)"
proof -
  have new: "re_allocation e \<noteq> rm_allocation m + 1" if "rm_epochs m q = Some e" "rm_allocation m \<noteq> - 1" for q e
    using allocation_le [OF assms that(1)] word_less_succ [OF that(2)] by auto
  have mono: "rm_allocation m \<le> rm_allocation (recovery_step m op)"
    using recovery_step_allocation [of m op] word_less_succ [of "rm_allocation m"] by auto
  have "re_allocation e' \<le> rm_allocation (recovery_step m op)" if "rm_epochs (recovery_step m op) p = Some e'" for p e'
    using that by (rule recovery_step_at)
      (use order_trans [OF allocation_le [OF assms] mono] in \<open>auto simp: recovery_epoch_new_def\<close>)
  moreover have "p = q" if e: "rm_epochs (recovery_step m op) p = Some e"
    and f: "rm_epochs (recovery_step m op) q = Some f" and a: "re_allocation e = re_allocation f" for p q e f
  proof -
    from recovery_step_origin [OF e] show ?thesis
    proof (elim disjE exE conjE)
      fix d assume d: "rm_epochs m p = Some d" "re_allocation d = re_allocation e"
      from recovery_step_origin [OF f] show "p = q"
      proof (elim disjE exE conjE)
        fix d' assume "rm_epochs m q = Some d'" "re_allocation d' = re_allocation f"
        then show "p = q" using allocation_inj [OF assms d(1), of q d'] d a by simp
      next
        fix g now assume "rm_allocation m \<noteq> - 1" "re_allocation f = rm_allocation m + 1"
        then show "p = q" using d a new [OF d(1)] by simp
      qed
    next
      fix g now assume n: "op = RoAdmit p g now" "rm_allocation m \<noteq> - 1" "re_allocation e = rm_allocation m + 1"
      from recovery_step_origin [OF f] show "p = q"
      proof (elim disjE exE conjE)
        fix d' assume "rm_epochs m q = Some d'" "re_allocation d' = re_allocation f"
        then show "p = q" using n a new [of q d'] by simp
      next
        fix g now assume "op = RoAdmit q g now"
        then show "p = q" using n by simp
      qed
    qed
  qed
  ultimately show ?thesis by (auto simp: allocation_inv_def)
qed

lemma allocation_inv_init: "allocation_inv recovery_state_new"
  by (simp add: allocation_inv_def recovery_state_new_def)

interpretation allocations: event_machine recovery_step allocation_inv
  by unfold_locales (rule allocation_inv_step)

text \<open>The credit an epoch still has and the credit it was charged never exceed what it was granted.\<close>

definition granted :: "recovery_epoch_state \<Rightarrow> nat" where
  "granted e = 4000 + 96 * unat (re_reopens e)"

lemma unat_pred: "a \<noteq> 0 \<Longrightarrow> Suc (unat (a - 1 :: 'a::len word)) = unat a"
  by (simp add: unat_minus_one unat_gt_0)

lemma reopen_credit:
  assumes "re_reopens e \<le> 8"
  shows "unat (re_probe_credit (reopen_effect now e)) + granted e
      \<le> unat (re_probe_credit e) + granted (reopen_effect now e)
    \<and> re_reopens (reopen_effect now e) \<le> 8"
proof (cases "reopen_effect now e = e")
  case True
  with assms show ?thesis by simp
next
  case False
  then have r: "re_reopens e < 8" and new: "re_reopens (reopen_effect now e) = sat_add (re_reopens e) 1"
    "re_probe_credit (reopen_effect now e) = max (re_probe_credit e) 96"
    by (auto simp: reopen_effect_def recovery_consts split: if_splits)
  have u: "unat (re_reopens e) < 8" using r by (simp add: word_less_nat_alt)
  then have s: "unat (sat_add (re_reopens e) 1) = unat (re_reopens e) + 1" by (simp add: unat_sat_add)
  have "unat (max (re_probe_credit e) 96) \<le> unat (re_probe_credit e) + 96"
    by (simp add: max_def)
  with u s show ?thesis by (simp add: new granted_def word_le_nat_alt)
qed

lemma epoch_effect_credit:
  assumes "re_reopens e \<le> 8"
  shows "unat (re_probe_credit (epoch_effect op e)) + (if charges op e then 1 else 0) + granted e
      \<le> unat (re_probe_credit e) + granted (epoch_effect op e)
    \<and> re_reopens (epoch_effect op e) \<le> 8"
proof (cases "\<exists>p now. op = RoReopen p now")
  case True
  with reopen_credit [OF assms] show ?thesis by auto
next
  case False
  have p: "re_probe_credit e \<noteq> 0" if "purpose_ok i u c e" for i u c
    using that by (simp add: purpose_ok_def)
  have "re_reopens (epoch_effect op e) = re_reopens e"
    using False by (cases op) (auto simp: refund_effect_def exhausted_effect_def Let_def)
  moreover have "unat (re_probe_credit (epoch_effect op e)) + (if charges op e then 1 else 0) = unat (re_probe_credit e)"
    using False unat_pred [of "re_probe_credit e"]
    by (cases op) (auto simp: refund_effect_def exhausted_effect_def Let_def dest: p)
  ultimately show ?thesis using assms by (simp add: granted_def)
qed

definition ledger_inv :: "(u64 \<Rightarrow> nat) \<Rightarrow> recovery_state \<Rightarrow> bool" where
  "ledger_inv h m \<longleftrightarrow> allocation_inv m
     \<and> (\<forall>p e. rm_epochs m p = Some e \<longrightarrow>
          h (re_allocation e) + unat (re_probe_credit e) \<le> granted e \<and> re_reopens e \<le> 8)
     \<and> (\<forall>a. h a \<le> 4768) \<and> (\<forall>a. rm_allocation m < a \<longrightarrow> h a = 0)"

definition charge :: "recovery_state \<Rightarrow> recovery_op \<Rightarrow> (u64 \<Rightarrow> nat) \<Rightarrow> u64 \<Rightarrow> nat" where
  "charge m op h a = h a + (if probe_charged m op = Some a then 1 else 0)"

lemma ledger_inv_epoch:
  assumes "ledger_inv h m" and "rm_epochs (recovery_step m op) p = Some e'"
  shows "charge m op h (re_allocation e') + unat (re_probe_credit e') \<le> granted e' \<and> re_reopens e' \<le> 8"
proof -
  have inv: "allocation_inv m" and led: "\<And>p e. rm_epochs m p = Some e \<Longrightarrow>
      h (re_allocation e) + unat (re_probe_credit e) \<le> granted e \<and> re_reopens e \<le> 8"
    and zero: "\<And>a. rm_allocation m < a \<Longrightarrow> h a = 0"
    using assms(1) by (auto simp: ledger_inv_def)
  have charged: "probe_charged m op = Some (re_allocation e) \<Longrightarrow> op_peer op = Some p \<and> charges op e"
    if "rm_epochs m p = Some e" for e
  proof -
    assume "probe_charged m op = Some (re_allocation e)"
    then obtain q f where q: "op_peer op = Some q" "rm_epochs m q = Some f" "charges op f"
        "re_allocation e = re_allocation f"
      by (auto simp: probe_charged_iff)
    with allocation_inj [OF inv that q(2)] that show ?thesis by simp
  qed
  from assms(2) show ?thesis
  proof (cases rule: recovery_step_at)
    case same
    have "probe_charged m op \<noteq> Some (re_allocation e')"
    proof
      assume "probe_charged m op = Some (re_allocation e')"
      with charged [OF same(1)] have "op_peer op = Some p" "charges op e'" by auto
      with same(2) show False by (cases op) auto
    qed
    with led [OF same(1)] show ?thesis by (simp add: charge_def)
  next
    case (kept e)
    from led [OF kept(1)] have l: "h (re_allocation e) + unat (re_probe_credit e) \<le> granted e" "re_reopens e \<le> 8"
      by auto
    have "(if probe_charged m op = Some (re_allocation e) then 1 else 0 :: nat) \<le> (if charges op e then 1 else 0)"
      using charged [OF kept(1)] by auto
    with epoch_effect_credit [OF l(2), of op] l kept(4) show ?thesis by (auto simp: charge_def)
  next
    case (new g now n)
    then have "charge m op h (re_allocation e') = 0"
      using zero [OF word_less_succ [OF new(2)]] by (simp add: charge_def recovery_epoch_new_def)
    with new(4) show ?thesis by (simp add: recovery_epoch_new_def granted_def recovery_consts)
  qed
qed

lemma ledger_inv_step:
  assumes "ledger_inv h m"
  shows "ledger_inv (charge m op h) (recovery_step m op)"
proof -
  have inv: "allocation_inv m" and cap: "\<And>a. h a \<le> 4768"
    and led: "\<And>p e. rm_epochs m p = Some e \<Longrightarrow>
      h (re_allocation e) + unat (re_probe_credit e) \<le> granted e \<and> re_reopens e \<le> 8"
    and zero: "\<And>a. rm_allocation m < a \<Longrightarrow> h a = 0"
    using assms by (auto simp: ledger_inv_def)
  have "charge m op h a \<le> 4768" for a
  proof (cases "probe_charged m op = Some a")
    case True
    then obtain p e where e: "rm_epochs m p = Some e" "charges op e" "a = re_allocation e"
      by (auto simp: probe_charged_iff)
    then have "0 < unat (re_probe_credit e)" by (cases op) (auto simp: purpose_ok_def unat_gt_0)
    moreover have "unat (re_reopens e) \<le> 8" using led [OF e(1)] by (simp add: word_le_nat_alt)
    ultimately show ?thesis using led [OF e(1)] e(3) by (simp add: charge_def granted_def)
  qed (simp add: charge_def cap)
  moreover have "charge m op h a = 0" if "rm_allocation (recovery_step m op) < a" for a
  proof -
    have "rm_allocation m < a"
      using that recovery_step_allocation [of m op] word_less_succ [of "rm_allocation m"] by auto
    moreover from this have "probe_charged m op \<noteq> Some a"
      using allocation_le [OF inv] by (fastforce simp: probe_charged_iff not_less [symmetric])
    ultimately show ?thesis using zero by (simp add: charge_def)
  qed
  ultimately show ?thesis
    using allocation_inv_step [OF inv] ledger_inv_epoch [OF assms] by (simp add: ledger_inv_def)
qed

lemma ledger_inv_run: "ledger_inv h m \<Longrightarrow> h a + probes_spent m ops a \<le> 4768"
proof (induction ops arbitrary: h m)
  case Nil
  then show ?case by (simp add: ledger_inv_def)
next
  case (Cons op ops)
  have "charge m op h a + probes_spent (recovery_step m op) ops a \<le> 4768"
    by (rule Cons.IH [OF ledger_inv_step [OF Cons.prems]])
  then show ?case by (simp add: charge_def split: if_splits)
qed

lemma ledger_inv_init: "ledger_inv (\<lambda>_. 0) recovery_state_new"
  using allocation_inv_init by (simp add: ledger_inv_def recovery_state_new_def)

text \<open>The bound is attained: the credit of the epoch, then of eight evidence re-opens.\<close>

lemma probes_spent_append:
  "probes_spent m (xs @ ys) a = probes_spent m xs a + probes_spent (recovery_run m xs) ys a"
  by (induction xs arbitrary: m) (simp_all add: recovery_run_def)

lemma recovery_run_append: "recovery_run m (xs @ ys) = recovery_run (recovery_run m xs) ys"
  by (simp add: recovery_run_def)

lemma probes_spent_all:
  assumes "rm_epochs m p = Some e" and "unat (re_probe_credit e) = n"
  shows "probes_spent m (replicate n (RoProbe p)) (re_allocation e) = n
    \<and> rm_epochs (recovery_run m (replicate n (RoProbe p))) p = Some (e\<lparr>re_probe_credit := 0\<rparr>)"
  using assms
proof (induction n arbitrary: m e)
  case 0
  then have "re_probe_credit e = 0" by (simp add: unsigned_eq_0_iff)
  then have "e\<lparr>re_probe_credit := 0\<rparr> = e" by simp
  with 0 show ?case by (simp add: recovery_run_def)
next
  case (Suc n)
  let ?e = "e\<lparr>re_probe_credit := re_probe_credit e - 1\<rparr>"
  have nz: "re_probe_credit e \<noteq> 0" using Suc.prems by auto
  have step: "rm_epochs (recovery_step m (RoProbe p)) p = Some ?e"
    using recovery_step_kept [OF Suc.prems(1), of "RoProbe p"] nz by simp
  have c: "probe_charged m (RoProbe p) = Some (re_allocation e)"
    using Suc.prems(1) nz by (simp only: probe_charged_iff) auto
  from Suc.IH [OF step] unat_pred [OF nz] Suc.prems(2) c show ?case
    by (simp add: recovery_run_def)
qed

definition w_reopens :: "nat \<Rightarrow> recovery_op list" where
  "w_reopens k = RoAdmit ''b'' 0 0 # replicate 4000 (RoProbe ''b'')
     @ concat (replicate k (RoReopen ''b'' 0 # replicate 96 (RoProbe ''b'')))"

lemma w_reopens_Suc: "w_reopens (Suc k) = w_reopens k @ RoReopen ''b'' 0 # replicate 96 (RoProbe ''b'')"
proof -
  have "concat (replicate (Suc k) xs) = concat (replicate k xs) @ xs" for xs :: "recovery_op list"
    by (induction k) simp_all
  then show ?thesis by (simp only: w_reopens_def append_Cons append_assoc)
qed

lemma w_reopens_state:
  "k \<le> 8 \<Longrightarrow> probes_spent recovery_state_new (w_reopens k) 1 = 4000 + 96 * k
     \<and> (\<exists>e. rm_epochs (recovery_run recovery_state_new (w_reopens k)) ''b'' = Some e
          \<and> re_allocation e = 1 \<and> re_probe_credit e = 0 \<and> unat (re_reopens e) = k)"
proof (induction k)
  case 0
  let ?m = "recovery_step recovery_state_new (RoAdmit ''b'' 0 0)" and ?e = "recovery_epoch_new 1 0 1 0"
  have e: "rm_epochs ?m ''b'' = Some ?e"
    by (simp add: recovery_admit_cases recovery_state_new_def)
  have f: "re_allocation ?e = 1" "unat (re_probe_credit ?e) = 4000" "re_reopens ?e = 0"
    by (simp_all add: recovery_epoch_new_def recovery_consts)
  from probes_spent_all [OF e f(2)] f show ?case by (simp add: w_reopens_def recovery_run_def)
next
  case (Suc k)
  let ?m = "recovery_run recovery_state_new (w_reopens k)"
  from Suc obtain e where e: "rm_epochs ?m ''b'' = Some e" and f: "re_allocation e = 1" "re_probe_credit e = 0"
      "unat (re_reopens e) = k" and sp: "probes_spent recovery_state_new (w_reopens k) 1 = 4000 + 96 * k"
    by auto
  let ?e = "reopen_effect 0 e"
  have s: "rm_epochs (recovery_step ?m (RoReopen ''b'' 0)) ''b'' = Some ?e"
    using recovery_step_kept [OF e, of "RoReopen ''b'' 0"] by simp
  have lt: "re_reopens e < 8" using f(3) Suc.prems by (simp add: word_less_nat_alt)
  have g: "re_allocation ?e = 1" "unat (re_probe_credit ?e) = 96" "unat (re_reopens ?e) = Suc k"
    using f lt Suc.prems by (simp_all add: reopen_effect_def recovery_consts unat_sat_add linorder_not_le)
  from probes_spent_all [OF s g(2)] g sp show ?case
    by (simp add: w_reopens_Suc probes_spent_append recovery_run_append recovery_run_def)
qed

text \<open>
  C27: Over any run of the recovery ledger the probes charged to one epoch allocation are at
  most 4768, the 4000 credits of an epoch and 96 for each of eight evidence re-opens, and some
  run reaches that number.
\<close>
theorem recovery_probe_total:
  "probes_spent recovery_state_new ops a \<le> 4768
   \<and> (\<exists>ops'. probes_spent recovery_state_new ops' 1 = 4768)"
proof
  show "probes_spent recovery_state_new ops a \<le> 4768"
    using ledger_inv_run [OF ledger_inv_init, where a = a and ops = ops] by simp
  show "\<exists>ops'. probes_spent recovery_state_new ops' 1 = 4768"
    by (rule exI [of _ "w_reopens 8"]) (simp add: w_reopens_state)
qed

end
