(* ===== verification/Recovery_Safety.thy ===== *)
theory Recovery_Safety
  imports Recovery_Ledger
begin

text \<open>
  What the recovery ledger never does: act on the identity of an epoch that is gone, reopen a
  frozen epoch early, widen a scan without an unanswered batch, spend the confirmation tail on
  exploration, or hand out a fresh-mapping lane twice.
\<close>

section \<open>Identities\<close>

lemma allocations_run: "allocation_inv (recovery_run recovery_state_new ops)"
  unfolding recovery_run_def by (rule allocations.run_inv [OF allocation_inv_init])

definition allocation_gone :: "u64 \<Rightarrow> recovery_state \<Rightarrow> bool" where
  "allocation_gone a m \<longleftrightarrow> allocation_inv m \<and> a \<le> rm_allocation m
     \<and> (\<forall>p e. rm_epochs m p = Some e \<longrightarrow> re_allocation e \<noteq> a)"

lemma allocation_gone_step:
  assumes "allocation_gone a m"
  shows "allocation_gone a (recovery_step m op)"
proof -
  have inv: "allocation_inv m" and le: "a \<le> rm_allocation m"
    and gone: "\<And>p e. rm_epochs m p = Some e \<Longrightarrow> re_allocation e \<noteq> a"
    using assms by (auto simp: allocation_gone_def)
  have "a \<le> rm_allocation (recovery_step m op)"
    using recovery_step_allocation [of m op] word_less_succ [of "rm_allocation m"] le by auto
  moreover have "re_allocation e' \<noteq> a" if e': "rm_epochs (recovery_step m op) p = Some e'" for p e'
    using recovery_step_origin [OF e']
  proof (elim disjE exE conjE)
    fix d assume "rm_epochs m p = Some d" "re_allocation d = re_allocation e'"
    then show ?thesis using gone by auto
  next
    fix g now assume "rm_allocation m \<noteq> - 1" "re_allocation e' = rm_allocation m + 1"
    then show ?thesis using le word_less_succ [of "rm_allocation m"] by auto
  qed
  ultimately show ?thesis using allocation_inv_step [OF inv] by (auto simp: allocation_gone_def)
qed

interpretation gone: event_machine recovery_step "allocation_gone a"
  by unfold_locales (rule allocation_gone_step)

lemma gone_identity:
  assumes "allocation_gone (ri_allocation i) m"
  shows "fst (consume_recovery_probe_credit_for_purpose q i u c m) = CreditIdentityStale"
    and "\<not> fst (try_consume_recovery_http_quota_for_identity q i m)"
    and "fst (try_begin_fresh_generation_for_identity q i m) = None"
    and "fst (try_begin_hard_hard_generation_for_identity q i m) = None"
    and "refund_if_current q i m = m"
proof -
  have g: "\<not> same_allocation i e" if "rm_epochs m q = Some e" for e
    using assms that by (auto simp: allocation_gone_def same_allocation_def)
  show "fst (consume_recovery_probe_credit_for_purpose q i u c m) = CreditIdentityStale"
    "\<not> fst (try_consume_recovery_http_quota_for_identity q i m)"
    "fst (try_begin_fresh_generation_for_identity q i m) = None"
    "fst (try_begin_hard_hard_generation_for_identity q i m) = None"
    by (simp_all add: g consume_recovery_probe_credit_for_purpose_def
        try_consume_recovery_http_quota_for_identity_def try_begin_fresh_generation_for_identity_def
        try_begin_hard_hard_generation_for_identity_def split: option.splits)
  show "refund_if_current q i m = m"
    by (cases "rm_epochs m q") (simp_all add: refund_if_current_def with_epoch_def g fun_upd_idem)
qed

text \<open>An allocation in use stays with its peer.\<close>

definition allocation_of :: "u64 \<Rightarrow> string \<Rightarrow> recovery_state \<Rightarrow> bool" where
  "allocation_of a p m \<longleftrightarrow> allocation_inv m \<and> a \<le> rm_allocation m
     \<and> (\<forall>q e. rm_epochs m q = Some e \<longrightarrow> re_allocation e = a \<longrightarrow> q = p)"

lemma allocation_of_step:
  assumes "allocation_of a p m"
  shows "allocation_of a p (recovery_step m op)"
proof -
  have inv: "allocation_inv m" and le: "a \<le> rm_allocation m"
    and own: "\<And>q e. rm_epochs m q = Some e \<Longrightarrow> re_allocation e = a \<Longrightarrow> q = p"
    using assms by (auto simp: allocation_of_def)
  have "a \<le> rm_allocation (recovery_step m op)"
    using recovery_step_allocation [of m op] word_less_succ [of "rm_allocation m"] le by auto
  moreover have "q = p" if e': "rm_epochs (recovery_step m op) q = Some e'" "re_allocation e' = a" for q e'
    using recovery_step_origin [OF e'(1)]
  proof (elim disjE exE conjE)
    fix d assume "rm_epochs m q = Some d" "re_allocation d = re_allocation e'"
    then show ?thesis using own e'(2) by auto
  next
    fix g now assume "rm_allocation m \<noteq> - 1" "re_allocation e' = rm_allocation m + 1"
    then show ?thesis using le word_less_succ [of "rm_allocation m"] e'(2) by auto
  qed
  ultimately show ?thesis using allocation_inv_step [OF inv] by (auto simp: allocation_of_def)
qed

interpretation owner: event_machine recovery_step "allocation_of a p"
  by unfold_locales (rule allocation_of_step)

lemma allocation_tracked:
  assumes "allocation_inv m" and "rm_epochs m p = Some e"
  shows "allocation_of (re_allocation e) p (recovery_run m ops)"
proof -
  have "q = p" if "rm_epochs m q = Some f" "re_allocation f = re_allocation e" for q f
    by (rule allocation_inj [OF assms(1) that(1) assms(2) that(2)])
  then have "allocation_of (re_allocation e) p m"
    using assms(1) allocation_le [OF assms] by (simp add: allocation_of_def)
  then show ?thesis unfolding recovery_run_def by (rule owner.run_inv)
qed

text \<open>
  When the epoch an identity names has ended or rotated, then whatever happens later the
  identity buys no probe, no publication and no reservation, and a refund with it changes
  nothing.
\<close>
theorem recovery_ended_epoch_is_stale:
  assumes "m = recovery_run recovery_state_new ops" and "rm_epochs m p = Some e"
    and "i = identity_of hh e"
    and "m1 = recovery_run m ops1"
    and "\<forall>e'. rm_epochs m1 p = Some e' \<longrightarrow> re_allocation e' \<noteq> re_allocation e"
    and "m2 = recovery_run m1 ops2"
  shows "fst (consume_recovery_probe_credit_for_purpose q i u c m2) = CreditIdentityStale
    \<and> \<not> fst (try_consume_recovery_http_quota_for_identity q i m2)
    \<and> fst (try_begin_fresh_generation_for_identity q i m2) = None
    \<and> fst (try_begin_hard_hard_generation_for_identity q i m2) = None
    \<and> refund_if_current q i m2 = m2"
proof -
  have inv: "allocation_inv m1" using assms(1,4) allocations_run by (simp flip: recovery_run_append)
  have "allocation_inv m" using assms(1) allocations_run by simp
  note at = allocation_tracked [OF this assms(2), of ops1, folded assms(4)]
  have "re_allocation f \<noteq> re_allocation e" if f: "rm_epochs m1 q = Some f" for q f
  proof
    assume a: "re_allocation f = re_allocation e"
    then have "q = p" using at f by (simp add: allocation_of_def)
    then show False using assms(5) f a by simp
  qed
  moreover have "re_allocation e \<le> rm_allocation m1" using at by (simp add: allocation_of_def)
  ultimately have "allocation_gone (re_allocation e) m1"
    using inv by (simp add: allocation_gone_def)
  then have "allocation_gone (ri_allocation i) m2"
    using assms(3,6) gone.run_inv by (simp add: recovery_run_def identity_of_def)
  then show ?thesis by (intro conjI gone_identity)
qed

section \<open>The freeze\<close>

lemma budget_backoff_mono: "s \<le> s' \<Longrightarrow> budget_backoff s \<le> budget_backoff s'"
proof -
  assume "s \<le> s'"
  then have "unat s - 1 \<le> unat s' - 1" by (simp add: word_le_nat_alt)
  then have "(2 :: nat) ^ min (unat s - 1) 10 \<le> 2 ^ min (unat s' - 1) 10"
    by (intro power_increasing) auto
  then show ?thesis by (simp add: budget_backoff_def unat_sat_sub recovery_consts from_secs_def min_le_iff_disj)
qed

text \<open>
  The backoff doubles from one minute and stops at fifteen.
\<close>
theorem recovery_backoff_schedule:
  "budget_backoff 0 = from_secs 60 \<and> budget_backoff 1 = from_secs 60
   \<and> budget_backoff 2 = from_secs 120 \<and> budget_backoff 3 = from_secs 240
   \<and> budget_backoff 4 = from_secs 480
   \<and> budget_backoff (max 5 s) = from_secs 900
   \<and> from_secs 60 \<le> budget_backoff s \<and> budget_backoff s \<le> from_secs 900"
proof -
  have u: "unat (sat_sub k 1) = unat k - 1" for k :: u32 by (simp add: unat_sat_sub)
  have "budget_backoff 5 = from_secs 900" by (simp add: budget_backoff_def u recovery_consts from_secs_def)
  moreover have "budget_backoff (max 5 s) \<le> from_secs 900"
    by (simp add: budget_backoff_def recovery_consts from_secs_def)
  ultimately have five: "budget_backoff (max 5 s) = from_secs 900"
    using budget_backoff_mono [of 5 "max 5 s"] by simp
  show ?thesis using five budget_backoff_mono [of 0 s]
    by (simp add: budget_backoff_def u recovery_consts from_secs_def)
qed

definition frozen_from :: "string \<Rightarrow> u64 \<Rightarrow> u64 \<Rightarrow> instant \<Rightarrow> instant \<Rightarrow> u32 \<Rightarrow> recovery_state \<Rightarrow> bool" where
  "frozen_from p n g t0 t s m \<longleftrightarrow> (\<exists>e until. rm_epochs m p = Some e \<and> re_epoch e = n \<and> re_network e = g
     \<and> re_started e = t0 \<and> re_exhausted e \<and> s \<le> re_zero_send_streak e
     \<and> re_backoff_until e = Some until \<and> t + budget_backoff s \<le> until)"

text \<open>
  The operations a freeze withstands: all but the end of the epoch, a matched acknowledgement, new
  evidence and the admissions that rotate the epoch or come after the backoff; a second freeze
  starts no earlier than the first.
\<close>

fun withstood :: "string \<Rightarrow> u64 \<Rightarrow> instant \<Rightarrow> instant \<Rightarrow> instant \<Rightarrow> recovery_op \<Rightarrow> bool" where
  "withstood p g t0 t until (RoEnd q) \<longleftrightarrow> q \<noteq> p"
| "withstood p g t0 t until (RoUnfreeze q) \<longleftrightarrow> q \<noteq> p"
| "withstood p g t0 t until (RoReopen q now) \<longleftrightarrow> q \<noteq> p"
| "withstood p g t0 t until (RoAdmit q h now) \<longleftrightarrow>
     (q = p \<longrightarrow> h = g \<and> now - t0 < RECOVERY_EPOCH_MAX_AGE \<and> now < until)"
| "withstood p g t0 t until (RoExhausted q a b c d r n1 n2 w n3) \<longleftrightarrow> (q = p \<longrightarrow> t \<le> n2)"
| "withstood p g t0 t until _ \<longleftrightarrow> True"

lemma frozen_effect:
  assumes "frozen_from p n g t0 t s m" and "rm_epochs m p = Some e" and "op_peer op = Some p"
    and "withstood p g t0 t (t + budget_backoff s) op"
  shows "\<exists>until. re_epoch (epoch_effect op e) = n \<and> re_network (epoch_effect op e) = g
     \<and> re_started (epoch_effect op e) = t0 \<and> re_exhausted (epoch_effect op e)
     \<and> s \<le> re_zero_send_streak (epoch_effect op e)
     \<and> re_backoff_until (epoch_effect op e) = Some until \<and> t + budget_backoff s \<le> until"
proof -
  from assms(1,2) obtain until where e: "re_epoch e = n" "re_network e = g" "re_started e = t0"
      "re_exhausted e" "s \<le> re_zero_send_streak e" "re_backoff_until e = Some until"
      "t + budget_backoff s \<le> until"
    by (auto simp: frozen_from_def)
  have up: "s \<le> sat_add (re_zero_send_streak e) 1" using e(5) sat_add_mono by (rule order_trans)
  show ?thesis
  proof (cases "\<exists>q a b c d r n1 n2 w n3. op = RoExhausted q a b c d r n1 n2 w n3")
    case True
    then obtain a b c d r n1 n2 w n3 where op: "op = RoExhausted p a b c d r n1 n2 w n3"
      using assms(3) by auto
    have "t + budget_backoff s \<le> n2 + budget_backoff (sat_add (re_zero_send_streak e) 1)"
      using assms(4) budget_backoff_mono [OF up] by (simp add: op)
    then show ?thesis using e up by (simp add: op exhausted_effect_def Let_def)
  next
    case False
    have "re_exhausted (epoch_effect op e) \<and> re_zero_send_streak (epoch_effect op e) = re_zero_send_streak e
        \<and> re_backoff_until (epoch_effect op e) = re_backoff_until e"
      using False assms(3,4) e(4,6,7)
      by (cases op) (auto simp: refund_effect_def admit_budget_def)
    then show ?thesis using e by simp
  qed
qed

lemma frozen_step:
  assumes "frozen_from p n g t0 t s m" and "withstood p g t0 t (t + budget_backoff s) op"
  shows "frozen_from p n g t0 t s (recovery_step m op)"
proof -
  from assms(1) obtain e where e: "rm_epochs m p = Some e" "re_network e = g" "re_started e = t0"
    by (auto simp: frozen_from_def)
  show ?thesis
  proof (cases "op_peer op = Some p \<and> op_keeps m op e")
    case True
    with frozen_effect [OF assms(1) e(1) _ assms(2)] recovery_step_kept [OF e(1)] show ?thesis
      by (auto simp: frozen_from_def)
  next
    case False
    have "rm_epochs (recovery_step m op) p = rm_epochs m p"
    proof (cases "op_peer op = Some p")
      case True
      with False e assms(2) show ?thesis
        by (cases op) (auto simp: rotation_due_def reservation_refund_def)
    next
      case False
      then show ?thesis using assms(2) by (intro recovery_step_other) auto
    qed
    then show ?thesis using assms(1) by (simp add: frozen_from_def)
  qed
qed

text \<open>
  C28: Once a peer's recovery epoch is frozen by an exhausted budget, every admission in the
  epoch's network before the backoff has elapsed and before the epoch's age limit answers
  BudgetExhausted, whatever other operations run, unless in between the epoch ends, an admission
  rotates it or comes after the backoff, an acknowledgement unfreezes it or new evidence reopens
  it; a further freeze reads its clock no earlier than the first.
\<close>
theorem recovery_freeze_holds:
  assumes "rm_epochs m p = Some e"
    and "m1 = recovery_step m (RoExhausted p a b c d r n1 n2 w n3)"
    and "until = n2 + budget_backoff (sat_add (re_zero_send_streak e) 1)"
    and "\<forall>op \<in> set ops. withstood p (re_network e) (re_started e) n2 until op"
    and "now < until" and "now - re_started e < RECOVERY_EPOCH_MAX_AGE"
  shows "fst (recovery_admit_locked p (re_network e) now (recovery_run m1 ops)) = RecoveryBudgetExhausted (re_epoch e)"
proof -
  let ?s = "sat_add (re_zero_send_streak e) 1"
  let ?F = "frozen_from p (re_epoch e) (re_network e) (re_started e) n2 ?s"
  have "?F m1"
    using recovery_step_kept [OF assms(1), of "RoExhausted p a b c d r n1 n2 w n3"]
    by (simp add: assms(2) frozen_from_def exhausted_effect_def Let_def)
  then have "?F (recovery_run m1 ops)" using assms(4)
  proof (induction ops arbitrary: m1)
    case Nil
    then show ?case by (simp add: recovery_run_def)
  next
    case (Cons op ops)
    from Cons.IH [OF frozen_step [OF Cons.prems(1)]] Cons.prems(2) assms(3) show ?case
      by (simp add: recovery_run_def)
  qed
  then obtain f u where f: "rm_epochs (recovery_run m1 ops) p = Some f" "re_epoch f = re_epoch e"
      "re_network f = re_network e" "re_started f = re_started e" "re_exhausted f"
      "re_backoff_until f = Some u" "until \<le> u"
    by (auto simp: frozen_from_def assms(3))
  have "\<not> rotation_due (re_network e) now f" using f assms(6) by (simp add: rotation_due_def)
  then show ?thesis using f assms(5) by (simp add: recovery_admit_cases admit_budget_def)
qed

section \<open>Stages\<close>

fun stage_rank :: "recovery_stage \<Rightarrow> nat" where
  "stage_rank Initial = 0"
| "stage_rank Predicted = 1"
| "stage_rank ScatterSmall = 2"
| "stage_rank ScatterExtended = 3"
| "stage_rank RelayBackoff = 0"

definition stage_rank_at :: "string \<Rightarrow> recovery_state \<Rightarrow> nat" where
  "stage_rank_at p m = (case rm_epochs m p of None \<Rightarrow> 0 | Some e \<Rightarrow> stage_rank (re_stage e))"

text \<open>An unanswered batch on a current, online connection that is not Direct.\<close>

fun unanswered_batch :: "string \<Rightarrow> recovery_op \<Rightarrow> bool" where
  "unanswered_batch p (RoAdvance q n c s conn now) \<longleftrightarrow> q = p \<and> c = n \<and> s
     \<and> (case conn of None \<Rightarrow> False | Some (online, cs) \<Rightarrow> online \<and> cs \<noteq> CS_Closed \<and> cs \<noteq> CS_Direct)"
| "unanswered_batch p _ \<longleftrightarrow> False"

lemma stage_rank_next: "stage_rank (next_stage s) \<le> Suc (stage_rank s)"
  by (cases s) simp_all

lemma stage_effect:
  "op_peer op = Some p \<Longrightarrow>
     stage_rank (re_stage (epoch_effect op e)) \<le> stage_rank (re_stage e) + (if unanswered_batch p op then 1 else 0)"
  using stage_rank_next [of "re_stage e"]
  by (cases op) (auto simp: refund_effect_def exhausted_effect_def reopen_effect_def Let_def)

lemma stage_rank_step:
  "stage_rank_at p (recovery_step m op) \<le> stage_rank_at p m + (if unanswered_batch p op then 1 else 0)"
proof (cases "rm_epochs (recovery_step m op) p")
  case None
  then show ?thesis by (simp add: stage_rank_at_def)
next
  case (Some e')
  from Some show ?thesis
  proof (cases rule: recovery_step_at)
    case same
    with Some show ?thesis by (simp add: stage_rank_at_def)
  next
    case (kept e)
    with Some stage_effect [OF kept(2), of e] show ?thesis by (simp add: stage_rank_at_def)
  next
    case new
    with Some show ?thesis by (simp add: stage_rank_at_def recovery_epoch_new_def)
  qed
qed

lemma stage_rank_run:
  "stage_rank_at p (recovery_run m ops) \<le> stage_rank_at p m + length (filter (unanswered_batch p) ops)"
proof (induction ops arbitrary: m)
  case Nil
  then show ?case by (simp add: recovery_run_def)
next
  case (Cons op ops)
  from Cons.IH [of "recovery_step m op"] stage_rank_step [of p m op] show ?case
    by (simp add: recovery_run_def split: if_splits)
qed

text \<open>
  After a matched acknowledgement the scan of a peer is never further than the number of batches
  that have gone unanswered on its current online connection since, one stage for each.
\<close>
theorem recovery_widens_stepwise:
  "stage_rank_at p (recovery_run (recovery_step m (RoAck p ep now)) ops)
     \<le> length (filter (unanswered_batch p) ops)"
proof -
  have "stage_rank_at p (recovery_step m (RoAck p ep now)) = 0"
    by (cases "rm_epochs m p") (simp_all add: stage_rank_at_def record_ack_feedback_first_def with_epoch_def)
  then show ?thesis using stage_rank_run [of p "recovery_step m (RoAck p ep now)" ops] by simp
qed

section \<open>The confirmation tail\<close>

text \<open>The operations that may spend the last credits of an epoch.\<close>

fun spends_tail :: "string \<Rightarrow> recovery_op \<Rightarrow> bool" where
  "spends_tail p (RoProbe q) \<longleftrightarrow> q = p"
| "spends_tail p (RoProbeFor q i u c) \<longleftrightarrow> q = p \<and> u \<noteq> HardHardExploration \<and> u \<noteq> HardHardTriggered"
| "spends_tail p _ \<longleftrightarrow> False"

lemma tail_reserves: "u = HardHardExploration \<or> u = HardHardTriggered \<Longrightarrow> 8 \<le> confirmation_credit_reserve u"
  by (auto simp: recovery_consts)

lemma tail_effect:
  assumes "op_peer op = Some p" and "8 \<le> unat (re_probe_credit e) + k"
  shows "8 \<le> unat (re_probe_credit (epoch_effect op e)) + k + (if spends_tail p op then 1 else 0)"
proof (cases "charges op e")
  case False
  have "re_probe_credit e \<le> re_probe_credit (epoch_effect op e)"
    using False by (cases op) (auto simp: refund_effect_def exhausted_effect_def reopen_effect_def Let_def)
  then show ?thesis using assms(2) by (simp add: word_le_nat_alt)
next
  case True
  then have c: "re_probe_credit e \<noteq> 0" "re_probe_credit (epoch_effect op e) = re_probe_credit e - 1"
    by (cases op; simp add: purpose_ok_def)+
  show ?thesis
  proof (cases "spends_tail p op")
    case True
    with assms(2) c unat_pred [of "re_probe_credit e"] show ?thesis by simp
  next
    case False
    with \<open>charges op e\<close> assms(1) obtain i u d where op: "op = RoProbeFor p i u d" "purpose_ok i u d e"
        "u = HardHardExploration \<or> u = HardHardTriggered"
      by (cases op) auto
    from op(2) have "confirmation_credit_reserve u < re_probe_credit e" by (simp add: purpose_ok_def)
    with tail_reserves [OF op(3)] have "8 < re_probe_credit e" by (rule le_less_trans)
    then have "8 < unat (re_probe_credit e)" by (simp add: word_less_nat_alt)
    with False c unat_pred [of "re_probe_credit e"] show ?thesis by simp
  qed
qed

definition tail_left :: "string \<Rightarrow> nat \<Rightarrow> recovery_state \<Rightarrow> bool" where
  "tail_left p k m \<longleftrightarrow> (\<forall>e. rm_epochs m p = Some e \<longrightarrow> 8 \<le> unat (re_probe_credit e) + k)"

lemma tail_left_step:
  assumes "tail_left p k m"
  shows "tail_left p (k + (if spends_tail p op then 1 else 0)) (recovery_step m op)"
  unfolding tail_left_def
proof (intro allI impI)
  fix e' assume "rm_epochs (recovery_step m op) p = Some e'"
  then show "8 \<le> unat (re_probe_credit e') + (k + (if spends_tail p op then 1 else 0))"
  proof (cases rule: recovery_step_at)
    case same
    with assms show ?thesis by (simp add: tail_left_def)
  next
    case (kept e)
    then have "8 \<le> unat (re_probe_credit e) + k" using assms by (simp add: tail_left_def)
    from tail_effect [OF kept(2) this] kept(4) show ?thesis by (simp add: add.assoc)
  next
    case new
    then show ?thesis by (simp add: recovery_epoch_new_def recovery_consts)
  qed
qed

lemma tail_left_run:
  "tail_left p k m \<Longrightarrow> tail_left p (k + length (filter (spends_tail p) ops)) (recovery_run m ops)"
proof (induction ops arbitrary: m k)
  case Nil
  then show ?case by (simp add: recovery_run_def)
next
  case (Cons op ops)
  from Cons.IH [OF tail_left_step [OF Cons.prems, of op]] show ?case
    by (simp add: recovery_run_def split: if_splits)
qed

text \<open>
  Whatever exploration and triggered checks have spent, as long as fewer than eight other probes
  were sent to the peer, a nomination bound to its current epoch is granted a credit.
\<close>
theorem recovery_nomination_has_credit:
  assumes "m = recovery_run recovery_state_new ops"
    and "length (filter (spends_tail p) ops) < 8"
    and "rm_epochs m p = Some e"
  shows "fst (consume_recovery_probe_credit_for_purpose p (identity_of True e) HardHardNomination
      (re_network e) m) = CreditAccepted"
proof -
  have "tail_left p 0 recovery_state_new" by (simp add: tail_left_def recovery_state_new_def)
  from tail_left_run [OF this, of ops] assms have "0 < unat (re_probe_credit e)"
    by (fastforce simp: tail_left_def)
  then have "re_probe_credit e \<noteq> 0" by auto
  then show ?thesis using assms(3)
    by (simp add: consume_recovery_probe_credit_for_purpose_def identity_of_def same_allocation_def)
qed

section \<open>Lanes of fresh mappings\<close>

definition live_tokens :: "recovery_state \<Rightarrow> u64 \<Rightarrow> bool \<Rightarrow> nat" where
  "live_tokens m a hh = length (filter (\<lambda>t. ri_allocation (fr_identity t) = a
     \<and> ri_hard_hard (fr_identity t) = hh) (rm_tokens m))"

text \<open>The commits of a run, by allocation and lane.\<close>

fun commits_lane :: "recovery_state \<Rightarrow> recovery_op \<Rightarrow> u64 \<Rightarrow> bool \<Rightarrow> bool" where
  "commits_lane m (RoCommit t) a hh \<longleftrightarrow> t \<in> set (rm_tokens m)
     \<and> ri_allocation (fr_identity t) = a \<and> ri_hard_hard (fr_identity t) = hh"
| "commits_lane m _ a hh \<longleftrightarrow> False"

primrec lane_commits :: "recovery_state \<Rightarrow> recovery_op list \<Rightarrow> u64 \<Rightarrow> bool \<Rightarrow> nat" where
  "lane_commits m [] a hh = 0"
| "lane_commits m (op # ops) a hh =
     (if commits_lane m op a hh then 1 else 0) + lane_commits (recovery_step m op) ops a hh"

text \<open>Whether an operation issues a token of a lane from an epoch.\<close>

fun issues :: "recovery_op \<Rightarrow> recovery_epoch_state \<Rightarrow> bool \<Rightarrow> bool" where
  "issues (RoFresh p n) e hh \<longleftrightarrow> \<not> hh \<and> re_epoch e = n \<and> re_fresh_quota e \<noteq> 0"
| "issues (RoFreshRetry p i) e hh \<longleftrightarrow> \<not> hh \<and> same_allocation i e \<and> re_fresh_quota e \<noteq> 0"
| "issues (RoHardHard p n) e hh \<longleftrightarrow> hh \<and> re_epoch e = n \<and> re_hard_hard_quota e \<noteq> 0"
| "issues (RoHardHardRetry p i) e hh \<longleftrightarrow>
     hh \<and> ri_hard_hard i \<and> same_allocation i e \<and> re_hard_hard_quota e \<noteq> 0"
| "issues _ e hh \<longleftrightarrow> False"

text \<open>A retry in the ordinary lane carries an identity of that lane.\<close>

fun retries_own_lane :: "recovery_op \<Rightarrow> bool" where
  "retries_own_lane (RoFreshRetry p i) \<longleftrightarrow> \<not> ri_hard_hard i"
| "retries_own_lane _ \<longleftrightarrow> True"

lemma length_filter_remove1:
  "length (filter P (remove1 t xs)) + (if t \<in> set xs \<and> P t then 1 else 0) = length (filter P xs)"
  by (induction xs) auto

definition refunds_lane :: "recovery_state \<Rightarrow> recovery_op \<Rightarrow> u64 \<Rightarrow> bool \<Rightarrow> bool" where
  "refunds_lane m op a hh \<longleftrightarrow> (\<exists>t. op = RoRefund t \<and> t \<in> set (rm_tokens m)
     \<and> ri_allocation (fr_identity t) = a \<and> ri_hard_hard (fr_identity t) = hh)"

definition issues_lane :: "recovery_state \<Rightarrow> recovery_op \<Rightarrow> u64 \<Rightarrow> bool \<Rightarrow> bool" where
  "issues_lane m op a hh \<longleftrightarrow> (\<exists>p e. op_peer op = Some p \<and> rm_epochs m p = Some e
     \<and> re_allocation e = a \<and> issues op e hh)"

lemma live_tokens_step:
  assumes "retries_own_lane op"
  shows "live_tokens (recovery_step m op) a hh + (if commits_lane m op a hh then 1 else 0)
      + (if refunds_lane m op a hh then 1 else 0)
    = live_tokens m a hh + (if issues_lane m op a hh then 1 else 0)"
proof (cases "\<exists>t. op = RoCommit t \<or> op = RoRefund t")
  case True
  then obtain t where t: "op = RoCommit t \<or> op = RoRefund t" by auto
  have "rm_tokens (recovery_step m op) = remove1 t (rm_tokens m)"
    using t by (auto simp: reservation_commit_def reservation_refund_def refund_if_current_def remove1_idem)
  then show ?thesis
    using t length_filter_remove1 [of "\<lambda>t. ri_allocation (fr_identity t) = a \<and> ri_hard_hard (fr_identity t) = hh" t "rm_tokens m"]
    by (auto simp: live_tokens_def refunds_lane_def issues_lane_def split: if_splits)
next
  case False
  then show ?thesis using assms
    by (cases op) (auto simp: live_tokens_def refunds_lane_def issues_lane_def recovery_op_defs
        identity_of_def same_allocation_def Let_def split: option.splits prod.splits)
qed

lemma lane_quota_nonzero: "issues op e hh \<Longrightarrow> lane_quota hh e \<noteq> 0"
  by (cases op) (auto simp: lane_quota_def)

lemma lane_effect:
  assumes "op_peer op = Some p" and "rm_epochs m p = Some e" and "op_keeps m op e"
    and "unat (lane_quota hh e) \<le> 1"
  shows "unat (lane_quota hh (epoch_effect op e)) + (if issues op e hh then 1 else 0)
    \<le> unat (lane_quota hh e) + (if refunds_lane m op (re_allocation e) hh then 1 else 0)"
proof (cases "\<exists>t. op = RoRefund t")
  case True
  then obtain t where t: "op = RoRefund t" "t \<in> set (rm_tokens m)" using assms(3) by auto
  have one: "unat (min (sat_add q 1) (1 :: u32)) \<le> unat q + 1" for q
    by (simp add: min_def unat_sat_add word_le_nat_alt)
  show ?thesis
  proof (cases "same_allocation (fr_identity t) e \<and> ri_hard_hard (fr_identity t) = hh")
    case True
    then have "refunds_lane m op (re_allocation e) hh" using t by (auto simp: refunds_lane_def same_allocation_def)
    then show ?thesis using True t(1) one
      by (auto simp: refund_effect_def lane_quota_def recovery_consts)
  next
    case False
    then show ?thesis using t(1) by (auto simp: refund_effect_def lane_quota_def)
  qed
next
  case False
  have "lane_quota hh (epoch_effect op e) = lane_quota hh e - (if issues op e hh then 1 else 0)"
    using False by (cases op) (auto simp: lane_quota_def spend_lane_def exhausted_effect_def reopen_effect_def
        enter_stage_def Let_def)
  then show ?thesis using unat_pred [of "lane_quota hh e"] lane_quota_nonzero [of op e hh] by simp
qed

definition lane_inv :: "(u64 \<Rightarrow> bool \<Rightarrow> nat) \<Rightarrow> recovery_state \<Rightarrow> bool" where
  "lane_inv c m \<longleftrightarrow> allocation_inv m
     \<and> (\<forall>p e hh. rm_epochs m p = Some e \<longrightarrow>
          unat (lane_quota hh e) + live_tokens m (re_allocation e) hh + c (re_allocation e) hh \<le> 1)
     \<and> (\<forall>a hh. live_tokens m a hh + c a hh \<le> 1)
     \<and> (\<forall>a hh. rm_allocation m < a \<longrightarrow> live_tokens m a hh + c a hh = 0)"

definition commit_more :: "recovery_state \<Rightarrow> recovery_op \<Rightarrow> (u64 \<Rightarrow> bool \<Rightarrow> nat) \<Rightarrow> u64 \<Rightarrow> bool \<Rightarrow> nat" where
  "commit_more m op c a hh = c a hh + (if commits_lane m op a hh then 1 else 0)"

lemma lane_total_step:
  "retries_own_lane op \<Longrightarrow>
     live_tokens (recovery_step m op) a hh + commit_more m op c a hh + (if refunds_lane m op a hh then 1 else 0)
     = live_tokens m a hh + c a hh + (if issues_lane m op a hh then 1 else 0)"
  using live_tokens_step [of op m a hh]
  by (simp add: commit_more_def)

lemma issues_lane_at:
  assumes "allocation_inv m" and "rm_epochs m p = Some e" and "issues_lane m op (re_allocation e) hh"
  shows "op_peer op = Some p \<and> issues op e hh"
proof -
  from assms(3) obtain q f where q: "op_peer op = Some q" "rm_epochs m q = Some f"
      "re_allocation f = re_allocation e" "issues op f hh"
    by (auto simp: issues_lane_def)
  from allocation_inj [OF assms(1) q(2) assms(2) q(3)] q assms(2) show ?thesis by simp
qed

lemma lane_inv_epoch:
  assumes "lane_inv c m" and "retries_own_lane op" and "rm_epochs (recovery_step m op) p = Some e'"
  shows "unat (lane_quota hh e') + live_tokens (recovery_step m op) (re_allocation e') hh
    + commit_more m op c (re_allocation e') hh \<le> 1"
proof -
  have inv: "allocation_inv m"
    and quota: "\<And>p e hh. rm_epochs m p = Some e \<Longrightarrow>
      unat (lane_quota hh e) + live_tokens m (re_allocation e) hh + c (re_allocation e) hh \<le> 1"
    and zero: "\<And>a hh. rm_allocation m < a \<Longrightarrow> live_tokens m a hh + c a hh = 0"
    using assms(1) by (auto simp: lane_inv_def)
  note total = lane_total_step [OF assms(2), of m "re_allocation e'" hh c]
  from assms(3) show ?thesis
  proof (cases rule: recovery_step_at)
    case same
    have "\<not> issues_lane m op (re_allocation e') hh"
    proof
      assume "issues_lane m op (re_allocation e') hh"
      from issues_lane_at [OF inv same(1) this] have i: "op_peer op = Some p" "issues op e' hh" by simp_all
      from same(2) [OF i(1)] i(2) show False by (cases op) simp_all
    qed
    with total quota [OF same(1), of hh] show ?thesis by simp
  next
    case (kept e)
    have i: "issues_lane m op (re_allocation e) hh \<Longrightarrow> issues op e hh"
      using issues_lane_at [OF inv kept(1)] by simp
    have "unat (lane_quota hh e) \<le> 1" using quota [OF kept(1), of hh] by simp
    from lane_effect [OF kept(2,1,3) this] total quota [OF kept(1), of hh] kept(4) i show ?thesis
      by (auto split: if_splits)
  next
    case (new g now n)
    have a: "re_allocation e' = rm_allocation m + 1" "unat (lane_quota hh e') = 1"
      using new(4) by (simp_all add: recovery_epoch_new_def lane_quota_def recovery_consts)
    have "\<not> issues_lane m op (re_allocation e') hh" using new(1) by (simp add: issues_lane_def)
    then show ?thesis using total a zero [OF word_less_succ [OF new(2)], of hh] by simp
  qed
qed

lemma lane_inv_step:
  assumes "lane_inv c m" and "retries_own_lane op"
  shows "lane_inv (commit_more m op c) (recovery_step m op)"
proof -
  have inv: "allocation_inv m"
    and quota: "\<And>p e hh. rm_epochs m p = Some e \<Longrightarrow>
      unat (lane_quota hh e) + live_tokens m (re_allocation e) hh + c (re_allocation e) hh \<le> 1"
    and one: "\<And>a hh. live_tokens m a hh + c a hh \<le> 1"
    and zero: "\<And>a hh. rm_allocation m < a \<Longrightarrow> live_tokens m a hh + c a hh = 0"
    using assms(1) by (auto simp: lane_inv_def)
  have room: "live_tokens m a hh + c a hh = 0 \<and> a \<le> rm_allocation m" if i: "issues_lane m op a hh" for a hh
  proof -
    from i obtain p e where e: "rm_epochs m p = Some e" "re_allocation e = a" "issues op e hh"
      by (auto simp: issues_lane_def)
    from lane_quota_nonzero [OF e(3)] have "0 < unat (lane_quota hh e)" by (simp add: unat_gt_0)
    with quota [OF e(1), of hh] allocation_le [OF inv e(1)] e(2) show ?thesis by simp
  qed
  note total = lane_total_step [OF assms(2)]
  have "live_tokens (recovery_step m op) a hh + commit_more m op c a hh \<le> 1" for a hh
    using total [of m a hh c] one [of a hh] room [of a hh] by (auto split: if_splits)
  moreover have "live_tokens (recovery_step m op) a hh + commit_more m op c a hh = 0"
    if "rm_allocation (recovery_step m op) < a" for a hh
  proof -
    have a: "rm_allocation m < a"
      using that recovery_step_allocation [of m op] word_less_succ [of "rm_allocation m"] by auto
    then have "\<not> issues_lane m op a hh" using room [of a hh] by auto
    then show ?thesis using total [of m a hh c] zero [OF a, of hh] by (auto split: if_splits)
  qed
  ultimately show ?thesis
    using allocation_inv_step [OF inv] lane_inv_epoch [OF assms] by (simp add: lane_inv_def)
qed

lemma lane_inv_run:
  "lane_inv c m \<Longrightarrow> \<forall>op \<in> set ops. retries_own_lane op \<Longrightarrow>
     live_tokens (recovery_run m ops) a hh + c a hh + lane_commits m ops a hh \<le> 1"
proof (induction ops arbitrary: m c)
  case Nil
  then show ?case by (simp add: lane_inv_def recovery_run_def)
next
  case (Cons op ops)
  have "lane_inv (commit_more m op c) (recovery_step m op)"
    using Cons.prems by (intro lane_inv_step) auto
  then have "live_tokens (recovery_run (recovery_step m op) ops) a hh + commit_more m op c a hh
      + lane_commits (recovery_step m op) ops a hh \<le> 1"
    by (rule Cons.IH) (use Cons.prems in auto)
  then show ?case by (simp add: commit_more_def recovery_run_def)
qed

text \<open>
  C29: However reservations of fresh mappings are taken, refunded and committed, one epoch
  allocation has at most one reservation alive or committed in each of its two lanes, provided a
  retry in the ordinary lane presents an identity of that lane.
\<close>
theorem recovery_one_mapping_per_lane:
  assumes "\<forall>op \<in> set ops. retries_own_lane op"
  shows "live_tokens (recovery_run recovery_state_new ops) a hh
    + lane_commits recovery_state_new ops a hh \<le> 1"
proof -
  have "lane_inv (\<lambda>_ _. 0) recovery_state_new"
    using allocation_inv_init by (simp add: lane_inv_def recovery_state_new_def live_tokens_def)
  from lane_inv_run [OF this assms, of a hh] show ?thesis by simp
qed

end
