(* ===== verification/Windows.thy ===== *)
theory Windows
  imports Prelude
begin

text \<open>
  Sliding windows: for each key a queue of the instants at which something was charged to it. The
  daemon's limiters all drop the entries from the front of a queue that have left its window, then
  compare its length with a cap, then push the current instant. The locale \<open>rate_limiter\<close> says
  what such a limiter promises and shows what its caller gets: no window of time holds more
  charges than the cap.
\<close>

section \<open>Queues of instants\<close>

type_synonym 'k windows = "'k \<Rightarrow> instant list option"

definition prune :: "duration \<Rightarrow> instant \<Rightarrow> instant list \<Rightarrow> instant list" where
  "prune w now sent = dropWhile (\<lambda>t. w \<le> saturating_duration_since now t) sent"

text \<open>\<open>retain\<close> over the map: prune every queue, drop the empty ones.\<close>

definition retain_windows :: "('k \<Rightarrow> duration) \<Rightarrow> instant \<Rightarrow> 'k windows \<Rightarrow> 'k windows" where
  "retain_windows win now m = (\<lambda>k. case m k of
     None \<Rightarrow> None
   | Some sent \<Rightarrow> (let sent' = prune (win k) now sent in if sent' = [] then None else Some sent'))"

definition window :: "'k windows \<Rightarrow> 'k \<Rightarrow> instant list" where
  "window m k = (case m k of None \<Rightarrow> [] | Some sent \<Rightarrow> sent)"

definition window_len :: "'k windows \<Rightarrow> 'k \<Rightarrow> nat" where
  "window_len m k = (case m k of None \<Rightarrow> 0 | Some sent \<Rightarrow> length sent)"

text \<open>\<open>entry(k).or_default().push_back(now)\<close>.\<close>

definition push_window :: "'k \<Rightarrow> instant \<Rightarrow> 'k windows \<Rightarrow> 'k windows" where
  "push_window k now m = m(k \<mapsto> window m k @ [now])"

lemma window_len_window: "window_len m k = length (window m k)"
  by (simp add: window_len_def window_def split: option.splits)

lemma window_empty [simp]: "window Map.empty k = []"
  by (simp add: window_def)

lemma window_retain: "window (retain_windows win now m) k = prune (win k) now (window m k)"
  by (cases "m k") (simp_all add: window_def retain_windows_def prune_def Let_def eq_commute [of "[]"])

lemma window_push: "window (push_window k now m) k' = (if k' = k then window m k @ [now] else window m k')"
  by (simp add: window_def push_window_def)

lemma window_delete: "window (m(k := None)) k' = (if k' = k then [] else window m k')"
  by (simp add: window_def)

lemma prune_split:
  "\<exists>old. sent = old @ prune w now sent \<and> (\<forall>t \<in> set old. w \<le> now - t)"
  using takeWhile_dropWhile_id [of "\<lambda>t. w \<le> saturating_duration_since now t" sent]
    set_takeWhileD [where P = "\<lambda>t. w \<le> saturating_duration_since now t" and xs = sent]
  by (intro exI [of _ "takeWhile (\<lambda>t. w \<le> saturating_duration_since now t) sent"])
    (auto simp: prune_def saturating_duration_since_def)

lemma length_prune: "length (prune w now sent) \<le> length sent"
  by (simp add: prune_def length_dropWhile_le)

section \<open>Rate limiters\<close>

text \<open>The charges of a window of time.\<close>

definition in_window :: "instant \<Rightarrow> duration \<Rightarrow> instant list \<Rightarrow> nat" where
  "in_window a w ts = length (filter (\<lambda>t. a \<le> t \<and> t < a + w) ts)"

lemma in_window_append: "in_window a w (xs @ ys) = in_window a w xs + in_window a w ys"
  by (simp add: in_window_def)

lemma in_window_le: "in_window a w ts \<le> length ts"
  by (simp add: in_window_def)

lemma in_window_none: "\<forall>t \<in> set ts. \<not> (a \<le> t \<and> t < a + w) \<Longrightarrow> in_window a w ts = 0"
  by (simp add: in_window_def filter_empty_conv)

text \<open>Operations in the order of the clock: each starts after the one before has finished.\<close>

fun clocked :: "('e \<Rightarrow> instant) \<Rightarrow> ('e \<Rightarrow> instant) \<Rightarrow> instant \<Rightarrow> 'e list \<Rightarrow> bool" where
  "clocked start finish t [] \<longleftrightarrow> True"
| "clocked start finish t (e # es) \<longleftrightarrow>
     t \<le> start e \<and> start e \<le> finish e \<and> clocked start finish (finish e) es"

primrec charged_log :: "('s \<Rightarrow> 'e \<Rightarrow> 's) \<Rightarrow> ('s \<Rightarrow> 'e \<Rightarrow> 'k \<Rightarrow> instant list) \<Rightarrow> 's \<Rightarrow> 'e list \<Rightarrow> 'k \<Rightarrow> instant list" where
  "charged_log step charges s [] k = []"
| "charged_log step charges s (e # es) k = charges s e k @ charged_log step charges (step s e) es k"

text \<open>
  The interface: \<open>book\<close> is the queue of a key, \<open>charges\<close> what an operation adds to it. An
  operation may forget entries that had left the window when it started, and when it charges a
  key it leaves at most \<open>cap\<close> entries there.
\<close>

locale rate_limiter = event_machine step inv
  for step :: "'s \<Rightarrow> 'e \<Rightarrow> 's" and inv :: "'s \<Rightarrow> bool" +
  fixes book :: "'s \<Rightarrow> 'k \<Rightarrow> instant list"
    and charges :: "'s \<Rightarrow> 'e \<Rightarrow> 'k \<Rightarrow> instant list"
    and start finish :: "'e \<Rightarrow> instant"
    and win :: "'k \<Rightarrow> duration"
    and cap :: "'k \<Rightarrow> nat"
  assumes step_book: "inv s \<Longrightarrow> start e \<le> finish e \<Longrightarrow>
      \<exists>old. book s k @ charges s e k = old @ book (step s e) k \<and> (\<forall>t \<in> set old. win k \<le> start e - t)"
    and charge_time: "inv s \<Longrightarrow> start e \<le> finish e \<Longrightarrow> t \<in> set (charges s e k) \<Longrightarrow> start e \<le> t \<and> t \<le> finish e"
    and charge_room: "inv s \<Longrightarrow> charges s e k \<noteq> [] \<Longrightarrow> length (book (step s e) k) \<le> cap k"
begin

lemma step_rate:
  assumes "inv s" and "start e \<le> finish e" and "h = old @ book s k" and "\<forall>t \<in> set old. win k \<le> now - t"
    and "now \<le> start e" and "in_window a (win k) h \<le> cap k"
  shows "in_window a (win k) (h @ charges s e k) \<le> cap k
    \<and> (\<exists>old'. h @ charges s e k = old' @ book (step s e) k \<and> (\<forall>t \<in> set old'. win k \<le> finish e - t))"
proof -
  from step_book [OF assms(1,2), of k] obtain gone where
    gone: "book s k @ charges s e k = gone @ book (step s e) k" "\<forall>t \<in> set gone. win k \<le> start e - t" by auto
  have split: "h @ charges s e k = (old @ gone) @ book (step s e) k" using gone(1) assms(3) by simp
  have old: "\<forall>t \<in> set (old @ gone). win k \<le> start e - t" using assms(4,5) gone(2) by fastforce
  have "in_window a (win k) (h @ charges s e k) \<le> cap k"
  proof (cases "in_window a (win k) (charges s e k) = 0")
    case True
    with assms(6) show ?thesis by (simp add: in_window_append)
  next
    case False
    then obtain t where t: "t \<in> set (charges s e k)" "a \<le> t" "t < a + win k"
      by (auto simp: in_window_def filter_empty_conv)
    then have "start e < a + win k" using charge_time [OF assms(1,2) t(1)] by simp
    then have "\<forall>u \<in> set (old @ gone). \<not> (a \<le> u \<and> u < a + win k)" using old by fastforce
    then have "in_window a (win k) (old @ gone) = 0" by (rule in_window_none)
    moreover have "length (book (step s e) k) \<le> cap k"
      using charge_room [OF assms(1), of e k] t(1) by (cases "charges s e k") auto
    ultimately show ?thesis
      using in_window_le [of a "win k" "book (step s e) k"] unfolding split by (simp add: in_window_append)
  qed
  moreover have "\<forall>t \<in> set (old @ gone). win k \<le> finish e - t" using old assms(2) by fastforce
  ultimately show ?thesis using split by blast
qed

lemma run_rate:
  assumes "inv s" and "clocked start finish now es" and "h = old @ book s k"
    and "\<forall>t \<in> set old. win k \<le> now - t" and "in_window a (win k) h \<le> cap k"
  shows "in_window a (win k) (h @ charged_log step charges s es k) \<le> cap k"
  using assms
proof (induction es arbitrary: s now h old)
  case Nil
  then show ?case by simp
next
  case (Cons e es)
  from Cons.prems(2) have c: "now \<le> start e" "start e \<le> finish e" "clocked start finish (finish e) es"
    by simp_all
  from step_rate [OF Cons.prems(1) c(2) Cons.prems(3,4) c(1) Cons.prems(5)]
  obtain old' where r: "in_window a (win k) (h @ charges s e k) \<le> cap k"
      "h @ charges s e k = old' @ book (step s e) k" "\<forall>t \<in> set old'. win k \<le> finish e - t"
    by auto
  from Cons.IH [OF step_inv [OF Cons.prems(1)] c(3) r(2,3,1)] show ?case by simp
qed

theorem window_rate:
  "inv s \<Longrightarrow> book s k = [] \<Longrightarrow> clocked start finish now es
     \<Longrightarrow> in_window a (win k) (charged_log step charges s es k) \<le> cap k"
  using run_rate [of s now es "[]" "[]"] by (simp add: in_window_def)

end

end
