(* ===== verification/Probe_Budget.thy ===== *)
theory Probe_Budget
  imports Windows Recovery
begin

text \<open>
  The budgets of outbound UDP probes (\<open>client/daemon/src/udp/probe_budget.rs\<close>, first half): sliding
  windows per network, peer, peer and remote address, destination, and peer and socket, each with
  a ceiling, and the tail of every window that exploration must leave to confirmation.
\<close>

section \<open>Keys, windows and ceilings\<close>

datatype outbound_probe_budget_key =
    KNetwork
  | KPeer string
  | KPeerRemoteIp string ip_addr
  | KDestinationIp ip_addr
  | KNetworkPersistent
  | KPeerPersistent string
  | KPeerRemoteIpPersistent string ip_addr
  | KDestinationIpPersistent ip_addr
  | KPeerSocketPersistent string nat

type_synonym probe_budget = "outbound_probe_budget_key windows"

definition OUTBOUND_PROBE_BUDGET_WINDOW :: duration where
  "OUTBOUND_PROBE_BUDGET_WINDOW = from_secs 1"

definition OUTBOUND_PROBE_BUDGET_PER_NETWORK :: nat where
  "OUTBOUND_PROBE_BUDGET_PER_NETWORK = 512"

definition OUTBOUND_PROBE_BUDGET_PER_PEER :: nat where
  "OUTBOUND_PROBE_BUDGET_PER_PEER = 256"

definition OUTBOUND_PROBE_BUDGET_PER_PEER_REMOTE_IP :: nat where
  "OUTBOUND_PROBE_BUDGET_PER_PEER_REMOTE_IP = 224"

definition OUTBOUND_PROBE_BUDGET_PER_DESTINATION_IP :: nat where
  "OUTBOUND_PROBE_BUDGET_PER_DESTINATION_IP = 448"

definition OUTBOUND_PROBE_PERSISTENT_WINDOW :: duration where
  "OUTBOUND_PROBE_PERSISTENT_WINDOW = from_secs 60"

definition OUTBOUND_PROBE_PERSISTENT_PER_NETWORK :: nat where
  "OUTBOUND_PROBE_PERSISTENT_PER_NETWORK = 6000"

definition OUTBOUND_PROBE_PERSISTENT_PER_PEER :: nat where
  "OUTBOUND_PROBE_PERSISTENT_PER_PEER = 3000"

definition OUTBOUND_PROBE_PERSISTENT_PER_PEER_REMOTE_IP :: nat where
  "OUTBOUND_PROBE_PERSISTENT_PER_PEER_REMOTE_IP = 2250"

definition OUTBOUND_PROBE_PERSISTENT_PER_DESTINATION_IP :: nat where
  "OUTBOUND_PROBE_PERSISTENT_PER_DESTINATION_IP = 4500"

definition OUTBOUND_PROBE_PERSISTENT_PER_PEER_SOCKET :: nat where
  "OUTBOUND_PROBE_PERSISTENT_PER_PEER_SOCKET = 1500"

lemmas probe_ceilings =
  OUTBOUND_PROBE_BUDGET_PER_NETWORK_def OUTBOUND_PROBE_BUDGET_PER_PEER_def
  OUTBOUND_PROBE_BUDGET_PER_PEER_REMOTE_IP_def OUTBOUND_PROBE_BUDGET_PER_DESTINATION_IP_def
  OUTBOUND_PROBE_PERSISTENT_PER_NETWORK_def OUTBOUND_PROBE_PERSISTENT_PER_PEER_def
  OUTBOUND_PROBE_PERSISTENT_PER_PEER_REMOTE_IP_def OUTBOUND_PROBE_PERSISTENT_PER_DESTINATION_IP_def
  OUTBOUND_PROBE_PERSISTENT_PER_PEER_SOCKET_def

text \<open>\<open>retain_live_budget_entries\<close>.\<close>

fun budget_window :: "outbound_probe_budget_key \<Rightarrow> duration" where
  "budget_window KNetworkPersistent = OUTBOUND_PROBE_PERSISTENT_WINDOW"
| "budget_window (KPeerPersistent p) = OUTBOUND_PROBE_PERSISTENT_WINDOW"
| "budget_window (KPeerRemoteIpPersistent p ip) = OUTBOUND_PROBE_PERSISTENT_WINDOW"
| "budget_window (KDestinationIpPersistent ip) = OUTBOUND_PROBE_PERSISTENT_WINDOW"
| "budget_window (KPeerSocketPersistent p s) = OUTBOUND_PROBE_PERSISTENT_WINDOW"
| "budget_window KNetwork = OUTBOUND_PROBE_BUDGET_WINDOW"
| "budget_window (KPeer p) = OUTBOUND_PROBE_BUDGET_WINDOW"
| "budget_window (KDestinationIp ip) = OUTBOUND_PROBE_BUDGET_WINDOW"
| "budget_window (KPeerRemoteIp p ip) = OUTBOUND_PROBE_BUDGET_WINDOW"

definition retain_live_budget_entries :: "instant \<Rightarrow> probe_budget \<Rightarrow> probe_budget" where
  "retain_live_budget_entries now b = retain_windows budget_window now b"

datatype outbound_probe_admission =
    OpAccepted
  | NetworkRateLimited
  | PeerRateLimited
  | RemoteIpRateLimited
  | GlobalNetworkRateLimited
  | GlobalPeerRateLimited
  | GlobalRemoteIpRateLimited
  | GlobalDestinationRateLimited
  | GlobalNetworkPersistentRateLimited
  | GlobalPeerPersistentRateLimited
  | GlobalRemoteIpPersistentRateLimited
  | GlobalDestinationPersistentRateLimited
  | GlobalPeerSocketPersistentRateLimited
  | EpochCreditExhausted
  | HardHardConfirmationRateReserved
  | HardHardConfirmationCreditReserved
  | HardHardRecoveryConfirmationReserved
  | RecoveryIdentityStale
  | AdmissionDeferred
  | HeartbeatBudgetLimited

datatype outbound_probe_sweep_stop =
    StopConfirmationCreditReserved
  | StopEpochCreditExhausted
  | StopRecoveryIdentityStale

fun sweep_stop :: "outbound_probe_admission \<Rightarrow> outbound_probe_sweep_stop option" where
  "sweep_stop EpochCreditExhausted = Some StopEpochCreditExhausted"
| "sweep_stop HardHardRecoveryConfirmationReserved = Some StopConfirmationCreditReserved"
| "sweep_stop RecoveryIdentityStale = Some StopRecoveryIdentityStale"
| "sweep_stop _ = None"

section \<open>The process-wide budget\<close>

text \<open>The keys a probe is counted under, with their ceilings, in the order of the checks.\<close>

definition short_keys :: "string \<Rightarrow> ip_addr \<Rightarrow> (outbound_probe_budget_key \<times> nat) list" where
  "short_keys p ip =
     [(KNetwork, OUTBOUND_PROBE_BUDGET_PER_NETWORK),
      (KPeer p, OUTBOUND_PROBE_BUDGET_PER_PEER),
      (KPeerRemoteIp p ip, OUTBOUND_PROBE_BUDGET_PER_PEER_REMOTE_IP),
      (KDestinationIp ip, OUTBOUND_PROBE_BUDGET_PER_DESTINATION_IP)]"

definition long_keys :: "string \<Rightarrow> ip_addr \<Rightarrow> nat \<Rightarrow> (outbound_probe_budget_key \<times> nat) list" where
  "long_keys p ip sock =
     [(KNetworkPersistent, OUTBOUND_PROBE_PERSISTENT_PER_NETWORK),
      (KPeerPersistent p, OUTBOUND_PROBE_PERSISTENT_PER_PEER),
      (KPeerRemoteIpPersistent p ip, OUTBOUND_PROBE_PERSISTENT_PER_PEER_REMOTE_IP),
      (KDestinationIpPersistent ip, OUTBOUND_PROBE_PERSISTENT_PER_DESTINATION_IP),
      (KPeerSocketPersistent p sock, OUTBOUND_PROBE_PERSISTENT_PER_PEER_SOCKET)]"

text \<open>\<open>any\<close> of the keys within \<open>reserve\<close> of its ceiling.\<close>

definition reserve_reached :: "probe_budget \<Rightarrow> nat \<Rightarrow> (outbound_probe_budget_key \<times> nat) list \<Rightarrow> bool" where
  "reserve_reached b reserve keys \<longleftrightarrow>
     0 < reserve \<and> list_ex (\<lambda>(k, ceiling). ceiling - reserve \<le> window_len b k) keys"

text \<open>The checks before the recovery gate: the first one that fails.\<close>

definition global_verdict ::
  "string \<Rightarrow> ip_addr \<Rightarrow> nat \<Rightarrow> recovery_probe_purpose \<Rightarrow> probe_budget \<Rightarrow> outbound_probe_admission" where
  "global_verdict p ip sock purpose b =
     (if OUTBOUND_PROBE_BUDGET_PER_NETWORK \<le> window_len b KNetwork then GlobalNetworkRateLimited
      else if OUTBOUND_PROBE_BUDGET_PER_PEER \<le> window_len b (KPeer p) then GlobalPeerRateLimited
      else if OUTBOUND_PROBE_BUDGET_PER_PEER_REMOTE_IP \<le> window_len b (KPeerRemoteIp p ip)
      then GlobalRemoteIpRateLimited
      else if OUTBOUND_PROBE_BUDGET_PER_DESTINATION_IP \<le> window_len b (KDestinationIp ip)
      then GlobalDestinationRateLimited
      else if OUTBOUND_PROBE_PERSISTENT_PER_NETWORK \<le> window_len b KNetworkPersistent
      then GlobalNetworkPersistentRateLimited
      else if OUTBOUND_PROBE_PERSISTENT_PER_PEER \<le> window_len b (KPeerPersistent p)
      then GlobalPeerPersistentRateLimited
      else if OUTBOUND_PROBE_PERSISTENT_PER_PEER_REMOTE_IP \<le> window_len b (KPeerRemoteIpPersistent p ip)
      then GlobalRemoteIpPersistentRateLimited
      else if OUTBOUND_PROBE_PERSISTENT_PER_PEER_SOCKET \<le> window_len b (KPeerSocketPersistent p sock)
      then GlobalPeerSocketPersistentRateLimited
      else if OUTBOUND_PROBE_PERSISTENT_PER_DESTINATION_IP \<le> window_len b (KDestinationIpPersistent ip)
      then GlobalDestinationPersistentRateLimited
      else if reserve_reached b (confirmation_short_window_reserve purpose) (short_keys p ip)
      then HardHardConfirmationRateReserved
      else if reserve_reached b (unat (confirmation_credit_reserve purpose)) (long_keys p ip sock)
      then HardHardConfirmationCreditReserved
      else OpAccepted)"

text \<open>The synchronous commit of all counters.\<close>

definition commit_global :: "string \<Rightarrow> ip_addr \<Rightarrow> nat \<Rightarrow> instant \<Rightarrow> probe_budget \<Rightarrow> probe_budget" where
  "commit_global p ip sock now b =
     fold (\<lambda>k. push_window k now)
       [KNetwork, KPeer p, KPeerRemoteIp p ip, KDestinationIp ip, KDestinationIpPersistent ip,
        KNetworkPersistent, KPeerPersistent p, KPeerRemoteIpPersistent p ip, KPeerSocketPersistent p sock] b"

text \<open>
  \<open>admit_with_purpose_after\<close>: the lock is held while the recovery gate runs; \<open>gate\<close> is what it
  does to the state it guards. The clock is read on entry and again at the commit.
\<close>

definition admit_with_purpose_after ::
  "string \<Rightarrow> socket_addr \<Rightarrow> nat \<Rightarrow> recovery_probe_purpose \<Rightarrow> instant
     \<Rightarrow> ('c \<Rightarrow> outbound_probe_admission \<times> 'c) \<Rightarrow> instant
     \<Rightarrow> probe_budget \<times> 'c \<Rightarrow> outbound_probe_admission \<times> probe_budget \<times> 'c" where
  "admit_with_purpose_after p addr sock purpose now gate now' s =
     (case s of (b0, c) \<Rightarrow>
        let b = retain_live_budget_entries now b0;
            v = global_verdict p (socket_ip addr) sock purpose b
        in if v \<noteq> OpAccepted then (v, b, c)
           else (case gate c of (v', c') \<Rightarrow>
             if v' \<noteq> OpAccepted then (v', b, c')
             else (OpAccepted, commit_global p (socket_ip addr) sock now' b, c')))"

definition RELAY_BACKOFF_HEARTBEAT_FOREGROUND_RESERVE :: nat where
  "RELAY_BACKOFF_HEARTBEAT_FOREGROUND_RESERVE = 128"

definition foreground_burst_active :: "instant \<Rightarrow> probe_budget \<Rightarrow> bool \<times> probe_budget" where
  "foreground_burst_active now b0 =
     (let b = retain_live_budget_entries now b0
      in (OUTBOUND_PROBE_BUDGET_PER_NETWORK - RELAY_BACKOFF_HEARTBEAT_FOREGROUND_RESERVE
            \<le> window_len b KNetwork, b))"

section \<open>The budget of one transport\<close>

text \<open>
  \<open>admit_connectivity_probe_transaction\<close> of \<open>admission.rs\<close>. \<open>recovery_gate\<close> is its \<open>recovery_credit\<close>
  block: with an identity the exact allocation pays, without one the peer's current epoch. The
  recovery ledger is the state the gate works on; \<open>mid\<close> is what other workers do to it while
  this one waits for its lock.
\<close>

definition recovery_gate ::
  "string \<Rightarrow> recovery_identity option \<Rightarrow> recovery_probe_purpose \<Rightarrow> u64 \<Rightarrow> recovery_op list
     \<Rightarrow> recovery_state \<Rightarrow> outbound_probe_admission \<times> recovery_state" where
  "recovery_gate p identity purpose current mid m0 =
     (let m = recovery_run m0 mid in
      case identity of
        Some i \<Rightarrow> (case consume_recovery_probe_credit_for_purpose p i purpose current m of
          (v, m') \<Rightarrow> (case v of
              CreditAccepted \<Rightarrow> OpAccepted
            | CreditExhausted \<Rightarrow> EpochCreditExhausted
            | CreditConfirmationReserved \<Rightarrow> HardHardRecoveryConfirmationReserved
            | CreditIdentityStale \<Rightarrow> RecoveryIdentityStale, m'))
      | None \<Rightarrow> (case try_consume_recovery_probe_credit p m of
          (ok, m') \<Rightarrow> (if ok then OpAccepted else EpochCreditExhausted, m')))"

definition local_keys :: "string \<Rightarrow> ip_addr \<Rightarrow> (outbound_probe_budget_key \<times> nat) list" where
  "local_keys p ip =
     [(KNetwork, OUTBOUND_PROBE_BUDGET_PER_NETWORK),
      (KPeer p, OUTBOUND_PROBE_BUDGET_PER_PEER),
      (KPeerRemoteIp p ip, OUTBOUND_PROBE_BUDGET_PER_PEER_REMOTE_IP)]"

definition local_verdict ::
  "string \<Rightarrow> ip_addr \<Rightarrow> recovery_probe_purpose \<Rightarrow> probe_budget \<Rightarrow> outbound_probe_admission" where
  "local_verdict p ip purpose b =
     (if OUTBOUND_PROBE_BUDGET_PER_NETWORK \<le> window_len b KNetwork then NetworkRateLimited
      else if OUTBOUND_PROBE_BUDGET_PER_PEER \<le> window_len b (KPeer p) then PeerRateLimited
      else if OUTBOUND_PROBE_BUDGET_PER_PEER_REMOTE_IP \<le> window_len b (KPeerRemoteIp p ip)
      then RemoteIpRateLimited
      else if reserve_reached b (confirmation_short_window_reserve purpose) (local_keys p ip)
      then HardHardConfirmationRateReserved
      else OpAccepted)"

definition commit_local :: "string \<Rightarrow> ip_addr \<Rightarrow> instant \<Rightarrow> probe_budget \<Rightarrow> probe_budget" where
  "commit_local p ip now b =
     fold (\<lambda>k. push_window k now) [KNetwork, KPeer p, KPeerRemoteIp p ip] b"

record probe_ledgers =
  pl_local :: probe_budget
  pl_global :: "probe_budget option"
  pl_recovery :: recovery_state

record probe_clock =
  pk_local :: instant
  pk_global :: instant
  pk_global_commit :: instant
  pk_local_commit :: instant

definition admit_connectivity_probe_transaction ::
  "string \<Rightarrow> socket_addr \<Rightarrow> nat \<Rightarrow> recovery_probe_purpose \<Rightarrow> recovery_identity option
     \<Rightarrow> u64 \<Rightarrow> recovery_op list \<Rightarrow> probe_clock
     \<Rightarrow> probe_ledgers \<Rightarrow> outbound_probe_admission \<times> probe_ledgers" where
  "admit_connectivity_probe_transaction p addr sock purpose identity current mid clock s0 =
     (let ip = socket_ip addr;
          s = s0\<lparr>pl_local := retain_live_budget_entries (pk_local clock) (pl_local s0)\<rparr>;
          v = local_verdict p ip purpose (pl_local s);
          gate = recovery_gate p identity purpose current mid
      in if v \<noteq> OpAccepted then (v, s)
         else let r = (case pl_global s of
                Some b \<Rightarrow> (case admit_with_purpose_after p addr sock purpose (pk_global clock) gate
                    (pk_global_commit clock) (b, pl_recovery s) of
                  (v, b', m) \<Rightarrow> (v, s\<lparr>pl_global := Some b', pl_recovery := m\<rparr>))
              | None \<Rightarrow> (case gate (pl_recovery s) of (v, m) \<Rightarrow> (v, s\<lparr>pl_recovery := m\<rparr>)))
            in (case r of (v, s') \<Rightarrow>
                 if v \<noteq> OpAccepted then (v, s')
                 else (OpAccepted, s'\<lparr>pl_local := commit_local p ip (pk_local_commit clock) (pl_local s')\<rparr>)))"

end
