(* ===== verification/Probe_Budget_Props.thy ===== *)
theory Probe_Budget_Props
  imports Probe_Budget Recovery_Safety
begin

text \<open>
  The rate of outbound probes over any run, the tail that exploration leaves to confirmation, and
  the atomicity of the transaction over the local, the process-wide and the recovery ledger.
\<close>

section \<open>Ceilings\<close>

fun budget_ceiling :: "outbound_probe_budget_key \<Rightarrow> nat" where
  "budget_ceiling KNetwork = OUTBOUND_PROBE_BUDGET_PER_NETWORK"
| "budget_ceiling (KPeer p) = OUTBOUND_PROBE_BUDGET_PER_PEER"
| "budget_ceiling (KPeerRemoteIp p ip) = OUTBOUND_PROBE_BUDGET_PER_PEER_REMOTE_IP"
| "budget_ceiling (KDestinationIp ip) = OUTBOUND_PROBE_BUDGET_PER_DESTINATION_IP"
| "budget_ceiling KNetworkPersistent = OUTBOUND_PROBE_PERSISTENT_PER_NETWORK"
| "budget_ceiling (KPeerPersistent p) = OUTBOUND_PROBE_PERSISTENT_PER_PEER"
| "budget_ceiling (KPeerRemoteIpPersistent p ip) = OUTBOUND_PROBE_PERSISTENT_PER_PEER_REMOTE_IP"
| "budget_ceiling (KDestinationIpPersistent ip) = OUTBOUND_PROBE_PERSISTENT_PER_DESTINATION_IP"
| "budget_ceiling (KPeerSocketPersistent p s) = OUTBOUND_PROBE_PERSISTENT_PER_PEER_SOCKET"

definition probe_keys :: "string \<Rightarrow> ip_addr \<Rightarrow> nat \<Rightarrow> outbound_probe_budget_key set" where
  "probe_keys p ip sock = set (map fst (short_keys p ip)) \<union> set (map fst (long_keys p ip sock))"

lemma global_verdict_room:
  assumes "global_verdict p ip sock purpose b = OpAccepted" and "k \<in> probe_keys p ip sock"
  shows "window_len b k < budget_ceiling k"
  using assms by (auto simp: global_verdict_def probe_keys_def short_keys_def long_keys_def not_le split: if_splits)

lemma window_commit_global:
  "window (commit_global p ip sock now b) k = window b k @ (if k \<in> probe_keys p ip sock then [now] else [])"
  by (cases k) (auto simp: commit_global_def window_push probe_keys_def short_keys_def long_keys_def)

lemma window_commit_local:
  "window (commit_local p ip now b) k = window b k @ (if k \<in> set (map fst (local_keys p ip)) then [now] else [])"
  by (cases k) (auto simp: commit_local_def window_push local_keys_def)

section \<open>Rate of the process-wide budget\<close>

text \<open>A request with the verdict of the gate and the instant of the commit, or a heartbeat's look.\<close>

datatype budget_op =
    ProbeRequest string socket_addr nat recovery_probe_purpose instant outbound_probe_admission instant
  | ForegroundLook instant

fun budget_step :: "probe_budget \<Rightarrow> budget_op \<Rightarrow> probe_budget" where
  "budget_step b (ProbeRequest p addr sock purpose now v now') =
     fst (snd (admit_with_purpose_after p addr sock purpose now (\<lambda>_. (v, ())) now' (b, ())))"
| "budget_step b (ForegroundLook now) = snd (foreground_burst_active now b)"

fun budget_charges :: "probe_budget \<Rightarrow> budget_op \<Rightarrow> outbound_probe_budget_key \<Rightarrow> instant list" where
  "budget_charges b (ProbeRequest p addr sock purpose now v now') k =
     (if fst (admit_with_purpose_after p addr sock purpose now (\<lambda>_. (v, ())) now' (b, ())) = OpAccepted
         \<and> k \<in> probe_keys p (socket_ip addr) sock then [now'] else [])"
| "budget_charges b (ForegroundLook now) k = []"

fun budget_start :: "budget_op \<Rightarrow> instant" where
  "budget_start (ProbeRequest p addr sock purpose now v now') = now"
| "budget_start (ForegroundLook now) = now"

fun budget_finish :: "budget_op \<Rightarrow> instant" where
  "budget_finish (ProbeRequest p addr sock purpose now v now') = now'"
| "budget_finish (ForegroundLook now) = now"

lemma window_retain_live:
  "window (retain_live_budget_entries now b) k = prune (budget_window k) now (window b k)"
  by (simp add: retain_live_budget_entries_def window_retain)

lemma budget_step_window:
  "window (budget_step b e) k = prune (budget_window k) (budget_start e) (window b k) @ budget_charges b e k"
proof (cases e)
  case (ProbeRequest p addr sock purpose now v now')
  show ?thesis
    by (simp add: ProbeRequest admit_with_purpose_after_def window_commit_global window_retain_live Let_def)
next
  case (ForegroundLook now)
  then show ?thesis by (simp add: foreground_burst_active_def window_retain_live Let_def)
qed

interpretation probe_rate: rate_limiter budget_step "\<lambda>_. True" window budget_charges
  budget_start budget_finish budget_window budget_ceiling
proof
  fix s e k
  from prune_split [of "window s k" "budget_window k" "budget_start e"]
  show "\<exists>old. window s k @ budget_charges s e k = old @ window (budget_step s e) k
      \<and> (\<forall>t \<in> set old. budget_window k \<le> budget_start e - t)"
    by (auto simp: budget_step_window)
next
  fix s e t k
  assume "budget_start e \<le> budget_finish e" "t \<in> set (budget_charges s e k)"
  then show "budget_start e \<le> t \<and> t \<le> budget_finish e" by (cases e) (auto split: if_splits)
next
  fix s e k
  assume c: "budget_charges s e k \<noteq> []"
  show "length (window (budget_step s e) k) \<le> budget_ceiling k"
  proof (cases e)
    case (ProbeRequest p addr sock purpose now v now')
    let ?b = "retain_live_budget_entries now s"
    from c ProbeRequest have "global_verdict p (socket_ip addr) sock purpose ?b = OpAccepted"
      "k \<in> probe_keys p (socket_ip addr) sock"
      by (auto simp: admit_with_purpose_after_def Let_def split: if_splits)
    from global_verdict_room [OF this]
    have "length (prune (budget_window k) (budget_start e) (window s k)) < budget_ceiling k"
      by (simp add: ProbeRequest window_len_window window_retain_live)
    moreover have "length (budget_charges s e k) = 1" using c by (simp add: ProbeRequest split: if_splits)
    ultimately show ?thesis unfolding budget_step_window by simp
  next
    case (ForegroundLook now)
    with c show ?thesis by simp
  qed
qed simp

text \<open>
  C30: No interval as long as a key's window contains more accepted probes of that key than its
  ceiling, for all nine kinds of key and any sequence of requests in clock order.
\<close>
theorem probe_rate_bounded:
  assumes "clocked budget_start budget_finish t0 ops"
  shows "in_window a (budget_window k) (charged_log budget_step budget_charges Map.empty ops k) \<le> budget_ceiling k"
  by (rule probe_rate.window_rate [OF _ _ assms]) simp_all

section \<open>The tail of confirmation\<close>

lemma reserve_reached_iff:
  "reserve_reached b r keys \<longleftrightarrow> 0 < r \<and> (\<exists>(k, ceiling) \<in> set keys. ceiling - r \<le> window_len b k)"
  by (simp add: reserve_reached_def list_ex_iff)

lemma global_verdict_reserve:
  assumes "global_verdict p ip sock purpose b = OpAccepted"
  shows "k \<in> set (map fst (short_keys p ip)) \<Longrightarrow>
      window_len b k + max 1 (confirmation_short_window_reserve purpose) \<le> budget_ceiling k"
    and "k \<in> set (map fst (long_keys p ip sock)) \<Longrightarrow>
      window_len b k + max 1 (unat (confirmation_credit_reserve purpose)) \<le> budget_ceiling k"
proof -
  have room: "k \<in> probe_keys p ip sock \<Longrightarrow> window_len b k < budget_ceiling k"
    by (rule global_verdict_room [OF assms])
  have r: "\<not> reserve_reached b (confirmation_short_window_reserve purpose) (short_keys p ip)"
    "\<not> reserve_reached b (unat (confirmation_credit_reserve purpose)) (long_keys p ip sock)"
    using assms by (auto simp: global_verdict_def split: if_splits)
  show "window_len b k + max 1 (confirmation_short_window_reserve purpose) \<le> budget_ceiling k"
    if k: "k \<in> set (map fst (short_keys p ip))"
    using r(1) room k by (auto simp: reserve_reached_iff short_keys_def probe_keys_def not_le max_def)
  show "window_len b k + max 1 (unat (confirmation_credit_reserve purpose)) \<le> budget_ceiling k"
    if k: "k \<in> set (map fst (long_keys p ip sock))"
    using r(2) room k by (auto simp: reserve_reached_iff long_keys_def probe_keys_def not_le max_def)
qed

lemma budget_step_slack:
  "length (window (budget_step b e) k) \<le> length (window b k) + 1"
proof -
  have "length (budget_charges b e k) \<le> 1" by (cases e) auto
  then show ?thesis
    using length_prune [of "budget_window k" "budget_start e" "window b k"] by (simp add: budget_step_window)
qed

lemma budget_steps_slack:
  "length (window (foldl budget_step b es) k) \<le> length (window b k) + length es"
proof (induction es arbitrary: b)
  case Nil
  then show ?case by simp
next
  case (Cons e es)
  from Cons.IH [of "budget_step b e"] budget_step_slack [of b e k] show ?case by simp
qed

lemma nomination_verdict:
  assumes "\<And>k. k \<in> probe_keys p ip sock \<Longrightarrow> window_len b k < budget_ceiling k"
  shows "global_verdict p ip sock HardHardNomination b = OpAccepted"
  using assms [of KNetwork] assms [of "KPeer p"] assms [of "KPeerRemoteIp p ip"] assms [of "KDestinationIp ip"]
    assms [of KNetworkPersistent] assms [of "KPeerPersistent p"] assms [of "KPeerRemoteIpPersistent p ip"]
    assms [of "KDestinationIpPersistent ip"] assms [of "KPeerSocketPersistent p sock"]
  by (simp add: probe_keys_def short_keys_def long_keys_def global_verdict_def not_le reserve_reached_def
      confirmation_short_window_reserve_def)

text \<open>
  An exploration probe is accepted only when, whatever the next thirty operations of the budget
  are, a nomination of the same pair after them is within every ceiling.
\<close>
theorem exploration_leaves_confirmation_tail:
  assumes "fst (admit_with_purpose_after p addr sock HardHardExploration now gate now' (b, c)) = OpAccepted"
    and "b' = fst (snd (admit_with_purpose_after p addr sock HardHardExploration now gate now' (b, c)))"
    and "length ops \<le> 30"
  shows "global_verdict p (socket_ip addr) sock HardHardNomination
    (retain_live_budget_entries t (foldl budget_step b' ops)) = OpAccepted"
proof (rule nomination_verdict)
  fix k assume k: "k \<in> probe_keys p (socket_ip addr) sock"
  let ?b = "retain_live_budget_entries now b"
  have ok: "global_verdict p (socket_ip addr) sock HardHardExploration ?b = OpAccepted"
    and b': "b' = commit_global p (socket_ip addr) sock now' ?b"
    using assms(1,2) by (auto simp: admit_with_purpose_after_def Let_def split: if_splits prod.splits)
  have "window_len ?b k + 32 \<le> budget_ceiling k"
    using k unfolding probe_keys_def
  proof
    assume "k \<in> set (map fst (short_keys p (socket_ip addr)))"
    from global_verdict_reserve(1) [OF ok this] show ?thesis
      by (simp add: confirmation_short_window_reserve_def recovery_consts)
  next
    assume "k \<in> set (map fst (long_keys p (socket_ip addr) sock))"
    from global_verdict_reserve(2) [OF ok this] show ?thesis by (simp add: recovery_consts)
  qed
  moreover have "length (window b' k) = window_len ?b k + 1"
    using k by (simp add: b' window_commit_global window_len_window)
  ultimately have "length (window (foldl budget_step b' ops) k) < budget_ceiling k"
    using budget_steps_slack [of b' ops k] assms(3) by simp
  then show "window_len (retain_live_budget_entries t (foldl budget_step b' ops)) k < budget_ceiling k"
    using length_prune [of "budget_window k" t "window (foldl budget_step b' ops) k"]
    by (simp add: window_len_window window_retain_live)
qed

section \<open>The transaction over three ledgers\<close>

text \<open>One credit of the peer's epoch, if it has one.\<close>

definition credit_paid :: "string \<Rightarrow> recovery_state \<Rightarrow> recovery_state \<Rightarrow> bool" where
  "credit_paid p m m' \<longleftrightarrow> (case rm_epochs m p of
     None \<Rightarrow> m' = m
   | Some e \<Rightarrow> re_probe_credit e \<noteq> 0
       \<and> m' = m\<lparr>rm_epochs := (rm_epochs m)(p \<mapsto> e\<lparr>re_probe_credit := re_probe_credit e - 1\<rparr>)\<rparr>)"

lemma recovery_gate_cases:
  "case recovery_gate p identity purpose current mid m of (v, m') \<Rightarrow>
     if v = OpAccepted then credit_paid p (recovery_run m mid) m' else m' = recovery_run m mid"
  by (cases "rm_epochs (recovery_run m mid) p")
    (auto simp: recovery_gate_def credit_paid_def try_consume_recovery_probe_credit_def spend_def
      consume_recovery_probe_credit_for_purpose_def Let_def split: option.splits)

text \<open>What the transaction adds to a window, beyond dropping what has left it.\<close>

definition window_gains :: "outbound_probe_budget_key set \<Rightarrow> instant \<Rightarrow> instant \<Rightarrow> probe_budget \<Rightarrow> probe_budget \<Rightarrow> bool" where
  "window_gains keys now t b b' \<longleftrightarrow>
     (\<forall>k. window b' k = prune (budget_window k) now (window b k) @ (if k \<in> keys then [t] else []))"

text \<open>
  A probe is either accepted, and then charged once under its keys in the local and in the
  process-wide windows and with one credit of the peer's epoch, or it is refused and no ledger
  is charged.
\<close>
theorem probe_transaction_atomic:
  assumes "admit_connectivity_probe_transaction p addr sock purpose identity current mid clock s = (v, s')"
    and "m = recovery_run (pl_recovery s) mid"
  shows "if v = OpAccepted
    then window_gains (set (map fst (local_keys p (socket_ip addr)))) (pk_local clock) (pk_local_commit clock)
           (pl_local s) (pl_local s')
      \<and> (case pl_global s of None \<Rightarrow> pl_global s' = None
          | Some b \<Rightarrow> \<exists>b'. pl_global s' = Some b'
              \<and> window_gains (probe_keys p (socket_ip addr) sock) (pk_global clock) (pk_global_commit clock) b b')
      \<and> credit_paid p m (pl_recovery s')
    else window_gains {} (pk_local clock) 0 (pl_local s) (pl_local s')
      \<and> (pl_global s' = pl_global s
          \<or> (\<exists>b b'. pl_global s = Some b \<and> pl_global s' = Some b' \<and> window_gains {} (pk_global clock) 0 b b'))
      \<and> (pl_recovery s' = pl_recovery s \<or> pl_recovery s' = m)"
proof -
  let ?l = "retain_live_budget_entries (pk_local clock) (pl_local s)"
  have none: "window_gains {} t 0 b (retain_live_budget_entries t b)" for t b
    by (simp add: window_gains_def window_retain_live)
  have loc: "window_gains (set (map fst (local_keys p (socket_ip addr)))) (pk_local clock) t
      (pl_local s) (commit_local p (socket_ip addr) t ?l)" for t
    by (simp add: window_gains_def window_retain_live window_commit_local)
  have glob: "window_gains (probe_keys p (socket_ip addr) sock) n t b
      (commit_global p (socket_ip addr) sock t (retain_live_budget_entries n b))" for n t b
    by (simp add: window_gains_def window_retain_live window_commit_global)
  obtain v1 m1 where g: "recovery_gate p identity purpose current mid (pl_recovery s) = (v1, m1)"
    by (cases "recovery_gate p identity purpose current mid (pl_recovery s)")
  have gate: "if v1 = OpAccepted then credit_paid p m m1 else m1 = m"
    using recovery_gate_cases [where p = p and identity = identity and purpose = purpose
        and current = current and mid = mid and m = "pl_recovery s"] g assms(2) by simp
  show ?thesis
  proof (cases "local_verdict p (socket_ip addr) purpose ?l = OpAccepted")
    case False
    then show ?thesis using assms(1) none
      by (auto simp: admit_connectivity_probe_transaction_def Let_def)
  next
    case True
    show ?thesis
    proof (cases "pl_global s")
      case None
      then show ?thesis using assms(1) True g gate none loc
        by (auto simp: admit_connectivity_probe_transaction_def Let_def split: if_splits)
    next
      case (Some b)
      then show ?thesis using assms(1) True g gate none loc glob
        by (auto simp: admit_connectivity_probe_transaction_def admit_with_purpose_after_def Let_def
            split: if_splits)
    qed
  qed
qed

end
