(* ===== verification/Heartbeat.thy ===== *)
theory Heartbeat
  imports Probe_Budget "HOL-Library.List_Lexorder" "HOL-Library.Char_ord"
begin

text \<open>
  The low-priority budget of relay-backed heartbeat probes
  (\<open>client/daemon/src/udp/probe_budget.rs\<close>, second half): the rotation over endpoints and sockets,
  the service slots shared by the peers, and reservations that hold capacity while a datagram is
  on its way. The mutex makes every method one step. The maps whose keys the code lists are
  association lists; \<open>String\<close> is ordered by its bytes.
\<close>

section \<open>Data\<close>

datatype heartbeat_key = HbNetwork | HbPeer string | HbRemoteIp ip_addr

datatype heartbeat_rejection = BudgetLimited | FairnessDeferred | ForegroundYield

datatype heartbeat_group = GroupPriority | GroupPredicted | GroupFallback

record heartbeat_target =
  ht_endpoint :: socket_addr
  ht_socket_index :: nat
  ht_group :: heartbeat_group

record heartbeat_cursor =
  hc_priority :: nat
  hc_predicted :: nat
  hc_fallback :: nat
  hc_socket :: nat
  hc_beat :: u64

record heartbeat_pending =
  hp_keys :: "heartbeat_key list"
  hp_capacity :: nat
  hp_peer :: string
  hp_slot :: u64

datatype heartbeat_slot = SlotReserved u64 | SlotCommitted

record heartbeat_state =
  hb_committed :: "heartbeat_key windows"
  hb_reserved :: "heartbeat_key \<Rightarrow> nat option"
  hb_reservations :: "(u64 \<times> heartbeat_pending) list"
  hb_slots :: "string \<times> u64 \<Rightarrow> heartbeat_slot option"
  hb_active :: "(string \<times> u64) list"
  hb_cursors :: "string \<times> u64 \<Rightarrow> heartbeat_cursor option"
  hb_epoch :: instant
  hb_next :: u64

definition heartbeat_new :: "instant \<Rightarrow> heartbeat_state" where
  "heartbeat_new now = \<lparr>hb_committed = Map.empty, hb_reserved = Map.empty, hb_reservations = [],
     hb_slots = Map.empty, hb_active = [], hb_cursors = Map.empty, hb_epoch = now, hb_next = 1\<rparr>"

definition RELAY_BACKOFF_HEARTBEAT_SERVICE_SLOT :: duration where
  "RELAY_BACKOFF_HEARTBEAT_SERVICE_SLOT = from_secs 3"

definition RELAY_BACKOFF_HEARTBEAT_PEERS_PER_SERVICE_SLOT :: nat where
  "RELAY_BACKOFF_HEARTBEAT_PEERS_PER_SERVICE_SLOT = 12"

definition RELAY_BACKOFF_HEARTBEAT_ACTIVE_PEER_RETENTION_SLOTS :: u64 where
  "RELAY_BACKOFF_HEARTBEAT_ACTIVE_PEER_RETENTION_SLOTS = 40"

definition RELAY_BACKOFF_HEARTBEAT_BUDGET_WINDOW :: duration where
  "RELAY_BACKOFF_HEARTBEAT_BUDGET_WINDOW = from_secs 60"

definition RELAY_BACKOFF_HEARTBEAT_GLOBAL_PER_WINDOW :: nat where
  "RELAY_BACKOFF_HEARTBEAT_GLOBAL_PER_WINDOW = 240"

definition RELAY_BACKOFF_HEARTBEAT_PER_PEER_PER_WINDOW :: nat where
  "RELAY_BACKOFF_HEARTBEAT_PER_PEER_PER_WINDOW = 24"

definition RELAY_BACKOFF_HEARTBEAT_PER_REMOTE_IP_PER_WINDOW :: nat where
  "RELAY_BACKOFF_HEARTBEAT_PER_REMOTE_IP_PER_WINDOW = 120"

section \<open>The next endpoint and socket\<close>

fun preferred_group :: "u64 \<Rightarrow> heartbeat_group" where
  "preferred_group beat =
     (if beat mod 5 = 0 then GroupPriority else if beat mod 5 = 4 then GroupFallback else GroupPredicted)"

definition heartbeat_cursor_default :: heartbeat_cursor where
  "heartbeat_cursor_default =
     \<lparr>hc_priority = 0, hc_predicted = 0, hc_fallback = 0, hc_socket = 0, hc_beat = 0\<rparr>"

text \<open>The endpoint a group offers, and the cursor past it. \<open>usize\<close> cursors are naturals.\<close>

fun take_from_group ::
  "heartbeat_group \<Rightarrow> socket_addr list \<Rightarrow> heartbeat_cursor \<Rightarrow> socket_addr \<times> heartbeat_cursor" where
  "take_from_group GroupPriority es c =
     (es ! (hc_priority c mod length es), c\<lparr>hc_priority := hc_priority c + 1\<rparr>)"
| "take_from_group GroupPredicted es c =
     (es ! (hc_predicted c mod length es), c\<lparr>hc_predicted := hc_predicted c + 1\<rparr>)"
| "take_from_group GroupFallback es c =
     (es ! (hc_fallback c mod length es), c\<lparr>hc_fallback := hc_fallback c + 1\<rparr>)"

text \<open>
  The loop over the group order. It stops at the first group that has endpoints, so the test
  against the group already selected never holds.
\<close>

fun select_group ::
  "(heartbeat_group \<Rightarrow> socket_addr list) \<Rightarrow> heartbeat_group list \<Rightarrow> heartbeat_cursor
     \<Rightarrow> (socket_addr \<times> heartbeat_group) option \<times> heartbeat_cursor" where
  "select_group eps [] c = (None, c)"
| "select_group eps (g # gs) c =
     (if eps g = [] then select_group eps gs c
      else (case take_from_group g (eps g) c of (e, c') \<Rightarrow> (Some (e, g), c')))"

fun group_endpoints ::
  "socket_addr list \<Rightarrow> socket_addr list \<Rightarrow> socket_addr list \<Rightarrow> heartbeat_group \<Rightarrow> socket_addr list" where
  "group_endpoints pri pred fall GroupPriority = pri"
| "group_endpoints pri pred fall GroupPredicted = pred"
| "group_endpoints pri pred fall GroupFallback = fall"

text \<open>One beat on a cursor.\<close>

definition cursor_beat ::
  "socket_addr list \<Rightarrow> socket_addr list \<Rightarrow> socket_addr list \<Rightarrow> nat \<Rightarrow> heartbeat_cursor
     \<Rightarrow> heartbeat_target option \<times> heartbeat_cursor" where
  "cursor_beat pri pred fall sockets c0 =
     (let preferred = preferred_group (hc_beat c0);
          c = c0\<lparr>hc_beat := sat_add (hc_beat c0) 1\<rparr>
      in (case select_group (group_endpoints pri pred fall)
            [preferred, GroupPriority, GroupPredicted, GroupFallback] c of
          (None, c') \<Rightarrow> (None, c')
        | (Some (e, g), c') \<Rightarrow>
            (Some \<lparr>ht_endpoint = e, ht_socket_index = hc_socket c' mod sockets, ht_group = g\<rparr>,
             c'\<lparr>hc_socket := hc_socket c' + 1\<rparr>)))"

definition next_target ::
  "string \<Rightarrow> u64 \<Rightarrow> socket_addr list \<Rightarrow> socket_addr list \<Rightarrow> socket_addr list \<Rightarrow> nat \<Rightarrow> heartbeat_state
     \<Rightarrow> heartbeat_target option \<times> heartbeat_state" where
  "next_target p generation pri pred fall sockets s =
     (if sockets = 0 \<or> pri = [] \<and> pred = [] \<and> fall = [] then (None, s)
      else let cursors = (\<lambda>(q, g). if q \<noteq> p \<or> g = generation then hb_cursors s (q, g) else None);
               c0 = (case cursors (p, generation) of None \<Rightarrow> heartbeat_cursor_default | Some c \<Rightarrow> c)
           in (case cursor_beat pri pred fall sockets c0 of (t, c') \<Rightarrow>
                (t, s\<lparr>hb_cursors := cursors((p, generation) \<mapsto> c')\<rparr>)))"

section \<open>Reservations\<close>

definition service_slot_at :: "instant \<Rightarrow> instant \<Rightarrow> u64" where
  "service_slot_at epoch now =
     (let slot = saturating_duration_since now epoch div RELAY_BACKOFF_HEARTBEAT_SERVICE_SLOT
      in if slot < 2 ^ 64 then of_nat slot else - 1)"

text \<open>The rotating roster: with more than twelve peers, twelve consecutive ones from the slot on.\<close>

definition roster_selects :: "string list \<Rightarrow> u64 \<Rightarrow> string \<Rightarrow> bool" where
  "roster_selects peers slot p \<longleftrightarrow>
     length peers \<le> RELAY_BACKOFF_HEARTBEAT_PEERS_PER_SERVICE_SLOT
     \<or> (let start = unat slot mod length peers in
        list_ex (\<lambda>offset. peers ! ((start + offset) mod length peers) = p)
          [0..<RELAY_BACKOFF_HEARTBEAT_PEERS_PER_SERVICE_SLOT])"

definition assoc_insert :: "'k \<Rightarrow> 'v \<Rightarrow> ('k \<times> 'v) list \<Rightarrow> ('k \<times> 'v) list" where
  "assoc_insert k v xs = (k, v) # filter (\<lambda>(k', _). k' \<noteq> k) xs"

fun heartbeat_cap :: "heartbeat_key \<Rightarrow> nat" where
  "heartbeat_cap HbNetwork = RELAY_BACKOFF_HEARTBEAT_GLOBAL_PER_WINDOW"
| "heartbeat_cap (HbPeer p) = RELAY_BACKOFF_HEARTBEAT_PER_PEER_PER_WINDOW"
| "heartbeat_cap (HbRemoteIp ip) = RELAY_BACKOFF_HEARTBEAT_PER_REMOTE_IP_PER_WINDOW"

definition held :: "(heartbeat_key \<Rightarrow> nat option) \<Rightarrow> heartbeat_key \<Rightarrow> nat" where
  "held m k = (case m k of None \<Rightarrow> 0 | Some n \<Rightarrow> n)"

text \<open>The capacity test of one key.\<close>

definition over_cap :: "heartbeat_state \<Rightarrow> nat \<Rightarrow> heartbeat_key \<Rightarrow> bool" where
  "over_cap s n k \<longleftrightarrow> heartbeat_cap k < window_len (hb_committed s) k + held (hb_reserved s) k + n"

text \<open>The upkeep \<open>reserve\<close> does first: windows, the roster of active peers, and the slots.\<close>

definition heartbeat_upkeep :: "string \<Rightarrow> instant \<Rightarrow> heartbeat_state \<Rightarrow> heartbeat_state" where
  "heartbeat_upkeep p now s =
     (let slot = service_slot_at (hb_epoch s) now in
      s\<lparr>hb_committed := retain_windows (\<lambda>_. RELAY_BACKOFF_HEARTBEAT_BUDGET_WINDOW) now (hb_committed s),
        hb_active := filter (\<lambda>(q, seen).
          sat_sub slot seen \<le> RELAY_BACKOFF_HEARTBEAT_ACTIVE_PEER_RETENTION_SLOTS)
            (assoc_insert p slot (hb_active s)),
        hb_slots := (\<lambda>(q, sl). case hb_slots s (q, sl) of
            None \<Rightarrow> None
          | Some (SlotReserved i) \<Rightarrow> Some (SlotReserved i)
          | Some SlotCommitted \<Rightarrow> if sl = slot then Some SlotCommitted else None)\<rparr>)"

datatype reserve_result = HbReserved u64 | HbRejected heartbeat_rejection | HbPanicked

text \<open>\<open>reserve\<close>; the id counter panics at its maximum.\<close>

definition heartbeat_reserve ::
  "string \<Rightarrow> ip_addr \<Rightarrow> nat \<Rightarrow> instant \<Rightarrow> heartbeat_state \<Rightarrow> reserve_result \<times> heartbeat_state" where
  "heartbeat_reserve p ip n now s0 =
     (if n = 0 then (HbRejected BudgetLimited, s0)
      else let s = heartbeat_upkeep p now s0;
               slot = service_slot_at (hb_epoch s) now;
               keys = [HbNetwork, HbPeer p, HbRemoteIp ip]
           in if hb_slots s (p, slot) \<noteq> None then (HbRejected FairnessDeferred, s)
              else if \<not> roster_selects (sort (map fst (hb_active s))) slot p
              then (HbRejected FairnessDeferred, s)
              else if list_ex (over_cap s n) keys then (HbRejected BudgetLimited, s)
              else if hb_next s = - 1 then (HbPanicked, s)
              else (HbReserved (hb_next s),
                s\<lparr>hb_next := hb_next s + 1,
                  hb_reserved := fold (\<lambda>k m. m(k \<mapsto> held m k + n)) keys (hb_reserved s),
                  hb_reservations := assoc_insert (hb_next s)
                    \<lparr>hp_keys = keys, hp_capacity = n, hp_peer = p, hp_slot = slot\<rparr> (hb_reservations s),
                  hb_slots := (hb_slots s)((p, slot) \<mapsto> SlotReserved (hb_next s))\<rparr>))"

text \<open>\<open>finish_reservation\<close>: per key, release the capacity and record what was sent.\<close>

definition finish_key :: "nat \<Rightarrow> nat \<Rightarrow> instant \<Rightarrow> heartbeat_key \<Rightarrow> heartbeat_state \<Rightarrow> heartbeat_state" where
  "finish_key capacity sent now k s =
     (let remaining = held (hb_reserved s) k - capacity in
      s\<lparr>hb_reserved := (hb_reserved s)(k := if remaining = 0 then None else Some remaining),
        hb_committed := (push_window k now ^^ sent) (hb_committed s)\<rparr>)"

definition finish_slot :: "u64 \<Rightarrow> nat \<Rightarrow> string \<times> u64 \<Rightarrow> heartbeat_state \<Rightarrow> heartbeat_state" where
  "finish_slot i sent key s =
     (if sent = 0
      then (if hb_slots s key = Some (SlotReserved i) then s\<lparr>hb_slots := (hb_slots s)(key := None)\<rparr> else s)
      else s\<lparr>hb_slots := (hb_slots s)(key \<mapsto> SlotCommitted)\<rparr>)"

definition finish_reservation :: "u64 \<Rightarrow> nat \<Rightarrow> instant \<Rightarrow> heartbeat_state \<Rightarrow> heartbeat_state" where
  "finish_reservation i actual now s =
     (case map_of (hb_reservations s) i of
        None \<Rightarrow> s
      | Some r \<Rightarrow>
          let sent = min actual (hp_capacity r);
              s1 = s\<lparr>hb_reservations := filter (\<lambda>(j, _). j \<noteq> i) (hb_reservations s)\<rparr>
          in finish_slot i sent (hp_peer r, hp_slot r)
               (fold (finish_key (hp_capacity r) sent now) (hp_keys r) s1))"

section \<open>Runs\<close>

text \<open>A reservation that is dropped finishes with no packet sent.\<close>

datatype heartbeat_op =
    HbNext string u64 "socket_addr list" "socket_addr list" "socket_addr list" nat instant
  | HbReserve string ip_addr nat instant
  | HbFinish u64 nat instant

fun heartbeat_step :: "heartbeat_state \<Rightarrow> heartbeat_op \<Rightarrow> heartbeat_state" where
  "heartbeat_step s (HbNext p g pri pred fall n now) = snd (next_target p g pri pred fall n s)"
| "heartbeat_step s (HbReserve p ip n now) = snd (heartbeat_reserve p ip n now s)"
| "heartbeat_step s (HbFinish i n now) = finish_reservation i n now s"

fun heartbeat_now :: "heartbeat_op \<Rightarrow> instant" where
  "heartbeat_now (HbNext p g pri pred fall n now) = now"
| "heartbeat_now (HbReserve p ip n now) = now"
| "heartbeat_now (HbFinish i n now) = now"

end
