(* ===== verification/Heartbeat_Props.thy ===== *)
theory Heartbeat_Props
  imports Heartbeat Probe_Budget_Props
begin

text \<open>
  The heartbeat budget: capacity held plus packets sent stays below every cap, so no minute sees
  more packets than the caps.
\<close>

section \<open>Capacity\<close>

definition reserved_sum :: "heartbeat_state \<Rightarrow> heartbeat_key \<Rightarrow> nat" where
  "reserved_sum s k =
     sum_list (map (\<lambda>(i, r). if k \<in> set (hp_keys r) then hp_capacity r else 0) (hb_reservations s))"

definition heartbeat_inv :: "heartbeat_state \<Rightarrow> bool" where
  "heartbeat_inv s \<longleftrightarrow> distinct (map fst (hb_reservations s))
     \<and> (\<forall>(i, r) \<in> set (hb_reservations s). i < hb_next s \<and> distinct (hp_keys r))
     \<and> (\<forall>k. held (hb_reserved s) k = reserved_sum s k
          \<and> window_len (hb_committed s) k + held (hb_reserved s) k \<le> heartbeat_cap k)"

lemma heartbeat_invI:
  "distinct (map fst (hb_reservations s)) \<Longrightarrow> (\<And>i r. (i, r) \<in> set (hb_reservations s) \<Longrightarrow> i < hb_next s)
     \<Longrightarrow> (\<And>i r. (i, r) \<in> set (hb_reservations s) \<Longrightarrow> distinct (hp_keys r))
     \<Longrightarrow> (\<And>k. held (hb_reserved s) k = reserved_sum s k)
     \<Longrightarrow> (\<And>k. window_len (hb_committed s) k + held (hb_reserved s) k \<le> heartbeat_cap k)
     \<Longrightarrow> heartbeat_inv s"
  unfolding heartbeat_inv_def by blast

lemma heartbeat_invD:
  assumes "heartbeat_inv s"
  shows "distinct (map fst (hb_reservations s))"
    and "(i, r) \<in> set (hb_reservations s) \<Longrightarrow> i < hb_next s"
    and "(i, r) \<in> set (hb_reservations s) \<Longrightarrow> distinct (hp_keys r)"
    and "held (hb_reserved s) k = reserved_sum s k"
    and "window_len (hb_committed s) k + held (hb_reserved s) k \<le> heartbeat_cap k"
  using assms unfolding heartbeat_inv_def by blast+

lemma heartbeat_inv_new: "heartbeat_inv (heartbeat_new t)"
  by (simp add: heartbeat_inv_def heartbeat_new_def reserved_sum_def held_def window_len_window)

lemma next_target_keeps:
  "hb_committed (snd (next_target p g pri pred fall n s)) = hb_committed s"
  "hb_reserved (snd (next_target p g pri pred fall n s)) = hb_reserved s"
  "hb_reservations (snd (next_target p g pri pred fall n s)) = hb_reservations s"
  "hb_slots (snd (next_target p g pri pred fall n s)) = hb_slots s"
  "hb_next (snd (next_target p g pri pred fall n s)) = hb_next s"
  "hb_epoch (snd (next_target p g pri pred fall n s)) = hb_epoch s"
  by (simp_all add: next_target_def Let_def split: prod.splits)

lemma upkeep_fields [simp]:
  "hb_reserved (heartbeat_upkeep p now s) = hb_reserved s"
  "hb_reservations (heartbeat_upkeep p now s) = hb_reservations s"
  "hb_next (heartbeat_upkeep p now s) = hb_next s"
  "hb_epoch (heartbeat_upkeep p now s) = hb_epoch s"
  by (simp_all add: heartbeat_upkeep_def Let_def)

lemma window_upkeep:
  "window (hb_committed (heartbeat_upkeep p now s)) k
     = prune RELAY_BACKOFF_HEARTBEAT_BUDGET_WINDOW now (window (hb_committed s) k)"
  by (simp add: heartbeat_upkeep_def Let_def window_retain)

lemma held_update: "held (m(k \<mapsto> v)) k' = (if k' = k then v else held m k')"
  by (simp add: held_def)

lemma held_reserve:
  "held (fold (\<lambda>k m. m(k \<mapsto> held m k + n)) [HbNetwork, HbPeer p, HbRemoteIp ip] m) k
     = held m k + (if k \<in> {HbNetwork, HbPeer p, HbRemoteIp ip} then n else 0)"
  by (auto simp: held_update)

text \<open>A successful reservation, and the state otherwise.\<close>

lemma heartbeat_reserve_cases:
  obtains (refused) "snd (heartbeat_reserve p ip n now s) = s"
        "\<And>i. fst (heartbeat_reserve p ip n now s) \<noteq> HbReserved i"
    | (upkept) "snd (heartbeat_reserve p ip n now s) = heartbeat_upkeep p now s"
        "\<And>i. fst (heartbeat_reserve p ip n now s) \<noteq> HbReserved i"
    | (reserved) "fst (heartbeat_reserve p ip n now s) = HbReserved (hb_next s)"
        "hb_next s \<noteq> - 1" "0 < n"
        "hb_slots (heartbeat_upkeep p now s) (p, service_slot_at (hb_epoch s) now) = None"
        "roster_selects (sort (map fst (hb_active (heartbeat_upkeep p now s)))) (service_slot_at (hb_epoch s) now) p"
        "\<And>k. k \<in> {HbNetwork, HbPeer p, HbRemoteIp ip} \<Longrightarrow> \<not> over_cap (heartbeat_upkeep p now s) n k"
        "snd (heartbeat_reserve p ip n now s) = (heartbeat_upkeep p now s)
           \<lparr>hb_next := hb_next s + 1,
            hb_reserved := fold (\<lambda>k m. m(k \<mapsto> held m k + n)) [HbNetwork, HbPeer p, HbRemoteIp ip] (hb_reserved s),
            hb_reservations := assoc_insert (hb_next s)
              \<lparr>hp_keys = [HbNetwork, HbPeer p, HbRemoteIp ip], hp_capacity = n, hp_peer = p,
               hp_slot = service_slot_at (hb_epoch s) now\<rparr> (hb_reservations s),
            hb_slots := (hb_slots (heartbeat_upkeep p now s))
              ((p, service_slot_at (hb_epoch s) now) \<mapsto> SlotReserved (hb_next s))\<rparr>"
proof -
  let ?s = "heartbeat_upkeep p now s" and ?slot = "service_slot_at (hb_epoch s) now"
  let ?keys = "[HbNetwork, HbPeer p, HbRemoteIp ip]"
  consider (zero) "n = 0"
    | (slot) "0 < n" "hb_slots ?s (p, ?slot) \<noteq> None"
    | (roster) "0 < n" "hb_slots ?s (p, ?slot) = None" "\<not> roster_selects (sort (map fst (hb_active ?s))) ?slot p"
    | (cap) "0 < n" "hb_slots ?s (p, ?slot) = None" "roster_selects (sort (map fst (hb_active ?s))) ?slot p"
        "list_ex (over_cap ?s n) ?keys"
    | (id) "0 < n" "hb_slots ?s (p, ?slot) = None" "roster_selects (sort (map fst (hb_active ?s))) ?slot p"
        "\<not> list_ex (over_cap ?s n) ?keys" "hb_next s = - 1"
    | (ok) "0 < n" "hb_slots ?s (p, ?slot) = None" "roster_selects (sort (map fst (hb_active ?s))) ?slot p"
        "\<not> list_ex (over_cap ?s n) ?keys" "hb_next s \<noteq> - 1"
    by blast
  then show ?thesis
  proof cases
    case zero
    then show ?thesis by (intro refused) (simp_all add: heartbeat_reserve_def)
  next
    case ok
    show ?thesis
      by (rule reserved) (use ok in \<open>auto simp: heartbeat_reserve_def Let_def list_ex_iff\<close>)
  next
    case slot
    then show ?thesis by (intro upkept) (simp_all add: heartbeat_reserve_def Let_def)
  next
    case roster
    then show ?thesis by (intro upkept) (simp_all add: heartbeat_reserve_def Let_def)
  next
    case cap
    then show ?thesis by (intro upkept) (simp_all add: heartbeat_reserve_def Let_def)
  next
    case id
    then show ?thesis by (intro upkept) (simp_all add: heartbeat_reserve_def Let_def)
  qed
qed

text \<open>What finishing a reservation does to one key.\<close>

lemma window_push_times: "window ((push_window k now ^^ n) m) k' = window m k' @ (if k' = k then replicate n now else [])"
proof (induction n)
  case 0
  then show ?case by simp
next
  case (Suc n)
  then show ?case by (cases "k' = k") (simp_all add: window_push replicate_append_same)
qed

lemma finish_key_fields [simp]:
  "hb_reservations (finish_key c n now k s) = hb_reservations s"
  "hb_slots (finish_key c n now k s) = hb_slots s"
  "hb_next (finish_key c n now k s) = hb_next s"
  "hb_epoch (finish_key c n now k s) = hb_epoch s"
  by (simp_all add: finish_key_def Let_def)

lemma finish_keys_fields [simp]:
  "hb_reservations (fold (finish_key c n now) ks s) = hb_reservations s"
  "hb_slots (fold (finish_key c n now) ks s) = hb_slots s"
  "hb_next (fold (finish_key c n now) ks s) = hb_next s"
  "hb_epoch (fold (finish_key c n now) ks s) = hb_epoch s"
  by (induction ks arbitrary: s) simp_all

lemma finish_key_at:
  "held (hb_reserved (finish_key c n now k s)) k' = held (hb_reserved s) k' - (if k' = k then c else 0)"
  "window (hb_committed (finish_key c n now k s)) k'
     = window (hb_committed s) k' @ (if k' = k then replicate n now else [])"
  by (simp_all add: finish_key_def Let_def held_def window_push_times)

lemma finish_keys_at:
  "distinct ks \<Longrightarrow> held (hb_reserved (fold (finish_key c n now) ks s)) k
     = held (hb_reserved s) k - (if k \<in> set ks then c else 0)"
  "distinct ks \<Longrightarrow> window (hb_committed (fold (finish_key c n now) ks s)) k
     = window (hb_committed s) k @ (if k \<in> set ks then replicate n now else [])"
  by (induction ks arbitrary: s) (simp_all add: finish_key_at)

lemma finish_slot_fields [simp]:
  "hb_reservations (finish_slot i n key s) = hb_reservations s"
  "hb_reserved (finish_slot i n key s) = hb_reserved s"
  "hb_committed (finish_slot i n key s) = hb_committed s"
  "hb_next (finish_slot i n key s) = hb_next s"
  "hb_epoch (finish_slot i n key s) = hb_epoch s"
  by (simp_all add: finish_slot_def)

lemma finish_reservation_Some:
  assumes "map_of (hb_reservations s) i = Some r" and "distinct (hp_keys r)"
  shows "hb_reservations (finish_reservation i n now s) = filter (\<lambda>(j, _). j \<noteq> i) (hb_reservations s)"
    and "hb_next (finish_reservation i n now s) = hb_next s"
    and "held (hb_reserved (finish_reservation i n now s)) k
       = held (hb_reserved s) k - (if k \<in> set (hp_keys r) then hp_capacity r else 0)"
    and "window (hb_committed (finish_reservation i n now s)) k
       = window (hb_committed s) k @ (if k \<in> set (hp_keys r) then replicate (min n (hp_capacity r)) now else [])"
    and "hb_epoch (finish_reservation i n now s) = hb_epoch s"
  using assms by (simp_all add: finish_reservation_def Let_def finish_keys_at)

lemma reserved_sum_remove:
  assumes "distinct (map fst xs)" and "map_of xs i = Some r"
  shows "sum_list (map (\<lambda>(i, r). if k \<in> set (hp_keys r) then hp_capacity r else 0) (filter (\<lambda>(j, _). j \<noteq> i) xs))
      + (if k \<in> set (hp_keys r) then hp_capacity r else 0)
    = sum_list (map (\<lambda>(i, r). if k \<in> set (hp_keys r) then hp_capacity r else 0) xs)"
  using assms
proof (induction xs)
  case Nil
  then show ?case by simp
next
  case (Cons x xs)
  obtain j q where x: "x = (j, q)" by (cases x)
  show ?case
  proof (cases "j = i")
    case True
    then have "\<forall>y \<in> set xs. fst y \<noteq> i" using Cons.prems(1) x by auto
    then have "filter (\<lambda>(j, _). j \<noteq> i) xs = xs" by (auto simp: filter_id_conv)
    with True Cons.prems(2) x show ?thesis by simp
  next
    case False
    with Cons x show ?thesis by simp
  qed
qed

lemma assoc_insert_new: "\<forall>x \<in> set xs. fst x \<noteq> k \<Longrightarrow> assoc_insert k v xs = (k, v) # xs"
  by (auto simp: assoc_insert_def filter_id_conv)

lemma heartbeat_inv_next:
  assumes "heartbeat_inv s"
  shows "heartbeat_inv (snd (next_target p g pri pred fall n s))"
  by (rule heartbeat_invI)
    (use heartbeat_invD [OF assms] in \<open>simp_all only: next_target_keeps reserved_sum_def\<close>)

lemma heartbeat_inv_upkeep:
  assumes "heartbeat_inv s"
  shows "heartbeat_inv (heartbeat_upkeep p now s)"
proof (rule heartbeat_invI)
  fix k
  have "window_len (hb_committed (heartbeat_upkeep p now s)) k \<le> window_len (hb_committed s) k"
    by (simp add: window_len_window window_upkeep length_prune)
  with heartbeat_invD(5) [OF assms, of k]
  show "window_len (hb_committed (heartbeat_upkeep p now s)) k + held (hb_reserved (heartbeat_upkeep p now s)) k
      \<le> heartbeat_cap k" unfolding upkeep_fields by linarith
qed (use heartbeat_invD [OF assms] in \<open>simp_all only: upkeep_fields reserved_sum_def\<close>)

lemma heartbeat_inv_reserve:
  assumes "heartbeat_inv s"
  shows "heartbeat_inv (snd (heartbeat_reserve p ip n now s))"
proof (cases rule: heartbeat_reserve_cases [of p ip n now s])
  case refused
  then show ?thesis using assms by simp
next
  case upkept
  then show ?thesis using heartbeat_inv_upkeep [OF assms] by simp
next
  case reserved
  let ?u = "heartbeat_upkeep p now s" and ?s = "snd (heartbeat_reserve p ip n now s)"
  let ?keys = "{HbNetwork, HbPeer p, HbRemoteIp ip}"
  have inv: "heartbeat_inv ?u" by (rule heartbeat_inv_upkeep [OF assms])
  have new: "\<forall>x \<in> set (hb_reservations s). fst x \<noteq> hb_next s"
    using heartbeat_invD(2) [OF assms] by fastforce
  have res: "hb_reservations ?s = (hb_next s, \<lparr>hp_keys = [HbNetwork, HbPeer p, HbRemoteIp ip],
      hp_capacity = n, hp_peer = p, hp_slot = service_slot_at (hb_epoch s) now\<rparr>) # hb_reservations s"
    by (simp add: reserved(7) assoc_insert_new [OF new])
  have nxt: "hb_next ?s = hb_next s + 1" and com: "hb_committed ?s = hb_committed ?u"
    by (simp_all add: reserved(7))
  have h: "held (hb_reserved ?s) k = held (hb_reserved s) k + (if k \<in> ?keys then n else 0)" for k
    unfolding reserved(7) by (simp add: held_reserve del: fold.simps)
  have lt: "hb_next s < hb_next s + 1" by (rule word_less_succ [OF reserved(2)])
  show ?thesis
  proof (rule heartbeat_invI)
    show "distinct (map fst (hb_reservations ?s))"
      using heartbeat_invD(1) [OF assms] new unfolding res by auto
  next
    fix i r assume "(i, r) \<in> set (hb_reservations ?s)"
    then show "i < hb_next ?s" "distinct (hp_keys r)"
      using heartbeat_invD(2,3) [OF assms] lt unfolding res nxt by (auto intro: less_trans)
  next
    fix k show "held (hb_reserved ?s) k = reserved_sum ?s k"
      using heartbeat_invD(4) [OF assms, of k] unfolding h by (simp add: reserved_sum_def res)
  next
    fix k show "window_len (hb_committed ?s) k + held (hb_reserved ?s) k \<le> heartbeat_cap k"
    proof (cases "k \<in> ?keys")
      case True
      then have "\<not> over_cap ?u n k" by (rule reserved(6))
      then show ?thesis using True unfolding h com by (simp add: over_cap_def not_less)
    next
      case False
      then show ?thesis using heartbeat_invD(5) [OF inv, of k] unfolding h com by simp
    qed
  qed
qed

lemma heartbeat_inv_finish:
  assumes "heartbeat_inv s"
  shows "heartbeat_inv (finish_reservation i n now s)"
proof (cases "map_of (hb_reservations s) i")
  case None
  then show ?thesis using assms by (simp add: finish_reservation_def)
next
  case (Some r)
  let ?s = "finish_reservation i n now s"
  have d: "distinct (hp_keys r)" by (rule heartbeat_invD(3) [OF assms map_of_SomeD [OF Some]])
  note f = finish_reservation_Some [OF Some d]
  have sum: "reserved_sum ?s k + (if k \<in> set (hp_keys r) then hp_capacity r else 0) = reserved_sum s k" for k
    using reserved_sum_remove [OF heartbeat_invD(1) [OF assms] Some, of k] by (simp add: reserved_sum_def f(1))
  have new: "held (hb_reserved ?s) k = reserved_sum ?s k" for k
    using sum [of k] heartbeat_invD(4) [OF assms, of k] by (simp add: f(3))
  show ?thesis
  proof (rule heartbeat_invI)
    show "distinct (map fst (hb_reservations ?s))"
      using heartbeat_invD(1) [OF assms] by (simp add: f(1) distinct_map_filter)
  next
    fix j q assume "(j, q) \<in> set (hb_reservations ?s)"
    then have "(j, q) \<in> set (hb_reservations s)" by (simp add: f(1))
    then show "j < hb_next ?s" "distinct (hp_keys q)"
      using heartbeat_invD(2,3) [OF assms] by (simp_all add: f(2))
  next
    fix k show "held (hb_reserved ?s) k = reserved_sum ?s k" by (rule new)
  next
    fix k
    have "held (hb_reserved s) k = reserved_sum s k" by (rule heartbeat_invD(4) [OF assms])
    with sum [of k] heartbeat_invD(5) [OF assms, of k] new [of k]
    show "window_len (hb_committed ?s) k + held (hb_reserved ?s) k \<le> heartbeat_cap k"
      by (simp add: window_len_window f(4) split: if_splits)
  qed
qed

lemma heartbeat_inv_step: "heartbeat_inv s \<Longrightarrow> heartbeat_inv (heartbeat_step s e)"
  by (cases e) (simp_all add: heartbeat_inv_next heartbeat_inv_reserve heartbeat_inv_finish)

section \<open>Rate\<close>

text \<open>The packets an operation records under a key.\<close>

fun heartbeat_charges :: "heartbeat_state \<Rightarrow> heartbeat_op \<Rightarrow> heartbeat_key \<Rightarrow> instant list" where
  "heartbeat_charges s (HbFinish i n now) k =
     (case map_of (hb_reservations s) i of
        None \<Rightarrow> []
      | Some r \<Rightarrow> if k \<in> set (hp_keys r) then replicate (min n (hp_capacity r)) now else [])"
| "heartbeat_charges s _ k = []"

lemma heartbeat_step_window:
  assumes "heartbeat_inv s"
  shows "\<exists>old. window (hb_committed s) k @ heartbeat_charges s e k
      = old @ window (hb_committed (heartbeat_step s e)) k
    \<and> (\<forall>t \<in> set old. RELAY_BACKOFF_HEARTBEAT_BUDGET_WINDOW \<le> heartbeat_now e - t)"
proof (cases e)
  case (HbNext p g pri pred fall n now)
  then show ?thesis by (simp add: next_target_keeps)
next
  case (HbReserve p ip n now)
  show ?thesis
  proof (cases rule: heartbeat_reserve_cases [of p ip n now s])
    case refused
    then show ?thesis by (simp add: HbReserve)
  next
    case upkept
    then show ?thesis using prune_split [of "window (hb_committed s) k"]
      by (simp add: HbReserve window_upkeep)
  next
    case reserved
    then show ?thesis using prune_split [of "window (hb_committed s) k"]
      by (simp add: HbReserve window_upkeep)
  qed
next
  case (HbFinish i n now)
  show ?thesis
  proof (cases "map_of (hb_reservations s) i")
    case None
    then show ?thesis by (simp add: HbFinish finish_reservation_def)
  next
    case (Some r)
    have "distinct (hp_keys r)" using assms map_of_SomeD [OF Some] by (auto simp: heartbeat_inv_def)
    from finish_reservation_Some(4) [OF Some this] show ?thesis by (simp add: HbFinish Some)
  qed
qed

interpretation heartbeat_rate: rate_limiter heartbeat_step heartbeat_inv "\<lambda>s. window (hb_committed s)"
  heartbeat_charges heartbeat_now heartbeat_now "\<lambda>_. RELAY_BACKOFF_HEARTBEAT_BUDGET_WINDOW" heartbeat_cap
proof
  show "heartbeat_inv (heartbeat_step s e)" if "heartbeat_inv s" for s e
    using that by (rule heartbeat_inv_step)
next
  fix s e k assume "heartbeat_inv s"
  then show "\<exists>old. window (hb_committed s) k @ heartbeat_charges s e k
      = old @ window (hb_committed (heartbeat_step s e)) k
    \<and> (\<forall>t \<in> set old. RELAY_BACKOFF_HEARTBEAT_BUDGET_WINDOW \<le> heartbeat_now e - t)"
    by (rule heartbeat_step_window)
next
  fix s e t k assume "t \<in> set (heartbeat_charges s e k)"
  then show "heartbeat_now e \<le> t \<and> t \<le> heartbeat_now e"
    by (cases e) (auto split: option.splits if_splits)
next
  fix s e k assume "heartbeat_inv s"
  then have "heartbeat_inv (heartbeat_step s e)" by (rule heartbeat_inv_step)
  then have "window_len (hb_committed (heartbeat_step s e)) k + held (hb_reserved (heartbeat_step s e)) k
      \<le> heartbeat_cap k"
    by (rule heartbeat_invD(5))
  then show "length (window (hb_committed (heartbeat_step s e)) k) \<le> heartbeat_cap k"
    by (simp add: window_len_window)
qed

text \<open>
  C31: For operations in clock order: reservations are held and released around the sends, and
  still no interval of sixty seconds contains more heartbeat packets than 240 in all, 24 to a
  peer and 120 to an address.
\<close>
theorem heartbeat_rate_bounded:
  assumes "clocked heartbeat_now heartbeat_now t0 ops"
  shows "in_window a (from_secs 60) (charged_log heartbeat_step heartbeat_charges (heartbeat_new t) ops k)
    \<le> heartbeat_cap k"
  using heartbeat_rate.window_rate [OF heartbeat_inv_new _ assms, of t k a]
  by (simp add: heartbeat_new_def RELAY_BACKOFF_HEARTBEAT_BUDGET_WINDOW_def)

end
