(* ===== verification/Heartbeat_Service.thy ===== *)
theory Heartbeat_Service
  imports Heartbeat_Props
begin

text \<open>
  Service of the heartbeat budget: the roster reaches every peer, a peer is sent at most one
  heartbeat per service slot, and the cursor sweeps all predicted endpoints.
\<close>

section \<open>Fairness of the roster\<close>

lemma mod_hits:
  assumes "i < (n :: nat)"
  shows "\<exists>j < n. (s + j) mod n = i"
proof (cases "s mod n \<le> i")
  case True
  have "(s + (i - s mod n)) mod n = (s mod n + (i - s mod n)) mod n" by (simp add: mod_add_left_eq)
  with True assms show ?thesis by (intro exI [of _ "i - s mod n"]) auto
next
  case False
  have "s mod n < n" using assms by simp
  have "(s + (n + i - s mod n)) mod n = (s mod n + (n + i - s mod n)) mod n" by (simp add: mod_add_left_eq)
  also have "\<dots> = i" using False assms \<open>s mod n < n\<close> by simp
  finally show ?thesis using False assms by (intro exI [of _ "n + i - s mod n"]) auto
qed

lemma roster_first:
  "p = peers ! (unat slot mod length peers) \<Longrightarrow> peers \<noteq> [] \<Longrightarrow> roster_selects peers slot p"
  by (auto simp: roster_selects_def Let_def list_ex_iff RELAY_BACKOFF_HEARTBEAT_PEERS_PER_SERVICE_SLOT_def
      intro!: bexI [of _ 0])

lemma add_left_cancel_mod_small:
  fixes a x y n :: nat
  assumes "(a + x) mod n = (a + y) mod n" and "x < n" and "y < n"
  shows "x = y"
proof -
  from assms(1) have "int ((a + x) mod n) = int ((a + y) mod n)" by simp
  then have "(int a + int x) mod int n = (int a + int y) mod int n" by (simp add: zmod_int)
  then have "int n dvd (int a + int x) - (int a + int y)" by (simp add: mod_eq_dvd_iff)
  then have "int n dvd int x - int y" by simp
  then have "int x mod int n = int y mod int n" by (simp add: mod_eq_dvd_iff)
  then show "x = y" using assms(2,3) by simp
qed

text \<open>
  While the roster is unchanged every peer on it is selected within as many service slots as
  there are peers, and a roster of more than twelve peers selects exactly twelve in each slot.
\<close>
theorem heartbeat_roster_fair:
  assumes "p \<in> set peers" and "distinct peers" and "unat slot + length peers < 2 ^ 64"
  shows "(\<exists>j < length peers. roster_selects peers (slot + of_nat j) p)
    \<and> (12 < length peers \<longrightarrow> card {q \<in> set peers. roster_selects peers slot q} = 12)"
proof
  from assms(1) obtain i where i: "i < length peers" "peers ! i = p" by (auto simp: in_set_conv_nth)
  from mod_hits [OF i(1), of "unat slot"] obtain j where
    j: "j < length peers" "(unat slot + j) mod length peers = i" by auto
  have "unat (slot + of_nat j) = unat slot + j"
  proof -
    have "unat (of_nat j :: u64) = j" using j(1) assms(3) by (simp add: unat_of_nat)
    then show ?thesis using j(1) assms(3) by (simp add: unat_word_ariths)
  qed
  with i j have "roster_selects peers (slot + of_nat j) p" by (intro roster_first) auto
  with j(1) show "\<exists>j < length peers. roster_selects peers (slot + of_nat j) p" by auto
next
  show "12 < length peers \<longrightarrow> card {q \<in> set peers. roster_selects peers slot q} = 12"
  proof
    assume n: "12 < length peers"
    let ?f = "\<lambda>offset. (unat slot mod length peers + offset) mod length peers"
    have "{q \<in> set peers. roster_selects peers slot q} = (\<lambda>x. peers ! ?f x) ` {..<12}"
      using n by (auto simp: roster_selects_def Let_def list_ex_iff
          RELAY_BACKOFF_HEARTBEAT_PEERS_PER_SERVICE_SLOT_def intro!: nth_mem mod_less_divisor)
    moreover have "inj_on (\<lambda>x. peers ! ?f x) {..<12}"
    proof (rule inj_onI)
      fix x y :: nat assume xy: "x \<in> {..<12}" "y \<in> {..<12}" "peers ! ?f x = peers ! ?f y"
      have lt: "?f z < length peers" for z by (rule mod_less_divisor) (use n in auto)
      from xy(3) have "?f x = ?f y" by (simp add: nth_eq_iff_index_eq [OF assms(2) lt lt])
      then show "x = y" by (rule add_left_cancel_mod_small) (use xy(1,2) n in auto)
    qed
    ultimately show "card {q \<in> set peers. roster_selects peers slot q} = 12"
      by (simp add: card_image)
  qed
qed

section \<open>One send per peer and slot\<close>

text \<open>Whether an operation commits the slot of a peer: a reservation of it sends something.\<close>

fun commits_slot :: "heartbeat_state \<Rightarrow> heartbeat_op \<Rightarrow> string \<times> u64 \<Rightarrow> bool" where
  "commits_slot s (HbFinish i n now) key \<longleftrightarrow>
     (case map_of (hb_reservations s) i of
        None \<Rightarrow> False
      | Some r \<Rightarrow> (hp_peer r, hp_slot r) = key \<and> 0 < min n (hp_capacity r))"
| "commits_slot s _ key \<longleftrightarrow> False"

primrec slot_commits :: "heartbeat_state \<Rightarrow> heartbeat_op list \<Rightarrow> string \<times> u64 \<Rightarrow> nat" where
  "slot_commits s [] key = 0"
| "slot_commits s (e # es) key =
     (if commits_slot s e key then 1 else 0) + slot_commits (heartbeat_step s e) es key"

lemma service_slot_mono: "t \<le> t' \<Longrightarrow> service_slot_at e t \<le> service_slot_at e t'"
proof -
  let ?q = "\<lambda>t. saturating_duration_since t e div RELAY_BACKOFF_HEARTBEAT_SERVICE_SLOT"
  assume "t \<le> t'"
  then have "?q t \<le> ?q t'" by (intro div_le_mono) (simp add: saturating_duration_since_def)
  show ?thesis
  proof (cases "?q t' < 2 ^ 64")
    case True
    with \<open>?q t \<le> ?q t'\<close> show ?thesis by (simp add: service_slot_at_def Let_def word_le_nat_alt unat_of_nat)
  next
    case False
    then have "service_slot_at e t' = - 1" by (simp add: service_slot_at_def Let_def)
    then show ?thesis by simp
  qed
qed

definition slot_inv :: "instant \<Rightarrow> (string \<times> u64 \<Rightarrow> nat) \<Rightarrow> heartbeat_state \<Rightarrow> bool" where
  "slot_inv t c s \<longleftrightarrow>
     (\<forall>i r. (i, r) \<in> set (hb_reservations s) \<longrightarrow> hb_slots s (hp_peer r, hp_slot r) = Some (SlotReserved i)
        \<and> c (hp_peer r, hp_slot r) = 0 \<and> hp_slot r \<le> service_slot_at (hb_epoch s) t)
     \<and> (\<forall>p sl. c (p, sl) \<noteq> 0 \<longrightarrow> c (p, sl) = 1 \<and> sl \<le> service_slot_at (hb_epoch s) t
        \<and> (hb_slots s (p, sl) = Some SlotCommitted \<or> sl < service_slot_at (hb_epoch s) t))"

lemma slot_invD:
  assumes "slot_inv t c s"
  shows "(i, r) \<in> set (hb_reservations s) \<Longrightarrow> hb_slots s (hp_peer r, hp_slot r) = Some (SlotReserved i)"
    and "(i, r) \<in> set (hb_reservations s) \<Longrightarrow> c (hp_peer r, hp_slot r) = 0"
    and "(i, r) \<in> set (hb_reservations s) \<Longrightarrow> hp_slot r \<le> service_slot_at (hb_epoch s) t"
    and "c (p, sl) \<noteq> 0 \<Longrightarrow> c (p, sl) = 1"
    and "c (p, sl) \<noteq> 0 \<Longrightarrow> sl \<le> service_slot_at (hb_epoch s) t"
    and "c (p, sl) \<noteq> 0 \<Longrightarrow> hb_slots s (p, sl) \<noteq> Some SlotCommitted \<Longrightarrow> sl < service_slot_at (hb_epoch s) t"
  using assms unfolding slot_inv_def by blast+

lemma slot_inv_later:
  assumes "slot_inv t c s" and "t \<le> t'"
  shows "slot_inv t' c s"
proof -
  note mono = service_slot_mono [OF assms(2), of "hb_epoch s"]
  show ?thesis
    unfolding slot_inv_def
    using slot_invD [OF assms(1)] order_trans [OF _ mono] less_le_trans [OF _ mono] by metis
qed

lemma upkeep_slots:
  "hb_slots (heartbeat_upkeep p now s) (q, sl) =
     (if hb_slots s (q, sl) = Some SlotCommitted \<and> sl \<noteq> service_slot_at (hb_epoch s) now then None
      else hb_slots s (q, sl))"
  by (auto simp: heartbeat_upkeep_def Let_def split: option.splits heartbeat_slot.splits)

lemma slot_inv_upkeep:
  assumes "slot_inv now c s"
  shows "slot_inv now c (heartbeat_upkeep p now s)"
  unfolding slot_inv_def
proof (intro conjI allI impI)
  fix i r assume "(i, r) \<in> set (hb_reservations (heartbeat_upkeep p now s))"
  then show "hb_slots (heartbeat_upkeep p now s) (hp_peer r, hp_slot r) = Some (SlotReserved i)"
    "c (hp_peer r, hp_slot r) = 0" "hp_slot r \<le> service_slot_at (hb_epoch (heartbeat_upkeep p now s)) now"
    using slot_invD [OF assms] by (simp_all add: upkeep_slots)
next
  fix q sl assume "c (q, sl) \<noteq> 0"
  then show "c (q, sl) = 1" "sl \<le> service_slot_at (hb_epoch (heartbeat_upkeep p now s)) now"
    "hb_slots (heartbeat_upkeep p now s) (q, sl) = Some SlotCommitted
       \<or> sl < service_slot_at (hb_epoch (heartbeat_upkeep p now s)) now"
    using slot_invD(4-6) [OF assms, of q sl] by (auto simp: upkeep_slots)
qed

lemma slot_inv_reserve:
  assumes "slot_inv now c s" and "heartbeat_inv s"
  shows "slot_inv now c (snd (heartbeat_reserve p ip n now s))"
proof (cases rule: heartbeat_reserve_cases [of p ip n now s])
  case refused
  then show ?thesis using assms by simp
next
  case upkept
  then show ?thesis using slot_inv_upkeep [OF assms(1)] by simp
next
  case reserved
  let ?u = "heartbeat_upkeep p now s" and ?sl = "service_slot_at (hb_epoch s) now"
  note inv = slot_inv_upkeep [OF assms(1), of p]
  have new: "\<forall>x \<in> set (hb_reservations s). fst x \<noteq> hb_next s"
    using heartbeat_invD(2) [OF assms(2)] by fastforce
  have free: "c (p, ?sl) = 0"
    using slot_invD(6) [OF inv, of p ?sl] reserved(4) by fastforce
  have other: "(hp_peer r, hp_slot r) \<noteq> (p, ?sl)" if "(i, r) \<in> set (hb_reservations s)" for i r
    using slot_invD(1) [OF inv, of i r] that reserved(4) by auto
  let ?s = "snd (heartbeat_reserve p ip n now s)"
  have slots: "hb_slots ?s key = (if key = (p, ?sl) then Some (SlotReserved (hb_next s)) else hb_slots ?u key)"
    and epoch: "hb_epoch ?s = hb_epoch ?u" for key
    by (simp_all add: reserved(7))
  show ?thesis
    unfolding slot_inv_def epoch slots
  proof (intro conjI allI impI)
    fix i r assume "(i, r) \<in> set (hb_reservations ?s)"
    then consider (fresh) "i = hb_next s" "hp_peer r = p" "hp_slot r = ?sl" | (old) "(i, r) \<in> set (hb_reservations ?u)"
      by (auto simp: reserved(7) assoc_insert_new [OF new])
    then have "(if (hp_peer r, hp_slot r) = (p, ?sl) then Some (SlotReserved (hb_next s))
        else hb_slots ?u (hp_peer r, hp_slot r)) = Some (SlotReserved i)
      \<and> c (hp_peer r, hp_slot r) = 0 \<and> hp_slot r \<le> service_slot_at (hb_epoch ?u) now"
    proof cases
      case old
      have "(hp_peer r, hp_slot r) \<noteq> (p, ?sl)" using old by (intro other) simp
      then show ?thesis using slot_invD(1-3) [OF inv old] by (simp only: if_False simp_thms)
    qed (use free in simp)
    then show "(if (hp_peer r, hp_slot r) = (p, ?sl) then Some (SlotReserved (hb_next s))
        else hb_slots ?u (hp_peer r, hp_slot r)) = Some (SlotReserved i)"
      "c (hp_peer r, hp_slot r) = 0" "hp_slot r \<le> service_slot_at (hb_epoch ?u) now"
      by (simp_all only: simp_thms)
  next
    fix q sl assume q: "c (q, sl) \<noteq> 0"
    then have ne: "(q, sl) \<noteq> (p, ?sl)" using free by auto
    show "c (q, sl) = 1" "sl \<le> service_slot_at (hb_epoch ?u) now" by (rule slot_invD(4,5) [OF inv q])+
    show "(if (q, sl) = (p, ?sl) then Some (SlotReserved (hb_next s)) else hb_slots ?u (q, sl)) = Some SlotCommitted
       \<or> sl < service_slot_at (hb_epoch ?u) now"
      using ne slot_invD(6) [OF inv q] by auto
  qed
qed

lemma slot_inv_finish:
  assumes "slot_inv now c s" and "heartbeat_inv s"
  shows "slot_inv now (\<lambda>key. c key + (if commits_slot s (HbFinish i n now) key then 1 else 0))
    (finish_reservation i n now s)"
proof (cases "map_of (hb_reservations s) i")
  case None
  then show ?thesis using assms(1) by (simp add: finish_reservation_def)
next
  case (Some r)
  let ?s = "finish_reservation i n now s" and ?key = "(hp_peer r, hp_slot r)"
  let ?sent = "0 < min n (hp_capacity r)"
  note mem = map_of_SomeD [OF Some]
  note f = finish_reservation_Some [OF Some heartbeat_invD(3) [OF assms(2) mem]]
  have own: "hb_slots s ?key = Some (SlotReserved i)" by (rule slot_invD(1) [OF assms(1) mem])
  have slots: "hb_slots ?s key = (if key = ?key then (if ?sent then Some SlotCommitted else None) else hb_slots s key)" for key
    using Some own by (auto simp: finish_reservation_def finish_slot_def Let_def)
  have c: "commits_slot s (HbFinish i n now) key \<longleftrightarrow> key = ?key \<and> ?sent" for key
    using Some by auto
  have zero: "c ?key = 0" by (rule slot_invD(2) [OF assms(1) mem])
  show ?thesis
    unfolding slot_inv_def f(5) slots c
  proof (intro conjI allI impI)
    fix j q assume "(j, q) \<in> set (hb_reservations ?s)"
    then have jq: "(j, q) \<in> set (hb_reservations s)" "j \<noteq> i" by (auto simp: f(1))
    have ne: "(hp_peer q, hp_slot q) \<noteq> ?key"
      using slot_invD(1) [OF assms(1) jq(1)] own jq(2) by auto
    show "(if (hp_peer q, hp_slot q) = ?key then (if ?sent then Some SlotCommitted else None)
        else hb_slots s (hp_peer q, hp_slot q)) = Some (SlotReserved j)"
      using ne slot_invD(1) [OF assms(1) jq(1)] by simp
    show "c (hp_peer q, hp_slot q) + (if (hp_peer q, hp_slot q) = ?key \<and> ?sent then 1 else 0) = 0"
      using ne slot_invD(2) [OF assms(1) jq(1)] by auto
    show "hp_slot q \<le> service_slot_at (hb_epoch s) now" by (rule slot_invD(3) [OF assms(1) jq(1)])
  next
    fix p sl assume nz: "c (p, sl) + (if (p, sl) = ?key \<and> ?sent then 1 else 0) \<noteq> 0"
    then consider (own) "(p, sl) = ?key" "?sent" | (other) "(p, sl) \<noteq> ?key" "c (p, sl) \<noteq> 0"
      using zero by (cases "(p, sl) = ?key") (auto split: if_splits)
    then have "c (p, sl) + (if (p, sl) = ?key \<and> ?sent then 1 else 0) = 1
        \<and> sl \<le> service_slot_at (hb_epoch s) now
        \<and> ((if (p, sl) = ?key then (if ?sent then Some SlotCommitted else None) else hb_slots s (p, sl)) = Some SlotCommitted
           \<or> sl < service_slot_at (hb_epoch s) now)"
    proof cases
      case own
      then show ?thesis using zero slot_invD(3) [OF assms(1) mem] by simp
    next
      case other
      show ?thesis using other(1) slot_invD(4-6) [OF assms(1) other(2)] by (simp only: if_False simp_thms) auto
    qed
    then show "c (p, sl) + (if (p, sl) = ?key \<and> ?sent then 1 else 0) = 1"
      "sl \<le> service_slot_at (hb_epoch s) now"
      "(if (p, sl) = ?key then (if ?sent then Some SlotCommitted else None) else hb_slots s (p, sl)) = Some SlotCommitted
         \<or> sl < service_slot_at (hb_epoch s) now"
      by (simp_all only: simp_thms)
  qed
qed

lemma slot_inv_step:
  assumes "slot_inv t c s" and "heartbeat_inv s" and "t \<le> heartbeat_now e"
  shows "slot_inv (heartbeat_now e) (\<lambda>key. c key + (if commits_slot s e key then 1 else 0)) (heartbeat_step s e)"
proof -
  note inv = slot_inv_later [OF assms(1,3)]
  show ?thesis
  proof (cases e)
    case (HbNext p g pri pred fall n now)
    then show ?thesis using inv by (simp add: slot_inv_def next_target_keeps)
  next
    case (HbReserve p ip n now)
    then show ?thesis using slot_inv_reserve [of now c s] inv assms(2) by simp
  next
    case (HbFinish i n now)
    then show ?thesis using slot_inv_finish [of now c s i n] inv assms(2) by simp
  qed
qed

lemma slot_inv_run:
  "slot_inv t c s \<Longrightarrow> heartbeat_inv s \<Longrightarrow> clocked heartbeat_now heartbeat_now t es
     \<Longrightarrow> c key + slot_commits s es key \<le> 1"
proof (induction es arbitrary: t c s)
  case Nil
  then show ?case using slot_invD(4) [OF Nil(1), of "fst key" "snd key"] by fastforce
next
  case (Cons e es)
  have "slot_inv (heartbeat_now e) (\<lambda>key. c key + (if commits_slot s e key then 1 else 0)) (heartbeat_step s e)"
    using Cons.prems by (intro slot_inv_step) auto
  from Cons.IH [OF this heartbeat_inv_step [OF Cons.prems(2)]] Cons.prems(3) show ?case by simp
qed

text \<open>
  In every service slot at most one reservation of a peer sends a packet, whatever the order in
  which reservations are taken and finished.
\<close>
theorem heartbeat_one_send_per_slot:
  assumes "clocked heartbeat_now heartbeat_now t ops"
  shows "slot_commits (heartbeat_new t) ops (p, slot) \<le> 1"
proof -
  have "slot_inv t (\<lambda>_. 0) (heartbeat_new t)" by (simp add: slot_inv_def heartbeat_new_def)
  from slot_inv_run [OF this heartbeat_inv_new assms] show ?thesis by simp
qed

section \<open>The sweep of the predicted endpoints\<close>

primrec cursor_after ::
  "socket_addr list \<Rightarrow> socket_addr list \<Rightarrow> socket_addr list \<Rightarrow> nat \<Rightarrow> heartbeat_cursor \<Rightarrow> nat \<Rightarrow> heartbeat_cursor" where
  "cursor_after pri pred fall n c 0 = c"
| "cursor_after pri pred fall n c (Suc j) = snd (cursor_beat pri pred fall n (cursor_after pri pred fall n c j))"

lemma cursor_beat_predicted:
  assumes "pred \<noteq> []"
  shows "(hc_predicted (snd (cursor_beat pri pred fall n c)) = hc_predicted c
      \<and> preferred_group (hc_beat c) \<noteq> GroupPredicted)
    \<or> (hc_predicted (snd (cursor_beat pri pred fall n c)) = Suc (hc_predicted c)
      \<and> (\<exists>t. fst (cursor_beat pri pred fall n c) = Some t
            \<and> ht_endpoint t = pred ! (hc_predicted c mod length pred)))"
  using assms
  by (cases "preferred_group (hc_beat c)"; cases "pri = []"; cases "fall = []")
    (simp_all add: cursor_beat_def Let_def del: preferred_group.simps)

lemma cursor_beat_beat:
  "hc_beat (snd (cursor_beat pri pred fall n c)) = sat_add (hc_beat c) 1"
  by (cases "preferred_group (hc_beat c)"; cases "pri = []"; cases "pred = []"; cases "fall = []")
    (simp_all add: cursor_beat_def Let_def del: preferred_group.simps)

lemma cursor_after_beat:
  "unat (hc_beat c) + j < 2 ^ 64 \<Longrightarrow> unat (hc_beat (cursor_after pri pred fall n c j)) = unat (hc_beat c) + j"
  by (induction j) (simp_all add: cursor_beat_beat unat_sat_add)

abbreviation predicted_at where
  "predicted_at pri pred fall n c j \<equiv> hc_predicted (cursor_after pri pred fall n c j)"

lemma predicted_mono:
  assumes "pred \<noteq> []" and "i \<le> j"
  shows "predicted_at pri pred fall n c i \<le> predicted_at pri pred fall n c j"
  using assms(2)
proof (induction j)
  case 0
  then show ?case by simp
next
  case (Suc j)
  then show ?case
    using cursor_beat_predicted [OF assms(1), of pri fall n "cursor_after pri pred fall n c j"]
    by (auto simp: le_Suc_eq)
qed

text \<open>Of five beats in a row one at least prefers the predicted group.\<close>

lemma predicted_in_five:
  assumes "pred \<noteq> []" and "unat (hc_beat c) + (j + 5) < 2 ^ 64"
  shows "Suc (predicted_at pri pred fall n c j) \<le> predicted_at pri pred fall n c (j + 5)"
proof -
  have "\<exists>d < 5. (unat (hc_beat c) + j + d) mod 5 = 1" by (rule mod_hits) simp
  then obtain d where d: "d < 5" "(unat (hc_beat c) + j + d) mod 5 = 1" by auto
  let ?c = "cursor_after pri pred fall n c (j + d)"
  have "unat (hc_beat ?c) = unat (hc_beat c) + (j + d)"
    by (rule cursor_after_beat) (use assms(2) d(1) in simp)
  then have "unat (hc_beat ?c mod 5) = 1" using d(2) by (simp add: unat_mod add.assoc)
  then have "hc_beat ?c mod 5 = 1" by (simp only: word_unat_eq_iff unsigned_1)
  then have "preferred_group (hc_beat ?c) = GroupPredicted" by simp
  with cursor_beat_predicted [OF assms(1), of pri fall n ?c]
  have "Suc (hc_predicted ?c) = predicted_at pri pred fall n c (Suc (j + d))" by auto
  moreover have "predicted_at pri pred fall n c j \<le> hc_predicted ?c"
    by (rule predicted_mono [OF assms(1)]) simp
  moreover have "predicted_at pri pred fall n c (Suc (j + d)) \<le> predicted_at pri pred fall n c (j + 5)"
    by (rule predicted_mono [OF assms(1)]) (use d(1) in simp)
  ultimately show ?thesis by simp
qed

lemma predicted_grows:
  assumes "pred \<noteq> []"
  shows "unat (hc_beat c) + 5 * m < 2 ^ 64 \<Longrightarrow> hc_predicted c + m \<le> predicted_at pri pred fall n c (5 * m)"
proof (induction m)
  case 0
  then show ?case by simp
next
  case (Suc m)
  have "Suc (predicted_at pri pred fall n c (5 * m)) \<le> predicted_at pri pred fall n c (5 * m + 5)"
    by (rule predicted_in_five [OF assms]) (use Suc.prems in simp)
  moreover have "hc_predicted c + m \<le> predicted_at pri pred fall n c (5 * m)"
    by (rule Suc.IH) (use Suc.prems in simp)
  ultimately show ?case by (simp add: add.commute)
qed

lemma first_exceed:
  assumes "f 0 \<le> (v :: nat)" and "v < f k"
  shows "\<exists>j < k. f j \<le> v \<and> v < f (Suc j)"
  using assms
proof (induction k)
  case 0
  then show ?case by simp
next
  case (Suc k)
  then show ?case by (cases "v < f k") (auto intro: less_SucI)
qed

text \<open>
  Whatever the other groups hold, five beats per predicted endpoint are enough to send to every
  predicted endpoint.
\<close>
theorem heartbeat_sweeps_predicted:
  assumes "e \<in> set pred" and "unat (hc_beat c) + 5 * length pred < 2 ^ 64"
  shows "\<exists>j < 5 * length pred. \<exists>t. fst (cursor_beat pri pred fall n (cursor_after pri pred fall n c j)) = Some t
    \<and> ht_endpoint t = e"
proof -
  have ne: "pred \<noteq> []" using assms(1) by auto
  from assms(1) obtain i where i: "i < length pred" "pred ! i = e" by (auto simp: in_set_conv_nth)
  from mod_hits [OF i(1), of "hc_predicted c"] obtain d where
    d: "d < length pred" "(hc_predicted c + d) mod length pred = i" by auto
  have "hc_predicted c + d < predicted_at pri pred fall n c (5 * length pred)"
    using predicted_grows [OF ne assms(2), of pri fall n] d(1) by simp
  then obtain j where j: "j < 5 * length pred" "predicted_at pri pred fall n c j \<le> hc_predicted c + d"
      "hc_predicted c + d < predicted_at pri pred fall n c (Suc j)"
    using first_exceed [of "predicted_at pri pred fall n c" "hc_predicted c + d" "5 * length pred"] by auto
  from cursor_beat_predicted [OF ne, of pri fall n "cursor_after pri pred fall n c j"] j(2,3)
  have "predicted_at pri pred fall n c j = hc_predicted c + d
      \<and> (\<exists>t. fst (cursor_beat pri pred fall n (cursor_after pri pred fall n c j)) = Some t
            \<and> ht_endpoint t = pred ! (predicted_at pri pred fall n c j mod length pred))"
    by auto
  then show ?thesis using j(1) d(2) i(2) by auto
qed

end
