(* ===== verification/Admission.thy ===== *)
theory Admission
  imports Heartbeat Punch_Packet
begin

text \<open>
  The other admissions of the UDP transport (\<open>client/daemon/src/udp/admission.rs\<close>): authenticated
  punches with their rate limit and replay cache, the probes of the NAT maintainer, reverse
  checks, and the entry to the heartbeat budget. Constants come from \<open>udp/state.rs\<close>.
\<close>

section \<open>Authenticated punches\<close>

definition AUTH_PUNCH_RATE_WINDOW :: duration where
  "AUTH_PUNCH_RATE_WINDOW = from_secs 1"

definition AUTH_PUNCH_RATE_LIMIT_PER_SOURCE :: nat where
  "AUTH_PUNCH_RATE_LIMIT_PER_SOURCE = 16"

definition AUTH_PUNCH_REPLAY_WINDOW :: duration where
  "AUTH_PUNCH_REPLAY_WINDOW = from_secs 60"

definition AUTH_PUNCH_REPLAY_MAX_ENTRIES :: nat where
  "AUTH_PUNCH_REPLAY_MAX_ENTRIES = 4096"

definition AUTH_PUNCH_REPLAY_TARGET_ENTRIES :: nat where
  "AUTH_PUNCH_REPLAY_TARGET_ENTRIES = 3072"

datatype authenticated_punch_admission = PunchAccepted | PunchReplay | PunchRateLimited

fun punch_kind_code :: "punch_kind \<Rightarrow> u8" where
  "punch_kind_code Punch = 1"
| "punch_kind_code Ack = 2"

text \<open>A nonce is its bytes. The replay cache is an association list over distinct keys.\<close>

type_synonym replay_key = "string \<times> u64 \<times> bytes \<times> u8"

record punch_gate =
  pg_rate :: "(string \<times> socket_addr) windows"
  pg_replay :: "(replay_key \<times> instant) list"

text \<open>
  The replay section of \<open>admit_authenticated_punch\<close>. \<open>order\<close> is the order in which the hash map is
  iterated; \<open>sort_by_key\<close> is stable.
\<close>

definition evict_replay ::
  "((replay_key \<times> instant) list \<Rightarrow> (replay_key \<times> instant) list) \<Rightarrow> (replay_key \<times> instant) list
     \<Rightarrow> (replay_key \<times> instant) list" where
  "evict_replay order replay =
     (if length replay \<le> AUTH_PUNCH_REPLAY_MAX_ENTRIES then replay
      else let entries = sort_key snd (order replay);
               gone = map fst (take (length replay - AUTH_PUNCH_REPLAY_TARGET_ENTRIES) entries)
           in filter (\<lambda>(k, _). k \<notin> set gone) replay)"

text \<open>\<open>now\<close> is read on entry, \<open>now'\<close> when the cache is aged.\<close>

definition admit_authenticated_punch ::
  "((replay_key \<times> instant) list \<Rightarrow> (replay_key \<times> instant) list)
     \<Rightarrow> string \<Rightarrow> u64 \<Rightarrow> punch_kind \<Rightarrow> bytes \<Rightarrow> socket_addr \<Rightarrow> instant \<Rightarrow> instant
     \<Rightarrow> punch_gate \<Rightarrow> authenticated_punch_admission \<times> punch_gate" where
  "admit_authenticated_punch order p generation kind nonce source now now' g =
     (let rate = retain_windows (\<lambda>_. AUTH_PUNCH_RATE_WINDOW) now (pg_rate g);
          seen = prune AUTH_PUNCH_RATE_WINDOW now (window rate (p, source))
      in if AUTH_PUNCH_RATE_LIMIT_PER_SOURCE \<le> length seen
         then (PunchRateLimited, g\<lparr>pg_rate := rate((p, source) \<mapsto> seen)\<rparr>)
         else let g1 = g\<lparr>pg_rate := rate((p, source) \<mapsto> seen @ [now])\<rparr>;
                  replay = filter (\<lambda>(_, seen_at). saturating_duration_since now' seen_at < AUTH_PUNCH_REPLAY_WINDOW)
                    (pg_replay g);
                  key = (p, generation, nonce, punch_kind_code kind)
              in if key \<in> set (map fst replay) then (PunchReplay, g1\<lparr>pg_replay := replay\<rparr>)
                 else (PunchAccepted, g1\<lparr>pg_replay := evict_replay order ((key, now) # replay)\<rparr>))"

definition rollback_authenticated_punch_replay_admission ::
  "string \<Rightarrow> u64 \<Rightarrow> punch_kind \<Rightarrow> bytes \<Rightarrow> punch_gate \<Rightarrow> punch_gate" where
  "rollback_authenticated_punch_replay_admission p generation kind nonce g =
     g\<lparr>pg_replay := filter (\<lambda>(k, _). k \<noteq> (p, generation, nonce, punch_kind_code kind)) (pg_replay g)\<rparr>"

section \<open>The NAT maintainer\<close>

definition NAT_MAINTAINER_BUDGET_WINDOW :: duration where
  "NAT_MAINTAINER_BUDGET_WINDOW = from_secs 60"

definition NAT_MAINTAINER_BUDGET_PER_PEER_SOCKET :: nat where
  "NAT_MAINTAINER_BUDGET_PER_PEER_SOCKET = 1200"

definition admit_nat_maintainer_probe ::
  "string \<Rightarrow> nat \<Rightarrow> instant \<Rightarrow> (string \<times> nat) windows \<Rightarrow> bool \<times> (string \<times> nat) windows" where
  "admit_nat_maintainer_probe p sock now b0 =
     (let b = retain_windows (\<lambda>_. NAT_MAINTAINER_BUDGET_WINDOW) now b0;
          sent = window b (p, sock)
      in if NAT_MAINTAINER_BUDGET_PER_PEER_SOCKET \<le> length sent then (False, b)
         else (True, b((p, sock) \<mapsto> sent @ [now])))"

section \<open>Reverse checks\<close>

definition TRIGGERED_CHECK_COOLDOWN :: duration where
  "TRIGGERED_CHECK_COOLDOWN = 750000000"

record triggered_check =
  tc_latest_endpoint :: socket_addr
  tc_last_sent_at :: instant
  tc_in_flight :: bool

type_synonym triggered_checks = "string \<Rightarrow> triggered_check option"

text \<open>The record of a peer after \<open>retain\<close> and \<open>or_insert_with\<close>.\<close>

definition triggered_record :: "triggered_checks \<Rightarrow> string \<Rightarrow> socket_addr \<Rightarrow> instant \<Rightarrow> triggered_check" where
  "triggered_record checks p endpoint now =
     (case checks p of
        Some r \<Rightarrow> r
      | None \<Rightarrow> \<lparr>tc_latest_endpoint = endpoint,
          tc_last_sent_at = (if TRIGGERED_CHECK_COOLDOWN \<le> now then now - TRIGGERED_CHECK_COOLDOWN else now),
          tc_in_flight = False\<rparr>)"

definition retain_triggered :: "instant \<Rightarrow> triggered_checks \<Rightarrow> triggered_checks" where
  "retain_triggered now checks = (\<lambda>p. case checks p of
     None \<Rightarrow> None
   | Some r \<Rightarrow>
       if tc_in_flight r \<or> saturating_duration_since now (tc_last_sent_at r) < TRIGGERED_CHECK_COOLDOWN
       then Some r else None)"

definition admit_triggered_check ::
  "string \<Rightarrow> socket_addr \<Rightarrow> instant \<Rightarrow> triggered_checks \<Rightarrow> socket_addr option \<times> triggered_checks" where
  "admit_triggered_check p endpoint now checks0 =
     (let checks = retain_triggered now checks0;
          r = (triggered_record checks p endpoint now)\<lparr>tc_latest_endpoint := endpoint\<rparr>
      in if tc_in_flight r \<or> saturating_duration_since now (tc_last_sent_at r) < TRIGGERED_CHECK_COOLDOWN
         then (None, checks(p \<mapsto> r))
         else (Some (tc_latest_endpoint r), checks(p \<mapsto> r\<lparr>tc_in_flight := True\<rparr>)))"

definition complete_triggered_check :: "string \<Rightarrow> instant \<Rightarrow> triggered_checks \<Rightarrow> triggered_checks" where
  "complete_triggered_check p sent_at checks =
     (case checks p of
        None \<Rightarrow> checks
      | Some r \<Rightarrow> checks(p \<mapsto> r\<lparr>tc_in_flight := False, tc_last_sent_at := sent_at\<rparr>))"

section \<open>The entry to the heartbeat budget\<close>

text \<open>
  \<open>reserve_relay_backoff_heartbeat_probe\<close>: the local window, the process-wide one, then the
  reservation. \<open>legacy\<close> is \<open>peer_requires_legacy_probe\<close>; the clock is read in each part.
\<close>

record heartbeat_budgets =
  bb_local :: probe_budget
  bb_global :: "probe_budget option"
  bb_heartbeat :: heartbeat_state

definition reserve_relay_backoff_heartbeat_probe ::
  "string \<Rightarrow> socket_addr \<Rightarrow> bool \<Rightarrow> instant \<Rightarrow> instant \<Rightarrow> instant \<Rightarrow> heartbeat_budgets
     \<Rightarrow> reserve_result \<times> heartbeat_budgets" where
  "reserve_relay_backoff_heartbeat_probe p addr legacy now1 now2 now3 s0 =
     (let s = s0\<lparr>bb_local := retain_live_budget_entries now1 (bb_local s0)\<rparr>
      in if OUTBOUND_PROBE_BUDGET_PER_NETWORK - RELAY_BACKOFF_HEARTBEAT_FOREGROUND_RESERVE
            \<le> window_len (bb_local s) KNetwork
         then (HbRejected ForegroundYield, s)
         else let (busy, s) = (case bb_global s of
                  None \<Rightarrow> (False, s)
                | Some b \<Rightarrow> (case foreground_burst_active now2 b of
                    (busy, b') \<Rightarrow> (busy, s\<lparr>bb_global := Some b'\<rparr>)))
              in if busy then (HbRejected ForegroundYield, s)
                 else (case heartbeat_reserve p (socket_ip addr) (if legacy then 2 else 1) now3 (bb_heartbeat s) of
                   (r, h) \<Rightarrow> (r, s\<lparr>bb_heartbeat := h\<rparr>)))"

end
