(* ===== verification/Admission_Props.thy ===== *)
theory Admission_Props
  imports Admission "HOL-Library.Multiset"
begin

text \<open>
  The limits of the remaining admissions: punches per source and second, the replay cache within
  its capacity, maintainer probes per minute, and the spacing of reverse checks.
\<close>

section \<open>The punch gate over a run\<close>

datatype punch_gate_op =
    PgAdmit string u64 punch_kind bytes socket_addr instant instant
  | PgRollback string u64 punch_kind bytes instant

type_synonym replay_order = "(replay_key \<times> instant) list \<Rightarrow> (replay_key \<times> instant) list"

fun punch_gate_step :: "replay_order \<Rightarrow> punch_gate \<Rightarrow> punch_gate_op \<Rightarrow> punch_gate" where
  "punch_gate_step ord g (PgAdmit p n kind nonce src now now') =
     snd (admit_authenticated_punch ord p n kind nonce src now now' g)"
| "punch_gate_step ord g (PgRollback p n kind nonce now) =
     rollback_authenticated_punch_replay_admission p n kind nonce g"

definition punch_gate_new :: punch_gate where
  "punch_gate_new = \<lparr>pg_rate = Map.empty, pg_replay = []\<rparr>"

fun punch_key :: "punch_gate_op \<Rightarrow> replay_key" where
  "punch_key (PgAdmit p n kind nonce src now now') = (p, n, nonce, punch_kind_code kind)"
| "punch_key (PgRollback p n kind nonce now) = (p, n, nonce, punch_kind_code kind)"

section \<open>Rate per source\<close>

text \<open>The punches of a source that pass its rate limit, replayed or not.\<close>

fun punch_charges :: "replay_order \<Rightarrow> punch_gate \<Rightarrow> punch_gate_op \<Rightarrow> string \<times> socket_addr \<Rightarrow> instant list" where
  "punch_charges ord g (PgAdmit p n kind nonce src now now') k =
     (if fst (admit_authenticated_punch ord p n kind nonce src now now' g) \<noteq> PunchRateLimited \<and> k = (p, src)
      then [now] else [])"
| "punch_charges ord g (PgRollback p n kind nonce now) k = []"

fun punch_start :: "punch_gate_op \<Rightarrow> instant" where
  "punch_start (PgAdmit p n kind nonce src now now') = now"
| "punch_start (PgRollback p n kind nonce now) = now"

lemma prune_idem: "prune w now (prune w now ts) = prune w now ts"
  by (simp add: prune_def dropWhile_idem)

lemma punch_step_window:
  "\<exists>old. window (pg_rate g) k @ punch_charges ord g e k = old @ window (pg_rate (punch_gate_step ord g e)) k
     \<and> (\<forall>t \<in> set old. AUTH_PUNCH_RATE_WINDOW \<le> punch_start e - t)"
proof (cases e)
  case (PgAdmit p n kind nonce src now now')
  have w: "window (m(k \<mapsto> ts)) k' = (if k' = k then ts else window m k')" for m :: "(string \<times> socket_addr) windows" and k k' ts
    by (simp add: window_def)
  have "window (pg_rate (punch_gate_step ord g e)) k
      = prune AUTH_PUNCH_RATE_WINDOW now (window (pg_rate g) k) @ punch_charges ord g e k"
    by (simp add: PgAdmit admit_authenticated_punch_def Let_def w window_retain prune_idem)
  then show ?thesis
    using prune_split [of "window (pg_rate g) k" AUTH_PUNCH_RATE_WINDOW now] by (auto simp: PgAdmit)
next
  case (PgRollback p n kind nonce now)
  then show ?thesis by (simp add: rollback_authenticated_punch_replay_admission_def)
qed

interpretation punch_rate: rate_limiter "punch_gate_step ord" "\<lambda>_. True" "\<lambda>g. window (pg_rate g)"
  "punch_charges ord" punch_start punch_start "\<lambda>_. AUTH_PUNCH_RATE_WINDOW" "\<lambda>_. AUTH_PUNCH_RATE_LIMIT_PER_SOURCE"
  for ord
proof
  fix s e k
  from punch_step_window [of s k ord e]
  show "\<exists>old. window (pg_rate s) k @ punch_charges ord s e k = old @ window (pg_rate (punch_gate_step ord s e)) k
      \<and> (\<forall>t \<in> set old. AUTH_PUNCH_RATE_WINDOW \<le> punch_start e - t)"
    by auto
next
  fix s e t k assume "t \<in> set (punch_charges ord s e k)"
  then show "punch_start e \<le> t \<and> t \<le> punch_start e" by (cases e) (auto split: if_splits)
next
  fix s e k assume c: "punch_charges ord s e k \<noteq> []"
  then show "length (window (pg_rate (punch_gate_step ord s e)) k) \<le> AUTH_PUNCH_RATE_LIMIT_PER_SOURCE"
    by (cases e) (auto simp: admit_authenticated_punch_def Let_def window_def split: if_splits)
qed simp

text \<open>
  A source gets at most sixteen punches of a peer past the limiter in any second.
\<close>
theorem punch_rate_bounded:
  assumes "clocked punch_start punch_start t0 ops"
  shows "in_window a (from_secs 1) (charged_log (punch_gate_step ord) (punch_charges ord) punch_gate_new ops (p, src)) \<le> 16"
  using punch_rate.window_rate [OF TrueI _ assms, of punch_gate_new "(p, src)" a ord]
  by (simp add: punch_gate_new_def AUTH_PUNCH_RATE_WINDOW_def AUTH_PUNCH_RATE_LIMIT_PER_SOURCE_def)

section \<open>The replay cache\<close>

lemma distinct_filter_keys: "distinct (map fst xs) \<Longrightarrow> distinct (map fst (filter P xs))"
  by (simp add: distinct_map_filter)

lemma evict_replay_subset: "set (evict_replay ord replay) \<subseteq> set replay"
  by (auto simp: evict_replay_def Let_def)

lemma evict_replay_distinct: "distinct (map fst replay) \<Longrightarrow> distinct (map fst (evict_replay ord replay))"
  by (simp add: evict_replay_def Let_def distinct_filter_keys)

lemma sort_entries:
  assumes "mset (ord replay) = mset replay" and "distinct (map fst replay)"
  shows "distinct (map fst (sort_key snd (ord replay)))" and "set (sort_key snd (ord replay)) = set replay"
    and "length (sort_key snd (ord replay)) = length replay"
proof -
  have m: "mset (sort_key snd (ord replay)) = mset replay" using assms(1) by simp
  then have "mset (map fst (sort_key snd (ord replay))) = mset (map fst replay)" by simp
  then show "distinct (map fst (sort_key snd (ord replay)))"
    using assms(2) mset_eq_imp_distinct_iff by blast
  show "set (sort_key snd (ord replay)) = set replay" using mset_eq_setD [OF m] .
  show "length (sort_key snd (ord replay)) = length replay" using mset_eq_length [OF m] .
qed

text \<open>An entry that at most 3072 entries are as recent as survives the eviction.\<close>

lemma evict_replay_keeps:
  assumes "mset (ord replay) = mset replay" and "distinct (map fst replay)" and "(k, t) \<in> set replay"
    and "length (filter (\<lambda>(_, u). t \<le> u) replay) \<le> AUTH_PUNCH_REPLAY_TARGET_ENTRIES"
  shows "(k, t) \<in> set (evict_replay ord replay)"
proof (cases "length replay \<le> AUTH_PUNCH_REPLAY_MAX_ENTRIES")
  case True
  then show ?thesis using assms(3) by (simp add: evict_replay_def)
next
  case False
  let ?es = "sort_key snd (ord replay)" and ?n = "length replay - AUTH_PUNCH_REPLAY_TARGET_ENTRIES"
  note es = sort_entries [where ord = ord, OF assms(1,2)]
  from assms(3) es(2) obtain i where i: "i < length ?es" "?es ! i = (k, t)" by (metis in_set_conv_nth)
  have "\<forall>x \<in> set (drop i ?es). t \<le> snd x"
  proof
    fix x assume "x \<in> set (drop i ?es)"
    then obtain j where "j < length (drop i ?es)" "x = drop i ?es ! j" by (auto simp only: in_set_conv_nth)
    then have j: "i + j < length ?es" "x = ?es ! (i + j)" using i(1) by simp_all
    have "sorted (map snd ?es)" by simp
    then have "snd (?es ! i) \<le> snd (?es ! (i + j))" using j(1) i(1) by (simp add: sorted_iff_nth_mono)
    then show "t \<le> snd x" using i(2) j(2) by simp
  qed
  then have keep: "filter (\<lambda>(_, u). t \<le> u) (drop i ?es) = drop i ?es" by (auto simp: filter_id_conv)
  have "filter (\<lambda>(_, u). t \<le> u) ?es = filter (\<lambda>(_, u). t \<le> u) (take i ?es @ drop i ?es)"
    by (simp only: append_take_drop_id)
  then have "filter (\<lambda>(_, u). t \<le> u) ?es = filter (\<lambda>(_, u). t \<le> u) (take i ?es) @ drop i ?es"
    by (simp only: filter_append keep)
  then have "length ?es - i \<le> length (filter (\<lambda>(_, u). t \<le> u) ?es)" by simp
  also have "\<dots> = size (filter_mset (\<lambda>(_, u). t \<le> u) (mset ?es))" by (simp only: size_mset flip: mset_filter)
  also have "\<dots> = length (filter (\<lambda>(_, u). t \<le> u) replay)"
    using assms(1) by (simp only: mset_sort size_mset mset_filter [symmetric])
  finally have "?n \<le> i" using assms(4) es(3) by simp
  then have "k \<notin> set (map fst (take ?n ?es))"
  proof -
    have "map fst ?es ! i \<notin> set (take ?n (map fst ?es))"
    proof
      assume "map fst ?es ! i \<in> set (take ?n (map fst ?es))"
      then obtain j where j: "j < ?n" "j < length ?es" "map fst ?es ! j = map fst ?es ! i"
        by (auto simp: in_set_conv_nth)
      then have "j = i" using es(1) i(1) nth_eq_iff_index_eq [OF es(1), of j i] by simp
      with j(1) \<open>?n \<le> i\<close> show False by simp
    qed
    then show ?thesis using i by (simp add: take_map)
  qed
  then show ?thesis using assms(3) False by (auto simp: evict_replay_def Let_def)
qed

abbreviation aged :: "instant \<Rightarrow> punch_gate \<Rightarrow> (replay_key \<times> instant) list" where
  "aged now' g \<equiv> filter (\<lambda>(_, seen_at). saturating_duration_since now' seen_at < AUTH_PUNCH_REPLAY_WINDOW) (pg_replay g)"

lemma admit_punch_replay:
  obtains (limited) "fst (admit_authenticated_punch ord p n kind nonce src now now' g) = PunchRateLimited"
        "pg_replay (snd (admit_authenticated_punch ord p n kind nonce src now now' g)) = pg_replay g"
    | (replay) "fst (admit_authenticated_punch ord p n kind nonce src now now' g) = PunchReplay"
        "(p, n, nonce, punch_kind_code kind) \<in> set (map fst (aged now' g))"
        "pg_replay (snd (admit_authenticated_punch ord p n kind nonce src now now' g)) = aged now' g"
    | (accepted) "fst (admit_authenticated_punch ord p n kind nonce src now now' g) = PunchAccepted"
        "(p, n, nonce, punch_kind_code kind) \<notin> set (map fst (aged now' g))"
        "pg_replay (snd (admit_authenticated_punch ord p n kind nonce src now now' g)) = evict_replay ord (((p, n, nonce, punch_kind_code kind), now) # aged now' g)"
proof -
  let ?seen = "prune AUTH_PUNCH_RATE_WINDOW now
    (window (retain_windows (\<lambda>_. AUTH_PUNCH_RATE_WINDOW) now (pg_rate g)) (p, src))"
  show ?thesis
  proof (cases "AUTH_PUNCH_RATE_LIMIT_PER_SOURCE \<le> length ?seen")
    case True
    show ?thesis by (rule limited) (simp_all add: True admit_authenticated_punch_def Let_def)
  next
    case False
    show ?thesis
    proof (cases "(p, n, nonce, punch_kind_code kind) \<in> set (map fst (aged now' g))")
      case True
      show ?thesis
        by (rule replay) (use True False in \<open>simp_all add: admit_authenticated_punch_def Let_def\<close>)
    next
      case new: False
      show ?thesis
        by (rule accepted) (use new False in \<open>simp_all add: admit_authenticated_punch_def Let_def\<close>)
    qed
  qed
qed

definition replay_guarded :: "nat \<Rightarrow> replay_key \<Rightarrow> instant \<Rightarrow> punch_gate \<Rightarrow> bool" where
  "replay_guarded c key t g \<longleftrightarrow> distinct (map fst (pg_replay g)) \<and> (key, t) \<in> set (pg_replay g)
     \<and> length (filter (\<lambda>(_, u). t \<le> u) (pg_replay g)) \<le> c"

lemma evict_replay_recent:
  "length (filter P (evict_replay ord replay)) \<le> length (filter P replay)"
proof -
  have "length (filter P (filter Q replay)) \<le> length (filter P replay)" for Q
    by (induction replay) auto
  then show ?thesis by (simp add: evict_replay_def Let_def)
qed

lemma length_filter_filter: "length (filter P (filter Q xs)) \<le> length (filter P xs)"
  by (induction xs) auto

text \<open>The operations that leave an entry in the cache: they come within its window.\<close>

fun keeps_entry :: "replay_key \<Rightarrow> instant \<Rightarrow> punch_gate_op \<Rightarrow> bool" where
  "keeps_entry key t (PgAdmit p n kind nonce src now now') \<longleftrightarrow> now' < t + AUTH_PUNCH_REPLAY_WINDOW"
| "keeps_entry key t (PgRollback p n kind nonce now) \<longleftrightarrow> key \<noteq> (p, n, nonce, punch_kind_code kind)"

lemma aged_replay:
  assumes "replay_guarded c key t g" and "now' < t + AUTH_PUNCH_REPLAY_WINDOW"
    and "replay = filter (\<lambda>(_, seen_at). saturating_duration_since now' seen_at < AUTH_PUNCH_REPLAY_WINDOW) (pg_replay g)"
  shows "distinct (map fst replay)" and "(key, t) \<in> set replay"
    and "length (filter (\<lambda>(_, u). t \<le> u) replay) \<le> c"
proof -
  show "distinct (map fst replay)" using assms(1,3) by (simp add: replay_guarded_def distinct_filter_keys)
  show "(key, t) \<in> set replay"
    using assms by (auto simp: replay_guarded_def saturating_duration_since_def AUTH_PUNCH_REPLAY_WINDOW_def from_secs_def)
  show "length (filter (\<lambda>(_, u). t \<le> u) replay) \<le> c"
    using assms(1) order_trans [OF length_filter_filter] unfolding assms(3) replay_guarded_def by blast
qed

lemma insert_entry:
  assumes "mset (ord ((k', now) # replay)) = mset ((k', now) # replay)"
    and "distinct (map fst ((k', now) # replay))" and "(key, t) \<in> set ((k', now) # replay)"
    and "length (filter (\<lambda>(_, u). t \<le> u) ((k', now) # replay)) \<le> c" and "c \<le> AUTH_PUNCH_REPLAY_TARGET_ENTRIES"
    and "pg_replay g = evict_replay ord ((k', now) # replay)"
  shows "replay_guarded c key t g"
proof -
  have "(key, t) \<in> set (pg_replay g)"
    unfolding assms(6) by (rule evict_replay_keeps [where ord = ord, OF assms(1-3) order_trans [OF assms(4,5)]])
  moreover have "distinct (map fst (pg_replay g))"
    unfolding assms(6) by (rule evict_replay_distinct [OF assms(2)])
  moreover have "length (filter (\<lambda>(_, u). t \<le> u) (pg_replay g)) \<le> c"
    unfolding assms(6) by (rule order_trans [OF evict_replay_recent assms(4)])
  ultimately show ?thesis by (simp add: replay_guarded_def)
qed

text \<open>The punches accepted over a run, and so cached, that are as recent as \<open>t\<close>.\<close>

fun caches_punch :: "replay_order \<Rightarrow> instant \<Rightarrow> punch_gate \<Rightarrow> punch_gate_op \<Rightarrow> bool" where
  "caches_punch ord t g (PgAdmit p n kind nonce src now now') \<longleftrightarrow>
     t \<le> now \<and> fst (admit_authenticated_punch ord p n kind nonce src now now' g) = PunchAccepted"
| "caches_punch ord t g (PgRollback p n kind nonce now) \<longleftrightarrow> False"

fun punches_cached :: "replay_order \<Rightarrow> instant \<Rightarrow> punch_gate \<Rightarrow> punch_gate_op list \<Rightarrow> nat" where
  "punches_cached ord t g [] = 0"
| "punches_cached ord t g (op # ops) =
     of_bool (caches_punch ord t g op) + punches_cached ord t (punch_gate_step ord g op) ops"

lemma replay_guarded_step:
  assumes perm: "\<And>xs. mset (ord xs) = mset xs" and "replay_guarded c key t g" and "keeps_entry key t op"
    and "c + of_bool (caches_punch ord t g op) \<le> AUTH_PUNCH_REPLAY_TARGET_ENTRIES"
  shows "replay_guarded (c + of_bool (caches_punch ord t g op)) key t (punch_gate_step ord g op)"
proof (cases op)
  case (PgRollback p n kind nonce now)
  have "length (filter (\<lambda>(_, u). t \<le> u) (filter (\<lambda>(k, _). k \<noteq> (p, n, nonce, punch_kind_code kind)) (pg_replay g))) \<le> c"
    using assms(2) order_trans [OF length_filter_filter] unfolding replay_guarded_def by blast
  then show ?thesis using assms(2,3)
    by (simp add: PgRollback replay_guarded_def rollback_authenticated_punch_replay_admission_def distinct_filter_keys)
next
  case (PgAdmit p n kind nonce src now now')
  let ?r = "admit_authenticated_punch ord p n kind nonce src now now' g"
  let ?k = "(p, n, nonce, punch_kind_code kind)" and ?c = "c + of_bool (caches_punch ord t g op)"
  have "now' < t + AUTH_PUNCH_REPLAY_WINDOW" using assms(3) by (simp add: PgAdmit)
  note aged = aged_replay [OF assms(2) this refl]
  have g: "punch_gate_step ord g op = snd ?r" by (simp add: PgAdmit)
  show ?thesis unfolding g
  proof (cases rule: admit_punch_replay [of ord p n kind nonce src now now' g])
    case limited
    then show "replay_guarded ?c key t (snd ?r)" using assms(2) by (simp add: PgAdmit replay_guarded_def)
  next
    case replay
    then show "replay_guarded ?c key t (snd ?r)" using aged by (simp add: PgAdmit replay_guarded_def)
  next
    case accepted
    have n: "length (filter (\<lambda>(_, u). t \<le> u) ((?k, now) # aged now' g)) \<le> ?c"
      using aged(3) accepted(1) by (simp add: PgAdmit)
    show "replay_guarded ?c key t (snd ?r)"
      by (rule insert_entry [where ord = ord, OF perm _ _ n assms(4) accepted(3)]) (use accepted(2) aged in auto)
  qed
qed

lemma replay_guarded_run:
  assumes perm: "\<And>xs. mset (ord xs) = mset xs"
  shows "replay_guarded c key t g \<Longrightarrow> \<forall>op \<in> set ops. keeps_entry key t op
    \<Longrightarrow> c + punches_cached ord t g ops \<le> AUTH_PUNCH_REPLAY_TARGET_ENTRIES
    \<Longrightarrow> replay_guarded (c + punches_cached ord t g ops) key t (foldl (punch_gate_step ord) g ops)"
proof (induction ops arbitrary: c g)
  case Nil
  then show ?case by simp
next
  case (Cons op ops)
  have "replay_guarded (c + of_bool (caches_punch ord t g op)) key t (punch_gate_step ord g op)"
    using Cons.prems by (intro replay_guarded_step [OF perm]) auto
  from Cons.IH [OF this] Cons.prems show ?case by (simp add: add.assoc)
qed

lemma replay_distinct_step:
  "distinct (map fst (pg_replay g)) \<Longrightarrow> distinct (map fst (pg_replay (punch_gate_step ord g op)))"
proof (cases op)
  case (PgAdmit p n kind nonce src now now')
  assume d: "distinct (map fst (pg_replay g))"
  have "distinct (map fst (aged now' g))" by (rule distinct_filter_keys [OF d])
  moreover have "distinct (map fst (evict_replay ord ((k, now) # aged now' g)))" if "k \<notin> set (map fst (aged now' g))" for k
    by (rule evict_replay_distinct) (use that \<open>distinct (map fst (aged now' g))\<close> in simp)
  ultimately show ?thesis using d
    by (cases rule: admit_punch_replay [of ord p n kind nonce src now now' g])
      (simp_all only: PgAdmit punch_gate_step.simps)
qed (simp add: rollback_authenticated_punch_replay_admission_def distinct_filter_keys)

interpretation replay_keys: event_machine "punch_gate_step ord" "\<lambda>g. distinct (map fst (pg_replay g))" for ord
  by unfold_locales (rule replay_distinct_step)

text \<open>
  C32: An authenticated punch that was accepted is not accepted again within sixty seconds, from
  whatever address, unless it was rolled back or 3072 other punches as recent as it were in the
  cache already or have been accepted since (only accepted punches count, rolled back later or
  not; rate-limited and replayed ones do not). Every operation in between reads its clock within
  those sixty seconds.
\<close>
theorem punch_replay_rejected:
  assumes "\<forall>xs. mset (ord xs) = mset xs"
    and "g = foldl (punch_gate_step ord) punch_gate_new ops0"
    and "fst (admit_authenticated_punch ord p n kind nonce src now now0 g) = PunchAccepted"
    and "g1 = snd (admit_authenticated_punch ord p n kind nonce src now now0 g)"
    and "\<forall>op \<in> set ops. keeps_entry (p, n, nonce, punch_kind_code kind) now op"
    and "length (filter (\<lambda>(_, u). now \<le> u) (pg_replay g)) + punches_cached ord now g1 ops < 3072"
    and "t' < now + from_secs 60"
  shows "fst (admit_authenticated_punch ord p n kind nonce src' t t' (foldl (punch_gate_step ord) g1 ops)) \<noteq> PunchAccepted"
proof -
  let ?k = "(p, n, nonce, punch_kind_code kind)" and ?c = "Suc (length (filter (\<lambda>(_, u). now \<le> u) (pg_replay g)))"
  have d: "distinct (map fst (pg_replay g))"
    unfolding assms(2) by (rule replay_keys.run_inv) (simp add: punch_gate_new_def)
  have acc: "?k \<notin> set (map fst (aged now0 g)) \<and> pg_replay g1 = evict_replay ord ((?k, now) # aged now0 g)"
    by (cases rule: admit_punch_replay [of ord p n kind nonce src now now0 g])
      (use assms(3,4) in simp_all)
  have "replay_guarded ?c ?k now g1"
    by (rule insert_entry [where ord = ord, OF _ _ _ _ _ conjunct2 [OF acc]])
      (use assms(1,6) conjunct1 [OF acc] distinct_filter_keys [OF d] length_filter_filter in
        \<open>auto simp: AUTH_PUNCH_REPLAY_TARGET_ENTRIES_def less_Suc_eq_le\<close>)
  from replay_guarded_run [OF _ this assms(5)] assms(1,6)
  have "replay_guarded (?c + punches_cached ord now g1 ops) ?k now (foldl (punch_gate_step ord) g1 ops)"
    by (simp add: AUTH_PUNCH_REPLAY_TARGET_ENTRIES_def)
  from aged_replay(2) [OF this _ refl, of t'] assms(7)
  have "?k \<in> set (map fst (aged t' (foldl (punch_gate_step ord) g1 ops)))"
    by (force simp: AUTH_PUNCH_REPLAY_WINDOW_def)
  then show ?thesis
    by (cases rule: admit_punch_replay [of ord p n kind nonce src' t t' "foldl (punch_gate_step ord) g1 ops"])
      simp_all
qed

section \<open>The NAT maintainer\<close>

fun maintainer_step :: "(string \<times> nat) windows \<Rightarrow> string \<times> nat \<times> instant \<Rightarrow> (string \<times> nat) windows" where
  "maintainer_step b (p, sock, now) = snd (admit_nat_maintainer_probe p sock now b)"

fun maintainer_charges :: "(string \<times> nat) windows \<Rightarrow> string \<times> nat \<times> instant \<Rightarrow> string \<times> nat \<Rightarrow> instant list" where
  "maintainer_charges b (p, sock, now) k =
     (if fst (admit_nat_maintainer_probe p sock now b) \<and> k = (p, sock) then [now] else [])"

abbreviation maintainer_now :: "string \<times> nat \<times> instant \<Rightarrow> instant" where
  "maintainer_now e \<equiv> snd (snd e)"

interpretation maintainer_rate: rate_limiter maintainer_step "\<lambda>_. True" window maintainer_charges
  maintainer_now maintainer_now "\<lambda>_. NAT_MAINTAINER_BUDGET_WINDOW" "\<lambda>_. NAT_MAINTAINER_BUDGET_PER_PEER_SOCKET"
proof
  fix s :: "(string \<times> nat) windows" and e :: "string \<times> nat \<times> instant" and k
  obtain p sock now where e: "e = (p, sock, now)" by (cases e)
  have w: "window (m(k \<mapsto> ts)) k' = (if k' = k then ts else window m k')" for m :: "(string \<times> nat) windows" and k k' ts
    by (simp add: window_def)
  have "window (maintainer_step s e) k = prune NAT_MAINTAINER_BUDGET_WINDOW now (window s k) @ maintainer_charges s e k"
    by (simp add: e admit_nat_maintainer_probe_def Let_def w window_retain)
  then show "\<exists>old. window s k @ maintainer_charges s e k = old @ window (maintainer_step s e) k
      \<and> (\<forall>t \<in> set old. NAT_MAINTAINER_BUDGET_WINDOW \<le> maintainer_now e - t)"
    using prune_split [of "window s k" NAT_MAINTAINER_BUDGET_WINDOW now] by (auto simp: e)
next
  fix s e t k assume "t \<in> set (maintainer_charges s e k)"
  then show "maintainer_now e \<le> t \<and> t \<le> maintainer_now e" by (cases e) (auto split: if_splits)
next
  fix s e k assume "maintainer_charges s e k \<noteq> []"
  then show "length (window (maintainer_step s e) k) \<le> NAT_MAINTAINER_BUDGET_PER_PEER_SOCKET"
    by (cases e) (auto simp: admit_nat_maintainer_probe_def Let_def window_def split: if_splits)
qed simp

text \<open>The maintainer sends at most 1200 probes a minute from a socket to a peer.\<close>

theorem maintainer_rate_bounded:
  assumes "clocked maintainer_now maintainer_now t0 ops"
  shows "in_window a (from_secs 60) (charged_log maintainer_step maintainer_charges Map.empty ops (p, sock)) \<le> 1200"
  using maintainer_rate.window_rate [OF TrueI _ assms, of Map.empty "(p, sock)" a]
  by (simp add: NAT_MAINTAINER_BUDGET_WINDOW_def NAT_MAINTAINER_BUDGET_PER_PEER_SOCKET_def)

section \<open>Reverse checks\<close>

datatype triggered_op =
    TcAdmit string socket_addr instant
  | TcComplete string instant

fun triggered_step :: "triggered_checks \<Rightarrow> triggered_op \<Rightarrow> triggered_checks" where
  "triggered_step c (TcAdmit p ep now) = snd (admit_triggered_check p ep now c)"
| "triggered_step c (TcComplete p sent) = complete_triggered_check p sent c"

text \<open>A check that holds its peer back: on its way, or sent at \<open>t\<close>.\<close>

definition holds_back :: "string \<Rightarrow> instant option \<Rightarrow> triggered_checks \<Rightarrow> bool" where
  "holds_back p t c \<longleftrightarrow> (\<exists>r. c p = Some r \<and>
     (case t of None \<Rightarrow> tc_in_flight r | Some sent \<Rightarrow> \<not> tc_in_flight r \<and> tc_last_sent_at r = sent))"

fun within_cooldown :: "string \<Rightarrow> instant option \<Rightarrow> triggered_op \<Rightarrow> bool" where
  "within_cooldown p t (TcAdmit q ep now) \<longleftrightarrow>
     (case t of None \<Rightarrow> True | Some sent \<Rightarrow> now < sent + TRIGGERED_CHECK_COOLDOWN)"
| "within_cooldown p t (TcComplete q sent) \<longleftrightarrow> q \<noteq> p"

lemma holds_back_step:
  assumes "holds_back p t c" and "within_cooldown p t op"
  shows "holds_back p t (triggered_step c op)"
  using assms
  by (cases op; cases t)
    (auto simp: holds_back_def admit_triggered_check_def triggered_record_def retain_triggered_def
      complete_triggered_check_def saturating_duration_since_def TRIGGERED_CHECK_COOLDOWN_def Let_def
      split: option.splits)

lemma holds_back_run:
  "holds_back p t c \<Longrightarrow> \<forall>op \<in> set ops. within_cooldown p t op \<Longrightarrow> holds_back p t (foldl triggered_step c ops)"
  by (induction ops arbitrary: c) (simp_all add: holds_back_step)

lemma holds_back_refuses:
  assumes "holds_back p t c" and "within_cooldown p t (TcAdmit p ep now)"
  shows "fst (admit_triggered_check p ep now c) = None"
  using assms
  by (cases t)
    (auto simp: holds_back_def admit_triggered_check_def triggered_record_def retain_triggered_def
      saturating_duration_since_def TRIGGERED_CHECK_COOLDOWN_def Let_def split: option.splits)

text \<open>
  While a reverse check of a peer is on its way no other is admitted for it, whatever the
  endpoint, and neither is one within 750 ms of its completion.
\<close>
theorem reverse_checks_spaced:
  assumes "fst (admit_triggered_check p ep now c) = Some e"
    and "c1 = snd (admit_triggered_check p ep now c)"
    and "\<forall>op \<in> set ops1. within_cooldown p None op"
    and "c2 = foldl triggered_step c1 ops1"
    and "c3 = complete_triggered_check p sent c2"
    and "\<forall>op \<in> set ops2. within_cooldown p (Some sent) op"
    and "t < sent + 750000000"
  shows "fst (admit_triggered_check p ep1 t1 c2) = None
    \<and> fst (admit_triggered_check p ep2 t (foldl triggered_step c3 ops2)) = None"
proof -
  have "holds_back p None c1"
    using assms(1,2) by (auto simp: holds_back_def admit_triggered_check_def Let_def split: if_splits)
  then have c2: "holds_back p None c2" unfolding assms(4) by (rule holds_back_run [OF _ assms(3)])
  then have "holds_back p (Some sent) c3"
    by (auto simp: assms(5) holds_back_def complete_triggered_check_def)
  from holds_back_run [OF this assms(6)]
  have c4: "holds_back p (Some sent) (foldl triggered_step c3 ops2)" .
  show ?thesis
    using holds_back_refuses [OF c2, of ep1 t1] holds_back_refuses [OF c4, of ep2 t] assms(7)
    by (simp add: TRIGGERED_CHECK_COOLDOWN_def)
qed

text \<open>A foreground burst keeps heartbeats out of their budget.\<close>

lemma heartbeat_yields_to_foreground:
  assumes "384 \<le> length (prune OUTBOUND_PROBE_BUDGET_WINDOW now1 (window (bb_local s) KNetwork))"
  shows "fst (reserve_relay_backoff_heartbeat_probe p addr legacy now1 now2 now3 s) = HbRejected ForegroundYield
    \<and> bb_heartbeat (snd (reserve_relay_backoff_heartbeat_probe p addr legacy now1 now2 now3 s)) = bb_heartbeat s"
  using assms
  by (simp add: reserve_relay_backoff_heartbeat_probe_def Let_def window_len_window window_retain
      retain_live_budget_entries_def OUTBOUND_PROBE_BUDGET_PER_NETWORK_def
      RELAY_BACKOFF_HEARTBEAT_FOREGROUND_RESERVE_def)

end
