(* ===== verification/Budget_Witnesses.thy ===== *)
theory Budget_Witnesses
  imports Recovery_Safety Probe_Budget_Props Heartbeat_Service Admission_Props
begin

text \<open>The properties of the budgets at concrete inputs.\<close>

section \<open>Recovery\<close>

definition w_admitted :: recovery_state where
  "w_admitted = recovery_run recovery_state_new [RoAdmit ''b'' 7 0]"

lemma w_admitted_epoch: "rm_epochs w_admitted ''b'' = Some (recovery_epoch_new 1 7 1 0)"
  by (simp add: w_admitted_def recovery_run_def recovery_admit_cases recovery_state_new_def)

lemma w_admitted_allocation: "rm_allocation w_admitted = 1"
  by (simp add: w_admitted_def recovery_run_def recovery_admit_cases recovery_state_new_def)

text \<open>The peer turns Direct, which ends the epoch, and enters recovery again.\<close>

theorem recovery_ended_epoch_is_stale_witness:
  "fst (consume_recovery_probe_credit_for_purpose ''b'' (identity_of True (recovery_epoch_new 1 7 1 0))
     HardHardNomination 7 (recovery_run (recovery_run w_admitted [RoEnd ''b'']) [RoAdmit ''b'' 7 0])) = CreditIdentityStale"
proof -
  have "\<forall>e'. rm_epochs (recovery_run w_admitted [RoEnd ''b'']) ''b'' = Some e' \<longrightarrow>
      re_allocation e' \<noteq> re_allocation (recovery_epoch_new 1 7 1 0)"
    by (simp add: recovery_run_def recovery_epoch_end_def)
  from recovery_ended_epoch_is_stale [OF w_admitted_def w_admitted_epoch refl refl this refl]
  show ?thesis by blast
qed

theorem recovery_freeze_holds_witness:
  "fst (recovery_admit_locked ''b'' 7 (from_secs 61)
     (recovery_run (recovery_step w_admitted (RoExhausted ''b'' 3 3 0 3 ''budget'' (from_secs 2) (from_secs 2) 0 (from_secs 2)))
       [RoProbe ''b'', RoAdmit ''b'' 7 (from_secs 30)])) = RecoveryBudgetExhausted 1"
proof -
  have u: "from_secs 2 + budget_backoff (sat_add (re_zero_send_streak (recovery_epoch_new 1 7 1 0)) 1) = from_secs 62"
    by (simp add: recovery_epoch_new_def budget_backoff_def recovery_consts from_secs_def unat_sat_sub unat_sat_add)
  have "\<forall>op \<in> set [RoProbe ''b'', RoAdmit ''b'' 7 (from_secs 30)]. withstood ''b''
      (re_network (recovery_epoch_new 1 7 1 0)) (re_started (recovery_epoch_new 1 7 1 0)) (from_secs 2) (from_secs 62) op"
    by (simp add: recovery_epoch_new_def recovery_consts from_secs_def)
  from recovery_freeze_holds [OF w_admitted_epoch refl u [symmetric] this, of "from_secs 61" 3 3 0 3 "''budget''" "from_secs 2" 0 "from_secs 2"]
  show ?thesis by (simp add: recovery_epoch_new_def recovery_consts from_secs_def)
qed

theorem recovery_nomination_has_credit_witness:
  "fst (consume_recovery_probe_credit_for_purpose ''b'' (identity_of True (recovery_epoch_new 1 7 1 0))
     HardHardNomination 7 w_admitted) = CreditAccepted"
  using recovery_nomination_has_credit [OF w_admitted_def _ w_admitted_epoch]
  by (simp add: recovery_epoch_new_def)

text \<open>A reservation refunded and taken again, then committed.\<close>

definition w_lane :: "recovery_op list" where
  "w_lane = [RoAdmit ''b'' 7 0, RoFresh ''b'' 1,
     RoRefund \<lparr>fr_peer = ''b'', fr_identity = identity_of False (recovery_epoch_new 1 7 1 0)\<rparr>,
     RoFreshRetry ''b'' (identity_of False (recovery_epoch_new 1 7 1 0))]"

theorem recovery_one_mapping_per_lane_witness:
  "live_tokens (recovery_run recovery_state_new w_lane) 1 False + lane_commits recovery_state_new w_lane 1 False \<le> 1
   \<and> live_tokens (recovery_run recovery_state_new w_lane) 1 False = 1"
proof
  show "live_tokens (recovery_run recovery_state_new w_lane) 1 False + lane_commits recovery_state_new w_lane 1 False \<le> 1"
    by (rule recovery_one_mapping_per_lane) (simp add: w_lane_def identity_of_def)
  show "live_tokens (recovery_run recovery_state_new w_lane) 1 False = 1"
    by (simp add: w_lane_def recovery_run_def recovery_admit_cases recovery_state_new_def
        try_begin_fresh_generation_for_epoch_def try_begin_fresh_generation_for_identity_def issue_token_def
        reservation_refund_def refund_if_current_def with_epoch_def same_allocation_def identity_of_def
        recovery_epoch_new_def spend_lane_def recovery_consts live_tokens_def Let_def sat_add_def)
qed

section \<open>Probes\<close>

definition w_addr :: socket_addr where
  "w_addr = SocketV4 0xC0000201 40000"

text \<open>Two probes half a second apart.\<close>

definition w_requests :: "budget_op list" where
  "w_requests = [ProbeRequest ''b'' w_addr 0 Ordinary 1 OpAccepted 2,
     ProbeRequest ''b'' w_addr 0 Ordinary (from_secs 1) OpAccepted (from_secs 1)]"

theorem probe_rate_bounded_witness:
  "in_window 0 (budget_window (KPeer ''b'')) (charged_log budget_step budget_charges Map.empty w_requests (KPeer ''b''))
     \<le> budget_ceiling (KPeer ''b'')"
  by (rule probe_rate_bounded [of 0]) (simp add: w_requests_def from_secs_def)

lemma w_exploration:
  "fst (admit_with_purpose_after ''b'' w_addr 0 HardHardExploration 1 (\<lambda>c. (OpAccepted, c)) 2 (Map.empty, ())) = OpAccepted"
proof -
  have "window_len (retain_live_budget_entries 1 Map.empty) k = 0" for k
    by (simp add: window_len_def retain_live_budget_entries_def retain_windows_def)
  then show ?thesis
    by (simp add: admit_with_purpose_after_def Let_def global_verdict_def probe_ceilings reserve_reached_def
        short_keys_def long_keys_def confirmation_short_window_reserve_def recovery_consts)
qed

theorem exploration_leaves_confirmation_tail_witness:
  "global_verdict ''b'' (socket_ip w_addr) 0 HardHardNomination (retain_live_budget_entries 5
     (foldl budget_step (fst (snd (admit_with_purpose_after ''b'' w_addr 0 HardHardExploration 1
        (\<lambda>c. (OpAccepted, c)) 2 (Map.empty, ())))) w_requests)) = OpAccepted"
  by (rule exploration_leaves_confirmation_tail [OF w_exploration refl]) (simp add: w_requests_def)

definition w_ledgers :: probe_ledgers where
  "w_ledgers = \<lparr>pl_local = Map.empty, pl_global = Some Map.empty, pl_recovery = w_admitted\<rparr>"

definition w_clock :: probe_clock where
  "w_clock = \<lparr>pk_local = 1, pk_global = 2, pk_global_commit = 3, pk_local_commit = 4\<rparr>"

lemma w_transaction:
  "fst (admit_connectivity_probe_transaction ''b'' w_addr 0 Ordinary None 7 [] w_clock w_ledgers) = OpAccepted"
proof -
  have z: "window_len (retain_live_budget_entries t Map.empty) k = 0" for t k
    by (simp add: window_len_def retain_live_budget_entries_def retain_windows_def)
  obtain m where "recovery_gate ''b'' None Ordinary 7 [] w_admitted = (OpAccepted, m)"
    by (simp add: recovery_gate_def recovery_run_def try_consume_recovery_probe_credit_def spend_def
        w_admitted_epoch recovery_epoch_new_def recovery_consts Let_def)
  then show ?thesis
    by (simp add: admit_connectivity_probe_transaction_def admit_with_purpose_after_def w_ledgers_def Let_def z
        local_verdict_def global_verdict_def probe_ceilings reserve_reached_def confirmation_short_window_reserve_def)
qed

text \<open>An accepted probe takes one of the four thousand credits.\<close>

theorem probe_transaction_atomic_witness:
  "rm_epochs (pl_recovery (snd (admit_connectivity_probe_transaction ''b'' w_addr 0 Ordinary None 7 [] w_clock w_ledgers))) ''b''
     = Some ((recovery_epoch_new 1 7 1 0)\<lparr>re_probe_credit := 3999\<rparr>)"
proof -
  let ?r = "admit_connectivity_probe_transaction ''b'' w_addr 0 Ordinary None 7 [] w_clock w_ledgers"
  have "?r = (OpAccepted, snd ?r)" using w_transaction by (metis prod.collapse)
  from probe_transaction_atomic [OF this refl]
  have "credit_paid ''b'' w_admitted (pl_recovery (snd ?r))" by (simp add: w_ledgers_def recovery_run_def)
  then show ?thesis by (simp add: credit_paid_def w_admitted_epoch recovery_epoch_new_def recovery_consts)
qed

section \<open>Heartbeats\<close>

text \<open>One heartbeat, and a second reservation in the same service slot.\<close>

definition w_beats :: "heartbeat_op list" where
  "w_beats = [HbReserve ''b'' (socket_ip w_addr) 1 5, HbFinish 1 1 6, HbReserve ''b'' (socket_ip w_addr) 1 7, HbFinish 2 1 8]"

lemma w_beats_clocked: "clocked heartbeat_now heartbeat_now 5 w_beats"
  by (simp add: w_beats_def)

theorem heartbeat_rate_bounded_witness:
  "in_window 0 (from_secs 60) (charged_log heartbeat_step heartbeat_charges (heartbeat_new 5) w_beats HbNetwork) \<le> 240"
  using heartbeat_rate_bounded [OF w_beats_clocked, of 0 5 HbNetwork]
  by (simp add: RELAY_BACKOFF_HEARTBEAT_GLOBAL_PER_WINDOW_def)

theorem heartbeat_one_send_per_slot_witness:
  "slot_commits (heartbeat_new 5) w_beats (''b'', 0) \<le> 1"
  by (rule heartbeat_one_send_per_slot [OF w_beats_clocked])

theorem heartbeat_roster_fair_witness:
  "\<exists>j < length [''a'', ''b'']. roster_selects [''a'', ''b''] (9 + of_nat j) ''b''"
  by (rule conjunct1 [OF heartbeat_roster_fair]) simp_all

theorem heartbeat_sweeps_predicted_witness:
  "\<exists>j < 5. \<exists>t. fst (cursor_beat [] [w_addr] [] 1 (cursor_after [] [w_addr] [] 1 heartbeat_cursor_default j)) = Some t
     \<and> ht_endpoint t = w_addr"
  using heartbeat_sweeps_predicted [of w_addr "[w_addr]" heartbeat_cursor_default "[]" "[]" 1]
  by (simp add: heartbeat_cursor_default_def del: cursor_after.simps)

section \<open>Punches and reverse checks\<close>

definition w_punches :: "punch_gate_op list" where
  "w_punches = [PgAdmit ''b'' 7 Punch [1] w_addr 1 1, PgAdmit ''b'' 7 Punch [1] w_addr 2 2]"

theorem punch_rate_bounded_witness:
  "in_window 0 (from_secs 1) (charged_log (punch_gate_step (\<lambda>xs. xs)) (punch_charges (\<lambda>xs. xs)) punch_gate_new w_punches (''b'', w_addr)) \<le> 16"
  by (rule punch_rate_bounded [of 0]) (simp add: w_punches_def)

text \<open>The same punch from another address, a second later, after a punch of another peer.\<close>

theorem punch_replay_rejected_witness:
  "let g = snd (admit_authenticated_punch (\<lambda>xs. xs) ''b'' 7 Punch [1] w_addr 1 1 punch_gate_new);
       g' = punch_gate_step (\<lambda>xs. xs) g (PgAdmit ''c'' 3 Punch [2] w_addr 2 2)
   in fst (admit_authenticated_punch (\<lambda>xs. xs) ''b'' 7 Punch [1] (SocketV4 1 1) (from_secs 1) (from_secs 1) g')
        \<noteq> PunchAccepted"
proof -
  have a: "fst (admit_authenticated_punch (\<lambda>xs. xs) ''b'' 7 Punch [1] w_addr 1 1 punch_gate_new) = PunchAccepted"
    by (simp add: admit_authenticated_punch_def punch_gate_new_def retain_windows_def window_def prune_def
        AUTH_PUNCH_RATE_LIMIT_PER_SOURCE_def Let_def)
  from punch_replay_rejected [of "\<lambda>xs. xs" punch_gate_new "[]", OF _ _ a refl,
      of "[PgAdmit ''c'' 3 Punch [2] w_addr 2 2]" "from_secs 1" "SocketV4 1 1" "from_secs 1"]
  show ?thesis
    by (simp add: punch_gate_new_def from_secs_def Let_def AUTH_PUNCH_REPLAY_WINDOW_def of_bool_def)
qed

theorem reverse_checks_spaced_witness:
  "fst (admit_triggered_check ''b'' (SocketV4 1 1) (from_secs 3)
     (snd (admit_triggered_check ''b'' w_addr (from_secs 2) Map.empty))) = None"
proof -
  have a: "fst (admit_triggered_check ''b'' w_addr (from_secs 2) Map.empty) = Some w_addr"
    by (simp add: admit_triggered_check_def retain_triggered_def triggered_record_def saturating_duration_since_def
        TRIGGERED_CHECK_COOLDOWN_def from_secs_def)
  have n: "\<forall>op \<in> set []. within_cooldown ''b'' t op" for t by simp
  from conjunct1 [OF reverse_checks_spaced [OF a refl n refl refl n, of 0 0 "SocketV4 1 1" "from_secs 3"]]
  show ?thesis by simp
qed

end
