(* ===== verification/Mtu_Feedback.thy ===== *)
theory Mtu_Feedback
  imports Ip_Packet Windows "HOL-Library.AList"
begin

text \<open>
  Local MTU feedback (\<open>client/daemon/src/business_mtu.rs\<close> and \<open>emit_local_mtu_feedback\<close> of
  \<open>peer/manager/core.rs\<close>): when a business packet does not fit the direct path, the node itself
  answers its own applications with the ICMP error a router would send. The limiter keeps a queue
  of instants per peer, for at most 256 peers; the peer that has been tracked longest gives way
  to a new one.
\<close>

section \<open>Vocabulary\<close>

definition LOCAL_MTU_FEEDBACK_RATE_PER_PEER :: nat where "LOCAL_MTU_FEEDBACK_RATE_PER_PEER = 8"

definition LOCAL_MTU_FEEDBACK_WINDOW :: duration where "LOCAL_MTU_FEEDBACK_WINDOW = from_secs 1"

definition MAX_LOCAL_MTU_FEEDBACK_PEERS :: nat where "MAX_LOCAL_MTU_FEEDBACK_PEERS = 256"

definition IPV6_MINIMUM_MTU :: u32 where "IPV6_MINIMUM_MTU = 1280"

datatype feedback_kind = PacketTooBig u32 | Unreachable

datatype feedback_suppression =
    Malformed
  | RecursiveIcmpError
  | Ipv6PacketTooBigBelowMinimumMtu
  | InvalidAddress
  | FeedbackRateLimited
  | NoTunConsumer

datatype feedback_outcome = Published | Suppressed feedback_suppression

section \<open>The limiter\<close>

record feedback_limiter =
  fl_peers :: "(string \<times> instant list) list"
  fl_order :: "string list"

definition feedback_limiter_default :: feedback_limiter where
  "feedback_limiter_default = \<lparr>fl_peers = [], fl_order = []\<rparr>"

text \<open>The closure of \<open>retain\<close>: prune each queue, drop the peers left with an empty one.\<close>

definition retain_sent :: "instant \<Rightarrow> (string \<times> instant list) list \<Rightarrow> (string \<times> instant list) list" where
  "retain_sent now peers =
     filter (\<lambda>(p, sent). sent \<noteq> []) (map (\<lambda>(p, sent). (p, prune LOCAL_MTU_FEEDBACK_WINDOW now sent)) peers)"

definition tracked :: "(string \<times> instant list) list \<Rightarrow> string \<Rightarrow> bool" where
  "tracked peers p \<longleftrightarrow> map_of peers p \<noteq> None"

text \<open>The eviction loop. It gives up when the order is empty.\<close>

fun evict_oldest ::
  "(string \<times> instant list) list \<Rightarrow> string list \<Rightarrow> bool \<times> (string \<times> instant list) list \<times> string list" where
  "evict_oldest peers [] = (length peers < MAX_LOCAL_MTU_FEEDBACK_PEERS, peers, [])"
| "evict_oldest peers (oldest # order) =
     (if MAX_LOCAL_MTU_FEEDBACK_PEERS \<le> length peers
      then evict_oldest (AList.delete oldest peers) order
      else (True, peers, oldest # order))"

text \<open>Up to the entry of the peer: expired instants are dropped and a new peer makes room.\<close>

definition make_room ::
  "string \<Rightarrow> instant \<Rightarrow> feedback_limiter \<Rightarrow> bool \<times> (string \<times> instant list) list \<times> string list" where
  "make_room p now l =
     (let peers = retain_sent now (fl_peers l);
          order = filter (tracked peers) (fl_order l)
      in if tracked peers p then (True, peers, order)
         else case evict_oldest peers order of (room, peers', order') \<Rightarrow>
           (room, peers', if room then order' @ [p] else order'))"

definition admit_feedback :: "string \<Rightarrow> instant \<Rightarrow> feedback_limiter \<Rightarrow> bool \<times> feedback_limiter" where
  "admit_feedback p now l =
     (case make_room p now l of (room, peers, order) \<Rightarrow>
        if \<not> room then (False, \<lparr>fl_peers = peers, fl_order = order\<rparr>)
        else
          let sent = (case map_of peers p of None \<Rightarrow> [] | Some sent \<Rightarrow> sent)
          in if LOCAL_MTU_FEEDBACK_RATE_PER_PEER \<le> length sent
             then (False, \<lparr>fl_peers = AList.update p sent peers, fl_order = order\<rparr>)
             else (True, \<lparr>fl_peers = AList.update p (sent @ [now]) peers, fl_order = order\<rparr>))"

section \<open>Checksums\<close>

text \<open>The 16-bit words are added with saturation, the odd byte as a high byte.\<close>

fun saturating_words :: "u32 \<Rightarrow> bytes \<Rightarrow> u32" where
  "saturating_words s (a # b # rest) = saturating_words (sat_add s (ucast (from_be [a, b] :: u16))) rest"
| "saturating_words s [a] = sat_add s (push_bit 8 (ucast a))"
| "saturating_words s [] = s"

definition business_internet_checksum :: "bytes \<Rightarrow> u16" where
  "business_internet_checksum bytes = NOT (ucast (fold_carries (saturating_words 0 bytes)))"

definition icmpv6_checksum :: "128 word \<Rightarrow> 128 word \<Rightarrow> bytes \<Rightarrow> u16" where
  "icmpv6_checksum source destination icmp =
     business_internet_checksum (to_be 16 source @ to_be 16 destination @ to_be 4 (of_nat (length icmp) :: u32)
       @ [0, 0, 0, 58] @ icmp)"

section \<open>Addresses\<close>

text \<open>\<open>is_multicast\<close> is 224.0.0.0/4 and ff00::/8; \<open>is_broadcast\<close> is 255.255.255.255.\<close>

definition v4_multicast :: "u32 \<Rightarrow> bool" where
  "v4_multicast a \<longleftrightarrow> drop_bit 28 a = 0xE"

definition v6_multicast :: "128 word \<Rightarrow> bool" where
  "v6_multicast a \<longleftrightarrow> drop_bit 120 a = 0xFF"

definition valid_ipv4_feedback_pair :: "u32 \<Rightarrow> u32 \<Rightarrow> bool" where
  "valid_ipv4_feedback_pair source destination \<longleftrightarrow>
     source \<noteq> 0 \<and> source \<noteq> 0xFFFFFFFF \<and> \<not> v4_multicast source
     \<and> destination \<noteq> 0 \<and> destination \<noteq> 0xFFFFFFFF \<and> \<not> v4_multicast destination"

definition valid_ipv6_feedback_pair :: "128 word \<Rightarrow> 128 word \<Rightarrow> bool" where
  "valid_ipv6_feedback_pair source destination \<longleftrightarrow>
     source \<noteq> 0 \<and> \<not> v6_multicast source \<and> destination \<noteq> 0 \<and> \<not> v6_multicast destination"

section \<open>The error packets\<close>

definition first_in :: "(u8 \<Rightarrow> bool) \<Rightarrow> bytes \<Rightarrow> bool" where
  "first_in P bs = (case bs of [] \<Rightarrow> False | b # _ \<Rightarrow> P b)"

definition ipv4_mtu_field :: "u32 \<Rightarrow> u16" where
  "ipv4_mtu_field mtu = ucast (if mtu < 68 then 68 else if 0xFFFF < mtu then 0xFFFF else mtu)"

text \<open>The fields, then the quotation and the two checksums.\<close>

definition ipv4_feedback_fields :: "feedback_kind \<Rightarrow> u32 \<Rightarrow> u32 \<Rightarrow> nat \<Rightarrow> bytes" where
  "ipv4_feedback_fields kind source destination generated_len =
     (let f = replicate generated_len 0;
          f = f[0 := 0x45];
          f = copy_at 2 (to_be 2 (of_nat generated_len :: u16)) f;
          f = copy_at 6 (to_be 2 (0x4000 :: u16)) f;
          f = f[8 := 64];
          f = f[9 := 1];
          f = copy_at 12 (to_be 4 destination) f;
          f = copy_at 16 (to_be 4 source) f;
          f = f[20 := 3]
      in case kind of
           PacketTooBig mtu \<Rightarrow> copy_at 26 (to_be 2 (ipv4_mtu_field mtu)) (f[21 := 4])
         | Unreachable \<Rightarrow> f[21 := 1])"

definition fill_ipv4_feedback :: "bytes \<Rightarrow> feedback_kind \<Rightarrow> u32 \<Rightarrow> u32 \<Rightarrow> nat \<Rightarrow> bytes" where
  "fill_ipv4_feedback original kind source destination quoted_len =
     (let f = ipv4_feedback_fields kind source destination (20 + 8 + quoted_len);
          f = copy_at 28 (take quoted_len original) f;
          f = copy_at 22 (to_be 2 (business_internet_checksum (drop 20 f))) f
      in copy_at 10 (to_be 2 (business_internet_checksum (take 20 f))) f)"

definition build_ipv4_feedback :: "bytes \<Rightarrow> feedback_kind \<Rightarrow> feedback_suppression + bytes" where
  "build_ipv4_feedback original kind =
     (case ipv4_new original of
        Inl _ \<Rightarrow> Inl Malformed
      | Inr packet \<Rightarrow>
          let header_len = ipv4_header_len packet;
              total_len = unat (ipv4_total_len packet)
          in if total_len < header_len \<or> length original < total_len \<or> is_fragment packet then Inl Malformed
             else
               let source = ipv4_src_addr packet;
                   destination = ipv4_dst_addr packet
               in if \<not> valid_ipv4_feedback_pair source destination then Inl InvalidAddress
                  else if ipv4_protocol packet = Icmp
                    \<and> first_in (\<lambda>k. k = 3 \<or> k = 4 \<or> k = 5 \<or> k = 11 \<or> k = 12) (ipv4_payload packet)
                  then Inl RecursiveIcmpError
                  else
                    let quoted_len = min total_len (header_len + 8)
                    in if 65535 < 20 + 8 + quoted_len then Inl Malformed
                       else Inr (fill_ipv4_feedback original kind source destination quoted_len))"

definition ipv6_feedback_fields :: "feedback_kind \<Rightarrow> 128 word \<Rightarrow> 128 word \<Rightarrow> nat \<Rightarrow> bytes" where
  "ipv6_feedback_fields kind source destination payload_len =
     (let f = replicate (40 + payload_len) 0;
          f = f[0 := 0x60];
          f = copy_at 4 (to_be 2 (of_nat payload_len :: u16)) f;
          f = f[6 := 58];
          f = f[7 := 64];
          f = copy_at 8 (to_be 16 destination) f;
          f = copy_at 24 (to_be 16 source) f
      in case kind of
           PacketTooBig mtu \<Rightarrow> copy_at 44 (to_be 4 mtu) (f[40 := 2, 41 := 0])
         | Unreachable \<Rightarrow> f[40 := 1, 41 := 0])"

definition fill_ipv6_feedback :: "bytes \<Rightarrow> feedback_kind \<Rightarrow> 128 word \<Rightarrow> 128 word \<Rightarrow> nat \<Rightarrow> bytes" where
  "fill_ipv6_feedback original kind source destination quoted_len =
     (let f = ipv6_feedback_fields kind source destination (8 + quoted_len);
          f = copy_at 48 (take quoted_len original) f
      in copy_at 42 (to_be 2 (icmpv6_checksum destination source (drop 40 f))) f)"

definition build_ipv6_feedback :: "bytes \<Rightarrow> feedback_kind \<Rightarrow> feedback_suppression + bytes" where
  "build_ipv6_feedback original kind =
     (case ipv6_new original of
        Inl _ \<Rightarrow> Inl Malformed
      | Inr packet \<Rightarrow>
          let total_len = ipv6_total_len packet
          in if length original < total_len then Inl Malformed
             else
               let source = ipv6_src_addr packet;
                   destination = ipv6_dst_addr packet;
                   next = ipv6_next_header packet
               in if \<not> valid_ipv6_feedback_pair source destination then Inl InvalidAddress
                  else if next = 58 \<and> first_in (\<lambda>t. t < 128) (ipv6_payload packet)
                  then Inl RecursiveIcmpError
                  else if next = 0 \<or> next = 43 \<or> next = 44 \<or> next = 50 \<or> next = 51 \<or> next = 60
                  then Inl Malformed
                  else if (case kind of PacketTooBig mtu \<Rightarrow> mtu < IPV6_MINIMUM_MTU | Unreachable \<Rightarrow> False)
                  then Inl Ipv6PacketTooBigBelowMinimumMtu
                  else
                    let quoted_len = min total_len (unat IPV6_MINIMUM_MTU - (40 + 8))
                    in if 65535 < 8 + quoted_len then Inl Malformed
                       else Inr (fill_ipv6_feedback original kind source destination quoted_len))"

definition build_local_mtu_feedback :: "bytes \<Rightarrow> feedback_kind \<Rightarrow> feedback_suppression + bytes" where
  "build_local_mtu_feedback original kind =
     (if original = [] then Inl Malformed
      else
        let version = drop_bit 4 (original ! 0)
        in if version = 4 then build_ipv4_feedback original kind
           else if version = 6 then build_ipv6_feedback original kind
           else Inl Malformed)"

section \<open>Publication\<close>

text \<open>
  \<open>has_consumer\<close> is whether the broadcast channel has a receiver when the packet is sent; \<open>sent\<close> is
  what has been published to the channel so far.
\<close>

record feedback_hub =
  fh_limiter :: feedback_limiter
  fh_sent :: "bytes list"

definition emit_local_mtu_feedback ::
  "string \<Rightarrow> bytes \<Rightarrow> feedback_kind \<Rightarrow> instant \<Rightarrow> bool \<Rightarrow> feedback_hub \<Rightarrow> feedback_outcome \<times> feedback_hub" where
  "emit_local_mtu_feedback p original kind now has_consumer h =
     (case build_local_mtu_feedback original kind of
        Inl reason \<Rightarrow> (Suppressed reason, h)
      | Inr packet \<Rightarrow>
          case admit_feedback p now (fh_limiter h) of
            (admitted, limiter) \<Rightarrow>
              let h = h\<lparr>fh_limiter := limiter\<rparr>
              in if \<not> admitted then (Suppressed FeedbackRateLimited, h)
                 else if has_consumer then (Published, h\<lparr>fh_sent := fh_sent h @ [packet]\<rparr>)
                 else (Suppressed NoTunConsumer, h))"

end
