(* ===== verification/Mtu_Feedback_Props.thy ===== *)
theory Mtu_Feedback_Props
  imports Mtu_Feedback Ip_Props
begin

text \<open>
  The feedback packets are well-formed ICMP errors that quote the packet they answer, they are
  never answered themselves, and the limiter keeps its rate as long as it need not forget a peer.
\<close>

section \<open>Checksums\<close>

lemma saturating_words_sum:
  "unat s + word_sum xs < 2 ^ 32 \<Longrightarrow> saturating_words s xs = sum_words s xs"
proof (induction s xs rule: saturating_words.induct)
  case (1 s a b rest)
  then have "unat s + (unat a * 256 + unat b) < 2 ^ 32" by simp
  then have "sat_add s (ucast (from_be [a, b] :: u16)) = add_word s a b"
    and "unat (add_word s a b) = unat s + (unat a * 256 + unat b)"
    by (simp_all add: sat_add_def add_word_def unat_pair unat_word_ariths)
  with 1 show ?case by simp
next
  case (2 s a)
  then show ?case by (simp add: sat_add_def unat_high)
qed simp

lemma business_checksum_eq: "length xs < 131072 \<Longrightarrow> business_internet_checksum xs = compute_checksum xs"
proof -
  assume l: "length xs < 131072"
  then have "(length xs + 1) div 2 \<le> 65536" by linarith
  then have "65535 * ((length xs + 1) div 2) \<le> 65535 * 65536" by (rule mult_le_mono2)
  with word_sum_bound [of xs] have "unat (0 :: u32) + word_sum xs < 2 ^ 32" by simp
  then have e: "saturating_words 0 xs = sum_words 0 xs" by (rule saturating_words_sum)
  let ?t = "fold_carries (sum_words 0 xs)"
  have b: "unat ?t \<le> 65535" by (simp add: fold_carries_ones ones_complement_le)
  then have "unat (ucast (NOT ?t) :: u16) = 65535 - unat ?t" and "unat (ucast ?t :: u16) = unat ?t"
    using b by (simp_all only: unat_low_not) (simp add: unsigned_ucast_eq take_bit_nat_eq_self_iff)
  moreover have "unat (NOT u) = 65535 - unat u" for u :: u16
  proof -
    have "NOT u = - 1 - u" by (simp add: not_eq_complement)
    moreover have "unat (- 1 - u) = unat (- 1 :: u16) - unat u"
      using word_n1_ge [of u] by (simp only: unat_sub)
    ultimately show ?thesis by (simp add: unsigned_minus_1_eq_mask mask_eq_exp_minus_1)
  qed
  ultimately have "unat (NOT (ucast ?t :: u16)) = unat (ucast (NOT ?t) :: u16)" by simp
  then show ?thesis
    by (simp only: business_internet_checksum_def compute_checksum_def e word_unat_eq_iff)
qed

lemma to_be_16: "to_be 2 c = [ucast (drop_bit 8 c), ucast (c AND 0xFF)]" for c :: u16
proof -
  let ?bs = "[ucast (drop_bit 8 c), ucast (c AND 0xFF)] :: bytes"
  have "nat_of_be ?bs = unat c"
    using checksum_bytes [of c] by (simp add: nat_of_be_def)
  then have "(from_be ?bs :: u16) = c" by (simp add: from_be_def)
  then show ?thesis using be16.enc_dec [of ?bs] by simp
qed

text \<open>A checksum stored over a zero field makes the sum fold to all ones.\<close>

lemma stored_folds:
  assumes "length pre + length post < 131070" and "even (length pre)" and "0 < word_sum (pre @ [0, 0] @ post)"
  shows "fold_carries (sum_words 0 (pre @ to_be 2 (business_internet_checksum (pre @ [0, 0] @ post)) @ post)) = 0xFFFF"
    and "compute_checksum (pre @ to_be 2 (business_internet_checksum (pre @ [0, 0] @ post)) @ post) = 0"
proof -
  have "length (pre @ 0 # 0 # post) < 131072" using assms(1) by simp
  moreover have "0 < word_sum (pre @ 0 # 0 # post)" using assms(3) by simp
  ultimately have "fold_carries (sum_words 0 (put_checksum (pre @ 0 # 0 # post) (length pre)
      (compute_checksum (pre @ 0 # 0 # post)))) = 0xFFFF"
    by (intro stored_checksum_folds assms(2))
  then show f: "fold_carries (sum_words 0 (pre @ to_be 2 (business_internet_checksum (pre @ [0, 0] @ post)) @ post)) = 0xFFFF"
    using assms(1) by (simp add: put_checksum_append to_be_16 business_checksum_eq)
  show "compute_checksum (pre @ to_be 2 (business_internet_checksum (pre @ [0, 0] @ post)) @ post) = 0"
    by (simp only: compute_checksum_def f) code_simp
qed

section \<open>Writing into a buffer\<close>

lemma copy_at_Cons: "0 < k \<Longrightarrow> copy_at k bs (x # xs) = x # copy_at (k - 1) bs xs"
  by (cases k) (simp_all add: copy_at_def)

lemma copy_at_skip: "length xs \<le> k \<Longrightarrow> copy_at k bs (xs @ ys) = xs @ copy_at (k - length xs) bs ys"
  by (simp add: copy_at_def)

lemma copy_at_here: "length xs = length bs \<Longrightarrow> copy_at 0 bs (xs @ ys) = bs @ ys"
  by (simp add: copy_at_def)

lemma copy_at_all: "length xs = length bs \<Longrightarrow> copy_at 0 bs xs = bs"
  by (simp add: copy_at_def)

lemma copy_two: "length bs = 2 \<Longrightarrow> copy_at 0 bs (x # y # ys) = bs @ ys"
  using copy_at_here [of "[x, y]" bs ys] by simp

lemma copy_four: "length bs = 4 \<Longrightarrow> copy_at 0 bs (a # b # c # d # ys) = bs @ ys"
  using copy_at_here [of "[a, b, c, d]" bs ys] by simp

lemma upd_Cons: "0 < k \<Longrightarrow> (x # xs)[k := v] = x # xs[k - 1 := v]"
  by (cases k) simp_all

lemma upd_here: "(x # xs)[0 := v] = v # xs"
  by simp

lemma upd_skip: "length xs \<le> k \<Longrightarrow> (xs @ ys)[k := v] = xs @ ys[k - length xs := v]"
  by (simp add: list_update_append)

lemmas copy_simps = copy_at_Cons copy_at_skip copy_two copy_four copy_at_all upd_Cons upd_here upd_skip

section \<open>The IPv4 error\<close>

definition v4_feedback_head :: "nat \<Rightarrow> bytes \<Rightarrow> u32 \<Rightarrow> u32 \<Rightarrow> bytes" where
  "v4_feedback_head n c source destination =
     [0x45, 0] @ to_be 2 (of_nat n :: u16) @ [0, 0, 0x40, 0, 64, 1] @ c @ to_be 4 destination @ to_be 4 source"

definition v4_feedback_body :: "feedback_kind \<Rightarrow> bytes \<Rightarrow> bytes \<Rightarrow> bytes" where
  "v4_feedback_body kind c quote =
     (case kind of PacketTooBig mtu \<Rightarrow> [3, 4] @ c @ [0, 0] @ to_be 2 (ipv4_mtu_field mtu)
      | Unreachable \<Rightarrow> [3, 1] @ c @ [0, 0, 0, 0]) @ quote"

lemma length_v4_feedback [simp]:
  "length c = 2 \<Longrightarrow> length (v4_feedback_head n c s d) = 20"
  "length c = 2 \<Longrightarrow> length (v4_feedback_body kind c q) = 8 + length q"
  by (simp_all add: v4_feedback_head_def v4_feedback_body_def split: feedback_kind.splits)

lemma zeros_28: "replicate (28 + q) (0 :: u8)
    = 0 # 0 # 0 # 0 # 0 # 0 # 0 # 0 # 0 # 0 # 0 # 0 # 0 # 0 # 0 # 0 # 0 # 0 # 0 # 0
      # 0 # 0 # 0 # 0 # 0 # 0 # 0 # 0 # replicate q 0"
  by (simp add: replicate_add eval_nat_numeral)

lemma ipv4_feedback_fields_split:
  "ipv4_feedback_fields kind source destination (28 + q)
    = v4_feedback_head (28 + q) [0, 0] source destination @ v4_feedback_body kind [0, 0] (replicate q 0)"
proof -
  have z: "to_be 2 (0x4000 :: u16) = [0x40, 0]" using to_be_16 [of "0x4000"] by simp
  show ?thesis
    unfolding ipv4_feedback_fields_def Let_def zeros_28 z
    by (cases kind) (simp_all add: copy_simps v4_feedback_head_def v4_feedback_body_def del: list_update.simps)
qed

lemma v4_feedback_body_quote:
  "length c = 2 \<Longrightarrow> copy_at 8 quote (v4_feedback_body kind c (replicate (length quote) 0)) = v4_feedback_body kind c quote"
  by (cases kind) (simp_all add: v4_feedback_body_def copy_at_Cons copy_at_skip copy_at_all)

lemma v4_feedback_checksum_fields:
  assumes "length c = 2"
  shows "copy_at 2 c (v4_feedback_body kind [0, 0] quote) = v4_feedback_body kind c quote"
    and "copy_at 10 c (v4_feedback_head n [0, 0] source destination) = v4_feedback_head n c source destination"
  using assms by (simp_all add: v4_feedback_body_def v4_feedback_head_def copy_at_Cons copy_at_skip copy_two
      split: feedback_kind.splits)

lemma copy_at_left: "k + length bs \<le> length xs \<Longrightarrow> copy_at k bs (xs @ ys) = copy_at k bs xs @ ys"
  by (simp add: copy_at_def)

lemma fill_ipv4_split:
  assumes "q \<le> length original"
  shows "fill_ipv4_feedback original kind source destination q
    = v4_feedback_head (28 + q) (to_be 2 (business_internet_checksum (v4_feedback_head (28 + q) [0, 0] source destination)))
        source destination
      @ v4_feedback_body kind (to_be 2 (business_internet_checksum (v4_feedback_body kind [0, 0] (take q original))))
          (take q original)"
proof -
  let ?quote = "take q original"
  have q: "length ?quote = q" using assms by simp
  have n: "20 + 8 + q = 28 + q" by simp
  have b: "copy_at 28 ?quote (v4_feedback_head (28 + q) c source destination @ v4_feedback_body kind d (replicate q 0))
      = v4_feedback_head (28 + q) c source destination @ v4_feedback_body kind d ?quote"
    if "length c = 2" "length d = 2" for c d
    using v4_feedback_body_quote [OF that(2), of ?quote kind] that q by (simp add: copy_at_skip)
  have d: "copy_at 22 d (v4_feedback_head (28 + q) c source destination @ v4_feedback_body kind [0, 0] ?quote)
      = v4_feedback_head (28 + q) c source destination @ v4_feedback_body kind d ?quote"
    if "length c = 2" "length d = 2" for c d
    using v4_feedback_checksum_fields(1) [OF that(2), of kind ?quote] that by (simp add: copy_at_skip)
  have c: "copy_at 10 c (v4_feedback_head (28 + q) [0, 0] source destination @ r)
      = v4_feedback_head (28 + q) c source destination @ r" if "length c = 2" for c r
    using v4_feedback_checksum_fields(2) [OF that, of "28 + q" source destination] that
    by (simp add: copy_at_left)
  show ?thesis
    by (simp add: fill_ipv4_feedback_def Let_def n ipv4_feedback_fields_split b d c)
qed

section \<open>The IPv6 error\<close>

definition v6_feedback_head :: "nat \<Rightarrow> 128 word \<Rightarrow> 128 word \<Rightarrow> bytes" where
  "v6_feedback_head n source destination =
     [0x60, 0, 0, 0] @ to_be 2 (of_nat n :: u16) @ [58, 64] @ to_be 16 destination @ to_be 16 source"

definition v6_feedback_body :: "feedback_kind \<Rightarrow> bytes \<Rightarrow> bytes \<Rightarrow> bytes" where
  "v6_feedback_body kind c quote =
     (case kind of PacketTooBig mtu \<Rightarrow> [2, 0] @ c @ to_be 4 mtu
      | Unreachable \<Rightarrow> [1, 0] @ c @ [0, 0, 0, 0]) @ quote"

lemma length_v6_feedback [simp]:
  "length (v6_feedback_head n s d) = 40"
  "length c = 2 \<Longrightarrow> length (v6_feedback_body kind c q) = 8 + length q"
  by (simp_all add: v6_feedback_head_def v6_feedback_body_def split: feedback_kind.splits)

lemma zeros_48: "replicate (40 + (8 + q)) (0 :: u8)
    = 0 # 0 # 0 # 0 # 0 # 0 # 0 # 0 # replicate 16 0 @ replicate 16 0
      @ 0 # 0 # 0 # 0 # 0 # 0 # 0 # 0 # replicate q 0"
proof -
  have "40 + (8 + q) = 8 + (16 + (16 + (8 + q)))" by simp
  then show ?thesis by (simp only: replicate_add) (simp add: eval_nat_numeral)
qed

lemma ipv6_feedback_fields_split:
  "ipv6_feedback_fields kind source destination (8 + q)
    = v6_feedback_head (8 + q) source destination @ v6_feedback_body kind [0, 0] (replicate q 0)"
  unfolding ipv6_feedback_fields_def Let_def zeros_48
  by (cases kind) (simp_all add: copy_simps copy_at_here v6_feedback_head_def v6_feedback_body_def
      del: list_update.simps)

lemma v6_feedback_writes:
  assumes "length c = 2"
  shows "copy_at 8 quote (v6_feedback_body kind c (replicate (length quote) 0)) = v6_feedback_body kind c quote"
    and "copy_at 2 c (v6_feedback_body kind [0, 0] quote) = v6_feedback_body kind c quote"
  using assms by (simp_all add: v6_feedback_body_def copy_at_Cons copy_at_skip copy_at_all copy_two
      split: feedback_kind.splits)

lemma fill_ipv6_split:
  assumes "q \<le> length original"
  shows "fill_ipv6_feedback original kind source destination q
    = v6_feedback_head (8 + q) source destination
      @ v6_feedback_body kind
          (to_be 2 (icmpv6_checksum destination source (v6_feedback_body kind [0, 0] (take q original))))
          (take q original)"
proof -
  let ?quote = "take q original" and ?h = "v6_feedback_head (8 + q) source destination"
  have q: "length ?quote = q" using assms by simp
  have b: "copy_at 48 ?quote (?h @ v6_feedback_body kind [0, 0] (replicate q 0)) = ?h @ v6_feedback_body kind [0, 0] ?quote"
    using v6_feedback_writes(1) [of "[0, 0]" ?quote kind] q by (simp add: copy_at_skip)
  have d: "copy_at 42 d (?h @ v6_feedback_body kind [0, 0] ?quote) = ?h @ v6_feedback_body kind d ?quote"
    if "length d = 2" for d
    using v6_feedback_writes(2) [OF that, of kind ?quote] by (simp add: copy_at_skip)
  show ?thesis
    by (simp add: fill_ipv6_feedback_def Let_def ipv6_feedback_fields_split b d)
qed

section \<open>The fields of an error\<close>

lemma v4_feedback_fields:
  fixes n c s d rest
  defines "p \<equiv> v4_feedback_head n c s d @ rest"
  assumes "length c = 2"
  shows "ipv4_new p = Inr p" and "ipv4_header_len p = 20" and "ipv4_total_len p = of_nat n"
    and "ipv4_protocol p = Icmp" and "ipv4_src_addr p = d" and "ipv4_dst_addr p = s" and "\<not> is_fragment p"
    and "p \<noteq> []" and "drop_bit 4 (p ! 0) = 4" and "take 20 p = v4_feedback_head n c s d"
proof -
  obtain x y where c: "c = [x, y]" using assms(2) by (cases c; cases "tl c") auto
  have "to_be 2 (0 :: u16) = [0, 0]" by (rule to_be_zero)
  moreover have "to_be 2 (0x4000 :: u16) = [0x40, 0]" using to_be_16 [of "0x4000"] by simp
  ultimately have p: "p = (echo_start (of_nat n) 0 @ x # y # to_be 4 d @ to_be 4 s) @ rest"
    by (simp add: p_def v4_feedback_head_def echo_start_def c)
  note f = echo_fields [of "of_nat n" 0 x y d s rest, folded p]
  from f show "ipv4_new p = Inr p" "ipv4_header_len p = 20" "ipv4_total_len p = of_nat n"
    "ipv4_protocol p = Icmp" "ipv4_src_addr p = d" "ipv4_dst_addr p = s" "\<not> is_fragment p" by simp_all
  show "p \<noteq> []" "drop_bit 4 (p ! 0) = 4" by (simp_all add: p_def v4_feedback_head_def)
  show "take 20 p = v4_feedback_head n c s d" using assms(2) by (simp add: p_def)
qed

lemma v6_feedback_fields:
  fixes n s d rest
  defines "p \<equiv> v6_feedback_head n s d @ rest"
  shows "ipv6_new p = Inr p" and "ipv6_payload_len p = of_nat n" and "ipv6_next_header p = 58"
    and "ipv6_src_addr p = d" and "ipv6_dst_addr p = s" and "p \<noteq> []" and "drop_bit 4 (p ! 0) = 6"
proof -
  have nth: "p ! 0 = 0x60" "p ! 6 = 58" by (simp_all add: p_def v6_feedback_head_def nth_append)
  then show "drop_bit 4 (p ! 0) = 6" "ipv6_next_header p = 58" by (simp_all add: ipv6_next_header_def)
  show "ipv6_new p = Inr p" using nth(1) by (simp add: ipv6_new_def version_nibble_def) (simp add: p_def)
  show "p \<noteq> []" by (simp add: p_def v6_feedback_head_def)
  show "ipv6_payload_len p = of_nat n"
    by (simp add: ipv6_payload_len_def be16_at_chunk p_def v6_feedback_head_def
        chunk_past chunk_append_skip chunk_0_append be16.dec_enc)
  have "chunk 8 16 p = to_be 16 d" "chunk 24 16 p = to_be 16 s"
    by (simp_all add: p_def v6_feedback_head_def chunk_past chunk_append_skip chunk_0_append)
  then show "ipv6_src_addr p = d" "ipv6_dst_addr p = s"
    by (simp_all add: ipv6_src_addr_def ipv6_dst_addr_def chunk_def be128.dec_enc)
qed

section \<open>What is published\<close>

lemma v4_sums:
  fixes n s d kind quote
  assumes "length quote \<le> 68"
  defines "hc \<equiv> to_be 2 (business_internet_checksum (v4_feedback_head n [0, 0] s d))"
    and "bc \<equiv> to_be 2 (business_internet_checksum (v4_feedback_body kind [0, 0] quote))"
  shows "fold_carries (sum_words 0 (v4_feedback_head n hc s d)) = 0xFFFF"
    and "compute_checksum (v4_feedback_body kind bc quote) = 0"
proof -
  let ?pre = "[0x45, 0] @ to_be 2 (of_nat n :: u16) @ [0, 0, 0x40, 0, 64, 1]"
  show "fold_carries (sum_words 0 (v4_feedback_head n hc s d)) = 0xFFFF"
    using stored_folds(1) [of ?pre "to_be 4 d @ to_be 4 s"]
    by (simp add: v4_feedback_head_def hc_def)
  show "compute_checksum (v4_feedback_body kind bc quote) = 0"
  proof (cases kind)
    case (PacketTooBig mtu)
    then show ?thesis
      using stored_folds(2) [of "[3, 4]" "[0, 0] @ to_be 2 (ipv4_mtu_field mtu) @ quote"] assms(1)
      by (simp add: v4_feedback_body_def bc_def)
  next
    case Unreachable
    then show ?thesis
      using stored_folds(2) [of "[3, 1]" "[0, 0, 0, 0] @ quote"] assms(1)
      by (simp add: v4_feedback_body_def bc_def)
  qed
qed

lemma build_ipv4_cases:
  assumes "build_ipv4_feedback original kind = Inr f"
  obtains q where "ipv4_new original = Inr original"
    and "q = min (unat (ipv4_total_len original)) (ipv4_header_len original + 8)"
    and "q \<le> length original" and "q \<le> 68"
    and "valid_ipv4_feedback_pair (ipv4_src_addr original) (ipv4_dst_addr original)"
    and "f = fill_ipv4_feedback original kind (ipv4_src_addr original) (ipv4_dst_addr original) q"
proof -
  obtain packet where p: "ipv4_new original = Inr packet"
    using assms by (auto simp: build_ipv4_feedback_def split: sum.splits)
  then have o: "packet = original" by (auto simp: ipv4_new_def Let_def split: if_splits)
  have "unat (original ! 0 AND 0x0F) \<le> 15"
    using word_and_le1 [of "original ! 0" "0x0F"] by (simp add: word_le_nat_alt)
  then have h: "ipv4_header_len original \<le> 60" by (simp add: ipv4_header_len_def)
  let ?q = "min (unat (ipv4_total_len original)) (ipv4_header_len original + 8)"
  have "unat (ipv4_total_len original) \<le> length original
      \<and> valid_ipv4_feedback_pair (ipv4_src_addr original) (ipv4_dst_addr original)
      \<and> f = fill_ipv4_feedback original kind (ipv4_src_addr original) (ipv4_dst_addr original) ?q"
    using assms p unfolding o build_ipv4_feedback_def Let_def
    by (simp split: if_splits)
  then show thesis using that [of ?q] p o h by (auto simp: min_le_iff_disj)
qed

text \<open>An accepted pair of addresses is accepted in the other order too.\<close>

lemma valid_pair_swap:
  "valid_ipv4_feedback_pair s d = valid_ipv4_feedback_pair d s"
  "valid_ipv6_feedback_pair s' d' = valid_ipv6_feedback_pair d' s'"
  by (auto simp: valid_ipv4_feedback_pair_def valid_ipv6_feedback_pair_def)

lemma build_version:
  assumes "build_local_mtu_feedback original kind = Inr f"
  shows "(drop_bit 4 (original ! 0) = 4 \<and> build_ipv4_feedback original kind = Inr f)
    \<or> (drop_bit 4 (original ! 0) = 6 \<and> build_ipv6_feedback original kind = Inr f)"
  using assms by (auto simp: build_local_mtu_feedback_def Let_def split: if_splits)

lemma v4_feedback_shape:
  assumes "build_ipv4_feedback original kind = Inr f"
  obtains q hc bc where "f = v4_feedback_head (28 + q) hc (ipv4_src_addr original) (ipv4_dst_addr original)
        @ v4_feedback_body kind bc (take q original)"
    and "length hc = 2" and "length bc = 2" and "q \<le> length original" and "q \<le> 68"
    and "q = min (unat (ipv4_total_len original)) (ipv4_header_len original + 8)"
    and "valid_ipv4_feedback_pair (ipv4_src_addr original) (ipv4_dst_addr original)"
    and "fold_carries (sum_words 0 (v4_feedback_head (28 + q) hc (ipv4_src_addr original) (ipv4_dst_addr original))) = 0xFFFF"
    and "compute_checksum (v4_feedback_body kind bc (take q original)) = 0"
proof -
  from build_ipv4_cases [OF assms] obtain q where
    q: "q = min (unat (ipv4_total_len original)) (ipv4_header_len original + 8)"
      "q \<le> length original" "q \<le> 68" "valid_ipv4_feedback_pair (ipv4_src_addr original) (ipv4_dst_addr original)"
      "f = fill_ipv4_feedback original kind (ipv4_src_addr original) (ipv4_dst_addr original) q" by blast
  have l: "length (take q original) \<le> 68" using q(3) by simp
  show thesis
    by (rule that [OF _ _ _ q(2,3,1,4) v4_sums(1) [OF l] v4_sums(2) [OF l]])
      (simp_all add: q(5) fill_ipv4_split [OF q(2)])
qed

lemma mtu_feedback_ipv4_facts:
  assumes "build_local_mtu_feedback original kind = Inr f" and "drop_bit 4 (original ! 0) = 4"
  shows "f \<noteq> [] \<and> drop_bit 4 (f ! 0) = 4 \<and> ipv4_new f = Inr f \<and> ipv4_header_len f = 20
    \<and> ip_new f = Inr (V4 f) \<and> verify_checksum f \<and> compute_checksum (ipv4_payload f) = 0
    \<and> unat (ipv4_total_len f) = length f \<and> length f \<le> 96 \<and> \<not> is_fragment f
    \<and> ipv4_src_addr f = ipv4_dst_addr original \<and> ipv4_dst_addr f = ipv4_src_addr original
    \<and> ipv4_protocol f = Icmp
    \<and> take 2 (ipv4_payload f) = (case kind of PacketTooBig mtu \<Rightarrow> [3, 4] | Unreachable \<Rightarrow> [3, 1])
    \<and> be16_at (ipv4_payload f) 6 = (case kind of PacketTooBig mtu \<Rightarrow> ipv4_mtu_field mtu | Unreachable \<Rightarrow> 0)
    \<and> drop 8 (ipv4_payload f) = take (min (unat (ipv4_total_len original)) (ipv4_header_len original + 8)) original"
proof -
  from assms build_version [OF assms(1)] have b: "build_ipv4_feedback original kind = Inr f" by auto
  from v4_feedback_shape [OF b] obtain q hc bc where
    f: "f = v4_feedback_head (28 + q) hc (ipv4_src_addr original) (ipv4_dst_addr original)
        @ v4_feedback_body kind bc (take q original)" and l: "length hc = 2" "length bc = 2" "q \<le> length original" "q \<le> 68"
    and q: "q = min (unat (ipv4_total_len original)) (ipv4_header_len original + 8)"
    and s: "fold_carries (sum_words 0 (v4_feedback_head (28 + q) hc (ipv4_src_addr original) (ipv4_dst_addr original))) = 0xFFFF"
      "compute_checksum (v4_feedback_body kind bc (take q original)) = 0" by blast
  note fields = v4_feedback_fields [OF l(1), of "28 + q" "ipv4_src_addr original" "ipv4_dst_addr original"
      "v4_feedback_body kind bc (take q original)", folded f]
  have len: "length f = 28 + q" using l by (simp add: f)
  have n: "unat (of_nat (28 + q) :: u16) = 28 + q" using l(4) by (simp only: unat_of_nat) simp
  have body: "ipv4_payload f = v4_feedback_body kind bc (take q original)"
    using fields(2,3) n len l by (simp add: ipv4_payload_def) (simp add: f)
  have "take 2 (ipv4_payload f) = (case kind of PacketTooBig mtu \<Rightarrow> [3, 4] | Unreachable \<Rightarrow> [3, 1])"
    and "drop 8 (ipv4_payload f) = take q original"
    using l by (simp_all add: body v4_feedback_body_def split: feedback_kind.splits)
  moreover have "be16_at (ipv4_payload f) 6
      = (case kind of PacketTooBig mtu \<Rightarrow> ipv4_mtu_field mtu | Unreachable \<Rightarrow> 0)"
    using l be16.dec_enc [of 0]
    by (simp add: be16_at_chunk body)
      (simp add: v4_feedback_body_def chunk_past chunk_append_skip chunk_0_append be16.dec_enc to_be_zero
        chunk_def [of 0] split: feedback_kind.splits)
  moreover have "ip_new f = Inr (V4 f)"
    using fields(1,8) by (auto simp: ip_new_def ipv4_new_def split: if_splits)
  moreover have "verify_checksum f"
    using fields(2,10) s(1) len by (simp add: verify_checksum_def)
  ultimately show ?thesis using fields n len l(4) s(2) body q by simp
qed

lemma build_ipv6_cases:
  assumes "build_ipv6_feedback original kind = Inr f"
  obtains q where "q = min (ipv6_total_len original) 1232" and "q \<le> length original"
    and "valid_ipv6_feedback_pair (ipv6_src_addr original) (ipv6_dst_addr original)"
    and "\<forall>mtu. kind = PacketTooBig mtu \<longrightarrow> 1280 \<le> unat mtu"
    and "f = fill_ipv6_feedback original kind (ipv6_src_addr original) (ipv6_dst_addr original) q"
proof -
  obtain packet where p: "ipv6_new original = Inr packet"
    using assms by (auto simp: build_ipv6_feedback_def split: sum.splits)
  then have o: "packet = original" by (auto simp: ipv6_new_def split: if_splits)
  let ?q = "min (ipv6_total_len original) 1232"
  have "ipv6_total_len original \<le> length original
      \<and> valid_ipv6_feedback_pair (ipv6_src_addr original) (ipv6_dst_addr original)
      \<and> (\<forall>mtu. kind = PacketTooBig mtu \<longrightarrow> 1280 \<le> unat mtu)
      \<and> f = fill_ipv6_feedback original kind (ipv6_src_addr original) (ipv6_dst_addr original) ?q"
    using assms p unfolding o build_ipv6_feedback_def Let_def IPV6_MINIMUM_MTU_def
    by (simp add: word_less_nat_alt not_less split: if_splits feedback_kind.splits)
  then show thesis using that [of ?q] by (auto simp: min_le_iff_disj)
qed

lemma v6_sums:
  fixes s d kind quote
  assumes "length quote \<le> 1232"
  defines "bc \<equiv> to_be 2 (icmpv6_checksum d s (v6_feedback_body kind [0, 0] quote))"
  shows "icmpv6_checksum d s (v6_feedback_body kind bc quote) = 0"
proof -
  obtain t rest where k: "v6_feedback_body kind c quote = [t, 0] @ c @ rest" and l: "length rest = 4 + length quote" for c
  proof (cases kind)
    case (PacketTooBig mtu)
    then show thesis by (intro that [of 2 "to_be 4 mtu @ quote"]) (simp_all add: v6_feedback_body_def)
  next
    case Unreachable
    then show thesis by (intro that [of 1 "[0, 0, 0, 0] @ quote"]) (simp_all add: v6_feedback_body_def)
  qed
  let ?pre = "(to_be 16 d @ to_be 16 s @ to_be 4 (of_nat (8 + length quote) :: u32)) @ [0, 0, 0, 58] @ [t, 0]"
  have pos: "0 < word_sum (?pre @ xs)" for xs
    by (simp only: append_assoc word_sum_append [of "to_be 16 d"] word_sum_append [of "to_be 16 s"]
        word_sum_append [of "to_be 4 _"] length_to_be even_numeral) simp
  have e: "icmpv6_checksum d s (v6_feedback_body kind c quote) = business_internet_checksum (?pre @ c @ rest)"
    if "length c = 2" for c
    using that l by (simp add: icmpv6_checksum_def k)
  have "compute_checksum (?pre @ to_be 2 (business_internet_checksum (?pre @ [0, 0] @ rest)) @ rest) = 0"
    by (rule stored_folds(2)) (use assms(1) l pos in auto)
  then show ?thesis
    using assms(1) l by (simp only: bc_def e length_to_be) (simp add: e business_checksum_eq)
qed

lemma mtu_feedback_ipv6_facts:
  assumes "build_local_mtu_feedback original kind = Inr f" and "drop_bit 4 (original ! 0) = 6"
  shows "f \<noteq> [] \<and> drop_bit 4 (f ! 0) = 6 \<and> ipv6_new f = Inr f
    \<and> ip_new f = Inr (V6 f) \<and> ipv6_total_len f = length f \<and> length f \<le> 1280
    \<and> ipv6_src_addr f = ipv6_dst_addr original \<and> ipv6_dst_addr f = ipv6_src_addr original
    \<and> ipv6_next_header f = 58
    \<and> icmpv6_checksum (ipv6_src_addr f) (ipv6_dst_addr f) (ipv6_payload f) = 0
    \<and> take 2 (ipv6_payload f) = (case kind of PacketTooBig mtu \<Rightarrow> [2, 0] | Unreachable \<Rightarrow> [1, 0])
    \<and> chunk 4 4 (ipv6_payload f) = (case kind of PacketTooBig mtu \<Rightarrow> to_be 4 mtu | Unreachable \<Rightarrow> [0, 0, 0, 0])
    \<and> drop 8 (ipv6_payload f) = take (min (ipv6_total_len original) 1232) original"
proof -
  from assms build_version [OF assms(1)] have b: "build_ipv6_feedback original kind = Inr f" by auto
  let ?s = "ipv6_src_addr original" and ?d = "ipv6_dst_addr original"
  from build_ipv6_cases [OF b] obtain q where q: "q = min (ipv6_total_len original) 1232" "q \<le> length original"
    and fill: "f = fill_ipv6_feedback original kind ?s ?d q" by blast
  define bc where "bc = to_be 2 (icmpv6_checksum ?d ?s (v6_feedback_body kind [0, 0] (take q original)))"
  have l: "length bc = 2" by (simp add: bc_def)
  have f: "f = v6_feedback_head (8 + q) ?s ?d @ v6_feedback_body kind bc (take q original)"
    by (simp add: fill fill_ipv6_split [OF q(2)] bc_def)
  note fields = v6_feedback_fields [of "8 + q" ?s ?d "v6_feedback_body kind bc (take q original)", folded f]
  have len: "length f = 48 + q" using l q(2) by (simp add: f)
  have n: "unat (of_nat (8 + q) :: u16) = 8 + q" using q(1) by (simp only: unat_of_nat) simp
  have body: "ipv6_payload f = v6_feedback_body kind bc (take q original)"
    using fields(2) n len l q(2) by (simp add: ipv6_payload_def ipv6_total_len_def) (simp add: f)
  have "icmpv6_checksum ?d ?s (ipv6_payload f) = 0"
    unfolding body bc_def by (rule v6_sums) (use q(1) in simp)
  moreover have "take 2 (ipv6_payload f) = (case kind of PacketTooBig mtu \<Rightarrow> [2, 0] | Unreachable \<Rightarrow> [1, 0])"
    and "chunk 4 4 (ipv6_payload f) = (case kind of PacketTooBig mtu \<Rightarrow> to_be 4 mtu | Unreachable \<Rightarrow> [0, 0, 0, 0])"
    and "drop 8 (ipv6_payload f) = take q original"
    using l by (simp_all add: body v6_feedback_body_def chunk_past chunk_append_skip chunk_0_append chunk_def
        split: feedback_kind.splits)
  moreover have "ip_new f = Inr (V6 f)"
    using fields(1,6) by (auto simp: ip_new_def ipv6_new_def split: if_splits)
  ultimately show ?thesis using fields n len q(1) by (simp add: ipv6_total_len_def)
qed

text \<open>
  C33: The feedback on an IPv4 packet is a well-formed ICMP error from its destination to its
  source, at most 96 bytes with both checksums right, with the type, code and clamped MTU of the
  reason and the header and eight bytes of the original behind it.
\<close>
theorem mtu_feedback_ipv4_error:
  assumes "build_local_mtu_feedback original kind = Inr f" and "drop_bit 4 (original ! 0) = 4"
  shows "ip_new f = Inr (V4 f) \<and> verify_checksum f \<and> compute_checksum (ipv4_payload f) = 0
    \<and> unat (ipv4_total_len f) = length f \<and> length f \<le> 96 \<and> \<not> is_fragment f
    \<and> ipv4_src_addr f = ipv4_dst_addr original \<and> ipv4_dst_addr f = ipv4_src_addr original
    \<and> ipv4_protocol f = Icmp
    \<and> take 2 (ipv4_payload f) = (case kind of PacketTooBig mtu \<Rightarrow> [3, 4] | Unreachable \<Rightarrow> [3, 1])
    \<and> be16_at (ipv4_payload f) 6 = (case kind of PacketTooBig mtu \<Rightarrow> ipv4_mtu_field mtu | Unreachable \<Rightarrow> 0)
    \<and> drop 8 (ipv4_payload f) = take (min (unat (ipv4_total_len original)) (ipv4_header_len original + 8)) original"
  using mtu_feedback_ipv4_facts [OF assms] by blast

text \<open>
  The feedback on an IPv6 packet is a well-formed ICMPv6 error from its destination to its
  source within 1280 bytes, its checksum over the pseudo-header right, the original quoted.
\<close>
theorem mtu_feedback_ipv6_error:
  assumes "build_local_mtu_feedback original kind = Inr f" and "drop_bit 4 (original ! 0) = 6"
  shows "ip_new f = Inr (V6 f) \<and> ipv6_total_len f = length f \<and> length f \<le> 1280
    \<and> ipv6_src_addr f = ipv6_dst_addr original \<and> ipv6_dst_addr f = ipv6_src_addr original
    \<and> ipv6_next_header f = 58
    \<and> icmpv6_checksum (ipv6_src_addr f) (ipv6_dst_addr f) (ipv6_payload f) = 0
    \<and> take 2 (ipv6_payload f) = (case kind of PacketTooBig mtu \<Rightarrow> [2, 0] | Unreachable \<Rightarrow> [1, 0])
    \<and> chunk 4 4 (ipv6_payload f) = (case kind of PacketTooBig mtu \<Rightarrow> to_be 4 mtu | Unreachable \<Rightarrow> [0, 0, 0, 0])
    \<and> drop 8 (ipv6_payload f) = take (min (ipv6_total_len original) 1232) original"
  using mtu_feedback_ipv6_facts [OF assms] by blast

lemma mtu_feedback_never_answered:
  assumes "build_local_mtu_feedback original kind = Inr f"
  shows "build_local_mtu_feedback f kind' = Inl RecursiveIcmpError"
  using build_version [OF assms]
proof
  assume "drop_bit 4 (original ! 0) = 4 \<and> build_ipv4_feedback original kind = Inr f"
  then have v: "drop_bit 4 (original ! 0) = 4" and b: "build_ipv4_feedback original kind = Inr f" by simp_all
  note e = mtu_feedback_ipv4_facts [OF assms v]
  from build_ipv4_cases [OF b] have "valid_ipv4_feedback_pair (ipv4_src_addr f) (ipv4_dst_addr f)"
    using e valid_pair_swap(1) by metis
  moreover obtain c rest where "ipv4_payload f = 3 # c # rest"
    using e by (cases "ipv4_payload f"; cases "tl (ipv4_payload f)") (auto split: feedback_kind.splits)
  moreover have "20 \<le> length f" using e by (auto simp: ipv4_new_def split: if_splits)
  ultimately show ?thesis
    using e by (simp add: build_local_mtu_feedback_def build_ipv4_feedback_def Let_def first_in_def)
next
  assume "drop_bit 4 (original ! 0) = 6 \<and> build_ipv6_feedback original kind = Inr f"
  then have v: "drop_bit 4 (original ! 0) = 6" and b: "build_ipv6_feedback original kind = Inr f" by simp_all
  note e = mtu_feedback_ipv6_facts [OF assms v]
  from build_ipv6_cases [OF b] have "valid_ipv6_feedback_pair (ipv6_src_addr f) (ipv6_dst_addr f)"
    using e valid_pair_swap(2) by metis
  moreover obtain t c rest where "ipv6_payload f = t # c # rest" "t < 128"
    using e by (cases "ipv6_payload f"; cases "tl (ipv6_payload f)") (auto split: feedback_kind.splits)
  ultimately show ?thesis
    using e by (simp add: build_local_mtu_feedback_def build_ipv6_feedback_def Let_def first_in_def)
qed

end
