(* ===== verification/Mtu_Limiter.thy ===== *)
theory Mtu_Limiter
  imports Mtu_Feedback_Props
begin

text \<open>
  The limiter of the feedback packets: what it keeps, how many peers and instants it remembers,
  and its rate.
\<close>

section \<open>What the limiter keeps\<close>

definition sent_of :: "feedback_limiter \<Rightarrow> string \<Rightarrow> instant list" where
  "sent_of l p = (case map_of (fl_peers l) p of None \<Rightarrow> [] | Some sent \<Rightarrow> sent)"

definition limiter_inv :: "feedback_limiter \<Rightarrow> bool" where
  "limiter_inv l \<longleftrightarrow> distinct (map fst (fl_peers l)) \<and> distinct (fl_order l)
     \<and> set (fl_order l) = fst ` set (fl_peers l) \<and> length (fl_peers l) \<le> MAX_LOCAL_MTU_FEEDBACK_PEERS
     \<and> (\<forall>p. length (sent_of l p) \<le> LOCAL_MTU_FEEDBACK_RATE_PER_PEER)"

lemma tracked_iff: "tracked peers p \<longleftrightarrow> p \<in> fst ` set peers"
  by (auto simp: tracked_def map_of_eq_None_iff)

lemma map_of_retain:
  "distinct (map fst peers) \<Longrightarrow> map_of (retain_sent now peers) p
    = (case map_of peers p of None \<Rightarrow> None
       | Some sent \<Rightarrow> (let sent' = prune LOCAL_MTU_FEEDBACK_WINDOW now sent in if sent' = [] then None else Some sent'))"
proof (induction peers)
  case Nil
  then show ?case by (simp add: retain_sent_def)
next
  case (Cons x peers)
  obtain q sent where x: "x = (q, sent)" by (cases x)
  have n: "map_of (retain_sent now peers) q = None" if "q \<notin> fst ` set peers"
    using that by (force simp: map_of_eq_None_iff retain_sent_def)
  from Cons show ?case using n by (auto simp: x retain_sent_def Let_def)
qed

lemma retain_keys:
  "fst ` set (retain_sent now peers) \<subseteq> fst ` set peers" "length (retain_sent now peers) \<le> length peers"
  "distinct (map fst peers) \<Longrightarrow> distinct (map fst (retain_sent now peers))"
proof -
  have k: "map fst (map (\<lambda>(p, sent). (p, prune LOCAL_MTU_FEEDBACK_WINDOW now sent)) peers) = map fst peers"
    by (induction peers) auto
  show "fst ` set (retain_sent now peers) \<subseteq> fst ` set peers" by (force simp: retain_sent_def)
  show "length (retain_sent now peers) \<le> length peers"
    using length_filter_le [of "\<lambda>(p, sent). sent \<noteq> []"] by (fastforce simp: retain_sent_def)
  show "distinct (map fst peers) \<Longrightarrow> distinct (map fst (retain_sent now peers))"
    unfolding retain_sent_def using k by (metis distinct_map_filter)
qed

lemma window_retain_sent:
  assumes "distinct (map fst peers)"
  shows "(case map_of (retain_sent now peers) p of None \<Rightarrow> [] | Some sent \<Rightarrow> sent)
    = prune LOCAL_MTU_FEEDBACK_WINDOW now (case map_of peers p of None \<Rightarrow> [] | Some sent \<Rightarrow> sent)"
  by (cases "map_of peers p") (simp_all add: map_of_retain [OF assms] Let_def prune_def eq_commute [of "[]"])

section \<open>Eviction\<close>

lemma evict_oldest_spec:
  assumes "distinct (map fst peers)" and "distinct order" and "set order = fst ` set peers"
  shows "case evict_oldest peers order of (room, peers', order') \<Rightarrow>
    room \<and> length peers' < MAX_LOCAL_MTU_FEEDBACK_PEERS \<and> distinct (map fst peers') \<and> distinct order'
    \<and> set order' = fst ` set peers' \<and> fst ` set peers' \<subseteq> fst ` set peers
    \<and> (\<forall>p. map_of peers' p = None \<or> map_of peers' p = map_of peers p)
    \<and> (length peers < MAX_LOCAL_MTU_FEEDBACK_PEERS \<longrightarrow> peers' = peers \<and> order' = order)"
  using assms
proof (induction peers order rule: evict_oldest.induct)
  case (1 peers)
  then have "peers = []" by simp
  then show ?case by (simp add: MAX_LOCAL_MTU_FEEDBACK_PEERS_def)
next
  case (2 peers oldest order)
  show ?case
  proof (cases "MAX_LOCAL_MTU_FEEDBACK_PEERS \<le> length peers")
    case True
    have "set (map fst (AList.delete oldest peers)) = set (map fst peers) - {oldest}"
      by (simp only: AList.delete_keys set_removeAll)
    then have keys: "fst ` set (AList.delete oldest peers) = fst ` set peers - {oldest}" by simp
    have d: "distinct (map fst (AList.delete oldest peers))" by (rule AList.distinct_delete [OF 2(2)])
    have s: "fst ` set (AList.delete oldest peers) \<subseteq> fst ` set peers" using keys by blast
    have o: "set order = fst ` set (AList.delete oldest peers)" using keys 2(3,4) by auto
    have m: "map_of (AList.delete oldest peers) p = None \<or> map_of (AList.delete oldest peers) p = map_of peers p" for p
      by (simp add: AList.delete_conv')
    obtain room peers' order' where e: "evict_oldest (AList.delete oldest peers) order = (room, peers', order')"
      by (cases "evict_oldest (AList.delete oldest peers) order")
    have "distinct order" using 2(3) by simp
    from 2(1) [OF True d this o] have r: "room" "length peers' < MAX_LOCAL_MTU_FEEDBACK_PEERS"
        "distinct (map fst peers')" "distinct order'" "set order' = fst ` set peers'"
        "fst ` set peers' \<subseteq> fst ` set (AList.delete oldest peers)"
        "\<forall>p. map_of peers' p = None \<or> map_of peers' p = map_of (AList.delete oldest peers) p"
      by (simp_all add: e)
    have "map_of peers' p = None \<or> map_of peers' p = map_of peers p" for p
      using r(7) [rule_format, of p] m [of p] by metis
    moreover have "evict_oldest peers (oldest # order) = (room, peers', order')" using True e by simp
    ultimately show ?thesis using r(1-5) subset_trans [OF r(6) s] True by simp
  next
    case False
    with 2 show ?thesis by auto
  qed
qed

section \<open>One admission\<close>

definition fresh_sent :: "instant \<Rightarrow> feedback_limiter \<Rightarrow> string \<Rightarrow> instant list" where
  "fresh_sent now l p = prune LOCAL_MTU_FEEDBACK_WINDOW now (sent_of l p)"

lemma make_room_spec:
  assumes "limiter_inv l"
  obtains peers order where "make_room p now l = (True, peers, order)"
    and "distinct (map fst peers)" and "distinct order" and "set order = insert p (fst ` set peers)"
    and "p \<in> fst ` set peers \<and> length peers \<le> MAX_LOCAL_MTU_FEEDBACK_PEERS
      \<or> p \<notin> fst ` set peers \<and> length peers < MAX_LOCAL_MTU_FEEDBACK_PEERS"
    and "fst ` set peers \<subseteq> fst ` set (fl_peers l)"
    and "map_of peers p = map_of (retain_sent now (fl_peers l)) p"
    and "\<And>q. map_of peers q = None \<or> map_of peers q = map_of (retain_sent now (fl_peers l)) q"
    and "length (retain_sent now (fl_peers l)) < MAX_LOCAL_MTU_FEEDBACK_PEERS \<or> p \<in> fst ` set peers \<Longrightarrow>
      peers = retain_sent now (fl_peers l)"
proof -
  let ?peers = "retain_sent now (fl_peers l)" and ?order = "filter (tracked (retain_sent now (fl_peers l))) (fl_order l)"
  from assms have i: "distinct (map fst (fl_peers l))" "distinct (fl_order l)" "set (fl_order l) = fst ` set (fl_peers l)"
    "length (fl_peers l) \<le> MAX_LOCAL_MTU_FEEDBACK_PEERS" by (simp_all add: limiter_inv_def)
  have k: "fst ` set ?peers \<subseteq> fst ` set (fl_peers l)" "length ?peers \<le> length (fl_peers l)" "distinct (map fst ?peers)"
    using retain_keys i(1) by auto
  have r: "distinct ?order" "set ?order = fst ` set ?peers"
    using i(2,3) k(1) by (auto simp: tracked_iff)
  show thesis
  proof (cases "tracked ?peers p")
    case True
    then have "make_room p now l = (True, ?peers, ?order)" by (simp add: make_room_def Let_def)
    then show thesis
      by (rule that) (use True k r i(4) in \<open>auto simp: tracked_iff\<close>)
  next
    case False
    obtain room peers order where e: "evict_oldest ?peers ?order = (room, peers, order)" by (cases "evict_oldest ?peers ?order")
    from evict_oldest_spec [OF k(3) r] e have s: "room" "length peers < MAX_LOCAL_MTU_FEEDBACK_PEERS"
        "distinct (map fst peers)" "distinct order" "set order = fst ` set peers" "fst ` set peers \<subseteq> fst ` set ?peers"
        "\<forall>q. map_of peers q = None \<or> map_of peers q = map_of ?peers q"
        "length ?peers < MAX_LOCAL_MTU_FEEDBACK_PEERS \<longrightarrow> peers = ?peers" by simp_all
    from False s(6) have p: "p \<notin> fst ` set peers" "p \<notin> fst ` set ?peers" by (auto simp: tracked_iff)
    have "make_room p now l = (True, peers, order @ [p])" using False e s(1) by (simp add: make_room_def Let_def)
    then show thesis
    proof (rule that)
      show "distinct (order @ [p])" "set (order @ [p]) = insert p (fst ` set peers)" using s(4,5) p by simp_all
      show "map_of peers p = map_of ?peers p" using p by (simp add: map_of_eq_None_iff [symmetric])
      show "fst ` set peers \<subseteq> fst ` set (fl_peers l)" using s(6) k(1) by blast
      show "p \<in> fst ` set peers \<and> length peers \<le> MAX_LOCAL_MTU_FEEDBACK_PEERS
          \<or> p \<notin> fst ` set peers \<and> length peers < MAX_LOCAL_MTU_FEEDBACK_PEERS" using p s(2) by simp
      show "map_of peers q = None \<or> map_of peers q = map_of ?peers q" for q using s(7) by blast
      show "length ?peers < MAX_LOCAL_MTU_FEEDBACK_PEERS \<or> p \<in> fst ` set peers \<Longrightarrow> peers = ?peers"
        using s(8) p k(2) by auto
    qed (use s(3) in blast)
  qed
qed

lemma admit_feedback_spec:
  fixes p q :: string and now :: instant
  assumes inv: "limiter_inv l"
  defines "room \<equiv> length (fresh_sent now l p) < LOCAL_MTU_FEEDBACK_RATE_PER_PEER"
    and "l' \<equiv> snd (admit_feedback p now l)"
  shows "fst (admit_feedback p now l) \<longleftrightarrow> room"
    and "limiter_inv l'"
    and "sent_of l' p = fresh_sent now l p @ (if room then [now] else [])"
    and "q \<noteq> p \<Longrightarrow> sent_of l' q = [] \<or> sent_of l' q = fresh_sent now l q"
    and "fst ` set (fl_peers l') \<subseteq> insert p (fst ` set (fl_peers l))"
    and "q \<noteq> p \<Longrightarrow> length (retain_sent now (fl_peers l)) < MAX_LOCAL_MTU_FEEDBACK_PEERS \<or> p \<in> fst ` set (retain_sent now (fl_peers l))
      \<Longrightarrow> sent_of l' q = fresh_sent now l q"
proof -
  from make_room_spec [OF inv, of p now] obtain peers order where m: "make_room p now l = (True, peers, order)"
    and d: "distinct (map fst peers)" "distinct order" "set order = insert p (fst ` set peers)"
    and n: "p \<in> fst ` set peers \<and> length peers \<le> MAX_LOCAL_MTU_FEEDBACK_PEERS
      \<or> p \<notin> fst ` set peers \<and> length peers < MAX_LOCAL_MTU_FEEDBACK_PEERS"
    and k: "fst ` set peers \<subseteq> fst ` set (fl_peers l)"
    and o: "map_of peers p = map_of (retain_sent now (fl_peers l)) p"
      "\<And>q. map_of peers q = None \<or> map_of peers q = map_of (retain_sent now (fl_peers l)) q"
      "length (retain_sent now (fl_peers l)) < MAX_LOCAL_MTU_FEEDBACK_PEERS \<or> p \<in> fst ` set peers \<Longrightarrow> peers = retain_sent now (fl_peers l)"
    by metis
  let ?sent = "case map_of peers p of None \<Rightarrow> [] | Some sent \<Rightarrow> sent"
  have dl: "distinct (map fst (fl_peers l))" using inv by (simp add: limiter_inv_def)
  have f: "(case map_of (retain_sent now (fl_peers l)) q of None \<Rightarrow> [] | Some sent \<Rightarrow> sent) = fresh_sent now l q" for q
    using window_retain_sent [OF dl, of now q] by (simp add: fresh_sent_def sent_of_def)
  then have s: "?sent = fresh_sent now l p" by (simp add: o(1))
  have r: "admit_feedback p now l = (room, \<lparr>fl_peers = AList.update p (?sent @ (if room then [now] else [])) peers, fl_order = order\<rparr>)"
    by (simp add: admit_feedback_def m Let_def s room_def not_le)
  then show "fst (admit_feedback p now l) \<longleftrightarrow> room" by simp
  have l': "l' = \<lparr>fl_peers = AList.update p (?sent @ (if room then [now] else [])) peers, fl_order = order\<rparr>"
    by (simp add: l'_def r)
  have sp: "sent_of l' q = (if q = p then fresh_sent now l p @ (if room then [now] else [])
      else case map_of peers q of None \<Rightarrow> [] | Some sent \<Rightarrow> sent)" for q
    by (simp add: l' sent_of_def AList.update_conv' s)
  then show "sent_of l' p = fresh_sent now l p @ (if room then [now] else [])" by simp
  show one: "q \<noteq> p \<Longrightarrow> sent_of l' q = [] \<or> sent_of l' q = fresh_sent now l q" for q
    using o(2) [of q] f [of q] by (auto simp: sp)
  show "fst ` set (fl_peers l') \<subseteq> insert p (fst ` set (fl_peers l))"
    using k by (auto simp: l' AList.dom_update)
  have "p \<in> fst ` set peers" if "p \<in> fst ` set (retain_sent now (fl_peers l))"
  proof -
    have "map_of peers p \<noteq> None" using that o(1) by (simp add: map_of_eq_None_iff)
    then show ?thesis by (simp add: map_of_eq_None_iff)
  qed
  then show "q \<noteq> p \<Longrightarrow> length (retain_sent now (fl_peers l)) < MAX_LOCAL_MTU_FEEDBACK_PEERS \<or> p \<in> fst ` set (retain_sent now (fl_peers l))
      \<Longrightarrow> sent_of l' q = fresh_sent now l q"
    using o(3) f [of q] by (auto simp: sp)
  have "length (fl_peers l') \<le> MAX_LOCAL_MTU_FEEDBACK_PEERS"
  proof -
    have "length (fl_peers l') = card (insert p (fst ` set peers))"
      using distinct_card [of "map fst (fl_peers l')"] AList.distinct_update [OF d(1)]
      by (simp add: l' AList.dom_update)
    moreover have "card (fst ` set peers) = length peers" using distinct_card [OF d(1)] by simp
    moreover have "finite (fst ` set peers)" by simp
    ultimately show ?thesis using n by (cases "p \<in> fst ` set peers") (simp_all add: insert_absorb)
  qed
  moreover have "length (sent_of l' q) \<le> LOCAL_MTU_FEEDBACK_RATE_PER_PEER" for q
  proof -
    have "length (fresh_sent now l q) \<le> LOCAL_MTU_FEEDBACK_RATE_PER_PEER" for q
      using inv length_prune [of LOCAL_MTU_FEEDBACK_WINDOW now "sent_of l q"]
      unfolding limiter_inv_def fresh_sent_def by (meson le_trans)
    then show ?thesis
      using one [of q] by (cases "q = p") (auto simp: sp room_def)
  qed
  ultimately show "limiter_inv l'"
    using d AList.distinct_update [OF d(1)] by (simp add: limiter_inv_def) (simp add: l' AList.dom_update)
qed

section \<open>The rate\<close>

text \<open>
  Requests of a set of peers. When the set has at most as many peers as the limiter can track,
  no peer is ever evicted and the limiter keeps its rate.
\<close>

type_synonym feedback_request = "string \<times> instant"

definition feedback_step :: "string set \<Rightarrow> feedback_limiter \<Rightarrow> feedback_request \<Rightarrow> feedback_limiter" where
  "feedback_step P l e = (if fst e \<in> P then snd (admit_feedback (fst e) (snd e) l) else l)"

definition feedback_charges :: "string set \<Rightarrow> feedback_limiter \<Rightarrow> feedback_request \<Rightarrow> string \<Rightarrow> instant list" where
  "feedback_charges P l e p = (if fst e \<in> P \<and> p = fst e \<and> fst (admit_feedback p (snd e) l) then [snd e] else [])"

definition small_inv :: "string set \<Rightarrow> feedback_limiter \<Rightarrow> bool" where
  "small_inv P l \<longleftrightarrow> limiter_inv l \<and> fst ` set (fl_peers l) \<subseteq> P
     \<and> finite P \<and> card P \<le> MAX_LOCAL_MTU_FEEDBACK_PEERS"

lemma small_room:
  assumes "small_inv P l" and "p \<in> P"
  shows "length (retain_sent now (fl_peers l)) < MAX_LOCAL_MTU_FEEDBACK_PEERS
    \<or> p \<in> fst ` set (retain_sent now (fl_peers l))"
proof (cases "p \<in> fst ` set (retain_sent now (fl_peers l))")
  case False
  let ?peers = "retain_sent now (fl_peers l)"
  have d: "distinct (map fst (fl_peers l))" using assms(1) by (simp add: small_inv_def limiter_inv_def)
  have "fst ` set ?peers \<subset> P" using assms False retain_keys(1) [of now "fl_peers l"] by (auto simp: small_inv_def)
  then have "card (fst ` set ?peers) < card P" using assms(1) by (intro psubset_card_mono) (auto simp: small_inv_def)
  moreover have "card (fst ` set ?peers) = length ?peers"
    using distinct_card [OF retain_keys(3) [OF d, of now]] by simp
  ultimately show ?thesis using assms(1) by (simp add: small_inv_def)
qed simp

lemma small_inv_step: "small_inv P l \<Longrightarrow> small_inv P (feedback_step P l e)"
proof -
  assume i: "small_inv P l"
  then have "limiter_inv l" by (simp add: small_inv_def)
  note s = admit_feedback_spec(2,5) [OF this, of "fst e" "snd e"]
  show ?thesis
  proof (cases "fst e \<in> P")
    case True
    then have "insert (fst e) (fst ` set (fl_peers l)) \<subseteq> P" using i by (simp add: small_inv_def)
    from subset_trans [OF s(2) this] True s(1) i show ?thesis by (simp add: feedback_step_def small_inv_def)
  qed (use i in \<open>simp add: feedback_step_def\<close>)
qed

lemma feedback_step_sent:
  assumes "small_inv P l"
  shows "sent_of (feedback_step P l e) p
    = (if fst e \<in> P then fresh_sent (snd e) l p @ feedback_charges P l e p else sent_of l p)"
proof (cases "fst e \<in> P")
  case True
  have inv: "limiter_inv l" using assms by (simp add: small_inv_def)
  show ?thesis
  proof (cases "p = fst e")
    case True
    then show ?thesis
      using admit_feedback_spec(1,3) [OF inv, of "fst e" "snd e"] \<open>fst e \<in> P\<close>
      by (simp add: feedback_step_def feedback_charges_def)
  next
    case False
    then show ?thesis
      using admit_feedback_spec(6) [OF inv False small_room [OF assms \<open>fst e \<in> P\<close>, of "snd e"]] \<open>fst e \<in> P\<close>
      by (simp add: feedback_step_def feedback_charges_def)
  qed
qed (simp add: feedback_step_def)

interpretation feedback_rate: rate_limiter "feedback_step P" "small_inv P" sent_of "feedback_charges P" snd snd
  "\<lambda>_. LOCAL_MTU_FEEDBACK_WINDOW" "\<lambda>_. LOCAL_MTU_FEEDBACK_RATE_PER_PEER" for P
proof unfold_locales
  fix l e p
  assume i: "small_inv P l"
  then show "small_inv P (feedback_step P l e)" by (rule small_inv_step)
next
  fix l e p
  assume i: "small_inv P l"
  show "\<exists>old. sent_of l p @ feedback_charges P l e p = old @ sent_of (feedback_step P l e) p
      \<and> (\<forall>t \<in> set old. LOCAL_MTU_FEEDBACK_WINDOW \<le> snd e - t)"
  proof (cases "fst e \<in> P")
    case True
    then show ?thesis
      using prune_split [of "sent_of l p" LOCAL_MTU_FEEDBACK_WINDOW "snd e"]
      by (auto simp: feedback_step_sent [OF i] fresh_sent_def)
  next
    case False
    then show ?thesis by (intro exI [of _ "[]"]) (simp add: feedback_step_sent [OF i] feedback_charges_def)
  qed
next
  fix l e p t
  show "t \<in> set (feedback_charges P l e p) \<Longrightarrow> snd e \<le> t \<and> t \<le> snd e"
    by (simp add: feedback_charges_def split: if_splits)
next
  fix l e p
  assume i: "small_inv P l"
  show "length (sent_of (feedback_step P l e) p) \<le> LOCAL_MTU_FEEDBACK_RATE_PER_PEER"
    using small_inv_step [OF i, of e] by (simp add: small_inv_def limiter_inv_def)
qed

text \<open>The requests of the limiter itself, and the feedback of a peer it lets through.\<close>

primrec feedback_log :: "feedback_limiter \<Rightarrow> feedback_request list \<Rightarrow> string \<Rightarrow> instant list" where
  "feedback_log l [] p = []"
| "feedback_log l (e # es) p =
     (case admit_feedback (fst e) (snd e) l of (admitted, l') \<Rightarrow>
        (if admitted \<and> p = fst e then [snd e] else []) @ feedback_log l' es p)"

lemma feedback_log_charged:
  "fst ` set es \<subseteq> P \<Longrightarrow> feedback_log l es p = charged_log (feedback_step P) (feedback_charges P) l es p"
proof (induction es arbitrary: l)
  case (Cons e es)
  obtain admitted l' where "admit_feedback (fst e) (snd e) l = (admitted, l')"
    by (cases "admit_feedback (fst e) (snd e) l")
  with Cons show ?case by (auto simp: feedback_step_def feedback_charges_def)
qed simp

text \<open>
  As long as at most 256 peers ask, a peer gets at most eight feedback packets in any interval
  of one second.
\<close>
theorem mtu_feedback_rate_bounded:
  assumes "card (fst ` set es) \<le> MAX_LOCAL_MTU_FEEDBACK_PEERS" and "clocked snd snd now es"
  shows "in_window a LOCAL_MTU_FEEDBACK_WINDOW (feedback_log feedback_limiter_default es p)
    \<le> LOCAL_MTU_FEEDBACK_RATE_PER_PEER"
proof -
  have "small_inv (fst ` set es) feedback_limiter_default"
    using assms(1) by (simp add: small_inv_def limiter_inv_def feedback_limiter_default_def sent_of_def)
  moreover have "sent_of feedback_limiter_default p = []"
    by (simp add: feedback_limiter_default_def sent_of_def)
  ultimately show ?thesis
    using feedback_rate.window_rate [OF _ _ assms(2)] by (simp add: feedback_log_charged [OF subset_refl])
qed

text \<open>
  Whatever is asked, the limiter remembers at most 256 peers and eight instants of each.
\<close>
theorem mtu_feedback_memory_bounded:
  "let l = foldl (\<lambda>l e. snd (admit_feedback (fst e) (snd e) l)) feedback_limiter_default es
   in length (fl_peers l) \<le> 256 \<and> length (fl_order l) \<le> 256 \<and> length (sent_of l p) \<le> 8"
proof -
  let ?l = "foldl (\<lambda>l e. snd (admit_feedback (fst e) (snd e) l)) feedback_limiter_default es"
  have i: "limiter_inv ?l"
  proof (induction es rule: rev_induct)
    case Nil
    then show ?case by (simp add: limiter_inv_def feedback_limiter_default_def sent_of_def)
  next
    case (snoc e es)
    then show ?case by (simp add: admit_feedback_spec(2))
  qed
  then have "length (fl_order ?l) = length (fl_peers ?l)"
    using distinct_card [of "fl_order ?l"] distinct_card [of "map fst (fl_peers ?l)"] by (simp add: limiter_inv_def)
  with i show ?thesis
    by (simp add: limiter_inv_def MAX_LOCAL_MTU_FEEDBACK_PEERS_def LOCAL_MTU_FEEDBACK_RATE_PER_PEER_def)
qed

end
