(* ===== verification/Mtu_Witnesses.thy ===== *)
theory Mtu_Witnesses
  imports Mtu_Limiter
begin

text \<open>The properties of local MTU feedback at concrete inputs.\<close>

text \<open>A UDP datagram from 10.20.0.1 to 10.20.0.2.\<close>

definition w_udp4 :: bytes where
  "w_udp4 = [0x45, 0, 0, 28, 0, 1, 0, 0, 64, 17, 0, 0, 10, 20, 0, 1, 10, 20, 0, 2, 1, 2, 3, 4, 0, 8, 0, 0]"

lemma w_udp4_answered:
  "build_local_mtu_feedback w_udp4 (PacketTooBig 1168)
    = Inr (fill_ipv4_feedback w_udp4 (PacketTooBig 1168) 0x0A140001 0x0A140002 28)"
proof -
  have a: "ipv4_src_addr w_udp4 = 0x0A140001" "ipv4_dst_addr w_udp4 = 0x0A140002" "unat (ipv4_total_len w_udp4) = 28"
    "\<not> is_fragment w_udp4" "ipv4_protocol w_udp4 = Udp" "ipv4_header_len w_udp4 = 20" "length w_udp4 = 28"
    "ipv4_new w_udp4 = Inr w_udp4"
    by (simp_all add: w_udp4_def ipv4_src_addr_def ipv4_dst_addr_def ipv4_total_len_def is_fragment_def
        ipv4_flags_fragment_def be16_at_def ipv4_protocol_def protocol_from_def ipv4_header_len_def ipv4_new_def
        version_nibble_def from_be_def nat_of_be_def)
  have v: "drop_bit 4 (w_udp4 ! 0) = 4" "w_udp4 \<noteq> []" by (simp_all add: w_udp4_def)
  have p: "valid_ipv4_feedback_pair 0x0A140001 0x0A140002"
    by (simp add: valid_ipv4_feedback_pair_def v4_multicast_def)
  show ?thesis
    by (simp add: build_local_mtu_feedback_def build_ipv4_feedback_def Let_def a v p)
qed

theorem mtu_feedback_ipv4_error_witness:
  "ipv4_dst_addr (fill_ipv4_feedback w_udp4 (PacketTooBig 1168) 0x0A140001 0x0A140002 28) = ipv4_src_addr w_udp4
    \<and> verify_checksum (fill_ipv4_feedback w_udp4 (PacketTooBig 1168) 0x0A140001 0x0A140002 28)"
proof -
  have "drop_bit 4 (w_udp4 ! 0) = 4" by (simp add: w_udp4_def)
  from mtu_feedback_ipv4_error [OF w_udp4_answered this] show ?thesis by simp
qed

text \<open>A UDP datagram over IPv6 from fd00::1 to fd00::2.\<close>

definition w_udp6 :: bytes where
  "w_udp6 = [0x60, 0, 0, 0, 0, 8, 17, 64] @ [0xfd, 0, 0, 0, 0, 0, 0, 0, 0, 0, 0, 0, 0, 0, 0, 1]
     @ [0xfd, 0, 0, 0, 0, 0, 0, 0, 0, 0, 0, 0, 0, 0, 0, 2] @ [1, 2, 3, 4, 0, 8, 0, 0]"

lemma w_udp6_answered:
  "build_local_mtu_feedback w_udp6 Unreachable
    = Inr (fill_ipv6_feedback w_udp6 Unreachable (ipv6_src_addr w_udp6) (ipv6_dst_addr w_udp6) 48)"
proof -
  have a: "ipv6_new w_udp6 = Inr w_udp6" "ipv6_total_len w_udp6 = 48" "ipv6_next_header w_udp6 = 17" "length w_udp6 = 48"
    by (simp_all add: w_udp6_def ipv6_new_def version_nibble_def ipv6_total_len_def ipv6_payload_len_def
        be16_at_def ipv6_next_header_def from_be_def nat_of_be_def)
  have v: "drop_bit 4 (w_udp6 ! 0) = 6" "w_udp6 \<noteq> []" by (simp_all add: w_udp6_def)
  have s: "ipv6_src_addr w_udp6 = 0xfd000000000000000000000000000001"
    "ipv6_dst_addr w_udp6 = 0xfd000000000000000000000000000002"
    by (simp_all add: w_udp6_def ipv6_src_addr_def ipv6_dst_addr_def from_be_def nat_of_be_def)
  have p: "valid_ipv6_feedback_pair (ipv6_src_addr w_udp6) (ipv6_dst_addr w_udp6)"
    by (simp add: s valid_ipv6_feedback_pair_def v6_multicast_def)
  show ?thesis
    by (simp add: build_local_mtu_feedback_def build_ipv6_feedback_def Let_def a v p IPV6_MINIMUM_MTU_def)
qed

theorem mtu_feedback_ipv6_error_witness:
  "ipv6_next_header (fill_ipv6_feedback w_udp6 Unreachable (ipv6_src_addr w_udp6) (ipv6_dst_addr w_udp6) 48) = 58"
proof -
  have "drop_bit 4 (w_udp6 ! 0) = 6" by (simp add: w_udp6_def)
  from mtu_feedback_ipv6_error [OF w_udp6_answered this] show ?thesis by simp
qed

definition w_asks :: "feedback_request list" where
  "w_asks = [(''b'', 0), (''b'', 1), (''b'', 2), (''c'', 2), (''b'', 2), (''b'', 3), (''b'', 3), (''b'', 4), (''b'', 4),
     (''b'', 5), (''b'', 1000000001)]"

text \<open>The ninth is refused, and the first has left the window when the last arrives.\<close>

theorem mtu_feedback_rate_bounded_witness:
  "in_window 0 LOCAL_MTU_FEEDBACK_WINDOW (feedback_log feedback_limiter_default w_asks ''b'') \<le> 8"
  using mtu_feedback_rate_bounded [of w_asks 0 0 "''b''"]
  by (simp add: w_asks_def MAX_LOCAL_MTU_FEEDBACK_PEERS_def LOCAL_MTU_FEEDBACK_RATE_PER_PEER_def card_insert_if)

end
