(* ===== verification/Mtu_Delivery.thy ===== *)
theory Mtu_Delivery
  imports Mtu_Witnesses Dataplane_Props "HOL-Library.Sublist"
begin

text \<open>
  Local MTU feedback from its publication to the device. Between the two is a bounded broadcast
  channel (\<open>tokio::sync::broadcast\<close>) with one receiver, the packet pump: a receiver that falls
  behind by more than the capacity loses the oldest packets and is told how many. The channel is
  a parameter of the model; \<open>broadcast_ok\<close> is its documented behaviour.
\<close>

section \<open>The channel\<close>





section \<open>Publication and pump together\<close>












section \<open>Every packet is accounted for\<close>





















end
