(* ===== verification/Control_Wire.thy ===== *)
theory Control_Wire
  imports Pmtu_Wire Wg_Types
begin

text \<open>
  The control packets inside the tunnel: the forced-relay probe (\<open>client/daemon/src/relay_probe.rs\<close>),
  the path-commit probe (\<open>path_commit.rs\<close>), the Direct validation and the classification of a
  decrypted packet (\<open>transport/wire.rs\<close>). Each is an ICMP echo request whose payload starts with a
  prefix of its own; the daemon consumes it, it is never business traffic.
\<close>

section \<open>Prefixes and tokens\<close>

definition RELAY_PROBE_REQUEST_PAYLOAD :: bytes where
  "RELAY_PROBE_REQUEST_PAYLOAD = bytes_of_string ''p2wlan-relay-probe-req''"

definition RELAY_PROBE_ACK_PAYLOAD :: bytes where
  "RELAY_PROBE_ACK_PAYLOAD = bytes_of_string ''p2wlan-relay-probe-ack''"

definition RELAY_PROBE_TOKEN_BYTES :: nat where "RELAY_PROBE_TOKEN_BYTES = 18"

definition PATH_COMMIT_REQUEST_PAYLOAD :: bytes where
  "PATH_COMMIT_REQUEST_PAYLOAD = bytes_of_string ''p2wlan-pathcommit-req''"

definition PATH_COMMIT_ACK_PAYLOAD :: bytes where
  "PATH_COMMIT_ACK_PAYLOAD = bytes_of_string ''p2wlan-pathcommit-ack''"

definition PATH_COMMIT_TOKEN_BYTES :: nat where "PATH_COMMIT_TOKEN_BYTES = 18"

definition RELAY_VALIDATION_PAYLOAD_PREFIX :: bytes where
  "RELAY_VALIDATION_PAYLOAD_PREFIX = bytes_of_string ''p2wlan-relay-validation''"

definition RELAY_VALIDATION_TIMESTAMP_BYTES :: nat where "RELAY_VALIDATION_TIMESTAMP_BYTES = 8"

definition REKEY_CONFIRMATION_PAYLOAD :: bytes where
  "REKEY_CONFIRMATION_PAYLOAD = bytes_of_string ''p2wlan-rekey-confirmation''"

datatype relay_probe_kind = RelayProbeRequest | RelayProbeAck

record relay_probe_token =
  rp_kind :: relay_probe_kind
  rp_generation :: u64
  rp_request_id :: u16
  rp_owner_token :: u64

datatype path_commit_kind = PathCommitRequest | PathCommitAck

record path_commit_token =
  pc_kind :: path_commit_kind
  pc_generation :: u64
  pc_request_id :: u16
  pc_owner_token :: u64

datatype direct_validation_kind = DirectValidationRequest | DirectValidationAck

record direct_validation_token =
  dt_kind :: direct_validation_kind
  dt_generation :: u64
  dt_request_id :: u16
  dt_sequence :: u8
  dt_owner_token :: u64

section \<open>Payloads\<close>

fun relay_probe_prefix :: "relay_probe_kind \<Rightarrow> bytes" where
  "relay_probe_prefix RelayProbeRequest = RELAY_PROBE_REQUEST_PAYLOAD"
| "relay_probe_prefix RelayProbeAck = RELAY_PROBE_ACK_PAYLOAD"

definition build_relay_probe_payload :: "relay_probe_kind \<Rightarrow> u64 \<Rightarrow> u16 \<Rightarrow> u64 \<Rightarrow> bytes" where
  "build_relay_probe_payload kind generation request_id owner_token =
     relay_probe_prefix kind @ to_be 8 generation @ to_be 2 request_id @ to_be 8 owner_token"

fun path_commit_prefix :: "path_commit_kind \<Rightarrow> bytes" where
  "path_commit_prefix PathCommitRequest = PATH_COMMIT_REQUEST_PAYLOAD"
| "path_commit_prefix PathCommitAck = PATH_COMMIT_ACK_PAYLOAD"

definition build_path_commit_payload :: "path_commit_kind \<Rightarrow> u64 \<Rightarrow> u16 \<Rightarrow> u64 \<Rightarrow> bytes" where
  "build_path_commit_payload kind generation request_id owner_token =
     path_commit_prefix kind @ to_be 8 generation @ to_be 2 request_id @ to_be 8 owner_token"

fun direct_validation_prefix :: "direct_validation_kind \<Rightarrow> bytes" where
  "direct_validation_prefix DirectValidationRequest = DIRECT_VALIDATION_REQUEST_PAYLOAD"
| "direct_validation_prefix DirectValidationAck = DIRECT_VALIDATION_ACK_PAYLOAD"

definition build_direct_validation_payload ::
  "direct_validation_kind \<Rightarrow> u64 \<Rightarrow> u16 \<Rightarrow> u8 \<Rightarrow> u64 \<Rightarrow> bytes" where
  "build_direct_validation_payload kind generation request_id sequence owner_token =
     direct_validation_prefix kind @ DIRECT_VALIDATION_CAPABILITY_EXTENSION
     @ to_be 8 generation @ to_be 2 request_id @ [sequence] @ to_be 8 owner_token"

section \<open>Parsers\<close>

text \<open>The payload of an ICMP echo request, the part the parsers share.\<close>

definition echo_request_payload :: "bytes \<Rightarrow> bytes option" where
  "echo_request_payload packet =
     (case ipv4_new packet of
        Inl _ \<Rightarrow> None
      | Inr ip \<Rightarrow>
          if ipv4_protocol ip \<noteq> Icmp then None
          else
            let icmp = ipv4_payload ip
            in if length icmp < 8 then None
               else if icmp ! 0 \<noteq> 8 \<or> icmp ! 1 \<noteq> 0 then None
               else Some (drop 8 icmp))"

text \<open>The token is the end of the payload; an extension may stand between it and the prefix.\<close>

definition token_at_end :: "nat \<Rightarrow> nat \<Rightarrow> bytes \<Rightarrow> bytes option" where
  "token_at_end n prefix_len payload =
     (if length payload < n \<or> length payload - n < prefix_len then None
      else Some (drop (length payload - n) payload))"

definition parse_relay_probe_token :: "bytes \<Rightarrow> relay_probe_token option" where
  "parse_relay_probe_token packet =
     Option.bind (echo_request_payload packet) (\<lambda>payload.
     Option.bind (if starts_with RELAY_PROBE_REQUEST_PAYLOAD payload then Some RelayProbeRequest
                  else if starts_with RELAY_PROBE_ACK_PAYLOAD payload then Some RelayProbeAck
                  else None) (\<lambda>kind.
     Option.bind (token_at_end RELAY_PROBE_TOKEN_BYTES (length (relay_probe_prefix kind)) payload) (\<lambda>token.
       Some \<lparr>rp_kind = kind, rp_generation = from_be (take 8 token),
             rp_request_id = from_be (chunk 8 2 token), rp_owner_token = from_be (chunk 10 8 token)\<rparr>)))"

definition parse_path_commit_token :: "bytes \<Rightarrow> path_commit_token option" where
  "parse_path_commit_token packet =
     Option.bind (echo_request_payload packet) (\<lambda>payload.
     Option.bind (if starts_with PATH_COMMIT_REQUEST_PAYLOAD payload then Some PathCommitRequest
                  else if starts_with PATH_COMMIT_ACK_PAYLOAD payload then Some PathCommitAck
                  else None) (\<lambda>kind.
     Option.bind (token_at_end PATH_COMMIT_TOKEN_BYTES (length (path_commit_prefix kind)) payload) (\<lambda>token.
       Some \<lparr>pc_kind = kind, pc_generation = from_be (take 8 token),
             pc_request_id = from_be (chunk 8 2 token), pc_owner_token = from_be (chunk 10 8 token)\<rparr>)))"

definition parse_direct_validation_token :: "bytes \<Rightarrow> direct_validation_token option" where
  "parse_direct_validation_token packet =
     Option.bind (echo_request_payload packet) (\<lambda>payload.
     Option.bind (if starts_with DIRECT_VALIDATION_REQUEST_PAYLOAD payload then Some DirectValidationRequest
                  else if starts_with DIRECT_VALIDATION_ACK_PAYLOAD payload then Some DirectValidationAck
                  else None) (\<lambda>kind.
     Option.bind (token_at_end DIRECT_VALIDATION_TOKEN_BYTES (length (direct_validation_prefix kind)) payload)
       (\<lambda>token.
       Some \<lparr>dt_kind = kind, dt_generation = from_be (take 8 token),
             dt_request_id = from_be (chunk 8 2 token), dt_sequence = token ! 10,
             dt_owner_token = from_be (chunk 11 8 token)\<rparr>)))"

section \<open>Classification\<close>

definition is_relay_validation_packet :: "bytes \<Rightarrow> bool" where
  "is_relay_validation_packet packet =
     (case ipv4_new packet of
        Inl _ \<Rightarrow> False
      | Inr ip \<Rightarrow>
          let icmp = ipv4_payload ip
          in ipv4_protocol ip = Icmp
             \<and> 8 + length RELAY_VALIDATION_PAYLOAD_PREFIX + RELAY_VALIDATION_TIMESTAMP_BYTES \<le> length icmp
             \<and> (icmp ! 0 = 0 \<or> icmp ! 0 = 8) \<and> icmp ! 1 = 0
             \<and> (case strip_prefix RELAY_VALIDATION_PAYLOAD_PREFIX (drop 8 icmp) of
                  None \<Rightarrow> False
                | Some rest \<Rightarrow> RELAY_VALIDATION_TIMESTAMP_BYTES \<le> length rest))"

definition is_rekey_confirmation_packet :: "bytes \<Rightarrow> bool" where
  "is_rekey_confirmation_packet packet \<longleftrightarrow> echo_request_payload packet = Some REKEY_CONFIRMATION_PAYLOAD"

definition is_real_overlay_business_packet :: "bytes \<Rightarrow> bool" where
  "is_real_overlay_business_packet packet \<longleftrightarrow>
     (case ipv4_new packet of Inl _ \<Rightarrow> False | Inr _ \<Rightarrow> True)
     \<and> \<not> is_relay_validation_packet packet
     \<and> \<not> is_rekey_confirmation_packet packet
     \<and> parse_direct_validation_token packet = None
     \<and> parse_control_packet packet = None
     \<and> parse_relay_probe_token packet = None
     \<and> parse_path_commit_token packet = None"

section \<open>Expectations\<close>

text \<open>What an initiator registers before a probe leaves, and what an acknowledgement must mirror.\<close>

definition RELAY_PROBE_EXPECTATION_TTL :: duration where "RELAY_PROBE_EXPECTATION_TTL = from_secs 30"

definition PATH_COMMIT_EXPECTATION_TTL :: duration where "PATH_COMMIT_EXPECTATION_TTL = from_secs 30"

datatype relay_probe_purpose = RelayConfirmation | RelayValidation

record relay_probe_expectation =
  rpe_purpose :: relay_probe_purpose
  rpe_session :: u64
  rpe_generation :: u64
  rpe_request_id :: u16
  rpe_owner_token :: u64
  rpe_endpoint :: string
  rpe_connection :: "u64 option"
  rpe_sent_at :: instant
  rpe_rtt_sample_eligible :: bool

definition relay_probe_matches :: "relay_probe_expectation \<Rightarrow> relay_probe_token \<Rightarrow> bool" where
  "relay_probe_matches e t \<longleftrightarrow> rpe_request_id e = rp_request_id t \<and> rpe_generation e = rp_generation t
     \<and> rpe_owner_token e = rp_owner_token t"

definition relay_probe_fresh :: "relay_probe_expectation \<Rightarrow> instant \<Rightarrow> bool" where
  "relay_probe_fresh e now \<longleftrightarrow> saturating_duration_since now (rpe_sent_at e) \<le> RELAY_PROBE_EXPECTATION_TTL"

definition relay_probe_accepts ::
  "relay_probe_expectation \<Rightarrow> relay_probe_token \<Rightarrow> instant \<Rightarrow> string \<Rightarrow> bool" where
  "relay_probe_accepts e t now ack_ingress \<longleftrightarrow>
     relay_probe_matches e t \<and> relay_probe_fresh e now \<and> rpe_endpoint e = ack_ingress"

definition relay_probe_accepts_connection :: "relay_probe_expectation \<Rightarrow> u64 option \<Rightarrow> bool" where
  "relay_probe_accepts_connection e connection \<longleftrightarrow> rpe_connection e = connection"

record path_commit_expectation =
  pce_session :: u64
  pce_generation :: u64
  pce_request_id :: u16
  pce_owner_token :: u64
  pce_endpoint :: string
  pce_connection :: u64
  pce_sent_at :: instant

definition path_commit_matches :: "path_commit_expectation \<Rightarrow> path_commit_token \<Rightarrow> bool" where
  "path_commit_matches e t \<longleftrightarrow> pce_request_id e = pc_request_id t \<and> pce_generation e = pc_generation t
     \<and> pce_owner_token e = pc_owner_token t"

definition path_commit_fresh :: "path_commit_expectation \<Rightarrow> instant \<Rightarrow> bool" where
  "path_commit_fresh e now \<longleftrightarrow> saturating_duration_since now (pce_sent_at e) \<le> PATH_COMMIT_EXPECTATION_TTL"

definition path_commit_accepts ::
  "path_commit_expectation \<Rightarrow> path_commit_token \<Rightarrow> instant \<Rightarrow> string \<Rightarrow> bool" where
  "path_commit_accepts e t now ack_ingress \<longleftrightarrow>
     path_commit_matches e t \<and> path_commit_fresh e now \<and> pce_endpoint e = ack_ingress"

definition path_commit_accepts_connection :: "path_commit_expectation \<Rightarrow> u64 option \<Rightarrow> bool" where
  "path_commit_accepts_connection e connection \<longleftrightarrow> connection = Some (pce_connection e)"

section \<open>Diagnostics and endpoint choices of the wire layer\<close>

text \<open>FNV-1a, the correlation hash of the debug traces.\<close>

definition wire_fingerprint :: "bytes \<Rightarrow> u64" where
  "wire_fingerprint bs =
     fold (\<lambda>b hash. (hash XOR ucast b) * 0x100000001B3) bs 0xCBF29CE484222325"

definition wire_counter :: "bytes \<Rightarrow> u64 option" where
  "wire_counter bs =
     (if length bs < 16 \<or> take 4 bs \<noteq> [4, 0, 0, 0] then None else Some (from_le (chunk 8 8 bs)))"

definition wire_receiver_index :: "bytes \<Rightarrow> u32 option" where
  "wire_receiver_index bs =
     (if length bs < 8 \<or> take 4 bs \<noteq> [4, 0, 0, 0] then None else Some (from_le (chunk 4 4 bs)))"

definition OVERLAY_PAYLOAD_MAGIC :: bytes where
  "OVERLAY_PAYLOAD_MAGIC = bytes_of_string ''P2WLOV''"

definition is_overlay_payload_candidate :: "bytes \<Rightarrow> bool" where
  "is_overlay_payload_candidate packet =
     (case ipv4_new packet of
        Inl _ \<Rightarrow> False
      | Inr ip \<Rightarrow>
          ipv4_protocol ip = Udp
          \<and> 8 + length OVERLAY_PAYLOAD_MAGIC < length (ipv4_payload ip)
          \<and> chunk 8 (length OVERLAY_PAYLOAD_MAGIC) (ipv4_payload ip) = OVERLAY_PAYLOAD_MAGIC)"

definition should_request_direct_validation_after_decrypt ::
  "bool \<Rightarrow> socket_addr option \<Rightarrow> direct_validation_token option \<Rightarrow> bool" where
  "should_request_direct_validation_after_decrypt owns_direct_packet source token \<longleftrightarrow>
     owns_direct_packet \<and> source \<noteq> None \<and> token = None"

definition dplpmtud_ack_destination ::
  "pmtu_path_identity option \<Rightarrow> socket_addr option \<Rightarrow> u64 \<Rightarrow> socket_addr \<Rightarrow> socket_addr \<Rightarrow> nat
   \<Rightarrow> socket_addr" where
  "dplpmtud_ack_destination current_path authenticated_reverse_endpoint instance_id probe_source
       local_endpoint index =
     (case current_path of
        None \<Rightarrow> probe_source
      | Some identity \<Rightarrow>
          if pi_local_endpoint identity = local_endpoint
             \<and> transport_instance_id (pi_socket identity) = instance_id
             \<and> socket_index (pi_socket identity) = index
             \<and> is_ipv4 (pi_remote_endpoint identity) = is_ipv4 probe_source
          then case authenticated_reverse_endpoint of
                 None \<Rightarrow> probe_source
               | Some endpoint \<Rightarrow>
                   if is_ipv4 endpoint = is_ipv4 probe_source then endpoint else probe_source
          else probe_source)"

end
