(* ===== verification/Control_Wire_Props.thy ===== *)
theory Control_Wire_Props
  imports Control_Wire
begin

text \<open>
  What the control packets promise: a built packet parses to its token, no packet is recognised as
  two kinds, and none of them is business traffic. The three token protocols share one contract,
  the locale \<open>framed_tokens\<close>.
\<close>

section \<open>Prefixes tell the kinds apart\<close>

lemma starts_with_append [simp]: "starts_with p (p @ xs)"
  by (simp add: starts_with_def)

lemma starts_with_comparable:
  assumes "starts_with p xs" and "starts_with q xs"
  shows "take (min (length p) (length q)) p = take (min (length p) (length q)) q"
proof -
  let ?m = "min (length p) (length q)"
  have "take ?m p = take ?m (take (length p) xs)" "take ?m q = take ?m (take (length q) xs)"
    using assms by (simp_all add: starts_with_def)
  then show ?thesis by simp
qed

lemma strip_prefix_starts: "strip_prefix p xs = Some r \<Longrightarrow> starts_with p xs"
  by (simp add: strip_prefix_def starts_with_def split: if_splits)

lemmas control_prefix_defs =
  RELAY_PROBE_REQUEST_PAYLOAD_def RELAY_PROBE_ACK_PAYLOAD_def PATH_COMMIT_REQUEST_PAYLOAD_def
  PATH_COMMIT_ACK_PAYLOAD_def DIRECT_VALIDATION_REQUEST_PAYLOAD_def DIRECT_VALIDATION_ACK_PAYLOAD_def
  DPLPMTUD_PROBE_PREFIX_def DPLPMTUD_ACK_PREFIX_def RELAY_VALIDATION_PAYLOAD_PREFIX_def
  REKEY_CONFIRMATION_PAYLOAD_def bytes_of_string_def

text \<open>The prefixes, one list per kind of packet.\<close>

definition control_prefixes :: "bytes list list" where
  "control_prefixes =
     [[RELAY_PROBE_REQUEST_PAYLOAD, RELAY_PROBE_ACK_PAYLOAD],
      [PATH_COMMIT_REQUEST_PAYLOAD, PATH_COMMIT_ACK_PAYLOAD],
      [DIRECT_VALIDATION_REQUEST_PAYLOAD, DIRECT_VALIDATION_ACK_PAYLOAD],
      [DPLPMTUD_PROBE_PREFIX, DPLPMTUD_ACK_PREFIX],
      [RELAY_VALIDATION_PAYLOAD_PREFIX], [REKEY_CONFIRMATION_PAYLOAD]]"

definition incomparable :: "bytes \<Rightarrow> bytes \<Rightarrow> bool" where
  "incomparable p q \<longleftrightarrow> take (min (length p) (length q)) p \<noteq> take (min (length p) (length q)) q"

lemma control_prefixes_incomparable:
  "\<forall>i\<in>set [0..<6]. \<forall>j\<in>set [0..<6]. i \<noteq> j \<longrightarrow>
     (\<forall>p \<in> set (control_prefixes ! i). \<forall>q \<in> set (control_prefixes ! j). incomparable p q)"
  by code_simp

definition prefix_kind :: "nat \<Rightarrow> bytes \<Rightarrow> bool" where
  "prefix_kind i payload \<longleftrightarrow> (\<exists>p \<in> set (control_prefixes ! i). starts_with p payload)"

lemma prefix_kind_unique: "prefix_kind i xs \<Longrightarrow> prefix_kind j xs \<Longrightarrow> i < 6 \<Longrightarrow> j < 6 \<Longrightarrow> i = j"
  using control_prefixes_incomparable [THEN bspec, of i, THEN bspec, of j]
  unfolding prefix_kind_def incomparable_def by (auto dest: starts_with_comparable)

lemma echo_request_payload_of:
  assumes "length payload \<le> 65507"
  shows "echo_request_payload (build_icmp_echo_request l r i s payload) = Some payload"
proof -
  note parts = echo_request_parts [OF assms, of l r i s]
  show ?thesis
    unfolding echo_request_payload_def Let_def
    by (simp only: parts sum.case if_not_P [OF leD [OF parts(3)]] One_nat_def
        if_False not_True_eq_False simp_thms)
qed

section \<open>The contract of a token protocol\<close>

text \<open>
  \<open>parse\<close> reads the tokens that \<open>payload_of\<close> writes, and it recognises only payloads of its own kind.
\<close>

locale framed_tokens =
  fixes parse :: "bytes \<Rightarrow> 'a option" and payload_of :: "'a \<Rightarrow> bytes" and kind :: nat
  assumes short: "length (payload_of t) \<le> 65507"
    and parses: "echo_request_payload packet = Some (payload_of t) \<Longrightarrow> parse packet = Some t"
    and framed: "parse packet = Some t \<Longrightarrow>
      \<exists>payload. echo_request_payload packet = Some payload \<and> prefix_kind kind payload"
begin

lemma echo_request_payload_built:
  "echo_request_payload (build_icmp_echo_request l r i s (payload_of t)) = Some (payload_of t)"
  by (rule echo_request_payload_of [OF short])

lemma round_trip: "parse (build_icmp_echo_request l r i s (payload_of t)) = Some t"
  by (rule parses [OF echo_request_payload_built])

lemma payload_inj: "payload_of t = payload_of u \<Longrightarrow> t = u"
  by (metis option.inject round_trip)

lemma kind_of_built: "prefix_kind kind (payload_of t)"
  by (metis framed option.inject round_trip echo_request_payload_built)

end

section \<open>The three protocols\<close>

definition relay_probe_payload_of :: "relay_probe_token \<Rightarrow> bytes" where
  "relay_probe_payload_of t =
     build_relay_probe_payload (rp_kind t) (rp_generation t) (rp_request_id t) (rp_owner_token t)"

definition path_commit_payload_of :: "path_commit_token \<Rightarrow> bytes" where
  "path_commit_payload_of t =
     build_path_commit_payload (pc_kind t) (pc_generation t) (pc_request_id t) (pc_owner_token t)"

definition direct_validation_payload_of :: "direct_validation_token \<Rightarrow> bytes" where
  "direct_validation_payload_of t =
     build_direct_validation_payload (dt_kind t) (dt_generation t) (dt_request_id t) (dt_sequence t)
       (dt_owner_token t)"

lemma token_at_end_append:
  "length t = n \<Longrightarrow> m \<le> length p \<Longrightarrow> token_at_end n m (p @ t) = Some t"
  by (simp add: token_at_end_def)

lemma bind_SomeD: "Option.bind x f = Some y \<Longrightarrow> \<exists>a. x = Some a \<and> f a = Some y"
  by (cases x) simp_all

lemma chunk_0_self: "length xs = n \<Longrightarrow> chunk 0 n xs = xs"
  by (simp add: chunk_def)

lemmas token_fields = chunk_0_self chunk_append_skip chunk_0_append be64.dec_enc be16.dec_enc

lemma prefix_others [simp]:
  "\<not> starts_with RELAY_PROBE_REQUEST_PAYLOAD (RELAY_PROBE_ACK_PAYLOAD @ xs)"
  "\<not> starts_with PATH_COMMIT_REQUEST_PAYLOAD (PATH_COMMIT_ACK_PAYLOAD @ xs)"
  "\<not> starts_with DIRECT_VALIDATION_REQUEST_PAYLOAD (DIRECT_VALIDATION_ACK_PAYLOAD @ xs)"
  by (simp_all add: starts_with_def control_prefix_defs)

lemma length_control_prefixes:
  "length RELAY_PROBE_REQUEST_PAYLOAD = 22" "length RELAY_PROBE_ACK_PAYLOAD = 22"
  "length PATH_COMMIT_REQUEST_PAYLOAD = 21" "length PATH_COMMIT_ACK_PAYLOAD = 21"
  "length DIRECT_VALIDATION_REQUEST_PAYLOAD = 28" "length DIRECT_VALIDATION_ACK_PAYLOAD = 28"
  "length DIRECT_VALIDATION_CAPABILITY_EXTENSION = 6"
  by (simp_all add: control_prefix_defs DIRECT_VALIDATION_CAPABILITY_EXTENSION_def)

interpretation relay_probe_tokens: framed_tokens parse_relay_probe_token relay_probe_payload_of 0
proof
  fix t packet
  show "length (relay_probe_payload_of t) \<le> 65507"
    by (cases "rp_kind t") (simp_all add: relay_probe_payload_of_def build_relay_probe_payload_def
        length_control_prefixes)
  assume "echo_request_payload packet = Some (relay_probe_payload_of t)"
  then show "parse_relay_probe_token packet = Some t"
    by (cases t; cases "rp_kind t")
      (simp_all add: parse_relay_probe_token_def relay_probe_payload_of_def
        build_relay_probe_payload_def token_at_end_append RELAY_PROBE_TOKEN_BYTES_def token_fields
        length_control_prefixes)
next
  fix t packet
  assume "parse_relay_probe_token packet = Some t"
  then show "\<exists>payload. echo_request_payload packet = Some payload \<and> prefix_kind 0 payload"
    by (auto simp: parse_relay_probe_token_def prefix_kind_def control_prefixes_def
        dest!: bind_SomeD split: if_splits)
qed

interpretation path_commit_tokens: framed_tokens parse_path_commit_token path_commit_payload_of 1
proof
  fix t packet
  show "length (path_commit_payload_of t) \<le> 65507"
    by (cases "pc_kind t") (simp_all add: path_commit_payload_of_def build_path_commit_payload_def
        length_control_prefixes)
  assume "echo_request_payload packet = Some (path_commit_payload_of t)"
  then show "parse_path_commit_token packet = Some t"
    by (cases t; cases "pc_kind t")
      (simp_all add: parse_path_commit_token_def path_commit_payload_of_def
        build_path_commit_payload_def token_at_end_append PATH_COMMIT_TOKEN_BYTES_def token_fields
        length_control_prefixes)
next
  fix t packet
  assume "parse_path_commit_token packet = Some t"
  then show "\<exists>payload. echo_request_payload packet = Some payload \<and> prefix_kind 1 payload"
    by (auto simp: parse_path_commit_token_def prefix_kind_def control_prefixes_def
        dest!: bind_SomeD split: if_splits)
qed

interpretation direct_validation_tokens:
  framed_tokens parse_direct_validation_token direct_validation_payload_of 2
proof
  fix t packet
  show "length (direct_validation_payload_of t) \<le> 65507"
    by (cases "dt_kind t") (simp_all add: direct_validation_payload_of_def
        build_direct_validation_payload_def length_control_prefixes)
  let ?token = "to_be 8 (dt_generation t) @ to_be 2 (dt_request_id t) @ [dt_sequence t]
    @ to_be 8 (dt_owner_token t)"
  have end_of: "token_at_end DIRECT_VALIDATION_TOKEN_BYTES (length p)
      (p @ DIRECT_VALIDATION_CAPABILITY_EXTENSION @ ?token) = Some ?token" for p
    using token_at_end_append [of ?token 19 "length p" "p @ DIRECT_VALIDATION_CAPABILITY_EXTENSION"]
    by (simp add: DIRECT_VALIDATION_TOKEN_BYTES_def)
  assume "echo_request_payload packet = Some (direct_validation_payload_of t)"
  then show "parse_direct_validation_token packet = Some t"
    using end_of [of "direct_validation_prefix (dt_kind t)"]
    by (cases t; cases "dt_kind t")
      (simp_all add: parse_direct_validation_token_def direct_validation_payload_of_def
        build_direct_validation_payload_def token_fields nth_append chunk_Cons)
next
  fix t packet
  assume "parse_direct_validation_token packet = Some t"
  then show "\<exists>payload. echo_request_payload packet = Some payload \<and> prefix_kind 2 payload"
    by (auto simp: parse_direct_validation_token_def prefix_kind_def control_prefixes_def
        dest!: bind_SomeD split: if_splits)
qed

section \<open>No packet is of two kinds\<close>

definition control_kinds :: "bytes \<Rightarrow> bool list" where
  "control_kinds packet =
     [parse_relay_probe_token packet \<noteq> None, parse_path_commit_token packet \<noteq> None,
      parse_direct_validation_token packet \<noteq> None, parse_control_packet packet \<noteq> None,
      is_relay_validation_packet packet, is_rekey_confirmation_packet packet]"

lemma length_control_kinds [simp]: "length (control_kinds packet) = 6"
  by (simp add: control_kinds_def)

lemma echo_request_payloadD:
  "echo_request_payload packet = Some payload \<Longrightarrow>
     payload = drop 8 (ipv4_payload packet) \<and> ipv4_new packet = Inr packet"
  by (auto simp: echo_request_payload_def ipv4_new_def Let_def split: sum.splits if_splits)

lemma ipv4_new_same: "ipv4_new packet = Inr ip \<Longrightarrow> ip = packet"
  by (auto simp: ipv4_new_def Let_def split: if_splits)

lemma control_packet_framed:
  assumes "parse_control_packet packet \<noteq> None"
  shows "prefix_kind 3 (drop 8 (ipv4_payload packet))"
  using assms
  by (auto simp: parse_control_packet_def prefix_kind_def control_prefixes_def Let_def
      dest!: ipv4_new_same bind_SomeD dest: strip_prefix_starts
      split: sum.splits if_splits option.splits)

lemma relay_validation_framed:
  assumes "is_relay_validation_packet packet"
  shows "prefix_kind 4 (drop 8 (ipv4_payload packet))"
  using assms
  by (auto simp: is_relay_validation_packet_def prefix_kind_def control_prefixes_def Let_def
      dest!: ipv4_new_same dest: strip_prefix_starts split: sum.splits option.splits)

lemma rekey_confirmation_framed:
  assumes "is_rekey_confirmation_packet packet"
  shows "prefix_kind 5 (drop 8 (ipv4_payload packet))"
  using assms starts_with_append [of REKEY_CONFIRMATION_PAYLOAD "[]"]
  by (auto simp: is_rekey_confirmation_packet_def prefix_kind_def control_prefixes_def
      dest!: echo_request_payloadD)

lemma token_framed:
  assumes "framed_tokens parse payload_of k" and "parse packet \<noteq> None"
  shows "prefix_kind k (drop 8 (ipv4_payload packet))"
  using assms framed_tokens.framed [OF assms(1)] by (blast dest: echo_request_payloadD)

lemma control_kinds_framed:
  assumes "i < 6" and "control_kinds packet ! i"
  shows "prefix_kind i (drop 8 (ipv4_payload packet))"
proof -
  have "i \<in> {0, 1, 2, 3, 4, 5}" using assms(1) by auto
  then show ?thesis
    using assms(2) token_framed [OF relay_probe_tokens.framed_tokens_axioms, of packet]
      token_framed [OF path_commit_tokens.framed_tokens_axioms, of packet]
      token_framed [OF direct_validation_tokens.framed_tokens_axioms, of packet]
      control_packet_framed [of packet] relay_validation_framed [of packet]
      rekey_confirmation_framed [of packet]
    by (elim insertE) (simp_all add: control_kinds_def)
qed

lemma at_most_one:
  assumes "\<And>i j. i < length xs \<Longrightarrow> j < length xs \<Longrightarrow> xs ! i \<Longrightarrow> xs ! j \<Longrightarrow> i = j"
  shows "length (filter (\<lambda>b. b) xs) \<le> 1"
  unfolding length_filter_conv_card using assms by (simp add: card_le_Suc0_iff_eq)

text \<open>
  C25: No packet is recognised as two kinds of control packet, and a packet counts as business
  traffic exactly when it is a well-formed IPv4 packet of none of the kinds.
\<close>
theorem control_packets_exclusive:
  "length (filter (\<lambda>b. b) (control_kinds packet)) \<le> 1
   \<and> (is_real_overlay_business_packet packet \<longleftrightarrow>
        ipv4_new packet = Inr packet \<and> \<not> (\<exists>b \<in> set (control_kinds packet). b))"
proof
  show "length (filter (\<lambda>b. b) (control_kinds packet)) \<le> 1"
    by (rule at_most_one) (auto intro: prefix_kind_unique control_kinds_framed)
  show "is_real_overlay_business_packet packet \<longleftrightarrow>
        ipv4_new packet = Inr packet \<and> \<not> (\<exists>b \<in> set (control_kinds packet). b)"
    by (auto simp: is_real_overlay_business_packet_def control_kinds_def dest: ipv4_new_same
        split: sum.splits)
qed

text \<open>
  C26: A relay probe, a path-commit probe and a Direct validation that travel as ICMP echo
  requests parse to exactly the tokens they were built from.
\<close>
theorem control_tokens_round_trip:
  "parse_relay_probe_token (build_icmp_echo_request l r i s
       (build_relay_probe_payload k generation request owner))
     = Some \<lparr>rp_kind = k, rp_generation = generation, rp_request_id = request, rp_owner_token = owner\<rparr>
   \<and> parse_path_commit_token (build_icmp_echo_request l r i s
       (build_path_commit_payload k' generation request owner))
     = Some \<lparr>pc_kind = k', pc_generation = generation, pc_request_id = request, pc_owner_token = owner\<rparr>
   \<and> parse_direct_validation_token (build_icmp_echo_request l r i s
       (build_direct_validation_payload k'' generation request sequence owner))
     = Some \<lparr>dt_kind = k'', dt_generation = generation, dt_request_id = request,
             dt_sequence = sequence, dt_owner_token = owner\<rparr>"
  using relay_probe_tokens.round_trip [of l r i s "\<lparr>rp_kind = k, rp_generation = generation,
      rp_request_id = request, rp_owner_token = owner\<rparr>"]
    path_commit_tokens.round_trip [of l r i s "\<lparr>pc_kind = k', pc_generation = generation,
      pc_request_id = request, pc_owner_token = owner\<rparr>"]
    direct_validation_tokens.round_trip [of l r i s "\<lparr>dt_kind = k'', dt_generation = generation,
      dt_request_id = request, dt_sequence = sequence, dt_owner_token = owner\<rparr>"]
  by (simp add: relay_probe_payload_of_def path_commit_payload_of_def
      direct_validation_payload_of_def)

section \<open>Traces and reply endpoints\<close>

lemma wire_counter_of_transport:
  "wire_counter (transport_to_bytes m) = Some (mt_counter m)
   \<and> wire_receiver_index (transport_to_bytes m) = Some (mt_receiver_index m)"
  by (simp add: wire_counter_def wire_receiver_index_def transport_to_bytes_def wg_consts
      chunk_append_skip chunk_0_append le32.dec_enc le64.dec_enc chunk_past)

lemma dplpmtud_ack_keeps_family:
  "is_ipv4 (dplpmtud_ack_destination path reverse instance source local index) = is_ipv4 source"
  by (simp add: dplpmtud_ack_destination_def split: option.splits)

text \<open>An acknowledgement goes to the bound endpoint only on the socket that owns the path.\<close>

lemma dplpmtud_ack_elsewhere:
  assumes "dplpmtud_ack_destination path reverse instance source local index \<noteq> source"
  shows "\<exists>identity. path = Some identity \<and> pi_local_endpoint identity = local
    \<and> transport_instance_id (pi_socket identity) = instance
    \<and> socket_index (pi_socket identity) = index
    \<and> reverse = Some (dplpmtud_ack_destination path reverse instance source local index)"
  using assms by (auto simp: dplpmtud_ack_destination_def split: option.splits if_splits)

lemma overlay_candidate_is_business:
  assumes "is_overlay_payload_candidate packet"
  shows "is_real_overlay_business_packet packet"
  using assms
  by (auto simp: is_overlay_payload_candidate_def is_real_overlay_business_packet_def
      is_relay_validation_packet_def is_rekey_confirmation_packet_def echo_request_payload_def
      parse_direct_validation_token_def parse_control_packet_def parse_relay_probe_token_def
      parse_path_commit_token_def split: sum.splits)

end
