(* ===== verification/Relay_State.thy ===== *)
theory Relay_State
  imports Path_Service Control_Wire "HOL-Library.AList"
begin

text \<open>
  The state of relay confirmation: what a connection remembers of its relay
  (\<open>client/daemon/src/peer/connection/core.rs\<close>), the membership of peers (\<open>peer.rs\<close>), and the maps of
  the peer manager that the operations of \<open>peer/manager/relay/\<close> and \<open>peer/manager/quarantine.rs\<close>
  read and write. A record holds the fields these operations use. The statistics of a path's
  health are kept as the calls made on them, in order; the log events and the notifications of
  waiting tasks are left out.
\<close>

section \<open>A connection\<close>

datatype health_call =
    Health_Success_Latency duration
  | Health_Success
  | Health_Failure string string
  | Health_Observation
  | Health_Generation_Change string
  | Health_Clear_Timing

text \<open>\<open>RelayFirstBusinessState\<close>.\<close>

record relay_first_state =
  rf_gate_generation :: "u64 option"
  rf_gate_started_at :: "instant option"
  rf_sent :: "u64 option"
  rf_received :: "u64 option"
  rf_exchange :: "u64 option"
  rf_pathcommit :: "u64 option"
  rf_gate_completed :: "u64 option"

definition relay_first_default :: relay_first_state where
  "relay_first_default =
     \<lparr>rf_gate_generation = None, rf_gate_started_at = None, rf_sent = None, rf_received = None,
      rf_exchange = None, rf_pathcommit = None, rf_gate_completed = None\<rparr>"

record peer_connection =
  cn_public_key :: string
  cn_virtual_ip :: string
  cn_registration_seq :: u64
  cn_online :: bool
  cn_state :: connection_state
  cn_machine :: path_machine
  cn_relay_server :: "string option"
  cn_high_water :: "u64 option"
  cn_candidate_epoch :: u64
  cn_relay_health :: "health_call list"
  cn_ready_generation :: "u64 option"
  cn_ready_at :: "instant option"
  cn_ready_endpoint :: "string option"
  cn_ready_connection :: "u64 option"
  cn_confirmed_generation :: "u64 option"
  cn_confirmed_at :: "instant option"
  cn_confirmed_endpoint :: "string option"
  cn_confirmed_connection :: "u64 option"
  cn_first :: relay_first_state
  cn_confirm_seq :: u64
  cn_usable_generation :: "u64 option"
  cn_usable_at :: "instant option"
  cn_usable_path :: "network_path option"

definition peer_connection_new :: "string \<Rightarrow> peer_connection" where
  "peer_connection_new virtual_ip =
     \<lparr>cn_public_key = [], cn_virtual_ip = virtual_ip, cn_registration_seq = 0, cn_online = True,
      cn_state = CS_Idle, cn_machine = path_machine_new CS_Idle, cn_relay_server = None,
      cn_high_water = None, cn_candidate_epoch = 0, cn_relay_health = [],
      cn_ready_generation = None, cn_ready_at = None, cn_ready_endpoint = None,
      cn_ready_connection = None, cn_confirmed_generation = None, cn_confirmed_at = None,
      cn_confirmed_endpoint = None, cn_confirmed_connection = None,
      cn_first = relay_first_default, cn_confirm_seq = 0, cn_usable_generation = None,
      cn_usable_at = None, cn_usable_path = None\<rparr>"

text \<open>
  \<open>commit_path_transition\<close>: reduce, commit, and run the side effects under the same guard only when
  the machine took the event. The compatibility state is published before they run.
\<close>

definition commit_path_transition ::
  "path_event \<Rightarrow> (peer_connection \<Rightarrow> peer_connection) \<Rightarrow> peer_connection
   \<Rightarrow> peer_connection \<times> path_transition_decision" where
  "commit_path_transition event side_effects conn =
     (let (machine, outcome) = path_commit (cn_machine conn) (path_reduce (cn_machine conn) event);
          conn1 = conn\<lparr>cn_machine := machine\<rparr>;
          decision = po_decision outcome
      in if \<not> applies_side_effects decision then (conn1, decision)
         else (side_effects
                 (conn1\<lparr>cn_state := ps_compatibility_state (sn_state (po_snapshot outcome))\<rparr>),
               decision))"

subsection \<open>Groups of fields the operations clear together\<close>

definition clear_business :: "relay_first_state \<Rightarrow> relay_first_state" where
  "clear_business f =
     f\<lparr>rf_sent := None, rf_received := None, rf_exchange := None, rf_pathcommit := None\<rparr>"

definition clear_gate :: "relay_first_state \<Rightarrow> relay_first_state" where
  "clear_gate f = f\<lparr>rf_gate_generation := None, rf_gate_started_at := None\<rparr>"

definition clear_ready :: "peer_connection \<Rightarrow> peer_connection" where
  "clear_ready conn =
     conn\<lparr>cn_ready_generation := None, cn_ready_at := None, cn_ready_endpoint := None,
          cn_ready_connection := None\<rparr>"

definition clear_confirmed :: "peer_connection \<Rightarrow> peer_connection" where
  "clear_confirmed conn =
     conn\<lparr>cn_confirmed_generation := None, cn_confirmed_at := None,
          cn_confirmed_endpoint := None, cn_confirmed_connection := None\<rparr>"

definition clear_usable :: "peer_connection \<Rightarrow> peer_connection" where
  "clear_usable conn =
     conn\<lparr>cn_usable_generation := None, cn_usable_at := None, cn_usable_path := None\<rparr>"

definition health :: "health_call \<Rightarrow> peer_connection \<Rightarrow> peer_connection" where
  "health call conn = conn\<lparr>cn_relay_health := cn_relay_health conn @ [call]\<rparr>"

definition record_first_usable ::
  "network_path \<Rightarrow> u64 \<Rightarrow> instant \<Rightarrow> peer_connection \<Rightarrow> peer_connection \<times> bool" where
  "record_first_usable path generation now conn =
     (if cn_usable_generation conn = Some generation \<and> cn_usable_at conn \<noteq> None then (conn, False)
      else (conn\<lparr>cn_usable_generation := Some generation, cn_usable_at := Some now,
                 cn_usable_path := Some path\<rparr>, True))"

subsection \<open>Resets\<close>

definition forget_relay :: "peer_connection \<Rightarrow> peer_connection" where
  "forget_relay conn =
     clear_usable (clear_confirmed (clear_ready
       (conn\<lparr>cn_high_water := None, cn_candidate_epoch := 0, cn_relay_server := None,
             cn_relay_health := [], cn_first := relay_first_default\<rparr>)))"

definition reset_for_identity_change :: "peer_connection \<Rightarrow> peer_connection" where
  "reset_for_identity_change conn = fst (commit_path_transition IdentityReset forget_relay conn)"

definition reset_for_peer_session :: "peer_connection \<Rightarrow> peer_connection" where
  "reset_for_peer_session conn =
     (reset_for_identity_change conn)\<lparr>cn_high_water := cn_high_water conn\<rparr>"

definition start_direct_first :: "bool \<Rightarrow> path_epoch \<Rightarrow> instant \<Rightarrow> peer_connection \<Rightarrow> peer_connection" where
  "start_direct_first policy_direct_first epoch now conn =
     (if policy_direct_first \<and> ps_direct_first (pm_state (cn_machine conn)) = None
      then fst (commit_path_transition (DirectFirstStarted epoch now) id conn) else conn)"

subsection \<open>Network generations\<close>

definition apply_network_generation_changed :: "u64 \<Rightarrow> peer_connection \<Rightarrow> peer_connection" where
  "apply_network_generation_changed g conn =
     (let c1 = (if cn_usable_generation conn \<noteq> Some g then clear_usable conn else conn);
          c2 = (if rf_gate_completed (cn_first c1) \<noteq> Some g
                then c1\<lparr>cn_first := (cn_first c1)\<lparr>rf_gate_completed := None\<rparr>\<rparr> else c1);
          c3 = (if cn_ready_generation c2 \<noteq> Some g
                then (clear_ready c2)\<lparr>cn_first := clear_business (cn_first c2)\<rparr> else c2);
          c4 = (if rf_gate_generation (cn_first c3) \<noteq> Some g
                then c3\<lparr>cn_first := clear_gate (cn_first c3)\<rparr> else c3)
      in if cn_confirmed_generation c4 \<noteq> Some g
         then (clear_confirmed c4)\<lparr>cn_first := clear_business (cn_first c4),
                                   cn_confirm_seq := cn_confirm_seq c4 + 1\<rparr>
         else c4)"

definition mark_network_generation_changed ::
  "u64 \<Rightarrow> u64 \<Rightarrow> string \<Rightarrow> peer_connection \<Rightarrow> peer_connection" where
  "mark_network_generation_changed g session reason conn =
     fst (commit_path_transition
       (NetworkGenerationAdvanced
          \<lparr>network_generation = g, peer_session_generation = session,
           remote_candidate_epoch = cn_candidate_epoch conn\<rparr> Retain_None)
       (\<lambda>c. apply_network_generation_changed g (health (Health_Generation_Change reason) c)) conn)"

definition apply_candidate_refresh :: "u64 \<Rightarrow> peer_connection \<Rightarrow> peer_connection" where
  "apply_candidate_refresh g conn =
     (let c1 = (if cn_usable_generation conn \<noteq> Some g then clear_usable conn else conn);
          c2 = c1\<lparr>cn_first := clear_gate (clear_business (cn_first c1))\<rparr>
      in if cn_confirmed_at c1 \<noteq> None \<and> cn_confirmed_endpoint c1 \<noteq> None
         then c2\<lparr>cn_confirmed_generation := Some g, cn_ready_generation := Some g,
                 cn_ready_connection := cn_confirmed_connection c2\<rparr>
         else clear_ready c2)"

text \<open>\<open>retains_direct\<close> is the verdict on the candidate pairs, which are not part of this model.\<close>

definition refresh_retention :: "bool \<Rightarrow> peer_connection \<Rightarrow> path_retention" where
  "refresh_retention retains_direct conn =
     (let retains_relay = (cn_confirmed_at conn \<noteq> None \<and> cn_confirmed_endpoint conn \<noteq> None)
      in if retains_direct \<and> cn_state conn = CS_Direct
         then if retains_relay then Retain_DirectAndRelay else Retain_Direct
         else if retains_relay then Retain_Relay else Retain_None)"

definition mark_candidate_refresh ::
  "bool \<Rightarrow> u64 \<Rightarrow> u64 \<Rightarrow> string \<Rightarrow> peer_connection \<Rightarrow> peer_connection" where
  "mark_candidate_refresh retains_direct g session reason conn =
     fst (commit_path_transition
       (NetworkGenerationAdvanced
          \<lparr>network_generation = g, peer_session_generation = session,
           remote_candidate_epoch = cn_candidate_epoch conn\<rparr> (refresh_retention retains_direct conn))
       (\<lambda>c. health (Health_Generation_Change reason) (apply_candidate_refresh g c)) conn)"

definition apply_remote_handover :: "u64 \<Rightarrow> peer_connection \<Rightarrow> peer_connection" where
  "apply_remote_handover next_epoch conn =
     (let c1 = conn\<lparr>cn_candidate_epoch := next_epoch\<rparr>
      in if cn_usable_path c1 = Some NP_Direct then clear_usable c1 else c1)"

definition mark_remote_transport_handover :: "u64 \<Rightarrow> u64 \<Rightarrow> peer_connection \<Rightarrow> peer_connection" where
  "mark_remote_transport_handover g session conn =
     (let epoch = (\<lambda>e. \<lparr>network_generation = g, peer_session_generation = session,
                        remote_candidate_epoch = e\<rparr>);
          c1 = (if ps_epoch (pm_state (cn_machine conn)) = None
                then fst (commit_path_transition (PeerOnline (epoch (cn_candidate_epoch conn))) id conn)
                else conn);
          next_epoch = max (cn_candidate_epoch c1 + 1) 1
      in fst (commit_path_transition (RemoteCandidateEpochAdvanced (epoch next_epoch) Invalidate)
                (apply_remote_handover next_epoch) c1))"

section \<open>Membership\<close>

record membership_entry =
  me_session :: u64
  me_online :: bool

record peer_membership =
  mb_peers :: "string \<Rightarrow> membership_entry option"
  mb_next :: u64

definition publish :: "string \<Rightarrow> bool \<Rightarrow> bool \<Rightarrow> peer_membership \<Rightarrow> peer_membership \<times> u64 option" where
  "publish node online rotates m =
     (case (if rotates then None else mb_peers m node) of
        Some entry \<Rightarrow>
          (m\<lparr>mb_peers := (mb_peers m)(node \<mapsto> entry\<lparr>me_online := online\<rparr>)\<rparr>, Some (me_session entry))
      | None \<Rightarrow>
          if mb_next m = - 1 then (m\<lparr>mb_peers := (mb_peers m)(node := None)\<rparr>, None)
          else let next_session = mb_next m + 1
               in (m\<lparr>mb_peers := (mb_peers m)(node \<mapsto>
                        \<lparr>me_session = next_session, me_online = online\<rparr>),
                     mb_next := next_session\<rparr>, Some next_session))"

definition active_generation :: "peer_membership \<Rightarrow> string \<Rightarrow> u64 option" where
  "active_generation m node =
     (case mb_peers m node of
        None \<Rightarrow> None | Some entry \<Rightarrow> if me_online entry then Some (me_session entry) else None)"

definition any_generation :: "peer_membership \<Rightarrow> string \<Rightarrow> u64 option" where
  "any_generation m node = map_option me_session (mb_peers m node)"

section \<open>The manager\<close>

definition PENDING_RELAY_BUSINESS_EVIDENCE_TTL :: duration where
  "PENDING_RELAY_BUSINESS_EVIDENCE_TTL = from_secs 3"

definition MAX_PENDING_RELAY_BUSINESS_EVIDENCE :: nat where
  "MAX_PENDING_RELAY_BUSINESS_EVIDENCE = 1024"

definition RELAY_PEER_NOT_FOUND_GRACE :: duration where "RELAY_PEER_NOT_FOUND_GRACE = from_secs 15"

definition STALE_PEER_QUARANTINE_BASE :: duration where "STALE_PEER_QUARANTINE_BASE = from_secs 60"

definition STALE_PEER_QUARANTINE_MAX :: duration where
  "STALE_PEER_QUARANTINE_MAX = from_secs (30 * 60)"

record relay_evidence =
  ev_generation :: u64
  ev_session :: u64
  ev_wireguard :: u64
  ev_endpoint :: string
  ev_connection :: "u64 option"
  ev_received_at :: instant

record quarantine_state =
  qs_until :: "instant option"
  qs_consecutive :: u32
  qs_last :: "instant option"
  qs_reason :: "string option"

record grace_state =
  gs_started_at :: instant
  gs_public_key :: string
  gs_event_recorded :: bool

text \<open>The pending evidence is an association list from peers, so that the oldest entry can be found.\<close>

record relay_manager =
  rm_connections :: "string \<Rightarrow> peer_connection option"
  rm_generation :: u64
  rm_membership :: peer_membership
  rm_probes :: "string \<Rightarrow> relay_probe_expectation option"
  rm_commits :: "string \<Rightarrow> path_commit_expectation option"
  rm_evidence :: "(string \<times> relay_evidence) list"
  rm_quarantined :: "string \<Rightarrow> quarantine_state option"
  rm_deadlines :: "string \<Rightarrow> instant option"
  rm_grace :: "string \<Rightarrow> grace_state option"
  rm_confirm_seq :: "string \<Rightarrow> u64 option"
  rm_relay_first_required :: bool

definition relay_manager_new :: "u64 \<Rightarrow> relay_manager" where
  "relay_manager_new g =
     \<lparr>rm_connections = Map.empty, rm_generation = g,
      rm_membership = \<lparr>mb_peers = Map.empty, mb_next = 0\<rparr>,
      rm_probes = Map.empty, rm_commits = Map.empty, rm_evidence = [],
      rm_quarantined = Map.empty, rm_deadlines = Map.empty, rm_grace = Map.empty,
      rm_confirm_seq = Map.empty, rm_relay_first_required = False\<rparr>"

definition session_is_current :: "relay_manager \<Rightarrow> string \<Rightarrow> u64 \<Rightarrow> bool" where
  "session_is_current st node session \<longleftrightarrow> active_generation (rm_membership st) node = Some session"

definition peer_quarantined :: "relay_manager \<Rightarrow> string \<Rightarrow> instant \<Rightarrow> bool" where
  "peer_quarantined st node now =
     (case rm_deadlines st node of None \<Rightarrow> False | Some deadline \<Rightarrow> now < deadline)"

text \<open>The check drops a deadline it finds expired.\<close>

definition check_quarantine :: "string \<Rightarrow> instant \<Rightarrow> relay_manager \<Rightarrow> relay_manager" where
  "check_quarantine node now st =
     (if peer_quarantined st node now then st
      else st\<lparr>rm_deadlines := (rm_deadlines st)(node := None)\<rparr>)"

definition bump_confirm_seq :: "string \<Rightarrow> relay_manager \<Rightarrow> relay_manager" where
  "bump_confirm_seq node st =
     st\<lparr>rm_confirm_seq := (rm_confirm_seq st)(node \<mapsto>
          (case rm_confirm_seq st node of None \<Rightarrow> 0 | Some n \<Rightarrow> n) + 1)\<rparr>"

definition put_connection :: "string \<Rightarrow> peer_connection \<Rightarrow> relay_manager \<Rightarrow> relay_manager" where
  "put_connection node conn st = st\<lparr>rm_connections := (rm_connections st)(node \<mapsto> conn)\<rparr>"

text \<open>The identity a relay event carries.\<close>

definition relay_id ::
  "relay_manager \<Rightarrow> u64 \<Rightarrow> peer_connection \<Rightarrow> string \<Rightarrow> u64 option \<Rightarrow> relay_connection_identity" where
  "relay_id st session conn endpoint connection =
     rc_new \<lparr>network_generation = rm_generation st, peer_session_generation = session,
             remote_candidate_epoch = cn_candidate_epoch conn\<rparr> endpoint connection"

definition first_of :: "'a option \<Rightarrow> 'a option \<Rightarrow> 'a option" where
  "first_of a b = (case a of None \<Rightarrow> b | Some _ \<Rightarrow> a)"

text \<open>The relay a failure or a loss is reported for, when no endpoint is named.\<close>

definition bound_endpoint :: "peer_connection \<Rightarrow> string" where
  "bound_endpoint conn =
     (case first_of (cn_confirmed_endpoint conn)
             (first_of (cn_ready_endpoint conn) (cn_relay_server conn)) of
        None \<Rightarrow> ''compatibility-relay'' | Some endpoint \<Rightarrow> endpoint)"

definition bound_connection :: "peer_connection \<Rightarrow> u64 option" where
  "bound_connection conn = first_of (cn_confirmed_connection conn) (cn_ready_connection conn)"

definition live :: "peer_connection \<Rightarrow> bool" where
  "live conn \<longleftrightarrow> cn_online conn \<and> cn_state conn \<noteq> CS_Closed"

text \<open>\<open>is_relay_peer_confirmed_for_generation\<close>, the predicate of the data plane.\<close>

definition is_relay_peer_confirmed_for_generation :: "relay_manager \<Rightarrow> string \<Rightarrow> u64 \<Rightarrow> bool" where
  "is_relay_peer_confirmed_for_generation st node generation =
     (case rm_connections st node of
        None \<Rightarrow> False
      | Some conn \<Rightarrow>
          live conn \<and> cn_confirmed_at conn \<noteq> None
          \<and> cn_confirmed_generation conn = Some generation
          \<and> (case cn_confirmed_endpoint conn of None \<Rightarrow> False | Some endpoint \<Rightarrow> endpoint \<noteq> []))"

end
