(* ===== verification/Relay_Confirm.thy ===== *)
theory Relay_Confirm
  imports Relay_State
begin

text \<open>
  Readiness, confirmation and business evidence of a relay path
  (\<open>client/daemon/src/peer/manager/relay/readiness.rs\<close>, \<open>confirmation.rs\<close>, \<open>business_evidence.rs\<close>).
  A lock that is only tried is an argument: \<open>contention\<close> says which of the two try-locks fails.
  \<open>clock i\<close> is the \<open>i\<close>-th instant the operation reads.
\<close>

datatype contention = Uncontended | Epoch_Busy | Connections_Busy

text \<open>A commit on the connection of \<open>node\<close>; the waiters' sequence moves with its side effects.\<close>

definition commit_on ::
  "string \<Rightarrow> peer_connection \<Rightarrow> path_event \<Rightarrow> (peer_connection \<Rightarrow> peer_connection) \<Rightarrow> bool
   \<Rightarrow> relay_manager \<Rightarrow> relay_manager \<times> path_transition_decision" where
  "commit_on node conn event side_effects bumps st =
     (let (conn', decision) = commit_path_transition event side_effects conn;
          st' = put_connection node conn' st
      in (if applies_side_effects decision \<and> bumps then bump_confirm_seq node st' else st', decision))"

section \<open>Readiness\<close>

datatype ready_outcome =
    Ready_Committed | Ready_AlreadyCurrent | Ready_ContendedEpoch | Ready_ContendedConnections
  | Ready_Rejected

definition ready_unknown_or_changed :: "u64 option \<Rightarrow> peer_connection \<Rightarrow> bool" where
  "ready_unknown_or_changed connection conn \<longleftrightarrow>
     connection \<noteq> None \<and> cn_ready_connection conn \<noteq> connection"

definition ready_is_current :: "string \<Rightarrow> u64 \<Rightarrow> u64 option \<Rightarrow> peer_connection \<Rightarrow> bool" where
  "ready_is_current endpoint generation connection conn \<longleftrightarrow>
     cn_ready_endpoint conn = Some endpoint \<and> cn_ready_generation conn = Some generation
     \<and> \<not> ready_unknown_or_changed connection conn"

text \<open>
  The side effects of readiness. They run only when readiness is not current, and then
  \<open>confirmation_must_be_invalidated\<close> is true: a confirmation of the former relay is dropped.
\<close>

definition ready_effects ::
  "string \<Rightarrow> u64 \<Rightarrow> u64 option \<Rightarrow> instant \<Rightarrow> peer_connection \<Rightarrow> peer_connection" where
  "ready_effects endpoint generation connection now conn =
     (let c1 = health Health_Clear_Timing conn;
          c2 = (if cn_confirmed_at c1 \<noteq> None
                then (clear_confirmed c1)\<lparr>cn_first := clear_business (cn_first c1),
                                          cn_confirm_seq := cn_confirm_seq c1 + 1\<rparr>
                else c1);
          c3 = c2\<lparr>cn_ready_generation := Some generation, cn_ready_at := Some now,
                  cn_ready_endpoint := Some endpoint, cn_ready_connection := connection\<rparr>;
          f = cn_first c3;
          armed = (if rf_gate_generation f \<noteq> Some generation
                   then f\<lparr>rf_gate_generation := Some generation, rf_gate_started_at := Some now\<rparr>
                   else f\<lparr>rf_gate_started_at := first_of (rf_gate_started_at f) (Some now)\<rparr>)
      in c3\<lparr>cn_first := clear_business armed\<rparr>)"

definition commit_ready ::
  "string \<Rightarrow> string \<Rightarrow> u64 \<Rightarrow> u64 option \<Rightarrow> u64 \<Rightarrow> instant \<Rightarrow> peer_connection \<Rightarrow> relay_manager
   \<Rightarrow> relay_manager \<times> ready_outcome" where
  "commit_ready node endpoint generation connection session now conn st =
     (if ready_is_current endpoint generation connection conn then (st, Ready_AlreadyCurrent)
      else let (st', decision) =
             commit_on node conn
               (RelayTransportReady (relay_id st session conn endpoint connection))
               (ready_effects endpoint generation connection now) (cn_confirmed_at conn \<noteq> None) st
           in (st', if accepted decision then Ready_Committed else Ready_Rejected))"

definition try_mark_relay_transport_ready ::
  "contention \<Rightarrow> string \<Rightarrow> string \<Rightarrow> u64 \<Rightarrow> u64 option \<Rightarrow> (nat \<Rightarrow> instant) \<Rightarrow> relay_manager
   \<Rightarrow> relay_manager \<times> ready_outcome" where
  "try_mark_relay_transport_ready contention node endpoint generation connection clock st =
     (if contention = Epoch_Busy then (st, Ready_ContendedEpoch)
      else if generation \<noteq> rm_generation st then (st, Ready_Rejected)
      else
        let st1 = check_quarantine node (clock 0) st
        in if peer_quarantined st node (clock 0) then (st1, Ready_Rejected)
           else case active_generation (rm_membership st1) node of
             None \<Rightarrow> (st1, Ready_Rejected)
           | Some session \<Rightarrow>
               if contention = Connections_Busy then (st1, Ready_ContendedConnections)
               else case rm_connections st1 node of
                 None \<Rightarrow> (st1, Ready_Rejected)
               | Some conn \<Rightarrow>
                   if \<not> live conn then (st1, Ready_Rejected)
                   else if peer_quarantined st1 node (clock 2) then (st1, Ready_Rejected)
                   else commit_ready node endpoint generation connection session (clock 1) conn
                          (check_quarantine node (clock 2) st1))"

section \<open>The ledger of pending business evidence\<close>

definition prune_evidence :: "instant \<Rightarrow> (string \<times> relay_evidence) list \<Rightarrow> (string \<times> relay_evidence) list" where
  "prune_evidence now pending =
     filter (\<lambda>(_, e). saturating_duration_since now (ev_received_at e)
                        \<le> PENDING_RELAY_BUSINESS_EVIDENCE_TTL) pending"

text \<open>
  The peers whose evidence is the oldest; which of them an eviction meets first depends on the
  order of the hash map, so \<open>tie\<close> chooses.
\<close>

definition oldest_peers :: "(string \<times> relay_evidence) list \<Rightarrow> string list" where
  "oldest_peers pending =
     map fst (filter (\<lambda>(_, e). \<forall>(_, e') \<in> set pending. ev_received_at e \<le> ev_received_at e') pending)"

definition evict_oldest_evidence ::
  "nat \<Rightarrow> (string \<times> relay_evidence) list \<Rightarrow> (string \<times> relay_evidence) list" where
  "evict_oldest_evidence tie pending =
     (let oldest = oldest_peers pending
      in if oldest = [] then pending else AList.delete (oldest ! (tie mod length oldest)) pending)"

definition retain_evidence ::
  "nat \<Rightarrow> string \<Rightarrow> relay_evidence \<Rightarrow> instant \<Rightarrow> (string \<times> relay_evidence) list
   \<Rightarrow> (string \<times> relay_evidence) list \<times> bool" where
  "retain_evidence tie node evidence now pending0 =
     (let pending = prune_evidence now pending0
      in if PENDING_RELAY_BUSINESS_EVIDENCE_TTL
              < saturating_duration_since now (ev_received_at evidence)
         then (pending, False)
         else if (case map_of pending node of
                    None \<Rightarrow> False
                  | Some current \<Rightarrow> ev_received_at evidence < ev_received_at current)
         then (pending, False)
         else
           let room = (if map_of pending node = None
                          \<and> MAX_PENDING_RELAY_BUSINESS_EVIDENCE \<le> length pending
                       then evict_oldest_evidence tie pending else pending)
           in (AList.update node evidence room, True))"

definition evidence_fits ::
  "u64 \<Rightarrow> u64 \<Rightarrow> u64 \<Rightarrow> string \<Rightarrow> u64 option \<Rightarrow> relay_evidence \<Rightarrow> bool" where
  "evidence_fits generation session wireguard endpoint connection e \<longleftrightarrow>
     ev_generation e = generation \<and> ev_session e = session \<and> ev_wireguard e = wireguard
     \<and> ev_endpoint e = endpoint \<and> ev_connection e = connection"

definition pending_evidence_for_lifecycle ::
  "string \<Rightarrow> u64 \<Rightarrow> u64 \<Rightarrow> u64 \<Rightarrow> string \<Rightarrow> u64 option \<Rightarrow> instant \<Rightarrow> relay_manager
   \<Rightarrow> relay_manager \<times> relay_evidence option" where
  "pending_evidence_for_lifecycle node generation session wireguard endpoint connection now st =
     (let pending = prune_evidence now (rm_evidence st)
      in (st\<lparr>rm_evidence := pending\<rparr>,
          case map_of pending node of
            None \<Rightarrow> None
          | Some e \<Rightarrow>
              if evidence_fits generation session wireguard endpoint connection e
              then Some e else None))"

definition remove_evidence_if_exact :: "string \<Rightarrow> relay_evidence \<Rightarrow> relay_manager \<Rightarrow> relay_manager" where
  "remove_evidence_if_exact node evidence st =
     (if map_of (rm_evidence st) node = Some evidence
      then st\<lparr>rm_evidence := AList.delete node (rm_evidence st)\<rparr> else st)"

definition evidence_is_exact ::
  "string \<Rightarrow> relay_evidence \<Rightarrow> instant \<Rightarrow> relay_manager \<Rightarrow> relay_manager \<times> bool" where
  "evidence_is_exact node evidence now st =
     (let pending = prune_evidence now (rm_evidence st)
      in (st\<lparr>rm_evidence := pending\<rparr>, map_of pending node = Some evidence))"

section \<open>Confirmation\<close>

definition confirmed_on :: "string \<Rightarrow> u64 \<Rightarrow> u64 option \<Rightarrow> peer_connection \<Rightarrow> bool" where
  "confirmed_on endpoint generation connection conn \<longleftrightarrow>
     cn_confirmed_at conn \<noteq> None \<and> cn_confirmed_generation conn = Some generation
     \<and> cn_confirmed_endpoint conn = Some endpoint \<and> cn_confirmed_connection conn = connection"

text \<open>
  The two branches of the code that install a confirmation, for a new relay of the same
  generation and for a new generation, set the same fields.
\<close>

definition install_confirmation ::
  "string \<Rightarrow> u64 \<Rightarrow> u64 option \<Rightarrow> instant \<Rightarrow> peer_connection \<Rightarrow> peer_connection" where
  "install_confirmation endpoint generation connection now conn =
     (let c1 = conn\<lparr>cn_confirmed_generation := Some generation, cn_confirmed_at := Some now,
                    cn_confirmed_endpoint := Some endpoint,
                    cn_confirmed_connection := connection\<rparr>;
          c2 = (if cn_ready_generation c1 = Some generation \<and> cn_ready_endpoint c1 = Some endpoint
                then c1\<lparr>cn_ready_connection := connection\<rparr> else c1)
      in c2\<lparr>cn_confirm_seq := cn_confirm_seq c2 + 1,
            cn_first := clear_business (clear_gate (cn_first c2))\<rparr>)"

text \<open>Both directions of business have crossed the confirmed relay.\<close>

definition complete_exchange :: "u64 \<Rightarrow> peer_connection \<Rightarrow> peer_connection" where
  "complete_exchange generation conn =
     conn\<lparr>cn_first := (cn_first conn)\<lparr>rf_exchange := Some generation,
                                     rf_gate_completed := Some generation\<rparr>\<rparr>"

definition promote_pending :: "u64 \<Rightarrow> instant \<Rightarrow> peer_connection \<Rightarrow> peer_connection" where
  "promote_pending generation now conn =
     (let c1 = conn\<lparr>cn_first := (cn_first conn)\<lparr>rf_received := Some generation\<rparr>\<rparr>;
          c2 = (if rf_sent (cn_first c1) = Some generation
                   \<and> rf_exchange (cn_first c1) \<noteq> Some generation
                then complete_exchange generation c1 else c1)
      in fst (record_first_usable NP_Relay generation now c2))"

definition confirm_effects ::
  "string \<Rightarrow> u64 \<Rightarrow> u64 option \<Rightarrow> instant \<Rightarrow> bool \<Rightarrow> instant \<Rightarrow> peer_connection \<Rightarrow> peer_connection" where
  "confirm_effects endpoint generation connection now pending later conn =
     (let lifecycle_changed =
            (cn_confirmed_generation conn \<noteq> Some generation
             \<or> cn_confirmed_endpoint conn \<noteq> Some endpoint
             \<or> cn_confirmed_connection conn \<noteq> connection);
          c1 = (if lifecycle_changed then health Health_Clear_Timing conn else conn);
          c2 = (if confirmed_on endpoint generation connection c1 then c1
                else install_confirmation endpoint generation connection now c1)
      in if pending then promote_pending generation later c2 else c2)"

definition live_transport_mismatch :: "string \<Rightarrow> u64 \<Rightarrow> u64 option \<Rightarrow> peer_connection \<Rightarrow> bool" where
  "live_transport_mismatch endpoint generation connection conn \<longleftrightarrow>
     connection \<noteq> None
     \<and> \<not> (cn_ready_generation conn = Some generation \<and> cn_ready_endpoint conn = Some endpoint
          \<and> cn_ready_connection conn = connection)"

text \<open>The transaction under both locks; \<open>None\<close> is an early return of the code.\<close>

definition commit_confirmation ::
  "string \<Rightarrow> string \<Rightarrow> u64 \<Rightarrow> u64 option \<Rightarrow> u64 \<Rightarrow> relay_evidence option \<Rightarrow> (nat \<Rightarrow> instant)
   \<Rightarrow> peer_connection \<Rightarrow> relay_manager \<Rightarrow> relay_manager \<times> bool option" where
  "commit_confirmation node endpoint generation connection session evidence clock conn st =
     (let (st1, pending) = (case evidence of
            None \<Rightarrow> (st, False) | Some e \<Rightarrow> evidence_is_exact node e (clock 3) st);
          changed = (\<not> confirmed_on endpoint generation connection conn);
          (st2, decision) =
            commit_on node conn (RelayPeerConfirmed (relay_id st session conn endpoint connection))
              (confirm_effects endpoint generation connection (clock 0) pending (clock 4))
              changed st1
      in (st2, if accepted decision then Some (applies_side_effects decision \<and> changed) else None))"

definition confirm_under_locks ::
  "contention \<Rightarrow> string \<Rightarrow> string \<Rightarrow> u64 \<Rightarrow> u64 option \<Rightarrow> u64 \<Rightarrow> relay_evidence option
   \<Rightarrow> (nat \<Rightarrow> instant) \<Rightarrow> relay_manager \<Rightarrow> relay_manager \<times> bool option" where
  "confirm_under_locks contention node endpoint generation connection session evidence clock st =
     (if contention = Epoch_Busy then (st, None)
      else if generation \<noteq> rm_generation st then (st, None)
      else if \<not> session_is_current st node session then (st, None)
      else
        let st1 = check_quarantine node (clock 1) st
        in if peer_quarantined st node (clock 1) then (st1, None)
           else if contention = Connections_Busy then (st1, None)
           else case rm_connections st1 node of
             None \<Rightarrow> (st1, None)
           | Some conn \<Rightarrow>
               if \<not> live conn then (st1, None)
               else
                 let st2 = check_quarantine node (clock 2) st1
                 in if peer_quarantined st1 node (clock 2) then (st2, None)
                    else if live_transport_mismatch endpoint generation connection conn
                    then (st2, None)
                    else commit_confirmation node endpoint generation connection session evidence
                           clock conn st2)"

definition confirm_relay_peer ::
  "contention \<Rightarrow> string \<Rightarrow> string \<Rightarrow> u64 \<Rightarrow> u64 option \<Rightarrow> u64 option \<Rightarrow> u64 option
   \<Rightarrow> (nat \<Rightarrow> instant) \<Rightarrow> relay_manager \<Rightarrow> relay_manager \<times> bool" where
  "confirm_relay_peer contention node endpoint generation connection session wireguard clock st =
     (let (st1, evidence) =
            (case (session, wireguard) of
               (Some s, Some w) \<Rightarrow>
                 pending_evidence_for_lifecycle node generation s w endpoint connection (clock 0) st
             | _ \<Rightarrow> (st, None))
      in case session of
           None \<Rightarrow> (st1, False)
         | Some s \<Rightarrow>
             (case confirm_under_locks contention node endpoint generation connection s evidence
                     clock st1 of
                (st2, None) \<Rightarrow> (st2, False)
              | (st2, Some changed) \<Rightarrow>
                  (case evidence of
                     None \<Rightarrow> (st2, changed)
                   | Some e \<Rightarrow> (remove_evidence_if_exact node e st2, changed))))"

text \<open>Authenticated business that arrives over the relay confirms it, too.\<close>

definition confirm_from_business_for_session ::
  "contention \<Rightarrow> string \<Rightarrow> string \<Rightarrow> u64 \<Rightarrow> u64 option \<Rightarrow> u64 \<Rightarrow> u64 \<Rightarrow> (nat \<Rightarrow> instant)
   \<Rightarrow> relay_manager \<Rightarrow> relay_manager \<times> bool" where
  "confirm_from_business_for_session contention node endpoint generation connection session
       wireguard clock st =
     confirm_relay_peer contention node endpoint generation connection (Some session)
       (Some wireguard) clock st"

definition confirm_from_business ::
  "contention \<Rightarrow> string \<Rightarrow> string \<Rightarrow> u64 \<Rightarrow> u64 option \<Rightarrow> (nat \<Rightarrow> instant) \<Rightarrow> relay_manager
   \<Rightarrow> relay_manager \<times> bool" where
  "confirm_from_business contention node endpoint generation connection clock st =
     confirm_relay_peer contention node endpoint generation connection
       (active_generation (rm_membership st) node) (Some 0) clock st"

definition try_record_relay_observation ::
  "contention \<Rightarrow> string \<Rightarrow> string \<Rightarrow> relay_manager \<Rightarrow> relay_manager" where
  "try_record_relay_observation contention node relay_server st =
     (if contention = Connections_Busy then st
      else case rm_connections st node of
        None \<Rightarrow> st
      | Some conn \<Rightarrow>
          put_connection node
            (health Health_Observation (conn\<lparr>cn_relay_server := Some relay_server\<rparr>)) st)"

definition record_relay_attempt :: "contention \<Rightarrow> string \<Rightarrow> string \<Rightarrow> relay_manager \<Rightarrow> relay_manager" where
  "record_relay_attempt contention node relay_server st =
     (if contention = Connections_Busy then st
      else case rm_connections st node of
        None \<Rightarrow> st
      | Some conn \<Rightarrow> put_connection node (conn\<lparr>cn_relay_server := Some relay_server\<rparr>) st)"

section \<open>Business evidence\<close>

datatype evidence_outcome =
    Evidence_Committed | Evidence_AlreadyCurrent | Evidence_PendingConfirmation
  | Evidence_ContendedEpoch | Evidence_ContendedConnections | Evidence_RejectedLifecycle

definition sent_effects :: "u64 \<Rightarrow> peer_connection \<Rightarrow> peer_connection" where
  "sent_effects generation conn =
     (let c1 = conn\<lparr>cn_first := (cn_first conn)\<lparr>rf_sent := Some generation\<rparr>\<rparr>
      in if rf_received (cn_first c1) = Some generation \<and> rf_exchange (cn_first c1) \<noteq> Some generation
         then complete_exchange generation c1 else c1)"

text \<open>\<open>expected\<close> is the relay the packet was written to, where the caller knows it.\<close>

definition mark_relay_first_business_sent ::
  "string \<Rightarrow> u64 \<Rightarrow> string option \<Rightarrow> u64 option \<Rightarrow> relay_manager \<Rightarrow> relay_manager \<times> bool" where
  "mark_relay_first_business_sent node generation expected connection st =
     (if generation \<noteq> rm_generation st then (st, False)
      else case (active_generation (rm_membership st) node, rm_connections st node) of
        (Some session, Some conn) \<Rightarrow>
          (case cn_confirmed_endpoint conn of
             None \<Rightarrow> (st, False)
           | Some endpoint \<Rightarrow>
               if live conn \<and> cn_confirmed_at conn \<noteq> None
                  \<and> cn_confirmed_generation conn = Some generation \<and> endpoint \<noteq> []
                  \<and> (expected = None
                      \<or> (expected = Some endpoint \<and> cn_confirmed_connection conn = connection))
                  \<and> rf_sent (cn_first conn) \<noteq> Some generation
               then
                 let (st', decision) =
                   commit_on node conn
                     (RelayBusinessUsable
                        (relay_id st session conn endpoint (cn_confirmed_connection conn)) Sent)
                     (sent_effects generation) False st
                 in (st', accepted decision)
               else (st, False))
      | _ \<Rightarrow> (st, False))"

definition received_effects :: "u64 \<Rightarrow> instant \<Rightarrow> peer_connection \<Rightarrow> peer_connection" where
  "received_effects generation now conn =
     (let c1 = conn\<lparr>cn_first := (cn_first conn)\<lparr>rf_received := Some generation\<rparr>\<rparr>;
          c2 = (if rf_sent (cn_first c1) = Some generation
                   \<and> rf_exchange (cn_first c1) \<noteq> Some generation
                then complete_exchange generation c1 else c1)
      in fst (record_first_usable NP_Relay generation now c2))"

text \<open>Whether the side effects were new: a first receipt, an exchange, or a first usable path.\<close>

definition received_is_news :: "u64 \<Rightarrow> peer_connection \<Rightarrow> bool" where
  "received_is_news generation conn \<longleftrightarrow>
     rf_received (cn_first conn) \<noteq> Some generation
     \<or> (rf_sent (cn_first conn) = Some generation \<and> rf_exchange (cn_first conn) \<noteq> Some generation)
     \<or> \<not> (cn_usable_generation conn = Some generation \<and> cn_usable_at conn \<noteq> None)"

definition relay_incarnation_mismatch :: "relay_evidence \<Rightarrow> peer_connection \<Rightarrow> bool" where
  "relay_incarnation_mismatch e conn \<longleftrightarrow>
     (cn_ready_generation conn = Some (ev_generation e)
      \<and> (cn_ready_endpoint conn \<noteq> Some (ev_endpoint e) \<or> cn_ready_connection conn \<noteq> ev_connection e))
     \<or> (cn_confirmed_at conn \<noteq> None \<and> cn_confirmed_generation conn = Some (ev_generation e)
        \<and> (cn_confirmed_endpoint conn \<noteq> Some (ev_endpoint e)
            \<or> cn_confirmed_connection conn \<noteq> ev_connection e))"

definition commit_received ::
  "string \<Rightarrow> relay_evidence \<Rightarrow> instant \<Rightarrow> peer_connection \<Rightarrow> relay_manager
   \<Rightarrow> relay_manager \<times> evidence_outcome" where
  "commit_received node e now conn st =
     (if \<not> confirmed_on (ev_endpoint e) (ev_generation e) (ev_connection e) conn
      then if relay_incarnation_mismatch e conn
           then (remove_evidence_if_exact node e st, Evidence_RejectedLifecycle)
           else (st, Evidence_PendingConfirmation)
      else
        let (st', decision) =
          commit_on node conn
            (RelayBusinessUsable
               (relay_id st (ev_session e) conn (ev_endpoint e) (ev_connection e)) Received)
            (received_effects (ev_generation e) now) False st
        in (remove_evidence_if_exact node e st',
            if \<not> accepted decision then Evidence_RejectedLifecycle
            else if applies_side_effects decision \<and> received_is_news (ev_generation e) conn
            then Evidence_Committed else Evidence_AlreadyCurrent))"

definition commit_retained_evidence ::
  "contention \<Rightarrow> string \<Rightarrow> relay_evidence \<Rightarrow> (nat \<Rightarrow> instant) \<Rightarrow> relay_manager
   \<Rightarrow> relay_manager \<times> evidence_outcome" where
  "commit_retained_evidence contention node e clock st =
     (if contention = Epoch_Busy then (st, Evidence_ContendedEpoch)
      else if ev_generation e \<noteq> rm_generation st \<or> \<not> session_is_current st node (ev_session e)
      then (remove_evidence_if_exact node e st, Evidence_RejectedLifecycle)
      else
        let st1 = check_quarantine node (clock 0) st
        in if peer_quarantined st node (clock 0)
           then (remove_evidence_if_exact node e st1, Evidence_RejectedLifecycle)
           else if contention = Connections_Busy then (st1, Evidence_ContendedConnections)
           else case rm_connections st1 node of
             None \<Rightarrow> (remove_evidence_if_exact node e st1, Evidence_RejectedLifecycle)
           | Some conn \<Rightarrow>
               if \<not> live conn
               then (remove_evidence_if_exact node e st1, Evidence_RejectedLifecycle)
               else
                 let st2 = check_quarantine node (clock 1) st1
                 in if peer_quarantined st1 node (clock 1)
                    then (remove_evidence_if_exact node e st2, Evidence_RejectedLifecycle)
                    else case evidence_is_exact node e (clock 2) st2 of
                      (st3, False) \<Rightarrow> (st3, Evidence_RejectedLifecycle)
                    | (st3, True) \<Rightarrow> commit_received node e (clock 3) conn st3)"

definition evidence_for_current_lifecycle ::
  "string \<Rightarrow> relay_evidence \<Rightarrow> instant \<Rightarrow> relay_manager \<Rightarrow> relay_manager \<times> bool" where
  "evidence_for_current_lifecycle node e now st =
     (if ev_generation e \<noteq> rm_generation st \<or> \<not> session_is_current st node (ev_session e)
      then (st, False)
      else (check_quarantine node now st, \<not> peer_quarantined st node now))"

definition retain_pending_evidence ::
  "nat \<Rightarrow> string \<Rightarrow> relay_evidence \<Rightarrow> instant \<Rightarrow> relay_manager \<Rightarrow> relay_manager \<times> bool" where
  "retain_pending_evidence tie node e now st =
     (let (pending, kept) = retain_evidence tie node e now (rm_evidence st)
      in (st\<lparr>rm_evidence := pending\<rparr>, kept))"

definition retain_relay_business_evidence_for_retry ::
  "nat \<Rightarrow> string \<Rightarrow> relay_evidence \<Rightarrow> (nat \<Rightarrow> instant) \<Rightarrow> relay_manager \<Rightarrow> relay_manager \<times> bool" where
  "retain_relay_business_evidence_for_retry tie node e clock st =
     (case evidence_for_current_lifecycle node e (clock 0) st of
        (st1, False) \<Rightarrow> (st1, False)
      | (st1, True) \<Rightarrow> retain_pending_evidence tie node e (clock 1) st1)"

definition try_commit_relay_business_evidence ::
  "contention \<Rightarrow> nat \<Rightarrow> string \<Rightarrow> relay_evidence \<Rightarrow> (nat \<Rightarrow> instant) \<Rightarrow> relay_manager
   \<Rightarrow> relay_manager \<times> evidence_outcome" where
  "try_commit_relay_business_evidence contention tie node e clock st =
     (case evidence_for_current_lifecycle node e (clock 0) st of
        (st1, False) \<Rightarrow> (st1, Evidence_RejectedLifecycle)
      | (st1, True) \<Rightarrow>
          commit_retained_evidence contention node e (\<lambda>i. clock (i + 2))
            (fst (retain_pending_evidence tie node e (clock 1) st1)))"

definition try_commit_pending_evidence_for_session ::
  "contention \<Rightarrow> string \<Rightarrow> u64 \<Rightarrow> u64 \<Rightarrow> u64 \<Rightarrow> string \<Rightarrow> u64 option \<Rightarrow> (nat \<Rightarrow> instant)
   \<Rightarrow> relay_manager \<Rightarrow> relay_manager \<times> evidence_outcome option" where
  "try_commit_pending_evidence_for_session contention node generation session wireguard endpoint
       connection clock st =
     (case pending_evidence_for_lifecycle node generation session wireguard endpoint connection
             (clock 0) st of
        (st1, None) \<Rightarrow> (st1, None)
      | (st1, Some e) \<Rightarrow>
          (let (st2, outcome) = commit_retained_evidence contention node e (\<lambda>i. clock (i + 1)) st1
           in (st2, Some outcome)))"

datatype pathcommit_outcome =
    PathCommit_Committed | PathCommit_AlreadyCurrent | PathCommit_ContendedEpoch
  | PathCommit_ContendedConnections | PathCommit_RejectedLifecycle

definition mark_pathcommit :: "u64 \<Rightarrow> peer_connection \<Rightarrow> peer_connection" where
  "mark_pathcommit generation conn =
     conn\<lparr>cn_first := (cn_first conn)\<lparr>rf_pathcommit := Some generation,
                                     rf_gate_completed := Some generation\<rparr>\<rparr>"

definition try_mark_pathcommit ::
  "contention \<Rightarrow> string \<Rightarrow> u64 \<Rightarrow> string \<Rightarrow> u64 option \<Rightarrow> u64 \<Rightarrow> bool \<Rightarrow> (nat \<Rightarrow> instant)
   \<Rightarrow> relay_manager \<Rightarrow> relay_manager \<times> pathcommit_outcome" where
  "try_mark_pathcommit contention node generation endpoint connection session bind_transport clock st =
     (if contention = Epoch_Busy then (st, PathCommit_ContendedEpoch)
      else if generation \<noteq> rm_generation st \<or> \<not> session_is_current st node session
      then (st, PathCommit_RejectedLifecycle)
      else
        let st1 = check_quarantine node (clock 0) st
        in if peer_quarantined st node (clock 0) then (st1, PathCommit_RejectedLifecycle)
           else if contention = Connections_Busy then (st1, PathCommit_ContendedConnections)
           else case rm_connections st1 node of
             None \<Rightarrow> (st1, PathCommit_RejectedLifecycle)
           | Some conn \<Rightarrow>
               if \<not> live conn then (st1, PathCommit_RejectedLifecycle)
               else
                 let st2 = check_quarantine node (clock 1) st1
                 in if peer_quarantined st1 node (clock 1) \<or> cn_confirmed_at conn = None
                       \<or> cn_confirmed_generation conn \<noteq> Some generation
                       \<or> cn_confirmed_endpoint conn \<noteq> Some endpoint
                       \<or> (bind_transport \<and> cn_confirmed_connection conn \<noteq> connection)
                    then (st2, PathCommit_RejectedLifecycle)
                    else if rf_pathcommit (cn_first conn) = Some generation
                    then (st2, PathCommit_AlreadyCurrent)
                    else (put_connection node (mark_pathcommit generation conn) st2,
                          PathCommit_Committed))"

end
