(* ===== verification/Relay_Lifecycle.thy ===== *)
theory Relay_Lifecycle
  imports Relay_Confirm
begin

text \<open>
  The rest of the operations on a peer's relay: the expectations of the probes in flight and their
  acknowledgements (\<open>peer/manager/relay/probe_expectations.rs\<close>), the loss of a relay
  (\<open>invalidation.rs\<close>), the quarantine of peers the relay does not know (\<open>quarantine.rs\<close>), the first
  usable path (\<open>confirmation.rs\<close>), network generations (\<open>peer/manager/core.rs\<close>) and the life of a peer
  (\<open>peers/lifecycle.rs\<close>, \<open>peers/incarnation_fencing.rs\<close>). \<open>relay_op\<close> lists them all.
\<close>

section \<open>Expectations\<close>

definition register_relay_probe ::
  "string \<Rightarrow> relay_probe_expectation \<Rightarrow> relay_manager \<Rightarrow> relay_manager \<times> bool" where
  "register_relay_probe node e st =
     (if rpe_generation e \<noteq> rm_generation st \<or> \<not> session_is_current st node (rpe_session e)
      then (st, False)
      else if rpe_purpose e = RelayValidation
              \<and> (case rm_probes st node of
                   None \<Rightarrow> False
                 | Some x \<Rightarrow> rpe_purpose x = RelayConfirmation
                            \<and> relay_probe_fresh x (rpe_sent_at e)
                            \<and> rpe_generation x = rpe_generation e
                            \<and> session_is_current st node (rpe_session x))
      then (st, False)
      else
        let retransmitted = (case rm_probes st node of
              None \<Rightarrow> False
            | Some x \<Rightarrow>
                rpe_purpose x = rpe_purpose e \<and> rpe_generation x = rpe_generation e
                \<and> rpe_request_id x = rpe_request_id e \<and> rpe_owner_token x = rpe_owner_token e
                \<and> rpe_endpoint x = rpe_endpoint e \<and> rpe_connection x = rpe_connection e
                \<and> rpe_session x = rpe_session e)
        in (st\<lparr>rm_probes := (rm_probes st)(node \<mapsto>
                  e\<lparr>rpe_rtt_sample_eligible := \<not> retransmitted\<rparr>)\<rparr>, True))"

definition relay_validation_write_permit ::
  "string \<Rightarrow> u64 \<Rightarrow> string \<Rightarrow> u64 \<Rightarrow> relay_manager \<Rightarrow> u64 option" where
  "relay_validation_write_permit node generation endpoint connection st =
     (if generation \<noteq> rm_generation st then None
      else case (active_generation (rm_membership st) node, rm_connections st node) of
        (Some session, Some conn) \<Rightarrow>
          if live conn \<and> confirmed_on endpoint generation (Some connection) conn
          then Some session else None
      | _ \<Rightarrow> None)"

definition cancel_relay_probe_if_matches ::
  "string \<Rightarrow> u64 \<Rightarrow> u16 \<Rightarrow> u64 \<Rightarrow> u64 option \<Rightarrow> relay_manager \<Rightarrow> relay_manager" where
  "cancel_relay_probe_if_matches node generation request owner connection st =
     (case rm_probes st node of
        None \<Rightarrow> st
      | Some e \<Rightarrow>
          if rpe_generation e = generation \<and> rpe_request_id e = request
             \<and> rpe_owner_token e = owner \<and> rpe_connection e = connection
          then st\<lparr>rm_probes := (rm_probes st)(node := None)\<rparr> else st)"

definition relay_probe_present :: "string \<Rightarrow> instant \<Rightarrow> relay_manager \<Rightarrow> relay_manager \<times> bool" where
  "relay_probe_present node now st =
     (let present = (case rm_probes st node of
            None \<Rightarrow> False
          | Some e \<Rightarrow> relay_probe_fresh e now \<and> rpe_generation e = rm_generation st
                     \<and> session_is_current st node (rpe_session e))
      in (if present then st else st\<lparr>rm_probes := (rm_probes st)(node := None)\<rparr>, present))"

definition accept_relay_probe_ack ::
  "contention \<Rightarrow> string \<Rightarrow> string \<Rightarrow> u64 \<Rightarrow> u64 option \<Rightarrow> u64 \<Rightarrow> relay_health_observation_identity
   \<Rightarrow> duration option \<Rightarrow> relay_manager \<Rightarrow> relay_manager \<times> bool" where
  "accept_relay_probe_ack contention node endpoint generation connection session observation rtt st =
     (if contention \<noteq> Uncontended \<or> generation \<noteq> rm_generation st
         \<or> \<not> session_is_current st node session
      then (st, False)
      else case rm_connections st node of
        None \<Rightarrow> (st, False)
      | Some conn \<Rightarrow>
          if \<not> (live conn \<and> confirmed_on endpoint generation connection conn) then (st, False)
          else case rtt of
            None \<Rightarrow> (st, True)
          | Some sample \<Rightarrow>
              let (st', decision) =
                commit_on node conn
                  (RelayHealthObserved (relay_id st session conn endpoint connection) observation)
                  (health (Health_Success_Latency sample)) False st
              in (st', accepted decision))"

text \<open>The two try-locks are taken one after the other, by the confirmation and by the sample.\<close>

definition consume_relay_probe_ack ::
  "contention \<Rightarrow> contention \<Rightarrow> string \<Rightarrow> relay_probe_token \<Rightarrow> string \<Rightarrow> u64 option \<Rightarrow> u64
   \<Rightarrow> (nat \<Rightarrow> instant) \<Rightarrow> relay_manager \<Rightarrow> relay_manager \<times> bool" where
  "consume_relay_probe_ack first second node token ingress connection wireguard clock st0 =
     (let st = check_quarantine node (clock 0) st0
      in if peer_quarantined st0 node (clock 0)
         then (st\<lparr>rm_probes := (rm_probes st)(node := None)\<rparr>, False)
         else case rm_probes st node of
           None \<Rightarrow> (st, False)
         | Some e \<Rightarrow>
             if \<not> relay_probe_accepts e token (clock 1) ingress
                \<or> \<not> relay_probe_accepts_connection e connection
                \<or> \<not> session_is_current st node (rpe_session e)
                \<or> rpe_generation e \<noteq> rm_generation st
             then (st, False)
             else
               let rtt = (if rpe_rtt_sample_eligible e
                          then Some (saturating_duration_since (clock 1) (rpe_sent_at e)) else None);
                   (st1, changed) =
                     confirm_relay_peer first node (rpe_endpoint e) (rpe_generation e) connection
                       (Some (rpe_session e)) (Some wireguard) (\<lambda>i. clock (i + 2)) st;
                   (st2, sampled) =
                     accept_relay_probe_ack second node (rpe_endpoint e) (rpe_generation e)
                       connection (rpe_session e)
                       \<lparr>rh_owner_token = rpe_owner_token e, rh_request_id = rpe_request_id e\<rparr> rtt st1;
                   consumed = (case rm_probes st2 node of
                       None \<Rightarrow> False
                     | Some x \<Rightarrow> rpe_generation x = rpe_generation e
                                \<and> rpe_request_id x = rpe_request_id e
                                \<and> rpe_owner_token x = rpe_owner_token e
                                \<and> rpe_connection x = rpe_connection e
                                \<and> rpe_session x = rpe_session e)
               in if changed \<or> sampled
                  then (if consumed then st2\<lparr>rm_probes := (rm_probes st2)(node := None)\<rparr> else st2, True)
                  else (st2, False))"

definition register_path_commit ::
  "string \<Rightarrow> path_commit_expectation \<Rightarrow> relay_manager \<Rightarrow> relay_manager \<times> bool" where
  "register_path_commit node e st =
     (if pce_generation e \<noteq> rm_generation st \<or> \<not> session_is_current st node (pce_session e)
      then (st, False)
      else (st\<lparr>rm_commits := (rm_commits st)(node \<mapsto> e)\<rparr>, True))"

definition cancel_path_commit_if_matches ::
  "string \<Rightarrow> u64 \<Rightarrow> u16 \<Rightarrow> u64 \<Rightarrow> u64 \<Rightarrow> relay_manager \<Rightarrow> relay_manager" where
  "cancel_path_commit_if_matches node generation request owner connection st =
     (case rm_commits st node of
        None \<Rightarrow> st
      | Some e \<Rightarrow>
          if pce_generation e = generation \<and> pce_request_id e = request
             \<and> pce_owner_token e = owner \<and> pce_connection e = connection
          then st\<lparr>rm_commits := (rm_commits st)(node := None)\<rparr> else st)"

definition path_commit_present :: "string \<Rightarrow> instant \<Rightarrow> relay_manager \<Rightarrow> relay_manager \<times> bool" where
  "path_commit_present node now st =
     (let present = (case rm_commits st node of
            None \<Rightarrow> False
          | Some e \<Rightarrow> path_commit_fresh e now \<and> pce_generation e = rm_generation st
                     \<and> session_is_current st node (pce_session e))
      in (if present then st else st\<lparr>rm_commits := (rm_commits st)(node := None)\<rparr>, present))"

text \<open>The map of expectations stays locked, so the one that is deleted is the one that was read.\<close>

definition try_consume_path_commit_ack ::
  "contention \<Rightarrow> string \<Rightarrow> path_commit_token \<Rightarrow> string \<Rightarrow> u64 option \<Rightarrow> (nat \<Rightarrow> instant)
   \<Rightarrow> relay_manager \<Rightarrow> relay_manager \<times> pathcommit_outcome" where
  "try_consume_path_commit_ack contention node token ingress connection clock st =
     (case rm_commits st node of
        None \<Rightarrow> (st, PathCommit_RejectedLifecycle)
      | Some e \<Rightarrow>
          if \<not> path_commit_accepts e token (clock 0) ingress
             \<or> \<not> path_commit_accepts_connection e connection
             \<or> pce_generation e \<noteq> rm_generation st \<or> \<not> session_is_current st node (pce_session e)
          then (st, PathCommit_RejectedLifecycle)
          else
            let (st1, outcome) =
              try_mark_pathcommit contention node (pc_generation token) ingress connection
                (pce_session e) True (\<lambda>i. clock (i + 1)) st
            in if outcome = PathCommit_Committed \<or> outcome = PathCommit_AlreadyCurrent
               then (st1\<lparr>rm_commits := (rm_commits st1)(node := None)\<rparr>, outcome)
               else (st1, outcome))"

text \<open>The peers the two probe loops address, as predicates.\<close>

definition is_relay_probe_target :: "relay_manager \<Rightarrow> string \<Rightarrow> instant \<Rightarrow> bool" where
  "is_relay_probe_target st node now =
     (case rm_connections st node of
        None \<Rightarrow> False
      | Some conn \<Rightarrow> live conn \<and> cn_confirmed_at conn = None \<and> \<not> peer_quarantined st node now)"

definition is_path_commit_target :: "relay_manager \<Rightarrow> string \<Rightarrow> instant \<Rightarrow> bool" where
  "is_path_commit_target st node now =
     (case rm_connections st node of
        None \<Rightarrow> False
      | Some conn \<Rightarrow>
          cn_online conn \<and> cn_state conn = CS_Direct
          \<and> cn_confirmed_generation conn = Some (rm_generation st)
          \<and> (case cn_confirmed_endpoint conn of None \<Rightarrow> False | Some endpoint \<Rightarrow> endpoint \<noteq> [])
          \<and> rf_gate_completed (cn_first conn) \<noteq> Some (rm_generation st)
          \<and> rf_exchange (cn_first conn) \<noteq> Some (rm_generation st)
          \<and> rf_pathcommit (cn_first conn) \<noteq> Some (rm_generation st)
          \<and> \<not> peer_quarantined st node now)"

section \<open>Loss of a relay\<close>

definition drop_relay :: "peer_connection \<Rightarrow> peer_connection" where
  "drop_relay conn =
     (let had = (cn_confirmed_at conn \<noteq> None);
          c = clear_ready (clear_confirmed
                (conn\<lparr>cn_first := clear_business (clear_gate (cn_first conn))\<rparr>))
      in if had then c\<lparr>cn_confirm_seq := cn_confirm_seq c + 1\<rparr> else c)"

definition revoke_relay_confirmation :: "string \<Rightarrow> relay_manager \<Rightarrow> relay_manager \<times> bool" where
  "revoke_relay_confirmation node st =
     (case (rm_connections st node, any_generation (rm_membership st) node) of
        (Some conn, Some session) \<Rightarrow>
          if cn_confirmed_at conn = None \<and> cn_ready_at conn = None then (st, False)
          else
            let had = (cn_confirmed_at conn \<noteq> None);
                (st', decision) =
                  commit_on node conn
                    (RelayTransportLost
                       (relay_id st session conn (bound_endpoint conn) (bound_connection conn)))
                    (\<lambda>c. health Health_Clear_Timing (drop_relay c)) had st
            in (st', accepted decision \<and> had)
      | _ \<Rightarrow> (st, False))"

datatype manager_action =
    End_Recovery string
  | Clear_Fresh_Mapping string
  | Cancel_Punch string
  | Cancel_Heartbeat string

definition quarantine_backoff :: "u32 \<Rightarrow> duration" where
  "quarantine_backoff consecutive =
     min (STALE_PEER_QUARANTINE_BASE * 2 ^ min (unat (sat_sub consecutive 1)) 5)
       STALE_PEER_QUARANTINE_MAX"

definition quarantine_entry :: "string \<Rightarrow> instant \<Rightarrow> quarantine_state option \<Rightarrow> quarantine_state" where
  "quarantine_entry reason now entry =
     (let q = (case entry of
            None \<Rightarrow> \<lparr>qs_until = None, qs_consecutive = 0, qs_last = None, qs_reason = None\<rparr>
          | Some q \<Rightarrow> q);
          already = (case qs_until q of None \<Rightarrow> False | Some deadline \<Rightarrow> now < deadline);
          n = (if already then qs_consecutive q else sat_add (qs_consecutive q) 1)
      in \<lparr>qs_until = Some (now + quarantine_backoff n), qs_consecutive = n, qs_last = Some now,
          qs_reason = Some reason\<rparr>)"

definition isolate_peer :: "string \<Rightarrow> string \<Rightarrow> instant \<Rightarrow> relay_manager \<Rightarrow> relay_manager" where
  "isolate_peer node reason now st =
     (let q = quarantine_entry reason now (rm_quarantined st node)
      in st\<lparr>rm_grace := (rm_grace st)(node := None),
            rm_quarantined := (rm_quarantined st)(node \<mapsto> q),
            rm_deadlines := (rm_deadlines st)(node := qs_until q),
            rm_probes := (rm_probes st)(node := None)\<rparr>)"

definition quarantine_peer ::
  "string \<Rightarrow> string \<Rightarrow> instant \<Rightarrow> relay_manager \<Rightarrow> relay_manager \<times> manager_action list" where
  "quarantine_peer node reason now st =
     (let st1 = isolate_peer node reason now st
      in (case (rm_connections st1 node, any_generation (rm_membership st1) node) of
            (Some conn, Some session) \<Rightarrow>
              fst (commit_on node conn
                (RelayTransportLost
                   (relay_id st1 session conn (bound_endpoint conn) (bound_connection conn)))
                drop_relay (cn_confirmed_at conn \<noteq> None) st1)
          | _ \<Rightarrow> st1,
          [End_Recovery node, Clear_Fresh_Mapping node, Cancel_Punch node, Cancel_Heartbeat node]))"

definition unquarantine_peer :: "string \<Rightarrow> relay_manager \<Rightarrow> relay_manager" where
  "unquarantine_peer node st =
     st\<lparr>rm_quarantined := (rm_quarantined st)(node := None),
        rm_deadlines := (rm_deadlines st)(node := None)\<rparr>"

text \<open>
  A relay 404 on an online peer opens a window of grace, keyed by the peer's identity; a sustained
  one ends in quarantine. The result says whether the observation counts as a failure.
\<close>

definition grace_after_not_found ::
  "string \<Rightarrow> instant \<Rightarrow> grace_state option \<Rightarrow> grace_state option \<times> bool \<times> bool" where
  "grace_after_not_found public_key now entry =
     (let fresh = \<lparr>gs_started_at = now, gs_public_key = public_key, gs_event_recorded = False\<rparr>;
          g = (case entry of
                 None \<Rightarrow> fresh
               | Some g \<Rightarrow> if gs_public_key g \<noteq> public_key then fresh else g)
      in if RELAY_PEER_NOT_FOUND_GRACE \<le> saturating_duration_since now (gs_started_at g)
         then (None, True, False)
         else (Some (g\<lparr>gs_event_recorded := True\<rparr>), False, \<not> gs_event_recorded g))"

definition handle_relay_peer_not_found ::
  "string \<Rightarrow> string \<Rightarrow> (nat \<Rightarrow> instant) \<Rightarrow> relay_manager
   \<Rightarrow> relay_manager \<times> manager_action list \<times> bool" where
  "handle_relay_peer_not_found node reason clock st =
     (let st1 = check_quarantine node (clock 1) st;
          isolate = (\<lambda>s. let (s', acts) = quarantine_peer node reason (clock 2) s in (s', acts, True))
      in if peer_quarantined st node (clock 1) then (st1, [], False)
         else case rm_connections st1 node of
           None \<Rightarrow> isolate st1
         | Some conn \<Rightarrow>
             if \<not> cn_online conn then isolate st1
             else
               let (entry, sustained, first_seen) =
                     grace_after_not_found (cn_public_key conn) (clock 0) (rm_grace st1 node);
                   st2 = st1\<lparr>rm_grace := (rm_grace st1)(node := entry)\<rparr>
               in if sustained then isolate st2 else (st2, [], first_seen))"

definition record_failure_sample ::
  "string \<Rightarrow> string \<Rightarrow> string \<Rightarrow> relay_manager \<Rightarrow> relay_manager" where
  "record_failure_sample node code reason st =
     (case (active_generation (rm_membership st) node, rm_connections st node) of
        (Some session, Some conn) \<Rightarrow>
          fst (commit_on node conn
            (RelayPathFailed
               (relay_id st session conn (bound_endpoint conn) (bound_connection conn)))
            (health (Health_Failure code reason)) False st)
      | _ \<Rightarrow> st)"

definition record_relay_failure ::
  "string \<Rightarrow> string \<Rightarrow> string \<Rightarrow> (nat \<Rightarrow> instant) \<Rightarrow> relay_manager
   \<Rightarrow> relay_manager \<times> manager_action list" where
  "record_relay_failure node code reason clock st =
     (let (st1, acts, sample) =
            (if code = ''peer_not_found''
             then handle_relay_peer_not_found node reason clock
                    (fst (revoke_relay_confirmation node
                            (st\<lparr>rm_probes := (rm_probes st)(node := None)\<rparr>)))
             else (st, [], True))
      in (if sample then record_failure_sample node code reason st1 else st1, acts))"

subsection \<open>The loss of a relay transport\<close>

definition transport_matches :: "u64 option \<Rightarrow> peer_connection \<Rightarrow> bool" where
  "transport_matches connection conn =
     (case connection of
        None \<Rightarrow> True
      | Some retired \<Rightarrow>
          (cn_ready_connection conn = None \<or> cn_ready_connection conn = Some retired)
          \<and> (cn_confirmed_connection conn = None \<or> cn_confirmed_connection conn = Some retired))"

definition bound_to_transport :: "string \<Rightarrow> u64 option \<Rightarrow> peer_connection \<Rightarrow> bool" where
  "bound_to_transport relay_server connection conn \<longleftrightarrow>
     transport_matches connection conn
     \<and> (cn_relay_server conn = Some relay_server \<or> cn_ready_endpoint conn = Some relay_server
        \<or> cn_confirmed_endpoint conn = Some relay_server)"

definition lose_effects :: "string \<Rightarrow> string \<Rightarrow> peer_connection \<Rightarrow> peer_connection" where
  "lose_effects code reason conn =
     drop_relay (health (Health_Failure code reason) (health Health_Clear_Timing
       (conn\<lparr>cn_relay_server := None\<rparr>)))"

text \<open>One turn of the loop over the connections: its new connection and whether it let go.\<close>

definition lose_transport_at ::
  "relay_manager \<Rightarrow> string \<Rightarrow> u64 option \<Rightarrow> string \<Rightarrow> string \<Rightarrow> string \<Rightarrow> peer_connection
   \<Rightarrow> peer_connection \<times> bool \<times> bool" where
  "lose_transport_at st relay_server connection code reason node conn =
     (case any_generation (rm_membership st) node of
        None \<Rightarrow> (conn, False, False)
      | Some session \<Rightarrow>
          if \<not> bound_to_transport relay_server connection conn then (conn, False, False)
          else
            let (conn', decision) = commit_path_transition
                  (RelayTransportLost (relay_id st session conn relay_server
                     (first_of connection (bound_connection conn))))
                  (lose_effects code reason) conn
            in (conn', accepted decision,
                applies_side_effects decision \<and> cn_confirmed_at conn \<noteq> None))"

definition keeps_probe :: "string \<Rightarrow> u64 option \<Rightarrow> relay_probe_expectation \<Rightarrow> bool" where
  "keeps_probe relay_server connection e \<longleftrightarrow>
     rpe_endpoint e \<noteq> relay_server \<or> (connection \<noteq> None \<and> rpe_connection e \<noteq> connection)"

definition keeps_commit :: "string \<Rightarrow> u64 option \<Rightarrow> path_commit_expectation \<Rightarrow> bool" where
  "keeps_commit relay_server connection e \<longleftrightarrow>
     pce_endpoint e \<noteq> relay_server \<or> (connection \<noteq> None \<and> Some (pce_connection e) \<noteq> connection)"

definition retain_map :: "('v \<Rightarrow> bool) \<Rightarrow> ('k \<Rightarrow> 'v option) \<Rightarrow> 'k \<Rightarrow> 'v option" where
  "retain_map keep m k = (case m k of None \<Rightarrow> None | Some v \<Rightarrow> if keep v then Some v else None)"

definition invalidate_relay_transport ::
  "string \<Rightarrow> u64 option \<Rightarrow> string \<Rightarrow> string \<Rightarrow> relay_manager \<Rightarrow> relay_manager" where
  "invalidate_relay_transport relay_server connection code reason st =
     (let lose = lose_transport_at st relay_server connection code reason
      in st\<lparr>rm_connections := (\<lambda>node. map_option (\<lambda>conn. fst (lose node conn)) (rm_connections st node)),
            rm_confirm_seq := (\<lambda>node. case rm_connections st node of
                None \<Rightarrow> rm_confirm_seq st node
              | Some conn \<Rightarrow>
                  if snd (snd (lose node conn))
                  then rm_confirm_seq (bump_confirm_seq node st) node else rm_confirm_seq st node),
            rm_probes := retain_map (keeps_probe relay_server connection) (rm_probes st),
            rm_commits := retain_map (keeps_commit relay_server connection) (rm_commits st)\<rparr>)"

definition cancel_expectations_for_transport ::
  "string \<Rightarrow> u64 \<Rightarrow> relay_manager \<Rightarrow> relay_manager" where
  "cancel_expectations_for_transport endpoint connection st =
     st\<lparr>rm_probes := retain_map (keeps_probe endpoint (Some connection)) (rm_probes st),
        rm_commits := retain_map (keeps_commit endpoint (Some connection)) (rm_commits st)\<rparr>"

section \<open>The first usable path\<close>

definition RELAY_FIRST_CONFIRMATION_GRACE :: duration where
  "RELAY_FIRST_CONFIRMATION_GRACE = from_secs 3"

datatype usable_verdict = Usable_Record | Usable_Fallback | Usable_Rejected

text \<open>
  What direct ingress is worth while the relay gate is open. \<open>on_link\<close> and \<open>authoritative\<close> are the
  verdicts on the candidate pairs.
\<close>

definition direct_usable_verdict ::
  "bool \<Rightarrow> bool \<Rightarrow> u64 \<Rightarrow> instant \<Rightarrow> peer_connection \<Rightarrow> usable_verdict" where
  "direct_usable_verdict on_link authoritative generation now conn =
     (if on_link then Usable_Record
      else if \<not> authoritative \<and> cn_confirmed_generation conn = Some generation
              \<and> cn_confirmed_endpoint conn \<noteq> None
              \<and> rf_gate_completed (cn_first conn) \<noteq> Some generation
              \<and> rf_exchange (cn_first conn) \<noteq> Some generation
      then Usable_Rejected
      else if \<not> authoritative
              \<and> (cn_ready_generation conn = Some generation
                  \<or> rf_gate_generation (cn_first conn) = Some generation)
              \<and> cn_confirmed_generation conn \<noteq> Some generation
      then (case first_of (cn_ready_at conn) (rf_gate_started_at (cn_first conn)) of
              None \<Rightarrow> Usable_Rejected
            | Some started \<Rightarrow>
                if RELAY_FIRST_CONFIRMATION_GRACE \<le> saturating_duration_since now started
                then Usable_Fallback else Usable_Rejected)
      else Usable_Record)"

definition usable_verdict_in_epoch ::
  "bool \<Rightarrow> bool \<Rightarrow> u64 \<Rightarrow> network_path \<Rightarrow> string option \<Rightarrow> instant \<Rightarrow> peer_connection \<Rightarrow> usable_verdict" where
  "usable_verdict_in_epoch on_link authoritative generation path relay_ingress now conn =
     (if \<not> live conn then Usable_Rejected
      else if path = NP_Relay
      then if cn_confirmed_generation conn = Some generation
              \<and> (case relay_ingress of
                   None \<Rightarrow> False | Some endpoint \<Rightarrow> cn_confirmed_endpoint conn = Some endpoint)
           then Usable_Record else Usable_Rejected
      else direct_usable_verdict on_link authoritative generation now conn)"

definition record_verified_first_usable ::
  "bool \<Rightarrow> bool \<Rightarrow> string \<Rightarrow> u64 \<Rightarrow> network_path \<Rightarrow> string option \<Rightarrow> (nat \<Rightarrow> instant)
   \<Rightarrow> relay_manager \<Rightarrow> relay_manager \<times> bool" where
  "record_verified_first_usable on_link authoritative node generation path relay_ingress clock st =
     (if generation \<noteq> rm_generation st then (st, False)
      else case rm_connections st node of
        None \<Rightarrow> (st, False)
      | Some conn \<Rightarrow>
          if cn_usable_generation conn = Some generation \<and> cn_usable_at conn \<noteq> None then (st, False)
          else if usable_verdict_in_epoch on_link authoritative generation path relay_ingress
                    (clock 0) conn = Usable_Rejected
          then (st, False)
          else let (conn', recorded) = record_first_usable path generation (clock 1) conn
               in (put_connection node conn' st, recorded))"

definition try_record_direct_first_usable ::
  "contention \<Rightarrow> bool \<Rightarrow> bool \<Rightarrow> string \<Rightarrow> u64 \<Rightarrow> u64 \<Rightarrow> (nat \<Rightarrow> instant) \<Rightarrow> relay_manager
   \<Rightarrow> relay_manager \<times> bool" where
  "try_record_direct_first_usable contention on_link authoritative node generation session clock st =
     (if contention = Epoch_Busy \<or> generation \<noteq> rm_generation st
         \<or> \<not> session_is_current st node session \<or> contention = Connections_Busy
      then (st, False)
      else case rm_connections st node of
        None \<Rightarrow> (st, False)
      | Some conn \<Rightarrow>
          if \<not> live conn
             \<or> direct_usable_verdict on_link authoritative generation (clock 0) conn = Usable_Rejected
          then (st, False)
          else let (conn', recorded) = record_first_usable NP_Direct generation (clock 1) conn
               in (put_connection node conn' st, recorded))"

section \<open>Network generations\<close>

definition configure_relay_first_at :: "bool \<Rightarrow> u64 \<Rightarrow> instant \<Rightarrow> peer_connection \<Rightarrow> peer_connection" where
  "configure_relay_first_at required generation now conn =
     (if \<not> live conn then conn
      else if required
      then if rf_gate_generation (cn_first conn) \<noteq> Some generation
           then conn\<lparr>cn_first := (cn_first conn)\<lparr>rf_gate_generation := Some generation,
                                                rf_gate_started_at := Some now\<rparr>\<rparr>
           else conn
      else if cn_confirmed_generation conn \<noteq> Some generation
      then conn\<lparr>cn_first := clear_gate (cn_first conn)\<rparr> else conn)"

definition configure_relay_first :: "bool \<Rightarrow> instant \<Rightarrow> relay_manager \<Rightarrow> relay_manager" where
  "configure_relay_first required now st =
     st\<lparr>rm_relay_first_required := required,
        rm_connections := (\<lambda>node. map_option
          (configure_relay_first_at required (rm_generation st) now) (rm_connections st node))\<rparr>"

definition each_member ::
  "(u64 \<Rightarrow> peer_connection \<Rightarrow> peer_connection) \<Rightarrow> relay_manager \<Rightarrow> string \<Rightarrow> peer_connection option" where
  "each_member f st node =
     (case (rm_connections st node, any_generation (rm_membership st) node) of
        (Some conn, Some session) \<Rightarrow> Some (f session conn)
      | (conn, _) \<Rightarrow> conn)"

definition advance_network_generation :: "string \<Rightarrow> relay_manager \<Rightarrow> relay_manager" where
  "advance_network_generation reason st =
     (let g = sat_add (rm_generation st) 1;
          conns = each_member (\<lambda>session. mark_network_generation_changed g session reason) st
      in st\<lparr>rm_generation := g, rm_connections := conns,
            rm_confirm_seq := (\<lambda>node. case (rm_connections st node, conns node) of
                (Some before, Some after) \<Rightarrow>
                  if cn_confirmed_at before \<noteq> None \<and> cn_confirmed_at after = None
                  then rm_confirm_seq (bump_confirm_seq node st) node else rm_confirm_seq st node
              | _ \<Rightarrow> rm_confirm_seq st node)\<rparr>)"

definition advance_candidate_refresh_generation ::
  "(string \<Rightarrow> bool) \<Rightarrow> string \<Rightarrow> relay_manager \<Rightarrow> relay_manager" where
  "advance_candidate_refresh_generation retains_direct reason st =
     (let g = sat_add (rm_generation st) 1
      in st\<lparr>rm_generation := g,
            rm_connections := (\<lambda>node.
              each_member (\<lambda>session. mark_candidate_refresh (retains_direct node) g session reason)
                st node)\<rparr>)"

definition remote_transport_handover :: "string \<Rightarrow> relay_manager \<Rightarrow> relay_manager" where
  "remote_transport_handover node st =
     (case (active_generation (rm_membership st) node, rm_connections st node) of
        (Some session, Some conn) \<Rightarrow>
          put_connection node (mark_remote_transport_handover (rm_generation st) session conn) st
      | _ \<Rightarrow> st)"

section \<open>The life of a peer\<close>

text \<open>What an update of the control plane says of a peer, as far as its relay is concerned.\<close>

record peer_info =
  in_public_key :: string
  in_virtual_ip :: string
  in_registration_seq :: u64
  in_online :: bool

text \<open>
  Verdicts of the identity ledger, which is not part of this model: the registration it has seen,
  whether the identity changed and the incarnation it retained; and the configured path policy.
\<close>

record ledger_verdict =
  lv_registration_floor :: u64
  lv_identity_changed :: bool
  lv_high_water :: "u64 option"
  lv_direct_first :: bool

definition is_stale_registration :: "peer_info \<Rightarrow> ledger_verdict \<Rightarrow> peer_connection option \<Rightarrow> bool" where
  "is_stale_registration info ledger entry \<longleftrightarrow>
     in_registration_seq info
       < max (case entry of
                None \<Rightarrow> 0
              | Some conn \<Rightarrow> if cn_public_key conn = in_public_key info
                            then cn_registration_seq conn else 0)
             (lv_registration_floor ledger)"

definition registration_changed :: "peer_info \<Rightarrow> peer_connection \<Rightarrow> bool" where
  "registration_changed info conn \<longleftrightarrow>
     cn_public_key conn = in_public_key info \<and> cn_registration_seq conn < in_registration_seq info"

definition rotates_session :: "peer_info \<Rightarrow> peer_connection option \<Rightarrow> bool" where
  "rotates_session info entry =
     (case entry of
        None \<Rightarrow> True
      | Some conn \<Rightarrow>
          cn_public_key conn \<noteq> in_public_key info \<or> cn_virtual_ip conn \<noteq> in_virtual_ip info
          \<or> registration_changed info conn \<or> cn_online conn \<noteq> in_online info)"

text \<open>A changed identity, a peer that comes back, and a new registration reset the connection.\<close>

definition reset_on_update :: "peer_info \<Rightarrow> peer_connection \<Rightarrow> peer_connection \<Rightarrow> peer_connection" where
  "reset_on_update info old conn =
     (if cn_public_key old \<noteq> in_public_key info then reset_for_identity_change conn
      else if \<not> cn_online old \<and> in_online info \<or> cn_virtual_ip old \<noteq> in_virtual_ip info
              \<or> registration_changed info old
      then reset_for_peer_session conn else conn)"

definition update_connection ::
  "peer_info \<Rightarrow> ledger_verdict \<Rightarrow> peer_connection option \<Rightarrow> peer_connection" where
  "update_connection info ledger entry =
     (let conn0 = (case entry of None \<Rightarrow> peer_connection_new (in_virtual_ip info) | Some c \<Rightarrow> c);
          conn1 = conn0\<lparr>cn_virtual_ip := in_virtual_ip info,
                        cn_registration_seq := in_registration_seq info,
                        cn_public_key := in_public_key info\<rparr>;
          conn2 = (case entry of None \<Rightarrow> conn1 | Some old \<Rightarrow> reset_on_update info old conn1);
          conn3 = conn2\<lparr>cn_high_water := lv_high_water ledger, cn_online := in_online info\<rparr>
      in if in_online info then conn3 else conn3\<lparr>cn_relay_server := None\<rparr>)"

definition publish_lifecycle ::
  "string \<Rightarrow> bool \<Rightarrow> bool \<Rightarrow> instant \<Rightarrow> peer_connection \<Rightarrow> relay_manager \<Rightarrow> relay_manager" where
  "publish_lifecycle node rotates direct_first now conn st =
     (let (membership, session) = publish node (cn_online conn) rotates (rm_membership st);
          st1 = st\<lparr>rm_membership := membership\<rparr>
      in case session of
           None \<Rightarrow> put_connection node conn st1
         | Some s \<Rightarrow>
             let epoch = \<lparr>network_generation = rm_generation st, peer_session_generation = s,
                          remote_candidate_epoch = cn_candidate_epoch conn\<rparr>;
                 event = (if cn_online conn then PeerOnline epoch else PeerLeft epoch);
                 conn1 = fst (commit_path_transition event id conn)
             in put_connection node
                  (if cn_online conn1 then start_direct_first direct_first epoch now conn1 else conn1)
                  st1)"

text \<open>
  The part of \<open>add_peer_with_signal_context\<close> that reaches the relay state. After the locks are
  released, a peer that went offline loses its relay, a new identity its grace and quarantine.
\<close>

definition add_peer ::
  "string \<Rightarrow> peer_info \<Rightarrow> ledger_verdict \<Rightarrow> (nat \<Rightarrow> instant) \<Rightarrow> relay_manager \<Rightarrow> relay_manager" where
  "add_peer node info ledger clock st =
     (let entry = rm_connections st node
      in if is_stale_registration info ledger entry then st
         else
           let conn = update_connection info ledger entry;
               asks_quarantine = (lv_identity_changed ledger \<and> in_online info);
               st1 = (if asks_quarantine then check_quarantine node (clock 0) st else st);
               unquarantine = (asks_quarantine \<and> peer_quarantined st node (clock 0));
               st2 = publish_lifecycle node (rotates_session info entry) (lv_direct_first ledger)
                       (clock 1) conn st1;
               was_online = (case entry of None \<Rightarrow> True | Some old \<Rightarrow> cn_online old);
               st3 = (if was_online \<and> \<not> in_online info
                      then fst (revoke_relay_confirmation node st2) else st2);
               new_identity = (case entry of
                     None \<Rightarrow> True | Some old \<Rightarrow> cn_public_key old \<noteq> in_public_key info);
               st4 = (if in_online info \<and> new_identity
                      then st3\<lparr>rm_grace := (rm_grace st3)(node := None)\<rparr> else st3)
           in if unquarantine then unquarantine_peer node st4 else st4)"

definition remove_peer :: "string \<Rightarrow> relay_manager \<Rightarrow> relay_manager" where
  "remove_peer node st =
     st\<lparr>rm_quarantined := (rm_quarantined st)(node := None),
        rm_deadlines := (rm_deadlines st)(node := None),
        rm_membership := (rm_membership st)\<lparr>mb_peers := (mb_peers (rm_membership st))(node := None)\<rparr>,
        rm_connections := (rm_connections st)(node := None),
        rm_probes := (rm_probes st)(node := None),
        rm_grace := (rm_grace st)(node := None)\<rparr>"

definition finish_incarnation_reset ::
  "string \<Rightarrow> u64 \<Rightarrow> bool \<Rightarrow> instant \<Rightarrow> relay_manager \<Rightarrow> relay_manager \<times> bool" where
  "finish_incarnation_reset node claimed direct_first now st =
     (case rm_connections st node of
        None \<Rightarrow> (st, False)
      | Some conn \<Rightarrow>
          if cn_high_water conn \<noteq> Some claimed then (st, False)
          else
            let had = (cn_confirmed_at conn \<noteq> None);
                st1 = publish_lifecycle node True direct_first now (reset_for_peer_session conn) st;
                st2 = (case rm_connections st1 node of
                         Some c \<Rightarrow>
                           if had
                           then bump_confirm_seq node
                                  (put_connection node (c\<lparr>cn_confirm_seq := cn_confirm_seq c + 1\<rparr>) st1)
                           else st1
                       | None \<Rightarrow> st1)
            in (st2, True))"

end
