(* ===== verification/Relay_Run.thy ===== *)
theory Relay_Run
  imports Relay_Lifecycle
begin

text \<open>
  Every operation of relay confirmation as one step. The relay readers and writers of the daemon
  always know their connection, so the operations that carry one take it as a number; callers
  without a connection exist in tests only.
\<close>

text \<open>The direct side of the machine: its events leave the relay markers alone.\<close>

fun direct_side :: "path_event \<Rightarrow> bool" where
  "direct_side (DirectFirstStarted _ _) = True"
| "direct_side (DirectFirstDeadline _ _) = True"
| "direct_side (DirectFirstSatisfied _) = True"
| "direct_side (DirectProbeStarted _ _) = True"
| "direct_side (DirectValidationStarted _) = True"
| "direct_side (DirectCommitted _) = True"
| "direct_side (DirectProbeFailed _) = True"
| "direct_side (DirectPathFailed _) = True"
| "direct_side (DirectAttemptCancelled _ _) = True"
| "direct_side (DirectRetryScheduled _ _) = True"
| "direct_side _ = False"

text \<open>A Direct commit arms the relay gate when the topology requires the relay first.\<close>

definition arm_gate :: "bool \<Rightarrow> u64 \<Rightarrow> instant \<Rightarrow> peer_connection \<Rightarrow> peer_connection" where
  "arm_gate required generation now conn =
     (if required \<and> rf_gate_generation (cn_first conn) \<noteq> Some generation
      then conn\<lparr>cn_first := (cn_first conn)\<lparr>rf_gate_generation := Some generation,
                                           rf_gate_started_at := Some now\<rparr>\<rparr>
      else conn)"

definition apply_direct_event :: "string \<Rightarrow> path_event \<Rightarrow> instant \<Rightarrow> relay_manager \<Rightarrow> relay_manager" where
  "apply_direct_event node event now st =
     (case rm_connections st node of
        None \<Rightarrow> st
      | Some conn \<Rightarrow>
          if \<not> direct_side event then st
          else let commits = (case event of DirectCommitted _ \<Rightarrow> True | _ \<Rightarrow> False)
               in fst (commit_on node conn event
                    (arm_gate (commits \<and> rm_relay_first_required st) (rm_generation st) now) False st))"

datatype relay_op =
    Op_Ready contention string string u64 u64 "nat \<Rightarrow> instant"
  | Op_Register_Probe string relay_probe_expectation
  | Op_Cancel_Probe string u64 u16 u64 "u64 option"
  | Op_Probe_Present string instant
  | Op_Probe_Ack contention contention string relay_probe_token string u64 u64 "nat \<Rightarrow> instant"
  | Op_Business_Ingress contention string string u64 u64 u64 u64 "nat \<Rightarrow> instant"
  | Op_Legacy_Ingress contention string string u64 u64 "nat \<Rightarrow> instant"
  | Op_Evidence contention nat string relay_evidence "nat \<Rightarrow> instant"
  | Op_Retain nat string relay_evidence "nat \<Rightarrow> instant"
  | Op_Pending contention string u64 u64 u64 string "u64 option" "nat \<Rightarrow> instant"
  | Op_Business_Sent string u64 "string option" "u64 option"
  | Op_Register_Commit string path_commit_expectation
  | Op_Cancel_Commit string u64 u16 u64 u64
  | Op_Commit_Present string instant
  | Op_Commit_Ack contention string path_commit_token string "u64 option" "nat \<Rightarrow> instant"
  | Op_Observation contention string string
  | Op_Attempt contention string string
  | Op_Failure string string string "nat \<Rightarrow> instant"
  | Op_Revoke string
  | Op_Quarantine string string instant
  | Op_Unquarantine string
  | Op_Transport_Lost string "u64 option" string string
  | Op_Transport_Replaced string u64
  | Op_First_Usable bool bool string u64 network_path "string option" "nat \<Rightarrow> instant"
  | Op_Direct_Usable contention bool bool string u64 u64 "nat \<Rightarrow> instant"
  | Op_Relay_First bool instant
  | Op_Network_Advance string
  | Op_Candidate_Refresh "string \<Rightarrow> bool" string
  | Op_Handover string
  | Op_Direct string path_event instant
  | Op_Add_Peer string peer_info ledger_verdict "nat \<Rightarrow> instant"
  | Op_Remove_Peer string
  | Op_Reset string u64 bool instant

fun relay_step :: "relay_manager \<Rightarrow> relay_op \<Rightarrow> relay_manager" where
  "relay_step st (Op_Ready busy node endpoint g c clock) =
     fst (try_mark_relay_transport_ready busy node endpoint g (Some c) clock st)"
| "relay_step st (Op_Register_Probe node e) = fst (register_relay_probe node e st)"
| "relay_step st (Op_Cancel_Probe node g request owner c) =
     cancel_relay_probe_if_matches node g request owner c st"
| "relay_step st (Op_Probe_Present node now) = fst (relay_probe_present node now st)"
| "relay_step st (Op_Probe_Ack busy busy' node token ingress c wireguard clock) =
     fst (consume_relay_probe_ack busy busy' node token ingress (Some c) wireguard clock st)"
| "relay_step st (Op_Business_Ingress busy node endpoint g c session wireguard clock) =
     fst (confirm_from_business_for_session busy node endpoint g (Some c) session wireguard clock st)"
| "relay_step st (Op_Legacy_Ingress busy node endpoint g c clock) =
     fst (confirm_from_business busy node endpoint g (Some c) clock st)"
| "relay_step st (Op_Evidence busy tie node e clock) =
     fst (try_commit_relay_business_evidence busy tie node e clock st)"
| "relay_step st (Op_Retain tie node e clock) =
     fst (retain_relay_business_evidence_for_retry tie node e clock st)"
| "relay_step st (Op_Pending busy node g session wireguard endpoint c clock) =
     fst (try_commit_pending_evidence_for_session busy node g session wireguard endpoint c clock st)"
| "relay_step st (Op_Business_Sent node g expected c) =
     fst (mark_relay_first_business_sent node g expected c st)"
| "relay_step st (Op_Register_Commit node e) = fst (register_path_commit node e st)"
| "relay_step st (Op_Cancel_Commit node g request owner c) =
     cancel_path_commit_if_matches node g request owner c st"
| "relay_step st (Op_Commit_Present node now) = fst (path_commit_present node now st)"
| "relay_step st (Op_Commit_Ack busy node token ingress c clock) =
     fst (try_consume_path_commit_ack busy node token ingress c clock st)"
| "relay_step st (Op_Observation busy node server) = try_record_relay_observation busy node server st"
| "relay_step st (Op_Attempt busy node server) = record_relay_attempt busy node server st"
| "relay_step st (Op_Failure node code reason clock) =
     fst (record_relay_failure node code reason clock st)"
| "relay_step st (Op_Revoke node) = fst (revoke_relay_confirmation node st)"
| "relay_step st (Op_Quarantine node reason now) = fst (quarantine_peer node reason now st)"
| "relay_step st (Op_Unquarantine node) = unquarantine_peer node st"
| "relay_step st (Op_Transport_Lost server c code reason) =
     invalidate_relay_transport server c code reason st"
| "relay_step st (Op_Transport_Replaced endpoint c) = cancel_expectations_for_transport endpoint c st"
| "relay_step st (Op_First_Usable on_link authoritative node g path ingress clock) =
     fst (record_verified_first_usable on_link authoritative node g path ingress clock st)"
| "relay_step st (Op_Direct_Usable busy on_link authoritative node g session clock) =
     fst (try_record_direct_first_usable busy on_link authoritative node g session clock st)"
| "relay_step st (Op_Relay_First required now) = configure_relay_first required now st"
| "relay_step st (Op_Network_Advance reason) = advance_network_generation reason st"
| "relay_step st (Op_Candidate_Refresh retains reason) =
     advance_candidate_refresh_generation retains reason st"
| "relay_step st (Op_Handover node) = remote_transport_handover node st"
| "relay_step st (Op_Direct node event now) = apply_direct_event node event now st"
| "relay_step st (Op_Add_Peer node info ledger clock) = add_peer node info ledger clock st"
| "relay_step st (Op_Remove_Peer node) = remove_peer node st"
| "relay_step st (Op_Reset node claimed direct_first now) =
     fst (finish_incarnation_reset node claimed direct_first now st)"

definition relay_run :: "relay_manager \<Rightarrow> relay_op list \<Rightarrow> relay_manager" where
  "relay_run = foldl relay_step"

end
