(* ===== verification/Relay_Markers.thy ===== *)
theory Relay_Markers
  imports Relay_Run
begin

text \<open>
  The markers of a connection agree with its path machine. The daemon keeps both: the machine
  decides which path carries business, the markers are what the relay tasks and the data plane
  read. \<open>relay_inv\<close> says how they are related; every operation keeps it.
\<close>

section \<open>Committing an event\<close>

definition applied :: "path_event \<Rightarrow> peer_connection \<Rightarrow> bool" where
  "applied e conn \<longleftrightarrow> applies_side_effects (path_decision (cn_machine conn) e)"

definition moved :: "path_event \<Rightarrow> peer_connection \<Rightarrow> peer_connection" where
  "moved e conn = conn\<lparr>cn_machine := path_apply (cn_machine conn) e\<rparr>"

definition projected :: "path_event \<Rightarrow> peer_connection \<Rightarrow> peer_connection" where
  "projected e conn =
     (moved e conn)\<lparr>cn_state := ps_compatibility_state (pm_state (path_apply (cn_machine conn) e))\<rparr>"

lemma po_snapshot_apply:
  "sn_state (po_snapshot (snd (path_commit m (path_reduce m e)))) = pm_state (path_apply m e)"
  by (simp add: path_commit_def path_apply_def path_machine_snapshot_def Let_def)

lemma commit_path_transition_eq:
  "commit_path_transition e eff conn =
     (if applied e conn then eff (projected e conn) else moved e conn,
      path_decision (cn_machine conn) e)"
  by (simp add: commit_path_transition_def applied_def moved_def projected_def case_prod_beta Let_def
      path_decision_def path_apply_def po_snapshot_apply [unfolded path_apply_def])

lemma commit_on_eq:
  "commit_on node conn e eff bumps st =
     (let st' = put_connection node (if applied e conn then eff (projected e conn) else moved e conn) st
      in (if applied e conn \<and> bumps then bump_confirm_seq node st' else st',
          path_decision (cn_machine conn) e))"
  by (simp add: commit_on_def commit_path_transition_eq Let_def applied_def)

lemma applied_reduce:
  assumes "applied e conn"
  shows "reduce_event (pm_state (cn_machine conn)) (pm_state (cn_machine conn)) e
      = Inr (pm_state (cn_machine (projected e conn)))"
    "state_is_valid (pm_state (cn_machine (projected e conn)))"
  using assms side_effects_state by (auto simp: applied_def moved_def projected_def)

lemma not_applied_state:
  "\<not> applied e conn \<Longrightarrow> pm_state (cn_machine (moved e conn)) = pm_state (cn_machine conn)"
  by (auto simp: applied_def moved_def path_decision_def path_apply_def path_commit_def Let_def)

lemma appliedI:
  assumes "reduce_event (pm_state (cn_machine conn)) (pm_state (cn_machine conn)) e = Inr n"
    and "state_is_valid n" and "\<not> already_accepted (cn_machine conn) e"
  shows "applied e conn" "pm_state (cn_machine (projected e conn)) = n"
  using assms
  by (auto simp: applied_def projected_def moved_def path_apply_state path_decision_def path_reduce_def
      path_commit_def commit_decision_def Let_def)

lemma projected_fields [simp]:
  "cn_state (projected e conn) = ps_compatibility_state (pm_state (cn_machine (projected e conn)))"
  "cn_machine (projected e conn) = path_apply (cn_machine conn) e"
  "cn_machine (moved e conn) = path_apply (cn_machine conn) e"
  by (simp_all add: projected_def moved_def)

text \<open>Neither the machine nor its projection is touched by the other fields, and conversely.\<close>

lemma projected_same [simp]:
  "cn_online (projected e conn) = cn_online conn"
  "cn_candidate_epoch (projected e conn) = cn_candidate_epoch conn"
  "cn_first (projected e conn) = cn_first conn"
  "cn_ready_generation (projected e conn) = cn_ready_generation conn"
  "cn_ready_at (projected e conn) = cn_ready_at conn"
  "cn_ready_endpoint (projected e conn) = cn_ready_endpoint conn"
  "cn_ready_connection (projected e conn) = cn_ready_connection conn"
  "cn_confirmed_generation (projected e conn) = cn_confirmed_generation conn"
  "cn_confirmed_at (projected e conn) = cn_confirmed_at conn"
  "cn_confirmed_endpoint (projected e conn) = cn_confirmed_endpoint conn"
  "cn_confirmed_connection (projected e conn) = cn_confirmed_connection conn"
  by (simp_all add: projected_def moved_def)

lemma moved_same [simp]:
  "cn_online (moved e conn) = cn_online conn" "cn_state (moved e conn) = cn_state conn"
  "cn_candidate_epoch (moved e conn) = cn_candidate_epoch conn"
  "cn_first (moved e conn) = cn_first conn"
  "cn_ready_generation (moved e conn) = cn_ready_generation conn"
  "cn_ready_at (moved e conn) = cn_ready_at conn"
  "cn_ready_endpoint (moved e conn) = cn_ready_endpoint conn"
  "cn_ready_connection (moved e conn) = cn_ready_connection conn"
  "cn_confirmed_generation (moved e conn) = cn_confirmed_generation conn"
  "cn_confirmed_at (moved e conn) = cn_confirmed_at conn"
  "cn_confirmed_endpoint (moved e conn) = cn_confirmed_endpoint conn"
  "cn_confirmed_connection (moved e conn) = cn_confirmed_connection conn"
  by (simp_all add: moved_def)

section \<open>The invariant of a connection\<close>

definition ready_none :: "peer_connection \<Rightarrow> bool" where
  "ready_none conn \<longleftrightarrow>
     cn_ready_generation conn = None \<and> cn_ready_at conn = None \<and> cn_ready_endpoint conn = None
     \<and> cn_ready_connection conn = None"

definition confirmed_none :: "peer_connection \<Rightarrow> bool" where
  "confirmed_none conn \<longleftrightarrow>
     cn_confirmed_generation conn = None \<and> cn_confirmed_at conn = None
     \<and> cn_confirmed_endpoint conn = None \<and> cn_confirmed_connection conn = None"

definition ready_is :: "relay_connection_identity \<Rightarrow> peer_connection \<Rightarrow> bool" where
  "ready_is r conn \<longleftrightarrow>
     cn_ready_generation conn = Some (network_generation (rc_epoch r)) \<and> cn_ready_at conn \<noteq> None
     \<and> cn_ready_endpoint conn = Some (rc_endpoint r) \<and> cn_ready_connection conn \<noteq> None
     \<and> rc_incarnation r = incarnation_from (cn_ready_connection conn)"

definition confirmed_is :: "relay_connection_identity \<Rightarrow> peer_connection \<Rightarrow> bool" where
  "confirmed_is r conn \<longleftrightarrow>
     cn_confirmed_generation conn = Some (network_generation (rc_epoch r))
     \<and> cn_confirmed_at conn \<noteq> None \<and> cn_confirmed_endpoint conn = Some (rc_endpoint r)
     \<and> cn_confirmed_connection conn \<noteq> None
     \<and> rc_incarnation r = incarnation_from (cn_confirmed_connection conn)"

definition markers_agree :: "relay_path_state \<Rightarrow> peer_connection \<Rightarrow> bool" where
  "markers_agree relay conn =
     (case relay of
        RPS_Unavailable \<Rightarrow> ready_none conn \<and> confirmed_none conn
      | RPS_Ready r \<Rightarrow> ready_is r conn \<and> confirmed_none conn
      | RPS_Confirmed r \<Rightarrow> ready_is r conn \<and> confirmed_is r conn
      | RPS_Usable r \<Rightarrow> ready_is r conn \<and> confirmed_is r conn)"

text \<open>Business markers exist only for the confirmed generation, and an exchange has both directions.\<close>

definition business_ok :: "peer_connection \<Rightarrow> bool" where
  "business_ok conn \<longleftrightarrow>
     (\<forall>g. rf_sent (cn_first conn) = Some g \<or> rf_received (cn_first conn) = Some g
          \<or> rf_exchange (cn_first conn) = Some g \<or> rf_pathcommit (cn_first conn) = Some g
        \<longrightarrow> cn_confirmed_at conn \<noteq> None \<and> cn_confirmed_generation conn = Some g)
     \<and> (\<forall>g. rf_exchange (cn_first conn) = Some g
        \<longrightarrow> rf_sent (cn_first conn) = Some g \<and> rf_received (cn_first conn) = Some g)
     \<and> (\<forall>g. rf_exchange (cn_first conn) = Some g \<or> rf_pathcommit (cn_first conn) = Some g
        \<longrightarrow> rf_gate_completed (cn_first conn) = Some g)"

text \<open>What the machine remembers as accepted of its relay still holds of its state.\<close>

definition receipts_hold :: "path_machine \<Rightarrow> bool" where
  "receipts_hold m \<longleftrightarrow>
     (\<forall>r \<in> set (pm_accepted_event_receipts m). receipt_is_relay r \<longrightarrow> remains_current r (pm_state m))"

lemma receipt_holds:
  assumes "reduce_event s s e = Inr n" and "idempotency_receipt e = Some r" and "receipt_is_relay r"
  shows "remains_current r n"
  using receipt_is_current [OF assms(1,2)] assms
  by (cases e)
    (auto simp: remains_current_def path_guards reduce_relay_confirmed_def reduce_relay_usable_def
      Let_def split: if_splits option.splits relay_path_state.splits)

lemma receipts_hold_step:
  assumes "receipts_hold m"
  shows "receipts_hold (path_apply m e)"
  using path_apply_memory [of m e]
proof (elim disjE exE conjE)
  assume "path_apply m e = m\<lparr>pm_rejected_transitions := pm_rejected_transitions (path_apply m e)\<rparr>"
  then have "pm_state (path_apply m e) = pm_state m"
    "pm_accepted_event_receipts (path_apply m e) = pm_accepted_event_receipts m"
    by (metis path_machine.select_convs(1,4) path_machine.surjective path_machine.update_convs(3))+
  with assms show ?thesis by (simp add: receipts_hold_def)
next
  let ?t = "path_reduce m e" and ?m = "path_apply m e"
  fix n
  assume red: "reduce_event (pm_state m) (pm_state m) e = Inr n"
    and st: "pm_state ?m = n" "pt_next ?t = n" "pt_receipt ?t = idempotency_receipt e"
    and r: "pm_accepted_event_receipts ?m =
      commit_receipts m ?t (if n = pm_state m then AcceptedObservation else Applied)"
  have "remains_current x n" if "x \<in> set (pm_accepted_event_receipts ?m)" "receipt_is_relay x" for x
  proof (cases "idempotency_receipt e = Some x")
    case True
    from receipt_holds [OF red this that(2)] show ?thesis .
  next
    case False
    with that assms show ?thesis
      by (auto simp: r st commit_receipts_def receipts_hold_def Let_def split: if_splits option.splits)
  qed
  then show ?thesis by (simp add: receipts_hold_def st)
qed

definition machine_ok :: "peer_connection \<Rightarrow> bool" where
  "machine_ok conn \<longleftrightarrow>
     path_inv (cn_machine conn) \<and> memory_ok (cn_machine conn) \<and> receipts_hold (cn_machine conn)
     \<and> cn_state conn = ps_compatibility_state (pm_state (cn_machine conn))"

text \<open>Online under the current epoch with agreeing markers, or offline.\<close>

definition lifecycle_ok :: "u64 \<Rightarrow> u64 \<Rightarrow> peer_connection \<Rightarrow> bool" where
  "lifecycle_ok g session conn \<longleftrightarrow>
     (let s = pm_state (cn_machine conn)
      in if cn_online conn
         then ps_lifecycle s = Online
              \<and> ps_epoch s = Some \<lparr>network_generation = g, peer_session_generation = session,
                                   remote_candidate_epoch = cn_candidate_epoch conn\<rparr>
              \<and> markers_agree (ps_relay s) conn
         else ps_lifecycle s = Offline)"

definition connection_ok :: "u64 \<Rightarrow> u64 \<Rightarrow> peer_connection \<Rightarrow> bool" where
  "connection_ok g session conn \<longleftrightarrow>
     machine_ok conn \<and> business_ok conn \<and> lifecycle_ok g session conn"

definition member_ok :: "u64 \<Rightarrow> peer_membership \<Rightarrow> string \<Rightarrow> peer_connection \<Rightarrow> bool" where
  "member_ok g m node conn \<longleftrightarrow>
     (\<exists>session. mb_peers m node = Some \<lparr>me_session = session, me_online = cn_online conn\<rparr>
        \<and> session \<le> mb_next m \<and> connection_ok g session conn)"

text \<open>A counter that has reached its last value ends the guarantee: it would be reused.\<close>

definition exhausted :: "relay_manager \<Rightarrow> bool" where
  "exhausted st \<longleftrightarrow> rm_generation st = - 1 \<or> mb_next (rm_membership st) = - 1"

definition members_ok :: "relay_manager \<Rightarrow> bool" where
  "members_ok st \<longleftrightarrow>
     (\<forall>node conn. rm_connections st node = Some conn
        \<longrightarrow> member_ok (rm_generation st) (rm_membership st) node conn)"

definition relay_inv :: "relay_manager \<Rightarrow> bool" where
  "relay_inv st \<longleftrightarrow> exhausted st \<or> members_ok st"

end
