(* ===== verification/Relay_Commit.thy ===== *)
theory Relay_Commit
  imports Relay_Markers
begin

text \<open>
  What each event makes of the relay side of the machine, and what a commit makes of a connection.
\<close>

section \<open>The relay side of the reducer\<close>

text \<open>Two states that agree on everything the markers speak of.\<close>

definition same_relay :: "path_state \<Rightarrow> path_state \<Rightarrow> bool" where
  "same_relay s n \<longleftrightarrow>
     ps_lifecycle n = ps_lifecycle s \<and> ps_epoch n = ps_epoch s \<and> ps_relay n = ps_relay s"

lemma same_relay_refl [simp]: "same_relay s s"
  by (simp add: same_relay_def)

lemma edit_relay [simp]:
  "ps_relay (drop_active_relay s n r) = ps_relay n"
  "ps_lifecycle (drop_active_relay s n r) = ps_lifecycle n"
  "ps_relay (hole_punching_if_unavailable n) = ps_relay n"
  "ps_lifecycle (hole_punching_if_unavailable n) = ps_lifecycle n"
  "ps_relay (release_window n) = ps_relay n" "ps_lifecycle (release_window n) = ps_lifecycle n"
  by (auto simp: path_edit_defs split: active_business_path.split)

lemma direct_side_same_relay:
  assumes "reduce_event s s e = Inr n" and "direct_side e"
  shows "same_relay s n"
  using assms
  by (cases e)
    (auto simp: same_relay_def path_guards path_defs Let_def
      split: if_splits option.splits direct_path_state.splits)

lemma relay_sample_same_relay:
  "reduce_event s s (RelayHealthObserved r i) = Inr n \<Longrightarrow> same_relay s n"
  "reduce_event s s (RelayPathFailed r) = Inr n \<Longrightarrow> same_relay s n"
  by (auto simp: same_relay_def path_guards reduce_relay_health_observed_def
      reduce_relay_path_failed_def split: if_splits option.splits)

lemma ready_event:
  assumes "reduce_event s s (RelayTransportReady r) = Inr n"
  shows "ps_lifecycle s = Online" "ps_lifecycle n = Online" "ps_epoch s = Some (rc_epoch r)"
    "ps_epoch n = ps_epoch s"
    "ps_relay n = RPS_Ready r
     \<or> (\<exists>c. confirmed_identity (ps_relay s) = Some c \<and> same_transport c r)"
  using assms by (auto simp: path_guards reduce_relay_ready_def Let_def split: if_splits option.splits)

lemma confirmed_event:
  assumes "reduce_event s s (RelayPeerConfirmed r) = Inr n"
  shows "ps_lifecycle s = Online" "ps_lifecycle n = Online" "ps_epoch s = Some (rc_epoch r)"
    "ps_epoch n = ps_epoch s" "ps_relay n = RPS_Confirmed r \<or> ps_relay n = RPS_Usable r"
    "\<And>c. relay_identity (ps_relay s) = Some c \<Longrightarrow> same_transport c r"
  using assms
  by (auto simp: path_guards reduce_relay_confirmed_def Let_def
      split: if_splits option.splits relay_path_state.splits)

lemma usable_event:
  assumes "reduce_event s s (RelayBusinessUsable r d) = Inr n"
  shows "ps_lifecycle s = Online" "ps_lifecycle n = Online" "ps_epoch s = Some (rc_epoch r)"
    "ps_epoch n = ps_epoch s" "ps_relay n = RPS_Usable r"
    "\<exists>c. confirmed_identity (ps_relay s) = Some c \<and> same_transport c r"
  using assms
  by (auto simp: path_guards reduce_relay_usable_def Let_def split: if_splits option.splits)

lemma lost_event:
  assumes "reduce_event s s (RelayTransportLost r) = Inr n"
  shows "ps_lifecycle n = ps_lifecycle s" "ps_epoch n = ps_epoch s" "ps_relay n = RPS_Unavailable"
  using assms
  by (auto simp: path_guards reduce_relay_lost_def split: if_splits option.splits;
      cases "ps_relay s"; simp)+

text \<open>In a valid state the relay belongs to the epoch, so a relay of the same transport is the same.\<close>

lemma valid_relay_epoch:
  "state_is_valid s \<Longrightarrow> ps_lifecycle s = Online \<Longrightarrow> ps_epoch s = Some ep \<Longrightarrow>
     relay_identity (ps_relay s) = Some c \<Longrightarrow> rc_epoch c = ep"
  by (simp add: state_is_valid_online)

lemma same_transport_current:
  "state_is_valid s \<Longrightarrow> ps_lifecycle s = Online \<Longrightarrow> ps_epoch s = Some (rc_epoch r) \<Longrightarrow>
     relay_identity (ps_relay s) = Some c \<Longrightarrow> same_transport c r \<Longrightarrow> c = r"
  by (metis same_transport_eq valid_relay_epoch)

section \<open>Advances of a valid state are valid\<close>

lemma not_pending_relay_edit [simp]:
  "direct_first_pending (set_projection_after_epoch_change n p ep) = direct_first_pending n"
  "direct_first_pending (suppress_pending_relay s n) = direct_first_pending n"
  by (simp_all add: direct_first_pending_def)

text \<open>The state both advances build, before the last touch of the network advance.\<close>

definition advance_state ::
  "path_state \<Rightarrow> path_epoch \<Rightarrow> relay_path_state \<Rightarrow> direct_path_state \<Rightarrow> path_state" where
  "advance_state s ep relay direct =
     set_projection_after_epoch_change
       (suppress_pending_relay s
         (s\<lparr>ps_epoch := Some ep, ps_relay := relay, ps_direct := direct,
            ps_active := active_after_network_advance (ps_active s) direct relay\<rparr>))
       (active_network_path (ps_active s)) ep"

lemma advance_state_valid:
  assumes valid: "state_is_valid s" and online: "ps_lifecycle s = Online"
    and relay: "relay = relay_with_epoch (ps_relay s) ep \<or> relay = RPS_Unavailable"
    and direct: "direct = with_epoch_if_committed (ps_direct s) ep \<or> direct = DPS_Idle"
  shows "state_is_valid (advance_state s ep relay direct)"
proof -
  obtain e where e: "ps_epoch s = Some e" using valid online by (cases "ps_epoch s") (auto simp: state_is_valid_def split: if_splits)
  note v = valid [unfolded state_is_valid_online [OF online e]]
  have ep: "epoch_matches ep (map_option rc_epoch (relay_identity relay))"
    using relay by (cases "relay_identity (ps_relay s)") auto
  have dp: "epoch_matches ep (direct_epoch direct)"
    using direct by (cases "ps_direct s") (auto simp: direct_epoch_def)
  show ?thesis
    using v online ep dp
    by (cases "ps_active s"; cases "direct"; cases "confirmed_identity relay")
      (auto simp: advance_state_def state_is_valid_def path_edit_defs active_is_valid_def
        recovery_epoch_def is_relay_active_def direct_first_pending_def
        split: if_splits)
qed

section \<open>The machine of a connection\<close>

lemma machine_ok_same:
  "cn_machine c' = cn_machine c \<Longrightarrow> cn_state c' = cn_state c \<Longrightarrow> machine_ok c' = machine_ok c"
  by (simp add: machine_ok_def)

lemma machine_ok_valid: "machine_ok conn \<Longrightarrow> state_is_valid (pm_state (cn_machine conn))"
  by (simp add: machine_ok_def path_inv_def)

lemma machine_ok_projected: "machine_ok conn \<Longrightarrow> machine_ok (projected e conn)"
  by (simp add: machine_ok_def path.step_inv memory_ok_step receipts_hold_step)

lemma machine_ok_moved: "machine_ok conn \<Longrightarrow> \<not> applied e conn \<Longrightarrow> machine_ok (moved e conn)"
  using not_applied_state [of e conn]
  by (simp add: machine_ok_def path.step_inv memory_ok_step receipts_hold_step)

lemma business_ok_same:
  "cn_first c' = cn_first c \<Longrightarrow> cn_confirmed_at c' = cn_confirmed_at c \<Longrightarrow>
     cn_confirmed_generation c' = cn_confirmed_generation c \<Longrightarrow> business_ok c' = business_ok c"
  by (simp add: business_ok_def)

lemma business_ok_commit [simp]:
  "business_ok (projected e c) = business_ok c" "business_ok (moved e c) = business_ok c"
  by (rule business_ok_same; simp)+

definition same_markers :: "peer_connection \<Rightarrow> peer_connection \<Rightarrow> bool" where
  "same_markers c c' \<longleftrightarrow>
     cn_ready_generation c' = cn_ready_generation c \<and> cn_ready_at c' = cn_ready_at c
     \<and> cn_ready_endpoint c' = cn_ready_endpoint c \<and> cn_ready_connection c' = cn_ready_connection c
     \<and> cn_confirmed_generation c' = cn_confirmed_generation c
     \<and> cn_confirmed_at c' = cn_confirmed_at c \<and> cn_confirmed_endpoint c' = cn_confirmed_endpoint c
     \<and> cn_confirmed_connection c' = cn_confirmed_connection c"

lemmas marker_defs = ready_none_def confirmed_none_def ready_is_def confirmed_is_def

lemma markers_agree_same: "same_markers c c' \<Longrightarrow> markers_agree r c' = markers_agree r c"
  by (simp add: markers_agree_def same_markers_def marker_defs split: relay_path_state.split)

text \<open>Two connections with the same life, whatever their statistics say.\<close>

definition same_life :: "peer_connection \<Rightarrow> peer_connection \<Rightarrow> bool" where
  "same_life c c' \<longleftrightarrow>
     cn_online c' = cn_online c \<and> cn_candidate_epoch c' = cn_candidate_epoch c
     \<and> cn_machine c' = cn_machine c \<and> cn_state c' = cn_state c"

lemma connection_ok_same:
  "same_life c c' \<Longrightarrow> same_markers c c' \<Longrightarrow> business_ok c' = business_ok c \<Longrightarrow>
     connection_ok g s c' = connection_ok g s c"
  by (simp add: connection_ok_def lifecycle_ok_def markers_agree_same same_life_def Let_def
      cong: machine_ok_same)

lemma moved_ok:
  assumes "connection_ok g s conn" and "\<not> applied e conn"
  shows "connection_ok g s (moved e conn)"
proof -
  have "same_markers conn (moved e conn)" by (simp add: same_markers_def)
  then show ?thesis
    using assms not_applied_state [OF assms(2)]
    by (simp add: connection_ok_def machine_ok_moved lifecycle_ok_def markers_agree_same
        business_ok_def Let_def)
qed

text \<open>
  A commit keeps the invariant if its effects do: they leave the life of the connection alone,
  keep the business markers and set the markers the new relay side asks for.
\<close>

lemma commit_ok:
  assumes ok: "connection_ok g s conn"
    and eff: "applied e conn \<Longrightarrow> connection_ok g s (eff (projected e conn))"
  shows "connection_ok g s (fst (commit_path_transition e eff conn))"
  using assms moved_ok [OF ok, of e] by (simp add: commit_path_transition_eq)

lemma effects_ok:
  assumes ok: "connection_ok g s conn" and applied: "applied e conn"
    and life: "same_life (projected e conn) c"
    and business: "business_ok c"
    and keeps: "ps_lifecycle (pm_state (cn_machine (projected e conn)))
        = ps_lifecycle (pm_state (cn_machine conn))"
      "ps_epoch (pm_state (cn_machine (projected e conn))) = ps_epoch (pm_state (cn_machine conn))"
    and markers: "cn_online conn \<Longrightarrow>
      markers_agree (ps_relay (pm_state (cn_machine (projected e conn)))) c"
  shows "connection_ok g s c"
proof -
  have "machine_ok (projected e conn)" using ok by (simp add: connection_ok_def machine_ok_projected)
  then have "machine_ok c" using life machine_ok_same unfolding same_life_def by blast
  moreover have "lifecycle_ok g s c"
    using ok life keeps markers
    by (simp add: connection_ok_def lifecycle_ok_def same_life_def Let_def split: if_splits)
  ultimately show ?thesis using business by (simp add: connection_ok_def)
qed

lemma projected_relay:
  assumes "applied e conn"
  shows "reduce_event (pm_state (cn_machine conn)) (pm_state (cn_machine conn)) e
    = Inr (pm_state (path_apply (cn_machine conn) e))"
  using applied_reduce(1) [OF assms] by simp

text \<open>An event that leaves the relay side alone, with effects on statistics only.\<close>

definition quiet :: "(peer_connection \<Rightarrow> peer_connection) \<Rightarrow> bool" where
  "quiet eff \<longleftrightarrow>
     (\<forall>c. same_life c (eff c) \<and> same_markers c (eff c) \<and> (business_ok c \<longrightarrow> business_ok (eff c)))"

lemma quiet_simps [simp]: "quiet id" "quiet (\<lambda>c. c)" "quiet (health call)"
  by (simp_all add: quiet_def same_life_def same_markers_def health_def business_ok_def)

lemma quiet_ok: "quiet eff \<Longrightarrow> connection_ok g s c \<Longrightarrow> connection_ok g s (eff c)"
proof -
  assume "quiet eff" and ok: "connection_ok g s c"
  then have eff: "same_life c (eff c)" "same_markers c (eff c)" "business_ok c \<longrightarrow> business_ok (eff c)"
    by (simp_all add: quiet_def)
  have "machine_ok (eff c) = machine_ok c"
    by (rule machine_ok_same) (use eff(1) in \<open>simp_all add: same_life_def\<close>)
  moreover have "lifecycle_ok g s (eff c) = lifecycle_ok g s c"
    using eff(1,2) by (simp add: lifecycle_ok_def same_life_def markers_agree_same)
  ultimately show ?thesis using ok eff(3) by (simp add: connection_ok_def)
qed

lemma quiet_commit_ok:
  assumes ok: "connection_ok g s conn" and "quiet eff"
    and keeps: "\<And>n. reduce_event (pm_state (cn_machine conn)) (pm_state (cn_machine conn)) e = Inr n
      \<Longrightarrow> same_relay (pm_state (cn_machine conn)) n"
  shows "connection_ok g s (fst (commit_path_transition e eff conn))"
proof (rule commit_ok [OF ok])
  assume applied: "applied e conn"
  note same = keeps [OF projected_relay [OF applied], unfolded same_relay_def]
  have agree: "cn_online conn \<Longrightarrow> markers_agree (ps_relay (pm_state (cn_machine conn))) conn"
    using ok by (simp add: connection_ok_def lifecycle_ok_def Let_def)
  have "same_markers conn (projected e conn)" by (simp add: same_markers_def)
  moreover have "business_ok (projected e conn)"
    using ok by (simp add: connection_ok_def business_ok_def)
  ultimately have "connection_ok g s (projected e conn)"
    using same agree
    by (intro effects_ok [OF ok applied]) (simp_all add: same_life_def markers_agree_same)
  then show "connection_ok g s (eff (projected e conn))" by (rule quiet_ok [OF assms(2)])
qed

lemma direct_commit_ok:
  "connection_ok g s conn \<Longrightarrow> quiet eff \<Longrightarrow> direct_side e \<Longrightarrow>
     connection_ok g s (fst (commit_path_transition e eff conn))"
  using direct_side_same_relay by (blast intro: quiet_commit_ok)

lemma sample_commit_ok:
  "connection_ok g s conn \<Longrightarrow> quiet eff \<Longrightarrow>
     connection_ok g s (fst (commit_path_transition (RelayHealthObserved r i) eff conn))"
  "connection_ok g s conn \<Longrightarrow> quiet eff \<Longrightarrow>
     connection_ok g s (fst (commit_path_transition (RelayPathFailed r) eff conn))"
  using relay_sample_same_relay by (blast intro: quiet_commit_ok)+

section \<open>Losing the relay\<close>

text \<open>What every loss does to the markers.\<close>

definition drops :: "(peer_connection \<Rightarrow> peer_connection) \<Rightarrow> bool" where
  "drops eff \<longleftrightarrow>
     (\<forall>c. same_life c (eff c) \<and> ready_none (eff c) \<and> confirmed_none (eff c)
        \<and> cn_first (eff c) = clear_business (clear_gate (cn_first c)))"

lemma cleared_business_ok: "cn_first c = clear_business f \<Longrightarrow> business_ok c"
  by (simp add: business_ok_def clear_business_def)

lemma drop_relay_drops:
  "drops drop_relay" "drops (\<lambda>c. health call (drop_relay c))" "drops (lose_effects code reason)"
  by (simp_all add: drops_def drop_relay_def lose_effects_def health_def clear_ready_def
      clear_confirmed_def same_life_def marker_defs Let_def)

lemma lost_commit_ok:
  assumes ok: "connection_ok g s conn" and drops: "drops eff"
  shows "connection_ok g s (fst (commit_path_transition (RelayTransportLost r) eff conn))"
proof (rule commit_ok [OF ok])
  let ?e = "RelayTransportLost r" and ?c = "eff (projected (RelayTransportLost r) conn)"
  assume applied: "applied ?e conn"
  note lost = lost_event [OF projected_relay [OF applied]]
  have c: "same_life (projected ?e conn) ?c" "ready_none ?c" "confirmed_none ?c" "business_ok ?c"
    using drops cleared_business_ok by (auto simp: drops_def)
  show "connection_ok g s ?c"
    by (rule effects_ok [OF ok applied c(1,4)]) (simp_all add: lost c(2,3) markers_agree_def)
qed

section \<open>Readiness, confirmation and business\<close>

definition current_epoch :: "u64 \<Rightarrow> u64 \<Rightarrow> peer_connection \<Rightarrow> path_epoch" where
  "current_epoch g s conn =
     \<lparr>network_generation = g, peer_session_generation = s,
      remote_candidate_epoch = cn_candidate_epoch conn\<rparr>"

lemma online_facts:
  assumes "connection_ok g s conn" and "cn_online conn"
  shows "ps_lifecycle (pm_state (cn_machine conn)) = Online"
    "ps_epoch (pm_state (cn_machine conn)) = Some (current_epoch g s conn)"
    "markers_agree (ps_relay (pm_state (cn_machine conn))) conn"
    "state_is_valid (pm_state (cn_machine conn))"
  using assms machine_ok_valid
  by (auto simp: connection_ok_def lifecycle_ok_def Let_def current_epoch_def)

lemma ready_markers:
  assumes "connection_ok g s conn" and "cn_online conn"
    and "relay_identity (ps_relay (pm_state (cn_machine conn))) = Some r"
  shows "ready_is r conn" "rc_epoch r = current_epoch g s conn"
proof -
  show "rc_epoch r = current_epoch g s conn"
    by (rule valid_relay_epoch [OF online_facts(4,1,2) [OF assms(1,2)] assms(3)])
  show "ready_is r conn"
    using online_facts(3) [OF assms(1,2)] assms(3)
    by (cases "ps_relay (pm_state (cn_machine conn))") (simp_all add: markers_agree_def)
qed

lemma rc_new_simps [simp]:
  "rc_epoch (rc_new ep e c) = ep" "rc_endpoint (rc_new ep e c) = e"
  "rc_incarnation (rc_new ep e c) = incarnation_from c"
  by (simp_all add: rc_new_def)

lemma incarnation_from_inj [simp]: "incarnation_from a = incarnation_from b \<longleftrightarrow> a = b"
  by (auto simp: incarnation_from_def split: option.splits)

lemma ready_effects_fields:
  "same_life c (ready_effects endpoint g x now c)"
  "cn_ready_generation (ready_effects endpoint g x now c) = Some g"
  "cn_ready_at (ready_effects endpoint g x now c) = Some now"
  "cn_ready_endpoint (ready_effects endpoint g x now c) = Some endpoint"
  "cn_ready_connection (ready_effects endpoint g x now c) = x"
  by (simp_all add: ready_effects_def Let_def same_life_def health_def clear_confirmed_def)

lemma ready_effects_unconfirmed:
  "confirmed_none c \<or> cn_confirmed_at c \<noteq> None \<Longrightarrow> confirmed_none (ready_effects endpoint g x now c)"
  by (auto simp: ready_effects_def Let_def health_def clear_confirmed_def confirmed_none_def)

lemma ready_effects_business: "business_ok (ready_effects endpoint g x now c)"
  by (simp add: business_ok_def ready_effects_def Let_def clear_business_def)

lemma ready_commit_ok:
  assumes ok: "connection_ok g s conn" and online: "cn_online conn"
    and new: "\<not> ready_is_current endpoint g (Some c) conn"
  shows "connection_ok g s (fst (commit_path_transition
    (RelayTransportReady (rc_new (current_epoch g s conn) endpoint (Some c)))
    (ready_effects endpoint g (Some c) now) conn))"
proof (rule commit_ok [OF ok])
  let ?r = "rc_new (current_epoch g s conn) endpoint (Some c)"
  let ?e = "RelayTransportReady ?r"
  let ?c = "ready_effects endpoint g (Some c) now (projected ?e conn)"
  let ?s = "pm_state (cn_machine conn)" and ?n = "pm_state (path_apply (cn_machine conn) ?e)"
  assume applied: "applied ?e conn"
  note ready = ready_event [OF projected_relay [OF applied]]
  have "\<not> same_transport x ?r" if "confirmed_identity (ps_relay ?s) = Some x" for x
  proof
    assume "same_transport x ?r"
    moreover note id = ready_markers [OF ok online confirmed_is_identity [OF that]]
    ultimately have "x = ?r" by (simp add: same_transport_eq)
    with id(1) have "ready_is ?r conn" by simp
    with new show False
      by (simp add: ready_is_current_def ready_unknown_or_changed_def ready_is_def current_epoch_def)
  qed
  with ready(5) have n: "ps_relay ?n = RPS_Ready ?r" by blast
  have "confirmed_none conn \<or> cn_confirmed_at conn \<noteq> None"
    using online_facts(3) [OF ok online]
    by (auto simp: markers_agree_def confirmed_is_def split: relay_path_state.splits)
  then have "confirmed_none ?c"
    by (intro ready_effects_unconfirmed) (simp add: confirmed_none_def)
  moreover have "ready_is ?r ?c"
    by (simp add: ready_is_def ready_effects_fields current_epoch_def)
  ultimately show "connection_ok g s ?c"
    by (intro effects_ok [OF ok applied ready_effects_fields(1) ready_effects_business])
      (simp_all add: n markers_agree_def ready)
qed

text \<open>Recording the first usable path and completing an exchange touch nothing but their own fields.\<close>

lemma record_first_usable_quiet [simp]: "quiet (\<lambda>c. fst (record_first_usable path g now c))"
  by (simp add: quiet_def record_first_usable_def same_life_def same_markers_def business_ok_def)

lemma record_first_usable_same [simp]:
  "same_life c (fst (record_first_usable path g now c))"
  "same_markers c (fst (record_first_usable path g now c))"
  "business_ok (fst (record_first_usable path g now c)) = business_ok c"
  "cn_confirmed_at (fst (record_first_usable path g now c)) = cn_confirmed_at c"
  "cn_confirmed_generation (fst (record_first_usable path g now c)) = cn_confirmed_generation c"
  "cn_first (fst (record_first_usable path g now c)) = cn_first c"
  by (simp_all add: record_first_usable_def same_life_def same_markers_def business_ok_def)

definition confirmed_for :: "u64 \<Rightarrow> peer_connection \<Rightarrow> bool" where
  "confirmed_for g c \<longleftrightarrow> cn_confirmed_at c \<noteq> None \<and> cn_confirmed_generation c = Some g"

lemma health_same [simp]:
  "same_life c (health call c)" "same_markers c (health call c)"
  "business_ok (health call c) = business_ok c"
  "cn_ready_connection (health call c) = cn_ready_connection c"
  by (simp_all add: health_def same_life_def same_markers_def business_ok_def)

lemma same_refl [simp]: "same_life c c" "same_markers c c"
  by (simp_all add: same_life_def same_markers_def)

lemma business_marker_current:
  assumes "business_ok c" and "confirmed_for g c"
    and "rf_exchange (cn_first c) = Some k \<or> rf_pathcommit (cn_first c) = Some k"
  shows "k = g"
proof -
  have "cn_confirmed_generation c = Some k" using assms(1,3) unfolding business_ok_def by blast
  with assms(2) show ?thesis by (simp add: confirmed_for_def)
qed

lemma complete_exchange_business:
  assumes "business_ok c" and "confirmed_for g c" and "rf_sent (cn_first c) = Some g"
    and "rf_received (cn_first c) = Some g"
  shows "business_ok (complete_exchange g c)"
proof -
  have "rf_pathcommit (cn_first c) = Some k \<Longrightarrow> k = g" for k
    using business_marker_current [OF assms(1,2)] by blast
  then show ?thesis using assms(2-4) by (auto simp: business_ok_def complete_exchange_def confirmed_for_def)
qed

lemma complete_exchange_same [simp]:
  "same_life c (complete_exchange g c)" "same_markers c (complete_exchange g c)"
  by (simp_all add: complete_exchange_def same_life_def same_markers_def)

text \<open>Business received, sent and promoted are the same step on the markers.\<close>

lemma mark_received_business:
  "business_ok c \<Longrightarrow> confirmed_for g c \<Longrightarrow>
     business_ok (c\<lparr>cn_first := (cn_first c)\<lparr>rf_received := Some g\<rparr>\<rparr>)"
  by (auto simp: business_ok_def confirmed_for_def)

lemma mark_sent_business:
  "business_ok c \<Longrightarrow> confirmed_for g c \<Longrightarrow>
     business_ok (c\<lparr>cn_first := (cn_first c)\<lparr>rf_sent := Some g\<rparr>\<rparr>)"
  by (auto simp: business_ok_def confirmed_for_def)

lemma received_effects_ok:
  "same_life c (received_effects g now c)" "same_markers c (received_effects g now c)"
  "business_ok c \<Longrightarrow> confirmed_for g c \<Longrightarrow> business_ok (received_effects g now c)"
proof -
  let ?c = "c\<lparr>cn_first := (cn_first c)\<lparr>rf_received := Some g\<rparr>\<rparr>"
  show "same_life c (received_effects g now c)" "same_markers c (received_effects g now c)"
    by (simp_all add: received_effects_def Let_def same_life_def same_markers_def
        complete_exchange_def record_first_usable_def)
  assume b: "business_ok c" "confirmed_for g c"
  have "confirmed_for g ?c" using b(2) by (simp add: confirmed_for_def)
  with mark_received_business [OF b] show "business_ok (received_effects g now c)"
    by (simp add: received_effects_def Let_def complete_exchange_business)
qed

lemma promote_is_received: "promote_pending g now c = received_effects g now c"
  by (simp add: promote_pending_def received_effects_def)

lemma sent_effects_ok:
  "same_life c (sent_effects g c)" "same_markers c (sent_effects g c)"
  "business_ok c \<Longrightarrow> confirmed_for g c \<Longrightarrow> business_ok (sent_effects g c)"
proof -
  let ?c = "c\<lparr>cn_first := (cn_first c)\<lparr>rf_sent := Some g\<rparr>\<rparr>"
  show "same_life c (sent_effects g c)" "same_markers c (sent_effects g c)"
    by (simp_all add: sent_effects_def Let_def same_life_def same_markers_def complete_exchange_def)
  assume b: "business_ok c" "confirmed_for g c"
  have "confirmed_for g ?c" using b(2) by (simp add: confirmed_for_def)
  with mark_sent_business [OF b] show "business_ok (sent_effects g c)"
    by (simp add: sent_effects_def Let_def complete_exchange_business)
qed

lemma usable_commit_ok:
  assumes ok: "connection_ok g s conn" and online: "cn_online conn" and confirmed: "confirmed_for g conn"
    and eff: "\<And>c. same_life c (eff c)" "\<And>c. same_markers c (eff c)"
      "\<And>c. business_ok c \<Longrightarrow> confirmed_for g c \<Longrightarrow> business_ok (eff c)"
    and epoch: "rc_epoch r = current_epoch g s conn"
  shows "connection_ok g s (fst (commit_path_transition (RelayBusinessUsable r d) eff conn))"
proof (rule commit_ok [OF ok])
  let ?e = "RelayBusinessUsable r d"
  assume applied: "applied ?e conn"
  note usable = usable_event [OF projected_relay [OF applied]]
  obtain c where c: "confirmed_identity (ps_relay (pm_state (cn_machine conn))) = Some c"
    and "same_transport c r"
    using usable(6) by blast
  with ready_markers(2) [OF ok online confirmed_is_identity [OF c]] epoch have "c = r"
    by (simp add: same_transport_eq)
  with c online_facts(3) [OF ok online] have agree: "markers_agree (RPS_Usable r) conn"
    by (cases "ps_relay (pm_state (cn_machine conn))") (simp_all add: markers_agree_def)
  have "same_markers conn (eff (projected ?e conn))"
    using eff(2) [of "projected ?e conn"] by (simp add: same_markers_def)
  moreover have "business_ok (eff (projected ?e conn))"
    by (rule eff(3)) (use ok confirmed in
      \<open>simp_all add: connection_ok_def confirmed_for_def business_ok_def\<close>)
  ultimately show "connection_ok g s (eff (projected ?e conn))"
    using agree usable(1-5)
    by (intro effects_ok [OF ok applied eff(1)]) (simp_all add: markers_agree_same)
qed

lemma install_fields:
  assumes "cn_ready_connection c = x"
  shows "same_life c (install_confirmation endpoint g x now c)"
    "confirmed_on endpoint g x (install_confirmation endpoint g x now c)"
    "business_ok (install_confirmation endpoint g x now c)"
    "ready_is r (install_confirmation endpoint g x now c) = ready_is r c"
  using assms
  by (simp_all add: install_confirmation_def Let_def same_life_def confirmed_on_def ready_is_def
      business_ok_def clear_business_def)

lemma confirmed_on_same:
  "same_markers c c' \<Longrightarrow> confirmed_on endpoint g x c' = confirmed_on endpoint g x c"
  by (simp add: same_markers_def confirmed_on_def)

lemma ready_is_same: "same_markers c c' \<Longrightarrow> ready_is r c' = ready_is r c"
  by (simp add: same_markers_def ready_is_def)

lemma same_life_trans: "same_life a b \<Longrightarrow> same_life b c \<Longrightarrow> same_life a c"
  by (simp add: same_life_def)

lemma confirm_effects_fields:
  fixes pending :: bool and endpoint g now later
  assumes "cn_ready_connection c = x" and "business_ok c"
  defines "c' \<equiv> confirm_effects endpoint g x now pending later c"
  shows "same_life c c'" "confirmed_on endpoint g x c'" "business_ok c'" "ready_is r c' = ready_is r c"
proof -
  define c1 where "c1 = (if cn_confirmed_generation c \<noteq> Some g \<or> cn_confirmed_endpoint c \<noteq> Some endpoint
    \<or> cn_confirmed_connection c \<noteq> x then health Health_Clear_Timing c else c)"
  have c1: "same_life c c1" "same_markers c c1" "business_ok c1" "cn_ready_connection c1 = x"
    using assms(1,2) by (simp_all add: c1_def)
  define c2 where "c2 = (if confirmed_on endpoint g x c1 then c1
    else install_confirmation endpoint g x now c1)"
  have c2: "same_life c c2" "confirmed_on endpoint g x c2" "business_ok c2"
      "ready_is r c2 = ready_is r c"
    using c1 install_fields [OF c1(4)] ready_is_same [OF c1(2)] same_life_trans [OF c1(1)]
    by (auto simp: c2_def)
  have c': "c' = (if pending then received_effects g later c2 else c2)"
    by (simp add: c'_def confirm_effects_def c1_def c2_def Let_def promote_is_received)
  have "confirmed_for g c2" using c2(2) by (simp add: confirmed_on_def confirmed_for_def)
  with received_effects_ok [of c2 g later] c2
  show "same_life c c'" "confirmed_on endpoint g x c'" "business_ok c'" "ready_is r c' = ready_is r c"
    by (auto simp: c' confirmed_on_same ready_is_same intro: same_life_trans)
qed

lemma confirm_commit_ok:
  assumes ok: "connection_ok g s conn" and online: "cn_online conn"
    and match: "\<not> live_transport_mismatch endpoint g (Some c) conn"
  shows "connection_ok g s (fst (commit_path_transition
    (RelayPeerConfirmed (rc_new (current_epoch g s conn) endpoint (Some c)))
    (confirm_effects endpoint g (Some c) now pending later) conn))"
proof (rule commit_ok [OF ok])
  let ?r = "rc_new (current_epoch g s conn) endpoint (Some c)"
  let ?e = "RelayPeerConfirmed ?r"
  let ?p = "projected ?e conn"
  let ?c = "confirm_effects endpoint g (Some c) now pending later ?p"
  let ?s = "pm_state (cn_machine conn)"
  assume applied: "applied ?e conn"
  note confirmed = confirmed_event [OF projected_relay [OF applied]]
  have ready: "cn_ready_generation conn = Some g" "cn_ready_connection conn = Some c"
    using match by (auto simp: live_transport_mismatch_def)
  then obtain x where x: "relay_identity (ps_relay ?s) = Some x"
    using online_facts(3) [OF ok online]
    by (cases "ps_relay ?s") (auto simp: markers_agree_def ready_none_def)
  with confirmed(6) ready_markers(2) [OF ok online x] have "x = ?r" by (simp add: same_transport_eq)
  with ready_markers(1) [OF ok online x] have r: "ready_is ?r ?p" by (simp add: ready_is_def)
  have "cn_ready_connection ?p = Some c" "business_ok ?p"
    using ok ready by (simp_all add: connection_ok_def business_ok_def)
  note fields = confirm_effects_fields [OF this]
  have "confirmed_is ?r ?c" using fields(2) by (simp add: confirmed_on_def confirmed_is_def current_epoch_def)
  with r fields(4) have "markers_agree (RPS_Confirmed ?r) ?c" "markers_agree (RPS_Usable ?r) ?c"
    by (simp_all add: markers_agree_def)
  then show "connection_ok g s ?c"
    using confirmed(1-5) by (intro effects_ok [OF ok applied fields(1,3)]) auto
qed

end
