(* ===== verification/Relay_Epochs.thy ===== *)
theory Relay_Epochs
  imports Relay_Commit
begin

text \<open>
  Epochs and lives: what a network advance, a candidate refresh, a handover, a reset and an update
  of the control plane make of a connection that keeps the invariant.
\<close>

section \<open>Network generations\<close>

lemma degraded_valid:
  "state_is_valid n \<Longrightarrow> ps_lifecycle n = Online \<Longrightarrow> ps_epoch n = Some ep \<Longrightarrow>
     state_is_valid (n\<lparr>ps_recovery := Degraded ep a b\<rparr>)"
  by (cases "ps_active n")
    (auto simp: state_is_valid_online direct_first_pending_def is_relay_active_def
      recovery_epoch_def active_is_valid_def)

lemma advance_state_fields [simp]:
  "ps_lifecycle (advance_state s ep relay direct) = ps_lifecycle s"
  "ps_epoch (advance_state s ep relay direct) = Some ep"
  "ps_relay (advance_state s ep relay direct) = relay"
  by (simp_all add: advance_state_def)

lemma network_advance_accepted:
  assumes valid: "state_is_valid s" and online: "ps_lifecycle s = Online" "ps_epoch s = Some old"
    and new: "peer_session_generation ep = peer_session_generation old"
      "remote_candidate_epoch ep = remote_candidate_epoch old"
      "network_generation old < network_generation ep"
  obtains n where "reduce_event s s (NetworkGenerationAdvanced ep ret) = Inr n" "state_is_valid n"
    "ps_lifecycle n = Online" "ps_epoch n = Some ep"
    "ps_relay n = (if keeps_relay ret then relay_with_epoch (ps_relay s) ep else RPS_Unavailable)"
proof -
  let ?relay = "if keeps_relay ret then relay_with_epoch (ps_relay s) ep else RPS_Unavailable"
  let ?direct = "if keeps_direct ret then with_epoch_if_committed (ps_direct s) ep else DPS_Idle"
  let ?n = "advance_state s ep ?relay ?direct"
  have v: "state_is_valid ?n" by (rule advance_state_valid [OF valid online(1)]) simp_all
  have guards: "\<not> network_generation ep < network_generation old"
      "network_generation ep \<noteq> network_generation old"
    using new(3) by auto
  have "\<exists>n. reduce_event s s (NetworkGenerationAdvanced ep ret) = Inr n
      \<and> (n = ?n \<or> n = ?n\<lparr>ps_recovery := Degraded ep NP_Direct (Some NP_Relay)\<rparr>)"
    using online new(1,2) guards
    by (simp add: reduce_network_advance_def online_epoch_def ok_or_def Let_def advance_state_def)
  then show thesis
    using that v degraded_valid [OF v] online by auto
qed

lemma no_receipt_of_other_epoch:
  assumes "memory_ok m" and "idempotency_receipt e = Some r"
    and "ps_epoch (pm_state m) \<noteq> Some (receipt_epoch r)"
  shows "\<not> already_accepted m e"
proof -
  have "observation_identity e = None" using assms(2) by (cases e) simp_all
  then show ?thesis using assms by (auto simp: already_accepted_def memory_ok_def)
qed

lemma never_accepted_before:
  "idempotency_receipt e = None \<Longrightarrow> observation_identity e = None \<Longrightarrow> \<not> already_accepted m e"
  by (simp add: already_accepted_def)

lemma advance_applied:
  fixes ret
  assumes ok: "connection_ok g s conn" and online: "cn_online conn" and less: "g < g'"
  defines "e \<equiv> NetworkGenerationAdvanced (current_epoch g' s conn) ret"
  shows "applied e conn"
    "ps_lifecycle (pm_state (cn_machine (projected e conn))) = Online"
    "ps_epoch (pm_state (cn_machine (projected e conn))) = Some (current_epoch g' s conn)"
    "ps_relay (pm_state (cn_machine (projected e conn))) =
       (if keeps_relay ret
        then relay_with_epoch (ps_relay (pm_state (cn_machine conn))) (current_epoch g' s conn)
        else RPS_Unavailable)"
proof -
  note now = online_facts [OF ok online]
  have "peer_session_generation (current_epoch g' s conn) = peer_session_generation (current_epoch g s conn)"
    "remote_candidate_epoch (current_epoch g' s conn) = remote_candidate_epoch (current_epoch g s conn)"
    "network_generation (current_epoch g s conn) < network_generation (current_epoch g' s conn)"
    using less by (simp_all add: current_epoch_def)
  from network_advance_accepted [OF now(4,1,2) this]
  obtain n where n: "reduce_event (pm_state (cn_machine conn)) (pm_state (cn_machine conn)) e = Inr n"
      "state_is_valid n" "ps_lifecycle n = Online" "ps_epoch n = Some (current_epoch g' s conn)"
      "ps_relay n = (if keeps_relay ret
        then relay_with_epoch (ps_relay (pm_state (cn_machine conn))) (current_epoch g' s conn)
        else RPS_Unavailable)"
    unfolding e_def by metis
  have "\<not> already_accepted (cn_machine conn) e"
    by (rule no_receipt_of_other_epoch
        [where r = "Rcpt_NetworkGenerationAdvanced (current_epoch g' s conn) ret"])
      (use ok now(2) less in
        \<open>simp_all add: e_def connection_ok_def machine_ok_def current_epoch_def\<close>)
  from appliedI [OF n(1,2) this] n(3-5)
  show "applied e conn"
    "ps_lifecycle (pm_state (cn_machine (projected e conn))) = Online"
    "ps_epoch (pm_state (cn_machine (projected e conn))) = Some (current_epoch g' s conn)"
    "ps_relay (pm_state (cn_machine (projected e conn))) =
       (if keeps_relay ret
        then relay_with_epoch (ps_relay (pm_state (cn_machine conn))) (current_epoch g' s conn)
        else RPS_Unavailable)"
    by simp_all
qed

text \<open>An offline peer is out of reach of every event but a new session.\<close>

lemma offline_ok:
  "\<not> cn_online conn \<Longrightarrow> connection_ok g s conn \<Longrightarrow> connection_ok g' s' conn"
  by (simp add: connection_ok_def lifecycle_ok_def)

lemma offline_rejects:
  assumes "connection_ok g s conn" and "\<not> cn_online conn"
  shows "\<not> applied (NetworkGenerationAdvanced ep ret) conn"
proof
  assume "applied (NetworkGenerationAdvanced ep ret) conn"
  from projected_relay [OF this] assms show False
    by (auto simp: connection_ok_def lifecycle_ok_def reduce_network_advance_def path_guards Let_def
        split: if_splits)
qed

lemma advance_commit_ok:
  assumes ok: "connection_ok g s conn" and less: "g < g'"
    and eff: "\<And>c. same_markers conn c \<Longrightarrow> business_ok c \<Longrightarrow> cn_online conn \<Longrightarrow>
      same_life c (eff c) \<and> business_ok (eff c)
      \<and> markers_agree
          (if keeps_relay ret
           then relay_with_epoch (ps_relay (pm_state (cn_machine conn))) (current_epoch g' s conn)
           else RPS_Unavailable) (eff c)"
  shows "connection_ok g' s (fst (commit_path_transition
    (NetworkGenerationAdvanced (current_epoch g' s conn) ret) eff conn))"
proof (cases "cn_online conn")
  case False
  let ?e = "NetworkGenerationAdvanced (current_epoch g' s conn) ret"
  have rejects: "\<not> applied ?e conn" by (rule offline_rejects [OF ok False])
  have "connection_ok g' s (moved ?e conn)"
    by (rule offline_ok [OF _ moved_ok [OF ok rejects]]) (simp add: False)
  with rejects show ?thesis by (simp add: commit_path_transition_eq)
next
  case True
  let ?e = "NetworkGenerationAdvanced (current_epoch g' s conn) ret"
  note adv = advance_applied [OF ok True less, of ret]
  have "business_ok (projected ?e conn)" using ok by (simp add: connection_ok_def business_ok_def)
  with eff [of "projected ?e conn"] True
  have e: "same_life (projected ?e conn) (eff (projected ?e conn))"
      "business_ok (eff (projected ?e conn))"
      "markers_agree (ps_relay (pm_state (cn_machine (projected ?e conn)))) (eff (projected ?e conn))"
    unfolding adv(4) by (simp_all add: same_markers_def)
  have "machine_ok (eff (projected ?e conn))"
    using machine_ok_same [of "eff (projected ?e conn)" "projected ?e conn"] e(1)
      machine_ok_projected [of conn ?e] ok
    by (simp add: same_life_def connection_ok_def)
  then have "connection_ok g' s (eff (projected ?e conn))"
    using e adv True
    by (simp add: connection_ok_def lifecycle_ok_def same_life_def current_epoch_def)
  then show ?thesis using adv(1) by (simp add: commit_path_transition_eq)
qed

lemma generation_markers:
  assumes "markers_agree r conn" and "\<And>c. relay_identity r = Some c \<Longrightarrow> network_generation (rc_epoch c) = g"
  shows "cn_ready_generation conn \<in> {None, Some g}" "cn_confirmed_generation conn \<in> {None, Some g}"
  using assms by (cases r; simp add: markers_agree_def marker_defs)+

lemma apply_generation_changed:
  assumes "cn_ready_generation c \<noteq> Some g" and "cn_confirmed_generation c \<noteq> Some g"
  defines "c' \<equiv> apply_network_generation_changed g c"
  shows "same_life c c'" "ready_none c'" "confirmed_none c'" "business_ok c'"
  using assms(1,2)
  by (simp_all add: c'_def apply_network_generation_changed_def Let_def same_life_def marker_defs
      clear_usable_def clear_ready_def clear_confirmed_def clear_gate_def clear_business_def
      business_ok_def)

lemma online_generation_markers:
  assumes "connection_ok g s conn" and "cn_online conn"
  shows "cn_ready_generation conn \<in> {None, Some g}" "cn_confirmed_generation conn \<in> {None, Some g}"
  using generation_markers [OF online_facts(3) [OF assms], of g] ready_markers(2) [OF assms]
  by (simp_all add: current_epoch_def)

lemma network_changed_ok:
  assumes ok: "connection_ok g s conn" and less: "g < g'"
  shows "connection_ok g' s (mark_network_generation_changed g' s reason conn)"
  unfolding mark_network_generation_changed_def current_epoch_def [symmetric]
proof (rule advance_commit_ok [OF ok less])
  fix c
  let ?c = "health (Health_Generation_Change reason) c"
  assume c: "same_markers conn c" "cn_online conn"
  from online_generation_markers [OF ok c(2)] c(1) less
  have "cn_ready_generation ?c \<noteq> Some g'" "cn_confirmed_generation ?c \<noteq> Some g'"
    by (auto simp: health_def same_markers_def)
  from apply_generation_changed [OF this] same_life_trans [OF health_same(1)]
  show "same_life c (apply_network_generation_changed g' ?c)
      \<and> business_ok (apply_network_generation_changed g' ?c)
      \<and> markers_agree
          (if keeps_relay Retain_None
           then relay_with_epoch (ps_relay (pm_state (cn_machine conn))) (current_epoch g' s conn)
           else RPS_Unavailable) (apply_network_generation_changed g' ?c)"
    by (simp add: markers_agree_def keeps_relay_def)
qed

section \<open>Candidate refreshes and handovers\<close>

lemma apply_refresh_fields:
  "same_life c (apply_candidate_refresh g c)" "business_ok (apply_candidate_refresh g c)"
  by (simp_all add: apply_candidate_refresh_def Let_def same_life_def clear_usable_def
      clear_ready_def business_ok_def clear_business_def clear_gate_def)

text \<open>A confirmed relay moves to the new generation, any other is forgotten.\<close>

lemma apply_refresh_markers:
  assumes agree: "markers_agree r c"
    and keeps: "k = (cn_confirmed_at c \<noteq> None \<and> cn_confirmed_endpoint c \<noteq> None)"
  shows "markers_agree (if k then relay_with_epoch r ep else RPS_Unavailable)
    (apply_candidate_refresh (network_generation ep) c)"
proof (cases "confirmed_identity r")
  case None
  then have "confirmed_none c"
    using agree by (cases r) (simp_all add: markers_agree_def)
  then show ?thesis
    using keeps by (simp add: apply_candidate_refresh_def Let_def markers_agree_def marker_defs
        clear_usable_def clear_ready_def clear_gate_def clear_business_def)
next
  case (Some i)
  then have i: "ready_is i c" "confirmed_is i c"
    using agree by (cases r; simp add: markers_agree_def)+
  then have k using keeps by (simp add: confirmed_is_def)
  have "ready_is (rc_with_epoch i ep) (apply_candidate_refresh (network_generation ep) c)"
    "confirmed_is (rc_with_epoch i ep) (apply_candidate_refresh (network_generation ep) c)"
    using i by (auto simp: apply_candidate_refresh_def Let_def ready_is_def confirmed_is_def
        clear_usable_def rc_with_epoch_def)
  with \<open>k\<close> Some show ?thesis by (cases r) (simp_all add: markers_agree_def)
qed

lemma markers_agree_keeps:
  "same_markers c c' \<Longrightarrow> markers_agree r c \<Longrightarrow> markers_agree r c'"
  by (simp add: markers_agree_same)

lemma refresh_ok:
  assumes ok: "connection_ok g s conn" and less: "g < g'"
  shows "connection_ok g' s (mark_candidate_refresh retains g' s reason conn)"
  unfolding mark_candidate_refresh_def current_epoch_def [symmetric]
proof (rule advance_commit_ok [OF ok less])
  fix c
  let ?c = "apply_candidate_refresh g' c" and ?ep = "current_epoch g' s conn"
  let ?keeps = "cn_confirmed_at c \<noteq> None \<and> cn_confirmed_endpoint c \<noteq> None"
  assume c: "same_markers conn c" "cn_online conn"
  have "?keeps = keeps_relay (refresh_retention retains conn)"
    using c(1) by (simp add: refresh_retention_def keeps_relay_def Let_def same_markers_def)
  with apply_refresh_markers [OF markers_agree_keeps [OF c(1) online_facts(3) [OF ok c(2)]], of ?keeps ?ep]
  have "markers_agree (if keeps_relay (refresh_retention retains conn)
      then relay_with_epoch (ps_relay (pm_state (cn_machine conn))) ?ep else RPS_Unavailable) ?c"
    by (simp add: current_epoch_def)
  then show "same_life c (health (Health_Generation_Change reason) ?c)
      \<and> business_ok (health (Health_Generation_Change reason) ?c)
      \<and> markers_agree (if keeps_relay (refresh_retention retains conn)
          then relay_with_epoch (ps_relay (pm_state (cn_machine conn))) ?ep else RPS_Unavailable)
          (health (Health_Generation_Change reason) ?c)"
    using apply_refresh_fields [where c = c and g = g']
    by (simp add: same_life_trans [OF _ health_same(1)] markers_agree_same [OF health_same(2)])
qed

lemma candidate_event:
  assumes "reduce_event s s (RemoteCandidateEpochAdvanced ep Invalidate) = Inr n"
    and "ps_epoch s = Some old" and "remote_candidate_epoch ep \<noteq> remote_candidate_epoch old"
  shows "ps_lifecycle n = Online" "ps_epoch n = Some ep"
    "ps_relay n = relay_with_epoch (ps_relay s) ep"
  using assms
  by (auto simp: reduce_remote_candidate_advance_def path_guards Let_def split: if_splits)

lemma relay_with_same_generation:
  assumes "markers_agree r c" and "same_markers c c'"
    and "\<And>i. relay_identity r = Some i \<Longrightarrow> network_generation (rc_epoch i) = network_generation ep"
  shows "markers_agree (relay_with_epoch r ep) c'"
  using assms(1,3) unfolding markers_agree_same [OF assms(2)]
  by (cases r) (auto simp: markers_agree_def ready_is_def confirmed_is_def rc_with_epoch_def)

lemma handover_ok:
  assumes ok: "connection_ok g s conn" and online: "cn_online conn"
  shows "connection_ok g s (mark_remote_transport_handover g s conn)"
proof -
  define next_epoch where "next_epoch = max (cn_candidate_epoch conn + 1) 1"
  define ep where "ep = \<lparr>network_generation = g, peer_session_generation = s,
    remote_candidate_epoch = next_epoch\<rparr>"
  let ?e = "RemoteCandidateEpochAdvanced ep Invalidate"
  let ?c = "apply_remote_handover next_epoch (projected ?e conn)"
  note now = online_facts [OF ok online]
  have other: "next_epoch \<noteq> cn_candidate_epoch conn"
    by (cases "cn_candidate_epoch conn = 0") (auto simp: next_epoch_def max_def word_le_nat_alt)
  have eq: "mark_remote_transport_handover g s conn
      = fst (commit_path_transition ?e (apply_remote_handover next_epoch) conn)"
    using now(2) by (simp add: mark_remote_transport_handover_def Let_def next_epoch_def ep_def)
  show ?thesis unfolding eq
  proof (rule commit_ok [OF ok])
    assume applied: "applied ?e conn"
    note n = candidate_event [OF projected_relay [OF applied] now(2)]
    have c: "cn_online ?c = cn_online conn" "cn_candidate_epoch ?c = next_epoch"
        "cn_machine ?c = cn_machine (projected ?e conn)" "cn_state ?c = cn_state (projected ?e conn)"
        "same_markers conn ?c" "business_ok ?c"
      using ok by (simp_all add: apply_remote_handover_def Let_def same_markers_def clear_usable_def
          connection_ok_def business_ok_def)
    have "machine_ok ?c"
      using machine_ok_same [OF c(3,4)] ok by (simp add: connection_ok_def machine_ok_projected)
    moreover have "markers_agree (relay_with_epoch (ps_relay (pm_state (cn_machine conn))) ep) ?c"
      by (rule relay_with_same_generation [OF now(3) c(5)])
        (use ready_markers(2) [OF ok online] in \<open>simp add: current_epoch_def ep_def\<close>)
    ultimately show "connection_ok g s ?c"
      using n c online other
      by (simp add: connection_ok_def lifecycle_ok_def current_epoch_def ep_def)
  qed
qed

section \<open>Lives\<close>

text \<open>A connection without a past: its machine belongs to no session.\<close>

definition detached :: "peer_connection \<Rightarrow> bool" where
  "detached c \<longleftrightarrow>
     machine_ok c \<and> ps_lifecycle (pm_state (cn_machine c)) = Unbound
     \<and> ready_none c \<and> confirmed_none c \<and> business_ok c"

lemma detached_same:
  "cn_machine c' = cn_machine c \<Longrightarrow> cn_state c' = cn_state c \<Longrightarrow> same_markers c c' \<Longrightarrow>
     cn_first c' = cn_first c \<Longrightarrow> detached c' = detached c"
  by (simp add: detached_def machine_ok_def same_markers_def marker_defs business_ok_def)

lemma detached_new: "detached (peer_connection_new ip)"
  by (simp add: detached_def machine_ok_def peer_connection_new_def path_inv_new marker_defs
      business_ok_def relay_first_default_def path_machine_new_def memory_ok_def receipts_hold_def path_inv_def
      state_is_valid_def direct_first_pending_def)

lemma detached_reset:
  assumes "machine_ok conn"
  shows "detached (reset_for_identity_change conn)"
    "cn_online (reset_for_identity_change conn) = cn_online conn"
proof -
  have "reduce_event s s IdentityReset = Inr unbound_state" for s by simp
  moreover have "state_is_valid unbound_state"
    by (simp add: state_is_valid_def unbound_state_def direct_first_pending_def)
  moreover have "\<not> already_accepted m IdentityReset" for m
    by (rule never_accepted_before) simp_all
  ultimately have applied: "applied IdentityReset conn"
      "pm_state (cn_machine (projected IdentityReset conn)) = unbound_state"
    using appliedI by blast+
  have "machine_ok (forget_relay (projected IdentityReset conn))"
    using machine_ok_same [of "forget_relay (projected IdentityReset conn)" "projected IdentityReset conn"]
      machine_ok_projected [OF assms, of IdentityReset]
    by (simp add: forget_relay_def clear_usable_def clear_ready_def clear_confirmed_def)
  with applied show "detached (reset_for_identity_change conn)"
    "cn_online (reset_for_identity_change conn) = cn_online conn"
    by (simp_all add: reset_for_identity_change_def commit_path_transition_eq detached_def
        forget_relay_def clear_usable_def clear_ready_def clear_confirmed_def marker_defs
        business_ok_def relay_first_default_def unbound_state_def)
qed

lemma detached_session_reset:
  assumes "machine_ok conn"
  shows "detached (reset_for_peer_session conn)"
    "cn_online (reset_for_peer_session conn) = cn_online conn"
  using detached_reset [OF assms] detached_same [of "reset_for_peer_session conn" "reset_for_identity_change conn"]
  by (simp_all add: reset_for_peer_session_def same_markers_def)

lemma go_offline_valid: "state_is_valid (go_offline n)"
  by (simp add: go_offline_def state_is_valid_def is_relay_active_def)

lemma unbound_epoch: "machine_ok c \<Longrightarrow> ps_lifecycle (pm_state (cn_machine c)) = Unbound \<Longrightarrow>
    ps_epoch (pm_state (cn_machine c)) = None"
  using machine_ok_valid [of c] by (simp add: state_is_valid_def split: if_splits)

lemma online_state_valid: "state_is_valid (online_state ep)"
  by (simp add: online_state_def state_is_valid_def direct_first_pending_def recovery_epoch_def
      direct_epoch_def active_is_valid_def)

lemma bind_online:
  assumes c: "detached c" and online: "cn_online c"
  shows "connection_ok g s (fst (commit_path_transition (PeerOnline (current_epoch g s c)) id c))"
proof -
  let ?ep = "current_epoch g s c" and ?s = "pm_state (cn_machine c)"
  have machine: "machine_ok c" and unbound: "ps_lifecycle ?s = Unbound"
    using c by (simp_all add: detached_def)
  note epoch = unbound_epoch [OF machine unbound]
  have red: "reduce_event ?s ?s (PeerOnline ?ep) = Inr (online_state ?ep)"
    using epoch by (simp add: reduce_peer_online_def)
  have "\<not> already_accepted (cn_machine c) (PeerOnline ?ep)"
    by (rule no_receipt_of_other_epoch [where r = "Rcpt_PeerOnline ?ep"])
      (use machine epoch in \<open>simp_all add: machine_ok_def\<close>)
  note applied = appliedI [OF red online_state_valid this]
  let ?p = "projected (PeerOnline ?ep) c"
  have "markers_agree RPS_Unavailable ?p" "business_ok ?p"
    using c by (simp_all add: detached_def markers_agree_def marker_defs)
  with machine_ok_projected [OF machine, of "PeerOnline ?ep"] applied(2) online
  have "connection_ok g s ?p"
    by (simp add: connection_ok_def lifecycle_ok_def online_state_def current_epoch_def)
  with applied(1) show ?thesis by (simp add: commit_path_transition_eq)
qed

text \<open>A peer that leaves, or of which nothing but its absence is known.\<close>

definition leaves :: "u64 \<Rightarrow> peer_connection \<Rightarrow> bool" where
  "leaves s c \<longleftrightarrow>
     (case ps_lifecycle (pm_state (cn_machine c)) of
        Online \<Rightarrow> (case ps_epoch (pm_state (cn_machine c)) of
                    None \<Rightarrow> False | Some ep \<Rightarrow> peer_session_generation ep < s)
      | _ \<Rightarrow> True)"

lemma left_event:
  assumes "leaves s c" and "peer_session_generation ep = s"
  shows "(\<exists>n. reduce_event (pm_state (cn_machine c)) (pm_state (cn_machine c)) (PeerLeft ep) = Inr (go_offline n))
    \<or> ps_lifecycle (pm_state (cn_machine c)) = Offline"
  using assms
  by (auto simp: leaves_def reduce_peer_left_def online_epoch_def ok_or_def
      split: peer_path_lifecycle.splits option.splits dest: less_imp_not_less)

lemma leave_ok:
  assumes machine: "machine_ok c" and business: "business_ok c" and off: "\<not> cn_online c"
    and leaves: "leaves s c"
  shows "connection_ok g s (fst (commit_path_transition (PeerLeft (current_epoch g s c)) id c))"
proof -
  let ?e = "PeerLeft (current_epoch g s c)" and ?s = "pm_state (cn_machine c)"
  have new: "\<not> already_accepted (cn_machine c) ?e" by (rule never_accepted_before) simp_all
  have lifecycle: "ps_lifecycle (pm_state (cn_machine (projected ?e c))) = Offline \<and> applied ?e c
      \<or> \<not> applied ?e c \<and> ps_lifecycle ?s = Offline"
  proof (cases "\<exists>n. reduce_event ?s ?s ?e = Inr (go_offline n)")
    case True
    then obtain n where "reduce_event ?s ?s ?e = Inr (go_offline n)" by blast
    from appliedI [OF this go_offline_valid new] show ?thesis by (simp add: go_offline_def)
  next
    case False
    then have "ps_lifecycle ?s = Offline"
      using left_event [OF leaves, of "current_epoch g s c"] by (simp add: current_epoch_def)
    moreover have "\<not> applied ?e c"
    proof
      assume "applied ?e c"
      then have "\<exists>n. reduce_event ?s ?s ?e = Inr n" using projected_relay by blast
      moreover have "reduce_event ?s ?s ?e = (if ps_epoch ?s \<noteq> Some (current_epoch g s c)
          then Inl RejectedPeerSessionGeneration else Inr (go_offline ?s))"
        using \<open>ps_lifecycle ?s = Offline\<close> by (simp add: reduce_peer_left_def)
      ultimately show False using False by (metis sum.distinct(1))
    qed
    ultimately show ?thesis by simp
  qed
  have "business_ok (projected ?e c)" "business_ok (moved ?e c)"
    using business by simp_all
  with lifecycle machine_ok_projected [OF machine, of ?e] machine_ok_moved [OF machine, of ?e]
    not_applied_state [of ?e c] off
  show ?thesis
    by (auto simp: commit_path_transition_eq connection_ok_def lifecycle_ok_def Let_def)
qed

text \<open>An update of a peer whose life goes on.\<close>

lemma stay_online:
  assumes ok: "connection_ok g s conn" and online: "cn_online conn"
  shows "connection_ok g s (fst (commit_path_transition (PeerOnline (current_epoch g s conn)) id conn))"
  by (rule quiet_commit_ok [OF ok])
    (use online_facts [OF ok online] in \<open>simp_all add: reduce_peer_online_def\<close>)

lemma stay_offline:
  assumes ok: "connection_ok g s conn" and off: "\<not> cn_online conn"
  shows "connection_ok g s (fst (commit_path_transition (PeerLeft (current_epoch g s conn)) id conn))"
  by (rule leave_ok)
    (use assms in \<open>simp_all add: connection_ok_def lifecycle_ok_def Let_def leaves_def\<close>)

lemma direct_first_ok:
  "connection_ok g s conn \<Longrightarrow> connection_ok g s (start_direct_first policy ep now conn)"
  by (simp add: start_direct_first_def direct_commit_ok)

end
