(* ===== verification/Relay_Inv.thy ===== *)
theory Relay_Inv
  imports Relay_Epochs
begin

text \<open>
  Every operation keeps \<open>relay_inv\<close>. Most of them leave the generation and the membership alone:
  for these \<open>keeps\<close> is the contract, it composes the way the operations call one another.
\<close>

section \<open>The contract of an operation\<close>

definition keeps :: "relay_manager \<Rightarrow> relay_manager \<Rightarrow> bool" where
  "keeps st st' \<longleftrightarrow>
     rm_generation st' = rm_generation st \<and> rm_membership st' = rm_membership st
     \<and> (members_ok st \<longrightarrow> members_ok st')"

lemma keeps_refl [simp]: "keeps st st"
  by (simp add: keeps_def)

lemma keeps_trans: "keeps a b \<Longrightarrow> keeps b c \<Longrightarrow> keeps a c"
  by (simp add: keeps_def)

lemma keeps_inv: "keeps st st' \<Longrightarrow> relay_inv st \<Longrightarrow> relay_inv st'"
  by (auto simp: keeps_def relay_inv_def exhausted_def)

lemma keeps_same:
  "rm_connections st' = rm_connections st \<Longrightarrow> rm_generation st' = rm_generation st \<Longrightarrow>
     rm_membership st' = rm_membership st \<Longrightarrow> keeps st st'"
  by (simp add: keeps_def members_ok_def)

lemma check_quarantine_same [simp]:
  "rm_connections (check_quarantine node now st) = rm_connections st"
  "rm_generation (check_quarantine node now st) = rm_generation st"
  "rm_membership (check_quarantine node now st) = rm_membership st"
  "rm_evidence (check_quarantine node now st) = rm_evidence st"
  "rm_probes (check_quarantine node now st) = rm_probes st"
  "rm_commits (check_quarantine node now st) = rm_commits st"
  "session_is_current (check_quarantine node now st) = session_is_current st"
  by (simp_all add: check_quarantine_def session_is_current_def fun_eq_iff)

lemma keeps_check [simp]: "keeps st (check_quarantine node now st') = keeps st st'"
  by (simp add: keeps_def members_ok_def)

lemma active_any: "active_generation m node = Some s \<Longrightarrow> any_generation m node = Some s"
  by (auto simp: active_generation_def any_generation_def split: option.splits if_splits)

lemma member_okD:
  assumes "members_ok st" and "rm_connections st node = Some conn"
  obtains s where "any_generation (rm_membership st) node = Some s"
    and "mb_peers (rm_membership st) node = Some \<lparr>me_session = s, me_online = cn_online conn\<rparr>"
    and "s \<le> mb_next (rm_membership st)" and "connection_ok (rm_generation st) s conn"
  using assms unfolding members_ok_def member_ok_def by (metis any_generation_def membership_entry.select_convs(1) option.simps(9))

lemma active_online:
  assumes "members_ok st" and "rm_connections st node = Some conn"
    and "active_generation (rm_membership st) node = Some s"
  shows "cn_online conn"
  using assms by (auto simp: active_generation_def elim!: member_okD split: if_splits)

lemma keeps_put:
  assumes "rm_connections st node = Some conn" and "cn_online conn' = cn_online conn"
    and ok: "\<And>s. any_generation (rm_membership st) node = Some s \<Longrightarrow>
      connection_ok (rm_generation st) s conn \<Longrightarrow> connection_ok (rm_generation st) s conn'"
  shows "keeps st (put_connection node conn' st)"
proof -
  have "member_ok (rm_generation st) (rm_membership st) node conn'" if "members_ok st"
    using that assms(1) by (rule member_okD) (use ok assms(2) in \<open>auto simp: member_ok_def\<close>)
  then show ?thesis by (auto simp: keeps_def members_ok_def put_connection_def)
qed

lemma bump_same [simp]:
  "rm_connections (bump_confirm_seq node st) = rm_connections st"
  "rm_generation (bump_confirm_seq node st) = rm_generation st"
  "rm_membership (bump_confirm_seq node st) = rm_membership st"
  by (simp_all add: bump_confirm_seq_def)

lemma put_same [simp]:
  "rm_connections (put_connection node conn st) = (rm_connections st)(node \<mapsto> conn)"
  "rm_generation (put_connection node conn st) = rm_generation st"
  "rm_membership (put_connection node conn st) = rm_membership st"
  by (simp_all add: put_connection_def)

lemma commit_online:
  "(\<And>c. cn_online (eff c) = cn_online c) \<Longrightarrow>
     cn_online (fst (commit_path_transition e eff conn)) = cn_online conn"
  by (simp add: commit_path_transition_eq)

lemma keeps_commit:
  assumes "rm_connections st node = Some conn" and "\<And>c. cn_online (eff c) = cn_online c"
    and "\<And>s. any_generation (rm_membership st) node = Some s \<Longrightarrow>
      connection_ok (rm_generation st) s conn \<Longrightarrow>
      connection_ok (rm_generation st) s (fst (commit_path_transition e eff conn))"
  shows "keeps st (fst (commit_on node conn e eff bumps st))"
proof -
  let ?conn = "fst (commit_path_transition e eff conn)"
  have "cn_online ?conn = cn_online conn" by (rule commit_online [OF assms(2)])
  from keeps_put [OF assms(1) this assms(3)] have "keeps st (put_connection node ?conn st)" by blast
  moreover have "keeps (put_connection node ?conn st) (fst (commit_on node conn e eff bumps st))"
    by (rule keeps_same) (simp_all add: commit_on_def case_prod_beta Let_def)
  ultimately show ?thesis by (rule keeps_trans)
qed

lemma relay_id_current:
  "relay_id st s conn endpoint c = rc_new (current_epoch (rm_generation st) s conn) endpoint c"
  by (simp add: relay_id_def current_epoch_def)

section \<open>Readiness and confirmation\<close>

lemma keeps_commit_ready:
  assumes "rm_connections st node = Some conn" and "live conn" and "g = rm_generation st"
    and "active_generation (rm_membership st) node = Some s"
  shows "keeps st (fst (commit_ready node endpoint g (Some c) s now conn st))"
proof (cases "ready_is_current endpoint g (Some c) conn")
  case False
  have "keeps st (fst (commit_on node conn
      (RelayTransportReady (relay_id st s conn endpoint (Some c)))
      (ready_effects endpoint g (Some c) now) (cn_confirmed_at conn \<noteq> None) st))"
    by (rule keeps_commit [OF assms(1)])
      (use False assms(2-4) ready_effects_fields(1) in
        \<open>auto simp: same_life_def relay_id_current live_def dest!: active_any intro!: ready_commit_ok\<close>)
  then show ?thesis using False by (simp add: commit_ready_def case_prod_beta)
qed (simp add: commit_ready_def)

lemma keeps_ready:
  "keeps st (fst (try_mark_relay_transport_ready busy node endpoint g (Some c) clock st))"
proof -
  let ?st = "check_quarantine node (clock 2) (check_quarantine node (clock 0) st)"
  have "keeps st (fst (commit_ready node endpoint g (Some c) s now conn ?st))"
    if "rm_connections st node = Some conn" "live conn" "g = rm_generation st"
      "active_generation (rm_membership st) node = Some s" for conn s now
    by (rule keeps_trans [OF _ keeps_commit_ready]) (use that in \<open>simp_all add: keeps_same\<close>)
  then show ?thesis
    by (simp add: try_mark_relay_transport_ready_def Let_def split: option.split)
qed

lemma evidence_ops_same [simp]:
  "rm_connections (remove_evidence_if_exact node e st) = rm_connections st"
  "rm_generation (remove_evidence_if_exact node e st) = rm_generation st"
  "rm_membership (remove_evidence_if_exact node e st) = rm_membership st"
  "rm_connections (fst (evidence_is_exact node e now st)) = rm_connections st"
  "rm_generation (fst (evidence_is_exact node e now st)) = rm_generation st"
  "rm_membership (fst (evidence_is_exact node e now st)) = rm_membership st"
  "rm_connections (fst (pending_evidence_for_lifecycle node g s w endpoint c now st)) = rm_connections st"
  "rm_generation (fst (pending_evidence_for_lifecycle node g s w endpoint c now st)) = rm_generation st"
  "rm_membership (fst (pending_evidence_for_lifecycle node g s w endpoint c now st)) = rm_membership st"
  "rm_connections (fst (retain_pending_evidence tie node e now st)) = rm_connections st"
  "rm_generation (fst (retain_pending_evidence tie node e now st)) = rm_generation st"
  "rm_membership (fst (retain_pending_evidence tie node e now st)) = rm_membership st"
  by (simp_all add: remove_evidence_if_exact_def evidence_is_exact_def
      pending_evidence_for_lifecycle_def retain_pending_evidence_def case_prod_beta Let_def)

lemma keeps_evidence [simp]:
  "keeps st (remove_evidence_if_exact node e st') = keeps st st'"
  "keeps st (fst (evidence_is_exact node e now st')) = keeps st st'"
  "keeps st (fst (pending_evidence_for_lifecycle node g s w endpoint c now st')) = keeps st st'"
  "keeps st (fst (retain_pending_evidence tie node e now st')) = keeps st st'"
  by (simp_all add: keeps_def members_ok_def)

lemma online_effects:
  "cn_online (health call c) = cn_online c"
  "cn_online (install_confirmation endpoint g x now c) = cn_online c"
  "cn_online (received_effects g now c) = cn_online c"
  by (simp_all add: health_def install_confirmation_def Let_def
      received_effects_ok(1) [unfolded same_life_def])

lemma confirm_effects_online:
  "cn_online (confirm_effects endpoint g x now pending later c) = cn_online c"
  by (simp add: confirm_effects_def promote_is_received online_effects Let_def)

lemma keeps_commit_confirmation:
  assumes conn: "rm_connections st node = Some conn" "live conn" and g: "g = rm_generation st"
    and s: "session_is_current st node s"
    and match: "\<not> live_transport_mismatch endpoint g (Some c) conn"
  shows "keeps st (fst (commit_confirmation node endpoint g (Some c) s ev clock conn st))"
proof -
  have step: "keeps st' (fst (commit_on node conn
      (RelayPeerConfirmed (relay_id st s conn endpoint (Some c)))
      (confirm_effects endpoint g (Some c) now pending later) changed st'))"
    if same: "rm_connections st' = rm_connections st" "rm_generation st' = rm_generation st"
      "rm_membership st' = rm_membership st" for st' pending later now changed
  proof (rule keeps_commit)
    show "rm_connections st' node = Some conn" using conn same by simp
    show "cn_online (confirm_effects endpoint g (Some c) now pending later x) = cn_online x" for x
      by (rule confirm_effects_online)
    fix s' assume "any_generation (rm_membership st') node = Some s'"
      and "connection_ok (rm_generation st') s' conn"
    moreover from this(1) s have "s' = s"
      by (auto simp: same session_is_current_def dest!: active_any)
    ultimately show "connection_ok (rm_generation st') s' (fst (commit_path_transition
        (RelayPeerConfirmed (relay_id st s conn endpoint (Some c)))
        (confirm_effects endpoint g (Some c) now pending later) conn))"
      using confirm_commit_ok [of g s conn endpoint c] conn(2) match g
      by (simp add: same relay_id_current live_def)
  qed
  have "keeps st (fst (commit_on node conn
      (RelayPeerConfirmed (relay_id st s conn endpoint (Some c)))
      (confirm_effects endpoint g (Some c) now pending later) changed
      (fst (evidence_is_exact node e t st))))" for pending later now changed e t
    by (rule keeps_trans [OF _ step]) simp_all
  then show ?thesis
    using step [OF refl refl refl]
    by (simp add: commit_confirmation_def case_prod_beta Let_def relay_id_def split: option.split)
qed

lemma keeps_confirm_under_locks:
  "keeps st (fst (confirm_under_locks busy node endpoint g (Some c) s ev clock st))"
proof -
  let ?st = "check_quarantine node (clock 2) (check_quarantine node (clock 1) st)"
  have "keeps st (fst (commit_confirmation node endpoint g (Some c) s ev clock conn ?st))"
    if "rm_connections st node = Some conn" "live conn" "g = rm_generation st"
      "session_is_current st node s" "\<not> live_transport_mismatch endpoint g (Some c) conn" for conn
    by (rule keeps_trans [OF _ keeps_commit_confirmation]) (use that in \<open>simp_all add: keeps_same\<close>)
  then show ?thesis by (simp add: confirm_under_locks_def Let_def split: option.split)
qed

lemma keeps_confirm:
  "keeps st (fst (confirm_relay_peer busy node endpoint g (Some c) s w clock st))"
proof -
  have "keeps st (fst (confirm_under_locks busy node endpoint g (Some c) s' ev clock st'))"
    if "keeps st st'" for st' s' ev
    by (rule keeps_trans [OF that keeps_confirm_under_locks])
  then show ?thesis
    by (auto simp: confirm_relay_peer_def case_prod_beta Let_def split: option.split prod.split)
qed

lemma keeps_accept_ack:
  "keeps st (fst (accept_relay_probe_ack busy node endpoint g c s observation rtt st))"
proof -
  have "keeps st (fst (commit_on node conn (RelayHealthObserved r i) (health call) b st))"
    if "rm_connections st node = Some conn" for conn r i call b
    by (rule keeps_commit [OF that]) (simp_all add: health_def [of _ "_ :: peer_connection"]
        sample_commit_ok(1))
  then show ?thesis
    by (simp add: accept_relay_probe_ack_def case_prod_beta Let_def split: option.split)
qed

lemma keeps_probe_ack:
  "keeps st (fst (consume_relay_probe_ack busy busy' node token ingress (Some c) w clock st))"
proof -
  have probes: "keeps a (b\<lparr>rm_probes := p\<rparr>) = keeps a b" for a b p
    by (simp add: keeps_def members_ok_def)
  have "keeps st (fst (accept_relay_probe_ack busy' node endpoint g c' s' observation rtt
      (fst (confirm_relay_peer busy node endpoint' g' (Some c) s w' clock' (check_quarantine node now st)))))"
    for endpoint g c' s' observation rtt endpoint' g' s w' clock' now
    by (rule keeps_trans [OF keeps_trans [OF _ keeps_confirm] keeps_accept_ack]) simp
  then show ?thesis
    by (simp add: consume_relay_probe_ack_def case_prod_beta Let_def probes split: option.split)
qed

section \<open>Business evidence\<close>

lemma confirmed_on_for: "confirmed_on endpoint g x conn \<Longrightarrow> confirmed_for g conn"
  by (simp add: confirmed_on_def confirmed_for_def)

lemma keeps_usable:
  assumes conn: "rm_connections st node = Some conn" "live conn" and g: "g = rm_generation st"
    and s: "active_generation (rm_membership st) node = Some s" and confirmed: "confirmed_for g conn"
    and eff: "\<And>c. same_life c (eff c)" "\<And>c. same_markers c (eff c)"
      "\<And>c. business_ok c \<Longrightarrow> confirmed_for g c \<Longrightarrow> business_ok (eff c)"
  shows "keeps st (fst (commit_on node conn (RelayBusinessUsable (relay_id st s conn endpoint c) d) eff b st))"
proof (rule keeps_commit [OF conn(1)])
  show "cn_online (eff x) = cn_online x" for x using eff(1) [of x] by (simp add: same_life_def)
  fix s' assume "any_generation (rm_membership st) node = Some s'"
    and ok: "connection_ok (rm_generation st) s' conn"
  with s have "s' = s" by (auto dest!: active_any)
  with usable_commit_ok [OF ok _ _ eff(1,2)] conn(2) g confirmed eff(3)
  show "connection_ok (rm_generation st) s' (fst (commit_path_transition
      (RelayBusinessUsable (relay_id st s conn endpoint c) d) eff conn))"
    by (simp add: relay_id_current live_def)
qed

lemma keeps_sent: "keeps st (fst (mark_relay_first_business_sent node g expected c st))"
proof -
  have "keeps st (fst (commit_on node conn (RelayBusinessUsable (relay_id st s conn endpoint x) d)
      (sent_effects g) b st))"
    if "rm_connections st node = Some conn" "live conn" "g = rm_generation st"
      "active_generation (rm_membership st) node = Some s" "cn_confirmed_at conn \<noteq> None"
      "cn_confirmed_generation conn = Some g" for conn s endpoint x d b
    by (rule keeps_usable) (use that sent_effects_ok in \<open>simp_all add: confirmed_for_def\<close>)
  then show ?thesis
    by (simp add: mark_relay_first_business_sent_def case_prod_beta split: option.split)
qed

lemma keeps_commit_received:
  assumes "rm_connections st node = Some conn" "live conn" "ev_generation e = rm_generation st"
    and "session_is_current st node (ev_session e)"
  shows "keeps st (fst (commit_received node e now conn st))"
proof -
  have "keeps st (fst (commit_on node conn
      (RelayBusinessUsable (relay_id st (ev_session e) conn (ev_endpoint e) (ev_connection e)) Received)
      (received_effects (ev_generation e) now) False st))"
    if "confirmed_on (ev_endpoint e) (ev_generation e) (ev_connection e) conn"
    by (rule keeps_usable [OF assms(1-3)])
      (use assms(4) received_effects_ok confirmed_on_for [OF that] in \<open>simp_all add: session_is_current_def\<close>)
  then show ?thesis by (simp add: commit_received_def case_prod_beta Let_def)
qed

lemma keeps_commit_retained:
  "keeps st (fst (commit_retained_evidence busy node e clock st))"
proof -
  let ?q = "check_quarantine node (clock 1) (check_quarantine node (clock 0) st)"
  let ?st = "fst (evidence_is_exact node e (clock 2) ?q)"
  have "keeps st (fst (commit_received node e (clock 3) conn ?st))"
    if "rm_connections st node = Some conn" "live conn" "ev_generation e = rm_generation st"
      "session_is_current st node (ev_session e)" for conn
    by (rule keeps_trans [OF _ keeps_commit_received])
      (use that in \<open>simp_all add: session_is_current_def\<close>)
  then show ?thesis
    by (cases "evidence_is_exact node e (clock 2) ?q"; cases "snd (evidence_is_exact node e (clock 2) ?q)")
      (auto simp: commit_retained_evidence_def Let_def split: option.split,
        metis fst_conv keeps_evidence(2) keeps_check keeps_refl)
qed

lemma evidence_current_keeps [simp]:
  "keeps st (fst (evidence_for_current_lifecycle node e now st')) = keeps st st'"
  by (simp add: evidence_for_current_lifecycle_def)

lemma keeps_retry: "keeps st (fst (retain_relay_business_evidence_for_retry tie node e clock st))"
  using evidence_current_keeps [of st node e "clock 0" st]
  by (cases "evidence_for_current_lifecycle node e (clock 0) st"; cases "snd (evidence_for_current_lifecycle node e (clock 0) st)")
    (simp_all add: retain_relay_business_evidence_for_retry_def)

lemma keeps_try_commit:
  "keeps st (fst (try_commit_relay_business_evidence busy tie node e clock st))"
proof -
  obtain st1 ok where eq: "evidence_for_current_lifecycle node e (clock 0) st = (st1, ok)" by fastforce
  with evidence_current_keeps [of st node e "clock 0" st] have "keeps st st1" by simp
  then have "keeps st (fst (commit_retained_evidence busy node e c
      (fst (retain_pending_evidence tie node e now st1))))" for c now
    by (intro keeps_trans [OF _ keeps_commit_retained]) simp
  with \<open>keeps st st1\<close> show ?thesis
    by (cases ok) (simp_all add: try_commit_relay_business_evidence_def eq)
qed

lemma keeps_try_pending:
  "keeps st (fst (try_commit_pending_evidence_for_session busy node g s w endpoint c clock st))"
proof -
  obtain st1 ev where eq: "pending_evidence_for_lifecycle node g s w endpoint c (clock 0) st = (st1, ev)"
    by fastforce
  with keeps_evidence(3) [of st node g s w endpoint c "clock 0" st] have "keeps st st1" by simp
  with keeps_trans [OF this keeps_commit_retained] show ?thesis
    by (simp add: try_commit_pending_evidence_for_session_def eq case_prod_beta split: option.split)
qed

lemma mark_pathcommit_ok:
  assumes "connection_ok g s conn" and "confirmed_for k conn"
  shows "connection_ok g s (mark_pathcommit k conn)"
proof -
  have "rf_exchange (cn_first conn) = Some j \<Longrightarrow> j = k" for j
    using business_marker_current assms by (blast intro: assms(1) [unfolded connection_ok_def, THEN conjunct2, THEN conjunct1])
  then have "business_ok (mark_pathcommit k conn)"
    using assms by (auto simp: connection_ok_def business_ok_def mark_pathcommit_def confirmed_for_def)
  moreover have "same_life conn (mark_pathcommit k conn)" "same_markers conn (mark_pathcommit k conn)"
    by (simp_all add: mark_pathcommit_def same_life_def same_markers_def)
  ultimately show ?thesis
    using assms(1) connection_ok_same [of conn "mark_pathcommit k conn" g s]
    by (simp add: connection_ok_def)
qed

lemma keeps_pathcommit:
  "keeps st (fst (try_mark_pathcommit busy node g endpoint c s bind clock st))"
proof -
  let ?st = "check_quarantine node (clock 1) (check_quarantine node (clock 0) st)"
  have "keeps st (put_connection node (mark_pathcommit k conn) ?st)"
    if "rm_connections st node = Some conn" "confirmed_for k conn" for conn k
  proof (rule keeps_trans)
    show "keeps ?st (put_connection node (mark_pathcommit k conn) ?st)"
      by (rule keeps_put [of _ _ conn])
        (use that in \<open>simp_all add: mark_pathcommit_ok, simp add: mark_pathcommit_def\<close>)
  qed simp
  then show ?thesis
    by (auto simp: try_mark_pathcommit_def Let_def confirmed_for_def split: option.split)
qed

lemma keeps_fields [simp]:
  "keeps st (st'\<lparr>rm_probes := p\<rparr>) = keeps st st'" "keeps st (st'\<lparr>rm_commits := c\<rparr>) = keeps st st'"
  "keeps st (st'\<lparr>rm_grace := gr\<rparr>) = keeps st st'"
  "keeps st (st'\<lparr>rm_quarantined := q\<rparr>) = keeps st st'"
  "keeps st (st'\<lparr>rm_deadlines := d\<rparr>) = keeps st st'"
  "keeps st (st'\<lparr>rm_confirm_seq := s\<rparr>) = keeps st st'"
  by (simp_all add: keeps_def members_ok_def)

lemma keeps_commit_ack:
  "keeps st (fst (try_consume_path_commit_ack busy node token ingress c clock st))"
proof -
  have "keeps st (fst (try_mark_pathcommit busy node g endpoint x s bind k st))" for g endpoint x s bind k
    by (rule keeps_pathcommit)
  then show ?thesis
    by (simp add: try_consume_path_commit_ack_def case_prod_beta Let_def split: option.split)
qed

section \<open>Expectations, observations and losses\<close>

lemma keeps_expectations:
  "keeps st (fst (register_relay_probe node e st))"
  "keeps st (cancel_relay_probe_if_matches node g request owner x st)"
  "keeps st (fst (relay_probe_present node now st))"
  "keeps st (fst (register_path_commit node ce st))"
  "keeps st (cancel_path_commit_if_matches node g request owner x' st)"
  "keeps st (fst (path_commit_present node now st))"
  "keeps st (cancel_expectations_for_transport endpoint k st)"
  by (simp_all add: register_relay_probe_def cancel_relay_probe_if_matches_def relay_probe_present_def
      register_path_commit_def cancel_path_commit_if_matches_def path_commit_present_def
      cancel_expectations_for_transport_def Let_def split: option.split)

lemma server_quiet [simp]:
  "quiet (\<lambda>c. c\<lparr>cn_relay_server := r\<rparr>)" "quiet (\<lambda>c. health call (c\<lparr>cn_relay_server := r\<rparr>))"
  by (simp_all add: quiet_def same_life_def same_markers_def business_ok_def health_def)

lemma keeps_quiet:
  assumes "rm_connections st node = Some conn" and "quiet eff"
  shows "keeps st (put_connection node (eff conn) st)"
  by (rule keeps_put [OF assms(1)])
    (use assms(2) quiet_ok in \<open>auto simp: quiet_def same_life_def\<close>)

lemma keeps_observation:
  "keeps st (try_record_relay_observation busy node server st)"
  "keeps st (record_relay_attempt busy node server st)"
  using keeps_quiet [OF _ server_quiet(1)] keeps_quiet [OF _ server_quiet(2)]
  by (simp_all add: try_record_relay_observation_def record_relay_attempt_def split: option.split)

lemma drops_online: "drops eff \<Longrightarrow> cn_online (eff c) = cn_online c"
  by (simp add: drops_def same_life_def)

lemma keeps_lost:
  assumes "rm_connections st node = Some conn" and "drops eff"
  shows "keeps st (fst (commit_on node conn (RelayTransportLost r) eff b st))"
  by (rule keeps_commit [OF assms(1)]) (simp_all add: drops_online lost_commit_ok assms)

lemma keeps_revoke: "keeps st (fst (revoke_relay_confirmation node st))"
  using keeps_lost [OF _ drop_relay_drops(2)]
  by (simp add: revoke_relay_confirmation_def case_prod_beta Let_def split: option.split)

lemma keeps_isolate [simp]: "keeps st (isolate_peer node reason now st') = keeps st st'"
  by (simp add: isolate_peer_def Let_def)

lemma keeps_quarantine: "keeps st (fst (quarantine_peer node reason now st))"
proof -
  have "keeps st (fst (commit_on node conn (RelayTransportLost r) drop_relay b
      (isolate_peer node reason now st)))"
    if "rm_connections st node = Some conn" for conn r b
    by (rule keeps_trans [OF _ keeps_lost])
      (use that drop_relay_drops in \<open>simp_all add: isolate_peer_def Let_def\<close>)
  then show ?thesis
    by (simp add: quarantine_peer_def Let_def isolate_peer_def [of _ _ _ st] split: option.split)
qed

lemma keeps_unquarantine [simp]: "keeps st (unquarantine_peer node st') = keeps st st'"
  by (simp add: unquarantine_peer_def)

lemma keeps_not_found: "keeps st (fst (handle_relay_peer_not_found node reason clock st))"
proof -
  have "keeps st (fst (quarantine_peer node reason now st'))" if "keeps st st'" for st' now
    by (rule keeps_trans [OF that keeps_quarantine])
  then show ?thesis
    by (simp add: handle_relay_peer_not_found_def case_prod_beta Let_def split: option.split)
qed

lemma keeps_failure_sample: "keeps st (record_failure_sample node code reason st)"
proof -
  have "keeps st (fst (commit_on node conn (RelayPathFailed r) (health call) b st))"
    if "rm_connections st node = Some conn" for conn r call b
    by (rule keeps_commit [OF that]) (simp_all add: online_effects sample_commit_ok(2))
  then show ?thesis by (simp add: record_failure_sample_def split: option.split)
qed

lemma keeps_failure: "keeps st (fst (record_relay_failure node code reason clock st))"
proof -
  have sample: "keeps st (record_failure_sample node code reason st')" if "keeps st st'" for st'
    by (rule keeps_trans [OF that keeps_failure_sample])
  have "keeps st (fst (handle_relay_peer_not_found node reason clock
      (fst (revoke_relay_confirmation node (st\<lparr>rm_probes := p\<rparr>)))))" for p
    by (rule keeps_trans [OF keeps_trans [OF _ keeps_revoke] keeps_not_found]) simp
  with sample show ?thesis by (simp add: record_relay_failure_def case_prod_beta Let_def)
qed

text \<open>An operation that visits every connection.\<close>

lemma keeps_map:
  assumes "\<And>node conn s. rm_connections st node = Some conn \<Longrightarrow>
      cn_online (f node conn) = cn_online conn
      \<and> (connection_ok (rm_generation st) s conn \<longrightarrow> connection_ok (rm_generation st) s (f node conn))"
  shows "keeps st (st\<lparr>rm_connections := \<lambda>node. map_option (f node) (rm_connections st node)\<rparr>)"
  using assms by (fastforce simp: keeps_def members_ok_def member_ok_def)

lemma keeps_transport_lost: "keeps st (invalidate_relay_transport server c code reason st)"
proof -
  let ?f = "\<lambda>node conn. fst (lose_transport_at st server c code reason node conn)"
  have "keeps st (st\<lparr>rm_connections := \<lambda>node. map_option (?f node) (rm_connections st node)\<rparr>)"
    by (rule keeps_map)
      (simp add: lose_transport_at_def case_prod_beta Let_def lost_commit_ok [OF _ drop_relay_drops(3)]
        commit_online [OF drops_online [OF drop_relay_drops(3)]] split: option.split)
  then show ?thesis by (simp add: invalidate_relay_transport_def Let_def keeps_def members_ok_def)
qed

section \<open>First usable path, the gate and the direct side\<close>

lemma keeps_usable_path:
  assumes "rm_connections st node = Some conn"
  shows "keeps st (put_connection node (fst (record_first_usable path g now conn)) st)"
  using keeps_quiet [OF assms record_first_usable_quiet] .

lemma keeps_first_usable:
  "keeps st (fst (record_verified_first_usable on_link auth node g path ingress clock st))"
  "keeps st (fst (try_record_direct_first_usable busy on_link auth node g s clock st))"
  using keeps_usable_path
  by (simp_all add: record_verified_first_usable_def try_record_direct_first_usable_def
      case_prod_beta Let_def split: option.split)

lemma gate_quiet:
  "quiet (arm_gate required g now)" "quiet (configure_relay_first_at required g now)"
  by (simp_all add: quiet_def arm_gate_def configure_relay_first_at_def clear_gate_def same_life_def
      same_markers_def business_ok_def)

lemma keeps_configure: "keeps st (configure_relay_first required now st)"
proof -
  let ?f = "\<lambda>node. configure_relay_first_at required (rm_generation st) now"
  have "keeps st (st\<lparr>rm_connections := \<lambda>node. map_option (?f node) (rm_connections st node)\<rparr>)"
    by (rule keeps_map)
      (use gate_quiet(2) quiet_ok in \<open>auto simp: quiet_def same_life_def\<close>)
  then show ?thesis by (simp add: configure_relay_first_def keeps_def members_ok_def)
qed

lemma keeps_direct: "keeps st (apply_direct_event node event now st)"
proof -
  have "keeps st (fst (commit_on node conn event (arm_gate required g now) b st))"
    if "rm_connections st node = Some conn" "direct_side event" for conn required g b
    by (rule keeps_commit [OF that(1)])
      (use that(2) in \<open>simp_all add: arm_gate_def direct_commit_ok gate_quiet\<close>)
  then show ?thesis by (simp add: apply_direct_event_def Let_def split: option.split)
qed

lemma keeps_handover: "keeps st (remote_transport_handover node st)"
proof (cases "members_ok st")
  case True
  have "keeps st (put_connection node (mark_remote_transport_handover (rm_generation st) s conn) st)"
    if conn: "rm_connections st node = Some conn" and s: "active_generation (rm_membership st) node = Some s"
    for conn s
  proof (rule keeps_put [OF conn])
    note online = active_online [OF True conn s]
    show "cn_online (mark_remote_transport_handover (rm_generation st) s conn) = cn_online conn"
      by (simp add: mark_remote_transport_handover_def Let_def commit_online apply_remote_handover_def
          clear_usable_def)
    show "connection_ok (rm_generation st) s'
        (mark_remote_transport_handover (rm_generation st) s conn)"
      if "any_generation (rm_membership st) node = Some s'" "connection_ok (rm_generation st) s' conn" for s'
      using that active_any [OF s] by (simp add: handover_ok online)
  qed
  then show ?thesis by (simp add: remote_transport_handover_def split: option.split)
qed (simp add: keeps_def remote_transport_handover_def split: option.split)

section \<open>Network generations\<close>

lemma sat_add_one:
  "sat_add (- 1 :: u64) 1 = - 1" "g \<noteq> - 1 \<Longrightarrow> g < sat_add (g :: u64) 1"
  "g \<noteq> - 1 \<Longrightarrow> g < g + 1"
proof -
  have last: "unat (- 1 :: u64) = 2 ^ 64 - 1"
    by (simp add: unsigned_minus_1_eq_mask mask_eq_exp_minus_1)
  show "sat_add (- 1 :: u64) 1 = - 1" by (simp add: sat_add_def last)
  assume "g \<noteq> - 1"
  then have "unat g \<noteq> 2 ^ 64 - 1" using last by (metis unsigned_word_eqI)
  moreover have "unat g < 2 ^ LENGTH(64)" by (rule unsigned_less)
  ultimately have small: "unat g + 1 < 2 ^ 64" by simp
  then show "g < sat_add g 1" by (simp add: word_less_nat_alt unat_sat_add)
  from small have "unat (g + 1) = unat g + 1" by (simp add: unat_word_ariths)
  then show "g < g + 1" by (simp add: word_less_nat_alt)
qed

lemma changed_online [simp]:
  "cn_online (apply_network_generation_changed g c) = cn_online c"
  "cn_online (apply_candidate_refresh g c) = cn_online c"
  by (simp_all add: apply_network_generation_changed_def apply_candidate_refresh_def Let_def
      clear_usable_def clear_ready_def clear_confirmed_def)

lemma mark_online [simp]:
  "cn_online (mark_network_generation_changed g s reason c) = cn_online c"
  "cn_online (mark_candidate_refresh retains g s reason c) = cn_online c"
  by (simp_all add: mark_network_generation_changed_def mark_candidate_refresh_def commit_online
      online_effects)

lemma each_member_inv:
  assumes inv: "relay_inv st"
    and ok: "\<And>node g s conn. connection_ok g s conn \<Longrightarrow> g < g' \<Longrightarrow> connection_ok g' s (f node s conn)"
      "\<And>node s conn. cn_online (f node s conn) = cn_online conn"
    and g': "g' = sat_add (rm_generation st) 1"
    and st': "rm_connections st' = (\<lambda>node. each_member (f node) st node)" "rm_generation st' = g'"
      "rm_membership st' = rm_membership st"
  shows "relay_inv st'"
proof (cases "exhausted st")
  case True
  then show ?thesis using g' st'(2,3) by (auto simp: relay_inv_def exhausted_def sat_add_one(1))
next
  case False
  with inv have members: "members_ok st" by (simp add: relay_inv_def)
  have less: "rm_generation st < g'"
    using False by (simp add: g' exhausted_def sat_add_one(2))
  have "member_ok g' (rm_membership st) node conn'" if conn': "rm_connections st' node = Some conn'" for node conn'
  proof -
    obtain conn where conn: "rm_connections st node = Some conn"
      using conn' st'(1) by (auto simp: each_member_def split: option.splits)
    from members conn show ?thesis
    proof (rule member_okD)
      fix s assume s: "any_generation (rm_membership st) node = Some s"
        "mb_peers (rm_membership st) node = Some \<lparr>me_session = s, me_online = cn_online conn\<rparr>"
        "s \<le> mb_next (rm_membership st)" "connection_ok (rm_generation st) s conn"
      moreover have "conn' = f node s conn" using conn' st'(1) conn s(1) by (simp add: each_member_def)
      ultimately show ?thesis using ok less by (simp add: member_ok_def)
    qed
  qed
  then show ?thesis using st' by (simp add: relay_inv_def members_ok_def)
qed

lemma advance_inv: "relay_inv st \<Longrightarrow> relay_inv (advance_network_generation reason st)"
  by (erule each_member_inv [where f = "\<lambda>node s. mark_network_generation_changed
        (sat_add (rm_generation st) 1) s reason"])
    (simp_all add: network_changed_ok advance_network_generation_def Let_def)

lemma refresh_inv: "relay_inv st \<Longrightarrow> relay_inv (advance_candidate_refresh_generation retains reason st)"
  by (erule each_member_inv [where f = "\<lambda>node s. mark_candidate_refresh (retains node)
        (sat_add (rm_generation st) 1) s reason"])
    (simp_all add: refresh_ok advance_candidate_refresh_generation_def Let_def)

section \<open>The life of a peer\<close>

definition publishable :: "u64 \<Rightarrow> u64 \<Rightarrow> peer_connection \<Rightarrow> bool" where
  "publishable g s conn \<longleftrightarrow>
     (if cn_online conn then detached conn \<or> connection_ok g s conn
      else machine_ok conn \<and> business_ok conn \<and> leaves s conn)"

definition published :: "u64 \<Rightarrow> u64 \<Rightarrow> bool \<Rightarrow> instant \<Rightarrow> peer_connection \<Rightarrow> peer_connection" where
  "published g s direct_first now conn =
     (let epoch = current_epoch g s conn;
          conn1 = fst (commit_path_transition
            (if cn_online conn then PeerOnline epoch else PeerLeft epoch) id conn)
      in if cn_online conn1 then start_direct_first direct_first epoch now conn1 else conn1)"

lemma published_ok:
  assumes "publishable g s conn"
  shows "connection_ok g s (published g s direct_first now conn)"
    "cn_online (published g s direct_first now conn) = cn_online conn"
proof -
  show "connection_ok g s (published g s direct_first now conn)"
    using assms
    by (auto simp: publishable_def published_def Let_def commit_online bind_online stay_online leave_ok
        direct_first_ok split: if_splits)
  show "cn_online (published g s direct_first now conn) = cn_online conn"
    by (simp add: published_def Let_def commit_online start_direct_first_def)
qed

lemma publish_lifecycle_eq:
  "publish_lifecycle node rotates direct_first now conn st =
     (let (m, session) = publish node (cn_online conn) rotates (rm_membership st)
      in put_connection node
           (case session of None \<Rightarrow> conn | Some s \<Rightarrow> published (rm_generation st) s direct_first now conn)
           (st\<lparr>rm_membership := m\<rparr>))"
  by (simp add: publish_lifecycle_def published_def current_epoch_def Let_def split: prod.split option.split)

lemma publish_members:
  assumes members: "members_ok st" and alive: "mb_next (rm_membership st) \<noteq> - 1"
    and known: "rotates \<or> rm_connections st node \<noteq> None"
    and p: "publish node online rotates (rm_membership st) = (m, session)"
  obtains s where "session = Some s" "mb_peers m node = Some \<lparr>me_session = s, me_online = online\<rparr>"
    "s \<le> mb_next m" "mb_next (rm_membership st) \<le> mb_next m"
    "\<And>other. other \<noteq> node \<Longrightarrow> mb_peers m other = mb_peers (rm_membership st) other"
    "rotates \<Longrightarrow> mb_next (rm_membership st) < s"
    "\<not> rotates \<Longrightarrow> any_generation (rm_membership st) node = Some s"
proof (cases "rotates")
  case True
  have "mb_next (rm_membership st) < mb_next (rm_membership st) + 1"
    by (rule sat_add_one(3) [OF alive])
  with that True alive p show thesis by (auto simp: publish_def Let_def)
next
  case False
  with known obtain conn where "rm_connections st node = Some conn" by auto
  from members this show thesis
    by (rule member_okD) (use that False p in \<open>auto simp: publish_def any_generation_def\<close>)
qed

lemma publish_inv:
  assumes inv: "relay_inv st" and known: "rotates \<or> rm_connections st node \<noteq> None"
    and ok: "\<And>s. members_ok st \<Longrightarrow> (rotates \<Longrightarrow> mb_next (rm_membership st) < s) \<Longrightarrow>
      (\<not> rotates \<Longrightarrow> any_generation (rm_membership st) node = Some s) \<Longrightarrow>
      publishable (rm_generation st) s conn"
  shows "relay_inv (publish_lifecycle node rotates direct_first now conn st)"
proof (cases "exhausted st")
  case True
  then show ?thesis
    by (auto simp: publish_lifecycle_eq relay_inv_def exhausted_def publish_def Let_def
        split: option.splits)
next
  case False
  with inv have members: "members_ok st" and alive: "mb_next (rm_membership st) \<noteq> - 1"
    by (simp_all add: relay_inv_def exhausted_def)
  obtain m session where p: "publish node (cn_online conn) rotates (rm_membership st) = (m, session)"
    by fastforce
  from publish_members [OF members alive known p] obtain s where
    s: "session = Some s" "mb_peers m node = Some \<lparr>me_session = s, me_online = cn_online conn\<rparr>"
      "s \<le> mb_next m" "mb_next (rm_membership st) \<le> mb_next m"
      "\<And>other. other \<noteq> node \<Longrightarrow> mb_peers m other = mb_peers (rm_membership st) other"
      "rotates \<Longrightarrow> mb_next (rm_membership st) < s"
      "\<not> rotates \<Longrightarrow> any_generation (rm_membership st) node = Some s"
    by metis
  let ?conn = "published (rm_generation st) s direct_first now conn"
  note new = published_ok [OF ok [OF members s(6,7)], of direct_first now]
  have "member_ok (rm_generation st) m node ?conn" using s new by (auto simp: member_ok_def)
  moreover have "member_ok (rm_generation st) m other c"
    if "other \<noteq> node" "rm_connections st other = Some c" for other c
    using members that(2) by (rule member_okD) (use s(4,5) that(1) in \<open>auto simp: member_ok_def\<close>)
  ultimately show ?thesis
    by (auto simp: publish_lifecycle_eq p s(1) relay_inv_def members_ok_def)
qed

lemma detached_publishable: "detached conn \<Longrightarrow> publishable g s conn"
  by (simp add: publishable_def detached_def leaves_def)

lemma keeps_life_publishable:
  assumes "connection_ok g s conn"
  shows "publishable g s conn"
  using assms
  by (simp add: publishable_def connection_ok_def lifecycle_ok_def leaves_def Let_def)

text \<open>An update of the control plane either resets the connection or goes on with its life.\<close>

lemma reset_on_update_cases:
  assumes "machine_ok conn"
  shows "detached (reset_on_update info old conn) \<and> cn_online (reset_on_update info old conn) = cn_online conn
    \<or> reset_on_update info old conn = conn \<and> (cn_online old \<or> \<not> in_online info)
      \<and> rotates_session info (Some old) = (cn_online old \<noteq> in_online info)"
  using detached_reset [OF assms] detached_session_reset [OF assms]
  by (auto simp: reset_on_update_def rotates_session_def)

text \<open>
  An update that does not reset: either the peer's lifecycle goes on, or it goes offline and a new
  session follows.
\<close>

lemma unreset_update_publishable:
  assumes ok: "connection_ok g s0 old" and le: "s0 \<le> m"
    and same: "reset_on_update info old (old\<lparr>cn_virtual_ip := in_virtual_ip info,
        cn_registration_seq := in_registration_seq info, cn_public_key := in_public_key info\<rparr>)
      = old\<lparr>cn_virtual_ip := in_virtual_ip info,
        cn_registration_seq := in_registration_seq info, cn_public_key := in_public_key info\<rparr>"
    and online: "cn_online old \<or> \<not> in_online info"
    and stays: "cn_online old = in_online info \<Longrightarrow> s = s0"
    and rotates: "cn_online old \<noteq> in_online info \<Longrightarrow> m < s"
  shows "publishable g s (update_connection info ledger (Some old))" (is "publishable g s ?conn")
proof (cases "cn_online old = in_online info")
  case True
  have c: "same_life old ?conn" "same_markers old ?conn" "cn_first ?conn = cn_first old"
    using same True by (simp_all add: update_connection_def Let_def same_life_def same_markers_def)
  have "business_ok ?conn = business_ok old"
    by (rule business_ok_same) (use c in \<open>simp_all add: same_markers_def\<close>)
  with c ok stays [OF True] have "connection_ok g s ?conn" by (simp add: connection_ok_same)
  then show ?thesis by (rule keeps_life_publishable)
next
  case False
  with online have "cn_online old" "\<not> in_online info" by auto
  moreover have "s0 < s" using rotates [OF False] le by simp
  moreover have "cn_machine ?conn = cn_machine old" "cn_state ?conn = cn_state old"
      "cn_first ?conn = cn_first old" "same_markers old ?conn" "cn_online ?conn = in_online info"
    using same by (simp_all add: update_connection_def Let_def same_markers_def)
  moreover from this have "business_ok ?conn = business_ok old"
    by (intro business_ok_same) (simp_all add: same_markers_def)
  ultimately show ?thesis
    using ok by (simp add: publishable_def connection_ok_def machine_ok_def lifecycle_ok_def leaves_def Let_def)
qed

lemma update_publishable:
  assumes members: "members_ok st"
    and rotates: "rotates_session info (rm_connections st node) \<Longrightarrow> mb_next (rm_membership st) < s"
    and stays: "\<not> rotates_session info (rm_connections st node) \<Longrightarrow>
      any_generation (rm_membership st) node = Some s"
  shows "publishable (rm_generation st) s (update_connection info ledger (rm_connections st node))"
    (is "publishable ?g s ?conn")
proof (cases "rm_connections st node")
  case None
  have "detached ?conn"
    using detached_new [of "in_virtual_ip info"]
      detached_same [of ?conn "peer_connection_new (in_virtual_ip info)"] None
    by (simp add: update_connection_def Let_def same_markers_def)
  then show ?thesis by (rule detached_publishable)
next
  case (Some old)
  from members Some show ?thesis
  proof (rule member_okD)
    fix s0 assume s0: "any_generation (rm_membership st) node = Some s0"
      "s0 \<le> mb_next (rm_membership st)" "connection_ok ?g s0 old"
    let ?old = "old\<lparr>cn_virtual_ip := in_virtual_ip info, cn_registration_seq := in_registration_seq info,
      cn_public_key := in_public_key info\<rparr>"
    let ?r = "reset_on_update info old ?old"
    have old: "machine_ok ?old" using s0(3) by (simp add: connection_ok_def machine_ok_def)
    consider (reset) "detached ?r"
      | (same) "?r = ?old" "cn_online old \<or> \<not> in_online info"
        "rotates_session info (Some old) = (cn_online old \<noteq> in_online info)"
      using reset_on_update_cases [OF old] by blast
    then show ?thesis
    proof cases
      case reset
      have "detached ?conn"
        using reset detached_same [of ?conn ?r] Some
        by (simp add: update_connection_def Let_def same_markers_def)
      then show ?thesis by (rule detached_publishable)
    next
      case same
      show ?thesis unfolding Some
        by (rule unreset_update_publishable [OF s0(3,2) same(1,2)])
          (use same(3) stays rotates s0(1) Some in simp_all)
    qed
  qed
qed

lemma publish_update_inv:
  assumes "relay_inv st"
  shows "relay_inv (publish_lifecycle node (rotates_session info (rm_connections st node)) direct_first now
    (update_connection info ledger (rm_connections st node)) st)"
  by (rule publish_inv [OF assms]) (auto simp: rotates_session_def intro: update_publishable)

text \<open>The stages of an update, for the lemmas about it.\<close>

lemma add_peer_stages:
  obtains (stale) "add_peer node info ledger clock st = st"
  | (live) st1 st2 st3 m where "st1 = st \<or> st1 = check_quarantine node (clock 0) st"
      "st2 = publish_lifecycle node (rotates_session info (rm_connections st1 node))
         (lv_direct_first ledger) (clock 1) (update_connection info ledger (rm_connections st1 node)) st1"
      "st3 = st2 \<or> st3 = fst (revoke_relay_confirmation node st2)"
      "add_peer node info ledger clock st = st3\<lparr>rm_grace := m\<rparr>
       \<or> add_peer node info ledger clock st = unquarantine_peer node (st3\<lparr>rm_grace := m\<rparr>)"
proof (cases "is_stale_registration info ledger (rm_connections st node)")
  case True
  then show thesis by (intro stale) (simp add: add_peer_def)
next
  case False
  define asks where "asks = (lv_identity_changed ledger \<and> in_online info)"
  define st1 where "st1 = (if asks then check_quarantine node (clock 0) st else st)"
  define st2 where "st2 = publish_lifecycle node (rotates_session info (rm_connections st node))
    (lv_direct_first ledger) (clock 1) (update_connection info ledger (rm_connections st node)) st1"
  define leaves_now where "leaves_now = ((case rm_connections st node of None \<Rightarrow> True
    | Some old \<Rightarrow> cn_online old) \<and> \<not> in_online info)"
  define st3 where "st3 = (if leaves_now then fst (revoke_relay_confirmation node st2) else st2)"
  define fresh where "fresh = (in_online info \<and> (case rm_connections st node of
    None \<Rightarrow> True | Some old \<Rightarrow> cn_public_key old \<noteq> in_public_key info))"
  define m where "m = (if fresh then (rm_grace st3)(node := None) else rm_grace st3)"
  have grace: "(if fresh then st3\<lparr>rm_grace := (rm_grace st3)(node := None)\<rparr> else st3) = st3\<lparr>rm_grace := m\<rparr>"
    by (simp add: m_def)
  have "add_peer node info ledger clock st =
      (if asks \<and> peer_quarantined st node (clock 0) then unquarantine_peer node (st3\<lparr>rm_grace := m\<rparr>)
       else st3\<lparr>rm_grace := m\<rparr>)"
    unfolding grace [symmetric]
    unfolding add_peer_def Let_def if_not_P [OF False] st3_def st2_def st1_def
      asks_def fresh_def leaves_now_def by (rule refl)
  moreover have "rm_connections st1 = rm_connections st" by (simp add: st1_def)
  ultimately show thesis
    using live [of st1 st2 st3 m] by (auto simp: st1_def st2_def st3_def split: if_splits)
qed

lemma add_peer_inv:
  assumes inv: "relay_inv st"
  shows "relay_inv (add_peer node info ledger clock st)"
proof (cases rule: add_peer_stages [of node info ledger clock st])
  case stale
  with inv show ?thesis by simp
next
  case (live st1 st2 st3 m)
  have "keeps st st1" using live(1) by auto
  then have "relay_inv st1" by (rule keeps_inv [OF _ inv])
  then have "relay_inv st2" unfolding live(2) by (rule publish_update_inv)
  moreover have "keeps st2 st3" using live(3) keeps_revoke by auto
  moreover have "keeps st3 (add_peer node info ledger clock st)" using live(4) by auto
  ultimately show ?thesis by (blast intro: keeps_inv)
qed

lemma remove_peer_inv: "relay_inv st \<Longrightarrow> relay_inv (remove_peer node st)"
  by (auto simp: relay_inv_def exhausted_def members_ok_def member_ok_def remove_peer_def)

lemma reset_inv:
  assumes inv: "relay_inv st"
  shows "relay_inv (fst (finish_incarnation_reset node claimed direct_first now st))"
proof -
  have published: "relay_inv (publish_lifecycle node True direct_first now (reset_for_peer_session conn) st)"
    if "rm_connections st node = Some conn" for conn
  proof (rule publish_inv [OF inv])
    fix s assume "members_ok st"
    from this that have "machine_ok conn" by (rule member_okD) (simp add: connection_ok_def)
    then show "publishable (rm_generation st) s (reset_for_peer_session conn)"
      by (rule detached_publishable [OF detached_session_reset(1)])
  qed simp
  have bump: "keeps st' (bump_confirm_seq node (put_connection node (c\<lparr>cn_confirm_seq := n\<rparr>) st'))"
    if "rm_connections st' node = Some c" for st' c n
  proof -
    have "quiet (\<lambda>c. c\<lparr>cn_confirm_seq := n\<rparr>)"
      by (simp add: quiet_def same_life_def same_markers_def business_ok_def)
    from keeps_quiet [OF that this] have "keeps st' (put_connection node (c\<lparr>cn_confirm_seq := n\<rparr>) st')" .
    then show ?thesis by (simp add: keeps_def members_ok_def)
  qed
  show ?thesis
    using inv published keeps_inv [OF bump]
    by (auto simp: finish_incarnation_reset_def Let_def split: option.split)
qed

section \<open>Every operation\<close>

lemmas keeps_operations =
  keeps_ready keeps_probe_ack keeps_confirm keeps_try_commit keeps_retry keeps_try_pending keeps_sent
  keeps_expectations keeps_commit_ack keeps_observation keeps_failure keeps_revoke keeps_quarantine
  keeps_transport_lost keeps_first_usable keeps_configure keeps_handover keeps_direct
  keeps_unquarantine [THEN iffD2, OF keeps_refl]

lemmas kept_operations = keeps_operations [THEN keeps_inv]

lemma relay_step_inv: "relay_inv st \<Longrightarrow> relay_inv (relay_step st op)"
  by (cases op)
    (simp_all add: confirm_from_business_for_session_def confirm_from_business_def
      kept_operations advance_inv refresh_inv add_peer_inv remove_peer_inv reset_inv)

interpretation relay: event_machine relay_step relay_inv
  by unfold_locales (rule relay_step_inv)

end
