(* ===== verification/Relay_Service.thy ===== *)
theory Relay_Service
  imports Relay_Inv
begin

text \<open>
  What relay confirmation promises to the data plane: a confirmed relay is the one the path machine
  has confirmed, for the current network, session and candidates; it became so by an acknowledged
  probe or by authenticated business; a peer the relay does not know loses it.
\<close>

section \<open>The data plane and the path machine agree\<close>

lemma relay_inv_new: "relay_inv (relay_manager_new g)"
  by (simp add: relay_inv_def members_ok_def relay_manager_new_def)

lemma relay_run_members:
  assumes "\<not> exhausted (relay_run (relay_manager_new g) ops)"
  shows "members_ok (relay_run (relay_manager_new g) ops)"
  using assms relay.run_inv [OF relay_inv_new, of g ops] by (simp add: relay_run_def relay_inv_def)

lemma confirmed_member:
  assumes members: "members_ok st" and conn: "rm_connections st node = Some conn" "cn_online conn"
    and confirmed: "cn_confirmed_at conn \<noteq> None"
  obtains session endpoint c where "session_is_current st node session"
    "ps_lifecycle (pm_state (cn_machine conn)) = Online"
    "confirmed_identity (ps_relay (pm_state (cn_machine conn)))
       = Some (relay_id st session conn endpoint (Some c))"
    "confirmed_on endpoint (rm_generation st) (Some c) conn"
    "cn_ready_endpoint conn = Some endpoint" "cn_ready_connection conn = Some c"
proof -
  from members conn(1) show thesis
  proof (rule member_okD)
    fix s assume s: "mb_peers (rm_membership st) node = Some \<lparr>me_session = s, me_online = cn_online conn\<rparr>"
      and ok: "connection_ok (rm_generation st) s conn"
    note now = online_facts [OF ok conn(2)]
    obtain r where r: "confirmed_identity (ps_relay (pm_state (cn_machine conn))) = Some r"
        "ready_is r conn" "confirmed_is r conn"
      using now(3) confirmed
      by (cases "ps_relay (pm_state (cn_machine conn))") (auto simp: markers_agree_def confirmed_none_def)
    note epoch = ready_markers(2) [OF ok conn(2) confirmed_is_identity [OF r(1)]]
    obtain c where c: "cn_confirmed_connection conn = Some c" "cn_ready_connection conn = Some c"
        "rc_incarnation r = incarnation_from (Some c)"
      using r(2,3) by (auto simp: ready_is_def confirmed_is_def)
    have "r = relay_id st s conn (rc_endpoint r) (Some c)"
      unfolding relay_id_current by (rule same_transport_eq) (simp_all add: same_transport_def c(3) epoch)
    moreover have "session_is_current st node s"
      using s conn(2) by (simp add: session_is_current_def active_generation_def)
    moreover have "confirmed_on (rc_endpoint r) (rm_generation st) (Some c) conn"
        "cn_ready_endpoint conn = Some (rc_endpoint r)"
      using r(2,3) c epoch by (simp_all add: confirmed_on_def confirmed_is_def ready_is_def current_epoch_def)
    ultimately show thesis using that [of s "rc_endpoint r" c] now(1) r(1) c(2) by simp
  qed
qed

text \<open>
  C7: Over every run of the relay operations in which neither the network generation nor the
  session counter has reached 2^64 - 1: whenever the data plane is told that a peer's relay is
  confirmed in a generation, that generation and the peer's session are current and the path
  machine itself has confirmed exactly this relay, which is the live ready transport.
\<close>
theorem relay_confirmation_sound:
  assumes run: "st = relay_run (relay_manager_new g) ops" and alive: "\<not> exhausted st"
    and "is_relay_peer_confirmed_for_generation st node k"
  shows "k = rm_generation st \<and> (\<exists>conn session endpoint c.
    rm_connections st node = Some conn \<and> session_is_current st node session
    \<and> ps_lifecycle (pm_state (cn_machine conn)) = Online
    \<and> confirmed_identity (ps_relay (pm_state (cn_machine conn)))
        = Some (relay_id st session conn endpoint (Some c))
    \<and> cn_confirmed_endpoint conn = Some endpoint \<and> cn_confirmed_connection conn = Some c
    \<and> cn_ready_endpoint conn = Some endpoint \<and> cn_ready_connection conn = Some c)"
proof -
  have members: "members_ok st" using alive unfolding run by (rule relay_run_members)
  obtain conn where conn: "rm_connections st node = Some conn" "cn_online conn"
      "cn_confirmed_at conn \<noteq> None" "cn_confirmed_generation conn = Some k"
    using assms(3)
    by (auto simp: is_relay_peer_confirmed_for_generation_def live_def split: option.splits)
  show ?thesis
    by (rule confirmed_member [OF members conn(1-3)])
      (use conn in \<open>auto simp: confirmed_on_def\<close>)
qed

text \<open>
  When the two-direction milestone of relay business stands for the current generation, business
  has crossed the confirmed relay in both directions, or a path-commit probe has closed the
  gate.
\<close>
theorem relay_exchange_has_both_directions:
  assumes run: "st = relay_run (relay_manager_new g) ops" and alive: "\<not> exhausted st"
    and "rm_connections st node = Some conn"
    and "rf_exchange (cn_first conn) = Some k"
  shows "rf_sent (cn_first conn) = Some k \<and> rf_received (cn_first conn) = Some k
    \<and> rf_gate_completed (cn_first conn) = Some k \<and> confirmed_for k conn"
proof -
  have "members_ok st" using alive unfolding run by (rule relay_run_members)
  from this assms(3) have "business_ok conn" by (rule member_okD) (simp add: connection_ok_def)
  with assms(4) show ?thesis unfolding business_ok_def confirmed_for_def by blast
qed

end
