(* ===== verification/Relay_Provenance.thy ===== *)
theory Relay_Provenance
  imports Relay_Service
begin

text \<open>
  Where a confirmation comes from. Of all operations only the acknowledgement of a registered probe,
  authenticated business and the refresh of a confirmed relay make a relay confirmed.
\<close>

section \<open>Operations that confirm nothing\<close>

definition confirmed_relay :: "relay_manager \<Rightarrow> string \<Rightarrow> string \<Rightarrow> u64 \<Rightarrow> u64 option \<Rightarrow> bool" where
  "confirmed_relay st node endpoint k x \<longleftrightarrow>
     (case rm_connections st node of None \<Rightarrow> False | Some conn \<Rightarrow> confirmed_on endpoint k x conn)"

definition no_gain :: "relay_manager \<Rightarrow> relay_manager \<Rightarrow> bool" where
  "no_gain st st' \<longleftrightarrow>
     (\<forall>node endpoint k x. confirmed_relay st' node endpoint k x \<longrightarrow> confirmed_relay st node endpoint k x)"

lemma no_gain_refl [simp]: "no_gain st st"
  by (simp add: no_gain_def)

lemma no_gain_trans: "no_gain a b \<Longrightarrow> no_gain b c \<Longrightarrow> no_gain a c"
  by (simp add: no_gain_def)

lemma no_gain_connections: "rm_connections a = rm_connections b \<Longrightarrow> no_gain st a = no_gain st b"
  by (simp add: no_gain_def confirmed_relay_def)

lemma no_gain_same [simp]:
  "no_gain st (check_quarantine node now a) = no_gain st a"
  "no_gain st (bump_confirm_seq node a) = no_gain st a"
  "no_gain st (unquarantine_peer node a) = no_gain st a"
  "no_gain st (isolate_peer node reason now a) = no_gain st a"
  "no_gain st (remove_evidence_if_exact node e a) = no_gain st a"
  "no_gain st (fst (evidence_is_exact node e now a)) = no_gain st a"
  "no_gain st (fst (pending_evidence_for_lifecycle node g s w endpoint c now a)) = no_gain st a"
  "no_gain st (fst (retain_pending_evidence tie node e now a)) = no_gain st a"
  "no_gain st (fst (evidence_for_current_lifecycle node e now a)) = no_gain st a"
  "no_gain st (a\<lparr>rm_probes := p\<rparr>) = no_gain st a" "no_gain st (a\<lparr>rm_commits := pc\<rparr>) = no_gain st a"
  "no_gain st (a\<lparr>rm_grace := gr\<rparr>) = no_gain st a"
  "no_gain st (a\<lparr>rm_confirm_seq := cs\<rparr>) = no_gain st a"
  "no_gain st (a\<lparr>rm_membership := m\<rparr>) = no_gain st a"
  by (rule no_gain_connections, simp add: isolate_peer_def unquarantine_peer_def
      evidence_for_current_lifecycle_def Let_def)+

text \<open>Edits of a connection that confirm nothing.\<close>

definition tame :: "(peer_connection \<Rightarrow> peer_connection) \<Rightarrow> bool" where
  "tame eff \<longleftrightarrow> (\<forall>c endpoint k x. confirmed_on endpoint k x (eff c) \<longrightarrow> confirmed_on endpoint k x c)"

lemma tameD: "tame eff \<Longrightarrow> confirmed_on endpoint k x (eff c) \<Longrightarrow> confirmed_on endpoint k x c"
  by (simp add: tame_def)

lemma tameI:
  "(\<And>c endpoint k x. confirmed_on endpoint k x (eff c) \<Longrightarrow> confirmed_on endpoint k x c) \<Longrightarrow> tame eff"
  unfolding tame_def by blast

lemma tame_comp: "tame f \<Longrightarrow> tame g \<Longrightarrow> tame (\<lambda>c. f (g c))"
  unfolding tame_def by blast

lemma tame_same: "(\<And>c. same_markers c (eff c)) \<Longrightarrow> tame eff"
  unfolding tame_def using confirmed_on_same by blast

lemma tame_cleared: "(\<And>c. confirmed_none (eff c)) \<Longrightarrow> tame eff"
  unfolding tame_def confirmed_on_def confirmed_none_def by (metis option.distinct(1))

lemma tame_quiet: "quiet eff \<Longrightarrow> tame eff"
  by (rule tame_same) (simp add: quiet_def)

lemma tame_drops: "drops eff \<Longrightarrow> tame eff"
  by (rule tame_cleared) (simp add: drops_def)

lemma tame_quiet_effects:
  "tame id" "tame (health call)" "tame (arm_gate required g now)"
  by (rule tame_quiet, simp add: gate_quiet)+

lemma tame_drop_effects:
  "tame drop_relay" "tame (\<lambda>c. health call (drop_relay c))" "tame (lose_effects code reason)"
  by (rule tame_drops, rule drop_relay_drops)+

lemma tame_marker_effects:
  "tame (sent_effects g)" "tame (received_effects g now)" "tame (mark_pathcommit g)"
  "tame (apply_remote_handover e)"
proof -
  show "tame (sent_effects g)" by (rule tame_same) (rule sent_effects_ok)
  show "tame (received_effects g now)" by (rule tame_same) (rule received_effects_ok)
  show "tame (mark_pathcommit g)" "tame (apply_remote_handover e)"
    by (rule tame_same, simp add: mark_pathcommit_def same_markers_def apply_remote_handover_def
        clear_usable_def Let_def)+
qed

lemma tame_clearing_effects:
  "tame forget_relay"
  by (rule tame_cleared)
    (simp add: forget_relay_def clear_usable_def clear_confirmed_def clear_ready_def confirmed_none_def)

lemma tame_ready: "tame (ready_effects endpoint g x now)"
  unfolding tame_def
  by (auto simp: confirmed_on_def ready_effects_def health_def clear_confirmed_def Let_def)

lemma tame_generation: "tame (apply_network_generation_changed g)"
  unfolding tame_def
  by (auto simp: confirmed_on_def apply_network_generation_changed_def clear_usable_def
      clear_confirmed_def clear_ready_def Let_def split: if_splits)

lemmas tame_effects = tame_quiet_effects tame_drop_effects tame_marker_effects tame_clearing_effects
  tame_ready tame_generation

lemma confirmed_on_commit [simp]:
  "confirmed_on endpoint k x (projected e c) = confirmed_on endpoint k x c"
  "confirmed_on endpoint k x (moved e c) = confirmed_on endpoint k x c"
  by (simp_all add: confirmed_on_def)

lemma tame_commit:
  assumes "tame eff"
  shows "tame (\<lambda>c. fst (commit_path_transition e eff c))"
proof -
  have "confirmed_on endpoint k x (eff (projected e c)) \<longrightarrow> confirmed_on endpoint k x c" for endpoint k x c
    using assms confirmed_on_commit(1) unfolding tame_def by blast
  then show ?thesis by (simp add: tame_def commit_path_transition_eq)
qed

lemma no_gain_put:
  assumes "rm_connections st node = Some conn"
    and "\<And>endpoint k x. confirmed_on endpoint k x conn' \<Longrightarrow> confirmed_on endpoint k x conn"
  shows "no_gain st (put_connection node conn' st)"
  using assms by (auto simp: no_gain_def confirmed_relay_def)

lemma no_gain_commit:
  assumes "rm_connections st node = Some conn" and "tame eff"
  shows "no_gain st (fst (commit_on node conn e eff b st))"
proof -
  have "no_gain st (put_connection node (fst (commit_path_transition e eff conn)) st)"
    using tame_commit [OF assms(2), of e] by (intro no_gain_put [OF assms(1)]) (simp add: tame_def)
  then show ?thesis by (simp add: commit_on_def case_prod_beta Let_def)
qed

lemma no_gain_edit:
  "rm_connections st node = Some conn \<Longrightarrow> tame eff \<Longrightarrow> no_gain st (put_connection node (eff conn) st)"
  by (rule no_gain_put [of st node conn "eff conn"]) (simp_all add: tame_def)

lemmas no_gain_quiet = no_gain_edit [OF _ tame_quiet]

text \<open>An operation that starts from a state of the same connections.\<close>

lemma no_gain_from: "no_gain a b \<Longrightarrow> rm_connections a = rm_connections st \<Longrightarrow> no_gain st b"
  by (simp add: no_gain_def confirmed_relay_def)

lemma no_gain_commit_from:
  "rm_connections st node = Some conn \<Longrightarrow> tame eff \<Longrightarrow> rm_connections a = rm_connections st \<Longrightarrow>
     no_gain st (fst (commit_on node conn e eff b a))"
  by (rule no_gain_from [OF no_gain_commit]) simp_all

lemma no_gain_ready: "no_gain st (fst (try_mark_relay_transport_ready busy node endpoint g x clock st))"
  by (simp add: try_mark_relay_transport_ready_def commit_ready_def case_prod_beta Let_def
      no_gain_commit_from tame_effects split: option.split)

lemma no_gain_accept_ack:
  "no_gain st (fst (accept_relay_probe_ack busy node endpoint g c s observation rtt st))"
  by (simp add: accept_relay_probe_ack_def case_prod_beta Let_def no_gain_commit_from tame_effects
      split: option.split)

lemma no_gain_sent: "no_gain st (fst (mark_relay_first_business_sent node g expected c st))"
  by (simp add: mark_relay_first_business_sent_def case_prod_beta Let_def no_gain_commit_from
      tame_effects split: option.split)

lemma no_gain_received:
  "rm_connections a node = Some conn \<Longrightarrow> no_gain a (fst (commit_received node e now conn a))"
  by (simp add: commit_received_def case_prod_beta Let_def no_gain_commit_from tame_effects)

lemma no_gain_retained: "no_gain st (fst (commit_retained_evidence busy node e clock st))"
proof -
  let ?q = "check_quarantine node (clock 1) (check_quarantine node (clock 0) st)"
  obtain st3 exact where eq: "evidence_is_exact node e (clock 2) ?q = (st3, exact)" by fastforce
  then have "rm_connections st3 = rm_connections st"
    using evidence_ops_same(4) [of node e "clock 2" ?q] by simp
  then have "no_gain st st3" "\<And>conn. rm_connections st node = Some conn \<Longrightarrow>
      no_gain st (fst (commit_received node e (clock 3) conn st3))"
    using no_gain_from [OF no_gain_refl] no_gain_from [OF no_gain_received] by simp_all
  then show ?thesis
    by (cases exact) (simp_all add: commit_retained_evidence_def Let_def eq [simplified] split: option.split)
qed

lemma no_gain_try_commit:
  "no_gain st (fst (try_commit_relay_business_evidence busy tie node e clock st))"
proof -
  obtain st1 ok where eq: "evidence_for_current_lifecycle node e (clock 0) st = (st1, ok)" by fastforce
  with no_gain_same(9) [of st node e "clock 0" st] have "no_gain st st1" by simp
  then have "no_gain st (fst (commit_retained_evidence busy node e c
      (fst (retain_pending_evidence tie node e now st1))))" for c now
    by (intro no_gain_trans [OF _ no_gain_retained]) simp
  with \<open>no_gain st st1\<close> show ?thesis
    by (cases ok) (simp_all add: try_commit_relay_business_evidence_def eq)
qed

lemma no_gain_try_pending:
  "no_gain st (fst (try_commit_pending_evidence_for_session busy node g s w endpoint c clock st))"
proof -
  obtain st1 ev where eq: "pending_evidence_for_lifecycle node g s w endpoint c (clock 0) st = (st1, ev)"
    by fastforce
  with no_gain_same(7) [of st node g s w endpoint c "clock 0" st] have "no_gain st st1" by simp
  with no_gain_trans [OF this no_gain_retained] show ?thesis
    by (simp add: try_commit_pending_evidence_for_session_def eq case_prod_beta split: option.split)
qed

lemma no_gain_retry: "no_gain st (fst (retain_relay_business_evidence_for_retry tie node e clock st))"
  using no_gain_same(9) [of st node e "clock 0" st]
  by (cases "evidence_for_current_lifecycle node e (clock 0) st";
      cases "snd (evidence_for_current_lifecycle node e (clock 0) st)")
    (simp_all add: retain_relay_business_evidence_for_retry_def)

lemma no_gain_put_from:
  "rm_connections st node = Some conn \<Longrightarrow> tame eff \<Longrightarrow> rm_connections a = rm_connections st \<Longrightarrow>
     no_gain st (put_connection node (eff conn) a)"
  by (rule no_gain_from [OF no_gain_edit]) simp_all

lemma no_gain_pathcommit:
  "no_gain st (fst (try_mark_pathcommit busy node g endpoint c s bind clock st))"
  by (simp add: try_mark_pathcommit_def Let_def no_gain_put_from tame_effects split: option.split)

lemma no_gain_commit_ack:
  "no_gain st (fst (try_consume_path_commit_ack busy node token ingress c clock st))"
  by (simp add: try_consume_path_commit_ack_def case_prod_beta Let_def no_gain_pathcommit
      split: option.split)

lemma no_gain_expectations:
  "no_gain st (fst (register_relay_probe node e st))"
  "no_gain st (cancel_relay_probe_if_matches node g request owner x st)"
  "no_gain st (fst (relay_probe_present node now st))"
  "no_gain st (fst (register_path_commit node ce st))"
  "no_gain st (cancel_path_commit_if_matches node g request owner x' st)"
  "no_gain st (fst (path_commit_present node now st))"
  "no_gain st (cancel_expectations_for_transport endpoint k st)"
  by (simp_all add: register_relay_probe_def cancel_relay_probe_if_matches_def relay_probe_present_def
      register_path_commit_def cancel_path_commit_if_matches_def path_commit_present_def
      cancel_expectations_for_transport_def Let_def split: option.split)

lemma no_gain_observation:
  "no_gain st (try_record_relay_observation busy node server st)"
  "no_gain st (record_relay_attempt busy node server st)"
  using no_gain_quiet [OF _ server_quiet(1)] no_gain_quiet [OF _ server_quiet(2)]
  by (simp_all add: try_record_relay_observation_def record_relay_attempt_def split: option.split)

section \<open>Losses, lives and generations\<close>

lemma no_gain_revoke: "no_gain st (fst (revoke_relay_confirmation node st))"
  by (simp add: revoke_relay_confirmation_def case_prod_beta Let_def no_gain_commit tame_effects
      split: option.split)

lemma isolate_connections [simp]: "rm_connections (isolate_peer node reason now st) = rm_connections st"
  by (simp add: isolate_peer_def Let_def)

lemma no_gain_quarantine: "no_gain st (fst (quarantine_peer node reason now st))"
  by (simp add: quarantine_peer_def Let_def no_gain_commit_from tame_effects split: option.split)

lemma no_gain_not_found: "no_gain st (fst (handle_relay_peer_not_found node reason clock st))"
  using no_gain_trans [OF _ no_gain_quarantine]
  by (simp add: handle_relay_peer_not_found_def case_prod_beta Let_def split: option.split)

lemma no_gain_sample: "no_gain st (record_failure_sample node code reason st)"
  by (simp add: record_failure_sample_def no_gain_commit tame_effects split: option.split)

lemma no_gain_failure: "no_gain st (fst (record_relay_failure node code reason clock st))"
proof -
  have sample: "no_gain st (record_failure_sample node code reason st')" if "no_gain st st'" for st'
    by (rule no_gain_trans [OF that no_gain_sample])
  have "no_gain st (fst (handle_relay_peer_not_found node reason clock
      (fst (revoke_relay_confirmation node (st\<lparr>rm_probes := p\<rparr>)))))" for p
    by (rule no_gain_trans [OF no_gain_trans [OF _ no_gain_revoke] no_gain_not_found]) simp
  with sample show ?thesis by (simp add: record_relay_failure_def case_prod_beta Let_def)
qed

lemma no_gain_map:
  assumes "\<And>node conn endpoint k x. rm_connections st node = Some conn \<Longrightarrow>
      confirmed_on endpoint k x (f node conn) \<Longrightarrow> confirmed_on endpoint k x conn"
    and "rm_connections st' = (\<lambda>node. map_option (f node) (rm_connections st node))"
  shows "no_gain st st'"
  using assms by (auto simp: no_gain_def confirmed_relay_def split: option.splits)

lemma no_gain_transport_lost: "no_gain st (invalidate_relay_transport server c code reason st)"
proof (rule no_gain_map [where f = "\<lambda>node conn. fst (lose_transport_at st server c code reason node conn)"])
  fix node conn endpoint k x
  have "fst (lose_transport_at st server c code reason node conn) = conn
    \<or> (\<exists>e. fst (lose_transport_at st server c code reason node conn)
          = fst (commit_path_transition e (lose_effects code reason) conn))"
    by (auto simp: lose_transport_at_def case_prod_beta Let_def split: option.split)
  then show "confirmed_on endpoint k x (fst (lose_transport_at st server c code reason node conn)) \<Longrightarrow>
      confirmed_on endpoint k x conn"
    using tameD [OF tame_commit [OF tame_drop_effects(3)]] by metis
qed (simp add: invalidate_relay_transport_def Let_def)

lemma no_gain_first_usable:
  "no_gain st (fst (record_verified_first_usable on_link auth node g path ingress clock st))"
  "no_gain st (fst (try_record_direct_first_usable busy on_link auth node g s clock st))"
  using no_gain_quiet [OF _ record_first_usable_quiet]
  by (simp_all add: record_verified_first_usable_def try_record_direct_first_usable_def
      case_prod_beta Let_def split: option.split)

lemma no_gain_configure: "no_gain st (configure_relay_first required now st)"
  by (rule no_gain_map [where f = "\<lambda>_. configure_relay_first_at required (rm_generation st) now"])
    (use tame_quiet [OF gate_quiet(2)] in \<open>auto simp: tame_def configure_relay_first_def\<close>)

lemma no_gain_direct: "no_gain st (apply_direct_event node event now st)"
  by (simp add: apply_direct_event_def Let_def no_gain_commit tame_effects split: option.split)

lemma no_gain_each_member:
  assumes "\<And>s. tame (f s)" and "rm_connections st' = each_member f st"
  shows "no_gain st st'"
  using assms by (auto simp: no_gain_def confirmed_relay_def each_member_def tame_def split: option.splits)

lemma tame_network_changed: "tame (mark_network_generation_changed g s reason)"
proof -
  have commit: "tame (\<lambda>c. fst (commit_path_transition e
      (\<lambda>c. apply_network_generation_changed g (health (Health_Generation_Change reason) c)) c))" for e
    by (rule tame_commit [OF tame_comp]) (rule tame_effects)+
  show ?thesis
    using commit unfolding tame_def mark_network_generation_changed_def by blast
qed

lemma no_gain_advance: "no_gain st (advance_network_generation reason st)"
  by (rule no_gain_each_member [where f = "\<lambda>s. mark_network_generation_changed
        (sat_add (rm_generation st) 1) s reason"])
    (simp_all add: tame_network_changed advance_network_generation_def Let_def)

lemma tame_handover: "tame (mark_remote_transport_handover g s)"
proof (rule tameI)
  fix c endpoint k x
  assume on: "confirmed_on endpoint k x (mark_remote_transport_handover g s c)"
  define e1 where "e1 = PeerOnline \<lparr>network_generation = g, peer_session_generation = s,
    remote_candidate_epoch = cn_candidate_epoch c\<rparr>"
  define c1 where "c1 = (if ps_epoch (pm_state (cn_machine c)) = None
    then fst (commit_path_transition e1 id c) else c)"
  define n where "n = max (cn_candidate_epoch c1 + 1) 1"
  have eq: "mark_remote_transport_handover g s c = fst (commit_path_transition
      (RemoteCandidateEpochAdvanced \<lparr>network_generation = g, peer_session_generation = s,
         remote_candidate_epoch = n\<rparr> Invalidate) (apply_remote_handover n) c1)"
    unfolding mark_remote_transport_handover_def Let_def n_def c1_def e1_def by (rule refl)
  from on have "confirmed_on endpoint k x c1"
    unfolding eq by (rule tameD [OF tame_commit [OF tame_marker_effects(4)]])
  then show "confirmed_on endpoint k x c"
    unfolding c1_def using tameD [OF tame_commit [OF tame_effects(1)]] by (metis (full_types))
qed

lemma no_gain_handover: "no_gain st (remote_transport_handover node st)"
  by (simp add: remote_transport_handover_def no_gain_edit tame_handover split: option.split)

lemma tame_resets: "tame reset_for_identity_change" "tame reset_for_peer_session"
proof -
  have "reset_for_identity_change = (\<lambda>c. fst (commit_path_transition IdentityReset forget_relay c))"
    by (simp add: fun_eq_iff reset_for_identity_change_def)
  then show reset: "tame reset_for_identity_change"
    by (rule ssubst) (rule tame_commit [OF tame_clearing_effects])
  have "confirmed_on endpoint k x (reset_for_peer_session c)
      = confirmed_on endpoint k x (reset_for_identity_change c)" for endpoint k x c
    by (simp add: reset_for_peer_session_def confirmed_on_def)
  with tameD [OF reset] show "tame reset_for_peer_session" by (intro tameI) blast
qed

lemma no_gain_remove: "no_gain st (remove_peer node st)"
  by (auto simp: no_gain_def confirmed_relay_def remove_peer_def)

lemma tame_published: "tame (published g s df now)"
proof (rule tameI)
  fix c endpoint k x
  assume on: "confirmed_on endpoint k x (published g s df now c)"
  obtain e1 e2 c1 where c1: "c1 = fst (commit_path_transition e1 id c)"
    and eq: "published g s df now c = c1 \<or> published g s df now c = fst (commit_path_transition e2 id c1)"
    unfolding published_def start_direct_first_def Let_def by metis
  note step = tameD [OF tame_commit [OF tame_effects(1)]]
  from on eq have "confirmed_on endpoint k x c1" using step by metis
  then show "confirmed_on endpoint k x c" unfolding c1 by (rule step)
qed

lemma no_gain_publish:
  assumes "\<And>endpoint k x. confirmed_on endpoint k x conn \<Longrightarrow> confirmed_relay st node endpoint k x"
  shows "no_gain st (publish_lifecycle node rotates df now conn st)"
proof -
  have "confirmed_relay st node endpoint k x"
    if "confirmed_on endpoint k x (case session of None \<Rightarrow> conn | Some s \<Rightarrow> published g s df now conn)"
    for session g endpoint k x
  proof (cases session)
    case None
    with that assms show ?thesis by simp
  next
    case (Some s)
    with that have "confirmed_on endpoint k x (published g s df now conn)" by simp
    then show ?thesis by (rule assms [OF tameD [OF tame_published]])
  qed
  then show ?thesis
    by (auto simp: no_gain_def publish_lifecycle_eq confirmed_relay_def case_prod_beta split: if_splits)
qed

lemma update_confirms_nothing:
  assumes "confirmed_on endpoint k x (update_connection info ledger (rm_connections st node))"
  shows "confirmed_relay st node endpoint k x"
proof (cases "rm_connections st node")
  case None
  with assms show ?thesis
    by (simp add: update_connection_def peer_connection_new_def confirmed_on_def Let_def split: if_splits)
next
  case (Some old)
  let ?old = "old\<lparr>cn_virtual_ip := in_virtual_ip info, cn_registration_seq := in_registration_seq info,
      cn_public_key := in_public_key info\<rparr>"
  have "confirmed_on endpoint k x (reset_on_update info old ?old)"
    using assms Some by (simp add: update_connection_def confirmed_on_def Let_def split: if_splits)
  then have "confirmed_on endpoint k x ?old"
    by (auto simp only: reset_on_update_def dest: tameD [OF tame_resets(1)] tameD [OF tame_resets(2)]
        split: if_splits)
  with Some show ?thesis by (simp add: confirmed_relay_def confirmed_on_def)
qed

lemma no_gain_add_peer: "no_gain st (add_peer node info ledger clock st)"
proof (cases rule: add_peer_stages [of node info ledger clock st])
  case (live st1 st2 st3 m)
  have "no_gain st st1" using live(1) by auto
  moreover have "no_gain st1 st2"
    unfolding live(2) by (rule no_gain_publish) (rule update_confirms_nothing)
  moreover have "no_gain st2 st3" using live(3) no_gain_revoke by auto
  moreover have "no_gain st3 (add_peer node info ledger clock st)" using live(4) by auto
  ultimately show ?thesis by (blast intro: no_gain_trans)
qed simp

lemma no_gain_reset: "no_gain st (fst (finish_incarnation_reset node claimed df now st))"
proof -
  have published: "no_gain st (publish_lifecycle node True df now (reset_for_peer_session conn) st)"
    if "rm_connections st node = Some conn" for conn
    by (rule no_gain_publish)
      (use that tameD [OF tame_resets(2)] in \<open>auto simp: confirmed_relay_def\<close>)
  have bump: "no_gain a (put_connection node (c\<lparr>cn_confirm_seq := n\<rparr>) a)"
    if "rm_connections a node = Some c" for a c n
    by (rule no_gain_put [OF that]) (simp add: confirmed_on_def)
  show ?thesis
    using published no_gain_trans [OF published bump]
    by (simp add: finish_incarnation_reset_def Let_def split: option.split)
qed

section \<open>Operations that confirm\<close>

lemma confirm_effects_confirm:
  "confirmed_on endpoint g x (confirm_effects endpoint g x now pending later c)"
proof -
  have install: "confirmed_on endpoint g x (install_confirmation endpoint g x now c')" for c'
    by (simp add: install_confirmation_def Let_def confirmed_on_def)
  have promote: "confirmed_on endpoint g x (promote_pending g t c') = confirmed_on endpoint g x c'" for t c'
    unfolding promote_is_received by (rule confirmed_on_same [OF received_effects_ok(2)])
  show ?thesis using install by (simp add: confirm_effects_def Let_def promote)
qed

lemma confirmed_on_unique:
  "confirmed_on endpoint g x c \<Longrightarrow> confirmed_on endpoint' g' x' c \<Longrightarrow> endpoint' = endpoint \<and> g' = g \<and> x' = x"
  by (simp add: confirmed_on_def)

text \<open>When \<open>confirm_relay_peer\<close> may confirm: the relay in question is the live transport of the peer.\<close>

definition may_confirm ::
  "relay_manager \<Rightarrow> string \<Rightarrow> string \<Rightarrow> u64 \<Rightarrow> u64 option \<Rightarrow> u64 \<Rightarrow> instant \<Rightarrow> bool" where
  "may_confirm st node endpoint g x s now \<longleftrightarrow>
     g = rm_generation st \<and> session_is_current st node s \<and> \<not> peer_quarantined st node now
     \<and> (\<exists>conn. rm_connections st node = Some conn \<and> live conn
          \<and> \<not> live_transport_mismatch endpoint g x conn)"

lemma commit_confirmation_gain:
  assumes conn: "rm_connections st node = Some conn"
    and after: "confirmed_relay (fst (commit_confirmation node endpoint g x s ev clock conn st)) node' endpoint' k x'"
  shows "confirmed_relay st node' endpoint' k x' \<or> node' = node \<and> endpoint' = endpoint \<and> k = g \<and> x' = x"
proof -
  let ?e = "RelayPeerConfirmed (relay_id st s conn endpoint x)"
  obtain a b eff where a: "rm_connections a = rm_connections st"
    and eff: "\<And>c. confirmed_on endpoint g x (eff c)"
    and eq: "fst (commit_confirmation node endpoint g x s ev clock conn st)
      = fst (commit_on node conn ?e eff b a)"
  proof (cases ev)
    case None
    show thesis
      by (rule that [of st]) (auto simp: commit_confirmation_def None case_prod_beta Let_def
          relay_id_def confirm_effects_confirm)
  next
    case (Some e)
    show thesis
      by (rule that [of "fst (evidence_is_exact node e (clock 3) st)"])
        (auto simp: commit_confirmation_def Some case_prod_beta Let_def relay_id_def
          confirm_effects_confirm)
  qed
  show ?thesis
  proof (cases "node' = node")
    case True
    then have "confirmed_on endpoint' k x' (fst (commit_path_transition ?e eff conn))"
      using after by (simp add: eq commit_on_def confirmed_relay_def case_prod_beta Let_def split: if_splits)
    with eff confirmed_on_unique [of endpoint g x _ endpoint' k x'] show ?thesis
      using True conn by (auto simp: commit_path_transition_eq confirmed_relay_def split: if_splits)
  next
    case False
    with after a show ?thesis
      by (simp add: eq commit_on_def confirmed_relay_def case_prod_beta Let_def split: if_splits)
  qed
qed

lemma confirmed_relay_same:
  "rm_connections a = rm_connections b \<Longrightarrow> confirmed_relay a = confirmed_relay b"
  by (simp add: confirmed_relay_def fun_eq_iff)

lemma confirm_under_locks_gain:
  assumes "confirmed_relay (fst (confirm_under_locks busy node endpoint g x s ev clock st)) node' endpoint' k x'"
    and "\<not> confirmed_relay st node' endpoint' k x'"
  shows "node' = node \<and> endpoint' = endpoint \<and> k = g \<and> x' = x \<and> may_confirm st node endpoint g x s (clock 1)"
proof -
  let ?st = "check_quarantine node (clock 2) (check_quarantine node (clock 1) st)"
  have same: "confirmed_relay (check_quarantine n t a) = confirmed_relay a" for n t a
    by (rule confirmed_relay_same) simp
  obtain conn where conn: "rm_connections st node = Some conn" "may_confirm st node endpoint g x s (clock 1)"
    and gain: "confirmed_relay (fst (commit_confirmation node endpoint g x s ev clock conn ?st)) node' endpoint' k x'"
    using assms unfolding confirm_under_locks_def Let_def may_confirm_def
    by (auto simp: same split: if_splits option.splits)
  have "rm_connections ?st node = Some conn" using conn(1) by simp
  from commit_confirmation_gain [OF this gain] assms(2) conn(2) show ?thesis by (simp add: same)
qed

lemma confirm_gain:
  assumes "confirmed_relay (fst (confirm_relay_peer busy node endpoint g x s w clock st)) node' endpoint' k x'"
    and "\<not> confirmed_relay st node' endpoint' k x'"
  shows "node' = node \<and> endpoint' = endpoint \<and> k = g \<and> x' = x
    \<and> (\<exists>s'. s = Some s' \<and> may_confirm st node endpoint g x s' (clock 1))"
proof -
  define first where "first = (case (s, w) of
      (Some s, Some w) \<Rightarrow> pending_evidence_for_lifecycle node g s w endpoint x (clock 0) st
    | _ \<Rightarrow> (st, None))"
  have first_same: "rm_connections (fst first) = rm_connections st"
      "rm_generation (fst first) = rm_generation st" "rm_membership (fst first) = rm_membership st"
      "rm_deadlines (fst first) = rm_deadlines st"
    by (simp_all add: first_def pending_evidence_for_lifecycle_def Let_def split: option.split)
  have may: "may_confirm (fst first) = may_confirm st"
    by (simp add: fun_eq_iff may_confirm_def first_same session_is_current_def peer_quarantined_def)
  have remove: "confirmed_relay (remove_evidence_if_exact n e a) = confirmed_relay a" for n e a
    by (rule confirmed_relay_same) simp
  obtain s' where s': "s = Some s'" using assms by (cases s) (simp_all add: confirm_relay_peer_def)
  have "confirmed_relay (fst (confirm_relay_peer busy node endpoint g x s w clock st))
      = confirmed_relay (fst (confirm_under_locks busy node endpoint g x s' (snd first) clock (fst first)))"
    by (cases w) (simp_all add: confirm_relay_peer_def first_def s' case_prod_beta Let_def remove
        split: option.split)
  with assms(1) have "confirmed_relay (fst (confirm_under_locks busy node endpoint g x s' (snd first) clock
      (fst first))) node' endpoint' k x'" by simp
  from confirm_under_locks_gain [OF this] assms(2) confirmed_relay_same [OF first_same(1)] s'
  show ?thesis by (simp add: may)
qed

lemma probe_ack_gain:
  assumes after: "confirmed_relay (fst (consume_relay_probe_ack busy busy' node token ingress x w clock st))
      node' endpoint k x'"
    and before: "\<not> confirmed_relay st node' endpoint k x'"
  shows "\<exists>e. node' = node \<and> endpoint = ingress \<and> x' = x \<and> rm_probes st node = Some e
    \<and> relay_probe_accepts e token (clock 1) ingress \<and> rpe_connection e = x \<and> k = rpe_generation e
    \<and> may_confirm st node ingress k x (rpe_session e) (clock 0)"
proof -
  let ?q = "check_quarantine node (clock 0) st"
  have same: "confirmed_relay (a\<lparr>rm_probes := p\<rparr>) = confirmed_relay a" for a p
    by (rule confirmed_relay_same) simp
  have q: "confirmed_relay ?q = confirmed_relay st" by (rule confirmed_relay_same) simp
  have "\<not> peer_quarantined st node (clock 0)"
    using assms by (auto simp: consume_relay_probe_ack_def same q)
  moreover obtain e where e: "rm_probes st node = Some e"
      "relay_probe_accepts e token (clock 1) ingress" "relay_probe_accepts_connection e x"
    using assms by (auto simp: consume_relay_probe_ack_def Let_def same q split: if_splits option.splits)
  moreover obtain rtt a where "a = fst (confirm_relay_peer busy node (rpe_endpoint e) (rpe_generation e) x
        (Some (rpe_session e)) (Some w) (\<lambda>i. clock (i + 2)) ?q)"
      and "confirmed_relay (fst (accept_relay_probe_ack busy' node (rpe_endpoint e) (rpe_generation e) x
        (rpe_session e) \<lparr>rh_owner_token = rpe_owner_token e, rh_request_id = rpe_request_id e\<rparr> rtt a))
        node' endpoint k x'"
    using assms e
    by (auto simp: consume_relay_probe_ack_def Let_def case_prod_beta same q split: if_splits option.splits)
  then have "confirmed_relay (fst (confirm_relay_peer busy node (rpe_endpoint e) (rpe_generation e) x
        (Some (rpe_session e)) (Some w) (\<lambda>i. clock (i + 2)) ?q)) node' endpoint k x'"
    using no_gain_accept_ack [of a] unfolding no_gain_def by blast
  from confirm_gain [OF this] before q
  have "node' = node \<and> endpoint = rpe_endpoint e \<and> k = rpe_generation e \<and> x' = x
    \<and> may_confirm ?q node (rpe_endpoint e) (rpe_generation e) x (rpe_session e) (clock 3)"
    by (simp add: numeral_3_eq_3)
  ultimately show ?thesis
    by (auto simp: may_confirm_def relay_probe_accepts_def relay_probe_accepts_connection_def)
qed

lemma refresh_gain:
  assumes after: "confirmed_relay (advance_candidate_refresh_generation retains reason st) node endpoint k x"
    and before: "\<not> confirmed_relay st node endpoint k x"
  shows "k = sat_add (rm_generation st) 1 \<and> (\<exists>conn. rm_connections st node = Some conn
    \<and> cn_confirmed_at conn \<noteq> None \<and> cn_confirmed_endpoint conn = Some endpoint
    \<and> cn_confirmed_connection conn = x)"
proof -
  obtain conn where conn: "rm_connections st node = Some conn"
    using after by (auto simp: confirmed_relay_def advance_candidate_refresh_generation_def
        each_member_def Let_def split: option.splits)
  obtain s e where "confirmed_on endpoint k x (fst (commit_path_transition e
      (\<lambda>c. health (Health_Generation_Change reason)
        (apply_candidate_refresh (sat_add (rm_generation st) 1) c)) conn))"
    using after before conn
    by (auto simp: confirmed_relay_def advance_candidate_refresh_generation_def each_member_def
        mark_candidate_refresh_def Let_def split: option.splits)
  with before conn show ?thesis
    by (auto simp: commit_path_transition_eq confirmed_relay_def confirmed_on_def health_def
        apply_candidate_refresh_def Let_def clear_usable_def clear_ready_def split: if_splits)
qed

lemmas no_gain_operations =
  no_gain_ready no_gain_expectations no_gain_try_commit no_gain_retry no_gain_try_pending no_gain_sent
  no_gain_commit_ack no_gain_observation no_gain_failure no_gain_revoke no_gain_quarantine
  no_gain_transport_lost no_gain_first_usable no_gain_configure no_gain_advance no_gain_handover
  no_gain_direct no_gain_add_peer no_gain_remove no_gain_reset
  no_gain_same(3) [THEN iffD2, OF no_gain_refl]

lemmas gains_nothing = no_gain_operations [unfolded no_gain_def, rule_format]

text \<open>
  C8: A step makes a relay confirmed only on the acknowledgement of a registered probe on the
  same relay connection, on authenticated business from that relay, or by carrying an already
  confirmed relay over a candidate refresh; never in quarantine, for a foreign session or over a
  replaced transport.
\<close>
theorem relay_confirmation_provenance:
  assumes after: "confirmed_relay (relay_step st op) node endpoint k x"
    and before: "\<not> confirmed_relay st node endpoint k x"
  shows "(\<exists>busy busy' token c w clock e. op = Op_Probe_Ack busy busy' node token endpoint c w clock
      \<and> x = Some c \<and> rm_probes st node = Some e \<and> relay_probe_accepts e token (clock 1) endpoint
      \<and> rpe_connection e = x \<and> k = rpe_generation e
      \<and> may_confirm st node endpoint k x (rpe_session e) (clock 0))
    \<or> (\<exists>busy c s w clock. op = Op_Business_Ingress busy node endpoint k c s w clock \<and> x = Some c
      \<and> may_confirm st node endpoint k x s (clock 1))
    \<or> (\<exists>busy c s clock. op = Op_Legacy_Ingress busy node endpoint k c clock \<and> x = Some c
      \<and> may_confirm st node endpoint k x s (clock 1))
    \<or> (\<exists>retains reason conn. op = Op_Candidate_Refresh retains reason
      \<and> k = sat_add (rm_generation st) 1 \<and> rm_connections st node = Some conn
      \<and> cn_confirmed_at conn \<noteq> None \<and> cn_confirmed_endpoint conn = Some endpoint
      \<and> cn_confirmed_connection conn = x)"
  using assms
proof (cases op)
  case (Op_Probe_Ack busy busy' n token ingress c w clock)
  with assms probe_ack_gain [of busy busy' n token ingress "Some c" w clock st node endpoint k x]
  show ?thesis by auto
next
  case (Op_Business_Ingress busy n e g c s w clock)
  with assms confirm_gain [of busy n e g "Some c" "Some s" "Some w" clock st node endpoint k x]
  show ?thesis by (auto simp: confirm_from_business_for_session_def)
next
  case (Op_Legacy_Ingress busy n e g c clock)
  with assms confirm_gain [of busy n e g "Some c" _ "Some 0" clock st node endpoint k x]
  show ?thesis by (auto simp: confirm_from_business_def)
next
  case (Op_Candidate_Refresh retains reason)
  with assms refresh_gain show ?thesis by auto
qed (auto dest: gains_nothing)

end
