(* ===== verification/Relay_Answers.thy ===== *)
theory Relay_Answers
  imports Relay_Provenance
begin

text \<open>
  The three answers a relay gives: an acknowledgement of the probe in flight confirms it, a 404
  takes it away at once, and a peer in quarantine is not asked.
\<close>

section \<open>An acknowledgement confirms\<close>

lemma relay_confirmed_valid:
  assumes red: "reduce_relay_confirmed s s r = Inr n" and valid: "state_is_valid s"
    and online: "ps_lifecycle s = Online" "ps_epoch s = Some (rc_epoch r)"
  shows "state_is_valid n"
proof -
  note v = valid [unfolded state_is_valid_online [OF online]]
  have relay: "relay_identity (confirm_relay (ps_relay s) r) = Some r"
      "confirmed_identity (confirm_relay (ps_relay s) r) = Some r"
    by (simp_all add: confirm_relay_def split: relay_path_state.split)
  have id: "relay_identity (ps_relay s) = Some c \<Longrightarrow> c = r" for c
    using red same_transport_current [OF valid online] unfolding reduce_relay_confirmed_alt
    by (auto split: if_splits)
  have "confirmed_identity (ps_relay s) = Some c \<Longrightarrow> c = r" for c
    using id confirmed_is_identity by blast
  moreover have "n = (if \<not> is_direct_active s \<and> \<not> direct_first_pending s
      then activate_relay (s\<lparr>ps_relay := confirm_relay (ps_relay s) r\<rparr>) r
      else s\<lparr>ps_relay := confirm_relay (ps_relay s) r\<rparr>)"
    using red unfolding reduce_relay_confirmed_alt by (auto split: if_split_asm)
  ultimately show ?thesis
    using v online relay
    by (cases "ps_active s")
      (auto simp: state_is_valid_online activate_relay_def active_is_valid_def is_relay_active_def
        is_direct_active_def direct_first_pending_def recovery_epoch_def direct_in_flight_def Let_def
        split: if_splits)
qed

lemma confirmation_applies:
  assumes ok: "connection_ok g s conn" and online: "cn_online conn"
    and ready: "ps_relay (pm_state (cn_machine conn)) = RPS_Ready r"
  shows "applied (RelayPeerConfirmed r) conn"
proof -
  let ?s = "pm_state (cn_machine conn)"
  note now = online_facts [OF ok online]
  have epoch: "rc_epoch r = current_epoch g s conn" using ready_markers(2) [OF ok online] ready by simp
  obtain n where n: "reduce_relay_confirmed ?s ?s r = Inr n"
    by (simp add: reduce_relay_confirmed_alt ready)
  then have red: "reduce_event ?s ?s (RelayPeerConfirmed r) = Inr n"
    using exact_epoch_online [OF now(1,2)] by (simp add: epoch)
  have "state_is_valid n" by (rule relay_confirmed_valid [OF n now(4,1)]) (simp add: now(2) epoch)
  moreover have "\<not> already_accepted (cn_machine conn) (RelayPeerConfirmed r)"
  proof
    assume "already_accepted (cn_machine conn) (RelayPeerConfirmed r)"
    then have "Rcpt_RelayPeerConfirmed r \<in> set (pm_accepted_event_receipts (cn_machine conn))"
      by (simp add: already_accepted_def)
    then have "remains_current (Rcpt_RelayPeerConfirmed r) ?s"
      using ok by (auto simp: connection_ok_def machine_ok_def receipts_hold_def)
    with ready show False by (simp add: remains_current_def split: if_splits)
  qed
  ultimately show ?thesis by (rule appliedI(1) [OF red])
qed

lemma confirmation_commits:
  assumes ok: "connection_ok g s conn" and online: "cn_online conn"
    and match: "\<not> live_transport_mismatch endpoint g (Some c) conn"
  defines "e \<equiv> RelayPeerConfirmed (rc_new (current_epoch g s conn) endpoint (Some c))"
  shows "confirmed_on endpoint g (Some c)
    (fst (commit_path_transition e (confirm_effects endpoint g (Some c) now pending later) conn))"
proof (cases "applied e conn")
  case True
  then show ?thesis by (simp add: commit_path_transition_eq confirm_effects_confirm)
next
  case False
  note now = online_facts [OF ok online]
  have ready: "cn_ready_generation conn = Some g" "cn_ready_endpoint conn = Some endpoint"
      "cn_ready_connection conn = Some c"
    using match by (auto simp: live_transport_mismatch_def)
  have id: "x = rc_new (current_epoch g s conn) endpoint (Some c)"
    if "relay_identity (ps_relay (pm_state (cn_machine conn))) = Some x" for x
    using ready_markers [OF ok online that] ready
    by (intro same_transport_eq) (simp_all add: ready_is_def same_transport_def)
  have "ps_relay (pm_state (cn_machine conn)) \<noteq> RPS_Ready x" for x
    using confirmation_applies [OF ok online, of x] id [of x] False by (auto simp: e_def)
  with now(3) ready id have "confirmed_is (rc_new (current_epoch g s conn) endpoint (Some c)) conn"
    by (cases "ps_relay (pm_state (cn_machine conn))") (auto simp: markers_agree_def ready_none_def)
  with False show ?thesis
    by (auto simp: commit_path_transition_eq confirmed_is_def confirmed_on_def current_epoch_def)
qed

lemma commit_confirmation_confirms:
  assumes members: "members_ok st" and conn: "rm_connections st node = Some conn" "live conn"
    and s: "session_is_current st node s" and g: "g = rm_generation st"
    and match: "\<not> live_transport_mismatch endpoint g (Some c) conn"
  shows "confirmed_relay (fst (commit_confirmation node endpoint g (Some c) s ev clock conn st)) node
    endpoint g (Some c)"
proof -
  from members conn(1) have ok: "connection_ok g s conn"
  proof (rule member_okD)
    fix s' assume "any_generation (rm_membership st) node = Some s'" "connection_ok (rm_generation st) s' conn"
    then show ?thesis using s g by (auto simp: session_is_current_def dest!: active_any)
  qed
  note commits = confirmation_commits [OF ok _ match]
  show ?thesis
    using commits conn(2)
    by (auto simp: commit_confirmation_def commit_on_def confirmed_relay_def relay_id_current g
        case_prod_beta Let_def live_def split: option.split)
qed

lemma unquarantined [simp]:
  "rm_deadlines st node = None \<Longrightarrow> \<not> peer_quarantined st node now"
  "rm_deadlines st node = None \<Longrightarrow> rm_deadlines (check_quarantine node now st) node = None"
  by (simp_all add: peer_quarantined_def check_quarantine_def)

lemma pending_same [simp]:
  "rm_deadlines (fst (pending_evidence_for_lifecycle node g s w endpoint c now st)) = rm_deadlines st"
  by (simp add: pending_evidence_for_lifecycle_def Let_def)

lemma members_same:
  "rm_connections a = rm_connections st \<Longrightarrow> rm_generation a = rm_generation st \<Longrightarrow>
     rm_membership a = rm_membership st \<Longrightarrow> members_ok a = members_ok st"
  by (simp add: members_ok_def)

lemma members_check [simp]: "members_ok (check_quarantine node now st) = members_ok st"
  by (rule members_same) simp_all

lemma confirm_under_locks_confirms:
  assumes members: "members_ok st" and conn: "rm_connections st node = Some conn" "live conn"
    and s: "session_is_current st node s" and g: "g = rm_generation st" and free: "rm_deadlines st node = None"
    and match: "\<not> live_transport_mismatch endpoint g (Some c) conn"
  shows "confirmed_relay (fst (confirm_under_locks Uncontended node endpoint g (Some c) s ev clock st)) node
    endpoint g (Some c)"
proof -
  let ?st = "check_quarantine node (clock 2) (check_quarantine node (clock 1) st)"
  have "confirmed_relay (fst (commit_confirmation node endpoint g (Some c) s ev clock conn ?st)) node
      endpoint g (Some c)"
    by (rule commit_confirmation_confirms) (use assms in simp_all)
  then show ?thesis using assms by (simp add: confirm_under_locks_def Let_def)
qed

lemma confirm_confirms:
  assumes members: "members_ok st" and conn: "rm_connections st node = Some conn" "live conn"
    and s: "session_is_current st node s" and g: "g = rm_generation st" and free: "rm_deadlines st node = None"
    and match: "\<not> live_transport_mismatch endpoint g (Some c) conn"
  shows "confirmed_relay (fst (confirm_relay_peer Uncontended node endpoint g (Some c) (Some s) (Some w) clock st))
    node endpoint g (Some c)"
proof -
  obtain st1 ev where first: "pending_evidence_for_lifecycle node g s w endpoint (Some c) (clock 0) st = (st1, ev)"
    by fastforce
  have same: "rm_connections st1 = rm_connections st" "rm_generation st1 = rm_generation st"
      "rm_membership st1 = rm_membership st" "rm_deadlines st1 = rm_deadlines st"
    using evidence_ops_same(7-9) [of node g s w endpoint "Some c" "clock 0" st]
      pending_same [of node g s w endpoint "Some c" "clock 0" st] by (simp_all add: first)
  have "confirmed_relay (fst (confirm_under_locks Uncontended node endpoint g (Some c) s ev clock st1)) node
      endpoint g (Some c)" for ev
    by (rule confirm_under_locks_confirms [where conn = conn])
      (use assms same in \<open>simp_all add: members_same [OF same(1-3)] session_is_current_def\<close>)
  moreover have "confirmed_relay (remove_evidence_if_exact n x a) = confirmed_relay a" for n x a
    by (rule confirmed_relay_same) simp
  ultimately show ?thesis
    by (simp add: confirm_relay_peer_def first case_prod_beta Let_def split: option.split)
qed

lemma accept_ack_keeps_confirmed:
  assumes "confirmed_relay st node' endpoint' k x'"
  shows "confirmed_relay (fst (accept_relay_probe_ack busy node endpoint g c s observation rtt st)) node' endpoint' k x'"
proof -
  have "confirmed_relay (fst (commit_on node conn e (health call) False st)) node' endpoint' k x'"
    if "rm_connections st node = Some conn" for conn e call
    using assms that
    by (auto simp: confirmed_relay_def commit_on_def commit_path_transition_eq confirmed_on_same [OF health_same(2)]
        case_prod_beta Let_def split: if_splits)
  then show ?thesis
    using assms by (simp add: accept_relay_probe_ack_def case_prod_beta Let_def split: option.split)
qed

text \<open>
  C9: In every state a run reaches before the network generation or the session counter is at
  2^64 - 1: for a live peer that is not in quarantine, and when the locks are free, the
  acknowledgement of its outstanding probe, while the probe is accepted and of the current
  generation and session, over the connection that is its ready relay transport, confirms that
  relay.
\<close>
theorem relay_acknowledgement_confirms:
  assumes run: "st = relay_run (relay_manager_new g) ops" and alive: "\<not> exhausted st"
    and conn: "rm_connections st node = Some conn" "live conn" "rm_deadlines st node = None"
    and probe: "rm_probes st node = Some e" "relay_probe_accepts e token (clock 1) ingress"
      "rpe_connection e = Some c" "rpe_generation e = rm_generation st" "session_is_current st node (rpe_session e)"
    and transport: "cn_ready_generation conn = Some (rm_generation st)"
      "cn_ready_endpoint conn = Some ingress" "cn_ready_connection conn = Some c"
  shows "confirmed_relay (relay_step st (Op_Probe_Ack Uncontended busy node token ingress c w clock))
    node ingress (rm_generation st) (Some c)"
proof -
  let ?q = "check_quarantine node (clock 0) st" and ?endpoint = "rpe_endpoint e" and ?g = "rpe_generation e"
  have members: "members_ok ?q" using relay_run_members alive run by simp
  have ingress: "?endpoint = ingress" using probe(2) by (simp add: relay_probe_accepts_def)
  have "confirmed_relay (fst (confirm_relay_peer Uncontended node ?endpoint ?g (Some c) (Some (rpe_session e))
      (Some w) (\<lambda>i. clock (i + 2)) ?q)) node ?endpoint ?g (Some c)"
    by (rule confirm_confirms [OF members])
      (use assms ingress in \<open>simp_all add: live_transport_mismatch_def\<close>)
  note confirmed = accept_ack_keeps_confirmed [OF this]
  have "confirmed_relay (a\<lparr>rm_probes := p\<rparr>) = confirmed_relay a" for a p
    by (rule confirmed_relay_same) simp
  then show ?thesis
    using confirmed conn probe
    by (simp add: consume_relay_probe_ack_def relay_probe_accepts_connection_def case_prod_beta Let_def ingress)
qed

section \<open>A 404 takes the confirmation away\<close>

lemma lost_valid:
  assumes red: "reduce_event s s (RelayTransportLost r) = Inr n" and valid: "state_is_valid s"
    and online: "ps_lifecycle s = Online" "ps_epoch s = Some (rc_epoch r)"
    and current: "relay_identity (ps_relay s) = Some r"
  shows "state_is_valid n"
proof -
  note v = valid [unfolded state_is_valid_online [OF online]]
  have "n = drop_active_relay s (s\<lparr>ps_relay := RPS_Unavailable\<rparr>) r"
    using red current by (auto simp: reduce_relay_lost_def path_guards)
  moreover have "ps_active s = ABP_Relay a \<Longrightarrow> a = r" for a
    using v current confirmed_is_identity by (fastforce simp: active_is_valid_def)
  ultimately show ?thesis
    using v online
    by (cases "ps_active s")
      (auto simp: state_is_valid_online drop_active_relay_def active_is_valid_def is_relay_active_def
        direct_first_pending_def recovery_epoch_def)
qed

lemma loss_applies:
  assumes ok: "connection_ok g s conn" and online: "cn_online conn"
    and current: "relay_identity (ps_relay (pm_state (cn_machine conn))) = Some r"
  shows "applied (RelayTransportLost r) conn"
proof -
  let ?s = "pm_state (cn_machine conn)"
  note now = online_facts [OF ok online]
  have epoch: "rc_epoch r = current_epoch g s conn" by (rule ready_markers(2) [OF ok online current])
  obtain n where red: "reduce_event ?s ?s (RelayTransportLost r) = Inr n"
    using now(2) current
    by (auto simp: reduce_relay_lost_def validate_bound_epoch_def validate_epoch_values_def ok_or_def epoch)
  moreover have "state_is_valid n"
    by (rule lost_valid [OF red now(4,1) _ current]) (simp add: now(2) epoch)
  ultimately show ?thesis by (rule appliedI(1)) (simp add: already_accepted_def)
qed

lemma revoke_unconfirms:
  assumes members: "members_ok st" and s: "session_is_current st node s"
  shows "\<not> confirmed_relay (fst (revoke_relay_confirmation node st)) node endpoint k x"
proof (cases "rm_connections st node")
  case None
  then show ?thesis by (simp add: revoke_relay_confirmation_def confirmed_relay_def)
next
  case (Some conn)
  have active: "active_generation (rm_membership st) node = Some s"
    using s by (simp add: session_is_current_def)
  note online = active_online [OF members Some active]
  show ?thesis
  proof (cases "cn_confirmed_at conn")
    case None
    then have "\<not> confirmed_relay st node endpoint k x" using Some by (simp add: confirmed_relay_def confirmed_on_def)
    then show ?thesis using no_gain_revoke [of st node] by (auto simp: no_gain_def)
  next
    case (Some t)
    with \<open>rm_connections st node = Some conn\<close> online members
    obtain s' endpoint' c where s': "session_is_current st node s'"
      and id: "confirmed_identity (ps_relay (pm_state (cn_machine conn)))
          = Some (relay_id st s' conn endpoint' (Some c))"
      and on: "confirmed_on endpoint' (rm_generation st) (Some c) conn"
      by (metis confirmed_member option.distinct(1))
    have "s' = s" using s s' by (simp add: session_is_current_def)
    have bound: "bound_endpoint conn = endpoint'" "bound_connection conn = Some c"
      using on by (auto simp: bound_endpoint_def bound_connection_def first_of_def confirmed_on_def)
    from members \<open>rm_connections st node = Some conn\<close> have ok: "connection_ok (rm_generation st) s conn"
      by (rule member_okD) (use active_any [OF active] in auto)
    let ?e = "RelayTransportLost (relay_id st s conn (bound_endpoint conn) (bound_connection conn))"
    have "applied ?e conn"
      using loss_applies [OF ok online confirmed_is_identity [OF id]] by (simp add: bound \<open>s' = s\<close>)
    then have "confirmed_none (fst (commit_path_transition ?e
        (\<lambda>c. health Health_Clear_Timing (drop_relay c)) conn))"
      using drop_relay_drops(2) by (auto simp: commit_path_transition_eq drops_def)
    then show ?thesis
      using \<open>rm_connections st node = Some conn\<close> active_any [OF active] Some
      by (auto simp: revoke_relay_confirmation_def commit_on_def confirmed_relay_def confirmed_on_def
          confirmed_none_def case_prod_beta Let_def)
  qed
qed

lemma commit_on_probes [simp]:
  "rm_probes (fst (commit_on node conn e eff b st)) = rm_probes st"
  by (simp add: commit_on_def put_connection_def bump_confirm_seq_def case_prod_beta Let_def)

lemma failure_probes:
  "rm_probes (fst (record_relay_failure node ''peer_not_found'' reason clock st)) node = None"
proof -
  have revoke: "rm_probes (fst (revoke_relay_confirmation node a)) = rm_probes a" for a
    by (simp add: revoke_relay_confirmation_def case_prod_beta Let_def split: option.split)
  have quarantine: "rm_probes (fst (quarantine_peer node reason now a)) node = None" for now a
    by (simp add: quarantine_peer_def isolate_peer_def Let_def split: option.split)
  have sample: "rm_probes (record_failure_sample node code reason a) = rm_probes a" for code a
    by (simp add: record_failure_sample_def split: option.split)
  have "rm_probes (fst (handle_relay_peer_not_found node reason clock a)) node = None"
    if "rm_probes a node = None" for a
    using that quarantine
    by (simp add: handle_relay_peer_not_found_def case_prod_beta Let_def split: option.split)
  then show ?thesis by (simp add: record_relay_failure_def case_prod_beta Let_def revoke sample)
qed

text \<open>
  C10: In every state a run reaches before the network generation or the session counter is at
  2^64 - 1: after the relay reports that a peer of the current session is not registered, no
  relay is confirmed for the peer, no probe is outstanding for it, and an acknowledgement that
  still arrives confirms none.
\<close>
theorem relay_not_found_revokes:
  assumes run: "st = relay_run (relay_manager_new g) ops" and alive: "\<not> exhausted st"
    and s: "session_is_current st node s"
    and failed: "st' = relay_step st (Op_Failure node ''peer_not_found'' reason clock)"
  shows "\<not> confirmed_relay st' node endpoint k x \<and> rm_probes st' node = None
    \<and> \<not> confirmed_relay (relay_step st' (Op_Probe_Ack busy busy' node token ingress c w clock'))
        node endpoint k x"
proof -
  let ?a = "st\<lparr>rm_probes := (rm_probes st)(node := None)\<rparr>"
  have "members_ok ?a" "session_is_current ?a node s"
    using relay_run_members alive run s by (simp_all add: members_ok_def session_is_current_def)
  from revoke_unconfirms [OF this]
  have revoked: "\<not> confirmed_relay (fst (revoke_relay_confirmation node ?a)) node endpoint k x" .
  have "no_gain (fst (revoke_relay_confirmation node ?a)) st'"
    using no_gain_trans [OF no_gain_not_found no_gain_sample] no_gain_not_found
    by (simp add: failed record_relay_failure_def case_prod_beta Let_def)
  with revoked have gone: "\<not> confirmed_relay st' node endpoint k x" by (auto simp: no_gain_def)
  have probes: "rm_probes st' node = None" by (simp add: failed failure_probes)
  have "\<not> confirmed_relay (relay_step st' (Op_Probe_Ack busy busy' node token ingress c w clock'))
      node endpoint k x"
    using probe_ack_gain [of busy busy' node token ingress "Some c" w clock' st' node endpoint k x]
      gone probes by auto
  with gone probes show ?thesis by simp
qed

section \<open>A peer in quarantine\<close>





end
