(* ===== verification/Relay_Witnesses.thy ===== *)
theory Relay_Witnesses
  imports Relay_Answers
begin

text \<open>The properties of relay confirmation at concrete runs.\<close>

definition w_info :: peer_info where
  "w_info = \<lparr>in_public_key = ''key'', in_virtual_ip = ''10.0.0.2'', in_registration_seq = 1,
     in_online = True\<rparr>"

definition w_verdict :: ledger_verdict where
  "w_verdict = \<lparr>lv_registration_floor = 0, lv_identity_changed = False, lv_high_water = None,
     lv_direct_first = False\<rparr>"

definition w_still :: "nat \<Rightarrow> instant" where "w_still = (\<lambda>_. 0)"

definition w_expectation :: relay_probe_expectation where
  "w_expectation = \<lparr>rpe_purpose = RelayConfirmation, rpe_session = 1, rpe_generation = 5,
     rpe_request_id = 3, rpe_owner_token = 9, rpe_endpoint = ''relay'', rpe_connection = Some 7,
     rpe_sent_at = 0, rpe_rtt_sample_eligible = True\<rparr>"

definition w_probe_ack_token :: relay_probe_token where
  "w_probe_ack_token = \<lparr>rp_kind = RelayProbeAck, rp_generation = 5, rp_request_id = 3, rp_owner_token = 9\<rparr>"

definition w_evidence :: relay_evidence where
  "w_evidence = \<lparr>ev_generation = 5, ev_session = 1, ev_wireguard = 2, ev_endpoint = ''relay'',
     ev_connection = Some 7, ev_received_at = 0\<rparr>"

definition w_asked :: "relay_op list" where
  "w_asked = [Op_Add_Peer ''n'' w_info w_verdict w_still,
     Op_Ready Uncontended ''n'' ''relay'' 5 7 w_still, Op_Register_Probe ''n'' w_expectation]"

definition w_relay_ack :: relay_op where
  "w_relay_ack = Op_Probe_Ack Uncontended Uncontended ''n'' w_probe_ack_token ''relay'' 7 2 w_still"

definition w_exchanged :: "relay_op list" where
  "w_exchanged = w_asked @ [w_relay_ack, Op_Business_Sent ''n'' 5 None None,
     Op_Evidence Uncontended 0 ''n'' w_evidence w_still]"

text \<open>The connection and the manager after each of the first steps.\<close>

definition w_c1 :: peer_connection where
  "w_c1 = published 5 1 False 0 (update_connection w_info w_verdict None)"

definition w_c2 :: peer_connection where
  "w_c2 = fst (commit_path_transition
     (RelayTransportReady (rc_new (current_epoch 5 1 w_c1) ''relay'' (Some 7)))
     (ready_effects ''relay'' 5 (Some 7) 0) w_c1)"

lemma w_c1_live: "live w_c1" "cn_online w_c1" "\<not> ready_is_current ''relay'' 5 (Some 7) w_c1"
    "cn_confirmed_at w_c1 = None"
  by code_simp+

lemma w_c2_ready: "live w_c2" "cn_ready_generation w_c2 = Some 5" "cn_ready_endpoint w_c2 = Some ''relay''"
    "cn_ready_connection w_c2 = Some 7"
  by code_simp+

lemma w_published_online: "cn_online (update_connection w_info w_verdict None)"
  by code_simp

definition w_st1 :: relay_manager where
  "w_st1 = (relay_manager_new 5)\<lparr>rm_connections := [''n'' \<mapsto> w_c1],
     rm_membership := \<lparr>mb_peers = [''n'' \<mapsto> \<lparr>me_session = 1, me_online = True\<rparr>], mb_next = 1\<rparr>\<rparr>"

lemma w_step1: "relay_step (relay_manager_new 5) (Op_Add_Peer ''n'' w_info w_verdict w_still) = w_st1"
  by (simp add: add_peer_def Let_def publish_lifecycle_eq publish_def relay_manager_new_def w_st1_def
      w_c1_def w_published_online rotates_session_def is_stale_registration_def w_info_def [THEN arg_cong, of in_online]
      w_info_def [THEN arg_cong, of in_registration_seq] w_verdict_def [THEN arg_cong, of lv_direct_first]
      w_verdict_def [THEN arg_cong, of lv_registration_floor]
      w_verdict_def [THEN arg_cong, of lv_identity_changed] w_still_def put_connection_def)

definition w_st2 :: relay_manager where "w_st2 = w_st1\<lparr>rm_connections := [''n'' \<mapsto> w_c2]\<rparr>"

lemma w_st1_fields:
  "rm_generation w_st1 = 5" "rm_deadlines w_st1 = Map.empty" "rm_connections w_st1 = [''n'' \<mapsto> w_c1]"
  "active_generation (rm_membership w_st1) ''n'' = Some 1" "rm_probes w_st1 = Map.empty"
  "rm_evidence w_st1 = []" "rm_confirm_seq w_st1 = Map.empty" "rm_commits w_st1 = Map.empty"
  by (simp_all add: w_st1_def relay_manager_new_def active_generation_def)

lemma w_calm:
  "rm_deadlines st = Map.empty \<Longrightarrow> check_quarantine node now st = st"
  "rm_deadlines st = Map.empty \<Longrightarrow> \<not> peer_quarantined st node now"
  by (simp_all add: check_quarantine_def peer_quarantined_def)

lemma w_step2: "relay_step w_st1 (Op_Ready Uncontended ''n'' ''relay'' 5 7 w_still) = w_st2"
  by (simp add: try_mark_relay_transport_ready_def w_calm w_st1_fields commit_ready_def w_c1_live
      commit_on_def case_prod_beta Let_def put_connection_def w_st2_def w_c2_def relay_id_current
      w_still_def)

definition w_st3 :: relay_manager where "w_st3 = w_st2\<lparr>rm_probes := [''n'' \<mapsto> w_expectation]\<rparr>"

lemma w_step3: "relay_step w_st2 (Op_Register_Probe ''n'' w_expectation) = w_st3"
  by (simp add: register_relay_probe_def w_st2_def w_st3_def w_st1_fields w_expectation_def
      session_is_current_def Let_def)

lemma w_asked_run: "relay_run (relay_manager_new 5) w_asked = w_st3"
  by (simp only: relay_run_def w_asked_def foldl.simps w_step1 w_step2 w_step3)

lemma w_st3_fields:
  "rm_generation w_st3 = 5" "rm_deadlines w_st3 = Map.empty" "rm_connections w_st3 = [''n'' \<mapsto> w_c2]"
  "active_generation (rm_membership w_st3) ''n'' = Some 1" "rm_probes w_st3 = [''n'' \<mapsto> w_expectation]"
  "rm_evidence w_st3 = []" "\<not> exhausted w_st3"
  by (simp_all add: w_st3_def w_st2_def w_st1_fields)
    (simp add: exhausted_def w_st1_def relay_manager_new_def)

lemma w_accepts: "relay_probe_accepts w_expectation w_probe_ack_token 0 ''relay''"
  "rpe_connection w_expectation = Some 7" "rpe_generation w_expectation = 5" "rpe_session w_expectation = 1"
  by (simp_all add: relay_probe_accepts_def relay_probe_matches_def relay_probe_fresh_def w_expectation_def
      w_probe_ack_token_def saturating_duration_since_def RELAY_PROBE_EXPECTATION_TTL_def)

theorem relay_acknowledgement_confirms_witness:
  "confirmed_relay (relay_step (relay_run (relay_manager_new 5) w_asked) w_relay_ack) ''n'' ''relay'' 5 (Some 7)"
proof -
  have st: "w_st3 = relay_run (relay_manager_new 5) w_asked" by (simp add: w_asked_run)
  have "confirmed_relay (relay_step w_st3 w_relay_ack) ''n'' ''relay'' (rm_generation w_st3) (Some 7)"
    unfolding w_relay_ack_def
    by (rule relay_acknowledgement_confirms [OF st, of "''n''" w_c2 w_expectation])
      (simp_all add: w_st3_fields w_c2_ready w_accepts session_is_current_def w_still_def)
  then show ?thesis by (simp add: w_asked_run w_st3_fields)
qed

text \<open>The acknowledgement, and the business that follows it.\<close>

definition w_relay_id :: "peer_connection \<Rightarrow> relay_connection_identity" where
  "w_relay_id conn = rc_new (current_epoch 5 1 conn) ''relay'' (Some 7)"

definition w_c3 :: peer_connection where
  "w_c3 = fst (commit_path_transition (RelayPeerConfirmed (w_relay_id w_c2))
     (confirm_effects ''relay'' 5 (Some 7) 0 False 0) w_c2)"

definition w_c4 :: peer_connection where
  "w_c4 = fst (commit_path_transition
     (RelayHealthObserved (w_relay_id w_c3) \<lparr>rh_owner_token = 9, rh_request_id = 3\<rparr>)
     (health (Health_Success_Latency 0)) w_c3)"

definition w_c5 :: peer_connection where
  "w_c5 = fst (commit_path_transition (RelayBusinessUsable (w_relay_id w_c4) Sent) (sent_effects 5) w_c4)"

definition w_c6 :: peer_connection where
  "w_c6 = fst (commit_path_transition (RelayBusinessUsable (w_relay_id w_c5) Received)
     (received_effects 5 0) w_c5)"

lemma w_c3_confirmed:
  "applies_side_effects (snd (commit_path_transition (RelayPeerConfirmed (w_relay_id w_c2))
     (confirm_effects ''relay'' 5 (Some 7) 0 False 0) w_c2))"
  "\<not> confirmed_on ''relay'' 5 (Some 7) w_c2" "live w_c3" "confirmed_on ''relay'' 5 (Some 7) w_c3"
  by code_simp+

lemma w_c4_confirmed:
  "accepted (snd (commit_path_transition
     (RelayHealthObserved (w_relay_id w_c3) \<lparr>rh_owner_token = 9, rh_request_id = 3\<rparr>)
     (health (Health_Success_Latency 0)) w_c3))"
  "live w_c4" "cn_confirmed_endpoint w_c4 = Some ''relay''" "cn_confirmed_at w_c4 = Some 0"
  "cn_confirmed_generation w_c4 = Some 5" "cn_confirmed_connection w_c4 = Some 7"
  "rf_sent (cn_first w_c4) = None"
  by code_simp+

lemma w_c6_exchanged: "rf_exchange (cn_first w_c6) = Some 5" "live w_c5" "confirmed_on ''relay'' 5 (Some 7) w_c5"
  by code_simp+

definition w_st4 :: relay_manager where
  "w_st4 = w_st3\<lparr>rm_connections := [''n'' \<mapsto> w_c4], rm_evidence := [], rm_probes := Map.empty,
     rm_confirm_seq := [''n'' \<mapsto> 1]\<rparr>"

lemma w_st3_seq: "rm_confirm_seq w_st3 = Map.empty"
  by (simp add: w_st3_def w_st2_def w_st1_fields)

lemma w_confirm_step:
  "confirm_relay_peer Uncontended ''n'' ''relay'' 5 (Some 7) (Some 1) (Some 2) w_still w_st3
     = (w_st3\<lparr>rm_connections := [''n'' \<mapsto> w_c3], rm_evidence := [], rm_confirm_seq := [''n'' \<mapsto> 1]\<rparr>, True)"
  using w_c3_confirmed(1) applies_side_effects_accepted [OF w_c3_confirmed(1)]
  by (simp add: confirm_relay_peer_def pending_evidence_for_lifecycle_def prune_evidence_def
      confirm_under_locks_def w_calm w_st3_fields w_st3_seq session_is_current_def w_c2_ready
      live_transport_mismatch_def commit_confirmation_def commit_on_def put_connection_def
      bump_confirm_seq_def relay_id_current w_c3_confirmed w_still_def case_prod_beta Let_def
      w_c3_def w_relay_id_def)

lemma w_step4: "relay_step w_st3 w_relay_ack = w_st4"
proof -
  let ?st = "w_st3\<lparr>rm_connections := [''n'' \<mapsto> w_c3], rm_evidence := [], rm_confirm_seq := [''n'' \<mapsto> 1]\<rparr>"
  have fields: "rpe_endpoint w_expectation = ''relay''" "rpe_rtt_sample_eligible w_expectation"
      "rpe_owner_token w_expectation = 9" "rpe_request_id w_expectation = 3" "rpe_sent_at w_expectation = 0"
    by (simp_all add: w_expectation_def)
  have ack: "accept_relay_probe_ack Uncontended ''n'' ''relay'' 5 (Some 7) 1
      \<lparr>rh_owner_token = 9, rh_request_id = 3\<rparr> (Some 0) ?st
      = (?st\<lparr>rm_connections := [''n'' \<mapsto> w_c4]\<rparr>, True)"
    using w_c4_confirmed(1)
    by (simp add: accept_relay_probe_ack_def w_st3_fields session_is_current_def w_c3_confirmed
        commit_on_def put_connection_def relay_id_current case_prod_beta Let_def w_c4_def w_relay_id_def)
  show ?thesis
    by (simp add: w_relay_ack_def consume_relay_probe_ack_def w_calm w_st3_fields w_accepts fields
        relay_probe_accepts_connection_def session_is_current_def ack
        w_confirm_step [unfolded w_still_def] saturating_duration_since_def w_still_def w_st4_def Let_def)
qed

lemma w_acked_run: "relay_run (relay_manager_new 5) (w_asked @ [w_relay_ack]) = w_st4"
  using w_asked_run by (simp only: relay_run_def foldl_append foldl.simps w_step4)

lemma w_st4_fields:
  "rm_generation w_st4 = 5" "rm_deadlines w_st4 = Map.empty" "rm_connections w_st4 = [''n'' \<mapsto> w_c4]"
  "active_generation (rm_membership w_st4) ''n'' = Some 1" "rm_evidence w_st4 = []" "\<not> exhausted w_st4"
  using w_st3_fields by (simp_all add: w_st4_def exhausted_def)

lemma w_st4_confirmed:
  "is_relay_peer_confirmed_for_generation w_st4 ''n'' 5" "confirmed_relay w_st4 ''n'' ''relay'' 5 (Some 7)"
  by (simp_all add: is_relay_peer_confirmed_for_generation_def confirmed_relay_def confirmed_on_def
      w_st4_fields w_c4_confirmed)

theorem relay_confirmation_sound_witness:
  "\<exists>conn session. rm_connections (relay_run (relay_manager_new 5) (w_asked @ [w_relay_ack])) ''n'' = Some conn
     \<and> ps_lifecycle (pm_state (cn_machine conn)) = Online
     \<and> session_is_current (relay_run (relay_manager_new 5) (w_asked @ [w_relay_ack])) ''n'' session"
  using relay_confirmation_sound [OF refl, of 5 "w_asked @ [w_relay_ack]" "''n''" 5]
  unfolding w_acked_run using w_st4_fields(6) w_st4_confirmed(1) by blast

theorem relay_confirmation_provenance_witness:
  "\<exists>e. rm_probes w_st3 ''n'' = Some e \<and> relay_probe_accepts e w_probe_ack_token 0 ''relay''"
proof -
  have "\<not> confirmed_relay w_st3 ''n'' ''relay'' 5 (Some 7)"
    by (simp add: confirmed_relay_def w_st3_fields w_c3_confirmed)
  moreover have "confirmed_relay (relay_step w_st3 w_relay_ack) ''n'' ''relay'' 5 (Some 7)"
    unfolding w_step4 by (rule w_st4_confirmed(2))
  ultimately show ?thesis
    using relay_confirmation_provenance [of w_st3 w_relay_ack "''n''" "''relay''" 5 "Some 7"]
    by (auto simp: w_relay_ack_def w_still_def)
qed

theorem relay_not_found_revokes_witness:
  "\<not> confirmed_relay (relay_step (relay_run (relay_manager_new 5) (w_asked @ [w_relay_ack]))
     (Op_Failure ''n'' ''peer_not_found'' ''404'' w_still)) ''n'' ''relay'' 5 (Some 7)"
proof -
  have st: "w_st4 = relay_run (relay_manager_new 5) (w_asked @ [w_relay_ack])" by (simp add: w_acked_run)
  have "session_is_current w_st4 ''n'' 1" by (simp add: session_is_current_def w_st4_fields)
  from relay_not_found_revokes [OF st w_st4_fields(6) this refl] show ?thesis by (simp add: w_acked_run)
qed


definition w_st5 :: relay_manager where "w_st5 = w_st4\<lparr>rm_connections := [''n'' \<mapsto> w_c5]\<rparr>"

lemma w_step5: "relay_step w_st4 (Op_Business_Sent ''n'' 5 None None) = w_st5"
  by (simp add: mark_relay_first_business_sent_def w_st4_fields w_c4_confirmed commit_on_def
      put_connection_def relay_id_current case_prod_beta Let_def w_st5_def w_c5_def w_relay_id_def)

lemma w_step6: "rm_connections (relay_step w_st5 (Op_Evidence Uncontended 0 ''n'' w_evidence w_still)) ''n''
    = Some w_c6 \<and> rm_generation (relay_step w_st5 (Op_Evidence Uncontended 0 ''n'' w_evidence w_still)) = 5
    \<and> mb_next (rm_membership (relay_step w_st5 (Op_Evidence Uncontended 0 ''n'' w_evidence w_still))) = 1"
proof -
  have fields: "ev_generation w_evidence = 5" "ev_session w_evidence = 1" "ev_endpoint w_evidence = ''relay''"
      "ev_connection w_evidence = Some 7" "ev_received_at w_evidence = 0"
    by (simp_all add: w_evidence_def)
  have st5: "rm_generation w_st5 = 5" "rm_deadlines w_st5 = Map.empty" "rm_connections w_st5 = [''n'' \<mapsto> w_c5]"
      "active_generation (rm_membership w_st5) ''n'' = Some 1" "rm_evidence w_st5 = []"
      "mb_next (rm_membership w_st5) = 1"
    using w_st4_fields by (simp_all add: w_st5_def) (simp add: w_st4_def w_st3_def w_st2_def w_st1_def)
  show ?thesis
    by (simp add: try_commit_relay_business_evidence_def evidence_for_current_lifecycle_def
        retain_pending_evidence_def retain_evidence_def prune_evidence_def commit_retained_evidence_def
        evidence_is_exact_def commit_received_def commit_on_def put_connection_def
        remove_evidence_if_exact_def relay_id_current session_is_current_def saturating_duration_since_def
        MAX_PENDING_RELAY_BUSINESS_EVIDENCE_def w_calm st5 fields w_c6_exchanged w_still_def case_prod_beta Let_def w_c6_def w_relay_id_def)
qed

theorem relay_exchange_has_both_directions_witness:
  "rf_sent (cn_first w_c6) = Some 5 \<and> rf_received (cn_first w_c6) = Some 5"
proof -
  let ?st = "relay_step w_st5 (Op_Evidence Uncontended 0 ''n'' w_evidence w_still)"
  have run: "?st = relay_run (relay_manager_new 5) w_exchanged"
    using w_acked_run
    by (simp only: w_exchanged_def relay_run_def append_assoc [symmetric] append.simps foldl_append
        foldl.simps w_step4 w_step5)
  have "\<not> exhausted ?st" using w_step6 by (simp add: exhausted_def del: relay_step.simps)
  from relay_exchange_has_both_directions [OF run this _ w_c6_exchanged(1), of "''n''"] w_step6
  show ?thesis by blast
qed

end
