(* ===== verification/Spec2Isabelle.thy ===== *)
theory Spec2Isabelle
  imports Path_Witnesses Pmtu_Witnesses Wg_Witnesses Data_Witnesses Relay_Props Relay_Ticket
    Nat_Witnesses Task_Witnesses Budget_Witnesses Mtu_Delivery Control_Wire_Props Relay_Witnesses
begin

text \<open>
  A verification development for the core of p2wlan, a peer-to-peer virtual network: every node
  runs a daemon (Rust, \<open>client/daemon\<close>) that reads IP packets from a TUN device, encrypts them
  with WireGuard sessions and sends them to the peer over a direct UDP path where one has been
  proved, over a relay otherwise. The theories model the logic that decides which packet goes
  where, under which key and over which path; sockets, timers, locks and the operating system
  are arguments.

  \<^bold>\<open>Parts and theories.\<close>

  \<^item> \<open>Prelude\<close>, \<open>Net\<close>, \<open>Utf8\<close>, \<open>Ip_Text\<close>: words and saturating arithmetic, the result monad,
    big-endian codecs (locale \<open>fixed_codec\<close>), event-driven machines (locales \<open>event_machine\<close>,
    \<open>monotone_machine\<close>, \<open>once_only\<close>, \<open>once_until\<close>), socket addresses, and the parts of the standard library the
    code compares texts with.
  \<^item> \<open>Path_Types\<close>, \<open>Path_Machine\<close>: the path state of a peer
    (\<open>client/daemon/src/peer/path_state_machine.rs\<close>). \<open>path_reduce\<close> computes a transition from a
    state and an event, \<open>commit_decision\<close> accepts it against the current revision. \<open>Path_Safety\<close>
    shows the invariant of every run, \<open>Path_Props\<close>, \<open>Path_Runs\<close> and \<open>Path_Service\<close> that stale
    events are rejected, that Direct becomes active only by the acknowledgement of the request in
    flight, that a Relay keeps the business through Direct attempts and that the epoch only grows.
  \<^item> \<open>Pmtu_Types\<close>, \<open>Pmtu_Machine\<close>: path-MTU discovery on a committed direct path
    (\<open>client/daemon/src/dplpmtud/state_machine.rs\<close> and its types). \<open>Pmtu_Safety\<close> and \<open>Pmtu_Props\<close>
    show its bounds and where a budget comes from, \<open>Pmtu_Search\<close> that the search ends at the
    largest size the path carries. \<open>Pmtu_Wire\<close> is the packet format of the probes
    (\<open>dplpmtud/wire.rs\<close>), \<open>Pmtu_Tunnel\<close> a probe on its way through a session.
  \<^item> \<open>Wg_Types\<close>, \<open>Wg_Session\<close>, \<open>Wg_Noise\<close>, \<open>Wg_Handshake\<close>: the messages, the transport session and
    the Noise IK handshake of \<open>client/wireguard/src\<close> over the primitives of \<open>client/crypto/src\<close>.
    \<open>Wg_Clock\<close> has its timestamps, \<open>Wg_Agree\<close> the agreement of two nodes and the tunnel between
    them, \<open>Wg_Floor\<close> the replay floors the daemon keeps across handshakes
    (\<open>client/daemon/src/lib/pending_handshake.rs\<close>; the branch of \<open>daemon/handshake/offer.rs\<close> for an
    offer that finds no cached response). A peer has one floor, which an offer under a new public
    key replaces: an initiation is refused a second time only until then.
  \<^item> \<open>Ip_Packet\<close>, \<open>Ip_Props\<close>: IPv4 and IPv6 packets and the Internet checksum (\<open>client/tun/src/packet\<close>).
  \<^item> \<open>Acl\<close>: the access-control rules (\<open>client/daemon/src/acl.rs\<close>). \<open>Rooms\<close>: the roster leases of a
    room and the permits of queued packets (\<open>client/daemon/src/rooms.rs\<close> and \<open>rooms/diagnostics.rs\<close>);
    the flags that snapshots and permits share are an explicit store. \<open>Dp_Source\<close>: the rewrite of
    source addresses (\<open>dataplane/normalization.rs\<close>). \<open>Dataplane\<close>, \<open>Dataplane_Props\<close>: the outbound and
    inbound handlers and the packet pump (\<open>dataplane/core.rs\<close>), which compose the three with the
    packet parser.
  \<^item> \<open>Relay_Frame\<close>, \<open>Relay_Props\<close>: the frames between a client and a relay
    (\<open>client/relay/src/protocol.rs\<close>, \<open>auth/frame.rs\<close>). \<open>Relay_Ticket\<close>: the checks on a relay ticket
    (\<open>auth/verifier.rs\<close>).
  \<^item> \<open>Punch_Packet\<close>, \<open>Stun\<close>, \<open>Stun_Props\<close>: the datagrams of NAT traversal, hole-punch probes with
    their message authentication code (\<open>client/nat/src/punch.rs\<close>, \<open>punch/\<close>) and STUN messages
    (\<open>client/nat/src/stun.rs\<close>, \<open>stun/\<close>): round trips, and no frame is accepted that its key did not
    seal.
  \<^item> \<open>Punch_Dedup\<close>, \<open>Punch_Dedup_Props\<close>: the scheduler of punch sessions
    (\<open>client/daemon/src/lib/punch_dedup.rs\<close>) with the permits its tasks hold: one live session per
    peer, preemption, protection until the first send. \<open>Hs_Start\<close>, \<open>Hs_Start_Props\<close>: the initiator
    side of \<open>client/daemon/src/lib/pending_handshake.rs\<close>, reservations, retries and the handover to
    another network.
  \<^item> \<open>Recovery\<close>: the budget ledger of a peer without a direct path
    (\<open>client/daemon/src/peer/manager/recovery_epoch.rs\<close>, the verdicts of \<open>outbound_liveness.rs\<close>).
    \<open>recovery_op\<close> lists its operations; \<open>Recovery_Props\<close> says what each does to an epoch,
    \<open>Recovery_Ledger\<close> bounds the probes of an allocation over any run, \<open>Recovery_Safety\<close> has the
    freeze, the stages, the confirmation tail and the lanes of fresh mappings.
  \<^item> \<open>Windows\<close>: sliding windows and the locale \<open>rate_limiter\<close>, the rate law of every limiter that
    prunes, compares and pushes. It is interpreted on the outbound probe budget (\<open>Probe_Budget\<close>,
    \<open>Probe_Budget_Props\<close>; \<open>client/daemon/src/udp/probe_budget.rs\<close>, \<open>admission.rs\<close>), on the budget
    of relay heartbeats (\<open>Heartbeat\<close>, \<open>Heartbeat_Props\<close>; the second half of the file), and on
    authenticated punches and maintainer probes (\<open>Admission\<close>, \<open>Admission_Props\<close>).
    \<open>Heartbeat_Service\<close> shows the fairness of the heartbeat roster.
  \<^item> \<open>Mtu_Feedback\<close>: the ICMP errors a node sends its own applications when a packet does not fit
    the direct path, and their limiter (\<open>client/daemon/src/business_mtu.rs\<close>). \<open>Mtu_Feedback_Props\<close>
    shows that they are well-formed answers, \<open>Mtu_Limiter\<close> the bounds of the limiter.
    \<open>Mtu_Delivery\<close> joins the publication, the bounded channel and the packet pump: each published
    packet is written to the device, counted in a lag report or waiting.
  \<^item> \<open>Control_Wire\<close>, \<open>Control_Wire_Props\<close>: the control packets inside the tunnel, their tokens and the
    classification of a decrypted packet (\<open>client/daemon/src/relay_probe.rs\<close>, \<open>path_commit.rs\<close>,
    \<open>transport/wire.rs\<close>). The three token protocols are interpretations of the locale
    \<open>framed_tokens\<close>; no packet is of two kinds and none of them is business traffic.
  \<^item> \<open>Relay_State\<close>, \<open>Relay_Confirm\<close>, \<open>Relay_Lifecycle\<close>: the confirmation of relay paths in the peer
    manager (\<open>client/daemon/src/peer/manager/relay/\<close>, \<open>quarantine.rs\<close>, \<open>peer/connection/core.rs\<close> and
    \<open>health.rs\<close>, the relay parts of \<open>peers/lifecycle.rs\<close> and \<open>incarnation_fencing.rs\<close>): the markers of
    a connection beside its path machine, readiness, acknowledgements, business evidence, relay 404
    and quarantine, transport loss, network generations, joining and leaving peers. \<open>Relay_Run\<close>
    makes every operation a step. \<open>Relay_Markers\<close>, \<open>Relay_Commit\<close>, \<open>Relay_Epochs\<close> and \<open>Relay_Inv\<close>
    carry the invariant that the markers agree with the machine through all of them
    (\<open>Relay_Inv\<close> interprets \<open>event_machine\<close>); \<open>Relay_Service\<close> draws what the data plane may rely on,
    \<open>Relay_Provenance\<close> where a confirmation comes from, \<open>Relay_Answers\<close> what an acknowledgement, a
    404 and a quarantine do.
  \<^item> \<open>Path_Witnesses\<close>, \<open>Pmtu_Witnesses\<close>, \<open>Wg_Witnesses\<close>, \<open>Data_Witnesses\<close>, \<open>Nat_Witnesses\<close>,
    \<open>Task_Witnesses\<close>, \<open>Budget_Witnesses\<close>, \<open>Mtu_Witnesses\<close>, \<open>Relay_Witnesses\<close>: every property with a
    hypothesis at a concrete input.

  \<^bold>\<open>Conventions.\<close> A struct is a record, an enum a datatype, an integer a word of its width; \<open>usize\<close>
  is \<open>nat\<close>. A method that mutates returns the new state. A \<open>Result\<close> is a sum with the error on the
  left. \<open>Instant::now()\<close> and random bytes are arguments, one for each place the code reads them. A
  handler that awaits takes what other tasks do meanwhile as a list of their operations. The order
  in which a hash map is iterated is an argument where the result depends on it. Strings
  are character lists where they are compared and byte lists where they are on the wire. Log
  output, metrics and poisoned locks are left out.

  \<^bold>\<open>Parameters.\<close> BLAKE2s, X25519 and ChaCha20-Poly1305 (record \<open>crypto\<close>, with the documented laws
  \<open>crypto_ok\<close>), the JWT and Ed25519 crates (\<open>ticket_crates\<close>), the broadcast channel between MTU
  feedback and packet pump (record \<open>broadcast\<close>, with its documented behaviour \<open>broadcast_ok\<close>),
  Unicode lower-casing and the display of an IPv6 address. Each property that assumes a law of one has a witness with a concrete
  instance.

  \<^bold>\<open>Bounds and fuel.\<close> The checksum property holds below 128 KiB, twice the largest IP packet: the
  32-bit sum cannot wrap there. The exchange of probes in \<open>Pmtu_Search\<close> runs on fuel; its claim
  gives the number of steps that is enough. The folding loops of the checksums are functions with
  a termination proof. Identifiers drawn from a 64-bit counter that is incremented without a check
  are distinct for runs of fewer than \<open>2 ^ 64\<close> operations; a property that needs it says so. The
  network generation saturates and the session counter stops at \<open>2 ^ 64 - 1\<close>: the properties of a
  relay run hold until one of them is \<open>exhausted\<close>.

  \<^bold>\<open>Granularity.\<close> A step is a critical section, or a stretch of a task without an await. Two
  methods differ: \<open>admit_authenticated_punch\<close> takes the lock of the rates and then that of the
  replay cache, which no other operation reads together, and is one step; a heartbeat reservation
  reads the clock just before its lock and is one step with it, so a rate property holds for steps
  whose clocks are in order. The peer tables and the ACL of a data plane are fixed over a run of
  the pump, its room is not.

  \<^bold>\<open>Not modelled.\<close> The asynchronous runtime (task spawning, channels beyond their order, the outer
  deadline of 100 ms around a probe admission), sockets and platform code; the mapping probes and
  the port prediction of \<open>client/nat\<close>, whose scores are floating-point numbers; the responder side of
  pending handshakes beyond its replay floors; the candidates, probe bindings and health scores of a
  connection; the workers around the modelled schedulers; the control-plane client; servers and apps in Go, Dart and Kotlin. The
  manifest lists them with the reason.
\<close>

end
